(* ===== verification/Prelude.thy ===== *)
theory Prelude
  imports Main "HOL-Library.Word" "HOL-Library.AList"
begin

text \<open>
  Shared vocabulary of the development: the machine integer types of the Rust code, byte
  strings, the list operations that \<open>iter().find\<close>, \<open>iter_mut().find\<close> and \<open>retain\<close> stand
  for, decimal printing and parsing of \<open>u32\<close>, hexadecimal text, little-endian encoding of integers, and the
  theorem collections that carry the component proofs.
\<close>

unbundle bit_operations_syntax

section \<open>Types\<close>

type_synonym u8 = "8 word"
type_synonym u16 = "16 word"
type_synonym u32 = "32 word"
type_synonym u64 = "64 word"
type_synonym bytes = "u8 list"

text \<open>
  Signed \<open>i32\<close> and \<open>i64\<close> values are modelled as \<^typ>\<open>int\<close> with the bounds written out where
  the code saturates or converts.
\<close>

definition i32_min :: int where "i32_min = - (2 ^ 31)"
definition i32_max :: int where "i32_max = 2 ^ 31 - 1"
definition i64_max :: int where "i64_max = 2 ^ 63 - 1"

text \<open>\<open>u64::cast_signed\<close>: two's complement reinterpretation, as a value is bound to a column.\<close>

definition cast_signed :: "u64 \<Rightarrow> int" where
  "cast_signed w = sint w"

text \<open>\<open>row.get::<u64>\<close>: reading a column as \<open>u64\<close> fails on a negative integer.\<close>

definition column_u64 :: "int \<Rightarrow> u64 option" where
  "column_u64 i = (if 0 \<le> i \<and> i \<le> i64_max then Some (word_of_int i) else None)"

text \<open>\<open>row.get::<u32>\<close>: reading a column as \<open>u32\<close> fails outside the range of \<open>u32\<close>.\<close>

definition column_u32 :: "int \<Rightarrow> u32 option" where
  "column_u32 i = (if 0 \<le> i \<and> i < 2 ^ 32 then Some (word_of_int i) else None)"

text \<open>\<open>u64::try_from(i64)\<close> with \<open>unwrap_or(0)\<close>, as the message queries read integer columns.\<close>

definition u64_or_zero :: "int \<Rightarrow> u64" where
  "u64_or_zero i = (if 0 \<le> i then word_of_int i else 0)"

text \<open>\<open>i64::try_from(u64)\<close> with \<open>unwrap_or(i64::MAX)\<close>.\<close>

definition i64_or_max :: "u64 \<Rightarrow> int" where
  "i64_or_max w = (if uint w \<le> i64_max then uint w else i64_max)"

named_theorems find_simps \<open>lookups after an update, a push or a retain\<close>
named_theorems frame_simps \<open>parts of a state an operation leaves alone\<close>
named_theorems table_simps \<open>effect of a SQL statement on a table\<close>

section \<open>Integer conversions\<close>

lemma unat_lt_pow: "unat (w :: 'a::len word) < 2 ^ LENGTH('a)"
  by (rule unsigned_less)

lemma column_u64_cast_signed:
  "uint w \<le> i64_max \<Longrightarrow> column_u64 (cast_signed w) = Some w"
proof -
  assume a: "uint w \<le> i64_max"
  have "- (2 ^ 63) \<le> uint w" by (rule order_trans [OF _ uint_ge_0]) simp
  moreover have "uint w < 2 ^ 63" using a by (simp add: i64_max_def)
  ultimately have "signed_take_bit 63 (uint w) = uint w"
    by (rule signed_take_bit_int_eq_self)
  then have s: "sint w = uint w" by (simp add: sint_uint)
  show ?thesis using a by (simp add: column_u64_def cast_signed_def s)
qed

lemma column_u32_uint: "column_u32 (uint (w :: u32)) = Some w"
  using uint_lt2p [of w] by (simp add: column_u32_def)

lemma u64_or_zero_uint: "u64_or_zero (uint w) = w"
  by (simp add: u64_or_zero_def)

lemma i64_or_max_small: "uint w \<le> i64_max \<Longrightarrow> i64_or_max w = uint w"
  by (simp add: i64_or_max_def)

lemma i64_or_max_bounds: "0 \<le> i64_or_max w \<and> i64_or_max w \<le> i64_max"
  by (simp add: i64_or_max_def i64_max_def)

section \<open>List operations of the code\<close>

text \<open>
  \<open>iter().find(P)\<close> is \<^const>\<open>List.find\<close>; \<open>iter_mut().find(P)\<close> followed by a mutation of the
  element found is \<open>update_first P f\<close>; \<open>retain(P)\<close> is \<^const>\<open>filter\<close>.
\<close>

fun update_first :: "('a \<Rightarrow> bool) \<Rightarrow> ('a \<Rightarrow> 'a) \<Rightarrow> 'a list \<Rightarrow> 'a list" where
  "update_first P f [] = []"
| "update_first P f (x # xs) = (if P x then f x # xs else x # update_first P f xs)"

lemma find_append [find_simps]:
  "List.find P (xs @ ys) = (case List.find P xs of None \<Rightarrow> List.find P ys | Some x \<Rightarrow> Some x)"
  by (induction xs) auto

lemma find_SomeD: "List.find P xs = Some x \<Longrightarrow> x \<in> set xs \<and> P x"
  by (induction xs) (auto split: if_splits)

lemma find_NoneD: "List.find P xs = None \<Longrightarrow> x \<in> set xs \<Longrightarrow> \<not> P x"
  by (induction xs) (auto split: if_splits)

lemma find_None_iff_all: "List.find P xs = None \<longleftrightarrow> (\<forall>x\<in>set xs. \<not> P x)"
  by (induction xs) auto

lemma list_ex_find: "list_ex P xs \<longleftrightarrow> List.find P xs \<noteq> None"
  by (induction xs) auto

lemma length_update_first [simp]: "length (update_first P f xs) = length xs"
  by (induction xs) auto

lemma update_first_Nil_iff [simp]: "update_first P f xs = [] \<longleftrightarrow> xs = []"
  by (cases xs) auto

lemma map_update_first_id [simp]:
  "(\<And>x. g (f x) = g x) \<Longrightarrow> map g (update_first P f xs) = map g xs"
  by (induction xs) auto

lemma set_update_firstD:
  "y \<in> set (update_first P f xs) \<Longrightarrow> y \<in> set xs \<or> (\<exists>x\<in>set xs. P x \<and> y = f x)"
  by (induction xs) (auto split: if_splits)

lemma set_update_first_find:
  "y \<in> set (update_first P f xs) \<Longrightarrow> y \<in> set xs \<or> (\<exists>x. List.find P xs = Some x \<and> y = f x)"
  by (induction xs) (auto split: if_splits)

lemma update_first_none: "List.find P xs = None \<Longrightarrow> update_first P f xs = xs"
  by (induction xs) (auto split: if_splits)

lemma find_key_update_first [find_simps]:
  assumes "\<And>x. k (f x) = k x"
  shows "List.find (\<lambda>x. k x = a) (update_first (\<lambda>x. k x = b) f xs) =
    (if a = b then map_option f (List.find (\<lambda>x. k x = a) xs)
     else List.find (\<lambda>x. k x = a) xs)"
  using assms by (induction xs) auto

lemma find_key_filter_neq [find_simps]:
  "List.find (\<lambda>x. k x = a) (filter (\<lambda>x. k x \<noteq> b) xs) =
    (if a = b then None else List.find (\<lambda>x. k x = a) xs)"
  by (induction xs) auto

lemma find_map_id [find_simps]:
  "(\<And>x. P (f x) = P x) \<Longrightarrow> List.find P (map f xs) = map_option f (List.find P xs)"
  by (induction xs) auto

lemma update_first_filter_distinct:
  assumes "distinct (map k xs)" and "\<And>x. k (f x) = k x"
  shows "update_first (\<lambda>x. k x = a) f xs = map (\<lambda>x. if k x = a then f x else x) xs"
  using assms
proof (induction xs)
  case Nil
  then show ?case by simp
next
  case (Cons x xs)
  show ?case
  proof (cases "k x = a")
    case True
    then have "\<forall>y\<in>set xs. k y \<noteq> a" using Cons.prems by (auto simp: rev_image_eqI)
    then have "map (\<lambda>x. if k x = a then f x else x) xs = xs"
      by (induction xs) auto
    with True show ?thesis by simp
  next
    case False
    with Cons show ?thesis by simp
  qed
qed

lemma distinct_map_filterI [intro]: "distinct (map f xs) \<Longrightarrow> distinct (map f (filter P xs))"
  by (induction xs) auto

lemma find_distinct_eq:
  assumes "distinct (map k xs)" and "x \<in> set xs"
  shows "List.find (\<lambda>y. k y = k x) xs = Some x"
  using assms by (induction xs) force+

lemma list_find_set: "List.find P xs \<noteq> None \<longleftrightarrow> (\<exists>x\<in>set xs. P x)"
  by (induction xs) auto

lemma bex_insert_guard: "(Q a \<or> (\<exists>i\<in>S. i \<noteq> a \<and> Q i)) = (\<exists>i\<in>insert a S. Q i)"
  by auto

section \<open>Hash maps\<close>

text \<open>
  A \<open>HashMap\<close> is an association list with distinct keys; the order of the list stands for the
  (unspecified) iteration order. \<open>get\<close> is \<^const>\<open>map_of\<close>, \<open>insert\<close> is \<^const>\<open>AList.update\<close>,
  \<open>remove\<close> is \<^const>\<open>AList.delete\<close>, and mutating through \<open>get_mut\<close> is \<^const>\<open>AList.map_entry\<close>.
\<close>

lemma map_of_map_entry [find_simps]:
  "map_of (AList.map_entry k f xs) a = (if a = k then map_option f (map_of xs a) else map_of xs a)"
  by (induction xs) auto

lemma map_of_update [find_simps]:
  "map_of (AList.update k v xs) a = (if a = k then Some v else map_of xs a)"
  by (simp add: AList.update_conv')

lemma map_of_delete [find_simps]:
  "map_of (AList.delete k xs) a = (if a = k then None else map_of xs a)"
  by (simp add: AList.delete_conv')

lemma keys_map_entry [simp]: "map fst (AList.map_entry k f xs) = map fst xs"
  by (induction xs) auto

section \<open>Decimal numbers\<close>

fun show_nat :: "nat \<Rightarrow> string" where
  "show_nat n = (if n < 10 then [char_of (48 + n)] else show_nat (n div 10) @ [char_of (48 + n mod 10)])"

declare show_nat.simps [simp del]

definition digit_val :: "char \<Rightarrow> nat option" where
  "digit_val c = (let n = (of_char c :: nat) in if 48 \<le> n \<and> n \<le> 57 then Some (n - 48) else None)"

text \<open>\<open>u32::from_str\<close>: an optional plus sign, at least one digit, an error on overflow.\<close>

fun parse_digits :: "nat \<Rightarrow> string \<Rightarrow> nat option" where
  "parse_digits acc [] = Some acc"
| "parse_digits acc (c # cs) =
     (case digit_val c of None \<Rightarrow> None
      | Some d \<Rightarrow> if acc * 10 + d < 2 ^ 32 then parse_digits (acc * 10 + d) cs else None)"

definition parse_u32 :: "string \<Rightarrow> u32 option" where
  "parse_u32 s =
     (let ds = (case s of [] \<Rightarrow> [] | c # cs \<Rightarrow> if c = CHR ''+'' then cs else s)
      in if ds = [] then None else map_option of_nat (parse_digits 0 ds))"

lemma digit_val_char_of: "d < 10 \<Longrightarrow> digit_val (char_of (48 + d)) = Some d"
  by (simp add: digit_val_def)

lemma show_nat_nonempty [simp]: "show_nat n \<noteq> []"
  by (subst show_nat.simps) simp

lemma parse_digits_append:
  "parse_digits acc (xs @ ys) =
    (case parse_digits acc xs of None \<Rightarrow> None | Some a \<Rightarrow> parse_digits a ys)"
  by (induction xs arbitrary: acc) (auto split: option.splits)

lemma parse_digits_show_nat: "n < 2 ^ 32 \<Longrightarrow> parse_digits 0 (show_nat n) = Some n"
proof (induction n rule: show_nat.induct)
  case (1 n)
  show ?case
  proof (cases "n < 10")
    case True
    then show ?thesis
      by (subst show_nat.simps) (simp add: digit_val_char_of)
  next
    case False
    have "parse_digits 0 (show_nat (n div 10)) = Some (n div 10)"
      using "1.IH" [OF False] "1.prems" by simp
    with False show ?thesis using "1.prems"
      by (subst show_nat.simps) (simp add: parse_digits_append digit_val_char_of)
  qed
qed

lemma hd_show_nat: "\<exists>d cs. d < (10 :: nat) \<and> show_nat n = char_of (48 + d) # cs"
proof (induction n rule: show_nat.induct)
  case (1 n)
  show ?case
  proof (cases "n < 10")
    case True
    then show ?thesis by (subst show_nat.simps) auto
  next
    case False
    then obtain d cs where "d < (10 :: nat)" and "show_nat (n div 10) = char_of (48 + d) # cs"
      using "1.IH" by blast
    with False show ?thesis by (subst show_nat.simps) auto
  qed
qed

lemma parse_u32_show_nat: "parse_u32 (show_nat (unat (w :: u32))) = Some w"
proof -
  obtain d cs where d: "d < (10 :: nat)" and s: "show_nat (unat w) = char_of (48 + d) # cs"
    using hd_show_nat by blast
  have "(of_char (char_of (48 + d) :: char) :: nat) \<noteq> of_char (CHR ''+'')"
    using d by simp
  then have "char_of (48 + d) \<noteq> CHR ''+''" by metis
  moreover have "parse_digits 0 (show_nat (unat w)) = Some (unat w)"
    using parse_digits_show_nat unat_lt_pow [of w] by simp
  ultimately show ?thesis
    by (simp add: parse_u32_def s)
qed

lemma show_nat_inject: "m < 2 ^ 32 \<Longrightarrow> n < 2 ^ 32 \<Longrightarrow> show_nat m = show_nat n \<longleftrightarrow> m = n"
  using parse_digits_show_nat by (metis option.inject)

section \<open>Hexadecimal text\<close>

fun hex_digit :: "nat \<Rightarrow> char" where
  "hex_digit n = char_of (if n < 10 then 48 + n else 87 + n)"

definition hex_encode :: "bytes \<Rightarrow> string" where
  "hex_encode bs = concat (map (\<lambda>b. [hex_digit (unat b div 16), hex_digit (unat b mod 16)]) bs)"

definition hex_value :: "char \<Rightarrow> nat option" where
  "hex_value c = (let n = (of_char c :: nat) in
     if 48 \<le> n \<and> n \<le> 57 then Some (n - 48)
     else if 97 \<le> n \<and> n \<le> 102 then Some (n - 87)
     else if 65 \<le> n \<and> n \<le> 70 then Some (n - 55) else None)"

text \<open>\<open>hex::decode\<close>: an error on an odd number of digits or on anything that is no digit.\<close>

fun hex_decode :: "string \<Rightarrow> bytes option" where
  "hex_decode [] = Some []"
| "hex_decode [c] = None"
| "hex_decode (c # d # s) =
     (case (hex_value c, hex_value d) of
        (Some h, Some l) \<Rightarrow> map_option (\<lambda>bs. of_nat (16 * h + l) # bs) (hex_decode s)
      | _ \<Rightarrow> None)"

lemma hex_value_digit: "n < 16 \<Longrightarrow> hex_value (hex_digit n) = Some n"
  by (simp add: hex_value_def)

lemma hex_encode_simps [simp]:
  "hex_encode [] = []"
  "hex_encode (b # bs) = hex_digit (unat b div 16) # hex_digit (unat b mod 16) # hex_encode bs"
  by (simp_all add: hex_encode_def del: hex_digit.simps)

lemma length_hex_encode [simp]: "length (hex_encode bs) = 2 * length bs"
  by (induction bs) simp_all

lemma hex_decode_encode: "hex_decode (hex_encode bs) = Some bs"
proof (induction bs)
  case (Cons b bs)
  have "unat b < 256" using unat_lt_pow [of b] by simp
  then have "unat b div 16 < 16" and "unat b mod 16 < 16" by simp_all
  then show ?case
    by (simp add: Cons.IH hex_value_digit del: hex_digit.simps)
qed simp

lemma hex_encode_inject: "hex_encode xs = hex_encode ys \<longleftrightarrow> xs = ys"
  using hex_decode_encode by (metis option.inject)

section \<open>Little-endian encoding\<close>

fun le_bytes :: "nat \<Rightarrow> nat \<Rightarrow> bytes" where
  "le_bytes 0 n = []"
| "le_bytes (Suc k) n = of_nat (n mod 256) # le_bytes k (n div 256)"

fun le_nat :: "bytes \<Rightarrow> nat" where
  "le_nat [] = 0"
| "le_nat (b # bs) = unat b + 256 * le_nat bs"

lemma length_le_bytes [simp]: "length (le_bytes k n) = k"
  by (induction k arbitrary: n) auto

lemma le_nat_le_bytes: "n < 256 ^ k \<Longrightarrow> le_nat (le_bytes k n) = n"
proof (induction k arbitrary: n)
  case 0
  then show ?case by simp
next
  case (Suc k)
  then have "n div 256 < 256 ^ k" by (simp add: less_mult_imp_div_less mult.commute)
  then have "le_nat (le_bytes k (n div 256)) = n div 256" by (rule Suc.IH)
  moreover have "unat (of_nat (n mod 256) :: u8) = n mod 256"
    by (simp add: unat_of_nat)
  ultimately show ?case by simp
qed

lemma le_nat_less: "le_nat bs < 256 ^ length bs"
proof (induction bs)
  case Nil
  then show ?case by simp
next
  case (Cons b bs)
  have "unat b < 256" using unat_lt_pow [of b] by simp
  with Cons show ?case by simp
qed

definition u64_le_bytes :: "u64 \<Rightarrow> bytes" where
  "u64_le_bytes w = le_bytes 8 (unat w)"

definition u32_le_bytes :: "u32 \<Rightarrow> bytes" where
  "u32_le_bytes w = le_bytes 4 (unat w)"

lemma length_u64_le_bytes [simp]: "length (u64_le_bytes w) = 8"
  by (simp add: u64_le_bytes_def)

lemma length_u32_le_bytes [simp]: "length (u32_le_bytes w) = 4"
  by (simp add: u32_le_bytes_def)

lemma u64_of_le_bytes: "of_nat (le_nat (u64_le_bytes w)) = w"
  using unat_lt_pow [of w] by (simp add: u64_le_bytes_def le_nat_le_bytes)

lemma le_nat_u32: "le_nat (u32_le_bytes w) = unat w"
  using unat_lt_pow [of w] by (simp add: u32_le_bytes_def le_nat_le_bytes)

lemma le_nat_u64: "le_nat (u64_le_bytes w) = unat w"
  using unat_lt_pow [of w] by (simp add: u64_le_bytes_def le_nat_le_bytes)

section \<open>Runs of a deterministic machine\<close>

text \<open>
  A component that handles one input after the other runs by \<open>fold step is\<close>. What relates every
  state to its successor and is reflexive and transitive relates the ends of every run; an
  invariant is the special case of implication.
\<close>

locale step_preorder =
  fixes step :: "'i \<Rightarrow> 's \<Rightarrow> 's"
    and rel :: "'s \<Rightarrow> 's \<Rightarrow> bool"
  assumes rel_refl: "rel s s"
    and rel_trans: "rel s t \<Longrightarrow> rel t u \<Longrightarrow> rel s u"
    and step_rel: "rel s (step i s)"
begin

lemma run_rel: "rel s (fold step is s)"
proof (induction "is" arbitrary: s)
  case Nil
  show ?case by (simp add: rel_refl)
next
  case (Cons i "is")
  show ?case using rel_trans [OF step_rel Cons.IH] by simp
qed

end

locale step_invariant =
  fixes step :: "'i \<Rightarrow> 's \<Rightarrow> 's"
    and inv :: "'s \<Rightarrow> bool"
  assumes step_inv: "inv s \<Longrightarrow> inv (step i s)"

sublocale step_invariant \<subseteq> step_preorder step "\<lambda>s t. inv s \<longrightarrow> inv t"
  by unfold_locales (auto intro: step_inv)

end
