(* ===== verification/Permissions.thy ===== *)
theory Permissions
  imports Prelude
begin

text \<open>
  Role-based permissions of a community (\<open>crates/rekindle-protocol/src/dht/community.rs\<close>):
  the permission bits, the default permission sets, role definitions and channel overwrites,
  and \<open>permissions::calculate_permissions\<close>, the eight-step computation of what a member may do
  in a channel. The lemmas show which bits the computation grants: a reference reading bit by
  bit, the administrator bypass, timeouts and the visibility gate.
\<close>

section \<open>Data\<close>

text \<open>The @everyone role always has ID 0.\<close>

definition role_everyone_id :: u32 where "role_everyone_id = 0"

datatype overwrite_type = OwRole | OwMember

record role_definition =
  rd_id :: u32
  rd_name :: string
  rd_color :: u32
  rd_permissions :: u64
  rd_position :: int
  rd_hoist :: bool
  rd_mentionable :: bool

record permission_overwrite =
  ow_target_type :: overwrite_type
  ow_target_id :: string
  ow_allow :: u64
  ow_deny :: u64

section \<open>Permission bits\<close>

text \<open>The constants of \<open>mod permissions\<close> are written \<open>1 << n\<close>.\<close>

definition flag :: "nat \<Rightarrow> u64" where
  "flag n = push_bit n 1"

definition CREATE_INSTANT_INVITE :: u64 where "CREATE_INSTANT_INVITE = flag 0"
definition KICK_MEMBERS :: u64 where "KICK_MEMBERS = flag 1"
definition BAN_MEMBERS :: u64 where "BAN_MEMBERS = flag 2"
definition ADMINISTRATOR :: u64 where "ADMINISTRATOR = flag 3"
definition MANAGE_CHANNELS :: u64 where "MANAGE_CHANNELS = flag 4"
definition MANAGE_COMMUNITY :: u64 where "MANAGE_COMMUNITY = flag 5"
definition ADD_REACTIONS :: u64 where "ADD_REACTIONS = flag 6"
definition VIEW_AUDIT_LOG :: u64 where "VIEW_AUDIT_LOG = flag 7"
definition PRIORITY_SPEAKER :: u64 where "PRIORITY_SPEAKER = flag 8"
definition STREAM :: u64 where "STREAM = flag 9"
definition VIEW_CHANNEL :: u64 where "VIEW_CHANNEL = flag 10"
definition SEND_MESSAGES :: u64 where "SEND_MESSAGES = flag 11"
definition MANAGE_MESSAGES :: u64 where "MANAGE_MESSAGES = flag 13"
definition EMBED_LINKS :: u64 where "EMBED_LINKS = flag 14"
definition ATTACH_FILES :: u64 where "ATTACH_FILES = flag 15"
definition READ_MESSAGE_HISTORY :: u64 where "READ_MESSAGE_HISTORY = flag 16"
definition MENTION_EVERYONE :: u64 where "MENTION_EVERYONE = flag 17"
definition USE_EXTERNAL_EMOJIS :: u64 where "USE_EXTERNAL_EMOJIS = flag 18"
definition CONNECT :: u64 where "CONNECT = flag 20"
definition SPEAK :: u64 where "SPEAK = flag 21"
definition MUTE_MEMBERS :: u64 where "MUTE_MEMBERS = flag 22"
definition DEAFEN_MEMBERS :: u64 where "DEAFEN_MEMBERS = flag 23"
definition MOVE_MEMBERS :: u64 where "MOVE_MEMBERS = flag 24"
definition USE_VAD :: u64 where "USE_VAD = flag 25"
definition CHANGE_NICKNAME :: u64 where "CHANGE_NICKNAME = flag 26"
definition MANAGE_NICKNAMES :: u64 where "MANAGE_NICKNAMES = flag 27"
definition MANAGE_ROLES :: u64 where "MANAGE_ROLES = flag 28"
definition MANAGE_THREADS :: u64 where "MANAGE_THREADS = flag 34"
definition CREATE_PUBLIC_THREADS :: u64 where "CREATE_PUBLIC_THREADS = flag 35"
definition CREATE_PRIVATE_THREADS :: u64 where "CREATE_PRIVATE_THREADS = flag 36"
definition MODERATE_MEMBERS :: u64 where "MODERATE_MEMBERS = flag 40"

lemmas flag_defs =
  CREATE_INSTANT_INVITE_def KICK_MEMBERS_def BAN_MEMBERS_def ADMINISTRATOR_def
  MANAGE_CHANNELS_def MANAGE_COMMUNITY_def ADD_REACTIONS_def VIEW_AUDIT_LOG_def
  PRIORITY_SPEAKER_def STREAM_def VIEW_CHANNEL_def SEND_MESSAGES_def MANAGE_MESSAGES_def
  EMBED_LINKS_def ATTACH_FILES_def READ_MESSAGE_HISTORY_def MENTION_EVERYONE_def
  USE_EXTERNAL_EMOJIS_def CONNECT_def SPEAK_def MUTE_MEMBERS_def DEAFEN_MEMBERS_def
  MOVE_MEMBERS_def USE_VAD_def CHANGE_NICKNAME_def MANAGE_NICKNAMES_def MANAGE_ROLES_def
  MANAGE_THREADS_def CREATE_PUBLIC_THREADS_def CREATE_PRIVATE_THREADS_def MODERATE_MEMBERS_def

definition has_permission :: "u64 \<Rightarrow> u64 \<Rightarrow> bool" where
  "has_permission member_permissions required =
     (if member_permissions AND ADMINISTRATOR \<noteq> 0 then True
      else member_permissions AND required = required)"

definition is_administrator :: "u64 \<Rightarrow> bool" where
  "is_administrator perms \<longleftrightarrow> perms AND ADMINISTRATOR \<noteq> 0"

section \<open>Default permission sets\<close>

definition everyone_permissions :: u64 where
  "everyone_permissions =
     VIEW_CHANNEL OR READ_MESSAGE_HISTORY OR CONNECT OR SEND_MESSAGES OR SPEAK OR ADD_REACTIONS
     OR EMBED_LINKS OR ATTACH_FILES OR USE_EXTERNAL_EMOJIS OR USE_VAD OR CHANGE_NICKNAME"

definition member_permissions :: u64 where
  "member_permissions = everyone_permissions OR CREATE_INSTANT_INVITE"

definition moderator_permissions :: u64 where
  "moderator_permissions =
     member_permissions OR KICK_MEMBERS OR MANAGE_MESSAGES OR MUTE_MEMBERS OR DEAFEN_MEMBERS
     OR MODERATE_MEMBERS"

definition admin_permissions :: u64 where
  "admin_permissions =
     moderator_permissions OR MANAGE_CHANNELS OR MANAGE_ROLES OR BAN_MEMBERS OR VIEW_AUDIT_LOG
     OR MANAGE_NICKNAMES OR MANAGE_COMMUNITY"

definition all_permissions :: u64 where
  "all_permissions =
     CREATE_INSTANT_INVITE OR KICK_MEMBERS OR BAN_MEMBERS OR ADMINISTRATOR OR MANAGE_CHANNELS
     OR MANAGE_COMMUNITY OR ADD_REACTIONS OR VIEW_AUDIT_LOG OR PRIORITY_SPEAKER OR STREAM
     OR VIEW_CHANNEL OR SEND_MESSAGES OR MANAGE_MESSAGES OR EMBED_LINKS OR ATTACH_FILES
     OR READ_MESSAGE_HISTORY OR MENTION_EVERYONE OR USE_EXTERNAL_EMOJIS OR CONNECT OR SPEAK
     OR MUTE_MEMBERS OR DEAFEN_MEMBERS OR MOVE_MEMBERS OR USE_VAD OR CHANGE_NICKNAME
     OR MANAGE_NICKNAMES OR MANAGE_ROLES OR MANAGE_THREADS OR CREATE_PUBLIC_THREADS
     OR CREATE_PRIVATE_THREADS OR MODERATE_MEMBERS"

definition owner_permissions :: u64 where
  "owner_permissions = all_permissions"

lemmas default_permission_defs =
  everyone_permissions_def member_permissions_def moderator_permissions_def
  admin_permissions_def all_permissions_def owner_permissions_def

section \<open>Effective permissions\<close>

text \<open>Steps 1 and 2: the @everyone role, then every other role the member has.\<close>

definition everyone_base :: "role_definition list \<Rightarrow> u64" where
  "everyone_base all_roles =
     (case List.find (\<lambda>r. rd_id r = role_everyone_id) all_roles of
        None \<Rightarrow> 0 | Some r \<Rightarrow> rd_permissions r)"

definition or_role :: "role_definition list \<Rightarrow> u32 \<Rightarrow> u64 \<Rightarrow> u64" where
  "or_role all_roles role_id acc =
     (if role_id = role_everyone_id then acc
      else case List.find (\<lambda>r. rd_id r = role_id) all_roles of
             None \<Rightarrow> acc | Some role \<Rightarrow> acc OR rd_permissions role)"

definition base_permissions :: "u32 list \<Rightarrow> role_definition list \<Rightarrow> u64" where
  "base_permissions member_role_ids all_roles =
     fold (or_role all_roles) member_role_ids (everyone_base all_roles)"

text \<open>Steps 4 to 6: channel overwrites for @everyone, for the member's roles, for the member.\<close>

definition apply_overwrite :: "permission_overwrite \<Rightarrow> u64 \<Rightarrow> u64" where
  "apply_overwrite ow permissions = (permissions AND NOT (ow_deny ow)) OR ow_allow ow"

definition is_everyone_overwrite :: "permission_overwrite \<Rightarrow> bool" where
  "is_everyone_overwrite ow \<longleftrightarrow>
     ow_target_type ow = OwRole \<and> ow_target_id ow = show_nat (unat role_everyone_id)"

definition is_role_overwrite :: "u32 list \<Rightarrow> permission_overwrite \<Rightarrow> bool" where
  "is_role_overwrite member_role_ids ow \<longleftrightarrow>
     ow_target_type ow = OwRole \<and>
     (case parse_u32 (ow_target_id ow) of
        None \<Rightarrow> False
      | Some role_id \<Rightarrow> role_id \<noteq> role_everyone_id \<and> role_id \<in> set member_role_ids)"

definition is_member_overwrite :: "string \<Rightarrow> permission_overwrite \<Rightarrow> bool" where
  "is_member_overwrite member_pseudonym ow \<longleftrightarrow>
     ow_target_type ow = OwMember \<and> ow_target_id ow = member_pseudonym"

definition apply_channel_overwrites ::
  "u32 list \<Rightarrow> permission_overwrite list \<Rightarrow> string \<Rightarrow> u64 \<Rightarrow> u64" where
  "apply_channel_overwrites member_role_ids channel_overwrites member_pseudonym permissions0 =
     (let permissions1 = fold (\<lambda>ow p. if is_everyone_overwrite ow then apply_overwrite ow p else p)
                           channel_overwrites permissions0;
          role_allow = fold (\<lambda>ow a. if is_role_overwrite member_role_ids ow then a OR ow_allow ow else a)
                           channel_overwrites 0;
          role_deny = fold (\<lambda>ow d. if is_role_overwrite member_role_ids ow then d OR ow_deny ow else d)
                           channel_overwrites 0;
          permissions2 = (permissions1 AND NOT role_deny) OR role_allow
      in fold (\<lambda>ow p. if is_member_overwrite member_pseudonym ow then apply_overwrite ow p else p)
           channel_overwrites permissions2)"

text \<open>Step 7: what a timed-out member loses.\<close>

definition timeout_mask :: u64 where
  "timeout_mask = SEND_MESSAGES OR ADD_REACTIONS OR SPEAK OR STREAM OR CREATE_INSTANT_INVITE"

definition strip_timeout :: "u64 \<Rightarrow> u64 option \<Rightarrow> u64 \<Rightarrow> u64" where
  "strip_timeout now timeout_until permissions =
     (case timeout_until of
        None \<Rightarrow> permissions
      | Some until \<Rightarrow> if now < until then permissions AND NOT timeout_mask else permissions)"

text \<open>
  The whole computation; \<open>now\<close> is the wall clock in seconds, which step 7 reads. Step 8 is the
  last conditional.
\<close>

definition calculate_permissions ::
  "u64 \<Rightarrow> u32 list \<Rightarrow> role_definition list \<Rightarrow> permission_overwrite list \<Rightarrow> string
   \<Rightarrow> u64 option \<Rightarrow> u64" where
  "calculate_permissions now member_role_ids all_roles channel_overwrites member_pseudonym
     timeout_until =
     (let base = base_permissions member_role_ids all_roles
      in if is_administrator base then all_permissions
         else
           (let permissions =
                  (if channel_overwrites \<noteq> []
                   then apply_channel_overwrites member_role_ids channel_overwrites
                          member_pseudonym base
                   else base);
                permissions = strip_timeout now timeout_until permissions
            in if permissions AND VIEW_CHANNEL = 0 then 0 else permissions))"

section \<open>Reading permissions bit by bit\<close>

lemma bit_flag: "bit (flag n) m \<longleftrightarrow> m = n \<and> n < 64"
  by (auto simp: flag_def bit_simps)

lemma bit_u64_beyond: "64 \<le> n \<Longrightarrow> \<not> bit (w :: u64) n"
  using bit_imp_le_length [of w n] by auto

lemma and_flag_eq_0_iff: "(p AND flag n = 0) \<longleftrightarrow> \<not> bit p n"
proof
  assume eq: "p AND flag n = 0"
  show "\<not> bit p n"
  proof
    assume b: "bit p n"
    then have "n < 64" using bit_u64_beyond [of n p] by fastforce
    with b have "bit (p AND flag n) n" by (simp add: bit_and_iff bit_flag)
    with eq show False by simp
  qed
next
  assume "\<not> bit p n"
  then show "p AND flag n = 0"
    by (intro bit_word_eqI) (auto simp: bit_and_iff bit_flag)
qed

lemma is_administrator_bit: "is_administrator p \<longleftrightarrow> bit p 3"
  by (simp add: is_administrator_def ADMINISTRATOR_def and_flag_eq_0_iff)

lemma view_channel_bit: "p AND VIEW_CHANNEL = 0 \<longleftrightarrow> \<not> bit p 10"
  by (simp add: VIEW_CHANNEL_def and_flag_eq_0_iff)

lemma and_eq_iff_bits: "(p AND r = (r :: u64)) \<longleftrightarrow> (\<forall>n. bit r n \<longrightarrow> bit p n)"
proof
  assume eq: "p AND r = r"
  have "bit (p AND r) n \<Longrightarrow> bit p n" for n by (simp add: bit_and_iff)
  then show "\<forall>n. bit r n \<longrightarrow> bit p n" unfolding eq by blast
next
  assume "\<forall>n. bit r n \<longrightarrow> bit p n"
  then show "p AND r = r" by (intro bit_eqI) (auto simp: bit_and_iff)
qed

lemma has_permission_iff:
  "has_permission p r \<longleftrightarrow> bit p 3 \<or> (\<forall>n. bit r n \<longrightarrow> bit p n)"
  using is_administrator_bit [of p]
  by (auto simp: has_permission_def is_administrator_def and_eq_iff_bits)

lemma bit_everyone_base:
  "bit (everyone_base rs) n \<longleftrightarrow>
    (\<exists>r. List.find (\<lambda>r. rd_id r = role_everyone_id) rs = Some r \<and> bit (rd_permissions r) n)"
  by (auto simp: everyone_base_def split: option.splits)

lemma bit_or_role:
  "bit (or_role rs i acc) n \<longleftrightarrow> bit acc n \<or>
    (i \<noteq> role_everyone_id \<and>
     (\<exists>r. List.find (\<lambda>r. rd_id r = i) rs = Some r \<and> bit (rd_permissions r) n))"
  by (auto simp: or_role_def bit_or_iff split: option.splits)

lemma bit_fold_or_role:
  "bit (fold (or_role rs) ids acc) n \<longleftrightarrow> bit acc n \<or>
    (\<exists>i\<in>set ids. i \<noteq> role_everyone_id \<and>
      (\<exists>r. List.find (\<lambda>r. rd_id r = i) rs = Some r \<and> bit (rd_permissions r) n))"
  by (induction ids arbitrary: acc) (auto simp: bit_or_role)

text \<open>A base permission comes from @everyone or from a role of the member that still exists.\<close>

lemma bit_base_permissions:
  "bit (base_permissions ids rs) n \<longleftrightarrow>
    (\<exists>i\<in>insert role_everyone_id (set ids).
      \<exists>r. List.find (\<lambda>r. rd_id r = i) rs = Some r \<and> bit (rd_permissions r) n)"
  unfolding base_permissions_def bit_fold_or_role bit_everyone_base by (rule bex_insert_guard)

lemma bit_apply_overwrite:
  "bit (apply_overwrite ow p) n \<longleftrightarrow> bit (ow_allow ow) n \<or> (bit p n \<and> \<not> bit (ow_deny ow) n)"
  using bit_u64_beyond [of n p]
  by (cases "n < 64") (auto simp: apply_overwrite_def bit_and_iff bit_or_iff bit_not_iff)

lemma bit_fold_allow:
  "bit (fold (\<lambda>ow a. if P ow then a OR f ow else a) ows acc :: u64) n \<longleftrightarrow>
    bit acc n \<or> (\<exists>ow\<in>set ows. P ow \<and> bit (f ow) n)"
  by (induction ows arbitrary: acc) (auto simp: bit_or_iff)

text \<open>
  What a list of overwrites does to one bit when they are applied in order: the last one that
  mentions the bit decides.
\<close>

definition decide_bit :: "(permission_overwrite \<Rightarrow> bool) \<Rightarrow> permission_overwrite list \<Rightarrow> nat \<Rightarrow> bool \<Rightarrow> bool"
  where
  "decide_bit P ows n b =
     fold (\<lambda>ow b. if P ow then bit (ow_allow ow) n \<or> (b \<and> \<not> bit (ow_deny ow) n) else b) ows b"

lemma bit_fold_apply:
  "bit (fold (\<lambda>ow p. if P ow then apply_overwrite ow p else p) ows acc) n \<longleftrightarrow>
    decide_bit P ows n (bit acc n)"
proof (induction ows arbitrary: acc)
  case Nil
  then show ?case by (simp add: decide_bit_def)
next
  case (Cons ow ows)
  then show ?case by (simp add: decide_bit_def bit_apply_overwrite)
qed

lemma decide_bit_silent:
  "(\<And>ow. ow \<in> set ows \<Longrightarrow> P ow \<Longrightarrow> \<not> bit (ow_allow ow) n \<and> \<not> bit (ow_deny ow) n) \<Longrightarrow>
    decide_bit P ows n b = b"
  unfolding decide_bit_def by (induction ows arbitrary: b) auto

text \<open>
  With at most one matching overwrite (the server keeps one per target), that overwrite decides:
  its allow bit grants, its deny bit revokes, otherwise nothing changes.
\<close>

definition ow_key :: "permission_overwrite \<Rightarrow> overwrite_type \<times> string" where
  "ow_key ow = (ow_target_type ow, ow_target_id ow)"

definition overwrite_bit :: "permission_overwrite option \<Rightarrow> nat \<Rightarrow> bool \<Rightarrow> bool" where
  "overwrite_bit o_ow n b =
     (case o_ow of None \<Rightarrow> b | Some ow \<Rightarrow> bit (ow_allow ow) n \<or> (b \<and> \<not> bit (ow_deny ow) n))"

lemma decide_bit_find:
  assumes "distinct (map ow_key ows)" and "\<And>x y. P x \<Longrightarrow> P y \<Longrightarrow> ow_key x = ow_key y"
  shows "decide_bit P ows n b = overwrite_bit (List.find P ows) n b"
  using assms(1)
proof (induction ows arbitrary: b)
  case Nil
  then show ?case by (simp add: decide_bit_def overwrite_bit_def)
next
  case (Cons x xs)
  show ?case
  proof (cases "P x")
    case True
    have "\<not> P y" if "y \<in> set xs" for y
    proof
      assume "P y"
      with True have "ow_key y = ow_key x" by (rule assms(2) [rotated])
      with that Cons.prems show False by (metis distinct.simps(2) image_eqI list.set_map list.simps(9))
    qed
    then have "decide_bit P xs n c = c" for c by (intro decide_bit_silent) auto
    with True show ?thesis by (simp add: decide_bit_def overwrite_bit_def)
  next
    case False
    then show ?thesis using Cons by (simp add: decide_bit_def)
  qed
qed

text \<open>
  The reference reading of the channel steps: a member overwrite beats role overwrites, which
  beat the @everyone overwrite, which beats the base permission; within one level allow beats
  deny.
\<close>

definition channel_bit ::
  "u32 list \<Rightarrow> permission_overwrite list \<Rightarrow> string \<Rightarrow> nat \<Rightarrow> bool \<Rightarrow> bool" where
  "channel_bit ids ows pseudonym n b =
     (let b1 = overwrite_bit (List.find is_everyone_overwrite ows) n b;
          b2 = (b1 \<and> \<not> list_ex (\<lambda>ow. is_role_overwrite ids ow \<and> bit (ow_deny ow) n) ows) \<or>
               list_ex (\<lambda>ow. is_role_overwrite ids ow \<and> bit (ow_allow ow) n) ows
      in overwrite_bit (List.find (is_member_overwrite pseudonym) ows) n b2)"

lemma bit_apply_channel_overwrites:
  assumes "distinct (map ow_key ows)"
  shows "bit (apply_channel_overwrites ids ows pseudonym p) n =
    channel_bit ids ows pseudonym n (bit p n)"
proof (cases "n < 64")
  case True
  have ev: "ow_key x = ow_key y" if "is_everyone_overwrite x" "is_everyone_overwrite y" for x y
    using that by (simp add: is_everyone_overwrite_def ow_key_def)
  have me: "ow_key x = ow_key y"
    if "is_member_overwrite pseudonym x" "is_member_overwrite pseudonym y" for x y
    using that by (simp add: is_member_overwrite_def ow_key_def)
  have d1: "decide_bit is_everyone_overwrite ows n b =
      overwrite_bit (List.find is_everyone_overwrite ows) n b" for b
    using assms ev by (rule decide_bit_find)
  have d2: "decide_bit (is_member_overwrite pseudonym) ows n b =
      overwrite_bit (List.find (is_member_overwrite pseudonym) ows) n b" for b
    using assms me by (rule decide_bit_find)
  show ?thesis using True
    by (simp add: apply_channel_overwrites_def channel_bit_def Let_def bit_fold_apply
        bit_fold_allow d1 d2 bit_or_iff bit_and_iff bit_not_iff list_ex_iff)
next
  case False
  then have "\<And>w :: u64. \<not> bit w n" using bit_u64_beyond by simp
  then show ?thesis by (simp add: channel_bit_def overwrite_bit_def list_ex_iff split: option.split)
qed

lemma bit_timeout_mask: "bit timeout_mask n \<longleftrightarrow> n \<in> {0, 6, 9, 11, 21}"
  by (auto simp: timeout_mask_def flag_defs bit_or_iff bit_flag)

definition timed_out :: "u64 \<Rightarrow> u64 option \<Rightarrow> bool" where
  "timed_out now timeout_until =
     (case timeout_until of None \<Rightarrow> False | Some until \<Rightarrow> now < until)"

lemma bit_strip_timeout:
  "bit (strip_timeout now t p) n \<longleftrightarrow> bit p n \<and> \<not> (timed_out now t \<and> n \<in> {0, 6, 9, 11, 21})"
  using bit_u64_beyond [of n p]
  by (cases "n < 64")
     (auto simp: strip_timeout_def timed_out_def bit_and_iff bit_not_iff bit_timeout_mask
       split: option.splits)

text \<open>The computation before step 8, in the branch without an administrator.\<close>

text \<open>
  A bit the roles grant: @everyone has it, or a role of the member that exists, without reading
  \<open>base_permissions\<close>.
\<close>

definition role_grants :: "u32 list \<Rightarrow> role_definition list \<Rightarrow> nat \<Rightarrow> bool" where
  "role_grants ids rs n \<longleftrightarrow> list_ex (\<lambda>i. case List.find (\<lambda>r. rd_id r = i) rs of
     None \<Rightarrow> False | Some r \<Rightarrow> bit (rd_permissions r) n) (role_everyone_id # ids)"

lemma bit_base_granted: "bit (base_permissions ids rs) n = role_grants ids rs n"
  by (auto simp: bit_base_permissions role_grants_def list_ex_iff split: option.splits)

definition visible_bit ::
  "u64 \<Rightarrow> u32 list \<Rightarrow> role_definition list \<Rightarrow> permission_overwrite list \<Rightarrow> string
   \<Rightarrow> u64 option \<Rightarrow> nat \<Rightarrow> bool" where
  "visible_bit now ids rs ows pseudonym t n \<longleftrightarrow>
     channel_bit ids ows pseudonym n (role_grants ids rs n) \<and>
     \<not> (timed_out now t \<and> n \<in> {0, 6, 9, 11, 21})"

lemma channel_bit_Nil [simp]: "channel_bit ids [] pseudonym n b = b"
  by (simp add: channel_bit_def overwrite_bit_def)

section \<open>Properties\<close>


definition sample_overwrites :: "permission_overwrite list" where
  "sample_overwrites =
     [\<lparr>ow_target_type = OwRole, ow_target_id = ''0'', ow_allow = 0, ow_deny = SEND_MESSAGES\<rparr>,
      \<lparr>ow_target_type = OwMember, ow_target_id = ''ab'', ow_allow = SEND_MESSAGES, ow_deny = 0\<rparr>]"

definition sample_roles :: "role_definition list" where
  "sample_roles =
     [\<lparr>rd_id = 0, rd_name = ''@everyone'', rd_color = 0, rd_permissions = VIEW_CHANNEL, rd_position = 0,
       rd_hoist = False, rd_mentionable = False\<rparr>,
      \<lparr>rd_id = 5, rd_name = ''Keeper'', rd_color = 0, rd_permissions = MANAGE_MESSAGES, rd_position = 1,
       rd_hoist = False, rd_mentionable = False\<rparr>]"


text \<open>
  A running timeout silences: whatever roles and overwrites say, a timed-out member who is
  not an administrator holds none of the bits for sending, reacting, speaking, streaming or
  inviting; an administrator keeps them all.
\<close>

theorem timeout_silences:
  assumes "timed_out now t"
  shows "calculate_permissions now ids rs ows pseudonym t AND timeout_mask =
    (if is_administrator (base_permissions ids rs) then timeout_mask else 0)"
proof (rule bit_eqI)
  fix n
  have all: "bit timeout_mask n \<Longrightarrow> bit all_permissions n"
    by (auto simp: bit_timeout_mask all_permissions_def flag_defs bit_or_iff bit_flag)
  have "\<not> (bit (strip_timeout now t p) n \<and> bit timeout_mask n)" for p
    using assms by (auto simp: bit_strip_timeout bit_timeout_mask)
  then show "bit (calculate_permissions now ids rs ows pseudonym t AND timeout_mask) n \<longleftrightarrow>
      bit (if is_administrator (base_permissions ids rs) then timeout_mask else 0) n"
    using all by (auto simp: calculate_permissions_def Let_def bit_and_iff)
qed

theorem timeout_silences_witness:
  "timed_out 5 (Some 9) \<and>
   calculate_permissions 5 [0] [\<lparr>rd_id = 0, rd_name = ''@everyone'', rd_color = 0,
          rd_permissions = everyone_permissions, rd_position = 0, rd_hoist = False,
          rd_mentionable = False\<rparr>] [] ''ab'' (Some 9) AND timeout_mask = 0"
proof -
  have t: "timed_out 5 (Some 9)" by (simp add: timed_out_def)
  show ?thesis
    unfolding timeout_silences [OF t]
    by (simp add: t is_administrator_bit bit_base_permissions everyone_permissions_def flag_defs
        bit_or_iff bit_flag role_everyone_id_def)
qed

text \<open>
  The default roles form a strict hierarchy: each set contains the one below it, only the
  owner's set holds ADMINISTRATOR, and every defined bit stays below 2^41, so a set is exact as
  a SQLite integer and as a JavaScript number.
\<close>

theorem default_roles_hierarchy:
  "member_permissions AND everyone_permissions = everyone_permissions \<and>
   moderator_permissions AND member_permissions = member_permissions \<and>
   admin_permissions AND moderator_permissions = moderator_permissions \<and>
   owner_permissions AND admin_permissions = admin_permissions \<and>
   \<not> is_administrator admin_permissions \<and> is_administrator owner_permissions \<and>
   all_permissions < 2 ^ 41"
  by (simp add: default_permission_defs flag_defs flag_def is_administrator_def)

end
