(* ===== verification/Wire.thy ===== *)
theory Wire
  imports Permissions
begin

text \<open>
  The community RPC protocol (\<open>crates/rekindle-protocol/src/messaging/envelope.rs\<close>): requests of
  members, responses of the server, and the broadcasts it sends to members. Requests and
  responses cross the wire as JSON; the model works on the decoded values.
\<close>

record role_dto =
  rdto_id :: u32
  rdto_name :: string
  rdto_color :: u32
  rdto_permissions :: u64
  rdto_position :: int
  rdto_hoist :: bool
  rdto_mentionable :: bool

record banned_member_dto =
  bdto_pseudonym_key :: string
  bdto_display_name :: string
  bdto_banned_at :: u64

record channel_message_dto =
  mdto_sender_pseudonym :: string
  mdto_ciphertext :: bytes
  mdto_mek_generation :: u64
  mdto_timestamp :: u64

record channel_info_dto =
  cdto_id :: string
  cdto_name :: string
  cdto_channel_type :: string

text \<open>
  \<open>CommunityRequest\<close>; the fields are positional, in the order of the enum. \<open>Join\<close> carries the
  claimed pseudonym key, the invite code, the display name, the prekey bundle and the route blob.
\<close>

datatype community_request =
    Join string "string option" string bytes "bytes option"
  | SendMessage string bytes u64
  | GetMessages string "u64 option" u32
  | RequestMEK
  | Leave
  | Kick string
  | CreateChannel string string
  | DeleteChannel string
  | RotateMEK
  | RenameChannel string string
  | UpdateCommunity "string option" "string option"
  | Ban string
  | Unban string
  | GetBanList
  | CreateRole string u32 u64 bool bool
  | EditRole u32 "string option" "u32 option" "u64 option" "int option" "bool option" "bool option"
  | DeleteRole u32
  | AssignRole string u32
  | UnassignRole string u32
  | SetChannelOverwrite string string string u64 u64
  | DeleteChannelOverwrite string string string
  | TimeoutMember string u64 "string option"
  | RemoveTimeout string
  | GetRoles

text \<open>\<open>CommunityResponse\<close>; \<open>Joined\<close> and \<open>MEK\<close> carry key material.\<close>

datatype community_response =
    ResOk
  | Joined bytes u64 "channel_info_dto list" "u32 list" "role_dto list"
  | Messages "channel_message_dto list"
  | MEK bytes u64
  | ChannelCreated string
  | CommunityUpdated
  | BanList "banned_member_dto list"
  | RoleCreated u32
  | RolesList "role_dto list"
  | ResError nat string

text \<open>\<open>CommunityBroadcast\<close>; the first field is the community id.\<close>

datatype community_broadcast =
    NewMessage string string string bytes u64 u64
  | MEKRotated string u64
  | MemberJoined string string string "u32 list"
  | MemberRemoved string string
  | RolesChanged string "role_dto list"
  | MemberRolesChanged string string "u32 list"
  | MemberTimedOut string string "u64 option"
  | ChannelOverwriteChanged string string

fun is_error :: "community_response \<Rightarrow> bool" where
  "is_error (ResError c m) = True"
| "is_error _ = False"

text \<open>The responses that hand out key bytes.\<close>

fun reveals_key :: "community_response \<Rightarrow> bool" where
  "reveals_key (Joined b g cs ids rs) = True"
| "reveals_key (MEK b g) = True"
| "reveals_key _ = False"

text \<open>Does a broadcast come from the community it names?\<close>

fun broadcast_community :: "community_broadcast \<Rightarrow> string" where
  "broadcast_community (NewMessage c _ _ _ _ _) = c"
| "broadcast_community (MEKRotated c _) = c"
| "broadcast_community (MemberJoined c _ _ _) = c"
| "broadcast_community (MemberRemoved c _) = c"
| "broadcast_community (RolesChanged c _) = c"
| "broadcast_community (MemberRolesChanged c _ _) = c"
| "broadcast_community (MemberTimedOut c _ _) = c"
| "broadcast_community (ChannelOverwriteChanged c _) = c"

section \<open>Media keys\<close>

text \<open>
  The media encryption key of a community (\<open>crates/rekindle-crypto/src/group/media_key.rs\<close>), which
  the server makes and its members hold, and the form in which it crosses the wire.
\<close>

record media_encryption_key =
  mek_key :: bytes
  mek_generation :: u64

text \<open>The payload of a \<open>Joined\<close> or \<open>MEK\<close> response: the generation, then the key bytes.\<close>

definition mek_payload :: "media_encryption_key \<Rightarrow> bytes" where
  "mek_payload mek = u64_le_bytes (mek_generation mek) @ mek_key mek"

end
