(* ===== verification/SqlTables.thy ===== *)
theory SqlTables
  imports Prelude
begin

text \<open>
  Tables of a SQLite database as lists of rows in insertion order, and the effect of the forms of
  statements that the server and the client execute. Primary keys are functions of a row.
\<close>

section \<open>Tables with a primary key\<close>

definition row_exists :: "('r \<Rightarrow> 'k) \<Rightarrow> 'k \<Rightarrow> 'r list \<Rightarrow> bool" where
  "row_exists pk k t = list_ex (\<lambda>r. pk r = k) t"

definition row_insert :: "('r \<Rightarrow> 'k) \<Rightarrow> 'r \<Rightarrow> 'r list \<Rightarrow> 'r list option" where
  "row_insert pk r t = (if row_exists pk (pk r) t then None else Some (t @ [r]))"

definition row_insert_ignore :: "('r \<Rightarrow> 'k) \<Rightarrow> 'r \<Rightarrow> 'r list \<Rightarrow> 'r list" where
  "row_insert_ignore pk r t = (if row_exists pk (pk r) t then t else t @ [r])"

definition row_replace :: "('r \<Rightarrow> 'k) \<Rightarrow> 'r \<Rightarrow> 'r list \<Rightarrow> 'r list" where
  "row_replace pk r t = filter (\<lambda>r'. pk r' \<noteq> pk r) t @ [r]"

definition row_update :: "('r \<Rightarrow> bool) \<Rightarrow> ('r \<Rightarrow> 'r) \<Rightarrow> 'r list \<Rightarrow> 'r list" where
  "row_update P f t = map (\<lambda>r. if P r then f r else r) t"

definition row_delete :: "('r \<Rightarrow> bool) \<Rightarrow> 'r list \<Rightarrow> 'r list" where
  "row_delete P t = filter (\<lambda>r. \<not> P r) t"

lemmas row_defs = row_exists_def row_insert_def row_insert_ignore_def row_replace_def
  row_update_def row_delete_def

text \<open>
  The contract the handlers rely on: a table is a finite map from primary keys to rows, the
  statements change exactly the keys they name, and primary keys stay unique.
\<close>

locale keyed_table =
  fixes pk :: "'r \<Rightarrow> 'k"
    and rows :: "'t \<Rightarrow> 'r list"
    and lookup :: "'t \<Rightarrow> 'k \<Rightarrow> 'r option"
    and ins :: "'r \<Rightarrow> 't \<Rightarrow> 't"
    and del :: "'k \<Rightarrow> 't \<Rightarrow> 't"
  assumes lookup_rows: "distinct (map pk (rows t)) \<Longrightarrow> lookup t k = Some r \<longleftrightarrow> r \<in> set (rows t) \<and> pk r = k"
    and lookup_ins: "lookup (ins r t) k = (if k = pk r then Some r else lookup t k)"
    and lookup_del: "lookup (del k' t) k = (if k = k' then None else lookup t k)"
    and distinct_ins: "distinct (map pk (rows t)) \<Longrightarrow> distinct (map pk (rows (ins r t)))"
    and distinct_del: "distinct (map pk (rows t)) \<Longrightarrow> distinct (map pk (rows (del k t)))"
begin

lemma lookup_ins_same: "lookup (ins r t) (pk r) = Some r"
  by (simp add: lookup_ins)

lemma del_ins: "lookup (del (pk r) (ins r t)) = lookup (del (pk r) t)"
  by (rule ext) (simp add: lookup_ins lookup_del)

lemma ins_overwrites: "pk r = pk r' \<Longrightarrow> lookup (ins r (ins r' t)) = lookup (ins r t)"
  by (rule ext) (simp add: lookup_ins)

lemma rows_mem_lookup:
  "distinct (map pk (rows t)) \<Longrightarrow> x \<in> set (rows t) \<longleftrightarrow> lookup t (pk x) = Some x"
  by (simp add: lookup_rows)

lemma rows_after_ins:
  assumes "distinct (map pk (rows t))"
  shows "set (rows (ins r t)) = insert r {x \<in> set (rows t). pk x \<noteq> pk r}"
proof (rule set_eqI)
  fix x
  have "x \<in> set (rows (ins r t)) \<longleftrightarrow> lookup (ins r t) (pk x) = Some x"
    using distinct_ins [OF assms] by (rule rows_mem_lookup)
  then show "x \<in> set (rows (ins r t)) \<longleftrightarrow> x \<in> insert r {x \<in> set (rows t). pk x \<noteq> pk r}"
    by (auto simp: lookup_ins rows_mem_lookup [OF assms])
qed

lemma rows_after_del:
  assumes "distinct (map pk (rows t))"
  shows "set (rows (del k t)) = {x \<in> set (rows t). pk x \<noteq> k}"
proof (rule set_eqI)
  fix x
  have "x \<in> set (rows (del k t)) \<longleftrightarrow> lookup (del k t) (pk x) = Some x"
    using distinct_del [OF assms] by (rule rows_mem_lookup)
  then show "x \<in> set (rows (del k t)) \<longleftrightarrow> x \<in> {x \<in> set (rows t). pk x \<noteq> k}"
    by (auto simp: lookup_del rows_mem_lookup [OF assms])
qed

end

definition row_lookup :: "('r \<Rightarrow> 'k) \<Rightarrow> 'r list \<Rightarrow> 'k \<Rightarrow> 'r option" where
  "row_lookup pk t k = List.find (\<lambda>r. pk r = k) t"

lemma distinct_row_replace:
  "distinct (map pk t) \<Longrightarrow> distinct (map pk (row_replace pk r t))"
  by (auto simp: row_replace_def)

lemma distinct_row_insert_ignore:
  "distinct (map pk t) \<Longrightarrow> distinct (map pk (row_insert_ignore pk r t))"
  by (auto simp: row_insert_ignore_def row_exists_def list_ex_iff)

lemma distinct_row_delete: "distinct (map pk t) \<Longrightarrow> distinct (map pk (row_delete P t))"
  by (auto simp: row_delete_def)

lemma row_lookup_iff:
  assumes "distinct (map pk t)"
  shows "row_lookup pk t k = Some r \<longleftrightarrow> r \<in> set t \<and> pk r = k"
  using find_distinct_eq [OF assms, of r] find_SomeD [of "\<lambda>r. pk r = k" t r]
  by (auto simp: row_lookup_def)

interpretation rows: keyed_table pk "\<lambda>t. t" "row_lookup pk" "row_replace pk"
  "\<lambda>k. row_delete (\<lambda>r. pk r = k)" for pk :: "'r \<Rightarrow> 'k"
proof unfold_locales
  show "row_lookup pk (row_replace pk r t) k = (if k = pk r then Some r else row_lookup pk t k)"
    for r t k
    by (auto simp: row_lookup_def row_replace_def find_simps split: option.splits)
  show "row_lookup pk (row_delete (\<lambda>r. pk r = k') t) k = (if k = k' then None else row_lookup pk t k)"
    for k' t k
    by (simp add: row_lookup_def row_delete_def find_simps)
qed (simp_all add: row_lookup_iff distinct_row_replace distinct_row_delete)

end
