(* ===== verification/ServerDb.thy ===== *)
theory ServerDb
  imports SqlTables
begin

text \<open>
  The server's SQLite database (\<open>crates/rekindle-server/src/db.rs\<close>): one row type per table of
  \<open>SERVER_SCHEMA\<close> and one definition per SQL statement the server executes. A statement is a partial function on the
  database: \<^const>\<open>None\<close> is the error SQLite reports when the statement violates a primary key,
  a foreign key or a check of the schema. \<open>INSERT OR IGNORE\<close> skips a row whose primary key exists, \<open>INSERT OR REPLACE\<close>
  removes it first; deletes cascade along the \<open>ON DELETE CASCADE\<close> references.
  The lemmas state, table by table, what a statement does to the rows of a community.
\<close>

section \<open>The schema\<close>

record hosted_row =
  hr_id :: string
  hr_dht_record_key :: string
  hr_owner_keypair_hex :: string
  hr_name :: string
  hr_description :: string
  hr_creator_pseudonym :: string
  hr_created_at :: int

record member_row =
  mr_community_id :: string
  mr_pseudonym :: string
  mr_display_name :: "string option"
  mr_joined_at :: int
  mr_route_blob :: "bytes option"

record mek_row =
  kr_community_id :: string
  kr_generation :: int
  kr_key_bytes :: bytes
  kr_created_at :: int

record channel_row =
  cr_community_id :: string
  cr_id :: string
  cr_name :: string
  cr_channel_type :: string
  cr_sort_order :: int

record message_row =
  sm_id :: nat
  sm_community_id :: string
  sm_channel_id :: string
  sm_sender :: string
  sm_ciphertext :: bytes
  sm_mek_generation :: int
  sm_timestamp :: int

record banned_row =
  br_community_id :: string
  br_pseudonym :: string
  br_display_name :: string
  br_banned_at :: int

record role_row =
  rr_community_id :: string
  rr_id :: int
  rr_name :: string
  rr_color :: int
  rr_permissions :: int
  rr_position :: int
  rr_hoist :: int
  rr_mentionable :: int

record member_role_row =
  xr_community_id :: string
  xr_pseudonym :: string
  xr_role_id :: int

record overwrite_row =
  or_community_id :: string
  or_channel_id :: string
  or_target_type :: string
  or_target_id :: string
  or_allow_bits :: int
  or_deny_bits :: int

record timeout_row =
  tr_community_id :: string
  tr_pseudonym :: string
  tr_timeout_until :: int
  tr_reason :: "string option"

record server_db =
  t_hosted :: "hosted_row list"
  t_members :: "member_row list"
  t_mek :: "mek_row list"
  t_channels :: "channel_row list"
  t_messages :: "message_row list"
  t_banned :: "banned_row list"
  t_roles :: "role_row list"
  t_member_roles :: "member_role_row list"
  t_overwrites :: "overwrite_row list"
  t_timeouts :: "timeout_row list"
  t_next_message :: nat

definition empty_db :: server_db where
  "empty_db = \<lparr>t_hosted = [], t_members = [], t_mek = [], t_channels = [], t_messages = [],
     t_banned = [], t_roles = [], t_member_roles = [], t_overwrites = [], t_timeouts = [],
     t_next_message = 1\<rparr>"

text \<open>Primary keys.\<close>

definition member_pk where "member_pk r = (mr_community_id r, mr_pseudonym r)"
definition mek_pk where "mek_pk r = (kr_community_id r, kr_generation r)"
definition channel_pk where "channel_pk r = (cr_community_id r, cr_id r)"
definition banned_pk where "banned_pk r = (br_community_id r, br_pseudonym r)"
definition role_pk where "role_pk r = (rr_community_id r, rr_id r)"
definition member_role_pk where "member_role_pk r = (xr_community_id r, xr_pseudonym r, xr_role_id r)"
definition overwrite_pk where
  "overwrite_pk r = (or_community_id r, or_channel_id r, or_target_type r, or_target_id r)"
definition timeout_pk where "timeout_pk r = (tr_community_id r, tr_pseudonym r)"

lemmas pk_defs = member_pk_def mek_pk_def channel_pk_def banned_pk_def role_pk_def
  member_role_pk_def overwrite_pk_def timeout_pk_def

text \<open>Foreign keys.\<close>

definition hosted_exists :: "string \<Rightarrow> server_db \<Rightarrow> bool" where
  "hosted_exists cid db = row_exists hr_id cid (t_hosted db)"

definition member_exists :: "string \<Rightarrow> string \<Rightarrow> server_db \<Rightarrow> bool" where
  "member_exists cid key db = row_exists member_pk (cid, key) (t_members db)"

definition channel_exists :: "string \<Rightarrow> string \<Rightarrow> server_db \<Rightarrow> bool" where
  "channel_exists cid chid db = row_exists channel_pk (cid, chid) (t_channels db)"

section \<open>Statements\<close>

subsection \<open>Communities\<close>

definition insert_ignore_hosted :: "hosted_row \<Rightarrow> server_db \<Rightarrow> server_db option" where
  "insert_ignore_hosted r db = Some (db\<lparr>t_hosted := row_insert_ignore hr_id r (t_hosted db)\<rparr>)"

definition update_hosted :: "string \<Rightarrow> (hosted_row \<Rightarrow> hosted_row) \<Rightarrow> server_db \<Rightarrow> server_db option" where
  "update_hosted cid f db = Some (db\<lparr>t_hosted := row_update (\<lambda>r. hr_id r = cid) f (t_hosted db)\<rparr>)"

definition delete_hosted :: "string \<Rightarrow> server_db \<Rightarrow> server_db option" where
  "delete_hosted cid db =
     (if hosted_exists cid db then
        Some (db\<lparr>t_hosted := row_delete (\<lambda>r. hr_id r = cid) (t_hosted db),
                t_members := row_delete (\<lambda>r. mr_community_id r = cid) (t_members db),
                t_member_roles := row_delete (\<lambda>r. xr_community_id r = cid) (t_member_roles db),
                t_timeouts := row_delete (\<lambda>r. tr_community_id r = cid) (t_timeouts db),
                t_mek := row_delete (\<lambda>r. kr_community_id r = cid) (t_mek db),
                t_channels := row_delete (\<lambda>r. cr_community_id r = cid) (t_channels db),
                t_overwrites := row_delete (\<lambda>r. or_community_id r = cid) (t_overwrites db),
                t_banned := row_delete (\<lambda>r. br_community_id r = cid) (t_banned db),
                t_roles := row_delete (\<lambda>r. rr_community_id r = cid) (t_roles db)\<rparr>)
      else Some db)"

subsection \<open>Members, their roles and timeouts\<close>

definition insert_ignore_member :: "member_row \<Rightarrow> server_db \<Rightarrow> server_db option" where
  "insert_ignore_member r db =
     (if row_exists member_pk (member_pk r) (t_members db) then Some db
      else if hosted_exists (mr_community_id r) db
      then Some (db\<lparr>t_members := t_members db @ [r]\<rparr>)
      else None)"

definition update_member_route :: "string \<Rightarrow> string \<Rightarrow> bytes \<Rightarrow> server_db \<Rightarrow> server_db option" where
  "update_member_route cid key blob db =
     Some (db\<lparr>t_members := row_update (\<lambda>r. member_pk r = (cid, key))
                (\<lambda>r. r\<lparr>mr_route_blob := Some blob\<rparr>) (t_members db)\<rparr>)"

definition delete_member :: "string \<Rightarrow> string \<Rightarrow> server_db \<Rightarrow> server_db option" where
  "delete_member cid key db =
     (if member_exists cid key db then
        Some (db\<lparr>t_members := row_delete (\<lambda>r. member_pk r = (cid, key)) (t_members db),
                t_member_roles := row_delete (\<lambda>r. (xr_community_id r, xr_pseudonym r) = (cid, key))
                  (t_member_roles db),
                t_timeouts := row_delete (\<lambda>r. timeout_pk r = (cid, key)) (t_timeouts db)\<rparr>)
      else Some db)"

definition insert_ignore_member_role :: "member_role_row \<Rightarrow> server_db \<Rightarrow> server_db option" where
  "insert_ignore_member_role r db =
     (if row_exists member_role_pk (member_role_pk r) (t_member_roles db) then Some db
      else if member_exists (xr_community_id r) (xr_pseudonym r) db
      then Some (db\<lparr>t_member_roles := t_member_roles db @ [r]\<rparr>)
      else None)"

definition delete_member_role :: "string \<Rightarrow> string \<Rightarrow> int \<Rightarrow> server_db \<Rightarrow> server_db option" where
  "delete_member_role cid key rid db =
     Some (db\<lparr>t_member_roles :=
       row_delete (\<lambda>r. member_role_pk r = (cid, key, rid)) (t_member_roles db)\<rparr>)"

definition delete_role_assignments :: "string \<Rightarrow> int \<Rightarrow> server_db \<Rightarrow> server_db option" where
  "delete_role_assignments cid rid db =
     Some (db\<lparr>t_member_roles :=
       row_delete (\<lambda>r. xr_community_id r = cid \<and> xr_role_id r = rid) (t_member_roles db)\<rparr>)"

definition replace_timeout :: "timeout_row \<Rightarrow> server_db \<Rightarrow> server_db option" where
  "replace_timeout r db =
     (if member_exists (tr_community_id r) (tr_pseudonym r) db
      then Some (db\<lparr>t_timeouts := row_replace timeout_pk r (t_timeouts db)\<rparr>)
      else None)"

definition delete_timeout :: "string \<Rightarrow> string \<Rightarrow> server_db \<Rightarrow> server_db option" where
  "delete_timeout cid key db =
     Some (db\<lparr>t_timeouts := row_delete (\<lambda>r. timeout_pk r = (cid, key)) (t_timeouts db)\<rparr>)"

definition replace_banned :: "banned_row \<Rightarrow> server_db \<Rightarrow> server_db option" where
  "replace_banned r db =
     (if hosted_exists (br_community_id r) db
      then Some (db\<lparr>t_banned := row_replace banned_pk r (t_banned db)\<rparr>)
      else None)"

definition delete_banned :: "string \<Rightarrow> string \<Rightarrow> server_db \<Rightarrow> server_db option" where
  "delete_banned cid key db =
     Some (db\<lparr>t_banned := row_delete (\<lambda>r. banned_pk r = (cid, key)) (t_banned db)\<rparr>)"

subsection \<open>Media encryption keys\<close>

definition insert_mek :: "mek_row \<Rightarrow> server_db \<Rightarrow> server_db option" where
  "insert_mek r db =
     (if hosted_exists (kr_community_id r) db
      then map_option (\<lambda>t. db\<lparr>t_mek := t\<rparr>) (row_insert mek_pk r (t_mek db))
      else None)"

definition replace_mek :: "mek_row \<Rightarrow> server_db \<Rightarrow> server_db option" where
  "replace_mek r db =
     (if hosted_exists (kr_community_id r) db
      then Some (db\<lparr>t_mek := row_replace mek_pk r (t_mek db)\<rparr>)
      else None)"

subsection \<open>Channels and overwrites\<close>

definition insert_channel :: "channel_row \<Rightarrow> server_db \<Rightarrow> server_db option" where
  "insert_channel r db =
     (if hosted_exists (cr_community_id r) db \<and> cr_channel_type r \<in> {''text'', ''voice''}
      then map_option (\<lambda>t. db\<lparr>t_channels := t\<rparr>) (row_insert channel_pk r (t_channels db))
      else None)"

definition delete_channel :: "string \<Rightarrow> string \<Rightarrow> server_db \<Rightarrow> server_db option" where
  "delete_channel cid chid db =
     (if channel_exists cid chid db then
        Some (db\<lparr>t_channels := row_delete (\<lambda>r. channel_pk r = (cid, chid)) (t_channels db),
                t_overwrites := row_delete (\<lambda>r. (or_community_id r, or_channel_id r) = (cid, chid))
                  (t_overwrites db)\<rparr>)
      else Some db)"

definition rename_channel :: "string \<Rightarrow> string \<Rightarrow> string \<Rightarrow> server_db \<Rightarrow> server_db option" where
  "rename_channel cid chid new_name db =
     Some (db\<lparr>t_channels := row_update (\<lambda>r. channel_pk r = (cid, chid))
                (\<lambda>r. r\<lparr>cr_name := new_name\<rparr>) (t_channels db)\<rparr>)"

definition replace_overwrite :: "overwrite_row \<Rightarrow> server_db \<Rightarrow> server_db option" where
  "replace_overwrite r db =
     (if channel_exists (or_community_id r) (or_channel_id r) db
         \<and> or_target_type r \<in> {''role'', ''member''}
      then Some (db\<lparr>t_overwrites := row_replace overwrite_pk r (t_overwrites db)\<rparr>)
      else None)"

definition delete_overwrite ::
  "string \<Rightarrow> string \<Rightarrow> string \<Rightarrow> string \<Rightarrow> server_db \<Rightarrow> server_db option" where
  "delete_overwrite cid chid ttype tid db =
     Some (db\<lparr>t_overwrites :=
       row_delete (\<lambda>r. overwrite_pk r = (cid, chid, ttype, tid)) (t_overwrites db)\<rparr>)"

subsection \<open>Roles\<close>

definition insert_role :: "role_row \<Rightarrow> server_db \<Rightarrow> server_db option" where
  "insert_role r db =
     (if hosted_exists (rr_community_id r) db
      then map_option (\<lambda>t. db\<lparr>t_roles := t\<rparr>) (row_insert role_pk r (t_roles db))
      else None)"

definition insert_ignore_role :: "role_row \<Rightarrow> server_db \<Rightarrow> server_db option" where
  "insert_ignore_role r db =
     (if row_exists role_pk (role_pk r) (t_roles db) then Some db
      else if hosted_exists (rr_community_id r) db
      then Some (db\<lparr>t_roles := t_roles db @ [r]\<rparr>)
      else None)"

definition update_role :: "role_row \<Rightarrow> server_db \<Rightarrow> server_db option" where
  "update_role r db =
     Some (db\<lparr>t_roles := row_update (\<lambda>r'. role_pk r' = role_pk r) (\<lambda>_. r) (t_roles db)\<rparr>)"

definition delete_role :: "string \<Rightarrow> int \<Rightarrow> server_db \<Rightarrow> server_db option" where
  "delete_role cid rid db =
     Some (db\<lparr>t_roles := row_delete (\<lambda>r. role_pk r = (cid, rid)) (t_roles db)\<rparr>)"

subsection \<open>Messages\<close>

definition insert_message ::
  "string \<Rightarrow> string \<Rightarrow> string \<Rightarrow> bytes \<Rightarrow> int \<Rightarrow> int \<Rightarrow> server_db \<Rightarrow> server_db option" where
  "insert_message cid chid sender ciphertext generation timestamp db =
     Some (db\<lparr>t_messages := t_messages db @
              [\<lparr>sm_id = t_next_message db, sm_community_id = cid, sm_channel_id = chid,
                sm_sender = sender, sm_ciphertext = ciphertext, sm_mek_generation = generation,
                sm_timestamp = timestamp\<rparr>],
            t_next_message := Suc (t_next_message db)\<rparr>)"

text \<open>
  \<open>ORDER BY timestamp DESC LIMIT n\<close>; SQLite leaves the order of equal timestamps open, the
  model keeps insertion order among them.
\<close>

definition select_messages ::
  "string \<Rightarrow> string \<Rightarrow> int option \<Rightarrow> nat \<Rightarrow> server_db \<Rightarrow> message_row list" where
  "select_messages cid chid before limit db =
     take limit (sort_key (\<lambda>r. - sm_timestamp r)
       (filter (\<lambda>r. sm_community_id r = cid \<and> sm_channel_id r = chid \<and>
                 (case before of None \<Rightarrow> True | Some b \<Rightarrow> sm_timestamp r < b))
          (t_messages db)))"

definition select_banned :: "string \<Rightarrow> server_db \<Rightarrow> banned_row list" where
  "select_banned cid db =
     sort_key (\<lambda>r. - br_banned_at r) (filter (\<lambda>r. br_community_id r = cid) (t_banned db))"

definition is_banned_row :: "string \<Rightarrow> string \<Rightarrow> server_db \<Rightarrow> bool" where
  "is_banned_row cid key db = row_exists banned_pk (cid, key) (t_banned db)"

lemmas statement_defs =
  insert_ignore_hosted_def update_hosted_def delete_hosted_def insert_ignore_member_def
  update_member_route_def delete_member_def insert_ignore_member_role_def
  delete_member_role_def delete_role_assignments_def replace_timeout_def delete_timeout_def
  replace_banned_def delete_banned_def insert_mek_def replace_mek_def insert_channel_def
  delete_channel_def rename_channel_def replace_overwrite_def delete_overwrite_def
  insert_role_def insert_ignore_role_def update_role_def delete_role_def insert_message_def

lemma is_banned_row_iff:
  "is_banned_row cid key db \<longleftrightarrow> (\<exists>r\<in>set (t_banned db). br_community_id r = cid \<and> br_pseudonym r = key)"
  by (auto simp: is_banned_row_def row_exists_def list_ex_iff banned_pk_def)

end
