(* ===== verification/ServerState.thy ===== *)
theory ServerState
  imports Wire ServerDb
begin

text \<open>
  The state of the community server (\<open>crates/rekindle-server/src/server_state.rs\<close>), the
  execution of SQL statements with I/O faults, the media encryption keys (\<open>mek.rs\<close>), the
  publication of DHT subkeys (\<open>community_host.rs\<close>) and the broadcast to members (\<open>rpc.rs\<close>).
  Members, channels and roles are three instances of one interface, a vector with a key. Messages to the Veilid network are
  appended to an outbox instead of being sent.
\<close>

section \<open>State\<close>

type_synonym route_id = string

record server_member =
  m_pseudonym_key_hex :: string
  m_display_name :: string
  m_role_ids :: "u32 list"
  m_joined_at :: int
  m_route_blob :: "bytes option"
  m_timeout_until :: "u64 option"

record server_channel =
  ch_id :: string
  ch_name :: string
  ch_channel_type :: string
  ch_sort_order :: int
  ch_permission_overwrites :: "permission_overwrite list"

record hosted_community =
  c_community_id :: string
  c_dht_record_key :: string
  c_owner_keypair_hex :: string
  c_name :: string
  c_description :: string
  c_route_id :: "route_id option"
  c_route_blob :: "bytes option"
  c_mek :: media_encryption_key
  c_members :: "server_member list"
  c_channels :: "server_channel list"
  c_roles :: "role_definition list"
  c_creator_pseudonym_hex :: string

text \<open>What is written to the subkeys of a community's DHT record.\<close>

datatype dht_payload =
    PubMetadata string string u64
  | PubChannels "(string \<times> string \<times> string \<times> int) list" u64
  | PubMembers "(string \<times> u32 list \<times> string \<times> int) list" u64
  | PubMek u64 u64
  | PubRoute bytes

text \<open>What the server asks of the network.\<close>

datatype effect =
    AppMessage bytes community_broadcast
  | SetDhtValue string nat dht_payload
  | ReleaseRoute route_id

text \<open>
  The state: the hosted communities, the database, the I/O faults that the next database
  accesses will meet (an empty list: none), the answers Veilid will give to the next requests for
  a private route and to the next attempts to open a DHT record (an empty list: failures), the
  messages handed to the network so far, and the start time.
\<close>

record server_state =
  hosted :: "(string \<times> hosted_community) list"
  db :: server_db
  faults :: "bool list"
  net_routes :: "(route_id \<times> bytes) option list"
  net_opens :: "bool list"
  outbox :: "effect list"
  started_at :: u64

text \<open>
  What one request reads from its environment: the wall clock in seconds, the bytes the random
  generator returns for a channel id and for a key, and Veilid's parser of owner keypairs (the
  printed public key, empty when the keypair does not parse).
\<close>

record request_env =
  now_secs :: u64
  rand_channel :: bytes
  rand_key :: bytes
  owner_public_key :: "string \<Rightarrow> string"

definition timestamp_now :: "request_env \<Rightarrow> int" where
  "timestamp_now env = i64_or_max (now_secs env)"

definition get_community :: "server_state \<Rightarrow> string \<Rightarrow> hosted_community option" where
  "get_community st cid = map_of (hosted st) cid"

definition modify_community ::
  "string \<Rightarrow> (hosted_community \<Rightarrow> hosted_community) \<Rightarrow> server_state \<Rightarrow> server_state" where
  "modify_community cid f st = st\<lparr>hosted := AList.map_entry cid f (hosted st)\<rparr>"

definition find_member :: "hosted_community \<Rightarrow> string \<Rightarrow> server_member option" where
  "find_member c key = List.find (\<lambda>m. m_pseudonym_key_hex m = key) (c_members c)"

definition find_channel :: "hosted_community \<Rightarrow> string \<Rightarrow> server_channel option" where
  "find_channel c chid = List.find (\<lambda>ch. ch_id ch = chid) (c_channels c)"

definition find_role :: "hosted_community \<Rightarrow> u32 \<Rightarrow> role_definition option" where
  "find_role c rid = List.find (\<lambda>r. rd_id r = rid) (c_roles c)"

definition modify_member ::
  "string \<Rightarrow> (server_member \<Rightarrow> server_member) \<Rightarrow> hosted_community \<Rightarrow> hosted_community" where
  "modify_member key f c =
     c\<lparr>c_members := update_first (\<lambda>m. m_pseudonym_key_hex m = key) f (c_members c)\<rparr>"

definition modify_channel ::
  "string \<Rightarrow> (server_channel \<Rightarrow> server_channel) \<Rightarrow> hosted_community \<Rightarrow> hosted_community" where
  "modify_channel chid f c =
     c\<lparr>c_channels := update_first (\<lambda>ch. ch_id ch = chid) f (c_channels c)\<rparr>"

definition modify_role ::
  "u32 \<Rightarrow> (role_definition \<Rightarrow> role_definition) \<Rightarrow> hosted_community \<Rightarrow> hosted_community" where
  "modify_role rid f c =
     c\<lparr>c_roles := update_first (\<lambda>r. rd_id r = rid) f (c_roles c)\<rparr>"

text \<open>\<open>retain\<close> on each of the three vectors.\<close>

definition remove_member :: "string \<Rightarrow> hosted_community \<Rightarrow> hosted_community" where
  "remove_member key c = c\<lparr>c_members := filter (\<lambda>m. m_pseudonym_key_hex m \<noteq> key) (c_members c)\<rparr>"

definition remove_channel :: "string \<Rightarrow> hosted_community \<Rightarrow> hosted_community" where
  "remove_channel chid c = c\<lparr>c_channels := filter (\<lambda>ch. ch_id ch \<noteq> chid) (c_channels c)\<rparr>"

definition remove_role :: "u32 \<Rightarrow> hosted_community \<Rightarrow> hosted_community" where
  "remove_role rid c = c\<lparr>c_roles := filter (\<lambda>r. rd_id r \<noteq> rid) (c_roles c)\<rparr>"

section \<open>Database access\<close>

text \<open>
  \<open>db.execute\<close>: fails on an I/O fault or when the statement violates the schema; a failed
  statement changes nothing. \<open>sql_run\<close> is \<open>let _ = db.execute(..)\<close> or a logged error.
\<close>

definition pop_fault :: "server_state \<Rightarrow> bool \<times> server_state" where
  "pop_fault st =
     (case faults st of [] \<Rightarrow> (False, st) | f # fs \<Rightarrow> (f, st\<lparr>faults := fs\<rparr>))"

definition sql_execute ::
  "(server_db \<Rightarrow> server_db option) \<Rightarrow> server_state \<Rightarrow> bool \<times> server_state" where
  "sql_execute stmt st =
     (let (fault, st) = pop_fault st
      in if fault then (False, st)
         else case stmt (db st) of None \<Rightarrow> (False, st) | Some d \<Rightarrow> (True, st\<lparr>db := d\<rparr>))"

definition sql_run :: "(server_db \<Rightarrow> server_db option) \<Rightarrow> server_state \<Rightarrow> server_state" where
  "sql_run stmt st = snd (sql_execute stmt st)"

text \<open>A query: \<^const>\<open>None\<close> when it meets an I/O fault.\<close>

definition sql_query :: "(server_db \<Rightarrow> 'a) \<Rightarrow> server_state \<Rightarrow> 'a option \<times> server_state" where
  "sql_query q st =
     (let (fault, st) = pop_fault st in (if fault then None else Some (q (db st)), st))"

section \<open>Media encryption keys\<close>

definition mek_generate :: "request_env \<Rightarrow> u64 \<Rightarrow> media_encryption_key" where
  "mek_generate env gen = \<lparr>mek_key = rand_key env, mek_generation = gen\<rparr>"

definition create_initial_mek ::
  "request_env \<Rightarrow> server_state \<Rightarrow> string \<Rightarrow> media_encryption_key \<times> server_state" where
  "create_initial_mek env st cid =
     (let mek = mek_generate env 1
      in (mek, sql_run (replace_mek \<lparr>kr_community_id = cid, kr_generation = 1,
                 kr_key_bytes = mek_key mek, kr_created_at = timestamp_now env\<rparr>) st))"

definition rotate_mek ::
  "request_env \<Rightarrow> server_state \<Rightarrow> string \<Rightarrow> u64 \<Rightarrow> media_encryption_key \<times> server_state" where
  "rotate_mek env st cid new_generation =
     (let mek = mek_generate env new_generation
      in (mek, sql_run (insert_mek \<lparr>kr_community_id = cid,
                 kr_generation = i64_or_max new_generation,
                 kr_key_bytes = mek_key mek, kr_created_at = timestamp_now env\<rparr>) st))"

text \<open>\<open>ORDER BY generation DESC LIMIT 1\<close>; a key that is not 32 bytes long is rejected.\<close>

definition latest_mek_row :: "string \<Rightarrow> server_db \<Rightarrow> mek_row option" where
  "latest_mek_row cid d =
     (case sort_key (\<lambda>r. - kr_generation r) (filter (\<lambda>r. kr_community_id r = cid) (t_mek d)) of
        [] \<Rightarrow> None | r # _ \<Rightarrow> Some r)"

definition load_latest_mek ::
  "server_state \<Rightarrow> string \<Rightarrow> media_encryption_key option \<times> server_state" where
  "load_latest_mek st cid =
     (let (res, st) = sql_query (latest_mek_row cid) st
      in (case res of
            Some (Some r) \<Rightarrow>
              (if length (kr_key_bytes r) = 32
               then Some \<lparr>mek_key = kr_key_bytes r, mek_generation = u64_or_zero (kr_generation r)\<rparr>
               else None)
          | _ \<Rightarrow> None, st))"

section \<open>Publication and broadcast\<close>

definition emit :: "effect list \<Rightarrow> server_state \<Rightarrow> server_state" where
  "emit es st = st\<lparr>outbox := outbox st @ es\<rparr>"

definition SUBKEY_METADATA :: nat where "SUBKEY_METADATA = 0"
definition SUBKEY_CHANNELS :: nat where "SUBKEY_CHANNELS = 1"
definition SUBKEY_MEMBERS :: nat where "SUBKEY_MEMBERS = 2"
definition SUBKEY_MEK :: nat where "SUBKEY_MEK = 5"
definition SUBKEY_SERVER_ROUTE :: nat where "SUBKEY_SERVER_ROUTE = 6"

definition publish_metadata :: "request_env \<Rightarrow> string \<Rightarrow> string \<Rightarrow> server_state \<Rightarrow> server_state" where
  "publish_metadata env cid name st =
     (case get_community st cid of
        None \<Rightarrow> st
      | Some c \<Rightarrow> emit [SetDhtValue (c_dht_record_key c) SUBKEY_METADATA
          (PubMetadata name (owner_public_key env (c_owner_keypair_hex c)) (now_secs env))] st)"

definition publish_channels :: "request_env \<Rightarrow> string \<Rightarrow> server_state \<Rightarrow> server_state" where
  "publish_channels env cid st =
     (case get_community st cid of
        None \<Rightarrow> st
      | Some c \<Rightarrow> emit [SetDhtValue (c_dht_record_key c) SUBKEY_CHANNELS
          (PubChannels (map (\<lambda>ch. (ch_id ch, ch_name ch, ch_channel_type ch, ch_sort_order ch))
             (c_channels c)) (now_secs env))] st)"

definition publish_member_roster :: "request_env \<Rightarrow> string \<Rightarrow> server_state \<Rightarrow> server_state" where
  "publish_member_roster env cid st =
     (case get_community st cid of
        None \<Rightarrow> st
      | Some c \<Rightarrow> emit [SetDhtValue (c_dht_record_key c) SUBKEY_MEMBERS
          (PubMembers (map (\<lambda>m. (m_pseudonym_key_hex m, m_role_ids m, m_display_name m, m_joined_at m))
             (c_members c)) (now_secs env))] st)"

definition publish_mek_bundle :: "request_env \<Rightarrow> string \<Rightarrow> server_state \<Rightarrow> server_state" where
  "publish_mek_bundle env cid st =
     (case get_community st cid of
        None \<Rightarrow> st
      | Some c \<Rightarrow> emit [SetDhtValue (c_dht_record_key c) SUBKEY_MEK
          (PubMek (mek_generation (c_mek c)) (now_secs env))] st)"

definition broadcast_routes :: "hosted_community \<Rightarrow> string \<Rightarrow> bytes list" where
  "broadcast_routes c exclude =
     List.map_filter m_route_blob (filter (\<lambda>m. m_pseudonym_key_hex m \<noteq> exclude) (c_members c))"

definition broadcast_to_members ::
  "string \<Rightarrow> string \<Rightarrow> community_broadcast \<Rightarrow> server_state \<Rightarrow> server_state" where
  "broadcast_to_members cid exclude broadcast st =
     (case get_community st cid of
        None \<Rightarrow> st
      | Some c \<Rightarrow> emit (map (\<lambda>route. AppMessage route broadcast) (broadcast_routes c exclude)) st)"

section \<open>Frame lemmas\<close>

lemma pop_fault_frame [frame_simps]:
  "hosted (snd (pop_fault st)) = hosted st" "db (snd (pop_fault st)) = db st"
  "outbox (snd (pop_fault st)) = outbox st" "started_at (snd (pop_fault st)) = started_at st"
  by (auto simp: pop_fault_def split: list.split)

lemma sql_execute_frame [frame_simps]:
  "hosted (snd (sql_execute stmt st)) = hosted st"
  "outbox (snd (sql_execute stmt st)) = outbox st"
  "started_at (snd (sql_execute stmt st)) = started_at st"
  by (auto simp: sql_execute_def frame_simps split: prod.splits option.splits)
     (metis frame_simps snd_conv)+

lemma sql_run_frame [frame_simps]:
  "hosted (sql_run stmt st) = hosted st" "outbox (sql_run stmt st) = outbox st"
  "started_at (sql_run stmt st) = started_at st"
  by (simp_all add: sql_run_def frame_simps)

lemma sql_query_frame [frame_simps]:
  "hosted (snd (sql_query q st)) = hosted st" "db (snd (sql_query q st)) = db st"
  "outbox (snd (sql_query q st)) = outbox st"
  by (auto simp: sql_query_def split: prod.splits) (metis frame_simps snd_conv)+

lemma emit_frame [frame_simps]:
  "hosted (emit es st) = hosted st" "db (emit es st) = db st" "faults (emit es st) = faults st"
  "outbox (emit es st) = outbox st @ es"
  by (simp_all add: emit_def)

lemma publish_frame [frame_simps]:
  "hosted (publish_metadata env cid n st) = hosted st" "db (publish_metadata env cid n st) = db st"
  "faults (publish_metadata env cid n st) = faults st"
  "hosted (publish_channels env cid st) = hosted st" "db (publish_channels env cid st) = db st"
  "faults (publish_channels env cid st) = faults st"
  "hosted (publish_member_roster env cid st) = hosted st" "db (publish_member_roster env cid st) = db st"
  "faults (publish_member_roster env cid st) = faults st"
  "hosted (publish_mek_bundle env cid st) = hosted st" "db (publish_mek_bundle env cid st) = db st"
  "faults (publish_mek_bundle env cid st) = faults st"
  by (auto simp: publish_metadata_def publish_channels_def publish_member_roster_def
      publish_mek_bundle_def frame_simps split: option.splits)

lemma broadcast_frame [frame_simps]:
  "hosted (broadcast_to_members cid ex b st) = hosted st"
  "db (broadcast_to_members cid ex b st) = db st"
  "faults (broadcast_to_members cid ex b st) = faults st"
  by (auto simp: broadcast_to_members_def frame_simps split: option.splits)

lemma rotate_mek_frame [frame_simps]:
  "hosted (snd (rotate_mek env st cid g)) = hosted st"
  "outbox (snd (rotate_mek env st cid g)) = outbox st"
  "fst (rotate_mek env st cid g) = mek_generate env g"
  by (simp_all add: rotate_mek_def Let_def frame_simps)

lemma modify_community_frame [frame_simps]:
  "db (modify_community cid f st) = db st" "faults (modify_community cid f st) = faults st"
  "outbox (modify_community cid f st) = outbox st"
  by (simp_all add: modify_community_def)

lemma get_community_cong: "hosted st = hosted st' \<Longrightarrow> get_community st = get_community st'"
  by (rule ext) (simp add: get_community_def)

lemma get_community_frame [frame_simps]:
  "get_community (sql_run stmt st) = get_community st"
  "get_community (snd (sql_execute stmt st)) = get_community st"
  "get_community (snd (sql_query q st)) = get_community st"
  "get_community (emit es st) = get_community st"
  "get_community (publish_metadata env cid n st) = get_community st"
  "get_community (publish_channels env cid st) = get_community st"
  "get_community (publish_member_roster env cid st) = get_community st"
  "get_community (publish_mek_bundle env cid st) = get_community st"
  "get_community (broadcast_to_members cid ex b st) = get_community st"
  "get_community (snd (rotate_mek env st cid g)) = get_community st"
  by (rule get_community_cong, simp add: frame_simps)+

lemma get_modify_community [frame_simps]:
  "get_community (modify_community cid f st) a =
    (if a = cid then map_option f (get_community st a) else get_community st a)"
  by (simp add: get_community_def modify_community_def find_simps)

text \<open>Without faults a statement runs exactly when the schema admits it.\<close>

lemma sql_execute_no_faults:
  "faults st = [] \<Longrightarrow> sql_execute stmt st =
    (case stmt (db st) of None \<Rightarrow> (False, st) | Some d \<Rightarrow> (True, st\<lparr>db := d\<rparr>))"
  by (simp add: sql_execute_def pop_fault_def)

lemma sql_run_no_faults:
  "faults st = [] \<Longrightarrow> sql_run stmt st = (case stmt (db st) of None \<Rightarrow> st | Some d \<Rightarrow> st\<lparr>db := d\<rparr>)"
  by (simp add: sql_run_def sql_execute_no_faults split: option.splits)

lemma sql_query_no_faults: "faults st = [] \<Longrightarrow> sql_query q st = (Some (q (db st)), st)"
  by (simp add: sql_query_def pop_fault_def)

lemma faults_sql_run: "faults st = [] \<Longrightarrow> faults (sql_run stmt st) = []"
  by (simp add: sql_run_no_faults split: option.splits)

text \<open>A statement that cannot violate the schema leaves the rows it should, fault or not.\<close>

lemma sql_run_cases:
  "db (sql_run stmt st) = db st \<or> stmt (db st) = Some (db (sql_run stmt st))"
proof -
  have "db (snd (pop_fault st)) = db st" by (rule frame_simps)
  then show ?thesis
    by (auto simp: sql_run_def sql_execute_def split: prod.splits option.splits)
qed

lemma db_sql_execute_cases:
  "fst (sql_execute stmt st) = False \<and> db (snd (sql_execute stmt st)) = db st \<or>
   fst (sql_execute stmt st) = True \<and> stmt (db st) = Some (db (snd (sql_execute stmt st)))"
proof -
  have "db (snd (pop_fault st)) = db st" by (rule frame_simps)
  then show ?thesis
    by (auto simp: sql_execute_def split: prod.splits option.splits)
qed

section \<open>Keyed rosters\<close>

text \<open>
  Members, channels and roles are vectors searched by a key, mutated in place through
  \<open>iter_mut().find\<close> and shrunk by \<open>retain\<close>. What follows from that is proved once.
\<close>

locale keyed_roster =
  fixes key :: "'x \<Rightarrow> 'k"
    and items :: "'c \<Rightarrow> 'x list"
    and lookup :: "'c \<Rightarrow> 'k \<Rightarrow> 'x option"
    and modify :: "'k \<Rightarrow> ('x \<Rightarrow> 'x) \<Rightarrow> 'c \<Rightarrow> 'c"
    and remove :: "'k \<Rightarrow> 'c \<Rightarrow> 'c"
  assumes lookup_items: "lookup c k = List.find (\<lambda>x. key x = k) (items c)"
    and items_modify: "items (modify k f c) = update_first (\<lambda>x. key x = k) f (items c)"
    and items_remove: "items (remove k c) = filter (\<lambda>x. key x \<noteq> k) (items c)"
begin

lemma lookup_modify:
  assumes "\<And>x. key (f x) = key x"
  shows "lookup (modify k f c) a = (if a = k then map_option f (lookup c a) else lookup c a)"
  by (simp add: lookup_items items_modify find_key_update_first [where k = key and f = f, OF assms])

lemma lookup_remove: "lookup (remove k c) a = (if a = k then None else lookup c a)"
  by (simp add: lookup_items items_remove find_key_filter_neq)

lemma distinct_modify:
  assumes "\<And>x. key (f x) = key x"
  shows "distinct (map key (items (modify k f c))) = distinct (map key (items c))"
  using assms by (simp add: items_modify)

lemma distinct_remove:
  "distinct (map key (items c)) \<Longrightarrow> distinct (map key (items (remove k c)))"
  by (auto simp: items_remove)

lemma lookup_SomeD: "lookup c k = Some x \<Longrightarrow> x \<in> set (items c) \<and> key x = k"
  using find_SomeD [of "\<lambda>x. key x = k" "items c" x] by (simp add: lookup_items)

lemma lookup_None_iff: "lookup c k = None \<longleftrightarrow> k \<notin> key ` set (items c)"
  by (auto simp: lookup_items find_None_iff_all)

lemma lookup_mem:
  "distinct (map key (items c)) \<Longrightarrow> x \<in> set (items c) \<Longrightarrow> lookup c (key x) = Some x"
  by (simp add: lookup_items find_distinct_eq)

lemma distinct_push:
  "distinct (map key (items c)) \<Longrightarrow> lookup c (key x) = None \<Longrightarrow> distinct (map key (items c @ [x]))"
  by (auto simp: lookup_None_iff)

lemma modify_absent: "lookup c k = None \<Longrightarrow> items (modify k f c) = items c"
  by (simp add: lookup_items items_modify update_first_none)

lemma set_modifyD:
  "y \<in> set (items (modify k f c)) \<Longrightarrow> y \<in> set (items c) \<or> (\<exists>x. lookup c k = Some x \<and> y = f x)"
  unfolding items_modify lookup_items by (rule set_update_first_find)

end

interpretation members: keyed_roster m_pseudonym_key_hex c_members find_member modify_member
  remove_member
  by unfold_locales (simp_all add: find_member_def modify_member_def remove_member_def)

interpretation channels: keyed_roster ch_id c_channels find_channel modify_channel remove_channel
  by unfold_locales (simp_all add: find_channel_def modify_channel_def remove_channel_def)

interpretation roles: keyed_roster rd_id c_roles find_role modify_role remove_role
  by unfold_locales (simp_all add: find_role_def modify_role_def remove_role_def)

lemmas roster_simps = members.lookup_modify channels.lookup_modify roles.lookup_modify
  members.lookup_remove channels.lookup_remove roles.lookup_remove

lemma find_member_frame [frame_simps]:
  "find_member (c\<lparr>c_channels := x\<rparr>) k = find_member c k"
  "find_member (c\<lparr>c_roles := y\<rparr>) k = find_member c k"
  "find_member (c\<lparr>c_mek := z\<rparr>) k = find_member c k"
  "find_member (modify_channel chid f c) k = find_member c k"
  "find_member (modify_role rid g c) k = find_member c k"
  "find_member (remove_channel chid c) k = find_member c k"
  "find_member (remove_role rid c) k = find_member c k"
  by (simp_all add: find_member_def modify_channel_def modify_role_def remove_channel_def
      remove_role_def)

lemma modify_fields [frame_simps]:
  "c_roles (modify_member key f c) = c_roles c" "c_channels (modify_member key f c) = c_channels c"
  "c_creator_pseudonym_hex (modify_member key f c) = c_creator_pseudonym_hex c"
  "c_mek (modify_member key f c) = c_mek c" "c_name (modify_member key f c) = c_name c"
  "c_description (modify_member key f c) = c_description c"
  "c_community_id (modify_member key f c) = c_community_id c"
  "c_roles (modify_channel chid g c) = c_roles c" "c_members (modify_channel chid g c) = c_members c"
  "c_creator_pseudonym_hex (modify_channel chid g c) = c_creator_pseudonym_hex c"
  "c_mek (modify_channel chid g c) = c_mek c" "c_name (modify_channel chid g c) = c_name c"
  "c_description (modify_channel chid g c) = c_description c"
  "c_community_id (modify_channel chid g c) = c_community_id c"
  "c_members (modify_role rid h c) = c_members c" "c_channels (modify_role rid h c) = c_channels c"
  "c_creator_pseudonym_hex (modify_role rid h c) = c_creator_pseudonym_hex c"
  "c_mek (modify_role rid h c) = c_mek c" "c_name (modify_role rid h c) = c_name c"
  "c_description (modify_role rid h c) = c_description c"
  "c_community_id (modify_role rid h c) = c_community_id c"
  "c_roles (remove_member key c) = c_roles c" "c_channels (remove_member key c) = c_channels c"
  "c_creator_pseudonym_hex (remove_member key c) = c_creator_pseudonym_hex c"
  "c_name (remove_member key c) = c_name c" "c_description (remove_member key c) = c_description c"
  "c_mek (remove_member key c) = c_mek c" "c_community_id (remove_member key c) = c_community_id c"
  "c_roles (remove_channel chid c) = c_roles c" "c_members (remove_channel chid c) = c_members c"
  "c_creator_pseudonym_hex (remove_channel chid c) = c_creator_pseudonym_hex c"
  "c_name (remove_channel chid c) = c_name c" "c_description (remove_channel chid c) = c_description c"
  "c_mek (remove_channel chid c) = c_mek c" "c_community_id (remove_channel chid c) = c_community_id c"
  "c_members (remove_role rid c) = c_members c" "c_channels (remove_role rid c) = c_channels c"
  "c_creator_pseudonym_hex (remove_role rid c) = c_creator_pseudonym_hex c"
  "c_name (remove_role rid c) = c_name c" "c_description (remove_role rid c) = c_description c"
  "c_mek (remove_role rid c) = c_mek c" "c_community_id (remove_role rid c) = c_community_id c"
  by (simp_all add: modify_member_def modify_channel_def modify_role_def remove_member_def
      remove_channel_def remove_role_def)

end
