(* ===== verification/Guards.thy ===== *)
theory Guards
  imports ServerState
begin

text \<open>
  The checks every RPC handler starts with (\<open>crates/rekindle-server/src/rpc.rs\<close>, the permission
  and routing helpers): base permissions, role hierarchy, membership, and the resolution of the
  community a request is for. The lemmas characterise when each check passes.
\<close>

section \<open>Permission helpers\<close>

definition member_base_permissions :: "request_env \<Rightarrow> hosted_community \<Rightarrow> string \<Rightarrow> u64" where
  "member_base_permissions env community pseudonym =
     (case find_member community pseudonym of
        None \<Rightarrow> 0
      | Some member \<Rightarrow>
          calculate_permissions (now_secs env) (m_role_ids member) (c_roles community) [] pseudonym
            (m_timeout_until member))"

definition is_creator :: "hosted_community \<Rightarrow> string \<Rightarrow> bool" where
  "is_creator community pseudonym \<longleftrightarrow>
     c_creator_pseudonym_hex community \<noteq> [] \<and> c_creator_pseudonym_hex community = pseudonym"

definition check_permission ::
  "request_env \<Rightarrow> hosted_community \<Rightarrow> string \<Rightarrow> u64 \<Rightarrow> community_response + unit" where
  "check_permission env community sender_pseudonym required =
     (if is_creator community sender_pseudonym then Inr ()
      else if has_permission (member_base_permissions env community sender_pseudonym) required
      then Inr ()
      else Inl (ResError 403 ''insufficient permissions''))"

definition role_positions :: "hosted_community \<Rightarrow> u32 list \<Rightarrow> int list" where
  "role_positions community ids =
     List.map_filter (\<lambda>rid. map_option rd_position (find_role community rid)) ids"

definition max_position :: "int list \<Rightarrow> int" where
  "max_position ps = (case ps of [] \<Rightarrow> - 1 | p # ps \<Rightarrow> fold max ps p)"

definition highest_role_position :: "hosted_community \<Rightarrow> string \<Rightarrow> int" where
  "highest_role_position community pseudonym =
     (case find_member community pseudonym of
        None \<Rightarrow> - 1
      | Some member \<Rightarrow> max_position (role_positions community (m_role_ids member)))"

definition check_hierarchy ::
  "hosted_community \<Rightarrow> string \<Rightarrow> string \<Rightarrow> community_response + unit" where
  "check_hierarchy community sender_pseudonym target_pseudonym =
     (if is_creator community sender_pseudonym then Inr ()
      else if highest_role_position community sender_pseudonym
              > highest_role_position community target_pseudonym
      then Inr ()
      else Inl (ResError 403 ''target has equal or higher role position''))"

definition role_to_dto :: "role_definition \<Rightarrow> role_dto" where
  "role_to_dto r = \<lparr>rdto_id = rd_id r, rdto_name = rd_name r, rdto_color = rd_color r,
     rdto_permissions = rd_permissions r, rdto_position = rd_position r, rdto_hoist = rd_hoist r,
     rdto_mentionable = rd_mentionable r\<rparr>"

definition roles_to_dto :: "hosted_community \<Rightarrow> role_dto list" where
  "roles_to_dto community = map role_to_dto (c_roles community)"

definition channels_to_dto :: "hosted_community \<Rightarrow> channel_info_dto list" where
  "channels_to_dto community =
     map (\<lambda>ch. \<lparr>cdto_id = ch_id ch, cdto_name = ch_name ch, cdto_channel_type = ch_channel_type ch\<rparr>)
       (c_channels community)"

section \<open>Routing helpers\<close>

definition find_community_for_member :: "server_state \<Rightarrow> string \<Rightarrow> string option" where
  "find_community_for_member st pseudonym =
     map_option c_community_id
       (List.find (\<lambda>c. list_ex (\<lambda>m. m_pseudonym_key_hex m = pseudonym) (c_members c))
          (map snd (hosted st)))"

definition find_community_for_route :: "server_state \<Rightarrow> route_id \<Rightarrow> string option" where
  "find_community_for_route st rid =
     map_option c_community_id
       (List.find (\<lambda>c. c_route_id c = Some rid) (map snd (hosted st)))"

definition resolve_community_id ::
  "server_state \<Rightarrow> string \<Rightarrow> route_id option \<Rightarrow> string option \<Rightarrow> string option" where
  "resolve_community_id st sender_pseudonym incoming_route_id ipc_community_id =
     (case ipc_community_id of
        Some cid \<Rightarrow> Some cid
      | None \<Rightarrow>
          (case Option.bind incoming_route_id (find_community_for_route st) of
             Some cid \<Rightarrow> Some cid
           | None \<Rightarrow> find_community_for_member st sender_pseudonym))"

definition verify_membership ::
  "hosted_community \<Rightarrow> string \<Rightarrow> community_response + unit" where
  "verify_membership community sender_pseudonym =
     (if c_creator_pseudonym_hex community = sender_pseudonym then Inr ()
      else if list_ex (\<lambda>m. m_pseudonym_key_hex m = sender_pseudonym) (c_members community)
      then Inr ()
      else Inl (ResError 403 ''not a member''))"

section \<open>Control flow of the handlers\<close>

text \<open>
  \<open>if let Err(e) = check { return e; }\<close> before the rest of a handler, and
  \<open>let Some(community) = hosted.get(id) else { return error }\<close>.
\<close>

type_synonym rpc_result = "server_state \<times> community_response"

definition check_then ::
  "server_state \<Rightarrow> community_response + unit \<Rightarrow> rpc_result \<Rightarrow> rpc_result" where
  "check_then st check rest = (case check of Inl e \<Rightarrow> (st, e) | Inr _ \<Rightarrow> rest)"

definition with_community ::
  "server_state \<Rightarrow> string \<Rightarrow> community_response \<Rightarrow> (hosted_community \<Rightarrow> rpc_result) \<Rightarrow> rpc_result"
  where
  "with_community st cid err rest =
     (case get_community st cid of None \<Rightarrow> (st, err) | Some community \<Rightarrow> rest community)"

definition not_found :: community_response where
  "not_found = ResError 404 ''community not found''"

text \<open>Most handlers open with the same two or three checks.\<close>

definition member_with_permission ::
  "request_env \<Rightarrow> server_state \<Rightarrow> string \<Rightarrow> string \<Rightarrow> u64 \<Rightarrow> (hosted_community \<Rightarrow> rpc_result) \<Rightarrow> rpc_result"
  where
  "member_with_permission env st cid sender_pseudonym required rest =
     with_community st cid not_found (\<lambda>community.
       check_then st (verify_membership community sender_pseudonym)
         (check_then st (check_permission env community sender_pseudonym required)
            (rest community)))"

section \<open>When the checks pass\<close>

definition authorised :: "request_env \<Rightarrow> hosted_community \<Rightarrow> string \<Rightarrow> u64 \<Rightarrow> bool" where
  "authorised env c sender required \<longleftrightarrow>
     is_creator c sender \<or> has_permission (member_base_permissions env c sender) required"

definition is_member :: "hosted_community \<Rightarrow> string \<Rightarrow> bool" where
  "is_member c key \<longleftrightarrow> key \<in> m_pseudonym_key_hex ` set (c_members c)"

definition insider :: "hosted_community \<Rightarrow> string \<Rightarrow> bool" where
  "insider c key \<longleftrightarrow> c_creator_pseudonym_hex c = key \<or> is_member c key"

definition outranks :: "hosted_community \<Rightarrow> string \<Rightarrow> string \<Rightarrow> bool" where
  "outranks c sender target \<longleftrightarrow>
     is_creator c sender \<or> highest_role_position c target < highest_role_position c sender"

lemma is_member_find: "is_member c key \<longleftrightarrow> find_member c key \<noteq> None"
  by (simp add: is_member_def members.lookup_None_iff)

lemma check_permission_eq:
  "check_permission env c s p =
    (if authorised env c s p then Inr () else Inl (ResError 403 ''insufficient permissions''))"
  by (simp add: check_permission_def authorised_def)

lemma check_hierarchy_eq:
  "check_hierarchy c s t =
    (if outranks c s t then Inr () else Inl (ResError 403 ''target has equal or higher role position''))"
  by (simp add: check_hierarchy_def outranks_def)

lemma verify_membership_eq:
  "verify_membership c s = (if insider c s then Inr () else Inl (ResError 403 ''not a member''))"
  by (auto simp: verify_membership_def insider_def is_member_def list_ex_iff)

lemma check_then_simps [simp]:
  "check_then st (Inl e) rest = (st, e)" "check_then st (Inr u) rest = rest"
  by (simp_all add: check_then_def)

lemma check_then_if:
  "check_then st (if b then Inr () else Inl e) rest = (if b then rest else (st, e))"
  by simp

lemma with_community_simps:
  "get_community st cid = None \<Longrightarrow> with_community st cid err rest = (st, err)"
  "get_community st cid = Some c \<Longrightarrow> with_community st cid err rest = rest c"
  by (simp_all add: with_community_def)

lemmas check_eqs = check_permission_eq check_hierarchy_eq verify_membership_eq check_then_if

text \<open>
  The three ways the common opening can end; a handler that passed it runs on the resolved
  community with an authorised insider.
\<close>

lemma member_with_permission_eq:
  "member_with_permission env st cid s p rest =
    (case get_community st cid of
       None \<Rightarrow> (st, not_found)
     | Some c \<Rightarrow>
         if \<not> insider c s then (st, ResError 403 ''not a member'')
         else if \<not> authorised env c s p then (st, ResError 403 ''insufficient permissions'')
         else rest c)"
  by (simp add: member_with_permission_def with_community_def check_eqs split: option.split)

lemma member_with_permission_cases:
  obtains (fail) e where "member_with_permission env st cid s p rest = (st, e)" and "is_error e"
  | (pass) c where "get_community st cid = Some c" and "insider c s" and "authorised env c s p"
      and "member_with_permission env st cid s p rest = rest c"
proof (cases "get_community st cid")
  case None
  then show ?thesis
    by (intro fail [of not_found]) (simp_all add: member_with_permission_eq not_found_def)
next
  case (Some c)
  show ?thesis
  proof (cases "insider c s \<and> authorised env c s p")
    case True
    with Some show ?thesis by (intro pass [of c]) (simp_all add: member_with_permission_eq)
  next
    case False
    with Some show ?thesis
      by (cases "insider c s") (auto simp: member_with_permission_eq intro: fail)
  qed
qed

text \<open>A non-member has no base permissions, so only members and the creator are authorised.\<close>

lemma authorised_insider:
  assumes "authorised env c s p" and "p \<noteq> 0"
  shows "insider c s"
proof (cases "find_member c s")
  case None
  then have "member_base_permissions env c s = 0" by (simp add: member_base_permissions_def)
  with assms show ?thesis
    by (auto simp: authorised_def has_permission_def is_creator_def insider_def)
next
  case (Some m)
  then show ?thesis by (simp add: insider_def is_member_find)
qed

lemma max_position_Max: "ps \<noteq> [] \<Longrightarrow> max_position ps = Max (set ps)"
  by (cases ps) (simp_all add: max_position_def Max.set_eq_fold del: list.set)

lemma max_position_ge: "p \<in> set ps \<Longrightarrow> p \<le> max_position ps"
  by (subst max_position_Max) auto

lemma max_position_in: "ps \<noteq> [] \<Longrightarrow> max_position ps \<in> set ps"
  by (simp add: max_position_Max)

lemma set_role_positions:
  "set (role_positions c ids) = {rd_position r | r i. i \<in> set ids \<and> find_role c i = Some r}"
  by (induction ids) (auto simp: role_positions_def split: option.splits)

lemma highest_role_position_ge:
  assumes "find_member c s = Some m" and "i \<in> set (m_role_ids m)" and "find_role c i = Some r"
  shows "rd_position r \<le> highest_role_position c s"
proof -
  have "rd_position r \<in> set (role_positions c (m_role_ids m))"
    using assms(2,3) unfolding set_role_positions by blast
  then show ?thesis using assms(1) by (simp add: highest_role_position_def max_position_ge)
qed

text \<open>
  The role hierarchy is read off the roles a member holds: the highest position is the
  position of one of them and bounds all of them, and without an existing role (or without
  membership) it is -1, below every @everyone role at position 0.
\<close>

theorem highest_role_position_spec:
  "case find_member c s of
     None \<Rightarrow> highest_role_position c s = - 1
   | Some m \<Rightarrow>
       (if \<exists>i\<in>set (m_role_ids m). find_role c i \<noteq> None
        then (\<exists>i\<in>set (m_role_ids m). \<exists>r. find_role c i = Some r \<and> highest_role_position c s = rd_position r)
             \<and> (\<forall>i\<in>set (m_role_ids m). \<forall>r. find_role c i = Some r \<longrightarrow> rd_position r \<le> highest_role_position c s)
        else highest_role_position c s = - 1)"
proof (cases "find_member c s")
  case None
  then show ?thesis by (simp add: highest_role_position_def)
next
  case (Some m)
  let ?ps = "role_positions c (m_role_ids m)"
  have h: "highest_role_position c s = max_position ?ps"
    using Some by (simp add: highest_role_position_def)
  show ?thesis
  proof (cases "\<exists>i\<in>set (m_role_ids m). find_role c i \<noteq> None")
    case True
    then have "?ps \<noteq> []" using set_role_positions [of c "m_role_ids m"] by fastforce
    then have "max_position ?ps \<in> set ?ps" by (rule max_position_in)
    then show ?thesis
      using True Some highest_role_position_ge [OF Some]
      by (auto simp: h [symmetric] set_role_positions)
  next
    case False
    then have "set ?ps = {}" unfolding set_role_positions by blast
    then have "?ps = []" by simp
    then show ?thesis using False Some by (simp add: h max_position_def)
  qed
qed

theorem highest_role_position_spec_witness:
  "highest_role_position
     \<lparr>c_community_id = ''c'', c_dht_record_key = [], c_owner_keypair_hex = [], c_name = [],
      c_description = [], c_route_id = None, c_route_blob = None,
      c_mek = \<lparr>mek_key = [], mek_generation = 1\<rparr>, c_members = [], c_channels = [], c_roles = [],
      c_creator_pseudonym_hex = []\<rparr> ''x'' = - 1"
proof -
  let ?c = "\<lparr>c_community_id = ''c'', c_dht_record_key = [], c_owner_keypair_hex = [], c_name = [],
      c_description = [], c_route_id = None, c_route_blob = None,
      c_mek = \<lparr>mek_key = [], mek_generation = 1\<rparr>, c_members = [], c_channels = [], c_roles = [],
      c_creator_pseudonym_hex = []\<rparr>"
  have "find_member ?c ''x'' = None" by (simp add: find_member_def)
  then show ?thesis using highest_role_position_spec [of ?c "''x''"] by simp
qed

end
