(* ===== verification/Membership.thy ===== *)
theory Membership
  imports Guards
begin

text \<open>
  Joining, rejoining, leaving, kicking, banning and unbanning
  (\<open>crates/rekindle-server/src/rpc.rs\<close>). Each handler takes the environment of the request and
  the server state and returns the new state with the response; the order of memory updates,
  SQL statements, publications and broadcasts is the code's. The lemmas describe the roster, the
  key and the creator after each operation.
\<close>

section \<open>Join\<close>

definition build_rejoin_response :: "hosted_community \<Rightarrow> string \<Rightarrow> community_response" where
  "build_rejoin_response community pseudonym_pubkey =
     Joined (mek_payload (c_mek community)) (mek_generation (c_mek community))
       (channels_to_dto community)
       (case find_member community pseudonym_pubkey of None \<Rightarrow> [] | Some m \<Rightarrow> m_role_ids m)
       (roles_to_dto community)"

definition handle_rejoin ::
  "server_state \<Rightarrow> string \<Rightarrow> string \<Rightarrow> bytes option \<Rightarrow> rpc_result option" where
  "handle_rejoin st cid pseudonym_pubkey member_route_blob =
     (case get_community st cid of
        None \<Rightarrow> None
      | Some community \<Rightarrow>
          (case find_member community pseudonym_pubkey of
             None \<Rightarrow> None
           | Some member \<Rightarrow>
               (let st =
                  (case member_route_blob of
                     None \<Rightarrow> st
                   | Some blob \<Rightarrow>
                       sql_run (update_member_route cid pseudonym_pubkey blob)
                         (modify_community cid (modify_member pseudonym_pubkey
                            (\<lambda>m. m\<lparr>m_route_blob := Some blob\<rparr>)) st))
                in map_option (\<lambda>c. (st, build_rejoin_response c pseudonym_pubkey))
                     (get_community st cid))))"

type_synonym join_result = "bytes \<times> u64 \<times> channel_info_dto list \<times> u32 list \<times> role_dto list"

definition owner_role_ids :: "u32 list" where
  "owner_role_ids = [role_everyone_id, 1, 2, 3, 4]"

definition new_member_role_ids :: "u32 list" where
  "new_member_role_ids = [role_everyone_id, 1]"

definition insert_member_roles :: "string \<Rightarrow> string \<Rightarrow> u32 list \<Rightarrow> server_state \<Rightarrow> server_state" where
  "insert_member_roles cid key role_ids st =
     fold (\<lambda>rid. sql_run (insert_ignore_member_role
             \<lparr>xr_community_id = cid, xr_pseudonym = key, xr_role_id = uint rid\<rparr>)) role_ids st"

definition is_first_member :: "server_state \<Rightarrow> string \<Rightarrow> bool" where
  "is_first_member st cid =
     (case get_community st cid of None \<Rightarrow> False | Some c \<Rightarrow> c_members c = [])"

definition new_member :: "request_env \<Rightarrow> string \<Rightarrow> string \<Rightarrow> u32 list \<Rightarrow> bytes option \<Rightarrow> server_member" where
  "new_member env key display_name role_ids route_blob =
     \<lparr>m_pseudonym_key_hex = key, m_display_name = display_name, m_role_ids = role_ids,
      m_joined_at = timestamp_now env, m_route_blob = route_blob, m_timeout_until = None\<rparr>"

definition push_member :: "server_member \<Rightarrow> hosted_community \<Rightarrow> hosted_community" where
  "push_member m c = c\<lparr>c_members := c_members c @ [m]\<rparr>"

definition add_new_member ::
  "request_env \<Rightarrow> server_state \<Rightarrow> string \<Rightarrow> string \<Rightarrow> string \<Rightarrow> bytes option
   \<Rightarrow> server_state \<times> join_result option" where
  "add_new_member env st cid pseudonym_pubkey display_name member_route_blob =
     (let first = is_first_member st cid;
          default_role_ids = (if first then owner_role_ids else new_member_role_ids);
          st = sql_run (insert_ignore_member
                 \<lparr>mr_community_id = cid, mr_pseudonym = pseudonym_pubkey,
                  mr_display_name = Some display_name, mr_joined_at = timestamp_now env,
                  mr_route_blob = None\<rparr>) st;
          st = insert_member_roles cid pseudonym_pubkey default_role_ids st
      in case get_community st cid of
           None \<Rightarrow> (st, None)
         | Some _ \<Rightarrow>
             (let st = (if first
                        then sql_run (update_hosted cid (\<lambda>r. r\<lparr>hr_creator_pseudonym := pseudonym_pubkey\<rparr>))
                               (modify_community cid
                                  (\<lambda>c. c\<lparr>c_creator_pseudonym_hex := pseudonym_pubkey\<rparr>) st)
                        else st);
                  st = modify_community cid (push_member
                         (new_member env pseudonym_pubkey display_name default_role_ids
                            member_route_blob)) st;
                  st = (case member_route_blob of
                          None \<Rightarrow> st
                        | Some blob \<Rightarrow> sql_run (update_member_route cid pseudonym_pubkey blob) st)
              in (st, map_option (\<lambda>c. (mek_payload (c_mek c), mek_generation (c_mek c),
                         channels_to_dto c, default_role_ids, roles_to_dto c))
                       (get_community st cid))))"

definition handle_join ::
  "request_env \<Rightarrow> server_state \<Rightarrow> string \<Rightarrow> string \<Rightarrow> bytes option \<Rightarrow> route_id option
   \<Rightarrow> string option \<Rightarrow> rpc_result" where
  "handle_join env st pseudonym_pubkey display_name member_route_blob incoming_route_id
     ipc_community_id =
     (case (case ipc_community_id of
              Some cid \<Rightarrow> Some cid
            | None \<Rightarrow> Option.bind incoming_route_id (find_community_for_route st)) of
        None \<Rightarrow> (st, ResError 404 ''no hosted community matches this route'')
      | Some cid \<Rightarrow>
          if ipc_community_id \<noteq> None \<and> get_community st cid = None
          then (st, not_found)
          else
            (let (banned, st) = sql_query (is_banned_row cid pseudonym_pubkey) st
             in if banned = Some True
                then (st, ResError 403 ''you are banned from this community'')
                else
                  case handle_rejoin st cid pseudonym_pubkey member_route_blob of
                    Some res \<Rightarrow> res
                  | None \<Rightarrow>
                      (case add_new_member env st cid pseudonym_pubkey display_name
                              member_route_blob of
                         (st, None) \<Rightarrow> (st, not_found)
                       | (st, Some (payload, gen, channels, role_ids, roles)) \<Rightarrow>
                           (let st = publish_member_roster env cid st;
                                st = broadcast_to_members cid pseudonym_pubkey
                                       (MemberJoined cid pseudonym_pubkey display_name role_ids) st
                            in (st, Joined payload gen channels role_ids roles)))))"

section \<open>Leave, kick, ban\<close>

definition rotate_community_mek :: "request_env \<Rightarrow> string \<Rightarrow> server_state \<Rightarrow> server_state" where
  "rotate_community_mek env cid st =
     (case get_community st cid of
        None \<Rightarrow> st
      | Some c \<Rightarrow>
          (let (mek, st) = rotate_mek env st cid (mek_generation (c_mek c) + 1)
           in modify_community cid (\<lambda>c. c\<lparr>c_mek := mek\<rparr>) st))"

definition handle_leave :: "request_env \<Rightarrow> server_state \<Rightarrow> string \<Rightarrow> string \<Rightarrow> rpc_result" where
  "handle_leave env st cid sender_pseudonym =
     check_then st
       (case get_community st cid of
          None \<Rightarrow> Inr ()
        | Some community \<Rightarrow> verify_membership community sender_pseudonym)
       (let st = sql_run (delete_member cid sender_pseudonym) st;
            st = modify_community cid (remove_member sender_pseudonym) st;
            st = rotate_community_mek env cid st;
            st = publish_member_roster env cid st;
            st = publish_mek_bundle env cid st;
            st = broadcast_to_members cid sender_pseudonym (MemberRemoved cid sender_pseudonym) st;
            st = (case get_community st cid of
                    None \<Rightarrow> st
                  | Some c \<Rightarrow> broadcast_to_members cid sender_pseudonym
                                (MEKRotated cid (mek_generation (c_mek c))) st)
        in (st, ResOk))"

text \<open>The message contains an em dash, three bytes in UTF-8.\<close>

definition kick_self_message :: string where
  "kick_self_message =
     ''cannot kick yourself '' @ [CHR 0xE2, CHR 0x80, CHR 0x94] @ '' use Leave instead''"

definition handle_kick ::
  "request_env \<Rightarrow> server_state \<Rightarrow> string \<Rightarrow> string \<Rightarrow> string \<Rightarrow> rpc_result" where
  "handle_kick env st cid sender_pseudonym target_pseudonym =
     with_community st cid (ResError 403 ''not a member'') (\<lambda>community.
       check_then st (check_permission env community sender_pseudonym KICK_MEMBERS)
         (if sender_pseudonym = target_pseudonym then (st, ResError 400 kick_self_message)
          else check_then st (check_hierarchy community sender_pseudonym target_pseudonym)
                 (handle_leave env st cid target_pseudonym)))"

definition handle_ban ::
  "request_env \<Rightarrow> server_state \<Rightarrow> string \<Rightarrow> string \<Rightarrow> string \<Rightarrow> rpc_result" where
  "handle_ban env st cid sender_pseudonym target_pseudonym =
     member_with_permission env st cid sender_pseudonym BAN_MEMBERS (\<lambda>community.
       if sender_pseudonym = target_pseudonym then (st, ResError 400 ''cannot ban yourself'')
       else check_then st (check_hierarchy community sender_pseudonym target_pseudonym)
         (let display_name = (case find_member community target_pseudonym of
                                None \<Rightarrow> [] | Some m \<Rightarrow> m_display_name m);
              st = sql_run (replace_banned \<lparr>br_community_id = cid, br_pseudonym = target_pseudonym,
                     br_display_name = display_name, br_banned_at = timestamp_now env\<rparr>) st
          in handle_leave env st cid target_pseudonym))"

definition handle_unban ::
  "request_env \<Rightarrow> server_state \<Rightarrow> string \<Rightarrow> string \<Rightarrow> string \<Rightarrow> rpc_result" where
  "handle_unban env st cid sender_pseudonym target_pseudonym =
     member_with_permission env st cid sender_pseudonym BAN_MEMBERS (\<lambda>community.
       (sql_run (delete_banned (c_community_id community) target_pseudonym) st, ResOk))"

definition banned_to_dto :: "banned_row \<Rightarrow> banned_member_dto" where
  "banned_to_dto r = \<lparr>bdto_pseudonym_key = br_pseudonym r, bdto_display_name = br_display_name r,
     bdto_banned_at = u64_or_zero (br_banned_at r)\<rparr>"

definition handle_get_ban_list ::
  "request_env \<Rightarrow> server_state \<Rightarrow> string \<Rightarrow> string \<Rightarrow> rpc_result" where
  "handle_get_ban_list env st cid sender_pseudonym =
     member_with_permission env st cid sender_pseudonym BAN_MEMBERS (\<lambda>community.
       (let (rows, st) = sql_query (select_banned (c_community_id community)) st
        in (st, BanList (map banned_to_dto (case rows of None \<Rightarrow> [] | Some rs \<Rightarrow> rs)))))"

section \<open>Frames\<close>

lemma insert_member_roles_frame [frame_simps]:
  "hosted (insert_member_roles cid key ids st) = hosted st"
  "outbox (insert_member_roles cid key ids st) = outbox st"
  "get_community (insert_member_roles cid key ids st) = get_community st"
proof -
  show h: "hosted (insert_member_roles cid key ids st) = hosted st"
    by (induction ids arbitrary: st) (simp_all add: insert_member_roles_def frame_simps)
  show "outbox (insert_member_roles cid key ids st) = outbox st"
    by (induction ids arbitrary: st) (simp_all add: insert_member_roles_def frame_simps)
  show "get_community (insert_member_roles cid key ids st) = get_community st"
    using h by (rule get_community_cong)
qed

lemma push_member_frame [frame_simps]:
  "c_members (push_member m c) = c_members c @ [m]" "c_roles (push_member m c) = c_roles c"
  "c_channels (push_member m c) = c_channels c" "c_mek (push_member m c) = c_mek c"
  "c_creator_pseudonym_hex (push_member m c) = c_creator_pseudonym_hex c"
  "c_name (push_member m c) = c_name c" "c_description (push_member m c) = c_description c"
  "c_community_id (push_member m c) = c_community_id c"
  by (simp_all add: push_member_def)

lemma get_rotate_community_mek [frame_simps]:
  "get_community (rotate_community_mek env cid st) a =
    (if a = cid
     then map_option (\<lambda>c. c\<lparr>c_mek := mek_generate env (mek_generation (c_mek c) + 1)\<rparr>) (get_community st a)
     else get_community st a)"
  by (auto simp: rotate_community_mek_def frame_simps case_prod_unfold Let_def split: option.split)

text \<open>
  What leaving does to the hosted communities: the leaver is gone and the key is replaced.
\<close>

definition after_leave :: "request_env \<Rightarrow> string \<Rightarrow> hosted_community \<Rightarrow> hosted_community" where
  "after_leave env key c =
     (remove_member key c)\<lparr>c_mek := mek_generate env (mek_generation (c_mek c) + 1)\<rparr>"

lemma after_leave_fields [frame_simps]:
  "c_members (after_leave env key c) = filter (\<lambda>m. m_pseudonym_key_hex m \<noteq> key) (c_members c)"
  "c_roles (after_leave env key c) = c_roles c" "c_channels (after_leave env key c) = c_channels c"
  "c_creator_pseudonym_hex (after_leave env key c) = c_creator_pseudonym_hex c"
  "c_name (after_leave env key c) = c_name c" "c_description (after_leave env key c) = c_description c"
  "c_community_id (after_leave env key c) = c_community_id c"
  "c_mek (after_leave env key c) = mek_generate env (mek_generation (c_mek c) + 1)"
  by (simp_all add: after_leave_def members.items_remove frame_simps)

lemma handle_leave_hosted:
  assumes "snd (handle_leave env st cid key) = ResOk"
  shows "get_community (fst (handle_leave env st cid key)) a =
    (if a = cid then map_option (after_leave env key) (get_community st a) else get_community st a)"
  using assms
  by (auto simp: handle_leave_def check_then_def Let_def frame_simps after_leave_def
      verify_membership_eq option.map_comp comp_def split: option.splits sum.splits if_splits)

lemma handle_leave_refused:
  assumes "get_community st cid = Some c" and "\<not> insider c key"
  shows "handle_leave env st cid key = (st, ResError 403 ''not a member'')"
  using assms by (simp add: handle_leave_def verify_membership_eq)

lemma handle_leave_ok:
  assumes "get_community st cid = Some c" and "insider c key"
  shows "snd (handle_leave env st cid key) = ResOk"
  using assms by (simp add: handle_leave_def verify_membership_eq Let_def)

end
