(* ===== verification/Channels.thy ===== *)
theory Channels
  imports Membership
begin

text \<open>
  Messages, the media encryption key on request, channels, channel permission overwrites and
  community metadata (\<open>crates/rekindle-server/src/rpc.rs\<close>). The lemmas say what each handler does
  to the hosted community and to the message table.
\<close>

section \<open>Messages\<close>

definition send_permission_ok ::
  "request_env \<Rightarrow> hosted_community \<Rightarrow> string \<Rightarrow> string \<Rightarrow> bool" where
  "send_permission_ok env community sender_pseudonym channel_id =
     (case find_member community sender_pseudonym of
        None \<Rightarrow> True
      | Some member \<Rightarrow>
          (let ch_overwrites = (case find_channel community channel_id of
                                  None \<Rightarrow> [] | Some ch \<Rightarrow> ch_permission_overwrites ch);
               perms = calculate_permissions (now_secs env) (m_role_ids member) (c_roles community)
                         ch_overwrites sender_pseudonym (m_timeout_until member)
           in has_permission perms SEND_MESSAGES))"

definition mek_mismatch_message :: "u64 \<Rightarrow> u64 \<Rightarrow> string" where
  "mek_mismatch_message sent current =
     ''MEK generation mismatch: sent '' @ show_nat (unat sent) @ '', current is ''
     @ show_nat (unat current) @ ''. Request new MEK.''"

definition handle_send_message ::
  "request_env \<Rightarrow> server_state \<Rightarrow> string \<Rightarrow> string \<Rightarrow> string \<Rightarrow> bytes \<Rightarrow> u64 \<Rightarrow> rpc_result" where
  "handle_send_message env st cid sender_pseudonym channel_id ciphertext generation =
     with_community st cid not_found (\<lambda>community.
       check_then st (verify_membership community sender_pseudonym)
         (if \<not> send_permission_ok env community sender_pseudonym channel_id
          then (st, ResError 403 ''you do not have permission to send messages in this channel'')
          else if generation \<noteq> mek_generation (c_mek community)
          then (st, ResError 409 (mek_mismatch_message generation (mek_generation (c_mek community))))
          else
            (let (ok, st) = sql_execute (insert_message cid channel_id sender_pseudonym ciphertext
                              (i64_or_max generation) (timestamp_now env)) st
             in if \<not> ok then (st, ResError 500 ''failed to store message'')
                else (broadcast_to_members cid sender_pseudonym
                        (NewMessage cid channel_id sender_pseudonym ciphertext generation
                           (u64_or_zero (timestamp_now env))) st, ResOk))))"

definition message_to_dto :: "message_row \<Rightarrow> channel_message_dto" where
  "message_to_dto r = \<lparr>mdto_sender_pseudonym = sm_sender r, mdto_ciphertext = sm_ciphertext r,
     mdto_mek_generation = u64_or_zero (sm_mek_generation r),
     mdto_timestamp = u64_or_zero (sm_timestamp r)\<rparr>"

definition handle_get_messages ::
  "request_env \<Rightarrow> server_state \<Rightarrow> string \<Rightarrow> string \<Rightarrow> string \<Rightarrow> u64 option \<Rightarrow> u32 \<Rightarrow> rpc_result" where
  "handle_get_messages env st cid sender_pseudonym channel_id before_timestamp limit =
     check_then st
       (case get_community st cid of
          None \<Rightarrow> Inr ()
        | Some community \<Rightarrow> verify_membership community sender_pseudonym)
       (let (rows, st) = sql_query (select_messages cid channel_id
                           (map_option i64_or_max before_timestamp) (unat (min limit 500))) st
        in case rows of
             None \<Rightarrow> (st, ResError 500 ''failed to query messages'')
           | Some rs \<Rightarrow> (st, Messages (rev (map message_to_dto rs))))"

section \<open>Key requests and rotation\<close>

definition handle_request_mek :: "server_state \<Rightarrow> string \<Rightarrow> string \<Rightarrow> rpc_result" where
  "handle_request_mek st cid sender_pseudonym =
     with_community st cid not_found (\<lambda>community.
       check_then st (verify_membership community sender_pseudonym)
         (st, MEK (mek_payload (c_mek community)) (mek_generation (c_mek community))))"

definition handle_rotate_mek :: "request_env \<Rightarrow> server_state \<Rightarrow> string \<Rightarrow> string \<Rightarrow> rpc_result" where
  "handle_rotate_mek env st cid sender_pseudonym =
     member_with_permission env st cid sender_pseudonym MANAGE_COMMUNITY (\<lambda>community.
       (let new_gen = mek_generation (c_mek community) + 1;
            st = rotate_community_mek env cid st;
            st = publish_mek_bundle env cid st;
            st = broadcast_to_members cid [] (MEKRotated cid new_gen) st
        in (st, ResOk)))"

section \<open>Channels\<close>

definition new_channel :: "request_env \<Rightarrow> hosted_community \<Rightarrow> string \<Rightarrow> string \<Rightarrow> server_channel" where
  "new_channel env community name channel_type =
     \<lparr>ch_id = ''channel_'' @ hex_encode (rand_channel env), ch_name = name,
      ch_channel_type = channel_type,
      ch_sort_order = min (int (length (c_channels community))) i32_max,
      ch_permission_overwrites = []\<rparr>"

definition push_channel :: "server_channel \<Rightarrow> hosted_community \<Rightarrow> hosted_community" where
  "push_channel ch c = c\<lparr>c_channels := c_channels c @ [ch]\<rparr>"

definition invalid_channel_type_message :: "string \<Rightarrow> string" where
  "invalid_channel_type_message channel_type =
     ''invalid channel type '' @ [CHR 0x27] @ channel_type @ [CHR 0x27] @ '': must be '' @ [CHR 0x27]
     @ ''text'' @ [CHR 0x27] @ '' or '' @ [CHR 0x27] @ ''voice'' @ [CHR 0x27]"

definition handle_create_channel ::
  "request_env \<Rightarrow> server_state \<Rightarrow> string \<Rightarrow> string \<Rightarrow> string \<Rightarrow> string \<Rightarrow> rpc_result" where
  "handle_create_channel env st cid sender_pseudonym name channel_type =
     member_with_permission env st cid sender_pseudonym MANAGE_CHANNELS (\<lambda>community.
       if channel_type \<noteq> ''text'' \<and> channel_type \<noteq> ''voice''
       then (st, ResError 400 (invalid_channel_type_message channel_type))
       else
         (let channel = new_channel env community name channel_type;
              (ok, st) = sql_execute (insert_channel
                \<lparr>cr_community_id = c_community_id community, cr_id = ch_id channel,
                 cr_name = ch_name channel, cr_channel_type = ch_channel_type channel,
                 cr_sort_order = ch_sort_order channel\<rparr>) st
          in if \<not> ok then (st, ResError 500 ''failed to create channel'')
             else (modify_community cid (push_channel channel) st, ChannelCreated (ch_id channel))))"

definition handle_delete_channel ::
  "request_env \<Rightarrow> server_state \<Rightarrow> string \<Rightarrow> string \<Rightarrow> string \<Rightarrow> rpc_result" where
  "handle_delete_channel env st cid sender_pseudonym channel_id =
     member_with_permission env st cid sender_pseudonym MANAGE_CHANNELS (\<lambda>community.
       (sql_run (delete_channel (c_community_id community) channel_id)
          (modify_community cid (remove_channel channel_id) st), ResOk))"

definition handle_rename_channel ::
  "request_env \<Rightarrow> server_state \<Rightarrow> string \<Rightarrow> string \<Rightarrow> string \<Rightarrow> string \<Rightarrow> rpc_result" where
  "handle_rename_channel env st cid sender_pseudonym channel_id new_name =
     member_with_permission env st cid sender_pseudonym MANAGE_CHANNELS (\<lambda>community.
       case find_channel community channel_id of
         None \<Rightarrow> (st, ResError 404 ''channel not found'')
       | Some _ \<Rightarrow>
           (sql_run (rename_channel (c_community_id community) channel_id new_name)
              (modify_community cid (modify_channel channel_id (\<lambda>ch. ch\<lparr>ch_name := new_name\<rparr>)) st),
            ResOk))"

section \<open>Channel permission overwrites\<close>

definition parse_overwrite_type :: "string \<Rightarrow> overwrite_type" where
  "parse_overwrite_type target_type = (if target_type = ''member'' then OwMember else OwRole)"

definition upsert_overwrite ::
  "permission_overwrite \<Rightarrow> permission_overwrite list \<Rightarrow> permission_overwrite list" where
  "upsert_overwrite ow ows =
     (case List.find (\<lambda>o'. ow_key o' = ow_key ow) ows of
        Some _ \<Rightarrow> update_first (\<lambda>o'. ow_key o' = ow_key ow)
                    (\<lambda>o'. o'\<lparr>ow_allow := ow_allow ow, ow_deny := ow_deny ow\<rparr>) ows
      | None \<Rightarrow> ows @ [ow])"

definition handle_set_channel_overwrite ::
  "request_env \<Rightarrow> server_state \<Rightarrow> string \<Rightarrow> string \<Rightarrow> string \<Rightarrow> string \<Rightarrow> string \<Rightarrow> u64 \<Rightarrow> u64 \<Rightarrow> rpc_result"
  where
  "handle_set_channel_overwrite env st cid sender_pseudonym channel_id target_type target_id
     allow deny =
     member_with_permission env st cid sender_pseudonym MANAGE_ROLES (\<lambda>community.
       case find_channel community channel_id of
         None \<Rightarrow> (st, ResError 404 ''channel not found'')
       | Some _ \<Rightarrow>
           (let ow = \<lparr>ow_target_type = parse_overwrite_type target_type, ow_target_id = target_id,
                      ow_allow = allow, ow_deny = deny\<rparr>;
                st = modify_community cid (modify_channel channel_id
                       (\<lambda>ch. ch\<lparr>ch_permission_overwrites :=
                          upsert_overwrite ow (ch_permission_overwrites ch)\<rparr>)) st;
                st = sql_run (replace_overwrite
                       \<lparr>or_community_id = c_community_id community, or_channel_id = channel_id,
                        or_target_type = target_type, or_target_id = target_id,
                        or_allow_bits = cast_signed allow, or_deny_bits = cast_signed deny\<rparr>) st;
                st = broadcast_to_members cid [] (ChannelOverwriteChanged cid channel_id) st
            in (st, ResOk)))"

definition handle_delete_channel_overwrite ::
  "request_env \<Rightarrow> server_state \<Rightarrow> string \<Rightarrow> string \<Rightarrow> string \<Rightarrow> string \<Rightarrow> string \<Rightarrow> rpc_result" where
  "handle_delete_channel_overwrite env st cid sender_pseudonym channel_id target_type target_id =
     member_with_permission env st cid sender_pseudonym MANAGE_ROLES (\<lambda>community.
       (let st = modify_community cid (modify_channel channel_id
                   (\<lambda>ch. ch\<lparr>ch_permission_overwrites :=
                      filter (\<lambda>ow. \<not> (ow_target_type ow = parse_overwrite_type target_type
                                      \<and> ow_target_id ow = target_id))
                        (ch_permission_overwrites ch)\<rparr>)) st;
            st = sql_run (delete_overwrite (c_community_id community) channel_id target_type
                   target_id) st
        in (st, ResOk)))"

section \<open>Community metadata\<close>

definition handle_update_community ::
  "request_env \<Rightarrow> server_state \<Rightarrow> string \<Rightarrow> string \<Rightarrow> string option \<Rightarrow> string option \<Rightarrow> rpc_result"
  where
  "handle_update_community env st cid sender_pseudonym new_name new_description =
     member_with_permission env st cid sender_pseudonym MANAGE_COMMUNITY (\<lambda>community.
       (let st = modify_community cid
                   (\<lambda>c. c\<lparr>c_name := (case new_name of None \<Rightarrow> c_name c | Some n \<Rightarrow> n),
                         c_description := (case new_description of None \<Rightarrow> c_description c | Some d \<Rightarrow> d)\<rparr>) st;
            st = (case new_name of None \<Rightarrow> st
                  | Some n \<Rightarrow> sql_run (update_hosted cid (\<lambda>r. r\<lparr>hr_name := n\<rparr>)) st);
            st = (case new_description of None \<Rightarrow> st
                  | Some d \<Rightarrow> sql_run (update_hosted cid (\<lambda>r. r\<lparr>hr_description := d\<rparr>)) st);
            st = (case get_community st cid of None \<Rightarrow> st
                  | Some c \<Rightarrow> publish_metadata env cid (c_name c) st)
        in (st, CommunityUpdated)))"

section \<open>Overwrites stay unique per target\<close>

lemma ow_key_upsert:
  "map ow_key (upsert_overwrite ow ows) =
    (if ow_key ow \<in> set (map ow_key ows) then map ow_key ows else map ow_key ows @ [ow_key ow])"
proof (cases "List.find (\<lambda>o'. ow_key o' = ow_key ow) ows")
  case None
  then have "ow_key ow \<notin> set (map ow_key ows)" by (auto simp: find_None_iff_all)
  with None show ?thesis by (simp add: upsert_overwrite_def)
next
  case (Some o1)
  then have "o1 \<in> set ows" "ow_key o1 = ow_key ow" using find_SomeD by fast+
  then have "ow_key ow \<in> set (map ow_key ows)" using imageI [of o1 "set ows" ow_key] by simp
  with Some show ?thesis by (simp add: upsert_overwrite_def ow_key_def)
qed

lemma distinct_upsert_overwrite:
  "distinct (map ow_key ows) \<Longrightarrow> distinct (map ow_key (upsert_overwrite ow ows))"
  by (simp add: ow_key_upsert)

lemma find_upsert_overwrite:
  "List.find (\<lambda>x. ow_key x = k) (upsert_overwrite ow ows) =
    (if k = ow_key ow then Some ow else List.find (\<lambda>x. ow_key x = k) ows)"
proof (cases "List.find (\<lambda>o'. ow_key o' = ow_key ow) ows")
  case None
  then show ?thesis by (auto simp: upsert_overwrite_def find_append split: option.split)
next
  case (Some o1)
  then have k: "ow_key o1 = ow_key ow" using find_SomeD by fast
  have "o1\<lparr>ow_allow := ow_allow ow, ow_deny := ow_deny ow\<rparr> = ow"
    using k by (cases o1, cases ow) (simp add: ow_key_def)
  moreover have "\<And>x. ow_key (x\<lparr>ow_allow := a, ow_deny := d\<rparr>) = ow_key x" for a d
    by (simp add: ow_key_def)
  ultimately show ?thesis using Some
    by (simp add: upsert_overwrite_def find_key_update_first [where k = ow_key])
qed

section \<open>Message selection\<close>

lemma select_messages_mem:
  "r \<in> set (select_messages cid chid before n d) \<Longrightarrow>
    r \<in> set (t_messages d) \<and> sm_community_id r = cid \<and> sm_channel_id r = chid \<and>
    (case before of None \<Rightarrow> True | Some b \<Rightarrow> sm_timestamp r < b)"
  by (auto simp: select_messages_def dest!: in_set_takeD)

lemma sorted_select_messages:
  "sorted (map (\<lambda>r. - sm_timestamp r) (select_messages cid chid before n d))"
proof -
  have "sorted (map (\<lambda>r. - sm_timestamp r) (sort_key (\<lambda>r. - sm_timestamp r) xs))" for xs
    by (rule sorted_sort_key)
  then show ?thesis
    unfolding select_messages_def take_map [symmetric] by (rule sorted_wrt_take)
qed

end
