(* ===== verification/Protocol.thy ===== *)
theory Protocol
  imports Prelude
begin

text \<open>
  The signed envelope of a message (\<open>crates/rekindle-protocol/src/messaging/envelope.rs\<close>) and the
  errors of the protocol crate (\<open>error.rs\<close>).
\<close>

record message_envelope =
  e_sender_key :: bytes
  e_timestamp :: u64
  e_nonce :: bytes
  e_payload :: bytes
  e_signature :: bytes

datatype protocol_error =
    NodeStartup string
  | AttachFailed string
  | NodeNotInitialized
  | DhtError string
  | RoutingError string
  | SendFailed string
  | ReceiveFailed string
  | Serialization string
  | Deserialization string
  | Network string
  | Verification string
  | PeerNotFound string
  | CryptoError string
  | Internal string

end
