(* ===== verification/Capnp.thy ===== *)
theory Capnp
  imports Protocol
begin

text \<open>
  What \<open>crates/rekindle-protocol/src/capnp_codec.rs\<close> uses of Cap'n Proto. The bindings generated
  from \<open>schemas/*.capnp\<close> read and write structs: scalar fields, which are zero when unset, and
  pointer fields, which are null when unset. Packing a struct into bytes and finding the root
  struct in bytes are operations of the \<open>capnp\<close> crate, parameters of the model; a pointer in
  bytes from elsewhere may be malformed, which shows when it is followed.
\<close>

section \<open>Text\<close>

text \<open>A Rust string is the list of its UTF-8 bytes.\<close>

definition as_bytes :: "string \<Rightarrow> bytes" where
  "as_bytes s = map (\<lambda>c. of_nat (of_char c)) s"

definition bytes_as_string :: "bytes \<Rightarrow> string" where
  "bytes_as_string b = map (\<lambda>x. char_of (unat x)) b"

definition between :: "u8 \<Rightarrow> u8 \<Rightarrow> u8 \<Rightarrow> bool" where
  "between a b x \<longleftrightarrow> a \<le> x \<and> x \<le> b"

text \<open>
  The length of the first character of a byte string, or of the longest start of one that it
  has: the standard replaces that many bytes by one U+FFFD.
\<close>

definition second_ok :: "u8 \<Rightarrow> u8 \<Rightarrow> bool" where
  "second_ok a b \<longleftrightarrow>
     (if a = 0xE0 then between 0xA0 0xBF b
      else if a = 0xED then between 0x80 0x9F b
      else if a = 0xF0 then between 0x90 0xBF b
      else if a = 0xF4 then between 0x80 0x8F b
      else between 0x80 0xBF b)"

definition char_width :: "u8 \<Rightarrow> nat" where
  "char_width a =
     (if a < 0x80 then 1 else if between 0xC2 0xDF a then 2 else if between 0xE0 0xEF a then 3
      else if between 0xF0 0xF4 a then 4 else 0)"

fun continued :: "nat \<Rightarrow> bytes \<Rightarrow> nat" where
  "continued (Suc n) (b # bs) = (if between 0x80 0xBF b then Suc (continued n bs) else 0)"
| "continued _ _ = 0"

definition first_char :: "bytes \<Rightarrow> bool \<times> nat" where
  "first_char bs =
     (case bs of
        [] \<Rightarrow> (True, 0)
      | a # rest \<Rightarrow>
          let w = char_width a;
              n = (case rest of b # rest' \<Rightarrow> if 2 \<le> w \<and> second_ok a b then Suc (continued (w - 2) rest') else 0
                   | [] \<Rightarrow> 0)
          in (Suc n = w, Suc n))"

function utf8_valid :: "bytes \<Rightarrow> bool" where
  "utf8_valid [] = True"
| "utf8_valid (a # bs) = (fst (first_char (a # bs)) \<and> utf8_valid (drop (snd (first_char (a # bs))) (a # bs)))"
  by pat_completeness auto
termination by (relation "measure length") (auto simp: first_char_def Let_def)

text \<open>\<open>String::from_utf8_lossy\<close>.\<close>

function from_utf8_lossy :: "bytes \<Rightarrow> bytes" where
  "from_utf8_lossy [] = []"
| "from_utf8_lossy (a # bs) =
     (let (good, n) = first_char (a # bs)
      in (if good then take n (a # bs) else [0xEF, 0xBF, 0xBD]) @ from_utf8_lossy (drop n (a # bs)))"
  by pat_completeness auto
termination by (relation "measure length") (auto simp: first_char_def Let_def)

definition rust_string :: "string \<Rightarrow> bool" where
  "rust_string s \<longleftrightarrow> utf8_valid (as_bytes s)"

lemma bytes_as_string_as_bytes [simp]: "bytes_as_string (as_bytes s) = s"
  unfolding as_bytes_def bytes_as_string_def map_map o_def
  by (rule map_idI) (simp add: unat_of_nat)

lemma as_bytes_eq_Nil [simp]: "as_bytes s = [] \<longleftrightarrow> s = []"
  by (simp add: as_bytes_def)

lemma as_bytes_Nil [simp]: "as_bytes [] = []"
  by (simp add: as_bytes_def)

lemma rust_string_Nil [simp]: "rust_string []"
  by (simp add: rust_string_def)

lemma from_utf8_lossy_valid: "utf8_valid b \<Longrightarrow> from_utf8_lossy b = b"
  by (induction b rule: utf8_valid.induct) (simp_all add: Let_def split_def)

lemma first_char_ascii: "a < 0x80 \<Longrightarrow> first_char (a # bs) = (True, 1)"
  by (cases bs) (simp_all add: first_char_def char_width_def Let_def)

lemma utf8_valid_ascii: "a < 0x80 \<Longrightarrow> utf8_valid bs \<Longrightarrow> utf8_valid (a # bs)"
  unfolding utf8_valid.simps(2) by (simp add: first_char_ascii)

lemma ascii_rust_string: "list_all (\<lambda>c. (of_char c :: nat) < 128) s \<Longrightarrow> rust_string s"
  unfolding rust_string_def
proof (induction s)
  case (Cons c s)
  have "(of_nat (of_char c) :: u8) < 0x80"
    using Cons.prems by (simp add: word_less_nat_alt unat_of_nat)
  with Cons show ?case unfolding as_bytes_def list.map by (intro utf8_valid_ascii) (simp_all add: as_bytes_def)
qed (simp add: as_bytes_def)

section \<open>Results\<close>

definition try_result :: "'e + 'a \<Rightarrow> ('a \<Rightarrow> 'e + 'b) \<Rightarrow> 'e + 'b" where
  "try_result r f = (case r of Inl e \<Rightarrow> Inl e | Inr x \<Rightarrow> f x)"

lemma try_result_simps [simp]:
  "try_result (Inr x) f = f x" "try_result (Inl e) f = Inl e"
  by (simp_all add: try_result_def)

text \<open>A \<open>for\<close> loop that pushes \<open>f(x)?\<close>.\<close>

fun collect_results :: "('a \<Rightarrow> 'e + 'b) \<Rightarrow> 'a list \<Rightarrow> 'e + 'b list" where
  "collect_results f [] = Inr []"
| "collect_results f (x # xs) =
     try_result (f x) (\<lambda>y. try_result (collect_results f xs) (\<lambda>ys. Inr (y # ys)))"

lemma collect_results_Inr:
  "(\<And>x. x \<in> set xs \<Longrightarrow> f (g x) = Inr (h x)) \<Longrightarrow> collect_results f (map g xs) = Inr (map h xs)"
  by (induction xs) simp_all

section \<open>Pointers\<close>

datatype 'a ptr = Null | Target 'a | Malformed string

text \<open>The texts of library errors.\<close>

record error_texts =
  utf8_text :: "bytes \<Rightarrow> string"
  enum_text :: "u16 \<Rightarrow> string"

record 's capnp =
  texts :: error_texts
  write_message :: "'s \<Rightarrow> bytes"
  read_message :: "bytes \<Rightarrow> string + 's"

text \<open>
  Reading back what was written gives the struct that was written. The reader stops at 64 MiB;
  the messages and values Veilid carries are at most 32 KiB.
\<close>

definition capnp_lawful :: "('s \<Rightarrow> bool) \<Rightarrow> 's capnp \<Rightarrow> bool" where
  "capnp_lawful built cp \<longleftrightarrow> (\<forall>s. built s \<longrightarrow> read_message cp (write_message cp s) = Inr s)"

definition intact :: "'a ptr \<Rightarrow> bool" where
  "intact p \<longleftrightarrow> (case p of Malformed _ \<Rightarrow> False | _ \<Rightarrow> True)"

definition capnp_err :: "string \<Rightarrow> protocol_error" where
  "capnp_err e = Deserialization (''capnp: '' @ e)"

text \<open>\<open>has_\<close> and \<open>get_\<close> of a pointer field; \<open>d\<close> is the default of the type.\<close>

definition has :: "'a ptr \<Rightarrow> bool" where
  "has p \<longleftrightarrow> (case p of Null \<Rightarrow> False | _ \<Rightarrow> True)"

definition follow :: "'a \<Rightarrow> 'a ptr \<Rightarrow> protocol_error + 'a" where
  "follow d p = (case p of Null \<Rightarrow> Inr d | Target x \<Rightarrow> Inr x | Malformed e \<Rightarrow> Inl (capnp_err e))"

definition text_to_string :: "error_texts \<Rightarrow> bytes \<Rightarrow> protocol_error + string" where
  "text_to_string tx t =
     (if utf8_valid t then Inr (bytes_as_string t)
      else Inl (Deserialization (''invalid UTF-8 in capnp text: '' @ utf8_text tx t)))"

definition get_text :: "error_texts \<Rightarrow> bytes ptr \<Rightarrow> protocol_error + string" where
  "get_text tx p = try_result (follow [] p) (text_to_string tx)"

definition get_data :: "bytes ptr \<Rightarrow> protocol_error + bytes" where
  "get_data p = follow [] p"

definition text_or_empty :: "error_texts \<Rightarrow> bytes ptr \<Rightarrow> protocol_error + string" where
  "text_or_empty tx p = (if has p then get_text tx p else Inr [])"

definition data_or_empty :: "bytes ptr \<Rightarrow> protocol_error + bytes" where
  "data_or_empty p = (if has p then get_data p else Inr [])"

text \<open>\<open>if s.is_empty() { None } else { Some(s) }\<close>.\<close>

definition nonempty :: "'a list \<Rightarrow> 'a list option" where
  "nonempty s = (if s = [] then None else Some s)"

definition optional_text :: "error_texts \<Rightarrow> bytes ptr \<Rightarrow> protocol_error + string option" where
  "optional_text tx p = (if has p then try_result (get_text tx p) (\<lambda>s. Inr (nonempty s)) else Inr None)"

text \<open>Data read as a string, with replacement characters for what is not UTF-8.\<close>

definition optional_lossy :: "bytes ptr \<Rightarrow> protocol_error + string option" where
  "optional_lossy p =
     (if has p
      then try_result (get_data p) (\<lambda>b. Inr (map_option (\<lambda>b. bytes_as_string (from_utf8_lossy b)) (nonempty b)))
      else Inr None)"

text \<open>An enumerant that the schema does not have is an error.\<close>

definition get_enum :: "error_texts \<Rightarrow> (u16 \<Rightarrow> 'a option) \<Rightarrow> u16 \<Rightarrow> protocol_error + 'a" where
  "get_enum tx meaning n =
     (case meaning n of Some x \<Rightarrow> Inr x | None \<Rightarrow> Inl (Deserialization (''capnp enum: '' @ enum_text tx n)))"

definition read_root :: "'s capnp \<Rightarrow> bytes \<Rightarrow> protocol_error + 's" where
  "read_root cp data = (case read_message cp data of Inl e \<Rightarrow> Inl (capnp_err e) | Inr s \<Rightarrow> Inr s)"

text \<open>\<open>set_\<close> of a text, and of a text that is there.\<close>

definition set_text :: "string \<Rightarrow> bytes ptr" where
  "set_text s = Target (as_bytes s)"

definition set_some_text :: "string option \<Rightarrow> bytes ptr" where
  "set_some_text s = (case s of Some t \<Rightarrow> set_text t | None \<Rightarrow> Null)"

definition set_nonempty :: "bytes \<Rightarrow> bytes ptr" where
  "set_nonempty b = (if b = [] then Null else Target b)"

subsection \<open>Reading back one field\<close>

named_theorems codec \<open>what reading a field returns after it was set\<close>

definition rust_option :: "string option \<Rightarrow> bool" where
  "rust_option s \<longleftrightarrow> (case s of Some t \<Rightarrow> rust_string t | None \<Rightarrow> True)"

text \<open>An optional text comes back without its emptiness.\<close>

definition kept :: "string option \<Rightarrow> string option" where
  "kept s = (case s of Some t \<Rightarrow> nonempty t | None \<Rightarrow> None)"

lemma read_root_write [codec]:
  "capnp_lawful built cp \<Longrightarrow> built s \<Longrightarrow> read_root cp (write_message cp s) = Inr s"
  by (simp add: capnp_lawful_def read_root_def)

lemma intact_simps [codec]:
  "intact Null" "intact (Target x)" "intact (set_text s)" "intact (set_some_text o')" "intact (set_nonempty b)"
  by (simp_all add: intact_def set_text_def set_some_text_def set_nonempty_def split: option.split)

lemma get_data_simps [codec]:
  "get_data (Target b) = Inr b" "data_or_empty (Target b) = Inr b" "data_or_empty (set_nonempty b) = Inr b"
  by (simp_all add: get_data_def data_or_empty_def follow_def has_def set_nonempty_def)

lemma text_simps [codec]:
  assumes "rust_string s"
  shows "get_text tx (set_text s) = Inr s" and "text_or_empty tx (set_text s) = Inr s"
  using assms
  by (simp_all add: get_text_def text_or_empty_def follow_def has_def set_text_def text_to_string_def rust_string_def)

lemma optional_text_set [codec]: "rust_option s \<Longrightarrow> optional_text tx (set_some_text s) = Inr (kept s)"
  by (cases s)
     (simp_all add: optional_text_def set_some_text_def has_def set_text_def kept_def rust_option_def
       get_text_def follow_def text_to_string_def rust_string_def)

lemma optional_lossy_set [codec]: "rust_option s \<Longrightarrow> optional_lossy (set_some_text s) = Inr (kept s)"
  by (cases s)
     (auto simp: optional_lossy_def set_some_text_def has_def set_text_def kept_def rust_option_def
       get_data_def follow_def rust_string_def nonempty_def from_utf8_lossy_valid)

lemma get_enum_Some [codec]: "meaning n = Some x \<Longrightarrow> get_enum tx meaning n = Inr x"
  by (simp add: get_enum_def)

lemma follow_Target [codec]: "follow d (Target x) = Inr x"
  by (simp add: follow_def)

end
