(* ===== verification/Codec.thy ===== *)
theory Codec
  imports Capnp Permissions
begin

text \<open>
  \<open>crates/rekindle-protocol/src/capnp_codec.rs\<close>: the domain types, the structs of
  \<open>schemas/*.capnp\<close> and the encoders and decoders between them. A struct is a record of its
  fields; enumerants are their ordinals.
\<close>

section \<open>Messages\<close>

record envelope_struct =
  es_sender_key :: "bytes ptr"
  es_timestamp :: u64
  es_nonce :: "bytes ptr"
  es_payload :: "bytes ptr"
  es_signature :: "bytes ptr"

definition envelope_struct_of :: "message_envelope \<Rightarrow> envelope_struct" where
  "envelope_struct_of env =
     \<lparr>es_sender_key = Target (e_sender_key env), es_timestamp = e_timestamp env,
      es_nonce = Target (e_nonce env), es_payload = Target (e_payload env),
      es_signature = Target (e_signature env)\<rparr>"

definition encode_envelope :: "envelope_struct capnp \<Rightarrow> message_envelope \<Rightarrow> bytes" where
  "encode_envelope cp env = write_message cp (envelope_struct_of env)"

definition decode_envelope :: "envelope_struct capnp \<Rightarrow> bytes \<Rightarrow> protocol_error + message_envelope" where
  "decode_envelope cp data =
     try_result (read_root cp data) (\<lambda>root.
     try_result (get_data (es_sender_key root)) (\<lambda>sender_key.
     try_result (get_data (es_nonce root)) (\<lambda>nonce.
     try_result (get_data (es_payload root)) (\<lambda>payload.
     try_result (get_data (es_signature root)) (\<lambda>signature.
     Inr \<lparr>e_sender_key = sender_key, e_timestamp = es_timestamp root, e_nonce = nonce,
          e_payload = payload, e_signature = signature\<rparr>)))))"

text \<open>The attachments of a chat message are never set or read.\<close>

record chat_struct =
  cs_body :: "bytes ptr"
  cs_attachments :: "unit list ptr"
  cs_reply_to :: "bytes ptr"

definition chat_struct_of :: "string \<Rightarrow> bytes option \<Rightarrow> chat_struct" where
  "chat_struct_of body reply_to =
     \<lparr>cs_body = set_text body, cs_attachments = Null,
      cs_reply_to = (case reply_to of Some rt \<Rightarrow> Target rt | None \<Rightarrow> Null)\<rparr>"

definition encode_chat_message :: "chat_struct capnp \<Rightarrow> string \<Rightarrow> bytes option \<Rightarrow> bytes" where
  "encode_chat_message cp body reply_to = write_message cp (chat_struct_of body reply_to)"

definition decode_chat_message ::
  "chat_struct capnp \<Rightarrow> bytes \<Rightarrow> protocol_error + string \<times> bytes option" where
  "decode_chat_message cp data =
     try_result (read_root cp data) (\<lambda>root.
     try_result (get_text (texts cp) (cs_body root)) (\<lambda>body.
     try_result (if has (cs_reply_to root)
                 then try_result (get_data (cs_reply_to root)) (\<lambda>rt. Inr (Some rt)) else Inr None) (\<lambda>reply_to.
     Inr (body, reply_to))))"

section \<open>Presence\<close>

record game_info =
  g_game_id :: u32
  g_game_name :: string
  g_server_info :: "string option"
  g_elapsed_seconds :: u32

record game_struct =
  gs_game_id :: u32
  gs_game_name :: "bytes ptr"
  gs_server_info :: "bytes ptr"
  gs_elapsed_seconds :: u32

definition game_struct_of :: "game_info \<Rightarrow> game_struct" where
  "game_struct_of g =
     \<lparr>gs_game_id = g_game_id g, gs_game_name = set_text (g_game_name g),
      gs_server_info = set_some_text (g_server_info g), gs_elapsed_seconds = g_elapsed_seconds g\<rparr>"

definition empty_game_struct :: game_struct where
  "empty_game_struct = \<lparr>gs_game_id = 0, gs_game_name = Null, gs_server_info = Null, gs_elapsed_seconds = 0\<rparr>"

definition read_game_status :: "error_texts \<Rightarrow> game_struct \<Rightarrow> protocol_error + game_info" where
  "read_game_status tx gs =
     try_result (get_text tx (gs_game_name gs)) (\<lambda>game_name.
     try_result (optional_text tx (gs_server_info gs)) (\<lambda>server_info.
     Inr \<lparr>g_game_id = gs_game_id gs, g_game_name = game_name, g_server_info = server_info,
          g_elapsed_seconds = gs_elapsed_seconds gs\<rparr>))"

definition encode_game_status :: "game_struct capnp \<Rightarrow> game_info \<Rightarrow> bytes" where
  "encode_game_status cp info = write_message cp (game_struct_of info)"

definition decode_game_status :: "game_struct capnp \<Rightarrow> bytes \<Rightarrow> protocol_error + game_info" where
  "decode_game_status cp data = try_result (read_root cp data) (read_game_status (texts cp))"

definition set_game :: "game_info option \<Rightarrow> game_struct ptr" where
  "set_game game = (case game of Some g \<Rightarrow> Target (game_struct_of g) | None \<Rightarrow> Null)"

definition optional_game :: "error_texts \<Rightarrow> game_struct ptr \<Rightarrow> protocol_error + game_info option" where
  "optional_game tx p =
     (if has p
      then try_result (follow empty_game_struct p) (\<lambda>gs.
           try_result (read_game_status tx gs) (\<lambda>g. Inr (Some g)))
      else Inr None)"

record presence_struct =
  ps_status :: u8
  ps_game_status :: "game_struct ptr"
  ps_timestamp :: u64

definition encode_update :: "presence_struct capnp \<Rightarrow> u64 \<Rightarrow> u8 \<Rightarrow> game_info option \<Rightarrow> bytes" where
  "encode_update cp now status game =
     write_message cp \<lparr>ps_status = status, ps_game_status = set_game game, ps_timestamp = now\<rparr>"

definition decode_update :: "presence_struct capnp \<Rightarrow> bytes \<Rightarrow> protocol_error + u8 \<times> game_info option" where
  "decode_update cp data =
     try_result (read_root cp data) (\<lambda>root.
     try_result (optional_game (texts cp) (ps_game_status root)) (\<lambda>game.
     Inr (ps_status root, game)))"

section \<open>Identities\<close>

record user_profile =
  up_display_name :: string
  up_status_message :: string
  up_status :: u8
  up_avatar_hash :: bytes
  up_game_status :: "game_info option"

record wire_prekey_bundle =
  wb_identity_key :: bytes
  wb_signed_pre_key :: bytes
  wb_signed_pre_key_sig :: bytes
  wb_one_time_pre_key :: bytes
  wb_registration_id :: u32

record profile_struct =
  us_display_name :: "bytes ptr"
  us_status_message :: "bytes ptr"
  us_status :: u16
  us_avatar_hash :: "bytes ptr"
  us_game_status :: "game_struct ptr"

text \<open>The enum \<open>Status\<close>: 0 online, 1 away, 2 busy, 3 offline; every other byte is offline.\<close>

definition status_enum :: "u8 \<Rightarrow> u16" where
  "status_enum s = (if s = 0 then 0 else if s = 1 then 1 else if s = 2 then 2 else 3)"

definition status_meaning :: "u16 \<Rightarrow> u8 option" where
  "status_meaning n =
     (if n = 0 then Some 0 else if n = 1 then Some 1 else if n = 2 then Some 2
      else if n = 3 then Some 3 else None)"

definition profile_struct_of :: "user_profile \<Rightarrow> profile_struct" where
  "profile_struct_of p =
     \<lparr>us_display_name = set_text (up_display_name p), us_status_message = set_text (up_status_message p),
      us_status = status_enum (up_status p), us_avatar_hash = set_nonempty (up_avatar_hash p),
      us_game_status = set_game (up_game_status p)\<rparr>"

definition read_profile :: "error_texts \<Rightarrow> profile_struct \<Rightarrow> protocol_error + user_profile" where
  "read_profile tx root =
     try_result (get_enum tx status_meaning (us_status root)) (\<lambda>status.
     try_result (optional_game tx (us_game_status root)) (\<lambda>game.
     try_result (get_text tx (us_display_name root)) (\<lambda>display_name.
     try_result (text_or_empty tx (us_status_message root)) (\<lambda>status_message.
     try_result (data_or_empty (us_avatar_hash root)) (\<lambda>avatar_hash.
     Inr \<lparr>up_display_name = display_name, up_status_message = status_message, up_status = status,
          up_avatar_hash = avatar_hash, up_game_status = game\<rparr>)))))"

definition encode_profile :: "profile_struct capnp \<Rightarrow> user_profile \<Rightarrow> bytes" where
  "encode_profile cp p = write_message cp (profile_struct_of p)"

definition decode_profile :: "profile_struct capnp \<Rightarrow> bytes \<Rightarrow> protocol_error + user_profile" where
  "decode_profile cp data = try_result (read_root cp data) (read_profile (texts cp))"

record prekey_struct =
  ks_identity_key :: "bytes ptr"
  ks_signed_pre_key :: "bytes ptr"
  ks_signed_pre_key_sig :: "bytes ptr"
  ks_one_time_pre_key :: "bytes ptr"
  ks_registration_id :: u32

text \<open>A standalone bundle sets the one-time key even when it is empty, an embedded one does not.\<close>

definition prekey_struct_of :: "bytes ptr \<Rightarrow> wire_prekey_bundle \<Rightarrow> prekey_struct" where
  "prekey_struct_of one_time b =
     \<lparr>ks_identity_key = Target (wb_identity_key b), ks_signed_pre_key = Target (wb_signed_pre_key b),
      ks_signed_pre_key_sig = Target (wb_signed_pre_key_sig b), ks_one_time_pre_key = one_time,
      ks_registration_id = wb_registration_id b\<rparr>"

definition read_prekey_struct :: "prekey_struct \<Rightarrow> protocol_error + wire_prekey_bundle" where
  "read_prekey_struct root =
     try_result (get_data (ks_identity_key root)) (\<lambda>identity_key.
     try_result (get_data (ks_signed_pre_key root)) (\<lambda>signed_pre_key.
     try_result (get_data (ks_signed_pre_key_sig root)) (\<lambda>signed_pre_key_sig.
     try_result (data_or_empty (ks_one_time_pre_key root)) (\<lambda>one_time_pre_key.
     Inr \<lparr>wb_identity_key = identity_key, wb_signed_pre_key = signed_pre_key,
          wb_signed_pre_key_sig = signed_pre_key_sig, wb_one_time_pre_key = one_time_pre_key,
          wb_registration_id = ks_registration_id root\<rparr>))))"

definition encode_prekey_bundle :: "prekey_struct capnp \<Rightarrow> wire_prekey_bundle \<Rightarrow> bytes" where
  "encode_prekey_bundle cp b = write_message cp (prekey_struct_of (Target (wb_one_time_pre_key b)) b)"

definition decode_prekey_bundle :: "prekey_struct capnp \<Rightarrow> bytes \<Rightarrow> protocol_error + wire_prekey_bundle" where
  "decode_prekey_bundle cp data = try_result (read_root cp data) read_prekey_struct"

section \<open>Friends\<close>

record friend_request =
  fr_sender_key :: bytes
  fr_display_name :: string
  fr_message :: string
  fr_prekey_bundle :: bytes

record request_struct =
  rs_sender_key :: "bytes ptr"
  rs_display_name :: "bytes ptr"
  rs_message :: "bytes ptr"
  rs_pre_key_bundle :: "bytes ptr"

definition request_struct_of :: "friend_request \<Rightarrow> request_struct" where
  "request_struct_of r =
     \<lparr>rs_sender_key = Target (fr_sender_key r), rs_display_name = set_text (fr_display_name r),
      rs_message = set_text (fr_message r), rs_pre_key_bundle = Target (fr_prekey_bundle r)\<rparr>"

definition encode_request :: "request_struct capnp \<Rightarrow> friend_request \<Rightarrow> bytes" where
  "encode_request cp r = write_message cp (request_struct_of r)"

definition decode_request :: "request_struct capnp \<Rightarrow> bytes \<Rightarrow> protocol_error + friend_request" where
  "decode_request cp data =
     try_result (read_root cp data) (\<lambda>root.
     try_result (get_data (rs_sender_key root)) (\<lambda>sender_key.
     try_result (get_text (texts cp) (rs_display_name root)) (\<lambda>display_name.
     try_result (get_text (texts cp) (rs_message root)) (\<lambda>message.
     try_result (get_data (rs_pre_key_bundle root)) (\<lambda>prekey_bundle.
     Inr \<lparr>fr_sender_key = sender_key, fr_display_name = display_name, fr_message = message,
          fr_prekey_bundle = prekey_bundle\<rparr>)))))"

record friend_entry =
  f_public_key :: string
  f_nickname :: "string option"
  f_group :: "string option"
  f_added_at :: u64
  f_profile_dht_key :: "string option"

record friend_struct =
  fs_public_key :: "bytes ptr"
  fs_nickname :: "bytes ptr"
  fs_group_name :: "bytes ptr"
  fs_added_at :: u64

record friend_list_struct =
  fl_friends :: "friend_struct list ptr"

definition friend_struct_of :: "friend_entry \<Rightarrow> friend_struct" where
  "friend_struct_of f =
     \<lparr>fs_public_key = Target (as_bytes (f_public_key f)), fs_nickname = set_some_text (f_nickname f),
      fs_group_name = set_some_text (f_group f), fs_added_at = f_added_at f\<rparr>"

definition read_friend_struct :: "error_texts \<Rightarrow> friend_struct \<Rightarrow> protocol_error + friend_entry" where
  "read_friend_struct tx fe =
     try_result (get_data (fs_public_key fe)) (\<lambda>key_bytes.
     if \<not> utf8_valid key_bytes
     then Inl (Deserialization (''invalid UTF-8 public key: '' @ utf8_text tx key_bytes))
     else
       try_result (optional_text tx (fs_nickname fe)) (\<lambda>nickname.
       try_result (optional_text tx (fs_group_name fe)) (\<lambda>grp.
       Inr \<lparr>f_public_key = bytes_as_string key_bytes, f_nickname = nickname, f_group = grp,
            f_added_at = fs_added_at fe, f_profile_dht_key = None\<rparr>)))"

definition friend_list_struct_of :: "friend_entry list \<Rightarrow> friend_list_struct" where
  "friend_list_struct_of entries = \<lparr>fl_friends = Target (map friend_struct_of entries)\<rparr>"

definition encode_friend_list :: "friend_list_struct capnp \<Rightarrow> friend_entry list \<Rightarrow> bytes" where
  "encode_friend_list cp entries = write_message cp (friend_list_struct_of entries)"

definition decode_friend_list ::
  "friend_list_struct capnp \<Rightarrow> bytes \<Rightarrow> protocol_error + friend_entry list" where
  "decode_friend_list cp data =
     try_result (read_root cp data) (\<lambda>root.
     try_result (follow [] (fl_friends root)) (\<lambda>list.
     collect_results (read_friend_struct (texts cp)) list))"

section \<open>Communities\<close>

record community_metadata =
  md_name :: string
  md_description :: "string option"
  md_icon_hash :: "string option"
  md_created_at :: u64
  md_owner_key :: string
  md_last_refreshed :: u64

record channel_entry =
  ce_id :: string
  ce_name :: string
  ce_channel_type :: string
  ce_sort_order :: u16
  ce_latest_message_key :: "string option"
  ce_permission_overwrites :: "permission_overwrite list"

record overwrite_struct =
  os_target_type :: u16
  os_target_id :: "bytes ptr"
  os_allow :: u64
  os_deny :: u64

record channel_struct =
  hs_id :: "bytes ptr"
  hs_name :: "bytes ptr"
  hs_type :: u16
  hs_sort_order :: u16
  hs_latest_message_key :: "bytes ptr"
  hs_permission_overwrites :: "overwrite_struct list ptr"

text \<open>The position of a role is an \<open>Int32\<close> on the wire.\<close>

record role_struct =
  ls_id :: u32
  ls_name :: "bytes ptr"
  ls_color :: u32
  ls_permissions :: u64
  ls_position :: int
  ls_hoist :: bool
  ls_mentionable :: bool

record community_struct =
  ms_name :: "bytes ptr"
  ms_description :: "bytes ptr"
  ms_icon_hash :: "bytes ptr"
  ms_created_at :: u64
  ms_channels :: "channel_struct list ptr"
  ms_roles :: "role_struct list ptr"

definition overwrite_struct_of :: "permission_overwrite \<Rightarrow> overwrite_struct" where
  "overwrite_struct_of ow =
     \<lparr>os_target_type = (case ow_target_type ow of OwRole \<Rightarrow> 0 | OwMember \<Rightarrow> 1),
      os_target_id = set_text (ow_target_id ow), os_allow = ow_allow ow, os_deny = ow_deny ow\<rparr>"

definition overwrite_meaning :: "u16 \<Rightarrow> overwrite_type option" where
  "overwrite_meaning n = (if n = 0 then Some OwRole else if n = 1 then Some OwMember else None)"

definition read_overwrite_struct :: "error_texts \<Rightarrow> overwrite_struct \<Rightarrow> protocol_error + permission_overwrite" where
  "read_overwrite_struct tx os =
     try_result (get_enum tx overwrite_meaning (os_target_type os)) (\<lambda>target_type.
     try_result (get_text tx (os_target_id os)) (\<lambda>target_id.
     Inr \<lparr>ow_target_type = target_type, ow_target_id = target_id, ow_allow = os_allow os,
          ow_deny = os_deny os\<rparr>))"

text \<open>Every channel type but \<open>voice\<close> is written as text.\<close>

definition channel_struct_of :: "channel_entry \<Rightarrow> channel_struct" where
  "channel_struct_of ch =
     \<lparr>hs_id = set_text (ce_id ch), hs_name = set_text (ce_name ch),
      hs_type = (if ce_channel_type ch = ''voice'' then 1 else 0), hs_sort_order = ce_sort_order ch,
      hs_latest_message_key = set_some_text (ce_latest_message_key ch),
      hs_permission_overwrites =
        (if ce_permission_overwrites ch = [] then Null
         else Target (map overwrite_struct_of (ce_permission_overwrites ch)))\<rparr>"

definition channel_type_meaning :: "u16 \<Rightarrow> string option" where
  "channel_type_meaning n = (if n = 0 then Some ''text'' else if n = 1 then Some ''voice'' else None)"

definition read_channel_struct :: "error_texts \<Rightarrow> channel_struct \<Rightarrow> protocol_error + channel_entry" where
  "read_channel_struct tx c =
     try_result (get_enum tx channel_type_meaning (hs_type c)) (\<lambda>channel_type.
     try_result (if has (hs_permission_overwrites c)
                 then try_result (follow [] (hs_permission_overwrites c)) (collect_results (read_overwrite_struct tx))
                 else Inr []) (\<lambda>permission_overwrites.
     try_result (get_text tx (hs_id c)) (\<lambda>i.
     try_result (get_text tx (hs_name c)) (\<lambda>name.
     try_result (optional_lossy (hs_latest_message_key c)) (\<lambda>latest_message_key.
     Inr \<lparr>ce_id = i, ce_name = name, ce_channel_type = channel_type, ce_sort_order = hs_sort_order c,
          ce_latest_message_key = latest_message_key, ce_permission_overwrites = permission_overwrites\<rparr>)))))"

definition role_struct_of :: "role_definition \<Rightarrow> role_struct" where
  "role_struct_of r =
     \<lparr>ls_id = rd_id r, ls_name = set_text (rd_name r), ls_color = rd_color r,
      ls_permissions = rd_permissions r, ls_position = rd_position r, ls_hoist = rd_hoist r,
      ls_mentionable = rd_mentionable r\<rparr>"

definition read_role_struct :: "error_texts \<Rightarrow> role_struct \<Rightarrow> protocol_error + role_definition" where
  "read_role_struct tx r =
     try_result (get_text tx (ls_name r)) (\<lambda>name.
     Inr \<lparr>rd_id = ls_id r, rd_name = name, rd_color = ls_color r, rd_permissions = ls_permissions r,
          rd_position = ls_position r, rd_hoist = ls_hoist r, rd_mentionable = ls_mentionable r\<rparr>)"

definition community_struct_of ::
  "community_metadata \<Rightarrow> channel_entry list \<Rightarrow> role_definition list \<Rightarrow> community_struct" where
  "community_struct_of meta chans rls =
     \<lparr>ms_name = set_text (md_name meta), ms_description = set_some_text (md_description meta),
      ms_icon_hash = set_some_text (md_icon_hash meta), ms_created_at = md_created_at meta,
      ms_channels = Target (map channel_struct_of chans), ms_roles = Target (map role_struct_of rls)\<rparr>"

definition encode_community ::
  "community_struct capnp \<Rightarrow> community_metadata \<Rightarrow> channel_entry list \<Rightarrow> role_definition list \<Rightarrow> bytes" where
  "encode_community cp meta chans rls = write_message cp (community_struct_of meta chans rls)"

definition decode_community ::
  "community_struct capnp \<Rightarrow> bytes \<Rightarrow> string
   \<Rightarrow> protocol_error + community_metadata \<times> channel_entry list \<times> role_definition list" where
  "decode_community cp data owner_key =
     (let tx = texts cp in
     try_result (read_root cp data) (\<lambda>root.
     try_result (get_text tx (ms_name root)) (\<lambda>name.
     try_result (optional_text tx (ms_description root)) (\<lambda>description.
     try_result (optional_lossy (ms_icon_hash root)) (\<lambda>icon_hash.
     let meta = \<lparr>md_name = name, md_description = description, md_icon_hash = icon_hash,
           md_created_at = ms_created_at root, md_owner_key = owner_key, md_last_refreshed = 0\<rparr> in
     try_result (follow [] (ms_channels root)) (\<lambda>cs.
     try_result (collect_results (read_channel_struct tx) cs) (\<lambda>chans.
     try_result (follow [] (ms_roles root)) (\<lambda>rs.
     try_result (collect_results (read_role_struct tx) rs) (\<lambda>rls.
     Inr (meta, chans, rls))))))))))"

definition empty_metadata :: community_metadata where
  "empty_metadata = \<lparr>md_name = [], md_description = None, md_icon_hash = None, md_created_at = 0,
     md_owner_key = [], md_last_refreshed = 0\<rparr>"

definition encode_channels :: "community_struct capnp \<Rightarrow> channel_entry list \<Rightarrow> bytes" where
  "encode_channels cp chans = encode_community cp empty_metadata chans []"

definition encode_roles :: "community_struct capnp \<Rightarrow> role_definition list \<Rightarrow> bytes" where
  "encode_roles cp rls = encode_community cp empty_metadata [] rls"

section \<open>Voice signaling\<close>

datatype signal_type = SigJoin | SigLeave | SigOffer | SigAnswer | SigIceCandidate

record voice_signaling =
  vs_signal_type :: signal_type
  vs_channel_id :: string
  vs_sender_key :: bytes
  vs_payload :: bytes

record signaling_struct =
  ss_type :: u16
  ss_channel_id :: "bytes ptr"
  ss_sender_key :: "bytes ptr"
  ss_payload :: "bytes ptr"

fun signal_enum :: "signal_type \<Rightarrow> u16" where
  "signal_enum SigJoin = 0"
| "signal_enum SigLeave = 1"
| "signal_enum SigOffer = 2"
| "signal_enum SigAnswer = 3"
| "signal_enum SigIceCandidate = 4"

definition signal_meaning :: "u16 \<Rightarrow> signal_type option" where
  "signal_meaning n =
     (if n = 0 then Some SigJoin else if n = 1 then Some SigLeave else if n = 2 then Some SigOffer
      else if n = 3 then Some SigAnswer else if n = 4 then Some SigIceCandidate else None)"

definition signaling_struct_of :: "voice_signaling \<Rightarrow> signaling_struct" where
  "signaling_struct_of sig =
     \<lparr>ss_type = signal_enum (vs_signal_type sig), ss_channel_id = set_text (vs_channel_id sig),
      ss_sender_key = Target (vs_sender_key sig), ss_payload = Target (vs_payload sig)\<rparr>"

definition encode_signaling :: "signaling_struct capnp \<Rightarrow> voice_signaling \<Rightarrow> bytes" where
  "encode_signaling cp sig = write_message cp (signaling_struct_of sig)"

definition decode_signaling :: "signaling_struct capnp \<Rightarrow> bytes \<Rightarrow> protocol_error + voice_signaling" where
  "decode_signaling cp data =
     try_result (read_root cp data) (\<lambda>root.
     try_result (get_enum (texts cp) signal_meaning (ss_type root)) (\<lambda>signal_type.
     try_result (get_text (texts cp) (ss_channel_id root)) (\<lambda>channel_id.
     try_result (get_data (ss_sender_key root)) (\<lambda>sender_key.
     try_result (get_data (ss_payload root)) (\<lambda>payload.
     Inr \<lparr>vs_signal_type = signal_type, vs_channel_id = channel_id, vs_sender_key = sender_key,
          vs_payload = payload\<rparr>)))))"

end
