(* ===== verification/Envelope.thy ===== *)
theory Envelope
  imports Codec
begin

text \<open>
  The signed envelope every message travels in
  (\<open>crates/rekindle-protocol/src/messaging/envelope.rs\<close>, \<open>sender.rs\<close>, \<open>receiver.rs\<close>). Ed25519
  is a parameter: \<open>sign\<close>, \<open>public_of\<close> and \<open>verify\<close> stand for \<open>ed25519_dalek\<close>, \<open>key_error\<close> for
  \<open>VerifyingKey::from_bytes\<close> (the text of the error for a key that is no curve point).
\<close>

text \<open>The bytes under the signature: timestamp, nonce and payload, concatenated.\<close>

definition signed_data :: "u64 \<Rightarrow> bytes \<Rightarrow> bytes \<Rightarrow> bytes" where
  "signed_data timestamp nonce payload = u64_le_bytes timestamp @ nonce @ payload"

definition build_envelope ::
  "('sk \<Rightarrow> bytes) \<Rightarrow> ('sk \<Rightarrow> bytes \<Rightarrow> bytes) \<Rightarrow> 'sk \<Rightarrow> u64 \<Rightarrow> bytes \<Rightarrow> bytes \<Rightarrow> message_envelope" where
  "build_envelope public_of sign signing_key timestamp nonce payload =
     \<lparr>e_sender_key = public_of signing_key, e_timestamp = timestamp, e_nonce = nonce,
      e_payload = payload, e_signature = sign signing_key (signed_data timestamp nonce payload)\<rparr>"

definition verify_envelope ::
  "(bytes \<Rightarrow> string option) \<Rightarrow> (bytes \<Rightarrow> bytes \<Rightarrow> bytes \<Rightarrow> bool) \<Rightarrow> message_envelope \<Rightarrow> protocol_error + bool" where
  "verify_envelope key_error verify envelope =
     (let data = signed_data (e_timestamp envelope) (e_nonce envelope) (e_payload envelope)
      in if length (e_sender_key envelope) \<noteq> 32
         then Inl (Verification ''sender_key must be 32 bytes'')
         else case key_error (e_sender_key envelope) of
                Some e \<Rightarrow> Inl (Verification (''invalid sender key: '' @ e))
              | None \<Rightarrow>
                  if length (e_signature envelope) \<noteq> 64
                  then Inl (Verification ''signature must be 64 bytes'')
                  else Inr (verify (e_sender_key envelope) data (e_signature envelope)))"

definition process_incoming ::
  "envelope_struct capnp \<Rightarrow> (bytes \<Rightarrow> string option)
   \<Rightarrow> (bytes \<Rightarrow> bytes \<Rightarrow> bytes \<Rightarrow> bool) \<Rightarrow> bytes \<Rightarrow> protocol_error + message_envelope" where
  "process_incoming cp key_error verify raw =
     (case decode_envelope cp raw of
        Inl e \<Rightarrow> Inl e
      | Inr envelope \<Rightarrow>
          (case verify_envelope key_error verify envelope of
             Inl e \<Rightarrow> Inl e
           | Inr valid \<Rightarrow>
               if valid then Inr envelope
               else Inl (Verification ''invalid envelope signature'')))"

lemma process_incoming_Inr_iff:
  "process_incoming cp key_error verify raw = Inr env \<longleftrightarrow>
     decode_envelope cp raw = Inr env \<and> length (e_sender_key env) = 32 \<and> key_error (e_sender_key env) = None \<and>
     length (e_signature env) = 64 \<and>
     verify (e_sender_key env) (signed_data (e_timestamp env) (e_nonce env) (e_payload env))
       (e_signature env)"
  by (auto simp: process_incoming_def verify_envelope_def Let_def split: sum.splits option.splits)

text \<open>
  The concatenation is not injective in nonce and payload: what it determines is the timestamp
  and the concatenation of the two.
\<close>

lemma signed_data_eq_iff:
  "signed_data t n p = signed_data t' n' p' \<longleftrightarrow> t = t' \<and> n @ p = n' @ p'"
proof
  assume a: "signed_data t n p = signed_data t' n' p'"
  then have b: "u64_le_bytes t = u64_le_bytes t'" and c: "n @ p = n' @ p'"
    by (simp_all add: signed_data_def)
  from b have "t = t'" by (metis u64_of_le_bytes)
  with c show "t = t' \<and> n @ p = n' @ p'" by simp
qed (auto simp: signed_data_def)

end
