(* ===== verification/Dispatch.thy ===== *)
theory Dispatch
  imports Channels Roles Envelope
begin

text \<open>
  Routing of a request to its handler (\<open>dispatch_request\<close>, \<open>process_request\<close> and
  \<open>handle_community_rpc_direct\<close> in \<open>crates/rekindle-server/src/rpc.rs\<close>). A request runs to its
  end before the next one starts; the background tasks a handler spawns run right after it.
\<close>

section \<open>Broadcasts after role changes\<close>

definition broadcast_roles_changed :: "string \<Rightarrow> server_state \<Rightarrow> server_state" where
  "broadcast_roles_changed cid st =
     (case get_community st cid of
        None \<Rightarrow> st
      | Some community \<Rightarrow>
          broadcast_to_members cid [] (RolesChanged cid (roles_to_dto community)) st)"

definition broadcast_member_roles_changed :: "string \<Rightarrow> string \<Rightarrow> server_state \<Rightarrow> server_state" where
  "broadcast_member_roles_changed cid target_pseudonym st =
     (case get_community st cid of
        None \<Rightarrow> st
      | Some community \<Rightarrow>
          (let role_ids = (case find_member community target_pseudonym of
                             None \<Rightarrow> [] | Some m \<Rightarrow> m_role_ids m)
           in broadcast_to_members cid [] (MemberRolesChanged cid target_pseudonym role_ids) st))"

section \<open>Dispatch\<close>

fun is_role_created :: "community_response \<Rightarrow> bool" where
  "is_role_created (RoleCreated i) = True"
| "is_role_created _ = False"

fun is_channel_created :: "community_response \<Rightarrow> bool" where
  "is_channel_created (ChannelCreated i) = True"
| "is_channel_created _ = False"

text \<open>\<open>if matches!(resp, ..) { .. } resp\<close>\<close>

definition and_then ::
  "(community_response \<Rightarrow> bool) \<Rightarrow> (server_state \<Rightarrow> server_state) \<Rightarrow> rpc_result \<Rightarrow> rpc_result" where
  "and_then P follow_up res = (if P (snd res) then (follow_up (fst res), snd res) else res)"

text \<open>Membership, messages, channels and metadata: the first half of the \<open>match\<close>.\<close>

fun dispatch_community ::
  "request_env \<Rightarrow> server_state \<Rightarrow> string \<Rightarrow> string \<Rightarrow> community_request \<Rightarrow> rpc_result option" where
  "dispatch_community env st cid s (SendMessage channel_id ciphertext mek_gen) =
     Some (handle_send_message env st cid s channel_id ciphertext mek_gen)"
| "dispatch_community env st cid s (GetMessages channel_id before limit) =
     Some (handle_get_messages env st cid s channel_id before limit)"
| "dispatch_community env st cid s RequestMEK = Some (handle_request_mek st cid s)"
| "dispatch_community env st cid s Leave = Some (handle_leave env st cid s)"
| "dispatch_community env st cid s (Kick target) = Some (handle_kick env st cid s target)"
| "dispatch_community env st cid s (CreateChannel name channel_type) =
     Some (and_then is_channel_created (publish_channels env cid)
             (handle_create_channel env st cid s name channel_type))"
| "dispatch_community env st cid s (DeleteChannel channel_id) =
     Some (and_then (\<lambda>r. r = ResOk) (publish_channels env cid)
             (handle_delete_channel env st cid s channel_id))"
| "dispatch_community env st cid s RotateMEK = Some (handle_rotate_mek env st cid s)"
| "dispatch_community env st cid s (RenameChannel channel_id new_name) =
     Some (and_then (\<lambda>r. r = ResOk) (publish_channels env cid)
             (handle_rename_channel env st cid s channel_id new_name))"
| "dispatch_community env st cid s (UpdateCommunity name description) =
     Some (handle_update_community env st cid s name description)"
| "dispatch_community env st cid s (Ban target) = Some (handle_ban env st cid s target)"
| "dispatch_community env st cid s (Unban target) = Some (handle_unban env st cid s target)"
| "dispatch_community env st cid s GetBanList = Some (handle_get_ban_list env st cid s)"
| "dispatch_community env st cid s _ = None"

text \<open>Roles, overwrites and timeouts: the second half.\<close>

fun dispatch_roles ::
  "request_env \<Rightarrow> server_state \<Rightarrow> string \<Rightarrow> string \<Rightarrow> community_request \<Rightarrow> rpc_result option" where
  "dispatch_roles env st cid s (CreateRole name color perms hoist mentionable) =
     Some (and_then is_role_created (broadcast_roles_changed cid)
             (handle_create_role env st cid s name color perms hoist mentionable))"
| "dispatch_roles env st cid s (EditRole role_id name color perms position hoist mentionable) =
     Some (and_then (\<lambda>r. r = ResOk) (broadcast_roles_changed cid)
             (handle_edit_role env st cid s role_id name color perms position hoist mentionable))"
| "dispatch_roles env st cid s (DeleteRole role_id) =
     Some (and_then (\<lambda>r. r = ResOk) (broadcast_roles_changed cid)
             (handle_delete_role env st cid s role_id))"
| "dispatch_roles env st cid s (AssignRole target role_id) =
     Some (and_then (\<lambda>r. r = ResOk) (broadcast_member_roles_changed cid target)
             (handle_assign_role env st cid s target role_id))"
| "dispatch_roles env st cid s (UnassignRole target role_id) =
     Some (and_then (\<lambda>r. r = ResOk) (broadcast_member_roles_changed cid target)
             (handle_unassign_role env st cid s target role_id))"
| "dispatch_roles env st cid s (SetChannelOverwrite channel_id target_type target_id allow deny) =
     Some (handle_set_channel_overwrite env st cid s channel_id target_type target_id allow deny)"
| "dispatch_roles env st cid s (DeleteChannelOverwrite channel_id target_type target_id) =
     Some (handle_delete_channel_overwrite env st cid s channel_id target_type target_id)"
| "dispatch_roles env st cid s (TimeoutMember target duration reason) =
     Some (handle_timeout_member env st cid s target duration reason)"
| "dispatch_roles env st cid s (RemoveTimeout target) =
     Some (handle_remove_timeout env st cid s target)"
| "dispatch_roles env st cid s GetRoles = Some (handle_get_roles st cid s)"
| "dispatch_roles env st cid s _ = None"

text \<open>
  A join is taken out first, as its sender is not a member yet; the last arm of the model is never
  reached, since every other request belongs to one of the two halves (\<open>dispatch_total\<close> below).
\<close>

definition dispatch_request ::
  "request_env \<Rightarrow> server_state \<Rightarrow> string \<Rightarrow> community_request \<Rightarrow> route_id option
   \<Rightarrow> string option \<Rightarrow> rpc_result" where
  "dispatch_request env st sender_pseudonym request incoming_route_id ipc_community_id =
     (case request of
        Join pseudonym_pubkey invite_code display_name prekey_bundle route_blob \<Rightarrow>
          if pseudonym_pubkey \<noteq> sender_pseudonym
          then (st, ResError 403
                 ''pseudonym mismatch: claimed key does not match envelope signature'')
          else handle_join env st sender_pseudonym display_name route_blob incoming_route_id
                 ipc_community_id
      | _ \<Rightarrow>
          (case resolve_community_id st sender_pseudonym incoming_route_id ipc_community_id of
             None \<Rightarrow> (st, ResError 403 ''not a member of any hosted community'')
           | Some cid \<Rightarrow>
               (case dispatch_community env st cid sender_pseudonym request of
                  Some res \<Rightarrow> res
                | None \<Rightarrow>
                    (case dispatch_roles env st cid sender_pseudonym request of
                       Some res \<Rightarrow> res
                     | None \<Rightarrow> (st, ResOk)))))"

text \<open>
  An \<open>app_call\<close> from the network: the envelope is verified, and its key, in hexadecimal, is the
  sender. \<open>cp\<close>, \<open>key_error\<close> and \<open>verify\<close> are the parameters of \<^const>\<open>process_incoming\<close>;
  \<open>parse_request\<close> stands for \<open>serde_json::from_slice\<close>, with the text of its errors.
\<close>

definition process_request ::
  "envelope_struct capnp \<Rightarrow> (bytes \<Rightarrow> string option)
   \<Rightarrow> (bytes \<Rightarrow> bytes \<Rightarrow> bytes \<Rightarrow> bool) \<Rightarrow> (protocol_error \<Rightarrow> string)
   \<Rightarrow> (bytes \<Rightarrow> string + community_request)
   \<Rightarrow> request_env \<Rightarrow> server_state \<Rightarrow> bytes \<Rightarrow> route_id option \<Rightarrow> rpc_result" where
  "process_request cp key_error verify show_error parse_request env st raw incoming_route_id =
     (case process_incoming cp key_error verify raw of
        Inl e \<Rightarrow> (st, ResError 400 (''invalid envelope: '' @ show_error e))
      | Inr envelope \<Rightarrow>
          (case parse_request (e_payload envelope) of
             Inl e \<Rightarrow> (st, ResError 400 (''invalid request payload: '' @ e))
           | Inr request \<Rightarrow>
               dispatch_request env st (hex_encode (e_sender_key envelope)) request
                 incoming_route_id None))"

text \<open>A request over the local socket names its community and its sender.\<close>

definition handle_community_rpc_direct ::
  "(string \<Rightarrow> string + community_request) \<Rightarrow> request_env \<Rightarrow> server_state \<Rightarrow> string \<Rightarrow> string
   \<Rightarrow> string \<Rightarrow> rpc_result" where
  "handle_community_rpc_direct parse_request env st community_id sender_pseudonym_key request_json =
     (case parse_request request_json of
        Inl e \<Rightarrow> (st, ResError 400 (''invalid request JSON: '' @ e))
      | Inr request \<Rightarrow>
          dispatch_request env st sender_pseudonym_key request None (Some community_id))"

text \<open>A stream of requests, each with what it reads from its environment.\<close>

record server_input =
  in_env :: request_env
  in_sender :: string
  in_request :: community_request
  in_route :: "route_id option"
  in_ipc :: "string option"

definition handle_input :: "server_input \<Rightarrow> server_state \<Rightarrow> server_state" where
  "handle_input i st =
     fst (dispatch_request (in_env i) st (in_sender i) (in_request i) (in_route i) (in_ipc i))"

section \<open>Frames\<close>

lemma broadcast_changed_frame [frame_simps]:
  "hosted (broadcast_roles_changed cid st) = hosted st"
  "db (broadcast_roles_changed cid st) = db st"
  "faults (broadcast_roles_changed cid st) = faults st"
  "hosted (broadcast_member_roles_changed cid t st) = hosted st"
  "db (broadcast_member_roles_changed cid t st) = db st"
  "faults (broadcast_member_roles_changed cid t st) = faults st"
  by (auto simp: broadcast_roles_changed_def broadcast_member_roles_changed_def frame_simps
      split: option.splits)

lemma get_broadcast_changed [frame_simps]:
  "get_community (broadcast_roles_changed cid st) = get_community st"
  "get_community (broadcast_member_roles_changed cid t st) = get_community st"
  by (rule get_community_cong, simp add: frame_simps)+

lemma snd_and_then [simp]: "snd (and_then P f res) = snd res"
  by (simp add: and_then_def)

lemma get_and_then:
  assumes "\<And>st. get_community (f st) = get_community st"
  shows "get_community (fst (and_then P f res)) = get_community (fst res)"
  using assms by (simp add: and_then_def)

lemma db_and_then:
  assumes "\<And>st. db (f st) = db st"
  shows "db (fst (and_then P f res)) = db (fst res)"
  using assms by (simp add: and_then_def)

text \<open>Every request but a join is handled by one of the two halves.\<close>

lemma dispatch_total:
  "(\<exists>a b c d e. request = Join a b c d e) \<or> dispatch_community env st cid s request \<noteq> None
     \<or> dispatch_roles env st cid s request \<noteq> None"
  by (cases request) auto

end
