(* ===== verification/Authority.thy ===== *)
theory Authority
  imports Dispatch
begin

text \<open>
  The access-control specification of the community server: \<open>community_step\<close> lists the changes a
  request may make to a hosted community, each with the authority it needs. The dispatcher is
  shown to refine it: whatever the request, the database and its faults, every community either
  stays as it is or makes one such step, and only the community the request was resolved to moves.
\<close>

section \<open>The specification\<close>

text \<open>
  \<open>community_step env d d' s r c c'\<close>: with the database \<open>d\<close> before and \<open>d'\<close> after it, a request \<open>r\<close> of
  \<open>s\<close> may turn \<open>c\<close> into \<open>c'\<close>. The database matters for new channels and roles only: their ids were
  free before the request and are taken after it.
\<close>

inductive community_step ::
  "request_env \<Rightarrow> server_db \<Rightarrow> server_db \<Rightarrow> string \<Rightarrow> community_request
   \<Rightarrow> hosted_community \<Rightarrow> hosted_community \<Rightarrow> bool"
  for env d d' s where
  join: "\<not> is_member c s \<Longrightarrow> c_members c \<noteq> [] \<Longrightarrow>
    community_step env d d' s (Join s code name prekey blob) c
      (push_member (new_member env s name new_member_role_ids blob) c)"
| join_first: "c_members c = [] \<Longrightarrow>
    community_step env d d' s (Join s code name prekey blob) c
      (push_member (new_member env s name owner_role_ids blob) (c\<lparr>c_creator_pseudonym_hex := s\<rparr>))"
| rejoin: "is_member c s \<Longrightarrow>
    community_step env d d' s (Join s code name prekey (Some blob)) c
      (modify_member s (\<lambda>m. m\<lparr>m_route_blob := Some blob\<rparr>) c)"
| leave: "insider c s \<Longrightarrow> community_step env d d' s Leave c (after_leave env s c)"
| kick: "authorised env c s KICK_MEMBERS \<Longrightarrow> s \<noteq> t \<Longrightarrow> outranks c s t \<Longrightarrow> insider c t \<Longrightarrow>
    community_step env d d' s (Kick t) c (after_leave env t c)"
| ban: "authorised env c s BAN_MEMBERS \<Longrightarrow> s \<noteq> t \<Longrightarrow> outranks c s t \<Longrightarrow> insider c t \<Longrightarrow>
    community_step env d d' s (Ban t) c (after_leave env t c)"
| rotate: "authorised env c s MANAGE_COMMUNITY \<Longrightarrow>
    community_step env d d' s RotateMEK c
      (c\<lparr>c_mek := mek_generate env (mek_generation (c_mek c) + 1)\<rparr>)"
| update: "authorised env c s MANAGE_COMMUNITY \<Longrightarrow>
    community_step env d d' s (UpdateCommunity n x) c
      (c\<lparr>c_name := (case n of None \<Rightarrow> c_name c | Some n \<Rightarrow> n),
         c_description := (case x of None \<Rightarrow> c_description c | Some x \<Rightarrow> x)\<rparr>)"
| create_channel: "authorised env c s MANAGE_CHANNELS \<Longrightarrow> ty \<in> {''text'', ''voice''} \<Longrightarrow>
    \<not> channel_exists (c_community_id c) (ch_id (new_channel env c name ty)) d \<Longrightarrow>
    channel_exists (c_community_id c) (ch_id (new_channel env c name ty)) d' \<Longrightarrow>
    community_step env d d' s (CreateChannel name ty) c (push_channel (new_channel env c name ty) c)"
| delete_channel: "authorised env c s MANAGE_CHANNELS \<Longrightarrow>
    community_step env d d' s (DeleteChannel chid) c (remove_channel chid c)"
| rename_channel: "authorised env c s MANAGE_CHANNELS \<Longrightarrow> find_channel c chid \<noteq> None \<Longrightarrow>
    community_step env d d' s (RenameChannel chid name) c
      (modify_channel chid (\<lambda>ch. ch\<lparr>ch_name := name\<rparr>) c)"
| set_overwrite: "authorised env c s MANAGE_ROLES \<Longrightarrow> find_channel c chid \<noteq> None \<Longrightarrow>
    community_step env d d' s (SetChannelOverwrite chid ty tid al de) c
      (modify_channel chid (\<lambda>ch. ch\<lparr>ch_permission_overwrites := upsert_overwrite
         \<lparr>ow_target_type = parse_overwrite_type ty, ow_target_id = tid, ow_allow = al, ow_deny = de\<rparr>
         (ch_permission_overwrites ch)\<rparr>) c)"
| delete_overwrite: "authorised env c s MANAGE_ROLES \<Longrightarrow>
    community_step env d d' s (DeleteChannelOverwrite chid ty tid) c
      (modify_channel chid (\<lambda>ch. ch\<lparr>ch_permission_overwrites := filter
         (\<lambda>ow. \<not> (ow_target_type ow = parse_overwrite_type ty \<and> ow_target_id ow = tid))
         (ch_permission_overwrites ch)\<rparr>) c)"
| create_role: "authorised env c s MANAGE_ROLES \<Longrightarrow>
    r = \<lparr>rd_id = next_role_id c, rd_name = name, rd_color = color, rd_permissions = perms,
         rd_position = new_role_position (highest_role_position c s), rd_hoist = hoist,
         rd_mentionable = mentionable\<rparr> \<Longrightarrow>
    \<not> row_exists role_pk (c_community_id c, uint (rd_id r)) (t_roles d) \<Longrightarrow>
    row_exists role_pk (c_community_id c, uint (rd_id r)) (t_roles d') \<Longrightarrow>
    community_step env d d' s (CreateRole name color perms hoist mentionable) c (push_role r c)"
| edit_role: "authorised env c s MANAGE_ROLES \<Longrightarrow> find_role c rid = Some r \<Longrightarrow>
    rd_position r < highest_role_position c s \<or> is_administrator (member_base_permissions env c s) \<Longrightarrow>
    community_step env d d' s (EditRole rid n x p pos h m) c
      (modify_role rid (edit_role n x p pos h m) c)"
| delete_role: "authorised env c s MANAGE_ROLES \<Longrightarrow> rid \<noteq> role_everyone_id \<Longrightarrow>
    role_position_or_max c rid < highest_role_position c s \<Longrightarrow>
    community_step env d d' s (DeleteRole rid) c (drop_role rid c)"
| assign_role: "authorised env c s MANAGE_ROLES \<Longrightarrow> outranks c s t \<Longrightarrow> find_member c t = Some m \<Longrightarrow>
    role_position_or_max c rid < highest_role_position c s \<Longrightarrow> rid \<notin> set (m_role_ids m) \<Longrightarrow>
    community_step env d d' s (AssignRole t rid) c (modify_member t (add_role_id rid) c)"
| unassign_role: "authorised env c s MANAGE_ROLES \<Longrightarrow> outranks c s t \<Longrightarrow> rid \<noteq> role_everyone_id \<Longrightarrow>
    find_member c t = Some m \<Longrightarrow>
    community_step env d d' s (UnassignRole t rid) c (modify_member t (remove_role_id rid) c)"
| timeout: "authorised env c s MODERATE_MEMBERS \<Longrightarrow> outranks c s t \<Longrightarrow> find_member c t = Some m \<Longrightarrow>
    community_step env d d' s (TimeoutMember t duration reason) c
      (modify_member t (set_timeout (Some (now_secs env + duration))) c)"
| remove_timeout: "authorised env c s MODERATE_MEMBERS \<Longrightarrow>
    community_step env d d' s (RemoveTimeout t) c (modify_member t (set_timeout None) c)"

text \<open>
  A handler refines the specification when it moves at most the community it was called for, and
  that by one step.
\<close>

definition refines_step :: "request_env \<Rightarrow> string \<Rightarrow> community_request \<Rightarrow> string \<Rightarrow> server_state \<Rightarrow> server_state \<Rightarrow> bool" where
  "refines_step env s req cid st st' \<longleftrightarrow>
     (\<forall>a. get_community st' a = get_community st a \<or>
          (a = cid \<and> (\<exists>c c'. get_community st a = Some c \<and> get_community st' a = Some c' \<and>
             community_step env (db st) (db st') s req c c')))"

lemma refines_step_same: "get_community st' = get_community st \<Longrightarrow> refines_step env s req cid st st'"
  by (simp add: refines_step_def)

lemma refines_step_refl [simp]: "refines_step env s req cid st st"
  by (simp add: refines_step_def)

lemma refines_stepI:
  assumes "get_community st cid = Some c"
    and "\<And>a. get_community st' a = (if a = cid then Some c' else get_community st a)"
    and "c' = c \<or> community_step env (db st) (db st') s req c c'"
  shows "refines_step env s req cid st st'"
  using assms by (auto simp: refines_step_def)

lemma refines_step_cong:
  "get_community st'' = get_community st' \<Longrightarrow> db st'' = db st' \<Longrightarrow> refines_step env s req cid st st' \<Longrightarrow>
    refines_step env s req cid st st''"
  by (simp add: refines_step_def)

text \<open>
  A handler with the common opening refines the specification if its body does, run by an
  authorised insider.
\<close>

lemma refines_member_with_permission:
  assumes "\<And>c. get_community st cid = Some c \<Longrightarrow> insider c s \<Longrightarrow> authorised env c s p \<Longrightarrow>
    refines_step env s req cid st (fst (rest c))"
  shows "refines_step env s req cid st (fst (member_with_permission env st cid s p rest))"
  by (rule member_with_permission_cases [of env st cid s p rest]) (auto intro: assms)

lemma refines_and_then:
  assumes "\<And>st. get_community (f st) = get_community st" and "\<And>st. db (f st) = db st"
    and "refines_step env s req cid st (fst res)"
  shows "refines_step env s req cid st (fst (and_then P f res))"
  using get_and_then [of f P res, OF assms(1)] db_and_then [of f P res, OF assms(2)] assms(3)
  by (rule refines_step_cong)

lemma refines_check_then:
  assumes "chk = Inr () \<Longrightarrow> refines_step env s req cid st (fst rest)"
  shows "refines_step env s req cid st (fst (check_then st chk rest))"
  using assms by (cases chk) (auto simp:)

section \<open>Leaving, kicking and banning\<close>

lemma handle_leave_get:
  "get_community (fst (handle_leave env st cid key)) a =
    (case get_community st cid of
       None \<Rightarrow> get_community st a
     | Some c \<Rightarrow> if insider c key \<and> a = cid then Some (after_leave env key c) else get_community st a)"
proof (cases "get_community st cid")
  case None
  have "snd (handle_leave env st cid key) = ResOk"
    using None by (simp add: handle_leave_def Let_def)
  then show ?thesis using None by (simp add: handle_leave_hosted)
next
  case (Some c)
  show ?thesis
  proof (cases "insider c key")
    case True
    with Some show ?thesis by (simp add: handle_leave_hosted handle_leave_ok)
  next
    case False
    with Some show ?thesis by (simp add: handle_leave_refused)
  qed
qed

lemma refines_leave: "refines_step env s Leave cid st (fst (handle_leave env st cid s))"
  by (auto simp: refines_step_def handle_leave_get intro: community_step.leave split: option.splits)

lemma refines_removal:
  assumes "get_community st cid = Some c" and "get_community st' = get_community st"
    and "\<And>d'. insider c t \<Longrightarrow> community_step env (db st) d' s req c (after_leave env t c)"
  shows "refines_step env s req cid st (fst (handle_leave env st' cid t))"
  using assms by (auto simp: refines_step_def handle_leave_get)

lemma refines_kick: "refines_step env s (Kick t) cid st (fst (handle_kick env st cid s t))"
  by (cases "get_community st cid")
     (auto simp: handle_kick_def with_community_simps check_eqs
       intro!: refines_removal community_step.kick)

lemma refines_ban: "refines_step env s (Ban t) cid st (fst (handle_ban env st cid s t))"
  unfolding handle_ban_def Let_def
  by (rule refines_member_with_permission)
     (auto simp: check_eqs frame_simps intro!: refines_removal community_step.ban)

section \<open>Join\<close>

lemma get_add_new_member:
  assumes "get_community st cid = Some c"
  shows "get_community (fst (add_new_member env st cid s name blob)) a =
    (if a = cid
     then Some (if c_members c = []
                then push_member (new_member env s name owner_role_ids blob)
                       (c\<lparr>c_creator_pseudonym_hex := s\<rparr>)
                else push_member (new_member env s name new_member_role_ids blob) c)
     else get_community st a)"
  using assms
  by (simp add: add_new_member_def Let_def frame_simps is_first_member_def split: option.split)

lemma refines_add_new_member:
  assumes "get_community st cid = Some c" and "\<not> is_member c s"
  shows "refines_step env s (Join s code name prekey blob) cid st (fst (add_new_member env st cid s name blob))"
  using assms
  by (auto simp: refines_step_def get_add_new_member
      intro: community_step.join community_step.join_first)

lemma get_handle_rejoin:
  assumes "handle_rejoin st cid s blob = Some res"
  shows "\<exists>c. get_community st cid = Some c \<and> is_member c s \<and>
    (\<forall>a. get_community (fst res) a =
      (if a = cid then Some (case blob of None \<Rightarrow> c
                             | Some b \<Rightarrow> modify_member s (\<lambda>m. m\<lparr>m_route_blob := Some b\<rparr>) c)
       else get_community st a))"
  using assms
  by (auto simp: handle_rejoin_def Let_def frame_simps is_member_find split: option.splits)

lemma refines_rejoin:
  assumes "handle_rejoin st cid s blob = Some res"
  shows "refines_step env s (Join s code name prekey blob) cid st (fst res)"
proof -
  obtain c where c: "get_community st cid = Some c" "is_member c s"
    "\<And>a. get_community (fst res) a =
      (if a = cid then Some (case blob of None \<Rightarrow> c
                             | Some b \<Rightarrow> modify_member s (\<lambda>m. m\<lparr>m_route_blob := Some b\<rparr>) c)
       else get_community st a)"
    using get_handle_rejoin [OF assms] by blast
  show ?thesis
    by (rule refines_stepI [OF c(1) c(3)])
       (auto split: option.splits intro: community_step.rejoin [OF c(2)])
qed

lemma handle_rejoin_None_iff:
  "handle_rejoin st cid s blob = None \<longleftrightarrow>
    (case get_community st cid of None \<Rightarrow> True | Some c \<Rightarrow> \<not> is_member c s)"
  by (auto simp: handle_rejoin_def Let_def frame_simps is_member_find split: option.splits)

definition join_target :: "server_state \<Rightarrow> route_id option \<Rightarrow> string option \<Rightarrow> string option" where
  "join_target st incoming_route_id ipc_community_id =
     (case ipc_community_id of
        Some cid \<Rightarrow> Some cid
      | None \<Rightarrow> Option.bind incoming_route_id (find_community_for_route st))"

text \<open>Past the ban check, a join is a rejoin or the admission of a new member.\<close>

definition admit ::
  "request_env \<Rightarrow> server_state \<Rightarrow> string \<Rightarrow> string \<Rightarrow> string \<Rightarrow> bytes option \<Rightarrow> rpc_result" where
  "admit env st cid s name blob =
     (case handle_rejoin st cid s blob of
        Some res \<Rightarrow> res
      | None \<Rightarrow>
          (case add_new_member env st cid s name blob of
             (st, None) \<Rightarrow> (st, not_found)
           | (st, Some (payload, gen, channels, role_ids, roles)) \<Rightarrow>
               (let st = publish_member_roster env cid st;
                    st = broadcast_to_members cid s (MemberJoined cid s name role_ids) st
                in (st, Joined payload gen channels role_ids roles))))"

lemma handle_join_eq:
  "handle_join env st s name blob route ipc =
    (case join_target st route ipc of
       None \<Rightarrow> (st, ResError 404 ''no hosted community matches this route'')
     | Some cid \<Rightarrow>
         if ipc \<noteq> None \<and> get_community st cid = None then (st, not_found)
         else (let (banned, st) = sql_query (is_banned_row cid s) st
               in if banned = Some True then (st, ResError 403 ''you are banned from this community'')
                  else admit env st cid s name blob))"
  unfolding handle_join_def join_target_def admit_def by (rule refl)

lemma get_admit_new:
  assumes "handle_rejoin st cid s blob = None"
  shows "get_community (fst (admit env st cid s name blob)) =
      get_community (fst (add_new_member env st cid s name blob))"
    and "db (fst (admit env st cid s name blob)) = db (fst (add_new_member env st cid s name blob))"
  using assms by (simp_all add: admit_def Let_def frame_simps split: prod.split option.split)

lemma get_add_new_member_None:
  "get_community st cid = None \<Longrightarrow>
    get_community (fst (add_new_member env st cid s name blob)) = get_community st"
  by (simp add: add_new_member_def Let_def frame_simps)

lemma refines_admit: "refines_step env s (Join s code name prekey blob) cid st (fst (admit env st cid s name blob))"
proof (cases "handle_rejoin st cid s blob")
  case None
  show ?thesis
  proof (cases "get_community st cid")
    case None
    with \<open>handle_rejoin st cid s blob = None\<close> show ?thesis
      by (intro refines_step_same) (simp add: get_admit_new get_add_new_member_None)
  next
    case (Some c)
    with None have "\<not> is_member c s" by (simp add: handle_rejoin_None_iff)
    with Some show ?thesis
      using refines_step_cong [OF get_admit_new [OF None] refines_add_new_member] by blast
  qed
next
  case (Some res)
  then show ?thesis using refines_rejoin [OF Some] by (simp add: admit_def)
qed

lemma refines_step_start:
  "get_community st1 = get_community st \<Longrightarrow> db st1 = db st \<Longrightarrow> refines_step env s req cid st1 st' \<Longrightarrow>
    refines_step env s req cid st st'"
  by (simp add: refines_step_def)

lemma refines_join:
  assumes "join_target st route ipc = Some cid"
  shows "refines_step env s (Join s code name prekey blob) cid st (fst (handle_join env st s name blob route ipc))"
proof -
  have "refines_step env s (Join s code name prekey blob) cid st (fst (admit env (snd (sql_query q st)) cid s name blob))" for q
    by (rule refines_step_start [OF _ _ refines_admit]) (simp_all add: frame_simps)
  moreover have "refines_step env s (Join s code name prekey blob) cid st (snd (sql_query q st))" for q
    by (rule refines_step_same) (simp add: frame_simps)
  ultimately show ?thesis using assms
    by (auto simp: handle_join_eq case_prod_unfold Let_def)
qed

section \<open>Messages, keys and channels\<close>

lemma sql_execute_ok:
  "sql_execute stmt st = (True, st') \<Longrightarrow> stmt (db st) = Some (db st')"
  using db_sql_execute_cases [of stmt st] by simp

text \<open>Both creations insert a row first and change the community when that worked.\<close>

lemma refines_execute_then:
  assumes c: "get_community st cid = Some c"
    and step: "\<And>d. stmt (db st) = Some d \<Longrightarrow> community_step env (db st) d s req c (f c)"
  shows "refines_step env s req cid st (fst (case sql_execute stmt st of
           (ok, st) \<Rightarrow> if \<not> ok then (st, e) else (modify_community cid f st, r)))"
proof -
  obtain ok st' where x: "sql_execute stmt st = (ok, st')" by fastforce
  then have g: "get_community st' = get_community st"
    using get_community_frame(2) [of stmt st] by simp
  show ?thesis
  proof (cases ok)
    case False
    with x g show ?thesis by (simp add: refines_step_same)
  next
    case True
    with x have "stmt (db st) = Some (db st')" by (simp add: sql_execute_ok)
    then have "community_step env (db st) (db st') s req c (f c)" by (rule step)
    with x True c g show ?thesis
      by (auto simp: frame_simps intro!: refines_stepI [OF c, of _ "f c"])
  qed
qed

lemma get_send_message:
  "get_community (fst (handle_send_message env st cid s chid ct gen)) = get_community st"
  by (auto simp: handle_send_message_def with_community_def check_eqs frame_simps case_prod_unfold
      Let_def split: option.split)

lemma get_get_messages:
  "get_community (fst (handle_get_messages env st cid s chid before limit)) = get_community st"
  by (auto simp: handle_get_messages_def check_then_def frame_simps case_prod_unfold Let_def
      split: option.split sum.split)

lemma get_request_mek: "fst (handle_request_mek st cid s) = st"
  by (auto simp: handle_request_mek_def with_community_def check_eqs split: option.split)

lemma get_get_roles: "fst (handle_get_roles st cid s) = st"
  by (auto simp: handle_get_roles_def with_community_def check_eqs split: option.split)

lemma refines_rotate: "refines_step env s RotateMEK cid st (fst (handle_rotate_mek env st cid s))"
  unfolding handle_rotate_mek_def
  by (rule refines_member_with_permission)
     (auto simp: Let_def frame_simps intro!: refines_stepI community_step.rotate)

lemma refines_unban: "refines_step env s req cid st (fst (handle_unban env st cid s t))"
  unfolding handle_unban_def
  by (rule refines_member_with_permission) (simp add: refines_step_same frame_simps)

lemma refines_ban_list: "refines_step env s req cid st (fst (handle_get_ban_list env st cid s))"
  unfolding handle_get_ban_list_def
  by (rule refines_member_with_permission)
     (simp add: refines_step_same frame_simps case_prod_unfold Let_def)

lemma get_publish_tail:
  "get_community (case get_community st cid of None \<Rightarrow> st | Some c \<Rightarrow> publish_metadata env cid (h c) st) =
    get_community st"
  by (simp add: get_community_frame split: option.split)

lemma refines_update: "refines_step env s (UpdateCommunity n d) cid st (fst (handle_update_community env st cid s n d))"
  unfolding handle_update_community_def Let_def
proof (rule refines_member_with_permission)
  fix c assume c: "get_community st cid = Some c" and a: "authorised env c s MANAGE_COMMUNITY"
  let ?f = "\<lambda>c. c\<lparr>c_name := (case n of None \<Rightarrow> c_name c | Some n \<Rightarrow> n),
                 c_description := (case d of None \<Rightarrow> c_description c | Some d \<Rightarrow> d)\<rparr>"
  let ?st1 = "modify_community cid ?f st"
  let ?st2 = "case n of None \<Rightarrow> ?st1 | Some n \<Rightarrow> sql_run (update_hosted cid (\<lambda>r. r\<lparr>hr_name := n\<rparr>)) ?st1"
  let ?st3 = "case d of None \<Rightarrow> ?st2
    | Some d \<Rightarrow> sql_run (update_hosted cid (\<lambda>r. r\<lparr>hr_description := d\<rparr>)) ?st2"
  let ?st4 = "case get_community ?st3 cid of None \<Rightarrow> ?st3 | Some c \<Rightarrow> publish_metadata env cid (c_name c) ?st3"
  have "get_community ?st3 = get_community ?st1" by (simp add: get_community_frame split: option.split)
  then have "get_community ?st4 = get_community ?st1" using get_publish_tail by (rule trans [rotated])
  then have "get_community ?st4 a = (if a = cid then Some (?f c) else get_community st a)" for a
    by (simp add: frame_simps c)
  then show "refines_step env s (UpdateCommunity n d) cid st (fst (?st4, CommunityUpdated))" unfolding fst_conv
    by (rule refines_stepI [OF c]) (simp add: community_step.update [OF a])
qed

lemma refines_create_channel:
  "refines_step env s (CreateChannel n ty) cid st (fst (handle_create_channel env st cid s n ty))"
  unfolding handle_create_channel_def Let_def
  by (rule refines_member_with_permission)
     (auto simp: insert_channel_def row_insert_def row_exists_def channel_exists_def channel_pk_def
       split: if_splits intro!: refines_execute_then community_step.create_channel)

lemma refines_delete_channel:
  "refines_step env s (DeleteChannel chid) cid st (fst (handle_delete_channel env st cid s chid))"
  unfolding handle_delete_channel_def
  by (rule refines_member_with_permission)
     (auto simp: frame_simps intro!: refines_stepI community_step.delete_channel)

lemma refines_rename_channel:
  "refines_step env s (RenameChannel chid n) cid st (fst (handle_rename_channel env st cid s chid n))"
  unfolding handle_rename_channel_def
  by (rule refines_member_with_permission)
     (auto simp: frame_simps split: option.split
       intro!: refines_stepI community_step.rename_channel)

lemma refines_set_overwrite:
  "refines_step env s (SetChannelOverwrite chid ty tid al de) cid st (fst (handle_set_channel_overwrite env st cid s chid ty tid al de))"
  unfolding handle_set_channel_overwrite_def
  by (rule refines_member_with_permission)
     (auto simp: frame_simps Let_def split: option.split
       intro!: refines_stepI community_step.set_overwrite)

lemma refines_delete_overwrite:
  "refines_step env s (DeleteChannelOverwrite chid ty tid) cid st (fst (handle_delete_channel_overwrite env st cid s chid ty tid))"
  unfolding handle_delete_channel_overwrite_def
  by (rule refines_member_with_permission)
     (auto simp: frame_simps Let_def intro!: refines_stepI community_step.delete_overwrite [simplified])

section \<open>Roles and timeouts\<close>

lemma refines_create_role:
  "refines_step env s (CreateRole n col perms h m) cid st (fst (handle_create_role env st cid s n col perms h m))"
  unfolding handle_create_role_def Let_def
  by (rule refines_member_with_permission)
     (auto simp: insert_role_def row_insert_def row_exists_def role_pk_def role_to_row_def
       split: if_splits intro!: refines_execute_then community_step.create_role)

lemma refines_edit_role:
  "refines_step env s (EditRole rid n col perms pos h m) cid st (fst (handle_edit_role env st cid s rid n col perms pos h m))"
  unfolding handle_edit_role_def Let_def
  by (rule refines_member_with_permission)
     (auto simp: frame_simps not_le split: option.split
       intro!: refines_stepI community_step.edit_role)

lemma refines_delete_role:
  "refines_step env s (DeleteRole rid) cid st (fst (handle_delete_role env st cid s rid))"
proof (cases "rid = role_everyone_id")
  case True
  then show ?thesis by (simp add: handle_delete_role_def)
next
  case False
  then show ?thesis unfolding handle_delete_role_def Let_def if_not_P [OF False]
    by (intro refines_member_with_permission)
       (auto simp: frame_simps not_le intro!: refines_stepI community_step.delete_role)
qed

lemma refines_assign_role:
  "refines_step env s (AssignRole t rid) cid st (fst (handle_assign_role env st cid s t rid))"
  unfolding handle_assign_role_def Let_def
  by (rule refines_member_with_permission)
     (auto simp: frame_simps not_le check_eqs split: option.split
       intro!: refines_stepI community_step.assign_role)

lemma refines_unassign_role:
  "refines_step env s (UnassignRole t rid) cid st (fst (handle_unassign_role env st cid s t rid))"
proof (cases "rid = role_everyone_id")
  case True
  then show ?thesis by (simp add: handle_unassign_role_def)
next
  case False
  then show ?thesis unfolding handle_unassign_role_def Let_def if_not_P [OF False]
    by (intro refines_member_with_permission)
       (auto simp: frame_simps check_eqs split: option.split
         intro!: refines_stepI community_step.unassign_role)
qed

lemma refines_timeout:
  "refines_step env s (TimeoutMember t dur reason) cid st (fst (handle_timeout_member env st cid s t dur reason))"
  unfolding handle_timeout_member_def Let_def
  by (rule refines_member_with_permission)
     (auto simp: frame_simps check_eqs split: option.split
       intro!: refines_stepI community_step.timeout)

lemma refines_remove_timeout:
  "refines_step env s (RemoveTimeout t) cid st (fst (handle_remove_timeout env st cid s t))"
  unfolding handle_remove_timeout_def Let_def
  by (rule refines_member_with_permission)
     (auto simp: frame_simps intro!: refines_stepI community_step.remove_timeout)

section \<open>The dispatcher refines the specification\<close>

definition request_target ::
  "server_state \<Rightarrow> string \<Rightarrow> community_request \<Rightarrow> route_id option \<Rightarrow> string option \<Rightarrow> string option"
  where
  "request_target st s request route ipc =
     (case request of Join _ _ _ _ _ \<Rightarrow> join_target st route ipc
      | _ \<Rightarrow> resolve_community_id st s route ipc)"

lemmas refines_handlers = refines_leave refines_kick refines_ban refines_rotate refines_unban
  refines_ban_list refines_update refines_create_channel refines_delete_channel
  refines_rename_channel refines_set_overwrite refines_delete_overwrite refines_create_role
  refines_edit_role refines_delete_role refines_assign_role refines_unassign_role refines_timeout
  refines_remove_timeout

lemmas refines_reads = refines_step_same [OF get_send_message] refines_step_same [OF get_get_messages]

lemma refines_dispatch_community:
  "dispatch_community env st cid s request = Some res \<Longrightarrow> refines_step env s request cid st (fst res)"
  by (cases request)
     (auto simp: refines_handlers refines_reads get_request_mek frame_simps intro!: refines_and_then)

lemma refines_dispatch_roles:
  "dispatch_roles env st cid s request = Some res \<Longrightarrow> refines_step env s request cid st (fst res)"
  by (cases request)
     (auto simp: refines_handlers get_get_roles frame_simps intro!: refines_and_then)

lemma dispatch_request_other:
  assumes "\<not> (\<exists>key code name prekey blob. request = Join key code name prekey blob)"
  shows "dispatch_request env st s request route ipc =
    (case request_target st s request route ipc of
       None \<Rightarrow> (st, ResError 403 ''not a member of any hosted community'')
     | Some cid \<Rightarrow>
         (case dispatch_community env st cid s request of
            Some res \<Rightarrow> res
          | None \<Rightarrow> (case dispatch_roles env st cid s request of Some res \<Rightarrow> res | None \<Rightarrow> (st, ResOk))))"
  using assms by (cases request; hypsubst; simp add: dispatch_request_def request_target_def)

lemma dispatch_cases:
  obtains (no_target) e where "request_target st s request route ipc = None"
      and "dispatch_request env st s request route ipc = (st, e)" and "is_error e"
  | (join) cid code name prekey blob where "request_target st s request route ipc = Some cid"
      and "request = Join s code name prekey blob"
      and "dispatch_request env st s request route ipc = handle_join env st s name blob route ipc"
  | (mismatch) e where "dispatch_request env st s request route ipc = (st, e)" and "is_error e"
  | (handled) cid where "request_target st s request route ipc = Some cid"
      and "dispatch_community env st cid s request = Some (dispatch_request env st s request route ipc) \<or>
           dispatch_roles env st cid s request = Some (dispatch_request env st s request route ipc)"
proof (cases "\<exists>key code name prekey blob. request = Join key code name prekey blob")
  case True
  then obtain key code name prekey blob where r: "request = Join key code name prekey blob" by blast
  then have "request_target st s request route ipc = join_target st route ipc"
    by (simp add: request_target_def)
  with r show ?thesis
    by (cases "key = s"; cases "join_target st route ipc")
       (auto simp: dispatch_request_def handle_join_eq intro: no_target join mismatch)
next
  case False
  show ?thesis
  proof (cases "request_target st s request route ipc")
    case None
    show ?thesis
      by (rule no_target [OF None]) (auto simp: dispatch_request_other [OF False] None)
  next
    case (Some cid)
    have "dispatch_community env st cid s request \<noteq> None \<or> dispatch_roles env st cid s request \<noteq> None"
      using False dispatch_total [of request env st cid s] by blast
    then show ?thesis
      by (intro handled [OF Some])
         (auto simp: dispatch_request_other [OF False] Some split: option.split)
  qed
qed

lemma dispatch_refines_step:
  "get_community (fst (dispatch_request env st s request route ipc)) a = get_community st a \<or>
   (request_target st s request route ipc = Some a \<and>
     (\<exists>c c'. get_community st a = Some c \<and>
        get_community (fst (dispatch_request env st s request route ipc)) a = Some c' \<and>
        community_step env (db st) (db (fst (dispatch_request env st s request route ipc))) s request c c'))"
proof (rule dispatch_cases [of st s request route ipc env])
  fix cid code name prekey blob
  assume t: "request_target st s request route ipc = Some cid"
    and r: "request = Join s code name prekey blob"
    and d: "dispatch_request env st s request route ipc = handle_join env st s name blob route ipc"
  from t r have "join_target st route ipc = Some cid" by (simp add: request_target_def)
  from refines_join [OF this, of env s code name prekey blob] show ?thesis unfolding r t [unfolded r] d [unfolded r]
    by (auto simp: refines_step_def)
next
  fix cid
  assume t: "request_target st s request route ipc = Some cid"
    and "dispatch_community env st cid s request = Some (dispatch_request env st s request route ipc) \<or>
         dispatch_roles env st cid s request = Some (dispatch_request env st s request route ipc)"
  then have "refines_step env s request cid st (fst (dispatch_request env st s request route ipc))"
    by (elim disjE) (erule refines_dispatch_community, erule refines_dispatch_roles)
  then show ?thesis unfolding t by (auto simp: refines_step_def)
qed simp_all

text \<open>
  C1. The dispatcher implements the access-control specification: a request whose target community
  cannot be resolved is refused and changes no community; any other request leaves every other
  community as it was, and the target as it was or changed by one step its sender is authorised
  to make. This holds for every request, database and pattern of database faults.
\<close>

theorem dispatch_refines_specification:
  "case request_target st s request route ipc of
     None \<Rightarrow> is_error (snd (dispatch_request env st s request route ipc)) \<and>
             get_community (fst (dispatch_request env st s request route ipc)) = get_community st
   | Some cid \<Rightarrow> refines_step env s request cid st (fst (dispatch_request env st s request route ipc))"
proof (cases "request_target st s request route ipc")
  case None
  then have "is_error (snd (dispatch_request env st s request route ipc))"
    by (cases rule: dispatch_cases [of st s request route ipc env]) simp_all
  moreover have "get_community (fst (dispatch_request env st s request route ipc)) = get_community st"
    by (rule ext) (use dispatch_refines_step [of env st s request route ipc] None in auto)
  ultimately show ?thesis using None by simp
next
  case (Some cid)
  then show ?thesis
    using dispatch_refines_step [of env st s request route ipc] by (auto simp: refines_step_def)
qed

end
