(* ===== verification/Demo.thy ===== *)
theory Demo
  imports Authority
begin

text \<open>
  A small hosted community on which the properties are exercised: its owner, a moderator and a
  member without further roles, one text channel and four roles.
\<close>

definition demo_member :: "string \<Rightarrow> u32 list \<Rightarrow> server_member" where
  "demo_member key ids = \<lparr>m_pseudonym_key_hex = key, m_display_name = key, m_role_ids = ids,
     m_joined_at = 10, m_route_blob = Some [7], m_timeout_until = None\<rparr>"

definition demo_role :: "u32 \<Rightarrow> string \<Rightarrow> u64 \<Rightarrow> int \<Rightarrow> role_definition" where
  "demo_role rid name perms position = \<lparr>rd_id = rid, rd_name = name, rd_color = 0,
     rd_permissions = perms, rd_position = position, rd_hoist = False, rd_mentionable = False\<rparr>"

definition demo_community :: hosted_community where
  "demo_community =
     \<lparr>c_community_id = ''c1'', c_dht_record_key = ''k'', c_owner_keypair_hex = ''o'', c_name = ''n'',
      c_description = [], c_route_id = Some ''r1'', c_route_blob = Some [1],
      c_mek = \<lparr>mek_key = [5], mek_generation = 1\<rparr>,
      c_members = [demo_member ''owner'' [0, 1, 2, 3], demo_member ''mod'' [0, 1, 2],
                   demo_member ''bob'' [0, 1]],
      c_channels = [\<lparr>ch_id = ''general'', ch_name = ''general'', ch_channel_type = ''text'',
                     ch_sort_order = 0, ch_permission_overwrites = []\<rparr>],
      c_roles = [demo_role 0 ''@everyone'' everyone_permissions 0,
                 demo_role 1 ''Member'' member_permissions 1,
                 demo_role 2 ''Moderator'' moderator_permissions 2,
                 demo_role 3 ''Owner'' owner_permissions 4],
      c_creator_pseudonym_hex = ''owner''\<rparr>"

definition demo_db :: server_db where
  "demo_db = empty_db
     \<lparr>t_hosted := [\<lparr>hr_id = ''c1'', hr_dht_record_key = ''k'', hr_owner_keypair_hex = ''o'',
                    hr_name = ''n'', hr_description = [], hr_creator_pseudonym = ''owner'',
                    hr_created_at = 10\<rparr>],
      t_channels := [\<lparr>cr_community_id = ''c1'', cr_id = ''general'', cr_name = ''general'',
                      cr_channel_type = ''text'', cr_sort_order = 0\<rparr>],
      t_roles := map (role_to_row ''c1'') (c_roles demo_community),
      t_members := map (\<lambda>m. \<lparr>mr_community_id = ''c1'', mr_pseudonym = m_pseudonym_key_hex m,
        mr_display_name = Some (m_display_name m), mr_joined_at = 10, mr_route_blob = Some [7]\<rparr>)
        (c_members demo_community)\<rparr>"

definition demo_state :: server_state where
  "demo_state = \<lparr>hosted = [(''c1'', demo_community)], db = demo_db, faults = [], net_routes = [],
     net_opens = [], outbox = [],
     started_at = 0\<rparr>"

definition demo_env :: request_env where
  "demo_env = \<lparr>now_secs = 100, rand_channel = [1, 2], rand_key = [9], owner_public_key = (\<lambda>s. s)\<rparr>"

section \<open>Facts about the sample\<close>

lemma demo_get [simp]: "get_community demo_state ''c1'' = Some demo_community"
  by (simp add: get_community_def demo_state_def)

lemma demo_faults [simp]: "faults demo_state = []"
  by (simp add: demo_state_def)

lemma demo_db [simp]: "db demo_state = demo_db"
  by (simp add: demo_state_def)

lemma demo_fields [simp]:
  "c_creator_pseudonym_hex demo_community = ''owner''" "c_community_id demo_community = ''c1''"
  "c_name demo_community = ''n''" "c_mek demo_community = \<lparr>mek_key = [5], mek_generation = 1\<rparr>"
  "c_members demo_community = [demo_member ''owner'' [0, 1, 2, 3], demo_member ''mod'' [0, 1, 2],
     demo_member ''bob'' [0, 1]]"
  by (simp_all add: demo_community_def)

lemma demo_member_fields [simp]:
  "m_pseudonym_key_hex (demo_member k ids) = k" "m_role_ids (demo_member k ids) = ids"
  "m_timeout_until (demo_member k ids) = None" "m_route_blob (demo_member k ids) = Some [7]"
  by (simp_all add: demo_member_def)

lemma demo_find_member [simp]:
  "find_member demo_community ''owner'' = Some (demo_member ''owner'' [0, 1, 2, 3])"
  "find_member demo_community ''mod'' = Some (demo_member ''mod'' [0, 1, 2])"
  "find_member demo_community ''bob'' = Some (demo_member ''bob'' [0, 1])"
  "find_member demo_community ''eve'' = None"
  by (simp_all add: find_member_def)

lemma demo_is_member [simp]:
  "is_member demo_community ''owner''" "is_member demo_community ''mod''"
  "is_member demo_community ''bob''" "\<not> is_member demo_community ''eve''"
  by (simp_all add: is_member_find)

lemma demo_insider [simp]:
  "insider demo_community ''owner''" "insider demo_community ''mod''" "insider demo_community ''bob''"
  "\<not> insider demo_community ''eve''"
  by (simp_all add: insider_def)

lemma demo_owner [simp]:
  "is_creator demo_community ''owner''" "authorised env demo_community ''owner'' p"
  "outranks demo_community ''owner'' t"
  by (simp_all add: is_creator_def authorised_def outranks_def)

lemma demo_find_channel [simp]:
  "find_channel demo_community ''general'' =
     Some \<lparr>ch_id = ''general'', ch_name = ''general'', ch_channel_type = ''text'', ch_sort_order = 0,
       ch_permission_overwrites = []\<rparr>"
  by (simp add: find_channel_def demo_community_def)

lemma demo_find_role [simp]:
  "find_role demo_community 0 = Some (demo_role 0 ''@everyone'' everyone_permissions 0)"
  "find_role demo_community 1 = Some (demo_role 1 ''Member'' member_permissions 1)"
  "find_role demo_community 2 = Some (demo_role 2 ''Moderator'' moderator_permissions 2)"
  "find_role demo_community 3 = Some (demo_role 3 ''Owner'' owner_permissions 4)"
  by (simp_all add: find_role_def demo_community_def demo_role_def)

lemma demo_position [simp]:
  "highest_role_position demo_community ''owner'' = 4"
  "highest_role_position demo_community ''mod'' = 2"
  "highest_role_position demo_community ''bob'' = 1"
  by (simp_all add: highest_role_position_def role_positions_def map_filter_def demo_role_def
      max_position_def)

text \<open>Requests over the local socket name the community.\<close>

lemma demo_resolve [simp]: "resolve_community_id st s route (Some cid) = Some cid"
  by (simp add: resolve_community_id_def)

lemma demo_dispatch_kick [simp]:
  "get_community (fst (dispatch_request env demo_state ''owner'' (Kick ''bob'') None (Some ''c1''))) ''c1''
    = Some (after_leave env ''bob'' demo_community)"
  by (simp add: dispatch_request_def handle_kick_def with_community_def check_eqs handle_leave_get)

lemma demo_dispatch_assign [simp]:
  "get_community (fst (dispatch_request env demo_state ''owner'' (AssignRole ''bob'' 2) None (Some ''c1''))) ''c1''
    = Some (modify_member ''bob'' (add_role_id 2) demo_community)"
  by (simp add: dispatch_request_def handle_assign_role_def member_with_permission_eq check_eqs
      role_position_or_max_def demo_role_def Let_def get_and_then get_broadcast_changed frame_simps)

lemma demo_dispatch_timeout [simp]:
  "get_community (fst (dispatch_request env demo_state ''owner'' (TimeoutMember ''bob'' 60 None) None (Some ''c1''))) ''c1''
    = Some (modify_member ''bob'' (set_timeout (Some (now_secs env + 60))) demo_community)"
  by (simp add: dispatch_request_def handle_timeout_member_def member_with_permission_eq check_eqs
      Let_def frame_simps)

lemma demo_dispatch_update [simp]:
  "get_community (fst (dispatch_request env demo_state ''owner'' (UpdateCommunity (Some ''x'') None) None (Some ''c1''))) ''c1''
    = Some (demo_community\<lparr>c_name := ''x'', c_description := c_description demo_community\<rparr>)"
  by (simp add: dispatch_request_def handle_update_community_def member_with_permission_eq
      Let_def frame_simps)

lemma demo_not_banned [simp]: "is_banned_row ''c1'' key demo_db = False"
  by (simp add: is_banned_row_def row_exists_def demo_db_def empty_db_def)

lemma demo_join:
  "get_community (fst (handle_join env demo_state ''eve'' name blob None (Some ''c1''))) ''c1''
    = Some (push_member (new_member env ''eve'' name new_member_role_ids blob) demo_community)"
proof -
  have "handle_rejoin demo_state ''c1'' ''eve'' blob = None" by (simp add: handle_rejoin_None_iff)
  then show ?thesis
    by (simp add: handle_join_eq join_target_def sql_query_no_faults get_admit_new
        get_add_new_member [OF demo_get])
qed

end
