(* ===== verification/Powers.thy ===== *)
theory Powers
  imports Demo
begin

text \<open>
  What a sender needs to change a hosted community, read off the access-control specification:
  which permission guards which part of the state, who may remove, mute or promote whom, and when
  the media encryption key changes.
\<close>

section \<open>From requests to steps\<close>

inductive_cases community_stepE: "community_step env d d' s request c c'"

lemma dispatch_step:
  assumes "get_community st a = Some c"
    and "get_community (fst (dispatch_request env st s request route ipc)) a = Some c'"
  shows "c' = c \<or> (request_target st s request route ipc = Some a \<and> community_step env (db st)
    (db (fst (dispatch_request env st s request route ipc))) s request c c')"
  using assms dispatch_refines_step [of env st s request route ipc a] by auto

text \<open>No request makes a community appear or disappear.\<close>

lemma dispatch_hosted_iff:
  "get_community (fst (dispatch_request env st s request route ipc)) a = None \<longleftrightarrow> get_community st a = None"
  using dispatch_refines_step [of env st s request route ipc a] by auto

section \<open>Rosters after a step\<close>

definition channel_listing :: "hosted_community \<Rightarrow> (string \<times> string \<times> string \<times> int) list" where
  "channel_listing c = map (\<lambda>ch. (ch_id ch, ch_name ch, ch_channel_type ch, ch_sort_order ch)) (c_channels c)"

definition overwrites_of :: "hosted_community \<Rightarrow> string \<Rightarrow> permission_overwrite list option" where
  "overwrites_of c chid = map_option ch_permission_overwrites (find_channel c chid)"

lemma push_channel_frame [frame_simps]:
  "c_channels (push_channel ch c) = c_channels c @ [ch]" "c_members (push_channel ch c) = c_members c"
  "c_roles (push_channel ch c) = c_roles c" "c_mek (push_channel ch c) = c_mek c"
  "c_creator_pseudonym_hex (push_channel ch c) = c_creator_pseudonym_hex c"
  "c_name (push_channel ch c) = c_name c" "c_description (push_channel ch c) = c_description c"
  "c_community_id (push_channel ch c) = c_community_id c"
  by (simp_all add: push_channel_def)

lemma step_roles:
  "community_step env d d' s request c c' \<Longrightarrow> c_roles c' \<noteq> c_roles c \<Longrightarrow> authorised env c s MANAGE_ROLES"
  by (erule community_stepE) (auto simp: frame_simps)

lemma step_metadata:
  "community_step env d d' s request c c' \<Longrightarrow> c_name c' \<noteq> c_name c \<or> c_description c' \<noteq> c_description c \<Longrightarrow>
    authorised env c s MANAGE_COMMUNITY"
  by (erule community_stepE) (auto simp: frame_simps)

lemma step_channels:
  "community_step env d d' s request c c' \<Longrightarrow> channel_listing c' \<noteq> channel_listing c \<Longrightarrow>
    authorised env c s MANAGE_CHANNELS"
  by (erule community_stepE) (auto simp: frame_simps channel_listing_def modify_channel_def)

lemma find_channel_frame [frame_simps]:
  "find_channel (push_member m c) k = find_channel c k"
  "find_channel (c\<lparr>c_creator_pseudonym_hex := x\<rparr>) k = find_channel c k"
  "find_channel (c\<lparr>c_mek := y\<rparr>) k = find_channel c k"
  "find_channel (c\<lparr>c_name := n, c_description := de\<rparr>) k = find_channel c k"
  "find_channel (modify_member key f c) k = find_channel c k"
  "find_channel (after_leave env key c) k = find_channel c k"
  "find_channel (modify_role rid g c) k = find_channel c k"
  "find_channel (push_role r c) k = find_channel c k"
  "find_channel (drop_role rid c) k = find_channel c k"
  "find_channel (push_channel ch c) k =
    (case find_channel c k of None \<Rightarrow> if ch_id ch = k then Some ch else None | Some x \<Rightarrow> Some x)"
  by (simp_all add: find_channel_def frame_simps find_append split: option.split)

lemma step_overwrites:
  assumes "community_step env d d' s request c c'" and "overwrites_of c chid = Some ows"
    and "overwrites_of c' chid = Some ows'" and "ows' \<noteq> ows"
  shows "authorised env c s MANAGE_ROLES"
  using assms
  by (cases rule: community_step.cases)
     (auto simp: frame_simps overwrites_of_def roster_simps split: if_splits)

section \<open>Members after a step\<close>

lemma is_member_simps [frame_simps]:
  "is_member (push_member m c) k \<longleftrightarrow> is_member c k \<or> k = m_pseudonym_key_hex m"
  "is_member (c\<lparr>c_creator_pseudonym_hex := x\<rparr>) k \<longleftrightarrow> is_member c k"
  "is_member (c\<lparr>c_mek := y\<rparr>) k \<longleftrightarrow> is_member c k"
  "is_member (c\<lparr>c_name := n, c_description := de\<rparr>) k \<longleftrightarrow> is_member c k"
  "is_member (after_leave env key c) k \<longleftrightarrow> is_member c k \<and> k \<noteq> key"
  "is_member (modify_channel chid g c) k \<longleftrightarrow> is_member c k"
  "is_member (remove_channel chid c) k \<longleftrightarrow> is_member c k"
  "is_member (push_channel ch c) k \<longleftrightarrow> is_member c k"
  "is_member (modify_role rid h c) k \<longleftrightarrow> is_member c k"
  "is_member (push_role r c) k \<longleftrightarrow> is_member c k"
  by (auto simp: is_member_def frame_simps)

lemma is_member_modify [frame_simps]:
  "(\<And>m. m_pseudonym_key_hex (f m) = m_pseudonym_key_hex m) \<Longrightarrow>
    is_member (modify_member key f c) k \<longleftrightarrow> is_member c k"
  by (simp add: is_member_find members.lookup_modify)

lemma is_member_drop_role [frame_simps]: "is_member (drop_role rid c) k \<longleftrightarrow> is_member c k"
proof -
  have "m_pseudonym_key_hex ` set (c_members (drop_role rid c)) = m_pseudonym_key_hex ` set (c_members c)"
    using frame_simps(1) arg_cong [OF drop_role_frame(2), of set] by simp
  then show ?thesis by (simp add: is_member_def)
qed

lemma step_removal:
  assumes "community_step env d d' s request c c'" and "is_member c t" and "\<not> is_member c' t"
  shows "t = s \<or> (authorised env c s KICK_MEMBERS \<or> authorised env c s BAN_MEMBERS) \<and> outranks c s t"
    and "c_mek c' = mek_generate env (mek_generation (c_mek c) + 1)"
  using assms by (cases rule: community_step.cases; auto simp: frame_simps)+

lemma step_admission:
  assumes "community_step env d d' s request c c'" and "\<not> is_member c t" and "is_member c' t"
  shows "t = s \<and> (\<exists>code name prekey blob. request = Join s code name prekey blob \<and>
    c_members c' = c_members c @ [new_member env s name
      (if c_members c = [] then owner_role_ids else new_member_role_ids) blob])"
  using assms
  by (cases rule: community_step.cases) (auto simp: frame_simps new_member_def)

lemma step_creator:
  assumes "community_step env d d' s request c c'" and "c_creator_pseudonym_hex c' \<noteq> c_creator_pseudonym_hex c"
  shows "c_members c = [] \<and> c_creator_pseudonym_hex c' = s"
  using assms by (cases rule: community_step.cases) (auto simp: frame_simps)

lemma step_mek:
  assumes "community_step env d d' s request c c'" and "c_mek c' \<noteq> c_mek c"
  shows "c_mek c' = mek_generate env (mek_generation (c_mek c) + 1)"
  using assms by (cases rule: community_step.cases) (auto simp: frame_simps)

lemma find_member_frames [frame_simps]:
  "find_member (push_member m c) k =
    (case find_member c k of None \<Rightarrow> if m_pseudonym_key_hex m = k then Some m else None | Some x \<Rightarrow> Some x)"
  "find_member (c\<lparr>c_creator_pseudonym_hex := x\<rparr>) k = find_member c k"
  "find_member (c\<lparr>c_name := n, c_description := de\<rparr>) k = find_member c k"
  "find_member (after_leave env key c) k = (if k = key then None else find_member c k)"
  "find_member (push_channel ch c) k = find_member c k"
  "find_member (push_role r c) k = find_member c k"
  "find_member (drop_role rid c) k = map_option (remove_role_id rid) (find_member c k)"
proof -
  show "find_member (after_leave env key c) k = (if k = key then None else find_member c k)"
    by (simp add: after_leave_def frame_simps members.lookup_remove)
  show "find_member (drop_role rid c) k = map_option (remove_role_id rid) (find_member c k)"
    unfolding find_member_def drop_role_def
    by (simp add: find_map_id remove_role_id_def [abs_def])
qed (simp_all add: find_member_def frame_simps find_append split: option.split)

lemma step_role_gain:
  assumes "community_step env d d' s request c c'" and "find_member c t = Some m" and "find_member c' t = Some m'"
    and "i \<in> set (m_role_ids m')" and "i \<notin> set (m_role_ids m)"
  shows "authorised env c s MANAGE_ROLES \<and> outranks c s t
    \<and> role_position_or_max c i < highest_role_position c s"
  using assms
  by (cases rule: community_step.cases) (auto simp: frame_simps roster_simps split: if_splits)

lemma step_role_loss:
  assumes "community_step env d d' s request c c'" and "find_member c t = Some m" and "find_member c' t = Some m'"
    and "i \<in> set (m_role_ids m)" and "i \<notin> set (m_role_ids m')"
  shows "authorised env c s MANAGE_ROLES \<and> i \<noteq> role_everyone_id
    \<and> (outranks c s t \<or> role_position_or_max c i < highest_role_position c s)"
  using assms
  by (cases rule: community_step.cases) (auto simp: frame_simps roster_simps split: if_splits)

lemma step_timeout:
  assumes "community_step env d d' s request c c'" and "find_member c t = Some m" and "find_member c' t = Some m'"
    and "m_timeout_until m' \<noteq> m_timeout_until m"
  shows "authorised env c s MODERATE_MEMBERS \<and> (m_timeout_until m' = None \<or> outranks c s t)"
  using assms
  by (cases rule: community_step.cases)
     (auto simp: frame_simps roster_simps set_timeout_def add_role_id_def remove_role_id_def
       split: if_splits)

section \<open>Requests\<close>

text \<open>
  C2. Every part of a community is guarded by its permission: a request that changes the roles or
  the overwrites of a channel comes from a sender with MANAGE_ROLES, one that changes the list of
  channels from a sender with MANAGE_CHANNELS, one that changes name or description from a sender
  with MANAGE_COMMUNITY, where the creator passes every check; permissions are those the sender
  had before the request.
\<close>

theorem changes_need_permission:
  assumes "get_community st a = Some c"
    and "get_community (fst (dispatch_request env st s request route ipc)) a = Some c'"
  shows "(c_roles c' \<noteq> c_roles c \<longrightarrow> authorised env c s MANAGE_ROLES)
    \<and> (\<forall>chid. overwrites_of c chid \<noteq> None \<and> overwrites_of c' chid \<noteq> None
            \<and> overwrites_of c' chid \<noteq> overwrites_of c chid \<longrightarrow> authorised env c s MANAGE_ROLES)
    \<and> (channel_listing c' \<noteq> channel_listing c \<longrightarrow> authorised env c s MANAGE_CHANNELS)
    \<and> (c_name c' \<noteq> c_name c \<or> c_description c' \<noteq> c_description c
         \<longrightarrow> authorised env c s MANAGE_COMMUNITY)"
proof -
  from dispatch_step [OF assms] consider "c' = c" | d d' where "community_step env d d' s request c c'" by blast
  then show ?thesis
  proof cases
    case 2
    show ?thesis
      using step_roles [OF 2] step_metadata [OF 2] step_channels [OF 2] step_overwrites [OF 2]
      by auto
  qed simp
qed

theorem changes_need_permission_witness:
  "\<exists>c'. get_community (fst (dispatch_request demo_env demo_state ''owner''
       (UpdateCommunity (Some ''x'') None) None (Some ''c1''))) ''c1'' = Some c'
     \<and> c_name c' = ''x'' \<and> authorised demo_env demo_community ''owner'' MANAGE_COMMUNITY"
  using changes_need_permission [OF demo_get demo_dispatch_update] by simp

text \<open>
  C3. A member disappears from a roster only by leaving, or at the hands of somebody who may kick
  or ban and who outranks the member (or is the creator); and the moment somebody is gone, the
  community uses a new key, drawn from the random generator, one generation up.
\<close>

theorem removal_is_authorised_and_rotates:
  assumes "get_community st a = Some c"
    and "get_community (fst (dispatch_request env st s request route ipc)) a = Some c'"
    and "is_member c t" and "\<not> is_member c' t"
  shows "(t = s \<or> (authorised env c s KICK_MEMBERS \<or> authorised env c s BAN_MEMBERS) \<and> outranks c s t)
    \<and> mek_generation (c_mek c') = mek_generation (c_mek c) + 1 \<and> mek_key (c_mek c') = rand_key env"
proof -
  obtain d d' where step: "community_step env d d' s request c c'"
    using dispatch_step [OF assms(1,2)] assms(3,4) by auto
  show ?thesis using step_removal [OF step assms(3,4)] by (simp add: mek_generate_def)
qed

theorem removal_is_authorised_and_rotates_witness:
  "mek_key (c_mek (after_leave demo_env ''bob'' demo_community)) = [9]"
  using removal_is_authorised_and_rotates [OF demo_get demo_dispatch_kick, of "''bob''"]
  by (simp add: frame_simps demo_env_def)

text \<open>
  C4. Roles are handed out from above: when a member gains a role, the sender may manage roles,
  outranks the member, and the role lies below the sender's highest one; when a member loses a
  role, the sender may manage roles, the role is not @everyone, and the sender outranks the member
  or the role itself.
\<close>

theorem role_changes_respect_hierarchy:
  assumes "get_community st a = Some c"
    and "get_community (fst (dispatch_request env st s request route ipc)) a = Some c'"
    and "find_member c t = Some m" and "find_member c' t = Some m'"
  shows "(\<forall>i\<in>set (m_role_ids m') - set (m_role_ids m).
            authorised env c s MANAGE_ROLES \<and> outranks c s t
            \<and> role_position_or_max c i < highest_role_position c s)
    \<and> (\<forall>i\<in>set (m_role_ids m) - set (m_role_ids m').
            authorised env c s MANAGE_ROLES \<and> i \<noteq> role_everyone_id
            \<and> (outranks c s t \<or> role_position_or_max c i < highest_role_position c s))"
proof -
  from dispatch_step [OF assms(1,2)] consider "c' = c" | d d' where "community_step env d d' s request c c'" by blast
  then show ?thesis
  proof cases
    case 1
    then show ?thesis using assms(3,4) by simp
  next
    case 2
    then show ?thesis
      using step_role_gain [OF 2 assms(3,4)] step_role_loss [OF 2 assms(3,4)] by blast
  qed
qed

theorem role_changes_respect_hierarchy_witness:
  "(2 :: u32) \<in> set (m_role_ids (add_role_id 2 (demo_member ''bob'' [0, 1])))
   \<and> role_position_or_max demo_community 2 < highest_role_position demo_community ''owner''"
  using role_changes_respect_hierarchy [OF demo_get demo_dispatch_assign demo_find_member(3),
      of "add_role_id 2 (demo_member ''bob'' [0, 1])"]
  by (simp add: members.lookup_modify)

text \<open>
  Only moderators mute: a member's timeout changes at the hands of a sender with
  MODERATE_MEMBERS, and is set (not lifted) by somebody who outranks the member only.
\<close>

theorem timeouts_need_moderator:
  assumes "get_community st a = Some c"
    and "get_community (fst (dispatch_request env st s request route ipc)) a = Some c'"
    and "find_member c t = Some m" and "find_member c' t = Some m'"
    and "m_timeout_until m' \<noteq> m_timeout_until m"
  shows "authorised env c s MODERATE_MEMBERS \<and> (m_timeout_until m' = None \<or> outranks c s t)"
proof -
  have "c' \<noteq> c" using assms(3-5) by auto
  then have "\<exists>d d'. community_step env d d' s request c c'" using dispatch_step [OF assms(1,2)] by blast
  then show ?thesis using step_timeout [OF _ assms(3-5)] by blast
qed

theorem timeouts_need_moderator_witness:
  "authorised demo_env demo_community ''owner'' MODERATE_MEMBERS
   \<and> m_timeout_until (set_timeout (Some (now_secs demo_env + 60)) (demo_member ''bob'' [0, 1])) = Some 160"
  using timeouts_need_moderator [OF demo_get demo_dispatch_timeout demo_find_member(3),
      of demo_env "set_timeout (Some (now_secs demo_env + 60)) (demo_member ''bob'' [0, 1])"]
  by (simp add: members.lookup_modify set_timeout_def demo_env_def)

text \<open>
  Nobody is enrolled by somebody else: a new member is the sender of a join request, it
  enters with the default roles (all five for the first member, @everyone and Member otherwise),
  and the creator changes only when the first member joins an empty community.
\<close>

theorem admission_spec:
  assumes "get_community st a = Some c"
    and "get_community (fst (dispatch_request env st s request route ipc)) a = Some c'"
  shows "(\<forall>t. is_member c' t \<and> \<not> is_member c t \<longrightarrow> t = s \<and> (\<exists>code name prekey blob.
            request = Join s code name prekey blob \<and> c_members c' = c_members c @ [new_member env s name
              (if c_members c = [] then owner_role_ids else new_member_role_ids) blob]))
    \<and> (c_creator_pseudonym_hex c' \<noteq> c_creator_pseudonym_hex c
         \<longrightarrow> c_members c = [] \<and> c_creator_pseudonym_hex c' = s)"
proof -
  from dispatch_step [OF assms] consider "c' = c" | d d' where "community_step env d d' s request c c'" by blast
  then show ?thesis
  proof cases
    case 2
    show ?thesis using step_admission [OF 2] step_creator [OF 2] by blast
  qed simp
qed

theorem admission_spec_witness:
  "\<exists>c'. get_community (fst (dispatch_request demo_env demo_state ''eve''
       (Join ''eve'' None ''Eve'' [] None) None (Some ''c1''))) ''c1'' = Some c'
     \<and> is_member c' ''eve'' \<and> c_creator_pseudonym_hex c' = ''owner''"
proof -
  have g: "get_community (fst (dispatch_request demo_env demo_state ''eve''
       (Join ''eve'' None ''Eve'' [] None) None (Some ''c1''))) ''c1''
     = Some (push_member (new_member demo_env ''eve'' ''Eve'' new_member_role_ids None) demo_community)"
    by (simp add: dispatch_request_def demo_join)
  show ?thesis
    using admission_spec [OF demo_get g] by (auto simp: g frame_simps new_member_def)
qed

end
