(* ===== verification/Tables.thy ===== *)
theory Tables
  imports ServerState
begin

text \<open>
  Which tables a SQL statement leaves alone, whatever faults the database meets: one bundle per
  table, used to follow a table through the handlers.
\<close>

lemma sql_run_table:
  assumes "\<And>d d'. stmt d = Some d' \<Longrightarrow> t d' = t d"
  shows "t (db (sql_run stmt st)) = t (db st)"
  using sql_run_cases [of stmt st] assms by auto

lemma sql_run_keeps:
  assumes "\<And>d d'. stmt d = Some d' \<Longrightarrow> P d \<Longrightarrow> P d'" and "P (db st)"
  shows "P (db (sql_run stmt st))"
  using sql_run_cases [of stmt st] assms by auto

lemma t_hosted_run [table_simps]:
  "t_hosted (db (sql_run (insert_ignore_member mr) st)) = t_hosted (db st)"
  "t_hosted (db (sql_run (update_member_route c k blob) st)) = t_hosted (db st)"
  "t_hosted (db (sql_run (delete_member c k) st)) = t_hosted (db st)"
  "t_hosted (db (sql_run (insert_ignore_member_role xr) st)) = t_hosted (db st)"
  "t_hosted (db (sql_run (delete_member_role c k i) st)) = t_hosted (db st)"
  "t_hosted (db (sql_run (delete_role_assignments c i) st)) = t_hosted (db st)"
  "t_hosted (db (sql_run (replace_timeout tr) st)) = t_hosted (db st)"
  "t_hosted (db (sql_run (delete_timeout c k) st)) = t_hosted (db st)"
  "t_hosted (db (sql_run (replace_banned br) st)) = t_hosted (db st)"
  "t_hosted (db (sql_run (delete_banned c k) st)) = t_hosted (db st)"
  "t_hosted (db (sql_run (insert_mek kr) st)) = t_hosted (db st)"
  "t_hosted (db (sql_run (replace_mek kr) st)) = t_hosted (db st)"
  "t_hosted (db (sql_run (insert_channel cr) st)) = t_hosted (db st)"
  "t_hosted (db (sql_run (delete_channel c h) st)) = t_hosted (db st)"
  "t_hosted (db (sql_run (rename_channel c h n) st)) = t_hosted (db st)"
  "t_hosted (db (sql_run (replace_overwrite ow) st)) = t_hosted (db st)"
  "t_hosted (db (sql_run (delete_overwrite c h ty t) st)) = t_hosted (db st)"
  "t_hosted (db (sql_run (insert_role rr) st)) = t_hosted (db st)"
  "t_hosted (db (sql_run (insert_ignore_role rr) st)) = t_hosted (db st)"
  "t_hosted (db (sql_run (update_role rr) st)) = t_hosted (db st)"
  "t_hosted (db (sql_run (delete_role c i) st)) = t_hosted (db st)"
  "t_hosted (db (sql_run (insert_message c h k ct g ts) st)) = t_hosted (db st)"
  by (rule sql_run_table, auto simp: statement_defs split: if_splits)+

lemma t_channels_run [table_simps]:
  "t_channels (db (sql_run (insert_ignore_hosted r) st)) = t_channels (db st)"
  "t_channels (db (sql_run (update_hosted c f) st)) = t_channels (db st)"
  "t_channels (db (sql_run (insert_ignore_member mr) st)) = t_channels (db st)"
  "t_channels (db (sql_run (update_member_route c k blob) st)) = t_channels (db st)"
  "t_channels (db (sql_run (delete_member c k) st)) = t_channels (db st)"
  "t_channels (db (sql_run (insert_ignore_member_role xr) st)) = t_channels (db st)"
  "t_channels (db (sql_run (delete_member_role c k i) st)) = t_channels (db st)"
  "t_channels (db (sql_run (delete_role_assignments c i) st)) = t_channels (db st)"
  "t_channels (db (sql_run (replace_timeout tr) st)) = t_channels (db st)"
  "t_channels (db (sql_run (delete_timeout c k) st)) = t_channels (db st)"
  "t_channels (db (sql_run (replace_banned br) st)) = t_channels (db st)"
  "t_channels (db (sql_run (delete_banned c k) st)) = t_channels (db st)"
  "t_channels (db (sql_run (insert_mek kr) st)) = t_channels (db st)"
  "t_channels (db (sql_run (replace_mek kr) st)) = t_channels (db st)"
  "t_channels (db (sql_run (replace_overwrite ow) st)) = t_channels (db st)"
  "t_channels (db (sql_run (delete_overwrite c h ty t) st)) = t_channels (db st)"
  "t_channels (db (sql_run (insert_role rr) st)) = t_channels (db st)"
  "t_channels (db (sql_run (insert_ignore_role rr) st)) = t_channels (db st)"
  "t_channels (db (sql_run (update_role rr) st)) = t_channels (db st)"
  "t_channels (db (sql_run (delete_role c i) st)) = t_channels (db st)"
  "t_channels (db (sql_run (insert_message c h k ct g ts) st)) = t_channels (db st)"
  by (rule sql_run_table, auto simp: statement_defs split: if_splits)+

lemma t_roles_run [table_simps]:
  "t_roles (db (sql_run (insert_ignore_hosted r) st)) = t_roles (db st)"
  "t_roles (db (sql_run (update_hosted c f) st)) = t_roles (db st)"
  "t_roles (db (sql_run (insert_ignore_member mr) st)) = t_roles (db st)"
  "t_roles (db (sql_run (update_member_route c k blob) st)) = t_roles (db st)"
  "t_roles (db (sql_run (delete_member c k) st)) = t_roles (db st)"
  "t_roles (db (sql_run (insert_ignore_member_role xr) st)) = t_roles (db st)"
  "t_roles (db (sql_run (delete_member_role c k i) st)) = t_roles (db st)"
  "t_roles (db (sql_run (delete_role_assignments c i) st)) = t_roles (db st)"
  "t_roles (db (sql_run (replace_timeout tr) st)) = t_roles (db st)"
  "t_roles (db (sql_run (delete_timeout c k) st)) = t_roles (db st)"
  "t_roles (db (sql_run (replace_banned br) st)) = t_roles (db st)"
  "t_roles (db (sql_run (delete_banned c k) st)) = t_roles (db st)"
  "t_roles (db (sql_run (insert_mek kr) st)) = t_roles (db st)"
  "t_roles (db (sql_run (replace_mek kr) st)) = t_roles (db st)"
  "t_roles (db (sql_run (insert_channel cr) st)) = t_roles (db st)"
  "t_roles (db (sql_run (delete_channel c h) st)) = t_roles (db st)"
  "t_roles (db (sql_run (rename_channel c h n) st)) = t_roles (db st)"
  "t_roles (db (sql_run (replace_overwrite ow) st)) = t_roles (db st)"
  "t_roles (db (sql_run (delete_overwrite c h ty t) st)) = t_roles (db st)"
  "t_roles (db (sql_run (insert_message c h k ct g ts) st)) = t_roles (db st)"
  by (rule sql_run_table, auto simp: statement_defs split: if_splits)+

lemma t_banned_run [table_simps]:
  "t_banned (db (sql_run (insert_ignore_hosted r) st)) = t_banned (db st)"
  "t_banned (db (sql_run (update_hosted c f) st)) = t_banned (db st)"
  "t_banned (db (sql_run (insert_ignore_member mr) st)) = t_banned (db st)"
  "t_banned (db (sql_run (update_member_route c k blob) st)) = t_banned (db st)"
  "t_banned (db (sql_run (delete_member c k) st)) = t_banned (db st)"
  "t_banned (db (sql_run (insert_ignore_member_role xr) st)) = t_banned (db st)"
  "t_banned (db (sql_run (delete_member_role c k i) st)) = t_banned (db st)"
  "t_banned (db (sql_run (delete_role_assignments c i) st)) = t_banned (db st)"
  "t_banned (db (sql_run (replace_timeout tr) st)) = t_banned (db st)"
  "t_banned (db (sql_run (delete_timeout c k) st)) = t_banned (db st)"
  "t_banned (db (sql_run (insert_mek kr) st)) = t_banned (db st)"
  "t_banned (db (sql_run (replace_mek kr) st)) = t_banned (db st)"
  "t_banned (db (sql_run (insert_channel cr) st)) = t_banned (db st)"
  "t_banned (db (sql_run (delete_channel c h) st)) = t_banned (db st)"
  "t_banned (db (sql_run (rename_channel c h n) st)) = t_banned (db st)"
  "t_banned (db (sql_run (replace_overwrite ow) st)) = t_banned (db st)"
  "t_banned (db (sql_run (delete_overwrite c h ty t) st)) = t_banned (db st)"
  "t_banned (db (sql_run (insert_role rr) st)) = t_banned (db st)"
  "t_banned (db (sql_run (insert_ignore_role rr) st)) = t_banned (db st)"
  "t_banned (db (sql_run (update_role rr) st)) = t_banned (db st)"
  "t_banned (db (sql_run (delete_role c i) st)) = t_banned (db st)"
  "t_banned (db (sql_run (insert_message c h k ct g ts) st)) = t_banned (db st)"
  by (rule sql_run_table, auto simp: statement_defs split: if_splits)+

lemma t_messages_run [table_simps]:
  "t_messages (db (sql_run (insert_ignore_hosted r) st)) = t_messages (db st)"
  "t_messages (db (sql_run (update_hosted c f) st)) = t_messages (db st)"
  "t_messages (db (sql_run (insert_ignore_member mr) st)) = t_messages (db st)"
  "t_messages (db (sql_run (update_member_route c k blob) st)) = t_messages (db st)"
  "t_messages (db (sql_run (delete_member c k) st)) = t_messages (db st)"
  "t_messages (db (sql_run (insert_ignore_member_role xr) st)) = t_messages (db st)"
  "t_messages (db (sql_run (delete_member_role c k i) st)) = t_messages (db st)"
  "t_messages (db (sql_run (delete_role_assignments c i) st)) = t_messages (db st)"
  "t_messages (db (sql_run (replace_timeout tr) st)) = t_messages (db st)"
  "t_messages (db (sql_run (delete_timeout c k) st)) = t_messages (db st)"
  "t_messages (db (sql_run (replace_banned br) st)) = t_messages (db st)"
  "t_messages (db (sql_run (delete_banned c k) st)) = t_messages (db st)"
  "t_messages (db (sql_run (insert_mek kr) st)) = t_messages (db st)"
  "t_messages (db (sql_run (replace_mek kr) st)) = t_messages (db st)"
  "t_messages (db (sql_run (insert_channel cr) st)) = t_messages (db st)"
  "t_messages (db (sql_run (delete_channel c h) st)) = t_messages (db st)"
  "t_messages (db (sql_run (rename_channel c h n) st)) = t_messages (db st)"
  "t_messages (db (sql_run (replace_overwrite ow) st)) = t_messages (db st)"
  "t_messages (db (sql_run (delete_overwrite c h ty t) st)) = t_messages (db st)"
  "t_messages (db (sql_run (insert_role rr) st)) = t_messages (db st)"
  "t_messages (db (sql_run (insert_ignore_role rr) st)) = t_messages (db st)"
  "t_messages (db (sql_run (update_role rr) st)) = t_messages (db st)"
  "t_messages (db (sql_run (delete_role c i) st)) = t_messages (db st)"
  by (rule sql_run_table, auto simp: statement_defs split: if_splits)+

lemma t_mek_run [table_simps]:
  "t_mek (db (sql_run (insert_ignore_hosted r) st)) = t_mek (db st)"
  "t_mek (db (sql_run (update_hosted c f) st)) = t_mek (db st)"
  "t_mek (db (sql_run (insert_ignore_member mr) st)) = t_mek (db st)"
  "t_mek (db (sql_run (update_member_route c k blob) st)) = t_mek (db st)"
  "t_mek (db (sql_run (delete_member c k) st)) = t_mek (db st)"
  "t_mek (db (sql_run (insert_ignore_member_role xr) st)) = t_mek (db st)"
  "t_mek (db (sql_run (delete_member_role c k i) st)) = t_mek (db st)"
  "t_mek (db (sql_run (delete_role_assignments c i) st)) = t_mek (db st)"
  "t_mek (db (sql_run (replace_timeout tr) st)) = t_mek (db st)"
  "t_mek (db (sql_run (delete_timeout c k) st)) = t_mek (db st)"
  "t_mek (db (sql_run (replace_banned br) st)) = t_mek (db st)"
  "t_mek (db (sql_run (delete_banned c k) st)) = t_mek (db st)"
  "t_mek (db (sql_run (insert_channel cr) st)) = t_mek (db st)"
  "t_mek (db (sql_run (delete_channel c h) st)) = t_mek (db st)"
  "t_mek (db (sql_run (rename_channel c h n) st)) = t_mek (db st)"
  "t_mek (db (sql_run (replace_overwrite ow) st)) = t_mek (db st)"
  "t_mek (db (sql_run (delete_overwrite c h ty t) st)) = t_mek (db st)"
  "t_mek (db (sql_run (insert_role rr) st)) = t_mek (db st)"
  "t_mek (db (sql_run (insert_ignore_role rr) st)) = t_mek (db st)"
  "t_mek (db (sql_run (update_role rr) st)) = t_mek (db st)"
  "t_mek (db (sql_run (delete_role c i) st)) = t_mek (db st)"
  "t_mek (db (sql_run (insert_message c h k ct g ts) st)) = t_mek (db st)"
  by (rule sql_run_table, auto simp: statement_defs split: if_splits)+

end
