(* ===== verification/Wellformed.thy ===== *)
theory Wellformed
  imports Powers Tables
begin

text \<open>
  The well-formedness of the hosted communities and its preservation by every request: keys are
  unique, the @everyone role exists and everybody holds it, overwrites are unique per target, and
  every channel and role in memory has its row in the database (which is what makes new ids
  fresh, even when the database fails in between).
\<close>

section \<open>The invariant\<close>

definition wf_community :: "hosted_community \<Rightarrow> bool" where
  "wf_community c \<longleftrightarrow>
     distinct (map m_pseudonym_key_hex (c_members c))
     \<and> distinct (map ch_id (c_channels c))
     \<and> distinct (map rd_id (c_roles c))
     \<and> role_everyone_id \<in> set (map rd_id (c_roles c))
     \<and> (\<forall>m\<in>set (c_members c). distinct (m_role_ids m) \<and> role_everyone_id \<in> set (m_role_ids m))
     \<and> (\<forall>ch\<in>set (c_channels c). distinct (map ow_key (ch_permission_overwrites ch)))"

definition backed :: "server_db \<Rightarrow> hosted_community \<Rightarrow> bool" where
  "backed d c \<longleftrightarrow>
     (\<forall>ch\<in>set (c_channels c). channel_exists (c_community_id c) (ch_id ch) d)
     \<and> (\<forall>r\<in>set (c_roles c). row_exists role_pk (c_community_id c, uint (rd_id r)) (t_roles d))"

definition wf_server :: "server_state \<Rightarrow> bool" where
  "wf_server st \<longleftrightarrow>
     (\<forall>a c. get_community st a = Some c \<longrightarrow>
        c_community_id c = a \<and> wf_community c \<and> backed (db st) c)"

section \<open>Steps preserve it\<close>

lemma step_id: "community_step env d d' s request c c' \<Longrightarrow> c_community_id c' = c_community_id c"
  by (erule community_stepE) (auto simp: frame_simps)

lemma step_members_distinct:
  assumes "community_step env d d' s request c c'" and "distinct (map m_pseudonym_key_hex (c_members c))"
  shows "distinct (map m_pseudonym_key_hex (c_members c'))"
  using assms
  by (cases rule: community_step.cases)
     (auto simp: frame_simps members.items_modify is_member_def new_member_def)

lemma step_channel_ids:
  assumes "community_step env d d' s request c c'"
  shows "map ch_id (c_channels c') = map ch_id (c_channels c) \<or>
    (\<exists>chid. c_channels c' = filter (\<lambda>ch. ch_id ch \<noteq> chid) (c_channels c)) \<or>
    (\<exists>ch. c_channels c' = c_channels c @ [ch]
       \<and> \<not> channel_exists (c_community_id c) (ch_id ch) d \<and> channel_exists (c_community_id c) (ch_id ch) d')"
  using assms
  by (cases rule: community_step.cases)
     (auto simp: frame_simps channels.items_modify channels.items_remove)

lemma step_role_ids:
  assumes "community_step env d d' s request c c'"
  shows "map rd_id (c_roles c') = map rd_id (c_roles c) \<or>
    (\<exists>rid. rid \<noteq> role_everyone_id \<and> c_roles c' = filter (\<lambda>r. rd_id r \<noteq> rid) (c_roles c)) \<or>
    (\<exists>r. c_roles c' = c_roles c @ [r]
       \<and> \<not> row_exists role_pk (c_community_id c, uint (rd_id r)) (t_roles d)
       \<and> row_exists role_pk (c_community_id c, uint (rd_id r)) (t_roles d'))"
  using assms
  by (cases rule: community_step.cases) (auto simp: frame_simps roles.items_modify)

lemma step_channels_distinct:
  assumes "community_step env d d' s request c c'" and "distinct (map ch_id (c_channels c))" and "backed d c"
  shows "distinct (map ch_id (c_channels c'))"
  using step_channel_ids [OF assms(1)] assms(2,3)
  by (elim disjE) (auto simp: backed_def)

lemma step_roles_distinct:
  assumes "community_step env d d' s request c c'" and "distinct (map rd_id (c_roles c))" and "backed d c"
  shows "distinct (map rd_id (c_roles c'))"
  using step_role_ids [OF assms(1)] assms(2,3)
  by (elim disjE) (auto simp: backed_def)

lemma step_everyone:
  assumes "community_step env d d' s request c c'" and "role_everyone_id \<in> set (map rd_id (c_roles c))"
  shows "role_everyone_id \<in> set (map rd_id (c_roles c'))"
  using step_role_ids [OF assms(1)] assms(2) by (elim disjE) auto

definition good_roles :: "server_member \<Rightarrow> bool" where
  "good_roles m \<longleftrightarrow> distinct (m_role_ids m) \<and> role_everyone_id \<in> set (m_role_ids m)"

lemma step_member_roles:
  assumes "community_step env d d' s request c c'" and "\<forall>m\<in>set (c_members c). good_roles m"
  shows "\<forall>m\<in>set (c_members c'). good_roles m"
  using assms
  by (cases rule: community_step.cases)
     (auto simp: frame_simps good_roles_def drop_role_def set_timeout_def is_member_find
       new_member_def owner_role_ids_def new_member_role_ids_def role_everyone_id_def
       dest!: members.set_modifyD dest: members.lookup_SomeD)

lemma step_overwrites_distinct:
  assumes "community_step env d d' s request c c'"
    and "\<forall>ch\<in>set (c_channels c). distinct (map ow_key (ch_permission_overwrites ch))"
  shows "\<forall>ch\<in>set (c_channels c'). distinct (map ow_key (ch_permission_overwrites ch))"
  using assms
  by (cases rule: community_step.cases)
     (auto simp: frame_simps channels.items_remove new_channel_def distinct_upsert_overwrite
       dest!: channels.set_modifyD dest: channels.lookup_SomeD intro!: distinct_map_filterI)

lemma step_wf:
  assumes "community_step env d d' s request c c'" and "wf_community c" and "backed d c"
  shows "wf_community c'"
  using assms step_members_distinct [OF assms(1)] step_channels_distinct [OF assms(1)]
    step_roles_distinct [OF assms(1)] step_everyone [OF assms(1)] step_member_roles [OF assms(1)]
    step_overwrites_distinct [OF assms(1)]
  unfolding wf_community_def good_roles_def by blast

section \<open>Rows of live channels and roles persist\<close>

text \<open>
  No statement removes the row of a channel or a role that is still in memory: a handler removes
  the row after it removed the object.
\<close>

definition rows_persist :: "server_state \<Rightarrow> server_state \<Rightarrow> bool" where
  "rows_persist st st' \<longleftrightarrow>
     (\<forall>a c chid. get_community st' a = Some c \<longrightarrow> chid \<in> ch_id ` set (c_channels c) \<longrightarrow>
        channel_exists a chid (db st) \<longrightarrow> channel_exists a chid (db st'))
     \<and> (\<forall>a c rid. get_community st' a = Some c \<longrightarrow> rid \<in> rd_id ` set (c_roles c) \<longrightarrow>
        row_exists role_pk (a, uint rid) (t_roles (db st)) \<longrightarrow>
        row_exists role_pk (a, uint rid) (t_roles (db st')))"

lemma rows_persist_tables:
  "t_channels (db st') = t_channels (db st) \<Longrightarrow> t_roles (db st') = t_roles (db st) \<Longrightarrow> rows_persist st st'"
  by (simp add: rows_persist_def channel_exists_def)

lemma rows_persist_refl [simp]: "rows_persist st st"
  by (simp add: rows_persist_tables)

lemma rows_persist_with_permission:
  assumes "\<And>c. get_community st cid = Some c \<Longrightarrow> rows_persist st (fst (rest c))"
  shows "rows_persist st (fst (member_with_permission env st cid s p rest))"
  by (rule member_with_permission_cases [of env st cid s p rest]) (auto intro: assms)

lemma rows_persist_and_then:
  assumes "\<And>st. get_community (f st) = get_community st" and "\<And>st. db (f st) = db st"
    and "rows_persist st (fst res)"
  shows "rows_persist st (fst (and_then P f res))"
  using get_and_then [of f P res, OF assms(1)] db_and_then [of f P res, OF assms(2)] assms(3)
  by (simp add: rows_persist_def)

lemma tables_optional_run:
  "(\<And>y st. t (db (sql_run (g y) st)) = t (db st)) \<Longrightarrow>
    t (db (case x of None \<Rightarrow> st | Some y \<Rightarrow> sql_run (g y) st)) = t (db st)"
  by (simp split: option.split)

lemma tables_rotate [table_simps]:
  "t_channels (db (rotate_community_mek env cid st)) = t_channels (db st)"
  "t_roles (db (rotate_community_mek env cid st)) = t_roles (db st)"
  "t_banned (db (rotate_community_mek env cid st)) = t_banned (db st)"
  "t_messages (db (rotate_community_mek env cid st)) = t_messages (db st)"
  by (simp_all add: rotate_community_mek_def rotate_mek_def Let_def frame_simps table_simps
      split: option.split)

lemma tables_leave [table_simps]:
  "t_channels (db (fst (handle_leave env st cid s))) = t_channels (db st)"
  "t_roles (db (fst (handle_leave env st cid s))) = t_roles (db st)"
  "t_banned (db (fst (handle_leave env st cid s))) = t_banned (db st)"
  "t_messages (db (fst (handle_leave env st cid s))) = t_messages (db st)"
  by (auto simp: handle_leave_def check_then_def Let_def frame_simps table_simps
      split: option.split sum.split)

lemma tables_insert_member_roles [table_simps]:
  "t_channels (db (insert_member_roles cid key ids st)) = t_channels (db st)"
  "t_roles (db (insert_member_roles cid key ids st)) = t_roles (db st)"
  "t_banned (db (insert_member_roles cid key ids st)) = t_banned (db st)"
  "t_messages (db (insert_member_roles cid key ids st)) = t_messages (db st)"
  by (induction ids arbitrary: st; simp add: insert_member_roles_def table_simps)+

lemma tables_add_new_member [table_simps]:
  "t_channels (db (fst (add_new_member env st cid s n blob))) = t_channels (db st)"
  "t_roles (db (fst (add_new_member env st cid s n blob))) = t_roles (db st)"
  "t_banned (db (fst (add_new_member env st cid s n blob))) = t_banned (db st)"
  "t_messages (db (fst (add_new_member env st cid s n blob))) = t_messages (db st)"
  by (auto simp: add_new_member_def Let_def frame_simps table_simps split: option.split)

lemma tables_rejoin [table_simps]:
  assumes "handle_rejoin st cid s blob = Some res"
  shows "t_channels (db (fst res)) = t_channels (db st)" "t_roles (db (fst res)) = t_roles (db st)"
    "t_banned (db (fst res)) = t_banned (db st)" "t_messages (db (fst res)) = t_messages (db st)"
  using assms
  by (auto simp: handle_rejoin_def Let_def frame_simps table_simps split: option.splits)

lemma db_admit:
  "db (fst (admit env st cid s n blob)) =
    (case handle_rejoin st cid s blob of
       Some res \<Rightarrow> db (fst res) | None \<Rightarrow> db (fst (add_new_member env st cid s n blob)))"
  by (cases "handle_rejoin st cid s blob") (simp_all add: get_admit_new, simp add: admit_def)

lemma tables_admit [table_simps]:
  "t_channels (db (fst (admit env st cid s n blob))) = t_channels (db st)"
  "t_roles (db (fst (admit env st cid s n blob))) = t_roles (db st)"
  "t_banned (db (fst (admit env st cid s n blob))) = t_banned (db st)"
  "t_messages (db (fst (admit env st cid s n blob))) = t_messages (db st)"
  by (simp_all add: db_admit table_simps split: option.split)

lemma tables_join [table_simps]:
  "t_channels (db (fst (handle_join env st s n blob route ipc))) = t_channels (db st)"
  "t_roles (db (fst (handle_join env st s n blob route ipc))) = t_roles (db st)"
  "t_banned (db (fst (handle_join env st s n blob route ipc))) = t_banned (db st)"
  "t_messages (db (fst (handle_join env st s n blob route ipc))) = t_messages (db st)"
  by (auto simp: handle_join_eq Let_def case_prod_unfold frame_simps table_simps split: option.split)

text \<open>Handlers that touch neither table.\<close>

lemmas handler_splits = option.split if_split

lemma tables_quiet_handlers [table_simps]:
  "t_channels (db (fst (handle_kick env st cid s t))) = t_channels (db st)"
  "t_roles (db (fst (handle_kick env st cid s t))) = t_roles (db st)"
  "t_channels (db (fst (handle_ban env st cid s t))) = t_channels (db st)"
  "t_roles (db (fst (handle_ban env st cid s t))) = t_roles (db st)"
  "t_channels (db (fst (handle_unban env st cid s t))) = t_channels (db st)"
  "t_roles (db (fst (handle_unban env st cid s t))) = t_roles (db st)"
  "t_channels (db (fst (handle_rotate_mek env st cid s))) = t_channels (db st)"
  "t_roles (db (fst (handle_rotate_mek env st cid s))) = t_roles (db st)"
  "t_channels (db (fst (handle_assign_role env st cid s t rid))) = t_channels (db st)"
  "t_roles (db (fst (handle_assign_role env st cid s t rid))) = t_roles (db st)"
  "t_channels (db (fst (handle_unassign_role env st cid s t rid))) = t_channels (db st)"
  "t_roles (db (fst (handle_unassign_role env st cid s t rid))) = t_roles (db st)"
  "t_channels (db (fst (handle_timeout_member env st cid s t dur reason))) = t_channels (db st)"
  "t_roles (db (fst (handle_timeout_member env st cid s t dur reason))) = t_roles (db st)"
  "t_channels (db (fst (handle_remove_timeout env st cid s t))) = t_channels (db st)"
  "t_roles (db (fst (handle_remove_timeout env st cid s t))) = t_roles (db st)"
  "t_channels (db (fst (handle_set_channel_overwrite env st cid s chid ty tid al de))) = t_channels (db st)"
  "t_roles (db (fst (handle_set_channel_overwrite env st cid s chid ty tid al de))) = t_roles (db st)"
  "t_channels (db (fst (handle_delete_channel_overwrite env st cid s chid ty tid))) = t_channels (db st)"
  "t_roles (db (fst (handle_delete_channel_overwrite env st cid s chid ty tid))) = t_roles (db st)"
  by (simp_all add: handle_kick_def with_community_def handle_ban_def handle_unban_def
      handle_rotate_mek_def handle_assign_role_def handle_unassign_role_def
      handle_timeout_member_def handle_remove_timeout_def handle_set_channel_overwrite_def
      handle_delete_channel_overwrite_def member_with_permission_eq check_eqs Let_def
      frame_simps table_simps split: handler_splits)

lemma tables_reading_handlers [table_simps]:
  "db (fst (handle_get_messages env st cid s chid before limit)) = db st"
  "db (fst (handle_get_ban_list env st cid s)) = db st"
  by (simp_all add: handle_get_messages_def handle_get_ban_list_def member_with_permission_eq
      check_then_def case_prod_unfold Let_def frame_simps split: option.split sum.split)

lemma tables_update [table_simps]:
  "t_channels (db (fst (handle_update_community env st cid s n d))) = t_channels (db st)"
  "t_roles (db (fst (handle_update_community env st cid s n d))) = t_roles (db st)"
  by (simp_all add: handle_update_community_def member_with_permission_eq Let_def
      frame_simps table_simps split: option.split)

lemma tables_send_message [table_simps]:
  "t_channels (db (fst (handle_send_message env st cid s chid ct gen))) = t_channels (db st)"
  "t_roles (db (fst (handle_send_message env st cid s chid ct gen))) = t_roles (db st)"
  by (simp_all add: handle_send_message_def with_community_def check_eqs case_prod_unfold Let_def
      frame_simps table_simps sql_run_def [symmetric] split: option.split)

text \<open>Statements on the two tables: inserts and updates keep every key, deletes the other keys.\<close>

lemma row_exists_update: "(\<And>r. P r \<Longrightarrow> pk (f r) = pk r) \<Longrightarrow> row_exists pk k (row_update P f t) = row_exists pk k t"
  by (auto simp: row_exists_def row_update_def list_ex_iff)

lemma row_exists_overwrite:
  "row_exists pk k (row_update (\<lambda>x. pk x = pk r) (\<lambda>_. r) t) = row_exists pk k t"
  by (induction t) (auto simp: row_exists_def row_update_def)

lemma row_exists_delete: "row_exists pk k (row_delete (\<lambda>r. pk r = k') t) = (k \<noteq> k' \<and> row_exists pk k t)"
  by (auto simp: row_exists_def row_delete_def list_ex_iff)

lemma channel_exists_run:
  "channel_exists a k (db st) \<Longrightarrow> channel_exists a k (db (sql_run (insert_channel r) st))"
  "channel_exists a k (db st) \<Longrightarrow> channel_exists a k (db (sql_run (rename_channel c chid n) st))"
  "channel_exists a k (db st) \<Longrightarrow> (a, k) \<noteq> (c, chid) \<Longrightarrow>
    channel_exists a k (db (sql_run (delete_channel c chid) st))"
proof -
  show "channel_exists a k (db st) \<Longrightarrow> channel_exists a k (db (sql_run (insert_channel r) st))"
    by (erule sql_run_keeps [rotated])
       (auto simp: insert_channel_def row_insert_def channel_exists_def row_exists_def split: if_splits)
  show "channel_exists a k (db st) \<Longrightarrow> channel_exists a k (db (sql_run (rename_channel c chid n) st))"
    by (erule sql_run_keeps [rotated])
       (auto simp: rename_channel_def channel_exists_def channel_pk_def row_exists_update)
  show "channel_exists a k (db st) \<Longrightarrow> (a, k) \<noteq> (c, chid) \<Longrightarrow>
    channel_exists a k (db (sql_run (delete_channel c chid) st))"
    by (erule sql_run_keeps [rotated])
       (auto simp: delete_channel_def channel_exists_def row_exists_delete split: if_splits)
qed

lemma role_exists_run:
  "row_exists role_pk k (t_roles (db st)) \<Longrightarrow> row_exists role_pk k (t_roles (db (sql_run (insert_role r) st)))"
  "row_exists role_pk k (t_roles (db st)) \<Longrightarrow> row_exists role_pk k (t_roles (db (sql_run (update_role r) st)))"
  "row_exists role_pk k (t_roles (db st)) \<Longrightarrow> k \<noteq> (c, rid) \<Longrightarrow>
    row_exists role_pk k (t_roles (db (sql_run (delete_role c rid) st)))"
proof -
  show "row_exists role_pk k (t_roles (db st)) \<Longrightarrow> row_exists role_pk k (t_roles (db (sql_run (insert_role r) st)))"
    by (erule sql_run_keeps [rotated])
       (auto simp: insert_role_def row_insert_def row_exists_def split: if_splits)
  show "row_exists role_pk k (t_roles (db st)) \<Longrightarrow> row_exists role_pk k (t_roles (db (sql_run (update_role r) st)))"
    by (erule sql_run_keeps [rotated]) (auto simp: update_role_def row_exists_overwrite)
  show "row_exists role_pk k (t_roles (db st)) \<Longrightarrow> k \<noteq> (c, rid) \<Longrightarrow>
    row_exists role_pk k (t_roles (db (sql_run (delete_role c rid) st)))"
    by (erule sql_run_keeps [rotated]) (auto simp: delete_role_def row_exists_delete)
qed

lemma rows_persist_execute_then:
  assumes "t_roles (db (sql_run stmt st)) = t_roles (db st) \<and>
      (\<forall>a k. channel_exists a k (db st) \<longrightarrow> channel_exists a k (db (sql_run stmt st))) \<or>
    t_channels (db (sql_run stmt st)) = t_channels (db st) \<and>
      (\<forall>k. row_exists role_pk k (t_roles (db st)) \<longrightarrow> row_exists role_pk k (t_roles (db (sql_run stmt st))))"
  shows "rows_persist st (fst (case sql_execute stmt st of
           (ok, st) \<Rightarrow> if \<not> ok then (st, e) else (modify_community cid f st, r)))"
proof -
  obtain ok st' where x: "sql_execute stmt st = (ok, st')" by fastforce
  then have "st' = sql_run stmt st" by (simp add: sql_run_def)
  with assms x show ?thesis
    by (auto simp: rows_persist_def frame_simps channel_exists_def)
qed

lemma rows_persist_create_channel:
  "rows_persist st (fst (handle_create_channel env st cid s n ty))"
  unfolding handle_create_channel_def Let_def
  by (rule rows_persist_with_permission)
     (auto simp: table_simps channel_exists_run intro!: rows_persist_execute_then)

lemma rows_persist_create_role:
  "rows_persist st (fst (handle_create_role env st cid s n col perms h m))"
  unfolding handle_create_role_def Let_def
  by (rule rows_persist_with_permission)
     (auto simp: table_simps role_exists_run intro!: rows_persist_execute_then)

lemma rows_persist_rename_channel:
  "rows_persist st (fst (handle_rename_channel env st cid s chid n))"
  unfolding handle_rename_channel_def
  by (rule rows_persist_with_permission)
     (auto simp: rows_persist_def frame_simps table_simps channel_exists_run split: option.split)

lemma rows_persist_edit_role:
  "rows_persist st (fst (handle_edit_role env st cid s rid n col perms pos h m))"
  unfolding handle_edit_role_def Let_def
  by (rule rows_persist_with_permission)
     (auto simp: rows_persist_def frame_simps table_simps role_exists_run channel_exists_def
       split: option.split)

lemma rows_persist_delete_channel:
  assumes "\<And>c. get_community st cid = Some c \<Longrightarrow> c_community_id c = cid"
  shows "rows_persist st (fst (handle_delete_channel env st cid s chid))"
  unfolding handle_delete_channel_def
proof (rule rows_persist_with_permission)
  fix c assume "get_community st cid = Some c"
  with assms have "c_community_id c = cid" by blast
  then show "rows_persist st (fst (sql_run (delete_channel (c_community_id c) chid)
      (modify_community cid (remove_channel chid) st), ResOk))"
    by (auto simp: rows_persist_def frame_simps table_simps channels.items_remove
        intro!: channel_exists_run(3) split: if_splits)
qed

lemma rows_persist_delete_role:
  assumes "\<And>c. get_community st cid = Some c \<Longrightarrow> c_community_id c = cid"
  shows "rows_persist st (fst (handle_delete_role env st cid s rid))"
proof (cases "rid = role_everyone_id")
  case True
  then show ?thesis by (simp add: handle_delete_role_def)
next
  case False
  show ?thesis unfolding handle_delete_role_def Let_def if_not_P [OF False]
  proof (rule rows_persist_with_permission)
    fix c assume "get_community st cid = Some c"
    with assms have c: "c_community_id c = cid" by blast
    have "rows_persist st (sql_run (delete_role_assignments cid (uint rid))
        (sql_run (delete_role cid (uint rid)) (modify_community cid (drop_role rid) st)))"
      by (auto simp: rows_persist_def frame_simps table_simps channel_exists_def
          intro!: role_exists_run(3) dest: unsigned_word_eqI split: if_splits)
    with c show "rows_persist st (fst (if highest_role_position c s \<le> role_position_or_max c rid
        then (st, ResError 403 ''cannot delete a role at or above your position'')
        else (sql_run (delete_role_assignments (c_community_id c) (uint rid))
          (sql_run (delete_role (c_community_id c) (uint rid))
            (modify_community cid (drop_role rid) st)), ResOk)))"
      by simp
  qed
qed

lemmas rows_persist_writers = rows_persist_create_channel rows_persist_create_role
  rows_persist_rename_channel rows_persist_edit_role

lemma rows_persist_dispatch_community:
  assumes "\<And>c. get_community st cid = Some c \<Longrightarrow> c_community_id c = cid"
  shows "dispatch_community env st cid s request = Some res \<Longrightarrow> rows_persist st (fst res)"
  by (cases request)
     (auto simp: rows_persist_tables table_simps rows_persist_writers frame_simps get_request_mek
       intro!: rows_persist_and_then rows_persist_delete_channel [OF assms])

lemma rows_persist_dispatch_roles:
  assumes "\<And>c. get_community st cid = Some c \<Longrightarrow> c_community_id c = cid"
  shows "dispatch_roles env st cid s request = Some res \<Longrightarrow> rows_persist st (fst res)"
  by (cases request)
     (auto simp: rows_persist_tables table_simps rows_persist_writers frame_simps get_get_roles
       intro!: rows_persist_and_then rows_persist_delete_role [OF assms])

lemma rows_persist_dispatch:
  assumes "wf_server st"
  shows "rows_persist st (fst (dispatch_request env st s request route ipc))"
proof (cases rule: dispatch_cases [of st s request route ipc env])
  case (handled cid)
  have c: "c_community_id c = cid" if "get_community st cid = Some c" for c
    using assms that by (simp add: wf_server_def)
  show ?thesis
    using handled(2) rows_persist_dispatch_community [OF c] rows_persist_dispatch_roles [OF c] by blast
qed (simp_all add: rows_persist_tables table_simps)

section \<open>Every request preserves well-formedness\<close>

lemma step_backed:
  assumes "community_step env d d' s request c c'" and "backed d c"
    and "\<And>chid. chid \<in> ch_id ` set (c_channels c') \<Longrightarrow> channel_exists (c_community_id c) chid d \<Longrightarrow>
      channel_exists (c_community_id c) chid d'"
    and "\<And>rid. rid \<in> rd_id ` set (c_roles c') \<Longrightarrow>
      row_exists role_pk (c_community_id c, uint rid) (t_roles d) \<Longrightarrow>
      row_exists role_pk (c_community_id c, uint rid) (t_roles d')"
  shows "backed d' c'"
proof -
  have i: "c_community_id c' = c_community_id c" using assms(1) by (rule step_id)
  have "channel_exists (c_community_id c) (ch_id ch) d'" if ch: "ch \<in> set (c_channels c')" for ch
  proof (cases "ch_id ch \<in> ch_id ` set (c_channels c)")
    case True
    then have "channel_exists (c_community_id c) (ch_id ch) d" using assms(2) by (auto simp: backed_def)
    then show ?thesis using assms(3) ch by blast
  next
    case False
    then have "map ch_id (c_channels c') \<noteq> map ch_id (c_channels c)"
      using ch by (metis imageI image_set)
    then show ?thesis using step_channel_ids [OF assms(1)] ch False by auto
  qed
  moreover have "row_exists role_pk (c_community_id c, uint (rd_id r)) (t_roles d')"
    if r: "r \<in> set (c_roles c')" for r
  proof (cases "rd_id r \<in> rd_id ` set (c_roles c)")
    case True
    then have "row_exists role_pk (c_community_id c, uint (rd_id r)) (t_roles d)"
      using assms(2) by (auto simp: backed_def)
    then show ?thesis using assms(4) r by blast
  next
    case False
    then have "map rd_id (c_roles c') \<noteq> map rd_id (c_roles c)"
      using r by (metis imageI image_set)
    then show ?thesis using step_role_ids [OF assms(1)] r False by auto
  qed
  ultimately show ?thesis by (simp add: backed_def i)
qed

lemma dispatch_wf:
  assumes "wf_server st"
  shows "wf_server (fst (dispatch_request env st s request route ipc))"
  unfolding wf_server_def
proof (intro allI impI)
  let ?st' = "fst (dispatch_request env st s request route ipc)"
  fix a c' assume c': "get_community ?st' a = Some c'"
  then obtain c where c: "get_community st a = Some c"
    using dispatch_hosted_iff [of env st s request route ipc a] by force
  then have wf: "c_community_id c = a" "wf_community c" "backed (db st) c"
    using assms by (auto simp: wf_server_def)
  have persist: "rows_persist st ?st'" using assms by (rule rows_persist_dispatch)
  from dispatch_step [OF c c'] show "c_community_id c' = a \<and> wf_community c' \<and> backed (db ?st') c'"
  proof
    assume "c' = c"
    with wf persist c' show ?thesis by (auto simp: rows_persist_def backed_def)
  next
    assume "request_target st s request route ipc = Some a \<and> community_step env (db st) (db ?st') s request c c'"
    then have step: "community_step env (db st) (db ?st') s request c c'" by blast
    have "backed (db ?st') c'"
      using persist c' wf(1) by (intro step_backed [OF step wf(3)]) (auto simp: rows_persist_def)
    then show ?thesis using step_id [OF step] step_wf [OF step wf(2,3)] wf(1) by simp
  qed
qed

text \<open>
  A server whose requests all preserve a property preserves it along every run.
\<close>

interpretation wf: step_invariant handle_input wf_server
  by unfold_locales (simp add: handle_input_def dispatch_wf)

text \<open>
  C5. Well-formedness is an invariant of the server: whatever requests arrive, from whomever, and
  whichever database statements fail while they are handled, afterwards pseudonyms, channel ids
  and role ids are unique in every community, @everyone exists and everybody holds it, overwrites
  are unique per channel and target, and every channel and role in memory has its row in the
  database.
\<close>

theorem runs_preserve_wf:
  assumes "wf_server st"
  shows "wf_server (fold handle_input inputs st)"
  using wf.run_rel assms by blast

lemma demo_wf: "wf_server demo_state"
proof -
  have "get_community demo_state a = Some c \<longleftrightarrow> a = ''c1'' \<and> c = demo_community" for a c
    by (auto simp: get_community_def demo_state_def)
  moreover have "wf_community demo_community"
    by (simp add: wf_community_def demo_community_def demo_member_def demo_role_def role_everyone_id_def)
  moreover have "backed demo_db demo_community"
    by (simp add: backed_def demo_db_def demo_community_def channel_exists_def row_exists_def
        channel_pk_def role_pk_def role_to_row_def demo_role_def)
  ultimately show ?thesis by (simp add: wf_server_def)
qed

theorem runs_preserve_wf_witness:
  "wf_server (fold handle_input
     [\<lparr>in_env = demo_env, in_sender = ''owner'', in_request = CreateChannel ''x'' ''text'',
       in_route = None, in_ipc = Some ''c1''\<rparr>] demo_state)"
  by (rule runs_preserve_wf [OF demo_wf])

end
