(* ===== verification/Keys.thy ===== *)
theory Keys
  imports Wellformed
begin

text \<open>
  Confidentiality: who receives key material and broadcasts, and what outsiders can reach. The
  handlers are followed from the checks they open with to the responses they return and the
  messages they leave in the outbox.
\<close>

section \<open>Outsiders\<close>

lemma outsider_not_authorised: "\<not> insider c s \<Longrightarrow> p \<noteq> 0 \<Longrightarrow> \<not> authorised env c s p"
  using authorised_insider by blast

lemma flag_nonzero: "n < 64 \<Longrightarrow> flag n \<noteq> 0"
  by (metis bit_flag bit_0_eq bot_apply bot_bool_def)

lemma KICK_MEMBERS_nonzero: "KICK_MEMBERS \<noteq> 0"
  by (simp add: KICK_MEMBERS_def flag_nonzero)

lemma dispatch_community_outsider:
  assumes "get_community st cid = Some c" and "\<not> insider c s"
    and "dispatch_community env st cid s request = Some res"
  shows "fst res = st \<and> is_error (snd res)"
  using assms outsider_not_authorised [OF assms(2) KICK_MEMBERS_nonzero]
  by (cases request)
     (auto simp: handle_send_message_def handle_get_messages_def handle_request_mek_def
       handle_leave_refused handle_kick_def handle_create_channel_def handle_delete_channel_def
       handle_rotate_mek_def handle_rename_channel_def handle_update_community_def handle_ban_def
       handle_unban_def handle_get_ban_list_def member_with_permission_eq with_community_def
       check_eqs and_then_def)

lemma dispatch_roles_outsider:
  assumes "get_community st cid = Some c" and "\<not> insider c s"
    and "dispatch_roles env st cid s request = Some res"
  shows "fst res = st \<and> is_error (snd res)"
  using assms
  by (cases request)
     (auto simp: handle_create_role_def handle_edit_role_def handle_delete_role_def
       handle_assign_role_def handle_unassign_role_def handle_get_roles_def
       handle_timeout_member_def handle_remove_timeout_def handle_set_channel_overwrite_def
       handle_delete_channel_overwrite_def member_with_permission_eq with_community_def
       check_eqs and_then_def)

text \<open>
  C6. Outsiders are locked out: when the sender is neither a member nor the creator of the hosted
  community its request is for, every request but a join is answered with an error and changes
  nothing at all, neither the communities, nor the database, nor the outbox. (For a community that is
  not hosted, reading messages and leaving are answered all the same.)
\<close>

theorem outsiders_are_refused:
  assumes "request_target st s request route ipc = Some cid" and "get_community st cid = Some c"
    and "\<not> insider c s" and "\<not> (\<exists>key code name prekey blob. request = Join key code name prekey blob)"
  shows "fst (dispatch_request env st s request route ipc) = st
    \<and> is_error (snd (dispatch_request env st s request route ipc))"
proof (cases rule: dispatch_cases [of st s request route ipc env])
  case (handled cid')
  then have "cid' = cid" using assms(1) by simp
  with handled(2) assms show ?thesis
    using dispatch_community_outsider dispatch_roles_outsider by blast
qed (use assms(4) in auto)

theorem outsiders_are_refused_witness:
  "is_error (snd (dispatch_request demo_env demo_state ''eve'' (GetMessages ''general'' None 10) None (Some ''c1'')))"
  using outsiders_are_refused [of demo_state "''eve''" "GetMessages ''general'' None 10" None
      "Some ''c1''" "''c1''" demo_community demo_env]
  by (simp add: request_target_def)

section \<open>Key material in responses\<close>

lemma dispatch_community_reveals:
  assumes "dispatch_community env st cid s request = Some res" and "reveals_key (snd res)"
  shows "\<exists>c. get_community (fst res) cid = Some c \<and> insider c s
    \<and> snd res = MEK (mek_payload (c_mek c)) (mek_generation (c_mek c))"
  using assms
  by (cases request)
     (auto simp: handle_send_message_def handle_get_messages_def handle_request_mek_def
       handle_leave_def handle_kick_def handle_create_channel_def handle_delete_channel_def
       handle_rotate_mek_def handle_rename_channel_def handle_update_community_def handle_ban_def
       handle_unban_def handle_get_ban_list_def member_with_permission_eq with_community_def
       not_found_def check_then_def verify_membership_eq check_permission_eq check_hierarchy_eq
       Let_def case_prod_unfold
       split: option.splits if_splits sum.splits)

lemma dispatch_roles_reveals:
  assumes "dispatch_roles env st cid s request = Some res"
  shows "\<not> reveals_key (snd res)"
  using assms
  by (cases request)
     (auto simp: handle_create_role_def handle_edit_role_def handle_delete_role_def
       handle_assign_role_def handle_unassign_role_def handle_get_roles_def
       handle_timeout_member_def handle_remove_timeout_def handle_set_channel_overwrite_def
       handle_delete_channel_overwrite_def member_with_permission_eq with_community_def
       not_found_def check_eqs Let_def case_prod_unfold
       split: option.splits if_splits)

lemma error_reveals_nothing: "is_error r \<Longrightarrow> \<not> reveals_key r"
  by (cases r) simp_all

lemma rejoin_response:
  assumes "handle_rejoin st cid s blob = Some res"
  shows "\<exists>c chs ids rs. get_community (fst res) cid = Some c \<and> is_member c s
    \<and> snd res = Joined (mek_payload (c_mek c)) (mek_generation (c_mek c)) chs ids rs"
  using assms
  by (auto simp: handle_rejoin_def Let_def frame_simps build_rejoin_response_def is_member_find
      roster_simps split: option.splits)

lemma add_new_member_result:
  assumes "get_community st cid = Some c"
  shows "\<exists>c' chs ids rs. get_community (fst (add_new_member env st cid s n blob)) cid = Some c'
    \<and> is_member c' s \<and> snd (add_new_member env st cid s n blob) =
      Some (mek_payload (c_mek c'), mek_generation (c_mek c'), chs, ids, rs)"
  using assms
  by (simp add: add_new_member_def Let_def frame_simps new_member_def split: option.split)

lemma admit_response:
  assumes "get_community st cid = Some c"
  shows "\<exists>c' chs ids rs. get_community (fst (admit env st cid s n blob)) cid = Some c' \<and> is_member c' s
    \<and> snd (admit env st cid s n blob) =
      Joined (mek_payload (c_mek c')) (mek_generation (c_mek c')) chs ids rs"
proof (cases "handle_rejoin st cid s blob")
  case None
  obtain c' chs ids rs where r: "get_community (fst (add_new_member env st cid s n blob)) cid = Some c'"
    "is_member c' s" "snd (add_new_member env st cid s n blob) =
      Some (mek_payload (c_mek c'), mek_generation (c_mek c'), chs, ids, rs)"
    using add_new_member_result [OF assms] by blast
  then show ?thesis using None
    by (cases "add_new_member env st cid s n blob") (simp add: admit_def Let_def frame_simps)
next
  case (Some res)
  then show ?thesis using rejoin_response [OF Some] by (simp add: admit_def)
qed

lemma admit_none:
  assumes "get_community st cid = None"
  shows "snd (admit env st cid s n blob) = not_found"
proof -
  have "handle_rejoin st cid s blob = None" using assms by (simp add: handle_rejoin_def)
  moreover have "snd (add_new_member env st cid s n blob) = None"
    using assms by (simp add: add_new_member_def Let_def frame_simps)
  ultimately show ?thesis
    by (cases "add_new_member env st cid s n blob") (simp add: admit_def)
qed

lemma join_reveals:
  assumes "join_target st route ipc = Some cid"
    and "reveals_key (snd (handle_join env st s n blob route ipc))"
  shows "\<exists>c chs ids rs. get_community (fst (handle_join env st s n blob route ipc)) cid = Some c
    \<and> is_member c s \<and> \<not> (fst (sql_query (is_banned_row cid s) st) = Some True)
    \<and> snd (handle_join env st s n blob route ipc) =
        Joined (mek_payload (c_mek c)) (mek_generation (c_mek c)) chs ids rs"
proof -
  let ?st = "snd (sql_query (is_banned_row cid s) st)"
  have b: "\<not> (fst (sql_query (is_banned_row cid s) st) = Some True)"
    and j: "handle_join env st s n blob route ipc = admit env ?st cid s n blob"
    using assms by (auto simp: handle_join_eq case_prod_unfold Let_def not_found_def split: if_splits)
  have "get_community ?st cid \<noteq> None"
  proof
    assume "get_community ?st cid = None"
    then have "snd (admit env ?st cid s n blob) = not_found" by (rule admit_none)
    then show False using assms(2) unfolding j by (simp add: not_found_def)
  qed
  then show ?thesis using admit_response [of ?st cid] b unfolding j by blast
qed

text \<open>
  C7. Key bytes are handed to insiders only: a response that carries a media encryption key
  answers a request of a pseudonym that, after the request, is a member or the creator of the
  community the request was resolved to, and the key is that community's current one, prefixed by
  its generation.
\<close>

theorem keys_for_insiders_only:
  assumes "reveals_key (snd (dispatch_request env st s request route ipc))"
  shows "\<exists>cid c. request_target st s request route ipc = Some cid
    \<and> get_community (fst (dispatch_request env st s request route ipc)) cid = Some c \<and> insider c s
    \<and> (snd (dispatch_request env st s request route ipc) = MEK (mek_payload (c_mek c)) (mek_generation (c_mek c))
       \<or> (\<exists>chs ids rs. snd (dispatch_request env st s request route ipc) =
             Joined (mek_payload (c_mek c)) (mek_generation (c_mek c)) chs ids rs))"
proof (cases rule: dispatch_cases [of st s request route ipc env])
  case (join cid code name prekey blob)
  then have "join_target st route ipc = Some cid" by (simp add: request_target_def)
  moreover have "reveals_key (snd (handle_join env st s name blob route ipc))"
    using assms unfolding join(3) .
  ultimately obtain c chs ids rs where
    "get_community (fst (handle_join env st s name blob route ipc)) cid = Some c" "is_member c s"
    "snd (handle_join env st s name blob route ipc) =
      Joined (mek_payload (c_mek c)) (mek_generation (c_mek c)) chs ids rs"
    using join_reveals by blast
  then show ?thesis unfolding join(1,3)
    by (intro exI [of _ cid] exI [of _ c]) (simp add: insider_def)
next
  case (handled cid)
  from handled(2) show ?thesis
  proof
    assume "dispatch_community env st cid s request = Some (dispatch_request env st s request route ipc)"
    from dispatch_community_reveals [OF this assms] show ?thesis
      using handled(1) by blast
  next
    assume "dispatch_roles env st cid s request = Some (dispatch_request env st s request route ipc)"
    from dispatch_roles_reveals [OF this] show ?thesis using assms by blast
  qed
qed (use assms error_reveals_nothing in auto)

theorem keys_for_insiders_only_witness:
  "insider demo_community ''bob'' \<and>
   snd (dispatch_request demo_env demo_state ''bob'' RequestMEK None (Some ''c1'')) = MEK (u64_le_bytes 1 @ [5]) 1"
proof -
  have d: "dispatch_request demo_env demo_state ''bob'' RequestMEK None (Some ''c1'') =
      (demo_state, MEK (u64_le_bytes 1 @ [5]) 1)"
    by (simp add: dispatch_request_def handle_request_mek_def with_community_def check_eqs mek_payload_def)
  show ?thesis
    using keys_for_insiders_only [of demo_env demo_state "''bob''" RequestMEK None "Some ''c1''"]
    unfolding d by (auto simp: request_target_def)
qed

section \<open>Broadcasts\<close>

text \<open>
  What a request appends to the outbox: messages of one community, to routes of its members.
\<close>

definition sends_ok :: "string \<Rightarrow> server_state \<Rightarrow> server_state \<Rightarrow> bool" where
  "sends_ok cid st st' \<longleftrightarrow>
     (\<exists>es. outbox st' = outbox st @ es \<and>
       (\<forall>route b. AppMessage route b \<in> set es \<longrightarrow>
          broadcast_community b = cid \<and>
          (\<exists>c. get_community st' cid = Some c \<and> (\<exists>m\<in>set (c_members c). m_route_blob m = Some route))))"

lemma sends_quiet: "outbox st' = outbox st \<Longrightarrow> sends_ok cid st st'"
  by (simp add: sends_ok_def)

lemma sends_refl [simp]: "sends_ok cid st st"
  by (simp add: sends_quiet)

lemma sends_start: "outbox st1 = outbox st \<Longrightarrow> sends_ok cid st1 st' \<Longrightarrow> sends_ok cid st st'"
  by (simp add: sends_ok_def)

lemma sends_append:
  assumes "sends_ok cid st st1" and "get_community st2 = get_community st1"
    and "outbox st2 = outbox st1 @ es"
    and "\<And>route b. AppMessage route b \<in> set es \<Longrightarrow> broadcast_community b = cid \<and>
      (\<exists>c. get_community st2 cid = Some c \<and> (\<exists>m\<in>set (c_members c). m_route_blob m = Some route))"
  shows "sends_ok cid st st2"
proof -
  obtain es1 where "outbox st1 = outbox st @ es1" and "\<forall>route b. AppMessage route b \<in> set es1 \<longrightarrow>
      broadcast_community b = cid \<and> (\<exists>c. get_community st1 cid = Some c
        \<and> (\<exists>m\<in>set (c_members c). m_route_blob m = Some route))"
    using assms(1) by (auto simp: sends_ok_def)
  then show ?thesis unfolding sends_ok_def
    using assms(2-4) by (intro exI [of _ "es1 @ es"]) auto
qed

lemma set_broadcast_routes:
  "route \<in> set (broadcast_routes c ex) \<Longrightarrow> \<exists>m\<in>set (c_members c). m_route_blob m = Some route"
  by (auto simp: broadcast_routes_def map_filter_def)

lemma outbox_broadcast:
  "outbox (broadcast_to_members cid ex b st) = outbox st @
    (case get_community st cid of None \<Rightarrow> [] | Some c \<Rightarrow> map (\<lambda>r. AppMessage r b) (broadcast_routes c ex))"
  by (simp add: broadcast_to_members_def emit_def split: option.split)

lemma sends_broadcast:
  assumes "sends_ok cid st st1" and "broadcast_community b = cid"
  shows "sends_ok cid st (broadcast_to_members cid ex b st1)"
proof (rule sends_append [OF assms(1) _ outbox_broadcast])
  fix route b'
  assume "AppMessage route b' \<in> set (case get_community st1 cid of None \<Rightarrow> []
    | Some c \<Rightarrow> map (\<lambda>r. AppMessage r b) (broadcast_routes c ex))"
  then show "broadcast_community b' = cid \<and> (\<exists>c. get_community (broadcast_to_members cid ex b st1) cid = Some c
      \<and> (\<exists>m\<in>set (c_members c). m_route_blob m = Some route))"
    using assms(2)
    by (cases "get_community st1 cid") (auto simp: frame_simps dest: set_broadcast_routes)
qed (simp add: frame_simps)

lemma sends_publish:
  assumes "sends_ok cid st st1"
  shows "sends_ok cid st (publish_metadata env a n st1)" "sends_ok cid st (publish_channels env a st1)"
    "sends_ok cid st (publish_member_roster env a st1)" "sends_ok cid st (publish_mek_bundle env a st1)"
  using assms
  by (auto simp: publish_metadata_def publish_channels_def publish_member_roster_def
      publish_mek_bundle_def frame_simps intro: sends_append split: option.split)

lemma sends_run: "sends_ok cid st st1 \<Longrightarrow> sends_ok cid st (sql_run stmt st1)"
  by (erule sends_append [where es = "[]"]) (simp_all add: frame_simps)

lemma sends_modify [simp]:
  "sends_ok cid st (modify_community a f st)" "sends_ok cid st (rotate_community_mek env a st)"
  by (simp_all add: sends_quiet modify_community_frame rotate_community_mek_def Let_def
      case_prod_unfold rotate_mek_frame split: option.split)

lemmas sends_intros = sends_broadcast sends_publish sends_run

lemma sends_changed:
  assumes "sends_ok cid st st1"
  shows "sends_ok cid st (broadcast_roles_changed cid st1)"
    "sends_ok cid st (broadcast_member_roles_changed cid t st1)"
  using assms
  by (auto simp: broadcast_roles_changed_def broadcast_member_roles_changed_def Let_def
      intro: sends_broadcast split: option.split)

lemma sends_and_then:
  assumes "\<And>st1. sends_ok cid st st1 \<Longrightarrow> sends_ok cid st (f st1)" and "sends_ok cid st (fst res)"
  shows "sends_ok cid st (fst (and_then P f res))"
  using assms by (simp add: and_then_def)

lemma sends_with_permission:
  assumes "\<And>c. get_community st cid = Some c \<Longrightarrow> sends_ok cid st (fst (rest c))"
  shows "sends_ok cid st (fst (member_with_permission env st cid s p rest))"
  by (rule member_with_permission_cases [of env st cid s p rest]) (auto intro: assms)

lemma outbox_rotate [frame_simps]: "outbox (rotate_community_mek env cid st) = outbox st"
  by (simp add: rotate_community_mek_def Let_def case_prod_unfold frame_simps split: option.split)

lemma sends_leave: "sends_ok cid st (fst (handle_leave env st cid t))"
proof -
  let ?st1 = "rotate_community_mek env cid (modify_community cid (remove_member t) (sql_run (delete_member cid t) st))"
  have "sends_ok cid st ?st1" by (rule sends_quiet) (simp add: frame_simps)
  then show ?thesis
    by (auto simp: handle_leave_def Let_def check_then_def split: option.split sum.split
        intro!: sends_intros)
qed

lemma sends_admit: "sends_ok cid st (fst (admit env st cid s n blob))"
proof (cases "handle_rejoin st cid s blob")
  case None
  have q: "outbox (fst (add_new_member env st cid s n blob)) = outbox st"
    by (simp add: add_new_member_def Let_def frame_simps split: option.split)
  show ?thesis using None q
    by (auto simp: admit_def Let_def split: prod.split option.split intro!: sends_intros intro: sends_quiet)
next
  case (Some res)
  then have "outbox (fst res) = outbox st"
    by (auto simp: handle_rejoin_def Let_def frame_simps split: option.splits)
  with Some show ?thesis by (simp add: admit_def sends_quiet)
qed

lemma sends_join:
  assumes "join_target st route ipc = Some cid"
  shows "sends_ok cid st (fst (handle_join env st s n blob route ipc))"
proof -
  have "sends_ok cid st (fst (admit env (snd (sql_query q st)) cid s n blob))" for q
    by (rule sends_start [OF _ sends_admit]) (simp add: frame_simps)
  moreover have "sends_ok cid st (snd (sql_query q st))" for q
    by (rule sends_quiet) (simp add: frame_simps)
  ultimately show ?thesis using assms by (auto simp: handle_join_eq case_prod_unfold Let_def)
qed

lemma sends_simple_handlers:
  "sends_ok cid st (fst (handle_unban env st cid s t))"
  "sends_ok cid st (fst (handle_get_messages env st cid s chid before limit))"
  "sends_ok cid st (fst (handle_get_ban_list env st cid s))"
  "sends_ok cid st (fst (handle_delete_channel env st cid s chid))"
  "sends_ok cid st (fst (handle_rename_channel env st cid s chid nm))"
  "sends_ok cid st (fst (handle_edit_role env st cid s rid n col perms pos h m))"
  "sends_ok cid st (fst (handle_delete_role env st cid s rid))"
  "sends_ok cid st (fst (handle_assign_role env st cid s t rid))"
  "sends_ok cid st (fst (handle_unassign_role env st cid s t rid))"
  "sends_ok cid st (fst (handle_delete_channel_overwrite env st cid s chid ty tid))"
  "sends_ok cid st (fst (handle_create_channel env st cid s nm ty))"
  "sends_ok cid st (fst (handle_create_role env st cid s nm col' perms' h' m'))"
  by (rule sends_quiet;
      simp add: handle_unban_def handle_get_messages_def handle_get_ban_list_def
        handle_delete_channel_def handle_rename_channel_def handle_edit_role_def
        handle_delete_role_def handle_assign_role_def handle_unassign_role_def
        handle_delete_channel_overwrite_def handle_create_channel_def handle_create_role_def
        member_with_permission_eq check_then_def check_hierarchy_eq verify_membership_eq Let_def
        case_prod_unfold frame_simps split: option.split if_split sum.split)+

lemma sends_kick: "sends_ok cid st (fst (handle_kick env st cid s t))"
  by (auto simp: handle_kick_def with_community_def check_eqs sends_leave split: option.split)

lemma sends_ban: "sends_ok cid st (fst (handle_ban env st cid s t))"
proof -
  have "sends_ok cid st (fst (handle_leave env (sql_run stmt st) cid t))" for stmt
    by (rule sends_start [OF _ sends_leave]) (simp add: frame_simps)
  then show ?thesis
    by (auto simp: handle_ban_def Let_def check_eqs intro!: sends_with_permission)
qed

lemma sends_send_message: "sends_ok cid st (fst (handle_send_message env st cid s chid ct gen))"
proof -
  have "sends_ok cid st (snd (sql_execute stmt st))" for stmt
    by (rule sends_quiet) (simp add: frame_simps)
  then show ?thesis
    by (auto simp: handle_send_message_def with_community_def check_eqs Let_def case_prod_unfold
        split: option.split intro!: sends_broadcast)
qed

lemma sends_update: "sends_ok cid st (fst (handle_update_community env st cid s n d))"
  by (auto simp: handle_update_community_def member_with_permission_eq Let_def frame_simps
      split: option.split intro!: sends_intros intro: sends_quiet)

lemma sends_broadcasting_handlers:
  "sends_ok cid st (fst (handle_rotate_mek env st cid s))"
  "sends_ok cid st (fst (handle_set_channel_overwrite env st cid s chid ty tid al de))"
  "sends_ok cid st (fst (handle_timeout_member env st cid s t dur reason))"
  "sends_ok cid st (fst (handle_remove_timeout env st cid s t))"
  by (auto simp: handle_rotate_mek_def handle_set_channel_overwrite_def handle_timeout_member_def
      handle_remove_timeout_def Let_def check_eqs frame_simps split: option.split
      intro!: sends_with_permission sends_intros intro: sends_quiet)

lemmas sends_handlers = sends_simple_handlers sends_kick sends_ban sends_leave sends_send_message
  sends_update sends_broadcasting_handlers

lemma sends_dispatch_community:
  "dispatch_community env st cid s request = Some res \<Longrightarrow> sends_ok cid st (fst res)"
  by (cases request)
     (auto simp: sends_handlers get_request_mek intro!: sends_and_then sends_publish)

lemma sends_dispatch_roles:
  "dispatch_roles env st cid s request = Some res \<Longrightarrow> sends_ok cid st (fst res)"
  by (cases request)
     (auto simp: sends_handlers get_get_roles intro!: sends_and_then sends_changed)

lemma demo_kick_notice:
  "AppMessage [7] (MemberRemoved ''c1'' ''bob'')
     \<in> set (outbox (fst (dispatch_request demo_env demo_state ''owner'' (Kick ''bob'') None (Some ''c1''))))"
proof -
  have "[7] \<in> set (broadcast_routes (remove_member ''bob'' demo_community) ''bob'')"
    by (simp add: broadcast_routes_def remove_member_def demo_member_def map_filter_def)
  then show ?thesis
    by (simp add: dispatch_request_def handle_kick_def with_community_def check_eqs handle_leave_def
        outbox_broadcast Let_def frame_simps broadcast_routes_def roster_simps image_iff
        split: option.split)
qed

text \<open>
  C8. Broadcasts stay inside the community: whatever a request appends to the outbox, each message
  to a route speaks of the community the request was resolved to, and the route is one announced
  by somebody who is still a member after the request; so somebody kicked or banned gets none of
  the notices about it, nor the notice of the new key.
\<close>

theorem broadcasts_reach_members_only:
  "\<exists>es. outbox (fst (dispatch_request env st s request route ipc)) = outbox st @ es \<and>
    (\<forall>r b. AppMessage r b \<in> set es \<longrightarrow>
       request_target st s request route ipc = Some (broadcast_community b) \<and>
       (\<exists>c. get_community (fst (dispatch_request env st s request route ipc)) (broadcast_community b) = Some c
          \<and> (\<exists>m\<in>set (c_members c). m_route_blob m = Some r)))"
proof (cases rule: dispatch_cases [of st s request route ipc env])
  case (join cid code name prekey blob)
  then have "join_target st route ipc = Some cid" by (simp add: request_target_def)
  from sends_join [OF this, of env s name blob] show ?thesis unfolding join(1,3) sends_ok_def by auto
next
  case (handled cid)
  then have "sends_ok cid st (fst (dispatch_request env st s request route ipc))"
    using sends_dispatch_community sends_dispatch_roles by blast
  then show ?thesis unfolding handled(1) sends_ok_def by auto
qed auto

theorem broadcasts_reach_members_only_witness:
  "\<exists>c. get_community (fst (dispatch_request demo_env demo_state ''owner'' (Kick ''bob'') None (Some ''c1''))) ''c1'' = Some c
    \<and> (\<exists>m\<in>set (c_members c). m_route_blob m = Some [7])"
proof -
  obtain es where es: "outbox (fst (dispatch_request demo_env demo_state ''owner'' (Kick ''bob'') None (Some ''c1'')))
      = outbox demo_state @ es"
    "\<forall>r b. AppMessage r b \<in> set es \<longrightarrow>
       request_target demo_state ''owner'' (Kick ''bob'') None (Some ''c1'') = Some (broadcast_community b) \<and>
       (\<exists>c. get_community (fst (dispatch_request demo_env demo_state ''owner'' (Kick ''bob'') None (Some ''c1''))) (broadcast_community b) = Some c
          \<and> (\<exists>m\<in>set (c_members c). m_route_blob m = Some r))"
    using broadcasts_reach_members_only [of demo_env demo_state "''owner''" "Kick ''bob''" None "Some ''c1''"] by blast
  have "AppMessage [7] (MemberRemoved ''c1'' ''bob'') \<in> set es"
    using demo_kick_notice es(1) by (simp add: demo_state_def)
  from es(2) [rule_format, OF this] show ?thesis by (simp only: broadcast_community.simps)
qed

end
