(* ===== verification/Bans.thy ===== *)
theory Bans
  imports Keys
begin

text \<open>
  Bans: who may impose and lift them, that a banned pseudonym cannot join, and that it stays out
  along every run as long as the database works and nobody lifts the ban.
\<close>

section \<open>The ban table\<close>

lemma banned_update [table_simps]:
  "t_banned (db (fst (handle_kick env st cid s t))) = t_banned (db st)"
  "t_banned (db (fst (handle_rotate_mek env st cid s))) = t_banned (db st)"
  "t_banned (db (fst (handle_assign_role env st cid s t rid))) = t_banned (db st)"
  "t_banned (db (fst (handle_unassign_role env st cid s t rid))) = t_banned (db st)"
  "t_banned (db (fst (handle_delete_role env st cid s rid))) = t_banned (db st)"
  "t_banned (db (fst (handle_edit_role env st cid s rid n x p pos h m))) = t_banned (db st)"
  "t_banned (db (fst (handle_create_role env st cid s n' x' p' h' m'))) = t_banned (db st)"
  "t_banned (db (fst (handle_timeout_member env st cid s t dur reason))) = t_banned (db st)"
  "t_banned (db (fst (handle_remove_timeout env st cid s t))) = t_banned (db st)"
  "t_banned (db (fst (handle_set_channel_overwrite env st cid s chid ty tid al de))) = t_banned (db st)"
  "t_banned (db (fst (handle_delete_channel_overwrite env st cid s chid ty tid))) = t_banned (db st)"
  "t_banned (db (fst (handle_create_channel env st cid s nm ty))) = t_banned (db st)"
  "t_banned (db (fst (handle_delete_channel env st cid s chid))) = t_banned (db st)"
  "t_banned (db (fst (handle_rename_channel env st cid s chid nm))) = t_banned (db st)"
  by (simp_all add: handle_kick_def with_community_def handle_rotate_mek_def handle_assign_role_def
      handle_unassign_role_def handle_delete_role_def handle_edit_role_def handle_create_role_def
      handle_timeout_member_def handle_remove_timeout_def handle_set_channel_overwrite_def
      handle_delete_channel_overwrite_def handle_create_channel_def handle_delete_channel_def
      handle_rename_channel_def member_with_permission_eq check_eqs Let_def case_prod_unfold
      frame_simps table_simps sql_run_def [symmetric] split: handler_splits)

lemma banned_others [table_simps]:
  "t_banned (db (fst (handle_update_community env st cid s n d))) = t_banned (db st)"
  "t_banned (db (fst (handle_send_message env st cid s chid ct gen))) = t_banned (db st)"
  by (simp_all add: handle_update_community_def handle_send_message_def member_with_permission_eq
      with_community_def check_eqs Let_def case_prod_unfold frame_simps table_simps
      sql_run_def [symmetric] split: option.split)

lemma row_exists_replace: "row_exists pk k (row_replace pk r t) \<longleftrightarrow> k = pk r \<or> row_exists pk k t"
  by (cases "k = pk r") (auto simp: row_exists_def row_replace_def list_ex_iff)

lemma is_banned_replace:
  "replace_banned r d = Some d' \<Longrightarrow>
    is_banned_row cid key d' \<longleftrightarrow> (cid, key) = (br_community_id r, br_pseudonym r) \<or> is_banned_row cid key d"
  by (auto simp: replace_banned_def is_banned_row_def row_exists_replace banned_pk_def split: if_splits)

lemma is_banned_delete:
  "delete_banned a k d = Some d' \<Longrightarrow>
    is_banned_row cid key d' \<longleftrightarrow> (cid, key) \<noteq> (a, k) \<and> is_banned_row cid key d"
  by (auto simp: delete_banned_def is_banned_row_def row_exists_delete)

lemma is_banned_cong: "t_banned d' = t_banned d \<Longrightarrow> is_banned_row cid key d' = is_banned_row cid key d"
  by (simp add: is_banned_row_def)

section \<open>Who bans, who lifts\<close>

definition ban_change :: "request_env \<Rightarrow> string \<Rightarrow> community_request \<Rightarrow> string \<Rightarrow> server_state \<Rightarrow> server_state \<Rightarrow> bool" where
  "ban_change env s request cid st st' \<longleftrightarrow>
     (\<forall>a t. is_banned_row a t (db st') \<noteq> is_banned_row a t (db st) \<longrightarrow>
        (\<exists>c. get_community st cid = Some c \<and> authorised env c s BAN_MEMBERS \<and>
          (if is_banned_row a t (db st') then a = cid \<and> request = Ban t \<and> s \<noteq> t \<and> outranks c s t
           else a = c_community_id c \<and> request = Unban t)))"

lemma ban_change_same: "t_banned (db st') = t_banned (db st) \<Longrightarrow> ban_change env s request cid st st'"
  by (simp add: ban_change_def is_banned_row_def)

lemma handle_ban_eq:
  "handle_ban env st cid s t =
    (case get_community st cid of
       None \<Rightarrow> (st, not_found)
     | Some c \<Rightarrow>
         if \<not> insider c s then (st, ResError 403 ''not a member'')
         else if \<not> authorised env c s BAN_MEMBERS then (st, ResError 403 ''insufficient permissions'')
         else if s = t then (st, ResError 400 ''cannot ban yourself'')
         else if outranks c s t
         then handle_leave env (sql_run (replace_banned \<lparr>br_community_id = cid, br_pseudonym = t,
                br_display_name = (case find_member c t of None \<Rightarrow> [] | Some m \<Rightarrow> m_display_name m),
                br_banned_at = timestamp_now env\<rparr>) st) cid t
         else (st, ResError 403 ''target has equal or higher role position''))"
  by (cases "get_community st cid") (simp_all add: handle_ban_def member_with_permission_eq check_eqs Let_def)

lemma ban_run:
  "is_banned_row a k (db st) \<Longrightarrow> is_banned_row a k (db (sql_run (replace_banned row) st))"
  "is_banned_row a k (db (sql_run (replace_banned row) st)) \<Longrightarrow>
    is_banned_row a k (db st) \<or> (a, k) = (br_community_id row, br_pseudonym row)"
  using sql_run_cases [of "replace_banned row" st] by (auto simp: is_banned_replace)

lemma unban_run:
  "is_banned_row a k (db (sql_run (delete_banned cid t) st)) \<Longrightarrow> is_banned_row a k (db st)"
  "is_banned_row a k (db st) \<Longrightarrow>
    is_banned_row a k (db (sql_run (delete_banned cid t) st)) \<or> (a, k) = (cid, t)"
  using sql_run_cases [of "delete_banned cid t" st] by (auto simp: is_banned_delete)

lemma ban_change_ban: "ban_change env s (Ban t) cid st (fst (handle_ban env st cid s t))"
proof (cases "get_community st cid")
  case None
  then show ?thesis by (simp add: handle_ban_eq ban_change_same)
next
  case (Some c)
  show ?thesis
  proof (cases "insider c s \<and> authorised env c s BAN_MEMBERS \<and> s \<noteq> t \<and> outranks c s t")
    case True
    then show ?thesis using Some
      by (auto simp: handle_ban_eq ban_change_def is_banned_cong [OF tables_leave(3)]
          dest: ban_run)
  next
    case False
    with Some have "fst (handle_ban env st cid s t) = st" by (auto simp: handle_ban_eq)
    then show ?thesis by (simp add: ban_change_same)
  qed
qed

lemma ban_change_unban: "ban_change env s (Unban t) cid st (fst (handle_unban env st cid s t))"
proof (cases "get_community st cid")
  case None
  then show ?thesis by (simp add: handle_unban_def member_with_permission_eq ban_change_same)
next
  case (Some c)
  then show ?thesis
    by (auto simp: handle_unban_def member_with_permission_eq ban_change_def dest: unban_run)
qed

lemma ban_change_and_then:
  "(\<And>st. db (f st) = db st) \<Longrightarrow> ban_change env s request cid st (fst res) \<Longrightarrow>
    ban_change env s request cid st (fst (and_then P f res))"
  by (simp add: ban_change_def db_and_then)

lemma ban_change_dispatch:
  assumes "dispatch_community env st cid s request = Some res \<or> dispatch_roles env st cid s request = Some res"
  shows "ban_change env s request cid st (fst res)"
  using assms
  by (cases request)
     (auto simp: ban_change_same table_simps ban_change_ban ban_change_unban get_request_mek
       get_get_roles frame_simps intro!: ban_change_and_then)

lemma ban_list_step:
  assumes "is_banned_row a t (db (fst (dispatch_request env st s request route ipc))) \<noteq> is_banned_row a t (db st)"
  shows "\<exists>cid c. request_target st s request route ipc = Some cid \<and> get_community st cid = Some c
    \<and> authorised env c s BAN_MEMBERS
    \<and> (if is_banned_row a t (db st) then request = Unban t \<and> a = c_community_id c
       else request = Ban t \<and> a = cid \<and> s \<noteq> t \<and> outranks c s t)"
proof (cases rule: dispatch_cases [of st s request route ipc env])
  case (join cid code name prekey blob)
  then have "is_banned_row a t (db (fst (dispatch_request env st s request route ipc))) = is_banned_row a t (db st)"
    by (simp add: is_banned_row_def table_simps)
  with assms show ?thesis by blast
next
  case (handled cid)
  from handled(2) have "ban_change env s request cid st (fst (dispatch_request env st s request route ipc))"
    by (rule ban_change_dispatch)
  with assms handled(1) show ?thesis
    unfolding ban_change_def by (intro exI [of _ cid]) (auto split: if_splits)
qed (use assms in auto)

text \<open>
  A ban is imposed only by a Ban request of a sender who may ban, outranks the target and is
  not the target itself, and lifted only by an Unban request of a sender who may ban; no other
  request touches the list of banned pseudonyms of any community.
\<close>

theorem ban_list_changes:
  assumes "is_banned_row a t (db (fst (dispatch_request env st s request route ipc))) \<noteq> is_banned_row a t (db st)"
  shows "\<exists>cid c. request_target st s request route ipc = Some cid \<and> get_community st cid = Some c
    \<and> authorised env c s BAN_MEMBERS
    \<and> (if is_banned_row a t (db st) then request = Unban t \<and> a = c_community_id c
       else request = Ban t \<and> a = cid \<and> s \<noteq> t \<and> outranks c s t)"
  using assms by (rule ban_list_step)

theorem ban_list_changes_witness:
  "is_banned_row ''c1'' ''bob'' (db (fst (dispatch_request demo_env demo_state ''owner'' (Ban ''bob'') None (Some ''c1''))))
   \<and> outranks demo_community ''owner'' ''bob''"
proof -
  have b: "is_banned_row ''c1'' ''bob'' (db (fst (dispatch_request demo_env demo_state ''owner'' (Ban ''bob'') None (Some ''c1''))))"
    by (simp add: dispatch_request_def handle_ban_eq tables_leave
        sql_run_no_faults replace_banned_def hosted_exists_def demo_db_def is_banned_row_def
        row_exists_def row_replace_def banned_pk_def)
  then show ?thesis
    using ban_list_changes [of "''c1''" "''bob''" demo_env demo_state "''owner''" "Ban ''bob''" None "Some ''c1''"]
    by (auto simp: request_target_def)
qed

section \<open>The banned stay out\<close>

text \<open>
  Without database faults: a banned pseudonym is refused at the door, and the invariant below
  holds along every run.
\<close>

definition bans_hold :: "server_state \<Rightarrow> bool" where
  "bans_hold st \<longleftrightarrow> faults st = [] \<and>
     (\<forall>a c t. get_community st a = Some c \<longrightarrow> is_banned_row a t (db st) \<longrightarrow> \<not> is_member c t)"

lemma join_banned:
  assumes "faults st = []" and "join_target st route ipc = Some cid" and "is_banned_row cid s (db st)"
  shows "fst (handle_join env st s n blob route ipc) = st"
    and "is_error (snd (handle_join env st s n blob route ipc))"
  using assms by (simp_all add: handle_join_eq sql_query_no_faults not_found_def)

text \<open>Without faults before a request there are none after it.\<close>

lemma no_faults_sql [frame_simps]:
  "faults st = [] \<Longrightarrow> faults (sql_run stmt st) = []"
  "faults st = [] \<Longrightarrow> faults (snd (sql_execute stmt st)) = []"
  "faults st = [] \<Longrightarrow> faults (snd (sql_query q st)) = []"
  by (simp_all add: sql_run_no_faults sql_execute_no_faults sql_query_no_faults split: option.split)

lemma no_faults_rotate [frame_simps]: "faults st = [] \<Longrightarrow> faults (rotate_community_mek env cid st) = []"
  by (simp add: rotate_community_mek_def rotate_mek_def Let_def frame_simps split: option.split)

lemma no_faults_leave [frame_simps]: "faults st = [] \<Longrightarrow> faults (fst (handle_leave env st cid t)) = []"
  by (simp add: handle_leave_def check_then_def Let_def frame_simps split: option.split sum.split)

lemma no_faults_roles [frame_simps]: "faults st = [] \<Longrightarrow> faults (insert_member_roles cid key ids st) = []"
  by (induction ids arbitrary: st) (simp_all add: insert_member_roles_def frame_simps)

lemma no_faults_add [frame_simps]:
  "faults st = [] \<Longrightarrow> faults (fst (add_new_member env st cid s n blob)) = []"
  by (simp add: add_new_member_def Let_def frame_simps split: option.split)

lemma no_faults_admit: "faults st = [] \<Longrightarrow> faults (fst (admit env st cid s n blob)) = []"
proof (cases "handle_rejoin st cid s blob")
  case None
  assume "faults st = []"
  then have "faults (fst (add_new_member env st cid s n blob)) = []" by (rule no_faults_add)
  with None show ?thesis
    by (auto simp: admit_def Let_def frame_simps split: prod.split option.split)
next
  case (Some res)
  assume "faults st = []"
  with Some have "faults (fst res) = []"
    by (auto simp: handle_rejoin_def Let_def frame_simps split: option.splits)
  with Some show ?thesis by (simp add: admit_def)
qed

lemma no_faults_join [frame_simps]:
  "faults st = [] \<Longrightarrow> faults (fst (handle_join env st s n blob route ipc)) = []"
  by (simp add: handle_join_eq sql_query_no_faults no_faults_admit split: option.split)

lemma no_faults_handlers [frame_simps]:
  assumes "faults st = []"
  shows "faults (fst (handle_kick env st cid s t)) = []"
    "faults (fst (handle_ban env st cid s t)) = []"
    "faults (fst (handle_unban env st cid s t)) = []"
    "faults (fst (handle_get_ban_list env st cid s)) = []"
    "faults (fst (handle_rotate_mek env st cid s)) = []"
    "faults (fst (handle_assign_role env st cid s t rid)) = []"
    "faults (fst (handle_unassign_role env st cid s t rid)) = []"
    "faults (fst (handle_delete_role env st cid s rid)) = []"
    "faults (fst (handle_edit_role env st cid s rid n x p pos h m)) = []"
    "faults (fst (handle_create_role env st cid s n' x' p' h' m')) = []"
    "faults (fst (handle_timeout_member env st cid s t dur reason)) = []"
    "faults (fst (handle_remove_timeout env st cid s t)) = []"
    "faults (fst (handle_set_channel_overwrite env st cid s chid ty tid al de)) = []"
    "faults (fst (handle_delete_channel_overwrite env st cid s chid ty tid)) = []"
    "faults (fst (handle_create_channel env st cid s nm ty)) = []"
    "faults (fst (handle_delete_channel env st cid s chid)) = []"
    "faults (fst (handle_rename_channel env st cid s chid nm)) = []"
    "faults (fst (handle_send_message env st cid s chid ct gen)) = []"
    "faults (fst (handle_get_messages env st cid s chid before limit)) = []"
    "faults (fst (handle_update_community env st cid s nn d)) = []"
  using assms
  by (simp_all add: handle_kick_def with_community_def handle_ban_def handle_unban_def
      handle_get_ban_list_def handle_rotate_mek_def handle_assign_role_def
      handle_unassign_role_def handle_delete_role_def handle_edit_role_def handle_create_role_def
      handle_timeout_member_def handle_remove_timeout_def handle_set_channel_overwrite_def
      handle_delete_channel_overwrite_def handle_create_channel_def handle_delete_channel_def
      handle_rename_channel_def handle_send_message_def handle_get_messages_def
      handle_update_community_def member_with_permission_eq check_then_def check_hierarchy_eq
      verify_membership_eq check_permission_eq Let_def case_prod_unfold frame_simps
      split: option.split if_split sum.split)

lemma no_faults_and_then:
  "(\<And>st. faults (f st) = faults st) \<Longrightarrow> faults (fst res) = [] \<Longrightarrow> faults (fst (and_then P f res)) = []"
  by (simp add: and_then_def)

lemma no_faults_dispatch:
  assumes "faults st = []"
  shows "faults (fst (dispatch_request env st s request route ipc)) = []"
proof (cases rule: dispatch_cases [of st s request route ipc env])
  case (handled cid)
  have "dispatch_community env st cid s request = Some res \<Longrightarrow> faults (fst res) = []" for res
    using assms
    by (cases request) (auto simp: frame_simps get_request_mek intro!: no_faults_and_then)
  moreover have "dispatch_roles env st cid s request = Some res \<Longrightarrow> faults (fst res) = []" for res
    using assms
    by (cases request) (auto simp: frame_simps get_get_roles intro!: no_faults_and_then)
  ultimately show ?thesis using handled(2) by blast
qed (simp_all add: assms frame_simps)

lemma no_faults_input: "faults st = [] \<Longrightarrow> faults (handle_input i st) = []"
  by (simp add: handle_input_def no_faults_dispatch)

lemma dispatch_ban_target:
  assumes "request_target st s (Ban t) route ipc = Some cid" and "get_community st cid = Some c"
    and "authorised env c s BAN_MEMBERS" and "s \<noteq> t" and "outranks c s t"
    and "get_community (fst (dispatch_request env st s (Ban t) route ipc)) cid = Some c'"
  shows "\<not> is_member c' t"
proof -
  have "insider c s"
    using authorised_insider [OF assms(3)] flag_nonzero [of 2] by (simp add: BAN_MEMBERS_def)
  moreover have "dispatch_request env st s (Ban t) route ipc = handle_ban env st cid s t"
    using assms(1) by (simp add: dispatch_request_def request_target_def)
  ultimately show ?thesis
    using assms(2-6) by (auto simp: handle_ban_eq handle_leave_get frame_simps insider_def split: if_splits)
qed

lemma dispatch_join_banned:
  assumes "faults st = []" and "request_target st s (Join s code n prekey blob) route ipc = Some a"
    and "is_banned_row a s (db st)"
  shows "fst (dispatch_request env st s (Join s code n prekey blob) route ipc) = st"
  using assms join_banned [of st route ipc a s env n blob]
  by (simp add: dispatch_request_def request_target_def)

lemma dispatch_bans_hold:
  assumes "bans_hold st"
  shows "bans_hold (fst (dispatch_request env st s request route ipc))"
  unfolding bans_hold_def
proof (intro conjI allI impI)
  let ?st' = "fst (dispatch_request env st s request route ipc)"
  show "faults ?st' = []" using assms by (simp add: bans_hold_def no_faults_dispatch)
  fix a c' t assume c': "get_community ?st' a = Some c'" and b: "is_banned_row a t (db ?st')"
  then obtain c where c: "get_community st a = Some c"
    using dispatch_hosted_iff [of env st s request route ipc a] by force
  show "\<not> is_member c' t"
  proof (cases "is_banned_row a t (db st)")
    case True
    then have out: "\<not> is_member c t" using assms c by (auto simp: bans_hold_def)
    show ?thesis
    proof
      assume m: "is_member c' t"
      with out have "c' \<noteq> c" by blast
      then obtain d d' where tgt: "request_target st s request route ipc = Some a"
        and step: "community_step env d d' s request c c'"
        using dispatch_step [OF c c'] by blast
      from step_admission [OF step out m] obtain code n prekey blob
        where "t = s" and r: "request = Join s code n prekey blob" by blast
      with True tgt assms have "?st' = st" by (simp add: bans_hold_def dispatch_join_banned)
      with c c' \<open>c' \<noteq> c\<close> show False by simp
    qed
  next
    case False
    with b have "is_banned_row a t (db ?st') \<noteq> is_banned_row a t (db st)" by blast
    from ban_list_step [OF this] False show ?thesis
      using c c' by (auto dest: dispatch_ban_target)
  qed
qed

interpretation bans: step_invariant handle_input bans_hold
  by unfold_locales (simp add: handle_input_def dispatch_bans_hold)

text \<open>A ban lasts as long as no Unban request for the pseudonym is among the requests.\<close>

definition ban_keeping :: "string \<Rightarrow> server_input \<Rightarrow> server_state \<Rightarrow> server_state" where
  "ban_keeping t i st = (if in_request i = Unban t then st else handle_input i st)"

interpretation ban_lasts: step_invariant "ban_keeping t" "\<lambda>st. bans_hold st \<and> is_banned_row a t (db st)"
  for a t
proof unfold_locales
  fix i st assume st: "bans_hold st \<and> is_banned_row a t (db st)"
  show "bans_hold (ban_keeping t i st) \<and> is_banned_row a t (db (ban_keeping t i st))"
  proof (cases "in_request i = Unban t")
    case True
    with st show ?thesis by (simp add: ban_keeping_def)
  next
    case False
    then have "is_banned_row a t (db (handle_input i st)) = is_banned_row a t (db st)"
      using st ban_list_step [of a t "in_env i" st "in_sender i" "in_request i" "in_route i" "in_ipc i"]
      by (auto simp: handle_input_def)
    with False st show ?thesis by (simp add: ban_keeping_def bans.step_inv)
  qed
qed

text \<open>
  C9. The banned stay out: start from a state in which no banned pseudonym is a member, let the
  database work, and let any requests arrive among which is no Unban of the pseudonym; then the
  ban is still recorded and the pseudonym is not a member of the community.
\<close>

theorem banned_stay_out:
  assumes "bans_hold st" and "is_banned_row a t (db st)"
    and "\<forall>i\<in>set inputs. in_request i \<noteq> Unban t"
  shows "is_banned_row a t (db (fold handle_input inputs st))
    \<and> (\<forall>c. get_community (fold handle_input inputs st) a = Some c \<longrightarrow> \<not> is_member c t)"
proof -
  have "fold handle_input inputs st = fold (ban_keeping t) inputs st"
    using assms(3) by (intro fold_cong) (auto simp: ban_keeping_def)
  then show ?thesis
    using ban_lasts.run_rel [of st a t inputs] assms(1,2) by (auto simp: bans_hold_def)
qed

definition demo_banned :: server_state where
  "demo_banned = demo_state\<lparr>db := demo_db\<lparr>t_banned := [\<lparr>br_community_id = ''c1'', br_pseudonym = ''eve'',
     br_display_name = [], br_banned_at = 20\<rparr>]\<rparr>\<rparr>"

theorem banned_stay_out_witness:
  "is_banned_row ''c1'' ''eve'' (db (fold handle_input
     [\<lparr>in_env = demo_env, in_sender = ''eve'', in_request = Join ''eve'' None ''Eve'' [] None,
       in_route = None, in_ipc = Some ''c1''\<rparr>] demo_banned))"
proof -
  have g: "get_community demo_banned a = get_community demo_state a" for a
    by (simp add: demo_banned_def get_community_def)
  have b: "is_banned_row a t (db demo_banned) \<longleftrightarrow> a = ''c1'' \<and> t = ''eve''" for a t
    by (auto simp: demo_banned_def is_banned_row_iff)
  have "bans_hold demo_banned" by (auto simp: bans_hold_def g b) (simp add: demo_banned_def)
  then show ?thesis
    by (intro conjunct1 [OF banned_stay_out]) (simp_all add: b)
qed

end
