(* ===== verification/Messaging.thy ===== *)
theory Messaging
  imports Bans "HOL-Library.Multiset"
begin

text \<open>
  Channel messages end to end: when the server accepts one, what it stores and whom it tells;
  what a history request returns; how overwrites and timeouts govern sending.
\<close>

section \<open>Sending\<close>

definition may_send :: "request_env \<Rightarrow> hosted_community \<Rightarrow> string \<Rightarrow> string \<Rightarrow> u64 \<Rightarrow> bool" where
  "may_send env c s chid gen \<longleftrightarrow>
     insider c s \<and> send_permission_ok env c s chid \<and> gen = mek_generation (c_mek c)"

definition stored_message :: "request_env \<Rightarrow> server_db \<Rightarrow> string \<Rightarrow> string \<Rightarrow> string \<Rightarrow> bytes \<Rightarrow> u64 \<Rightarrow> message_row" where
  "stored_message env d cid chid s ct gen =
     \<lparr>sm_id = t_next_message d, sm_community_id = cid, sm_channel_id = chid, sm_sender = s,
      sm_ciphertext = ct, sm_mek_generation = i64_or_max gen, sm_timestamp = timestamp_now env\<rparr>"

lemma dispatch_send_eq:
  assumes "request_target st s (SendMessage chid ct gen) route ipc = Some cid"
  shows "dispatch_request env st s (SendMessage chid ct gen) route ipc =
    handle_send_message env st cid s chid ct gen"
  using assms by (simp add: dispatch_request_def request_target_def)

lemma send_refused:
  assumes "get_community st cid = Some c" and "\<not> may_send env c s chid gen"
  shows "fst (handle_send_message env st cid s chid ct gen) = st"
    and "is_error (snd (handle_send_message env st cid s chid ct gen))"
  using assms
  by (auto simp: handle_send_message_def with_community_simps check_eqs may_send_def)

lemma send_accepted:
  assumes "get_community st cid = Some c" and "may_send env c s chid gen" and "faults st = []"
  shows "handle_send_message env st cid s chid ct gen =
    (broadcast_to_members cid s
       (NewMessage cid chid s ct gen (u64_or_zero (timestamp_now env)))
       (st\<lparr>db := (db st)\<lparr>t_messages := t_messages (db st) @ [stored_message env (db st) cid chid s ct gen],
            t_next_message := Suc (t_next_message (db st))\<rparr>\<rparr>), ResOk)"
  using assms
  by (simp add: handle_send_message_def with_community_simps check_eqs may_send_def
      sql_execute_no_faults insert_message_def stored_message_def)

text \<open>
  A channel message is accepted exactly when the sender is an insider, may send in the channel
  and encrypted with the current key generation. An accepted message appends one row to the
  message table, stamped with the server's clock, and one notice to every route announced by a
  member other than the sender, and changes nothing else; a refused one changes nothing.
\<close>

theorem send_message_spec:
  assumes "request_target st s (SendMessage chid ct gen) route ipc = Some cid"
    and "get_community st cid = Some c" and "faults st = []"
  shows "fst (dispatch_request env st s (SendMessage chid ct gen) route ipc) =
    (if may_send env c s chid gen
     then st\<lparr>db := (db st)\<lparr>t_messages := t_messages (db st) @ [stored_message env (db st) cid chid s ct gen],
                t_next_message := Suc (t_next_message (db st))\<rparr>,
              outbox := outbox st @ map (\<lambda>route. AppMessage route
                (NewMessage cid chid s ct gen (u64_or_zero (timestamp_now env)))) (broadcast_routes c s)\<rparr>
     else st)
    \<and> (if may_send env c s chid gen
       then snd (dispatch_request env st s (SendMessage chid ct gen) route ipc) = ResOk
       else is_error (snd (dispatch_request env st s (SendMessage chid ct gen) route ipc)))"
proof (cases "may_send env c s chid gen")
  case True
  have "get_community (st\<lparr>db := d\<rparr>) = get_community st" for d by (rule ext) (simp add: get_community_def)
  then show ?thesis using True assms(2,3)
    by (simp add: dispatch_send_eq [OF assms(1)] send_accepted broadcast_to_members_def emit_def)
next
  case False
  then show ?thesis
    using send_refused [OF assms(2) False, of ct] unfolding dispatch_send_eq [OF assms(1)]
    by simp
qed

theorem send_message_spec_witness:
  "snd (dispatch_request demo_env demo_state ''bob'' (SendMessage ''general'' [3] 2) None (Some ''c1'')) \<noteq> ResOk"
  using send_message_spec [of demo_state "''bob''" "''general''" "[3]" 2 None "Some ''c1''" "''c1''"
      demo_community demo_env]
  by (auto simp: request_target_def may_send_def)

section \<open>Reading\<close>

definition readable :: "string \<Rightarrow> string \<Rightarrow> int option \<Rightarrow> server_db \<Rightarrow> message_row list" where
  "readable cid chid before d =
     filter (\<lambda>r. sm_community_id r = cid \<and> sm_channel_id r = chid \<and>
               (case before of None \<Rightarrow> True | Some b \<Rightarrow> sm_timestamp r < b)) (t_messages d)"

lemma select_messages_readable:
  "select_messages cid chid before n d = take n (sort_key (\<lambda>r. - sm_timestamp r) (readable cid chid before d))"
  by (simp add: select_messages_def readable_def)

text \<open>The first \<open>n\<close> elements of a sorted list are the smallest.\<close>

lemma take_sort_key_least:
  fixes f :: "'a \<Rightarrow> 'b :: linorder"
  assumes "x \<in> set (take n (sort_key f xs))" and "y \<in> set (drop n (sort_key f xs))"
  shows "f x \<le> f y"
proof -
  have "sorted (map f (take n (sort_key f xs)) @ map f (drop n (sort_key f xs)))"
    unfolding map_append [symmetric] append_take_drop_id by (rule sorted_sort_key)
  then show ?thesis using assms unfolding sorted_append by auto
qed

lemma handle_get_messages_no_faults:
  assumes "faults st = []" and "case get_community st cid of None \<Rightarrow> True | Some c \<Rightarrow> insider c s"
  shows "handle_get_messages env st cid s chid before limit =
    (st, Messages (rev (map message_to_dto (select_messages cid chid (map_option i64_or_max before)
       (unat (min limit 500)) (db st)))))"
  using assms
  by (cases "get_community st cid")
     (simp_all add: handle_get_messages_def check_eqs sql_query_no_faults)

text \<open>
  A history request of an insider returns, oldest first, the newest messages of the channel
  that are older than the given time: at most 500 and at most as many as asked for, and none is
  left out that is newer than one returned; the request changes nothing.
\<close>

theorem get_messages_spec:
  assumes "request_target st s (GetMessages chid before limit) route ipc = Some cid"
    and "get_community st cid = Some c" and "insider c s" and "faults st = []"
  shows "\<exists>rows rest. dispatch_request env st s (GetMessages chid before limit) route ipc =
      (st, Messages (map message_to_dto rows))
    \<and> mset (rows @ rest) = mset (readable cid chid (map_option i64_or_max before) (db st))
    \<and> sorted (map sm_timestamp rows)
    \<and> length rows = min (length (rows @ rest)) (min (unat limit) 500)
    \<and> (\<forall>x\<in>set rows. \<forall>y\<in>set rest. sm_timestamp y \<le> sm_timestamp x)"
proof -
  let ?all = "sort_key (\<lambda>r. - sm_timestamp r) (readable cid chid (map_option i64_or_max before) (db st))"
  let ?n = "unat (min limit 500)"
  have n: "?n = min (unat limit) 500" by (simp add: min_def word_le_nat_alt)
  have d: "dispatch_request env st s (GetMessages chid before limit) route ipc =
      (st, Messages (map message_to_dto (rev (take ?n ?all))))"
    using assms
    by (simp add: dispatch_request_def request_target_def handle_get_messages_no_faults
        select_messages_readable rev_map)
  have srt: "sorted (map sm_timestamp (rev (take ?n ?all)))"
  proof -
    have "sorted_wrt (\<lambda>a b. - sm_timestamp a \<le> - sm_timestamp b) ?all"
      using sorted_sort_key [of "\<lambda>r. - sm_timestamp r"] by (simp add: sorted_map)
    then have "sorted_wrt (\<lambda>a b. - sm_timestamp a \<le> - sm_timestamp b) (take ?n ?all)"
      by (rule sorted_wrt_take)
    then show ?thesis by (simp add: sorted_map sorted_wrt_rev)
  qed
  have "mset (rev (take ?n ?all) @ drop ?n ?all) = mset ?all"
    unfolding mset_append mset_rev unfolding mset_append [symmetric] append_take_drop_id by (rule refl)
  moreover have "sm_timestamp y \<le> sm_timestamp x" if "x \<in> set (take ?n ?all)" "y \<in> set (drop ?n ?all)" for x y
    using take_sort_key_least [OF that] by simp
  ultimately show ?thesis
    using d srt
    by (rule_tac exI [of _ "rev (take ?n ?all)"], rule_tac exI [of _ "drop ?n ?all"])
       (simp add: n, simp add: min_def)
qed

theorem get_messages_spec_witness:
  "dispatch_request demo_env demo_state ''bob'' (GetMessages ''general'' None 10) None (Some ''c1'') =
    (demo_state, Messages [])"
proof -
  have "readable ''c1'' ''general'' None demo_db = []"
    by (simp add: readable_def demo_db_def empty_db_def)
  then show ?thesis
    using get_messages_spec [of demo_state "''bob''" "''general''" None 10 None "Some ''c1''" "''c1''"
        demo_community demo_env]
    by (auto simp: request_target_def)
qed

section \<open>Overwrites\<close>

lemma dispatch_set_overwrite_get:
  assumes "request_target st s (SetChannelOverwrite chid ty tid al de) route ipc = Some cid"
    and "get_community st cid = Some c"
    and "snd (dispatch_request env st s (SetChannelOverwrite chid ty tid al de) route ipc) = ResOk"
  shows "get_community (fst (dispatch_request env st s (SetChannelOverwrite chid ty tid al de) route ipc)) cid =
    Some (modify_channel chid (\<lambda>ch. ch\<lparr>ch_permission_overwrites := upsert_overwrite
         \<lparr>ow_target_type = parse_overwrite_type ty, ow_target_id = tid, ow_allow = al, ow_deny = de\<rparr>
         (ch_permission_overwrites ch)\<rparr>) c)
    \<and> authorised env c s MANAGE_ROLES \<and> find_channel c chid \<noteq> None"
  using assms
  by (auto simp: dispatch_request_def request_target_def handle_set_channel_overwrite_def
      member_with_permission_eq Let_def frame_simps split: if_splits option.splits)

text \<open>
  Setting an overwrite is an upsert: after an accepted request, the channel has exactly the
  requested overwrite for that target, every other target of the channel and every other channel
  keep theirs, and targets stay unique.
\<close>

theorem set_overwrite_upserts:
  assumes "request_target st s (SetChannelOverwrite chid ty tid al de) route ipc = Some cid"
    and "get_community st cid = Some c"
    and "snd (dispatch_request env st s (SetChannelOverwrite chid ty tid al de) route ipc) = ResOk"
  shows "\<exists>c' ows ows'.
    get_community (fst (dispatch_request env st s (SetChannelOverwrite chid ty tid al de) route ipc)) cid = Some c'
    \<and> overwrites_of c chid = Some ows \<and> overwrites_of c' chid = Some ows'
    \<and> (\<forall>k. List.find (\<lambda>ow. ow_key ow = k) ows' =
          (if k = (parse_overwrite_type ty, tid)
           then Some \<lparr>ow_target_type = parse_overwrite_type ty, ow_target_id = tid, ow_allow = al, ow_deny = de\<rparr>
           else List.find (\<lambda>ow. ow_key ow = k) ows))
    \<and> (\<forall>other. other \<noteq> chid \<longrightarrow> overwrites_of c' other = overwrites_of c other)
    \<and> (distinct (map ow_key ows) \<longrightarrow> distinct (map ow_key ows'))"
proof -
  let ?ow = "\<lparr>ow_target_type = parse_overwrite_type ty, ow_target_id = tid, ow_allow = al, ow_deny = de\<rparr>"
  let ?c' = "modify_channel chid (\<lambda>ch. ch\<lparr>ch_permission_overwrites :=
    upsert_overwrite ?ow (ch_permission_overwrites ch)\<rparr>) c"
  from dispatch_set_overwrite_get [OF assms]
  obtain ch where c': "get_community (fst (dispatch_request env st s (SetChannelOverwrite chid ty tid al de) route ipc)) cid = Some ?c'"
    and ch: "find_channel c chid = Some ch" by auto
  have k: "ow_key ?ow = (parse_overwrite_type ty, tid)" by (simp add: ow_key_def)
  show ?thesis
    using c' ch
    by (intro exI [of _ ?c'] exI [of _ "ch_permission_overwrites ch"]
          exI [of _ "upsert_overwrite ?ow (ch_permission_overwrites ch)"])
       (simp add: overwrites_of_def roster_simps find_upsert_overwrite k distinct_upsert_overwrite)
qed

theorem set_overwrite_upserts_witness:
  "\<exists>c' ows'. get_community (fst (dispatch_request demo_env demo_state ''owner''
       (SetChannelOverwrite ''general'' ''member'' ''bob'' 0 2048) None (Some ''c1''))) ''c1'' = Some c'
     \<and> overwrites_of c' ''general'' = Some ows'
     \<and> List.find (\<lambda>ow. ow_key ow = (OwMember, ''bob'')) ows' =
        Some \<lparr>ow_target_type = OwMember, ow_target_id = ''bob'', ow_allow = 0, ow_deny = 2048\<rparr>"
proof -
  have "snd (dispatch_request demo_env demo_state ''owner''
       (SetChannelOverwrite ''general'' ''member'' ''bob'' 0 2048) None (Some ''c1'')) = ResOk"
    by (simp add: dispatch_request_def handle_set_channel_overwrite_def member_with_permission_eq Let_def)
  then show ?thesis
    using set_overwrite_upserts [of demo_state "''owner''" "''general''" "''member''" "''bob''" 0 2048 None
        "Some ''c1''" "''c1''" demo_community demo_env]
    by (auto simp: request_target_def parse_overwrite_type_def)
qed

section \<open>Timeouts\<close>

lemma timeout_strips_send:
  assumes "timed_out now t" and "\<not> is_administrator (base_permissions ids rs)"
  shows "\<not> bit (calculate_permissions now ids rs ows s t) 11"
  using assms by (simp add: calculate_permissions_def Let_def bit_strip_timeout)

lemma bit_fold_granted:
  assumes "\<And>ow p. bit (f ow p) n \<Longrightarrow> bit p n \<or> bit (ow_allow ow) n"
    and "bit (fold f ows p) n"
  shows "bit p n \<or> (\<exists>ow\<in>set ows. bit (ow_allow ow) n)"
  using assms(2)
proof (induction ows arbitrary: p)
  case (Cons ow ows)
  then show ?case using assms(1) [of ow p] by auto
qed simp

lemma overwrites_grant:
  assumes "bit (apply_channel_overwrites ids ows s p) n"
  shows "bit p n \<or> (\<exists>ow\<in>set ows. bit (ow_allow ow) n)"
proof (rule ccontr)
  assume no: "\<not> ?thesis"
  have ap: "bit (apply_overwrite ow q) n \<Longrightarrow> bit q n \<or> bit (ow_allow ow) n" for ow q
    by (auto simp: apply_overwrite_def bit_or_iff bit_and_iff)
  have "\<not> bit (fold (\<lambda>ow q. if P ow then apply_overwrite ow q else q) ows q) n" if q: "\<not> bit q n" for P q
  proof
    assume "bit (fold (\<lambda>ow q. if P ow then apply_overwrite ow q else q) ows q) n"
    then have "bit q n \<or> (\<exists>ow\<in>set ows. bit (ow_allow ow) n)"
      by (rule bit_fold_granted [rotated]) (auto dest: ap split: if_splits)
    with q no show False by blast
  qed
  moreover have "\<not> bit (fold (\<lambda>ow a. if P ow then a OR ow_allow ow else a) ows 0) n" for P
    using no by (simp add: bit_fold_allow)
  ultimately show False
    using assms no by (simp add: apply_channel_overwrites_def Let_def bit_or_iff bit_and_iff)
qed

text \<open>
  A muted member is silent: while a timeout runs, a member none of whose roles is an
  administrator's cannot send to a channel, unless an overwrite of that very channel grants the
  ADMINISTRATOR bit; the request is refused and stores nothing.
\<close>

theorem muted_cannot_send:
  assumes "request_target st s (SendMessage chid ct gen) route ipc = Some cid"
    and "get_community st cid = Some c" and "find_member c s = Some m"
    and "timed_out (now_secs env) (m_timeout_until m)"
    and "\<not> is_administrator (base_permissions (m_role_ids m) (c_roles c))"
    and "\<forall>ch\<in>set (c_channels c). \<forall>ow\<in>set (ch_permission_overwrites ch). \<not> bit (ow_allow ow) 3"
  shows "fst (dispatch_request env st s (SendMessage chid ct gen) route ipc) = st
    \<and> is_error (snd (dispatch_request env st s (SendMessage chid ct gen) route ipc))"
proof -
  define ows where "ows = (case find_channel c chid of None \<Rightarrow> [] | Some ch \<Rightarrow> ch_permission_overwrites ch)"
  let ?perms = "calculate_permissions (now_secs env) (m_role_ids m) (c_roles c) ows s (m_timeout_until m)"
  have o: "\<not> bit (ow_allow ow) 3" if "ow \<in> set ows" for ow
    using that assms(6) channels.lookup_SomeD [of c chid]
    by (cases "find_channel c chid") (auto simp: ows_def)
  have "\<not> bit ?perms 3"
    using overwrites_grant [of "m_role_ids m" ows s "base_permissions (m_role_ids m) (c_roles c)" 3] o assms(5)
    by (auto simp: calculate_permissions_def Let_def bit_strip_timeout is_administrator_bit)
  moreover have "\<not> bit ?perms 11" using assms(4,5) by (rule timeout_strips_send)
  ultimately have "\<not> has_permission ?perms SEND_MESSAGES"
    by (auto simp: has_permission_iff SEND_MESSAGES_def bit_flag)
  then have "\<not> may_send env c s chid gen"
    using assms(3) by (simp add: may_send_def send_permission_ok_def Let_def ows_def)
  from send_refused [OF assms(2) this] show ?thesis by (simp add: dispatch_send_eq [OF assms(1)])
qed

definition demo_muted :: server_state where
  "demo_muted = modify_community ''c1'' (modify_member ''bob'' (set_timeout (Some 200))) demo_state"

theorem muted_cannot_send_witness:
  "is_error (snd (dispatch_request demo_env demo_muted ''bob'' (SendMessage ''general'' [3] 1) None (Some ''c1'')))"
proof (rule conjunct2 [OF muted_cannot_send])
  let ?c = "modify_member ''bob'' (set_timeout (Some 200)) demo_community"
  show "request_target demo_muted ''bob'' (SendMessage ''general'' [3] 1) None (Some ''c1'') = Some ''c1''"
    by (simp add: request_target_def)
  show "get_community demo_muted ''c1'' = Some ?c" by (simp add: demo_muted_def frame_simps)
  show "find_member ?c ''bob'' = Some (set_timeout (Some 200) (demo_member ''bob'' [0, 1]))"
    by (simp add: members.lookup_modify)
  show "timed_out (now_secs demo_env) (m_timeout_until (set_timeout (Some 200) (demo_member ''bob'' [0, 1])))"
    by (simp add: timed_out_def set_timeout_def demo_env_def)
  show "\<not> is_administrator (base_permissions (m_role_ids (set_timeout (Some 200) (demo_member ''bob'' [0, 1]))) (c_roles ?c))"
    by (simp add: is_administrator_bit bit_base_permissions frame_simps demo_community_def demo_role_def
        role_everyone_id_def everyone_permissions_def member_permissions_def flag_defs bit_or_iff bit_flag)
  show "\<forall>ch\<in>set (c_channels ?c). \<forall>ow\<in>set (ch_permission_overwrites ch). \<not> bit (ow_allow ow) 3"
    by (simp add: frame_simps demo_community_def)
qed

end
