(* ===== verification/Rows.thy ===== *)
theory Rows
  imports Messaging
begin

text \<open>
  The rows of one community, cut out of the database: each statement is a function on the rows of
  the community it names, while the database works, and leaves those of the others alone.
\<close>

section \<open>The rows of one community\<close>

definition community_rows :: "string \<Rightarrow> server_db \<Rightarrow> server_db" where
  "community_rows cid d =
     \<lparr>t_hosted = filter (\<lambda>r. hr_id r = cid) (t_hosted d),
      t_members = filter (\<lambda>r. mr_community_id r = cid) (t_members d),
      t_mek = filter (\<lambda>r. kr_community_id r = cid) (t_mek d),
      t_channels = filter (\<lambda>r. cr_community_id r = cid) (t_channels d),
      t_messages = [], t_banned = [],
      t_roles = filter (\<lambda>r. rr_community_id r = cid) (t_roles d),
      t_member_roles = filter (\<lambda>r. xr_community_id r = cid) (t_member_roles d),
      t_overwrites = filter (\<lambda>r. or_community_id r = cid) (t_overwrites d),
      t_timeouts = filter (\<lambda>r. tr_community_id r = cid) (t_timeouts d),
      t_next_message = 0\<rparr>"

named_theorems rows_simps \<open>the rows of a community after a statement\<close>

lemma filter_row_defs:
  "filter Q (row_delete P t) = row_delete P (filter Q t)"
  "(\<And>r. P r \<Longrightarrow> \<not> Q r) \<Longrightarrow> row_delete P (filter Q t) = filter Q t"
  by (auto simp: row_delete_def filter_filter conj_commute intro: filter_cong)

lemma filter_row_update:
  "(\<And>r. P r \<Longrightarrow> Q (f r) = Q r) \<Longrightarrow> filter Q (row_update P f t) = row_update P f (filter Q t)"
  by (induction t) (auto simp: row_update_def)

lemma row_update_other: "(\<And>r. r \<in> set t \<Longrightarrow> \<not> P r) \<Longrightarrow> row_update P f t = t"
  by (induction t) (auto simp: row_update_def)

lemma row_delete_other: "(\<And>r. r \<in> set t \<Longrightarrow> \<not> P r) \<Longrightarrow> row_delete P t = t"
  by (induction t) (auto simp: row_delete_def)

lemma row_update_cong:
  "(\<And>r. r \<in> set t \<Longrightarrow> P r = P' r) \<Longrightarrow> row_update P f t = row_update P' f t"
  by (simp add: row_update_def)

lemma row_delete_cong:
  "(\<And>r. r \<in> set t \<Longrightarrow> P r = P' r) \<Longrightarrow> row_delete P t = row_delete P' t"
  unfolding row_delete_def by (rule filter_cong) auto

text \<open>The other communities: a statement that names \<open>cid\<close> leaves the rows of \<open>a\<close> alone.\<close>

lemma rows_elsewhere:
  assumes "\<And>d. stmt (db st) = Some d \<Longrightarrow> community_rows a d = community_rows a (db st)"
  shows "community_rows a (db (sql_run stmt st)) = community_rows a (db st)"
  using sql_run_cases [of stmt st] assms by auto

lemma filter_append_other: "\<not> Q r \<Longrightarrow> filter Q (t @ [r]) = filter Q t"
  by simp

lemma filter_delete_other:
  "(\<And>r. P r \<Longrightarrow> \<not> Q r) \<Longrightarrow> filter Q (row_delete P t) = filter Q t"
  by (simp add: filter_row_defs)

lemma filter_update_other:
  "(\<And>r. P r \<Longrightarrow> \<not> Q r \<and> \<not> Q (f r)) \<Longrightarrow> filter Q (row_update P f t) = filter Q t"
  by (induction t) (auto simp: row_update_def)

lemma filter_replace_other:
  "\<not> Q r \<Longrightarrow> (\<And>r'. pk r' = pk r \<Longrightarrow> \<not> Q r') \<Longrightarrow> filter Q (row_replace pk r t) = filter Q t"
  by (auto simp: row_replace_def filter_filter intro: filter_cong)

lemma rows_other_statements [rows_simps]:
  assumes "a \<noteq> cid"
  shows "community_rows a (db (sql_run (update_hosted cid (\<lambda>r. r\<lparr>hr_name := x\<rparr>)) st)) = community_rows a (db st)"
    "community_rows a (db (sql_run (update_hosted cid (\<lambda>r. r\<lparr>hr_description := x\<rparr>)) st)) = community_rows a (db st)"
    "community_rows a (db (sql_run (update_hosted cid (\<lambda>r. r\<lparr>hr_creator_pseudonym := x\<rparr>)) st)) = community_rows a (db st)"
    "community_rows a (db (sql_run (update_member_route cid k blob) st)) = community_rows a (db st)"
    "community_rows a (db (sql_run (delete_member cid k) st)) = community_rows a (db st)"
    "community_rows a (db (sql_run (delete_member_role cid k i) st)) = community_rows a (db st)"
    "community_rows a (db (sql_run (delete_role_assignments cid i) st)) = community_rows a (db st)"
    "community_rows a (db (sql_run (delete_timeout cid k) st)) = community_rows a (db st)"
    "community_rows a (db (sql_run (delete_channel cid h) st)) = community_rows a (db st)"
    "community_rows a (db (sql_run (rename_channel cid h n) st)) = community_rows a (db st)"
    "community_rows a (db (sql_run (delete_overwrite cid h ty t) st)) = community_rows a (db st)"
    "community_rows a (db (sql_run (delete_role cid i) st)) = community_rows a (db st)"
  using assms
  by - (rule rows_elsewhere, (auto simp: community_rows_def statement_defs pk_defs
      intro!: filter_delete_other filter_update_other split: if_splits)[1])+

lemma rows_other_inserts [rows_simps]:
  "mr_community_id mr \<noteq> a \<Longrightarrow> community_rows a (db (sql_run (insert_ignore_member mr) st)) = community_rows a (db st)"
  "xr_community_id xr \<noteq> a \<Longrightarrow> community_rows a (db (sql_run (insert_ignore_member_role xr) st)) = community_rows a (db st)"
  "tr_community_id tr \<noteq> a \<Longrightarrow> community_rows a (db (sql_run (replace_timeout tr) st)) = community_rows a (db st)"
  "kr_community_id kr \<noteq> a \<Longrightarrow> community_rows a (db (sql_run (insert_mek kr) st)) = community_rows a (db st)"
  "cr_community_id cr \<noteq> a \<Longrightarrow> community_rows a (db (sql_run (insert_channel cr) st)) = community_rows a (db st)"
  "or_community_id ow \<noteq> a \<Longrightarrow> community_rows a (db (sql_run (replace_overwrite ow) st)) = community_rows a (db st)"
  "rr_community_id rr \<noteq> a \<Longrightarrow> community_rows a (db (sql_run (insert_role rr) st)) = community_rows a (db st)"
  "rr_community_id rr \<noteq> a \<Longrightarrow> community_rows a (db (sql_run (update_role rr) st)) = community_rows a (db st)"
  "community_rows a (db (sql_run (replace_banned br) st)) = community_rows a (db st)"
  "community_rows a (db (sql_run (delete_banned b k) st)) = community_rows a (db st)"
  "community_rows a (db (sql_run (insert_message b h k ct g ts) st)) = community_rows a (db st)"
  by (rule rows_elsewhere, (auto simp: community_rows_def statement_defs pk_defs row_insert_def
      intro!: filter_update_other filter_replace_other split: if_splits)[1])+

text \<open>The community named by the statement, while the database works.\<close>

lemma filter_own_update:
  "(\<And>r. rid (f r) = rid r) \<Longrightarrow> filter (\<lambda>r. rid r = a) (row_update (\<lambda>r. rid r = a \<and> K r) f t)
    = row_update K f (filter (\<lambda>r. rid r = a) t)"
  by (induction t) (auto simp: row_update_def)

lemma filter_own_delete:
  "filter (\<lambda>r. rid r = a) (row_delete (\<lambda>r. rid r = a \<and> K r) t) = row_delete K (filter (\<lambda>r. rid r = a) t)"
  by (induction t) (auto simp: row_delete_def)

lemma filter_own_replace:
  assumes "\<And>r'. pk r' = pk r \<longleftrightarrow> rid r' = a \<and> K r'" and "rid r = a"
  shows "filter (\<lambda>r. rid r = a) (row_replace pk r t) = row_delete K (filter (\<lambda>r. rid r = a) t) @ [r]"
  using assms by (induction t) (auto simp: row_replace_def row_delete_def)

lemma exists_own:
  "(\<And>r'. pk r' = k \<longleftrightarrow> rid r' = a \<and> K r') \<Longrightarrow> row_exists pk k t = list_ex K (filter (\<lambda>r. rid r = a) t)"
  by (auto simp: row_exists_def list_ex_iff)

lemma row_exists_own:
  "row_exists hr_id a (t_hosted d) = (t_hosted (community_rows a d) \<noteq> [])"
  "row_exists member_pk (a, k) (t_members d) = list_ex (\<lambda>r. mr_pseudonym r = k) (t_members (community_rows a d))"
  "row_exists channel_pk (a, h) (t_channels d) = list_ex (\<lambda>r. cr_id r = h) (t_channels (community_rows a d))"
  "row_exists role_pk (a, i) (t_roles d) = list_ex (\<lambda>r. rr_id r = i) (t_roles (community_rows a d))"
  "row_exists mek_pk (a, g) (t_mek d) = list_ex (\<lambda>r. kr_generation r = g) (t_mek (community_rows a d))"
  "row_exists member_role_pk (a, k, i) (t_member_roles d) =
     list_ex (\<lambda>r. xr_pseudonym r = k \<and> xr_role_id r = i) (t_member_roles (community_rows a d))"
  by (auto simp: row_exists_def list_ex_iff community_rows_def pk_defs filter_empty_conv)

lemmas exists_defs = hosted_exists_def member_exists_def channel_exists_def

lemma db_run: "faults st = [] \<Longrightarrow> db (sql_run stmt st) = (case stmt (db st) of None \<Rightarrow> db st | Some d \<Rightarrow> d)"
  by (simp add: sql_run_no_faults split: option.split)

lemma rows_update_hosted [rows_simps]:
  assumes "faults st = []" and "\<And>r. hr_id (f r) = hr_id r"
  shows "community_rows a (db (sql_run (update_hosted a f) st)) =
    (community_rows a (db st))\<lparr>t_hosted := map f (t_hosted (community_rows a (db st)))\<rparr>"
proof -
  have "filter (\<lambda>r. hr_id r = a) (row_update (\<lambda>r. hr_id r = a) f t) = map f (filter (\<lambda>r. hr_id r = a) t)" for t
    using assms(2) by (induction t) (auto simp: row_update_def)
  then show ?thesis using assms(1) by (simp add: db_run update_hosted_def community_rows_def)
qed

lemma rows_insert_member [rows_simps]:
  assumes "faults st = []"
  shows "community_rows a (db (sql_run (insert_ignore_member r) st)) =
    (if mr_community_id r \<noteq> a \<or> t_hosted (community_rows a (db st)) = []
        \<or> list_ex (\<lambda>r'. mr_pseudonym r' = mr_pseudonym r) (t_members (community_rows a (db st)))
     then community_rows a (db st)
     else (community_rows a (db st))\<lparr>t_members := t_members (community_rows a (db st)) @ [r]\<rparr>)"
  using assms
  by (auto simp: rows_other_inserts db_run insert_ignore_member_def exists_defs row_exists_own
      member_pk_def) (auto simp: community_rows_def)

lemma rows_member_statements [rows_simps]:
  assumes "faults st = []"
  shows "community_rows a (db (sql_run (update_member_route a k blob) st)) =
     (community_rows a (db st))\<lparr>t_members := row_update (\<lambda>r. mr_pseudonym r = k)
        (\<lambda>r. r\<lparr>mr_route_blob := Some blob\<rparr>) (t_members (community_rows a (db st)))\<rparr>"
    "community_rows a (db (sql_run (delete_member a k) st)) =
     (if list_ex (\<lambda>r. mr_pseudonym r = k) (t_members (community_rows a (db st)))
      then (community_rows a (db st))
        \<lparr>t_members := row_delete (\<lambda>r. mr_pseudonym r = k) (t_members (community_rows a (db st))),
         t_member_roles := row_delete (\<lambda>r. xr_pseudonym r = k) (t_member_roles (community_rows a (db st))),
         t_timeouts := row_delete (\<lambda>r. tr_pseudonym r = k) (t_timeouts (community_rows a (db st)))\<rparr>
      else community_rows a (db st))"
    "community_rows a (db (sql_run (delete_member_role a k i) st)) =
     (community_rows a (db st))\<lparr>t_member_roles := row_delete (\<lambda>r. xr_pseudonym r = k \<and> xr_role_id r = i)
        (t_member_roles (community_rows a (db st)))\<rparr>"
    "community_rows a (db (sql_run (delete_role_assignments a i) st)) =
     (community_rows a (db st))\<lparr>t_member_roles := row_delete (\<lambda>r. xr_role_id r = i)
        (t_member_roles (community_rows a (db st)))\<rparr>"
    "community_rows a (db (sql_run (delete_timeout a k) st)) =
     (community_rows a (db st))\<lparr>t_timeouts := row_delete (\<lambda>r. tr_pseudonym r = k)
        (t_timeouts (community_rows a (db st)))\<rparr>"
  using assms
  by (simp_all add: db_run statement_defs exists_defs row_exists_own)
     (simp_all add: community_rows_def filter_own_update filter_own_delete pk_defs)

lemma rows_insert_member_role [rows_simps]:
  assumes "faults st = []"
  shows "community_rows a (db (sql_run (insert_ignore_member_role r) st)) =
    (if xr_community_id r \<noteq> a
        \<or> \<not> list_ex (\<lambda>r'. mr_pseudonym r' = xr_pseudonym r) (t_members (community_rows a (db st)))
        \<or> list_ex (\<lambda>r'. xr_pseudonym r' = xr_pseudonym r \<and> xr_role_id r' = xr_role_id r)
            (t_member_roles (community_rows a (db st)))
     then community_rows a (db st)
     else (community_rows a (db st))\<lparr>t_member_roles := t_member_roles (community_rows a (db st)) @ [r]\<rparr>)"
  using assms
  by (auto simp: rows_other_inserts db_run insert_ignore_member_role_def exists_defs row_exists_own
      member_role_pk_def) (auto simp: community_rows_def)

lemma rows_replace_timeout [rows_simps]:
  assumes "faults st = []" and "tr_community_id r = a"
  shows "community_rows a (db (sql_run (replace_timeout r) st)) =
    (if list_ex (\<lambda>r'. mr_pseudonym r' = tr_pseudonym r) (t_members (community_rows a (db st)))
     then (community_rows a (db st))\<lparr>t_timeouts :=
       row_delete (\<lambda>r'. tr_pseudonym r' = tr_pseudonym r) (t_timeouts (community_rows a (db st))) @ [r]\<rparr>
     else community_rows a (db st))"
  using assms
  by (simp add: db_run replace_timeout_def exists_defs row_exists_own)
     (simp add: community_rows_def filter_own_replace [where K = "\<lambda>r'. tr_pseudonym r' = tr_pseudonym r"]
       timeout_pk_def)

lemma rows_insert_mek [rows_simps]:
  assumes "faults st = []" and "kr_community_id r = a"
  shows "community_rows a (db (sql_run (insert_mek r) st)) =
    (if t_hosted (community_rows a (db st)) = []
        \<or> list_ex (\<lambda>r'. kr_generation r' = kr_generation r) (t_mek (community_rows a (db st)))
     then community_rows a (db st)
     else (community_rows a (db st))\<lparr>t_mek := t_mek (community_rows a (db st)) @ [r]\<rparr>)"
  using assms
  by (auto simp: db_run insert_mek_def row_insert_def exists_defs row_exists_own mek_pk_def)
     (auto simp: community_rows_def)

lemma rows_channel_statements [rows_simps]:
  assumes "faults st = []"
  shows "community_rows a (db (sql_run (rename_channel a h n) st)) =
     (community_rows a (db st))\<lparr>t_channels := row_update (\<lambda>r. cr_id r = h) (\<lambda>r. r\<lparr>cr_name := n\<rparr>)
        (t_channels (community_rows a (db st)))\<rparr>"
    "community_rows a (db (sql_run (delete_channel a h) st)) =
     (if list_ex (\<lambda>r. cr_id r = h) (t_channels (community_rows a (db st)))
      then (community_rows a (db st))
        \<lparr>t_channels := row_delete (\<lambda>r. cr_id r = h) (t_channels (community_rows a (db st))),
         t_overwrites := row_delete (\<lambda>r. or_channel_id r = h) (t_overwrites (community_rows a (db st)))\<rparr>
      else community_rows a (db st))"
    "community_rows a (db (sql_run (delete_overwrite a h ty t) st)) =
     (community_rows a (db st))\<lparr>t_overwrites := row_delete
        (\<lambda>r. or_channel_id r = h \<and> or_target_type r = ty \<and> or_target_id r = t)
        (t_overwrites (community_rows a (db st)))\<rparr>"
    "community_rows a (db (sql_run (delete_role a i) st)) =
     (community_rows a (db st))\<lparr>t_roles := row_delete (\<lambda>r. rr_id r = i)
        (t_roles (community_rows a (db st)))\<rparr>"
  using assms
  by (simp_all add: db_run statement_defs exists_defs row_exists_own)
     (simp_all add: community_rows_def filter_own_update filter_own_delete pk_defs)

lemma rows_insert_channel [rows_simps]:
  assumes "faults st = []" and "cr_community_id r = a"
  shows "community_rows a (db (sql_run (insert_channel r) st)) =
    (if t_hosted (community_rows a (db st)) = [] \<or> cr_channel_type r \<notin> {''text'', ''voice''}
        \<or> list_ex (\<lambda>r'. cr_id r' = cr_id r) (t_channels (community_rows a (db st)))
     then community_rows a (db st)
     else (community_rows a (db st))\<lparr>t_channels := t_channels (community_rows a (db st)) @ [r]\<rparr>)"
  using assms
  by (auto simp: db_run insert_channel_def row_insert_def exists_defs row_exists_own channel_pk_def)
     (auto simp: community_rows_def)

lemma rows_replace_overwrite [rows_simps]:
  assumes "faults st = []" and "or_community_id r = a"
  shows "community_rows a (db (sql_run (replace_overwrite r) st)) =
    (if list_ex (\<lambda>r'. cr_id r' = or_channel_id r) (t_channels (community_rows a (db st)))
        \<and> or_target_type r \<in> {''role'', ''member''}
     then (community_rows a (db st))\<lparr>t_overwrites :=
       row_delete (\<lambda>r'. or_channel_id r' = or_channel_id r \<and> or_target_type r' = or_target_type r
          \<and> or_target_id r' = or_target_id r) (t_overwrites (community_rows a (db st))) @ [r]\<rparr>
     else community_rows a (db st))"
  using assms
  by (simp add: db_run replace_overwrite_def exists_defs row_exists_own)
     (auto simp: community_rows_def filter_own_replace [where K = "\<lambda>r'. or_channel_id r' = or_channel_id r
        \<and> or_target_type r' = or_target_type r \<and> or_target_id r' = or_target_id r"] overwrite_pk_def)

lemma rows_insert_role [rows_simps]:
  assumes "faults st = []" and "rr_community_id r = a"
  shows "community_rows a (db (sql_run (insert_role r) st)) =
    (if t_hosted (community_rows a (db st)) = []
        \<or> list_ex (\<lambda>r'. rr_id r' = rr_id r) (t_roles (community_rows a (db st)))
     then community_rows a (db st)
     else (community_rows a (db st))\<lparr>t_roles := t_roles (community_rows a (db st)) @ [r]\<rparr>)"
  using assms
  by (auto simp: db_run insert_role_def row_insert_def exists_defs row_exists_own role_pk_def)
     (auto simp: community_rows_def)

lemma rows_update_role [rows_simps]:
  assumes "faults st = []" and "rr_community_id r = a"
  shows "community_rows a (db (sql_run (update_role r) st)) =
    (community_rows a (db st))\<lparr>t_roles := row_update (\<lambda>r'. rr_id r' = rr_id r) (\<lambda>_. r)
       (t_roles (community_rows a (db st)))\<rparr>"
proof -
  have "filter (\<lambda>r. rr_community_id r = a) (row_update (\<lambda>r'. rr_community_id r' = a \<and> rr_id r' = rr_id r) (\<lambda>_. r) t)
      = row_update (\<lambda>r'. rr_id r' = rr_id r) (\<lambda>_. r) (filter (\<lambda>r. rr_community_id r = a) t)" for t
    using assms(2) by (induction t) (auto simp: row_update_def)
  then show ?thesis using assms
    by (simp add: db_run update_role_def role_pk_def) (simp add: community_rows_def)
qed

text \<open>An insert succeeds exactly when it adds its row.\<close>

lemma insert_ok:
  assumes "faults st = []"
  shows "fst (sql_execute stmt st) = (stmt (db st) \<noteq> None)" "snd (sql_execute stmt st) = sql_run stmt st"
  using assms by (simp_all add: sql_execute_no_faults sql_run_def split: option.split)

end
