(* ===== verification/Mirror.thy ===== *)
theory Mirror
  imports Rows
begin

text \<open>
  The database mirrors a hosted community when its rows say what the memory holds. The lemmas
  carry each part of the mirror through an update of the memory and the statement that goes with
  it.
\<close>

section \<open>Mirroring\<close>

definition hosted_to_row :: "string \<Rightarrow> hosted_community \<Rightarrow> hosted_row" where
  "hosted_to_row cid c =
     \<lparr>hr_id = cid, hr_dht_record_key = c_dht_record_key c, hr_owner_keypair_hex = c_owner_keypair_hex c,
      hr_name = c_name c, hr_description = c_description c,
      hr_creator_pseudonym = c_creator_pseudonym_hex c, hr_created_at = 0\<rparr>"

definition member_to_row :: "string \<Rightarrow> server_member \<Rightarrow> member_row" where
  "member_to_row cid m =
     \<lparr>mr_community_id = cid, mr_pseudonym = m_pseudonym_key_hex m,
      mr_display_name = Some (m_display_name m), mr_joined_at = m_joined_at m,
      mr_route_blob = m_route_blob m\<rparr>"

definition member_role_to_row :: "string \<Rightarrow> string \<Rightarrow> u32 \<Rightarrow> member_role_row" where
  "member_role_to_row cid key rid =
     \<lparr>xr_community_id = cid, xr_pseudonym = key, xr_role_id = uint rid\<rparr>"

definition channel_to_row :: "string \<Rightarrow> server_channel \<Rightarrow> channel_row" where
  "channel_to_row cid ch =
     \<lparr>cr_community_id = cid, cr_id = ch_id ch, cr_name = ch_name ch,
      cr_channel_type = ch_channel_type ch, cr_sort_order = ch_sort_order ch\<rparr>"

definition show_overwrite_type :: "overwrite_type \<Rightarrow> string" where
  "show_overwrite_type t = (case t of OwRole \<Rightarrow> ''role'' | OwMember \<Rightarrow> ''member'')"

definition overwrite_to_row :: "string \<Rightarrow> string \<Rightarrow> permission_overwrite \<Rightarrow> overwrite_row" where
  "overwrite_to_row cid chid ow =
     \<lparr>or_community_id = cid, or_channel_id = chid,
      or_target_type = show_overwrite_type (ow_target_type ow), or_target_id = ow_target_id ow,
      or_allow_bits = cast_signed (ow_allow ow), or_deny_bits = cast_signed (ow_deny ow)\<rparr>"

definition role_ids_of :: "hosted_community \<Rightarrow> string \<Rightarrow> u32 list" where
  "role_ids_of c key = (case find_member c key of None \<Rightarrow> [] | Some m \<Rightarrow> m_role_ids m)"

definition timeouts_of :: "hosted_community \<Rightarrow> string \<Rightarrow> u64 list" where
  "timeouts_of c key =
     (case Option.bind (find_member c key) m_timeout_until of None \<Rightarrow> [] | Some t \<Rightarrow> [t])"

definition stored_overwrites :: "hosted_community \<Rightarrow> string \<Rightarrow> permission_overwrite list" where
  "stored_overwrites c chid =
     (case find_channel c chid of None \<Rightarrow> [] | Some ch \<Rightarrow> ch_permission_overwrites ch)"

text \<open>
  The parts, table by table; \<open>d\<close> holds the rows of the community only. The creation time has no
  counterpart in memory, the order of a channel's overwrites is left open (an upsert keeps the
  place in memory and moves the row to the end of the table), and the newest key is the current
  one.
\<close>

definition mirrors_members :: "string \<Rightarrow> server_db \<Rightarrow> hosted_community \<Rightarrow> bool" where
  "mirrors_members cid d c \<longleftrightarrow>
     t_members d = map (member_to_row cid) (c_members c)
     \<and> (\<forall>k. filter (\<lambda>r. xr_pseudonym r = k) (t_member_roles d)
            = map (member_role_to_row cid k) (role_ids_of c k))
     \<and> (\<forall>k. map tr_timeout_until (filter (\<lambda>r. tr_pseudonym r = k) (t_timeouts d))
            = map cast_signed (timeouts_of c k))"

definition mirrors_channels :: "string \<Rightarrow> server_db \<Rightarrow> hosted_community \<Rightarrow> bool" where
  "mirrors_channels cid d c \<longleftrightarrow>
     t_channels d = map (channel_to_row cid) (c_channels c)
     \<and> (\<forall>k. mset (filter (\<lambda>r. or_channel_id r = k) (t_overwrites d))
            = mset (map (overwrite_to_row cid k) (stored_overwrites c k)))"

definition mirrors_mek :: "server_db \<Rightarrow> media_encryption_key \<Rightarrow> bool" where
  "mirrors_mek d k \<longleftrightarrow>
     uint (mek_generation k) \<le> i64_max \<and> length (mek_key k) = 32
     \<and> (\<exists>r\<in>set (t_mek d). kr_generation r = uint (mek_generation k) \<and> kr_key_bytes r = mek_key k)
     \<and> (\<forall>r\<in>set (t_mek d). kr_generation r < uint (mek_generation k)
          \<or> kr_generation r = uint (mek_generation k) \<and> kr_key_bytes r = mek_key k)"

definition mirrors :: "string \<Rightarrow> server_db \<Rightarrow> hosted_community \<Rightarrow> bool" where
  "mirrors cid d c \<longleftrightarrow>
     map (\<lambda>r. r\<lparr>hr_created_at := 0\<rparr>) (t_hosted d) = [hosted_to_row cid c]
     \<and> t_roles d = map (role_to_row cid) (c_roles c)
     \<and> mirrors_members cid d c \<and> mirrors_channels cid d c \<and> mirrors_mek d (c_mek c)"

definition mirrored :: "server_state \<Rightarrow> bool" where
  "mirrored st \<longleftrightarrow>
     faults st = [] \<and> wf_server st \<and>
     (\<forall>a c. get_community st a = Some c \<longrightarrow> mirrors a (community_rows a (db st)) c)"

lemma mirrors_cong:
  assumes "mirrors cid d c"
    and "t_hosted d' = t_hosted d" "t_roles d' = t_roles d" "t_members d' = t_members d"
    "t_member_roles d' = t_member_roles d" "t_timeouts d' = t_timeouts d"
    "t_channels d' = t_channels d" "t_overwrites d' = t_overwrites d" "t_mek d' = t_mek d"
  shows "mirrors cid d' c"
  using assms by (simp add: mirrors_def mirrors_members_def mirrors_channels_def mirrors_mek_def)

subsection \<open>Members\<close>

lemma row_to_key [simp]:
  "mr_pseudonym (member_to_row cid m) = m_pseudonym_key_hex m"
  "xr_pseudonym (member_role_to_row cid k i) = k" "xr_role_id (member_role_to_row cid k i) = uint i"
  "cr_id (channel_to_row cid ch) = ch_id ch" "or_channel_id (overwrite_to_row cid k ow) = k"
  "rr_id (role_to_row cid r) = uint (rd_id r)"
  by (simp_all add: member_to_row_def member_role_to_row_def channel_to_row_def
      overwrite_to_row_def role_to_row_def)

lemma filter_row_delete_key:
  "filter (\<lambda>r. K r = k) (row_delete (\<lambda>r. K r = key) t) = (if k = key then [] else filter (\<lambda>r. K r = k) t)"
  by (auto simp: row_delete_def filter_empty_conv intro: filter_cong)

lemma row_delete_map: "row_delete P (map f xs) = map f (filter (\<lambda>x. \<not> P (f x)) xs)"
  by (simp add: row_delete_def filter_map comp_def)

lemma mirrors_members_remove:
  assumes "mirrors_members cid d c"
  shows "mirrors_members cid
    (d\<lparr>t_members := row_delete (\<lambda>r. mr_pseudonym r = key) (t_members d),
       t_member_roles := row_delete (\<lambda>r. xr_pseudonym r = key) (t_member_roles d),
       t_timeouts := row_delete (\<lambda>r. tr_pseudonym r = key) (t_timeouts d)\<rparr>) (remove_member key c)"
  using assms
  by (auto simp: mirrors_members_def row_delete_map members.items_remove filter_row_delete_key
      role_ids_of_def timeouts_of_def roster_simps)

lemma mirrors_members_absent:
  assumes "mirrors_members cid d c" and "\<not> list_ex (\<lambda>r. mr_pseudonym r = key) (t_members d)"
  shows "c_members (remove_member key c) = c_members c"
  using assms by (auto simp: mirrors_members_def members.items_remove list_ex_iff filter_id_conv)

lemma find_push_member:
  "find_member (push_member m c) k =
    (case find_member c k of Some x \<Rightarrow> Some x
     | None \<Rightarrow> if m_pseudonym_key_hex m = k then Some m else None)"
  by (simp add: find_member_def frame_simps find_append split: option.split)

lemma mirrors_members_push:
  assumes "mirrors_members cid d c" and "find_member c (m_pseudonym_key_hex m) = None"
    and "m_timeout_until m = None"
  shows "mirrors_members cid
    (d\<lparr>t_members := t_members d @ [member_to_row cid m],
       t_member_roles := t_member_roles d @ map (member_role_to_row cid (m_pseudonym_key_hex m)) (m_role_ids m)\<rparr>)
    (push_member m c)"
  using assms
  by (auto simp: mirrors_members_def frame_simps role_ids_of_def timeouts_of_def find_push_member
      filter_map comp_def split: option.split)

lemma row_update_first_map:
  assumes "distinct (map key xs)" and "\<And>x. K (f x) = key x" and "\<And>x. x \<in> set xs \<Longrightarrow> key x = k \<Longrightarrow> g (f x) = f (h x)"
  shows "row_update (\<lambda>r. K r = k) g (map f xs) = map f (update_first (\<lambda>x. key x = k) h xs)"
  using assms(1,3)
proof (induction xs)
  case (Cons x xs)
  show ?case
  proof (cases "key x = k")
    case True
    with Cons.prems have "\<forall>y\<in>set xs. key y \<noteq> k"
      by (metis distinct.simps(2) image_eqI list.set_map list.simps(9))
    then have "row_update (\<lambda>r. K r = k) g (map f xs) = map f xs"
      by (intro row_update_other) (auto simp: assms(2))
    with True Cons.prems(2) [of x] show ?thesis by (simp add: row_update_def assms(2))
  next
    case False
    moreover have "row_update (\<lambda>r. K r = k) g (map f xs) = map f (update_first (\<lambda>x. key x = k) h xs)"
      using Cons.prems by (intro Cons.IH) auto
    ultimately show ?thesis by (simp add: row_update_def assms(2))
  qed
qed (simp add: row_update_def)

text \<open>A change to a member that leaves its row alone.\<close>

lemma map_update_first_same:
  assumes "\<And>x. f (h x) = f x"
  shows "map f (update_first P h xs) = map f xs"
  using assms by (induction xs) auto

lemma role_ids_of_modify:
  assumes "\<And>m. m_pseudonym_key_hex (f m) = m_pseudonym_key_hex m"
  shows "role_ids_of (modify_member key f c) k =
    (if k = key then case find_member c key of None \<Rightarrow> [] | Some m \<Rightarrow> m_role_ids (f m) else role_ids_of c k)"
    "timeouts_of (modify_member key f c) k =
    (if k = key then case Option.bind (find_member c key) (\<lambda>m. m_timeout_until (f m)) of None \<Rightarrow> [] | Some t \<Rightarrow> [t]
     else timeouts_of c k)"
  using assms
  by (cases "find_member c key"; simp add: role_ids_of_def timeouts_of_def members.lookup_modify)+

lemma unchanged_of:
  "(case find_member c key of None \<Rightarrow> [] | Some m \<Rightarrow> m_role_ids m) = role_ids_of c key"
  "(case Option.bind (find_member c key) m_timeout_until of None \<Rightarrow> [] | Some t \<Rightarrow> [t]) = timeouts_of c key"
  by (simp_all add: role_ids_of_def timeouts_of_def)

lemma mirrors_members_route:
  assumes "mirrors_members cid d c" and "distinct (map m_pseudonym_key_hex (c_members c))"
  shows "mirrors_members cid
    (d\<lparr>t_members := row_update (\<lambda>r. mr_pseudonym r = key) (\<lambda>r. r\<lparr>mr_route_blob := Some blob\<rparr>) (t_members d)\<rparr>)
    (modify_member key (\<lambda>m. m\<lparr>m_route_blob := Some blob\<rparr>) c)"
proof -
  have "row_update (\<lambda>r. mr_pseudonym r = key) (\<lambda>r. r\<lparr>mr_route_blob := Some blob\<rparr>) (map (member_to_row cid) (c_members c))
    = map (member_to_row cid) (c_members (modify_member key (\<lambda>m. m\<lparr>m_route_blob := Some blob\<rparr>) c))"
    unfolding members.items_modify
    by (rule row_update_first_map [OF assms(2)]) (simp_all add: member_to_row_def)
  then show ?thesis using assms(1)
    by (simp add: mirrors_members_def role_ids_of_modify unchanged_of cong: option.case_cong)
qed

lemma members_same_rows:
  assumes "\<And>m. member_to_row cid (f m) = member_to_row cid m"
  shows "map (member_to_row cid) (c_members (modify_member key f c)) = map (member_to_row cid) (c_members c)"
  by (simp add: members.items_modify map_update_first_same [where f = "member_to_row cid", OF assms])

lemma member_to_row_edits [simp]:
  "member_to_row cid (add_role_id rid m) = member_to_row cid m"
  "member_to_row cid (remove_role_id rid m) = member_to_row cid m"
  "member_to_row cid (set_timeout t m) = member_to_row cid m"
  "m_timeout_until (add_role_id rid m) = m_timeout_until m"
  "m_timeout_until (remove_role_id rid m) = m_timeout_until m"
  "m_timeout_until (set_timeout t m) = t"
  by (simp_all add: member_to_row_def add_role_id_def remove_role_id_def set_timeout_def)

lemma mirrors_members_add_role:
  assumes "mirrors_members cid d c" and "find_member c key = Some m"
  shows "mirrors_members cid
    (d\<lparr>t_member_roles := t_member_roles d @ [member_role_to_row cid key rid]\<rparr>)
    (modify_member key (add_role_id rid) c)"
proof -
  have "role_ids_of c key = m_role_ids m" "timeouts_of c key = (case m_timeout_until m of None \<Rightarrow> [] | Some t \<Rightarrow> [t])"
    using assms(2) by (simp_all add: role_ids_of_def timeouts_of_def)
  with assms show ?thesis
    by (simp add: mirrors_members_def role_ids_of_modify members_same_rows)
qed

lemma mirrors_members_remove_role:
  assumes "mirrors_members cid d c"
  shows "mirrors_members cid
    (d\<lparr>t_member_roles := row_delete (\<lambda>r. xr_pseudonym r = key \<and> xr_role_id r = uint rid) (t_member_roles d)\<rparr>)
    (modify_member key (remove_role_id rid) c)"
proof -
  have f: "filter (\<lambda>r. xr_pseudonym r = k) (row_delete (\<lambda>r. xr_pseudonym r = key \<and> xr_role_id r = uint rid) t)
    = (if k = key then filter (\<lambda>r. xr_role_id r \<noteq> uint rid) (filter (\<lambda>r. xr_pseudonym r = k) t)
       else filter (\<lambda>r. xr_pseudonym r = k) t)" for k t
    by (auto simp: row_delete_def intro!: filter_cong)
  have g: "(case find_member c key of None \<Rightarrow> [] | Some m \<Rightarrow> filter (\<lambda>i. i \<noteq> rid) (m_role_ids m))
    = filter (\<lambda>i. i \<noteq> rid) (role_ids_of c key)"
    by (simp add: role_ids_of_def split: option.split)
  show ?thesis using assms
    by (simp add: mirrors_members_def role_ids_of_modify members_same_rows f g unchanged_of
        filter_map comp_def word_uint_eq_iff [symmetric] cong: option.case_cong)
qed

lemma mirrors_members_set_timeout:
  assumes "mirrors_members cid d c" and "find_member c key = Some m" and "tr_pseudonym r = key"
    and "tr_timeout_until r = cast_signed t"
  shows "mirrors_members cid
    (d\<lparr>t_timeouts := row_delete (\<lambda>r. tr_pseudonym r = key) (t_timeouts d) @ [r]\<rparr>)
    (modify_member key (set_timeout (Some t)) c)"
proof -
  have "role_ids_of c key = m_role_ids m" using assms(2) by (simp add: role_ids_of_def)
  with assms show ?thesis
    by (simp add: mirrors_members_def role_ids_of_modify members_same_rows filter_row_delete_key)
qed

lemma mirrors_members_clear_timeout:
  assumes "mirrors_members cid d c"
  shows "mirrors_members cid
    (d\<lparr>t_timeouts := row_delete (\<lambda>r. tr_pseudonym r = key) (t_timeouts d)\<rparr>)
    (modify_member key (set_timeout None) c)"
proof -
  have "Option.bind (find_member c key) (\<lambda>m. None) = (None :: u64 option)"
    by (cases "find_member c key") simp_all
  with assms show ?thesis
    by (simp add: mirrors_members_def role_ids_of_modify members_same_rows filter_row_delete_key
        unchanged_of cong: option.case_cong)
qed

lemma mirrors_members_drop_role:
  assumes "mirrors_members cid d c"
  shows "mirrors_members cid
    (d\<lparr>t_member_roles := row_delete (\<lambda>r. xr_role_id r = uint rid) (t_member_roles d)\<rparr>) (drop_role rid c)"
proof -
  have m: "c_members (drop_role rid c) = map (remove_role_id rid) (c_members c)"
    by (simp add: drop_role_def remove_role_id_def)
  have find: "find_member (drop_role rid c) k = map_option (remove_role_id rid) (find_member c k)" for k
    unfolding find_member_def m by (rule find_map_id) simp
  have f: "filter (\<lambda>r. xr_pseudonym r = k) (row_delete (\<lambda>r. xr_role_id r = uint rid) t)
    = filter (\<lambda>r. xr_role_id r \<noteq> uint rid) (filter (\<lambda>r. xr_pseudonym r = k) t)" for k t
    by (auto simp: row_delete_def intro!: filter_cong)
  have g: "role_ids_of (drop_role rid c) k = filter (\<lambda>i. i \<noteq> rid) (role_ids_of c k)"
    "timeouts_of (drop_role rid c) k = timeouts_of c k" for k
    by (cases "find_member c k"; simp add: role_ids_of_def timeouts_of_def find)+
  show ?thesis using assms
    by (simp add: mirrors_members_def m f g comp_def filter_map word_uint_eq_iff [symmetric])
qed

subsection \<open>Channels, roles, keys, metadata\<close>

lemma find_push_channel:
  "find_channel (push_channel ch c) k =
    (case find_channel c k of Some x \<Rightarrow> Some x | None \<Rightarrow> if ch_id ch = k then Some ch else None)"
  by (simp add: find_channel_def frame_simps find_append split: option.split)

lemma mirrors_channels_push:
  assumes "mirrors_channels cid d c" and "ch_permission_overwrites ch = []"
  shows "mirrors_channels cid (d\<lparr>t_channels := t_channels d @ [channel_to_row cid ch]\<rparr>) (push_channel ch c)"
proof -
  have "stored_overwrites (push_channel ch c) k = stored_overwrites c k" for k
    using assms(2) by (simp add: stored_overwrites_def find_push_channel split: option.split)
  with assms(1) show ?thesis by (simp add: mirrors_channels_def frame_simps)
qed

lemma mirrors_channels_remove:
  assumes "mirrors_channels cid d c"
  shows "mirrors_channels cid
    (d\<lparr>t_channels := row_delete (\<lambda>r. cr_id r = h) (t_channels d),
       t_overwrites := row_delete (\<lambda>r. or_channel_id r = h) (t_overwrites d)\<rparr>) (remove_channel h c)"
  using assms
  by (auto simp: mirrors_channels_def row_delete_map channels.items_remove filter_row_delete_key
      stored_overwrites_def roster_simps)

lemma mirrors_channels_absent:
  assumes "mirrors_channels cid d c" and "\<not> list_ex (\<lambda>r. cr_id r = h) (t_channels d)"
  shows "c_channels (remove_channel h c) = c_channels c"
  using assms by (auto simp: mirrors_channels_def channels.items_remove list_ex_iff filter_id_conv)

lemma stored_overwrites_modify:
  assumes "\<And>ch. ch_id (f ch) = ch_id ch"
  shows "stored_overwrites (modify_channel h f c) k =
    (if k = h then case find_channel c h of None \<Rightarrow> [] | Some ch \<Rightarrow> ch_permission_overwrites (f ch)
     else stored_overwrites c k)"
  using assms by (cases "find_channel c h") (simp_all add: stored_overwrites_def channels.lookup_modify)

lemma mirrors_channels_rename:
  assumes "mirrors_channels cid d c" and "distinct (map ch_id (c_channels c))"
  shows "mirrors_channels cid
    (d\<lparr>t_channels := row_update (\<lambda>r. cr_id r = h) (\<lambda>r. r\<lparr>cr_name := n\<rparr>) (t_channels d)\<rparr>)
    (modify_channel h (\<lambda>ch. ch\<lparr>ch_name := n\<rparr>) c)"
proof -
  have "row_update (\<lambda>r. cr_id r = h) (\<lambda>r. r\<lparr>cr_name := n\<rparr>) (map (channel_to_row cid) (c_channels c))
    = map (channel_to_row cid) (c_channels (modify_channel h (\<lambda>ch. ch\<lparr>ch_name := n\<rparr>) c))"
    unfolding channels.items_modify
    by (rule row_update_first_map [OF assms(2)]) (simp_all add: channel_to_row_def)
  moreover have "(case find_channel c h of None \<Rightarrow> [] | Some ch \<Rightarrow> ch_permission_overwrites ch) = stored_overwrites c h"
    by (simp add: stored_overwrites_def)
  ultimately show ?thesis using assms(1)
    by (simp add: mirrors_channels_def stored_overwrites_modify cong: option.case_cong)
qed

lemma mset_upsert_overwrite:
  assumes "distinct (map ow_key ows)"
  shows "mset (upsert_overwrite ow ows) = mset (filter (\<lambda>o'. ow_key o' \<noteq> ow_key ow) ows) + {#ow#}"
proof (cases "List.find (\<lambda>o'. ow_key o' = ow_key ow) ows")
  case None
  then have "filter (\<lambda>o'. ow_key o' \<noteq> ow_key ow) ows = ows"
    by (auto simp: find_None_iff_all filter_id_conv)
  with None show ?thesis by (simp add: upsert_overwrite_def)
next
  case (Some o1)
  have same: "x\<lparr>ow_allow := ow_allow ow, ow_deny := ow_deny ow\<rparr> = ow" if "ow_key x = ow_key ow" for x
    using that by (cases x, cases ow) (simp add: ow_key_def)
  have "mset (update_first (\<lambda>o'. ow_key o' = ow_key ow)
      (\<lambda>o'. o'\<lparr>ow_allow := ow_allow ow, ow_deny := ow_deny ow\<rparr>) ows)
    = mset (filter (\<lambda>o'. ow_key o' \<noteq> ow_key ow) ows) + {#ow#}"
    if "ow_key ow \<in> ow_key ` set ows"
    using assms that
  proof (induction ows)
    case (Cons x xs)
    show ?case
    proof (cases "ow_key x = ow_key ow")
      case True
      with Cons.prems have "filter (\<lambda>o'. ow_key o' \<noteq> ow_key ow) xs = xs"
        by (auto simp: filter_id_conv) (metis imageI)
      with True show ?thesis by (simp add: same)
    next
      case False
      with Cons show ?thesis by auto
    qed
  qed simp
  moreover have "ow_key ow \<in> ow_key ` set ows"
    using Some find_SomeD [of "\<lambda>o'. ow_key o' = ow_key ow" ows o1] by (metis imageI)
  ultimately show ?thesis using Some by (simp add: upsert_overwrite_def)
qed

lemma show_parse_type:
  "ty \<in> {''role'', ''member''} \<Longrightarrow> show_overwrite_type t = ty \<longleftrightarrow> t = parse_overwrite_type ty"
  "ty \<in> {''role'', ''member''} \<Longrightarrow> show_overwrite_type (parse_overwrite_type ty) = ty"
  by (cases t; auto simp: show_overwrite_type_def parse_overwrite_type_def)
     (auto simp: show_overwrite_type_def parse_overwrite_type_def)

definition names_overwrite :: "string \<Rightarrow> string \<Rightarrow> string \<Rightarrow> overwrite_row \<Rightarrow> bool" where
  "names_overwrite h ty t r \<longleftrightarrow> or_channel_id r = h \<and> or_target_type r = ty \<and> or_target_id r = t"

lemma names_overwrite_row:
  "ty \<in> {''role'', ''member''} \<Longrightarrow>
    names_overwrite h ty t (overwrite_to_row cid h ow) \<longleftrightarrow> ow_key ow = (parse_overwrite_type ty, t)"
  by (auto simp: names_overwrite_def overwrite_to_row_def show_parse_type ow_key_def)

lemma mset_filter_other_channel:
  "k \<noteq> h \<Longrightarrow> filter (\<lambda>r. or_channel_id r = k) (row_delete (names_overwrite h ty t) rows)
    = filter (\<lambda>r. or_channel_id r = k) rows"
  by (auto simp: row_delete_def names_overwrite_def intro!: filter_cong)

lemma mset_filter_channel:
  assumes "ty \<in> {''role'', ''member''}"
    and "mset (filter (\<lambda>r. or_channel_id r = h) rows) = mset (map (overwrite_to_row cid h) ows)"
  shows "mset (filter (\<lambda>r. or_channel_id r = h) (row_delete (names_overwrite h ty t) rows))
    = mset (map (overwrite_to_row cid h) (filter (\<lambda>ow. ow_key ow \<noteq> (parse_overwrite_type ty, t)) ows))"
proof -
  have "filter (\<lambda>r. or_channel_id r = h) (row_delete (names_overwrite h ty t) rows)
    = filter (\<lambda>r. \<not> names_overwrite h ty t r) (filter (\<lambda>r. or_channel_id r = h) rows)"
    by (auto simp: row_delete_def intro!: filter_cong)
  then have "mset (filter (\<lambda>r. or_channel_id r = h) (row_delete (names_overwrite h ty t) rows))
    = filter_mset (\<lambda>r. \<not> names_overwrite h ty t r) (mset (map (overwrite_to_row cid h) ows))"
    by (metis assms(2) mset_filter)
  also have "\<dots> = mset (filter (\<lambda>r. \<not> names_overwrite h ty t r) (map (overwrite_to_row cid h) ows))"
    by simp
  finally show ?thesis by (simp add: filter_map comp_def names_overwrite_row [OF assms(1)])
qed

lemma same_channel_rows:
  "map (channel_to_row cid) (c_channels (modify_channel h (\<lambda>ch. ch\<lparr>ch_permission_overwrites := F ch\<rparr>) c))
    = map (channel_to_row cid) (c_channels c)"
  unfolding channels.items_modify
  by (rule map_update_first_same) (simp add: channel_to_row_def)

lemma mirrors_channels_set_overwrite:
  assumes "mirrors_channels cid d c" and "find_channel c h = Some ch"
    and "distinct (map ow_key (ch_permission_overwrites ch))" and "ty \<in> {''role'', ''member''}"
  shows "mirrors_channels cid
    (d\<lparr>t_overwrites := row_delete (names_overwrite h ty t) (t_overwrites d)
        @ [\<lparr>or_community_id = cid, or_channel_id = h, or_target_type = ty, or_target_id = t,
            or_allow_bits = cast_signed al, or_deny_bits = cast_signed de\<rparr>]\<rparr>)
    (modify_channel h (\<lambda>ch. ch\<lparr>ch_permission_overwrites := upsert_overwrite
       \<lparr>ow_target_type = parse_overwrite_type ty, ow_target_id = t, ow_allow = al, ow_deny = de\<rparr>
       (ch_permission_overwrites ch)\<rparr>) c)"
proof -
  let ?ow = "\<lparr>ow_target_type = parse_overwrite_type ty, ow_target_id = t, ow_allow = al, ow_deny = de\<rparr>"
  have row: "\<lparr>or_community_id = cid, or_channel_id = h, or_target_type = ty, or_target_id = t,
      or_allow_bits = cast_signed al, or_deny_bits = cast_signed de\<rparr> = overwrite_to_row cid h ?ow"
    using show_parse_type(2) [OF assms(4)] by (simp add: overwrite_to_row_def)
  have key: "ow_key ?ow = (parse_overwrite_type ty, t)" by (simp add: ow_key_def)
  have ows: "stored_overwrites c h = ch_permission_overwrites ch" using assms(2) by (simp add: stored_overwrites_def)
  have "mset (filter (\<lambda>r. or_channel_id r = h) (t_overwrites d)) = mset (map (overwrite_to_row cid h) (ch_permission_overwrites ch))"
    using assms(1) by (simp add: mirrors_channels_def ows)
  from mset_filter_channel [OF assms(4) this]
  have "mset (filter (\<lambda>r. or_channel_id r = h) (row_delete (names_overwrite h ty t) (t_overwrites d)))
      = mset (map (overwrite_to_row cid h) (filter (\<lambda>ow. ow_key ow \<noteq> ow_key ?ow) (ch_permission_overwrites ch)))"
    unfolding key .
  moreover have "mset (map (overwrite_to_row cid h) (upsert_overwrite ?ow (ch_permission_overwrites ch)))
      = mset (map (overwrite_to_row cid h) (filter (\<lambda>ow. ow_key ow \<noteq> ow_key ?ow) (ch_permission_overwrites ch)))
        + {#overwrite_to_row cid h ?ow#}"
    unfolding mset_map by (simp add: mset_upsert_overwrite [OF assms(3)])
  ultimately show ?thesis
    using assms(1,2)
    by (simp add: mirrors_channels_def row same_channel_rows stored_overwrites_modify
        mset_filter_other_channel del: mset_filter mset_map)
qed

lemma mirrors_channels_delete_overwrite:
  assumes "mirrors_channels cid d c" and "ty \<in> {''role'', ''member''}"
  shows "mirrors_channels cid
    (d\<lparr>t_overwrites := row_delete (names_overwrite h ty t) (t_overwrites d)\<rparr>)
    (modify_channel h (\<lambda>ch. ch\<lparr>ch_permission_overwrites :=
       filter (\<lambda>ow. \<not> (ow_target_type ow = parse_overwrite_type ty \<and> ow_target_id ow = t))
         (ch_permission_overwrites ch)\<rparr>) c)"
proof -
  have "mset (filter (\<lambda>r. or_channel_id r = h) (t_overwrites d)) = mset (map (overwrite_to_row cid h) (stored_overwrites c h))"
    using assms(1) by (simp add: mirrors_channels_def)
  from mset_filter_channel [OF assms(2) this, of t]
  have "mset (filter (\<lambda>r. or_channel_id r = h) (row_delete (names_overwrite h ty t) (t_overwrites d)))
      = mset (map (overwrite_to_row cid h) (filter (\<lambda>ow. \<not> (ow_target_type ow = parse_overwrite_type ty
          \<and> ow_target_id ow = t)) (stored_overwrites c h)))"
    by (simp add: ow_key_def)
  moreover have "(case find_channel c h of None \<Rightarrow> [] | Some ch \<Rightarrow> filter P (ch_permission_overwrites ch))
      = filter P (stored_overwrites c h)" for P
    by (simp add: stored_overwrites_def split: option.split)
  ultimately show ?thesis
    using assms(1)
    by (simp add: mirrors_channels_def same_channel_rows stored_overwrites_modify
        mset_filter_other_channel del: mset_filter mset_map cong: option.case_cong)
qed

lemma roles_rows_edit:
  assumes "t_roles d = map (role_to_row cid) (c_roles c)" and "distinct (map rd_id (c_roles c))"
    and "find_role c rid = Some target" and "\<And>r. rd_id (f r) = rd_id r"
  shows "row_update (\<lambda>r. rr_id r = rr_id (role_to_row cid (f target))) (\<lambda>_. role_to_row cid (f target)) (t_roles d)
    = map (role_to_row cid) (c_roles (modify_role rid f c))"
proof -
  have t: "target \<in> set (c_roles c)" "rd_id target = rid" using roles.lookup_SomeD [OF assms(3)] by blast+
  have same: "x = target" if "x \<in> set (c_roles c)" "rd_id x = rid" for x
    using roles.lookup_mem [OF assms(2) that(1)] that(2) assms(3) by simp
  have d: "distinct (map (\<lambda>r. uint (rd_id r)) (c_roles c))"
    using assms(2) by (auto simp: distinct_map inj_on_def word_uint_eq_iff [symmetric])
  have u: "(\<lambda>r. uint (rd_id r) = uint rid) = (\<lambda>r. rd_id r = rid)" by (auto simp: word_uint_eq_iff [symmetric])
  have "row_update (\<lambda>r. rr_id r = uint rid) (\<lambda>_. role_to_row cid (f target)) (map (role_to_row cid) (c_roles c))
    = map (role_to_row cid) (update_first (\<lambda>r. uint (rd_id r) = uint rid) f (c_roles c))"
    by (rule row_update_first_map [OF d]) (use same in \<open>auto simp: word_uint_eq_iff [symmetric]\<close>)
  then show ?thesis using assms(1,4) t(2) by (simp add: roles.items_modify u)
qed

lemma roles_rows_drop:
  assumes "t_roles d = map (role_to_row cid) (c_roles c)"
  shows "row_delete (\<lambda>r. rr_id r = uint rid) (t_roles d) = map (role_to_row cid) (c_roles (drop_role rid c))"
  using assms by (simp add: row_delete_map frame_simps word_uint_eq_iff [symmetric])

lemma mirrors_mek_rotate:
  assumes "mirrors_mek d k" and "uint (mek_generation k) < i64_max" and "length (rand_key env) = 32"
    and "kr_generation r = uint (mek_generation k + 1)" and "kr_key_bytes r = rand_key env"
  shows "mirrors_mek (d\<lparr>t_mek := t_mek d @ [r]\<rparr>) (mek_generate env (mek_generation k + 1))"
    and "\<not> list_ex (\<lambda>r'. kr_generation r' = kr_generation r) (t_mek d)"
proof -
  have g: "uint (mek_generation k + 1) = uint (mek_generation k) + 1"
    using assms(2) by (simp add: uint_word_ariths i64_max_def)
  show "mirrors_mek (d\<lparr>t_mek := t_mek d @ [r]\<rparr>) (mek_generate env (mek_generation k + 1))"
    using assms by (auto simp: mirrors_mek_def mek_generate_def g)
  show "\<not> list_ex (\<lambda>r'. kr_generation r' = kr_generation r) (t_mek d)"
    using assms(1,4) by (auto simp: mirrors_mek_def list_ex_iff g)
qed

end
