(* ===== verification/Hosting.thy ===== *)
theory Hosting
  imports Messaging
begin

text \<open>
  Hosting of communities (\<open>crates/rekindle-server/src/community_host.rs\<close>), the start-up that
  reloads them (\<open>main.rs\<close>) and the local control socket (\<open>ipc.rs\<close>): loading members, channels and
  roles from the database, the default roles, taking a community up and giving it up, and keeping
  its private route alive.
\<close>

section \<open>Loading from the database\<close>

text \<open>
  SQLite chooses the order of rows where the query gives none; the model keeps insertion order.
  A row with a column that does not convert is skipped (\<open>filter_map(Result::ok)\<close>). A query that
  fails is \<^const>\<open>None\<close>, the \<open>Err\<close> of the function.
\<close>

definition column_i32 :: "int \<Rightarrow> int option" where
  "column_i32 i = (if i32_min \<le> i \<and> i \<le> i32_max then Some i else None)"

definition member_of_row :: "member_row \<Rightarrow> server_member" where
  "member_of_row r =
     \<lparr>m_pseudonym_key_hex = mr_pseudonym r,
      m_display_name = (case mr_display_name r of None \<Rightarrow> [] | Some n \<Rightarrow> n),
      m_role_ids = [], m_joined_at = mr_joined_at r, m_route_blob = mr_route_blob r,
      m_timeout_until = None\<rparr>"

definition load_role_row :: "member_role_row \<Rightarrow> server_member list \<Rightarrow> server_member list" where
  "load_role_row r members =
     (case column_u32 (xr_role_id r) of
        None \<Rightarrow> members
      | Some rid \<Rightarrow> update_first (\<lambda>m. m_pseudonym_key_hex m = xr_pseudonym r) (add_role_id rid) members)"

definition load_timeout_row :: "u64 \<Rightarrow> timeout_row \<Rightarrow> server_member list \<Rightarrow> server_member list" where
  "load_timeout_row now r members =
     (case column_u64 (tr_timeout_until r) of
        None \<Rightarrow> members
      | Some until \<Rightarrow>
          if until > now
          then update_first (\<lambda>m. m_pseudonym_key_hex m = tr_pseudonym r) (set_timeout (Some until)) members
          else members)"

definition load_members_from_db ::
  "request_env \<Rightarrow> server_state \<Rightarrow> string \<Rightarrow> server_member list option \<times> server_state" where
  "load_members_from_db env st cid =
     (let (rows, st) = sql_query (\<lambda>d. filter (\<lambda>r. mr_community_id r = cid) (t_members d)) st
      in case rows of None \<Rightarrow> (None, st)
       | Some rows \<Rightarrow>
         (let (role_rows, st) = sql_query (\<lambda>d. filter (\<lambda>r. xr_community_id r = cid) (t_member_roles d)) st
          in case role_rows of None \<Rightarrow> (None, st)
           | Some role_rows \<Rightarrow>
             (let (to_rows, st) = sql_query (\<lambda>d. filter (\<lambda>r. tr_community_id r = cid) (t_timeouts d)) st
              in case to_rows of None \<Rightarrow> (None, st)
               | Some to_rows \<Rightarrow>
                   (Some (fold (load_timeout_row (now_secs env)) to_rows
                      (fold load_role_row role_rows (map member_of_row rows))), st))))"

definition channel_of_row :: "channel_row \<Rightarrow> server_channel option" where
  "channel_of_row r =
     map_option (\<lambda>so. \<lparr>ch_id = cr_id r, ch_name = cr_name r, ch_channel_type = cr_channel_type r,
       ch_sort_order = so, ch_permission_overwrites = []\<rparr>) (column_i32 (cr_sort_order r))"

definition push_overwrite :: "permission_overwrite \<Rightarrow> server_channel \<Rightarrow> server_channel" where
  "push_overwrite ow ch = ch\<lparr>ch_permission_overwrites := ch_permission_overwrites ch @ [ow]\<rparr>"

definition load_overwrite_row :: "overwrite_row \<Rightarrow> server_channel list \<Rightarrow> server_channel list" where
  "load_overwrite_row r channels =
     (case (column_u64 (or_allow_bits r), column_u64 (or_deny_bits r)) of
        (Some allow, Some deny) \<Rightarrow>
          update_first (\<lambda>ch. ch_id ch = or_channel_id r)
            (push_overwrite \<lparr>ow_target_type = parse_overwrite_type (or_target_type r),
               ow_target_id = or_target_id r, ow_allow = allow, ow_deny = deny\<rparr>) channels
      | _ \<Rightarrow> channels)"

definition load_channels_from_db ::
  "server_state \<Rightarrow> string \<Rightarrow> server_channel list option \<times> server_state" where
  "load_channels_from_db st cid =
     (let (rows, st) = sql_query (\<lambda>d. filter (\<lambda>r. cr_community_id r = cid) (t_channels d)) st
      in case rows of None \<Rightarrow> (None, st)
       | Some rows \<Rightarrow>
         (let (ow_rows, st) = sql_query (\<lambda>d. filter (\<lambda>r. or_community_id r = cid) (t_overwrites d)) st
          in case ow_rows of None \<Rightarrow> (None, st)
           | Some ow_rows \<Rightarrow>
               (Some (fold load_overwrite_row ow_rows (List.map_filter channel_of_row rows)), st)))"

definition role_of_row :: "role_row \<Rightarrow> role_definition option" where
  "role_of_row r =
     (case (column_u32 (rr_id r), column_u32 (rr_color r), column_u64 (rr_permissions r),
            column_i32 (rr_position r)) of
        (Some rid, Some color, Some perms, Some pos) \<Rightarrow>
          Some \<lparr>rd_id = rid, rd_name = rr_name r, rd_color = color, rd_permissions = perms,
                rd_position = pos, rd_hoist = rr_hoist r \<noteq> 0, rd_mentionable = rr_mentionable r \<noteq> 0\<rparr>
      | _ \<Rightarrow> None)"

definition load_roles_from_db ::
  "server_state \<Rightarrow> string \<Rightarrow> role_definition list option \<times> server_state" where
  "load_roles_from_db st cid =
     (let (rows, st) = sql_query (\<lambda>d. sort_key (\<lambda>r. - rr_position r)
            (filter (\<lambda>r. rr_community_id r = cid) (t_roles d))) st
      in (map_option (List.map_filter role_of_row) rows, st))"

section \<open>Default roles\<close>

definition default_roles :: "role_definition list" where
  "default_roles =
     [\<lparr>rd_id = role_everyone_id, rd_name = ''@everyone'', rd_color = 0,
       rd_permissions = everyone_permissions, rd_position = 0, rd_hoist = False, rd_mentionable = False\<rparr>,
      \<lparr>rd_id = 1, rd_name = ''Member'', rd_color = 0,
       rd_permissions = member_permissions, rd_position = 1, rd_hoist = False, rd_mentionable = False\<rparr>,
      \<lparr>rd_id = 2, rd_name = ''Moderator'', rd_color = 0x3498DB,
       rd_permissions = moderator_permissions, rd_position = 2, rd_hoist = True, rd_mentionable = True\<rparr>,
      \<lparr>rd_id = 3, rd_name = ''Admin'', rd_color = 0xE74C3C,
       rd_permissions = admin_permissions, rd_position = 3, rd_hoist = True, rd_mentionable = True\<rparr>,
      \<lparr>rd_id = 4, rd_name = ''Owner'', rd_color = 0xF1C40F,
       rd_permissions = owner_permissions, rd_position = 4, rd_hoist = True, rd_mentionable = False\<rparr>]"

text \<open>The first insert that fails ends the loop with an error.\<close>

fun insert_default_roles :: "string \<Rightarrow> role_definition list \<Rightarrow> server_state \<Rightarrow> bool \<times> server_state" where
  "insert_default_roles cid [] st = (True, st)"
| "insert_default_roles cid (r # rs) st =
     (let (ok, st) = sql_execute (insert_ignore_role (role_to_row cid r)) st
      in if ok then insert_default_roles cid rs st else (False, st))"

definition create_default_roles ::
  "server_state \<Rightarrow> string \<Rightarrow> role_definition list option \<times> server_state" where
  "create_default_roles st cid =
     (let (ok, st) = insert_default_roles cid default_roles st
      in (if ok then Some default_roles else None, st))"

section \<open>Private routes\<close>

definition new_private_route :: "server_state \<Rightarrow> (route_id \<times> bytes) option \<times> server_state" where
  "new_private_route st =
     (case net_routes st of [] \<Rightarrow> (None, st) | r # rs \<Rightarrow> (r, st\<lparr>net_routes := rs\<rparr>))"

definition open_record_writable :: "server_state \<Rightarrow> bool \<times> server_state" where
  "open_record_writable st =
     (case net_opens st of [] \<Rightarrow> (False, st) | b # bs \<Rightarrow> (b, st\<lparr>net_opens := bs\<rparr>))"

text \<open>At most five attempts to open the record.\<close>

fun open_with_retries :: "nat \<Rightarrow> server_state \<Rightarrow> bool \<times> server_state" where
  "open_with_retries 0 st = (False, st)"
| "open_with_retries (Suc n) st =
     (let (opened, st) = open_record_writable st
      in if opened then (True, st) else open_with_retries n st)"

text \<open>
  \<open>keypair_error\<close> stands for the parser of Veilid keypairs: the text of its error, if any. The
  wait for the node to attach changes no state and is left out.
\<close>

definition setup_dht_and_route ::
  "(string \<Rightarrow> string option) \<Rightarrow> server_state \<Rightarrow> string \<Rightarrow> string
   \<Rightarrow> (route_id option \<times> bytes option \<times> bool) option \<times> server_state" where
  "setup_dht_and_route keypair_error st dht_record_key owner_keypair_hex =
     (case keypair_error owner_keypair_hex of
        Some e \<Rightarrow> (None, st)
      | None \<Rightarrow>
          (let (dht_opened, st) = open_with_retries 5 st;
               (route, st) = new_private_route st;
               st = (case route of
                       None \<Rightarrow> st
                     | Some (rid, blob) \<Rightarrow>
                         if dht_opened
                         then emit [SetDhtValue dht_record_key SUBKEY_SERVER_ROUTE (PubRoute blob)] st
                         else st)
           in (Some (map_option fst route, map_option snd route, dht_opened), st)))"

section \<open>Hosting and giving up a community\<close>

text \<open>
  The errors of \<open>host_community\<close>: a database error or the keypair does not parse; their texts come
  from the libraries.
\<close>

datatype host_result = HostOk | HostErr

definition text_column :: "(hosted_row \<Rightarrow> string) \<Rightarrow> string \<Rightarrow> server_db \<Rightarrow> string" where
  "text_column col cid d =
     (case List.find (\<lambda>r. hr_id r = cid) (t_hosted d) of None \<Rightarrow> [] | Some r \<Rightarrow> col r)"

text \<open>\<open>query_row(..).unwrap_or_default()\<close> on a text column.\<close>

definition query_text ::
  "(hosted_row \<Rightarrow> string) \<Rightarrow> string \<Rightarrow> server_state \<Rightarrow> string \<times> server_state" where
  "query_text col cid st =
     (let (res, st) = sql_query (text_column col cid) st
      in (case res of None \<Rightarrow> [] | Some t \<Rightarrow> t, st))"

definition creator_member :: "request_env \<Rightarrow> string \<Rightarrow> string \<Rightarrow> server_member" where
  "creator_member env key display_name =
     \<lparr>m_pseudonym_key_hex = key, m_display_name = display_name, m_role_ids = owner_role_ids,
      m_joined_at = cast_signed (now_secs env), m_route_blob = None, m_timeout_until = None\<rparr>"

definition register_creator ::
  "request_env \<Rightarrow> server_state \<Rightarrow> string \<Rightarrow> string \<Rightarrow> string \<Rightarrow> server_state" where
  "register_creator env st cid key display_name =
     (let st = sql_run (insert_ignore_member
                 \<lparr>mr_community_id = cid, mr_pseudonym = key, mr_display_name = Some display_name,
                  mr_joined_at = cast_signed (now_secs env), mr_route_blob = None\<rparr>) st;
          st = insert_member_roles cid key owner_role_ids st
      in sql_run (update_hosted cid (\<lambda>r. r\<lparr>hr_creator_pseudonym := key\<rparr>)) st)"

definition publish_all :: "request_env \<Rightarrow> string \<Rightarrow> string \<Rightarrow> server_state \<Rightarrow> server_state" where
  "publish_all env cid name st =
     publish_mek_bundle env cid (publish_member_roster env cid
       (publish_channels env cid (publish_metadata env cid name st)))"

text \<open>The newest key, or a first one.\<close>

definition load_or_create_mek ::
  "request_env \<Rightarrow> server_state \<Rightarrow> string \<Rightarrow> media_encryption_key \<times> server_state" where
  "load_or_create_mek env st cid =
     (let (mek, st) = load_latest_mek st cid
      in case mek of Some k \<Rightarrow> (k, st) | None \<Rightarrow> create_initial_mek env st cid)"

text \<open>The roles of the database, or the default ones.\<close>

definition load_or_create_roles ::
  "server_state \<Rightarrow> string \<Rightarrow> role_definition list option \<times> server_state" where
  "load_or_create_roles st cid =
     (let (roles, st) = load_roles_from_db st cid
      in if roles = Some [] then create_default_roles st cid else (roles, st))"

definition needs_creator :: "string \<Rightarrow> string \<Rightarrow> server_member list \<Rightarrow> bool" where
  "needs_creator creator_pseudonym_key creator_pseudonym_hex members \<longleftrightarrow>
     creator_pseudonym_key \<noteq> [] \<and> creator_pseudonym_hex = []
     \<and> \<not> list_ex (\<lambda>m. m_pseudonym_key_hex m = creator_pseudonym_key) members"

text \<open>The second half: description and creator from the database, registration, publication.\<close>

definition finish_hosting ::
  "request_env \<Rightarrow> server_state \<Rightarrow> string \<Rightarrow> string \<Rightarrow> string \<Rightarrow> string \<Rightarrow> string \<Rightarrow> string
   \<Rightarrow> media_encryption_key \<Rightarrow> server_channel list \<Rightarrow> role_definition list \<Rightarrow> server_member list
   \<Rightarrow> route_id option \<Rightarrow> bytes option \<Rightarrow> bool \<Rightarrow> host_result \<times> server_state" where
  "finish_hosting env st cid dht_key keypair name creator_key creator_display mek channels roles
     members route_id route_blob dht_opened =
     (let (description, st) = query_text hr_description cid st;
          (creator_hex, st) = query_text hr_creator_pseudonym cid st;
          new_creator = needs_creator creator_key creator_hex members;
          st = (if new_creator then register_creator env st cid creator_key creator_display else st);
          community =
            \<lparr>c_community_id = cid, c_dht_record_key = dht_key, c_owner_keypair_hex = keypair,
             c_name = name, c_description = description, c_route_id = route_id,
             c_route_blob = route_blob, c_mek = mek,
             c_members = (if new_creator then members @ [creator_member env creator_key creator_display]
                          else members),
             c_channels = channels, c_roles = roles,
             c_creator_pseudonym_hex = (if new_creator then creator_key else creator_hex)\<rparr>;
          st = st\<lparr>hosted := AList.update cid community (hosted st)\<rparr>
      in (HostOk, if dht_opened then publish_all env cid name st else st))"

definition host_community ::
  "(string \<Rightarrow> string option) \<Rightarrow> request_env \<Rightarrow> server_state \<Rightarrow> string \<Rightarrow> string \<Rightarrow> string \<Rightarrow> string
   \<Rightarrow> string \<Rightarrow> string \<Rightarrow> host_result \<times> server_state" where
  "host_community keypair_error env st cid dht_key keypair name creator_key creator_display =
     (if get_community st cid \<noteq> None then (HostOk, st)
      else
        (let st = sql_run (insert_ignore_hosted
                    \<lparr>hr_id = cid, hr_dht_record_key = dht_key, hr_owner_keypair_hex = keypair,
                     hr_name = name, hr_description = [], hr_creator_pseudonym = [],
                     hr_created_at = uint (now_secs env)\<rparr>) st;
             (mek, st) = load_or_create_mek env st cid;
             (channels, st) = load_channels_from_db st cid
         in case channels of None \<Rightarrow> (HostErr, st)
          | Some channels \<Rightarrow>
            (let (roles, st) = load_or_create_roles st cid
             in case roles of None \<Rightarrow> (HostErr, st)
              | Some roles \<Rightarrow>
                (let (members, st) = load_members_from_db env st cid
                 in case members of None \<Rightarrow> (HostErr, st)
                  | Some members \<Rightarrow>
                    (case setup_dht_and_route keypair_error st dht_key keypair of
                       (None, st) \<Rightarrow> (HostErr, st)
                     | (Some (route_id, route_blob, dht_opened), st) \<Rightarrow>
                         finish_hosting env st cid dht_key keypair name creator_key
                           creator_display mek channels roles members route_id route_blob
                           dht_opened)))))"

definition unhost_community :: "server_state \<Rightarrow> string \<Rightarrow> server_state" where
  "unhost_community st cid =
     (case get_community st cid of
        None \<Rightarrow> st
      | Some c \<Rightarrow>
          (let st = st\<lparr>hosted := AList.delete cid (hosted st)\<rparr>;
               st = (case c_route_id c of None \<Rightarrow> st | Some rid \<Rightarrow> emit [ReleaseRoute rid] st)
           in sql_run (delete_hosted cid) st))"

section \<open>Keeping routes alive\<close>

definition set_route :: "route_id option \<Rightarrow> bytes option \<Rightarrow> hosted_community \<Rightarrow> hosted_community" where
  "set_route rid blob c = c\<lparr>c_route_id := rid, c_route_blob := blob\<rparr>"

text \<open>
  A community in a keep-alive cycle: the values collected before the cycle started. The old route
  id is taken out of the state before the route is released.
\<close>

record keepalive_data =
  k_community_id :: string
  k_dht_key :: string
  k_owner_keypair :: string
  k_route_blob :: "bytes option"
  k_name :: string

definition keepalive_refresh_route ::
  "server_state \<Rightarrow> keepalive_data \<Rightarrow> bytes option \<times> server_state" where
  "keepalive_refresh_route st entry =
     (let cid = k_community_id entry;
          old = Option.bind (get_community st cid) c_route_id;
          st = modify_community cid (\<lambda>c. c\<lparr>c_route_id := None\<rparr>) st;
          st = (case old of None \<Rightarrow> st | Some rid \<Rightarrow> emit [ReleaseRoute rid] st);
          (route, st) = new_private_route st
      in case route of
           Some (rid, blob) \<Rightarrow>
             (Some blob, modify_community cid (set_route (Some rid) (Some blob)) st)
         | None \<Rightarrow> (k_route_blob entry, st))"

fun collect_keepalive ::
  "hosted_community list \<Rightarrow> server_state \<Rightarrow> keepalive_data list \<times> server_state" where
  "collect_keepalive [] st = ([], st)"
| "collect_keepalive (c # cs) st =
     (let (name, st) = query_text hr_name (c_community_id c) st;
          (rest, st) = collect_keepalive cs st
      in (\<lparr>k_community_id = c_community_id c, k_dht_key = c_dht_record_key c,
           k_owner_keypair = c_owner_keypair_hex c, k_route_blob = c_route_blob c,
           k_name = name\<rparr> # rest, st))"

definition rewrite_community ::
  "(string \<Rightarrow> string option) \<Rightarrow> request_env \<Rightarrow> keepalive_data \<Rightarrow> server_state \<Rightarrow> server_state" where
  "rewrite_community keypair_error env entry st =
     (case keypair_error (k_owner_keypair entry) of
        Some e \<Rightarrow> st
      | None \<Rightarrow>
          (let (opened, st) = open_record_writable st
           in if \<not> opened then st
              else
                (let (blob, st) = keepalive_refresh_route st entry;
                     st = (case blob of None \<Rightarrow> st
                           | Some b \<Rightarrow> emit [SetDhtValue (k_dht_key entry) SUBKEY_SERVER_ROUTE (PubRoute b)] st);
                     cid = k_community_id entry
                 in publish_member_roster env cid (publish_channels env cid
                      (publish_metadata env cid (k_name entry) st)))))"

definition rewrite_all_communities ::
  "(string \<Rightarrow> string option) \<Rightarrow> request_env \<Rightarrow> server_state \<Rightarrow> server_state" where
  "rewrite_all_communities keypair_error env st =
     (let (data, st) = collect_keepalive (map snd (hosted st)) st
      in fold (rewrite_community keypair_error env) data st)"

text \<open>One dead route replaced: the id is cleared first, both parts when no new route can be had.\<close>

definition replace_dead_route :: "string \<times> string \<Rightarrow> server_state \<Rightarrow> server_state" where
  "replace_dead_route = (\<lambda>(cid, dht_key) st.
     (let st = modify_community cid (\<lambda>c. c\<lparr>c_route_id := None\<rparr>) st;
          (route, st) = new_private_route st
      in case route of
           Some (rid, blob) \<Rightarrow>
             emit [SetDhtValue dht_key SUBKEY_SERVER_ROUTE (PubRoute blob)]
               (modify_community cid (set_route (Some rid) (Some blob)) st)
         | None \<Rightarrow> modify_community cid (set_route None None) st))"

definition handle_server_route_change :: "server_state \<Rightarrow> route_id list \<Rightarrow> server_state" where
  "handle_server_route_change st dead_routes =
     fold replace_dead_route
       (map (\<lambda>c. (c_community_id c, c_dht_record_key c))
          (filter (\<lambda>c. case c_route_id c of None \<Rightarrow> False | Some rid \<Rightarrow> rid \<in> set dead_routes)
             (map snd (hosted st))))
       st"

section \<open>Start-up\<close>

definition retry_route :: "string \<times> string \<Rightarrow> server_state \<Rightarrow> server_state" where
  "retry_route = (\<lambda>(cid, dht_key) st.
     (let (route, st) = new_private_route st
      in case route of
           None \<Rightarrow> st
         | Some (rid, blob) \<Rightarrow>
             emit [SetDhtValue dht_key SUBKEY_SERVER_ROUTE (PubRoute blob)]
               (modify_community cid (set_route (Some rid) (Some blob)) st)))"

definition needs_route :: "server_state \<Rightarrow> (string \<times> string) list" where
  "needs_route st =
     map (\<lambda>c. (c_community_id c, c_dht_record_key c))
       (filter (\<lambda>c. c_route_blob c = None) (map snd (hosted st)))"

text \<open>Five rounds, with pauses of 5, 10, 20, 40 and 80 seconds before them.\<close>

definition retry_delays :: "nat list" where "retry_delays = [5, 10, 20, 40, 80]"

fun retry_rounds :: "nat list \<Rightarrow> server_state \<Rightarrow> server_state" where
  "retry_rounds [] st = st"
| "retry_rounds (delay # delays) st =
     (let todo = needs_route st
      in if todo = [] then st else retry_rounds delays (fold retry_route todo st))"

definition retry_failed_routes :: "server_state \<Rightarrow> server_state" where
  "retry_failed_routes st = retry_rounds retry_delays st"

definition load_communities_from_db :: "server_state \<Rightarrow> hosted_row list option \<times> server_state" where
  "load_communities_from_db st = sql_query t_hosted st"

definition load_persisted_communities ::
  "(string \<Rightarrow> string option) \<Rightarrow> request_env \<Rightarrow> server_state \<Rightarrow> server_state" where
  "load_persisted_communities keypair_error env st =
     (let (rows, st) = load_communities_from_db st
      in case rows of
           None \<Rightarrow> st
         | Some rows \<Rightarrow>
             fold (\<lambda>r st. snd (host_community keypair_error env st (hr_id r) (hr_dht_record_key r)
                     (hr_owner_keypair_hex r) (hr_name r) (hr_creator_pseudonym r) [])) rows st)"

section \<open>Local control socket\<close>

datatype ipc_request =
    IpcHostCommunity string string string string string string
  | IpcUnhostCommunity string
  | IpcListHosted
  | IpcGetStatus
  | IpcShutdown
  | IpcCommunityRpc string string string

record hosted_community_info =
  hi_community_id :: string
  hi_dht_record_key :: string
  hi_member_count :: nat
  hi_has_route :: bool

datatype ipc_response =
    IpcOk
  | IpcHosted "hosted_community_info list"
  | IpcStatus u64 nat bool
  | IpcError
  | IpcRpcResult community_response

text \<open>
  \<open>attached\<close> is Veilid's answer about its attachment; the response of a forwarded request is kept
  as the value that is serialised. \<open>saturating_sub\<close> of the two clock readings.
\<close>

definition handle_ipc_request ::
  "(string \<Rightarrow> string option) \<Rightarrow> (string \<Rightarrow> string + community_request) \<Rightarrow> bool \<Rightarrow> request_env
   \<Rightarrow> server_state \<Rightarrow> ipc_request \<Rightarrow> server_state \<times> ipc_response" where
  "handle_ipc_request keypair_error parse_request attached env st request =
     (case request of
        IpcHostCommunity cid dht_key keypair name creator_key creator_display \<Rightarrow>
          (let (res, st) = host_community keypair_error env st cid dht_key keypair name creator_key
                             creator_display
           in (st, case res of HostOk \<Rightarrow> IpcOk | HostErr \<Rightarrow> IpcError))
      | IpcUnhostCommunity cid \<Rightarrow> (unhost_community st cid, IpcOk)
      | IpcListHosted \<Rightarrow>
          (st, IpcHosted (map (\<lambda>c. \<lparr>hi_community_id = c_community_id c,
                 hi_dht_record_key = c_dht_record_key c, hi_member_count = length (c_members c),
                 hi_has_route = (c_route_id c \<noteq> None)\<rparr>) (map snd (hosted st))))
      | IpcGetStatus \<Rightarrow>
          (st, IpcStatus (if started_at st \<le> now_secs env then now_secs env - started_at st else 0)
                 (length (hosted st)) attached)
      | IpcShutdown \<Rightarrow> (st, IpcOk)
      | IpcCommunityRpc cid sender json \<Rightarrow>
          (let (st, resp) = handle_community_rpc_direct parse_request env st cid sender json
           in (st, IpcRpcResult resp)))"

end
