(* ===== verification/Persistence.thy ===== *)
theory Persistence
  imports Mirror Hosting
begin

text \<open>
  Every handler keeps the mirror while the database works: what it changes in memory it also
  changes in the rows of the community, and it touches nothing of the others.
\<close>

section \<open>Handlers keep the mirror\<close>

text \<open>
  \<open>mirrors_step cid st st'\<close>: the community \<open>cid\<close> stays mirrored, and nothing happens to the rows and
  the memory of the others.
\<close>

definition mirrors_step :: "string \<Rightarrow> server_state \<Rightarrow> server_state \<Rightarrow> bool" where
  "mirrors_step cid st st' \<longleftrightarrow>
     (\<forall>a. a \<noteq> cid \<longrightarrow> get_community st' a = get_community st a
        \<and> community_rows a (db st') = community_rows a (db st))
     \<and> (\<forall>c'. get_community st' cid = Some c' \<longrightarrow> mirrors cid (community_rows cid (db st')) c')"

lemma mirrored_step:
  assumes "mirrored st" and "mirrors_step cid st st'" and "faults st' = []" and "wf_server st'"
  shows "mirrored st'"
  unfolding mirrored_def
proof (intro conjI allI impI)
  fix a c' assume "get_community st' a = Some c'"
  then show "mirrors a (community_rows a (db st')) c'"
    using assms(1,2) by (cases "a = cid") (auto simp: mirrored_def mirrors_step_def)
qed (use assms in auto)

lemma mirrors_step_same:
  assumes "mirrored st" and "get_community st' = get_community st"
    and "\<And>a. community_rows a (db st') = community_rows a (db st)"
  shows "mirrors_step cid st st'"
  using assms by (simp add: mirrors_step_def mirrored_def)

lemma mirrors_step_refl [simp]: "mirrored st \<Longrightarrow> mirrors_step cid st st"
  by (simp add: mirrors_step_same)

lemma mirrors_step_and_then:
  assumes "\<And>st. get_community (f st) = get_community st" and "\<And>st. db (f st) = db st"
    and "mirrors_step cid st (fst res)"
  shows "mirrors_step cid st (fst (and_then P f res))"
  using get_and_then [of f P res, OF assms(1)] db_and_then [of f P res, OF assms(2)] assms(3)
  by (simp add: mirrors_step_def)

lemma mirrors_step_with_permission:
  assumes "mirrored st"
    and "\<And>c. get_community st cid = Some c \<Longrightarrow> c_community_id c = cid \<Longrightarrow> wf_community c \<Longrightarrow>
      mirrors cid (community_rows cid (db st)) c \<Longrightarrow> mirrors_step cid st (fst (rest c))"
  shows "mirrors_step cid st (fst (member_with_permission env st cid s p rest))"
  by (rule member_with_permission_cases [of env st cid s p rest])
     (use assms in \<open>auto simp: mirrored_def wf_server_def\<close>)

text \<open>The parts of the mirror an update of one table or of one vector leaves alone.\<close>

lemma mirrors_I:
  assumes "mirrors cid d c"
    and "map (\<lambda>r. r\<lparr>hr_created_at := 0\<rparr>) (t_hosted d') = [hosted_to_row cid c']"
    and "t_roles d' = map (role_to_row cid) (c_roles c')"
    and "mirrors_members cid d' c'" and "mirrors_channels cid d' c'" and "mirrors_mek d' (c_mek c')"
  shows "mirrors cid d' c'"
  using assms by (simp add: mirrors_def)

lemma find_same_roster:
  "c_members c' = c_members c \<Longrightarrow> find_member c' = find_member c"
  "c_channels c' = c_channels c \<Longrightarrow> find_channel c' = find_channel c"
  by (simp_all add: find_member_def find_channel_def fun_eq_iff)

lemma mirrors_members_same:
  assumes "mirrors_members cid d c" and "c_members c' = c_members c"
    and "t_members d' = t_members d" "t_member_roles d' = t_member_roles d" "t_timeouts d' = t_timeouts d"
  shows "mirrors_members cid d' c'"
  using assms find_same_roster(1) [OF assms(2)]
  by (simp add: mirrors_members_def role_ids_of_def timeouts_of_def)

lemma mirrors_channels_same:
  assumes "mirrors_channels cid d c" and "c_channels c' = c_channels c"
    and "t_channels d' = t_channels d" "t_overwrites d' = t_overwrites d"
  shows "mirrors_channels cid d' c'"
  using assms find_same_roster(2) [OF assms(2)]
  by (simp add: mirrors_channels_def stored_overwrites_def)

lemma mirrors_mek_same: "mirrors_mek d k \<Longrightarrow> t_mek d' = t_mek d \<Longrightarrow> mirrors_mek d' k"
  by (simp add: mirrors_mek_def)

lemma hosted_row_same:
  "c_dht_record_key c' = c_dht_record_key c \<Longrightarrow> c_owner_keypair_hex c' = c_owner_keypair_hex c \<Longrightarrow>
    c_name c' = c_name c \<Longrightarrow> c_description c' = c_description c \<Longrightarrow>
    c_creator_pseudonym_hex c' = c_creator_pseudonym_hex c \<Longrightarrow> hosted_to_row cid c' = hosted_to_row cid c"
  by (simp add: hosted_to_row_def)

lemma identity_fields [simp]:
  "c_dht_record_key (modify_member k f c) = c_dht_record_key c"
  "c_owner_keypair_hex (modify_member k f c) = c_owner_keypair_hex c"
  "c_dht_record_key (modify_channel h g c) = c_dht_record_key c"
  "c_owner_keypair_hex (modify_channel h g c) = c_owner_keypair_hex c"
  "c_dht_record_key (modify_role i e c) = c_dht_record_key c"
  "c_owner_keypair_hex (modify_role i e c) = c_owner_keypair_hex c"
  "c_dht_record_key (remove_member k c) = c_dht_record_key c"
  "c_owner_keypair_hex (remove_member k c) = c_owner_keypair_hex c"
  "c_dht_record_key (remove_channel h c) = c_dht_record_key c"
  "c_owner_keypair_hex (remove_channel h c) = c_owner_keypair_hex c"
  "c_dht_record_key (drop_role i c) = c_dht_record_key c"
  "c_owner_keypair_hex (drop_role i c) = c_owner_keypair_hex c"
  "c_dht_record_key (push_member m c) = c_dht_record_key c"
  "c_owner_keypair_hex (push_member m c) = c_owner_keypair_hex c"
  "c_dht_record_key (push_channel ch c) = c_dht_record_key c"
  "c_owner_keypair_hex (push_channel ch c) = c_owner_keypair_hex c"
  "c_dht_record_key (push_role r c) = c_dht_record_key c"
  "c_owner_keypair_hex (push_role r c) = c_owner_keypair_hex c"
  by (simp_all add: modify_member_def modify_channel_def modify_role_def remove_member_def
      remove_channel_def remove_role_def drop_role_def push_member_def push_channel_def push_role_def)

text \<open>Three shapes of change: to the members, to the channels, to the roles.\<close>

lemma mirrors_by_members:
  assumes "mirrors cid d c" and "mirrors_members cid d' c'"
    and "t_hosted d' = t_hosted d" "t_roles d' = t_roles d" "t_channels d' = t_channels d"
      "t_overwrites d' = t_overwrites d" "t_mek d' = t_mek d"
    and "hosted_to_row cid c' = hosted_to_row cid c" "c_roles c' = c_roles c"
      "c_channels c' = c_channels c" "c_mek c' = c_mek c"
  shows "mirrors cid d' c'"
  using assms by (auto simp: mirrors_def intro: mirrors_channels_same mirrors_mek_same)

lemma mirrors_by_channels:
  assumes "mirrors cid d c" and "mirrors_channels cid d' c'"
    and "t_hosted d' = t_hosted d" "t_roles d' = t_roles d" "t_members d' = t_members d"
      "t_member_roles d' = t_member_roles d" "t_timeouts d' = t_timeouts d" "t_mek d' = t_mek d"
    and "hosted_to_row cid c' = hosted_to_row cid c" "c_roles c' = c_roles c"
      "c_members c' = c_members c" "c_mek c' = c_mek c"
  shows "mirrors cid d' c'"
  using assms by (auto simp: mirrors_def intro: mirrors_members_same mirrors_mek_same)

lemma mirrors_by_roles:
  assumes "mirrors cid d c" and "t_roles d' = map (role_to_row cid) (c_roles c')"
    and "t_hosted d' = t_hosted d" "t_channels d' = t_channels d" "t_overwrites d' = t_overwrites d"
      "t_members d' = t_members d" "t_member_roles d' = t_member_roles d"
      "t_timeouts d' = t_timeouts d" "t_mek d' = t_mek d"
    and "hosted_to_row cid c' = hosted_to_row cid c" "c_channels c' = c_channels c"
      "c_members c' = c_members c" "c_mek c' = c_mek c"
  shows "mirrors cid d' c'"
  using assms
  by (auto simp: mirrors_def intro: mirrors_members_same mirrors_channels_same mirrors_mek_same)

lemma inserts_admitted:
  "insert_channel cr d \<noteq> None \<longleftrightarrow> t_hosted (community_rows (cr_community_id cr) d) \<noteq> []
    \<and> cr_channel_type cr \<in> {''text'', ''voice''}
    \<and> \<not> list_ex (\<lambda>r. cr_id r = cr_id cr) (t_channels (community_rows (cr_community_id cr) d))"
  "insert_role rr d \<noteq> None \<longleftrightarrow> t_hosted (community_rows (rr_community_id rr) d) \<noteq> []
    \<and> \<not> list_ex (\<lambda>r. rr_id r = rr_id rr) (t_roles (community_rows (rr_community_id rr) d))"
  by (auto simp: insert_channel_def insert_role_def row_insert_def exists_defs row_exists_own
      channel_pk_def role_pk_def)

lemma mirrored_faults [simp]: "mirrored st \<Longrightarrow> faults st = []"
  by (simp add: mirrored_def)

lemma mirrors_step_I:
  assumes "\<And>a. get_community st' a = (if a = cid then Some c' else get_community st a)"
    and "\<And>a. a \<noteq> cid \<Longrightarrow> community_rows a (db st') = community_rows a (db st)"
    and "mirrors cid (community_rows cid (db st')) c'"
  shows "mirrors_step cid st st'"
  using assms by (simp add: mirrors_step_def)

lemma channel_to_row_fold:
  "\<lparr>cr_community_id = cid, cr_id = ch_id ch, cr_name = ch_name ch, cr_channel_type = ch_channel_type ch,
      cr_sort_order = ch_sort_order ch\<rparr> = channel_to_row cid ch"
  "cr_community_id (channel_to_row cid ch) = cid" "cr_channel_type (channel_to_row cid ch) = ch_channel_type ch"
  by (simp_all add: channel_to_row_def)

lemma new_channel_overwrites: "ch_permission_overwrites (new_channel env c n ty) = []"
  by (simp add: new_channel_def)

lemma mirrors_step_create_channel:
  assumes "mirrored st"
  shows "mirrors_step cid st (fst (handle_create_channel env st cid s n ty))"
  unfolding handle_create_channel_def
proof (rule mirrors_step_with_permission [OF assms])
  fix c assume c: "get_community st cid = Some c" "c_community_id c = cid"
    and m: "mirrors cid (community_rows cid (db st)) c"
  let ?ch = "new_channel env c n ty"
  let ?stmt = "insert_channel (channel_to_row cid ?ch)"
  have f: "faults st = []" using assms by simp
  have "mirrors_step cid st (modify_community cid (push_channel ?ch) (sql_run ?stmt st))"
    if "?stmt (db st) \<noteq> None"
  proof (rule mirrors_step_I)
    show "mirrors cid (community_rows cid (db (modify_community cid (push_channel ?ch) (sql_run ?stmt st)))) (push_channel ?ch c)"
      using that [unfolded inserts_admitted channel_to_row_fold]
        mirrors_channels_push [of cid "community_rows cid (db st)" c ?ch] m
      by (intro mirrors_by_channels [OF m] hosted_row_same)
         (simp_all add: frame_simps rows_simps f channel_to_row_fold mirrors_def new_channel_overwrites)
  qed (use c in \<open>simp_all add: frame_simps rows_simps channel_to_row_fold\<close>)
  then show "mirrors_step cid st (fst (if ty \<noteq> ''text'' \<and> ty \<noteq> ''voice'' then (st, ResError 400 (invalid_channel_type_message ty))
     else let channel = ?ch; (ok, st) = sql_execute (insert_channel
          \<lparr>cr_community_id = c_community_id c, cr_id = ch_id channel, cr_name = ch_name channel,
           cr_channel_type = ch_channel_type channel, cr_sort_order = ch_sort_order channel\<rparr>) st
        in if \<not> ok then (st, ResError 500 ''failed to create channel'')
           else (modify_community cid (push_channel channel) st, ChannelCreated (ch_id channel))))"
    using assms f by (auto simp: Let_def case_prod_unfold insert_ok c(2) channel_to_row_fold sql_run_no_faults)
qed

lemma mirrors_step_frames [simp]:
  "mirrors_step cid st (broadcast_to_members a ex b st') = mirrors_step cid st st'"
  "mirrors_step cid st (publish_metadata env a n st') = mirrors_step cid st st'"
  "mirrors_step cid st (publish_channels env a st') = mirrors_step cid st st'"
  "mirrors_step cid st (publish_member_roster env a st') = mirrors_step cid st st'"
  "mirrors_step cid st (publish_mek_bundle env a st') = mirrors_step cid st st'"
  by (simp_all add: mirrors_step_def frame_simps)

lemma mirrors_step_delete_channel:
  assumes "mirrored st"
  shows "mirrors_step cid st (fst (handle_delete_channel env st cid s h))"
  unfolding handle_delete_channel_def
proof (rule mirrors_step_with_permission [OF assms])
  fix c assume c: "get_community st cid = Some c" "c_community_id c = cid"
    and m: "mirrors cid (community_rows cid (db st)) c"
  have f: "faults st = []" using assms by simp
  have mc: "mirrors_channels cid (community_rows cid (db st)) c" using m by (simp add: mirrors_def)
  let ?st' = "sql_run (delete_channel cid h) (modify_community cid (remove_channel h) st)"
  have "mirrors cid (community_rows cid (db ?st')) (remove_channel h c)"
  proof (cases "list_ex (\<lambda>r. cr_id r = h) (t_channels (community_rows cid (db st)))")
    case True
    then show ?thesis using mirrors_channels_remove [OF mc, of h]
      by (intro mirrors_by_channels [OF m] hosted_row_same) (simp_all add: frame_simps rows_simps f)
  next
    case False
    have "mirrors_channels cid (community_rows cid (db st)) (remove_channel h c)"
      using mc mirrors_channels_absent [OF mc False] by (auto intro: mirrors_channels_same)
    with False show ?thesis
      by (intro mirrors_by_channels [OF m] hosted_row_same) (simp_all add: frame_simps rows_simps f)
  qed
  then have "mirrors_step cid st ?st'"
    by (rule mirrors_step_I [rotated 2]) (use c in \<open>simp_all add: frame_simps rows_simps\<close>)
  then show "mirrors_step cid st (fst (sql_run (delete_channel (c_community_id c) h)
      (modify_community cid (remove_channel h) st), ResOk))"
    using c(2) by simp
qed

lemma mirrors_step_rename_channel:
  assumes "mirrored st"
  shows "mirrors_step cid st (fst (handle_rename_channel env st cid s h n))"
  unfolding handle_rename_channel_def
proof (rule mirrors_step_with_permission [OF assms])
  fix c assume c: "get_community st cid = Some c" "c_community_id c = cid" and w: "wf_community c"
    and m: "mirrors cid (community_rows cid (db st)) c"
  have f: "faults st = []" using assms by simp
  have mc: "mirrors_channels cid (community_rows cid (db st)) c" using m by (simp add: mirrors_def)
  let ?st' = "sql_run (rename_channel cid h n) (modify_community cid (modify_channel h (\<lambda>ch. ch\<lparr>ch_name := n\<rparr>)) st)"
  have "mirrors cid (community_rows cid (db ?st')) (modify_channel h (\<lambda>ch. ch\<lparr>ch_name := n\<rparr>) c)"
    using mirrors_channels_rename [OF mc, of h n] w
    by (intro mirrors_by_channels [OF m] hosted_row_same)
       (simp_all add: frame_simps rows_simps f wf_community_def)
  then have "mirrors_step cid st ?st'"
    by (rule mirrors_step_I [rotated 2]) (use c in \<open>simp_all add: frame_simps rows_simps\<close>)
  then show "mirrors_step cid st (fst (case find_channel c h of None \<Rightarrow> (st, ResError 404 ''channel not found'')
     | Some _ \<Rightarrow> (sql_run (rename_channel (c_community_id c) h n)
          (modify_community cid (modify_channel h (\<lambda>ch. ch\<lparr>ch_name := n\<rparr>)) st), ResOk)))"
    using c(2) assms by (simp split: option.split)
qed

lemma names_overwrite_fold:
  "(\<lambda>r. or_channel_id r = h \<and> or_target_type r = ty \<and> or_target_id r = t) = names_overwrite h ty t"
  by (simp add: fun_eq_iff names_overwrite_def)

lemma mirrors_step_set_overwrite:
  assumes "mirrored st" and "ty \<in> {''role'', ''member''}"
  shows "mirrors_step cid st (fst (handle_set_channel_overwrite env st cid s h ty t al de))"
  unfolding handle_set_channel_overwrite_def
proof (rule mirrors_step_with_permission [OF assms(1)])
  fix c assume c: "get_community st cid = Some c" "c_community_id c = cid" and w: "wf_community c"
    and m: "mirrors cid (community_rows cid (db st)) c"
  have f: "faults st = []" using assms by simp
  have mc: "mirrors_channels cid (community_rows cid (db st)) c" using m by (simp add: mirrors_def)
  let ?ow = "\<lparr>ow_target_type = parse_overwrite_type ty, ow_target_id = t, ow_allow = al, ow_deny = de\<rparr>"
  let ?f = "\<lambda>ch. ch\<lparr>ch_permission_overwrites := upsert_overwrite ?ow (ch_permission_overwrites ch)\<rparr>"
  let ?r = "\<lparr>or_community_id = cid, or_channel_id = h, or_target_type = ty, or_target_id = t,
      or_allow_bits = cast_signed al, or_deny_bits = cast_signed de\<rparr>"
  let ?st' = "sql_run (replace_overwrite ?r) (modify_community cid (modify_channel h ?f) st)"
  have "mirrors_step cid st ?st'" if ch: "find_channel c h = Some ch" for ch
  proof (rule mirrors_step_I)
    have "distinct (map ow_key (ch_permission_overwrites ch))"
      using w channels.lookup_SomeD [OF ch] by (simp add: wf_community_def)
    note u = mirrors_channels_set_overwrite [OF mc ch this assms(2), of t al de]
    have "list_ex (\<lambda>r. cr_id r = h) (t_channels (community_rows cid (db st)))"
      using channels.lookup_SomeD [OF ch] mc by (auto simp: mirrors_channels_def list_ex_iff)
    then show "mirrors cid (community_rows cid (db ?st')) (modify_channel h ?f c)"
      using u assms(2)
      by (intro mirrors_by_channels [OF m] hosted_row_same)
         (simp_all add: frame_simps rows_simps f names_overwrite_fold)
  qed (use c in \<open>simp_all add: frame_simps rows_simps\<close>)
  then show "mirrors_step cid st (fst (case find_channel c h of None \<Rightarrow> (st, ResError 404 ''channel not found'')
     | Some _ \<Rightarrow> let ow = ?ow; st = modify_community cid (modify_channel h
            (\<lambda>ch. ch\<lparr>ch_permission_overwrites := upsert_overwrite ow (ch_permission_overwrites ch)\<rparr>)) st;
          st = sql_run (replace_overwrite \<lparr>or_community_id = c_community_id c, or_channel_id = h, or_target_type = ty,
            or_target_id = t, or_allow_bits = cast_signed al, or_deny_bits = cast_signed de\<rparr>) st;
          st = broadcast_to_members cid [] (ChannelOverwriteChanged cid h) st in (st, ResOk)))"
    using c(2) assms(1) by (simp add: Let_def split: option.split)
qed

lemma mirrors_step_delete_overwrite:
  assumes "mirrored st" and "ty \<in> {''role'', ''member''}"
  shows "mirrors_step cid st (fst (handle_delete_channel_overwrite env st cid s h ty t))"
  unfolding handle_delete_channel_overwrite_def Let_def
proof (rule mirrors_step_with_permission [OF assms(1)])
  fix c assume c: "get_community st cid = Some c" "c_community_id c = cid"
    and m: "mirrors cid (community_rows cid (db st)) c"
  have f: "faults st = []" using assms by simp
  have mc: "mirrors_channels cid (community_rows cid (db st)) c" using m by (simp add: mirrors_def)
  let ?f = "\<lambda>ch. ch\<lparr>ch_permission_overwrites := filter (\<lambda>ow. \<not> (ow_target_type ow = parse_overwrite_type ty
      \<and> ow_target_id ow = t)) (ch_permission_overwrites ch)\<rparr>"
  let ?st' = "sql_run (delete_overwrite cid h ty t) (modify_community cid (modify_channel h ?f) st)"
  have "mirrors cid (community_rows cid (db ?st')) (modify_channel h ?f c)"
    using mirrors_channels_delete_overwrite [OF mc assms(2), of h t]
    by (intro mirrors_by_channels [OF m] hosted_row_same)
       (simp_all add: frame_simps rows_simps f names_overwrite_fold)
  then have "mirrors_step cid st ?st'"
    by (rule mirrors_step_I [rotated 2]) (use c in \<open>simp_all add: frame_simps rows_simps\<close>)
  then show "mirrors_step cid st (fst (sql_run (delete_overwrite (c_community_id c) h ty t)
      (modify_community cid (modify_channel h ?f) st), ResOk))"
    using c(2) by simp
qed

lemma mirrors_step_create_role:
  assumes "mirrored st"
  shows "mirrors_step cid st (fst (handle_create_role env st cid s n col p h mm))"
  unfolding handle_create_role_def
proof (rule mirrors_step_with_permission [OF assms])
  fix c assume c: "get_community st cid = Some c" "c_community_id c = cid"
    and m: "mirrors cid (community_rows cid (db st)) c"
  let ?r = "\<lparr>rd_id = next_role_id c, rd_name = n, rd_color = col, rd_permissions = p,
      rd_position = new_role_position (highest_role_position c s), rd_hoist = h, rd_mentionable = mm\<rparr>"
  let ?stmt = "insert_role (role_to_row cid ?r)"
  have f: "faults st = []" using assms by simp
  have i: "rr_community_id (role_to_row cid r) = cid" for r by (simp add: role_to_row_def)
  have "mirrors_step cid st (modify_community cid (push_role ?r) (sql_run ?stmt st))"
    if "?stmt (db st) \<noteq> None"
  proof (rule mirrors_step_I)
    show "mirrors cid (community_rows cid (db (modify_community cid (push_role ?r) (sql_run ?stmt st)))) (push_role ?r c)"
      using that [unfolded inserts_admitted i] m
      by (intro mirrors_by_roles [OF m] hosted_row_same)
         (simp_all add: frame_simps rows_simps f i mirrors_def)
  qed (use c in \<open>simp_all add: frame_simps rows_simps i\<close>)
  then show "mirrors_step cid st (fst (let next_id = next_role_id c;
      position = new_role_position (highest_role_position c s);
      role = \<lparr>rd_id = next_id, rd_name = n, rd_color = col, rd_permissions = p, rd_position = position,
        rd_hoist = h, rd_mentionable = mm\<rparr>;
      (ok, st) = sql_execute (insert_role (role_to_row (c_community_id c) role)) st
      in if \<not> ok then (st, ResError 500 ''failed to create role'')
         else (modify_community cid (push_role role) st, RoleCreated next_id)))"
    using assms f by (auto simp: Let_def case_prod_unfold insert_ok c(2) sql_run_no_faults)
qed

lemma mirrors_step_edit_role:
  assumes "mirrored st"
  shows "mirrors_step cid st (fst (handle_edit_role env st cid s rid n col p pos h mm))"
  unfolding handle_edit_role_def
proof (rule mirrors_step_with_permission [OF assms])
  fix c assume c: "get_community st cid = Some c" "c_community_id c = cid" and w: "wf_community c"
    and m: "mirrors cid (community_rows cid (db st)) c"
  let ?e = "edit_role n col p pos h mm"
  have f: "faults st = []" using assms by simp
  have i: "rr_community_id (role_to_row cid r) = cid" for r by (simp add: role_to_row_def)
  have "mirrors_step cid st (sql_run (update_role (role_to_row cid (?e target)))
      (modify_community cid (modify_role rid ?e) st))" (is "mirrors_step cid st ?st'")
    if t: "find_role c rid = Some target" for target
  proof (rule mirrors_step_I)
    have "row_update (\<lambda>r. rr_id r = rr_id (role_to_row cid (?e target))) (\<lambda>_. role_to_row cid (?e target))
        (t_roles (community_rows cid (db st))) = map (role_to_row cid) (c_roles (modify_role rid ?e c))"
      by (rule roles_rows_edit [OF _ _ t]) (use m w in \<open>simp_all add: mirrors_def wf_community_def\<close>)
    then show "mirrors cid (community_rows cid (db ?st')) (modify_role rid ?e c)"
      by (intro mirrors_by_roles [OF m] hosted_row_same)
         (simp_all add: frame_simps rows_simps f i del: row_to_key)
  qed (use c in \<open>simp_all add: frame_simps rows_simps i\<close>)
  then show "mirrors_step cid st (fst (let sender_pos = highest_role_position c s;
      sender_is_admin = is_administrator (member_base_permissions env c s)
      in case find_role c rid of None \<Rightarrow> (st, ResError 404 ''role not found'')
       | Some target \<Rightarrow> if rd_position target \<ge> sender_pos \<and> \<not> sender_is_admin
           then (st, ResError 403 ''cannot edit a role at or above your position'')
           else let role = ?e target; st = modify_community cid (modify_role rid ?e) st;
                  st = sql_run (update_role (role_to_row (c_community_id c) role)) st in (st, ResOk)))"
    using c(2) assms by (simp add: Let_def split: option.split)
qed

lemma mirrors_step_delete_role:
  assumes "mirrored st"
  shows "mirrors_step cid st (fst (handle_delete_role env st cid s rid))"
proof (cases "rid = role_everyone_id")
  case True
  then show ?thesis using assms by (simp add: handle_delete_role_def)
next
  case False
  show ?thesis unfolding handle_delete_role_def Let_def if_not_P [OF False]
  proof (rule mirrors_step_with_permission [OF assms])
    fix c assume c: "get_community st cid = Some c" "c_community_id c = cid"
      and m: "mirrors cid (community_rows cid (db st)) c"
    let ?st' = "sql_run (delete_role_assignments cid (uint rid)) (sql_run (delete_role cid (uint rid))
        (modify_community cid (drop_role rid) st))"
    have f: "faults st = []" using assms by simp
    have "mirrors cid (community_rows cid (db ?st')) (drop_role rid c)"
    proof (rule mirrors_I [OF m])
      show "map (\<lambda>r. r\<lparr>hr_created_at := 0\<rparr>) (t_hosted (community_rows cid (db ?st'))) = [hosted_to_row cid (drop_role rid c)]"
        using m by (simp add: frame_simps rows_simps f mirrors_def hosted_to_row_def)
      show "t_roles (community_rows cid (db ?st')) = map (role_to_row cid) (c_roles (drop_role rid c))"
        using m by (simp add: frame_simps rows_simps f mirrors_def row_delete_map word_uint_eq_iff [symmetric])
      show "mirrors_members cid (community_rows cid (db ?st')) (drop_role rid c)"
        using mirrors_members_drop_role [of cid "community_rows cid (db st)" c rid] m
        by (simp add: frame_simps rows_simps f mirrors_def mirrors_members_def)
      show "mirrors_channels cid (community_rows cid (db ?st')) (drop_role rid c)"
        by (rule mirrors_channels_same [of _ "community_rows cid (db st)" c])
           (use m in \<open>simp_all add: frame_simps rows_simps f mirrors_def\<close>)
      show "mirrors_mek (community_rows cid (db ?st')) (c_mek (drop_role rid c))"
        using m by (simp add: frame_simps rows_simps f mirrors_def mirrors_mek_def)
    qed
    then have "mirrors_step cid st ?st'"
      by (rule mirrors_step_I [rotated 2]) (use c in \<open>simp_all add: frame_simps rows_simps\<close>)
    then show "mirrors_step cid st (fst (if role_position_or_max c rid \<ge> highest_role_position c s
        then (st, ResError 403 ''cannot delete a role at or above your position'')
        else (sql_run (delete_role_assignments (c_community_id c) (uint rid))
          (sql_run (delete_role (c_community_id c) (uint rid)) (modify_community cid (drop_role rid) st)), ResOk)))"
      using c(2) assms by simp
  qed
qed

lemma mirrors_step_assign_role:
  assumes "mirrored st"
  shows "mirrors_step cid st (fst (handle_assign_role env st cid s t rid))"
  unfolding handle_assign_role_def
proof (rule mirrors_step_with_permission [OF assms])
  fix c assume c: "get_community st cid = Some c" "c_community_id c = cid"
    and m: "mirrors cid (community_rows cid (db st)) c"
  have f: "faults st = []" using assms by simp
  have mm: "mirrors_members cid (community_rows cid (db st)) c" using m by (simp add: mirrors_def)
  let ?st' = "sql_run (insert_ignore_member_role (member_role_to_row cid t rid))
      (modify_community cid (modify_member t (add_role_id rid)) st)"
  have i: "xr_community_id (member_role_to_row cid t rid) = cid" by (simp add: member_role_to_row_def)
  have step: "mirrors_step cid st ?st'" if t: "find_member c t = Some mb" "rid \<notin> set (m_role_ids mb)" for mb
  proof (rule mirrors_step_I)
    have e: "list_ex (\<lambda>r. mr_pseudonym r = t) (t_members (community_rows cid (db st)))"
      using members.lookup_SomeD [OF t(1)] mm by (auto simp: mirrors_members_def list_ex_iff)
    have held: "filter (\<lambda>r. xr_pseudonym r = t) (t_member_roles (community_rows cid (db st)))
        = map (member_role_to_row cid t) (m_role_ids mb)"
      using mm t(1) by (simp add: mirrors_members_def role_ids_of_def)
    have ex: "list_ex (\<lambda>r. xr_pseudonym r = t \<and> xr_role_id r = uint rid) rs \<longleftrightarrow>
        uint rid \<in> set (map xr_role_id (filter (\<lambda>r. xr_pseudonym r = t) rs))" for rs
      by (auto simp: list_ex_iff image_iff)
    have "\<not> list_ex (\<lambda>r. xr_pseudonym r = t \<and> xr_role_id r = uint rid) (t_member_roles (community_rows cid (db st)))"
      unfolding ex held using t(2) by (auto simp: word_uint_eq_iff [symmetric])
    then show "mirrors cid (community_rows cid (db ?st')) (modify_member t (add_role_id rid) c)"
      using e mirrors_members_add_role [OF mm t(1), of rid]
      by (intro mirrors_by_members [OF m] hosted_row_same) (simp_all add: frame_simps rows_simps f i)
  qed (use c in \<open>simp_all add: frame_simps rows_simps i\<close>)
  have row: "\<lparr>xr_community_id = cid, xr_pseudonym = t, xr_role_id = uint rid\<rparr> = member_role_to_row cid t rid"
    by (simp add: member_role_to_row_def)
  show "mirrors_step cid st (fst (check_then st (check_hierarchy c s t)
      (if role_position_or_max c rid \<ge> highest_role_position c s
       then (st, ResError 403 ''cannot assign a role at or above your position'')
       else case find_member c t of None \<Rightarrow> (st, ResError 404 ''target member not found'')
         | Some member \<Rightarrow> if rid \<in> set (m_role_ids member) then (st, ResOk)
             else let st = modify_community cid (modify_member t (add_role_id rid)) st;
                      st = sql_run (insert_ignore_member_role \<lparr>xr_community_id = c_community_id c,
                             xr_pseudonym = t, xr_role_id = uint rid\<rparr>) st in (st, ResOk))))"
    using c(2) assms step by (simp add: check_eqs Let_def row split: option.split)
qed

lemma mirrors_step_unassign_role:
  assumes "mirrored st"
  shows "mirrors_step cid st (fst (handle_unassign_role env st cid s t rid))"
proof (cases "rid = role_everyone_id")
  case True
  then show ?thesis using assms by (simp add: handle_unassign_role_def)
next
  case False
  show ?thesis unfolding handle_unassign_role_def Let_def if_not_P [OF False]
  proof (rule mirrors_step_with_permission [OF assms])
    fix c assume c: "get_community st cid = Some c" "c_community_id c = cid"
      and m: "mirrors cid (community_rows cid (db st)) c"
    have f: "faults st = []" using assms by simp
    let ?st' = "sql_run (delete_member_role cid t (uint rid)) (modify_community cid (modify_member t (remove_role_id rid)) st)"
    have "mirrors cid (community_rows cid (db ?st')) (modify_member t (remove_role_id rid) c)"
      using mirrors_members_remove_role [of cid "community_rows cid (db st)" c t rid] m
      by (intro mirrors_by_members [OF m] hosted_row_same)
         (simp_all add: frame_simps rows_simps f mirrors_def)
    then have "mirrors_step cid st ?st'"
      by (rule mirrors_step_I [rotated 2]) (use c in \<open>simp_all add: frame_simps rows_simps\<close>)
    then show "mirrors_step cid st (fst (check_then st (check_hierarchy c s t)
        (case find_member c t of None \<Rightarrow> (st, ResError 404 ''target member not found'')
         | Some member \<Rightarrow> (sql_run (delete_member_role (c_community_id c) t (uint rid))
             (modify_community cid (modify_member t (remove_role_id rid)) st), ResOk))))"
      using c(2) assms by (simp add: check_eqs split: option.split)
  qed
qed

lemma mirrors_step_timeout:
  assumes "mirrored st"
  shows "mirrors_step cid st (fst (handle_timeout_member env st cid s t dur reason))"
  unfolding handle_timeout_member_def
proof (rule mirrors_step_with_permission [OF assms])
  fix c assume c: "get_community st cid = Some c" "c_community_id c = cid"
    and m: "mirrors cid (community_rows cid (db st)) c"
  have f: "faults st = []" using assms by simp
  have mm: "mirrors_members cid (community_rows cid (db st)) c" using m by (simp add: mirrors_def)
  let ?u = "now_secs env + dur"
  let ?r = "\<lparr>tr_community_id = cid, tr_pseudonym = t, tr_timeout_until = cast_signed ?u, tr_reason = reason\<rparr>"
  let ?st' = "sql_run (replace_timeout ?r) (modify_community cid (modify_member t (set_timeout (Some ?u))) st)"
  have step: "mirrors_step cid st ?st'" if t: "find_member c t = Some mb" for mb
  proof (rule mirrors_step_I)
    have "list_ex (\<lambda>r. mr_pseudonym r = t) (t_members (community_rows cid (db st)))"
      using members.lookup_SomeD [OF t] mm by (auto simp: mirrors_members_def list_ex_iff)
    then show "mirrors cid (community_rows cid (db ?st')) (modify_member t (set_timeout (Some ?u)) c)"
      using mirrors_members_set_timeout [OF mm t, of ?r ?u]
      by (intro mirrors_by_members [OF m] hosted_row_same) (simp_all add: frame_simps rows_simps f)
  qed (use c in \<open>simp_all add: frame_simps rows_simps\<close>)
  show "mirrors_step cid st (fst (check_then st (check_hierarchy c s t)
      (let timeout_until = ?u in case find_member c t of None \<Rightarrow> (st, ResError 404 ''target member not found'')
        | Some member \<Rightarrow> let st = modify_community cid (modify_member t (set_timeout (Some timeout_until))) st;
            st = sql_run (replace_timeout \<lparr>tr_community_id = c_community_id c, tr_pseudonym = t,
              tr_timeout_until = cast_signed timeout_until, tr_reason = reason\<rparr>) st;
            st = broadcast_to_members cid [] (MemberTimedOut cid t (Some timeout_until)) st in (st, ResOk))))"
    using c(2) assms step by (simp add: check_eqs Let_def split: option.split)
qed

lemma mirrors_step_remove_timeout:
  assumes "mirrored st"
  shows "mirrors_step cid st (fst (handle_remove_timeout env st cid s t))"
  unfolding handle_remove_timeout_def Let_def
proof (rule mirrors_step_with_permission [OF assms])
  fix c assume c: "get_community st cid = Some c" "c_community_id c = cid"
    and m: "mirrors cid (community_rows cid (db st)) c"
  have f: "faults st = []" using assms by simp
  let ?st' = "sql_run (delete_timeout cid t) (modify_community cid (modify_member t (set_timeout None)) st)"
  have "mirrors cid (community_rows cid (db ?st')) (modify_member t (set_timeout None) c)"
    using mirrors_members_clear_timeout [of cid "community_rows cid (db st)" c t] m
    by (intro mirrors_by_members [OF m] hosted_row_same)
       (simp_all add: frame_simps rows_simps f mirrors_def)
  then have "mirrors_step cid st ?st'"
    by (rule mirrors_step_I [rotated 2]) (use c in \<open>simp_all add: frame_simps rows_simps\<close>)
  then show "mirrors_step cid st (fst (broadcast_to_members cid [] (MemberTimedOut cid t None)
      (sql_run (delete_timeout (c_community_id c) t) (modify_community cid (modify_member t (set_timeout None)) st)), ResOk))"
    using c(2) by simp
qed

lemma mirrors_step_update_community:
  assumes "mirrored st"
  shows "mirrors_step cid st (fst (handle_update_community env st cid s n de))"
  unfolding handle_update_community_def Let_def
proof (rule mirrors_step_with_permission [OF assms])
  fix c assume c: "get_community st cid = Some c"
    and m: "mirrors cid (community_rows cid (db st)) c"
  have f: "faults st = []" using assms by simp
  let ?F = "\<lambda>c. c\<lparr>c_name := (case n of None \<Rightarrow> c_name c | Some n \<Rightarrow> n),
      c_description := (case de of None \<Rightarrow> c_description c | Some d \<Rightarrow> d)\<rparr>"
  let ?st1 = "case n of None \<Rightarrow> modify_community cid ?F st
      | Some n \<Rightarrow> sql_run (update_hosted cid (\<lambda>r. r\<lparr>hr_name := n\<rparr>)) (modify_community cid ?F st)"
  let ?st' = "case de of None \<Rightarrow> ?st1
      | Some d \<Rightarrow> sql_run (update_hosted cid (\<lambda>r. r\<lparr>hr_description := d\<rparr>)) ?st1"
  have f1: "faults ?st1 = []" by (simp add: f frame_simps no_faults_sql split: option.split)
  obtain r where r: "t_hosted (community_rows cid (db st)) = [r]"
    "r\<lparr>hr_created_at := 0\<rparr> = hosted_to_row cid c"
    using m by (auto simp: mirrors_def)
  then have fields: "hr_id r = cid" "hr_dht_record_key r = c_dht_record_key c" "hr_owner_keypair_hex r = c_owner_keypair_hex c"
    "hr_name r = c_name c" "hr_description r = c_description c" "hr_creator_pseudonym r = c_creator_pseudonym_hex c"
    by (cases r; simp add: hosted_to_row_def)+
  have "mirrors_step cid st ?st'"
  proof (rule mirrors_step_I)
    show "mirrors cid (community_rows cid (db ?st')) (?F c)"
      by (rule mirrors_I [OF m])
         (use m r(1) fields in \<open>auto simp: frame_simps rows_simps f f1 no_faults_sql mirrors_def hosted_to_row_def
            intro: mirrors_members_same mirrors_channels_same mirrors_mek_same split: option.split\<close>)
  qed (use c in \<open>auto simp: frame_simps rows_simps split: option.split\<close>)
  then show "mirrors_step cid st (fst (case get_community ?st' cid of None \<Rightarrow> ?st'
      | Some c \<Rightarrow> publish_metadata env cid (c_name c) ?st', CommunityUpdated))"
    by (cases "get_community ?st' cid") simp_all
qed

text \<open>Keys, leaving, kicking and banning.\<close>

lemma mirrored_D:
  assumes "mirrored st" and "get_community st cid = Some c"
  shows "mirrors cid (community_rows cid (db st)) c" "c_community_id c = cid" "wf_community c"
  using assms by (auto simp: mirrored_def wf_server_def)

lemma rows_nonempty: "mirrors cid d c \<Longrightarrow> t_hosted d \<noteq> []"
  by (auto simp: mirrors_def)

definition mek_row_of :: "request_env \<Rightarrow> string \<Rightarrow> u64 \<Rightarrow> mek_row" where
  "mek_row_of env cid g = \<lparr>kr_community_id = cid, kr_generation = i64_or_max g,
     kr_key_bytes = rand_key env, kr_created_at = timestamp_now env\<rparr>"

lemma rotate_community_db:
  assumes "get_community st cid = Some c"
  shows "db (rotate_community_mek env cid st) =
    db (sql_run (insert_mek (mek_row_of env cid (mek_generation (c_mek c) + 1))) st)"
  using assms by (simp add: rotate_community_mek_def rotate_mek_def Let_def mek_generate_def
      mek_row_of_def frame_simps)

lemma rotated_key:
  assumes "mirrors_mek (community_rows cid (db st)) (c_mek c)" and "get_community st cid = Some c"
    and "faults st = []" and "t_hosted (community_rows cid (db st)) \<noteq> []"
    and "uint (mek_generation (c_mek c)) < i64_max" and "length (rand_key env) = 32"
  shows "community_rows cid (db (rotate_community_mek env cid st)) = (community_rows cid (db st))
      \<lparr>t_mek := t_mek (community_rows cid (db st)) @ [mek_row_of env cid (mek_generation (c_mek c) + 1)]\<rparr>"
    and "mirrors_mek (community_rows cid (db (rotate_community_mek env cid st)))
      (mek_generate env (mek_generation (c_mek c) + 1))"
proof -
  let ?r = "mek_row_of env cid (mek_generation (c_mek c) + 1)"
  have "uint (mek_generation (c_mek c) + 1) = uint (mek_generation (c_mek c)) + 1"
    using assms(5) by (simp add: uint_word_ariths i64_max_def)
  then have r: "kr_generation ?r = uint (mek_generation (c_mek c) + 1)" "kr_key_bytes ?r = rand_key env"
    "kr_community_id ?r = cid"
    using assms(5) by (simp_all add: mek_row_of_def i64_or_max_small)
  note k = mirrors_mek_rotate [OF assms(1,5,6) r(1,2)]
  show rows: "community_rows cid (db (rotate_community_mek env cid st)) = (community_rows cid (db st))
      \<lparr>t_mek := t_mek (community_rows cid (db st)) @ [?r]\<rparr>"
    using k(2) assms(3,4) by (simp add: rotate_community_db [OF assms(2)] rows_simps r(3))
  show "mirrors_mek (community_rows cid (db (rotate_community_mek env cid st)))
      (mek_generate env (mek_generation (c_mek c) + 1))"
    unfolding rows by (rule k(1))
qed

lemma rows_rotate_other [rows_simps]:
  "a \<noteq> cid \<Longrightarrow> community_rows a (db (rotate_community_mek env cid st)) = community_rows a (db st)"
  by (cases "get_community st cid")
     (simp add: rotate_community_mek_def, simp add: rotate_community_db rows_simps mek_row_of_def)

definition key_space :: "server_state \<Rightarrow> string \<Rightarrow> bool" where
  "key_space st cid \<longleftrightarrow>
     (case get_community st cid of None \<Rightarrow> True | Some c \<Rightarrow> uint (mek_generation (c_mek c)) < i64_max)"

lemma mirrors_step_rotate:
  assumes "mirrored st" and "key_space st cid" and "length (rand_key env) = 32"
  shows "mirrors_step cid st (fst (handle_rotate_mek env st cid s))"
  unfolding handle_rotate_mek_def Let_def
proof (rule mirrors_step_with_permission [OF assms(1)])
  fix c assume c: "get_community st cid = Some c"
    and m: "mirrors cid (community_rows cid (db st)) c"
  have f: "faults st = []" using assms by simp
  have g: "uint (mek_generation (c_mek c)) < i64_max" using assms(2) c by (simp add: key_space_def)
  have k: "mirrors_mek (community_rows cid (db st)) (c_mek c)" using m by (simp add: mirrors_def)
  note rot = rotated_key [OF k c f rows_nonempty [OF m] g assms(3)]
  let ?c' = "c\<lparr>c_mek := mek_generate env (mek_generation (c_mek c) + 1)\<rparr>"
  have "mirrors_step cid st (rotate_community_mek env cid st)"
  proof (rule mirrors_step_I)
    show "mirrors cid (community_rows cid (db (rotate_community_mek env cid st))) ?c'"
      by (rule mirrors_I [OF m])
         (use m rot in \<open>auto simp: mirrors_def hosted_to_row_def intro: mirrors_members_same mirrors_channels_same\<close>)
  qed (use c in \<open>simp_all add: frame_simps rows_simps\<close>)
  then show "mirrors_step cid st (fst (broadcast_to_members cid [] (MEKRotated cid (mek_generation (c_mek c) + 1))
      (publish_mek_bundle env cid (rotate_community_mek env cid st)), ResOk))"
    by simp
qed

lemma mirrors_step_leave:
  assumes "mirrored st" and "key_space st cid" and "length (rand_key env) = 32"
  shows "mirrors_step cid st (fst (handle_leave env st cid t))"
proof (cases "get_community st cid")
  case None
  then show ?thesis by (simp add: mirrors_step_def handle_leave_def Let_def frame_simps rows_simps)
next
  case (Some c)
  note m = mirrored_D(1) [OF assms(1) Some]
  have f: "faults st = []" using assms by simp
  have mm: "mirrors_members cid (community_rows cid (db st)) c" using m by (simp add: mirrors_def)
  have g: "uint (mek_generation (c_mek (remove_member t c))) < i64_max"
    using assms(2) Some by (simp add: key_space_def frame_simps)
  let ?st1 = "modify_community cid (remove_member t) (sql_run (delete_member cid t) st)"
  let ?st2 = "rotate_community_mek env cid ?st1"
  have st1: "get_community ?st1 cid = Some (remove_member t c)" "faults ?st1 = []"
    using Some f by (simp_all add: frame_simps no_faults_sql)
  have k: "mirrors_mek (community_rows cid (db ?st1)) (c_mek (remove_member t c))"
    "t_hosted (community_rows cid (db ?st1)) \<noteq> []"
    using m by (auto simp: mirrors_def frame_simps rows_simps f mirrors_mek_def)
  note rot = rotated_key [OF k(1) st1 k(2) g assms(3)]
  have mem: "mirrors_members cid (community_rows cid (db ?st1)) (remove_member t c)"
    using mirrors_members_remove [OF mm, of t] mirrors_members_absent [OF mm, of t]
      mirrors_members_same [OF mm]
    by (simp add: frame_simps rows_simps f)
  have "mirrors_step cid st ?st2"
  proof (rule mirrors_step_I)
    show "mirrors cid (community_rows cid (db ?st2)) (after_leave env t c)"
    proof (rule mirrors_I [OF m])
      show "mirrors_members cid (community_rows cid (db ?st2)) (after_leave env t c)"
        by (rule mirrors_members_same [OF mem]) (simp_all add: rot(1) after_leave_def)
      show "mirrors_channels cid (community_rows cid (db ?st2)) (after_leave env t c)"
        by (rule mirrors_channels_same [of _ "community_rows cid (db st)" c])
           (use m in \<open>simp_all add: rot(1) frame_simps rows_simps f mirrors_def\<close>)
    qed (use m rot(2) in \<open>simp_all add: rot(1) frame_simps rows_simps f mirrors_def after_leave_def hosted_to_row_def\<close>)
  qed (use Some in \<open>simp_all add: frame_simps rows_simps after_leave_def\<close>)
  then show ?thesis
    using assms(1) by (simp add: handle_leave_def check_then_def Let_def frame_simps split: option.split sum.split)
qed

lemma mirrors_step_trans:
  assumes "\<And>a. a \<noteq> cid \<Longrightarrow> get_community st1 a = get_community st a"
    and "\<And>a. a \<noteq> cid \<Longrightarrow> community_rows a (db st1) = community_rows a (db st)"
    and "mirrors_step cid st1 st2"
  shows "mirrors_step cid st st2"
  using assms by (simp add: mirrors_step_def)

lemma mirrored_cong:
  assumes "mirrored st" and "get_community st' = get_community st"
    and "\<And>a. community_rows a (db st') = community_rows a (db st)" and "faults st' = []"
    and "t_channels (db st') = t_channels (db st)" and "t_roles (db st') = t_roles (db st)"
  shows "mirrored st'"
proof -
  have "backed (db st') = backed (db st)"
    using assms(5,6) by (simp add: fun_eq_iff backed_def channel_exists_def)
  with assms(1-4) show ?thesis by (simp add: mirrored_def wf_server_def)
qed

lemma mirrors_step_kick:
  assumes "mirrored st" and "key_space st cid" and "length (rand_key env) = 32"
  shows "mirrors_step cid st (fst (handle_kick env st cid s t))"
  using assms mirrors_step_leave [OF assms]
  by (simp add: handle_kick_def with_community_def check_eqs split: option.split)

lemma mirrors_step_ban:
  assumes "mirrored st" and "key_space st cid" and "length (rand_key env) = 32"
  shows "mirrors_step cid st (fst (handle_ban env st cid s t))"
proof -
  have "mirrors_step cid st (fst (handle_leave env (sql_run (replace_banned r) st) cid t))" for r
  proof (rule mirrors_step_trans [OF _ _ mirrors_step_leave])
    show "mirrored (sql_run (replace_banned r) st)"
      using assms(1) by (rule mirrored_cong) (simp_all add: frame_simps rows_simps table_simps assms no_faults_sql)
  qed (use assms in \<open>simp_all add: frame_simps rows_simps key_space_def\<close>)
  then show ?thesis using assms(1) by (simp add: handle_ban_eq split: option.split)
qed

lemma mirrors_step_unban:
  assumes "mirrored st"
  shows "mirrors_step cid st (fst (handle_unban env st cid s t))"
  unfolding handle_unban_def
  by (rule mirrors_step_with_permission [OF assms], rule mirrors_step_same)
     (simp_all add: assms frame_simps rows_simps)

lemma mirrors_step_send:
  assumes "mirrored st"
  shows "mirrors_step cid st (fst (handle_send_message env st cid s h ct g))"
proof -
  have "mirrors_step cid st (sql_run (insert_message cid h s ct g' ts) st)" for g' ts
    by (rule mirrors_step_same) (simp_all add: assms frame_simps rows_simps)
  then show ?thesis using assms
    by (simp add: handle_send_message_def with_community_def check_eqs case_prod_unfold Let_def insert_ok
        split: option.split)
qed

text \<open>Joining.\<close>

lemma rows_insert_member_roles:
  assumes "faults st = []" and "distinct ids"
    and "list_ex (\<lambda>r. mr_pseudonym r = key) (t_members (community_rows a (db st)))"
    and "\<forall>i\<in>set ids. \<not> list_ex (\<lambda>r. xr_pseudonym r = key \<and> xr_role_id r = uint i)
      (t_member_roles (community_rows a (db st)))"
  shows "community_rows a (db (insert_member_roles a key ids st)) =
    (community_rows a (db st))\<lparr>t_member_roles := t_member_roles (community_rows a (db st))
       @ map (member_role_to_row a key) ids\<rparr>"
  using assms
proof (induction ids arbitrary: st)
  case Nil
  then show ?case by (simp add: insert_member_roles_def)
next
  case (Cons i ids)
  let ?st1 = "sql_run (insert_ignore_member_role (member_role_to_row a key i)) st"
  have c: "xr_community_id (member_role_to_row a key j) = a" for j by (simp add: member_role_to_row_def)
  have rows: "community_rows a (db ?st1) = (community_rows a (db st))\<lparr>t_member_roles :=
      t_member_roles (community_rows a (db st)) @ [member_role_to_row a key i]\<rparr>"
    using Cons.prems by (simp add: rows_simps c)
  have "community_rows a (db (insert_member_roles a key ids ?st1)) =
    (community_rows a (db ?st1))\<lparr>t_member_roles := t_member_roles (community_rows a (db ?st1))
       @ map (member_role_to_row a key) ids\<rparr>"
    using Cons.prems by (intro Cons.IH) (auto simp: rows no_faults_sql word_uint_eq_iff [symmetric])
  then show ?case
    by (simp add: rows) (simp add: insert_member_roles_def member_role_to_row_def)
qed

lemma rows_insert_member_roles_other [rows_simps]:
  "a \<noteq> cid \<Longrightarrow> community_rows a (db (insert_member_roles cid key ids st)) = community_rows a (db st)"
  by (induction ids arbitrary: st) (simp_all add: insert_member_roles_def rows_simps)

lemma mirrors_step_rejoin:
  assumes "mirrored st" and "handle_rejoin st cid s blob = Some res"
  shows "mirrors_step cid st (fst res)"
proof -
  obtain c m where c: "get_community st cid = Some c" and "find_member c s = Some m"
    using assms(2) by (auto simp: handle_rejoin_def split: option.splits)
  then have res: "fst res = (case blob of None \<Rightarrow> st
      | Some b \<Rightarrow> sql_run (update_member_route cid s b) (modify_community cid (modify_member s (\<lambda>m. m\<lparr>m_route_blob := Some b\<rparr>)) st))"
    using assms(2) by (auto simp: handle_rejoin_def Let_def frame_simps split: option.splits)
  show ?thesis
  proof (cases blob)
    case None
    with res assms(1) show ?thesis by simp
  next
    case (Some b)
    have f: "faults st = []" using assms(1) by simp
    note m = mirrored_D [OF assms(1) c]
    have mm: "mirrors_members cid (community_rows cid (db st)) c" using m by (simp add: mirrors_def)
    have "mirrors cid (community_rows cid (db (fst res))) (modify_member s (\<lambda>m. m\<lparr>m_route_blob := Some b\<rparr>) c)"
      using mirrors_members_route [OF mm, of s b] m(3)
      by (intro mirrors_by_members [OF m(1)] hosted_row_same)
         (simp_all add: res Some frame_simps rows_simps f wf_community_def)
    then show ?thesis
      by (rule mirrors_step_I [rotated 2]) (use c res Some in \<open>simp_all add: frame_simps rows_simps\<close>)
  qed
qed

lemma fresh_member_rows:
  assumes "mirrors_members cid d c" and "find_member c s = None"
  shows "\<not> list_ex (\<lambda>r. mr_pseudonym r = s) (t_members d)"
    and "\<not> list_ex (\<lambda>r. xr_pseudonym r = s \<and> xr_role_id r = i) (t_member_roles d)"
proof -
  show "\<not> list_ex (\<lambda>r. mr_pseudonym r = s) (t_members d)"
    using assms by (auto simp: mirrors_members_def list_ex_iff members.lookup_None_iff)
  have "filter (\<lambda>r. xr_pseudonym r = s) (t_member_roles d) = []"
    using assms by (simp add: mirrors_members_def role_ids_of_def)
  then show "\<not> list_ex (\<lambda>r. xr_pseudonym r = s \<and> xr_role_id r = i) (t_member_roles d)"
    by (auto simp: list_ex_iff filter_empty_conv)
qed

lemma row_update_last:
  assumes "\<not> list_ex (\<lambda>r. K r = k) t" and "K r = k"
  shows "row_update (\<lambda>r. K r = k) f (t @ [r]) = t @ [f r]"
proof -
  have "row_update (\<lambda>r. K r = k) f t = t"
    using assms(1) by (intro row_update_other) (auto simp: list_ex_iff)
  then show ?thesis using assms(2) by (simp add: row_update_def)
qed

text \<open>The database after a first admission: the new row, its roles, the creator, the route.\<close>

lemma rows_add_new_member:
  fixes env n blob
  assumes "mirrored st" and "get_community st cid = Some c" and "find_member c s = None"
  defines "m \<equiv> new_member env s n (if c_members c = [] then owner_role_ids else new_member_role_ids) blob"
    and "R \<equiv> community_rows cid (db st)"
  shows "community_rows cid (db (fst (add_new_member env st cid s n blob))) =
    R\<lparr>t_members := t_members R @ [member_to_row cid m],
      t_member_roles := t_member_roles R @ map (member_role_to_row cid s) (m_role_ids m),
      t_hosted := (if c_members c = [] then map (\<lambda>r. r\<lparr>hr_creator_pseudonym := s\<rparr>) (t_hosted R) else t_hosted R)\<rparr>"
proof -
  have f: "faults st = []" using assms(1) by simp
  have mm: "mirrors_members cid R c" and h: "t_hosted R \<noteq> []"
    using mirrored_D(1) [OF assms(1,2)] rows_nonempty by (auto simp: mirrors_def R_def)
  note fresh = fresh_member_rows [OF mm assms(3)]
  let ?ids = "if c_members c = [] then owner_role_ids else new_member_role_ids"
  let ?row = "\<lparr>mr_community_id = cid, mr_pseudonym = s, mr_display_name = Some n, mr_joined_at = timestamp_now env,
      mr_route_blob = None\<rparr>"
  let ?st1 = "sql_run (insert_ignore_member ?row) st"
  let ?st2 = "insert_member_roles cid s ?ids ?st1"
  have r1: "community_rows cid (db ?st1) = R\<lparr>t_members := t_members R @ [?row]\<rparr>"
    using fresh(1) h by (simp add: rows_simps f R_def)
  have d: "distinct ?ids" by (simp add: owner_role_ids_def new_member_role_ids_def role_everyone_id_def)
  have r2: "community_rows cid (db ?st2) = R\<lparr>t_members := t_members R @ [?row],
      t_member_roles := t_member_roles R @ map (member_role_to_row cid s) ?ids\<rparr>"
    using fresh(2) d
    by (subst rows_insert_member_roles) (simp_all add: r1 no_faults_sql f)
  have f2: "faults ?st2 = []" by (simp add: no_faults_roles no_faults_sql f)
  have upd: "row_update (\<lambda>r. mr_pseudonym r = s) (\<lambda>r. r\<lparr>mr_route_blob := Some b\<rparr>) (t_members R @ [?row])
      = t_members R @ [?row\<lparr>mr_route_blob := Some b\<rparr>]" for b
    by (rule row_update_last [OF fresh(1)]) simp
  show ?thesis
    using assms(2) r2 f2 upd
    by (cases blob; cases "c_members c = []")
       (simp_all add: add_new_member_def Let_def is_first_member_def frame_simps rows_simps
         no_faults_sql m_def new_member_def member_to_row_def)
qed

lemma mirrors_step_add_new_member:
  assumes "mirrored st" and "get_community st cid = Some c" and "find_member c s = None"
  shows "mirrors_step cid st (fst (add_new_member env st cid s n blob))"
proof -
  let ?m = "new_member env s n (if c_members c = [] then owner_role_ids else new_member_role_ids) blob"
  let ?c1 = "if c_members c = [] then c\<lparr>c_creator_pseudonym_hex := s\<rparr> else c"
  let ?R = "community_rows cid (db st)"
  note m = mirrored_D(1) [OF assms(1,2)]
  have mm: "mirrors_members cid ?R ?c1" using m by (auto simp: mirrors_def intro: mirrors_members_same)
  obtain r where r: "t_hosted ?R = [r]" "r\<lparr>hr_created_at := 0\<rparr> = hosted_to_row cid c"
    using m by (auto simp: mirrors_def)
  then have fields: "hr_id r = cid" "hr_dht_record_key r = c_dht_record_key c" "hr_owner_keypair_hex r = c_owner_keypair_hex c"
    "hr_name r = c_name c" "hr_description r = c_description c" "hr_creator_pseudonym r = c_creator_pseudonym_hex c"
    by (cases r; simp add: hosted_to_row_def)+
  have key: "m_pseudonym_key_hex ?m = s" "m_timeout_until ?m = None" by (simp_all add: new_member_def)
  have "find_member ?c1 s = None" using assms(3) find_same_roster(1) [of ?c1 c] by simp
  then have push: "mirrors_members cid (?R\<lparr>t_members := t_members ?R @ [member_to_row cid ?m],
      t_member_roles := t_member_roles ?R @ map (member_role_to_row cid s) (m_role_ids ?m)\<rparr>) (push_member ?m ?c1)"
    using mirrors_members_push [OF mm, of ?m] key by simp
  show ?thesis
  proof (rule mirrors_step_I)
    show "mirrors cid (community_rows cid (db (fst (add_new_member env st cid s n blob)))) (push_member ?m ?c1)"
      unfolding rows_add_new_member [OF assms]
    proof (rule mirrors_I [OF m])
      show "mirrors_members cid (?R\<lparr>t_members := t_members ?R @ [member_to_row cid ?m],
          t_member_roles := t_member_roles ?R @ map (member_role_to_row cid s) (m_role_ids ?m),
          t_hosted := if c_members c = [] then map (\<lambda>r. r\<lparr>hr_creator_pseudonym := s\<rparr>) (t_hosted ?R) else t_hosted ?R\<rparr>)
          (push_member ?m ?c1)"
        using push by (simp add: mirrors_members_def)
      show "mirrors_channels cid (?R\<lparr>t_members := t_members ?R @ [member_to_row cid ?m],
          t_member_roles := t_member_roles ?R @ map (member_role_to_row cid s) (m_role_ids ?m),
          t_hosted := if c_members c = [] then map (\<lambda>r. r\<lparr>hr_creator_pseudonym := s\<rparr>) (t_hosted ?R) else t_hosted ?R\<rparr>)
          (push_member ?m ?c1)"
        by (rule mirrors_channels_same [of _ ?R c]) (use m in \<open>simp_all add: mirrors_def frame_simps\<close>)
    qed (use m r fields in \<open>simp_all add: frame_simps mirrors_def mirrors_mek_def hosted_to_row_def\<close>)
    show "get_community (fst (add_new_member env st cid s n blob)) a =
        (if a = cid then Some (push_member ?m ?c1) else get_community st a)" for a
      using get_add_new_member [OF assms(2), of env s n blob a] by simp
    show "a \<noteq> cid \<Longrightarrow> community_rows a (db (fst (add_new_member env st cid s n blob))) = community_rows a (db st)" for a
      using assms(2) by (cases blob) (simp_all add: add_new_member_def Let_def frame_simps rows_simps)
  qed
qed

lemma mirrors_step_join:
  assumes "mirrored st" and "join_target st route ipc = Some cid"
  shows "mirrors_step cid st (fst (handle_join env st s n blob route ipc))"
proof -
  have "mirrors_step cid st (fst (admit env st cid s n blob))"
  proof (cases "handle_rejoin st cid s blob")
    case (Some res)
    then show ?thesis using mirrors_step_rejoin [OF assms(1) Some] by (simp add: admit_def)
  next
    case None
    have "mirrors_step cid st (fst (add_new_member env st cid s n blob))"
    proof (cases "get_community st cid")
      case None
      then show ?thesis
        by (simp add: mirrors_step_def add_new_member_def Let_def frame_simps rows_simps)
    next
      case (Some c)
      then have "find_member c s = None"
        using None by (simp add: handle_rejoin_None_iff is_member_find)
      with assms(1) Some show ?thesis by (rule mirrors_step_add_new_member)
    qed
    then show ?thesis by (simp add: mirrors_step_def get_admit_new [OF None])
  qed
  then show ?thesis using assms by (simp add: handle_join_eq sql_query_no_faults)
qed

fun storable_request :: "community_request \<Rightarrow> bool" where
  "storable_request (SetChannelOverwrite chid ty tid allow deny) = (ty \<in> {''role'', ''member''})"
| "storable_request (DeleteChannelOverwrite chid ty tid) = (ty \<in> {''role'', ''member''})"
| "storable_request _ = True"

text \<open>Room for \<open>n\<close> more generations of every key before the column type overflows.\<close>

definition key_room :: "nat \<Rightarrow> server_state \<Rightarrow> bool" where
  "key_room n st \<longleftrightarrow>
     (\<forall>a c. get_community st a = Some c \<longrightarrow> uint (mek_generation (c_mek c)) + int n \<le> i64_max)"

lemma key_room_space: "key_room (Suc n) st \<Longrightarrow> key_space st cid"
  by (cases "get_community st cid") (force simp: key_room_def key_space_def)+

lemma step_generation:
  "community_step env d d' s request c c' \<Longrightarrow>
    c_mek c' = c_mek c \<or> mek_generation (c_mek c') = mek_generation (c_mek c) + 1"
  by (erule community_stepE) (auto simp: frame_simps mek_generate_def)

lemma dispatch_key_room:
  assumes "key_room (Suc n) st"
  shows "key_room n (fst (dispatch_request env st s request route ipc))"
  unfolding key_room_def
proof (intro allI impI)
  fix a c' assume c': "get_community (fst (dispatch_request env st s request route ipc)) a = Some c'"
  then obtain c where c: "get_community st a = Some c"
    using dispatch_hosted_iff [of env st s request route ipc a] by force
  with assms have room: "uint (mek_generation (c_mek c)) + int (Suc n) \<le> i64_max" by (simp add: key_room_def)
  then have "uint (mek_generation (c_mek c) + 1) = uint (mek_generation (c_mek c)) + 1"
    by (simp add: uint_word_ariths i64_max_def)
  with room dispatch_step [OF c c'] show "uint (mek_generation (c_mek c')) + int n \<le> i64_max"
    by (auto dest!: step_generation)
qed

lemmas mirrors_step_writers = mirrors_step_create_channel mirrors_step_delete_channel
  mirrors_step_rename_channel mirrors_step_create_role mirrors_step_edit_role
  mirrors_step_delete_role mirrors_step_assign_role mirrors_step_unassign_role
  mirrors_step_timeout mirrors_step_remove_timeout mirrors_step_update_community
  mirrors_step_unban mirrors_step_send

lemma mirrors_step_readers:
  assumes "mirrored st"
  shows "mirrors_step cid st (fst (handle_get_messages env st cid s h before limit))"
    "mirrors_step cid st (fst (handle_get_ban_list env st cid s))"
    "mirrors_step cid st (fst (handle_request_mek st cid s))"
    "mirrors_step cid st (fst (handle_get_roles st cid s))"
proof -
  have f: "faults st = []" using assms by simp
  show "mirrors_step cid st (fst (handle_get_messages env st cid s h before limit))"
    "mirrors_step cid st (fst (handle_get_ban_list env st cid s))"
    "mirrors_step cid st (fst (handle_request_mek st cid s))"
    "mirrors_step cid st (fst (handle_get_roles st cid s))"
    using assms
    by (simp_all add: handle_get_messages_def handle_get_ban_list_def member_with_permission_eq
        handle_request_mek_def handle_get_roles_def with_community_def check_then_def Let_def
        sql_query_no_faults f split: option.split sum.split)
qed

lemma mirrors_step_dispatch_community:
  assumes "mirrored st" and "key_space st cid" and "length (rand_key env) = 32"
    and "dispatch_community env st cid s request = Some res"
  shows "mirrors_step cid st (fst res)"
  using assms(4)
  by (cases request)
     (auto simp: mirrors_step_writers [OF assms(1)] mirrors_step_readers [OF assms(1)]
       mirrors_step_leave [OF assms(1-3)] mirrors_step_kick [OF assms(1-3)]
       mirrors_step_ban [OF assms(1-3)] mirrors_step_rotate [OF assms(1-3)] frame_simps
       intro!: mirrors_step_and_then)

lemma mirrors_step_dispatch_roles:
  assumes "mirrored st" and "storable_request request"
    and "dispatch_roles env st cid s request = Some res"
  shows "mirrors_step cid st (fst res)"
  using assms(2,3)
  by (cases request)
     (auto simp: mirrors_step_writers [OF assms(1)] mirrors_step_readers [OF assms(1)] frame_simps
       intro!: mirrors_step_and_then mirrors_step_set_overwrite [OF assms(1)]
         mirrors_step_delete_overwrite [OF assms(1)])

lemma dispatch_mirrored:
  assumes "mirrored st" and "key_room (Suc k) st" and "length (rand_key env) = 32" and "storable_request request"
  shows "mirrored (fst (dispatch_request env st s request route ipc))"
proof -
  have "(\<exists>cid. mirrors_step cid st (fst (dispatch_request env st s request route ipc)))"
  proof (cases rule: dispatch_cases [of st s request route ipc env])
    case (join cid code n prekey blob)
    then have "join_target st route ipc = Some cid" by (simp add: request_target_def)
    from mirrors_step_join [OF assms(1) this] show ?thesis unfolding join(3) by blast
  next
    case (handled cid)
    then show ?thesis
      using mirrors_step_dispatch_community [OF assms(1) key_room_space [OF assms(2)] assms(3)]
        mirrors_step_dispatch_roles [OF assms(1,4)] by blast
  qed (use assms(1) in auto)
  moreover have "faults (fst (dispatch_request env st s request route ipc)) = []"
    using assms(1) by (simp add: no_faults_dispatch)
  moreover have "wf_server (fst (dispatch_request env st s request route ipc))"
    using assms(1) by (simp add: mirrored_def dispatch_wf)
  ultimately show ?thesis using mirrored_step [OF assms(1)] by blast
qed

definition storable_input :: "server_input \<Rightarrow> bool" where
  "storable_input i \<longleftrightarrow> storable_request (in_request i) \<and> length (rand_key (in_env i)) = 32"

end
