(* ===== verification/Lifecycle.thy ===== *)
theory Lifecycle
  imports Persistence
begin

text \<open>
  The life of a hosted community: taking it up with the default roles and its creator, serving
  requests with the database as a mirror of the memory, and giving it up again.
\<close>

section \<open>Statements of hosting on the rows\<close>

lemma rows_other_hosting [rows_simps]:
  "hr_id hr \<noteq> a \<Longrightarrow> community_rows a (db (sql_run (insert_ignore_hosted hr) st)) = community_rows a (db st)"
  "kr_community_id kr \<noteq> a \<Longrightarrow> community_rows a (db (sql_run (replace_mek kr) st)) = community_rows a (db st)"
  "rr_community_id rr \<noteq> a \<Longrightarrow> community_rows a (db (sql_run (insert_ignore_role rr) st)) = community_rows a (db st)"
  "b \<noteq> a \<Longrightarrow> community_rows a (db (sql_run (delete_hosted b) st)) = community_rows a (db st)"
  by (rule rows_elsewhere, (auto simp: community_rows_def statement_defs pk_defs row_insert_ignore_def
      intro!: filter_delete_other filter_replace_other split: if_splits)[1])+

lemma rows_insert_hosted [rows_simps]:
  assumes "faults st = []"
  shows "community_rows (hr_id r) (db (sql_run (insert_ignore_hosted r) st)) =
    (if t_hosted (community_rows (hr_id r) (db st)) = []
     then (community_rows (hr_id r) (db st))\<lparr>t_hosted := [r]\<rparr> else community_rows (hr_id r) (db st))"
  using assms
  by (simp add: db_run insert_ignore_hosted_def row_insert_ignore_def row_exists_own)
     (simp add: community_rows_def)

lemma rows_replace_mek [rows_simps]:
  assumes "faults st = []" and "kr_community_id r = a"
  shows "community_rows a (db (sql_run (replace_mek r) st)) =
    (if t_hosted (community_rows a (db st)) = [] then community_rows a (db st)
     else (community_rows a (db st))\<lparr>t_mek :=
       row_delete (\<lambda>r'. kr_generation r' = kr_generation r) (t_mek (community_rows a (db st))) @ [r]\<rparr>)"
  using assms
  by (simp add: db_run replace_mek_def exists_defs row_exists_own)
     (simp add: community_rows_def filter_own_replace [where K = "\<lambda>r'. kr_generation r' = kr_generation r"]
       mek_pk_def)

lemma rows_insert_ignore_role [rows_simps]:
  assumes "faults st = []" and "rr_community_id r = a"
  shows "community_rows a (db (sql_run (insert_ignore_role r) st)) =
    (if t_hosted (community_rows a (db st)) = []
        \<or> list_ex (\<lambda>r'. rr_id r' = rr_id r) (t_roles (community_rows a (db st)))
     then community_rows a (db st)
     else (community_rows a (db st))\<lparr>t_roles := t_roles (community_rows a (db st)) @ [r]\<rparr>)"
  using assms
  by (auto simp: db_run insert_ignore_role_def exists_defs row_exists_own role_pk_def)
     (auto simp: community_rows_def)

lemma filter_deleted: "filter (\<lambda>r. g r = a) (row_delete (\<lambda>r. g r = a) t) = []"
  by (auto simp: row_delete_def filter_empty_conv)

lemma rows_delete_hosted [rows_simps]:
  assumes "faults st = []"
  shows "community_rows a (db (sql_run (delete_hosted a) st)) =
    (if t_hosted (community_rows a (db st)) = [] then community_rows a (db st)
     else community_rows a empty_db\<lparr>t_next_message := 0\<rparr>)"
  using assms
  by (simp add: db_run delete_hosted_def exists_defs row_exists_own)
     (simp add: community_rows_def empty_db_def filter_deleted)

definition no_rows :: server_db where "no_rows = community_rows [] empty_db"

lemma no_rows_tables [simp]:
  "t_hosted no_rows = []" "t_members no_rows = []" "t_mek no_rows = []" "t_channels no_rows = []"
  "t_roles no_rows = []" "t_member_roles no_rows = []" "t_overwrites no_rows = []" "t_timeouts no_rows = []"
  "community_rows a empty_db = no_rows"
  by (simp_all add: no_rows_def community_rows_def empty_db_def)

section \<open>Loading, on the rows\<close>

lemma find_filter_hd: "List.find P xs = (case filter P xs of [] \<Rightarrow> None | x # _ \<Rightarrow> Some x)"
  by (induction xs) auto

lemma load_rows:
  assumes "faults st = []"
  shows "load_members_from_db env st cid =
      (Some (fold (load_timeout_row (now_secs env)) (t_timeouts (community_rows cid (db st)))
        (fold load_role_row (t_member_roles (community_rows cid (db st)))
          (map member_of_row (t_members (community_rows cid (db st)))))), st)"
    "load_channels_from_db st cid =
      (Some (fold load_overwrite_row (t_overwrites (community_rows cid (db st)))
        (List.map_filter channel_of_row (t_channels (community_rows cid (db st))))), st)"
    "load_roles_from_db st cid =
      (Some (List.map_filter role_of_row (sort_key (\<lambda>r. - rr_position r) (t_roles (community_rows cid (db st))))), st)"
    "load_latest_mek st cid =
      (case sort_key (\<lambda>r. - kr_generation r) (t_mek (community_rows cid (db st))) of
         [] \<Rightarrow> None
       | r # _ \<Rightarrow> if length (kr_key_bytes r) = 32
           then Some \<lparr>mek_key = kr_key_bytes r, mek_generation = u64_or_zero (kr_generation r)\<rparr> else None, st)"
    "query_text col cid st =
      (case t_hosted (community_rows cid (db st)) of [] \<Rightarrow> [] | r # _ \<Rightarrow> col r, st)"
  using assms
  by (auto simp: load_members_from_db_def load_channels_from_db_def load_roles_from_db_def
      load_latest_mek_def latest_mek_row_def query_text_def text_column_def sql_query_no_faults
      community_rows_def find_filter_hd split: list.split)


section \<open>A new community\<close>

lemma role_row_community [simp]: "rr_community_id (role_to_row cid r) = cid"
  by (simp add: role_to_row_def)

lemma insert_default_roles_rows:
  assumes "faults st = []" and "distinct (map rd_id rs)" and "t_hosted (community_rows cid (db st)) \<noteq> []"
    and "\<forall>r\<in>set rs. \<not> list_ex (\<lambda>r'. rr_id r' = uint (rd_id r)) (t_roles (community_rows cid (db st)))"
  shows "\<exists>st'. insert_default_roles cid rs st = (True, st') \<and> faults st' = [] \<and> hosted st' = hosted st
    \<and> (\<forall>a. a \<noteq> cid \<longrightarrow> community_rows a (db st') = community_rows a (db st))
    \<and> community_rows cid (db st') = (community_rows cid (db st))
        \<lparr>t_roles := t_roles (community_rows cid (db st)) @ map (role_to_row cid) rs\<rparr>"
  using assms
proof (induction rs arbitrary: st)
  case (Cons r rs)
  let ?stmt = "insert_ignore_role (role_to_row cid r)"
  have new: "\<not> list_ex (\<lambda>r'. rr_id r' = uint (rd_id r)) (t_roles (community_rows cid (db st)))"
    using Cons.prems by simp
  then have ok: "?stmt (db st) \<noteq> None"
    using Cons.prems(3) by (simp add: insert_ignore_role_def exists_defs row_exists_own role_pk_def)
  let ?st1 = "sql_run ?stmt st"
  have rows: "community_rows cid (db ?st1) = (community_rows cid (db st))
      \<lparr>t_roles := t_roles (community_rows cid (db st)) @ [role_to_row cid r]\<rparr>"
    using Cons.prems new by (simp add: rows_simps)
  have f1: "faults ?st1 = []" using Cons.prems by (simp add: no_faults_sql)
  have "\<exists>st'. insert_default_roles cid rs ?st1 = (True, st') \<and> faults st' = [] \<and> hosted st' = hosted ?st1
    \<and> (\<forall>a. a \<noteq> cid \<longrightarrow> community_rows a (db st') = community_rows a (db ?st1))
    \<and> community_rows cid (db st') = (community_rows cid (db ?st1))
        \<lparr>t_roles := t_roles (community_rows cid (db ?st1)) @ map (role_to_row cid) rs\<rparr>"
    using Cons.prems by (intro Cons.IH) (auto simp: f1 rows word_uint_eq_iff [symmetric])
  moreover have "sql_execute ?stmt st = (True, ?st1)"
    using ok insert_ok [OF Cons.prems(1), of ?stmt] by (metis prod.collapse)
  ultimately show ?case
    by (simp add: rows frame_simps rows_simps)
qed simp

lemma open_with_retries_frame:
  "db (snd (open_with_retries n st)) = db st" "faults (snd (open_with_retries n st)) = faults st"
  "hosted (snd (open_with_retries n st)) = hosted st"
  by (induction n arbitrary: st)
     (auto simp: open_record_writable_def Let_def split: list.split prod.split)

lemma setup_dht_and_route_frame:
  assumes "keypair_error keypair = None"
  obtains rid blob opened st' where
    "setup_dht_and_route keypair_error st dht_key keypair = (Some (rid, blob, opened), st')"
    "db st' = db st" "faults st' = faults st" "hosted st' = hosted st"
proof -
  obtain opened st1 where o: "open_with_retries 5 st = (opened, st1)" by fastforce
  obtain route st2 where r: "new_private_route st1 = (route, st2)" by fastforce
  have f1: "db st1 = db st" "faults st1 = faults st" "hosted st1 = hosted st"
    using open_with_retries_frame [of 5 st] o by simp_all
  have f2: "db st2 = db st1" "faults st2 = faults st1" "hosted st2 = hosted st1"
    using r by (auto simp: new_private_route_def split: list.splits)
  let ?st' = "case route of None \<Rightarrow> st2 | Some (rid, blob) \<Rightarrow>
      if opened then emit [SetDhtValue dht_key SUBKEY_SERVER_ROUTE (PubRoute blob)] st2 else st2"
  have "setup_dht_and_route keypair_error st dht_key keypair =
      (Some (map_option fst route, map_option snd route, opened), ?st')"
    by (simp add: setup_dht_and_route_def assms o r Let_def)
  moreover have "db ?st' = db st" "faults ?st' = faults st" "hosted ?st' = hosted st"
    using f1 f2 by (auto simp: frame_simps split: option.split)
  ultimately show ?thesis by (rule that)
qed

lemma get_update [find_simps]:
  "get_community (st\<lparr>hosted := AList.update cid c (hosted st)\<rparr>) a = (if a = cid then Some c else get_community st a)"
  by (simp add: get_community_def find_simps)

lemma register_creator_frame [frame_simps]:
  "hosted (register_creator env st cid key display) = hosted st"
  "faults st = [] \<Longrightarrow> faults (register_creator env st cid key display) = []"
  by (simp_all add: register_creator_def Let_def frame_simps no_faults_sql no_faults_roles)

lemma publish_all_frame [frame_simps]:
  "get_community (publish_all env cid name st) = get_community st"
  "db (publish_all env cid name st) = db st" "faults (publish_all env cid name st) = faults st"
  by (simp_all add: publish_all_def frame_simps)

lemma finish_hosting_result:
  fixes env creator_key display members
  assumes "faults st = []" and "t_hosted (community_rows cid (db st)) = [r]"
  defines "new \<equiv> needs_creator creator_key (hr_creator_pseudonym r) members"
  obtains st' where
    "finish_hosting env st cid dht_key keypair name creator_key display mek channels roles members rid blob opened
      = (HostOk, st')"
    "faults st' = []"
    "db st' = db (if new then register_creator env st cid creator_key display else st)"
    "\<And>a. get_community st' a = (if a = cid then Some
       \<lparr>c_community_id = cid, c_dht_record_key = dht_key, c_owner_keypair_hex = keypair, c_name = name,
        c_description = hr_description r, c_route_id = rid, c_route_blob = blob, c_mek = mek,
        c_members = (if new then members @ [creator_member env creator_key display] else members),
        c_channels = channels, c_roles = roles,
        c_creator_pseudonym_hex = (if new then creator_key else hr_creator_pseudonym r)\<rparr>
      else get_community st a)"
proof -
  let ?st1 = "if new then register_creator env st cid creator_key display else st"
  let ?c = "\<lparr>c_community_id = cid, c_dht_record_key = dht_key, c_owner_keypair_hex = keypair, c_name = name,
        c_description = hr_description r, c_route_id = rid, c_route_blob = blob, c_mek = mek,
        c_members = (if new then members @ [creator_member env creator_key display] else members),
        c_channels = channels, c_roles = roles,
        c_creator_pseudonym_hex = (if new then creator_key else hr_creator_pseudonym r)\<rparr>"
  let ?st2 = "?st1\<lparr>hosted := AList.update cid ?c (hosted ?st1)\<rparr>"
  let ?st' = "if opened then publish_all env cid name ?st2 else ?st2"
  have "get_community ?st1 = get_community st"
    by (rule get_community_cong) (simp add: frame_simps)
  then have "get_community ?st' a = (if a = cid then Some ?c else get_community st a)" for a
    by (simp add: frame_simps find_simps)
  moreover have "finish_hosting env st cid dht_key keypair name creator_key display mek channels roles members rid blob opened
      = (HostOk, ?st')"
    using assms(1,2) by (simp add: finish_hosting_def load_rows new_def Let_def)
  moreover have "faults ?st' = []" "db ?st' = db ?st1"
    using assms(1) by (simp_all add: frame_simps)
  ultimately show ?thesis using that by blast
qed

definition fresh_community ::
  "request_env \<Rightarrow> string \<Rightarrow> string \<Rightarrow> string \<Rightarrow> string \<Rightarrow> string \<Rightarrow> string \<Rightarrow> route_id option \<Rightarrow> bytes option
   \<Rightarrow> hosted_community" where
  "fresh_community env cid dht_key keypair name creator_key creator_display rid blob =
     \<lparr>c_community_id = cid, c_dht_record_key = dht_key, c_owner_keypair_hex = keypair, c_name = name,
      c_description = [], c_route_id = rid, c_route_blob = blob, c_mek = mek_generate env 1,
      c_members = (if creator_key = [] then [] else [creator_member env creator_key creator_display]),
      c_channels = [], c_roles = default_roles, c_creator_pseudonym_hex = creator_key\<rparr>"


lemma rows_register_creator:
  assumes "faults st = []" and "t_hosted (community_rows cid (db st)) = [r]"
    and "t_members (community_rows cid (db st)) = []" and "t_member_roles (community_rows cid (db st)) = []"
  shows "community_rows cid (db (register_creator env st cid key display)) = (community_rows cid (db st))
      \<lparr>t_members := [member_to_row cid (creator_member env key display)],
       t_member_roles := map (member_role_to_row cid key) owner_role_ids,
       t_hosted := [r\<lparr>hr_creator_pseudonym := key\<rparr>]\<rparr>"
proof -
  let ?row = "\<lparr>mr_community_id = cid, mr_pseudonym = key, mr_display_name = Some display,
      mr_joined_at = cast_signed (now_secs env), mr_route_blob = None\<rparr>"
  let ?st1 = "sql_run (insert_ignore_member ?row) st"
  let ?st2 = "insert_member_roles cid key owner_role_ids ?st1"
  have r1: "community_rows cid (db ?st1) = (community_rows cid (db st))\<lparr>t_members := [?row]\<rparr>"
    using assms by (simp add: rows_simps)
  have d: "distinct owner_role_ids" by (simp add: owner_role_ids_def role_everyone_id_def)
  have r2: "community_rows cid (db ?st2) = (community_rows cid (db st))\<lparr>t_members := [?row],
      t_member_roles := map (member_role_to_row cid key) owner_role_ids\<rparr>"
    using d by (subst rows_insert_member_roles) (simp_all add: r1 no_faults_sql assms)
  have f2: "faults ?st2 = []" by (simp add: no_faults_roles no_faults_sql assms)
  show ?thesis
    by (simp add: register_creator_def Let_def rows_simps f2 r2 assms(2))
       (simp add: member_to_row_def creator_member_def)
qed

lemma rows_register_creator_other [rows_simps]:
  "a \<noteq> cid \<Longrightarrow> community_rows a (db (register_creator env st cid key display)) = community_rows a (db st)"
  by (simp add: register_creator_def Let_def rows_simps)

lemma default_role_ids: "map rd_id default_roles = [0, 1, 2, 3, 4]"
  by (simp add: default_roles_def role_everyone_id_def)

lemma host_community_fresh:
  assumes "faults st = []" and "get_community st cid = None" and "community_rows cid (db st) = no_rows"
    and "keypair_error keypair = None" and "length (rand_key env) = 32"
  obtains st' c rid blob where
    "host_community keypair_error env st cid dht_key keypair name creator_key display = (HostOk, st')"
    "faults st' = []" "\<And>a. get_community st' a = (if a = cid then Some c else get_community st a)"
    "\<And>a. a \<noteq> cid \<Longrightarrow> community_rows a (db st') = community_rows a (db st)"
    "c = fresh_community env cid dht_key keypair name creator_key display rid blob"
    "mirrors cid (community_rows cid (db st')) c"
proof -
  let ?hr = "\<lparr>hr_id = cid, hr_dht_record_key = dht_key, hr_owner_keypair_hex = keypair, hr_name = name,
      hr_description = [], hr_creator_pseudonym = [], hr_created_at = uint (now_secs env)\<rparr>"
  let ?mek = "mek_generate env 1"
  let ?kr = "\<lparr>kr_community_id = cid, kr_generation = 1, kr_key_bytes = mek_key ?mek, kr_created_at = timestamp_now env\<rparr>"
  let ?st1 = "sql_run (insert_ignore_hosted ?hr) st"
  let ?st2 = "sql_run (replace_mek ?kr) ?st1"
  have h1: "community_rows cid (db ?st1) = no_rows\<lparr>t_hosted := [?hr]\<rparr>"
    using rows_insert_hosted [of st ?hr] assms(1,3) by simp
  have f1: "faults ?st1 = []" using assms(1) by (simp add: no_faults_sql)
  have h2: "community_rows cid (db ?st2) = no_rows\<lparr>t_hosted := [?hr], t_mek := [?kr]\<rparr>"
    by (simp add: rows_simps f1 h1 row_delete_def)
  have f2: "faults ?st2 = []" using f1 by (simp add: no_faults_sql)
  have mek: "load_or_create_mek env ?st1 cid = (?mek, ?st2)"
    by (simp add: load_or_create_mek_def load_rows f1 h1 create_initial_mek_def Let_def)
  obtain st3 where d: "insert_default_roles cid default_roles ?st2 = (True, st3)" and f3: "faults st3 = []"
    and o3: "\<forall>a. a \<noteq> cid \<longrightarrow> community_rows a (db st3) = community_rows a (db ?st2)"
    and h3: "community_rows cid (db st3) = no_rows\<lparr>t_hosted := [?hr], t_mek := [?kr],
        t_roles := map (role_to_row cid) default_roles\<rparr>" and hosted3: "hosted st3 = hosted ?st2"
    using insert_default_roles_rows [OF f2, of default_roles cid]
    by (auto simp: h2 default_role_ids)
  obtain rid blob opened st4 where
    s: "setup_dht_and_route keypair_error st3 dht_key keypair = (Some (rid, blob, opened), st4)"
    and db4: "db st4 = db st3" and f4': "faults st4 = faults st3" and hosted4: "hosted st4 = hosted st3"
    by (rule setup_dht_and_route_frame [where st = st3 and dht_key = dht_key and keypair = keypair
          and keypair_error = keypair_error]) (use assms(4) in auto)
  have f4: "faults st4 = []" using f4' f3 by simp
  have h4: "t_hosted (community_rows cid (db st4)) = [?hr]" by (simp add: db4 h3)
  have new: "needs_creator creator_key (hr_creator_pseudonym ?hr) [] \<longleftrightarrow> creator_key \<noteq> []"
    by (simp add: needs_creator_def)
  let ?c = "fresh_community env cid dht_key keypair name creator_key display rid blob"
  obtain st' where fin: "finish_hosting env st4 cid dht_key keypair name creator_key display ?mek [] default_roles []
      rid blob opened = (HostOk, st')" and f': "faults st' = []"
    and db': "db st' = db (if creator_key \<noteq> [] then register_creator env st4 cid creator_key display else st4)"
    and g': "\<And>a. get_community st' a = (if a = cid then Some ?c else get_community st4 a)"
  proof (rule finish_hosting_result [OF f4 h4, where env = env and dht_key = dht_key and keypair = keypair
        and name = name and creator_key = creator_key and display = display and mek = ?mek and channels = "[]"
        and roles = default_roles and members = "[]" and rid = rid and blob = blob and opened = opened], goal_cases)
    case (1 st')
    show ?case
      by (rule 1(1), fact 1(2), fact 1(3), use 1(4) new in simp)
         (simp only: 1(5), use new in \<open>simp add: fresh_community_def\<close>)
  qed
  have host: "host_community keypair_error env st cid dht_key keypair name creator_key display = (HostOk, st')"
    using assms(2) by (simp add: host_community_def Let_def mek load_rows f2 h2 load_or_create_roles_def
        create_default_roles_def d f3 h3 s fin map_filter_def)
  have g: "get_community st4 = get_community st"
    by (rule get_community_cong) (simp add: hosted4 hosted3 frame_simps)
  have rows: "community_rows cid (db st') = no_rows\<lparr>
      t_hosted := [?hr\<lparr>hr_creator_pseudonym := creator_key\<rparr>], t_mek := [?kr],
      t_roles := map (role_to_row cid) default_roles,
      t_members := map (member_to_row cid) (c_members ?c),
      t_member_roles := (if creator_key = [] then [] else map (member_role_to_row cid creator_key) owner_role_ids)\<rparr>"
  proof (cases "creator_key = []")
    case True
    then show ?thesis by (simp add: db' db4 h3 fresh_community_def)
  next
    case False
    then show ?thesis
      using rows_register_creator [OF f4 h4, of env creator_key display]
      by (simp add: db' db4 h3 fresh_community_def)
  qed
  have "mirrors cid (community_rows cid (db st')) ?c"
    using assms(5)
    by (auto simp: rows mirrors_def mirrors_members_def mirrors_channels_def mirrors_mek_def
        fresh_community_def hosted_to_row_def mek_generate_def i64_max_def role_ids_of_def timeouts_of_def
        stored_overwrites_def find_member_def find_channel_def creator_member_def filter_empty_conv
        split: option.split)
  moreover have "community_rows a (db st') = community_rows a (db st)" if "a \<noteq> cid" for a
    using that o3 by (simp add: db' db4 rows_simps)
  moreover have "get_community st' a = (if a = cid then Some ?c else get_community st a)" for a
    by (simp add: g' g)
  ultimately show ?thesis by (intro that [OF host f' _ _ refl])
qed

lemma mirrors_backed:
  assumes "mirrors a (community_rows a d) c" and "c_community_id c = a"
  shows "backed d c"
  using assms
  by (auto simp: backed_def channel_exists_def row_exists_own mirrors_def mirrors_channels_def list_ex_iff)

lemma fresh_wf: "wf_community (fresh_community env cid dht_key keypair name creator_key display rid blob)"
  by (simp add: wf_community_def fresh_community_def default_role_ids role_everyone_id_def
      creator_member_def owner_role_ids_def)

lemma mirrored_host_fresh:
  assumes "mirrored st" and "faults st' = []"
    and "\<And>a. get_community st' a = (if a = cid then Some c else get_community st a)"
    and "\<And>a. a \<noteq> cid \<Longrightarrow> community_rows a (db st') = community_rows a (db st)"
    and "c = fresh_community env cid dht_key keypair name creator_key display rid blob"
    and "mirrors cid (community_rows cid (db st')) c"
  shows "mirrored st'"
proof -
  have m: "mirrors a (community_rows a (db st')) x" if "get_community st' a = Some x" for a x
  proof (cases "a = cid")
    case True
    with that assms(3) have "x = c" by simp
    with True assms(6) show ?thesis by simp
  next
    case False
    with that assms(3) have "get_community st a = Some x" by simp
    with False assms(1,4) show ?thesis by (simp add: mirrored_def)
  qed
  have "c_community_id x = a \<and> wf_community x" if "get_community st' a = Some x" for a x
  proof (cases "a = cid")
    case True
    with that have "x = c" using assms(3) by simp
    then show ?thesis using True fresh_wf by (simp add: assms(5) fresh_community_def)
  next
    case False
    then have "get_community st a = Some x" using that assms(3) by simp
    then show ?thesis using assms(1) by (simp add: mirrored_def wf_server_def)
  qed
  then have "wf_server st'" unfolding wf_server_def using m mirrors_backed by blast
  with m assms(2) show ?thesis by (simp add: mirrored_def)
qed

lemma hosting_starts_fresh_aux:
  assumes "mirrored st" and "get_community st cid = None" and "community_rows cid (db st) = no_rows"
    and "keypair_error keypair = None" and "length (rand_key env) = 32"
  shows "\<exists>st' rid blob.
    host_community keypair_error env st cid dht_key keypair name creator_key display = (HostOk, st')
    \<and> (\<forall>a. get_community st' a = (if a = cid
         then Some (fresh_community env cid dht_key keypair name creator_key display rid blob)
         else get_community st a))
    \<and> (\<forall>a. a \<noteq> cid \<longrightarrow> community_rows a (db st') = community_rows a (db st))
    \<and> mirrored st'"
proof -
  have f: "faults st = []" using assms(1) by simp
  show ?thesis
  proof (rule host_community_fresh [where keypair_error = keypair_error and keypair = keypair and env = env
        and st = st and cid = cid and dht_key = dht_key and name = name and creator_key = creator_key
        and display = display, OF f assms(2-5)])
    fix st' c rid blob
    assume r: "host_community keypair_error env st cid dht_key keypair name creator_key display = (HostOk, st')"
      "faults st' = []" "\<And>a. get_community st' a = (if a = cid then Some c else get_community st a)"
      "\<And>a. a \<noteq> cid \<Longrightarrow> community_rows a (db st') = community_rows a (db st)"
      "c = fresh_community env cid dht_key keypair name creator_key display rid blob"
      "mirrors cid (community_rows cid (db st')) c"
    have "mirrored st'" by (rule mirrored_host_fresh [OF assms(1) r(2-6)])
    with r(1,3,4,5) show ?thesis by blast
  qed
qed

text \<open>
  Hosting a new community: when nothing about it is stored, its keypair parses and the
  database works, hosting succeeds and the community starts with the five default roles, a first
  key of generation 1, no channels, and its creator as the only member, holding all five roles (or
  nobody, when no creator is named); nothing else that is hosted changes, and the new state is
  stored faithfully.
\<close>

theorem hosting_starts_fresh:
  assumes "mirrored st" and "get_community st cid = None" and "community_rows cid (db st) = no_rows"
    and "keypair_error keypair = None" and "length (rand_key env) = 32"
  shows "\<exists>st' rid blob.
    host_community keypair_error env st cid dht_key keypair name creator_key display = (HostOk, st')
    \<and> (\<forall>a. get_community st' a = (if a = cid
         then Some (fresh_community env cid dht_key keypair name creator_key display rid blob)
         else get_community st a))
    \<and> (\<forall>a. a \<noteq> cid \<longrightarrow> community_rows a (db st') = community_rows a (db st))
    \<and> mirrored st'"
  using assms by (rule hosting_starts_fresh_aux)

definition empty_server :: server_state where
  "empty_server = \<lparr>hosted = [], db = empty_db, faults = [], net_routes = [], net_opens = [], outbox = [],
     started_at = 0\<rparr>"

lemma mirrored_empty: "mirrored empty_server"
  by (simp add: mirrored_def wf_server_def empty_server_def get_community_def)

definition host_env :: request_env where
  "host_env = \<lparr>now_secs = 100, rand_channel = [1, 2], rand_key = replicate 32 9, owner_public_key = (\<lambda>s. s)\<rparr>"

definition hosted_server :: server_state where
  "hosted_server = snd (host_community (\<lambda>_. None) host_env empty_server ''c1'' ''k'' ''o'' ''n'' ''owner'' ''Owner'')"

lemma hosted_server_facts:
  obtains rid blob where "mirrored hosted_server"
    "\<And>a. a \<noteq> ''c1'' \<Longrightarrow> community_rows a (db hosted_server) = no_rows"
    "\<And>a. get_community hosted_server a = (if a = ''c1''
     then Some (fresh_community host_env ''c1'' ''k'' ''o'' ''n'' ''owner'' ''Owner'' rid blob) else None)"
proof -
  have *: "get_community empty_server a = None" "community_rows a (db empty_server) = no_rows" for a
    by (simp_all add: empty_server_def get_community_def)
  obtain st' rid blob where r: "host_community (\<lambda>_. None) host_env empty_server ''c1'' ''k'' ''o'' ''n'' ''owner'' ''Owner'' = (HostOk, st')"
    "\<forall>a. get_community st' a = (if a = ''c1''
         then Some (fresh_community host_env ''c1'' ''k'' ''o'' ''n'' ''owner'' ''Owner'' rid blob)
         else get_community empty_server a)" "mirrored st'"
    "\<forall>a. a \<noteq> ''c1'' \<longrightarrow> community_rows a (db st') = community_rows a (db empty_server)"
    using hosting_starts_fresh_aux [of empty_server "''c1''" "\<lambda>_. None" "''o''" host_env "''k''" "''n''" "''owner''" "''Owner''"]
    by (auto simp: mirrored_empty * host_env_def)
  then have "hosted_server = st'" by (simp add: hosted_server_def)
  with r * show ?thesis by (intro that [of rid blob]) auto
qed

lemma empty_server_facts [simp]:
  "get_community empty_server a = None" "db empty_server = empty_db" "faults empty_server = []"
  by (simp_all add: empty_server_def get_community_def)

lemma host_env_key [simp]: "length (rand_key host_env) = 32"
  by (simp add: host_env_def)

theorem hosting_starts_fresh_witness:
  "\<exists>st'. host_community (\<lambda>_. None) host_env empty_server ''c1'' ''k'' ''o'' ''n'' ''owner'' ''Owner'' = (HostOk, st')
    \<and> mirrored st'"
  using hosting_starts_fresh [of empty_server "''c1''" "\<lambda>_. None" "''o''" host_env "''k''" "''n''" "''owner''" "''Owner''"]
  by (auto simp: mirrored_empty)

section \<open>Serving requests\<close>

text \<open>
  C11. The database mirrors the memory: start from a state whose communities are stored faithfully
  and let any requests arrive, from whomever. As long as the database works, overwrites are set
  and deleted with one of the two target types the schema knows, and the key generations fit the
  column, every hosted community is afterwards still stored faithfully: metadata and creator, the
  members in order with their roles and timeouts, channels with their overwrites, roles, and the
  current key as the one of the highest generation.
\<close>

theorem memory_is_mirrored:
  assumes "mirrored st" and "key_room (length inputs) st" and "list_all storable_input inputs"
  shows "mirrored (fold handle_input inputs st)"
  using assms
proof (induction inputs arbitrary: st)
  case (Cons i inputs)
  then have "mirrored (handle_input i st)" "key_room (length inputs) (handle_input i st)"
    by (simp_all add: handle_input_def storable_input_def dispatch_mirrored dispatch_key_room)
  then show ?case using Cons by simp
qed simp


lemma hosted_server_room: "key_room n hosted_server" if "n \<le> 10"
  by (rule hosted_server_facts)
     (use that in \<open>simp add: key_room_def fresh_community_def mek_generate_def i64_max_def\<close>)

theorem memory_is_mirrored_witness:
  "mirrored (fold handle_input
     [\<lparr>in_env = host_env, in_sender = ''bob'', in_request = Join ''bob'' None ''Bob'' [] (Some [7]),
       in_route = None, in_ipc = Some ''c1''\<rparr>,
      \<lparr>in_env = host_env, in_sender = ''owner'', in_request = Kick ''bob'',
       in_route = None, in_ipc = Some ''c1''\<rparr>] hosted_server)"
proof (rule memory_is_mirrored)
  show "mirrored hosted_server" by (rule hosted_server_facts)
qed (simp_all add: hosted_server_room storable_input_def)

section \<open>Giving a community up\<close>

lemma unhost_result:
  assumes "mirrored st" and "get_community st cid = Some c"
  shows "get_community (unhost_community st cid) a = (if a = cid then None else get_community st a)"
    and "a \<noteq> cid \<Longrightarrow> community_rows a (db (unhost_community st cid)) = community_rows a (db st)"
    and "community_rows cid (db (unhost_community st cid)) = no_rows"
    and "\<not> is_banned_row cid key (db (unhost_community st cid))"
    and "t_messages (db (unhost_community st cid)) = t_messages (db st)"
    and "faults (unhost_community st cid) = []"
    and "outbox (unhost_community st cid) = outbox st @
      (case c_route_id c of None \<Rightarrow> [] | Some rid \<Rightarrow> [ReleaseRoute rid])"
proof -
  have f: "faults st = []" using assms(1) by simp
  let ?st1 = "st\<lparr>hosted := AList.delete cid (hosted st)\<rparr>"
  let ?st2 = "case c_route_id c of None \<Rightarrow> ?st1 | Some rid \<Rightarrow> emit [ReleaseRoute rid] ?st1"
  have u: "unhost_community st cid = sql_run (delete_hosted cid) ?st2"
    by (simp add: unhost_community_def assms(2) Let_def)
  have st2: "hosted ?st2 = AList.delete cid (hosted st)" "db ?st2 = db st" "faults ?st2 = []"
    "outbox ?st2 = outbox st @ (case c_route_id c of None \<Rightarrow> [] | Some rid \<Rightarrow> [ReleaseRoute rid])"
    by (simp_all add: frame_simps f split: option.split)
  have h: "t_hosted (community_rows cid (db st)) \<noteq> []"
    using mirrored_D(1) [OF assms] rows_nonempty by blast
  show "get_community (unhost_community st cid) a = (if a = cid then None else get_community st a)"
    by (simp add: u get_community_def frame_simps st2(1) find_simps)
  show "a \<noteq> cid \<Longrightarrow> community_rows a (db (unhost_community st cid)) = community_rows a (db st)"
    by (simp add: u rows_simps st2(2))
  show "community_rows cid (db (unhost_community st cid)) = no_rows"
    using h by (simp add: u rows_simps st2(2,3)) (simp add: no_rows_def community_rows_def empty_db_def)
  show "\<not> is_banned_row cid key (db (unhost_community st cid))"
    using h by (auto simp: u db_run st2(2,3) delete_hosted_def exists_defs row_exists_own is_banned_row_iff row_delete_def)
  show "t_messages (db (unhost_community st cid)) = t_messages (db st)"
    by (simp add: u db_run st2(2,3) delete_hosted_def)
  show "faults (unhost_community st cid) = []" by (simp add: u no_faults_sql st2(3))
  show "outbox (unhost_community st cid) = outbox st @
      (case c_route_id c of None \<Rightarrow> [] | Some rid \<Rightarrow> [ReleaseRoute rid])"
    by (simp add: u frame_simps st2(4))
qed

text \<open>
  Giving up a hosted community releases its route, removes it from memory, deletes all its
  rows, bans included, and touches nothing of the others; only its stored messages stay behind,
  because their table has no foreign key. A community hosted again under the same id starts
  afresh.
\<close>

theorem unhosting_forgets:
  assumes "mirrored st" and "get_community st cid = Some c"
  defines "st' \<equiv> unhost_community st cid"
  shows "get_community st' cid = None \<and> community_rows cid (db st') = no_rows
    \<and> (\<forall>key. \<not> is_banned_row cid key (db st'))
    \<and> t_messages (db st') = t_messages (db st)
    \<and> (\<forall>a. a \<noteq> cid \<longrightarrow> get_community st' a = get_community st a
        \<and> community_rows a (db st') = community_rows a (db st))
    \<and> outbox st' = outbox st @ (case c_route_id c of None \<Rightarrow> [] | Some rid \<Rightarrow> [ReleaseRoute rid])"
  unfolding st'_def using unhost_result [OF assms(1,2)] by simp

theorem unhosting_forgets_witness:
  "community_rows ''c1'' (db (unhost_community hosted_server ''c1'')) = no_rows"
proof (rule hosted_server_facts)
  fix rid blob
  assume h: "mirrored hosted_server" "\<And>a. a \<noteq> ''c1'' \<Longrightarrow> community_rows a (db hosted_server) = no_rows"
    "\<And>a. get_community hosted_server a = (if a = ''c1''
     then Some (fresh_community host_env ''c1'' ''k'' ''o'' ''n'' ''owner'' ''Owner'' rid blob) else None)"
  have "get_community hosted_server ''c1'' = Some (fresh_community host_env ''c1'' ''k'' ''o'' ''n'' ''owner'' ''Owner'' rid blob)"
    by (simp add: h(3))
  from unhosting_forgets [OF h(1) this] show ?thesis by blast
qed

end
