(* ===== verification/Restart.thy ===== *)
theory Restart
  imports Lifecycle
begin

text \<open>
  Starting up again: the loaders of \<open>community_host.rs\<close> rebuild from mirrored rows the communities
  that wrote them, up to what the columns cannot hold, in whatever order the rows come back.
\<close>

section \<open>Folding rows into vectors\<close>

lemma update_first_map_distinct:
  assumes "distinct (map key xs)"
  shows "update_first (\<lambda>x. key x = k) f xs = map (\<lambda>x. if key x = k then f x else x) xs"
  using assms
proof (induction xs)
  case (Cons x xs)
  have "map (\<lambda>y. if key y = k then f y else y) xs = xs" if "key x = k"
    using Cons.prems that by (intro map_idI) (auto simp: rev_image_eqI)
  with Cons show ?case by auto
qed simp

lemma fold_update_first:
  assumes "distinct (map key xs)" and "\<And>r x. key (g r x) = key x"
  shows "fold (\<lambda>r. update_first (\<lambda>x. key x = k r) (g r)) rows xs =
    map (\<lambda>x. fold g (filter (\<lambda>r. k r = key x) rows) x) xs"
  using assms(1)
proof (induction rows arbitrary: xs)
  case (Cons r rows)
  let ?xs = "map (\<lambda>x. if key x = k r then g r x else x) xs"
  have keys: "map key ?xs = map key xs" using assms(2) by auto
  have "fold (\<lambda>r. update_first (\<lambda>x. key x = k r) (g r)) rows ?xs =
    map (\<lambda>x. fold g (filter (\<lambda>r. k r = key x) rows) x) ?xs"
    using Cons.prems keys by (intro Cons.IH) metis
  then show ?case
    using Cons.prems assms(2) by (auto simp: update_first_map_distinct)
qed simp

lemma map_filter_over_map: "List.map_filter f (map g xs) = List.map_filter (\<lambda>x. f (g x)) xs"
  by (induction xs) (simp_all add: map_filter_simps split: option.split)

lemma sort_key_map: "sort_key k (map f xs) = map f (sort_key (\<lambda>x. k (f x)) xs)"
proof -
  have ins: "insort_key k (f x) (map f ys) = map f (insort_key (\<lambda>x. k (f x)) x ys)" for x ys
    by (induction ys) auto
  show ?thesis by (induction xs) (simp_all add: ins)
qed

lemma mset_eq_mapD:
  "mset xs = mset (map f ys) \<Longrightarrow> \<exists>zs. xs = map f zs \<and> mset zs = mset ys"
proof (induction xs arbitrary: ys)
  case (Cons x xs)
  have "x \<in># mset (map f ys)" unfolding Cons.prems [symmetric] by simp
  then obtain y where y: "y \<in> set ys" "x = f y" by auto
  have split: "mset ys = add_mset y (mset (remove1 y ys))" using y(1) by simp
  have "mset xs = mset (map f (remove1 y ys))"
  proof -
    have "add_mset x (mset xs) = image_mset f (mset ys)" using Cons.prems by simp
    also have "\<dots> = add_mset x (mset (map f (remove1 y ys)))" by (subst split) (simp add: y(2))
    finally show ?thesis by simp
  qed
  from Cons.IH [OF this] obtain zs where "xs = map f zs" "mset zs = mset (remove1 y ys)" by blast
  then have "x # xs = map f (y # zs) \<and> mset (y # zs) = mset ys"
    by (simp only: list.map y(2) mset.simps split)
  then show ?case by (rule exI)
qed simp

section \<open>Members\<close>

definition reload_member :: "u64 \<Rightarrow> server_member \<Rightarrow> server_member" where
  "reload_member now m =
     m\<lparr>m_timeout_until := (case m_timeout_until m of
         Some t \<Rightarrow> if uint t \<le> i64_max \<and> now < t then Some t else None
       | None \<Rightarrow> None)\<rparr>"

definition role_row_effect :: "member_role_row \<Rightarrow> server_member \<Rightarrow> server_member" where
  "role_row_effect r = (case column_u32 (xr_role_id r) of None \<Rightarrow> id | Some rid \<Rightarrow> add_role_id rid)"

definition timeout_row_effect :: "u64 \<Rightarrow> timeout_row \<Rightarrow> server_member \<Rightarrow> server_member" where
  "timeout_row_effect now r =
     (case column_u64 (tr_timeout_until r) of
        None \<Rightarrow> id | Some until \<Rightarrow> if until > now then set_timeout (Some until) else id)"

lemma update_first_id: "update_first P id xs = xs" "update_first P (\<lambda>x. x) xs = xs"
  by (induction xs) auto

lemma load_role_row_eq:
  "load_role_row r = update_first (\<lambda>m. m_pseudonym_key_hex m = xr_pseudonym r) (role_row_effect r)"
  by (auto simp: load_role_row_def role_row_effect_def update_first_id fun_eq_iff split: option.split)

lemma load_timeout_row_eq:
  "load_timeout_row now r =
    update_first (\<lambda>m. m_pseudonym_key_hex m = tr_pseudonym r) (timeout_row_effect now r)"
  by (auto simp: load_timeout_row_def timeout_row_effect_def update_first_id fun_eq_iff split: option.split)

lemma effect_keys [simp]:
  "m_pseudonym_key_hex (role_row_effect r m) = m_pseudonym_key_hex m"
  "m_pseudonym_key_hex (timeout_row_effect now rt m) = m_pseudonym_key_hex m"
  by (auto simp: role_row_effect_def timeout_row_effect_def split: option.split)

lemma fold_role_effects:
  "fold role_row_effect (map (member_role_to_row cid k) ids) m = m\<lparr>m_role_ids := m_role_ids m @ ids\<rparr>"
  by (induction ids arbitrary: m)
     (simp_all add: role_row_effect_def member_role_to_row_def column_u32_uint add_role_id_def)

lemma cast_signed_column: "column_u64 (cast_signed t) = (if uint t \<le> i64_max then Some t else None)"
proof (cases "uint t \<le> i64_max")
  case False
  then have lo: "2 ^ 63 \<le> uint t" by (simp add: i64_max_def)
  have hi: "uint t < 2 ^ 64" using uint_lt2p [of t] by simp
  have "uint t div 2 ^ 63 = (uint t - 2 ^ 63) div 2 ^ 63 + 1"
    using lo by (intro div_pos_geq) simp_all
  also have "(uint t - 2 ^ 63) div 2 ^ 63 = 0" using lo hi by (intro div_pos_pos_trivial) simp_all
  finally have "bit (uint t) 63" by (simp add: bit_iff_odd)
  then have "sint t < 0" by (simp add: sint_uint)
  then show ?thesis using False by (simp add: column_u64_def cast_signed_def)
qed (simp add: column_u64_cast_signed)


lemma timeout_effects:
  assumes "map tr_timeout_until rows = map cast_signed (case to of None \<Rightarrow> [] | Some t \<Rightarrow> [t])"
  shows "fold (timeout_row_effect now) rows m =
    (case to of
       Some t \<Rightarrow> if uint t \<le> i64_max \<and> now < t then m\<lparr>m_timeout_until := Some t\<rparr> else m
     | None \<Rightarrow> m)"
proof (cases "to")
  case (Some t)
  with assms obtain r where "rows = [r]" "tr_timeout_until r = cast_signed t" by (auto simp: map_eq_Cons_conv)
  with Some show ?thesis by (simp add: timeout_row_effect_def cast_signed_column set_timeout_def)
qed (use assms in simp)

lemma member_of_member_row:
  "member_of_row (member_to_row cid m) = m\<lparr>m_role_ids := [], m_timeout_until := None\<rparr>"
  by (cases m) (simp add: member_of_row_def member_to_row_def)

lemma loaded_members:
  assumes "mirrors_members cid d c" and "distinct (map m_pseudonym_key_hex (c_members c))"
  shows "fold (load_timeout_row now) (t_timeouts d)
      (fold load_role_row (t_member_roles d) (map member_of_row (t_members d)))
    = map (reload_member now) (c_members c)"
proof -
  let ?bare = "\<lambda>m. m\<lparr>m_role_ids := [], m_timeout_until := None\<rparr> :: server_member"
  have members: "map member_of_row (t_members d) = map ?bare (c_members c)"
    using assms(1) by (simp add: mirrors_members_def member_of_member_row)
  have keys: "map m_pseudonym_key_hex (map ?bare (c_members c)) = map m_pseudonym_key_hex (c_members c)" by simp
  have roles: "fold load_role_row (t_member_roles d) (map ?bare (c_members c))
      = map (\<lambda>m. m\<lparr>m_timeout_until := None\<rparr>) (c_members c)"
    unfolding load_role_row_eq
  proof (subst fold_update_first)
    show "map (\<lambda>m. fold role_row_effect (filter (\<lambda>r. xr_pseudonym r = m_pseudonym_key_hex m) (t_member_roles d)) m)
        (map ?bare (c_members c)) = map (\<lambda>m. m\<lparr>m_timeout_until := None\<rparr>) (c_members c)"
      using assms(1) members.lookup_mem [OF assms(2)]
      by (auto simp: mirrors_members_def role_ids_of_def fold_role_effects)
  qed (use assms(2) keys in \<open>simp_all add: comp_def\<close>)
  have "fold (load_timeout_row now) (t_timeouts d) (map (\<lambda>m. m\<lparr>m_timeout_until := None\<rparr>) (c_members c))
      = map (reload_member now) (c_members c)"
    unfolding load_timeout_row_eq
  proof (subst fold_update_first)
    have "fold (timeout_row_effect now) (filter (\<lambda>r. tr_pseudonym r = m_pseudonym_key_hex m) (t_timeouts d))
        (m\<lparr>m_timeout_until := None\<rparr>) = reload_member now m" if "m \<in> set (c_members c)" for m
    proof -
      have "map tr_timeout_until (filter (\<lambda>r. tr_pseudonym r = m_pseudonym_key_hex m) (t_timeouts d))
          = map cast_signed (case m_timeout_until m of None \<Rightarrow> [] | Some t \<Rightarrow> [t])"
        using assms(1) members.lookup_mem [OF assms(2) that] by (simp add: mirrors_members_def timeouts_of_def)
      from timeout_effects [OF this] show ?thesis
        by (cases m) (simp add: reload_member_def split: option.split)
    qed
    then show "map (\<lambda>m. fold (timeout_row_effect now) (filter (\<lambda>r. tr_pseudonym r = m_pseudonym_key_hex m) (t_timeouts d)) m)
        (map (\<lambda>m. m\<lparr>m_timeout_until := None\<rparr>) (c_members c)) = map (reload_member now) (c_members c)"
      by simp
  qed (use assms(2) in \<open>simp_all add: comp_def\<close>)
  with roles members show ?thesis by simp
qed

section \<open>Channels, roles and the key\<close>

definition storable_overwrite :: "permission_overwrite \<Rightarrow> bool" where
  "storable_overwrite ow \<longleftrightarrow> uint (ow_allow ow) \<le> i64_max \<and> uint (ow_deny ow) \<le> i64_max"

definition storable_channel :: "server_channel \<Rightarrow> bool" where
  "storable_channel ch \<longleftrightarrow> i32_min \<le> ch_sort_order ch \<and> ch_sort_order ch \<le> i32_max"

definition storable_role :: "role_definition \<Rightarrow> bool" where
  "storable_role r \<longleftrightarrow> uint (rd_permissions r) \<le> i64_max \<and> i32_min \<le> rd_position r \<and> rd_position r \<le> i32_max"

definition overwrite_row_effect :: "overwrite_row \<Rightarrow> server_channel \<Rightarrow> server_channel" where
  "overwrite_row_effect r =
     (case (column_u64 (or_allow_bits r), column_u64 (or_deny_bits r)) of
        (Some allow, Some deny) \<Rightarrow> push_overwrite \<lparr>ow_target_type = parse_overwrite_type (or_target_type r),
          ow_target_id = or_target_id r, ow_allow = allow, ow_deny = deny\<rparr>
      | _ \<Rightarrow> id)"

lemma load_overwrite_row_eq:
  "load_overwrite_row r = update_first (\<lambda>ch. ch_id ch = or_channel_id r) (overwrite_row_effect r)"
  by (auto simp: load_overwrite_row_def overwrite_row_effect_def update_first_id fun_eq_iff split: option.split)

lemma overwrite_effect_id [simp]: "ch_id (overwrite_row_effect r ch) = ch_id ch"
  by (auto simp: overwrite_row_effect_def push_overwrite_def split: option.split)

lemma overwrite_row_effect_row:
  "overwrite_row_effect (overwrite_to_row cid h ow) =
    (if storable_overwrite ow then push_overwrite ow else id)"
proof -
  have "parse_overwrite_type (show_overwrite_type t) = t" for t
    by (cases t) (simp_all add: parse_overwrite_type_def show_overwrite_type_def)
  then show ?thesis
    by (cases ow) (simp add: overwrite_row_effect_def overwrite_to_row_def cast_signed_column storable_overwrite_def)
qed

lemma fold_overwrite_effects:
  "fold overwrite_row_effect (map (overwrite_to_row cid h) ows) ch =
    ch\<lparr>ch_permission_overwrites := ch_permission_overwrites ch @ filter storable_overwrite ows\<rparr>"
  by (induction ows arbitrary: ch) (simp_all add: overwrite_row_effect_row push_overwrite_def)

lemma channel_of_channel_row:
  "channel_of_row (channel_to_row cid ch) =
    (if storable_channel ch then Some (ch\<lparr>ch_permission_overwrites := []\<rparr>) else None)"
  by (cases ch) (simp add: channel_of_row_def channel_to_row_def column_i32_def storable_channel_def)

lemma role_of_role_row: "role_of_row (role_to_row cid r) = (if storable_role r then Some r else None)"
  by (cases r) (auto simp: role_of_row_def role_to_row_def column_u32_uint cast_signed_column column_i32_def
      storable_role_def)

lemma map_filter_if: "List.map_filter (\<lambda>x. if P x then Some (f x) else None) xs = map f (filter P xs)"
  by (induction xs) (simp_all add: map_filter_simps)

definition reloads_channel :: "server_channel \<Rightarrow> server_channel \<Rightarrow> bool" where
  "reloads_channel ch ch' \<longleftrightarrow>
     ch' = ch\<lparr>ch_permission_overwrites := ch_permission_overwrites ch'\<rparr>
     \<and> mset (ch_permission_overwrites ch') = mset (filter storable_overwrite (ch_permission_overwrites ch))"

lemma loaded_channels:
  assumes "mirrors_channels cid d c" and "distinct (map ch_id (c_channels c))"
  shows "list_all2 reloads_channel (filter storable_channel (c_channels c))
    (fold load_overwrite_row (t_overwrites d) (List.map_filter channel_of_row (t_channels d)))"
proof -
  let ?chs = "filter storable_channel (c_channels c)"
  let ?bare = "\<lambda>ch. ch\<lparr>ch_permission_overwrites := []\<rparr> :: server_channel"
  have "List.map_filter channel_of_row (t_channels d) = map ?bare ?chs"
    using assms(1) by (simp add: mirrors_channels_def map_filter_over_map channel_of_channel_row map_filter_if)
  moreover have "distinct (map ch_id (map ?bare ?chs))" using assms(2) by (simp add: comp_def distinct_map_filterI)
  ultimately have load: "fold load_overwrite_row (t_overwrites d) (List.map_filter channel_of_row (t_channels d))
      = map (\<lambda>ch. fold overwrite_row_effect (filter (\<lambda>r. or_channel_id r = ch_id ch) (t_overwrites d)) (?bare ch)) ?chs"
    unfolding load_overwrite_row_eq by (simp add: fold_update_first comp_def)
  have "reloads_channel ch (fold overwrite_row_effect (filter (\<lambda>r. or_channel_id r = ch_id ch) (t_overwrites d)) (?bare ch))"
    if "ch \<in> set (c_channels c)" for ch
  proof -
    let ?rows = "filter (\<lambda>r. or_channel_id r = ch_id ch) (t_overwrites d)"
    have m: "mset ?rows = mset (map (overwrite_to_row cid (ch_id ch)) (ch_permission_overwrites ch))"
      using assms(1) channels.lookup_mem [OF assms(2) that]
      by (simp add: mirrors_channels_def stored_overwrites_def)
    then obtain ows where ows: "?rows = map (overwrite_to_row cid (ch_id ch)) ows"
      "mset ows = mset (ch_permission_overwrites ch)"
      using mset_eq_mapD [OF m] by blast
    show ?thesis
      by (simp add: reloads_channel_def ows fold_overwrite_effects)
  qed
  then show ?thesis unfolding load by (auto simp: list_all2_map2 list_all2_same)
qed

lemma loaded_roles:
  assumes "t_roles d = map (role_to_row cid) (c_roles c)"
  shows "List.map_filter role_of_row (sort_key (\<lambda>r. - rr_position r) (t_roles d)) =
    filter storable_role (sort_key (\<lambda>r. - rd_position r) (c_roles c))"
proof -
  have "(\<lambda>r. - rr_position (role_to_row cid r)) = (\<lambda>r. - rd_position r)"
    by (simp add: role_to_row_def)
  then have "sort_key (\<lambda>r. - rr_position r) (map (role_to_row cid) rs) = map (role_to_row cid) (sort_key (\<lambda>r. - rd_position r) rs)" for rs
    by (simp add: sort_key_map)
  then show ?thesis using assms
    by (simp add: map_filter_over_map role_of_role_row map_filter_if)
qed

lemma loaded_mek:
  assumes "mirrors_mek d k"
  shows "(case sort_key (\<lambda>r. - kr_generation r) (t_mek d) of [] \<Rightarrow> None
    | r # _ \<Rightarrow> if length (kr_key_bytes r) = 32
        then Some \<lparr>mek_key = kr_key_bytes r, mek_generation = u64_or_zero (kr_generation r)\<rparr> else None) = Some k"
proof -
  obtain r0 where r0: "r0 \<in> set (t_mek d)" "kr_generation r0 = uint (mek_generation k)"
    using assms by (auto simp: mirrors_mek_def)
  let ?s = "sort_key (\<lambda>r. - kr_generation r) (t_mek d)"
  have set: "set ?s = set (t_mek d)" by simp
  then obtain r rs where s: "?s = r # rs" using r0(1) by (cases ?s) auto
  have "sorted (map (\<lambda>r. - kr_generation r) ?s)" by simp
  then have "\<forall>x\<in>set ?s. kr_generation x \<le> kr_generation r" unfolding s by auto
  then have "uint (mek_generation k) \<le> kr_generation r" using r0 set by auto
  moreover have "r \<in> set (t_mek d)" using s set by auto
  ultimately have "kr_generation r = uint (mek_generation k)" "kr_key_bytes r = mek_key k"
    using assms by (auto simp: mirrors_mek_def)
  then show ?thesis using assms unfolding s by (simp add: mirrors_mek_def u64_or_zero_uint)
qed

section \<open>Restart\<close>

text \<open>
  What a restart makes of a community: all of its lasting parts, without expired timeouts, with
  overwrites in an order of the database's choice and the roles from the highest position down, and
  without the values the columns cannot hold.
\<close>

definition restored :: "u64 \<Rightarrow> hosted_community \<Rightarrow> hosted_community \<Rightarrow> bool" where
  "restored now c c' \<longleftrightarrow>
     c_community_id c' = c_community_id c \<and> c_dht_record_key c' = c_dht_record_key c
     \<and> c_owner_keypair_hex c' = c_owner_keypair_hex c \<and> c_name c' = c_name c
     \<and> c_description c' = c_description c \<and> c_creator_pseudonym_hex c' = c_creator_pseudonym_hex c
     \<and> c_mek c' = c_mek c \<and> c_members c' = map (reload_member now) (c_members c)
     \<and> list_all2 reloads_channel (filter storable_channel (c_channels c)) (c_channels c')
     \<and> c_roles c' = filter storable_role (sort_key (\<lambda>r. - rd_position r) (c_roles c))"

lemma host_community_restores:
  assumes "faults st = []" and "get_community st cid = None" and "mirrors cid (community_rows cid (db st)) c"
    and "c_community_id c = cid" and "wf_community c" and "list_ex storable_role (c_roles c)"
    and "keypair_error (c_owner_keypair_hex c) = None"
  shows "\<exists>c' st'. host_community keypair_error env st cid (c_dht_record_key c) (c_owner_keypair_hex c) (c_name c)
      (c_creator_pseudonym_hex c) [] = (HostOk, st')
    \<and> faults st' = [] \<and> db st' = db st
    \<and> (\<forall>a. get_community st' a = (if a = cid then Some c' else get_community st a))
    \<and> restored (now_secs env) c c'"
proof -
  obtain r where r: "t_hosted (community_rows cid (db st)) = [r]" "r\<lparr>hr_created_at := 0\<rparr> = hosted_to_row cid c"
    using assms(3) by (auto simp: mirrors_def)
  then have fields: "hr_description r = c_description c" "hr_creator_pseudonym r = c_creator_pseudonym_hex c"
    by (cases r; simp add: hosted_to_row_def)+
  let ?hr = "\<lparr>hr_id = cid, hr_dht_record_key = c_dht_record_key c, hr_owner_keypair_hex = c_owner_keypair_hex c,
      hr_name = c_name c, hr_description = [], hr_creator_pseudonym = [], hr_created_at = uint (now_secs env)\<rparr>"
  have "row_exists hr_id cid (t_hosted (db st))" using r(1) by (simp add: row_exists_own)
  then have st1: "sql_run (insert_ignore_hosted ?hr) st = st"
    using assms(1) by (simp add: sql_run_no_faults insert_ignore_hosted_def row_insert_ignore_def)
  let ?R = "community_rows cid (db st)"
  let ?chs = "fold load_overwrite_row (t_overwrites ?R) (List.map_filter channel_of_row (t_channels ?R))"
  let ?rs = "filter storable_role (sort_key (\<lambda>r. - rd_position r) (c_roles c))"
  have m: "mirrors_members cid ?R c" "mirrors_channels cid ?R c" "mirrors_mek ?R (c_mek c)"
    "t_roles ?R = map (role_to_row cid) (c_roles c)"
    using assms(3) by (auto simp: mirrors_def)
  have d: "distinct (map m_pseudonym_key_hex (c_members c))" "distinct (map ch_id (c_channels c))"
    using assms(5) by (simp_all add: wf_community_def)
  have mek: "load_or_create_mek env st cid = (c_mek c, st)"
    using loaded_mek [OF m(3)] by (simp add: load_or_create_mek_def load_rows [OF assms(1)])
  have chs: "load_channels_from_db st cid = (Some ?chs, st)" by (simp add: load_rows [OF assms(1)])
  have "?rs \<noteq> []" using assms(6) by (auto simp: filter_empty_conv list_ex_iff)
  then have roles: "load_or_create_roles st cid = (Some ?rs, st)"
    by (simp add: load_or_create_roles_def load_rows [OF assms(1)] loaded_roles [OF m(4)])
  have mems: "load_members_from_db env st cid = (Some (map (reload_member (now_secs env)) (c_members c)), st)"
    by (simp add: load_rows [OF assms(1)] loaded_members [OF m(1) d(1)])
  obtain rid blob opened st4 where
    s: "setup_dht_and_route keypair_error st (c_dht_record_key c) (c_owner_keypair_hex c) = (Some (rid, blob, opened), st4)"
    and st4: "db st4 = db st" "faults st4 = faults st" "hosted st4 = hosted st"
    by (rule setup_dht_and_route_frame [where st = st and dht_key = "c_dht_record_key c"
          and keypair = "c_owner_keypair_hex c" and keypair_error = keypair_error]) (use assms(7) in auto)
  have h4: "t_hosted (community_rows cid (db st4)) = [r]" "faults st4 = []" using r(1) st4 assms(1) by simp_all
  have g: "get_community st4 = get_community st" by (rule get_community_cong) (rule st4(3))
  have new: "\<not> needs_creator (c_creator_pseudonym_hex c) (hr_creator_pseudonym r) ms" for ms
    by (simp add: needs_creator_def fields)
  let ?c' = "\<lparr>c_community_id = cid, c_dht_record_key = c_dht_record_key c, c_owner_keypair_hex = c_owner_keypair_hex c,
      c_name = c_name c, c_description = c_description c, c_route_id = rid, c_route_blob = blob, c_mek = c_mek c,
      c_members = map (reload_member (now_secs env)) (c_members c), c_channels = ?chs, c_roles = ?rs,
      c_creator_pseudonym_hex = c_creator_pseudonym_hex c\<rparr>"
  obtain st' where fin: "finish_hosting env st4 cid (c_dht_record_key c) (c_owner_keypair_hex c) (c_name c)
      (c_creator_pseudonym_hex c) [] (c_mek c) ?chs ?rs (map (reload_member (now_secs env)) (c_members c))
      rid blob opened = (HostOk, st')" and f': "faults st' = []" and db': "db st' = db st4"
    and g': "\<And>a. get_community st' a = (if a = cid then Some ?c' else get_community st4 a)"
  proof (rule finish_hosting_result [OF h4(2,1), where env = env and dht_key = "c_dht_record_key c"
        and keypair = "c_owner_keypair_hex c" and name = "c_name c" and creator_key = "c_creator_pseudonym_hex c"
        and display = "[]" and mek = "c_mek c" and channels = ?chs and roles = ?rs
        and members = "map (reload_member (now_secs env)) (c_members c)" and rid = rid and blob = blob
        and opened = opened], goal_cases)
    case (1 st')
    show ?case
      by (rule 1(1), fact 1(2), fact 1(3), use 1(4) new in simp)
         (simp only: 1(5), use new fields in simp)
  qed
  have "host_community keypair_error env st cid (c_dht_record_key c) (c_owner_keypair_hex c) (c_name c)
      (c_creator_pseudonym_hex c) [] = (HostOk, st')"
    using assms(2) by (simp add: host_community_def Let_def st1 mek chs roles mems s fin)
  moreover have "restored (now_secs env) c ?c'"
    using assms(4) loaded_channels [OF m(2) d(2)] by (simp add: restored_def)
  ultimately show ?thesis using f' db' st4(1) g' g by (intro exI [of _ ?c'] exI [of _ st']) simp
qed

definition reload_ready :: "(string \<Rightarrow> string option) \<Rightarrow> server_state \<Rightarrow> bool" where
  "reload_ready keypair_error st \<longleftrightarrow>
     mirrored st \<and> (\<forall>r\<in>set (t_hosted (db st)). get_community st (hr_id r) \<noteq> None)
     \<and> (\<forall>a c. get_community st a = Some c \<longrightarrow>
          keypair_error (c_owner_keypair_hex c) = None \<and> list_ex storable_role (c_roles c))"

definition reloading :: "u64 \<Rightarrow> server_state \<Rightarrow> server_state \<Rightarrow> bool" where
  "reloading now st s \<longleftrightarrow> db s = db st \<and> faults s = []
     \<and> (\<forall>a c'. get_community s a = Some c' \<longrightarrow> (\<exists>c. get_community st a = Some c \<and> restored now c c'))"

definition host_row :: "(string \<Rightarrow> string option) \<Rightarrow> request_env \<Rightarrow> hosted_row \<Rightarrow> server_state \<Rightarrow> server_state" where
  "host_row keypair_error env r st = snd (host_community keypair_error env st (hr_id r) (hr_dht_record_key r)
     (hr_owner_keypair_hex r) (hr_name r) (hr_creator_pseudonym r) [])"

lemma reloading_row:
  assumes "reload_ready keypair_error st" and "reloading (now_secs env) st s" and "r \<in> set (t_hosted (db st))"
  shows "reloading (now_secs env) st (host_row keypair_error env r s)"
    and "get_community (host_row keypair_error env r s) a = None \<longleftrightarrow> get_community s a = None \<and> a \<noteq> hr_id r"
proof -
  have "reloading (now_secs env) st (host_row keypair_error env r s) \<and>
    (\<forall>a. get_community (host_row keypair_error env r s) a = None \<longleftrightarrow> get_community s a = None \<and> a \<noteq> hr_id r)"
  proof (cases "get_community s (hr_id r)")
    case (Some x)
    then have "host_row keypair_error env r s = s" by (simp add: host_row_def host_community_def)
    with assms(2) Some show ?thesis by auto
  next
    case None
    have "get_community st (hr_id r) \<noteq> None" using assms(1,3) unfolding reload_ready_def by blast
    then obtain c where c: "get_community st (hr_id r) = Some c" by blast
    have ready: "mirrored st" "keypair_error (c_owner_keypair_hex c) = None" "list_ex storable_role (c_roles c)"
      using assms(1) c unfolding reload_ready_def by blast+
    note m = mirrored_D [OF ready(1) c]
    have s: "db s = db st" "faults s = []" using assms(2) by (simp_all add: reloading_def)
    have "filter (\<lambda>x. hr_id x = hr_id r) (t_hosted (db st)) = t_hosted (community_rows (hr_id r) (db st))"
      by (simp add: community_rows_def)
    moreover have "r \<in> set (filter (\<lambda>x. hr_id x = hr_id r) (t_hosted (db st)))" using assms(3) by simp
    ultimately have "r\<lparr>hr_created_at := 0\<rparr> = hosted_to_row (hr_id r) c"
      using m(1) by (auto simp: mirrors_def)
    then have fields: "hr_dht_record_key r = c_dht_record_key c" "hr_owner_keypair_hex r = c_owner_keypair_hex c"
      "hr_name r = c_name c" "hr_creator_pseudonym r = c_creator_pseudonym_hex c"
      by (cases r; simp add: hosted_to_row_def)+
    have mr: "mirrors (hr_id r) (community_rows (hr_id r) (db s)) c" using m(1) s(1) by simp
    from host_community_restores [where env = env and keypair_error = keypair_error,
        OF s(2) None mr m(2,3) ready(3,2)]
    obtain c' s' where h: "host_row keypair_error env r s = s'" "faults s' = []" "db s' = db s"
      "\<forall>a. get_community s' a = (if a = hr_id r then Some c' else get_community s a)"
      "restored (now_secs env) c c'"
      unfolding host_row_def fields by auto
    then show ?thesis
      using c assms(2) None by (auto simp: reloading_def)
  qed
  then show "reloading (now_secs env) st (host_row keypair_error env r s)"
    "get_community (host_row keypair_error env r s) a = None \<longleftrightarrow> get_community s a = None \<and> a \<noteq> hr_id r"
    by blast+
qed

lemma reloading_rows:
  assumes "reload_ready keypair_error st" and "reloading (now_secs env) st s"
    and "set rows \<subseteq> set (t_hosted (db st))"
  shows "reloading (now_secs env) st (fold (host_row keypair_error env) rows s)
    \<and> (\<forall>a. get_community (fold (host_row keypair_error env) rows s) a = None \<longleftrightarrow>
          get_community s a = None \<and> a \<notin> hr_id ` set rows)"
  using assms(2,3)
proof (induction rows arbitrary: s)
  case (Cons r rows)
  note step = reloading_row [OF assms(1) Cons.prems(1), of r]
  have "r \<in> set (t_hosted (db st))" "set rows \<subseteq> set (t_hosted (db st))" using Cons.prems by auto
  with step Cons.IH [of "host_row keypair_error env r s"] show ?case by auto
qed simp

lemma restart_in_order:
  fixes env
  assumes "reload_ready keypair_error st"
  defines "st' \<equiv> load_persisted_communities keypair_error env (st\<lparr>hosted := []\<rparr>)"
  shows "case get_community st a of
      None \<Rightarrow> get_community st' a = None
    | Some c \<Rightarrow> (\<exists>c'. get_community st' a = Some c' \<and> restored (now_secs env) c c')"
proof -
  let ?s = "st\<lparr>hosted := []\<rparr>"
  have m: "mirrored st" using assms(1) by (simp add: reload_ready_def)
  then have f: "faults st = []" by simp
  have s: "reloading (now_secs env) st ?s" "get_community ?s b = None" for b
    using f by (simp_all add: reloading_def get_community_def)
  have "host_row keypair_error env = (\<lambda>r st. snd (host_community keypair_error env st (hr_id r)
      (hr_dht_record_key r) (hr_owner_keypair_hex r) (hr_name r) (hr_creator_pseudonym r) []))"
    by (simp add: fun_eq_iff host_row_def)
  then have "st' = fold (host_row keypair_error env) (t_hosted (db st)) ?s"
    by (simp add: st'_def load_persisted_communities_def load_communities_from_db_def sql_query_no_faults f)
  then have r: "reloading (now_secs env) st st'"
    "get_community st' b = None \<longleftrightarrow> b \<notin> hr_id ` set (t_hosted (db st))" for b
    using reloading_rows [OF assms(1) s(1), of "t_hosted (db st)"] s(2) by auto
  show ?thesis
  proof (cases "get_community st a")
    case None
    then have "a \<notin> hr_id ` set (t_hosted (db st))" using assms(1) by (auto simp: reload_ready_def)
    with None r(2) show ?thesis by simp
  next
    case (Some c)
    have "t_hosted (community_rows a (db st)) \<noteq> []"
      using mirrored_D(1) [OF m Some] rows_nonempty by blast
    then have "a \<in> hr_id ` set (t_hosted (db st))" by (auto simp: community_rows_def filter_empty_conv)
    then have "get_community st' a \<noteq> None" using r(2) by simp
    then obtain c' where c': "get_community st' a = Some c'" by blast
    then obtain c1 where "get_community st a = Some c1" "restored (now_secs env) c1 c'"
      using r(1) unfolding reloading_def by blast
    with Some c' show ?thesis by simp
  qed
qed

section \<open>Rows in another order\<close>

text \<open>
  The queries for communities, members and channels have no ORDER BY, so a database opened again may
  return the rows of each table in any order.
\<close>

definition reordered :: "server_db \<Rightarrow> server_db \<Rightarrow> bool" where
  "reordered d d' \<longleftrightarrow>
     mset (t_hosted d') = mset (t_hosted d) \<and> mset (t_members d') = mset (t_members d)
     \<and> mset (t_mek d') = mset (t_mek d) \<and> mset (t_channels d') = mset (t_channels d)
     \<and> mset (t_roles d') = mset (t_roles d) \<and> mset (t_member_roles d') = mset (t_member_roles d)
     \<and> mset (t_overwrites d') = mset (t_overwrites d) \<and> mset (t_timeouts d') = mset (t_timeouts d)"

definition same_member :: "server_member \<Rightarrow> server_member \<Rightarrow> bool" where
  "same_member m m' \<longleftrightarrow> m' = m\<lparr>m_role_ids := m_role_ids m'\<rparr> \<and> mset (m_role_ids m') = mset (m_role_ids m)"

text \<open>Two lists hold the same up to order and a relation between elements.\<close>

definition same_items :: "('a \<Rightarrow> 'b \<Rightarrow> bool) \<Rightarrow> 'a list \<Rightarrow> 'b list \<Rightarrow> bool" where
  "same_items R xs ys \<longleftrightarrow> (\<exists>zs. mset zs = mset xs \<and> list_all2 R zs ys)"

definition same_content :: "hosted_community \<Rightarrow> hosted_community \<Rightarrow> bool" where
  "same_content c c' \<longleftrightarrow>
     c' = c\<lparr>c_members := c_members c', c_channels := c_channels c', c_roles := c_roles c'\<rparr>
     \<and> same_items same_member (c_members c) (c_members c')
     \<and> mset (c_channels c') = mset (c_channels c) \<and> mset (c_roles c') = mset (c_roles c)"

lemma mset_filterD: "mset xs = mset ys \<Longrightarrow> mset (filter P xs) = mset (filter P ys)"
  by simp

lemma reordered_rows: "reordered d d' \<Longrightarrow> reordered (community_rows a d) (community_rows a d')"
  by (simp add: reordered_def community_rows_def)

lemma mset_single_list: "mset xs = {#x#} \<longleftrightarrow> xs = [x]"
  by (cases xs) (auto simp: add_mset_eq_single)

lemma mset_short_list: "mset xs = mset ys \<Longrightarrow> length ys \<le> 1 \<Longrightarrow> xs = ys"
  by (cases ys) (auto simp: mset_single_list)

lemma find_member_permuted:
  assumes "mset ms = mset (c_members c)" and "distinct (map m_pseudonym_key_hex (c_members c))"
    and "\<And>m. m_pseudonym_key_hex (f m) = m_pseudonym_key_hex m"
  shows "find_member (c\<lparr>c_members := map f ms, c_channels := chs, c_roles := rs\<rparr>) k =
    map_option f (find_member c k)"
proof -
  let ?c = "c\<lparr>c_members := map f ms, c_channels := chs, c_roles := rs\<rparr>"
  have set: "set ms = set (c_members c)" using mset_eq_setD [OF assms(1)] .
  have "mset (map m_pseudonym_key_hex ms) = mset (map m_pseudonym_key_hex (c_members c))"
    using assms(1) by simp
  then have "distinct (map m_pseudonym_key_hex ms)" using assms(2) mset_eq_imp_distinct_iff by blast
  then have dist: "distinct (map m_pseudonym_key_hex (c_members ?c))" by (simp add: assms(3) comp_def)
  show ?thesis
  proof (cases "find_member c k")
    case None
    then have "k \<notin> m_pseudonym_key_hex ` set (c_members ?c)"
      using members.lookup_None_iff [of c k] by (auto simp: set assms(3))
    then show ?thesis using None members.lookup_None_iff [of ?c k] by simp
  next
    case (Some m)
    then have "f m \<in> set (c_members ?c)" "m_pseudonym_key_hex (f m) = k"
      using members.lookup_SomeD [OF Some] by (auto simp: set assms(3))
    then show ?thesis using Some members.lookup_mem [OF dist] by fastforce
  qed
qed

lemma find_channel_permuted:
  assumes "mset chs = mset (c_channels c)" and "distinct (map ch_id (c_channels c))"
  shows "find_channel (c\<lparr>c_members := ms, c_channels := chs, c_roles := rs\<rparr>) k = find_channel c k"
proof -
  let ?c = "c\<lparr>c_members := ms, c_channels := chs, c_roles := rs\<rparr>"
  have set: "set chs = set (c_channels c)" using mset_eq_setD [OF assms(1)] .
  have "mset (map ch_id chs) = mset (map ch_id (c_channels c))" using assms(1) by simp
  then have dist: "distinct (map ch_id (c_channels ?c))" using assms(2) mset_eq_imp_distinct_iff by fastforce
  show ?thesis
  proof (cases "find_channel c k")
    case None
    then show ?thesis using channels.lookup_None_iff [of c k] channels.lookup_None_iff [of ?c k] by (simp add: set)
  next
    case (Some ch)
    then have "ch \<in> set (c_channels ?c)" "ch_id ch = k" using channels.lookup_SomeD [OF Some] by (auto simp: set)
    then show ?thesis using Some channels.lookup_mem [OF dist] by fastforce
  qed
qed

lemma reordered_role_rows:
  assumes "mirrors_members cid d c" and "reordered d d'"
  shows "\<exists>ids. (\<forall>k. filter (\<lambda>r. xr_pseudonym r = k) (t_member_roles d') = map (member_role_to_row cid k) (ids k)
      \<and> mset (ids k) = mset (role_ids_of c k))"
proof -
  have "\<exists>ids. filter (\<lambda>r. xr_pseudonym r = k) (t_member_roles d') = map (member_role_to_row cid k) ids
      \<and> mset ids = mset (role_ids_of c k)" for k
  proof (rule mset_eq_mapD)
    have "mset (t_member_roles d') = mset (t_member_roles d)" using assms(2) by (simp add: reordered_def)
    from mset_filterD [OF this] have
      "mset (filter (\<lambda>r. xr_pseudonym r = k) (t_member_roles d'))
       = mset (filter (\<lambda>r. xr_pseudonym r = k) (t_member_roles d))" .
    also have "filter (\<lambda>r. xr_pseudonym r = k) (t_member_roles d) = map (member_role_to_row cid k) (role_ids_of c k)"
      using assms(1) unfolding mirrors_members_def by blast
    finally show "mset (filter (\<lambda>r. xr_pseudonym r = k) (t_member_roles d')) =
      mset (map (member_role_to_row cid k) (role_ids_of c k))" .
  qed
  then show ?thesis by (intro choice) blast
qed

lemma reordered_timeout_rows:
  assumes "mirrors_members cid d c" and "reordered d d'"
  shows "map tr_timeout_until (filter (\<lambda>r. tr_pseudonym r = k) (t_timeouts d')) = map cast_signed (timeouts_of c k)"
proof -
  have "mset (t_timeouts d') = mset (t_timeouts d)" using assms(2) by (simp add: reordered_def)
  from arg_cong [where f = "image_mset tr_timeout_until", OF mset_filterD [OF this, of "\<lambda>r. tr_pseudonym r = k"]]
  have "mset (map tr_timeout_until (filter (\<lambda>r. tr_pseudonym r = k) (t_timeouts d')))
      = mset (map tr_timeout_until (filter (\<lambda>r. tr_pseudonym r = k) (t_timeouts d)))"
    by (simp only: mset_map)
  also have "map tr_timeout_until (filter (\<lambda>r. tr_pseudonym r = k) (t_timeouts d)) = map cast_signed (timeouts_of c k)"
    using assms(1) unfolding mirrors_members_def by blast
  finally show ?thesis by (rule mset_short_list) (simp add: timeouts_of_def split: option.split)
qed

lemma reordered_mirrors:
  assumes "mirrors cid d c" and "wf_community c" and "reordered d d'"
  shows "\<exists>c'. mirrors cid d' c' \<and> same_content c c'"
proof -
  have m: "mirrors_members cid d c" "mirrors_channels cid d c" "mirrors_mek d (c_mek c)"
    "t_roles d = map (role_to_row cid) (c_roles c)" "map (\<lambda>r. r\<lparr>hr_created_at := 0\<rparr>) (t_hosted d) = [hosted_to_row cid c]"
    using assms(1) by (auto simp: mirrors_def)
  have o: "mset (t_hosted d') = mset (t_hosted d)" "mset (t_overwrites d') = mset (t_overwrites d)" "mset (t_mek d') = mset (t_mek d)"
    using assms(3) by (simp_all add: reordered_def)
  obtain ms where ms: "t_members d' = map (member_to_row cid) ms" "mset ms = mset (c_members c)"
    using mset_eq_mapD [of "t_members d'" "member_to_row cid" "c_members c"] m(1) assms(3)
    by (auto simp: mirrors_members_def reordered_def)
  obtain chs where chs: "t_channels d' = map (channel_to_row cid) chs" "mset chs = mset (c_channels c)"
    using mset_eq_mapD [of "t_channels d'" "channel_to_row cid" "c_channels c"] m(2) assms(3)
    by (auto simp: mirrors_channels_def reordered_def)
  obtain rs where rs: "t_roles d' = map (role_to_row cid) rs" "mset rs = mset (c_roles c)"
    using mset_eq_mapD [of "t_roles d'" "role_to_row cid" "c_roles c"] m(4) assms(3)
    by (auto simp: reordered_def)
  obtain ids where ids: "\<And>k. filter (\<lambda>r. xr_pseudonym r = k) (t_member_roles d') = map (member_role_to_row cid k) (ids k)"
      "\<And>k. mset (ids k) = mset (role_ids_of c k)"
    using reordered_role_rows [OF m(1) assms(3)] by blast
  let ?m = "\<lambda>m. m\<lparr>m_role_ids := ids (m_pseudonym_key_hex m)\<rparr>"
  let ?c = "c\<lparr>c_members := map ?m ms, c_channels := chs, c_roles := rs\<rparr>"
  have d: "distinct (map m_pseudonym_key_hex (c_members c))" "distinct (map ch_id (c_channels c))"
    using assms(2) by (simp_all add: wf_community_def)
  have find: "find_member ?c k = map_option ?m (find_member c k)" for k
    by (rule find_member_permuted [OF ms(2) d(1)]) simp
  have "role_ids_of ?c k = ids k" for k
    using ids(2) [of k] members.lookup_SomeD [of c k]
    by (cases "find_member c k") (auto simp: role_ids_of_def find)
  moreover have "timeouts_of ?c k = timeouts_of c k" for k
    by (cases "find_member c k") (simp_all add: timeouts_of_def find)
  ultimately have "mirrors_members cid d' ?c"
    using ids(1) reordered_timeout_rows [OF m(1) assms(3)] by (simp add: mirrors_members_def ms(1) member_to_row_def)
  moreover have "mirrors_channels cid d' ?c"
    using m(2) o(2) by (simp add: mirrors_channels_def chs(1) stored_overwrites_def find_channel_permuted [OF chs(2) d(2)])
  moreover have "mirrors_mek d' (c_mek c)"
    using m(3) mset_eq_setD [OF o(3)] by (simp add: mirrors_mek_def)
  moreover obtain r where r: "t_hosted d = [r]" "r\<lparr>hr_created_at := 0\<rparr> = hosted_to_row cid c" using m(5) by auto
  then have "t_hosted d' = [r]" using o(1) by (simp add: mset_single_list)
  ultimately have "mirrors cid d' ?c" using r(2) rs(1) by (simp add: mirrors_def hosted_to_row_def)
  moreover have "same_member m (?m m)" if "m \<in> set (c_members c)" for m
    using ids(2) members.lookup_mem [OF d(1) that] by (simp add: same_member_def role_ids_of_def)
  then have "same_content c ?c"
    using ms(2) chs(2) rs(2) mset_eq_setD [OF ms(2)]
    by (auto simp: same_content_def same_items_def list_all2_map2 list_all2_same intro!: exI [of _ ms])
  ultimately show ?thesis by blast
qed

lemma same_members_keys: "list_all2 same_member ms ms' \<Longrightarrow> map m_pseudonym_key_hex ms' = map m_pseudonym_key_hex ms"
  by (induction rule: list_all2_induct) (auto simp: same_member_def dest: arg_cong [where f = m_pseudonym_key_hex])

lemma same_content_wf:
  assumes "same_content c c'" and "wf_community c"
  shows "wf_community c'"
proof -
  have s: "mset (c_channels c') = mset (c_channels c)" "mset (c_roles c') = mset (c_roles c)"
    using assms(1) by (simp_all add: same_content_def)
  obtain zs where zs: "mset zs = mset (c_members c)" "list_all2 same_member zs (c_members c')"
    using assms(1) by (auto simp: same_content_def same_items_def)
  have perm: "distinct (map f xs)" if "mset xs = mset ys" "distinct (map f ys)" for f :: "'x \<Rightarrow> 'y" and xs ys
    using that mset_eq_imp_distinct_iff [of "map f xs" "map f ys"] by simp
  have "distinct (map m_pseudonym_key_hex (c_members c'))"
    unfolding same_members_keys [OF zs(2)] by (rule perm [OF zs(1)]) (use assms(2) in \<open>simp add: wf_community_def\<close>)
  moreover have "distinct (m_role_ids m') \<and> role_everyone_id \<in> set (m_role_ids m')" if "m' \<in> set (c_members c')" for m'
  proof -
    from zs(2) that obtain m where "m \<in> set zs" and m: "same_member m m'"
      by (auto simp: list_all2_conv_all_nth in_set_conv_nth) (metis nth_mem)
    then have "m \<in> set (c_members c)" using mset_eq_setD [OF zs(1)] by simp
    then have "distinct (m_role_ids m)" "role_everyone_id \<in> set (m_role_ids m)"
      using assms(2) by (simp_all add: wf_community_def)
    moreover have "mset (m_role_ids m') = mset (m_role_ids m)" using m by (simp add: same_member_def)
    ultimately show ?thesis using mset_eq_imp_distinct_iff mset_eq_setD by metis
  qed
  ultimately show ?thesis
    using assms(2) perm [OF s(1), of ch_id] perm [OF s(2), of rd_id] mset_eq_setD [OF s(1)] mset_eq_setD [OF s(2)]
    by (simp add: wf_community_def)
qed

lemma same_content_fields:
  assumes "same_content c c'"
  shows "c_community_id c' = c_community_id c" "c_owner_keypair_hex c' = c_owner_keypair_hex c"
    "set (c_channels c') = set (c_channels c)" "set (c_roles c') = set (c_roles c)"
proof -
  have eq: "c' = c\<lparr>c_members := c_members c', c_channels := c_channels c', c_roles := c_roles c'\<rparr>"
    using assms by (simp add: same_content_def)
  show "c_community_id c' = c_community_id c" "c_owner_keypair_hex c' = c_owner_keypair_hex c"
    by (subst eq, simp)+
  show "set (c_channels c') = set (c_channels c)" "set (c_roles c') = set (c_roles c)"
    using assms by (auto simp: same_content_def dest: mset_eq_setD)
qed

lemma same_content_backed:
  assumes "same_content c c'" and "backed d c" and "reordered d d'"
  shows "backed d' c'"
proof -
  note same_content_fields [OF assms(1)]
  moreover have "set (t_channels d') = set (t_channels d)" "set (t_roles d') = set (t_roles d)"
    using assms(3) by (auto simp: reordered_def dest: mset_eq_setD)
  ultimately show ?thesis
    using assms(2) by (auto simp: backed_def channel_exists_def row_exists_def list_ex_iff)
qed

text \<open>
  A restart from reordered rows restores a community that is the one before but for the order of its
  members, channels, roles and of the roles of a member.
\<close>

definition restored_in_some_order :: "u64 \<Rightarrow> hosted_community \<Rightarrow> hosted_community \<Rightarrow> bool" where
  "restored_in_some_order now c c' \<longleftrightarrow> (\<exists>c1. same_content c c1 \<and> restored now c1 c')"

lemma map_of_map_pairs: "map_of (map (\<lambda>(a, c). (a, g a)) xs) k = map_option (\<lambda>_. g k) (map_of xs k)"
  by (induction xs) auto

lemma reload_ready_reordered:
  assumes "reload_ready keypair_error st" and "reordered (db st) d"
  shows "\<exists>st''. reload_ready keypair_error st'' \<and> st''\<lparr>hosted := []\<rparr> = st\<lparr>hosted := [], db := d\<rparr>
    \<and> (\<forall>a. (case get_community st a of None \<Rightarrow> get_community st'' a = None
        | Some c \<Rightarrow> (\<exists>c1. get_community st'' a = Some c1 \<and> same_content c c1)))"
proof -
  have m: "mirrored st" using assms(1) by (simp add: reload_ready_def)
  have "\<exists>c'. \<forall>c. get_community st a = Some c \<longrightarrow> mirrors a (community_rows a d) c' \<and> same_content c c'" for a
    using mirrored_D [OF m, of a] reordered_mirrors [OF _ _ reordered_rows [OF assms(2)]]
    by (cases "get_community st a") auto
  then obtain g where g: "\<And>a c. get_community st a = Some c \<Longrightarrow> mirrors a (community_rows a d) (g a)"
    "\<And>a c. get_community st a = Some c \<Longrightarrow> same_content c (g a)"
    by metis
  let ?st = "st\<lparr>db := d, hosted := map (\<lambda>(a, c). (a, g a)) (hosted st)\<rparr>"
  have get: "get_community ?st a = map_option (\<lambda>_. g a) (get_community st a)" for a
    by (simp add: get_community_def map_of_map_pairs)
  have parts: "c_community_id (g a) = c_community_id c" "c_owner_keypair_hex (g a) = c_owner_keypair_hex c"
    "set (c_roles (g a)) = set (c_roles c)" if "get_community st a = Some c" for a c
    by (rule same_content_fields [OF g(2) [OF that]])+
  have "wf_server ?st"
    using m parts(1) same_content_wf [OF g(2)] same_content_backed [OF g(2) _ assms(2)]
    by (auto simp: wf_server_def mirrored_def get)
  then have "mirrored ?st" using m g(1) by (auto simp: mirrored_def get)
  moreover have "set (t_hosted d) = set (t_hosted (db st))" using assms(2) by (auto simp: reordered_def dest: mset_eq_setD)
  ultimately have "reload_ready keypair_error ?st"
    using assms(1) parts by (auto simp: reload_ready_def get list_ex_iff)
  then show ?thesis
    using g(2) get by (intro exI [of _ ?st]) (auto split: option.split)
qed

text \<open>
  C12. A restart restores the server, in whatever order the database returns its rows. The state
  before is stored faithfully (every hosted community has its rows and every stored community is
  hosted), the owner keypairs parse and every community has at least one role the columns can hold.
  Forgetting the memory and loading the persisted communities then brings back exactly the
  communities that were hosted, each with its metadata, creator, key, members and their roles,
  running timeouts, channels with overwrites, and roles. Lost are expired timeouts, timeouts, roles
  and overwrites with bit 63 set in a number, and roles and channels whose position leaves 32 bits.
\<close>

theorem restart_restores:
  fixes env
  assumes "reload_ready keypair_error st" and "reordered (db st) d"
  defines "st' \<equiv> load_persisted_communities keypair_error env (st\<lparr>hosted := [], db := d\<rparr>)"
  shows "case get_community st a of
      None \<Rightarrow> get_community st' a = None
    | Some c \<Rightarrow> (\<exists>c'. get_community st' a = Some c' \<and> restored_in_some_order (now_secs env) c c')"
proof -
  obtain st'' where s: "reload_ready keypair_error st''" "st''\<lparr>hosted := []\<rparr> = st\<lparr>hosted := [], db := d\<rparr>"
    and case_of: "case get_community st a of None \<Rightarrow> get_community st'' a = None
        | Some c \<Rightarrow> (\<exists>c1. get_community st'' a = Some c1 \<and> same_content c c1)"
    using reload_ready_reordered [OF assms(1,2)] by blast
  show ?thesis
    using restart_in_order [OF s(1), of env a] case_of unfolding s(2) st'_def
    by (fastforce simp: restored_in_some_order_def split: option.splits)
qed

lemma hosted_server_ready: "reload_ready (\<lambda>_. None) hosted_server"
proof (rule hosted_server_facts)
  fix rid blob
  assume h: "mirrored hosted_server" "\<And>a. a \<noteq> ''c1'' \<Longrightarrow> community_rows a (db hosted_server) = no_rows"
    "\<And>a. get_community hosted_server a = (if a = ''c1''
     then Some (fresh_community host_env ''c1'' ''k'' ''o'' ''n'' ''owner'' ''Owner'' rid blob) else None)"
  have "hr_id r = ''c1''" if "r \<in> set (t_hosted (db hosted_server))" for r
  proof (rule ccontr)
    assume "hr_id r \<noteq> ''c1''"
    then have "t_hosted (community_rows (hr_id r) (db hosted_server)) = []" by (simp add: h(2))
    with that show False by (auto simp: community_rows_def filter_empty_conv)
  qed
  moreover have "list_ex storable_role default_roles"
    by (simp add: default_roles_def storable_role_def everyone_permissions_def flag_defs flag_def
        i64_max_def i32_min_def i32_max_def)
  ultimately show ?thesis
    using h(1,3) by (auto simp: reload_ready_def fresh_community_def)
qed

lemma hosted_server_reversed: "reordered (db hosted_server) ((db hosted_server)\<lparr>t_roles := rev (t_roles (db hosted_server))\<rparr>)"
  by (simp add: reordered_def)

theorem restart_restores_witness:
  "\<exists>c'. get_community (load_persisted_communities (\<lambda>_. None) host_env
        (hosted_server\<lparr>hosted := [], db := (db hosted_server)\<lparr>t_roles := rev (t_roles (db hosted_server))\<rparr>\<rparr>)) ''c1'' = Some c'
    \<and> mset (c_roles c') = mset (filter storable_role default_roles)"
proof (rule hosted_server_facts)
  fix rid blob
  assume "\<And>a. get_community hosted_server a = (if a = ''c1''
     then Some (fresh_community host_env ''c1'' ''k'' ''o'' ''n'' ''owner'' ''Owner'' rid blob) else None)"
  then have "get_community hosted_server ''c1'' = Some (fresh_community host_env ''c1'' ''k'' ''o'' ''n'' ''owner'' ''Owner'' rid blob)"
    by simp
  then show ?thesis
    using restart_restores [OF hosted_server_ready hosted_server_reversed, of host_env "''c1''"]
    by (auto simp: restored_in_some_order_def same_content_def restored_def fresh_community_def)
qed

end
