(* ===== verification/Dht.thy ===== *)
theory Dht
  imports Envelope
begin

text \<open>
  What the record types of \<open>crates/rekindle-protocol/src/dht/\<close> use of Veilid. The routing
  context of \<open>veilid_core\<close> is a parameter: a record of its operations over an abstract state
  \<open>'w\<close> of the network. The async functions of the code are state transformers that return a
  result, and \<open>?\<close> is \<open>io_bind\<close>. \<open>outcome\<close> is the weakest precondition of such a function,
  and the laws \<open>dht_lawful\<close> and \<open>dht_reliable\<close> state the documented behaviour of Veilid that
  the proofs rely on. A small in-memory network that satisfies them closes the theory.
\<close>

section \<open>Fallible functions with state\<close>

type_synonym ('w, 'e, 'a) io = "'w \<Rightarrow> ('e + 'a) \<times> 'w"

definition ok :: "'a \<Rightarrow> ('w, 'e, 'a) io" where
  "ok x = (\<lambda>w. (Inr x, w))"

definition throw :: "'e \<Rightarrow> ('w, 'e, 'a) io" where
  "throw e = (\<lambda>w. (Inl e, w))"

definition io_bind :: "('w, 'e, 'a) io \<Rightarrow> ('a \<Rightarrow> ('w, 'e, 'b) io) \<Rightarrow> ('w, 'e, 'b) io" where
  "io_bind m f = (\<lambda>w. case m w of (Inl e, w') \<Rightarrow> (Inl e, w') | (Inr x, w') \<Rightarrow> f x w')"

definition map_error :: "('e \<Rightarrow> 'f) \<Rightarrow> ('w, 'e, 'a) io \<Rightarrow> ('w, 'f, 'a) io" where
  "map_error g m = (\<lambda>w. case m w of (Inl e, w') \<Rightarrow> (Inl (g e), w') | (Inr x, w') \<Rightarrow> (Inr x, w'))"

definition from_result :: "'e + 'a \<Rightarrow> ('w, 'e, 'a) io" where
  "from_result r = (\<lambda>w. (r, w))"

text \<open>\<open>let _ = m\<close> and \<open>if let Ok(x) = m\<close>: the error is dropped.\<close>

definition attempt :: "('w, 'e, 'a) io \<Rightarrow> ('w, 'f, 'a option) io" where
  "attempt m = (\<lambda>w. case m w of (Inl e, w') \<Rightarrow> (Inr None, w') | (Inr x, w') \<Rightarrow> (Inr (Some x), w'))"

text \<open>A \<open>for\<close> loop whose body may return early with an error.\<close>

fun for_each :: "('b \<Rightarrow> ('w, 'e, unit) io) \<Rightarrow> 'b list \<Rightarrow> ('w, 'e, unit) io" where
  "for_each f [] = ok ()"
| "for_each f (x # xs) = io_bind (f x) (\<lambda>_. for_each f xs)"

text \<open>A \<open>for\<close> loop that pushes one result per element.\<close>

fun collect :: "('b \<Rightarrow> ('w, 'e, 'a) io) \<Rightarrow> 'b list \<Rightarrow> ('w, 'e, 'a list) io" where
  "collect f [] = ok []"
| "collect f (x # xs) = io_bind (f x) (\<lambda>y. io_bind (collect f xs) (\<lambda>ys. ok (y # ys)))"

section \<open>Weakest preconditions\<close>

definition outcome ::
  "('w, 'e, 'a) io \<Rightarrow> ('a \<Rightarrow> 'w \<Rightarrow> bool) \<Rightarrow> ('e \<Rightarrow> 'w \<Rightarrow> bool) \<Rightarrow> 'w \<Rightarrow> bool" where
  "outcome m Q E w = (case m w of (Inl e, w') \<Rightarrow> E e w' | (Inr x, w') \<Rightarrow> Q x w')"

definition returns :: "('w, 'e, 'a) io \<Rightarrow> ('a \<Rightarrow> 'w \<Rightarrow> bool) \<Rightarrow> 'w \<Rightarrow> bool" where
  "returns m Q w = outcome m Q (\<lambda>_ _. False) w"

named_theorems wp \<open>weakest preconditions of the combinators\<close>

lemma outcome_ok [wp]: "outcome (ok x) Q E = Q x"
  by (simp add: fun_eq_iff outcome_def ok_def)

lemma outcome_throw [wp]: "outcome (throw e) Q E = E e"
  by (simp add: fun_eq_iff outcome_def throw_def)

lemma outcome_io_bind [wp]:
  "outcome (io_bind m f) Q E = outcome m (\<lambda>x. outcome (f x) Q E) E"
  by (simp add: fun_eq_iff outcome_def io_bind_def split: prod.split sum.split)

lemma outcome_map_error [wp]:
  "outcome (map_error g m) Q E = outcome m Q (\<lambda>e. E (g e))"
  by (simp add: fun_eq_iff outcome_def map_error_def split: prod.split sum.split)

lemma outcome_from_result [wp]:
  "outcome (from_result r) Q E = (case r of Inl e \<Rightarrow> E e | Inr x \<Rightarrow> Q x)"
  by (simp add: fun_eq_iff outcome_def from_result_def split: sum.split)

lemma from_result_Inr [simp]: "from_result (Inr x) = ok x"
  by (simp add: from_result_def ok_def)

lemma map_error_ok [simp]: "map_error g (ok x) = ok x"
  by (simp add: map_error_def ok_def)

lemma io_bind_ok [simp]: "io_bind (ok x) f = f x"
  by (simp add: io_bind_def ok_def)

lemma outcome_attempt [wp]:
  "outcome (attempt m) Q E = outcome m (\<lambda>x. Q (Some x)) (\<lambda>_. Q None)"
  by (simp add: fun_eq_iff outcome_def attempt_def split: prod.split sum.split)

lemma outcome_mono:
  assumes "outcome m Q E w"
    and "\<And>x w'. Q x w' \<Longrightarrow> Q' x w'" and "\<And>e w'. E e w' \<Longrightarrow> E' e w'"
  shows "outcome m Q' E' w"
  using assms by (auto simp: outcome_def split: prod.splits sum.splits)

lemma returns_outcome:
  assumes "returns m Q w" and "\<And>x w'. Q x w' \<Longrightarrow> Q' x w'"
  shows "outcome m Q' E w"
  using assms unfolding returns_def by (auto elim: outcome_mono)

lemma returnsE:
  assumes "returns m Q w"
  obtains x w' where "m w = (Inr x, w')" and "Q x w'"
  using assms by (auto simp: returns_def outcome_def split: prod.splits sum.splits)

lemma returnsI: "m w = (Inr x, w') \<Longrightarrow> Q x w' \<Longrightarrow> returns m Q w"
  by (simp add: returns_def outcome_def)

section \<open>The routing context\<close>

text \<open>
  \<open>'k\<close> is \<open>RecordKey\<close>, \<open>'p\<close> is \<open>KeyPair\<close>. \<open>rc_schema_error\<close> is \<open>DHTSchema::dflt\<close>;
  \<open>rc_create\<close> returns the key of the descriptor and the key pair of its owner when the
  descriptor holds the owner's secret; errors are the texts \<open>e\<close> of \<open>format!("..: {e}")\<close>.
\<close>

record ('w, 'k, 'p) routing_context =
  rc_schema_error :: "u16 \<Rightarrow> string option"
  rc_parse_key :: "string \<Rightarrow> string + 'k"
  rc_show_key :: "'k \<Rightarrow> string"
  rc_create :: "u16 \<Rightarrow> 'p option \<Rightarrow> ('w, string, 'k \<times> 'p option) io"
  rc_open :: "'k \<Rightarrow> 'p option \<Rightarrow> ('w, string, unit) io"
  rc_close :: "'k \<Rightarrow> ('w, string, unit) io"
  rc_get :: "'k \<Rightarrow> u32 \<Rightarrow> bool \<Rightarrow> ('w, string, bytes option) io"
  rc_set :: "'k \<Rightarrow> u32 \<Rightarrow> bytes \<Rightarrow> ('w, string, unit) io"
  rc_watch :: "'k \<Rightarrow> u32 list \<Rightarrow> ('w, string, bool) io"

text \<open>\<open>serde_json\<close> on one type.\<close>

record 'a json =
  to_json :: "'a \<Rightarrow> string + bytes"
  from_json :: "bytes \<Rightarrow> string + 'a"

definition json_roundtrip :: "'a json \<Rightarrow> bool" where
  "json_roundtrip j \<longleftrightarrow> (\<forall>x. \<exists>b. to_json j x = Inr b \<and> from_json j b = Inr x)"

lemma json_roundtripE:
  assumes "json_roundtrip j"
  obtains b where "to_json j x = Inr b" and "from_json j b = Inr x"
  using assms by (auto simp: json_roundtrip_def)

section \<open>What Veilid promises\<close>

text \<open>
  A record as one node sees it: its owner, the number of subkeys of its schema, the values
  set, and whether it is open here (\<open>None\<close>: closed, \<open>Some None\<close>: read-only, \<open>Some (Some p)\<close>:
  with the writer \<open>p\<close>). A model of the network maps its states to the records they hold, and
  an owner with a schema to the key of that record: the key is derived from the two, which is
  why \<open>mailbox.rs\<close> can hand its key out for good and why \<open>account.rs\<close> gives each list an owner
  of its own.
\<close>

record 'p dht_record =
  rec_owner :: 'p
  rec_count :: u16
  rec_values :: "u32 \<Rightarrow> bytes option"
  rec_opened :: "'p option option"

record ('w, 'k, 'p) network =
  records :: "'w \<Rightarrow> 'k \<Rightarrow> 'p dht_record option"
  key_of :: "'p \<Rightarrow> u16 \<Rightarrow> 'k"

definition write_value :: "u32 \<Rightarrow> bytes \<Rightarrow> 'p dht_record \<Rightarrow> 'p dht_record" where
  "write_value i b r = r\<lparr>rec_values := (rec_values r)(i \<mapsto> b)\<rparr>"

definition new_record :: "'p \<Rightarrow> u16 \<Rightarrow> 'p dht_record" where
  "new_record p n = \<lparr>rec_owner = p, rec_count = n, rec_values = \<lambda>_. None, rec_opened = Some (Some p)\<rparr>"

definition subkey_of :: "'p dht_record \<Rightarrow> u32 \<Rightarrow> bool" where
  "subkey_of r i \<longleftrightarrow> unat i < unat (rec_count r)"

definition readable :: "'p dht_record \<Rightarrow> bool" where
  "readable r \<longleftrightarrow> rec_opened r \<noteq> None"

definition writable :: "'p dht_record \<Rightarrow> bool" where
  "writable r \<longleftrightarrow> rec_opened r = Some (Some (rec_owner r))"

text \<open>
  The laws that hold whether or not the network answers. Reading changes nothing and returns
  the value set; writing changes at most the subkey written, and a write that failed may still
  have taken effect; only the owner writes; a record that exists is not created again; the key
  pair made for a new record owns no other; the key of a record determines owner and schema.
\<close>

definition get_law :: "('w, 'k, 'p) routing_context \<Rightarrow> ('w, 'k, 'p) network \<Rightarrow> bool" where
  "get_law rc net \<longleftrightarrow>
     (\<forall>k i force w. outcome (rc_get rc k i force)
        (\<lambda>v w'. records net w' = records net w \<and>
           (\<exists>r. records net w k = Some r \<and> v = rec_values r i))
        (\<lambda>_ w'. records net w' = records net w) w)"

definition set_law :: "('w, 'k, 'p) routing_context \<Rightarrow> ('w, 'k, 'p) network \<Rightarrow> bool" where
  "set_law rc net \<longleftrightarrow>
     (\<forall>k i b w. outcome (rc_set rc k i b)
        (\<lambda>_ w'. \<exists>r. records net w k = Some r \<and> writable r \<and> subkey_of r i \<and>
           records net w' = (records net w)(k \<mapsto> write_value i b r))
        (\<lambda>_ w'. records net w' = records net w \<or>
           (\<exists>r. records net w k = Some r \<and> writable r \<and> subkey_of r i \<and>
             records net w' = (records net w)(k \<mapsto> write_value i b r))) w)"

definition open_law :: "('w, 'k, 'p) routing_context \<Rightarrow> ('w, 'k, 'p) network \<Rightarrow> bool" where
  "open_law rc net \<longleftrightarrow>
     (\<forall>k p w. outcome (rc_open rc k p)
        (\<lambda>_ w'. \<exists>r. records net w k = Some r \<and>
           records net w' = (records net w)(k \<mapsto> r\<lparr>rec_opened := Some p\<rparr>))
        (\<lambda>_ w'. records net w' = records net w) w) \<and>
     (\<forall>k w. outcome (rc_close rc k)
        (\<lambda>_ w'. \<exists>r. records net w k = Some r \<and>
           records net w' = (records net w)(k \<mapsto> r\<lparr>rec_opened := None\<rparr>))
        (\<lambda>_ w'. records net w' = records net w) w)"

definition create_law :: "('w, 'k, 'p) routing_context \<Rightarrow> ('w, 'k, 'p) network \<Rightarrow> bool" where
  "create_law rc net \<longleftrightarrow>
     (\<forall>n owner w. outcome (rc_create rc n owner)
        (\<lambda>(k, secret) w'. \<exists>p. secret = Some p \<and> (owner = None \<or> owner = Some p) \<and>
           (owner = None \<longrightarrow> (\<forall>m. records net w (key_of net p m) = None)) \<and>
           k = key_of net p n \<and> records net w k = None \<and>
           records net w' = (records net w)(k \<mapsto> new_record p n))
        (\<lambda>_ w'. records net w' = records net w) w) \<and>
     (\<forall>p n p' n'. key_of net p n = key_of net p' n' \<longleftrightarrow> p = p' \<and> n = n')"

definition dht_lawful :: "('w, 'k, 'p) routing_context \<Rightarrow> ('w, 'k, 'p) network \<Rightarrow> bool" where
  "dht_lawful rc net \<longleftrightarrow> get_law rc net \<and> set_law rc net \<and> open_law rc net \<and> create_law rc net \<and>
     (\<forall>k. rc_parse_key rc (rc_show_key rc k) = Inr k)"

text \<open>
  A network on which every operation the state of the records allows succeeds. \<open>max_subkeys\<close>
  bounds the schemas Veilid accepts.
\<close>

definition max_subkeys :: nat where "max_subkeys = 1024"

definition dht_reliable :: "('w, 'k, 'p) routing_context \<Rightarrow> ('w, 'k, 'p) network \<Rightarrow> bool" where
  "dht_reliable rc net \<longleftrightarrow> dht_lawful rc net \<and>
     (\<forall>n. n \<noteq> 0 \<and> unat n \<le> max_subkeys \<longrightarrow> rc_schema_error rc n = None) \<and>
     (\<forall>k i force w r. records net w k = Some r \<and> readable r \<and> subkey_of r i \<longrightarrow>
        returns (rc_get rc k i force) (\<lambda>_ _. True) w) \<and>
     (\<forall>k i b w r. records net w k = Some r \<and> writable r \<and> subkey_of r i \<longrightarrow>
        returns (rc_set rc k i b) (\<lambda>_ _. True) w) \<and>
     (\<forall>k p w. records net w k \<noteq> None \<longrightarrow> returns (rc_open rc k p) (\<lambda>_ _. True) w) \<and>
     (\<forall>n owner w. n \<noteq> 0 \<and> unat n \<le> max_subkeys \<and>
        (\<forall>p. owner = Some p \<longrightarrow> records net w (key_of net p n) = None) \<longrightarrow>
        returns (rc_create rc n owner) (\<lambda>_ _. True) w)"

subsection \<open>The laws as rules\<close>

lemma outcome_conj:
  assumes "outcome m Q E w" and "outcome m Q' E' w"
  shows "outcome m (\<lambda>x w'. Q x w' \<and> Q' x w') (\<lambda>e w'. E e w' \<and> E' e w') w"
  using assms by (auto simp: outcome_def split: prod.splits sum.splits)

lemma returns_and_outcome:
  assumes "returns m (\<lambda>_ _. True) w" and "outcome m Q E w"
    and "\<And>x w'. Q x w' \<Longrightarrow> Q' x w'"
  shows "outcome m Q' E' w"
  using assms by (auto simp: returns_def outcome_def split: prod.splits sum.splits)

lemma lawful_get:
  assumes "dht_lawful rc net"
    and "\<And>v w' r. \<lbrakk>records net w' = records net w; records net w k = Some r; v = rec_values r i\<rbrakk> \<Longrightarrow> Q v w'"
    and "\<And>e w'. records net w' = records net w \<Longrightarrow> E e w'"
  shows "outcome (rc_get rc k i force) Q E w"
  using assms(1) unfolding dht_lawful_def get_law_def
  by (auto elim!: allE [of _ k] allE [of _ i] allE [of _ force] allE [of _ w] intro!: assms(2,3)
      elim: outcome_mono)

lemma reliable_lawful: "dht_reliable rc net \<Longrightarrow> dht_lawful rc net"
  by (simp add: dht_reliable_def)

lemma reliable_get:
  assumes "dht_reliable rc net" and "records net w k = Some r" and "readable r" and "subkey_of r i"
    and "\<And>w'. records net w' = records net w \<Longrightarrow> Q (rec_values r i) w'"
  shows "outcome (rc_get rc k i force) Q E w"
proof (rule returns_and_outcome)
  show "returns (rc_get rc k i force) (\<lambda>_ _. True) w"
    using assms(1-4) unfolding dht_reliable_def by blast
  show "outcome (rc_get rc k i force) Q (\<lambda>_ _. True) w"
    by (rule lawful_get [OF reliable_lawful [OF assms(1)]]) (use assms(2,5) in auto)
qed

lemma lawful_set:
  assumes "dht_lawful rc net"
    and "\<And>w' r. \<lbrakk>records net w k = Some r; writable r; subkey_of r i;
      records net w' = (records net w)(k \<mapsto> write_value i b r)\<rbrakk> \<Longrightarrow> Q () w'"
    and "\<And>e w'. records net w' = records net w \<Longrightarrow> E e w'"
    and "\<And>e w' r. \<lbrakk>records net w k = Some r; writable r; subkey_of r i;
      records net w' = (records net w)(k \<mapsto> write_value i b r)\<rbrakk> \<Longrightarrow> E e w'"
  shows "outcome (rc_set rc k i b) Q E w"
proof (rule outcome_mono)
  show "outcome (rc_set rc k i b)
        (\<lambda>_ w'. \<exists>r. records net w k = Some r \<and> writable r \<and> subkey_of r i \<and>
           records net w' = (records net w)(k \<mapsto> write_value i b r))
        (\<lambda>_ w'. records net w' = records net w \<or>
           (\<exists>r. records net w k = Some r \<and> writable r \<and> subkey_of r i \<and>
             records net w' = (records net w)(k \<mapsto> write_value i b r))) w"
    using assms(1) unfolding dht_lawful_def set_law_def by blast
qed (use assms(2-4) in auto)

lemma reliable_set:
  assumes "dht_reliable rc net" and "records net w k = Some r" and "writable r" and "subkey_of r i"
    and "\<And>w'. records net w' = (records net w)(k \<mapsto> write_value i b r) \<Longrightarrow> Q () w'"
  shows "outcome (rc_set rc k i b) Q E w"
proof (rule returns_and_outcome)
  show "returns (rc_set rc k i b) (\<lambda>_ _. True) w"
    using assms(1-4) unfolding dht_reliable_def by blast
  show "outcome (rc_set rc k i b) Q (\<lambda>_ _. True) w"
    by (rule lawful_set [OF reliable_lawful [OF assms(1)]]) (use assms(2,5) in auto)
qed

lemma lawful_open:
  assumes "dht_lawful rc net"
    and "\<And>w' r. \<lbrakk>records net w k = Some r;
      records net w' = (records net w)(k \<mapsto> r\<lparr>rec_opened := Some p\<rparr>)\<rbrakk> \<Longrightarrow> Q () w'"
    and "\<And>e w'. records net w' = records net w \<Longrightarrow> E e w'"
  shows "outcome (rc_open rc k p) Q E w"
proof (rule outcome_mono)
  show "outcome (rc_open rc k p)
        (\<lambda>_ w'. \<exists>r. records net w k = Some r \<and>
           records net w' = (records net w)(k \<mapsto> r\<lparr>rec_opened := Some p\<rparr>))
        (\<lambda>_ w'. records net w' = records net w) w"
    using assms(1) unfolding dht_lawful_def open_law_def by blast
qed (use assms(2,3) in auto)

lemma reliable_open:
  assumes "dht_reliable rc net" and "records net w k = Some r"
    and "\<And>w'. records net w' = (records net w)(k \<mapsto> r\<lparr>rec_opened := Some p\<rparr>) \<Longrightarrow> Q () w'"
  shows "outcome (rc_open rc k p) Q E w"
proof (rule returns_and_outcome)
  show "returns (rc_open rc k p) (\<lambda>_ _. True) w"
    using assms(1,2) unfolding dht_reliable_def by blast
  show "outcome (rc_open rc k p) Q (\<lambda>_ _. True) w"
    by (rule lawful_open [OF reliable_lawful [OF assms(1)]]) (use assms(2,3) in auto)
qed

lemma lawful_close:
  assumes "dht_lawful rc net"
    and "\<And>w' r. \<lbrakk>records net w k = Some r;
      records net w' = (records net w)(k \<mapsto> r\<lparr>rec_opened := None\<rparr>)\<rbrakk> \<Longrightarrow> Q () w'"
    and "\<And>e w'. records net w' = records net w \<Longrightarrow> E e w'"
  shows "outcome (rc_close rc k) Q E w"
proof (rule outcome_mono)
  show "outcome (rc_close rc k)
        (\<lambda>_ w'. \<exists>r. records net w k = Some r \<and>
           records net w' = (records net w)(k \<mapsto> r\<lparr>rec_opened := None\<rparr>))
        (\<lambda>_ w'. records net w' = records net w) w"
    using assms(1) unfolding dht_lawful_def open_law_def by blast
qed (use assms(2,3) in auto)

lemma lawful_create_fresh:
  assumes "dht_lawful rc net"
    and "\<And>w' p. \<lbrakk>owner = None \<or> owner = Some p;
      owner = None \<longrightarrow> (\<forall>m. records net w (key_of net p m) = None);
      records net w (key_of net p n) = None;
      records net w' = (records net w)(key_of net p n \<mapsto> new_record p n)\<rbrakk>
      \<Longrightarrow> Q (key_of net p n, Some p) w'"
    and "\<And>e w'. records net w' = records net w \<Longrightarrow> E e w'"
  shows "outcome (rc_create rc n owner) Q E w"
proof (rule outcome_mono)
  show "outcome (rc_create rc n owner)
        (\<lambda>(k, secret) w'. \<exists>p. secret = Some p \<and> (owner = None \<or> owner = Some p) \<and>
           (owner = None \<longrightarrow> (\<forall>m. records net w (key_of net p m) = None)) \<and>
           k = key_of net p n \<and> records net w k = None \<and>
           records net w' = (records net w)(k \<mapsto> new_record p n))
        (\<lambda>_ w'. records net w' = records net w) w"
    using assms(1) unfolding dht_lawful_def create_law_def by blast
qed (use assms(2,3) in \<open>auto split: prod.splits\<close>)

lemma lawful_create:
  assumes "dht_lawful rc net"
    and "\<And>w' p. \<lbrakk>owner = None \<or> owner = Some p; records net w (key_of net p n) = None;
      records net w' = (records net w)(key_of net p n \<mapsto> new_record p n)\<rbrakk>
      \<Longrightarrow> Q (key_of net p n, Some p) w'"
    and "\<And>e w'. records net w' = records net w \<Longrightarrow> E e w'"
  shows "outcome (rc_create rc n owner) Q E w"
  by (rule lawful_create_fresh [OF assms(1)]) (use assms(2,3) in auto)

lemma key_of_eq_iff: "dht_lawful rc net \<Longrightarrow> key_of net p n = key_of net p' n' \<longleftrightarrow> p = p' \<and> n = n'"
  unfolding dht_lawful_def create_law_def by blast

lemma reliable_create:
  assumes "dht_reliable rc net" and "n \<noteq> 0" and "unat n \<le> max_subkeys"
    and "\<And>p. owner = Some p \<Longrightarrow> records net w (key_of net p n) = None"
    and "\<And>w' p. \<lbrakk>owner = None \<or> owner = Some p; records net w (key_of net p n) = None;
      records net w' = (records net w)(key_of net p n \<mapsto> new_record p n)\<rbrakk>
      \<Longrightarrow> Q (key_of net p n, Some p) w'"
  shows "outcome (rc_create rc n owner) Q E w"
proof (rule returns_and_outcome)
  show "returns (rc_create rc n owner) (\<lambda>_ _. True) w"
    using assms(1-4) unfolding dht_reliable_def by blast
  show "outcome (rc_create rc n owner) Q (\<lambda>_ _. True) w"
    by (rule lawful_create [OF reliable_lawful [OF assms(1)]]) (use assms(5) in auto)
qed

lemma reliable_create_own:
  assumes "dht_reliable rc net" and "n \<noteq> 0" and "unat n \<le> max_subkeys"
    and "\<And>w' p. \<lbrakk>\<forall>m. records net w (key_of net p m) = None;
      records net w' = (records net w)(key_of net p n \<mapsto> new_record p n)\<rbrakk>
      \<Longrightarrow> Q (key_of net p n, Some p) w'"
  shows "outcome (rc_create rc n None) Q E w"
proof (rule returns_and_outcome)
  show "returns (rc_create rc n None) (\<lambda>_ _. True) w"
    using assms(1-3) unfolding dht_reliable_def by blast
  show "outcome (rc_create rc n None) Q (\<lambda>_ _. True) w"
    by (rule lawful_create_fresh [OF reliable_lawful [OF assms(1)]]) (use assms(4) in auto)
qed

lemma lawful_parse_key [simp]: "dht_lawful rc net \<Longrightarrow> rc_parse_key rc (rc_show_key rc k) = Inr k"
  by (simp add: dht_lawful_def)

lemma reliable_schema:
  "dht_reliable rc net \<Longrightarrow> n \<noteq> 0 \<Longrightarrow> unat n \<le> max_subkeys \<Longrightarrow> rc_schema_error rc n = None"
  by (simp add: dht_reliable_def)

end
