(* ===== verification/MemDht.thy ===== *)
theory MemDht
  imports Dht
begin

text \<open>
  An in-memory network that satisfies the laws of \<open>Dht\<close>: the records are an association list,
  owners are numbers and keys are texts. The concrete instances of the theorems about DHT
  records run on it.
\<close>

type_synonym mem = "(string \<times> nat dht_record) list"

definition mem_key :: "nat \<Rightarrow> u16 \<Rightarrow> string" where
  "mem_key p n = replicate p CHR ''k'' @ replicate (unat n) CHR ''s''"

definition fresh_owner :: "mem \<Rightarrow> nat" where
  "fresh_owner w = Suc (sum_list (map (length \<circ> fst) w))"

definition mem_create :: "u16 \<Rightarrow> nat option \<Rightarrow> (mem, string, string \<times> nat option) io" where
  "mem_create n owner w =
     (let p = (case owner of Some p \<Rightarrow> p | None \<Rightarrow> fresh_owner w); k = mem_key p n
      in if map_of w k = None then (Inr (k, Some p), (k, new_record p n) # w)
         else (Inl ''record already exists'', w))"

definition mem_open :: "string \<Rightarrow> nat option \<Rightarrow> (mem, string, unit) io" where
  "mem_open k p w =
     (case map_of w k of
        None \<Rightarrow> (Inl ''record not found'', w)
      | Some r \<Rightarrow> (Inr (), AList.update k (r\<lparr>rec_opened := Some p\<rparr>) w))"

definition mem_close :: "string \<Rightarrow> (mem, string, unit) io" where
  "mem_close k w =
     (case map_of w k of
        None \<Rightarrow> (Inl ''record not found'', w)
      | Some r \<Rightarrow> (Inr (), AList.update k (r\<lparr>rec_opened := None\<rparr>) w))"

definition mem_get :: "string \<Rightarrow> u32 \<Rightarrow> bool \<Rightarrow> (mem, string, bytes option) io" where
  "mem_get k i force w =
     (case map_of w k of
        None \<Rightarrow> (Inl ''record not found'', w)
      | Some r \<Rightarrow> if readable r \<and> subkey_of r i then (Inr (rec_values r i), w)
                 else (Inl ''not readable'', w))"

definition mem_set :: "string \<Rightarrow> u32 \<Rightarrow> bytes \<Rightarrow> (mem, string, unit) io" where
  "mem_set k i b w =
     (case map_of w k of
        None \<Rightarrow> (Inl ''record not found'', w)
      | Some r \<Rightarrow> if writable r \<and> subkey_of r i then (Inr (), AList.update k (write_value i b r) w)
                 else (Inl ''value is not writable'', w))"

definition mem_rc :: "(mem, string, nat) routing_context" where
  "mem_rc =
     \<lparr>rc_schema_error = (\<lambda>n. if n = 0 \<or> max_subkeys < unat n then Some ''invalid subkey count'' else None),
      rc_parse_key = Inr, rc_show_key = (\<lambda>k. k),
      rc_create = mem_create, rc_open = mem_open, rc_close = mem_close,
      rc_get = mem_get, rc_set = mem_set, rc_watch = (\<lambda>k subkeys w. (Inr True, w))\<rparr>"

definition mem_net :: "(mem, string, nat) network" where
  "mem_net = \<lparr>records = map_of, key_of = mem_key\<rparr>"

lemma mem_rc_simps [simp]:
  "rc_schema_error mem_rc = (\<lambda>n. if n = 0 \<or> max_subkeys < unat n then Some ''invalid subkey count'' else None)"
  "rc_parse_key mem_rc = Inr" "rc_show_key mem_rc = (\<lambda>k. k)"
  "rc_create mem_rc = mem_create" "rc_open mem_rc = mem_open" "rc_close mem_rc = mem_close"
  "rc_get mem_rc = mem_get" "rc_set mem_rc = mem_set"
  "rc_watch mem_rc = (\<lambda>k subkeys w. (Inr True, w))"
  "records mem_net = map_of" "key_of mem_net = mem_key"
  by (simp_all add: mem_rc_def mem_net_def)

lemma fresh_owner_fresh: "map_of w (mem_key (fresh_owner w) n) = None"
proof -
  have "length (fst x) < length (mem_key (fresh_owner w) n)" if "x \<in> set w" for x
    using member_le_sum_list [of "(length \<circ> fst) x" "map (length \<circ> fst) w"] that
    by (simp add: mem_key_def fresh_owner_def)
  then show ?thesis by (force simp: map_of_eq_None_iff)
qed

lemma mem_key_eq_iff: "mem_key p n = mem_key p' n' \<longleftrightarrow> p = p' \<and> n = n'"
proof
  assume e: "mem_key p n = mem_key p' n'"
  have "p = p'" using arg_cong [OF e, of "\<lambda>s. length (filter (\<lambda>c. c = CHR ''k'') s)"]
    by (simp add: mem_key_def)
  moreover have "unat n = unat n'"
    using arg_cong [OF e, of "\<lambda>s. length (filter (\<lambda>c. c = CHR ''s'') s)"] by (simp add: mem_key_def)
  ultimately show "p = p' \<and> n = n'" by (simp add: word_unat_eq_iff)
qed simp

theorem mem_reliable: "dht_reliable mem_rc mem_net"
proof -
  have "get_law mem_rc mem_net"
    by (auto simp: get_law_def outcome_def mem_get_def split: option.split)
  moreover have "set_law mem_rc mem_net"
    by (auto simp: set_law_def outcome_def mem_set_def update_conv' split: option.split)
  moreover have "open_law mem_rc mem_net"
    by (auto simp: open_law_def outcome_def mem_open_def mem_close_def update_conv' split: option.split)
  moreover have "create_law mem_rc mem_net"
    by (auto simp: create_law_def outcome_def mem_create_def Let_def fun_eq_iff mem_key_eq_iff
        fresh_owner_fresh split: option.split)
  moreover have "returns (mem_create n owner) (\<lambda>_ _. True) w"
    if "\<forall>p. owner = Some p \<longrightarrow> map_of w (mem_key p n) = None" for n owner w
    using that by (cases owner) (auto simp: returns_def outcome_def mem_create_def Let_def fresh_owner_fresh)
  ultimately show ?thesis
    by (auto simp: dht_reliable_def dht_lawful_def returns_def outcome_def
        mem_get_def mem_set_def mem_open_def split: option.split)
qed

end
