(* ===== verification/SampleCodecs.thy ===== *)
theory SampleCodecs
  imports MemDht
begin

text \<open>
  Byte codecs for the concrete instances of the theorems: 16-bit words, lists of texts, optional
  texts and 64-bit words as texts. They stand in for \<open>serde_json\<close> and Cap'n Proto.
\<close>

definition u16_bytes :: "u16 \<Rightarrow> bytes" where
  "u16_bytes x = [ucast x, ucast (drop_bit 8 x)]"

fun u16s_of_bytes :: "bytes \<Rightarrow> u16 list" where
  "u16s_of_bytes (a # b # bs) = (ucast a OR push_bit 8 (ucast b)) # u16s_of_bytes bs"
| "u16s_of_bytes _ = []"

lemma u16_bytes_back: "ucast (ucast x :: u8) OR push_bit 8 (ucast (ucast (drop_bit 8 x) :: u8)) = (x :: u16)"
  by (rule bit_word_eqI) (auto simp: bit_simps)

lemma u16s_of_bytes_concat [simp]: "u16s_of_bytes (concat (map u16_bytes xs)) = xs"
  by (induction xs) (simp_all add: u16_bytes_def u16_bytes_back)

definition text_bytes :: "string \<Rightarrow> bytes" where
  "text_bytes s = concat (map (\<lambda>c. [1, of_nat (of_char c)]) s) @ [0]"

fun texts_of_bytes :: "string \<Rightarrow> bytes \<Rightarrow> string list" where
  "texts_of_bytes s [] = []"
| "texts_of_bytes s (a # bs) =
     (if a = 0 then s # texts_of_bytes [] bs
      else case bs of [] \<Rightarrow> [] | c # bs' \<Rightarrow> texts_of_bytes (s @ [char_of (unat c)]) bs')"

lemma char_byte [simp]: "char_of (unat (of_nat (of_char c) :: u8)) = c"
  by (simp add: unat_of_nat)

lemma texts_of_bytes_text:
  "texts_of_bytes s (text_bytes t @ bs) = (s @ t) # texts_of_bytes [] bs"
  by (induction t arbitrary: s) (simp_all add: text_bytes_def)

lemma texts_of_bytes_texts: "texts_of_bytes [] (concat (map text_bytes ts)) = ts"
  by (induction ts) (simp_all add: texts_of_bytes_text)

definition option_text :: "string option \<Rightarrow> string" where
  "option_text x = (case x of None \<Rightarrow> [] | Some s \<Rightarrow> CHR ''s'' # s)"

definition text_option :: "string \<Rightarrow> string option" where
  "text_option t = (case t of [] \<Rightarrow> None | c # s \<Rightarrow> Some s)"

lemma text_option_text [simp]: "text_option (option_text x) = x"
  by (simp add: text_option_def option_text_def split: option.split)

definition word_text :: "u64 \<Rightarrow> string" where
  "word_text x = map (\<lambda>b. char_of (unat b)) (u64_le_bytes x)"

definition text_word :: "string \<Rightarrow> u64" where
  "text_word t = of_nat (le_nat (map (\<lambda>c. of_nat (of_char c)) t))"

lemma byte_mod [simp]: "unat (b :: u8) mod 256 = unat b"
  using unat_lt_pow [of b] by simp

lemma text_word_text [simp]: "text_word (word_text x) = x"
  by (simp add: text_word_def word_text_def comp_def u64_of_le_bytes)

end
