(* ===== verification/ShortArray.thy ===== *)
theory ShortArray
  imports SampleCodecs
begin

text \<open>
  \<open>DHTShortArray\<close> (\<open>crates/rekindle-protocol/src/dht/short_array.rs\<close>): an ordered collection
  over the subkeys of one DHT record. Subkey 0 holds the head, which maps positions to slots;
  slot \<open>s\<close> is subkey \<open>s + 1\<close>.
\<close>

record short_array_head =
  stride :: u16
  slots :: "u16 list"

record ('k, 'p) dht_short_array =
  sa_record_key :: 'k
  sa_owner_keypair :: "'p option"
  sa_stride :: u16

definition dht_error :: "string \<Rightarrow> string \<Rightarrow> protocol_error" where
  "dht_error context e = DhtError (context @ '': '' @ e)"

definition data_subkey :: "u16 \<Rightarrow> u32" where
  "data_subkey slot = ucast slot + 1"

definition find_free_slot :: "u16 \<Rightarrow> short_array_head \<Rightarrow> u16" where
  "find_free_slot n head =
     (case List.find (\<lambda>slot. slot \<notin> set (slots head)) (map of_nat [0..<unat n]) of
        Some slot \<Rightarrow> slot
      | None \<Rightarrow> n)"

definition read_head_raw ::
  "('w, 'k, 'p) routing_context \<Rightarrow> short_array_head json \<Rightarrow> 'k
   \<Rightarrow> ('w, protocol_error, short_array_head) io" where
  "read_head_raw rc j key =
     io_bind (map_error (dht_error ''read head'') (rc_get rc key 0 False)) (\<lambda>value.
     case value of
       Some v \<Rightarrow> map_error (\<lambda>e. Deserialization (''head parse: '' @ e)) (from_result (from_json j v))
     | None \<Rightarrow> throw (DhtError ''head subkey not set''))"

definition read_head ::
  "('w, 'k, 'p) routing_context \<Rightarrow> short_array_head json \<Rightarrow> ('k, 'p) dht_short_array
   \<Rightarrow> ('w, protocol_error, short_array_head) io" where
  "read_head rc j sa = read_head_raw rc j (sa_record_key sa)"

definition write_head ::
  "('w, 'k, 'p) routing_context \<Rightarrow> short_array_head json \<Rightarrow> ('k, 'p) dht_short_array
   \<Rightarrow> short_array_head \<Rightarrow> ('w, protocol_error, unit) io" where
  "write_head rc j sa head =
     io_bind (map_error Serialization (from_result (to_json j head))) (\<lambda>bytes.
     map_error (dht_error ''write head'') (rc_set rc (sa_record_key sa) 0 bytes))"

definition short_array_create ::
  "('w, 'k, 'p) routing_context \<Rightarrow> short_array_head json \<Rightarrow> u16 \<Rightarrow> 'p option
   \<Rightarrow> ('w, protocol_error, ('k, 'p) dht_short_array \<times> 'p) io" where
  "short_array_create rc j capacity owner =
     (if capacity = -1 then throw (DhtError ''capacity overflow (max 65534)'')
      else case rc_schema_error rc (capacity + 1) of
        Some e \<Rightarrow> throw (dht_error ''invalid schema'' e)
      | None \<Rightarrow>
          io_bind (map_error (dht_error ''create short array record'') (rc_create rc (capacity + 1) owner))
            (\<lambda>(key, secret).
          case secret of
            None \<Rightarrow> throw (DhtError ''no owner secret after create'')
          | Some keypair \<Rightarrow>
              let head = \<lparr>stride = capacity, slots = []\<rparr>
              in io_bind (map_error Serialization (from_result (to_json j head))) (\<lambda>head_bytes.
                 io_bind (map_error (dht_error ''write head'') (rc_set rc key 0 head_bytes)) (\<lambda>_.
                 ok (\<lparr>sa_record_key = key, sa_owner_keypair = Some keypair, sa_stride = capacity\<rparr>,
                     keypair)))))"

definition short_array_open ::
  "('w, 'k, 'p) routing_context \<Rightarrow> short_array_head json \<Rightarrow> string \<Rightarrow> 'p option
   \<Rightarrow> ('w, protocol_error, ('k, 'p) dht_short_array) io" where
  "short_array_open rc j key writer =
     io_bind (map_error (dht_error (''invalid key '' @ [CHR 0x27] @ key @ [CHR 0x27]))
                (from_result (rc_parse_key rc key))) (\<lambda>record_key.
     io_bind (map_error (dht_error ''open short array'') (rc_open rc record_key writer)) (\<lambda>_.
     io_bind (read_head_raw rc j record_key) (\<lambda>head.
     ok \<lparr>sa_record_key = record_key, sa_owner_keypair = writer, sa_stride = stride head\<rparr>)))"

definition write_slot ::
  "('w, 'k, 'p) routing_context \<Rightarrow> ('k, 'p) dht_short_array \<Rightarrow> string \<Rightarrow> u16 \<Rightarrow> bytes
   \<Rightarrow> ('w, protocol_error, unit) io" where
  "write_slot rc sa what slot data =
     map_error (dht_error (what @ '' slot '' @ show_nat (unat slot)))
       (rc_set rc (sa_record_key sa) (data_subkey slot) data)"

definition read_slot ::
  "('w, 'k, 'p) routing_context \<Rightarrow> ('k, 'p) dht_short_array \<Rightarrow> u16
   \<Rightarrow> ('w, protocol_error, bytes option) io" where
  "read_slot rc sa slot =
     map_error (dht_error ''read slot'') (rc_get rc (sa_record_key sa) (data_subkey slot) False)"

text \<open>\<open>u32::try_from(usize)\<close>.\<close>

definition u32_of_len :: "string \<Rightarrow> nat \<Rightarrow> protocol_error + u32" where
  "u32_of_len what n =
     (if n < 2 ^ 32 then Inr (of_nat n)
      else Inl (DhtError (what @ '' overflow: out of range integral type conversion attempted'')))"

definition short_array_add ::
  "('w, 'k, 'p) routing_context \<Rightarrow> short_array_head json \<Rightarrow> ('k, 'p) dht_short_array \<Rightarrow> bytes
   \<Rightarrow> ('w, protocol_error, u32) io" where
  "short_array_add rc j sa data =
     io_bind (read_head rc j sa) (\<lambda>head.
     if unat (sa_stride sa) \<le> length (slots head) then throw (DhtError ''short array is full'')
     else let slot = find_free_slot (sa_stride sa) head
          in io_bind (write_slot rc sa ''write'' slot data) (\<lambda>_.
             io_bind (from_result (u32_of_len ''index'' (length (slots head)))) (\<lambda>index.
             io_bind (write_head rc j sa (head\<lparr>slots := slots head @ [slot]\<rparr>)) (\<lambda>_.
             ok index))))"

definition short_array_get ::
  "('w, 'k, 'p) routing_context \<Rightarrow> short_array_head json \<Rightarrow> ('k, 'p) dht_short_array \<Rightarrow> u32
   \<Rightarrow> ('w, protocol_error, bytes option) io" where
  "short_array_get rc j sa index =
     io_bind (read_head rc j sa) (\<lambda>head.
     if length (slots head) \<le> unat index then ok None
     else read_slot rc sa (slots head ! unat index))"

text \<open>\<open>Vec::remove\<close>.\<close>

definition remove_at :: "nat \<Rightarrow> 'a list \<Rightarrow> 'a list" where
  "remove_at i xs = take i xs @ drop (Suc i) xs"

definition out_of_bounds :: "u32 \<Rightarrow> nat \<Rightarrow> protocol_error" where
  "out_of_bounds index n =
     DhtError (''index '' @ show_nat (unat index) @ '' out of bounds (len='' @ show_nat n @ '')'')"

definition short_array_remove ::
  "('w, 'k, 'p) routing_context \<Rightarrow> short_array_head json \<Rightarrow> ('k, 'p) dht_short_array \<Rightarrow> u32
   \<Rightarrow> ('w, protocol_error, unit) io" where
  "short_array_remove rc j sa index =
     io_bind (read_head rc j sa) (\<lambda>head.
     if length (slots head) \<le> unat index then throw (out_of_bounds index (length (slots head)))
     else io_bind (write_slot rc sa ''clear'' (slots head ! unat index) []) (\<lambda>_.
          write_head rc j sa (head\<lparr>slots := remove_at (unat index) (slots head)\<rparr>)))"

definition short_array_len ::
  "('w, 'k, 'p) routing_context \<Rightarrow> short_array_head json \<Rightarrow> ('k, 'p) dht_short_array
   \<Rightarrow> ('w, protocol_error, u32) io" where
  "short_array_len rc j sa =
     io_bind (read_head rc j sa) (\<lambda>head. from_result (u32_of_len ''len'' (length (slots head))))"

definition short_array_is_empty ::
  "('w, 'k, 'p) routing_context \<Rightarrow> short_array_head json \<Rightarrow> ('k, 'p) dht_short_array
   \<Rightarrow> ('w, protocol_error, bool) io" where
  "short_array_is_empty rc j sa = io_bind (short_array_len rc j sa) (\<lambda>n. ok (n = 0))"

definition short_array_clear ::
  "('w, 'k, 'p) routing_context \<Rightarrow> short_array_head json \<Rightarrow> ('k, 'p) dht_short_array
   \<Rightarrow> ('w, protocol_error, unit) io" where
  "short_array_clear rc j sa =
     io_bind (read_head rc j sa) (\<lambda>head.
     io_bind (for_each (\<lambda>slot. write_slot rc sa ''clear'' slot []) (slots head)) (\<lambda>_.
     write_head rc j sa \<lparr>stride = sa_stride sa, slots = []\<rparr>))"

definition short_array_get_all ::
  "('w, 'k, 'p) routing_context \<Rightarrow> short_array_head json \<Rightarrow> ('k, 'p) dht_short_array
   \<Rightarrow> ('w, protocol_error, bytes list) io" where
  "short_array_get_all rc j sa =
     io_bind (read_head rc j sa) (\<lambda>head.
     collect (\<lambda>slot. io_bind (read_slot rc sa slot) (\<lambda>value.
       ok (case value of Some v \<Rightarrow> v | None \<Rightarrow> []))) (slots head))"

definition short_array_close ::
  "('w, 'k, 'p) routing_context \<Rightarrow> ('k, 'p) dht_short_array \<Rightarrow> ('w, protocol_error, unit) io" where
  "short_array_close rc sa = map_error (dht_error ''close'') (rc_close rc (sa_record_key sa))"

definition short_array_record_key ::
  "('w, 'k, 'p) routing_context \<Rightarrow> ('k, 'p) dht_short_array \<Rightarrow> string" where
  "short_array_record_key rc sa = rc_show_key rc (sa_record_key sa)"

section \<open>What a record holds\<close>

text \<open>The record \<open>r\<close> stores the elements \<open>xs\<close> in an array of capacity \<open>n\<close>.\<close>

definition array_rec :: "short_array_head json \<Rightarrow> u16 \<Rightarrow> 'p dht_record \<Rightarrow> bytes list \<Rightarrow> bool" where
  "array_rec j n r xs \<longleftrightarrow> n \<noteq> -1 \<and> rec_count r = n + 1 \<and>
     (\<exists>b head. rec_values r 0 = Some b \<and> from_json j b = Inr head \<and> stride head = n \<and>
        distinct (slots head) \<and> (\<forall>s\<in>set (slots head). s < n) \<and>
        map (\<lambda>s. rec_values r (data_subkey s)) (slots head) = map Some xs)"

definition same_access :: "'p dht_record \<Rightarrow> 'p dht_record \<Rightarrow> bool" where
  "same_access r r' \<longleftrightarrow> rec_owner r' = rec_owner r \<and> rec_count r' = rec_count r \<and>
     rec_opened r' = rec_opened r"

section \<open>Slots\<close>

lemma unat_data_subkey: "unat (data_subkey s) = unat s + 1"
proof -
  have s: "unat s < 2 ^ 16" using unat_lt_pow [of s] by simp
  then have "unat (ucast s :: u32) = unat s"
    by (simp add: unsigned_ucast_eq take_bit_nat_eq_self)
  with s show ?thesis by (simp add: data_subkey_def unat_word_ariths)
qed

lemma data_subkey_inj [simp]: "data_subkey s = data_subkey t \<longleftrightarrow> s = t"
  by (metis add_right_cancel unat_data_subkey unsigned_word_eqI)

lemma data_subkey_nonzero [simp]: "data_subkey s \<noteq> 0" "0 \<noteq> data_subkey s"
  using unat_data_subkey [of s] by auto

lemma unat_plus_1: "n \<noteq> (-1 :: u16) \<Longrightarrow> unat (n + 1) = unat n + 1"
  by (metis Suc_eq_plus1 add.commute add_eq_0_iff unatSuc)

lemma subkey_of_data:
  assumes "rec_count r = n + 1" and "n \<noteq> -1" and "s < n"
  shows "subkey_of r (data_subkey s)"
  using assms by (simp add: subkey_of_def unat_data_subkey unat_plus_1 word_less_nat_alt)

lemma subkey_of_head: "rec_count r = n + 1 \<Longrightarrow> n \<noteq> -1 \<Longrightarrow> subkey_of r 0"
  by (simp add: subkey_of_def unat_plus_1)

lemma set_all_slots: "set (map of_nat [0..<unat n]) = {s :: u16. s < n}"
proof -
  have "s \<in> of_nat ` {0..<unat n}" if "s < n" for s
    using that by (intro image_eqI [of _ _ "unat s"]) (simp_all add: word_less_nat_alt)
  moreover have "of_nat i < n" if "i < unat n" for i
    using that order.strict_trans [OF that unat_lt_pow [of n]]
    by (simp add: word_less_nat_alt unat_of_nat)
  ultimately show ?thesis by auto
qed

lemma find_free_slot_free:
  assumes "length (slots head) < unat n"
  shows "find_free_slot n head < n" and "find_free_slot n head \<notin> set (slots head)"
proof -
  have inj: "inj_on (of_nat :: nat \<Rightarrow> u16) {0..<unat n}"
  proof (rule inj_onI)
    fix x y assume "x \<in> {0..<unat n}" "y \<in> {0..<unat n}" "(of_nat x :: u16) = of_nat y"
    then show "x = y" using unat_lt_pow [of n]
      by (auto simp: word_of_nat_eq_iff take_bit_nat_eq_self)
  qed
  have "\<not> {s :: u16. s < n} \<subseteq> set (slots head)"
  proof
    assume "{s. s < n} \<subseteq> set (slots head)"
    then have "card {s :: u16. s < n} \<le> length (slots head)"
      by (meson card_length card_mono finite_set le_trans)
    moreover have "card {s :: u16. s < n} = unat n"
      unfolding set_all_slots [symmetric] using card_image [OF inj] by simp
    ultimately show False using assms by simp
  qed
  then have "List.find (\<lambda>slot. slot \<notin> set (slots head)) (map of_nat [0..<unat n]) \<noteq> None"
    unfolding list_find_set set_all_slots by auto
  then obtain s where s: "List.find (\<lambda>slot. slot \<notin> set (slots head)) (map of_nat [0..<unat n]) = Some s"
    by auto
  then have "s \<in> {s. s < n} \<and> s \<notin> set (slots head)"
    using find_SomeD [OF s] unfolding set_all_slots by simp
  with s show "find_free_slot n head < n" "find_free_slot n head \<notin> set (slots head)"
    by (simp_all add: find_free_slot_def)
qed

section \<open>Reading and writing the parts\<close>

lemma array_recE:
  assumes "array_rec j n r xs"
  obtains b head where "rec_values r 0 = Some b" and "from_json j b = Inr head"
    and "stride head = n" and "distinct (slots head)" and "\<forall>s\<in>set (slots head). s < n"
    and "map (\<lambda>s. rec_values r (data_subkey s)) (slots head) = map Some xs"
    and "length (slots head) = length xs"
proof -
  obtain b head where "rec_values r 0 = Some b" "from_json j b = Inr head" "stride head = n"
      "distinct (slots head)" "\<forall>s\<in>set (slots head). s < n"
      and m: "map (\<lambda>s. rec_values r (data_subkey s)) (slots head) = map Some xs"
    using assms by (auto simp: array_rec_def)
  moreover from m have "length (slots head) = length xs" by (metis length_map)
  ultimately show thesis using that by blast
qed

lemma array_rec_count: "array_rec j n r xs \<Longrightarrow> rec_count r = n + 1 \<and> n \<noteq> -1"
  by (simp add: array_rec_def)

lemma write_value_simps [simp]:
  "rec_owner (write_value i b r) = rec_owner r" "rec_count (write_value i b r) = rec_count r"
  "rec_opened (write_value i b r) = rec_opened r"
  "rec_values (write_value i b r) = (rec_values r)(i \<mapsto> b)"
  "writable (write_value i b r) = writable r" "readable (write_value i b r) = readable r"
  "subkey_of (write_value i b r) k = subkey_of r k"
  by (simp_all add: write_value_def writable_def readable_def subkey_of_def)

lemma same_access_write [simp]: "same_access r (write_value i b r') = same_access r r'"
  by (simp add: same_access_def)

lemma same_access_refl [simp]: "same_access r r"
  by (simp add: same_access_def)

lemma writable_readable: "writable r \<Longrightarrow> readable r"
  by (simp add: writable_def readable_def)

lemma array_rec_length: "array_rec j n r xs \<Longrightarrow> length xs \<le> unat n"
proof (elim array_recE)
  fix head assume d: "distinct (slots head)" and "\<forall>s\<in>set (slots head). s < n"
    and l: "length (slots head) = length xs"
  then have "set (slots head) \<subseteq> set (map of_nat [0..<unat n])" unfolding set_all_slots by auto
  then have "card (set (slots head)) \<le> length (map (of_nat :: nat \<Rightarrow> u16) [0..<unat n])"
    by (meson card_length card_mono finite_set le_trans)
  with d l show "length xs \<le> unat n" by (simp add: distinct_card)
qed

text \<open>The three writes the operations are made of.\<close>

lemma map_if_notin: "s \<notin> set ss \<Longrightarrow> map (\<lambda>x. if x = s then c else f x) ss = map f ss"
  by auto

lemma array_rec_write_free:
  assumes "array_rec j n r xs" and "rec_values r 0 = Some b" and "from_json j b = Inr head"
    and "s \<notin> set (slots head)"
  shows "array_rec j n (write_value (data_subkey s) d r) xs"
  using assms by (auto simp: array_rec_def fun_upd_def map_if_notin)

lemma array_rec_write_head:
  assumes "n \<noteq> -1" and "rec_count r = n + 1" and "from_json j b = Inr head" and "stride head = n"
    and "distinct (slots head)" and "\<forall>s\<in>set (slots head). s < n"
    and "map (\<lambda>s. rec_values r (data_subkey s)) (slots head) = map Some xs"
  shows "array_rec j n (write_value 0 b r) xs"
  using assms by (auto simp: array_rec_def fun_upd_def)

lemma array_rec_append_head:
  assumes r: "array_rec j n r xs" and v: "rec_values r 0 = Some b" and h: "from_json j b = Inr head"
    and s: "s \<notin> set (slots head)" "s < n"
    and b': "from_json j b' = Inr (head\<lparr>slots := slots head @ [s]\<rparr>)"
  shows "array_rec j n (write_value 0 b' (write_value (data_subkey s) d r)) (xs @ [d])"
proof (rule array_rec_write_head [OF _ _ b'])
  show "map (\<lambda>x. rec_values (write_value (data_subkey s) d r) (data_subkey x))
      (slots (head\<lparr>slots := slots head @ [s]\<rparr>)) = map Some (xs @ [d])"
    using r v h s by (auto simp: array_rec_def map_if_notin)
qed (use r v h s in \<open>auto simp: array_rec_def\<close>)

lemma map_remove_at: "map f (remove_at i xs) = remove_at i (map f xs)"
  by (simp add: remove_at_def take_map drop_map)

lemma remove_at_set: "i < length xs \<Longrightarrow> distinct xs \<Longrightarrow> set (remove_at i xs) = set xs - {xs ! i}"
proof -
  assume i: "i < length xs" and d: "distinct xs"
  have xs: "xs = take i xs @ xs ! i # drop (Suc i) xs" by (rule id_take_nth_drop [OF i])
  then show ?thesis using d unfolding remove_at_def
    by (metis (no_types, lifting) Diff_insert_absorb Un_insert_right distinct.simps(2) distinct_append
        insert_absorb insert_disjoint(1) list.simps(15) set_append disjoint_insert(1) Un_iff)
qed

lemma remove_at_distinct: "distinct xs \<Longrightarrow> distinct (remove_at i xs)"
  unfolding remove_at_def
  by (simp add: set_take_disj_set_drop_if_distinct)

lemma array_rec_remove_head:
  assumes r: "array_rec j n r xs" and v: "rec_values r 0 = Some b" and h: "from_json j b = Inr head"
    and i: "i < length (slots head)"
    and b': "from_json j b' = Inr (head\<lparr>slots := remove_at i (slots head)\<rparr>)"
  shows "array_rec j n (write_value 0 b' (write_value (data_subkey (slots head ! i)) d r)) (remove_at i xs)"
proof (rule array_rec_write_head [OF _ _ b'])
  have d: "distinct (slots head)" and m: "map (\<lambda>s. rec_values r (data_subkey s)) (slots head) = map Some xs"
    and a: "\<forall>s\<in>set (slots head). s < n"
    using r v h by (auto simp: array_rec_def)
  note s = remove_at_set [OF i d]
  have "map (\<lambda>x. rec_values (write_value (data_subkey (slots head ! i)) d r) (data_subkey x))
      (remove_at i (slots head)) = map (\<lambda>x. rec_values r (data_subkey x)) (remove_at i (slots head))"
    using s by auto
  also have "\<dots> = map Some (remove_at i xs)" unfolding map_remove_at m by (rule refl)
  finally show "map (\<lambda>x. rec_values (write_value (data_subkey (slots head ! i)) d r) (data_subkey x))
      (slots (head\<lparr>slots := remove_at i (slots head)\<rparr>)) = map Some (remove_at i xs)" by simp
  show "\<forall>s\<in>set (slots (head\<lparr>slots := remove_at i (slots head)\<rparr>)). s < n" using s a by auto
  show "distinct (slots (head\<lparr>slots := remove_at i (slots head)\<rparr>))" using remove_at_distinct [OF d] by simp
qed (use r v h in \<open>auto simp: array_rec_def\<close>)

end
