(* ===== verification/Arrays.thy ===== *)
theory Arrays
  imports ShortArray
begin

text \<open>
  The short array as a bounded list. On a reliable network every operation of \<open>ShortArray\<close> has
  the reply and the effect of the same operation on a list of at most \<open>n\<close> elements; on a network
  that may fail, adding an element either takes effect or does not.
\<close>

section \<open>The operations on a reliable network\<close>

lemma reliable_read_head:
  assumes "dht_reliable rc net" and "records net w k = Some r" and "readable r" and "array_rec j n r xs"
    and "\<And>b head w'. \<lbrakk>records net w' = records net w; rec_values r 0 = Some b;
      from_json j b = Inr head; stride head = n; length (slots head) = length xs\<rbrakk> \<Longrightarrow> Q head w'"
  shows "outcome (read_head_raw rc j k) Q E w"
proof -
  obtain b head where h: "rec_values r 0 = Some b" "from_json j b = Inr head" "stride head = n"
      "length (slots head) = length xs"
    using assms(4) by (elim array_recE)
  have c: "rec_count r = n + 1" "n \<noteq> -1" using array_rec_count [OF assms(4)] by auto
  show ?thesis
    unfolding read_head_raw_def wp
    by (rule reliable_get [OF assms(1-3) subkey_of_head [OF c]])
       (use h assms(5) in \<open>simp add: wp\<close>)
qed

lemma reliable_write_head:
  assumes "dht_reliable rc net" and "json_roundtrip j"
    and "records net w (sa_record_key sa) = Some r" and "writable r" and "subkey_of r 0"
    and "\<And>b w'. \<lbrakk>from_json j b = Inr head;
      records net w' = (records net w)(sa_record_key sa \<mapsto> write_value 0 b r)\<rbrakk> \<Longrightarrow> Q () w'"
  shows "outcome (write_head rc j sa head) Q E w"
proof -
  obtain b where "to_json j head = Inr b" "from_json j b = Inr head"
    using assms(2) by (rule json_roundtripE)
  then show ?thesis
    unfolding write_head_def wp using reliable_set [OF assms(1,3-5)] assms(6) by simp
qed

text \<open>
  The record \<open>r\<close> of the array is stored, open for writing by its owner, and holds \<open>xs\<close>.
\<close>

definition array_at ::
  "('w, 'k, 'p) network \<Rightarrow> short_array_head json \<Rightarrow> ('k, 'p) dht_short_array \<Rightarrow> 'w
   \<Rightarrow> 'p dht_record \<Rightarrow> bytes list \<Rightarrow> bool" where
  "array_at net j sa w r xs \<longleftrightarrow>
     records net w (sa_record_key sa) = Some r \<and> array_rec j (sa_stride sa) r xs"

text \<open>After an operation the record of the array is \<open>r'\<close>, and every other record is unchanged.\<close>

definition array_after ::
  "('w, 'k, 'p) network \<Rightarrow> short_array_head json \<Rightarrow> ('k, 'p) dht_short_array \<Rightarrow> 'w
   \<Rightarrow> 'p dht_record \<Rightarrow> bytes list \<Rightarrow> 'w \<Rightarrow> bool" where
  "array_after net j sa w r xs w' \<longleftrightarrow>
     (\<exists>r'. records net w' = (records net w)(sa_record_key sa \<mapsto> r') \<and> same_access r r' \<and>
        array_rec j (sa_stride sa) r' xs)"

lemma array_after_refl:
  "array_at net j sa w r xs \<Longrightarrow> records net w' = records net w \<Longrightarrow> array_after net j sa w r xs w'"
  by (auto simp: array_at_def array_after_def intro!: exI [of _ r])

lemma unat_of_nat_u32: "n < 2 ^ 32 \<Longrightarrow> unat (of_nat n :: u32) = n"
  by (simp add: unat_of_nat)

lemma array_at_subkeys:
  assumes "array_at net j sa w r xs"
  shows "subkey_of r 0" and "s < sa_stride sa \<Longrightarrow> subkey_of r (data_subkey s)"
    and "length xs \<le> unat (sa_stride sa)" and "length xs < 2 ^ 32"
proof -
  have r: "array_rec j (sa_stride sa) r xs" using assms by (simp add: array_at_def)
  from array_rec_count [OF r] show "subkey_of r 0" "s < sa_stride sa \<Longrightarrow> subkey_of r (data_subkey s)"
    by (auto intro: subkey_of_head subkey_of_data)
  show l: "length xs \<le> unat (sa_stride sa)" by (rule array_rec_length [OF r])
  with unat_lt_pow [of "sa_stride sa"] show "length xs < 2 ^ 32" by simp
qed

lemma u32_of_len_array:
  "array_at net j sa w r xs \<Longrightarrow> u32_of_len what (length xs) = Inr (of_nat (length xs))"
  using array_at_subkeys(4) by (fastforce simp: u32_of_len_def)

lemma short_array_add_full:
  assumes "dht_reliable rc net" and "readable r" and "array_at net j sa w r xs"
    and "unat (sa_stride sa) \<le> length xs"
  shows "outcome (short_array_add rc j sa data) Q
    (\<lambda>e w'. e = DhtError ''short array is full'' \<and> records net w' = records net w) w"
  unfolding short_array_add_def wp read_head_def
  by (rule reliable_read_head [OF assms(1) _ assms(2)])
     (use assms(3,4) in \<open>auto simp: array_at_def wp\<close>)

lemma short_array_add_room:
  assumes R: "dht_reliable rc net" and J: "json_roundtrip j" and W: "writable r"
    and A: "array_at net j sa w r xs" and L: "length xs < unat (sa_stride sa)"
  shows "outcome (short_array_add rc j sa data)
    (\<lambda>i w'. i = of_nat (length xs) \<and> array_after net j sa w r (xs @ [data]) w') E w"
proof -
  let ?n = "sa_stride sa" and ?k = "sa_record_key sa"
  have a: "records net w ?k = Some r" "array_rec j ?n r xs" using A by (simp_all add: array_at_def)
  show ?thesis
    unfolding short_array_add_def wp read_head_def
  proof (rule reliable_read_head [OF R a(1) writable_readable [OF W] a(2)], goal_cases)
    case (1 b head w1)
    then have len: "length (slots head) < unat ?n" using L by simp
    let ?s = "find_free_slot ?n head"
    note s = find_free_slot_free [OF len]
    have w1: "records net w1 ?k = Some r" using 1 a by simp
    have "outcome (write_slot rc sa ''write'' ?s data)
       (\<lambda>_. outcome (io_bind (from_result (u32_of_len ''index'' (length (slots head)))) (\<lambda>index.
             io_bind (write_head rc j sa (head\<lparr>slots := slots head @ [?s]\<rparr>)) (\<lambda>_. ok index)))
          (\<lambda>i w'. i = of_nat (length xs) \<and> array_after net j sa w r (xs @ [data]) w') E) E w1"
      unfolding write_slot_def wp
    proof (rule reliable_set [OF R w1 W array_at_subkeys(2) [OF A s(1)]], goal_cases)
      case (1 w2)
      let ?r2 = "write_value (data_subkey ?s) data r"
      have w2: "records net w2 ?k = Some ?r2" using 1 by simp
      have len: "u32_of_len ''index'' (length (slots head)) = Inr (of_nat (length xs))"
        using u32_of_len_array [OF A] \<open>length (slots head) = length xs\<close> by simp
      show ?case
        unfolding len sum.case
      proof (rule reliable_write_head [OF R J w2], goal_cases)
        case (3 b' w3)
        then show ?case
          using 1 \<open>records net w1 = records net w\<close> a s \<open>rec_values r 0 = Some b\<close> \<open>from_json j b = Inr head\<close>
          by (auto simp: wp array_after_def intro!: exI [of _ "write_value 0 b' ?r2"] array_rec_append_head)
      qed (use W array_at_subkeys(1) [OF A] in auto)
    qed
    with len show ?case by (simp add: wp Let_def)
  qed
qed

lemma reliable_read_slot:
  assumes "dht_reliable rc net" and "records net w (sa_record_key sa) = Some r" and "readable r"
    and "subkey_of r (data_subkey s)"
    and "\<And>w'. records net w' = records net w \<Longrightarrow> Q (rec_values r (data_subkey s)) w'"
  shows "outcome (read_slot rc sa s) Q E w"
  unfolding read_slot_def wp by (rule reliable_get [OF assms(1-4)]) (rule assms(5))

lemma short_array_get_outcome:
  assumes R: "dht_reliable rc net" and W: "readable r" and A: "array_at net j sa w r xs"
  shows "outcome (short_array_get rc j sa index)
    (\<lambda>v w'. v = (if unat index < length xs then Some (xs ! unat index) else None) \<and>
       records net w' = records net w) E w"
proof -
  let ?k = "sa_record_key sa"
  have a: "records net w ?k = Some r" "array_rec j (sa_stride sa) r xs"
    using A by (simp_all add: array_at_def)
  show ?thesis
    unfolding short_array_get_def wp read_head_def
  proof (rule reliable_read_head [OF R a(1) W a(2)], goal_cases)
    case (1 b head w1)
    show ?case
    proof (cases "unat index < length xs")
      case False
      then show ?thesis using 1 by (simp add: wp)
    next
      case True
      have m: "map (\<lambda>s. rec_values r (data_subkey s)) (slots head) = map Some xs"
        and lt: "\<forall>s\<in>set (slots head). s < sa_stride sa"
        using a(2) 1 by (auto simp: array_rec_def)
      have i: "unat index < length (slots head)" using True 1 by simp
      have v: "rec_values r (data_subkey (slots head ! unat index)) = Some (xs ! unat index)"
        using arg_cong [OF m, of "\<lambda>l. l ! unat index"] i True by simp
      have "outcome (read_slot rc sa (slots head ! unat index))
        (\<lambda>v w'. v = (if unat index < length xs then Some (xs ! unat index) else None) \<and>
          records net w' = records net w) E w1"
        by (rule reliable_read_slot [OF R _ W array_at_subkeys(2) [OF A]])
           (use 1 a i lt v True in auto)
      with i show ?thesis by simp
    qed
  qed
qed

lemma short_array_remove_bad_index:
  assumes "dht_reliable rc net" and "readable r" and "array_at net j sa w r xs"
    and "length xs \<le> unat index"
  shows "outcome (short_array_remove rc j sa index) Q
    (\<lambda>e w'. e = out_of_bounds index (length xs) \<and> records net w' = records net w) w"
  unfolding short_array_remove_def wp read_head_def
  by (rule reliable_read_head [OF assms(1) _ assms(2)])
     (use assms(3,4) in \<open>auto simp: array_at_def wp\<close>)

lemma short_array_remove_element:
  assumes R: "dht_reliable rc net" and J: "json_roundtrip j" and W: "writable r"
    and A: "array_at net j sa w r xs" and I: "unat index < length xs"
  shows "outcome (short_array_remove rc j sa index)
    (\<lambda>_ w'. array_after net j sa w r (remove_at (unat index) xs) w') E w"
proof -
  let ?k = "sa_record_key sa"
  have a: "records net w ?k = Some r" "array_rec j (sa_stride sa) r xs"
    using A by (simp_all add: array_at_def)
  show ?thesis
    unfolding short_array_remove_def wp read_head_def
  proof (rule reliable_read_head [OF R a(1) writable_readable [OF W] a(2)], goal_cases)
    case (1 b head w1)
    let ?s = "slots head ! unat index"
    have i: "unat index < length (slots head)" using I 1 by simp
    have "?s < sa_stride sa" using a(2) 1 i by (auto simp: array_rec_def)
    note sub = array_at_subkeys(2) [OF A this]
    have w1: "records net w1 ?k = Some r" using 1 a by simp
    have "outcome (write_slot rc sa ''clear'' ?s [])
       (\<lambda>_. outcome (write_head rc j sa (head\<lparr>slots := remove_at (unat index) (slots head)\<rparr>))
          (\<lambda>_ w'. array_after net j sa w r (remove_at (unat index) xs) w') E) E w1"
      unfolding write_slot_def wp
    proof (rule reliable_set [OF R w1 W sub], goal_cases)
      case (1 w2)
      let ?r2 = "write_value (data_subkey ?s) [] r"
      have w2: "records net w2 ?k = Some ?r2" using 1 by simp
      show ?case
      proof (rule reliable_write_head [OF R J w2], goal_cases)
        case (3 b' w3)
        then show ?case
          using 1 \<open>records net w1 = records net w\<close> a i \<open>rec_values r 0 = Some b\<close> \<open>from_json j b = Inr head\<close>
          by (auto simp: wp array_after_def intro!: exI [of _ "write_value 0 b' ?r2"] array_rec_remove_head)
      qed (use W array_at_subkeys(1) [OF A] in auto)
    qed
    with i show ?case by (simp add: wp)
  qed
qed

lemma short_array_len_outcome:
  assumes "dht_reliable rc net" and "readable r" and "array_at net j sa w r xs"
  shows "outcome (short_array_len rc j sa)
    (\<lambda>n w'. n = of_nat (length xs) \<and> records net w' = records net w) E w"
proof -
  have a: "records net w (sa_record_key sa) = Some r" "array_rec j (sa_stride sa) r xs"
    using assms(3) by (simp_all add: array_at_def)
  show ?thesis
    unfolding short_array_len_def wp read_head_def
    by (rule reliable_read_head [OF assms(1) a(1) assms(2) a(2)])
       (use u32_of_len_array [OF assms(3)] in simp)
qed

lemma clear_slots:
  assumes R: "dht_reliable rc net" and "records net w (sa_record_key sa) = Some r" and "writable r"
    and "\<forall>s\<in>set ss. subkey_of r (data_subkey s)"
    and "\<And>r' w'. \<lbrakk>records net w' = (records net w)(sa_record_key sa \<mapsto> r'); same_access r r'\<rbrakk> \<Longrightarrow> Q () w'"
  shows "outcome (for_each (\<lambda>slot. write_slot rc sa what slot []) ss) Q E w"
  using assms(2-5)
proof (induction ss arbitrary: r w)
  case Nil
  then show ?case by (auto simp: wp intro!: Nil(4) [of _ r])
next
  case (Cons s ss)
  show ?case
    unfolding for_each.simps wp write_slot_def
  proof (rule reliable_set [OF R Cons.prems(1,2)], goal_cases)
    case 1
    show ?case using Cons.prems(3) by simp
  next
    case (2 w')
    let ?r = "write_value (data_subkey s) [] r"
    show ?case
      unfolding write_slot_def [symmetric]
    proof (rule Cons.IH [of w' ?r])
      fix r' w'' assume "records net w'' = (records net w')(sa_record_key sa \<mapsto> r')" "same_access ?r r'"
      with 2 show "Q () w''" by (intro Cons.prems(4) [of _ r']) (simp_all add: same_access_def)
    qed (use 2 Cons.prems in auto)
  qed
qed

lemma short_array_clear_outcome:
  assumes R: "dht_reliable rc net" and J: "json_roundtrip j" and W: "writable r"
    and A: "array_at net j sa w r xs"
  shows "outcome (short_array_clear rc j sa) (\<lambda>_ w'. array_after net j sa w r [] w') E w"
proof -
  let ?k = "sa_record_key sa"
  have a: "records net w ?k = Some r" "array_rec j (sa_stride sa) r xs"
    using A by (simp_all add: array_at_def)
  show ?thesis
    unfolding short_array_clear_def wp read_head_def
  proof (rule reliable_read_head [OF R a(1) writable_readable [OF W] a(2)], goal_cases)
    case (1 b head w1)
    have "\<forall>s\<in>set (slots head). s < sa_stride sa" using a(2) 1 by (auto simp: array_rec_def)
    then have sub: "\<forall>s\<in>set (slots head). subkey_of r (data_subkey s)"
      using array_at_subkeys(2) [OF A] by simp
    have w1: "records net w1 ?k = Some r" using 1 a by simp
    show ?case
    proof (rule clear_slots [OF R w1 W sub], goal_cases)
      case (1 r' w2)
      have w2: "records net w2 ?k = Some r'" using 1 by simp
      show ?case
      proof (rule reliable_write_head [OF R J w2], goal_cases)
        case (3 b' w3)
        moreover have "array_rec j (sa_stride sa) (write_value 0 b' r') []"
          by (rule array_rec_write_head [OF _ _ 3(1)])
             (use 1(2) array_rec_count [OF a(2)] in \<open>auto simp: same_access_def\<close>)
        ultimately show ?case
          using 1 \<open>records net w1 = records net w\<close>
          by (auto simp: array_after_def intro!: exI [of _ "write_value 0 b' r'"])
      qed (use 1(2) W array_at_subkeys(1) [OF A] in \<open>auto simp: same_access_def writable_def subkey_of_def\<close>)
    qed
  qed
qed

lemma collect_slots:
  assumes R: "dht_reliable rc net" and "records net w (sa_record_key sa) = Some r" and "readable r"
    and "\<forall>s\<in>set ss. subkey_of r (data_subkey s)"
    and "\<And>w'. records net w' = records net w \<Longrightarrow>
      Q (map (\<lambda>s. f (rec_values r (data_subkey s))) ss) w'"
  shows "outcome (collect (\<lambda>slot. io_bind (read_slot rc sa slot) (\<lambda>v. ok (f v))) ss) Q E w"
  using assms(2-5)
proof (induction ss arbitrary: Q w)
  case Nil
  then show ?case by (simp add: wp)
next
  case (Cons s ss)
  show ?case
    unfolding collect.simps wp
  proof (rule reliable_read_slot [OF R Cons.prems(1,2)], goal_cases)
    case 1
    show ?case using Cons.prems(3) by simp
  next
    case (2 w')
    show ?case by (rule Cons.IH) (use 2 Cons.prems in \<open>auto simp: wp\<close>)
  qed
qed

lemma short_array_get_all_outcome:
  assumes R: "dht_reliable rc net" and W: "readable r" and A: "array_at net j sa w r xs"
  shows "outcome (short_array_get_all rc j sa)
    (\<lambda>v w'. v = xs \<and> records net w' = records net w) E w"
proof -
  let ?k = "sa_record_key sa"
  have a: "records net w ?k = Some r" "array_rec j (sa_stride sa) r xs"
    using A by (simp_all add: array_at_def)
  show ?thesis
    unfolding short_array_get_all_def wp read_head_def
  proof (rule reliable_read_head [OF R a(1) W a(2)], goal_cases)
    case (1 b head w1)
    have lt: "\<forall>s\<in>set (slots head). s < sa_stride sa"
      and m: "map (\<lambda>s. rec_values r (data_subkey s)) (slots head) = map Some xs"
      using a(2) 1 by (auto simp: array_rec_def)
    have sub: "\<forall>s\<in>set (slots head). subkey_of r (data_subkey s)"
      using array_at_subkeys(2) [OF A] lt by simp
    let ?f = "case_option [] (\<lambda>v. v)"
    have "map (\<lambda>s. ?f (rec_values r (data_subkey s))) (slots head) = map ?f (map Some xs)"
      unfolding m [symmetric] by simp
    then have f: "map (\<lambda>s. ?f (rec_values r (data_subkey s))) (slots head) = xs" by (simp add: comp_def)
    have w1: "records net w1 ?k = Some r" using 1 a by simp
    show ?case by (rule collect_slots [OF R w1 W sub]) (use f 1 in simp)
  qed
qed

section \<open>Creating and opening an array\<close>

lemma short_array_create_outcome:
  assumes R: "dht_reliable rc net" and J: "json_roundtrip j" and N: "unat n < max_subkeys"
    and F: "\<And>p. owner = Some p \<Longrightarrow> records net w (key_of net p (n + 1)) = None"
    and Q: "\<And>w' p r. \<lbrakk>owner = None \<or> owner = Some p; records net w (key_of net p (n + 1)) = None;
      records net w' = (records net w)(key_of net p (n + 1) \<mapsto> r);
      same_access (new_record p (n + 1)) r; array_rec j n r []\<rbrakk>
      \<Longrightarrow> Q (\<lparr>sa_record_key = key_of net p (n + 1), sa_owner_keypair = Some p, sa_stride = n\<rparr>, p) w'"
  shows "outcome (short_array_create rc j n owner) Q E w"
proof -
  have n: "n \<noteq> -1" using N by (auto simp: max_subkeys_def unsigned_minus_1_eq_mask mask_eq_exp_minus_1)
  have n1: "n + 1 \<noteq> 0" "unat (n + 1) \<le> max_subkeys"
    using N unat_plus_1 [OF n] by auto
  obtain b where b: "to_json j \<lparr>stride = n, slots = []\<rparr> = Inr b" "from_json j b = Inr \<lparr>stride = n, slots = []\<rparr>"
    using J by (rule json_roundtripE)
  have "outcome (short_array_create rc j n owner) Q E w =
    outcome (rc_create rc (n + 1) owner) (\<lambda>(key, secret).
      outcome (case secret of None \<Rightarrow> throw (DhtError ''no owner secret after create'')
        | Some keypair \<Rightarrow>
            io_bind (map_error (dht_error ''write head'') (rc_set rc key 0 b)) (\<lambda>_.
              ok (\<lparr>sa_record_key = key, sa_owner_keypair = Some keypair, sa_stride = n\<rparr>, keypair))) Q E)
      (\<lambda>e. E (dht_error ''create short array record'' e)) w"
    using n reliable_schema [OF R n1] b
    by (simp add: short_array_create_def wp Let_def split_def cong: option.case_cong)
  also have \<dots>
  proof (rule reliable_create [OF R n1 F], goal_cases)
    case (2 w1 p)
    let ?k = "key_of net p (n + 1)" and ?r = "new_record p (n + 1)"
    have w1: "records net w1 ?k = Some ?r" using 2 by simp
    have W: "writable ?r" and S: "subkey_of ?r 0"
      using unat_plus_1 [OF n] by (auto simp: writable_def new_record_def subkey_of_def)
    show ?case
      unfolding prod.case option.case wp
    proof (rule reliable_set [OF R w1 W S], goal_cases)
      case (1 w2)
      have "array_rec j n (write_value 0 b ?r) []"
        by (rule array_rec_write_head [OF n _ b(2)]) (simp_all add: new_record_def)
      with 1 2 show ?case by (intro Q) auto
    qed
  qed
  finally show ?thesis .
qed

lemma short_array_open_outcome:
  assumes R: "dht_reliable rc net" and A: "records net w k = Some r" and r: "array_rec j n r xs"
    and K: "rc_parse_key rc key = Inr k"
    and Q: "\<And>w'. records net w' = (records net w)(k \<mapsto> r\<lparr>rec_opened := Some writer\<rparr>)
      \<Longrightarrow> Q \<lparr>sa_record_key = k, sa_owner_keypair = writer, sa_stride = n\<rparr> w'"
  shows "outcome (short_array_open rc j key writer) Q E w"
  unfolding short_array_open_def wp K sum.case
proof (rule reliable_open [OF R A], goal_cases)
  case (1 w1)
  let ?r = "r\<lparr>rec_opened := Some writer\<rparr>"
  have w1: "records net w1 k = Some ?r" using 1 by simp
  have r1: "readable ?r" "array_rec j n ?r xs" using r by (simp_all add: readable_def array_rec_def)
  show ?case
  proof (rule reliable_read_head [OF R w1 r1], goal_cases)
    case (1 b head w2)
    then show ?case using \<open>records net w1 = _\<close> by (simp add: Q)
  qed
qed

section \<open>The array as a bounded list\<close>

datatype array_op = AddElement bytes | GetElement u32 | RemoveElement u32 | ArrayLen | ArrayIsEmpty
  | ClearArray | GetAllElements

datatype array_reply = AtIndex u32 | Element "bytes option" | Done | HasLen u32 | HasNone bool
  | Elements "bytes list"

fun short_array_run ::
  "('w, 'k, 'p) routing_context \<Rightarrow> short_array_head json \<Rightarrow> ('k, 'p) dht_short_array \<Rightarrow> array_op
   \<Rightarrow> ('w, protocol_error, array_reply) io" where
  "short_array_run rc j sa (AddElement d) = io_bind (short_array_add rc j sa d) (\<lambda>i. ok (AtIndex i))"
| "short_array_run rc j sa (GetElement i) = io_bind (short_array_get rc j sa i) (\<lambda>v. ok (Element v))"
| "short_array_run rc j sa (RemoveElement i) = io_bind (short_array_remove rc j sa i) (\<lambda>_. ok Done)"
| "short_array_run rc j sa ArrayLen = io_bind (short_array_len rc j sa) (\<lambda>n. ok (HasLen n))"
| "short_array_run rc j sa ArrayIsEmpty = io_bind (short_array_is_empty rc j sa) (\<lambda>b. ok (HasNone b))"
| "short_array_run rc j sa ClearArray = io_bind (short_array_clear rc j sa) (\<lambda>_. ok Done)"
| "short_array_run rc j sa GetAllElements = io_bind (short_array_get_all rc j sa) (\<lambda>v. ok (Elements v))"

text \<open>The specification: a list of at most \<open>n\<close> elements.\<close>

fun array_spec :: "u16 \<Rightarrow> array_op \<Rightarrow> bytes list \<Rightarrow> (protocol_error + array_reply) \<times> bytes list" where
  "array_spec n (AddElement d) xs =
     (if length xs < unat n then (Inr (AtIndex (of_nat (length xs))), xs @ [d])
      else (Inl (DhtError ''short array is full''), xs))"
| "array_spec n (GetElement i) xs =
     (Inr (Element (if unat i < length xs then Some (xs ! unat i) else None)), xs)"
| "array_spec n (RemoveElement i) xs =
     (if unat i < length xs then (Inr Done, remove_at (unat i) xs)
      else (Inl (out_of_bounds i (length xs)), xs))"
| "array_spec n ArrayLen xs = (Inr (HasLen (of_nat (length xs))), xs)"
| "array_spec n ArrayIsEmpty xs = (Inr (HasNone (xs = [])), xs)"
| "array_spec n ClearArray xs = (Inr Done, [])"
| "array_spec n GetAllElements xs = (Inr (Elements xs), xs)"

text \<open>The replies to a sequence of operations, of the array and of the list.\<close>

fun array_replies ::
  "('w, 'k, 'p) routing_context \<Rightarrow> short_array_head json \<Rightarrow> ('k, 'p) dht_short_array \<Rightarrow> array_op list
   \<Rightarrow> 'w \<Rightarrow> (protocol_error + array_reply) list" where
  "array_replies rc j sa [] w = []"
| "array_replies rc j sa (op # ops) w =
     (case short_array_run rc j sa op w of (reply, w') \<Rightarrow> reply # array_replies rc j sa ops w')"

fun spec_replies :: "u16 \<Rightarrow> array_op list \<Rightarrow> bytes list \<Rightarrow> (protocol_error + array_reply) list" where
  "spec_replies n [] xs = []"
| "spec_replies n (op # ops) xs =
     (case array_spec n op xs of (reply, xs') \<Rightarrow> reply # spec_replies n ops xs')"

lemma of_nat_u32_zero_iff: "n < 2 ^ 32 \<Longrightarrow> (of_nat n :: u32) = 0 \<longleftrightarrow> n = 0"
  by (auto simp: word_of_nat_eq_0_iff dest: dvd_imp_le)

lemma short_array_run_spec:
  assumes R: "dht_reliable rc net" and J: "json_roundtrip j" and W: "writable r"
    and A: "array_at net j sa w r xs"
  shows "fst (short_array_run rc j sa op w) = fst (array_spec (sa_stride sa) op xs) \<and>
    array_after net j sa w r (snd (array_spec (sa_stride sa) op xs)) (snd (short_array_run rc j sa op w))"
    (is "?P (short_array_run rc j sa op w)")
proof -
  note readable = writable_readable [OF W]
  note same = array_after_refl [OF A]
  have small: "(of_nat (length xs) :: u32) = 0 \<longleftrightarrow> xs = []"
    using of_nat_u32_zero_iff [OF array_at_subkeys(4) [OF A]] by simp
  have "outcome (short_array_run rc j sa op) (\<lambda>x w'. ?P (Inr x, w')) (\<lambda>e w'. ?P (Inl e, w')) w"
  proof (cases op)
    case (AddElement d)
    then show ?thesis
      using outcome_mono [OF short_array_add_full [OF R readable A]]
        outcome_mono [OF short_array_add_room [OF R J W A]] same
      by (cases "length xs < unat (sa_stride sa)") (simp_all add: wp)
  next
    case (GetElement i)
    then show ?thesis
      using outcome_mono [OF short_array_get_outcome [OF R readable A]] same by (simp add: wp)
  next
    case (RemoveElement i)
    then show ?thesis
      using outcome_mono [OF short_array_remove_bad_index [OF R readable A]]
        outcome_mono [OF short_array_remove_element [OF R J W A]] same
      by (cases "unat i < length xs") (simp_all add: wp)
  next
    case ArrayLen
    then show ?thesis
      using outcome_mono [OF short_array_len_outcome [OF R readable A]] same by (simp add: wp)
  next
    case ArrayIsEmpty
    then show ?thesis
      using outcome_mono [OF short_array_len_outcome [OF R readable A]] same small
      by (simp add: wp short_array_is_empty_def)
  next
    case ClearArray
    then show ?thesis
      using outcome_mono [OF short_array_clear_outcome [OF R J W A]] by (simp add: wp)
  next
    case GetAllElements
    then show ?thesis
      using outcome_mono [OF short_array_get_all_outcome [OF R readable A]] same by (simp add: wp)
  qed
  then show ?thesis by (simp add: outcome_def split: prod.splits sum.splits)
qed

lemma array_replies_spec:
  assumes "dht_reliable rc net" and "json_roundtrip j" and "writable r" and "array_at net j sa w r xs"
  shows "array_replies rc j sa ops w = spec_replies (sa_stride sa) ops xs"
  using assms(3,4)
proof (induction ops arbitrary: w r xs)
  case Nil
  then show ?case by simp
next
  case (Cons op ops)
  obtain reply w' where run: "short_array_run rc j sa op w = (reply, w')" by fastforce
  obtain reply' xs' where spec: "array_spec (sa_stride sa) op xs = (reply', xs')" by fastforce
  have "reply = reply'" and "array_after net j sa w r xs' w'"
    using short_array_run_spec [OF assms(1,2) Cons.prems, of op] run spec by simp_all
  moreover from this obtain r' where "records net w' = (records net w)(sa_record_key sa \<mapsto> r')"
      "same_access r r'" "array_rec j (sa_stride sa) r' xs'"
    by (auto simp: array_after_def)
  then have "writable r'" "array_at net j sa w' r' xs'"
    using Cons.prems by (simp_all add: array_at_def writable_def same_access_def)
  ultimately show ?case using run spec Cons.IH by simp
qed

section \<open>Failures\<close>

lemma lawful_read_head:
  assumes L: "dht_lawful rc net" and "records net w k = Some r" and "array_rec j n r xs"
    and Q: "\<And>b head w'. \<lbrakk>records net w' = records net w; rec_values r 0 = Some b;
      from_json j b = Inr head; stride head = n; length (slots head) = length xs\<rbrakk> \<Longrightarrow> Q head w'"
    and E: "\<And>e w'. records net w' = records net w \<Longrightarrow> E e w'"
  shows "outcome (read_head_raw rc j k) Q E w"
proof -
  obtain b head where h: "rec_values r 0 = Some b" "from_json j b = Inr head" "stride head = n"
      "length (slots head) = length xs"
    using assms(3) by (elim array_recE)
  show ?thesis
    unfolding read_head_raw_def wp
    by (rule lawful_get [OF L]) (use h assms(2) Q E in \<open>auto simp: wp\<close>)
qed

lemma lawful_write_head:
  assumes L: "dht_lawful rc net" and J: "json_roundtrip j"
    and "records net w (sa_record_key sa) = Some r"
    and "\<And>e w'. records net w' = records net w \<Longrightarrow> E e w'"
    and "\<And>b w'. \<lbrakk>from_json j b = Inr head;
      records net w' = (records net w)(sa_record_key sa \<mapsto> write_value 0 b r)\<rbrakk> \<Longrightarrow> Q () w'"
    and "\<And>b e w'. \<lbrakk>from_json j b = Inr head;
      records net w' = (records net w)(sa_record_key sa \<mapsto> write_value 0 b r)\<rbrakk> \<Longrightarrow> E e w'"
  shows "outcome (write_head rc j sa head) Q E w"
proof -
  obtain b where b: "to_json j head = Inr b" "from_json j b = Inr head"
    using J by (rule json_roundtripE)
  have "outcome (rc_set rc (sa_record_key sa) 0 b) Q (\<lambda>e. E (dht_error ''write head'' e)) w"
    by (rule lawful_set [OF L]) (use assms(3-6) b in auto)
  with b show ?thesis by (simp add: write_head_def wp)
qed

text \<open>
  Adding an element under failures: success means the element was appended; an error leaves the
  old list or the new one, never anything else.
\<close>

lemma short_array_add_lawful:
  assumes L: "dht_lawful rc net" and J: "json_roundtrip j" and A: "array_at net j sa w r xs"
  shows "outcome (short_array_add rc j sa data)
    (\<lambda>i w'. i = of_nat (length xs) \<and> array_after net j sa w r (xs @ [data]) w')
    (\<lambda>e w'. array_after net j sa w r xs w' \<or> array_after net j sa w r (xs @ [data]) w') w"
    (is "outcome _ ?Q ?E w")
proof -
  let ?n = "sa_stride sa" and ?k = "sa_record_key sa"
  have a: "records net w ?k = Some r" "array_rec j ?n r xs" using A by (simp_all add: array_at_def)
  note same = array_after_refl [OF A]
  show ?thesis
    unfolding short_array_add_def wp read_head_def
  proof (rule lawful_read_head [OF L a], goal_cases)
    case (1 b head w1)
    show ?case
    proof (cases "length (slots head) < unat ?n")
      case False
      with 1 show ?thesis by (simp add: wp same)
    next
      case len: True
      let ?s = "find_free_slot ?n head"
      note s = find_free_slot_free [OF len]
      let ?r2 = "\<lambda>d. write_value (data_subkey ?s) d r"
      have r2: "array_rec j ?n (?r2 d) xs" for d by (rule array_rec_write_free [OF a(2) 1(2,3) s(2)])
      have "outcome (write_slot rc sa ''write'' ?s data)
         (\<lambda>_. outcome (write_head rc j sa (head\<lparr>slots := slots head @ [?s]\<rparr>))
            (\<lambda>_. ?Q (of_nat (length xs))) ?E) ?E w1"
        unfolding write_slot_def wp
      proof (rule lawful_set [OF L], goal_cases)
        case (1 w2 r')
        then have r': "r' = r" and w2: "records net w2 ?k = Some (?r2 data)"
          using \<open>records net w1 = records net w\<close> a by simp_all
        show ?case
        proof (rule lawful_write_head [OF L J w2], goal_cases)
          case (1 e w3)
          then show ?case using \<open>records net w2 = _\<close> \<open>records net w1 = _\<close> r' r2
            by (auto simp: array_after_def intro!: exI [of _ "?r2 data"])
        next
          case (2 b' w3)
          then show ?case using \<open>records net w2 = _\<close> \<open>records net w1 = _\<close> r' a s
              \<open>rec_values r 0 = Some b\<close> \<open>from_json j b = Inr head\<close>
            by (auto simp: array_after_def intro!: exI [of _ "write_value 0 b' (?r2 data)"] array_rec_append_head)
        next
          case (3 b' e w3)
          then have "array_after net j sa w r (xs @ [data]) w3"
            using \<open>records net w2 = _\<close> \<open>records net w1 = _\<close> r' a s
              \<open>rec_values r 0 = Some b\<close> \<open>from_json j b = Inr head\<close>
            by (auto simp: array_after_def intro!: exI [of _ "write_value 0 b' (?r2 data)"] array_rec_append_head)
          then show ?case by simp
        qed
      next
        case (2 e w2)
        with \<open>records net w1 = _\<close> show ?case by (simp add: same)
      next
        case (3 e w2 r')
        then have "r' = r" using \<open>records net w1 = records net w\<close> a by simp
        with 3 \<open>records net w1 = _\<close> r2 show ?case
          by (auto simp: array_after_def intro!: exI [of _ "?r2 data"])
      qed
      moreover have "u32_of_len ''index'' (length (slots head)) = Inr (of_nat (length xs))"
        using u32_of_len_array [OF A] \<open>length (slots head) = length xs\<close> by simp
      ultimately show ?thesis using len by (simp add: wp Let_def)
    qed
  next
    case (2 e w1)
    then show ?case by (simp add: same)
  qed
qed

section \<open>A concrete head codec\<close>

definition head_codec :: "short_array_head json" where
  "head_codec =
     \<lparr>to_json = (\<lambda>h. Inr (concat (map u16_bytes (stride h # slots h)))),
      from_json = (\<lambda>b. case u16s_of_bytes b of [] \<Rightarrow> Inl ''EOF''
        | s # ss \<Rightarrow> Inr \<lparr>stride = s, slots = ss\<rparr>)\<rparr>"

lemma head_codec_roundtrip: "json_roundtrip head_codec"
proof -
  have "from_json head_codec (concat (map u16_bytes (stride h # slots h))) = Inr h" for h
    unfolding head_codec_def json.simps u16s_of_bytes_concat by simp
  then show ?thesis by (auto simp: json_roundtrip_def head_codec_def)
qed

section \<open>Properties\<close>

text \<open>
  C13. A short array is a bounded list. A new array of capacity \<open>n\<close> answers every sequence of
  additions, removals, reads, lengths and clears as a list of at most \<open>n\<close> elements does, with
  the code's error for a full array or a bad index: slots are reused, positions shift down on
  removal, and no operation touches a subkey outside the schema of the record.
\<close>

theorem short_array_is_a_bounded_list:
  assumes R: "dht_reliable rc net" and J: "json_roundtrip j" and N: "unat n < max_subkeys"
  shows "\<exists>sa keypair w'. short_array_create rc j n None w = (Inr (sa, keypair), w') \<and>
    (\<forall>ops. array_replies rc j sa ops w' = spec_replies n ops [])"
proof -
  have "returns (short_array_create rc j n None)
    (\<lambda>(sa, keypair) w'. \<forall>ops. array_replies rc j sa ops w' = spec_replies n ops []) w"
    unfolding returns_def
  proof (rule short_array_create_outcome [OF R J N], goal_cases)
    case (2 w' p r)
    let ?sa = "\<lparr>sa_record_key = key_of net p (n + 1), sa_owner_keypair = Some p, sa_stride = n\<rparr>"
    have "writable r" "array_at net j ?sa w' r []"
      using 2 by (simp_all add: writable_def same_access_def new_record_def array_at_def)
    from array_replies_spec [OF R J this] show ?case by simp
  qed simp
  then show ?thesis by (rule returnsE) auto
qed

theorem short_array_is_a_bounded_list_witness:
  "\<exists>sa keypair w'. short_array_create mem_rc head_codec 255 None [] = (Inr (sa, keypair), w') \<and>
    (\<forall>ops. array_replies mem_rc head_codec sa ops w' = spec_replies 255 ops [])"
  by (rule short_array_is_a_bounded_list [OF mem_reliable head_codec_roundtrip])
     (simp add: max_subkeys_def)

text \<open>
  Adding an element is atomic. Whatever fails on the way (reading the head, writing the
  slot, writing the head, or a write reported as failed that took effect), the array afterwards
  holds the old elements or the old elements and the new one, every other record is untouched,
  and a position is returned only for an element that is stored there.
\<close>

theorem short_array_add_is_atomic:
  assumes "dht_lawful rc net" and "json_roundtrip j" and "array_at net j sa w r xs"
  shows "case short_array_add rc j sa data w of
      (Inr i, w') \<Rightarrow> i = of_nat (length xs) \<and> array_after net j sa w r (xs @ [data]) w'
    | (Inl e, w') \<Rightarrow> array_after net j sa w r xs w' \<or> array_after net j sa w r (xs @ [data]) w'"
  using short_array_add_lawful [OF assms, of data]
  by (auto simp: outcome_def split: prod.splits sum.splits)

text \<open>A network on which writing the head fails.\<close>

definition flaky_rc :: "(mem, string, nat) routing_context" where
  "flaky_rc = mem_rc\<lparr>rc_set := \<lambda>k i b w. if i = 0 then (Inl ''offline'', w) else mem_set k i b w\<rparr>"

lemma flaky_lawful: "dht_lawful flaky_rc mem_net"
proof -
  have m: "dht_lawful mem_rc mem_net" by (rule reliable_lawful [OF mem_reliable])
  then have "set_law flaky_rc mem_net"
    by (auto simp: dht_lawful_def set_law_def flaky_rc_def outcome_def)
  with m show ?thesis
    by (simp add: dht_lawful_def get_law_def open_law_def create_law_def flaky_rc_def mem_rc_def)
qed

definition sample_array :: "(string, nat) dht_short_array" where
  "sample_array = \<lparr>sa_record_key = ''k'', sa_owner_keypair = Some 1, sa_stride = 4\<rparr>"

definition sample_record :: "nat dht_record" where
  "sample_record = \<lparr>rec_owner = 1, rec_count = 5,
     rec_values = [0 \<mapsto> concat (map u16_bytes [4, 2]), 3 \<mapsto> [7]], rec_opened = Some (Some 1)\<rparr>"

lemma sample_array_at:
  "array_at mem_net head_codec sample_array [(''k'', sample_record)] sample_record [[7]]"
proof -
  have "from_json head_codec (concat (map u16_bytes [4, 2])) = Inr \<lparr>stride = 4, slots = [2]\<rparr>"
    unfolding head_codec_def json.simps u16s_of_bytes_concat by simp
  then show ?thesis
    by (auto simp: array_at_def array_rec_def sample_array_def sample_record_def data_subkey_def)
qed

theorem short_array_add_is_atomic_witness:
  "case short_array_add flaky_rc head_codec sample_array [8] [(''k'', sample_record)] of
      (Inr i, w') \<Rightarrow> i = of_nat (length [[7 :: u8]]) \<and>
        array_after mem_net head_codec sample_array [(''k'', sample_record)] sample_record ([[7]] @ [[8]]) w'
    | (Inl e, w') \<Rightarrow>
        array_after mem_net head_codec sample_array [(''k'', sample_record)] sample_record [[7]] w' \<or>
        array_after mem_net head_codec sample_array [(''k'', sample_record)] sample_record ([[7]] @ [[8]]) w'"
  by (rule short_array_add_is_atomic [OF flaky_lawful head_codec_roundtrip sample_array_at])

end
