(* ===== verification/DhtLog.thy ===== *)
theory DhtLog
  imports Arrays
begin

text \<open>
  \<open>DHTLog\<close> (\<open>crates/rekindle-protocol/src/dht/log.rs\<close>): an append-only log over a spine record,
  which counts the entries and lists the segments, and segments that are short arrays. A
  division by a zero segment capacity panics, so failures are errors or panics.
\<close>

record log_spine =
  total_count :: u64
  segment_capacity :: u16
  segments :: "string list"

record ('k, 'p) dht_log =
  log_spine_key :: 'k
  log_owner_keypair :: "'p option"

datatype failure = Failed protocol_error | Panicked string

definition default_segment_capacity :: u16 where "default_segment_capacity = 255"

definition read_spine ::
  "('w, 'k, 'p) routing_context \<Rightarrow> log_spine json \<Rightarrow> ('k, 'p) dht_log
   \<Rightarrow> ('w, protocol_error, log_spine) io" where
  "read_spine rc j log =
     io_bind (map_error (dht_error ''read spine'') (rc_get rc (log_spine_key log) 0 False)) (\<lambda>value.
     case value of
       Some v \<Rightarrow> map_error (\<lambda>e. Deserialization (''spine parse: '' @ e)) (from_result (from_json j v))
     | None \<Rightarrow> throw (DhtError ''spine subkey not set''))"

definition write_spine ::
  "('w, 'k, 'p) routing_context \<Rightarrow> log_spine json \<Rightarrow> ('k, 'p) dht_log \<Rightarrow> log_spine
   \<Rightarrow> ('w, protocol_error, unit) io" where
  "write_spine rc j log spine =
     io_bind (map_error Serialization (from_result (to_json j spine))) (\<lambda>bytes.
     map_error (dht_error ''write spine'') (rc_set rc (log_spine_key log) 0 bytes))"

definition log_create ::
  "('w, 'k, 'p) routing_context \<Rightarrow> log_spine json \<Rightarrow> ('w, protocol_error, ('k, 'p) dht_log \<times> 'p) io" where
  "log_create rc j =
     (case rc_schema_error rc 1 of
        Some e \<Rightarrow> throw (dht_error ''invalid schema'' e)
      | None \<Rightarrow>
          io_bind (map_error (dht_error ''create log spine'') (rc_create rc 1 None)) (\<lambda>(key, secret).
          case secret of
            None \<Rightarrow> throw (DhtError ''no owner secret after create'')
          | Some keypair \<Rightarrow>
              let spine = \<lparr>total_count = 0, segment_capacity = default_segment_capacity, segments = []\<rparr>
              in io_bind (map_error Serialization (from_result (to_json j spine))) (\<lambda>spine_bytes.
                 io_bind (map_error (dht_error ''write spine'') (rc_set rc key 0 spine_bytes)) (\<lambda>_.
                 ok (\<lparr>log_spine_key = key, log_owner_keypair = Some keypair\<rparr>, keypair)))))"

definition log_open ::
  "('w, 'k, 'p) routing_context \<Rightarrow> string \<Rightarrow> 'p option \<Rightarrow> ('w, protocol_error, ('k, 'p) dht_log) io" where
  "log_open rc key writer =
     io_bind (map_error (dht_error (''invalid key '' @ [CHR 0x27] @ key @ [CHR 0x27]))
                (from_result (rc_parse_key rc key))) (\<lambda>spine_key.
     io_bind (map_error (dht_error ''open log spine'') (rc_open rc spine_key writer)) (\<lambda>_.
     ok \<lparr>log_spine_key = spine_key, log_owner_keypair = writer\<rparr>))"

definition log_open_write ::
  "('w, 'k, 'p) routing_context \<Rightarrow> string \<Rightarrow> 'p \<Rightarrow> ('w, protocol_error, ('k, 'p) dht_log) io" where
  "log_open_write rc key writer = log_open rc key (Some writer)"

definition log_open_read ::
  "('w, 'k, 'p) routing_context \<Rightarrow> string \<Rightarrow> ('w, protocol_error, ('k, 'p) dht_log) io" where
  "log_open_read rc key = log_open rc key None"

text \<open>\<open>spine.total_count > 0 && spine.total_count % u64::from(cap) == 0\<close>, after \<open>is_empty()\<close>.\<close>

definition needs_new_segment :: "log_spine \<Rightarrow> failure + bool" where
  "needs_new_segment spine =
     (if segments spine = [] then Inr True
      else if total_count spine = 0 then Inr False
      else if segment_capacity spine = 0
      then Inl (Panicked ''attempt to calculate the remainder with a divisor of zero'')
      else Inr (unat (total_count spine) mod unat (segment_capacity spine) = 0))"

definition log_append ::
  "('w, 'k, 'p) routing_context \<Rightarrow> short_array_head json \<Rightarrow> log_spine json \<Rightarrow> ('k, 'p) dht_log \<Rightarrow> bytes
   \<Rightarrow> ('w, failure, u64) io" where
  "log_append rc hj j log data =
     (case log_owner_keypair log of
        None \<Rightarrow> throw (Failed (DhtError ''cannot append to read-only log''))
      | Some writer \<Rightarrow>
          io_bind (map_error Failed (read_spine rc j log)) (\<lambda>spine.
          let cap = segment_capacity spine in
          io_bind (from_result (needs_new_segment spine)) (\<lambda>fresh.
          io_bind
            (map_error Failed
              (if fresh then
                 io_bind (short_array_create rc hj cap (Some writer)) (\<lambda>(segment, _).
                 io_bind (short_array_add rc hj segment data) (\<lambda>_.
                 ok (spine\<lparr>segments := segments spine @ [short_array_record_key rc segment]\<rparr>)))
               else
                 io_bind (short_array_open rc hj (last (segments spine)) (Some writer)) (\<lambda>segment.
                 io_bind (short_array_add rc hj segment data) (\<lambda>_.
                 ok spine)))) (\<lambda>spine'.
          let position = total_count spine in
          io_bind (map_error Failed (write_spine rc j log (spine'\<lparr>total_count := position + 1\<rparr>))) (\<lambda>_.
          ok position)))))"

definition log_get ::
  "('w, 'k, 'p) routing_context \<Rightarrow> short_array_head json \<Rightarrow> log_spine json \<Rightarrow> ('k, 'p) dht_log \<Rightarrow> u64
   \<Rightarrow> ('w, failure, bytes option) io" where
  "log_get rc hj j log pos =
     io_bind (map_error Failed (read_spine rc j log)) (\<lambda>spine.
     if total_count spine \<le> pos then ok None
     else if segment_capacity spine = 0 then throw (Panicked ''attempt to divide by zero'')
     else let cap = unat (segment_capacity spine);
              segment_idx = unat pos div cap; offset = unat pos mod cap
          in if length (segments spine) \<le> segment_idx then ok None
             else map_error Failed
               (io_bind (short_array_open rc hj (segments spine ! segment_idx) (log_owner_keypair log))
                 (\<lambda>segment. short_array_get rc hj segment (of_nat offset))))"

definition log_len ::
  "('w, 'k, 'p) routing_context \<Rightarrow> log_spine json \<Rightarrow> ('k, 'p) dht_log \<Rightarrow> ('w, protocol_error, u64) io" where
  "log_len rc j log = io_bind (read_spine rc j log) (\<lambda>spine. ok (total_count spine))"

definition log_is_empty ::
  "('w, 'k, 'p) routing_context \<Rightarrow> log_spine json \<Rightarrow> ('k, 'p) dht_log \<Rightarrow> ('w, protocol_error, bool) io" where
  "log_is_empty rc j log = io_bind (log_len rc j log) (\<lambda>n. ok (n = 0))"

text \<open>
  The loop of \<open>tail\<close>: it opens a segment when it reaches a position of another segment than the
  current one, and stops at the first position beyond the segments.
\<close>

fun tail_loop ::
  "('w, 'k, 'p) routing_context \<Rightarrow> short_array_head json \<Rightarrow> string list \<Rightarrow> 'p option \<Rightarrow> nat
   \<Rightarrow> nat \<Rightarrow> ('k, 'p) dht_short_array option \<Rightarrow> nat list \<Rightarrow> ('w, protocol_error, bytes list) io" where
  "tail_loop rc hj segs writer cap current_idx current [] = ok []"
| "tail_loop rc hj segs writer cap current_idx current (pos # positions) =
     (let seg_idx = pos div cap; offset = pos mod cap;
          reuse = (current \<noteq> None \<and> seg_idx = current_idx)
      in if \<not> reuse \<and> length segs \<le> seg_idx then ok []
         else
           io_bind (if reuse then ok (the current)
                     else short_array_open rc hj (segs ! seg_idx) writer) (\<lambda>segment.
           io_bind (short_array_get rc hj segment (of_nat offset)) (\<lambda>data.
           io_bind (tail_loop rc hj segs writer cap seg_idx (Some segment) positions) (\<lambda>rest.
           ok (case data of Some d \<Rightarrow> d # rest | None \<Rightarrow> rest)))))"

definition log_tail ::
  "('w, 'k, 'p) routing_context \<Rightarrow> short_array_head json \<Rightarrow> log_spine json \<Rightarrow> ('k, 'p) dht_log \<Rightarrow> u32
   \<Rightarrow> ('w, failure, bytes list) io" where
  "log_tail rc hj j log count =
     io_bind (map_error Failed (read_spine rc j log)) (\<lambda>spine.
     let total = unat (total_count spine)
     in if total = 0 \<or> count = 0 then ok []
        else if segment_capacity spine = 0 then throw (Panicked ''attempt to divide by zero'')
        else let cap = unat (segment_capacity spine); start = total - unat count
             in map_error Failed
                  (tail_loop rc hj (segments spine) (log_owner_keypair log) cap (start div cap) None
                    [start..<total]))"

definition log_watch ::
  "('w, 'k, 'p) routing_context \<Rightarrow> ('k, 'p) dht_log \<Rightarrow> ('w, protocol_error, bool) io" where
  "log_watch rc log = map_error (dht_error ''watch spine'') (rc_watch rc (log_spine_key log) [0])"

text \<open>\<open>close\<close> closes the segments it can read and ignores their errors.\<close>

definition close_segment ::
  "('w, 'k, 'p) routing_context \<Rightarrow> string \<Rightarrow> ('w, protocol_error, unit) io" where
  "close_segment rc key =
     (case rc_parse_key rc key of
        Inl e \<Rightarrow> ok ()
      | Inr k \<Rightarrow> io_bind (attempt (rc_close rc k)) (\<lambda>_. ok ()))"

definition log_close ::
  "('w, 'k, 'p) routing_context \<Rightarrow> log_spine json \<Rightarrow> ('k, 'p) dht_log \<Rightarrow> ('w, protocol_error, unit) io" where
  "log_close rc j log =
     io_bind (attempt (read_spine rc j log)) (\<lambda>spine.
     io_bind (case spine of Some s \<Rightarrow> for_each (close_segment rc) (segments s) | None \<Rightarrow> ok ()) (\<lambda>_.
     map_error (dht_error ''close spine'') (rc_close rc (log_spine_key log))))"

end
