(* ===== verification/Logs.thy ===== *)
theory Logs
  imports DhtLog
begin

text \<open>
  The log as a list. The entries of a log are cut into chunks, one per segment; reading a
  position, a length or a tail is reading the list, over any number of segments. Appending
  works up to the capacity of the first segment and never beyond: every segment is created with
  the owner and the schema of the first one, hence with its key.
\<close>

section \<open>Segments of a list\<close>

function chunks :: "nat \<Rightarrow> 'a list \<Rightarrow> 'a list list" where
  "chunks n xs = (if n = 0 \<or> xs = [] then [] else take n xs # chunks n (drop n xs))"
  by pat_completeness auto
termination by (relation "measure (\<lambda>(n, xs). length xs)") auto

declare chunks.simps [simp del]

lemma chunks_Nil [simp]: "chunks n [] = []"
  by (simp add: chunks.simps)

lemma chunks_step: "0 < n \<Longrightarrow> xs \<noteq> [] \<Longrightarrow> chunks n xs = take n xs # chunks n (drop n xs)"
  by (simp add: chunks.simps [of n xs])

lemma chunks_nth:
  assumes "0 < n" and "i < length xs"
  shows "i div n < length (chunks n xs) \<and> i mod n < length (chunks n xs ! (i div n)) \<and>
    chunks n xs ! (i div n) ! (i mod n) = xs ! i"
  using assms
proof (induction n xs arbitrary: i rule: chunks.induct)
  case (1 n xs)
  then have ne: "xs \<noteq> []" "0 < n" by auto
  show ?case
  proof (cases "i < n")
    case True
    with 1 ne show ?thesis by (simp add: chunks_step)
  next
    case False
    then have d: "i div n = Suc ((i - n) div n)" "i mod n = (i - n) mod n"
      using ne le_div_geq le_mod_geq by auto
    have "i - n < length (drop n xs)" using 1(3) False by simp
    moreover have "drop n xs ! (i - n) = xs ! i" using 1(3) False by simp
    ultimately show ?thesis
      using 1(1) [of "i - n"] ne unfolding d chunks_step [OF ne(2,1)] by simp
  qed
qed

lemma chunks_snoc:
  assumes "0 < n"
  shows "chunks n (xs @ [x]) =
    (if length xs mod n = 0 then chunks n xs @ [[x]]
     else butlast (chunks n xs) @ [last (chunks n xs) @ [x]])"
  using assms
proof (induction n xs rule: chunks.induct)
  case (1 n xs)
  show ?case
  proof (cases "xs = []")
    case True
    with 1 show ?thesis by (simp add: chunks_step)
  next
    case ne: False
    show ?thesis
    proof (cases "length xs < n")
      case True
      with ne 1 show ?thesis by (simp add: chunks_step)
    next
      case False
      then have m: "length xs mod n = length (drop n xs) mod n" using le_mod_geq by auto
      have c: "chunks n (drop n xs) \<noteq> []" if "length xs mod n \<noteq> 0"
        using that m 1(2) by (cases "drop n xs = []") (auto simp: chunks_step)
      have "chunks n (xs @ [x]) = take n xs # chunks n (drop n xs @ [x])"
        using False 1(2) by (simp add: chunks_step)
      also have "chunks n (drop n xs @ [x]) =
          (if length xs mod n = 0 then chunks n (drop n xs) @ [[x]]
           else butlast (chunks n (drop n xs)) @ [last (chunks n (drop n xs)) @ [x]])"
        unfolding m using 1 ne by simp
      finally have e: "chunks n (xs @ [x]) = take n xs #
          (if length xs mod n = 0 then chunks n (drop n xs) @ [[x]]
           else butlast (chunks n (drop n xs)) @ [last (chunks n (drop n xs)) @ [x]])" .
      show ?thesis unfolding e chunks_step [OF 1(2) ne] using c by simp
    qed
  qed
qed

lemma last_chunk_length:
  assumes "0 < n" and "length xs mod n \<noteq> 0"
  shows "chunks n xs \<noteq> [] \<and> length (last (chunks n xs)) = length xs mod n"
  using assms
proof (induction n xs rule: chunks.induct)
  case (1 n xs)
  then have ne: "xs \<noteq> []" by auto
  show ?case
  proof (cases "length xs \<le> n")
    case True
    with ne 1 show ?thesis by (cases "length xs = n") (simp_all add: chunks_step)
  next
    case False
    then have m: "length xs mod n = length (drop n xs) mod n" using le_mod_geq by auto
    with 1 ne show ?thesis by (simp add: chunks_step)
  qed
qed

section \<open>What a log holds\<close>

text \<open>
  The spine record counts the entries \<open>xs\<close> and lists the segments, whose records are those of
  the keys \<open>ks\<close>; segment \<open>i\<close> holds the \<open>i\<close>-th chunk of \<open>xs\<close>.
\<close>

definition segment_holds ::
  "('w, 'k, 'p) network \<Rightarrow> short_array_head json \<Rightarrow> u16 \<Rightarrow> 'p \<Rightarrow> 'w \<Rightarrow> 'k \<Rightarrow> bytes list \<Rightarrow> bool" where
  "segment_holds net hj cap p w k c \<longleftrightarrow>
     (\<exists>r. records net w k = Some r \<and> array_rec hj cap r c \<and> rec_owner r = p)"

definition spine_rec :: "log_spine json \<Rightarrow> ('k, 'p) dht_log \<Rightarrow> 'p \<Rightarrow> log_spine \<Rightarrow> 'p dht_record \<Rightarrow> bool" where
  "spine_rec j log p spine r \<longleftrightarrow> rec_owner r = p \<and> rec_opened r = Some (log_owner_keypair log) \<and>
     rec_count r = 1 \<and> (\<exists>b. rec_values r 0 = Some b \<and> from_json j b = Inr spine)"

definition log_rep ::
  "('w, 'k, 'p) routing_context \<Rightarrow> ('w, 'k, 'p) network \<Rightarrow> short_array_head json \<Rightarrow> log_spine json
   \<Rightarrow> ('k, 'p) dht_log \<Rightarrow> 'p \<Rightarrow> 'w \<Rightarrow> bytes list \<Rightarrow> log_spine \<Rightarrow> 'k list \<Rightarrow> bool" where
  "log_rep rc net hj j log p w xs spine ks \<longleftrightarrow>
     (\<exists>r. records net w (log_spine_key log) = Some r \<and> spine_rec j log p spine r) \<and>
     unat (total_count spine) = length xs \<and> segment_capacity spine \<noteq> 0 \<and>
     map (rc_parse_key rc) (segments spine) = map Inr ks \<and> distinct (log_spine_key log # ks) \<and>
     list_all2 (segment_holds net hj (segment_capacity spine) p w) ks
       (chunks (unat (segment_capacity spine)) xs)"

lemma log_rep_same:
  "log_rep rc net hj j log p w xs spine ks \<Longrightarrow> records net w' = records net w \<Longrightarrow>
   log_rep rc net hj j log p w' xs spine ks"
  by (simp add: log_rep_def segment_holds_def [abs_def])

lemma log_rep_lengths:
  assumes "log_rep rc net hj j log p w xs spine ks"
  shows "length (segments spine) = length ks"
    and "length (chunks (unat (segment_capacity spine)) xs) = length ks"
proof -
  have "length (map (rc_parse_key rc) (segments spine)) = length (map Inr ks :: (string + _) list)"
    using assms unfolding log_rep_def by metis
  then show "length (segments spine) = length ks" by simp
  show "length (chunks (unat (segment_capacity spine)) xs) = length ks"
    using assms by (auto simp: log_rep_def dest: list_all2_lengthD)
qed

lemma log_rep_cap: "log_rep rc net hj j log p w xs spine ks \<Longrightarrow> 0 < unat (segment_capacity spine)"
  by (simp add: log_rep_def unat_gt_0)

lemma log_rep_parse:
  assumes "log_rep rc net hj j log p w xs spine ks" and "i < length ks"
  shows "rc_parse_key rc (segments spine ! i) = Inr (ks ! i)"
proof -
  have "map (rc_parse_key rc) (segments spine) = map Inr ks" using assms by (simp add: log_rep_def)
  from arg_cong [OF this, of "\<lambda>l. l ! i"] show ?thesis
    using assms log_rep_lengths [OF assms(1)] by simp
qed

text \<open>A change of a record that keeps what it stores keeps the log.\<close>

lemma log_rep_update_segment:
  assumes L: "log_rep rc net hj j log p w xs spine ks" and i: "i < length ks"
    and "records net w' = (records net w)(ks ! i \<mapsto> r)"
    and "array_rec hj (segment_capacity spine) r (chunks (unat (segment_capacity spine)) xs ! i)"
    and "rec_owner r = p"
  shows "log_rep rc net hj j log p w' xs spine ks"
proof -
  let ?c = "chunks (unat (segment_capacity spine)) xs"
  have a: "list_all2 (segment_holds net hj (segment_capacity spine) p w) ks ?c"
    and d: "distinct (log_spine_key log # ks)"
    using L by (simp_all add: log_rep_def)
  have "segment_holds net hj (segment_capacity spine) p w' (ks ! m) (?c ! m)" if "m < length ks" for m
    using list_all2_nthD [OF a that] assms(3-5) that i d
    by (cases "m = i") (auto simp: segment_holds_def nth_eq_iff_index_eq)
  then have "list_all2 (segment_holds net hj (segment_capacity spine) p w') ks ?c"
    using list_all2_lengthD [OF a] by (auto intro: list_all2_all_nthI)
  moreover have "ks ! i \<noteq> log_spine_key log" using d i by (metis distinct.simps(2) nth_mem)
  ultimately show ?thesis using L assms(3) by (auto simp: log_rep_def)
qed

section \<open>Reading\<close>

lemma reliable_read_spine:
  assumes R: "dht_reliable rc net" and L: "log_rep rc net hj j log p w xs spine ks"
    and Q: "\<And>w'. records net w' = records net w \<Longrightarrow> Q spine w'"
  shows "outcome (read_spine rc j log) Q E w"
proof -
  obtain r b where r: "records net w (log_spine_key log) = Some r" "rec_count r = 1"
      "readable r" "rec_values r 0 = Some b" "from_json j b = Inr spine"
    using L by (auto simp: log_rep_def spine_rec_def readable_def)
  then have "subkey_of r 0" by (simp add: subkey_of_def)
  from reliable_get [OF R r(1,3) this] r Q show ?thesis
    unfolding read_spine_def wp by (simp add: wp)
qed

text \<open>The handle \<open>short_array_open\<close> returns for segment \<open>i\<close>.\<close>

definition segment_handle :: "('k, 'p) dht_log \<Rightarrow> log_spine \<Rightarrow> 'k list \<Rightarrow> nat \<Rightarrow> ('k, 'p) dht_short_array" where
  "segment_handle log spine ks i =
     \<lparr>sa_record_key = ks ! i, sa_owner_keypair = log_owner_keypair log,
      sa_stride = segment_capacity spine\<rparr>"

text \<open>Segment \<open>i\<close> is open as the log is, and holds its chunk.\<close>

definition segment_open ::
  "('w, 'k, 'p) network \<Rightarrow> short_array_head json \<Rightarrow> ('k, 'p) dht_log \<Rightarrow> 'p \<Rightarrow> log_spine \<Rightarrow> 'k list
   \<Rightarrow> bytes list \<Rightarrow> nat \<Rightarrow> 'w \<Rightarrow> 'p dht_record \<Rightarrow> bool" where
  "segment_open net hj log p spine ks xs i w r \<longleftrightarrow>
     array_at net hj (segment_handle log spine ks i) w r (chunks (unat (segment_capacity spine)) xs ! i) \<and>
     rec_owner r = p \<and> rec_opened r = Some (log_owner_keypair log)"

lemma segment_open_readable: "segment_open net hj log p spine ks xs i w r \<Longrightarrow> readable r"
  by (simp add: segment_open_def readable_def)

lemma open_segment:
  assumes R: "dht_reliable rc net" and L: "log_rep rc net hj j log p w xs spine ks" and i: "i < length ks"
    and Q: "\<And>w' r. \<lbrakk>log_rep rc net hj j log p w' xs spine ks;
      segment_open net hj log p spine ks xs i w' r\<rbrakk> \<Longrightarrow> Q (segment_handle log spine ks i) w'"
  shows "outcome (short_array_open rc hj (segments spine ! i) (log_owner_keypair log)) Q E w"
proof -
  let ?cap = "segment_capacity spine"
  let ?c = "chunks (unat ?cap) xs ! i"
  have "list_all2 (segment_holds net hj ?cap p w) ks (chunks (unat ?cap) xs)"
    using L by (simp add: log_rep_def)
  from list_all2_nthD [OF this i] obtain r where
    r: "records net w (ks ! i) = Some r" "array_rec hj ?cap r ?c" "rec_owner r = p"
    by (auto simp: segment_holds_def)
  let ?r = "r\<lparr>rec_opened := Some (log_owner_keypair log)\<rparr>"
  have r': "array_rec hj ?cap ?r ?c" using r by (simp add: array_rec_def)
  show ?thesis
  proof (rule short_array_open_outcome [OF R r(1,2) log_rep_parse [OF L i]])
    fix w' assume w': "records net w' = (records net w)(ks ! i \<mapsto> ?r)"
    have "segment_open net hj log p spine ks xs i w' ?r"
      using r r' w' by (simp add: segment_open_def segment_handle_def array_at_def)
    with log_rep_update_segment [OF L i w' r'] r
    show "Q \<lparr>sa_record_key = ks ! i, sa_owner_keypair = log_owner_keypair log, sa_stride = ?cap\<rparr> w'"
      using Q by (simp add: segment_handle_def)
  qed
qed

lemma log_position:
  assumes "log_rep rc net hj j log p w xs spine ks" and "pos < length xs"
  defines "cap \<equiv> unat (segment_capacity spine)"
  shows "pos div cap < length ks" and "pos mod cap < length (chunks cap xs ! (pos div cap))"
    and "chunks cap xs ! (pos div cap) ! (pos mod cap) = xs ! pos"
    and "unat (of_nat (pos mod cap) :: u32) = pos mod cap"
proof -
  note n = chunks_nth [OF log_rep_cap [OF assms(1)] assms(2)]
  then show "pos div cap < length ks" "pos mod cap < length (chunks cap xs ! (pos div cap))"
      "chunks cap xs ! (pos div cap) ! (pos mod cap) = xs ! pos"
    using log_rep_lengths(2) [OF assms(1)] by (simp_all add: cap_def)
  have "pos mod cap < cap" using log_rep_cap [OF assms(1)] by (simp add: cap_def)
  also have "cap < 2 ^ 16" using unat_lt_pow [of "segment_capacity spine"] by (simp add: cap_def)
  finally show "unat (of_nat (pos mod cap) :: u32) = pos mod cap" by (simp add: unat_of_nat_u32)
qed

lemma get_from_segment:
  assumes R: "dht_reliable rc net" and L: "log_rep rc net hj j log p w xs spine ks"
    and pos: "pos < length xs"
    and S: "segment_open net hj log p spine ks xs (pos div unat (segment_capacity spine)) w r"
    and Q: "\<And>w'. records net w' = records net w \<Longrightarrow> Q (Some (xs ! pos)) w'"
  shows "outcome (short_array_get rc hj (segment_handle log spine ks (pos div unat (segment_capacity spine)))
    (of_nat (pos mod unat (segment_capacity spine)))) Q E w"
proof -
  note n = log_position [OF L pos]
  show ?thesis
    by (rule outcome_mono [OF short_array_get_outcome [OF R segment_open_readable [OF S]]])
       (use S n Q in \<open>auto simp: segment_open_def\<close>)
qed

lemma log_get_outcome:
  assumes R: "dht_reliable rc net" and L: "log_rep rc net hj j log p w xs spine ks"
  shows "outcome (log_get rc hj j log pos)
    (\<lambda>v w'. v = (if unat pos < length xs then Some (xs ! unat pos) else None) \<and>
       log_rep rc net hj j log p w' xs spine ks) E w"
  unfolding log_get_def wp
proof (rule reliable_read_spine [OF R L], goal_cases)
  case (1 w1)
  let ?cap = "unat (segment_capacity spine)"
  have cap: "segment_capacity spine \<noteq> 0" and cnt: "unat (total_count spine) = length xs"
    using L by (simp_all add: log_rep_def)
  have L1: "log_rep rc net hj j log p w1 xs spine ks" by (rule log_rep_same [OF L 1])
  show ?case
  proof (cases "unat pos < length xs")
    case False
    then show ?thesis using L1 cnt by (simp add: wp word_le_nat_alt)
  next
    case True
    note n = log_position [OF L True]
    have "outcome (short_array_open rc hj (segments spine ! (unat pos div ?cap)) (log_owner_keypair log))
      (\<lambda>segment. outcome (short_array_get rc hj segment (of_nat (unat pos mod ?cap)))
        (\<lambda>v w'. v = Some (xs ! unat pos) \<and> log_rep rc net hj j log p w' xs spine ks) (\<lambda>e. E (Failed e)))
      (\<lambda>e. E (Failed e)) w1"
    proof (rule open_segment [OF R L1 n(1)])
      fix w2 r assume L2: "log_rep rc net hj j log p w2 xs spine ks"
        and S: "segment_open net hj log p spine ks xs (unat pos div ?cap) w2 r"
      show "outcome (short_array_get rc hj (segment_handle log spine ks (unat pos div ?cap))
          (of_nat (unat pos mod ?cap)))
        (\<lambda>v w'. v = Some (xs ! unat pos) \<and> log_rep rc net hj j log p w' xs spine ks) (\<lambda>e. E (Failed e)) w2"
        by (rule get_from_segment [OF R L2 True S]) (auto intro: log_rep_same [OF L2])
    qed
    with True n cap cnt log_rep_lengths(1) [OF L] show ?thesis
      by (simp add: wp Let_def word_le_nat_alt)
  qed
qed

lemma log_len_outcome:
  assumes "dht_reliable rc net" and "log_rep rc net hj j log p w xs spine ks"
  shows "outcome (log_len rc j log)
    (\<lambda>n w'. unat n = length xs \<and> log_rep rc net hj j log p w' xs spine ks) E w"
  unfolding log_len_def wp
  by (rule reliable_read_spine [OF assms])
     (use assms(2) log_rep_same [OF assms(2)] in \<open>auto simp: log_rep_def\<close>)

text \<open>
  The loop of \<open>tail\<close> reads the entries of its positions in order; \<open>current\<close> is the segment of
  the index it remembers.
\<close>

lemma tail_loop_outcome:
  assumes R: "dht_reliable rc net"
    and "log_rep rc net hj j log p w xs spine ks" and "to \<le> length xs" and "from \<le> to"
    and "current = None \<or> current = Some (segment_handle log spine ks idx) \<and>
      (\<exists>r. segment_open net hj log p spine ks xs idx w r)"
    and "\<And>w'. log_rep rc net hj j log p w' xs spine ks \<Longrightarrow> Q (take (to - from) (drop from xs)) w'"
  shows "outcome (tail_loop rc hj (segments spine) (log_owner_keypair log)
    (unat (segment_capacity spine)) idx current [from..<to]) Q E w"
  using assms(2-6)
proof (induction "to - from" arbitrary: "from" w idx current Q)
  case 0
  then have "[from..<to] = []" "to - from = 0" by simp_all
  with 0(6) [OF 0(2)] show ?case by (simp add: wp)
next
  case (Suc m)
  let ?cap = "unat (segment_capacity spine)"
  let ?i = "from div ?cap" and ?h = "segment_handle log spine ks (from div ?cap)"
  have pos: "from < length xs" and up: "[from..<to] = from # [Suc from..<to]"
    using Suc by (simp_all add: upt_rec)
  note n = log_position [OF Suc.prems(1) pos]
  have split: "take (to - from) (drop from xs) = xs ! from # take (to - Suc from) (drop (Suc from) xs)"
    using Suc.hyps(2) Suc.prems(2) pos by (simp add: Cons_nth_drop_Suc [symmetric] take_Cons')
  have read: "outcome (io_bind (short_array_get rc hj ?h (of_nat (from mod ?cap))) (\<lambda>data.
       io_bind (tail_loop rc hj (segments spine) (log_owner_keypair log) ?cap ?i (Some ?h) [Suc from..<to])
         (\<lambda>rest. ok (case data of Some d \<Rightarrow> d # rest | None \<Rightarrow> rest)))) Q E w'"
    if L: "log_rep rc net hj j log p w' xs spine ks" and S: "segment_open net hj log p spine ks xs ?i w' r"
    for w' r
    unfolding wp
  proof (rule get_from_segment [OF R L pos S])
    fix w2 assume same: "records net w2 = records net w'"
    have "segment_open net hj log p spine ks xs ?i w2 r"
      using S same by (simp add: segment_open_def array_at_def)
    then have cur: "Some ?h = None \<or> Some ?h = Some ?h \<and>
        (\<exists>r. segment_open net hj log p spine ks xs ?i w2 r)" by blast
    have L2: "log_rep rc net hj j log p w2 xs spine ks" by (rule log_rep_same [OF L same])
    show "outcome (tail_loop rc hj (segments spine) (log_owner_keypair log) ?cap ?i (Some ?h) [Suc from..<to])
        (\<lambda>rest. Q (case Some (xs ! from) of Some d \<Rightarrow> d # rest | None \<Rightarrow> rest)) E w2"
      by (rule Suc.hyps(1) [OF _ L2 Suc.prems(2) _ cur])
         (use Suc.hyps(2) Suc.prems(5) split in auto)
  qed
  show ?case
  proof (cases "current \<noteq> None \<and> ?i = idx")
    case True
    then obtain r where "current = Some ?h" "segment_open net hj log p spine ks xs ?i w r"
      using Suc.prems(4) by auto
    with True read [OF Suc.prems(1)] show ?thesis unfolding up by (simp add: Let_def)
  next
    case False
    have "outcome (short_array_open rc hj (segments spine ! ?i) (log_owner_keypair log))
      (\<lambda>segment. outcome (io_bind (short_array_get rc hj segment (of_nat (from mod ?cap))) (\<lambda>data.
         io_bind (tail_loop rc hj (segments spine) (log_owner_keypair log) ?cap ?i (Some segment) [Suc from..<to])
           (\<lambda>rest. ok (case data of Some d \<Rightarrow> d # rest | None \<Rightarrow> rest)))) Q E) E w"
      by (rule open_segment [OF R Suc.prems(1) n(1)]) (rule read)
    moreover have "\<not> length (segments spine) \<le> ?i"
      using n(1) log_rep_lengths(1) [OF Suc.prems(1)] by simp
    ultimately show ?thesis
      unfolding up tail_loop.simps Let_def using False by (auto simp: wp)
  qed
qed

text \<open>The last \<open>n\<close> elements of a list.\<close>

definition last_n :: "nat \<Rightarrow> 'a list \<Rightarrow> 'a list" where
  "last_n n xs = drop (length xs - n) xs"

lemma log_tail_outcome:
  assumes R: "dht_reliable rc net" and L: "log_rep rc net hj j log p w xs spine ks"
  shows "outcome (log_tail rc hj j log count)
    (\<lambda>v w'. v = last_n (unat count) xs \<and> log_rep rc net hj j log p w' xs spine ks) E w"
  unfolding log_tail_def wp
proof (rule reliable_read_spine [OF R L], goal_cases)
  case (1 w1)
  have cap: "segment_capacity spine \<noteq> 0" and cnt: "unat (total_count spine) = length xs"
    using L by (simp_all add: log_rep_def)
  have L1: "log_rep rc net hj j log p w1 xs spine ks" by (rule log_rep_same [OF L 1])
  show ?case
  proof (cases "length xs = 0 \<or> count = 0")
    case True
    then show ?thesis using L1 cnt by (auto simp: wp last_n_def)
  next
    case False
    have "outcome (tail_loop rc hj (segments spine) (log_owner_keypair log) (unat (segment_capacity spine))
       ((length xs - unat count) div unat (segment_capacity spine)) None [length xs - unat count..<length xs])
       (\<lambda>v w'. v = last_n (unat count) xs \<and> log_rep rc net hj j log p w' xs spine ks) (\<lambda>e. E (Failed e)) w1"
      by (rule tail_loop_outcome [OF R L1]) (simp_all add: last_n_def)
    with False cap cnt show ?thesis by (simp add: wp Let_def)
  qed
qed

section \<open>Appending\<close>

lemma reliable_write_spine:
  assumes R: "dht_reliable rc net" and J: "json_roundtrip j"
    and r: "records net w (log_spine_key log) = Some r" "spine_rec j log p spine r"
    and P: "log_owner_keypair log = Some p"
    and Q: "\<And>w' r'. \<lbrakk>records net w' = (records net w)(log_spine_key log \<mapsto> r');
      spine_rec j log p spine' r'\<rbrakk> \<Longrightarrow> Q () w'"
  shows "outcome (write_spine rc j log spine') Q E w"
proof -
  obtain b where b: "to_json j spine' = Inr b" "from_json j b = Inr spine'"
    using J by (rule json_roundtripE)
  have "writable r" "subkey_of r 0"
    using r(2) P by (auto simp: spine_rec_def writable_def subkey_of_def)
  from reliable_set [OF R r(1) this]
  have "outcome (rc_set rc (log_spine_key log) 0 b) Q (\<lambda>e. E (dht_error ''write spine'' e)) w"
    using Q [of _ "write_value 0 b r"] r(2) b by (simp add: spine_rec_def)
  with b show ?thesis by (simp add: write_spine_def wp)
qed

lemma segments_update_last:
  assumes "list_all2 (segment_holds net hj cap p w) ks cs" and "ks \<noteq> []" and "distinct ks"
    and "\<And>k. k \<in> set ks \<Longrightarrow> k \<noteq> last ks \<Longrightarrow> records net w' k = records net w k"
    and "segment_holds net hj cap p w' (last ks) c"
  shows "list_all2 (segment_holds net hj cap p w') ks (butlast cs @ [c])"
proof -
  obtain ks0 k where ks: "ks = ks0 @ [k]" using assms(2) by (metis rev_exhaust)
  obtain cs0 c0 where cs: "cs = cs0 @ [c0]" and a: "list_all2 (segment_holds net hj cap p w) ks0 cs0"
    using assms(1) unfolding ks by (auto simp: list_all2_append1 list_all2_Cons1)
  have "records net w' z = records net w z" if "z \<in> set ks0" for z
    using assms(4) [of z] assms(3) that unfolding ks by auto
  with a have "list_all2 (segment_holds net hj cap p w') ks0 cs0"
    by (auto intro: list.rel_mono_strong simp: segment_holds_def)
  then show ?thesis using list_all2_appendI [of _ ks0 cs0 "[k]" "[c]"] assms(5) ks cs by simp
qed

lemma segments_snoc:
  assumes "list_all2 (segment_holds net hj cap p w) ks cs"
    and "\<And>k. k \<in> set ks \<Longrightarrow> records net w' k = records net w k"
    and "segment_holds net hj cap p w' k c"
  shows "list_all2 (segment_holds net hj cap p w') (ks @ [k]) (cs @ [c])"
proof -
  have "list_all2 (segment_holds net hj cap p w') ks cs"
    using assms(1) by (rule list.rel_mono_strong) (use assms(2) in \<open>auto simp: segment_holds_def\<close>)
  then show ?thesis using list_all2_appendI [of _ ks cs "[k]" "[c]"] assms(3) by simp
qed

lemma log_rep_needs_new_segment:
  assumes "log_rep rc net hj j log p w xs spine ks"
  shows "needs_new_segment spine = Inr (length xs mod unat (segment_capacity spine) = 0)"
proof -
  have cap: "0 < unat (segment_capacity spine)" and cnt: "unat (total_count spine) = length xs"
    and nz: "segment_capacity spine \<noteq> 0"
    using assms log_rep_cap [OF assms] by (simp_all add: log_rep_def)
  note n = log_rep_lengths [OF assms]
  show ?thesis
  proof (cases "xs = []")
    case True
    then have "segments spine = []" using n by simp
    with True show ?thesis by (simp add: needs_new_segment_def)
  next
    case False
    then have "segments spine \<noteq> []" "total_count spine \<noteq> 0" using n cap cnt by (auto simp: chunks_step)
    with cnt nz show ?thesis by (simp add: needs_new_segment_def)
  qed
qed

lemma next_count:
  assumes "unat (c :: u64) = n" and "Suc n < 2 ^ 64"
  shows "unat (c + 1) = Suc n"
  using assms by (simp add: unat_word_ariths)

lemma log_append_room:
  assumes R: "dht_reliable rc net" and HJ: "json_roundtrip hj" and J: "json_roundtrip j"
    and P: "log_owner_keypair log = Some p"
    and L: "log_rep rc net hj j log p w xs spine ks"
    and room: "length xs mod unat (segment_capacity spine) \<noteq> 0" and small: "Suc (length xs) < 2 ^ 64"
  shows "outcome (log_append rc hj j log d)
    (\<lambda>pos w'. unat pos = length xs \<and> log_rep rc net hj j log p w' (xs @ [d])
        (spine\<lparr>total_count := total_count spine + 1\<rparr>) ks) E w"
proof -
  let ?cap = "segment_capacity spine" and ?cs = "chunks (unat (segment_capacity spine)) xs"
  let ?n = "length ks - 1"
  have cap: "0 < unat ?cap" by (rule log_rep_cap [OF L])
  have cnt: "unat (total_count spine) = length xs" using L by (simp add: log_rep_def)
  note lens = log_rep_lengths [OF L]
  have cs: "?cs \<noteq> []" "length (last ?cs) < unat ?cap"
    using last_chunk_length [OF cap room] cap by auto
  from cs(1) have "length ks \<noteq> 0" using lens(2) by (metis length_0_conv)
  then have ks: "ks \<noteq> []" "?n < length ks" and segs: "segments spine \<noteq> []" using lens(1) by auto
  have last: "last (segments spine) = segments spine ! ?n" "last ?cs = ?cs ! ?n" "last ks = ks ! ?n"
    using segs cs ks lens by (simp_all add: last_conv_nth)
  let ?h = "segment_handle log spine ks ?n"
  have step: "outcome (short_array_add rc hj ?h d)
      (\<lambda>_. outcome (write_spine rc j log (spine\<lparr>total_count := total_count spine + 1\<rparr>))
        (\<lambda>_ w'. log_rep rc net hj j log p w' (xs @ [d]) (spine\<lparr>total_count := total_count spine + 1\<rparr>) ks) E') E' w2"
    if L2: "log_rep rc net hj j log p w2 xs spine ks" and S: "segment_open net hj log p spine ks xs ?n w2 r"
    for w2 r and E' :: "protocol_error \<Rightarrow> _"
  proof -
    have "outcome (short_array_add rc hj ?h d)
      (\<lambda>i w'. i = of_nat (length (?cs ! ?n)) \<and> array_after net hj ?h w2 r (?cs ! ?n @ [d]) w') (\<lambda>_ _. False) w2"
      by (rule short_array_add_room [OF R HJ])
         (use S P cs last in \<open>auto simp: segment_open_def writable_def segment_handle_def\<close>)
    then show ?thesis
    proof (rule outcome_mono, goal_cases)
      case (1 i w3)
      then obtain r' where w3: "records net w3 = (records net w2)(ks ! ?n \<mapsto> r')"
        and r': "same_access r r'" "array_rec hj ?cap r' (?cs ! ?n @ [d])"
        by (auto simp: array_after_def segment_handle_def)
      obtain rs where rs: "records net w2 (log_spine_key log) = Some rs" "spine_rec j log p spine rs"
        and dist: "distinct (log_spine_key log # ks)"
        using L2 by (auto simp: log_rep_def)
      have ne: "log_spine_key log \<noteq> ks ! ?n" using dist ks by (metis distinct.simps(2) nth_mem)
      have rs3: "records net w3 (log_spine_key log) = Some rs" using w3 rs ne by simp
      show ?case
      proof (rule reliable_write_spine [OF R J rs3 rs(2) P])
        fix w4 r4 assume w4: "records net w4 = (records net w3)(log_spine_key log \<mapsto> r4)"
          and r4: "spine_rec j log p (spine\<lparr>total_count := total_count spine + 1\<rparr>) r4"
        have "list_all2 (segment_holds net hj ?cap p w4) ks (butlast ?cs @ [last ?cs @ [d]])"
        proof (rule segments_update_last)
          show "list_all2 (segment_holds net hj ?cap p w2) ks ?cs" using L2 by (simp add: log_rep_def)
          show "segment_holds net hj ?cap p w4 (last ks) (last ?cs @ [d])"
            using w4 w3 r' ne last S
            by (auto simp: segment_holds_def same_access_def segment_open_def)
          show "records net w4 k = records net w2 k" if "k \<in> set ks" "k \<noteq> last ks" for k
            using that w4 w3 dist last by auto
        qed (use ks dist in auto)
        then show "log_rep rc net hj j log p w4 (xs @ [d]) (spine\<lparr>total_count := total_count spine + 1\<rparr>) ks"
          using L2 w4 r4 room next_count [OF cnt small]
          by (simp add: log_rep_def chunks_snoc [OF cap])
      qed
    qed simp
  qed
  show ?thesis
    unfolding log_append_def P option.case wp
  proof (rule reliable_read_spine [OF R L], goal_cases)
    case (1 w1)
    have "outcome (short_array_open rc hj (segments spine ! ?n) (log_owner_keypair log))
      (\<lambda>segment. outcome (short_array_add rc hj segment d)
        (\<lambda>_. outcome (write_spine rc j log (spine\<lparr>total_count := total_count spine + 1\<rparr>))
          (\<lambda>_ w'. log_rep rc net hj j log p w' (xs @ [d]) (spine\<lparr>total_count := total_count spine + 1\<rparr>) ks)
          (\<lambda>e. E (Failed e))) (\<lambda>e. E (Failed e))) (\<lambda>e. E (Failed e)) w1"
      by (rule open_segment [OF R log_rep_same [OF L 1] ks(2)]) (rule step)
    then show ?case
      using room cnt last P by (simp add: log_rep_needs_new_segment [OF L] wp Let_def)
  qed
qed

text \<open>
  At a multiple of the segment capacity a new segment is created, with the owner of the log. It
  is the record of that owner and schema: it can be created once.
\<close>

lemma log_append_first:
  assumes R: "dht_reliable rc net" and HJ: "json_roundtrip hj" and J: "json_roundtrip j"
    and P: "log_owner_keypair log = Some p"
    and L: "log_rep rc net hj j log p w xs spine ks"
    and edge: "length xs mod unat (segment_capacity spine) = 0" and small: "Suc (length xs) < 2 ^ 64"
    and cap: "unat (segment_capacity spine) < max_subkeys"
    and fresh: "records net w (key_of net p (segment_capacity spine + 1)) = None"
  shows "outcome (log_append rc hj j log d)
    (\<lambda>pos w'. unat pos = length xs \<and> log_rep rc net hj j log p w' (xs @ [d])
        \<lparr>total_count = total_count spine + 1, segment_capacity = segment_capacity spine,
         segments = segments spine @ [rc_show_key rc (key_of net p (segment_capacity spine + 1))]\<rparr>
        (ks @ [key_of net p (segment_capacity spine + 1)])) E w"
proof -
  let ?cap = "segment_capacity spine" and ?cs = "chunks (unat (segment_capacity spine)) xs"
  let ?k = "key_of net p (?cap + 1)"
  let ?spine = "\<lparr>total_count = total_count spine + 1, segment_capacity = ?cap,
    segments = segments spine @ [rc_show_key rc ?k]\<rparr>"
  let ?sa = "\<lparr>sa_record_key = ?k, sa_owner_keypair = Some p, sa_stride = ?cap\<rparr>"
  have pos: "0 < unat ?cap" by (rule log_rep_cap [OF L])
  have cnt: "unat (total_count spine) = length xs" using L by (simp add: log_rep_def)
  have spine: "spine\<lparr>segments := segments spine @ [rc_show_key rc ?k], total_count := total_count spine + 1\<rparr> = ?spine"
    by simp
  obtain rs where rs: "records net w (log_spine_key log) = Some rs" "spine_rec j log p spine rs"
    and dist: "distinct (log_spine_key log # ks)"
    and cs: "list_all2 (segment_holds net hj ?cap p w) ks ?cs"
    using L by (auto simp: log_rep_def)
  have old: "k \<noteq> ?k" if mem: "k \<in> set ks" for k
  proof -
    obtain i where "i < length ks" "k = ks ! i" using mem by (auto simp: in_set_conv_nth)
    then have "segment_holds net hj ?cap p w k (?cs ! i)" using list_all2_nthD [OF cs] by blast
    with fresh show ?thesis by (auto simp: segment_holds_def)
  qed
  have key: "log_spine_key log \<noteq> ?k" using rs(1) fresh by (metis option.distinct(1))
  show ?thesis
    unfolding log_append_def P option.case wp
  proof (rule reliable_read_spine [OF R L], goal_cases)
    case (1 w1)
    have "outcome (short_array_create rc hj ?cap (Some p))
      (\<lambda>(segment, _). outcome (short_array_add rc hj segment d)
        (\<lambda>_. outcome (write_spine rc j log
             (spine\<lparr>segments := segments spine @ [short_array_record_key rc segment],
                    total_count := total_count spine + 1\<rparr>))
          (\<lambda>_ w'. log_rep rc net hj j log p w' (xs @ [d]) ?spine (ks @ [?k]))
          (\<lambda>e. E (Failed e))) (\<lambda>e. E (Failed e))) (\<lambda>e. E (Failed e)) w1"
    proof (rule short_array_create_outcome [OF R HJ cap], goal_cases)
      case (1 p')
      then have "p' = p" by simp
      with fresh \<open>records net w1 = records net w\<close> show ?case by metis
    next
      case (2 w2 p' r)
      then have p': "p' = p" and w2: "records net w2 = (records net w)(?k \<mapsto> r)"
        using \<open>records net w1 = records net w\<close> by simp_all
      have "outcome (short_array_add rc hj ?sa d)
        (\<lambda>i w'. i = of_nat (length ([] :: bytes list)) \<and> array_after net hj ?sa w2 r ([] @ [d]) w')
        (\<lambda>_ _. False) w2"
        by (rule short_array_add_room [OF R HJ])
           (use 2 w2 p' pos in \<open>auto simp: array_at_def writable_def same_access_def new_record_def\<close>)
      then have "outcome (short_array_add rc hj ?sa d)
        (\<lambda>_. outcome (write_spine rc j log ?spine)
          (\<lambda>_ w'. log_rep rc net hj j log p w' (xs @ [d]) ?spine (ks @ [?k]))
          (\<lambda>e. E (Failed e))) (\<lambda>e. E (Failed e)) w2"
      proof (rule outcome_mono, goal_cases)
        case (1 i w3)
        then obtain r' where w3: "records net w3 = (records net w2)(?k \<mapsto> r')"
          and r': "same_access r r'" "array_rec hj ?cap r' [d]"
          by (auto simp: array_after_def)
        have rs3: "records net w3 (log_spine_key log) = Some rs" using w3 w2 rs key by simp
        show ?case
        proof (rule reliable_write_spine [OF R J rs3 rs(2) P])
          fix w4 r4 assume w4: "records net w4 = (records net w3)(log_spine_key log \<mapsto> r4)"
            and r4: "spine_rec j log p ?spine r4"
          have "list_all2 (segment_holds net hj ?cap p w4) (ks @ [?k]) (?cs @ [[d]])"
          proof (rule segments_snoc [OF cs])
            show "records net w4 k = records net w k" if "k \<in> set ks" for k
              using that old [OF that] w4 w3 w2 dist by auto
            show "segment_holds net hj ?cap p w4 ?k [d]"
              using w4 w3 r' key 2(4) p' by (auto simp: segment_holds_def same_access_def new_record_def)
          qed
          then show "log_rep rc net hj j log p w4 (xs @ [d]) ?spine (ks @ [?k])"
            using L w4 r4 edge next_count [OF cnt small] old key dist
              lawful_parse_key [OF reliable_lawful [OF R]]
            by (auto simp: log_rep_def chunks_snoc [OF pos])
        qed
      qed simp
      then show ?case unfolding prod.case p' spine short_array_record_key_def dht_short_array.simps spine .
    qed
    then show ?case
      using edge cnt by (simp add: log_rep_needs_new_segment [OF L] wp Let_def split_def)
  qed
qed

lemma create_existing:
  assumes L: "dht_lawful rc net" and "records net w (key_of net p (n + 1)) \<noteq> None"
  shows "outcome (short_array_create rc hj n (Some p)) Q
    (\<lambda>e w'. (\<exists>s. e = DhtError s) \<and> records net w' = records net w) w"
proof -
  have "outcome (rc_create rc (n + 1) (Some p)) Q' (\<lambda>_ w'. records net w' = records net w) w" for Q'
    by (rule lawful_create [OF L]) (use assms(2) in auto)
  then show ?thesis
    by (auto simp: short_array_create_def wp dht_error_def split: option.split)
qed

lemma lawful_read_spine:
  assumes L: "dht_lawful rc net" and "log_rep rc net hj j log p w xs spine ks"
    and "\<And>w'. records net w' = records net w \<Longrightarrow> Q spine w'"
    and "\<And>e w'. records net w' = records net w \<Longrightarrow> E (DhtError e) w'"
  shows "outcome (read_spine rc j log) Q E w"
proof -
  obtain r b where r: "records net w (log_spine_key log) = Some r"
      "rec_values r 0 = Some b" "from_json j b = Inr spine"
    using assms(2) by (auto simp: log_rep_def spine_rec_def)
  show ?thesis
    unfolding read_spine_def wp
    by (rule lawful_get [OF L]) (use r assms(3,4) in \<open>auto simp: wp dht_error_def\<close>)
qed

lemma log_append_stuck:
  assumes L: "dht_lawful rc net" and P: "log_owner_keypair log = Some p"
    and rep: "log_rep rc net hj j log p w xs spine ks"
    and edge: "length xs mod unat (segment_capacity spine) = 0"
    and "records net w (key_of net p (segment_capacity spine + 1)) \<noteq> None"
  shows "outcome (log_append rc hj j log d) (\<lambda>_ _. False)
    (\<lambda>e w'. (\<exists>s. e = Failed (DhtError s)) \<and> records net w' = records net w) w"
  unfolding log_append_def P option.case wp
proof (rule lawful_read_spine [OF L rep], goal_cases)
  case (1 w1)
  then have "records net w1 (key_of net p (segment_capacity spine + 1)) \<noteq> None" using assms(5) by simp
  then have "outcome (short_array_create rc hj (segment_capacity spine) (Some p)) Q
    (\<lambda>e w'. (\<exists>s. e = DhtError s) \<and> records net w' = records net w) w1" for Q
    using outcome_mono [OF create_existing [OF L, where n = "segment_capacity spine" and p = p]] 1 by simp
  then show ?case
    using edge by (auto simp: log_rep_needs_new_segment [OF rep] wp Let_def split_def elim!: outcome_mono)
next
  case (2 e w1)
  then show ?case by simp
qed

section \<open>A new log\<close>

lemma log_create_outcome:
  assumes R: "dht_reliable rc net" and J: "json_roundtrip j"
    and Q: "\<And>w' p. \<lbrakk>\<forall>m. m \<noteq> 1 \<longrightarrow> records net w' (key_of net p m) = None;
      log_rep rc net hj j \<lparr>log_spine_key = key_of net p 1, log_owner_keypair = Some p\<rparr> p w' []
        \<lparr>total_count = 0, segment_capacity = default_segment_capacity, segments = []\<rparr> [];
      \<forall>m. records net w (key_of net p m) = None;
      \<forall>k. k \<noteq> key_of net p 1 \<longrightarrow> records net w' k = records net w k\<rbrakk>
      \<Longrightarrow> Q (\<lparr>log_spine_key = key_of net p 1, log_owner_keypair = Some p\<rparr>, p) w'"
  shows "outcome (log_create rc j) Q E w"
proof -
  let ?spine = "\<lparr>total_count = 0, segment_capacity = default_segment_capacity, segments = []\<rparr>"
  have one: "(1 :: u16) \<noteq> 0" "unat (1 :: u16) \<le> max_subkeys" by (simp_all add: max_subkeys_def)
  obtain b where b: "to_json j ?spine = Inr b" "from_json j b = Inr ?spine"
    using J by (rule json_roundtripE)
  have "outcome (rc_create rc 1 None) (\<lambda>(key, secret).
      outcome (case secret of None \<Rightarrow> throw (DhtError ''no owner secret after create'')
        | Some keypair \<Rightarrow>
            io_bind (map_error (dht_error ''write spine'') (rc_set rc key 0 b)) (\<lambda>_.
              ok (\<lparr>log_spine_key = key, log_owner_keypair = Some keypair\<rparr>, keypair))) Q E)
      (\<lambda>e. E (dht_error ''create log spine'' e)) w"
  proof (rule reliable_create_own [OF R one], goal_cases)
    case (1 w1 p)
    let ?k = "key_of net p 1" and ?r = "new_record p 1"
    have w1: "records net w1 ?k = Some ?r" using 1 by simp
    have W: "writable ?r" "subkey_of ?r 0" by (auto simp: writable_def new_record_def subkey_of_def)
    show ?case
      unfolding prod.case option.case wp
    proof (rule reliable_set [OF R w1 W])
      fix w2 assume w2: "records net w2 = (records net w1)(?k \<mapsto> write_value 0 b ?r)"
      show "Q (\<lparr>log_spine_key = ?k, log_owner_keypair = Some p\<rparr>, p) w2"
      proof (rule Q)
        show "\<forall>m. m \<noteq> 1 \<longrightarrow> records net w2 (key_of net p m) = None"
          using 1 w2 key_of_eq_iff [OF reliable_lawful [OF R]] by simp
        show "log_rep rc net hj j \<lparr>log_spine_key = ?k, log_owner_keypair = Some p\<rparr> p w2 [] ?spine []"
          using w2 b by (auto simp: log_rep_def spine_rec_def new_record_def default_segment_capacity_def)
      qed (use 1 w2 in auto)
    qed
  qed
  then show ?thesis
    using reliable_schema [OF R one] b
    by (simp add: log_create_def wp Let_def split_def cong: option.case_cong)
qed

text \<open>Appending one entry after the other: the results and the state afterwards.\<close>

fun log_append_all ::
  "('w, 'k, 'p) routing_context \<Rightarrow> short_array_head json \<Rightarrow> log_spine json \<Rightarrow> ('k, 'p) dht_log
   \<Rightarrow> bytes list \<Rightarrow> 'w \<Rightarrow> (failure + u64) list \<times> 'w" where
  "log_append_all rc hj j log [] w = ([], w)"
| "log_append_all rc hj j log (d # ds) w =
     (case log_append rc hj j log d w of (r, w') \<Rightarrow>
      case log_append_all rc hj j log ds w' of (rs, w'') \<Rightarrow> (r # rs, w''))"

lemma log_append_all_snoc:
  "log_append_all rc hj j log (ds @ [d]) w =
    (case log_append_all rc hj j log ds w of (rs, w') \<Rightarrow>
     case log_append rc hj j log d w' of (r, w'') \<Rightarrow> (rs @ [r], w''))"
  by (induction ds arbitrary: w) (auto split: prod.splits)

lemma log_append_all_outcome:
  assumes R: "dht_reliable rc net" and HJ: "json_roundtrip hj" and J: "json_roundtrip j"
    and P: "log_owner_keypair log = Some p"
    and L: "log_rep rc net hj j log p w [] spine []"
    and cap: "unat (segment_capacity spine) < max_subkeys"
    and fresh: "records net w (key_of net p (segment_capacity spine + 1)) = None"
    and len: "length ds \<le> unat (segment_capacity spine)"
  shows "\<exists>w'. log_append_all rc hj j log ds w = (map (\<lambda>i. Inr (of_nat i)) [0..<length ds], w') \<and>
    (\<exists>spine' ks. log_rep rc net hj j log p w' ds spine' ks \<and>
       segment_capacity spine' = segment_capacity spine \<and>
       (ds \<noteq> [] \<longrightarrow> ks = [key_of net p (segment_capacity spine + 1)]) \<and>
       (ds = [] \<longrightarrow> w' = w \<and> spine' = spine \<and> ks = []))"
  using len
proof (induction ds rule: rev_induct)
  case Nil
  then show ?case using L by simp
next
  case (snoc d ds)
  let ?k = "key_of net p (segment_capacity spine + 1)"
  from snoc obtain w1 spine1 ks1 where
    run: "log_append_all rc hj j log ds w = (map (\<lambda>i. Inr (of_nat i)) [0..<length ds], w1)"
    and L1: "log_rep rc net hj j log p w1 ds spine1 ks1"
    and c: "segment_capacity spine1 = segment_capacity spine"
    and ks: "ds \<noteq> [] \<Longrightarrow> ks1 = [?k]" "ds = [] \<Longrightarrow> w1 = w \<and> spine1 = spine \<and> ks1 = []"
    by auto
  have small: "Suc (length ds) < 2 ^ 64"
    using snoc.prems unat_lt_pow [of "segment_capacity spine"] by simp
  have less: "length ds < unat (segment_capacity spine)" using snoc.prems by simp
  have "returns (log_append rc hj j log d)
    (\<lambda>pos w'. unat pos = length ds \<and> (\<exists>spine'. log_rep rc net hj j log p w' (ds @ [d]) spine' [?k] \<and>
       segment_capacity spine' = segment_capacity spine)) w1"
  proof (cases "ds = []")
    case True
    with ks L1 c have L0: "log_rep rc net hj j log p w ds spine []" "w1 = w" by auto
    have "length ds mod unat (segment_capacity spine) = 0" using True by simp
    from log_append_first [OF R HJ J P L0(1) this small cap fresh, of d "\<lambda>_ _. False"] L0(2) show ?thesis
      unfolding returns_def by (auto elim!: outcome_mono)
  next
    case False
    then have "length ds mod unat (segment_capacity spine1) \<noteq> 0" using less c by simp
    from log_append_room [OF R HJ J P L1 this small, of d "\<lambda>_ _. False"] ks(1) [OF False] c show ?thesis
      unfolding returns_def by (auto elim!: outcome_mono)
  qed
  then obtain pos w2 spine2 where "log_append rc hj j log d w1 = (Inr pos, w2)" "unat pos = length ds"
      "log_rep rc net hj j log p w2 (ds @ [d]) spine2 [?k]" "segment_capacity spine2 = segment_capacity spine"
    by (elim returnsE) auto
  moreover have "pos = of_nat (length ds)" by (simp flip: \<open>unat pos = length ds\<close>)
  ultimately show ?case using run by (auto simp: log_append_all_snoc)
qed

section \<open>A concrete spine codec\<close>

definition spine_codec :: "log_spine json" where
  "spine_codec =
     \<lparr>to_json = (\<lambda>s. Inr (u64_le_bytes (total_count s) @ u16_bytes (segment_capacity s) @
         concat (map text_bytes (segments s)))),
      from_json = (\<lambda>b. if length b < 10 then Inl ''EOF''
        else Inr \<lparr>total_count = of_nat (le_nat (take 8 b)),
          segment_capacity = hd (u16s_of_bytes (take 2 (drop 8 b))),
          segments = texts_of_bytes [] (drop 10 b)\<rparr>)\<rparr>"

lemma spine_codec_roundtrip: "json_roundtrip spine_codec"
proof -
  have "from_json spine_codec (u64_le_bytes (total_count s) @ u16_bytes (segment_capacity s) @
      concat (map text_bytes (segments s))) = Inr s" for s
    using u16s_of_bytes_concat [of "[segment_capacity s]"]
    by (simp add: spine_codec_def texts_of_bytes_texts u16_bytes_def u64_of_le_bytes)
  then show ?thesis by (auto simp: json_roundtrip_def spine_codec_def)
qed


lemma log_tail_result:
  assumes "dht_reliable rc net" and "log_rep rc net hj j log p w xs spine ks"
  shows "fst (log_tail rc hj j log count w) = Inr (drop (length xs - unat count) xs)"
  using log_tail_outcome [OF assms, of count "\<lambda>_ _. False"]
  by (auto simp: outcome_def last_n_def split: prod.splits sum.splits)

section \<open>Properties\<close>

text \<open>
  C14. Reading a log is reading a list, over any number of segments. For a log whose spine
  counts the entries \<open>xs\<close> and whose segments hold its chunks, \<open>get\<close> returns the entry at a
  position or nothing beyond the end, \<open>len\<close> the number of entries and \<open>tail\<close> the last \<open>count\<close>
  entries in order, however the segments are opened and reused on the way.
\<close>

theorem log_reads_as_a_list:
  assumes "dht_reliable rc net" and "log_rep rc net hj j log p w xs spine ks"
  shows "fst (log_get rc hj j log pos w) =
      Inr (if unat pos < length xs then Some (xs ! unat pos) else None) \<and>
    fst (log_tail rc hj j log count w) = Inr (drop (length xs - unat count) xs) \<and>
    (\<exists>n. fst (log_len rc j log w) = Inr n \<and> unat n = length xs)"
  using log_get_outcome [OF assms, of pos "\<lambda>_ _. False"] log_tail_result [OF assms, of count]
    log_len_outcome [OF assms, of "\<lambda>_ _. False"]
  by (auto simp: outcome_def split: prod.splits sum.splits)

text \<open>
  C15. A log takes one segment of entries and then no more. A new log accepts entries at the
  positions 0, 1, 2 and so on up to the capacity of a segment and returns them; every further
  append fails and leaves the records as they are, because the next segment would be created
  with the owner and the schema of the first and so with the key of a record that exists.
\<close>

theorem log_stops_after_one_segment:
  assumes R: "dht_reliable rc net" and HJ: "json_roundtrip hj" and J: "json_roundtrip j"
  shows "\<exists>log p w0. log_create rc j w = (Inr (log, p), w0) \<and>
    (\<forall>ds. length ds \<le> 255 \<longrightarrow>
      (\<exists>w'. log_append_all rc hj j log ds w0 = (map (\<lambda>i. Inr (of_nat i)) [0..<length ds], w') \<and>
        fst (log_tail rc hj j log 255 w') = Inr ds \<and>
        (length ds = 255 \<longrightarrow> (\<forall>d. \<exists>e w''. log_append rc hj j log d w' = (Inl (Failed (DhtError e)), w'') \<and>
           records net w'' = records net w'))))"
proof -
  have "returns (log_create rc j) (\<lambda>(log, p) w0. \<forall>ds. length ds \<le> 255 \<longrightarrow>
      (\<exists>w'. log_append_all rc hj j log ds w0 = (map (\<lambda>i. Inr (of_nat i)) [0..<length ds], w') \<and>
        fst (log_tail rc hj j log 255 w') = Inr ds \<and>
        (length ds = 255 \<longrightarrow> (\<forall>d. \<exists>e w''. log_append rc hj j log d w' = (Inl (Failed (DhtError e)), w'') \<and>
           records net w'' = records net w')))) w"
    unfolding returns_def
  proof (rule log_create_outcome [OF R J, where hj = hj], goal_cases)
    case (1 w0 p)
    let ?log = "\<lparr>log_spine_key = key_of net p 1, log_owner_keypair = Some p\<rparr>"
    let ?spine = "\<lparr>total_count = 0, segment_capacity = default_segment_capacity, segments = []\<rparr>"
    note fresh = 1(1) and L = 1(2)
    have cap: "unat (segment_capacity ?spine) = 255" by (simp add: default_segment_capacity_def)
    have "\<exists>w'. log_append_all rc hj j ?log ds w0 = (map (\<lambda>i. Inr (of_nat i)) [0..<length ds], w') \<and>
        fst (log_tail rc hj j ?log 255 w') = Inr ds \<and>
        (length ds = 255 \<longrightarrow> (\<forall>d. \<exists>e w''. log_append rc hj j ?log d w' = (Inl (Failed (DhtError e)), w'') \<and>
           records net w'' = records net w'))" if len: "length ds \<le> 255" for ds
    proof -
      have "\<exists>w'. log_append_all rc hj j ?log ds w0 = (map (\<lambda>i. Inr (of_nat i)) [0..<length ds], w') \<and>
        (\<exists>spine' ks. log_rep rc net hj j ?log p w' ds spine' ks \<and>
           segment_capacity spine' = segment_capacity ?spine \<and>
           (ds \<noteq> [] \<longrightarrow> ks = [key_of net p (segment_capacity ?spine + 1)]) \<and>
           (ds = [] \<longrightarrow> w' = w0 \<and> spine' = ?spine \<and> ks = []))"
        by (rule log_append_all_outcome [OF R HJ J _ L])
           (use len cap fresh in \<open>auto simp: default_segment_capacity_def max_subkeys_def\<close>)
      then obtain w' spine' ks where run: "log_append_all rc hj j ?log ds w0 =
          (map (\<lambda>i. Inr (of_nat i)) [0..<length ds], w')"
        and L': "log_rep rc net hj j ?log p w' ds spine' ks"
        and c: "segment_capacity spine' = 255"
        and ks: "ds \<noteq> [] \<Longrightarrow> ks = [key_of net p (255 + 1)]"
        by (auto simp: default_segment_capacity_def)
      have "fst (log_tail rc hj j ?log 255 w') = Inr ds"
        using log_tail_result [OF R L', of 255] len by simp
      moreover have "\<exists>e w''. log_append rc hj j ?log d w' = (Inl (Failed (DhtError e)), w'') \<and>
           records net w'' = records net w'" if full: "length ds = 255" for d
      proof -
        have "ds \<noteq> []" using full by auto
        with ks L' c have "records net w' (key_of net p (segment_capacity spine' + 1)) \<noteq> None"
          by (auto simp: log_rep_def segment_holds_def list_all2_Cons1)
        from log_append_stuck [OF reliable_lawful [OF R] _ L' _ this, of d] full c show ?thesis
          by (auto simp: outcome_def split: prod.splits sum.splits)
      qed
      ultimately show ?thesis using run by blast
    qed
    then show ?case by simp
  qed
  then show ?thesis by (rule returnsE) (auto simp del: log_append_all.simps)
qed

theorem log_stops_after_one_segment_witness:
  "\<exists>log p w0. log_create mem_rc spine_codec [] = (Inr (log, p), w0) \<and>
    (\<forall>ds. length ds \<le> 255 \<longrightarrow>
      (\<exists>w'. log_append_all mem_rc head_codec spine_codec log ds w0 =
          (map (\<lambda>i. Inr (of_nat i)) [0..<length ds], w') \<and>
        fst (log_tail mem_rc head_codec spine_codec log 255 w') = Inr ds \<and>
        (length ds = 255 \<longrightarrow> (\<forall>d. \<exists>e w''. log_append mem_rc head_codec spine_codec log d w' =
            (Inl (Failed (DhtError e)), w'') \<and> records mem_net w'' = records mem_net w'))))"
  by (rule log_stops_after_one_segment [OF mem_reliable head_codec_roundtrip spine_codec_roundtrip])

text \<open>A log of two segments of one entry each.\<close>

definition sample_log :: "(string, nat) dht_log" where
  "sample_log = \<lparr>log_spine_key = ''spine'', log_owner_keypair = Some 1\<rparr>"

definition sample_spine :: log_spine where
  "sample_spine = \<lparr>total_count = 2, segment_capacity = 1, segments = [''a'', ''b'']\<rparr>"

definition sample_segment :: "u8 \<Rightarrow> nat dht_record" where
  "sample_segment x = \<lparr>rec_owner = 1, rec_count = 2,
     rec_values = [0 \<mapsto> concat (map u16_bytes [1, 0]), 1 \<mapsto> [x]], rec_opened = None\<rparr>"

definition sample_logs :: mem where
  "sample_logs =
     [(''spine'', \<lparr>rec_owner = 1, rec_count = 1, rec_values = [0 \<mapsto> projr (to_json spine_codec sample_spine)],
        rec_opened = Some (Some 1)\<rparr>),
      (''a'', sample_segment 7), (''b'', sample_segment 8)]"

lemma sample_log_rep:
  "log_rep mem_rc mem_net head_codec spine_codec sample_log 1 sample_logs [[7], [8]] sample_spine [''a'', ''b'']"
proof -
  have "from_json head_codec (concat (map u16_bytes [1, 0])) = Inr \<lparr>stride = 1, slots = [0]\<rparr>"
    unfolding head_codec_def json.simps u16s_of_bytes_concat by simp
  then have "array_rec head_codec 1 (sample_segment x) [[x]]" for x
    by (auto simp: array_rec_def sample_segment_def data_subkey_def)
  moreover obtain b where "to_json spine_codec sample_spine = Inr b" "from_json spine_codec b = Inr sample_spine"
    using spine_codec_roundtrip by (rule json_roundtripE)
  moreover have "chunks 1 [[7], [8 :: u8]] = [[[7]], [[8]]]" by (simp add: chunks_step)
  ultimately show ?thesis
    by (auto simp: log_rep_def sample_logs_def sample_log_def sample_spine_def spine_rec_def
        segment_holds_def sample_segment_def)
qed

theorem log_reads_as_a_list_witness:
  "fst (log_get mem_rc head_codec spine_codec sample_log 1 sample_logs) = Inr (Some [8]) \<and>
   fst (log_get mem_rc head_codec spine_codec sample_log 2 sample_logs) = Inr None \<and>
   fst (log_tail mem_rc head_codec spine_codec sample_log 1 sample_logs) = Inr [[8]]"
  using log_reads_as_a_list [OF mem_reliable sample_log_rep, of 1 1]
    log_reads_as_a_list [OF mem_reliable sample_log_rep, of 2 1]
  by simp

section \<open>A spine with no capacity\<close>

text \<open>
  The spine is read from the network, and its capacity is not checked: a spine that counts an
  entry and has capacity 0 makes reading panic.
\<close>

lemma zero_capacity_panics:
  assumes "read_spine rc j log w = (Inr spine, w')" and "segment_capacity spine = 0"
    and "pos < total_count spine"
  shows "fst (log_get rc hj j log pos w) = Inl (Panicked ''attempt to divide by zero'')"
proof -
  have "\<not> total_count spine \<le> pos" using assms(3) by (simp add: not_le)
  with assms(1,2) show ?thesis by (simp add: log_get_def io_bind_def map_error_def throw_def)
qed

end
