(* ===== verification/DhtManager.thy ===== *)
theory DhtManager
  imports ShortArray
begin

text \<open>
  \<open>DHTManager\<close> (\<open>crates/rekindle-protocol/src/dht/mod.rs\<close>): record operations by textual keys,
  and the cache of private routes to peers. Importing a route blob is an operation of Veilid's
  API, a parameter; instants are milliseconds of a monotonic clock.
\<close>

section \<open>Record operations\<close>

definition parse_record_key ::
  "('w, 'k, 'p) routing_context \<Rightarrow> string \<Rightarrow> ('w, protocol_error, 'k) io" where
  "parse_record_key rc key =
     map_error (dht_error (''invalid record key '' @ [CHR 0x27] @ key @ [CHR 0x27]))
       (from_result (rc_parse_key rc key))"

definition subkey_count_u16 :: "u32 \<Rightarrow> protocol_error + u16" where
  "subkey_count_u16 n =
     (if unat n < 2 ^ 16 then Inr (ucast n)
      else Inl (DhtError (''subkey_count '' @ show_nat (unat n) @ '' exceeds u16::MAX'')))"

definition dflt_schema ::
  "('w, 'k, 'p) routing_context \<Rightarrow> u32 \<Rightarrow> ('w, protocol_error, u16) io" where
  "dflt_schema rc subkey_count =
     io_bind (from_result (subkey_count_u16 subkey_count)) (\<lambda>n.
     case rc_schema_error rc n of
       Some e \<Rightarrow> throw (dht_error ''invalid schema'' e)
     | None \<Rightarrow> ok n)"

definition create_record ::
  "('w, 'k, 'p) routing_context \<Rightarrow> u32 \<Rightarrow> ('w, protocol_error, string \<times> 'p option) io" where
  "create_record rc subkey_count =
     io_bind (dflt_schema rc subkey_count) (\<lambda>n.
     io_bind (map_error (dht_error ''create_dht_record'') (rc_create rc n None)) (\<lambda>(key, keypair).
     ok (rc_show_key rc key, keypair)))"

definition create_record_with_owner ::
  "('w, 'k, 'p) routing_context \<Rightarrow> u32 \<Rightarrow> 'p \<Rightarrow> ('w, protocol_error, string \<times> 'p) io" where
  "create_record_with_owner rc subkey_count owner =
     io_bind (dflt_schema rc subkey_count) (\<lambda>n.
     io_bind (map_error (dht_error ''create_dht_record_with_owner'') (rc_create rc n (Some owner)))
       (\<lambda>(key, _).
     ok (rc_show_key rc key, owner)))"

definition open_record ::
  "('w, 'k, 'p) routing_context \<Rightarrow> string \<Rightarrow> ('w, protocol_error, unit) io" where
  "open_record rc key =
     io_bind (parse_record_key rc key) (\<lambda>k.
     map_error (dht_error ''open_dht_record'') (rc_open rc k None))"

definition dht_open_record_writable ::
  "('w, 'k, 'p) routing_context \<Rightarrow> string \<Rightarrow> 'p \<Rightarrow> ('w, protocol_error, unit) io" where
  "dht_open_record_writable rc key writer =
     io_bind (parse_record_key rc key) (\<lambda>k.
     map_error (dht_error ''open_dht_record (writable)'') (rc_open rc k (Some writer)))"

definition close_record ::
  "('w, 'k, 'p) routing_context \<Rightarrow> string \<Rightarrow> ('w, protocol_error, unit) io" where
  "close_record rc key =
     io_bind (parse_record_key rc key) (\<lambda>k.
     map_error (dht_error ''close_dht_record'') (rc_close rc k))"

definition get_value ::
  "('w, 'k, 'p) routing_context \<Rightarrow> string \<Rightarrow> u32 \<Rightarrow> ('w, protocol_error, bytes option) io" where
  "get_value rc key subkey =
     io_bind (parse_record_key rc key) (\<lambda>k.
     map_error (dht_error ''get_dht_value'') (rc_get rc k subkey False))"

definition set_value ::
  "('w, 'k, 'p) routing_context \<Rightarrow> string \<Rightarrow> u32 \<Rightarrow> bytes \<Rightarrow> ('w, protocol_error, unit) io" where
  "set_value rc key subkey v =
     io_bind (parse_record_key rc key) (\<lambda>k.
     map_error (dht_error ''set_dht_value'') (rc_set rc k subkey v))"

definition watch_record ::
  "('w, 'k, 'p) routing_context \<Rightarrow> string \<Rightarrow> u32 list \<Rightarrow> ('w, protocol_error, bool) io" where
  "watch_record rc key subkeys =
     io_bind (parse_record_key rc key) (\<lambda>k.
     map_error (dht_error ''watch_dht_values'') (rc_watch rc k subkeys))"

section \<open>Routes to peers\<close>

definition imported_route_ttl_secs :: nat where "imported_route_ttl_secs = 90"

text \<open>The fields of \<open>DHTManager\<close>; \<open>'r\<close> is \<open>RouteId\<close>, an import is a route and its instant.\<close>

record 'r dht_manager =
  dm_profile_key :: "string option"
  dm_friend_list_key :: "string option"
  route_cache :: "(string \<times> bytes) list"
  open_records :: "string set"
  imported_routes :: "(bytes \<times> ('r \<times> nat)) list"
  route_id_to_pubkey :: "('r \<times> string) list"

definition new_manager :: "'r dht_manager" where
  "new_manager = \<lparr>dm_profile_key = None, dm_friend_list_key = None, route_cache = [],
     open_records = {}, imported_routes = [], route_id_to_pubkey = []\<rparr>"

text \<open>\<open>api.import_remote_private_route\<close>.\<close>

type_synonym ('w, 'r) import_route = "bytes \<Rightarrow> ('w, string, 'r) io"

definition cache_route ::
  "('w, 'r) import_route \<Rightarrow> nat \<Rightarrow> string \<Rightarrow> bytes \<Rightarrow> 'r dht_manager \<Rightarrow> 'w \<Rightarrow> 'r dht_manager \<times> 'w" where
  "cache_route imp now pubkey blob dm w =
     (if blob = [] then (dm, w)
      else case imp blob w of
        (Inl e, w') \<Rightarrow> (dm, w')
      | (Inr route_id, w') \<Rightarrow>
          (dm\<lparr>imported_routes := AList.update blob (route_id, now) (imported_routes dm),
              route_id_to_pubkey := AList.update route_id pubkey (route_id_to_pubkey dm),
              route_cache := AList.update pubkey blob (route_cache dm)\<rparr>, w'))"

definition get_cached_route :: "'r dht_manager \<Rightarrow> string \<Rightarrow> bytes option" where
  "get_cached_route dm pubkey = map_of (route_cache dm) pubkey"

definition elapsed_secs :: "nat \<Rightarrow> nat \<Rightarrow> nat" where
  "elapsed_secs now since = (now - since) div 1000"

definition get_or_import_route ::
  "('w, 'r) import_route \<Rightarrow> nat \<Rightarrow> bytes \<Rightarrow> 'r dht_manager \<Rightarrow> 'w
   \<Rightarrow> (protocol_error + 'r) \<times> 'r dht_manager \<times> 'w" where
  "get_or_import_route imp now blob dm w =
     (let reimport = (\<lambda>dm. case imp blob w of
            (Inl e, w') \<Rightarrow> (Inl (RoutingError (''import: '' @ e)), dm, w')
          | (Inr route_id, w') \<Rightarrow>
              (Inr route_id,
               dm\<lparr>imported_routes := AList.update blob (route_id, now) (imported_routes dm)\<rparr>, w'))
      in case map_of (imported_routes dm) blob of
           Some (route_id, imported_at) \<Rightarrow>
             if elapsed_secs now imported_at < imported_route_ttl_secs then (Inr route_id, dm, w)
             else reimport (dm\<lparr>imported_routes := AList.delete blob (imported_routes dm)\<rparr>)
         | None \<Rightarrow> reimport dm)"

definition invalidate_route_blob :: "bytes \<Rightarrow> 'r dht_manager \<Rightarrow> 'r dht_manager" where
  "invalidate_route_blob blob dm = dm\<lparr>imported_routes := AList.delete blob (imported_routes dm)\<rparr>"

definition invalidate_dead_route :: "'r \<Rightarrow> 'r dht_manager \<Rightarrow> 'r dht_manager" where
  "invalidate_dead_route route_id dm =
     (case map_of (route_id_to_pubkey dm) route_id of
        None \<Rightarrow> dm
      | Some pubkey \<Rightarrow>
          let dm1 = dm\<lparr>route_id_to_pubkey := AList.delete route_id (route_id_to_pubkey dm)\<rparr>
          in case map_of (route_cache dm1) pubkey of
               None \<Rightarrow> dm1
             | Some blob \<Rightarrow> dm1\<lparr>route_cache := AList.delete pubkey (route_cache dm1),
                 imported_routes := AList.delete blob (imported_routes dm1)\<rparr>)"

definition invalidate_dead_routes :: "'r list \<Rightarrow> 'r dht_manager \<Rightarrow> 'r dht_manager" where
  "invalidate_dead_routes dead dm =
     (let dm1 = fold invalidate_dead_route dead dm
      in dm1\<lparr>imported_routes := filter (\<lambda>(blob, route_id, ts). route_id \<notin> set dead) (imported_routes dm1)\<rparr>)"

definition invalidate_route_for_peer :: "string \<Rightarrow> 'r dht_manager \<Rightarrow> 'r dht_manager" where
  "invalidate_route_for_peer pubkey dm =
     (case map_of (route_cache dm) pubkey of
        None \<Rightarrow> dm
      | Some blob \<Rightarrow>
          let dm1 = dm\<lparr>route_cache := AList.delete pubkey (route_cache dm)\<rparr>
          in case map_of (imported_routes dm1) blob of
               None \<Rightarrow> dm1
             | Some (route_id, ts) \<Rightarrow>
                 dm1\<lparr>imported_routes := AList.delete blob (imported_routes dm1),
                     route_id_to_pubkey := AList.delete route_id (route_id_to_pubkey dm1)\<rparr>)"

section \<open>The cache\<close>

text \<open>A cached import is used only while it is younger than the time to live.\<close>

lemma get_or_import_route_cases:
  obtains (cached) route_id t where "map_of (imported_routes dm) blob = Some (route_id, t)"
      and "elapsed_secs now t < imported_route_ttl_secs"
      and "get_or_import_route imp now blob dm w = (Inr route_id, dm, w)"
  | (imported) route_id w' rest where "imp blob w = (Inr route_id, w')"
      and "get_or_import_route imp now blob dm w =
        (Inr route_id, dm\<lparr>imported_routes := AList.update blob (route_id, now) rest\<rparr>, w')"
      and "\<And>b. b \<noteq> blob \<Longrightarrow> map_of rest b = map_of (imported_routes dm) b"
      and "\<And>route_id t. map_of (imported_routes dm) blob = Some (route_id, t) \<Longrightarrow>
        imported_route_ttl_secs \<le> elapsed_secs now t"
  | (failed) e w' rest where "imp blob w = (Inl e, w')"
      and "get_or_import_route imp now blob dm w =
        (Inl (RoutingError (''import: '' @ e)), dm\<lparr>imported_routes := rest\<rparr>, w')"
      and "map_of rest blob = None"
      and "\<And>b. b \<noteq> blob \<Longrightarrow> map_of rest b = map_of (imported_routes dm) b"
proof (cases "map_of (imported_routes dm) blob")
  case None
  show thesis
  proof (cases "imp blob w")
    case (Pair r w')
    then show thesis
      using None imported [of _ w' "imported_routes dm"] failed [of _ w' "imported_routes dm"]
      by (cases r) (simp_all add: get_or_import_route_def)
  qed
next
  case (Some entry)
  then obtain route_id t where e: "map_of (imported_routes dm) blob = Some (route_id, t)"
    by (cases entry) auto
  show thesis
  proof (cases "elapsed_secs now t < imported_route_ttl_secs")
    case True
    with e show thesis by (intro cached [OF e]) (simp_all add: get_or_import_route_def)
  next
    case False
    let ?rest = "AList.delete blob (imported_routes dm)"
    show thesis
    proof (cases "imp blob w")
      case (Pair r w')
      then show thesis
        using False e imported [of _ w' ?rest] failed [of _ w' ?rest]
        by (cases r) (simp_all add: get_or_import_route_def delete_conv')
    qed
  qed
qed

text \<open>The peers whose routes are among the dead ones.\<close>

definition peers_of :: "'r dht_manager \<Rightarrow> 'r set \<Rightarrow> string set" where
  "peers_of dm dead = {pk. \<exists>r\<in>dead. map_of (route_id_to_pubkey dm) r = Some pk}"

lemma invalidate_dead_route_parts:
  "map_of (route_id_to_pubkey (invalidate_dead_route r dm)) =
     (map_of (route_id_to_pubkey dm))(r := None)"
  "map_of (route_cache (invalidate_dead_route r dm)) pk =
     (if map_of (route_id_to_pubkey dm) r = Some pk then None else map_of (route_cache dm) pk)"
  "map_of (imported_routes (invalidate_dead_route r dm)) b =
     (if \<exists>pk. map_of (route_id_to_pubkey dm) r = Some pk \<and> map_of (route_cache dm) pk = Some b then None
      else map_of (imported_routes dm) b)"
  by (auto simp: invalidate_dead_route_def Let_def delete_conv' fun_eq_iff split: option.splits)

lemma fold_invalidate_parts:
  "map_of (route_id_to_pubkey (fold invalidate_dead_route dead dm)) r =
     (if r \<in> set dead then None else map_of (route_id_to_pubkey dm) r)"
  "map_of (route_cache (fold invalidate_dead_route dead dm)) pk =
     (if pk \<in> peers_of dm (set dead) then None else map_of (route_cache dm) pk)"
  "map_of (imported_routes (fold invalidate_dead_route dead dm)) b =
     (if \<exists>pk\<in>peers_of dm (set dead). map_of (route_cache dm) pk = Some b then None
      else map_of (imported_routes dm) b)"
proof (induction dead arbitrary: dm)
  case Nil
  { case 1 then show ?case by simp }
  { case 2 then show ?case by (simp add: peers_of_def) }
  { case 3 then show ?case by (simp add: peers_of_def) }
next
  case (Cons d dead)
  have p: "peers_of dm (set (d # dead)) =
      peers_of (invalidate_dead_route d dm) (set dead) \<union> {pk. map_of (route_id_to_pubkey dm) d = Some pk}"
    for dm :: "'a dht_manager" by (auto simp: peers_of_def invalidate_dead_route_parts split: if_splits)
  { case 1 show ?case using Cons.IH(1) by (simp add: invalidate_dead_route_parts) }
  { case 2 show ?case unfolding p using Cons.IH(2) by (simp add: invalidate_dead_route_parts) }
  { case 3 show ?case unfolding p using Cons.IH(3) by (auto simp: invalidate_dead_route_parts) }
qed

lemma map_of_filter_unique:
  assumes "distinct (map fst xs)"
  shows "map_of (filter (\<lambda>(k, v). P k v) xs) k = (case map_of xs k of Some v \<Rightarrow> if P k v then Some v else None | None \<Rightarrow> None)"
proof (cases "map_of xs k")
  case None
  then have "\<nexists>v. (k, v) \<in> set xs" by (force simp: map_of_eq_None_iff)
  then have "map_of (filter (\<lambda>(k, v). P k v) xs) k = None" by (auto simp: map_of_eq_None_iff)
  with None show ?thesis by simp
next
  case (Some v)
  then have v: "(k, v) \<in> set xs" by (rule map_of_SomeD)
  have d: "distinct (map fst (filter (\<lambda>(k, v). P k v) xs))" using assms by (rule distinct_map_filterI)
  show ?thesis
  proof (cases "P k v")
    case True
    then show ?thesis using v Some by (simp add: map_of_eq_Some_iff [OF d])
  next
    case False
    have "v' = v" if "(k, v') \<in> set xs" for v' using that v assms by (meson eq_key_imp_eq_value)
    with False have "map_of (filter (\<lambda>(k, v). P k v) xs) k = None" by (auto simp: map_of_eq_None_iff)
    with Some False show ?thesis by simp
  qed
qed

definition distinct_imports :: "'r dht_manager \<Rightarrow> bool" where
  "distinct_imports dm \<longleftrightarrow> distinct (map fst (imported_routes dm))"

lemma distinct_imports_dead: "distinct_imports dm \<Longrightarrow> distinct_imports (invalidate_dead_route r dm)"
  by (auto simp: distinct_imports_def invalidate_dead_route_def Let_def distinct_delete split: option.split)

lemma distinct_imports_fold: "distinct_imports dm \<Longrightarrow> distinct_imports (fold invalidate_dead_route dead dm)"
  by (induction dead arbitrary: dm) (simp_all add: distinct_imports_dead)

lemma distinct_imports_ops:
  assumes "distinct_imports dm"
  shows "distinct_imports (fst (cache_route imp now pk b dm w))"
    and "distinct_imports (fst (snd (get_or_import_route imp now b dm w)))"
    and "distinct_imports (invalidate_route_blob b dm)"
    and "distinct_imports (invalidate_dead_routes dead dm)"
    and "distinct_imports (invalidate_route_for_peer pk dm)"
  using assms distinct_imports_fold [OF assms]
  by (auto simp: distinct_imports_def cache_route_def get_or_import_route_def invalidate_route_blob_def
      invalidate_dead_routes_def invalidate_route_for_peer_def Let_def distinct_update distinct_delete
      split: prod.split sum.split option.split)

lemma imported_after_dead:
  assumes "distinct_imports dm"
  shows "map_of (imported_routes (invalidate_dead_routes dead dm)) b =
    (case map_of (imported_routes dm) b of
       None \<Rightarrow> None
     | Some (r, t) \<Rightarrow>
         if r \<in> set dead \<or> (\<exists>pk\<in>peers_of dm (set dead). map_of (route_cache dm) pk = Some b) then None
         else Some (r, t))"
  using map_of_filter_unique [OF distinct_imports_fold [OF assms, unfolded distinct_imports_def],
      of "\<lambda>b v. fst v \<notin> set dead" dead b]
  by (auto simp: invalidate_dead_routes_def Let_def fold_invalidate_parts split_def split: option.splits)

section \<open>Properties\<close>

text \<open>
  Dead routes are forgotten and old imports are not used. When Veilid reports dead routes,
  no import of them remains, they belong to no peer, the peers they belonged to lose their
  cached blob and no other peer does; and a send through the cache uses a route imported less
  than 90 seconds ago, or imports the blob again, so it never uses a dead route of the report
  unless Veilid hands it out anew.
\<close>

theorem dead_routes_are_not_used:
  assumes "distinct_imports dm" and dm'_def: "dm' = invalidate_dead_routes dead dm"
  shows "(\<forall>r\<in>set dead. map_of (route_id_to_pubkey dm') r = None) \<and>
    (\<forall>pk. get_cached_route dm' pk =
       (if pk \<in> peers_of dm (set dead) then None else get_cached_route dm pk)) \<and>
    (case get_or_import_route imp now blob dm' w of
       (Inl e, dm'', w') \<Rightarrow> map_of (imported_routes dm'') blob = None
     | (Inr r, dm'', w') \<Rightarrow>
         (\<exists>t. map_of (imported_routes dm'') blob = Some (r, t) \<and> elapsed_secs now t < 90) \<and>
         (imp blob w = (Inr r, w') \<or> r \<notin> set dead \<and> dm'' = dm'))"
proof -
  have "map_of (route_id_to_pubkey dm') r = None" if "r \<in> set dead" for r
    using that by (simp add: dm'_def invalidate_dead_routes_def Let_def fold_invalidate_parts)
  moreover have "get_cached_route dm' pk =
      (if pk \<in> peers_of dm (set dead) then None else get_cached_route dm pk)" for pk
    by (simp add: dm'_def invalidate_dead_routes_def Let_def fold_invalidate_parts get_cached_route_def)
  moreover have "r \<notin> set dead" if "map_of (imported_routes dm') blob = Some (r, t)" for r t
    using that imported_after_dead [OF assms(1), of dead blob]
    by (auto simp: dm'_def split: option.splits if_splits)
  ultimately show ?thesis
    by (cases rule: get_or_import_route_cases [of dm' blob now imp w])
       (auto simp: update_conv' elapsed_secs_def imported_route_ttl_secs_def)
qed

section \<open>A route that outlives its blob\<close>

text \<open>
  A peer that publishes a new route keeps the old route in \<open>route_id_to_pubkey\<close>, so the death
  of the old route drops the new blob.
\<close>

lemma old_route_death_drops_new_blob:
  assumes "imp b1 w = (Inr r1, w1)" and "imp b2 w1 = (Inr r2, w2)"
    and "b1 \<noteq> []" and "b2 \<noteq> []" and "r1 \<noteq> r2"
    and "dm = fst (cache_route imp t2 pk b2 (fst (cache_route imp t1 pk b1 new_manager w)) w1)"
  shows "get_cached_route dm pk = Some b2 \<and> get_cached_route (invalidate_dead_routes [r1] dm) pk = None"
  using assms
  by (simp add: cache_route_def new_manager_def get_cached_route_def invalidate_dead_routes_def
      invalidate_dead_route_parts Let_def update_conv')


text \<open>Routes are numbers; the import of a blob is the next number.\<close>

definition next_route :: "(nat, nat) import_route" where
  "next_route blob n = (Inr n, Suc n)"

definition sample_manager :: "nat dht_manager" where
  "sample_manager =
     fst (cache_route next_route 0 ''bob'' [1] (fst (cache_route next_route 0 ''alice'' [2] new_manager 0)) 1)"

theorem dead_routes_are_not_used_witness:
  "map_of (route_id_to_pubkey (invalidate_dead_routes [0] sample_manager)) 0 = None \<and>
    (\<forall>pk. get_cached_route (invalidate_dead_routes [0] sample_manager) pk =
       (if pk \<in> peers_of sample_manager (set [0]) then None else get_cached_route sample_manager pk)) \<and>
    (case get_or_import_route next_route 1000 [1] (invalidate_dead_routes [0] sample_manager) 2 of
       (Inl e, dm'', w') \<Rightarrow> map_of (imported_routes dm'') [1] = None
     | (Inr r, dm'', w') \<Rightarrow>
         (\<exists>t. map_of (imported_routes dm'') [1] = Some (r, t) \<and> elapsed_secs 1000 t < 90) \<and>
         (next_route [1] 2 = (Inr r, w') \<or> r \<notin> set [0] \<and> dm'' = invalidate_dead_routes [0] sample_manager))"
proof -
  have "distinct_imports sample_manager"
    by (simp add: sample_manager_def distinct_imports_def cache_route_def next_route_def new_manager_def)
  from dead_routes_are_not_used [OF this refl, where dead = "[0]" and imp = next_route and now = 1000 and blob = "[1]" and w = 2]
  show ?thesis by simp
qed

end
