(* ===== verification/DhtRecords.thy ===== *)
theory DhtRecords
  imports DhtManager Codec
begin

text \<open>
  The records built on \<open>DHTManager\<close>: user profiles (\<open>dht/profile.rs\<close>), presence
  (\<open>dht/presence.rs\<close>), mailboxes (\<open>dht/mailbox.rs\<close>), the friend list (\<open>dht/friends.rs\<close>), which
  is written with the codec of \<open>Codec\<close>, and the message batches of a channel (\<open>dht/channel.rs\<close>),
  which are JSON, a parameter.
\<close>

section \<open>Profiles\<close>

definition subkey_display_name :: u32 where "subkey_display_name = 0"
definition subkey_status_message :: u32 where "subkey_status_message = 1"
definition subkey_status :: u32 where "subkey_status = 2"
definition subkey_game_info :: u32 where "subkey_game_info = 4"
definition subkey_prekey_bundle :: u32 where "subkey_prekey_bundle = 5"
definition subkey_route_blob :: u32 where "subkey_route_blob = 6"
definition profile_subkey_count :: u32 where "profile_subkey_count = 8"

text \<open>\<open>String::from_utf8\<close>; \<open>utf8_error\<close> is the text of its error.\<close>

definition from_utf8 :: "(bytes \<Rightarrow> string) \<Rightarrow> bytes \<Rightarrow> string + string" where
  "from_utf8 utf8_error b = (if utf8_valid b then Inr (bytes_as_string b) else Inl (utf8_error b))"

text \<open>\<open>i64::to_be_bytes\<close>, of the two's complement word.\<close>

definition i64_be_bytes :: "int \<Rightarrow> bytes" where
  "i64_be_bytes t = rev (u64_le_bytes (word_of_int t))"

definition status_payload :: "u8 \<Rightarrow> int \<Rightarrow> bytes" where
  "status_payload status timestamp_ms = status # i64_be_bytes timestamp_ms"

definition create_profile ::
  "('w, 'k, 'p) routing_context \<Rightarrow> int \<Rightarrow> string \<Rightarrow> string \<Rightarrow> bytes \<Rightarrow> bytes
   \<Rightarrow> ('w, protocol_error, string \<times> 'p option) io" where
  "create_profile rc now display_name status_message prekey_bundle route_blob =
     io_bind (create_record rc profile_subkey_count) (\<lambda>(key, owner_keypair).
     io_bind (set_value rc key subkey_display_name (as_bytes display_name)) (\<lambda>_.
     io_bind (set_value rc key subkey_status_message (as_bytes status_message)) (\<lambda>_.
     io_bind (set_value rc key subkey_status (status_payload 0 now)) (\<lambda>_.
     io_bind (set_value rc key subkey_prekey_bundle prekey_bundle) (\<lambda>_.
     io_bind (set_value rc key subkey_route_blob route_blob) (\<lambda>_.
     ok (key, owner_keypair)))))))"

definition read_display_name ::
  "('w, 'k, 'p) routing_context \<Rightarrow> (bytes \<Rightarrow> string) \<Rightarrow> string \<Rightarrow> ('w, protocol_error, string option) io" where
  "read_display_name rc utf8_error key =
     io_bind (get_value rc key subkey_display_name) (\<lambda>v.
     case v of
       None \<Rightarrow> ok None
     | Some b \<Rightarrow> io_bind (map_error Deserialization (from_result (from_utf8 utf8_error b))) (\<lambda>s. ok (Some s)))"

definition read_status ::
  "('w, 'k, 'p) routing_context \<Rightarrow> string \<Rightarrow> ('w, protocol_error, u8 option) io" where
  "read_status rc key =
     io_bind (get_value rc key subkey_status) (\<lambda>v.
     ok (case v of Some (s # _) \<Rightarrow> Some s | _ \<Rightarrow> None))"

definition read_route_blob ::
  "('w, 'k, 'p) routing_context \<Rightarrow> string \<Rightarrow> ('w, protocol_error, bytes option) io" where
  "read_route_blob rc key = get_value rc key subkey_route_blob"

definition read_prekey_bundle ::
  "('w, 'k, 'p) routing_context \<Rightarrow> string \<Rightarrow> ('w, protocol_error, bytes option) io" where
  "read_prekey_bundle rc key = get_value rc key subkey_prekey_bundle"

section \<open>Presence\<close>

definition watch_friend_presence ::
  "('w, 'k, 'p) routing_context \<Rightarrow> string \<Rightarrow> ('w, protocol_error, bool) io" where
  "watch_friend_presence rc key =
     watch_record rc key [subkey_status, subkey_game_info, subkey_route_blob]"

definition publish_status ::
  "('w, 'k, 'p) routing_context \<Rightarrow> string \<Rightarrow> u8 \<Rightarrow> int \<Rightarrow> ('w, protocol_error, unit) io" where
  "publish_status rc key status timestamp_ms =
     set_value rc key subkey_status (status_payload status timestamp_ms)"

definition publish_game_info ::
  "('w, 'k, 'p) routing_context \<Rightarrow> string \<Rightarrow> bytes option \<Rightarrow> ('w, protocol_error, unit) io" where
  "publish_game_info rc key game_info =
     set_value rc key subkey_game_info (case game_info of Some b \<Rightarrow> b | None \<Rightarrow> [])"

definition publish_route_blob ::
  "('w, 'k, 'p) routing_context \<Rightarrow> string \<Rightarrow> bytes \<Rightarrow> ('w, protocol_error, unit) io" where
  "publish_route_blob rc key blob = set_value rc key subkey_route_blob blob"

section \<open>Mailboxes\<close>

definition parse_mailbox_key ::
  "('w, 'k, 'p) routing_context \<Rightarrow> string \<Rightarrow> ('w, protocol_error, 'k) io" where
  "parse_mailbox_key rc key =
     map_error (dht_error (''invalid mailbox key '' @ [CHR 0x27] @ key @ [CHR 0x27]))
       (from_result (rc_parse_key rc key))"

definition create_mailbox ::
  "('w, 'k, 'p) routing_context \<Rightarrow> 'p \<Rightarrow> ('w, protocol_error, string) io" where
  "create_mailbox rc identity_keypair =
     (case rc_schema_error rc 1 of
        Some e \<Rightarrow> throw (dht_error ''invalid mailbox schema'' e)
      | None \<Rightarrow>
          io_bind (map_error (dht_error ''create_mailbox'') (rc_create rc 1 (Some identity_keypair)))
            (\<lambda>(key, _). ok (rc_show_key rc key)))"

definition open_mailbox_writable ::
  "('w, 'k, 'p) routing_context \<Rightarrow> string \<Rightarrow> 'p \<Rightarrow> ('w, protocol_error, unit) io" where
  "open_mailbox_writable rc key identity_keypair =
     io_bind (parse_mailbox_key rc key) (\<lambda>k.
     map_error (dht_error ''open_mailbox_writable'') (rc_open rc k (Some identity_keypair)))"

definition read_peer_mailbox_route ::
  "('w, 'k, 'p) routing_context \<Rightarrow> string \<Rightarrow> ('w, protocol_error, bytes option) io" where
  "read_peer_mailbox_route rc mailbox_key =
     io_bind (parse_mailbox_key rc mailbox_key) (\<lambda>k.
     io_bind (map_error (dht_error ''open peer mailbox'') (rc_open rc k None)) (\<lambda>_.
     map_error (dht_error ''read peer mailbox route'') (rc_get rc k 0 True)))"

definition update_mailbox_route ::
  "('w, 'k, 'p) routing_context \<Rightarrow> string \<Rightarrow> bytes \<Rightarrow> ('w, protocol_error, unit) io" where
  "update_mailbox_route rc mailbox_key route_blob =
     io_bind (parse_mailbox_key rc mailbox_key) (\<lambda>k.
     map_error (dht_error ''update_mailbox_route'') (rc_set rc k 0 route_blob))"

section \<open>The friend list\<close>

definition create_friend_list ::
  "('w, 'k, 'p) routing_context \<Rightarrow> friend_list_struct capnp \<Rightarrow> ('w, protocol_error, string \<times> 'p option) io" where
  "create_friend_list rc c =
     io_bind (create_record rc 1) (\<lambda>(key, owner_keypair).
     io_bind (set_value rc key 0 (encode_friend_list c [])) (\<lambda>_.
     ok (key, owner_keypair)))"

definition read_friend_list ::
  "('w, 'k, 'p) routing_context \<Rightarrow> friend_list_struct capnp \<Rightarrow> string \<Rightarrow> ('w, protocol_error, friend_entry list) io" where
  "read_friend_list rc c key =
     io_bind (get_value rc key 0) (\<lambda>v.
     case v of
       Some data \<Rightarrow> from_result (decode_friend_list c data)
     | None \<Rightarrow> ok [])"

definition dht_add_friend ::
  "('w, 'k, 'p) routing_context \<Rightarrow> friend_list_struct capnp \<Rightarrow> string \<Rightarrow> friend_entry \<Rightarrow> ('w, protocol_error, unit) io" where
  "dht_add_friend rc c key entry =
     io_bind (read_friend_list rc c key) (\<lambda>friends.
     if list_ex (\<lambda>f. f_public_key f = f_public_key entry) friends then ok ()
     else set_value rc key 0 (encode_friend_list c (friends @ [entry])))"

definition dht_remove_friend ::
  "('w, 'k, 'p) routing_context \<Rightarrow> friend_list_struct capnp \<Rightarrow> string \<Rightarrow> string \<Rightarrow> ('w, protocol_error, unit) io" where
  "dht_remove_friend rc c key public_key =
     io_bind (read_friend_list rc c key) (\<lambda>friends.
     set_value rc key 0 (encode_friend_list c (filter (\<lambda>f. f_public_key f \<noteq> public_key) friends)))"

definition edit_friend :: "string option \<Rightarrow> string option \<Rightarrow> friend_entry \<Rightarrow> friend_entry" where
  "edit_friend nickname grp f =
     (let f1 = (if nickname \<noteq> None then f\<lparr>f_nickname := nickname\<rparr> else f)
      in if grp \<noteq> None then f1\<lparr>f_group := grp\<rparr> else f1)"

definition dht_update_friend ::
  "('w, 'k, 'p) routing_context \<Rightarrow> friend_list_struct capnp \<Rightarrow> string \<Rightarrow> string \<Rightarrow> string option \<Rightarrow> string option
   \<Rightarrow> ('w, protocol_error, unit) io" where
  "dht_update_friend rc c key public_key nickname grp =
     io_bind (read_friend_list rc c key) (\<lambda>friends.
     set_value rc key 0 (encode_friend_list c
       (update_first (\<lambda>f. f_public_key f = public_key) (edit_friend nickname grp) friends)))"

section \<open>Message batches\<close>

record dht_channel_message =
  cm_sender_key :: string
  cm_body :: string
  cm_timestamp :: u64
  cm_nonce :: string
  cm_reply_to :: "string option"

record message_batch =
  prev_record_key :: "string option"
  batch_messages :: "dht_channel_message list"

definition max_messages_per_batch :: nat where "max_messages_per_batch = 50"

definition write_batch ::
  "('w, 'k, 'p) routing_context \<Rightarrow> message_batch json \<Rightarrow> string \<Rightarrow> message_batch
   \<Rightarrow> ('w, protocol_error, unit) io" where
  "write_batch rc j key batch =
     io_bind (map_error Serialization (from_result (to_json j batch))) (\<lambda>data.
     set_value rc key 0 data)"

definition create_batch ::
  "('w, 'k, 'p) routing_context \<Rightarrow> message_batch json \<Rightarrow> string option \<Rightarrow> ('w, protocol_error, string) io" where
  "create_batch rc j prev_key =
     io_bind (create_record rc 1) (\<lambda>(key, _).
     io_bind (write_batch rc j key \<lparr>prev_record_key = prev_key, batch_messages = []\<rparr>) (\<lambda>_.
     ok key))"

definition read_batch ::
  "('w, 'k, 'p) routing_context \<Rightarrow> message_batch json \<Rightarrow> string \<Rightarrow> ('w, protocol_error, message_batch) io" where
  "read_batch rc j key =
     io_bind (get_value rc key 0) (\<lambda>v.
     case v of
       Some data \<Rightarrow> map_error Deserialization (from_result (from_json j data))
     | None \<Rightarrow> ok \<lparr>prev_record_key = None, batch_messages = []\<rparr>)"

definition append_message ::
  "('w, 'k, 'p) routing_context \<Rightarrow> message_batch json \<Rightarrow> string \<Rightarrow> dht_channel_message
   \<Rightarrow> ('w, protocol_error, string option) io" where
  "append_message rc j batch_key message =
     io_bind (read_batch rc j batch_key) (\<lambda>batch.
     if max_messages_per_batch \<le> length (batch_messages batch) then
       io_bind (create_batch rc j (Some batch_key)) (\<lambda>new_key.
       io_bind (write_batch rc j new_key
                  \<lparr>prev_record_key = Some batch_key, batch_messages = [message]\<rparr>) (\<lambda>_.
       ok (Some new_key)))
     else
       io_bind (write_batch rc j batch_key (batch\<lparr>batch_messages := batch_messages batch @ [message]\<rparr>)) (\<lambda>_.
       ok None))"

text \<open>
  The loop of \<open>read_history\<close> follows the links of records the caller may not own, so it need not
  end. The fuel bounds the number of batches read; \<open>None\<close> is a loop that has not ended yet.
\<close>

fun history_loop ::
  "nat \<Rightarrow> ('w, 'k, 'p) routing_context \<Rightarrow> message_batch json \<Rightarrow> nat \<Rightarrow> dht_channel_message list
   \<Rightarrow> string option \<Rightarrow> 'w \<Rightarrow> ((protocol_error + dht_channel_message list) \<times> 'w) option" where
  "history_loop fuel rc j limit acc None w = Some (Inr acc, w)"
| "history_loop 0 rc j limit acc (Some key) w = None"
| "history_loop (Suc fuel) rc j limit acc (Some key) w =
     (if limit \<le> length acc then Some (Inr acc, w)
      else case read_batch rc j key w of
        (Inl e, w') \<Rightarrow> Some (Inl e, w')
      | (Inr batch, w') \<Rightarrow>
          history_loop fuel rc j limit
            (acc @ take (limit - length acc) (rev (batch_messages batch))) (prev_record_key batch) w')"

definition read_history ::
  "nat \<Rightarrow> ('w, 'k, 'p) routing_context \<Rightarrow> message_batch json \<Rightarrow> string \<Rightarrow> nat \<Rightarrow> 'w
   \<Rightarrow> ((protocol_error + dht_channel_message list) \<times> 'w) option" where
  "read_history fuel rc j latest_batch_key limit w = history_loop fuel rc j limit [] (Some latest_batch_key) w"

end
