(* ===== verification/AccountCodec.thy ===== *)
theory AccountCodec
  imports Codec
begin

text \<open>
  The encoders and decoders of \<open>capnp_codec.rs\<close> for the records an account keeps about itself:
  account header, contact and chat entries, conversation header.
\<close>

section \<open>Accounts\<close>

record account_header =
  ah_contact_list_key :: string
  ah_chat_list_key :: string
  ah_invitation_list_key :: string
  ah_display_name :: string
  ah_status_message :: string
  ah_avatar_hash :: bytes
  ah_created_at :: u64
  ah_updated_at :: u64
  ah_contact_list_keypair :: "string option"
  ah_chat_list_keypair :: "string option"
  ah_invitation_list_keypair :: "string option"

record contact_entry =
  ct_public_key :: bytes
  ct_display_name :: string
  ct_nickname :: string
  ct_group :: string
  ct_local_conversation_key :: string
  ct_remote_conversation_key :: string
  ct_added_at :: u64
  ct_updated_at :: u64

record chat_entry =
  ch_contact_public_key :: bytes
  ch_local_conversation_key :: string
  ch_last_message_timestamp :: u64
  ch_unread_count :: u32
  ch_is_pinned :: bool
  ch_is_muted :: bool

record account_struct =
  as_contact_list_key :: "bytes ptr"
  as_chat_list_key :: "bytes ptr"
  as_invitation_list_key :: "bytes ptr"
  as_display_name :: "bytes ptr"
  as_status_message :: "bytes ptr"
  as_avatar_hash :: "bytes ptr"
  as_created_at :: u64
  as_updated_at :: u64
  as_contact_list_keypair :: "bytes ptr"
  as_chat_list_keypair :: "bytes ptr"
  as_invitation_list_keypair :: "bytes ptr"

definition account_struct_of :: "account_header \<Rightarrow> account_struct" where
  "account_struct_of h =
     \<lparr>as_contact_list_key = set_text (ah_contact_list_key h), as_chat_list_key = set_text (ah_chat_list_key h),
      as_invitation_list_key = set_text (ah_invitation_list_key h),
      as_display_name = set_text (ah_display_name h), as_status_message = set_text (ah_status_message h),
      as_avatar_hash = set_nonempty (ah_avatar_hash h), as_created_at = ah_created_at h,
      as_updated_at = ah_updated_at h,
      as_contact_list_keypair = set_some_text (ah_contact_list_keypair h),
      as_chat_list_keypair = set_some_text (ah_chat_list_keypair h),
      as_invitation_list_keypair = set_some_text (ah_invitation_list_keypair h)\<rparr>"

definition encode_account_header :: "account_struct capnp \<Rightarrow> account_header \<Rightarrow> bytes" where
  "encode_account_header cp h = write_message cp (account_struct_of h)"

definition decode_account_header :: "account_struct capnp \<Rightarrow> bytes \<Rightarrow> protocol_error + account_header" where
  "decode_account_header cp data =
     (let tx = texts cp in
     try_result (read_root cp data) (\<lambda>root.
     try_result (get_text tx (as_contact_list_key root)) (\<lambda>contacts.
     try_result (get_text tx (as_chat_list_key root)) (\<lambda>chats.
     try_result (get_text tx (as_invitation_list_key root)) (\<lambda>invitations.
     try_result (get_text tx (as_display_name root)) (\<lambda>display_name.
     try_result (text_or_empty tx (as_status_message root)) (\<lambda>status_message.
     try_result (data_or_empty (as_avatar_hash root)) (\<lambda>avatar_hash.
     try_result (optional_text tx (as_contact_list_keypair root)) (\<lambda>contacts_kp.
     try_result (optional_text tx (as_chat_list_keypair root)) (\<lambda>chats_kp.
     try_result (optional_text tx (as_invitation_list_keypair root)) (\<lambda>invitations_kp.
     Inr \<lparr>ah_contact_list_key = contacts, ah_chat_list_key = chats, ah_invitation_list_key = invitations,
          ah_display_name = display_name, ah_status_message = status_message, ah_avatar_hash = avatar_hash,
          ah_created_at = as_created_at root, ah_updated_at = as_updated_at root,
          ah_contact_list_keypair = contacts_kp, ah_chat_list_keypair = chats_kp,
          ah_invitation_list_keypair = invitations_kp\<rparr>)))))))))))"

record contact_struct =
  ts_public_key :: "bytes ptr"
  ts_display_name :: "bytes ptr"
  ts_nickname :: "bytes ptr"
  ts_group :: "bytes ptr"
  ts_local_conversation_key :: "bytes ptr"
  ts_remote_conversation_key :: "bytes ptr"
  ts_added_at :: u64
  ts_updated_at :: u64

definition contact_struct_of :: "contact_entry \<Rightarrow> contact_struct" where
  "contact_struct_of c =
     \<lparr>ts_public_key = Target (ct_public_key c), ts_display_name = set_text (ct_display_name c),
      ts_nickname = set_text (ct_nickname c), ts_group = set_text (ct_group c),
      ts_local_conversation_key = set_text (ct_local_conversation_key c),
      ts_remote_conversation_key = set_text (ct_remote_conversation_key c),
      ts_added_at = ct_added_at c, ts_updated_at = ct_updated_at c\<rparr>"

definition encode_contact_entry :: "contact_struct capnp \<Rightarrow> contact_entry \<Rightarrow> bytes" where
  "encode_contact_entry cp c = write_message cp (contact_struct_of c)"

definition decode_contact_entry :: "contact_struct capnp \<Rightarrow> bytes \<Rightarrow> protocol_error + contact_entry" where
  "decode_contact_entry cp data =
     (let tx = texts cp in
     try_result (read_root cp data) (\<lambda>root.
     try_result (get_data (ts_public_key root)) (\<lambda>public_key.
     try_result (get_text tx (ts_display_name root)) (\<lambda>display_name.
     try_result (text_or_empty tx (ts_nickname root)) (\<lambda>nickname.
     try_result (text_or_empty tx (ts_group root)) (\<lambda>grp.
     try_result (get_text tx (ts_local_conversation_key root)) (\<lambda>local_key.
     try_result (text_or_empty tx (ts_remote_conversation_key root)) (\<lambda>remote_key.
     Inr \<lparr>ct_public_key = public_key, ct_display_name = display_name, ct_nickname = nickname,
          ct_group = grp, ct_local_conversation_key = local_key, ct_remote_conversation_key = remote_key,
          ct_added_at = ts_added_at root, ct_updated_at = ts_updated_at root\<rparr>))))))))"

record chat_list_struct =
  cl_contact_public_key :: "bytes ptr"
  cl_local_conversation_key :: "bytes ptr"
  cl_last_message_timestamp :: u64
  cl_unread_count :: u32
  cl_is_pinned :: bool
  cl_is_muted :: bool

definition chat_list_struct_of :: "chat_entry \<Rightarrow> chat_list_struct" where
  "chat_list_struct_of c =
     \<lparr>cl_contact_public_key = Target (ch_contact_public_key c),
      cl_local_conversation_key = set_text (ch_local_conversation_key c),
      cl_last_message_timestamp = ch_last_message_timestamp c, cl_unread_count = ch_unread_count c,
      cl_is_pinned = ch_is_pinned c, cl_is_muted = ch_is_muted c\<rparr>"

definition encode_chat_entry :: "chat_list_struct capnp \<Rightarrow> chat_entry \<Rightarrow> bytes" where
  "encode_chat_entry cp c = write_message cp (chat_list_struct_of c)"

definition decode_chat_entry :: "chat_list_struct capnp \<Rightarrow> bytes \<Rightarrow> protocol_error + chat_entry" where
  "decode_chat_entry cp data =
     try_result (read_root cp data) (\<lambda>root.
     try_result (get_data (cl_contact_public_key root)) (\<lambda>public_key.
     try_result (get_text (texts cp) (cl_local_conversation_key root)) (\<lambda>local_key.
     Inr \<lparr>ch_contact_public_key = public_key, ch_local_conversation_key = local_key,
          ch_last_message_timestamp = cl_last_message_timestamp root,
          ch_unread_count = cl_unread_count root, ch_is_pinned = cl_is_pinned root,
          ch_is_muted = cl_is_muted root\<rparr>)))"

section \<open>Conversations\<close>

record conversation_header =
  cv_identity_public_key :: bytes
  cv_profile :: user_profile
  cv_message_log_key :: string
  cv_route_blob :: bytes
  cv_prekey_bundle :: wire_prekey_bundle
  cv_created_at :: u64
  cv_updated_at :: u64

record conversation_struct =
  ns_identity_public_key :: "bytes ptr"
  ns_profile :: "profile_struct ptr"
  ns_message_log_key :: "bytes ptr"
  ns_route_blob :: "bytes ptr"
  ns_pre_key_bundle :: "prekey_struct ptr"
  ns_created_at :: u64
  ns_updated_at :: u64

definition conversation_struct_of :: "conversation_header \<Rightarrow> conversation_struct" where
  "conversation_struct_of h =
     \<lparr>ns_identity_public_key = Target (cv_identity_public_key h),
      ns_profile = Target (profile_struct_of (cv_profile h)),
      ns_message_log_key = set_text (cv_message_log_key h), ns_route_blob = Target (cv_route_blob h),
      ns_pre_key_bundle = Target (prekey_struct_of
        (set_nonempty (wb_one_time_pre_key (cv_prekey_bundle h))) (cv_prekey_bundle h)),
      ns_created_at = cv_created_at h, ns_updated_at = cv_updated_at h\<rparr>"

definition empty_profile_struct :: profile_struct where
  "empty_profile_struct = \<lparr>us_display_name = Null, us_status_message = Null, us_status = 0,
     us_avatar_hash = Null, us_game_status = Null\<rparr>"

definition empty_prekey_struct :: prekey_struct where
  "empty_prekey_struct = \<lparr>ks_identity_key = Null, ks_signed_pre_key = Null, ks_signed_pre_key_sig = Null,
     ks_one_time_pre_key = Null, ks_registration_id = 0\<rparr>"

definition encode_conversation_header :: "conversation_struct capnp \<Rightarrow> conversation_header \<Rightarrow> bytes" where
  "encode_conversation_header cp h = write_message cp (conversation_struct_of h)"

definition decode_conversation_header ::
  "conversation_struct capnp \<Rightarrow> bytes \<Rightarrow> protocol_error + conversation_header" where
  "decode_conversation_header cp data =
     (let tx = texts cp in
     try_result (read_root cp data) (\<lambda>root.
     try_result (follow empty_profile_struct (ns_profile root)) (\<lambda>profile_reader.
     try_result (read_profile tx profile_reader) (\<lambda>profile.
     try_result (follow empty_prekey_struct (ns_pre_key_bundle root)) (\<lambda>pkb_reader.
     try_result (read_prekey_struct pkb_reader) (\<lambda>prekeys.
     try_result (get_data (ns_identity_public_key root)) (\<lambda>identity_public_key.
     try_result (get_text tx (ns_message_log_key root)) (\<lambda>message_log_key.
     try_result (data_or_empty (ns_route_blob root)) (\<lambda>route_blob.
     Inr \<lparr>cv_identity_public_key = identity_public_key, cv_profile = profile,
          cv_message_log_key = message_log_key, cv_route_blob = route_blob, cv_prekey_bundle = prekeys,
          cv_created_at = ns_created_at root, cv_updated_at = ns_updated_at root\<rparr>)))))))))"

end
