(* ===== verification/Codecs.thy ===== *)
theory Codecs
  imports AccountCodec
begin

text \<open>
  What survives the wire. For every type of \<open>capnp_codec.rs\<close>: when a value can be written
  (\<open>_ok\<close>, all its strings are UTF-8, as Rust strings are) and what comes back (\<open>stored_\<close>):
  empty optional texts are absent, unknown statuses offline, unknown channel types text, and the
  fields the schemas lack have their defaults.
\<close>

section \<open>The contract of a codec\<close>

locale wire_format =
  fixes written :: "'s set" and encode :: "'s capnp \<Rightarrow> 'a \<Rightarrow> bytes"
    and decode :: "'s capnp \<Rightarrow> bytes \<Rightarrow> protocol_error + 'a"
    and valid :: "'a \<Rightarrow> bool" and stored :: "'a \<Rightarrow> 'a"
  assumes decode_encode:
      "capnp_lawful (\<lambda>s. s \<in> written) cp \<Longrightarrow> valid x \<Longrightarrow> decode cp (encode cp x) = Inr (stored x)"
    and stored_valid: "valid x \<Longrightarrow> valid (stored x)"
    and stored_stored: "stored (stored x) = stored x"
begin

lemma settles:
  "capnp_lawful (\<lambda>s. s \<in> written) cp \<Longrightarrow> valid x \<Longrightarrow> decode cp (encode cp (stored x)) = Inr (stored x)"
  using decode_encode [of cp "stored x"] stored_valid stored_stored by simp

lemma unchanged:
  "capnp_lawful (\<lambda>s. s \<in> written) cp \<Longrightarrow> valid x \<Longrightarrow> stored x = x \<Longrightarrow> decode cp (encode cp x) = Inr x"
  by (simp add: decode_encode)

lemma decode_each:
  "capnp_lawful (\<lambda>s. s \<in> written) cp \<Longrightarrow> \<forall>x\<in>set xs. valid x \<Longrightarrow>
   collect_results (decode cp) (map (encode cp) xs) = Inr (map stored xs)"
  by (rule collect_results_Inr) (simp add: decode_encode)

lemma not_confused:
  "capnp_lawful (\<lambda>s. s \<in> written) cp \<Longrightarrow> valid x \<Longrightarrow> valid y \<Longrightarrow> encode cp x = encode cp y \<Longrightarrow>
   stored x = stored y"
  by (metis decode_encode sum.inject(2))

end

section \<open>What is written and what comes back\<close>

lemma kept_kept [simp]: "kept (kept s) = kept s"
  by (cases s) (simp_all add: kept_def nonempty_def)

lemma rust_kept [simp]: "rust_option s \<Longrightarrow> rust_option (kept s)"
  by (cases s) (simp_all add: kept_def nonempty_def rust_option_def)

lemma kept_simps [simp]: "kept None = None" "s \<noteq> [] \<Longrightarrow> kept (Some s) = Some s"
  by (simp_all add: kept_def nonempty_def)

definition game_ok :: "game_info \<Rightarrow> bool" where
  "game_ok g \<longleftrightarrow> rust_string (g_game_name g) \<and> rust_option (g_server_info g)"

definition stored_game :: "game_info \<Rightarrow> game_info" where
  "stored_game g = g\<lparr>g_server_info := kept (g_server_info g)\<rparr>"

definition profile_ok :: "user_profile \<Rightarrow> bool" where
  "profile_ok p \<longleftrightarrow> rust_string (up_display_name p) \<and> rust_string (up_status_message p) \<and>
     (case up_game_status p of Some g \<Rightarrow> game_ok g | None \<Rightarrow> True)"

definition stored_status :: "u8 \<Rightarrow> u8" where
  "stored_status s = (if s < 3 then s else 3)"

definition stored_profile :: "user_profile \<Rightarrow> user_profile" where
  "stored_profile p = p\<lparr>up_status := stored_status (up_status p),
     up_game_status := map_option stored_game (up_game_status p)\<rparr>"

definition friend_ok :: "friend_entry \<Rightarrow> bool" where
  "friend_ok f \<longleftrightarrow> rust_string (f_public_key f) \<and> rust_option (f_nickname f) \<and> rust_option (f_group f)"

definition stored_friend :: "friend_entry \<Rightarrow> friend_entry" where
  "stored_friend f = f\<lparr>f_nickname := kept (f_nickname f), f_group := kept (f_group f), f_profile_dht_key := None\<rparr>"

definition request_ok :: "friend_request \<Rightarrow> bool" where
  "request_ok r \<longleftrightarrow> rust_string (fr_display_name r) \<and> rust_string (fr_message r)"

definition overwrite_ok :: "permission_overwrite \<Rightarrow> bool" where
  "overwrite_ok ow \<longleftrightarrow> rust_string (ow_target_id ow)"

definition channel_ok :: "channel_entry \<Rightarrow> bool" where
  "channel_ok c \<longleftrightarrow> rust_string (ce_id c) \<and> rust_string (ce_name c) \<and> rust_option (ce_latest_message_key c) \<and>
     list_all overwrite_ok (ce_permission_overwrites c)"

definition stored_channel :: "channel_entry \<Rightarrow> channel_entry" where
  "stored_channel c = c\<lparr>ce_channel_type := (if ce_channel_type c = ''voice'' then ''voice'' else ''text''),
     ce_latest_message_key := kept (ce_latest_message_key c)\<rparr>"

definition metadata_ok :: "community_metadata \<Rightarrow> bool" where
  "metadata_ok m \<longleftrightarrow> rust_string (md_name m) \<and> rust_option (md_description m) \<and> rust_option (md_icon_hash m)"

text \<open>The owner's key is not on the wire: the reader fills in the one it knows.\<close>

definition stored_metadata :: "string \<Rightarrow> community_metadata \<Rightarrow> community_metadata" where
  "stored_metadata owner m = m\<lparr>md_description := kept (md_description m), md_icon_hash := kept (md_icon_hash m),
     md_owner_key := owner, md_last_refreshed := 0\<rparr>"

definition header_ok :: "account_header \<Rightarrow> bool" where
  "header_ok h \<longleftrightarrow> rust_string (ah_contact_list_key h) \<and> rust_string (ah_chat_list_key h) \<and>
     rust_string (ah_invitation_list_key h) \<and> rust_string (ah_display_name h) \<and>
     rust_string (ah_status_message h) \<and> rust_option (ah_contact_list_keypair h) \<and>
     rust_option (ah_chat_list_keypair h) \<and> rust_option (ah_invitation_list_keypair h)"

definition stored_header :: "account_header \<Rightarrow> account_header" where
  "stored_header h = h\<lparr>ah_contact_list_keypair := kept (ah_contact_list_keypair h),
     ah_chat_list_keypair := kept (ah_chat_list_keypair h),
     ah_invitation_list_keypair := kept (ah_invitation_list_keypair h)\<rparr>"

definition contact_ok :: "contact_entry \<Rightarrow> bool" where
  "contact_ok c \<longleftrightarrow> rust_string (ct_display_name c) \<and> rust_string (ct_nickname c) \<and> rust_string (ct_group c) \<and>
     rust_string (ct_local_conversation_key c) \<and> rust_string (ct_remote_conversation_key c)"

definition chat_ok :: "chat_entry \<Rightarrow> bool" where
  "chat_ok c \<longleftrightarrow> rust_string (ch_local_conversation_key c)"

definition conversation_ok :: "conversation_header \<Rightarrow> bool" where
  "conversation_ok h \<longleftrightarrow> profile_ok (cv_profile h) \<and> rust_string (cv_message_log_key h)"

definition stored_conversation :: "conversation_header \<Rightarrow> conversation_header" where
  "stored_conversation h = h\<lparr>cv_profile := stored_profile (cv_profile h)\<rparr>"

lemma status_back [codec]: "status_meaning (status_enum s) = Some (stored_status s)"
proof (cases "s < 3")
  case True
  then have "s = 0 \<or> s = 1 \<or> s = 2"
    unfolding word_less_nat_alt word_unat_eq_iff by simp linarith
  then show ?thesis by (elim disjE) (simp_all add: status_enum_def status_meaning_def stored_status_def)
next
  case False
  then have "s \<noteq> 0" "s \<noteq> 1" "s \<noteq> 2" by auto
  with False show ?thesis by (simp add: status_enum_def status_meaning_def stored_status_def)
qed

lemma get_status [codec]: "get_enum tx status_meaning (status_enum s) = Inr (stored_status s)"
  by (simp add: codec)

lemma stored_status_idem [simp]: "stored_status (stored_status s) = stored_status s"
  by (simp add: stored_status_def)

section \<open>Reading the parts\<close>

lemma read_game_status_written [codec]: "game_ok g \<Longrightarrow> read_game_status tx (game_struct_of g) = Inr (stored_game g)"
  by (simp add: read_game_status_def game_struct_of_def codec game_ok_def stored_game_def)

lemma optional_game_set [codec]:
  "(case g of Some x \<Rightarrow> game_ok x | None \<Rightarrow> True) \<Longrightarrow>
   optional_game tx (set_game g) = Inr (map_option stored_game g)"
  by (cases g) (simp_all add: optional_game_def set_game_def has_def codec)

lemma read_profile_written [codec]: "profile_ok p \<Longrightarrow> read_profile tx (profile_struct_of p) = Inr (stored_profile p)"
  by (simp add: read_profile_def profile_struct_of_def codec profile_ok_def stored_profile_def)

lemma read_prekey_written [codec]:
  assumes "one_time = Target (wb_one_time_pre_key b) \<or> one_time = set_nonempty (wb_one_time_pre_key b)"
  shows "read_prekey_struct (prekey_struct_of one_time b) = Inr b"
  using assms by (auto simp: read_prekey_struct_def prekey_struct_of_def codec)

lemma read_friend_written [codec]: "friend_ok f \<Longrightarrow> read_friend_struct tx (friend_struct_of f) = Inr (stored_friend f)"
  by (simp add: read_friend_struct_def friend_struct_of_def codec friend_ok_def stored_friend_def rust_string_def)

lemma get_target_type [codec]:
  "get_enum tx overwrite_meaning (case t of OwRole \<Rightarrow> 0 | OwMember \<Rightarrow> 1) = Inr t"
  by (simp add: get_enum_def overwrite_meaning_def split: overwrite_type.split)

lemma read_overwrite_written [codec]:
  "overwrite_ok ow \<Longrightarrow> read_overwrite_struct tx (overwrite_struct_of ow) = Inr ow"
  by (simp add: read_overwrite_struct_def overwrite_struct_of_def codec overwrite_ok_def)

lemma read_overwrites_written [codec]:
  "list_all overwrite_ok ows \<Longrightarrow>
   collect_results (read_overwrite_struct tx) (map overwrite_struct_of ows) = Inr ows"
  using collect_results_Inr [of ows "read_overwrite_struct tx" overwrite_struct_of "\<lambda>x. x"]
  by (simp add: list_all_iff codec)

lemma read_channel_written [codec]:
  "channel_ok c \<Longrightarrow> read_channel_struct tx (channel_struct_of c) = Inr (stored_channel c)"
  by (auto simp: read_channel_struct_def channel_struct_of_def codec channel_ok_def stored_channel_def has_def
      get_enum_def channel_type_meaning_def)

lemma read_role_written [codec]: "rust_string (rd_name r) \<Longrightarrow> read_role_struct tx (role_struct_of r) = Inr r"
  by (simp add: read_role_struct_def role_struct_of_def codec)

lemma read_lists_written [codec]:
  "list_all friend_ok fs \<Longrightarrow> collect_results (read_friend_struct tx) (map friend_struct_of fs) = Inr (map stored_friend fs)"
  "list_all channel_ok cs \<Longrightarrow> collect_results (read_channel_struct tx) (map channel_struct_of cs) = Inr (map stored_channel cs)"
  "list_all (\<lambda>r. rust_string (rd_name r)) rs \<Longrightarrow> collect_results (read_role_struct tx) (map role_struct_of rs) = Inr rs"
  using collect_results_Inr [of fs "read_friend_struct tx" friend_struct_of stored_friend]
    collect_results_Inr [of cs "read_channel_struct tx" channel_struct_of stored_channel]
    collect_results_Inr [of rs "read_role_struct tx" role_struct_of "\<lambda>x. x"]
  by (simp_all add: list_all_iff codec)

lemma get_signal [codec]: "get_enum tx signal_meaning (signal_enum s) = Inr s"
  by (cases s) (simp_all add: get_enum_def signal_meaning_def)

section \<open>The codecs\<close>

lemma stored_game_idem [simp]: "stored_game (stored_game g) = stored_game g"
  by (simp add: stored_game_def)

lemma stored_profile_idem [simp]: "stored_profile (stored_profile p) = stored_profile p"
  by (simp add: stored_profile_def option.map_comp comp_def)

lemma stored_idem [simp]:
  "stored_friend (stored_friend f) = stored_friend f" "stored_channel (stored_channel c) = stored_channel c"
  "stored_header (stored_header h) = stored_header h"
  "stored_conversation (stored_conversation v) = stored_conversation v"
  "stored_metadata o' (stored_metadata o' m) = stored_metadata o' m"
  by (simp_all add: stored_friend_def stored_channel_def stored_header_def stored_conversation_def stored_metadata_def)

lemma stored_ok [simp]:
  "game_ok g \<Longrightarrow> game_ok (stored_game g)" "profile_ok p \<Longrightarrow> profile_ok (stored_profile p)"
  "friend_ok f \<Longrightarrow> friend_ok (stored_friend f)" "channel_ok c \<Longrightarrow> channel_ok (stored_channel c)"
  "header_ok h \<Longrightarrow> header_ok (stored_header h)" "conversation_ok v \<Longrightarrow> conversation_ok (stored_conversation v)"
  "metadata_ok m \<Longrightarrow> metadata_ok (stored_metadata o' m)"
  by (auto simp: game_ok_def stored_game_def profile_ok_def stored_profile_def friend_ok_def stored_friend_def
      channel_ok_def stored_channel_def header_ok_def stored_header_def conversation_ok_def
      stored_conversation_def metadata_ok_def stored_metadata_def split: option.splits)

lemma list_all_map_ok:
  "(\<And>x. P x \<Longrightarrow> P (f x)) \<Longrightarrow> list_all P xs \<Longrightarrow> list_all P (map f xs)"
  by (induction xs) simp_all

interpretation envelopes: wire_format "range envelope_struct_of" encode_envelope decode_envelope
    "\<lambda>_. True" "\<lambda>x. x"
  by unfold_locales (simp_all add: encode_envelope_def decode_envelope_def codec, simp add: envelope_struct_of_def codec)

interpretation chat_messages: wire_format "range (\<lambda>(body, reply_to). chat_struct_of body reply_to)"
    "\<lambda>cp (body, reply_to). encode_chat_message cp body reply_to" decode_chat_message
    "\<lambda>(body, reply_to). rust_string body" "\<lambda>x. x"
proof unfold_locales
  fix cp :: "chat_struct capnp" and x :: "string \<times> bytes option"
  obtain body reply_to where x: "x = (body, reply_to)" by (cases x)
  assume "capnp_lawful (\<lambda>s. s \<in> range (\<lambda>(body, reply_to). chat_struct_of body reply_to)) cp"
    and "case x of (body, reply_to) \<Rightarrow> rust_string body"
  moreover have "chat_struct_of body reply_to \<in> range (\<lambda>(body, reply_to). chat_struct_of body reply_to)"
    by (rule range_eqI [of _ _ "(body, reply_to)"]) simp
  ultimately show "decode_chat_message cp (case x of (body, reply_to) \<Rightarrow> encode_chat_message cp body reply_to) = Inr x"
    using x
    by (cases reply_to) (simp_all add: encode_chat_message_def decode_chat_message_def codec,
        simp_all add: chat_struct_of_def codec has_def)
qed auto

interpretation game_statuses: wire_format "range game_struct_of" encode_game_status decode_game_status
    game_ok stored_game
  by unfold_locales (simp_all add: encode_game_status_def decode_game_status_def codec)

interpretation presence_updates: wire_format
    "range (\<lambda>(now, status, game). \<lparr>ps_status = status, ps_game_status = set_game game, ps_timestamp = now\<rparr>)"
    "\<lambda>cp (status, game). encode_update cp now status game" decode_update
    "\<lambda>(status, game). case game of Some g \<Rightarrow> game_ok g | None \<Rightarrow> True"
    "\<lambda>(status, game). (status, map_option stored_game game)" for now :: u64
proof unfold_locales
  fix cp :: "presence_struct capnp" and x :: "u8 \<times> game_info option"
  obtain status game where x: "x = (status, game)" by (cases x)
  let ?s = "\<lparr>ps_status = status, ps_game_status = set_game game, ps_timestamp = now\<rparr>"
  assume a: "capnp_lawful (\<lambda>s. s \<in> range (\<lambda>(now, status, game).
      \<lparr>ps_status = status, ps_game_status = set_game game, ps_timestamp = now\<rparr>)) cp"
    and "case x of (status, game) \<Rightarrow> case game of Some g \<Rightarrow> game_ok g | None \<Rightarrow> True"
  moreover have "?s \<in> range (\<lambda>(now, status, game).
      \<lparr>ps_status = status, ps_game_status = set_game game, ps_timestamp = now\<rparr>)"
    by (rule range_eqI [of _ _ "(now, status, game)"]) simp
  ultimately show "decode_update cp (case x of (status, game) \<Rightarrow> encode_update cp now status game) =
      Inr (case x of (status, game) \<Rightarrow> (status, map_option stored_game game))"
    using x by (simp add: encode_update_def decode_update_def codec)
qed (auto simp: option.map_comp comp_def split: option.splits)

interpretation profiles: wire_format "range profile_struct_of" encode_profile decode_profile
    profile_ok stored_profile
  by unfold_locales (simp_all add: encode_profile_def decode_profile_def codec)

interpretation prekey_bundles: wire_format "range (\<lambda>b. prekey_struct_of (Target (wb_one_time_pre_key b)) b)"
    encode_prekey_bundle decode_prekey_bundle "\<lambda>_. True" "\<lambda>x. x"
  by unfold_locales (simp_all add: encode_prekey_bundle_def decode_prekey_bundle_def codec)

interpretation friend_requests: wire_format "range request_struct_of" encode_request decode_request
    request_ok "\<lambda>x. x"
  by unfold_locales
     (simp_all add: encode_request_def decode_request_def codec, simp add: request_struct_of_def request_ok_def codec)

interpretation friend_lists: wire_format "range friend_list_struct_of" encode_friend_list decode_friend_list
    "list_all friend_ok" "map stored_friend"
  by unfold_locales
     (simp_all add: encode_friend_list_def decode_friend_list_def codec friend_list_struct_of_def list_all_map_ok)

interpretation signalings: wire_format "range signaling_struct_of" encode_signaling decode_signaling
    "\<lambda>s. rust_string (vs_channel_id s)" "\<lambda>x. x"
  by unfold_locales
     (simp_all add: encode_signaling_def decode_signaling_def codec, simp add: signaling_struct_of_def codec)

interpretation account_headers: wire_format "range account_struct_of" encode_account_header decode_account_header
    header_ok stored_header
  by unfold_locales
     (simp_all add: encode_account_header_def decode_account_header_def codec,
      simp add: account_struct_of_def header_ok_def stored_header_def codec)

interpretation contacts: wire_format "range contact_struct_of" encode_contact_entry decode_contact_entry
    contact_ok "\<lambda>x. x"
  by unfold_locales
     (simp_all add: encode_contact_entry_def decode_contact_entry_def codec,
      simp add: contact_struct_of_def contact_ok_def codec)

interpretation chats: wire_format "range chat_list_struct_of" encode_chat_entry decode_chat_entry chat_ok "\<lambda>x. x"
  by unfold_locales
     (simp_all add: encode_chat_entry_def decode_chat_entry_def codec, simp add: chat_list_struct_of_def chat_ok_def codec)

interpretation conversations: wire_format "range conversation_struct_of" encode_conversation_header
    decode_conversation_header conversation_ok stored_conversation
  by unfold_locales
     (simp_all add: encode_conversation_header_def decode_conversation_header_def codec,
      simp add: conversation_struct_of_def conversation_ok_def stored_conversation_def codec)

end
