(* ===== verification/WireRecords.thy ===== *)
theory WireRecords
  imports Codecs SampleCodecs Capnp
begin

text \<open>
  The community record on the wire, and serialisers for the structs of the codec.
\<close>

section \<open>Sample serialisers\<close>

text \<open>
  Serialisers for the concrete instances of the theorems about Cap'n Proto: a field writes a
  value as a list of texts and reads it back from the front of a list; fields combine to pairs,
  lists, pointers and, along an isomorphism, records.
\<close>

record 'a field =
  put :: "'a \<Rightarrow> string list"
  get :: "string list \<Rightarrow> 'a \<times> string list"

definition field_ok :: "'a field \<Rightarrow> bool" where
  "field_ok f \<longleftrightarrow> (\<forall>x rest. get f (put f x @ rest) = (x, rest))"

named_theorems fields \<open>fields that read back what they write\<close>

lemma field_okD: "field_ok f \<Longrightarrow> get f (put f x @ rest) = (x, rest)"
  by (simp add: field_ok_def)

definition text_field :: "string field" where
  "text_field = \<lparr>put = (\<lambda>s. [s]), get = (\<lambda>ts. (hd ts, tl ts))\<rparr>"

lemma text_field_ok [fields]: "field_ok text_field"
  by (simp add: field_ok_def text_field_def)

text \<open>A field along an isomorphism.\<close>

definition iso_field :: "('b \<Rightarrow> 'a) \<Rightarrow> ('a \<Rightarrow> 'b) \<Rightarrow> 'b field \<Rightarrow> 'a field" where
  "iso_field build parts f =
     \<lparr>put = (\<lambda>x. put f (parts x)), get = (\<lambda>ts. case get f ts of (y, rest) \<Rightarrow> (build y, rest))\<rparr>"

lemma iso_field_ok [fields]: "field_ok f \<Longrightarrow> (\<And>x. build (parts x) = x) \<Longrightarrow> field_ok (iso_field build parts f)"
  by (simp add: field_ok_def iso_field_def)

definition pair_field :: "'a field \<Rightarrow> 'b field \<Rightarrow> ('a \<times> 'b) field" where
  "pair_field f g =
     \<lparr>put = (\<lambda>(x, y). put f x @ put g y),
      get = (\<lambda>ts. case get f ts of (x, rest) \<Rightarrow> case get g rest of (y, rest') \<Rightarrow> ((x, y), rest'))\<rparr>"

lemma pair_field_ok [fields]: "field_ok f \<Longrightarrow> field_ok g \<Longrightarrow> field_ok (pair_field f g)"
  by (simp add: field_ok_def pair_field_def split_def)

fun get_times :: "nat \<Rightarrow> (string list \<Rightarrow> 'a \<times> string list) \<Rightarrow> string list \<Rightarrow> 'a list \<times> string list" where
  "get_times 0 g ts = ([], ts)"
| "get_times (Suc n) g ts =
     (case g ts of (x, rest) \<Rightarrow> case get_times n g rest of (xs, rest') \<Rightarrow> (x # xs, rest'))"

definition list_field :: "'a field \<Rightarrow> 'a list field" where
  "list_field f =
     \<lparr>put = (\<lambda>xs. replicate (length xs) CHR ''x'' # concat (map (put f) xs)),
      get = (\<lambda>ts. get_times (length (hd ts)) (get f) (tl ts))\<rparr>"

lemma list_field_ok [fields]: "field_ok f \<Longrightarrow> field_ok (list_field f)"
proof -
  assume f: "field_ok f"
  have "get_times (length xs) (get f) (concat (map (put f) xs) @ rest) = (xs, rest)" for xs rest
    by (induction xs) (simp_all add: field_okD [OF f])
  then show ?thesis by (simp add: field_ok_def list_field_def)
qed

definition ptr_field :: "'a field \<Rightarrow> 'a ptr field" where
  "ptr_field f =
     \<lparr>put = (\<lambda>p. case p of Null \<Rightarrow> [''null''] | Target x \<Rightarrow> ''to'' # put f x | Malformed e \<Rightarrow> [''bad'', e]),
      get = (\<lambda>ts. if hd ts = ''null'' then (Null, tl ts)
                  else if hd ts = ''to'' then (case get f (tl ts) of (x, rest) \<Rightarrow> (Target x, rest))
                  else (Malformed (hd (tl ts)), tl (tl ts)))\<rparr>"

lemma ptr_field_ok [fields]: "field_ok f \<Longrightarrow> field_ok (ptr_field f)"
  by (simp add: field_ok_def ptr_field_def split: ptr.split)

definition word_field :: "'a :: len word field" where
  "word_field = \<lparr>put = (\<lambda>w. [replicate (unat w) CHR ''x'']), get = (\<lambda>ts. (of_nat (length (hd ts)), tl ts))\<rparr>"

lemma word_field_ok [fields]: "field_ok word_field"
  by (simp add: field_ok_def word_field_def)

definition bool_field :: "bool field" where
  "bool_field = \<lparr>put = (\<lambda>b. [if b then ''1'' else []]), get = (\<lambda>ts. (hd ts \<noteq> [], tl ts))\<rparr>"

lemma bool_field_ok [fields]: "field_ok bool_field"
  by (simp add: field_ok_def bool_field_def)

definition int_field :: "int field" where
  "int_field =
     \<lparr>put = (\<lambda>i. [replicate (nat i) CHR ''x'', replicate (nat (- i)) CHR ''x'']),
      get = (\<lambda>ts. (int (length (hd ts)) - int (length (hd (tl ts))), tl (tl ts)))\<rparr>"

lemma int_field_ok [fields]: "field_ok int_field"
  by (simp add: field_ok_def int_field_def)

definition bytes_field :: "bytes field" where
  "bytes_field = iso_field as_bytes bytes_as_string text_field"

lemma as_bytes_bytes_as_string [simp]: "as_bytes (bytes_as_string b) = b"
  unfolding as_bytes_def bytes_as_string_def map_map o_def
  by (rule map_idI) simp

lemma bytes_field_ok [fields]: "field_ok bytes_field"
  unfolding bytes_field_def by (rule iso_field_ok [OF text_field_ok]) simp

abbreviation data_field :: "bytes ptr field" where "data_field \<equiv> ptr_field bytes_field"

section \<open>A lawful serialiser\<close>

definition sample_texts :: error_texts where
  "sample_texts = \<lparr>utf8_text = (\<lambda>_. ''invalid utf-8''), enum_text = (\<lambda>_. ''not in schema'')\<rparr>"

definition sample_capnp :: "'s field \<Rightarrow> 's capnp" where
  "sample_capnp f =
     \<lparr>texts = sample_texts, write_message = (\<lambda>s. concat (map text_bytes (put f s))),
      read_message = (\<lambda>b. Inr (fst (get f (texts_of_bytes [] b))))\<rparr>"

lemma sample_capnp_lawful: "field_ok f \<Longrightarrow> capnp_lawful P (sample_capnp f)"
  using field_okD [of f _ "[]"]
  by (simp add: capnp_lawful_def sample_capnp_def texts_of_bytes_texts)

interpretation communities: wire_format "range (\<lambda>(meta, chans, rls). community_struct_of meta chans rls)"
    "\<lambda>cp (meta, chans, rls). encode_community cp meta chans rls" "\<lambda>cp b. decode_community cp b owner"
    "\<lambda>(meta, chans, rls). metadata_ok meta \<and> list_all channel_ok chans \<and> list_all (\<lambda>r. rust_string (rd_name r)) rls"
    "\<lambda>(meta, chans, rls). (stored_metadata owner meta, map stored_channel chans, rls)" for owner :: string
proof unfold_locales
  fix cp :: "community_struct capnp" and x :: "community_metadata \<times> channel_entry list \<times> role_definition list"
  let ?of = "\<lambda>(meta, chans, rls). community_struct_of meta chans rls"
  obtain meta chans rls where x: "x = (meta, chans, rls)" by (cases x)
  assume "capnp_lawful (\<lambda>s. s \<in> range ?of) cp"
    and "case x of (meta, chans, rls) \<Rightarrow>
      metadata_ok meta \<and> list_all channel_ok chans \<and> list_all (\<lambda>r. rust_string (rd_name r)) rls"
  moreover have "community_struct_of meta chans rls \<in> range ?of"
    by (rule range_eqI [of _ _ "(meta, chans, rls)"]) simp
  ultimately show "decode_community cp (case x of (meta, chans, rls) \<Rightarrow> encode_community cp meta chans rls) owner =
      Inr (case x of (meta, chans, rls) \<Rightarrow> (stored_metadata owner meta, map stored_channel chans, rls))"
    using x
    by (simp add: encode_community_def decode_community_def codec Let_def)
       (simp add: community_struct_of_def codec metadata_ok_def stored_metadata_def)
qed (auto simp: list_all_map_ok stored_ok)

text \<open>
  C22. A community record survives the wire. What is decoded from the bytes of an encoded
  community is its metadata, channels with their permission overwrites, and roles, in order and
  unchanged up to what the schema cannot hold: absent and empty optional texts are the same, a
  channel that is not a voice channel is a text channel, and the owner is the one the reader
  names. The encodings of the channels or the roles alone decode to just these.
\<close>

theorem community_record_roundtrip:
  assumes "capnp_lawful (\<lambda>s. s \<in> range (\<lambda>(meta, chans, rls). community_struct_of meta chans rls)) cp"
    and "metadata_ok meta" and "list_all channel_ok chans" and "list_all (\<lambda>r. rust_string (rd_name r)) rls"
  shows "decode_community cp (encode_community cp meta chans rls) owner =
      Inr (stored_metadata owner meta, map stored_channel chans, rls) \<and>
    decode_community cp (encode_channels cp chans) owner =
      Inr (empty_metadata\<lparr>md_owner_key := owner\<rparr>, map stored_channel chans, []) \<and>
    decode_community cp (encode_roles cp rls) owner = Inr (empty_metadata\<lparr>md_owner_key := owner\<rparr>, [], rls)"
proof -
  have m: "metadata_ok empty_metadata" "stored_metadata owner empty_metadata = empty_metadata\<lparr>md_owner_key := owner\<rparr>"
    by (simp_all add: metadata_ok_def stored_metadata_def empty_metadata_def rust_option_def)
  show ?thesis
    using communities.decode_encode [OF assms(1), of "(meta, chans, rls)" owner] assms(2-4) m
      communities.decode_encode [OF assms(1), of "(empty_metadata, chans, [])" owner]
      communities.decode_encode [OF assms(1), of "(empty_metadata, [], rls)" owner]
    by (simp add: encode_channels_def encode_roles_def)
qed

section \<open>Sample structs\<close>

definition overwrite_field :: "overwrite_struct field" where
  "overwrite_field = iso_field
     (\<lambda>(a, b, c, d). \<lparr>os_target_type = a, os_target_id = b, os_allow = c, os_deny = d\<rparr>)
     (\<lambda>s. (os_target_type s, os_target_id s, os_allow s, os_deny s))
     (pair_field word_field (pair_field data_field (pair_field word_field word_field)))"

definition channel_field :: "channel_struct field" where
  "channel_field = iso_field
     (\<lambda>(a, b, c, d, e, f). \<lparr>hs_id = a, hs_name = b, hs_type = c, hs_sort_order = d,
        hs_latest_message_key = e, hs_permission_overwrites = f\<rparr>)
     (\<lambda>s. (hs_id s, hs_name s, hs_type s, hs_sort_order s, hs_latest_message_key s, hs_permission_overwrites s))
     (pair_field data_field (pair_field data_field (pair_field word_field (pair_field word_field
       (pair_field data_field (ptr_field (list_field overwrite_field)))))))"

definition role_field :: "role_struct field" where
  "role_field = iso_field
     (\<lambda>(a, b, c, d, e, f, g). \<lparr>ls_id = a, ls_name = b, ls_color = c, ls_permissions = d, ls_position = e,
        ls_hoist = f, ls_mentionable = g\<rparr>)
     (\<lambda>s. (ls_id s, ls_name s, ls_color s, ls_permissions s, ls_position s, ls_hoist s, ls_mentionable s))
     (pair_field word_field (pair_field data_field (pair_field word_field (pair_field word_field
       (pair_field int_field (pair_field bool_field bool_field))))))"

definition community_field :: "community_struct field" where
  "community_field = iso_field
     (\<lambda>(a, b, c, d, e, f). \<lparr>ms_name = a, ms_description = b, ms_icon_hash = c, ms_created_at = d,
        ms_channels = e, ms_roles = f\<rparr>)
     (\<lambda>s. (ms_name s, ms_description s, ms_icon_hash s, ms_created_at s, ms_channels s, ms_roles s))
     (pair_field data_field (pair_field data_field (pair_field data_field (pair_field word_field
       (pair_field (ptr_field (list_field channel_field)) (ptr_field (list_field role_field)))))))"

lemma struct_fields_ok [fields]:
  "field_ok overwrite_field" "field_ok channel_field" "field_ok role_field" "field_ok community_field"
proof -
  show o: "field_ok overwrite_field" unfolding overwrite_field_def by (intro fields) simp
  show c: "field_ok channel_field" unfolding channel_field_def by (intro fields o) simp
  show r: "field_ok role_field" unfolding role_field_def by (intro fields) simp
  show "field_ok community_field" unfolding community_field_def by (intro fields c r) simp
qed

definition sample_metadata :: community_metadata where
  "sample_metadata = \<lparr>md_name = ''Guild'', md_description = Some ''raids'', md_icon_hash = None,
     md_created_at = 7, md_owner_key = ''alice'', md_last_refreshed = 3\<rparr>"

definition sample_channel :: channel_entry where
  "sample_channel = \<lparr>ce_id = ''c1'', ce_name = ''general'', ce_channel_type = ''text'', ce_sort_order = 1,
     ce_latest_message_key = None,
     ce_permission_overwrites = [\<lparr>ow_target_type = OwMember, ow_target_id = ''bob'', ow_allow = 1, ow_deny = 2\<rparr>]\<rparr>"

definition sample_role :: role_definition where
  "sample_role = \<lparr>rd_id = 0, rd_name = ''everyone'', rd_color = 0, rd_permissions = 1024, rd_position = 0,
     rd_hoist = False, rd_mentionable = True\<rparr>"

theorem community_record_roundtrip_witness:
  "decode_community (sample_capnp community_field)
      (encode_community (sample_capnp community_field) sample_metadata [sample_channel] [sample_role]) ''alice'' =
    Inr (sample_metadata\<lparr>md_last_refreshed := 0\<rparr>, [sample_channel], [sample_role])"
proof -
  have "metadata_ok sample_metadata" "list_all channel_ok [sample_channel]"
    "list_all (\<lambda>r. rust_string (rd_name r)) [sample_role]"
    by (auto simp: metadata_ok_def sample_metadata_def channel_ok_def sample_channel_def sample_role_def
        rust_option_def overwrite_ok_def intro!: ascii_rust_string)
  from community_record_roundtrip [OF sample_capnp_lawful [OF struct_fields_ok(4)] this, of "''alice''"]
  show ?thesis by (simp add: stored_metadata_def sample_metadata_def stored_channel_def sample_channel_def)
qed

end
