(* ===== verification/Friends.thy ===== *)
theory Friends
  imports DhtRecords WireRecords
begin

text \<open>
  The friend list of \<open>DhtRecords\<close> is a list edited in place, up to what the codec does not keep.
\<close>

section \<open>Values by textual key\<close>

lemma reliable_get_value:
  assumes "dht_reliable rc net" and "rc_parse_key rc key = Inr k" and "records net w k = Some r"
    and "readable r" and "subkey_of r i"
    and "\<And>w'. records net w' = records net w \<Longrightarrow> Q (rec_values r i) w'"
  shows "outcome (get_value rc key i) Q E w"
  unfolding get_value_def parse_record_key_def assms(2) 
  by (simp add: wp, rule reliable_get [OF assms(1,3-5)], rule assms(6))

lemma reliable_set_value:
  assumes "dht_reliable rc net" and "rc_parse_key rc key = Inr k" and "records net w k = Some r"
    and "writable r" and "subkey_of r i"
    and "\<And>w'. records net w' = (records net w)(k \<mapsto> write_value i b r) \<Longrightarrow> Q () w'"
  shows "outcome (set_value rc key i b) Q E w"
  unfolding set_value_def parse_record_key_def assms(2) 
  by (simp add: wp, rule reliable_set [OF assms(1,3-5)], rule assms(6))

section \<open>The friend list\<close>

abbreviation friend_codec_ok :: "friend_list_struct capnp \<Rightarrow> bool" where
  "friend_codec_ok c \<equiv> capnp_lawful (\<lambda>s. s \<in> range friend_list_struct_of) c"

text \<open>Everything that is read is in the form the codec leaves alone.\<close>

lemma nonempty_kept: "kept (nonempty s) = nonempty s"
  by (simp add: kept_def nonempty_def)

lemma rust_string_decoded: "utf8_valid b \<Longrightarrow> rust_string (bytes_as_string b)"
  by (simp add: rust_string_def)

lemma optional_text_decoded: "optional_text tx p = Inr s \<Longrightarrow> rust_option s \<and> kept s = s"
  by (cases p)
     (auto simp: optional_text_def has_def get_text_def follow_def text_to_string_def nonempty_kept
       rust_option_def nonempty_def rust_string_decoded split: if_splits)

lemma try_result_Inr_iff: "try_result r f = Inr y \<longleftrightarrow> (\<exists>x. r = Inr x \<and> f x = Inr y)"
  by (cases r) simp_all

lemma read_friend_decoded: "read_friend_struct tx fe = Inr f \<Longrightarrow> friend_ok f \<and> stored_friend f = f"
  by (auto simp: read_friend_struct_def try_result_Inr_iff friend_ok_def stored_friend_def
      rust_string_decoded dest: optional_text_decoded split: if_splits)

lemma collect_results_all:
  "collect_results f xs = Inr ys \<Longrightarrow> (\<And>x y. f x = Inr y \<Longrightarrow> P y) \<Longrightarrow> list_all P ys"
  by (induction xs arbitrary: ys) (auto simp: try_result_Inr_iff)

lemma decode_friend_list_decoded:
  assumes "decode_friend_list c b = Inr fs"
  shows "list_all (\<lambda>f. friend_ok f \<and> stored_friend f = f) fs"
  using assms unfolding decode_friend_list_def try_result_Inr_iff
  by (auto elim!: collect_results_all read_friend_decoded)

definition friends_at ::
  "('w, 'k, 'p) network \<Rightarrow> friend_list_struct capnp \<Rightarrow> 'k \<Rightarrow> 'w \<Rightarrow> 'p dht_record \<Rightarrow> friend_entry list \<Rightarrow> bool" where
  "friends_at net c k w r fs \<longleftrightarrow> records net w k = Some r \<and> writable r \<and> subkey_of r 0 \<and>
     (case rec_values r 0 of None \<Rightarrow> fs = [] | Some b \<Rightarrow> decode_friend_list c b = Inr fs)"

datatype friend_edit = AddFriend friend_entry | RemoveFriend string
  | UpdateFriend string "string option" "string option"

fun run_friend_edit ::
  "('w, 'k, 'p) routing_context \<Rightarrow> friend_list_struct capnp \<Rightarrow> string \<Rightarrow> friend_edit \<Rightarrow> ('w, protocol_error, unit) io" where
  "run_friend_edit rc c key (AddFriend e) = dht_add_friend rc c key e"
| "run_friend_edit rc c key (RemoveFriend pk) = dht_remove_friend rc c key pk"
| "run_friend_edit rc c key (UpdateFriend pk nickname grp) = dht_update_friend rc c key pk nickname grp"

fun edited_friends :: "friend_edit \<Rightarrow> friend_entry list \<Rightarrow> friend_entry list" where
  "edited_friends (AddFriend e) fs =
     (if f_public_key e \<in> f_public_key ` set fs then fs else fs @ [stored_friend e])"
| "edited_friends (RemoveFriend pk) fs = filter (\<lambda>f. f_public_key f \<noteq> pk) fs"
| "edited_friends (UpdateFriend pk nickname grp) fs =
     update_first (\<lambda>f. f_public_key f = pk) (\<lambda>f. stored_friend (edit_friend nickname grp f)) fs"

text \<open>The texts of an edit are Rust strings.\<close>

fun friend_edit_ok :: "friend_edit \<Rightarrow> bool" where
  "friend_edit_ok (AddFriend e) = friend_ok e"
| "friend_edit_ok (RemoveFriend pk) = True"
| "friend_edit_ok (UpdateFriend pk nickname grp) = (rust_option nickname \<and> rust_option grp)"

lemma stored_friend_key [simp]: "f_public_key (stored_friend f) = f_public_key f"
  by (simp add: stored_friend_def)

lemma edit_friend_key [simp]: "f_public_key (edit_friend nickname grp f) = f_public_key f"
  by (simp add: edit_friend_def Let_def)

lemma edited_friends_distinct:
  "distinct (map f_public_key fs) \<Longrightarrow> distinct (map f_public_key (edited_friends edit fs))"
  by (cases edit) auto

lemma read_friend_list_outcome:
  assumes R: "dht_reliable rc net" and K: "rc_parse_key rc key = Inr k" and F: "friends_at net c k w r fs"
    and Q: "\<And>w'. records net w' = records net w \<Longrightarrow> Q fs w'"
  shows "outcome (read_friend_list rc c key) Q E w"
  unfolding read_friend_list_def wp
  by (rule reliable_get_value [OF R K])
     (use F Q in \<open>auto simp: friends_at_def wp writable_readable split: option.splits\<close>)

lemma friends_at_ok:
  "friends_at net c k w r fs \<Longrightarrow> list_all friend_ok fs \<and> map stored_friend fs = fs"
  using decode_friend_list_decoded [of c "the (rec_values r 0)" fs]
  by (auto simp: friends_at_def list_all_iff intro!: map_idI split: option.splits)

lemma set_friends_outcome:
  assumes R: "dht_reliable rc net" and C: "friend_codec_ok c" and K: "rc_parse_key rc key = Inr k"
    and F: "friends_at net c k w0 r fs" and same: "records net w = records net w0"
    and ok: "list_all friend_ok fs'"
    and Q: "\<And>w' r'. friends_at net c k w' r' (map stored_friend fs') \<Longrightarrow> Q () w'"
  shows "outcome (set_value rc key 0 (encode_friend_list c fs')) Q E w"
proof (rule reliable_set_value [OF R K])
  show "records net w k = Some r" "writable r" "subkey_of r 0" using F same by (simp_all add: friends_at_def)
  show "Q () w'" if "records net w' = (records net w)(k \<mapsto> write_value 0 (encode_friend_list c fs') r)" for w'
    using that F friend_lists.decode_encode [OF C ok] Q [of w' "write_value 0 (encode_friend_list c fs') r"]
    by (simp add: friends_at_def)
qed

lemma map_stored_update:
  "map stored_friend fs = fs \<Longrightarrow> map stored_friend (update_first P g fs) = update_first P (\<lambda>f. stored_friend (g f)) fs"
  by (induction fs) auto

lemma list_all_update_first:
  "list_all P xs \<Longrightarrow> (\<And>x. P x \<Longrightarrow> P (g x)) \<Longrightarrow> list_all P (update_first Q g xs)"
  by (induction xs) auto

lemma edit_friend_ok: "rust_option nickname \<Longrightarrow> rust_option grp \<Longrightarrow> friend_ok f \<Longrightarrow> friend_ok (edit_friend nickname grp f)"
  by (simp add: edit_friend_def Let_def friend_ok_def)

lemma known_friend_iff: "list_ex (\<lambda>f. f_public_key f = pk) fs \<longleftrightarrow> pk \<in> f_public_key ` set fs"
  by (induction fs) auto

lemma run_friend_edit_outcome:
  assumes R: "dht_reliable rc net" and C: "friend_codec_ok c" and K: "rc_parse_key rc key = Inr k"
    and F: "friends_at net c k w r fs" and ok: "friend_edit_ok edit"
  shows "outcome (run_friend_edit rc c key edit) (\<lambda>_ w'. \<exists>r'. friends_at net c k w' r' (edited_friends edit fs)) E w"
proof (cases edit)
  case (AddFriend e)
  show ?thesis
    unfolding AddFriend run_friend_edit.simps dht_add_friend_def wp
  proof (rule read_friend_list_outcome [OF R K F])
    fix w1 assume w1: "records net w1 = records net w"
    show "outcome (if list_ex (\<lambda>f. f_public_key f = f_public_key e) fs then ok ()
        else set_value rc key 0 (encode_friend_list c (fs @ [e])))
      (\<lambda>_ w'. \<exists>r'. friends_at net c k w' r' (edited_friends (AddFriend e) fs)) E w1"
    proof (cases "f_public_key e \<in> f_public_key ` set fs")
      case True
      with F w1 show ?thesis by (auto simp: wp known_friend_iff friends_at_def intro!: exI [of _ r])
    next
      case False
      have "list_all friend_ok (fs @ [e])" "map stored_friend (fs @ [e]) = fs @ [stored_friend e]"
        using friends_at_ok [OF F] ok AddFriend by simp_all
      with False show ?thesis
        by (auto simp: known_friend_iff intro!: set_friends_outcome [OF R C K F w1])
    qed
  qed
next
  case (RemoveFriend pk)
  have "list_all friend_ok (filter (\<lambda>f. f_public_key f \<noteq> pk) fs)"
    "map stored_friend (filter (\<lambda>f. f_public_key f \<noteq> pk) fs) = filter (\<lambda>f. f_public_key f \<noteq> pk) fs"
    using friends_at_ok [OF F] by (auto simp: list_all_iff map_eq_conv [of _ _ id, simplified] intro!: map_idI dest: map_eq_conv [THEN iffD1])
  then show ?thesis
    unfolding RemoveFriend run_friend_edit.simps dht_remove_friend_def wp
    by (intro read_friend_list_outcome [OF R K F] set_friends_outcome [OF R C K F]) auto
next
  case (UpdateFriend pk nickname grp)
  let ?fs = "update_first (\<lambda>f. f_public_key f = pk) (edit_friend nickname grp) fs"
  have "list_all friend_ok ?fs"
    "map stored_friend ?fs = edited_friends (UpdateFriend pk nickname grp) fs"
    using friends_at_ok [OF F] ok UpdateFriend
    by (simp_all add: list_all_update_first edit_friend_ok map_stored_update)
  then show ?thesis
    unfolding UpdateFriend run_friend_edit.simps dht_update_friend_def wp
    by (intro read_friend_list_outcome [OF R K F] set_friends_outcome [OF R C K F]) auto
qed

text \<open>A sequence of edits, stopping at the first error as the callers do.\<close>

fun run_friend_edits ::
  "('w, 'k, 'p) routing_context \<Rightarrow> friend_list_struct capnp \<Rightarrow> string \<Rightarrow> friend_edit list \<Rightarrow> ('w, protocol_error, unit) io" where
  "run_friend_edits rc c key [] = ok ()"
| "run_friend_edits rc c key (e # es) = io_bind (run_friend_edit rc c key e) (\<lambda>_. run_friend_edits rc c key es)"

lemma run_friend_edits_outcome:
  assumes R: "dht_reliable rc net" and C: "friend_codec_ok c" and K: "rc_parse_key rc key = Inr k"
    and "friends_at net c k w r fs" and "list_all friend_edit_ok edits"
  shows "outcome (run_friend_edits rc c key edits)
    (\<lambda>_ w'. \<exists>r'. friends_at net c k w' r' (fold edited_friends edits fs)) E w"
  using assms(4,5)
proof (induction edits arbitrary: w r fs)
  case Nil
  then show ?case by (auto simp: wp)
next
  case (Cons e es)
  have "friend_edit_ok e" using Cons.prems by simp
  show ?case
    unfolding run_friend_edits.simps wp
    by (rule outcome_mono [OF run_friend_edit_outcome [OF R C K Cons.prems(1) \<open>friend_edit_ok e\<close>]])
       (use Cons in \<open>auto\<close>)
qed

text \<open>
  The friend list in the DHT is a list edited in place. From a record that holds the friends
  \<open>fs\<close>, any sequence of additions, removals and updates succeeds, and reading the list back
  gives the list edited in the same way: an addition of a known key changes nothing, an update
  changes the nickname and the group that are given, and public keys stay unique. The bytes are
  those of the codec, so the key of a friend's profile is not kept and an empty nickname or group
  is none.
\<close>

theorem friend_list_is_edited_in_place:
  assumes R: "dht_reliable rc net" and C: "friend_codec_ok c" and K: "rc_parse_key rc key = Inr k"
    and F: "friends_at net c k w r fs" and ok: "list_all friend_edit_ok edits"
  shows "\<exists>w'. run_friend_edits rc c key edits w = (Inr (), w') \<and>
    fst (read_friend_list rc c key w') = Inr (fold edited_friends edits fs) \<and>
    (distinct (map f_public_key fs) \<longrightarrow> distinct (map f_public_key (fold edited_friends edits fs)))"
proof -
  have "returns (run_friend_edits rc c key edits)
      (\<lambda>_ w'. \<exists>r'. friends_at net c k w' r' (fold edited_friends edits fs)) w"
    unfolding returns_def by (rule run_friend_edits_outcome [OF R C K F ok])
  then obtain w' r' where run: "run_friend_edits rc c key edits w = (Inr (), w')"
      and F': "friends_at net c k w' r' (fold edited_friends edits fs)"
    by (elim returnsE) auto
  have "returns (read_friend_list rc c key) (\<lambda>v _. v = fold edited_friends edits fs) w'"
    unfolding returns_def by (rule read_friend_list_outcome [OF R K F']) simp
  then have "fst (read_friend_list rc c key w') = Inr (fold edited_friends edits fs)"
    by (elim returnsE) auto
  moreover have "distinct (map f_public_key (fold edited_friends es xs))"
    if "distinct (map f_public_key xs)" for es xs
    using that by (induction es arbitrary: xs) (simp_all add: edited_friends_distinct)
  ultimately show ?thesis using run by auto
qed

definition friend_list_field :: "friend_list_struct field" where
  "friend_list_field = iso_field (\<lambda>p. \<lparr>fl_friends = p\<rparr>) fl_friends
     (ptr_field (list_field (iso_field
       (\<lambda>(a, b, c, d). \<lparr>fs_public_key = a, fs_nickname = b, fs_group_name = c, fs_added_at = d\<rparr>)
       (\<lambda>s. (fs_public_key s, fs_nickname s, fs_group_name s, fs_added_at s))
       (pair_field data_field (pair_field data_field (pair_field data_field word_field))))))"

lemma friend_list_field_ok: "field_ok friend_list_field"
  unfolding friend_list_field_def by (intro fields) simp_all

definition empty_friends :: "nat dht_record" where
  "empty_friends = \<lparr>rec_owner = 1, rec_count = 1, rec_values = Map.empty, rec_opened = Some (Some 1)\<rparr>"

definition sample_friend_entry :: friend_entry where
  "sample_friend_entry = \<lparr>f_public_key = ''bob'', f_nickname = None, f_group = None, f_added_at = 5, f_profile_dht_key = Some ''k''\<rparr>"

theorem friend_list_is_edited_in_place_witness:
  "\<exists>w'. run_friend_edits mem_rc (sample_capnp friend_list_field) ''f''
      [AddFriend sample_friend_entry, UpdateFriend ''bob'' (Some ''Bobby'') None, AddFriend sample_friend_entry] [(''f'', empty_friends)] = (Inr (), w') \<and>
    fst (read_friend_list mem_rc (sample_capnp friend_list_field) ''f'' w') = Inr [sample_friend_entry\<lparr>f_nickname := Some ''Bobby'', f_profile_dht_key := None\<rparr>]"
proof -
  have F: "friends_at mem_net (sample_capnp friend_list_field) ''f'' [(''f'', empty_friends)] empty_friends []"
    by (simp add: friends_at_def empty_friends_def writable_def subkey_of_def)
  have K: "rc_parse_key mem_rc ''f'' = Inr ''f''" by simp
  have E: "list_all friend_edit_ok [AddFriend sample_friend_entry, UpdateFriend ''bob'' (Some ''Bobby'') None, AddFriend sample_friend_entry]"
    by (simp add: sample_friend_entry_def friend_ok_def rust_option_def ascii_rust_string)
  show ?thesis
    using friend_list_is_edited_in_place [OF mem_reliable sample_capnp_lawful [OF friend_list_field_ok] K F E]
    by (simp add: edit_friend_def sample_friend_entry_def Let_def stored_friend_def)
qed

end
