(* ===== verification/Histories.thy ===== *)
theory Histories
  imports Friends
begin

text \<open>
  The batches of a channel are a history, read newest first and extended at its newest end.
\<close>

section \<open>Histories\<close>

text \<open>The batches \<open>bs\<close>, newest first, of the chain that starts at a key.\<close>

definition batch_at ::
  "('w, 'k, 'p) routing_context \<Rightarrow> ('w, 'k, 'p) network \<Rightarrow> message_batch json \<Rightarrow> 'w \<Rightarrow> string \<Rightarrow> 'k
   \<Rightarrow> message_batch \<Rightarrow> bool" where
  "batch_at rc net j w key k b \<longleftrightarrow> rc_parse_key rc key = Inr k \<and>
     (\<exists>r v. records net w k = Some r \<and> readable r \<and> subkey_of r 0 \<and> rec_values r 0 = Some v \<and>
        from_json j v = Inr b)"

fun chain_at ::
  "('w, 'k, 'p) routing_context \<Rightarrow> ('w, 'k, 'p) network \<Rightarrow> message_batch json \<Rightarrow> 'w \<Rightarrow> string option
   \<Rightarrow> 'k list \<Rightarrow> message_batch list \<Rightarrow> bool" where
  "chain_at rc net j w (Some key) (k # ks) (b # bs) \<longleftrightarrow>
     batch_at rc net j w key k b \<and> chain_at rc net j w (prev_record_key b) ks bs"
| "chain_at rc net j w None [] [] \<longleftrightarrow> True"
| "chain_at rc net j w _ _ _ \<longleftrightarrow> False"

definition history_of :: "message_batch list \<Rightarrow> dht_channel_message list" where
  "history_of bs = concat (map (\<lambda>b. rev (batch_messages b)) bs)"

lemma batch_at_frame:
  "batch_at rc net j w key k b \<Longrightarrow> records net w' k = records net w k \<Longrightarrow> batch_at rc net j w' key k b"
  by (simp add: batch_at_def)

lemma chain_at_frame:
  assumes "chain_at rc net j w start ks bs" and "\<And>k. k \<in> set ks \<Longrightarrow> records net w' k = records net w k"
  shows "chain_at rc net j w' start ks bs"
  using assms
  by (induction rc net j w start ks bs rule: chain_at.induct) (auto intro: batch_at_frame)

lemma read_batch_outcome:
  assumes R: "dht_reliable rc net" and B: "batch_at rc net j w key k b"
    and Q: "\<And>w'. records net w' = records net w \<Longrightarrow> Q b w'"
  shows "outcome (read_batch rc j key) Q E w"
proof -
  obtain r v where r: "rc_parse_key rc key = Inr k" "records net w k = Some r" "readable r"
      "subkey_of r 0" "rec_values r 0 = Some v" "from_json j v = Inr b"
    using B by (auto simp: batch_at_def)
  show ?thesis
    unfolding read_batch_def wp
    by (rule reliable_get_value [OF R r(1-4)]) (use r Q in \<open>simp add: wp\<close>)
qed

lemma take_append_history:
  "length acc \<le> n \<Longrightarrow> take n ((acc @ take (n - length acc) xs) @ ys) = take n (acc @ xs @ ys)"
  by (cases "n - length acc \<le> length xs") simp_all

text \<open>The loop ends with one unit of fuel more than there are batches.\<close>

lemma history_loop_chain:
  assumes R: "dht_reliable rc net" and "chain_at rc net j w start ks bs" and "length bs < fuel"
    and "length acc \<le> limit"
  shows "\<exists>w'. history_loop fuel rc j limit acc start w = Some (Inr (take limit (acc @ history_of bs)), w') \<and>
    records net w' = records net w"
  using assms(2-4)
proof (induction bs arbitrary: start ks w fuel acc)
  case Nil
  then have "start = None" by (cases start; cases ks) simp_all
  with Nil show ?case by (simp add: history_of_def)
next
  case (Cons b bs)
  from Cons.prems obtain key k ks' fuel' where s: "start = Some key" "ks = k # ks'" "fuel = Suc fuel'"
    by (cases start; cases ks; cases fuel) simp_all
  have B: "batch_at rc net j w key k b" and C: "chain_at rc net j w (prev_record_key b) ks' bs"
    using Cons.prems s by simp_all
  show ?case
  proof (cases "limit \<le> length acc")
    case True
    then show ?thesis using s Cons.prems by simp
  next
    case False
    have "returns (read_batch rc j key) (\<lambda>x w'. x = b \<and> records net w' = records net w) w"
      unfolding returns_def by (rule read_batch_outcome [OF R B]) simp
    then obtain w1 where w1: "read_batch rc j key w = (Inr b, w1)" "records net w1 = records net w"
      by (elim returnsE) auto
    let ?acc = "acc @ take (limit - length acc) (rev (batch_messages b))"
    have C1: "chain_at rc net j w1 (prev_record_key b) ks' bs"
      by (rule chain_at_frame [OF C]) (simp add: w1)
    have "length bs < fuel'" "length ?acc \<le> limit" using Cons.prems s by simp_all
    from Cons.IH [OF C1 this] obtain w' where
      "history_loop fuel' rc j limit ?acc (prev_record_key b) w1 =
        Some (Inr (take limit (?acc @ history_of bs)), w')" "records net w' = records net w1"
      by blast
    then show ?thesis
      using s False w1 take_append_history [of acc limit "rev (batch_messages b)" "history_of bs"] Cons.prems
      by (simp add: history_of_def)
  qed
qed

section \<open>Appending a message\<close>

lemma write_batch_outcome:
  assumes R: "dht_reliable rc net" and J: "json_roundtrip j" and K: "rc_parse_key rc key = Inr k"
    and r: "records net w k = Some r" "writable r" "subkey_of r 0"
    and Q: "\<And>w' r'. \<lbrakk>records net w' = (records net w)(k \<mapsto> r'); batch_at rc net j w' key k b;
      writable r'; subkey_of r' 0\<rbrakk> \<Longrightarrow> Q () w'"
  shows "outcome (write_batch rc j key b) Q E w"
proof -
  obtain v where v: "to_json j b = Inr v" "from_json j v = Inr b" using J by (rule json_roundtripE)
  have "outcome (set_value rc key 0 v) Q E w"
  proof (rule reliable_set_value [OF R K r])
    fix w' assume "records net w' = (records net w)(k \<mapsto> write_value 0 v r)"
    with v r K show "Q () w'"
      by (intro Q [of w' "write_value 0 v r"]) (auto simp: batch_at_def writable_readable)
  qed
  with v show ?thesis by (simp add: write_batch_def wp)
qed

lemma create_record_one_outcome:
  assumes R: "dht_reliable rc net"
    and Q: "\<And>w' p. \<lbrakk>records net w (key_of net p 1) = None;
      records net w' = (records net w)(key_of net p 1 \<mapsto> new_record p 1)\<rbrakk>
      \<Longrightarrow> Q (rc_show_key rc (key_of net p 1), Some p) w'"
  shows "outcome (create_record rc 1) Q E w"
proof -
  have one: "(1 :: u16) \<noteq> 0" "unat (1 :: u16) \<le> max_subkeys" by (simp_all add: max_subkeys_def)
  have s: "dflt_schema rc 1 = ok 1"
    using reliable_schema [OF R one] by (simp add: dflt_schema_def subkey_count_u16_def)
  have "outcome (rc_create rc 1 None) (\<lambda>(key, keypair). Q (rc_show_key rc key, keypair))
      (\<lambda>e. E (dht_error ''create_dht_record'' e)) w"
    by (rule reliable_create_own [OF R one]) (use Q in auto)
  then show ?thesis by (simp add: create_record_def s wp split_def)
qed

lemma chain_at_live:
  "chain_at rc net j w start ks bs \<Longrightarrow> k \<in> set ks \<Longrightarrow> records net w k \<noteq> None"
  by (induction rc net j w start ks bs rule: chain_at.induct) (auto simp: batch_at_def)

text \<open>The newest batch of the chain is a record this node can write.\<close>

definition writable_head :: "('w, 'k, 'p) network \<Rightarrow> 'w \<Rightarrow> 'k list \<Rightarrow> bool" where
  "writable_head net w ks \<longleftrightarrow> (\<exists>r. records net w (hd ks) = Some r \<and> writable r)"

lemma append_message_outcome:
  assumes R: "dht_reliable rc net" and J: "json_roundtrip j"
    and C: "chain_at rc net j w (Some key) ks bs" and D: "distinct ks" and W: "writable_head net w ks"
  shows "outcome (append_message rc j key m)
    (\<lambda>res w'. (res = None \<longleftrightarrow> length (batch_messages (hd bs)) < max_messages_per_batch) \<and>
       (\<exists>ks' bs'. chain_at rc net j w' (Some (case res of Some k \<Rightarrow> k | None \<Rightarrow> key)) ks' bs' \<and> distinct ks' \<and>
          writable_head net w' ks' \<and> history_of bs' = m # history_of bs \<and> length bs' \<le> Suc (length bs))) E w"
    (is "outcome _ ?Q E w")
proof -
  from C obtain k ks0 b bs0 where s: "ks = k # ks0" "bs = b # bs0" by (cases ks; cases bs) simp_all
  have B: "batch_at rc net j w key k b" and C0: "chain_at rc net j w (prev_record_key b) ks0 bs0"
    using C s by simp_all
  have K: "rc_parse_key rc key = Inr k" using B by (simp add: batch_at_def)
  obtain r where r: "records net w k = Some r" "writable r" "subkey_of r 0"
    using W B s by (auto simp: writable_head_def batch_at_def)
  show ?thesis
    unfolding append_message_def wp
  proof (rule read_batch_outcome [OF R B])
    fix w1 assume w1: "records net w1 = records net w"
    have r1: "records net w1 k = Some r" "writable r" "subkey_of r 0" using r w1 by simp_all
    show "outcome (if max_messages_per_batch \<le> length (batch_messages b)
        then io_bind (create_batch rc j (Some key)) (\<lambda>new_key.
             io_bind (write_batch rc j new_key \<lparr>prev_record_key = Some key, batch_messages = [m]\<rparr>) (\<lambda>_.
             ok (Some new_key)))
        else io_bind (write_batch rc j key (b\<lparr>batch_messages := batch_messages b @ [m]\<rparr>)) (\<lambda>_. ok None)) ?Q E w1"
    proof (cases "max_messages_per_batch \<le> length (batch_messages b)")
      case False
      have "outcome (write_batch rc j key (b\<lparr>batch_messages := batch_messages b @ [m]\<rparr>)) (\<lambda>_. ?Q None) E w1"
      proof (rule write_batch_outcome [OF R J K r1])
        fix w2 r' assume w2: "records net w2 = (records net w1)(k \<mapsto> r')" "writable r'"
          and B2: "batch_at rc net j w2 key k (b\<lparr>batch_messages := batch_messages b @ [m]\<rparr>)"
        have "chain_at rc net j w2 (prev_record_key b) ks0 bs0"
          by (rule chain_at_frame [OF C0]) (use D s w1 w2 in auto)
        with B2 w2 D s False show "?Q None w2"
          by (auto simp: history_of_def writable_head_def
              intro!: exI [of _ "k # ks0"] exI [of _ "(b\<lparr>batch_messages := batch_messages b @ [m]\<rparr>) # bs0"])
      qed
      with False show ?thesis by (simp add: wp)
    next
      case True
      let ?empty = "\<lparr>prev_record_key = Some key, batch_messages = []\<rparr>"
      let ?new = "\<lparr>prev_record_key = Some key, batch_messages = [m]\<rparr>"
      have "outcome (create_record rc 1) (\<lambda>(new_key, _).
          outcome (write_batch rc j new_key ?empty) (\<lambda>_.
          outcome (write_batch rc j new_key ?new) (\<lambda>_. ?Q (Some new_key)) E) E) E w1"
      proof (rule create_record_one_outcome [OF R], unfold prod.case)
        fix w2 p assume new: "records net w1 (key_of net p 1) = None"
          and w2: "records net w2 = (records net w1)(key_of net p 1 \<mapsto> new_record p 1)"
        let ?k = "key_of net p 1"
        let ?key = "rc_show_key rc ?k"
        have K': "rc_parse_key rc ?key = Inr ?k" using reliable_lawful [OF R] by simp
        have r2: "records net w2 ?k = Some (new_record p 1)" "writable (new_record p 1)" "subkey_of (new_record p 1) 0"
          using w2 by (simp_all add: writable_def new_record_def subkey_of_def)
        show "outcome (write_batch rc j ?key ?empty) (\<lambda>_.
            outcome (write_batch rc j ?key ?new) (\<lambda>_. ?Q (Some ?key)) E) E w2"
        proof (rule write_batch_outcome [OF R J K' r2])
          fix w3 r3 assume w3: "records net w3 = (records net w2)(?k \<mapsto> r3)"
            and r3: "writable r3" "subkey_of r3 0"
          then have r3': "records net w3 ?k = Some r3" by simp
          show "outcome (write_batch rc j ?key ?new) (\<lambda>_. ?Q (Some ?key)) E w3"
          proof (rule write_batch_outcome [OF R J K' r3' r3])
            fix w4 r4 assume w4: "records net w4 = (records net w3)(?k \<mapsto> r4)" "writable r4"
              and B4: "batch_at rc net j w4 ?key ?k ?new"
            have fresh: "?k \<notin> set ks" using chain_at_live [OF C, of ?k] new w1 by auto
            have "chain_at rc net j w4 (Some key) ks bs"
              by (rule chain_at_frame [OF C]) (use fresh w1 w2 w3 w4 in auto)
            with B4 w4 D fresh True s show "?Q (Some ?key) w4"
              by (auto simp: history_of_def writable_head_def
                  intro!: exI [of _ "?k # ks"] exI [of _ "?new # bs"])
          qed
        qed
      qed
      with True show ?thesis by (simp add: wp create_batch_def split_def)
    qed
  qed
qed


section \<open>A loop that does not end\<close>

lemma self_link_never_ends:
  assumes R: "dht_reliable rc net"
    and "batch_at rc net j w key k \<lparr>prev_record_key = Some key, batch_messages = []\<rparr>"
    and "length acc < limit"
  shows "history_loop fuel rc j limit acc (Some key) w = None"
  using assms(2)
proof (induction fuel arbitrary: w)
  case 0
  then show ?case by simp
next
  case (Suc fuel)
  let ?b = "\<lparr>prev_record_key = Some key, batch_messages = []\<rparr>"
  have "returns (read_batch rc j key) (\<lambda>x w'. x = ?b \<and> records net w' = records net w) w"
    unfolding returns_def by (rule read_batch_outcome [OF R Suc.prems]) simp
  then obtain w1 where w1: "read_batch rc j key w = (Inr ?b, w1)" "records net w1 = records net w"
    by (elim returnsE) auto
  have "batch_at rc net j w1 key k ?b" by (rule batch_at_frame [OF Suc.prems]) (simp add: w1)
  from Suc.IH [OF this] show ?case using w1 assms(3) by simp
qed

section \<open>Properties\<close>

text \<open>
  C16. A message appended to a channel is the first of its history. From a chain of batches whose
  newest one this node writes, appending succeeds, opens a new batch exactly when the newest
  one has 50 messages, and reading the history afterwards ends (with fuel for one batch more
  than the chain has, and one for a new batch) and returns up to \<open>limit\<close> messages: the new one
  and then the previous history, newest first.
\<close>

theorem appended_message_is_newest:
  assumes R: "dht_reliable rc net" and J: "json_roundtrip j"
    and C: "chain_at rc net j w (Some key) ks bs" and D: "distinct ks" and W: "writable_head net w ks"
  shows "\<exists>res w'. append_message rc j key m w = (Inr res, w') \<and>
    (res = None \<longleftrightarrow> length (batch_messages (hd bs)) < 50) \<and>
    (\<forall>limit. \<exists>w''. read_history (length bs + 2) rc j (case res of Some k \<Rightarrow> k | None \<Rightarrow> key) limit w' =
       Some (Inr (take limit (m # history_of bs)), w''))"
proof -
  have "returns (append_message rc j key m)
    (\<lambda>res w'. (res = None \<longleftrightarrow> length (batch_messages (hd bs)) < max_messages_per_batch) \<and>
       (\<exists>ks' bs'. chain_at rc net j w' (Some (case res of Some k \<Rightarrow> k | None \<Rightarrow> key)) ks' bs' \<and> distinct ks' \<and>
          writable_head net w' ks' \<and> history_of bs' = m # history_of bs \<and> length bs' \<le> Suc (length bs))) w"
    unfolding returns_def by (rule append_message_outcome [OF R J C D W])
  then obtain res w' ks' bs' where run: "append_message rc j key m w = (Inr res, w')"
      "res = None \<longleftrightarrow> length (batch_messages (hd bs)) < max_messages_per_batch"
    and C': "chain_at rc net j w' (Some (case res of Some k \<Rightarrow> k | None \<Rightarrow> key)) ks' bs'"
    and h: "history_of bs' = m # history_of bs" and len: "length bs' < length bs + 2"
    by (elim returnsE) (auto simp: less_Suc_eq_le)
  have "\<exists>w''. read_history (length bs + 2) rc j (case res of Some k \<Rightarrow> k | None \<Rightarrow> key) limit w' =
       Some (Inr (take limit (m # history_of bs)), w'')" for limit
    using history_loop_chain [OF R C' len, of "[]" limit] h by (auto simp: read_history_def)
  with run show ?thesis by (auto simp: max_messages_per_batch_def)
qed

text \<open>
  C17. Reading a history ends exactly on a chain that ends. On a chain of batches the loop stops
  after reading at most all of them and returns up to \<open>limit\<close> messages, newest first. The links
  come from records that others write: on a batch without messages that links to itself the
  loop never stops, whatever the fuel, for any positive limit.
\<close>

theorem read_history_termination:
  assumes R: "dht_reliable rc net"
  shows "(chain_at rc net j w (Some key) ks bs \<longrightarrow>
      (\<forall>fuel > length bs. \<exists>w'. read_history fuel rc j key limit w =
        Some (Inr (take limit (history_of bs)), w') \<and> records net w' = records net w)) \<and>
    (batch_at rc net j w key k \<lparr>prev_record_key = Some key, batch_messages = []\<rparr> \<and> 0 < limit \<longrightarrow>
      (\<forall>fuel. read_history fuel rc j key limit w = None))"
  using history_loop_chain [OF R, of j w "Some key" ks bs _ "[]" limit]
    self_link_never_ends [OF R, of j w key k "[]" limit]
  by (simp add: read_history_def)

section \<open>Concrete records\<close>

definition message_texts :: "dht_channel_message \<Rightarrow> string list" where
  "message_texts m = [cm_sender_key m, cm_body m, word_text (cm_timestamp m), cm_nonce m,
     option_text (cm_reply_to m)]"

fun messages_of_texts :: "string list \<Rightarrow> dht_channel_message list" where
  "messages_of_texts (a # b # c # d # e # ts) =
     \<lparr>cm_sender_key = a, cm_body = b, cm_timestamp = text_word c, cm_nonce = d,
      cm_reply_to = text_option e\<rparr> # messages_of_texts ts"
| "messages_of_texts _ = []"

definition sample_batch_codec :: "message_batch json" where
  "sample_batch_codec =
     \<lparr>to_json = (\<lambda>b. Inr (concat (map text_bytes
         (option_text (prev_record_key b) # concat (map message_texts (batch_messages b)))))),
      from_json = (\<lambda>v. case texts_of_bytes [] v of [] \<Rightarrow> Inl ''EOF''
         | p # ts \<Rightarrow> Inr \<lparr>prev_record_key = text_option p, batch_messages = messages_of_texts ts\<rparr>)\<rparr>"

lemma messages_of_texts_back [simp]: "messages_of_texts (concat (map message_texts ms)) = ms"
  by (induction ms) (simp_all add: message_texts_def)

lemma sample_batch_codec_roundtrip: "json_roundtrip sample_batch_codec"
proof -
  have "from_json sample_batch_codec (concat (map text_bytes
      (option_text (prev_record_key b) # concat (map message_texts (batch_messages b))))) = Inr b" for b
    unfolding sample_batch_codec_def json.simps texts_of_bytes_texts by simp
  then show ?thesis by (auto simp: json_roundtrip_def sample_batch_codec_def)
qed

definition batch_record :: "message_batch \<Rightarrow> nat dht_record" where
  "batch_record b = \<lparr>rec_owner = 1, rec_count = 1,
     rec_values = [0 \<mapsto> projr (to_json sample_batch_codec b)], rec_opened = Some (Some 1)\<rparr>"

lemma batch_record_at:
  "map_of w key = Some (batch_record b) \<Longrightarrow> batch_at mem_rc mem_net sample_batch_codec w key key b"
  using sample_batch_codec_roundtrip
  by (auto simp: batch_at_def batch_record_def readable_def subkey_of_def json_roundtrip_def
      elim!: allE [of _ b])

definition hello :: dht_channel_message where
  "hello = \<lparr>cm_sender_key = ''bob'', cm_body = ''hello'', cm_timestamp = 7, cm_nonce = ''n'', cm_reply_to = None\<rparr>"

definition one_batch :: message_batch where
  "one_batch = \<lparr>prev_record_key = None, batch_messages = [hello]\<rparr>"

lemma one_batch_chain:
  "chain_at mem_rc mem_net sample_batch_codec [(''b'', batch_record one_batch)] (Some ''b'') [''b''] [one_batch]"
  using batch_record_at [of "[(''b'', batch_record one_batch)]" "''b''" one_batch]
  by (simp add: one_batch_def)

theorem appended_message_is_newest_witness:
  "\<exists>res w'. append_message mem_rc sample_batch_codec ''b'' hello [(''b'', batch_record one_batch)] = (Inr res, w') \<and>
    (res = None \<longleftrightarrow> length (batch_messages (hd [one_batch])) < 50) \<and>
    (\<forall>limit. \<exists>w''. read_history (length [one_batch] + 2) mem_rc sample_batch_codec
        (case res of Some k \<Rightarrow> k | None \<Rightarrow> ''b'') limit w' =
       Some (Inr (take limit (hello # history_of [one_batch])), w''))"
proof (rule appended_message_is_newest [OF mem_reliable sample_batch_codec_roundtrip one_batch_chain])
  show "writable_head mem_net [(''b'', batch_record one_batch)] [''b'']"
    by (simp add: writable_head_def writable_def batch_record_def)
qed simp

definition looping_batch :: message_batch where
  "looping_batch = \<lparr>prev_record_key = Some ''b'', batch_messages = []\<rparr>"

theorem read_history_termination_witness:
  "(\<exists>w'. read_history 2 mem_rc sample_batch_codec ''b'' 10 [(''b'', batch_record one_batch)] = Some (Inr [hello], w')) \<and>
   (\<forall>fuel. read_history fuel mem_rc sample_batch_codec ''b'' 10 [(''b'', batch_record looping_batch)] = None)"
proof
  show "\<exists>w'. read_history 2 mem_rc sample_batch_codec ''b'' 10 [(''b'', batch_record one_batch)] = Some (Inr [hello], w')"
    using read_history_termination [OF mem_reliable, of sample_batch_codec "[(''b'', batch_record one_batch)]"
        "''b''" "[''b'']" "[one_batch]" 10 "''b''", THEN conjunct1, rule_format, of 2] one_batch_chain
    by (auto simp: history_of_def one_batch_def)
  show "\<forall>fuel. read_history fuel mem_rc sample_batch_codec ''b'' 10 [(''b'', batch_record looping_batch)] = None"
    using read_history_termination [OF mem_reliable, of sample_batch_codec "[(''b'', batch_record looping_batch)]"
        "''b''" "[]" "[]" 10 "''b''"]
      batch_record_at [of "[(''b'', batch_record looping_batch)]" "''b''" looping_batch]
    by (simp add: looping_batch_def)
qed

end
