(* ===== verification/Jitter.thy ===== *)
theory Jitter
  imports Prelude
begin

text \<open>
  The jitter buffer of the voice pipeline (\<open>crates/rekindle-voice/src/jitter.rs\<close>). A
  \<open>BTreeMap<u32, VoicePacket>\<close> is an association list sorted by its keys; instants are
  milliseconds of a monotonic clock and are arguments of the operations that read it.
\<close>

record voice_packet =
  vp_sender_key :: bytes
  vp_sequence :: u32
  vp_timestamp :: u64
  vp_audio_data :: bytes

record jitter_buffer =
  jb_buffer :: "(u32 \<times> voice_packet) list"
  jb_target_delay_ms :: u32
  next_playback_seq :: u32
  max_packets :: nat
  initial_fill_done :: bool
  first_packet_time :: "nat option"

fun btree_insert :: "u32 \<Rightarrow> 'a \<Rightarrow> (u32 \<times> 'a) list \<Rightarrow> (u32 \<times> 'a) list" where
  "btree_insert k v [] = [(k, v)]"
| "btree_insert k v ((k', v') # xs) =
     (if k < k' then (k, v) # (k', v') # xs
      else if k = k' then (k, v) # xs
      else (k', v') # btree_insert k v xs)"

definition new_jitter_buffer :: "u32 \<Rightarrow> jitter_buffer" where
  "new_jitter_buffer target_delay_ms =
     \<lparr>jb_buffer = [], jb_target_delay_ms = target_delay_ms, next_playback_seq = 0, max_packets = 50,
      initial_fill_done = False, first_packet_time = None\<rparr>"

text \<open>The loop that drops the first packet while the buffer is too large.\<close>

function trim :: "jitter_buffer \<Rightarrow> jitter_buffer" where
  "trim jb =
     (if max_packets jb < length (jb_buffer jb) then
        trim (jb\<lparr>jb_buffer := tl (jb_buffer jb),
                 next_playback_seq := (if initial_fill_done jb then next_playback_seq jb + 1
                                       else next_playback_seq jb)\<rparr>)
      else jb)"
  by pat_completeness auto
termination by (relation "measure (\<lambda>jb. length (jb_buffer jb))") auto

declare trim.simps [simp del]

definition note_first_packet :: "nat \<Rightarrow> jitter_buffer \<Rightarrow> jitter_buffer" where
  "note_first_packet now jb =
     (if first_packet_time jb = None then jb\<lparr>first_packet_time := Some now\<rparr> else jb)"

definition jitter_push :: "nat \<Rightarrow> voice_packet \<Rightarrow> jitter_buffer \<Rightarrow> jitter_buffer" where
  "jitter_push now packet jb =
     (let seq = vp_sequence packet; jb1 = note_first_packet now jb
      in if initial_fill_done jb1 \<and> seq < next_playback_seq jb1 then jb1
         else trim (jb1\<lparr>jb_buffer := btree_insert seq packet (jb_buffer jb1)\<rparr>))"

text \<open>\<open>(target_delay_ms / 20).max(1)\<close>.\<close>

definition target_packets :: "jitter_buffer \<Rightarrow> nat" where
  "target_packets jb = max (unat (jb_target_delay_ms jb) div 20) 1"

definition check_initial_fill :: "nat \<Rightarrow> jitter_buffer \<Rightarrow> bool \<times> jitter_buffer" where
  "check_initial_fill now jb =
     (if target_packets jb \<le> length (jb_buffer jb) then (True, jb\<lparr>initial_fill_done := True\<rparr>)
      else case first_packet_time jb of
        Some first_time \<Rightarrow>
          if unat (jb_target_delay_ms jb) \<le> now - first_time
          then (True, jb\<lparr>initial_fill_done := True\<rparr>) else (False, jb)
      | None \<Rightarrow> (False, jb))"

definition start_playback :: "jitter_buffer \<Rightarrow> jitter_buffer" where
  "start_playback jb =
     (case jb_buffer jb of
        [] \<Rightarrow> jb
      | (first_seq, _) # _ \<Rightarrow> jb\<lparr>next_playback_seq := first_seq\<rparr>)"

definition take_next :: "jitter_buffer \<Rightarrow> voice_packet option \<times> jitter_buffer" where
  "take_next jb =
     (case map_of (jb_buffer jb) (next_playback_seq jb) of
        None \<Rightarrow> (None, jb)
      | Some packet \<Rightarrow>
          (Some packet, jb\<lparr>jb_buffer := AList.delete (next_playback_seq jb) (jb_buffer jb),
             next_playback_seq := next_playback_seq jb + 1\<rparr>))"

definition jitter_pop :: "nat \<Rightarrow> jitter_buffer \<Rightarrow> voice_packet option \<times> jitter_buffer" where
  "jitter_pop now jb =
     (if initial_fill_done jb then take_next jb
      else case check_initial_fill now jb of
        (False, jb1) \<Rightarrow> (None, jb1)
      | (True, jb1) \<Rightarrow> take_next (start_playback jb1))"

definition peek_next_audio_data :: "jitter_buffer \<Rightarrow> bytes option" where
  "peek_next_audio_data jb =
     (if \<not> initial_fill_done jb then None
      else map_option vp_audio_data (map_of (jb_buffer jb) (next_playback_seq jb + 1)))"

definition jitter_depth :: "jitter_buffer \<Rightarrow> nat" where
  "jitter_depth jb = length (jb_buffer jb)"

definition set_target_delay_ms :: "u32 \<Rightarrow> jitter_buffer \<Rightarrow> jitter_buffer" where
  "set_target_delay_ms ms jb = jb\<lparr>jb_target_delay_ms := ms\<rparr>"

definition jitter_reset :: "jitter_buffer \<Rightarrow> jitter_buffer" where
  "jitter_reset jb =
     jb\<lparr>jb_buffer := [], next_playback_seq := 0, initial_fill_done := False, first_packet_time := None\<rparr>"

section \<open>The buffer\<close>

lemma keys_btree_insert: "fst ` set (btree_insert k v xs) = insert k (fst ` set xs)"
  by (induction k v xs rule: btree_insert.induct) auto

lemma set_btree_insert: "set (btree_insert k v xs) \<subseteq> insert (k, v) (set xs)"
  by (induction k v xs rule: btree_insert.induct) auto

lemma sorted_btree_insert:
  "sorted_wrt (<) (map fst xs) \<Longrightarrow> sorted_wrt (<) (map fst (btree_insert k v xs))"
proof (induction k v xs rule: btree_insert.induct)
  case (2 k v k' v' xs)
  have "set (map fst (btree_insert k v xs)) = insert k (set (map fst xs))"
    using keys_btree_insert [of k v xs] by simp
  with 2 show ?case by auto
qed simp

lemma map_of_btree_insert: "sorted_wrt (<) (map fst xs) \<Longrightarrow> map_of (btree_insert k v xs) = (map_of xs)(k \<mapsto> v)"
proof (induction k v xs rule: btree_insert.induct)
  case (2 k v k' v' xs)
  then show ?case by (cases "k < k'"; cases "k = k'") (auto simp: fun_eq_iff)
qed simp

lemma length_btree_insert: "length (btree_insert k v xs) \<le> Suc (length xs)"
  by (induction k v xs rule: btree_insert.induct) auto

lemma btree_insert_last:
  "\<forall>k'\<in>fst ` set xs. k' < k \<Longrightarrow> btree_insert k v xs = xs @ [(k, v)]"
  by (induction k v xs rule: btree_insert.induct) auto

lemma trim_done:
  "initial_fill_done jb \<Longrightarrow> trim jb = jb\<lparr>jb_buffer := drop (length (jb_buffer jb) - max_packets jb) (jb_buffer jb),
     next_playback_seq := next_playback_seq jb + of_nat (length (jb_buffer jb) - max_packets jb)\<rparr>"
proof (induction jb rule: trim.induct)
  case (1 jb)
  show ?case
  proof (cases "max_packets jb < length (jb_buffer jb)")
    case True
    then obtain d where d: "length (jb_buffer jb) - max_packets jb = Suc d" by (metis Suc_diff_Suc)
    then have "length (jb_buffer jb) - Suc (max_packets jb) = d" by simp
    with 1 True d show ?thesis by (subst trim.simps) (simp add: drop_Suc add.assoc)
  next
    case False
    then show ?thesis by (subst trim.simps) simp
  qed
qed

lemma trim_filling:
  "\<not> initial_fill_done jb \<Longrightarrow>
   trim jb = jb\<lparr>jb_buffer := drop (length (jb_buffer jb) - max_packets jb) (jb_buffer jb)\<rparr>"
proof (induction jb rule: trim.induct)
  case (1 jb)
  show ?case
  proof (cases "max_packets jb < length (jb_buffer jb)")
    case True
    then obtain d where d: "length (jb_buffer jb) - max_packets jb = Suc d" by (metis Suc_diff_Suc)
    then have "length (jb_buffer jb) - Suc (max_packets jb) = d" by simp
    with 1 True d show ?thesis by (subst trim.simps) (simp add: drop_Suc)
  next
    case False
    then show ?thesis by (subst trim.simps) simp
  qed
qed

lemma sorted_distinct_keys: "sorted_wrt (<) (map fst (xs :: (u32 \<times> 'a) list)) \<Longrightarrow> distinct (map fst xs)"
  by (simp add: strict_sorted_iff)

lemma sorted_delete:
  "sorted_wrt (<) (map fst xs) \<Longrightarrow> sorted_wrt (<) (map fst (AList.delete k xs))"
  unfolding AList.delete_eq by (induction xs) auto

lemma length_delete_present:
  "sorted_wrt (<) (map fst xs) \<Longrightarrow> length (AList.delete k (xs :: (u32 \<times> 'a) list)) \<le> length xs"
  by (simp add: AList.delete_eq)

section \<open>The invariant\<close>

definition jitter_ok :: "jitter_buffer \<Rightarrow> bool" where
  "jitter_ok jb \<longleftrightarrow> sorted_wrt (<) (map fst (jb_buffer jb)) \<and>
     (\<forall>(k, p)\<in>set (jb_buffer jb). vp_sequence p = k) \<and>
     max_packets jb = 50 \<and> length (jb_buffer jb) \<le> 50 \<and>
     (initial_fill_done jb \<longrightarrow> (\<forall>k\<in>fst ` set (jb_buffer jb). next_playback_seq jb \<le> k))"

lemma jitter_ok_new: "jitter_ok (new_jitter_buffer ms)"
  by (simp add: jitter_ok_def new_jitter_buffer_def)

lemma less_next: "(a :: u32) \<le> b \<Longrightarrow> b < c \<Longrightarrow> a + 1 \<le> c"
  by (meson inc_le order.strict_trans1)

lemma drop_overflow:
  assumes "sorted_wrt (<) (map fst (xs :: (u32 \<times> 'a) list))" and "length xs \<le> Suc n"
  shows "sorted_wrt (<) (map fst (drop (length xs - n) xs))" and "set (drop (length xs - n) xs) \<subseteq> set xs"
    and "length (drop (length xs - n) xs) \<le> n"
    and "\<forall>k\<in>fst ` set xs. a \<le> k \<Longrightarrow>
      \<forall>k\<in>fst ` set (drop (length xs - n) xs). a + of_nat (length xs - n) \<le> k"
proof -
  show "sorted_wrt (<) (map fst (drop (length xs - n) xs))"
    using assms(1) by (simp add: sorted_wrt_drop flip: drop_map)
  show "set (drop (length xs - n) xs) \<subseteq> set xs" by (rule set_drop_subset)
  show "length (drop (length xs - n) xs) \<le> n" by simp
  assume a: "\<forall>k\<in>fst ` set xs. a \<le> k"
  consider "length xs - n = 0" | "length xs - n = 1" using assms(2) by linarith
  then show "\<forall>k\<in>fst ` set (drop (length xs - n) xs). a + of_nat (length xs - n) \<le> k"
  proof cases
    case 1
    with a show ?thesis by simp
  next
    case 2
    then obtain x ys where xs: "xs = x # ys" by (cases xs) auto
    have "a + 1 \<le> k" if "k \<in> fst ` set ys" for k
      using a assms(1) that xs by (auto intro: less_next [of a "fst x"])
    with 2 xs show ?thesis by simp
  qed
qed

lemma jitter_ok_trim:
  assumes "sorted_wrt (<) (map fst (jb_buffer jb))" and "\<forall>(k, p)\<in>set (jb_buffer jb). vp_sequence p = k"
    and "max_packets jb = 50" and "length (jb_buffer jb) \<le> 51"
    and "initial_fill_done jb \<longrightarrow> (\<forall>k\<in>fst ` set (jb_buffer jb). next_playback_seq jb \<le> k)"
  shows "jitter_ok (trim jb)"
proof -
  have l: "length (jb_buffer jb) \<le> Suc 50" using assms(4) by simp
  note d = drop_overflow [OF assms(1) l]
  show ?thesis
  proof (cases "initial_fill_done jb")
    case True
    then show ?thesis
      using assms(2,3,5) d(1,3) d(4) [of "next_playback_seq jb"] subsetD [OF d(2)]
      unfolding trim_done [OF True] by (simp add: jitter_ok_def split_beta)
  next
    case False
    then show ?thesis
      using assms(2,3) d(1,3) subsetD [OF d(2)]
      unfolding trim_filling [OF False] by (simp add: jitter_ok_def split_beta)
  qed
qed

lemma jitter_ok_push: "jitter_ok jb \<Longrightarrow> jitter_ok (jitter_push now p jb)"
proof -
  assume ok: "jitter_ok jb"
  let ?jb = "note_first_packet now jb"
  have ok': "jitter_ok ?jb" using ok by (simp add: jitter_ok_def note_first_packet_def)
  show ?thesis
  proof (cases "initial_fill_done ?jb \<and> vp_sequence p < next_playback_seq ?jb")
    case True
    with ok' show ?thesis by (simp add: jitter_push_def Let_def)
  next
    case False
    have "jitter_ok (trim (?jb\<lparr>jb_buffer := btree_insert (vp_sequence p) p (jb_buffer ?jb)\<rparr>))"
    proof (rule jitter_ok_trim)
      show "sorted_wrt (<) (map fst (jb_buffer (?jb\<lparr>jb_buffer := btree_insert (vp_sequence p) p (jb_buffer ?jb)\<rparr>)))"
        using ok' by (simp add: jitter_ok_def sorted_btree_insert)
      show "\<forall>(k, q)\<in>set (jb_buffer (?jb\<lparr>jb_buffer := btree_insert (vp_sequence p) p (jb_buffer ?jb)\<rparr>)). vp_sequence q = k"
        using ok' set_btree_insert [of "vp_sequence p" p "jb_buffer ?jb"]
        unfolding jitter_ok_def by fastforce
      show "length (jb_buffer (?jb\<lparr>jb_buffer := btree_insert (vp_sequence p) p (jb_buffer ?jb)\<rparr>)) \<le> 51"
        using ok' length_btree_insert [of "vp_sequence p" p "jb_buffer ?jb"] by (simp add: jitter_ok_def)
      show "initial_fill_done (?jb\<lparr>jb_buffer := btree_insert (vp_sequence p) p (jb_buffer ?jb)\<rparr>) \<longrightarrow>
          (\<forall>k\<in>fst ` set (jb_buffer (?jb\<lparr>jb_buffer := btree_insert (vp_sequence p) p (jb_buffer ?jb)\<rparr>)).
             next_playback_seq (?jb\<lparr>jb_buffer := btree_insert (vp_sequence p) p (jb_buffer ?jb)\<rparr>) \<le> k)"
        using ok' False keys_btree_insert [of "vp_sequence p" p "jb_buffer ?jb"]
        by (auto simp: jitter_ok_def not_less)
    qed (use ok' in \<open>simp add: jitter_ok_def\<close>)
    moreover have "jitter_push now p jb = trim (?jb\<lparr>jb_buffer := btree_insert (vp_sequence p) p (jb_buffer ?jb)\<rparr>)"
      using False unfolding jitter_push_def Let_def by (rule if_not_P)
    ultimately show ?thesis by simp
  qed
qed

lemma take_next_cases:
  obtains (missing) "map_of (jb_buffer jb) (next_playback_seq jb) = None" and "take_next jb = (None, jb)"
  | (found) p where "map_of (jb_buffer jb) (next_playback_seq jb) = Some p"
      and "take_next jb = (Some p, jb\<lparr>jb_buffer := AList.delete (next_playback_seq jb) (jb_buffer jb),
             next_playback_seq := next_playback_seq jb + 1\<rparr>)"
  by (cases "map_of (jb_buffer jb) (next_playback_seq jb)") (simp_all add: take_next_def)

lemma jitter_ok_take_next:
  assumes "jitter_ok jb" and "initial_fill_done jb"
  shows "jitter_ok (snd (take_next jb))"
proof (cases jb rule: take_next_cases)
  case missing
  with assms show ?thesis by simp
next
  case (found p)
  have "next_playback_seq jb + 1 \<le> k" if "k \<in> fst ` set (AList.delete (next_playback_seq jb) (jb_buffer jb))" for k
  proof (rule less_next [OF order_refl])
    have "k \<noteq> next_playback_seq jb" "k \<in> fst ` set (jb_buffer jb)" using that by (auto simp: AList.delete_eq)
    then show "next_playback_seq jb < k" using assms by (auto simp: jitter_ok_def order.order_iff_strict)
  qed
  moreover have "length (AList.delete (next_playback_seq jb) (jb_buffer jb)) \<le> 50"
    using assms length_delete_present [of "jb_buffer jb" "next_playback_seq jb"] by (simp add: jitter_ok_def)
  ultimately show ?thesis
    using assms found sorted_delete [of "jb_buffer jb" "next_playback_seq jb"]
    by (auto simp: jitter_ok_def AList.delete_eq)
qed

lemma check_initial_fill_cases:
  obtains "check_initial_fill now jb = (False, jb)"
  | "check_initial_fill now jb = (True, jb\<lparr>initial_fill_done := True\<rparr>)"
proof -
  have "check_initial_fill now jb = (False, jb) \<or>
      check_initial_fill now jb = (True, jb\<lparr>initial_fill_done := True\<rparr>)"
    by (simp add: check_initial_fill_def split: option.split)
  then show thesis using that by blast
qed

lemma start_playback_ok:
  assumes "jitter_ok jb" and "\<not> initial_fill_done jb"
  shows "jitter_ok (start_playback (jb\<lparr>initial_fill_done := True\<rparr>))"
    and "initial_fill_done (start_playback (jb\<lparr>initial_fill_done := True\<rparr>))"
    and "jb_buffer (start_playback (jb\<lparr>initial_fill_done := True\<rparr>)) = jb_buffer jb"
  using assms by (auto simp: jitter_ok_def start_playback_def less_imp_le split: list.split)
    (fastforce intro: less_imp_le)+

lemma jitter_pop_cases:
  assumes "jitter_ok jb"
  obtains (filling) "\<not> initial_fill_done jb" and "jitter_pop now jb = (None, jb)"
  | (playing) jb' where "jitter_ok jb'" and "initial_fill_done jb'" and "jb_buffer jb' = jb_buffer jb"
      and "initial_fill_done jb \<Longrightarrow> jb' = jb" and "jitter_pop now jb = take_next jb'"
proof (cases "initial_fill_done jb")
  case True
  then show thesis using assms playing [of jb] by (simp add: jitter_pop_def)
next
  case False
  then show thesis
  proof (cases now jb rule: check_initial_fill_cases)
    case 1
    with False show thesis by (intro filling) (simp_all add: jitter_pop_def)
  next
    case 2
    with False show thesis
      by (intro playing [of "start_playback (jb\<lparr>initial_fill_done := True\<rparr>)"])
        (simp_all add: start_playback_ok [OF assms] jitter_pop_def)
  qed
qed

lemma jitter_ok_pop: "jitter_ok jb \<Longrightarrow> jitter_ok (snd (jitter_pop now jb))"
  by (rule jitter_pop_cases [of jb now]) (auto simp: jitter_ok_take_next)

section \<open>Runs\<close>

datatype jitter_event = Push nat voice_packet | Pop nat

text \<open>The packets a sequence of arrivals and playback ticks plays, and the buffer afterwards.\<close>

fun jitter_run :: "jitter_event list \<Rightarrow> jitter_buffer \<Rightarrow> voice_packet list \<times> jitter_buffer" where
  "jitter_run [] jb = ([], jb)"
| "jitter_run (Push now p # es) jb = jitter_run es (jitter_push now p jb)"
| "jitter_run (Pop now # es) jb =
     (case jitter_pop now jb of
        (None, jb1) \<Rightarrow> jitter_run es jb1
      | (Some p, jb1) \<Rightarrow> (case jitter_run es jb1 of (ps, jb2) \<Rightarrow> (p # ps, jb2)))"

fun pushed :: "jitter_event list \<Rightarrow> voice_packet list" where
  "pushed [] = []"
| "pushed (Push now p # es) = p # pushed es"
| "pushed (Pop now # es) = pushed es"

lemma trim_parts:
  "set (jb_buffer (trim jb)) \<subseteq> set (jb_buffer jb)" "initial_fill_done (trim jb) = initial_fill_done jb"
proof -
  show "set (jb_buffer (trim jb)) \<subseteq> set (jb_buffer jb)"
    by (cases "initial_fill_done jb") (simp_all add: trim_done trim_filling set_drop_subset)
  show "initial_fill_done (trim jb) = initial_fill_done jb"
    by (cases "initial_fill_done jb") (simp_all add: trim_done trim_filling)
qed

lemma jitter_push_parts:
  "set (jb_buffer (jitter_push now p jb)) \<subseteq> insert (vp_sequence p, p) (set (jb_buffer jb))"
  "initial_fill_done (jitter_push now p jb) = initial_fill_done jb"
proof -
  show "set (jb_buffer (jitter_push now p jb)) \<subseteq> insert (vp_sequence p, p) (set (jb_buffer jb))"
    using order_trans [OF trim_parts(1)] set_btree_insert [of "vp_sequence p" p "jb_buffer jb"]
    by (auto simp: jitter_push_def Let_def note_first_packet_def)
  show "initial_fill_done (jitter_push now p jb) = initial_fill_done jb"
    by (simp add: jitter_push_def Let_def note_first_packet_def trim_parts(2))
qed

lemma le_plus_1: "(a :: u32) < -1 \<Longrightarrow> a \<le> a + 1"
proof -
  assume "a < -1"
  then have "1 + a \<noteq> 0" by (metis add_eq_0_iff order.irrefl)
  then show ?thesis by (simp add: word_le_nat_alt unatSuc add.commute)
qed

text \<open>While playing, a push moves the position forward, by one packet at most.\<close>

lemma jitter_push_position:
  assumes "jitter_ok jb" and "initial_fill_done jb"
    and "\<forall>k\<in>insert (vp_sequence p) (fst ` set (jb_buffer jb)). k < -1"
  shows "next_playback_seq jb \<le> next_playback_seq (jitter_push now p jb)"
proof -
  let ?xs = "btree_insert (vp_sequence p) p (jb_buffer jb)"
  have l: "length ?xs - 50 = 0 \<or> length ?xs - 50 = 1"
    using assms(1) length_btree_insert [of "vp_sequence p" p "jb_buffer jb"] by (auto simp: jitter_ok_def)
  have "next_playback_seq jb \<le> next_playback_seq jb + 1" if "\<not> vp_sequence p < next_playback_seq jb"
  proof -
    have "next_playback_seq jb < -1" using that assms(3) by (auto simp: not_less)
    then show ?thesis by (rule le_plus_1)
  qed
  with l assms(1,2) show ?thesis
    by (auto simp: jitter_push_def Let_def note_first_packet_def trim_done jitter_ok_def)
qed


text \<open>
  What a run plays comes from the buffer or from the pushes, in strictly increasing order, and
  while playing from the current position on.
\<close>

lemma jitter_run_increasing:
  assumes "jitter_ok jb"
    and "\<forall>k\<in>fst ` set (jb_buffer jb). k < -1" and "\<forall>p\<in>set (pushed es). vp_sequence p < -1"
  shows "sorted_wrt (<) (map vp_sequence (fst (jitter_run es jb))) \<and>
    set (fst (jitter_run es jb)) \<subseteq> snd ` set (jb_buffer jb) \<union> set (pushed es) \<and>
    (initial_fill_done jb \<longrightarrow> (\<forall>p\<in>set (fst (jitter_run es jb)). next_playback_seq jb \<le> vp_sequence p)) \<and>
    jitter_ok (snd (jitter_run es jb))"
  using assms
proof (induction es jb rule: jitter_run.induct)
  case (1 jb)
  then show ?case by simp
next
  case (2 now p es jb)
  let ?jb = "jitter_push now p jb"
  have ok: "jitter_ok ?jb" by (rule jitter_ok_push [OF 2(2)])
  have small: "\<forall>k\<in>fst ` set (jb_buffer ?jb). k < -1"
    using 2(3,4) jitter_push_parts(1) [of now p jb] by fastforce
  have pos: "next_playback_seq jb \<le> next_playback_seq ?jb" if "initial_fill_done jb"
    by (rule jitter_push_position [OF 2(2) that]) (use 2(3,4) in auto)
  have sub: "snd ` set (jb_buffer ?jb) \<subseteq> insert p (snd ` set (jb_buffer jb))"
    using image_mono [OF jitter_push_parts(1) [of now p jb], of snd] by simp
  have rest: "\<forall>p\<in>set (pushed es). vp_sequence p < -1" using 2(4) by simp
  note IH = 2(1) [OF ok small rest]
  have "\<forall>q\<in>set (fst (jitter_run es ?jb)). next_playback_seq jb \<le> vp_sequence q" if d: "initial_fill_done jb"
  proof
    fix q assume "q \<in> set (fst (jitter_run es ?jb))"
    then have "next_playback_seq ?jb \<le> vp_sequence q" using IH d jitter_push_parts(2) [of now p jb] by simp
    with pos [OF d] show "next_playback_seq jb \<le> vp_sequence q" by (rule order_trans)
  qed
  moreover have "set (fst (jitter_run es ?jb)) \<subseteq> snd ` set (jb_buffer jb) \<union> set (pushed (Push now p # es))"
  proof -
    have "set (fst (jitter_run es ?jb)) \<subseteq> snd ` set (jb_buffer ?jb) \<union> set (pushed es)" using IH by simp
    also have "\<dots> \<subseteq> insert p (snd ` set (jb_buffer jb)) \<union> set (pushed es)" using sub by (rule Un_mono) simp
    finally show ?thesis by auto
  qed
  ultimately show ?case using IH by simp
next
  case (3 now es jb)
  show ?case
  proof (rule jitter_pop_cases [OF 3(3), of now])
    assume n: "\<not> initial_fill_done jb" and e: "jitter_pop now jb = (None, jb)"
    from 3(1) [OF e [symmetric] refl] 3(3-5) e n show ?case by simp
  next
    fix jb' assume ok: "jitter_ok jb'" "initial_fill_done jb'" and b: "jb_buffer jb' = jb_buffer jb"
      and j: "initial_fill_done jb \<Longrightarrow> jb' = jb" and e: "jitter_pop now jb = take_next jb'"
    show ?case
    proof (cases jb' rule: take_next_cases)
      case missing
      from 3(1) [OF e [unfolded missing(2), symmetric] refl] ok(1) 3(4,5) b ok(2) j e missing
      show ?thesis by auto
    next
      case (found p)
      let ?jb = "jb'\<lparr>jb_buffer := AList.delete (next_playback_seq jb') (jb_buffer jb'),
        next_playback_seq := next_playback_seq jb' + 1\<rparr>"
      have ok2: "jitter_ok ?jb" using jitter_ok_take_next [OF ok] found by simp
      have p: "(next_playback_seq jb', p) \<in> set (jb_buffer jb')" using found by (auto dest: map_of_SomeD)
      then have seq: "vp_sequence p = next_playback_seq jb'" using ok by (auto simp: jitter_ok_def)
      have "next_playback_seq jb' < -1" using 3(4) p b by force
      then have less: "next_playback_seq jb' < next_playback_seq jb' + 1"
        by (metis add_cancel_right_right le_plus_1 order.not_eq_order_implies_strict zero_neq_one)
      have small: "\<forall>k\<in>fst ` set (jb_buffer ?jb). k < -1" using 3(4) b by (auto simp: AList.delete_eq)
      obtain ps jb2 where run: "jitter_run es ?jb = (ps, jb2)" by fastforce
      have "snd ` set (jb_buffer ?jb) \<subseteq> snd ` set (jb_buffer jb)" using b by (auto simp: AList.delete_eq)
      moreover have "p \<in> snd ` set (jb_buffer jb)" using p b by force
      moreover note IH = 3(2) [OF e [unfolded found(2), symmetric] refl ok2 small 3(5) [unfolded pushed.simps]]
      moreover have "next_playback_seq jb' < vp_sequence q" if "q \<in> set ps" for q
      proof -
        have "next_playback_seq jb' + 1 \<le> vp_sequence q" using IH run ok(2) that by simp
        with less show ?thesis by (rule order.strict_trans2)
      qed
      ultimately show ?thesis using e found run seq j by (auto simp: less_imp_le)
    qed
  qed
qed

end
