(* ===== verification/Playback.thy ===== *)
theory Playback
  imports Jitter "HOL-Library.Multiset"
begin

text \<open>
  What the jitter buffer plays: in strictly increasing order and at most once, in order when the
  packets of a stretch all arrive, and nothing after a packet that is lost.
\<close>

section \<open>Reordered packets\<close>

definition keyed :: "voice_packet \<Rightarrow> u32 \<times> voice_packet" where
  "keyed p = (vp_sequence p, p)"

lemma set_btree_insert_new:
  "k \<notin> fst ` set xs \<Longrightarrow> set (btree_insert k v xs) = insert (k, v) (set xs)"
  by (induction k v xs rule: btree_insert.induct) auto

lemma length_btree_insert_new:
  "k \<notin> fst ` set xs \<Longrightarrow> length (btree_insert k v xs) = Suc (length xs)"
  by (induction k v xs rule: btree_insert.induct) auto

text \<open>Pushes before playback, of packets with distinct sequence numbers and without overflow.\<close>

lemma pushes_fill:
  assumes "jitter_ok jb" and "\<not> initial_fill_done jb" and "set (jb_buffer jb) = keyed ` A"
    and "length (jb_buffer jb) + length ps \<le> 50"
    and "distinct (map vp_sequence ps)" and "vp_sequence ` A \<inter> vp_sequence ` set ps = {}"
  shows "\<exists>jb'. jitter_run (map (Push t) ps @ es) jb = jitter_run es jb' \<and> jitter_ok jb' \<and>
    \<not> initial_fill_done jb' \<and> set (jb_buffer jb') = keyed ` (A \<union> set ps) \<and>
    length (jb_buffer jb') = length (jb_buffer jb) + length ps \<and>
    jb_target_delay_ms jb' = jb_target_delay_ms jb"
  using assms
proof (induction ps arbitrary: jb A)
  case Nil
  then show ?case by auto
next
  case (Cons p ps)
  let ?jb = "jitter_push t p jb"
  have keys: "vp_sequence p \<notin> fst ` set (jb_buffer jb)"
    using Cons.prems(3,6) by (auto simp: keyed_def image_image)
  have len: "length (btree_insert (vp_sequence p) p (jb_buffer jb)) = Suc (length (jb_buffer jb))"
    by (rule length_btree_insert_new [OF keys])
  have "?jb = (note_first_packet t jb)\<lparr>jb_buffer := btree_insert (vp_sequence p) p (jb_buffer jb)\<rparr>"
    using Cons.prems(1,2,4) len
    by (auto simp: jitter_push_def Let_def note_first_packet_def trim_filling jitter_ok_def)
  then have jb: "jb_buffer ?jb = btree_insert (vp_sequence p) p (jb_buffer jb)"
      "\<not> initial_fill_done ?jb" "jb_target_delay_ms ?jb = jb_target_delay_ms jb"
    using Cons.prems(2) by (simp_all add: note_first_packet_def)
  have a: "set (jb_buffer ?jb) = keyed ` insert p A"
    unfolding jb set_btree_insert_new [OF keys] Cons.prems(3) by (simp add: keyed_def)
  have b: "length (jb_buffer ?jb) + length ps \<le> 50" using Cons.prems(4) jb len by simp
  have c: "vp_sequence ` insert p A \<inter> vp_sequence ` set ps = {}" and d: "distinct (map vp_sequence ps)"
    using Cons.prems(5,6) by auto
  obtain jb' where "jitter_run (map (Push t) ps @ es) ?jb = jitter_run es jb'" "jitter_ok jb'"
      "\<not> initial_fill_done jb'" "set (jb_buffer jb') = keyed ` (insert p A \<union> set ps)"
      "length (jb_buffer jb') = length (jb_buffer ?jb) + length ps"
      "jb_target_delay_ms jb' = jb_target_delay_ms ?jb"
    using Cons.IH [OF jitter_ok_push [OF Cons.prems(1)] jb(2) a b d c] by blast
  then show ?case using jb len by (intro exI [of _ jb']) auto
qed

text \<open>Consecutive sequence numbers, from \<open>s\<close> on.\<close>

definition consecutive :: "u32 \<Rightarrow> voice_packet list \<Rightarrow> bool" where
  "consecutive s qs \<longleftrightarrow> map vp_sequence qs = map (\<lambda>i. s + of_nat i) [0..<length qs] \<and>
     unat s + length qs < 2 ^ 32"

lemma unat_plus_of_nat: "unat (s :: u32) + i < 2 ^ 32 \<Longrightarrow> unat (s + of_nat i) = unat s + i"
  by (simp add: unat_word_ariths unat_of_nat)

lemma consecutive_Cons:
  "consecutive s (q # qs) \<longleftrightarrow> vp_sequence q = s \<and> consecutive (s + 1) qs \<and> unat s + Suc (length qs) < 2 ^ 32"
proof -
  have u: "map (\<lambda>i. s + of_nat i) [0..<Suc n] = s # map (\<lambda>i. s + 1 + of_nat i) [0..<n]" for n
    unfolding upt_conv_Cons [OF zero_less_Suc] by (simp add: map_Suc_upt [symmetric] ac_simps del: upt_Suc)
  have "unat (s + 1) = unat s + 1" if "unat s + Suc n < 2 ^ 32" for n
    using unat_plus_of_nat [of s 1] that by simp
  then show ?thesis by (auto simp: consecutive_def u simp del: upt_Suc)
qed

lemma consecutive_strict:
  "consecutive s qs \<Longrightarrow> sorted_wrt (<) (map vp_sequence qs) \<and> (\<forall>q\<in>set qs. s \<le> vp_sequence q)"
proof (induction qs arbitrary: s)
  case Nil
  then show ?case by simp
next
  case (Cons q qs)
  then have c: "vp_sequence q = s" "consecutive (s + 1) qs" "unat s + Suc (length qs) < 2 ^ 32"
    by (simp_all add: consecutive_Cons)
  have "s < s + 1" using unat_plus_of_nat [of s 1] c(3) by (simp add: word_less_nat_alt)
  with Cons.IH [OF c(2)] c(1) show ?case
    by (auto intro: order.strict_trans2 order.strict_implies_order order_trans)
qed

lemma pops_play:
  assumes "initial_fill_done jb" and "jb_buffer jb = map keyed qs" and "next_playback_seq jb = s"
    and "consecutive s qs" and "length ts = length qs"
  shows "fst (jitter_run (map Pop ts) jb) = qs"
  using assms
proof (induction qs arbitrary: jb s ts)
  case Nil
  then show ?case by simp
next
  case (Cons q qs)
  obtain t ts' where ts: "ts = t # ts'" "length ts' = length qs" using Cons.prems(5) by (cases ts) auto
  have c: "vp_sequence q = s" "consecutive (s + 1) qs" "unat s + Suc (length qs) < 2 ^ 32"
    using Cons.prems(4) by (simp_all add: consecutive_Cons)
  have "s < s + 1" using unat_plus_of_nat [of s 1] c(3) by (simp add: word_less_nat_alt)
  then have "s \<notin> fst ` set (map keyed qs)" using consecutive_strict [OF c(2)] by (auto simp: keyed_def)
  then have "AList.delete s (map keyed qs) = map keyed qs" by (rule delete_id)
  then have pop: "jitter_pop t jb = (Some q, jb\<lparr>jb_buffer := map keyed qs, next_playback_seq := s + 1\<rparr>)"
    using Cons.prems(1-3) keyed_def [of q] c(1) by (simp add: jitter_pop_def take_next_def)
  have "fst (jitter_run (map Pop ts') (jb\<lparr>jb_buffer := map keyed qs, next_playback_seq := s + 1\<rparr>)) = qs"
    by (rule Cons.IH) (use Cons.prems(1) c(2) ts in simp_all)
  with pop ts show ?case by (auto split: prod.split)
qed

lemma sorted_map_keyed:
  assumes "consecutive s qs" and "sorted_wrt (<) (map fst xs)" and "set xs = keyed ` set qs"
  shows "xs = map keyed qs"
proof (rule map_sorted_distinct_set_unique [of fst])
  have q: "map fst (map keyed qs) = map vp_sequence qs" by (simp add: keyed_def comp_def)
  have d: "distinct (map vp_sequence qs)" "sorted (map vp_sequence qs)"
    using consecutive_strict [OF assms(1)] by (auto simp: strict_sorted_iff)
  show "sorted (map fst (map keyed qs))" "distinct (map fst (map keyed qs))" unfolding q by (rule d)+
  show "sorted (map fst xs)" "distinct (map fst xs)" using assms(2) by (auto simp: strict_sorted_iff)
  show "set xs = set (map keyed qs)" using assms(3) by simp
  show "inj_on fst (set xs \<union> set (map keyed qs))"
    using d(1) assms(3) by (auto simp: inj_on_def keyed_def distinct_map)
qed

section \<open>A lost packet\<close>

text \<open>
  The position waits for a packet, and the buffer holds the following ones without a gap up to
  (but without) sequence number \<open>m\<close>.
\<close>

definition waiting :: "jitter_buffer \<Rightarrow> nat \<Rightarrow> bool" where
  "waiting jb m \<longleftrightarrow> initial_fill_done jb \<and> max_packets jb = 50 \<and> length (jb_buffer jb) \<le> 50 \<and>
     map fst (jb_buffer jb) = map of_nat [Suc (unat (next_playback_seq jb))..<m] \<and>
     unat (next_playback_seq jb) < m"

text \<open>The pushes carry the sequence numbers \<open>m\<close>, \<open>m + 1\<close>, and so on.\<close>

fun pushes_from :: "nat \<Rightarrow> jitter_event list \<Rightarrow> bool" where
  "pushes_from m [] \<longleftrightarrow> m < 2 ^ 32"
| "pushes_from m (Push t p # es) \<longleftrightarrow> vp_sequence p = of_nat m \<and> pushes_from (Suc m) es"
| "pushes_from m (Pop t # es) \<longleftrightarrow> pushes_from m es"

lemma pushes_from_bound: "pushes_from m es \<Longrightarrow> m < 2 ^ 32"
  by (induction m es rule: pushes_from.induct) auto

lemma waiting_keys:
  assumes "waiting jb m" and "m \<le> 2 ^ 32"
  shows "\<forall>k\<in>fst ` set (jb_buffer jb). next_playback_seq jb < k \<and> unat k < m"
proof -
  have k: "set (map fst (jb_buffer jb)) = set (map of_nat [Suc (unat (next_playback_seq jb))..<m])"
    using assms(1) unfolding waiting_def by metis
  show ?thesis
  proof
    fix k assume "k \<in> fst ` set (jb_buffer jb)"
    then have "k \<in> set (map of_nat [Suc (unat (next_playback_seq jb))..<m])" unfolding k [symmetric] by simp
    then show "next_playback_seq jb < k \<and> unat k < m"
      using assms(2) by (auto simp: word_less_nat_alt unat_of_nat)
  qed
qed

lemma waiting_pop:
  assumes "waiting jb m" and "m \<le> 2 ^ 32"
  shows "jitter_pop t jb = (None, jb)"
proof -
  have "map_of (jb_buffer jb) (next_playback_seq jb) = None"
    using waiting_keys [OF assms] by (force simp: map_of_eq_None_iff)
  with assms(1) show ?thesis by (simp add: waiting_def jitter_pop_def take_next_def)
qed

lemma waiting_push:
  assumes W: "waiting jb m" and p: "vp_sequence p = of_nat m" and m: "Suc m < 2 ^ 32"
  shows "waiting (jitter_push t p jb) (Suc m)"
proof -
  let ?n = "next_playback_seq jb"
  have n: "unat ?n < m" and d: "initial_fill_done jb" and l: "length (jb_buffer jb) \<le> 50"
      and mx: "max_packets jb = 50"
    and keys: "map fst (jb_buffer jb) = map of_nat [Suc (unat ?n)..<m]"
    using W by (simp_all add: waiting_def)
  have um: "unat (of_nat m :: u32) = m" using m by (simp add: unat_of_nat)
  have ins: "btree_insert (vp_sequence p) p (jb_buffer jb) = jb_buffer jb @ [(of_nat m, p)]"
    unfolding p by (rule btree_insert_last) (use waiting_keys [OF W] m um in \<open>auto simp: word_less_nat_alt\<close>)
  have late: "\<not> vp_sequence p < ?n" using n um p by (simp add: word_less_nat_alt)
  have push: "jitter_push t p jb = trim ((note_first_packet t jb)\<lparr>jb_buffer := jb_buffer jb @ [(of_nat m, p)]\<rparr>)"
    using late ins by (simp add: jitter_push_def Let_def note_first_packet_def)
  have keys': "map fst (jb_buffer jb @ [(of_nat m, p)]) = map of_nat [Suc (unat ?n)..<Suc m]"
    using keys n by simp
  have "initial_fill_done ((note_first_packet t jb)\<lparr>jb_buffer := jb_buffer jb @ [(of_nat m, p)]\<rparr>)"
    using d by (simp add: note_first_packet_def)
  note tr = trim_done [OF this]
  show ?thesis
  proof (cases "length (jb_buffer jb) = 50")
    case False
    then show ?thesis
      unfolding push tr using d l mx keys' n by (auto simp: waiting_def note_first_packet_def)
  next
    case True
    have un: "unat (?n + 1) = Suc (unat ?n)" using n m unat_plus_of_nat [of ?n 1] by simp
    have "length (map fst (jb_buffer jb)) = m - Suc (unat ?n)" unfolding keys by simp
    then have less: "Suc (unat ?n) < m" using True by simp
    have "map fst (drop 1 (jb_buffer jb @ [(of_nat m, p)])) = drop 1 (map of_nat [Suc (unat ?n)..<Suc m])"
      unfolding keys' [symmetric] by (rule drop_map [symmetric])
    also have "\<dots> = map of_nat [Suc (Suc (unat ?n))..<Suc m]" by (simp add: drop_map)
    finally show ?thesis
      unfolding push tr using d mx True un less by (simp add: waiting_def note_first_packet_def)
  qed
qed

lemma waiting_run:
  assumes "waiting jb m" and "pushes_from m es"
  shows "fst (jitter_run es jb) = []"
  using assms
proof (induction m es arbitrary: jb rule: pushes_from.induct)
  case (2 m t p es)
  have "waiting (jitter_push t p jb) (Suc m)"
    by (rule waiting_push) (use 2 pushes_from_bound [of "Suc m" es] in auto)
  with 2 show ?case by simp
next
  case (3 m t es)
  then show ?case using waiting_pop [OF 3(2)] pushes_from_bound [of m es] by simp
qed simp


section \<open>Properties\<close>

text \<open>
  C18. Whatever arrives, in whatever order and however often, playback is strictly increasing and
  bounded. In every run of a new buffer the packets played were pushed before, their sequence
  numbers strictly increase (no packet is played twice or after a later one), and the buffer
  never holds more than 50 packets. Sequence numbers are below the largest \<open>u32\<close>.
\<close>

theorem playback_is_increasing:
  assumes "\<forall>p\<in>set (pushed es). vp_sequence p < -1"
  shows "sorted_wrt (<) (map vp_sequence (fst (jitter_run es (new_jitter_buffer ms)))) \<and>
    set (fst (jitter_run es (new_jitter_buffer ms))) \<subseteq> set (pushed es) \<and>
    jitter_depth (snd (jitter_run es (new_jitter_buffer ms))) \<le> 50"
proof -
  have "jb_buffer (new_jitter_buffer ms) = []" by (simp add: new_jitter_buffer_def)
  with jitter_run_increasing [OF jitter_ok_new _ assms, of ms] show ?thesis
    by (simp add: jitter_ok_def jitter_depth_def)
qed


text \<open>\<open>make_packet\<close> of the unit tests.\<close>

definition pkt :: "u32 \<Rightarrow> voice_packet" where
  "pkt seq = \<lparr>vp_sender_key = replicate 32 0, vp_sequence = seq, vp_timestamp = ucast seq * 20,
     vp_audio_data = replicate 160 0\<rparr>"

definition sample_events :: "jitter_event list" where
  "sample_events = [Push 0 (pkt 2), Push 1 (pkt 0), Pop 2, Push 3 (pkt 0), Push 4 (pkt 1), Pop 5, Pop 6]"

theorem playback_is_increasing_witness:
  "sorted_wrt (<) (map vp_sequence (fst (jitter_run sample_events (new_jitter_buffer 0)))) \<and>
    set (fst (jitter_run sample_events (new_jitter_buffer 0))) \<subseteq> set (pushed sample_events) \<and>
    jitter_depth (snd (jitter_run sample_events (new_jitter_buffer 0))) \<le> 50"
  by (rule playback_is_increasing) (simp add: sample_events_def pkt_def word_less_nat_alt unsigned_minus_1_eq_mask mask_eq_exp_minus_1)

text \<open>
  Packets that arrive out of order are played in order. If the packets with the consecutive
  sequence numbers from \<open>s\<close> on, at most 50 and enough to end the initial fill, arrive in any
  order before playback starts, then that many ticks play all of them, in order.
\<close>

theorem reordered_packets_play_in_order:
  assumes "consecutive s qs" and "mset ps = mset qs" and "length qs \<le> 50"
    and "max (unat ms div 20) 1 \<le> length qs" and "length ts = length qs"
  shows "fst (jitter_run (map (Push t) ps @ map Pop ts) (new_jitter_buffer ms)) = qs"
proof -
  let ?jb = "new_jitter_buffer ms"
  have set: "set ps = set qs" and len: "length ps = length qs"
    using assms(2) by (metis set_mset_mset, metis size_mset)
  have "distinct (map vp_sequence qs)"
    using consecutive_strict [OF assms(1)] by (simp add: strict_sorted_iff)
  then have d: "distinct (map vp_sequence ps)"
    using assms(2) by (metis mset_eq_imp_distinct_iff mset_map)
  have new: "\<not> initial_fill_done ?jb" "set (jb_buffer ?jb) = keyed ` {}"
      "length (jb_buffer ?jb) + length ps \<le> 50" "vp_sequence ` {} \<inter> vp_sequence ` set ps = {}"
    using assms(3) len by (simp_all add: new_jitter_buffer_def)
  obtain jb where run: "jitter_run (map (Push t) ps @ map Pop ts) ?jb = jitter_run (map Pop ts) jb"
    and ok: "jitter_ok jb" and nd: "\<not> initial_fill_done jb" and b: "set (jb_buffer jb) = keyed ` set qs"
    and l: "length (jb_buffer jb) = length qs" and ms: "jb_target_delay_ms jb = ms"
    using pushes_fill [OF jitter_ok_new new(1-3) d new(4), of t "map Pop ts"] set len
    by (auto simp: new_jitter_buffer_def)
  have buf: "jb_buffer jb = map keyed qs"
    by (rule sorted_map_keyed [OF assms(1)]) (use ok b in \<open>auto simp: jitter_ok_def\<close>)
  have fill: "check_initial_fill now jb = (True, jb\<lparr>initial_fill_done := True\<rparr>)" for now
    using assms(4) l ms by (simp add: check_initial_fill_def target_packets_def)
  have "qs \<noteq> []" using assms(4) by auto
  then obtain q qs' where q: "qs = q # qs'" "vp_sequence q = s"
    using assms(1) by (cases qs) (auto simp: consecutive_Cons)
  let ?started = "start_playback (jb\<lparr>initial_fill_done := True\<rparr>)"
  have started: "initial_fill_done ?started" "jb_buffer ?started = map keyed qs" "next_playback_seq ?started = s"
    using buf q by (simp_all add: start_playback_def keyed_def)
  have same: "jitter_pop now jb = jitter_pop now ?started" for now
    using nd fill started(1) by (simp add: jitter_pop_def)
  obtain t1 ts' where "ts = t1 # ts'" using assms(5) q by (cases ts) auto
  then have "fst (jitter_run (map Pop ts) jb) = fst (jitter_run (map Pop ts) ?started)"
    using same by simp
  also have "\<dots> = qs" by (rule pops_play [OF started assms(1,5)])
  finally show ?thesis using run by simp
qed

theorem reordered_packets_play_in_order_witness:
  "fst (jitter_run (map (Push 0) [pkt 7, pkt 5, pkt 6] @ map Pop [1, 2, 3]) (new_jitter_buffer 60)) =
    [pkt 5, pkt 6, pkt 7]"
  by (rule reordered_packets_play_in_order [of 5]) (simp_all add: pkt_def consecutive_Cons, simp add: consecutive_def)

text \<open>
  C19. One lost packet ends playback. When the buffer has played everything it holds and waits for
  a packet that never comes, then however many of the following packets arrive in order, and
  however often playback asks for one, nothing is played again: the position is not moved past
  the gap, and when the buffer overflows it moves to the packet that was just dropped.
\<close>

theorem one_lost_packet_stops_playback:
  assumes "initial_fill_done jb" and "jb_buffer jb = []" and "max_packets jb = 50"
    and "pushes_from (unat (next_playback_seq jb) + 1) es"
  shows "fst (jitter_run es jb) = []"
proof (rule waiting_run [OF _ assms(4)])
  show "waiting jb (unat (next_playback_seq jb) + 1)" using assms(1-3) by (simp add: waiting_def)
qed

definition after_first_packet :: jitter_buffer where
  "after_first_packet = snd (jitter_run [Push 0 (pkt 0), Pop 20] (new_jitter_buffer 0))"

theorem one_lost_packet_stops_playback_witness:
  "fst (jitter_run [Push 40 (pkt 2), Pop 60, Push 60 (pkt 3), Pop 80, Pop 100] after_first_packet) = []"
proof -
  have "initial_fill_done after_first_packet \<and> jb_buffer after_first_packet = [] \<and>
      max_packets after_first_packet = 50 \<and> next_playback_seq after_first_packet = 1"
    by (simp add: after_first_packet_def pkt_def new_jitter_buffer_def jitter_push_def
        note_first_packet_def trim.simps jitter_pop_def check_initial_fill_def target_packets_def
        start_playback_def take_next_def Let_def)
  then show ?thesis by (intro one_lost_packet_stops_playback) (simp_all add: pkt_def)
qed

end
