(* ===== verification/Session.thy ===== *)
theory Session
  imports Dht
begin

text \<open>
  Signal sessions (\<open>crates/rekindle-crypto/src/signal/\<close>): the in-memory stores the client runs
  on (\<open>memory_stores.rs\<close>), prekey bundles (\<open>prekeys.rs\<close>), X3DH in both roles, the symmetric
  ratchet and its serialisation (\<open>session.rs\<close>). X25519, HKDF-SHA256, AES-256-GCM and Ed25519 are
  parameters; fresh secrets are arguments. A function of the manager is a state transformer
  over the stores; a slice out of range is a panic.
\<close>

section \<open>Errors and primitives\<close>

datatype crypto_error =
    KeyGeneration string | SigningError string | VerificationError string | EncryptionError string
  | DecryptionError string | InvalidKey string | SessionError string | PreKeyError string
  | StorageError string

datatype crypto_failure = CryptoFailed crypto_error | CryptoPanicked string

record crypto =
  x25519_public :: "bytes \<Rightarrow> bytes"
  diffie_hellman :: "bytes \<Rightarrow> bytes \<Rightarrow> bytes"
  hkdf_expand :: "bytes \<Rightarrow> string \<Rightarrow> nat \<Rightarrow> bytes"
  aes_seal :: "bytes \<Rightarrow> bytes \<Rightarrow> bytes \<Rightarrow> string + bytes"
  aes_open :: "bytes \<Rightarrow> bytes \<Rightarrow> bytes \<Rightarrow> string + bytes"
  ed25519_sign :: "bytes \<Rightarrow> bytes \<Rightarrow> bytes"

section \<open>Stores\<close>

record signal_manager =
  sm_identity_private :: bytes
  sm_identity_public :: bytes
  sm_registration_id :: u32
  sm_trusted :: "(string \<times> bytes) list"
  sm_prekeys :: "(u32 \<times> bytes) list"
  sm_signed_prekeys :: "(u32 \<times> bytes) list"
  sm_sessions :: "(string \<times> bytes) list"

type_synonym 'a signal = "(signal_manager, crypto_failure, 'a) io"

definition new_signal_manager :: "bytes \<Rightarrow> bytes \<Rightarrow> u32 \<Rightarrow> signal_manager" where
  "new_signal_manager identity_private identity_public registration_id =
     \<lparr>sm_identity_private = identity_private, sm_identity_public = identity_public,
      sm_registration_id = registration_id, sm_trusted = [], sm_prekeys = [],
      sm_signed_prekeys = [], sm_sessions = []\<rparr>"

definition get_identity_key_pair :: "(bytes \<times> bytes) signal" where
  "get_identity_key_pair = (\<lambda>sm. (Inr (sm_identity_private sm, sm_identity_public sm), sm))"

definition is_trusted_identity :: "string \<Rightarrow> bytes \<Rightarrow> bool signal" where
  "is_trusted_identity address identity_key = (\<lambda>sm.
     (Inr (case map_of (sm_trusted sm) address of Some stored \<Rightarrow> stored = identity_key | None \<Rightarrow> True), sm))"

definition save_identity :: "string \<Rightarrow> bytes \<Rightarrow> unit signal" where
  "save_identity address identity_key =
     (\<lambda>sm. (Inr (), sm\<lparr>sm_trusted := AList.update address identity_key (sm_trusted sm)\<rparr>))"

definition load_prekey :: "u32 \<Rightarrow> bytes option signal" where
  "load_prekey i = (\<lambda>sm. (Inr (map_of (sm_prekeys sm) i), sm))"

definition store_prekey :: "u32 \<Rightarrow> bytes \<Rightarrow> unit signal" where
  "store_prekey i k = (\<lambda>sm. (Inr (), sm\<lparr>sm_prekeys := AList.update i k (sm_prekeys sm)\<rparr>))"

definition remove_prekey :: "u32 \<Rightarrow> unit signal" where
  "remove_prekey i = (\<lambda>sm. (Inr (), sm\<lparr>sm_prekeys := AList.delete i (sm_prekeys sm)\<rparr>))"

definition load_signed_prekey :: "u32 \<Rightarrow> bytes option signal" where
  "load_signed_prekey i = (\<lambda>sm. (Inr (map_of (sm_signed_prekeys sm) i), sm))"

definition store_signed_prekey :: "u32 \<Rightarrow> bytes \<Rightarrow> unit signal" where
  "store_signed_prekey i k =
     (\<lambda>sm. (Inr (), sm\<lparr>sm_signed_prekeys := AList.update i k (sm_signed_prekeys sm)\<rparr>))"

definition load_session :: "string \<Rightarrow> bytes option signal" where
  "load_session address = (\<lambda>sm. (Inr (map_of (sm_sessions sm) address), sm))"

definition store_session :: "string \<Rightarrow> bytes \<Rightarrow> unit signal" where
  "store_session address data =
     (\<lambda>sm. (Inr (), sm\<lparr>sm_sessions := AList.update address data (sm_sessions sm)\<rparr>))"

definition has_session :: "string \<Rightarrow> bool signal" where
  "has_session address = (\<lambda>sm. (Inr (map_of (sm_sessions sm) address \<noteq> None), sm))"

definition delete_session :: "string \<Rightarrow> unit signal" where
  "delete_session address = (\<lambda>sm. (Inr (), sm\<lparr>sm_sessions := AList.delete address (sm_sessions sm)\<rparr>))"

definition list_sessions :: "string list signal" where
  "list_sessions = (\<lambda>sm. (Inr (map fst (sm_sessions sm)), sm))"

section \<open>The ratchet and its bytes\<close>

record ratchet_state =
  root_key :: bytes
  sending_chain_key :: bytes
  receiving_chain_key :: bytes
  our_ratchet_secret :: bytes
  their_ratchet_public :: bytes
  send_counter :: u64
  recv_counter :: u64

definition length_prefixed :: "bytes \<Rightarrow> bytes" where
  "length_prefixed b = le_bytes 4 (length b) @ b"

definition serialize_ratchet :: "ratchet_state \<Rightarrow> bytes" where
  "serialize_ratchet r =
     root_key r @ sending_chain_key r @ receiving_chain_key r @
     length_prefixed (our_ratchet_secret r) @ length_prefixed (their_ratchet_public r) @
     u64_le_bytes (send_counter r) @ u64_le_bytes (recv_counter r)"

text \<open>\<open>data[pos..pos + n]\<close>, with the position after it.\<close>

definition slice :: "bytes \<Rightarrow> nat \<Rightarrow> nat \<Rightarrow> crypto_failure + bytes \<times> nat" where
  "slice data pos n =
     (if pos + n \<le> length data then Inr (take n (drop pos data), pos + n)
      else Inl (CryptoPanicked ''range end index out of range''))"

definition deserialize_ratchet :: "bytes \<Rightarrow> (signal_manager, crypto_failure, ratchet_state) io" where
  "deserialize_ratchet data =
     (if length data < 112 then throw (CryptoFailed (SessionError ''invalid session data''))
      else
        io_bind (from_result (slice data 0 32)) (\<lambda>(root, pos).
        io_bind (from_result (slice data pos 32)) (\<lambda>(sending, pos).
        io_bind (from_result (slice data pos 32)) (\<lambda>(receiving, pos).
        io_bind (from_result (slice data pos 4)) (\<lambda>(our_len, pos).
        io_bind (from_result (slice data pos (le_nat our_len))) (\<lambda>(our, pos).
        io_bind (from_result (slice data pos 4)) (\<lambda>(their_len, pos).
        io_bind (from_result (slice data pos (le_nat their_len))) (\<lambda>(their, pos).
        io_bind (from_result (slice data pos 8)) (\<lambda>(sent, pos).
        io_bind (from_result (slice data pos 8)) (\<lambda>(received, pos).
        ok \<lparr>root_key = root, sending_chain_key = sending, receiving_chain_key = receiving,
            our_ratchet_secret = our, their_ratchet_public = their,
            send_counter = of_nat (le_nat sent), recv_counter = of_nat (le_nat received)\<rparr>))))))))))"

section \<open>Session establishment\<close>

record prekey_bundle =
  pb_identity_key :: bytes
  pb_signed_prekey :: bytes
  pb_signed_prekey_signature :: bytes
  pb_one_time_prekey :: "bytes option"
  pb_registration_id :: u32

record session_init_info =
  si_ephemeral_public_key :: bytes
  si_signed_prekey_id :: u32
  si_one_time_prekey_id :: "u32 option"

text \<open>\<open><[u8; 32]>::try_from(bytes)\<close>.\<close>

definition key32 :: "string \<Rightarrow> bytes \<Rightarrow> bytes signal" where
  "key32 what b =
     (if length b = 32 then ok b else throw (CryptoFailed (InvalidKey (what @ '' wrong length''))))"

text \<open>\<open>&identity_private[..32]\<close> panics on a shorter key.\<close>

definition identity_secret :: "bytes signal" where
  "identity_secret =
     io_bind get_identity_key_pair (\<lambda>(identity_private, _).
     if length identity_private < 32 then throw (CryptoPanicked ''range end index out of range'')
     else ok (take 32 identity_private))"

text \<open>The three keys cut from the output of HKDF: root, first and second chain key.\<close>

definition x3dh_keys :: "crypto \<Rightarrow> bytes \<Rightarrow> bytes \<times> bytes \<times> bytes" where
  "x3dh_keys cr ikm =
     (let okm = hkdf_expand cr ikm ''ReKindleX3DH'' 96
      in (take 32 okm, take 32 (drop 32 okm), take 32 (drop 64 okm)))"

definition establish_session ::
  "crypto \<Rightarrow> bytes \<Rightarrow> string \<Rightarrow> prekey_bundle \<Rightarrow> session_init_info signal" where
  "establish_session cr ephemeral_secret peer_address bundle =
     io_bind identity_secret (\<lambda>our_identity.
     io_bind (key32 ''signed prekey'' (pb_signed_prekey bundle)) (\<lambda>their_signed_prekey.
     io_bind (key32 ''identity key'' (pb_identity_key bundle)) (\<lambda>their_identity.
     let dh1 = diffie_hellman cr our_identity their_signed_prekey;
         dh2 = diffie_hellman cr ephemeral_secret their_identity;
         dh3 = diffie_hellman cr ephemeral_secret their_signed_prekey
     in io_bind
          (case pb_one_time_prekey bundle of
             None \<Rightarrow> ok (dh1 @ dh2 @ dh3)
           | Some otpk \<Rightarrow> io_bind (key32 ''one-time prekey'' otpk) (\<lambda>their_otpk.
               ok (dh1 @ dh2 @ dh3 @ diffie_hellman cr ephemeral_secret their_otpk))) (\<lambda>ikm.
        case x3dh_keys cr ikm of (root, first, second) \<Rightarrow>
        let ephemeral_public = x25519_public cr ephemeral_secret;
            ratchet = \<lparr>root_key = root, sending_chain_key = first, receiving_chain_key = second,
              our_ratchet_secret = ephemeral_public, their_ratchet_public = pb_signed_prekey bundle,
              send_counter = 0, recv_counter = 0\<rparr>
        in io_bind (store_session peer_address (serialize_ratchet ratchet)) (\<lambda>_.
           io_bind (save_identity peer_address (pb_identity_key bundle)) (\<lambda>_.
           ok \<lparr>si_ephemeral_public_key = ephemeral_public, si_signed_prekey_id = 1,
               si_one_time_prekey_id = (if pb_one_time_prekey bundle \<noteq> None then Some 1 else None)\<rparr>))))))"

definition required :: "string \<Rightarrow> bytes option \<Rightarrow> bytes signal" where
  "required what k =
     (case k of Some b \<Rightarrow> ok b | None \<Rightarrow> throw (CryptoFailed (InvalidKey (what @ '' not found''))))"

definition respond_to_session ::
  "crypto \<Rightarrow> string \<Rightarrow> bytes \<Rightarrow> bytes \<Rightarrow> u32 \<Rightarrow> u32 option \<Rightarrow> unit signal" where
  "respond_to_session cr peer_address their_identity_key their_ephemeral_key signed_prekey_id
     one_time_prekey_id =
     io_bind identity_secret (\<lambda>our_identity.
     io_bind (load_signed_prekey signed_prekey_id) (\<lambda>spk.
     io_bind (required ''signed prekey'' spk) (\<lambda>spk_data.
     io_bind (key32 ''signed prekey'' spk_data) (\<lambda>signed_prekey.
     io_bind (key32 ''their identity key'' their_identity_key) (\<lambda>their_identity.
     io_bind (key32 ''their ephemeral key'' their_ephemeral_key) (\<lambda>their_ephemeral.
     let dh1 = diffie_hellman cr signed_prekey their_identity;
         dh2 = diffie_hellman cr our_identity their_ephemeral;
         dh3 = diffie_hellman cr signed_prekey their_ephemeral
     in io_bind
          (case one_time_prekey_id of
             None \<Rightarrow> ok (dh1 @ dh2 @ dh3)
           | Some otpk_id \<Rightarrow>
               io_bind (load_prekey otpk_id) (\<lambda>otpk.
               io_bind (required ''one-time prekey'' otpk) (\<lambda>otpk_data.
               io_bind (key32 ''one-time prekey'' otpk_data) (\<lambda>otpk_secret.
               io_bind (remove_prekey otpk_id) (\<lambda>_.
               ok (dh1 @ dh2 @ dh3 @ diffie_hellman cr otpk_secret their_ephemeral)))))) (\<lambda>ikm.
        case x3dh_keys cr ikm of (root, first, second) \<Rightarrow>
        let ratchet = \<lparr>root_key = root, sending_chain_key = second, receiving_chain_key = first,
              our_ratchet_secret = x25519_public cr signed_prekey,
              their_ratchet_public = their_ephemeral_key, send_counter = 0, recv_counter = 0\<rparr>
        in io_bind (store_session peer_address (serialize_ratchet ratchet)) (\<lambda>_.
           save_identity peer_address their_identity_key))))))))"

section \<open>Messages\<close>

definition message_nonce :: "u64 \<Rightarrow> bytes" where
  "message_nonce counter = replicate 4 0 @ u64_le_bytes counter"

definition load_ratchet :: "string \<Rightarrow> ratchet_state signal" where
  "load_ratchet peer_address =
     io_bind (load_session peer_address) (\<lambda>data.
     case data of
       None \<Rightarrow> throw (CryptoFailed (SessionError ''no session for peer''))
     | Some d \<Rightarrow> deserialize_ratchet d)"

definition signal_encrypt :: "crypto \<Rightarrow> string \<Rightarrow> bytes \<Rightarrow> bytes signal" where
  "signal_encrypt cr peer_address plaintext =
     io_bind (load_ratchet peer_address) (\<lambda>ratchet.
     let message_key = hkdf_expand cr (sending_chain_key ratchet) ''ReKindleMsgKey'' 32;
         next_chain_key = hkdf_expand cr (sending_chain_key ratchet) ''ReKindleChainKey'' 32;
         ratchet1 = ratchet\<lparr>sending_chain_key := next_chain_key, send_counter := send_counter ratchet + 1\<rparr>;
         nonce = message_nonce (send_counter ratchet1)
     in io_bind (map_error (\<lambda>e. CryptoFailed (EncryptionError e))
                   (from_result (aes_seal cr message_key nonce plaintext))) (\<lambda>ciphertext.
        io_bind (store_session peer_address (serialize_ratchet ratchet1)) (\<lambda>_.
        ok (u64_le_bytes (send_counter ratchet1) @ nonce @ ciphertext))))"

definition signal_decrypt :: "crypto \<Rightarrow> string \<Rightarrow> bytes \<Rightarrow> bytes signal" where
  "signal_decrypt cr peer_address message =
     (if length message < 20 then throw (CryptoFailed (DecryptionError ''message too short''))
      else
        io_bind (load_ratchet peer_address) (\<lambda>ratchet.
        let nonce = take 12 (drop 8 message);
            ciphertext = drop 20 message;
            message_key = hkdf_expand cr (receiving_chain_key ratchet) ''ReKindleMsgKey'' 32;
            next_chain_key = hkdf_expand cr (receiving_chain_key ratchet) ''ReKindleChainKey'' 32;
            ratchet1 = ratchet\<lparr>receiving_chain_key := next_chain_key, recv_counter := recv_counter ratchet + 1\<rparr>
        in io_bind (map_error (\<lambda>e. CryptoFailed (DecryptionError e))
                      (from_result (aes_open cr message_key nonce ciphertext))) (\<lambda>plaintext.
           io_bind (store_session peer_address (serialize_ratchet ratchet1)) (\<lambda>_.
           ok plaintext))))"

section \<open>Prekey bundles\<close>

definition generate_prekey_bundle ::
  "crypto \<Rightarrow> bytes \<Rightarrow> bytes \<Rightarrow> u32 \<Rightarrow> u32 option \<Rightarrow> prekey_bundle signal" where
  "generate_prekey_bundle cr signed_prekey_secret one_time_secret signed_prekey_id one_time_prekey_id =
     io_bind get_identity_key_pair (\<lambda>(identity_private, identity_public).
     io_bind (\<lambda>sm. (Inr (sm_registration_id sm), sm)) (\<lambda>registration_id.
     let signed_prekey_public = x25519_public cr signed_prekey_secret
     in io_bind (store_signed_prekey signed_prekey_id signed_prekey_secret) (\<lambda>_.
        io_bind (if length identity_private < 32 then throw (CryptoPanicked ''range end index out of range'')
                  else ok (take 32 identity_private)) (\<lambda>signing_key.
        io_bind
          (case one_time_prekey_id of
             None \<Rightarrow> ok None
           | Some otpk_id \<Rightarrow> io_bind (store_prekey otpk_id one_time_secret) (\<lambda>_.
               ok (Some (x25519_public cr one_time_secret)))) (\<lambda>one_time_prekey.
        ok \<lparr>pb_identity_key = identity_public, pb_signed_prekey = signed_prekey_public,
            pb_signed_prekey_signature = ed25519_sign cr signing_key signed_prekey_public,
            pb_one_time_prekey = one_time_prekey, pb_registration_id = registration_id\<rparr>)))))"

end
