(* ===== verification/Sessions.thy ===== *)
theory Sessions
  imports Session
begin

text \<open>
  What Signal sessions give: the bytes of a ratchet read back, both sides of a handshake hold the
  same keys, and messages delivered in order decrypt, while a message lost on the way ends its
  direction of the session.
\<close>

section \<open>Laws of the primitives\<close>

text \<open>
  Diffie-Hellman commutes, outputs have the length asked for, and what is sealed opens under the
  same key and nonce.
\<close>

definition crypto_ok :: "crypto \<Rightarrow> bool" where
  "crypto_ok cr \<longleftrightarrow>
     (\<forall>a. length (x25519_public cr a) = 32) \<and>
     (\<forall>a b. diffie_hellman cr a (x25519_public cr b) = diffie_hellman cr b (x25519_public cr a)) \<and>
     (\<forall>ikm info n. length (hkdf_expand cr ikm info n) = n) \<and>
     (\<forall>k n p. \<exists>c. aes_seal cr k n p = Inr c \<and> aes_open cr k n c = Inr p)"

section \<open>Serialisation\<close>

definition ratchet_ok :: "ratchet_state \<Rightarrow> bool" where
  "ratchet_ok r \<longleftrightarrow> length (root_key r) = 32 \<and> length (sending_chain_key r) = 32 \<and>
     length (receiving_chain_key r) = 32 \<and> length (our_ratchet_secret r) < 2 ^ 32 \<and>
     length (their_ratchet_public r) < 2 ^ 32"

lemma slice_append:
  "pos = length pre \<Longrightarrow> length b = n \<Longrightarrow> slice (pre @ b @ post) pos n = Inr (b, pos + n)"
  by (simp add: slice_def)

lemma deserialize_serialize:
  assumes "ratchet_ok r"
  shows "deserialize_ratchet (serialize_ratchet r) = ok r"
proof -
  let ?a = "root_key r" and ?b = "sending_chain_key r" and ?c = "receiving_chain_key r"
  let ?u = "our_ratchet_secret r" and ?t = "their_ratchet_public r"
  let ?s = "u64_le_bytes (send_counter r)" and ?v = "u64_le_bytes (recv_counter r)"
  let ?d = "serialize_ratchet r"
  have len: "length ?a = 32" "length ?b = 32" "length ?c = 32" "length ?u < 2 ^ 32" "length ?t < 2 ^ 32"
    using assms by (simp_all add: ratchet_ok_def)
  have d: "?d = ?a @ ?b @ ?c @ le_bytes 4 (length ?u) @ ?u @ le_bytes 4 (length ?t) @ ?t @ ?s @ ?v"
    by (simp add: serialize_ratchet_def length_prefixed_def)
  have n: "le_nat (le_bytes 4 (length ?u)) = length ?u" "le_nat (le_bytes 4 (length ?t)) = length ?t"
    using len by (simp_all add: le_nat_le_bytes)
  have s0: "slice ?d 0 32 = Inr (?a, 32)"
    using slice_append [of 0 "[]" ?a 32] len by (simp add: d)
  have s1: "slice ?d 32 32 = Inr (?b, 64)"
    using slice_append [of 32 ?a ?b 32] len by (simp add: d)
  have s2: "slice ?d 64 32 = Inr (?c, 96)"
    using slice_append [of 64 "?a @ ?b" ?c 32] len by (simp add: d)
  have s3: "slice ?d 96 4 = Inr (le_bytes 4 (length ?u), 100)"
    using slice_append [of 96 "?a @ ?b @ ?c" "le_bytes 4 (length ?u)" 4] len by (simp add: d)
  have s4: "slice ?d 100 (length ?u) = Inr (?u, 100 + length ?u)"
    using slice_append [of 100 "?a @ ?b @ ?c @ le_bytes 4 (length ?u)" ?u] len by (simp add: d)
  have s5: "slice ?d (100 + length ?u) 4 = Inr (le_bytes 4 (length ?t), 104 + length ?u)"
    using slice_append [of "100 + length ?u" "?a @ ?b @ ?c @ le_bytes 4 (length ?u) @ ?u" "le_bytes 4 (length ?t)" 4]
      len by (simp add: d)
  have s6: "slice ?d (104 + length ?u) (length ?t) = Inr (?t, 104 + length ?u + length ?t)"
    using slice_append [of "104 + length ?u" "?a @ ?b @ ?c @ le_bytes 4 (length ?u) @ ?u @ le_bytes 4 (length ?t)" ?t]
      len by (simp add: d)
  have s7: "slice ?d (104 + length ?u + length ?t) 8 = Inr (?s, 112 + length ?u + length ?t)"
    using slice_append [of "104 + length ?u + length ?t"
        "?a @ ?b @ ?c @ le_bytes 4 (length ?u) @ ?u @ le_bytes 4 (length ?t) @ ?t" ?s 8] len by (simp add: d)
  have s8: "slice ?d (112 + length ?u + length ?t) 8 = Inr (?v, 120 + length ?u + length ?t)"
    using slice_append [of "112 + length ?u + length ?t"
        "?a @ ?b @ ?c @ le_bytes 4 (length ?u) @ ?u @ le_bytes 4 (length ?t) @ ?t @ ?s" ?v 8 "[]"] len by (simp add: d)
  have l: "\<not> length ?d < 112" using len by (simp add: d)
  show ?thesis
    using l by (simp add: deserialize_ratchet_def s0 s1 s2 s3 s4 s5 s6 s7 s8 n u64_of_le_bytes)
      (rule arg_cong [of _ _ ok], rule ratchet_state.equality, simp_all)
qed

section \<open>One message\<close>

definition holds_ratchet :: "signal_manager \<Rightarrow> string \<Rightarrow> ratchet_state \<Rightarrow> bool" where
  "holds_ratchet sm peer r \<longleftrightarrow> map_of (sm_sessions sm) peer = Some (serialize_ratchet r) \<and> ratchet_ok r"

lemma load_ratchet_holds: "holds_ratchet sm peer r \<Longrightarrow> load_ratchet peer sm = (Inr r, sm)"
  by (simp add: load_ratchet_def load_session_def io_bind_def holds_ratchet_def deserialize_serialize ok_def)

definition message_key :: "crypto \<Rightarrow> bytes \<Rightarrow> bytes" where
  "message_key cr chain = hkdf_expand cr chain ''ReKindleMsgKey'' 32"

definition next_chain :: "crypto \<Rightarrow> bytes \<Rightarrow> bytes" where
  "next_chain cr chain = hkdf_expand cr chain ''ReKindleChainKey'' 32"

lemma signal_encrypt_step:
  assumes C: "crypto_ok cr" and H: "holds_ratchet sm peer r"
  shows "\<exists>c sm'. signal_encrypt cr peer m sm =
      (Inr (u64_le_bytes (send_counter r + 1) @ message_nonce (send_counter r + 1) @ c), sm') \<and>
    aes_seal cr (message_key cr (sending_chain_key r)) (message_nonce (send_counter r + 1)) m = Inr c \<and>
    holds_ratchet sm' peer (r\<lparr>sending_chain_key := next_chain cr (sending_chain_key r),
      send_counter := send_counter r + 1\<rparr>)"
proof -
  obtain c where "aes_seal cr (message_key cr (sending_chain_key r)) (message_nonce (send_counter r + 1)) m = Inr c"
    using C unfolding crypto_ok_def by blast
  note c = this
  let ?r = "r\<lparr>sending_chain_key := next_chain cr (sending_chain_key r), send_counter := send_counter r + 1\<rparr>"
  let ?sm = "sm\<lparr>sm_sessions := AList.update peer (serialize_ratchet ?r) (sm_sessions sm)\<rparr>"
  have "signal_encrypt cr peer m sm =
      (Inr (u64_le_bytes (send_counter r + 1) @ message_nonce (send_counter r + 1) @ c), ?sm)"
    using c load_ratchet_holds [OF H]
    by (simp add: signal_encrypt_def io_bind_def Let_def message_key_def next_chain_def
        store_session_def ok_def map_error_def from_result_def)
  moreover have "holds_ratchet ?sm peer ?r"
    using C H by (simp add: holds_ratchet_def update_conv' ratchet_ok_def crypto_ok_def next_chain_def)
  ultimately show ?thesis using c by blast
qed

lemma message_parts:
  "take 12 (drop 8 (u64_le_bytes n @ message_nonce n @ c)) = message_nonce n"
  "drop 20 (u64_le_bytes n @ message_nonce n @ c) = c"
  "\<not> length (u64_le_bytes n @ message_nonce n @ c) < 20"
  by (simp_all add: message_nonce_def)

lemma signal_decrypt_step:
  assumes C: "crypto_ok cr" and H: "holds_ratchet sm peer r"
  shows "signal_decrypt cr peer (u64_le_bytes n @ message_nonce n @ c) sm =
    (case aes_open cr (message_key cr (receiving_chain_key r)) (message_nonce n) c of
       Inl e \<Rightarrow> (Inl (CryptoFailed (DecryptionError e)), sm)
     | Inr p \<Rightarrow> (Inr p, sm\<lparr>sm_sessions := AList.update peer (serialize_ratchet
         (r\<lparr>receiving_chain_key := next_chain cr (receiving_chain_key r),
            recv_counter := recv_counter r + 1\<rparr>)) (sm_sessions sm)\<rparr>))"
  unfolding signal_decrypt_def message_parts
  using message_parts(3) [of n c] load_ratchet_holds [OF H]
  by (simp add: io_bind_def Let_def message_key_def next_chain_def store_session_def ok_def
      map_error_def from_result_def split: sum.split)

text \<open>Two managers whose ratchets mirror each other.\<close>

definition linked ::
  "string \<Rightarrow> string \<Rightarrow> signal_manager \<Rightarrow> signal_manager \<Rightarrow> bool" where
  "linked addr_a addr_b a b \<longleftrightarrow>
     (\<exists>ra rb. holds_ratchet a addr_b ra \<and> holds_ratchet b addr_a rb \<and>
        sending_chain_key ra = receiving_chain_key rb \<and> receiving_chain_key ra = sending_chain_key rb)"

section \<open>Session establishment\<close>

text \<open>A manager whose identity is an X25519 key pair.\<close>

definition identity_ok :: "crypto \<Rightarrow> signal_manager \<Rightarrow> bool" where
  "identity_ok cr sm \<longleftrightarrow> length (sm_identity_private sm) = 32 \<and>
     sm_identity_public sm = x25519_public cr (sm_identity_private sm)"

lemma identity_secret_ok: "identity_ok cr sm \<Longrightarrow> identity_secret sm = (Inr (sm_identity_private sm), sm)"
  by (simp add: identity_secret_def get_identity_key_pair_def io_bind_def identity_ok_def ok_def)

lemma key32_ok: "length b = 32 \<Longrightarrow> key32 what b = ok b"
  by (simp add: key32_def)

lemma x3dh_ratchet_ok:
  assumes "crypto_ok cr" and "x3dh_keys cr ikm = (root, first, second)" and "length u < 2 ^ 32" and "length t < 2 ^ 32"
  shows "ratchet_ok \<lparr>root_key = root, sending_chain_key = first, receiving_chain_key = second,
      our_ratchet_secret = u, their_ratchet_public = t, send_counter = 0, recv_counter = 0\<rparr>"
    and "ratchet_ok \<lparr>root_key = root, sending_chain_key = second, receiving_chain_key = first,
      our_ratchet_secret = u, their_ratchet_public = t, send_counter = 0, recv_counter = 0\<rparr>"
  using assms by (auto simp: ratchet_ok_def x3dh_keys_def Let_def crypto_ok_def)

lemma handshake:
  assumes C: "crypto_ok cr" and A: "identity_ok cr a" and B: "identity_ok cr b"
    and S: "length spk = 32" "length otk = 32"
  shows "\<exists>bundle b1 info a1 b2.
    generate_prekey_bundle cr spk otk 1 (Some 1) b = (Inr bundle, b1) \<and>
    establish_session cr eph addr_b bundle a = (Inr info, a1) \<and>
    respond_to_session cr addr_a (sm_identity_public a) (si_ephemeral_public_key info)
      (si_signed_prekey_id info) (si_one_time_prekey_id info) b1 = (Inr (), b2) \<and>
    linked addr_a addr_b a1 b2"
proof -
  let ?pub = "x25519_public cr" and ?dh = "diffie_hellman cr"
  have len: "length (?pub x) = 32" for x using C by (simp add: crypto_ok_def)
  have dh: "?dh x (?pub y) = ?dh y (?pub x)" for x y using C unfolding crypto_ok_def by blast
  let ?ap = "sm_identity_private a" and ?bp = "sm_identity_private b"
  have pubs: "sm_identity_public a = ?pub ?ap" "sm_identity_public b = ?pub ?bp"
    "length ?ap = 32" "length ?bp = 32" using A B by (simp_all add: identity_ok_def)
  let ?pkb = "\<lparr>pb_identity_key = ?pub ?bp, pb_signed_prekey = ?pub spk,
    pb_signed_prekey_signature = ed25519_sign cr ?bp (?pub spk), pb_one_time_prekey = Some (?pub otk),
    pb_registration_id = sm_registration_id b\<rparr>"
  let ?b1 = "b\<lparr>sm_signed_prekeys := AList.update 1 spk (sm_signed_prekeys b),
    sm_prekeys := AList.update 1 otk (sm_prekeys b)\<rparr>"
  have gen: "generate_prekey_bundle cr spk otk 1 (Some 1) b = (Inr ?pkb, ?b1)"
    using pubs by (simp add: generate_prekey_bundle_def get_identity_key_pair_def store_signed_prekey_def
        store_prekey_def io_bind_def ok_def Let_def)
  let ?ikm = "?dh ?ap (?pub spk) @ ?dh eph (?pub ?bp) @ ?dh eph (?pub spk) @ ?dh eph (?pub otk)"
  obtain root first second where keys: "x3dh_keys cr ?ikm = (root, first, second)" by (cases "x3dh_keys cr ?ikm")
  let ?ra = "\<lparr>root_key = root, sending_chain_key = first, receiving_chain_key = second,
    our_ratchet_secret = ?pub eph, their_ratchet_public = ?pub spk, send_counter = 0, recv_counter = 0\<rparr>"
  let ?rb = "\<lparr>root_key = root, sending_chain_key = second, receiving_chain_key = first,
    our_ratchet_secret = ?pub spk, their_ratchet_public = ?pub eph, send_counter = 0, recv_counter = 0\<rparr>"
  let ?info = "\<lparr>si_ephemeral_public_key = ?pub eph, si_signed_prekey_id = 1, si_one_time_prekey_id = Some 1\<rparr>"
  let ?a1 = "a\<lparr>sm_sessions := AList.update addr_b (serialize_ratchet ?ra) (sm_sessions a),
    sm_trusted := AList.update addr_b (?pub ?bp) (sm_trusted a)\<rparr>"
  have est: "establish_session cr eph addr_b ?pkb a = (Inr ?info, ?a1)"
    using identity_secret_ok [OF A] keys len
    by (simp add: establish_session_def key32_ok io_bind_def ok_def Let_def store_session_def save_identity_def)
  have mirror: "?dh spk (?pub ?ap) @ ?dh ?bp (?pub eph) @ ?dh spk (?pub eph) @ ?dh otk (?pub eph) = ?ikm"
    by (simp add: dh [of spk] dh [of ?bp] dh [of otk])
  have B1: "identity_ok cr ?b1" using B by (simp add: identity_ok_def)
  let ?b2 = "?b1\<lparr>sm_prekeys := AList.delete 1 (sm_prekeys ?b1),
    sm_sessions := AList.update addr_a (serialize_ratchet ?rb) (sm_sessions ?b1),
    sm_trusted := AList.update addr_a (?pub ?ap) (sm_trusted ?b1)\<rparr>"
  have resp: "respond_to_session cr addr_a (?pub ?ap) (?pub eph) 1 (Some 1) ?b1 = (Inr (), ?b2)"
    using identity_secret_ok [OF B1] keys len S
    by (simp add: respond_to_session_def key32_ok io_bind_def ok_def Let_def store_session_def save_identity_def
        load_signed_prekey_def load_prekey_def remove_prekey_def required_def update_conv' mirror)
  have "holds_ratchet ?a1 addr_b ?ra" "holds_ratchet ?b2 addr_a ?rb"
    using x3dh_ratchet_ok(1) [OF C keys, of "?pub eph" "?pub spk"]
      x3dh_ratchet_ok(2) [OF C keys, of "?pub spk" "?pub eph"] len
    by (simp_all add: holds_ratchet_def update_conv')
  then have "linked addr_a addr_b ?a1 ?b2" unfolding linked_def by (intro exI [of _ ?ra] exI [of _ ?rb]) simp
  with gen est resp show ?thesis unfolding pubs by fastforce
qed


section \<open>Conversations\<close>

text \<open>
  A conversation is a sequence of steps of the first side (\<open>True\<close>) and the second: a side encrypts
  a message, or takes the oldest ciphertext still under way to it and decrypts it. Messages may cross:
  any number may be under way in both directions. The result is what each side heard, or nothing
  when an operation failed.
\<close>

datatype talk = Say bool bytes | Hear bool

fun converse ::
  "crypto \<Rightarrow> string \<Rightarrow> string \<Rightarrow> talk list \<Rightarrow> bytes list \<Rightarrow> bytes list \<Rightarrow> signal_manager \<Rightarrow> signal_manager
   \<Rightarrow> (bool \<times> bytes) list option" where
  "converse cr addr_a addr_b [] to_b to_a a b = Some []"
| "converse cr addr_a addr_b (Say True m # steps) to_b to_a a b =
     (case signal_encrypt cr addr_b m a of
        (Inl e, a1) \<Rightarrow> None
      | (Inr c, a1) \<Rightarrow> converse cr addr_a addr_b steps (to_b @ [c]) to_a a1 b)"
| "converse cr addr_a addr_b (Say False m # steps) to_b to_a a b =
     (case signal_encrypt cr addr_a m b of
        (Inl e, b1) \<Rightarrow> None
      | (Inr c, b1) \<Rightarrow> converse cr addr_a addr_b steps to_b (to_a @ [c]) a b1)"
| "converse cr addr_a addr_b (Hear True # steps) to_b [] a b = converse cr addr_a addr_b steps to_b [] a b"
| "converse cr addr_a addr_b (Hear True # steps) to_b (c # to_a) a b =
     (case signal_decrypt cr addr_b c a of
        (Inl e, a1) \<Rightarrow> None
      | (Inr m, a1) \<Rightarrow> map_option (Cons (True, m)) (converse cr addr_a addr_b steps to_b to_a a1 b))"
| "converse cr addr_a addr_b (Hear False # steps) [] to_a a b = converse cr addr_a addr_b steps [] to_a a b"
| "converse cr addr_a addr_b (Hear False # steps) (c # to_b) to_a a b =
     (case signal_decrypt cr addr_a c b of
        (Inl e, b1) \<Rightarrow> None
      | (Inr m, b1) \<Rightarrow> map_option (Cons (False, m)) (converse cr addr_a addr_b steps to_b to_a a b1))"

text \<open>What the same steps hear when two queues carry the messages as they are.\<close>

fun spoken :: "talk list \<Rightarrow> bytes list \<Rightarrow> bytes list \<Rightarrow> (bool \<times> bytes) list" where
  "spoken [] to_b to_a = []"
| "spoken (Say True m # steps) to_b to_a = spoken steps (to_b @ [m]) to_a"
| "spoken (Say False m # steps) to_b to_a = spoken steps to_b (to_a @ [m])"
| "spoken (Hear True # steps) to_b [] = spoken steps to_b []"
| "spoken (Hear True # steps) to_b (m # to_a) = (True, m) # spoken steps to_b to_a"
| "spoken (Hear False # steps) [] to_a = spoken steps [] to_a"
| "spoken (Hear False # steps) (m # to_b) to_a = (False, m) # spoken steps to_b to_a"

text \<open>Ciphertexts under way: each is sealed with the key of its place in the chain.\<close>

fun under_way :: "crypto \<Rightarrow> bytes \<Rightarrow> bytes list \<Rightarrow> bytes list \<Rightarrow> bytes \<Rightarrow> bool" where
  "under_way cr receiving [] [] sending \<longleftrightarrow> sending = receiving"
| "under_way cr receiving (c # cs) (m # ms) sending \<longleftrightarrow>
     (\<exists>n x. c = u64_le_bytes n @ message_nonce n @ x \<and>
        aes_seal cr (message_key cr receiving) (message_nonce n) m = Inr x) \<and>
     under_way cr (next_chain cr receiving) cs ms sending"
| "under_way cr receiving cs ms sending \<longleftrightarrow> False"

lemma under_way_snoc:
  assumes "under_way cr receiving cs ms sending"
    and "aes_seal cr (message_key cr sending) (message_nonce n) m = Inr x"
  shows "under_way cr receiving (cs @ [u64_le_bytes n @ message_nonce n @ x]) (ms @ [m]) (next_chain cr sending)"
  using assms by (induction cr receiving cs ms sending rule: under_way.induct) auto

lemma under_way_Nil [simp]:
  "under_way cr receiving [] ms sending \<longleftrightarrow> ms = [] \<and> sending = receiving"
  by (cases ms) auto

lemma under_way_Cons:
  assumes "under_way cr receiving (c # cs) ms sending"
  obtains n x m ms' where "ms = m # ms'" and "c = u64_le_bytes n @ message_nonce n @ x"
    and "aes_seal cr (message_key cr receiving) (message_nonce n) m = Inr x"
    and "under_way cr (next_chain cr receiving) cs ms' sending"
  using assms by (cases ms) auto

definition conversing ::
  "crypto \<Rightarrow> string \<Rightarrow> string \<Rightarrow> bytes list \<Rightarrow> bytes list \<Rightarrow> bytes list \<Rightarrow> bytes list
   \<Rightarrow> signal_manager \<Rightarrow> signal_manager \<Rightarrow> bool" where
  "conversing cr addr_a addr_b to_b ms_b to_a ms_a a b \<longleftrightarrow>
     (\<exists>ra rb. holds_ratchet a addr_b ra \<and> holds_ratchet b addr_a rb \<and>
        under_way cr (receiving_chain_key rb) to_b ms_b (sending_chain_key ra) \<and>
        under_way cr (receiving_chain_key ra) to_a ms_a (sending_chain_key rb))"

lemma conversing_sym:
  "conversing cr addr_a addr_b to_b ms_b to_a ms_a a b = conversing cr addr_b addr_a to_a ms_a to_b ms_b b a"
  unfolding conversing_def by metis

lemma says:
  assumes C: "crypto_ok cr" and "conversing cr addr_a addr_b to_b ms_b to_a ms_a a b"
  shows "\<exists>c a1. signal_encrypt cr addr_b m a = (Inr c, a1) \<and>
    conversing cr addr_a addr_b (to_b @ [c]) (ms_b @ [m]) to_a ms_a a1 b"
proof -
  obtain ra rb where r: "holds_ratchet a addr_b ra" "holds_ratchet b addr_a rb"
      "under_way cr (receiving_chain_key rb) to_b ms_b (sending_chain_key ra)"
      "under_way cr (receiving_chain_key ra) to_a ms_a (sending_chain_key rb)"
    using assms(2) by (auto simp: conversing_def)
  from signal_encrypt_step [OF C r(1), of m] obtain x a1 where
    e: "signal_encrypt cr addr_b m a =
      (Inr (u64_le_bytes (send_counter ra + 1) @ message_nonce (send_counter ra + 1) @ x), a1)"
    and s: "aes_seal cr (message_key cr (sending_chain_key ra)) (message_nonce (send_counter ra + 1)) m = Inr x"
    and a1: "holds_ratchet a1 addr_b (ra\<lparr>sending_chain_key := next_chain cr (sending_chain_key ra),
      send_counter := send_counter ra + 1\<rparr>)"
    by blast
  then show ?thesis
    using under_way_snoc [OF r(3) s] r(2,4) by (auto simp: conversing_def intro!: exI)
qed

lemma hears:
  assumes C: "crypto_ok cr" and "conversing cr addr_a addr_b to_b ms_b (c # to_a) ms_a a b"
  shows "\<exists>m ms a1. ms_a = m # ms \<and> signal_decrypt cr addr_b c a = (Inr m, a1) \<and>
    conversing cr addr_a addr_b to_b ms_b to_a ms a1 b"
proof -
  obtain ra rb where r: "holds_ratchet a addr_b ra" "holds_ratchet b addr_a rb"
      "under_way cr (receiving_chain_key rb) to_b ms_b (sending_chain_key ra)"
      "under_way cr (receiving_chain_key ra) (c # to_a) ms_a (sending_chain_key rb)"
    using assms(2) by (auto simp: conversing_def)
  obtain n x m ms where ms: "ms_a = m # ms" and c: "c = u64_le_bytes n @ message_nonce n @ x"
    and s: "aes_seal cr (message_key cr (receiving_chain_key ra)) (message_nonce n) m = Inr x"
    and rest: "under_way cr (next_chain cr (receiving_chain_key ra)) to_a ms (sending_chain_key rb)"
    by (rule under_way_Cons [OF r(4)])
  have opened: "aes_open cr (message_key cr (receiving_chain_key ra)) (message_nonce n) x = Inr m"
    using C s unfolding crypto_ok_def by (metis sum.inject(2))
  let ?ra = "ra\<lparr>receiving_chain_key := next_chain cr (receiving_chain_key ra), recv_counter := recv_counter ra + 1\<rparr>"
  let ?a = "a\<lparr>sm_sessions := AList.update addr_b (serialize_ratchet ?ra) (sm_sessions a)\<rparr>"
  have "signal_decrypt cr addr_b c a = (Inr m, ?a)"
    using signal_decrypt_step [OF C r(1), of n x] opened c by simp
  moreover have "holds_ratchet ?a addr_b ?ra"
    using r(1) C by (simp add: holds_ratchet_def update_conv' ratchet_ok_def crypto_ok_def next_chain_def)
  then have "conversing cr addr_a addr_b to_b ms_b to_a ms ?a b"
    using r(2,3) rest by (auto simp: conversing_def intro!: exI)
  ultimately show ?thesis using ms by blast
qed

lemma converse_spoken:
  assumes "crypto_ok cr" and "conversing cr addr_a addr_b to_b ms_b to_a ms_a a b"
  shows "converse cr addr_a addr_b steps to_b to_a a b = Some (spoken steps ms_b ms_a)"
  using assms(2)
proof (induction steps arbitrary: to_b ms_b to_a ms_a a b)
  case (Cons step steps)
  note sym = conversing_sym [THEN iffD1]
  show ?case
  proof (cases step)
    case (Say first m)
    show ?thesis
    proof (cases first)
      case True
      then show ?thesis using says [OF assms(1) Cons.prems, of m] Cons.IH Say by auto
    next
      case False
      from says [OF assms(1) sym [OF Cons.prems], of m] obtain c b1 where
        "signal_encrypt cr addr_a m b = (Inr c, b1)" "conversing cr addr_b addr_a (to_a @ [c]) (ms_a @ [m]) to_b ms_b b1 a"
        by blast
      then show ?thesis using Cons.IH [OF sym] Say False by simp
    qed
  next
    case (Hear first)
    show ?thesis
    proof (cases first)
      case True
      show ?thesis
      proof (cases to_a)
        case Nil
        then have "ms_a = []" using Cons.prems by (auto simp: conversing_def)
        then show ?thesis using Cons.IH [OF Cons.prems] Hear True Nil by simp
      next
        case to_a: (Cons c cs)
        then show ?thesis using hears [OF assms(1) Cons.prems [unfolded to_a]] Cons.IH Hear True by auto
      qed
    next
      case False
      show ?thesis
      proof (cases to_b)
        case Nil
        then have "ms_b = []" using Cons.prems by (auto simp: conversing_def)
        then show ?thesis using Cons.IH [OF Cons.prems] Hear False Nil by simp
      next
        case to_b: (Cons c cs)
        from hears [OF assms(1) sym [OF Cons.prems [unfolded to_b]]] obtain m ms b1 where
          "ms_b = m # ms" "signal_decrypt cr addr_a c b = (Inr m, b1)" "conversing cr addr_b addr_a to_a ms_a cs ms b1 a"
          by blast
        then show ?thesis using Cons.IH [OF sym] Hear False to_b by simp
      qed
    qed
  qed
qed simp

section \<open>A lost message\<close>

text \<open>Opening under another key than the one sealed with fails.\<close>

definition aead_authentic :: "crypto \<Rightarrow> bool" where
  "aead_authentic cr \<longleftrightarrow>
     (\<forall>k k' n m c. length k = 32 \<and> length k' = 32 \<and> aes_seal cr k n m = Inr c \<and> k' \<noteq> k \<longrightarrow>
        (\<exists>e. aes_open cr k' n c = Inl e))"

lemma collect_encrypt_returns:
  assumes "crypto_ok cr" and "holds_ratchet sm peer r"
  shows "\<exists>cs sm'. collect (signal_encrypt cr peer) ms sm = (Inr cs, sm')"
  using assms(2)
proof (induction ms arbitrary: sm r)
  case (Cons m ms)
  from signal_encrypt_step [OF assms(1) Cons.prems, of m] obtain c sm1 r1 where
    "signal_encrypt cr peer m sm = (Inr c, sm1)" "holds_ratchet sm1 peer r1" by blast
  with Cons.IH [of sm1 r1] show ?case by (auto simp: io_bind_def ok_def)
qed (simp add: ok_def)

lemma collect_encrypt_keys:
  assumes C: "crypto_ok cr"
  shows "holds_ratchet sm peer r \<Longrightarrow> collect (signal_encrypt cr peer) ms sm = (Inr cs, sm') \<Longrightarrow> c \<in> set cs \<Longrightarrow>
    \<exists>i n m ct. i < length ms \<and> c = u64_le_bytes n @ message_nonce n @ ct \<and>
      aes_seal cr (message_key cr ((next_chain cr ^^ i) (sending_chain_key r))) (message_nonce n) m = Inr ct"
proof (induction ms arbitrary: sm r cs)
  case Nil
  then show ?case by (simp add: ok_def)
next
  case (Cons m ms)
  let ?r = "r\<lparr>sending_chain_key := next_chain cr (sending_chain_key r), send_counter := send_counter r + 1\<rparr>"
  from signal_encrypt_step [OF C Cons.prems(1), of m] obtain ct sm1 where
    e: "signal_encrypt cr peer m sm =
      (Inr (u64_le_bytes (send_counter r + 1) @ message_nonce (send_counter r + 1) @ ct), sm1)"
    and s: "aes_seal cr (message_key cr (sending_chain_key r)) (message_nonce (send_counter r + 1)) m = Inr ct"
    and h: "holds_ratchet sm1 peer ?r" by blast
  from Cons.prems(2) e obtain cs1 where rest: "collect (signal_encrypt cr peer) ms sm1 = (Inr cs1, sm')"
    and cs: "cs = (u64_le_bytes (send_counter r + 1) @ message_nonce (send_counter r + 1) @ ct) # cs1"
    by (auto simp: io_bind_def ok_def split: prod.splits sum.splits)
  show ?case
  proof (cases "c \<in> set cs1")
    case True
    from Cons.IH [OF h rest True] obtain i n m' ct' where "i < length ms"
        "c = u64_le_bytes n @ message_nonce n @ ct'"
        "aes_seal cr (message_key cr ((next_chain cr ^^ i) (next_chain cr (sending_chain_key r)))) (message_nonce n) m' = Inr ct'"
      by auto
    then show ?thesis by (intro exI [of _ "Suc i"]) (auto simp: funpow_swap1)
  next
    case False
    then show ?thesis
      using Cons.prems(3) cs s
      by (intro exI [of _ 0] exI [of _ "send_counter r + 1"] exI [of _ m] exI [of _ ct]) auto
  qed
qed

lemma lost_message:
  assumes C: "crypto_ok cr" and A: "aead_authentic cr"
    and ra: "holds_ratchet a addr_b ra" and rb: "holds_ratchet b addr_a rb"
    and keys: "sending_chain_key ra = receiving_chain_key rb"
    and enc: "collect (signal_encrypt cr addr_b) (m # ms) a = (Inr (c # cs), a1)"
    and fresh: "\<forall>i. 0 < i \<and> i \<le> length ms \<longrightarrow>
      message_key cr ((next_chain cr ^^ i) (sending_chain_key ra)) \<noteq> message_key cr (sending_chain_key ra)"
    and c': "c' \<in> set cs"
  shows "\<exists>e. signal_decrypt cr addr_a c' b = (Inl (CryptoFailed (DecryptionError e)), b)"
proof -
  let ?r = "ra\<lparr>sending_chain_key := next_chain cr (sending_chain_key ra), send_counter := send_counter ra + 1\<rparr>"
  from signal_encrypt_step [OF C ra, of m] enc obtain sm1 where
    h: "holds_ratchet sm1 addr_b ?r" and rest: "collect (signal_encrypt cr addr_b) ms sm1 = (Inr cs, a1)"
    by (auto simp: io_bind_def ok_def split: prod.splits sum.splits)
  from collect_encrypt_keys [OF C h rest c'] obtain i n m' ct where i: "i < length ms"
    and c: "c' = u64_le_bytes n @ message_nonce n @ ct"
    and s: "aes_seal cr (message_key cr ((next_chain cr ^^ i) (next_chain cr (sending_chain_key ra))))
      (message_nonce n) m' = Inr ct" by auto
  have "message_key cr ((next_chain cr ^^ Suc i) (sending_chain_key ra)) \<noteq> message_key cr (sending_chain_key ra)"
    using fresh [rule_format, of "Suc i"] i by simp
  then have "message_key cr ((next_chain cr ^^ i) (next_chain cr (sending_chain_key ra))) \<noteq>
      message_key cr (sending_chain_key ra)" by (simp add: funpow_swap1)
  moreover have "length (message_key cr k) = 32" for k using C by (simp add: crypto_ok_def message_key_def)
  ultimately obtain e where "aes_open cr (message_key cr (receiving_chain_key rb)) (message_nonce n) ct = Inl e"
    using A s keys unfolding aead_authentic_def by metis
  with signal_decrypt_step [OF C rb, of n ct] c show ?thesis by simp
qed

section \<open>Prekeys\<close>

text \<open>
  A response that uses a one-time prekey removes it, and only a new bundle stores it again: the
  next response to the same bundle fails.
\<close>

lemma one_time_prekey_used_once:
  assumes "respond_to_session cr addr ik ek spk_id (Some otpk_id) sm = (Inr (), sm')"
  shows "fst (respond_to_session cr addr' ik' ek' spk_id' (Some otpk_id) sm') \<noteq> Inr ()"
proof -
  have "map_of (sm_prekeys sm') otpk_id = None"
    using assms
    by (auto simp: respond_to_session_def identity_secret_def get_identity_key_pair_def io_bind_def ok_def
        throw_def key32_def load_signed_prekey_def required_def load_prekey_def remove_prekey_def
        store_session_def save_identity_def Let_def delete_conv'
        split: prod.splits sum.splits if_splits option.splits)
  then show ?thesis
    by (auto simp: respond_to_session_def identity_secret_def get_identity_key_pair_def io_bind_def ok_def
        throw_def key32_def load_signed_prekey_def required_def load_prekey_def remove_prekey_def Let_def
        split: prod.splits sum.splits if_splits option.splits)
qed

text \<open>A changed identity key replaces the trusted one without a check.\<close>

lemma save_identity_overwrites:
  "fst (is_trusted_identity address k' (snd (save_identity address k' (snd (save_identity address k sm))))) = Inr True"
  by (simp add: is_trusted_identity_def save_identity_def update_conv')


section \<open>Properties\<close>

text \<open>
  C20. A session carries a conversation. After Bob makes a bundle, Alice establishes a session
  with it and Bob answers with her session info, the answer succeeds, both hold the same keys
  with the chains swapped. In every conversation, however the two encrypt and receive in turn, with
  any number of messages crossing, as long as each direction delivers in order, every ciphertext
  delivered decrypts to the message encrypted, through the stored and reloaded bytes of the ratchets.
\<close>

theorem session_carries_conversation:
  assumes "crypto_ok cr" and "identity_ok cr a" and "identity_ok cr b"
    and "length spk = 32" and "length otk = 32"
  shows "\<exists>bundle b1 info a1 b2.
    generate_prekey_bundle cr spk otk 1 (Some 1) b = (Inr bundle, b1) \<and>
    establish_session cr eph addr_b bundle a = (Inr info, a1) \<and>
    respond_to_session cr addr_a (sm_identity_public a) (si_ephemeral_public_key info)
      (si_signed_prekey_id info) (si_one_time_prekey_id info) b1 = (Inr (), b2) \<and>
    (\<forall>steps. converse cr addr_a addr_b steps [] [] a1 b2 = Some (spoken steps [] []))"
proof -
  have "conversing cr addr_a addr_b [] [] [] [] a1 b2" if "linked addr_a addr_b a1 b2" for a1 b2
    using that unfolding linked_def conversing_def by simp metis
  then show ?thesis
    using handshake [OF assms, of eph addr_b addr_a] converse_spoken [OF assms(1)] by blast
qed

text \<open>
  C21. A lost message ends its direction of a session. The counter in a message is read and
  ignored, so the receiving chain has one key to try: if the first message of a burst is not
  delivered, decrypting any later message of it fails and leaves the receiver as it was, and so
  it fails however often and in whatever order they are tried.
\<close>

theorem lost_message_blocks_session:
  assumes "crypto_ok cr" and "aead_authentic cr"
    and "holds_ratchet a addr_b ra" and "holds_ratchet b addr_a rb"
    and "sending_chain_key ra = receiving_chain_key rb"
    and "collect (signal_encrypt cr addr_b) (m # ms) a = (Inr (c # cs), a1)"
    and "\<forall>i. 0 < i \<and> i \<le> length ms \<longrightarrow>
      message_key cr ((next_chain cr ^^ i) (sending_chain_key ra)) \<noteq> message_key cr (sending_chain_key ra)"
  shows "\<forall>c'\<in>set cs. \<exists>e. signal_decrypt cr addr_a c' b = (Inl (CryptoFailed (DecryptionError e)), b)"
  using lost_message [OF assms(1-6)] assms(7) by blast

section \<open>A concrete cryptography\<close>

text \<open>Keys are read as numbers, Diffie-Hellman adds them, and sealing prepends the key.\<close>

definition fit :: "nat \<Rightarrow> bytes \<Rightarrow> bytes" where
  "fit n b = take n (b @ replicate n 0)"

lemma length_fit [simp]: "length (fit n b) = n"
  by (simp add: fit_def)

lemma fit_fit [simp]: "fit n (fit n b) = fit n b"
  by (simp add: fit_def)

definition toy_crypto :: crypto where
  "toy_crypto =
     \<lparr>x25519_public = fit 32,
      diffie_hellman = (\<lambda>a b. map2 (+) (fit 32 a) (fit 32 b)),
      hkdf_expand = (\<lambda>ikm info n. if info = ''ReKindleChainKey'' then le_bytes n (Suc (le_nat ikm))
        else if info = ''ReKindleMsgKey'' then le_bytes n (le_nat ikm) else fit n ikm),
      aes_seal = (\<lambda>k n p. Inr (k @ n @ p)),
      aes_open = (\<lambda>k n c. if take (length k + length n) c = k @ n then Inr (drop (length k + length n) c)
        else Inl ''aead::Error''),
      ed25519_sign = (\<lambda>k m. fit 64 (k @ m))\<rparr>"

lemma map2_plus_commute: "map2 (+) xs ys = map2 (+) ys (xs :: u8 list)"
  by (induction xs ys rule: list_induct2') (simp_all add: add.commute)

lemma toy_crypto_ok: "crypto_ok toy_crypto"
  by (auto simp: crypto_ok_def toy_crypto_def intro: map2_plus_commute)

lemma toy_authentic: "aead_authentic toy_crypto"
  by (auto simp: aead_authentic_def toy_crypto_def)

definition alice :: signal_manager where
  "alice = new_signal_manager (replicate 32 1) (replicate 32 1) 7"

definition bob_manager :: signal_manager where
  "bob_manager = new_signal_manager (replicate 32 2) (replicate 32 2) 8"

lemma identities_ok: "identity_ok toy_crypto alice" "identity_ok toy_crypto bob_manager"
  by (simp_all add: identity_ok_def toy_crypto_def alice_def bob_manager_def new_signal_manager_def fit_def)

theorem session_carries_conversation_witness:
  "\<exists>bundle b1 info a1 b2.
    generate_prekey_bundle toy_crypto (replicate 32 3) (replicate 32 4) 1 (Some 1) bob_manager = (Inr bundle, b1) \<and>
    establish_session toy_crypto (replicate 32 5) ''bob'' bundle alice = (Inr info, a1) \<and>
    respond_to_session toy_crypto ''alice'' (sm_identity_public alice) (si_ephemeral_public_key info)
      (si_signed_prekey_id info) (si_one_time_prekey_id info) b1 = (Inr (), b2) \<and>
    (\<forall>steps. converse toy_crypto ''alice'' ''bob'' steps [] [] a1 b2 = Some (spoken steps [] []))"
  by (rule session_carries_conversation [OF toy_crypto_ok identities_ok]) simp_all

lemma length_collect: "collect f xs w = (Inr ys, w') \<Longrightarrow> length ys = length xs"
  by (induction xs arbitrary: w ys) (auto simp: io_bind_def ok_def split: prod.splits sum.splits)

lemma le_nat_zeros [simp]: "le_nat (replicate n 0) = 0"
  by (induction n) simp_all

lemma toy_message_keys:
  "message_key toy_crypto (next_chain toy_crypto (replicate 32 0)) \<noteq> message_key toy_crypto (replicate 32 0)"
proof
  let ?k = "\<lambda>i. le_bytes 32 i"
  have one: "le_nat (?k 1) = 1" and zero: "le_nat (?k 0) = 0" by (simp_all add: le_nat_le_bytes)
  assume "message_key toy_crypto (next_chain toy_crypto (replicate 32 0)) = message_key toy_crypto (replicate 32 0)"
  then have "?k (le_nat (?k 1)) = ?k 0"
    by (simp add: message_key_def next_chain_def toy_crypto_def del: le_bytes.simps)
  then show False using one zero by (simp del: le_bytes.simps)
qed

definition sample_ratchet :: ratchet_state where
  "sample_ratchet = \<lparr>root_key = replicate 32 0, sending_chain_key = replicate 32 0,
     receiving_chain_key = replicate 32 0, our_ratchet_secret = [], their_ratchet_public = [],
     send_counter = 0, recv_counter = 0\<rparr>"

definition with_session :: "string \<Rightarrow> signal_manager \<Rightarrow> signal_manager" where
  "with_session peer sm = sm\<lparr>sm_sessions := [(peer, serialize_ratchet sample_ratchet)]\<rparr>"

lemma with_session_holds: "holds_ratchet (with_session peer sm) peer sample_ratchet"
  by (simp add: holds_ratchet_def with_session_def sample_ratchet_def ratchet_ok_def)

theorem lost_message_blocks_session_witness:
  "\<exists>c cs a1. collect (signal_encrypt toy_crypto ''bob'') [[1], [2]] (with_session ''bob'' alice) = (Inr (c # cs), a1) \<and>
    (\<forall>c'\<in>set cs. \<exists>e. signal_decrypt toy_crypto ''alice'' c' (with_session ''alice'' bob_manager) =
      (Inl (CryptoFailed (DecryptionError e)), with_session ''alice'' bob_manager))"
proof -
  let ?a = "with_session ''bob'' alice"
  from collect_encrypt_returns [OF toy_crypto_ok with_session_holds] obtain cs0 a1 where
    e: "collect (signal_encrypt toy_crypto ''bob'') [[1], [2]] ?a = (Inr cs0, a1)" by blast
  then obtain c cs where cs: "cs0 = c # cs"
    using length_collect [OF e] by (cases cs0) auto
  have fresh: "\<forall>i. 0 < i \<and> i \<le> length [[2 :: u8]] \<longrightarrow>
      message_key toy_crypto ((next_chain toy_crypto ^^ i) (sending_chain_key sample_ratchet)) \<noteq>
      message_key toy_crypto (sending_chain_key sample_ratchet)"
  proof (intro allI impI)
    fix i assume "0 < i \<and> i \<le> length [[2 :: u8]]"
    then have i: "i = 1" by simp
    show "message_key toy_crypto ((next_chain toy_crypto ^^ i) (sending_chain_key sample_ratchet)) \<noteq>
        message_key toy_crypto (sending_chain_key sample_ratchet)"
      using toy_message_keys unfolding i by (simp add: sample_ratchet_def)
  qed
  have same: "sending_chain_key sample_ratchet = receiving_chain_key sample_ratchet"
    by (simp add: sample_ratchet_def)
  from lost_message_blocks_session [OF toy_crypto_ok toy_authentic with_session_holds with_session_holds same
      e [unfolded cs] fresh] e cs
  show ?thesis by blast
qed

end
