(* ===== verification/DhtCrypto.thy ===== *)
theory DhtCrypto
  imports Session
begin

text \<open>
  \<open>DhtRecordKey\<close> (\<open>crates/rekindle-crypto/src/dht_crypto.rs\<close>): the keys that encrypt account and
  conversation records, and XChaCha20-Poly1305 with the nonce in front. HKDF, X25519 and the
  cipher are parameters; the random nonce is an argument.
\<close>

record aead =
  xchacha_seal :: "bytes \<Rightarrow> bytes \<Rightarrow> bytes \<Rightarrow> string + bytes"
  xchacha_open :: "bytes \<Rightarrow> bytes \<Rightarrow> bytes \<Rightarrow> string + bytes"

definition nonce_len :: nat where "nonce_len = 24"
definition tag_len :: nat where "tag_len = 16"

definition derive_account_key :: "crypto \<Rightarrow> bytes \<Rightarrow> bytes" where
  "derive_account_key cr ed25519_secret = hkdf_expand cr ed25519_secret ''rekindle-account-v1'' 32"

text \<open>The comparison of byte arrays.\<close>

fun bytes_less :: "bytes \<Rightarrow> bytes \<Rightarrow> bool" where
  "bytes_less [] ys \<longleftrightarrow> ys \<noteq> []"
| "bytes_less (x # xs) [] \<longleftrightarrow> False"
| "bytes_less (x # xs) (y # ys) \<longleftrightarrow> x < y \<or> x = y \<and> bytes_less xs ys"

definition conversation_info :: "bytes \<Rightarrow> bytes \<Rightarrow> string" where
  "conversation_info my_bytes their_bytes =
     (if bytes_less my_bytes their_bytes
      then bytes_as_string my_bytes @ bytes_as_string their_bytes
      else bytes_as_string their_bytes @ bytes_as_string my_bytes) @ ''rekindle-conversation-v1''"

definition derive_conversation_key :: "crypto \<Rightarrow> bytes \<Rightarrow> bytes \<Rightarrow> bytes" where
  "derive_conversation_key cr my_secret their_public =
     hkdf_expand cr (diffie_hellman cr my_secret their_public)
       (conversation_info (x25519_public cr my_secret) their_public) 32"

definition record_encrypt :: "aead \<Rightarrow> bytes \<Rightarrow> bytes \<Rightarrow> bytes \<Rightarrow> crypto_error + bytes" where
  "record_encrypt ae key nonce plaintext =
     (case xchacha_seal ae key nonce plaintext of
        Inl e \<Rightarrow> Inl (EncryptionError e)
      | Inr ciphertext \<Rightarrow> Inr (nonce @ ciphertext))"

definition record_decrypt :: "aead \<Rightarrow> bytes \<Rightarrow> bytes \<Rightarrow> crypto_error + bytes" where
  "record_decrypt ae key data =
     (if length data < nonce_len + tag_len then Inl (DecryptionError ''ciphertext too short'')
      else case xchacha_open ae key (take nonce_len data) (drop nonce_len data) of
        Inl e \<Rightarrow> Inl (DecryptionError e)
      | Inr plaintext \<Rightarrow> Inr plaintext)"

text \<open>The display of an error, and its conversion to an error of the protocol crate.\<close>

fun show_crypto_error :: "crypto_error \<Rightarrow> string" where
  "show_crypto_error (KeyGeneration e) = ''key generation failed: '' @ e"
| "show_crypto_error (SigningError e) = ''signing failed: '' @ e"
| "show_crypto_error (VerificationError e) = ''verification failed: '' @ e"
| "show_crypto_error (EncryptionError e) = ''encryption failed: '' @ e"
| "show_crypto_error (DecryptionError e) = ''decryption failed: '' @ e"
| "show_crypto_error (InvalidKey e) = ''invalid key material: '' @ e"
| "show_crypto_error (SessionError e) = ''signal session error: '' @ e"
| "show_crypto_error (PreKeyError e) = ''prekey error: '' @ e"
| "show_crypto_error (StorageError e) = ''key storage error: '' @ e"

definition protocol_result :: "crypto_error + 'a \<Rightarrow> protocol_error + 'a" where
  "protocol_result r = (case r of Inl e \<Rightarrow> Inl (CryptoError (show_crypto_error e)) | Inr x \<Rightarrow> Inr x)"

section \<open>Laws\<close>

text \<open>What was sealed opens under the same key and nonce, and is longer by the tag.\<close>

definition aead_ok :: "aead \<Rightarrow> bool" where
  "aead_ok ae \<longleftrightarrow> (\<forall>k n p. \<exists>c. xchacha_seal ae k n p = Inr c \<and> length c = length p + tag_len \<and>
     xchacha_open ae k n c = Inr p)"

lemma record_encryptE:
  assumes "aead_ok ae" and "length nonce = nonce_len"
  obtains data where "record_encrypt ae key nonce p = Inr data" and "record_decrypt ae key data = Inr p"
proof -
  obtain c where c: "xchacha_seal ae key nonce p = Inr c" "length c = length p + tag_len"
      "xchacha_open ae key nonce c = Inr p"
    using assms(1) unfolding aead_ok_def by blast
  show thesis
    by (rule that [of "nonce @ c"]) (use c assms(2) in \<open>simp_all add: record_encrypt_def record_decrypt_def\<close>)
qed

lemma bytes_less_linear: "bytes_less a b \<or> a = b \<or> bytes_less b a"
proof (induction a b rule: bytes_less.induct)
  case (1 ys)
  then show ?case by (cases ys) simp_all
qed auto

lemma bytes_less_asym: "bytes_less a b \<Longrightarrow> \<not> bytes_less b a"
proof (induction a b rule: bytes_less.induct)
  case (1 ys)
  then show ?case by (cases ys) simp_all
qed auto

text \<open>Both sides of a conversation derive the same key.\<close>

lemma conversation_info_sym: "conversation_info a b = conversation_info b a"
  using bytes_less_linear [of a b] bytes_less_asym [of a b] bytes_less_asym [of b a]
  by (auto simp: conversation_info_def)

lemma conversation_key_agreed:
  assumes "diffie_hellman cr a (x25519_public cr b) = diffie_hellman cr b (x25519_public cr a)"
  shows "derive_conversation_key cr a (x25519_public cr b) = derive_conversation_key cr b (x25519_public cr a)"
  using assms conversation_info_sym by (simp add: derive_conversation_key_def)

end
