(* ===== verification/Account.thy ===== *)
theory Account
  imports DhtCrypto AccountCodec Arrays
begin

text \<open>
  \<open>AccountRecord\<close> (\<open>crates/rekindle-protocol/src/dht/account.rs\<close>): a record whose only value is
  an encrypted header that points to three short arrays, the lists of contacts, chats and
  invitations, and keeps their owners' key pairs. The texts of key pairs are Veilid's; the time,
  the random nonces and the key are arguments.
\<close>

record 'p account_env =
  ae_head :: "short_array_head json"
  ae_aead :: aead
  ae_header :: "account_struct capnp"
  ae_contact :: "contact_struct capnp"
  ae_chat :: "chat_list_struct capnp"
  ae_show_keypair :: "'p \<Rightarrow> string"
  ae_parse_keypair :: "string \<Rightarrow> 'p option"

record ('k, 'p) account_record =
  ac_record_key :: 'k
  ac_owner_keypair :: 'p
  ac_encryption_key :: bytes
  ac_contact_list_key :: "string option"
  ac_chat_list_key :: "string option"
  ac_invitation_list_key :: "string option"
  ac_contact_list_keypair :: "'p option"
  ac_chat_list_keypair :: "'p option"
  ac_invitation_list_keypair :: "'p option"

definition write_account_header ::
  "('w, 'k, 'p) routing_context \<Rightarrow> 'p account_env \<Rightarrow> 'k \<Rightarrow> bytes \<Rightarrow> bytes \<Rightarrow> account_header
   \<Rightarrow> ('w, protocol_error, unit) io" where
  "write_account_header rc env key encryption_key nonce header =
     io_bind (from_result (protocol_result
       (record_encrypt (ae_aead env) encryption_key nonce (encode_account_header (ae_header env) header))))
       (\<lambda>ciphertext.
     map_error (dht_error ''write account header'') (rc_set rc key 0 ciphertext))"

definition account_create ::
  "('w, 'k, 'p) routing_context \<Rightarrow> 'p account_env \<Rightarrow> bytes \<Rightarrow> bytes \<Rightarrow> u64 \<Rightarrow> string \<Rightarrow> string
   \<Rightarrow> ('w, protocol_error, ('k, 'p) account_record \<times> 'p) io" where
  "account_create rc env encryption_key nonce now display_name status_message =
     (case rc_schema_error rc 1 of
        Some e \<Rightarrow> throw (dht_error ''invalid schema'' e)
      | None \<Rightarrow>
          io_bind (map_error (dht_error ''create account record'') (rc_create rc 1 None)) (\<lambda>(key, secret).
          case secret of
            None \<Rightarrow> throw (DhtError ''no owner secret after create'')
          | Some keypair \<Rightarrow>
              io_bind (short_array_create rc (ae_head env) 255 None) (\<lambda>(contacts, contacts_kp).
              io_bind (short_array_create rc (ae_head env) 255 None) (\<lambda>(chats, chats_kp).
              io_bind (short_array_create rc (ae_head env) 255 None) (\<lambda>(invitations, invitations_kp).
              let contact_list_key = short_array_record_key rc contacts;
                  chat_list_key = short_array_record_key rc chats;
                  invitation_list_key = short_array_record_key rc invitations;
                  header = \<lparr>ah_contact_list_key = contact_list_key, ah_chat_list_key = chat_list_key,
                    ah_invitation_list_key = invitation_list_key, ah_display_name = display_name,
                    ah_status_message = status_message, ah_avatar_hash = [], ah_created_at = now,
                    ah_updated_at = now,
                    ah_contact_list_keypair = Some (ae_show_keypair env contacts_kp),
                    ah_chat_list_keypair = Some (ae_show_keypair env chats_kp),
                    ah_invitation_list_keypair = Some (ae_show_keypair env invitations_kp)\<rparr>
              in io_bind (write_account_header rc env key encryption_key nonce header) (\<lambda>_.
                 ok (\<lparr>ac_record_key = key, ac_owner_keypair = keypair, ac_encryption_key = encryption_key,
                      ac_contact_list_key = Some contact_list_key, ac_chat_list_key = Some chat_list_key,
                      ac_invitation_list_key = Some invitation_list_key,
                      ac_contact_list_keypair = Some contacts_kp, ac_chat_list_keypair = Some chats_kp,
                      ac_invitation_list_keypair = Some invitations_kp\<rparr>, keypair)))))))"

definition decode_header_bytes ::
  "'p account_env \<Rightarrow> bytes \<Rightarrow> bytes \<Rightarrow> ('w, protocol_error, account_header) io" where
  "decode_header_bytes env encryption_key v =
     io_bind (from_result (protocol_result (record_decrypt (ae_aead env) encryption_key v))) (\<lambda>plaintext.
     from_result (decode_account_header (ae_header env) plaintext))"

definition account_open ::
  "('w, 'k, 'p) routing_context \<Rightarrow> 'p account_env \<Rightarrow> string \<Rightarrow> 'p \<Rightarrow> bytes
   \<Rightarrow> ('w, protocol_error, ('k, 'p) account_record) io" where
  "account_open rc env key owner_keypair encryption_key =
     io_bind (map_error (dht_error (''invalid key '' @ [CHR 0x27] @ key @ [CHR 0x27]))
                (from_result (rc_parse_key rc key))) (\<lambda>record_key.
     io_bind (map_error (dht_error ''open account record'') (rc_open rc record_key (Some owner_keypair))) (\<lambda>_.
     io_bind (map_error (dht_error ''read account header'') (rc_get rc record_key 0 False)) (\<lambda>value.
     let acc = \<lparr>ac_record_key = record_key, ac_owner_keypair = owner_keypair,
           ac_encryption_key = encryption_key, ac_contact_list_key = None, ac_chat_list_key = None,
           ac_invitation_list_key = None, ac_contact_list_keypair = None, ac_chat_list_keypair = None,
           ac_invitation_list_keypair = None\<rparr>
     in case value of
          None \<Rightarrow> ok acc
        | Some v \<Rightarrow>
            io_bind (decode_header_bytes env encryption_key v) (\<lambda>header.
            ok (acc\<lparr>ac_contact_list_key := Some (ah_contact_list_key header),
                    ac_chat_list_key := Some (ah_chat_list_key header),
                    ac_invitation_list_key := Some (ah_invitation_list_key header),
                    ac_contact_list_keypair := Option.bind (ah_contact_list_keypair header) (ae_parse_keypair env),
                    ac_chat_list_keypair := Option.bind (ah_chat_list_keypair header) (ae_parse_keypair env),
                    ac_invitation_list_keypair :=
                      Option.bind (ah_invitation_list_keypair header) (ae_parse_keypair env)\<rparr>)))))"

definition account_read_header ::
  "('w, 'k, 'p) routing_context \<Rightarrow> 'p account_env \<Rightarrow> ('k, 'p) account_record
   \<Rightarrow> ('w, protocol_error, account_header) io" where
  "account_read_header rc env acc =
     io_bind (map_error (dht_error ''read account header'') (rc_get rc (ac_record_key acc) 0 False)) (\<lambda>value.
     case value of
       None \<Rightarrow> throw (DhtError ''account header not set'')
     | Some v \<Rightarrow> decode_header_bytes env (ac_encryption_key acc) v)"

definition account_write_header ::
  "('w, 'k, 'p) routing_context \<Rightarrow> 'p account_env \<Rightarrow> ('k, 'p) account_record \<Rightarrow> bytes \<Rightarrow> account_header
   \<Rightarrow> ('w, protocol_error, unit) io" where
  "account_write_header rc env acc nonce header =
     write_account_header rc env (ac_record_key acc) (ac_encryption_key acc) nonce header"

text \<open>Every operation on a list opens its array again.\<close>

definition open_list ::
  "('w, 'k, 'p) routing_context \<Rightarrow> 'p account_env \<Rightarrow> string \<Rightarrow> string option \<Rightarrow> 'p option
   \<Rightarrow> ('w, protocol_error, ('k, 'p) dht_short_array) io" where
  "open_list rc env what list_key keypair =
     (case list_key of
        None \<Rightarrow> throw (DhtError (what @ '' list key not set''))
      | Some key \<Rightarrow> short_array_open rc (ae_head env) key keypair)"

definition open_contacts ::
  "('w, 'k, 'p) routing_context \<Rightarrow> 'p account_env \<Rightarrow> ('k, 'p) account_record
   \<Rightarrow> ('w, protocol_error, ('k, 'p) dht_short_array) io" where
  "open_contacts rc env acc =
     open_list rc env ''contact'' (ac_contact_list_key acc) (ac_contact_list_keypair acc)"

definition open_chats ::
  "('w, 'k, 'p) routing_context \<Rightarrow> 'p account_env \<Rightarrow> ('k, 'p) account_record
   \<Rightarrow> ('w, protocol_error, ('k, 'p) dht_short_array) io" where
  "open_chats rc env acc = open_list rc env ''chat'' (ac_chat_list_key acc) (ac_chat_list_keypair acc)"

definition open_invitations ::
  "('w, 'k, 'p) routing_context \<Rightarrow> 'p account_env \<Rightarrow> ('k, 'p) account_record
   \<Rightarrow> ('w, protocol_error, ('k, 'p) dht_short_array) io" where
  "open_invitations rc env acc =
     open_list rc env ''invitation'' (ac_invitation_list_key acc) (ac_invitation_list_keypair acc)"

definition add_contact ::
  "('w, 'k, 'p) routing_context \<Rightarrow> 'p account_env \<Rightarrow> ('k, 'p) account_record \<Rightarrow> contact_entry
   \<Rightarrow> ('w, protocol_error, u32) io" where
  "add_contact rc env acc entry =
     io_bind (open_contacts rc env acc) (\<lambda>arr.
     short_array_add rc (ae_head env) arr (encode_contact_entry (ae_contact env) entry))"

text \<open>Elements without data are skipped.\<close>

definition decode_entries :: "(bytes \<Rightarrow> protocol_error + 'a) \<Rightarrow> bytes list \<Rightarrow> protocol_error + 'a list" where
  "decode_entries decode all_data = collect_results decode (filter (\<lambda>data. data \<noteq> []) all_data)"

definition read_contacts ::
  "('w, 'k, 'p) routing_context \<Rightarrow> 'p account_env \<Rightarrow> ('k, 'p) account_record
   \<Rightarrow> ('w, protocol_error, contact_entry list) io" where
  "read_contacts rc env acc =
     io_bind (open_contacts rc env acc) (\<lambda>arr.
     io_bind (short_array_get_all rc (ae_head env) arr) (\<lambda>all_data.
     from_result (decode_entries (decode_contact_entry (ae_contact env)) all_data)))"

definition is_contact :: "contact_struct capnp \<Rightarrow> bytes \<Rightarrow> bytes \<Rightarrow> bool" where
  "is_contact cp public_key data \<longleftrightarrow> data \<noteq> [] \<and>
     (case decode_contact_entry cp data of Inr entry \<Rightarrow> ct_public_key entry = public_key | Inl e \<Rightarrow> False)"

text \<open>The first index the predicate holds at.\<close>

fun find_index :: "('a \<Rightarrow> bool) \<Rightarrow> 'a list \<Rightarrow> nat option" where
  "find_index P [] = None"
| "find_index P (x # xs) = (if P x then Some 0 else map_option Suc (find_index P xs))"

definition remove_contact ::
  "('w, 'k, 'p) routing_context \<Rightarrow> 'p account_env \<Rightarrow> ('k, 'p) account_record \<Rightarrow> bytes
   \<Rightarrow> ('w, protocol_error, unit) io" where
  "remove_contact rc env acc public_key =
     io_bind (open_contacts rc env acc) (\<lambda>arr.
     io_bind (short_array_get_all rc (ae_head env) arr) (\<lambda>all_data.
     case find_index (is_contact (ae_contact env) public_key) all_data of
       None \<Rightarrow> throw (DhtError ''contact not found in list'')
     | Some i \<Rightarrow> short_array_remove rc (ae_head env) arr (if i < 2 ^ 32 then of_nat i else -1)))"

definition add_chat ::
  "('w, 'k, 'p) routing_context \<Rightarrow> 'p account_env \<Rightarrow> ('k, 'p) account_record \<Rightarrow> chat_entry
   \<Rightarrow> ('w, protocol_error, u32) io" where
  "add_chat rc env acc entry =
     io_bind (open_chats rc env acc) (\<lambda>arr.
     short_array_add rc (ae_head env) arr (encode_chat_entry (ae_chat env) entry))"

definition read_chats ::
  "('w, 'k, 'p) routing_context \<Rightarrow> 'p account_env \<Rightarrow> ('k, 'p) account_record
   \<Rightarrow> ('w, protocol_error, chat_entry list) io" where
  "read_chats rc env acc =
     io_bind (open_chats rc env acc) (\<lambda>arr.
     io_bind (short_array_get_all rc (ae_head env) arr) (\<lambda>all_data.
     from_result (decode_entries (decode_chat_entry (ae_chat env)) all_data)))"

definition add_invitation ::
  "('w, 'k, 'p) routing_context \<Rightarrow> 'p account_env \<Rightarrow> ('k, 'p) account_record \<Rightarrow> bytes
   \<Rightarrow> ('w, protocol_error, u32) io" where
  "add_invitation rc env acc data =
     io_bind (open_invitations rc env acc) (\<lambda>arr. short_array_add rc (ae_head env) arr data)"

definition read_invitations ::
  "('w, 'k, 'p) routing_context \<Rightarrow> 'p account_env \<Rightarrow> ('k, 'p) account_record
   \<Rightarrow> ('w, protocol_error, bytes list) io" where
  "read_invitations rc env acc =
     io_bind (open_invitations rc env acc) (\<lambda>arr. short_array_get_all rc (ae_head env) arr)"

definition account_close ::
  "('w, 'k, 'p) routing_context \<Rightarrow> ('k, 'p) account_record \<Rightarrow> ('w, protocol_error, unit) io" where
  "account_close rc acc = map_error (dht_error ''close account record'') (rc_close rc (ac_record_key acc))"

definition account_record_key :: "('w, 'k, 'p) routing_context \<Rightarrow> ('k, 'p) account_record \<Rightarrow> string" where
  "account_record_key rc acc = rc_show_key rc (ac_record_key acc)"

definition account_all_record_keys :: "('w, 'k, 'p) routing_context \<Rightarrow> ('k, 'p) account_record \<Rightarrow> string list" where
  "account_all_record_keys rc acc =
     rc_show_key rc (ac_record_key acc) #
     List.map_filter (\<lambda>k. k) [ac_contact_list_key acc, ac_chat_list_key acc, ac_invitation_list_key acc]"

end
