(* ===== verification/Accounts.thy ===== *)
theory Accounts
  imports Account WireRecords
begin

text \<open>
  The contacts of an account are a list of at most 255 entries that survives a restart: the
  record's key, its owner's key pair and the encryption key bring it back.
\<close>

section \<open>The environment\<close>

definition account_env_ok ::
  "('w, 'k, 'p) routing_context \<Rightarrow> ('w, 'k, 'p) network \<Rightarrow> 'p account_env \<Rightarrow> bool" where
  "account_env_ok rc net env \<longleftrightarrow> json_roundtrip (ae_head env) \<and> aead_ok (ae_aead env) \<and>
     capnp_lawful (\<lambda>s. s \<in> range account_struct_of) (ae_header env) \<and>
     capnp_lawful (\<lambda>s. s \<in> range contact_struct_of) (ae_contact env) \<and>
     (\<forall>s. write_message (ae_contact env) s \<noteq> []) \<and>
     (\<forall>p. ae_parse_keypair env (ae_show_keypair env p) = Some p \<and> rust_string (ae_show_keypair env p) \<and>
        ae_show_keypair env p \<noteq> []) \<and>
     (\<forall>p n. rust_string (rc_show_key rc (key_of net p n)))"

lemma account_env_parts:
  assumes "account_env_ok rc net env"
  shows "json_roundtrip (ae_head env)" "aead_ok (ae_aead env)"
    "capnp_lawful (\<lambda>s. s \<in> range account_struct_of) (ae_header env)"
    "capnp_lawful (\<lambda>s. s \<in> range contact_struct_of) (ae_contact env)"
    "encode_contact_entry (ae_contact env) c \<noteq> []"
    "ae_parse_keypair env (ae_show_keypair env p) = Some p"
    "rust_string (ae_show_keypair env p)" "ae_show_keypair env p \<noteq> []" "rust_string (rc_show_key rc (key_of net p n))"
  using assms by (simp_all add: account_env_ok_def encode_contact_entry_def)

section \<open>Lists of an account\<close>

text \<open>The list at the record \<open>k\<close> holds \<open>xs\<close>, and the key pair kept for it is its owner's.\<close>

definition list_at ::
  "('w, 'k, 'p) routing_context \<Rightarrow> ('w, 'k, 'p) network \<Rightarrow> short_array_head json \<Rightarrow> 'w
   \<Rightarrow> string option \<Rightarrow> 'p option \<Rightarrow> 'k \<Rightarrow> bytes list \<Rightarrow> bool" where
  "list_at rc net j w key keypair k xs \<longleftrightarrow>
     (\<exists>t r. key = Some t \<and> rc_parse_key rc t = Inr k \<and> records net w k = Some r \<and>
        keypair = Some (rec_owner r) \<and> array_rec j 255 r xs)"

lemma list_at_frame:
  "list_at rc net j w key keypair k xs \<Longrightarrow> records net w' k = records net w k \<Longrightarrow>
   list_at rc net j w' key keypair k xs"
  by (simp add: list_at_def)

text \<open>
  An operation on the array, run on the list it opens: what is known of it on an open array
  holds of the list, and no other record changes.
\<close>

lemma on_list:
  assumes R: "dht_reliable rc net" and L: "list_at rc net (ae_head env) w key keypair k xs"
    and F: "\<And>sa w' r. \<lbrakk>array_at net (ae_head env) sa w' r xs; writable r; sa_stride sa = 255;
        \<forall>k'. k' \<noteq> k \<longrightarrow> records net w' k' = records net w k'\<rbrakk> \<Longrightarrow>
      outcome (f sa) (\<lambda>x w''. \<exists>ys. array_after net (ae_head env) sa w' r ys w'' \<and> P x ys)
        (\<lambda>e w''. array_after net (ae_head env) sa w' r xs w'' \<and> E e) w'"
  shows "outcome (io_bind (open_list rc env what key keypair) f)
    (\<lambda>x w''. \<exists>ys. list_at rc net (ae_head env) w'' key keypair k ys \<and> P x ys \<and>
       (\<forall>k'. k' \<noteq> k \<longrightarrow> records net w'' k' = records net w k'))
    (\<lambda>e w''. list_at rc net (ae_head env) w'' key keypair k xs \<and> E e \<and>
       (\<forall>k'. k' \<noteq> k \<longrightarrow> records net w'' k' = records net w k')) w"
proof -
  obtain t r where t: "key = Some t" "rc_parse_key rc t = Inr k" "records net w k = Some r"
      "keypair = Some (rec_owner r)" "array_rec (ae_head env) 255 r xs"
    using L by (auto simp: list_at_def)
  have after: "list_at rc net (ae_head env) w'' key keypair k ys \<and>
      (\<forall>k'. k' \<noteq> k \<longrightarrow> records net w'' k' = records net w k')"
    if "array_after net (ae_head env) \<lparr>sa_record_key = k, sa_owner_keypair = keypair, sa_stride = 255\<rparr> w'
        (r\<lparr>rec_opened := Some keypair\<rparr>) ys w''"
      and "records net w' = (records net w)(k \<mapsto> r\<lparr>rec_opened := Some keypair\<rparr>)" for w' w'' ys
    using that t by (auto simp: array_after_def list_at_def same_access_def)
  show ?thesis
    unfolding open_list_def t(1) option.case wp
  proof (rule short_array_open_outcome [OF R t(3,5,2)], goal_cases)
    case (1 w')
    let ?sa = "\<lparr>sa_record_key = k, sa_owner_keypair = keypair, sa_stride = 255\<rparr>"
    let ?r = "r\<lparr>rec_opened := Some keypair\<rparr>"
    have "array_at net (ae_head env) ?sa w' ?r xs" "writable ?r"
      using t 1 by (simp_all add: array_at_def array_rec_def writable_def)
    from F [OF this] 1 show ?case unfolding t(1) [symmetric] by (auto elim!: outcome_mono dest!: after [OF _ 1])
  qed
qed

section \<open>Contacts\<close>

definition contacts_at ::
  "('w, 'k, 'p) routing_context \<Rightarrow> ('w, 'k, 'p) network \<Rightarrow> 'p account_env \<Rightarrow> ('k, 'p) account_record
   \<Rightarrow> 'w \<Rightarrow> 'k \<Rightarrow> contact_entry list \<Rightarrow> bool" where
  "contacts_at rc net env acc w k cs \<longleftrightarrow>
     list_at rc net (ae_head env) w (ac_contact_list_key acc) (ac_contact_list_keypair acc) k
       (map (encode_contact_entry (ae_contact env)) cs) \<and> list_all contact_ok cs"

datatype contact_edit = AddContact contact_entry | RemoveContact bytes

datatype contact_reply = AddedAt u32 | Removed

fun run_contact_edit ::
  "('w, 'k, 'p) routing_context \<Rightarrow> 'p account_env \<Rightarrow> ('k, 'p) account_record \<Rightarrow> contact_edit
   \<Rightarrow> ('w, protocol_error, contact_reply) io" where
  "run_contact_edit rc env acc (AddContact c) = io_bind (add_contact rc env acc c) (\<lambda>i. ok (AddedAt i))"
| "run_contact_edit rc env acc (RemoveContact pk) = io_bind (remove_contact rc env acc pk) (\<lambda>_. ok Removed)"

fun contact_edit_ok :: "contact_edit \<Rightarrow> bool" where
  "contact_edit_ok (AddContact c) = contact_ok c"
| "contact_edit_ok (RemoveContact pk) = True"

text \<open>What an edit does to the list.\<close>

fun contact_spec ::
  "contact_edit \<Rightarrow> contact_entry list \<Rightarrow> (protocol_error + contact_reply) \<times> contact_entry list" where
  "contact_spec (AddContact c) cs =
     (if length cs < 255 then (Inr (AddedAt (of_nat (length cs))), cs @ [c])
      else (Inl (DhtError ''short array is full''), cs))"
| "contact_spec (RemoveContact pk) cs =
     (case find_index (\<lambda>c. ct_public_key c = pk) cs of
        None \<Rightarrow> (Inl (DhtError ''contact not found in list''), cs)
      | Some i \<Rightarrow> (Inr Removed, remove_at i cs))"

lemma find_index_map: "find_index P (map f xs) = find_index (\<lambda>x. P (f x)) xs"
  by (induction xs) simp_all

lemma find_index_cong: "(\<And>x. x \<in> set xs \<Longrightarrow> P x \<longleftrightarrow> Q x) \<Longrightarrow> find_index P xs = find_index Q xs"
  by (induction xs) simp_all

lemma find_index_less: "find_index P xs = Some i \<Longrightarrow> i < length xs"
  by (induction xs arbitrary: i) (auto split: if_splits)

lemma list_all_remove_at: "list_all P xs \<Longrightarrow> list_all P (remove_at i xs)"
  by (auto simp: remove_at_def list_all_iff dest: in_set_takeD in_set_dropD)

lemma find_contact:
  assumes "account_env_ok rc net env" and "list_all contact_ok cs"
  shows "find_index (is_contact (ae_contact env) pk) (map (encode_contact_entry (ae_contact env)) cs) =
    find_index (\<lambda>c. ct_public_key c = pk) cs"
  unfolding find_index_map
proof (rule find_index_cong)
  fix c assume "c \<in> set cs"
  with assms(2) have "contact_ok c" by (simp add: list_all_iff)
  from contacts.decode_encode [OF account_env_parts(4) [OF assms(1)] this]
  show "is_contact (ae_contact env) pk (encode_contact_entry (ae_contact env) c) \<longleftrightarrow> ct_public_key c = pk"
    using account_env_parts(5) [OF assms(1)] by (simp add: is_contact_def)
qed

lemma add_contact_outcome:
  assumes R: "dht_reliable rc net" and E: "account_env_ok rc net env"
    and C: "contacts_at rc net env acc w k cs" and c: "contact_ok c"
  shows "outcome (add_contact rc env acc c)
    (\<lambda>i w'. length cs < 255 \<and> i = of_nat (length cs) \<and> contacts_at rc net env acc w' k (cs @ [c]) \<and>
       (\<forall>k'. k' \<noteq> k \<longrightarrow> records net w' k' = records net w k'))
    (\<lambda>e w'. 255 \<le> length cs \<and> e = DhtError ''short array is full'' \<and> contacts_at rc net env acc w' k cs \<and>
       (\<forall>k'. k' \<noteq> k \<longrightarrow> records net w' k' = records net w k')) w"
proof -
  let ?enc = "encode_contact_entry (ae_contact env)"
  have L: "list_at rc net (ae_head env) w (ac_contact_list_key acc) (ac_contact_list_keypair acc) k (map ?enc cs)"
    using C by (simp add: contacts_at_def)
  show ?thesis
    unfolding add_contact_def open_contacts_def
  proof (rule outcome_mono [OF on_list [OF R L,
        where P = "\<lambda>i ys. length cs < 255 \<and> i = of_nat (length cs) \<and> ys = map ?enc (cs @ [c])"
        and E = "\<lambda>e. 255 \<le> length cs \<and> e = DhtError ''short array is full''"]], goal_cases)
    case (1 sa w' r)
    show ?case
    proof (cases "length cs < 255")
      case True
      then show ?thesis
        by (intro outcome_mono [OF short_array_add_room [OF R account_env_parts(1) [OF E] 1(2,1)]])
           (use 1 in auto)
    next
      case False
      then show ?thesis
        by (intro outcome_mono [OF short_array_add_full [OF R writable_readable [OF 1(2)] 1(1),
              where Q = "\<lambda>_ _. False"]])
           (use 1 in \<open>auto intro: array_after_refl\<close>)
    qed
  qed (use C c in \<open>auto simp: contacts_at_def\<close>)
qed

lemma remove_contact_outcome:
  assumes R: "dht_reliable rc net" and E: "account_env_ok rc net env"
    and C: "contacts_at rc net env acc w k cs"
  shows "outcome (remove_contact rc env acc pk)
    (\<lambda>_ w'. \<exists>i. find_index (\<lambda>c. ct_public_key c = pk) cs = Some i \<and>
       contacts_at rc net env acc w' k (remove_at i cs) \<and>
       (\<forall>k'. k' \<noteq> k \<longrightarrow> records net w' k' = records net w k'))
    (\<lambda>e w'. find_index (\<lambda>c. ct_public_key c = pk) cs = None \<and>
       e = DhtError ''contact not found in list'' \<and> contacts_at rc net env acc w' k cs \<and>
       (\<forall>k'. k' \<noteq> k \<longrightarrow> records net w' k' = records net w k')) w"
proof -
  let ?enc = "encode_contact_entry (ae_contact env)" and ?find = "find_index (\<lambda>c. ct_public_key c = pk) cs"
  have ok: "list_all contact_ok cs"
    and L: "list_at rc net (ae_head env) w (ac_contact_list_key acc) (ac_contact_list_keypair acc) k (map ?enc cs)"
    using C by (simp_all add: contacts_at_def)
  note found = find_contact [OF E ok, of pk]
  show ?thesis
    unfolding remove_contact_def open_contacts_def
  proof (rule outcome_mono [OF on_list [OF R L,
        where P = "\<lambda>_ ys. \<exists>i. ?find = Some i \<and> ys = map ?enc (remove_at i cs)"
        and E = "\<lambda>e. ?find = None \<and> e = DhtError ''contact not found in list''"]], goal_cases)
    case (1 sa w' r)
    show ?case
      unfolding wp
    proof (rule outcome_mono [OF short_array_get_all_outcome [OF R writable_readable [OF 1(2)] 1(1)]], goal_cases)
      case (1 all_data w1)
      then have all: "all_data = map ?enc cs" and w1: "records net w1 = records net w'" by simp_all
      have A: "array_at net (ae_head env) sa w1 r (map ?enc cs)"
        using \<open>array_at net (ae_head env) sa w' r (map ?enc cs)\<close> w1 by (simp add: array_at_def)
      have same: "array_after net (ae_head env) sa w1 r ys w'' \<Longrightarrow> array_after net (ae_head env) sa w' r ys w''" for ys w''
        using w1 by (simp add: array_after_def)
      show ?case
      proof (cases ?find)
        case None
        then show ?thesis
          unfolding all found None option.case wp
          by (auto intro: same array_after_refl [OF A])
      next
        case (Some i)
        have len: "length cs \<le> 255" using array_at_subkeys(3) [OF A] \<open>sa_stride sa = 255\<close> by simp
        then have i: "i < length cs" "i < 2 ^ 32" "unat (of_nat i :: u32) = i"
          using find_index_less [OF Some] by (simp_all add: unat_of_nat)
        show ?thesis
          unfolding all found Some option.case
          by (simp only: i(2) if_True, rule outcome_mono [OF short_array_remove_element [OF R account_env_parts(1) [OF E]
                \<open>writable r\<close> A]])
             (use i Some in \<open>auto simp: map_remove_at intro!: same\<close>)
      qed
    qed simp
  qed (use ok in \<open>auto simp: contacts_at_def list_all_remove_at\<close>)
qed

lemma run_contact_edit_outcome:
  assumes R: "dht_reliable rc net" and E: "account_env_ok rc net env"
    and C: "contacts_at rc net env acc w k cs" and ok: "contact_edit_ok edit"
  shows "outcome (run_contact_edit rc env acc edit)
    (\<lambda>x w'. fst (contact_spec edit cs) = Inr x \<and> contacts_at rc net env acc w' k (snd (contact_spec edit cs)) \<and>
       (\<forall>k'. k' \<noteq> k \<longrightarrow> records net w' k' = records net w k'))
    (\<lambda>e w'. fst (contact_spec edit cs) = Inl e \<and> contacts_at rc net env acc w' k (snd (contact_spec edit cs)) \<and>
       (\<forall>k'. k' \<noteq> k \<longrightarrow> records net w' k' = records net w k')) w"
proof (cases edit)
  case (AddContact c)
  with ok have "contact_ok c" by simp
  then show ?thesis
    unfolding AddContact run_contact_edit.simps wp
    by (intro outcome_mono [OF add_contact_outcome [OF R E C]]) auto
next
  case (RemoveContact pk)
  show ?thesis
    unfolding RemoveContact run_contact_edit.simps wp
    by (rule outcome_mono [OF remove_contact_outcome [OF R E C]]) auto
qed

text \<open>The replies to a sequence of edits, errors included.\<close>

fun contact_replies ::
  "('w, 'k, 'p) routing_context \<Rightarrow> 'p account_env \<Rightarrow> ('k, 'p) account_record \<Rightarrow> contact_edit list
   \<Rightarrow> 'w \<Rightarrow> (protocol_error + contact_reply) list \<times> 'w" where
  "contact_replies rc env acc [] w = ([], w)"
| "contact_replies rc env acc (e # es) w =
     (case run_contact_edit rc env acc e w of (reply, w') \<Rightarrow>
      case contact_replies rc env acc es w' of (replies, w'') \<Rightarrow> (reply # replies, w''))"

fun contact_specs ::
  "contact_edit list \<Rightarrow> contact_entry list \<Rightarrow> (protocol_error + contact_reply) list \<times> contact_entry list" where
  "contact_specs [] cs = ([], cs)"
| "contact_specs (e # es) cs =
     (case contact_spec e cs of (reply, cs') \<Rightarrow>
      case contact_specs es cs' of (replies, cs'') \<Rightarrow> (reply # replies, cs''))"

lemma contact_replies_spec:
  assumes R: "dht_reliable rc net" and E: "account_env_ok rc net env"
    and "contacts_at rc net env acc w k cs" and "list_all contact_edit_ok edits"
  shows "\<exists>w'. contact_replies rc env acc edits w = (fst (contact_specs edits cs), w') \<and>
    contacts_at rc net env acc w' k (snd (contact_specs edits cs)) \<and>
    (\<forall>k'. k' \<noteq> k \<longrightarrow> records net w' k' = records net w k')"
  using assms(3,4)
proof (induction edits arbitrary: w cs)
  case Nil
  then show ?case by simp
next
  case (Cons e es)
  obtain reply w1 where run: "run_contact_edit rc env acc e w = (reply, w1)"
    by (cases "run_contact_edit rc env acc e w")
  have "contact_edit_ok e" using Cons.prems by simp
  note run_contact_edit_outcome [OF R E Cons.prems(1) this]
  then have step: "fst (contact_spec e cs) = reply" "contacts_at rc net env acc w1 k (snd (contact_spec e cs))"
      "\<forall>k'. k' \<noteq> k \<longrightarrow> records net w1 k' = records net w k'"
    using run by (auto simp: outcome_def split: sum.splits)
  from Cons.IH [OF step(2)] Cons.prems obtain w' where
    "contact_replies rc env acc es w1 = (fst (contact_specs es (snd (contact_spec e cs))), w')"
    "contacts_at rc net env acc w' k (snd (contact_specs es (snd (contact_spec e cs))))"
    "\<forall>k'. k' \<noteq> k \<longrightarrow> records net w' k' = records net w1 k'" by auto
  with run step show ?case by (auto simp: split_def)
qed

lemma read_contacts_outcome:
  assumes R: "dht_reliable rc net" and E: "account_env_ok rc net env" and C: "contacts_at rc net env acc w k cs"
  shows "outcome (read_contacts rc env acc) (\<lambda>v _. v = cs) Er w"
proof -
  let ?enc = "encode_contact_entry (ae_contact env)"
  have ok: "list_all contact_ok cs"
    and L: "list_at rc net (ae_head env) w (ac_contact_list_key acc) (ac_contact_list_keypair acc) k (map ?enc cs)"
    using C by (simp_all add: contacts_at_def)
  have "filter (\<lambda>data. data \<noteq> []) (map ?enc cs) = map ?enc cs"
    using account_env_parts(5) [OF E] by (simp add: filter_map o_def)
  then have dec: "decode_entries (decode_contact_entry (ae_contact env)) (map ?enc cs) = Inr cs"
    using contacts.decode_each [OF account_env_parts(4) [OF E], of cs] ok
    by (simp add: decode_entries_def list_all_iff)
  show ?thesis
    unfolding read_contacts_def open_contacts_def
  proof (rule outcome_mono [OF on_list [OF R L, where P = "\<lambda>v _. v = cs" and E = "\<lambda>_. False"]], goal_cases)
    case (1 sa w' r)
    then show ?case
      unfolding wp
      by (intro outcome_mono [OF short_array_get_all_outcome [OF R writable_readable]])
         (auto simp: dec wp intro!: array_after_refl)
  qed auto
qed

section \<open>The header\<close>

text \<open>The record of the account holds an encrypted header that points to its contacts.\<close>

definition account_at ::
  "('w, 'k, 'p) routing_context \<Rightarrow> ('w, 'k, 'p) network \<Rightarrow> 'p account_env \<Rightarrow> ('k, 'p) account_record \<Rightarrow> 'w \<Rightarrow> bool" where
  "account_at rc net env acc w \<longleftrightarrow>
     (\<exists>r v pt header. records net w (ac_record_key acc) = Some r \<and> rec_owner r = ac_owner_keypair acc \<and>
        subkey_of r 0 \<and> rec_values r 0 = Some v \<and>
        record_decrypt (ae_aead env) (ac_encryption_key acc) v = Inr pt \<and>
        decode_account_header (ae_header env) pt = Inr header \<and>
        Some (ah_contact_list_key header) = ac_contact_list_key acc \<and>
        Option.bind (ah_contact_list_keypair header) (ae_parse_keypair env) = ac_contact_list_keypair acc)"

lemma account_at_frame:
  "account_at rc net env acc w \<Longrightarrow> records net w' (ac_record_key acc) = records net w (ac_record_key acc) \<Longrightarrow>
   account_at rc net env acc w'"
  by (simp add: account_at_def)

lemma account_open_outcome:
  assumes R: "dht_reliable rc net" and A: "account_at rc net env acc w"
    and C: "contacts_at rc net env acc w k cs" and K: "k \<noteq> ac_record_key acc"
  shows "outcome (account_open rc env (account_record_key rc acc) (ac_owner_keypair acc) (ac_encryption_key acc))
    (\<lambda>acc' w'. contacts_at rc net env acc' w' k cs) Er w"
proof -
  obtain r v pt header where a: "records net w (ac_record_key acc) = Some r" "subkey_of r 0"
      "rec_values r 0 = Some v" "record_decrypt (ae_aead env) (ac_encryption_key acc) v = Inr pt"
      "decode_account_header (ae_header env) pt = Inr header"
      "Some (ah_contact_list_key header) = ac_contact_list_key acc"
      "Option.bind (ah_contact_list_keypair header) (ae_parse_keypair env) = ac_contact_list_keypair acc"
    using A by (auto simp: account_at_def)
  have parse: "rc_parse_key rc (account_record_key rc acc) = Inr (ac_record_key acc)"
    using reliable_lawful [OF R] by (simp add: account_record_key_def dht_lawful_def)
  show ?thesis
    unfolding account_open_def wp parse sum.case
  proof (rule reliable_open [OF R a(1)], goal_cases)
    case (1 w1)
    let ?r = "r\<lparr>rec_opened := Some (Some (ac_owner_keypair acc))\<rparr>"
    have w1: "records net w1 (ac_record_key acc) = Some ?r" "readable ?r" "subkey_of ?r 0"
      using 1 a by (simp_all add: readable_def subkey_of_def)
    show ?case
    proof (rule reliable_get [OF R w1], goal_cases)
      case (1 w2)
      then have "records net w2 k = records net w k" using \<open>records net w1 = _\<close> K by simp
      with C have "contacts_at rc net env acc w2 k cs" by (auto simp: contacts_at_def elim: list_at_frame)
      then show ?case
        using a by (simp add: decode_header_bytes_def wp protocol_result_def contacts_at_def Let_def)
    qed
  qed
qed

lemma account_create_outcome:
  assumes R: "dht_reliable rc net" and E: "account_env_ok rc net env" and N: "length nonce = nonce_len"
    and S: "rust_string display_name" "rust_string status_message"
  shows "outcome (account_create rc env encryption_key nonce now display_name status_message)
    (\<lambda>(acc, keypair) w'. keypair = ac_owner_keypair acc \<and> ac_encryption_key acc = encryption_key \<and>
       account_at rc net env acc w' \<and> (\<exists>k. k \<noteq> ac_record_key acc \<and> contacts_at rc net env acc w' k [])) Er w"
proof -
  have one: "(1 :: u16) \<noteq> 0" "unat (1 :: u16) \<le> max_subkeys" and n: "unat (255 :: u16) < max_subkeys"
    by (simp_all add: max_subkeys_def)
  have parse: "rc_parse_key rc (rc_show_key rc k) = Inr k" for k
    using reliable_lawful [OF R] by (simp add: dht_lawful_def)
  note J = account_env_parts(1) [OF E]
  show ?thesis
    unfolding account_create_def reliable_schema [OF R one] option.case wp
  proof (rule reliable_create_own [OF R one], goal_cases)
    case (1 w1 p)
    let ?k0 = "key_of net p 1" and ?r0 = "new_record p 1"
    have w1: "records net w1 ?k0 = Some ?r0" using 1 by simp
    show ?case
      unfolding prod.case option.case wp
    proof (rule short_array_create_outcome [OF R J n], simp, goal_cases)
      case (1 w2 p1 r1)
      let ?k1 = "key_of net p1 (255 + 1)"
      have k1: "?k1 \<noteq> ?k0" using 1 w1 by auto
      have w2: "records net w2 ?k0 = Some ?r0" "records net w2 ?k1 = Some r1" using 1 k1 w1 by auto
      note r1 = 1
      show ?case
        unfolding prod.case wp
      proof (rule short_array_create_outcome [OF R J n], simp, goal_cases)
        case (1 w3 p2 r2)
        then have w3: "records net w3 ?k0 = Some ?r0" "records net w3 ?k1 = Some r1" using w2 by auto
        show ?case
          unfolding prod.case wp
        proof (rule short_array_create_outcome [OF R J n], simp, goal_cases)
          case (1 w4 p3 r3)
          then have w4: "records net w4 ?k0 = Some ?r0" "records net w4 ?k1 = Some r1" using w3 by auto
          let ?text = "\<lambda>q. rc_show_key rc (key_of net q (255 + 1))"
          let ?header = "\<lparr>ah_contact_list_key = ?text p1, ah_chat_list_key = ?text p2,
            ah_invitation_list_key = ?text p3, ah_display_name = display_name,
            ah_status_message = status_message, ah_avatar_hash = [], ah_created_at = now,
            ah_updated_at = now, ah_contact_list_keypair = Some (ae_show_keypair env p1),
            ah_chat_list_keypair = Some (ae_show_keypair env p2),
            ah_invitation_list_keypair = Some (ae_show_keypair env p3)\<rparr>"
          have "header_ok ?header" "stored_header ?header = ?header"
            using S account_env_parts(7-9) [OF E]
            by (simp_all add: header_ok_def stored_header_def rust_option_def)
          with account_headers.decode_encode [OF account_env_parts(3) [OF E], of ?header]
          have dec: "decode_account_header (ae_header env) (encode_account_header (ae_header env) ?header) = Inr ?header"
            by simp
          obtain data where data: "record_encrypt (ae_aead env) encryption_key nonce
                (encode_account_header (ae_header env) ?header) = Inr data"
              "record_decrypt (ae_aead env) encryption_key data = Inr (encode_account_header (ae_header env) ?header)"
            using account_env_parts(2) [OF E] N by (rule record_encryptE)
          have W: "writable ?r0" "subkey_of ?r0 0" by (simp_all add: writable_def new_record_def subkey_of_def)
          show ?case
            unfolding prod.case wp Let_def write_account_header_def short_array_record_key_def
              dht_short_array.simps data(1) protocol_result_def sum.case
          proof (rule reliable_set [OF R w4(1) W], goal_cases)
            case (1 w5)
            let ?acc = "\<lparr>ac_record_key = ?k0, ac_owner_keypair = p, ac_encryption_key = encryption_key,
              ac_contact_list_key = Some (?text p1), ac_chat_list_key = Some (?text p2),
              ac_invitation_list_key = Some (?text p3), ac_contact_list_keypair = Some p1,
              ac_chat_list_keypair = Some p2, ac_invitation_list_keypair = Some p3\<rparr>"
            have "account_at rc net env ?acc w5"
              using 1 data dec W account_env_parts(6) [OF E]
              by (simp add: account_at_def new_record_def write_value_def subkey_of_def)
            moreover have "contacts_at rc net env ?acc w5 ?k1 []"
              using 1 w4 k1 r1 parse by (auto simp: contacts_at_def list_at_def same_access_def new_record_def)
            ultimately show ?case using k1 by auto
          qed
        qed
      qed
    qed
  qed
qed

text \<open>
  C23. An account survives a restart. Creating an account returns it with its owner's key pair;
  whatever contacts are then added and removed, each call replies what the operation on a plain
  list replies (the index of the new contact, or that the list of 255 is full; that the contact
  is not there), and opening the record again with its key, the key pair and the encryption key
  gives back exactly the contacts of the plain list: the header, encrypted and encoded, keeps the
  list's key and key pair.
\<close>

theorem account_contacts_survive_restart:
  assumes R: "dht_reliable rc net" and E: "account_env_ok rc net env" and N: "length nonce = nonce_len"
    and S: "rust_string display_name" "rust_string status_message"
  shows "\<exists>acc keypair w0.
    account_create rc env encryption_key nonce now display_name status_message w = (Inr (acc, keypair), w0) \<and>
    (\<forall>edits. list_all contact_edit_ok edits \<longrightarrow>
      (\<exists>w1 acc' w2. contact_replies rc env acc edits w0 = (fst (contact_specs edits []), w1) \<and>
        account_open rc env (account_record_key rc acc) keypair encryption_key w1 = (Inr acc', w2) \<and>
        fst (read_contacts rc env acc' w2) = Inr (snd (contact_specs edits []))))"
proof -
  note create = account_create_outcome [OF R E N S, where Er = "\<lambda>_ _. False", of encryption_key now w]
  then obtain acc k w0 where c: "account_create rc env encryption_key nonce now display_name status_message w =
        (Inr (acc, ac_owner_keypair acc), w0)" "ac_encryption_key acc = encryption_key"
      "account_at rc net env acc w0" "k \<noteq> ac_record_key acc" "contacts_at rc net env acc w0 k []"
    by (fold returns_def) (auto elim!: returnsE)
  have "\<exists>w1 acc' w2. contact_replies rc env acc edits w0 = (fst (contact_specs edits []), w1) \<and>
      account_open rc env (account_record_key rc acc) (ac_owner_keypair acc) encryption_key w1 = (Inr acc', w2) \<and>
      fst (read_contacts rc env acc' w2) = Inr (snd (contact_specs edits []))"
    if edits: "list_all contact_edit_ok edits" for edits
  proof -
    obtain w1 where w1: "contact_replies rc env acc edits w0 = (fst (contact_specs edits []), w1)"
        "contacts_at rc net env acc w1 k (snd (contact_specs edits []))"
        "\<forall>k'. k' \<noteq> k \<longrightarrow> records net w1 k' = records net w0 k'"
      using contact_replies_spec [OF R E c(5) edits] by blast
    have "account_at rc net env acc w1"
      using account_at_frame [OF c(3)] w1(3) c(4) by auto
    note account_open_outcome [OF R this w1(2) c(4), where Er = "\<lambda>_ _. False"]
    then obtain acc' w2 where open':
      "account_open rc env (account_record_key rc acc) (ac_owner_keypair acc) encryption_key w1 = (Inr acc', w2)"
      "contacts_at rc net env acc' w2 k (snd (contact_specs edits []))"
      unfolding c(2) by (fold returns_def) (auto elim!: returnsE)
    have "fst (read_contacts rc env acc' w2) = Inr (snd (contact_specs edits []))"
      using read_contacts_outcome [OF R E open'(2), where Er = "\<lambda>_ _. False"]
      by (fold returns_def) (auto elim!: returnsE)
    with w1 open' show ?thesis by auto
  qed
  with c(1) show ?thesis by blast
qed

section \<open>A concrete account\<close>

definition account_field :: "account_struct field" where
  "account_field = iso_field
     (\<lambda>(a, b, c, d, e, f, g, h, i, j, k). \<lparr>as_contact_list_key = a, as_chat_list_key = b,
        as_invitation_list_key = c, as_display_name = d, as_status_message = e, as_avatar_hash = f,
        as_created_at = g, as_updated_at = h, as_contact_list_keypair = i, as_chat_list_keypair = j,
        as_invitation_list_keypair = k\<rparr>)
     (\<lambda>s. (as_contact_list_key s, as_chat_list_key s, as_invitation_list_key s, as_display_name s,
        as_status_message s, as_avatar_hash s, as_created_at s, as_updated_at s, as_contact_list_keypair s,
        as_chat_list_keypair s, as_invitation_list_keypair s))
     (pair_field data_field (pair_field data_field (pair_field data_field (pair_field data_field
       (pair_field data_field (pair_field data_field (pair_field word_field (pair_field word_field
       (pair_field data_field (pair_field data_field data_field))))))))))"

definition contact_field :: "contact_struct field" where
  "contact_field = iso_field
     (\<lambda>(a, b, c, d, e, f, g, h). \<lparr>ts_public_key = a, ts_display_name = b, ts_nickname = c, ts_group = d,
        ts_local_conversation_key = e, ts_remote_conversation_key = f, ts_added_at = g, ts_updated_at = h\<rparr>)
     (\<lambda>s. (ts_public_key s, ts_display_name s, ts_nickname s, ts_group s, ts_local_conversation_key s,
        ts_remote_conversation_key s, ts_added_at s, ts_updated_at s))
     (pair_field data_field (pair_field data_field (pair_field data_field (pair_field data_field
       (pair_field data_field (pair_field data_field (pair_field word_field word_field)))))))"

definition chat_field :: "chat_list_struct field" where
  "chat_field = iso_field
     (\<lambda>(a, b, c, d, e, f). \<lparr>cl_contact_public_key = a, cl_local_conversation_key = b,
        cl_last_message_timestamp = c, cl_unread_count = d, cl_is_pinned = e, cl_is_muted = f\<rparr>)
     (\<lambda>s. (cl_contact_public_key s, cl_local_conversation_key s, cl_last_message_timestamp s,
        cl_unread_count s, cl_is_pinned s, cl_is_muted s))
     (pair_field data_field (pair_field data_field (pair_field word_field (pair_field word_field
       (pair_field bool_field bool_field)))))"

text \<open>The identity with a tag of zeros stands in for the cipher, unary numerals for the texts of key pairs.\<close>

definition sample_aead :: aead where
  "sample_aead = \<lparr>xchacha_seal = (\<lambda>k n p. Inr (p @ replicate tag_len 0)),
     xchacha_open = (\<lambda>k n c. Inr (take (length c - tag_len) c))\<rparr>"

definition sample_env :: "nat account_env" where
  "sample_env = \<lparr>ae_head = head_codec, ae_aead = sample_aead, ae_header = sample_capnp account_field,
     ae_contact = sample_capnp contact_field, ae_chat = sample_capnp chat_field,
     ae_show_keypair = (\<lambda>p. replicate (Suc p) CHR ''p''), ae_parse_keypair = (\<lambda>s. Some (length s - 1))\<rparr>"

lemma sample_aead_ok: "aead_ok sample_aead"
  by (simp add: aead_ok_def sample_aead_def)

lemma sample_env_ok: "account_env_ok mem_rc mem_net sample_env"
proof -
  have "field_ok account_field" unfolding account_field_def by (intro fields) simp
  moreover have "field_ok contact_field" unfolding contact_field_def by (intro fields) simp
  moreover have "write_message (sample_capnp contact_field) s \<noteq> []" for s
    by (simp add: sample_capnp_def contact_field_def iso_field_def pair_field_def ptr_field_def text_bytes_def
        split: ptr.split)
  moreover have "rust_string (replicate n CHR ''p'')" "rust_string (mem_key p m)" for n p m
    by (auto intro!: ascii_rust_string simp: mem_key_def list_all_iff)
  moreover have "rust_string (CHR ''p'' # replicate n CHR ''p'')" for n
    using \<open>\<And>n. rust_string (replicate n CHR ''p'')\<close> [of "Suc n"] by simp
  ultimately show ?thesis
    by (simp add: account_env_ok_def sample_env_def sample_aead_ok head_codec_roundtrip sample_capnp_lawful)
qed

definition carol :: contact_entry where
  "carol = \<lparr>ct_public_key = [3], ct_display_name = ''Carol'', ct_nickname = [], ct_group = ''guild'',
     ct_local_conversation_key = ''l'', ct_remote_conversation_key = [], ct_added_at = 1, ct_updated_at = 1\<rparr>"

abbreviation dave :: contact_entry where
  "dave \<equiv> carol\<lparr>ct_public_key := [4], ct_display_name := ''Dave''\<rparr>"

theorem account_contacts_survive_restart_witness:
  "\<exists>acc keypair w0 w1 acc' w2.
    account_create mem_rc sample_env [9] (replicate 24 0) 5 ''Alice'' ''hi'' [] = (Inr (acc, keypair), w0) \<and>
    contact_replies mem_rc sample_env acc
      [AddContact carol, AddContact dave, RemoveContact [3], RemoveContact [3]] w0 =
      ([Inr (AddedAt 0), Inr (AddedAt 1), Inr Removed, Inl (DhtError ''contact not found in list'')], w1) \<and>
    account_open mem_rc sample_env (account_record_key mem_rc acc) keypair [9] w1 = (Inr acc', w2) \<and>
    fst (read_contacts mem_rc sample_env acc' w2) = Inr [dave]"
proof -
  let ?es = "[AddContact carol, AddContact dave, RemoveContact [3], RemoveContact [3]]"
  have es: "list_all contact_edit_ok ?es"
    by (simp add: contact_ok_def carol_def ascii_rust_string)
  have specs: "contact_specs ?es [] =
      ([Inr (AddedAt 0), Inr (AddedAt 1), Inr Removed, Inl (DhtError ''contact not found in list'')], [dave])"
    by (simp add: carol_def remove_at_def)
  have "length (replicate 24 (0 :: u8)) = nonce_len" "rust_string ''Alice''" "rust_string ''hi''"
    by (simp_all add: nonce_len_def ascii_rust_string)
  from account_contacts_survive_restart [OF mem_reliable sample_env_ok this] es
  show ?thesis unfolding specs [symmetric] by (metis fst_conv snd_conv specs)
qed

end
