(* ===== verification/Conversation.thy ===== *)
theory Conversation
  imports DhtCrypto AccountCodec DhtLog
begin

text \<open>
  \<open>ConversationRecord\<close> (\<open>crates/rekindle-protocol/src/dht/conversation.rs\<close>): the record each
  party keeps for a contact. Its only value is an encrypted header with the owner's profile,
  route and prekeys and the key of the owner's log of messages; the contact reads it with the
  same key. The time and the random nonces are arguments.
\<close>

record conversation_env =
  cw_spine :: "log_spine json"
  cw_aead :: aead
  cw_header :: "conversation_struct capnp"

record ('k, 'p) conversation_record =
  co_record_key :: 'k
  co_owner_keypair :: "'p option"
  co_encryption_key :: bytes
  co_message_log_key :: "string option"

definition log_spine_text :: "('w, 'k, 'p) routing_context \<Rightarrow> ('k, 'p) dht_log \<Rightarrow> string" where
  "log_spine_text rc log = rc_show_key rc (log_spine_key log)"

definition write_conversation ::
  "('w, 'k, 'p) routing_context \<Rightarrow> conversation_env \<Rightarrow> 'k \<Rightarrow> bytes \<Rightarrow> bytes \<Rightarrow> conversation_header
   \<Rightarrow> ('w, protocol_error, unit) io" where
  "write_conversation rc env key encryption_key nonce header =
     io_bind (from_result (protocol_result
       (record_encrypt (cw_aead env) encryption_key nonce (encode_conversation_header (cw_header env) header))))
       (\<lambda>ciphertext.
     map_error (dht_error ''write conversation header'') (rc_set rc key 0 ciphertext))"

definition conversation_create ::
  "('w, 'k, 'p) routing_context \<Rightarrow> conversation_env \<Rightarrow> bytes \<Rightarrow> bytes \<Rightarrow> u64 \<Rightarrow> bytes \<Rightarrow> user_profile \<Rightarrow> bytes
   \<Rightarrow> wire_prekey_bundle \<Rightarrow> ('w, protocol_error, ('k, 'p) conversation_record \<times> 'p) io" where
  "conversation_create rc env encryption_key nonce now identity_public_key profile route_blob prekey_bundle =
     (case rc_schema_error rc 1 of
        Some e \<Rightarrow> throw (dht_error ''invalid schema'' e)
      | None \<Rightarrow>
          io_bind (map_error (dht_error ''create conversation record'') (rc_create rc 1 None)) (\<lambda>(key, secret).
          case secret of
            None \<Rightarrow> throw (DhtError ''no owner secret after create'')
          | Some keypair \<Rightarrow>
              io_bind (log_create rc (cw_spine env)) (\<lambda>(log, _).
              let message_log_key = log_spine_text rc log;
                  header = \<lparr>cv_identity_public_key = identity_public_key, cv_profile = profile,
                    cv_message_log_key = message_log_key, cv_route_blob = route_blob,
                    cv_prekey_bundle = prekey_bundle, cv_created_at = now, cv_updated_at = now\<rparr>
              in io_bind (write_conversation rc env key encryption_key nonce header) (\<lambda>_.
                 ok (\<lparr>co_record_key = key, co_owner_keypair = Some keypair,
                      co_encryption_key = encryption_key, co_message_log_key = Some message_log_key\<rparr>,
                     keypair)))))"

definition decode_conversation_bytes ::
  "conversation_env \<Rightarrow> bytes \<Rightarrow> bytes \<Rightarrow> ('w, protocol_error, conversation_header) io" where
  "decode_conversation_bytes env encryption_key v =
     io_bind (from_result (protocol_result (record_decrypt (cw_aead env) encryption_key v))) (\<lambda>plaintext.
     from_result (decode_conversation_header (cw_header env) plaintext))"

text \<open>\<open>open_write\<close> and \<open>open_read\<close> differ in the key pair.\<close>

definition conversation_open ::
  "('w, 'k, 'p) routing_context \<Rightarrow> conversation_env \<Rightarrow> string \<Rightarrow> 'p option \<Rightarrow> bytes
   \<Rightarrow> ('w, protocol_error, ('k, 'p) conversation_record) io" where
  "conversation_open rc env key writer encryption_key =
     io_bind (map_error (dht_error (''invalid key '' @ [CHR 0x27] @ key @ [CHR 0x27]))
                (from_result (rc_parse_key rc key))) (\<lambda>record_key.
     io_bind (map_error (dht_error ''open conversation record'') (rc_open rc record_key writer)) (\<lambda>_.
     io_bind (map_error (dht_error ''read conversation header'') (rc_get rc record_key 0 False)) (\<lambda>value.
     io_bind (case value of
          Some v \<Rightarrow> io_bind (decode_conversation_bytes env encryption_key v) (\<lambda>header.
                    ok (Some (cv_message_log_key header)))
        | None \<Rightarrow> ok None) (\<lambda>message_log_key.
     ok \<lparr>co_record_key = record_key, co_owner_keypair = writer, co_encryption_key = encryption_key,
         co_message_log_key = message_log_key\<rparr>))))"

definition conversation_open_write ::
  "('w, 'k, 'p) routing_context \<Rightarrow> conversation_env \<Rightarrow> string \<Rightarrow> 'p \<Rightarrow> bytes
   \<Rightarrow> ('w, protocol_error, ('k, 'p) conversation_record) io" where
  "conversation_open_write rc env key owner_keypair encryption_key =
     conversation_open rc env key (Some owner_keypair) encryption_key"

definition conversation_open_read ::
  "('w, 'k, 'p) routing_context \<Rightarrow> conversation_env \<Rightarrow> string \<Rightarrow> bytes
   \<Rightarrow> ('w, protocol_error, ('k, 'p) conversation_record) io" where
  "conversation_open_read rc env key encryption_key = conversation_open rc env key None encryption_key"

definition conversation_read_header ::
  "('w, 'k, 'p) routing_context \<Rightarrow> conversation_env \<Rightarrow> ('k, 'p) conversation_record
   \<Rightarrow> ('w, protocol_error, conversation_header) io" where
  "conversation_read_header rc env conv =
     io_bind (map_error (dht_error ''read conversation header'') (rc_get rc (co_record_key conv) 0 False))
       (\<lambda>value.
     case value of
       None \<Rightarrow> throw (DhtError ''conversation header not set'')
     | Some v \<Rightarrow> decode_conversation_bytes env (co_encryption_key conv) v)"

definition conversation_write_header ::
  "('w, 'k, 'p) routing_context \<Rightarrow> conversation_env \<Rightarrow> ('k, 'p) conversation_record \<Rightarrow> bytes
   \<Rightarrow> conversation_header \<Rightarrow> ('w, protocol_error, unit) io" where
  "conversation_write_header rc env conv nonce header =
     write_conversation rc env (co_record_key conv) (co_encryption_key conv) nonce header"

definition update_route_blob ::
  "('w, 'k, 'p) routing_context \<Rightarrow> conversation_env \<Rightarrow> ('k, 'p) conversation_record \<Rightarrow> bytes \<Rightarrow> u64 \<Rightarrow> bytes
   \<Rightarrow> ('w, protocol_error, unit) io" where
  "update_route_blob rc env conv nonce now route_blob =
     io_bind (conversation_read_header rc env conv) (\<lambda>header.
     conversation_write_header rc env conv nonce
       (header\<lparr>cv_route_blob := route_blob, cv_updated_at := now\<rparr>))"

definition update_profile ::
  "('w, 'k, 'p) routing_context \<Rightarrow> conversation_env \<Rightarrow> ('k, 'p) conversation_record \<Rightarrow> bytes \<Rightarrow> u64
   \<Rightarrow> user_profile \<Rightarrow> ('w, protocol_error, unit) io" where
  "update_profile rc env conv nonce now profile =
     io_bind (conversation_read_header rc env conv) (\<lambda>header.
     conversation_write_header rc env conv nonce
       (header\<lparr>cv_profile := profile, cv_updated_at := now\<rparr>))"

definition conversation_watch ::
  "('w, 'k, 'p) routing_context \<Rightarrow> ('k, 'p) conversation_record \<Rightarrow> ('w, protocol_error, bool) io" where
  "conversation_watch rc conv =
     map_error (dht_error ''watch conversation'') (rc_watch rc (co_record_key conv) [0])"

definition conversation_close ::
  "('w, 'k, 'p) routing_context \<Rightarrow> ('k, 'p) conversation_record \<Rightarrow> ('w, protocol_error, unit) io" where
  "conversation_close rc conv =
     map_error (dht_error ''close conversation record'') (rc_close rc (co_record_key conv))"

definition conversation_record_key ::
  "('w, 'k, 'p) routing_context \<Rightarrow> ('k, 'p) conversation_record \<Rightarrow> string" where
  "conversation_record_key rc conv = rc_show_key rc (co_record_key conv)"

definition conversation_all_record_keys ::
  "('w, 'k, 'p) routing_context \<Rightarrow> ('k, 'p) conversation_record \<Rightarrow> string list" where
  "conversation_all_record_keys rc conv =
     rc_show_key rc (co_record_key conv) #
     (case co_message_log_key conv of Some k \<Rightarrow> [k] | None \<Rightarrow> [])"

end
