(* ===== verification/Conversations.thy ===== *)
theory Conversations
  imports Conversation Logs Accounts Sessions
begin

text \<open>
  What the owner of a conversation record writes is what its contact reads.
\<close>

section \<open>The record\<close>

definition conversation_env_ok :: "conversation_env \<Rightarrow> bool" where
  "conversation_env_ok env \<longleftrightarrow> json_roundtrip (cw_spine env) \<and> aead_ok (cw_aead env) \<and>
     capnp_lawful (\<lambda>s. s \<in> range conversation_struct_of) (cw_header env)"

text \<open>The record at \<open>k\<close> holds the header \<open>h\<close> under the key.\<close>

definition conversation_rec ::
  "conversation_env \<Rightarrow> bytes \<Rightarrow> conversation_header \<Rightarrow> 'p dht_record \<Rightarrow> bool" where
  "conversation_rec env key h r \<longleftrightarrow> subkey_of r 0 \<and> (\<exists>v pt. rec_values r 0 = Some v \<and>
     record_decrypt (cw_aead env) key v = Inr pt \<and> decode_conversation_header (cw_header env) pt = Inr h)"

definition conversation_at ::
  "('w, 'k, 'p) network \<Rightarrow> conversation_env \<Rightarrow> ('k, 'p) conversation_record \<Rightarrow> 'w \<Rightarrow> 'p dht_record
   \<Rightarrow> conversation_header \<Rightarrow> bool" where
  "conversation_at net env conv w r h \<longleftrightarrow> records net w (co_record_key conv) = Some r \<and> readable r \<and>
     conversation_rec env (co_encryption_key conv) h r"

lemma conversation_rec_opened [simp]:
  "conversation_rec env key h (r\<lparr>rec_opened := p\<rparr>) \<longleftrightarrow> conversation_rec env key h r"
  by (simp add: conversation_rec_def subkey_of_def)

lemma decode_conversation_outcome:
  assumes "record_decrypt (cw_aead env) key v = Inr pt" and "decode_conversation_header (cw_header env) pt = Inr h"
    and "Q h w"
  shows "outcome (decode_conversation_bytes env key v) Q E w"
  using assms by (simp add: decode_conversation_bytes_def wp protocol_result_def)

lemma read_header_outcome:
  assumes R: "dht_reliable rc net" and C: "conversation_at net env conv w r h"
    and Q: "\<And>w'. records net w' = records net w \<Longrightarrow> Q h w'"
  shows "outcome (conversation_read_header rc env conv) Q E w"
proof -
  obtain v pt where c: "records net w (co_record_key conv) = Some r" "readable r" "subkey_of r 0"
      "rec_values r 0 = Some v" "record_decrypt (cw_aead env) (co_encryption_key conv) v = Inr pt"
      "decode_conversation_header (cw_header env) pt = Inr h"
    using C by (auto simp: conversation_at_def conversation_rec_def)
  show ?thesis
    unfolding conversation_read_header_def wp
  proof (rule reliable_get [OF R c(1-3)])
    fix w' assume "records net w' = records net w"
    then show "outcome (case rec_values r 0 of
          None \<Rightarrow> throw (DhtError ''conversation header not set'')
        | Some v \<Rightarrow> decode_conversation_bytes env (co_encryption_key conv) v) Q E w'"
      unfolding c(4) option.case by (intro decode_conversation_outcome [OF c(5,6)] Q)
  qed
qed

lemma write_conversation_outcome:
  assumes R: "dht_reliable rc net" and E: "conversation_env_ok env" and N: "length nonce = nonce_len"
    and h: "conversation_ok h" and r: "records net w k = Some r" "writable r" "subkey_of r 0"
    and Q: "\<And>w' r'. \<lbrakk>records net w' = (records net w)(k \<mapsto> r'); rec_owner r' = rec_owner r;
      rec_opened r' = rec_opened r; conversation_rec env key (stored_conversation h) r'\<rbrakk> \<Longrightarrow> Q () w'"
  shows "outcome (write_conversation rc env k key nonce h) Q E' w"
proof -
  have L: "aead_ok (cw_aead env)" "capnp_lawful (\<lambda>s. s \<in> range conversation_struct_of) (cw_header env)"
    using E by (simp_all add: conversation_env_ok_def)
  obtain data where data: "record_encrypt (cw_aead env) key nonce (encode_conversation_header (cw_header env) h) =
        Inr data"
      "record_decrypt (cw_aead env) key data = Inr (encode_conversation_header (cw_header env) h)"
    using L(1) N by (rule record_encryptE)
  have "conversation_rec env key (stored_conversation h) (write_value 0 data r)"
    using data(2) r(3) conversations.decode_encode [OF L(2) h]
    by (simp add: write_value_def conversation_rec_def subkey_of_def)
  then show ?thesis
    unfolding write_conversation_def wp data(1) protocol_result_def sum.case
    by (intro reliable_set [OF R r] Q) (assumption | simp add: write_value_def)+
qed

section \<open>Updates\<close>

datatype conversation_update = Route u64 bytes | Profile u64 user_profile

text \<open>Each update comes with its random nonce.\<close>

fun run_update ::
  "('w, 'k, 'p) routing_context \<Rightarrow> conversation_env \<Rightarrow> ('k, 'p) conversation_record
   \<Rightarrow> bytes \<times> conversation_update \<Rightarrow> ('w, protocol_error, unit) io" where
  "run_update rc env conv (nonce, Route now route_blob) = update_route_blob rc env conv nonce now route_blob"
| "run_update rc env conv (nonce, Profile now profile) = update_profile rc env conv nonce now profile"

definition run_updates ::
  "('w, 'k, 'p) routing_context \<Rightarrow> conversation_env \<Rightarrow> ('k, 'p) conversation_record
   \<Rightarrow> (bytes \<times> conversation_update) list \<Rightarrow> ('w, protocol_error, unit) io" where
  "run_updates rc env conv = for_each (run_update rc env conv)"

fun updated :: "bytes \<times> conversation_update \<Rightarrow> conversation_header \<Rightarrow> conversation_header" where
  "updated (nonce, Route now route_blob) h = h\<lparr>cv_route_blob := route_blob, cv_updated_at := now\<rparr>"
| "updated (nonce, Profile now profile) h = h\<lparr>cv_profile := stored_profile profile, cv_updated_at := now\<rparr>"

fun update_ok :: "bytes \<times> conversation_update \<Rightarrow> bool" where
  "update_ok (nonce, Route now route_blob) \<longleftrightarrow> length nonce = nonce_len"
| "update_ok (nonce, Profile now profile) \<longleftrightarrow> length nonce = nonce_len \<and> profile_ok profile"

text \<open>A header in the form that comes back from the wire.\<close>

definition settled :: "conversation_header \<Rightarrow> bool" where
  "settled h \<longleftrightarrow> conversation_ok h \<and> stored_profile (cv_profile h) = cv_profile h"

lemma settled_stored: "conversation_ok h \<Longrightarrow> settled (stored_conversation h)"
  by (simp add: settled_def stored_conversation_def conversation_ok_def)

lemma settled_updated: "settled h \<Longrightarrow> update_ok u \<Longrightarrow> settled (updated u h)"
  by (induction u h rule: updated.induct) (simp_all add: settled_def conversation_ok_def)

text \<open>The owner's handle on a record that holds \<open>h\<close>.\<close>

definition owned_at ::
  "('w, 'k, 'p) network \<Rightarrow> conversation_env \<Rightarrow> ('k, 'p) conversation_record \<Rightarrow> 'w \<Rightarrow> conversation_header \<Rightarrow> bool" where
  "owned_at net env conv w h \<longleftrightarrow> (\<exists>r. conversation_at net env conv w r h \<and> writable r)"

lemma change_header:
  assumes R: "dht_reliable rc net" and E: "conversation_env_ok env"
    and O: "owned_at net env conv w h" and N: "length nonce = nonce_len" and g: "conversation_ok (g h)"
  shows "outcome (io_bind (conversation_read_header rc env conv) (\<lambda>h. conversation_write_header rc env conv nonce (g h)))
    (\<lambda>_ w'. owned_at net env conv w' (stored_conversation (g h))) E' w"
proof -
  obtain r where C: "conversation_at net env conv w r h" and W: "writable r"
    using O by (auto simp: owned_at_def)
  then have r: "records net w (co_record_key conv) = Some r" "subkey_of r 0"
    by (auto simp: conversation_at_def conversation_rec_def)
  show ?thesis
    unfolding wp conversation_write_header_def
  proof (rule read_header_outcome [OF R C])
    fix w1 assume w1: "records net w1 = records net w"
    show "outcome (write_conversation rc env (co_record_key conv) (co_encryption_key conv) nonce (g h))
        (\<lambda>_ w'. owned_at net env conv w' (stored_conversation (g h))) E' w1"
    proof (rule write_conversation_outcome [OF R E N g _ W r(2)])
      show "records net w1 (co_record_key conv) = Some r" using w1 r(1) by simp
    qed (use W in \<open>auto simp: owned_at_def conversation_at_def writable_def readable_def\<close>)
  qed
qed

lemma update_outcome:
  assumes R: "dht_reliable rc net" and E: "conversation_env_ok env"
    and O: "owned_at net env conv w h" and h: "settled h" and u: "update_ok u"
  shows "outcome (run_update rc env conv u) (\<lambda>_ w'. owned_at net env conv w' (updated u h)) E' w"
proof (cases "(u, h)" rule: updated.cases)
  case (1 nonce now route_blob h')
  let ?g = "\<lambda>h. h\<lparr>cv_route_blob := route_blob, cv_updated_at := now\<rparr>"
  have "conversation_ok (?g h)" "stored_conversation (?g h) = ?g h"
    using h by (simp_all add: settled_def conversation_ok_def stored_conversation_def)
  with change_header [OF R E O, of nonce ?g E'] 1 u show ?thesis by (simp add: update_route_blob_def)
next
  case (2 nonce now profile h')
  let ?g = "\<lambda>h. h\<lparr>cv_profile := profile, cv_updated_at := now\<rparr>"
  have "conversation_ok (?g h)" "stored_conversation (?g h) = h\<lparr>cv_profile := stored_profile profile, cv_updated_at := now\<rparr>"
    using h u 2 by (simp_all add: settled_def conversation_ok_def stored_conversation_def)
  with change_header [OF R E O, of nonce ?g E'] 2 u show ?thesis by (simp add: update_profile_def)
qed

lemma updates_outcome:
  assumes R: "dht_reliable rc net" and E: "conversation_env_ok env"
    and "owned_at net env conv w h" and "settled h" and "list_all update_ok us"
  shows "outcome (run_updates rc env conv us) (\<lambda>_ w'. owned_at net env conv w' (fold updated us h)) E' w"
  using assms(3-5)
proof (induction us arbitrary: w h)
  case Nil
  then show ?case by (simp add: run_updates_def wp)
next
  case (Cons u us)
  then show ?case
    unfolding run_updates_def for_each.simps wp fold_Cons comp_def
    by (intro outcome_mono [OF update_outcome [OF R E]])
       (auto intro: settled_updated simp flip: run_updates_def)
qed

lemma conversation_create_outcome:
  assumes R: "dht_reliable rc net" and E: "conversation_env_ok env" and N: "length nonce = nonce_len"
    and P: "profile_ok profile" and K: "\<And>p n. rust_string (rc_show_key rc (key_of net p n))"
  shows "outcome (conversation_create rc env key nonce now me profile route_blob prekeys)
    (\<lambda>(conv, keypair) w'. co_encryption_key conv = key \<and> co_owner_keypair conv = Some keypair \<and>
      (\<exists>t k r. co_message_log_key conv = Some t \<and> rust_string t \<and> rc_parse_key rc t = Inr k \<and>
         records net w' k = Some r \<and> rec_owner r \<noteq> keypair \<and>
         owned_at net env conv w' \<lparr>cv_identity_public_key = me, cv_profile = stored_profile profile,
           cv_message_log_key = t, cv_route_blob = route_blob, cv_prekey_bundle = prekeys,
           cv_created_at = now, cv_updated_at = now\<rparr>)) Er w"
proof -
  have one: "(1 :: u16) \<noteq> 0" "unat (1 :: u16) \<le> max_subkeys" by (simp_all add: max_subkeys_def)
  have J: "json_roundtrip (cw_spine env)" using E by (simp add: conversation_env_ok_def)
  have parse: "rc_parse_key rc (rc_show_key rc k) = Inr k" for k
    using reliable_lawful [OF R] by (simp add: dht_lawful_def)
  show ?thesis
    unfolding conversation_create_def reliable_schema [OF R one] option.case wp
  proof (rule reliable_create_own [OF R one], goal_cases)
    case (1 w1 p)
    let ?k = "key_of net p 1" and ?r = "new_record p 1"
    have w1: "records net w1 ?k = Some ?r" using 1 by simp
    show ?case
      unfolding prod.case option.case wp
    proof (rule log_create_outcome [OF R J, where hj = hj], goal_cases)
      case (1 w2 q)
      have k: "key_of net q 1 \<noteq> ?k" using 1(3) w1 by (metis option.distinct(1))
      then have "q \<noteq> p" by auto
      have w2: "records net w2 ?k = Some ?r" using k 1(4) w1 by simp
      obtain r where r: "records net w2 (key_of net q 1) = Some r" "rec_owner r = q"
        using 1(2) by (auto simp: log_rep_def spine_rec_def)
      have ok: "writable ?r" "subkey_of ?r 0" by (simp_all add: writable_def new_record_def subkey_of_def)
      show ?case
        unfolding prod.case wp Let_def
        by (rule write_conversation_outcome [OF R E N _ w2 ok])
           (use P K k r \<open>q \<noteq> p\<close> ok(1) in \<open>auto simp: conversation_ok_def log_spine_text_def parse owned_at_def
             conversation_at_def stored_conversation_def writable_def readable_def new_record_def\<close>)
    qed
  qed
qed

lemma conversation_open_outcome:
  assumes R: "dht_reliable rc net" and C: "records net w (co_record_key conv) = Some r"
    and H: "conversation_rec env (co_encryption_key conv) h r"
  shows "outcome (conversation_open rc env (conversation_record_key rc conv) writer (co_encryption_key conv))
    (\<lambda>conv' w'. co_message_log_key conv' = Some (cv_message_log_key h) \<and>
       (\<exists>r'. conversation_at net env conv' w' r' h)) Er w"
proof -
  obtain v pt where c: "subkey_of r 0" "rec_values r 0 = Some v"
      "record_decrypt (cw_aead env) (co_encryption_key conv) v = Inr pt"
      "decode_conversation_header (cw_header env) pt = Inr h"
    using H by (auto simp: conversation_rec_def)
  have parse: "rc_parse_key rc (conversation_record_key rc conv) = Inr (co_record_key conv)"
    using reliable_lawful [OF R] by (simp add: conversation_record_key_def dht_lawful_def)
  show ?thesis
    unfolding conversation_open_def wp parse sum.case
  proof (rule reliable_open [OF R C], goal_cases)
    case (1 w1)
    let ?r = "r\<lparr>rec_opened := Some writer\<rparr>"
    have r: "records net w1 (co_record_key conv) = Some ?r" "readable ?r" "subkey_of ?r 0"
      using 1 c(1) by (simp_all add: readable_def subkey_of_def)
    show ?case
    proof (rule reliable_get [OF R r], goal_cases)
      case (1 w2)
      have v: "rec_values ?r 0 = Some v" using c(2) by simp
      show ?case
        unfolding v option.case wp
        by (rule decode_conversation_outcome [OF c(3,4)])
           (use 1 r H in \<open>auto simp: wp conversation_at_def\<close>)
    qed
  qed
qed

text \<open>
  Both sides of a conversation read what its owner writes. The owner creates the record
  under the key it derives from its secret and the contact's public key, and updates its route
  and its profile any number of times; the contact, who derives the key from the other halves,
  opens the record for reading and finds the key of the message log and the header with exactly
  these updates (an unknown status reads as offline), and so does the owner on reopening for
  writing. The log, however, belongs to another key pair than the one the creation returns.
\<close>

theorem conversation_is_shared:
  assumes R: "dht_reliable rc net" and E: "conversation_env_ok env" and C: "crypto_ok cr"
    and N: "length nonce = nonce_len" and P: "profile_ok profile"
    and K: "\<And>p n. rust_string (rc_show_key rc (key_of net p n))"
  shows "\<exists>conv keypair w0 t k r.
    conversation_create rc env (derive_conversation_key cr a (x25519_public cr b)) nonce now me profile
      route_blob prekeys w = (Inr (conv, keypair), w0) \<and>
    rc_parse_key rc t = Inr k \<and> records net w0 k = Some r \<and> rec_owner r \<noteq> keypair \<and>
    (\<forall>us. list_all update_ok us \<longrightarrow>
      (\<exists>w1. run_updates rc env conv us w0 = (Inr (), w1) \<and>
        (\<forall>reopen \<in> {conversation_open_read rc env (conversation_record_key rc conv)
                       (derive_conversation_key cr b (x25519_public cr a)),
                     conversation_open_write rc env (conversation_record_key rc conv) keypair
                       (derive_conversation_key cr a (x25519_public cr b))}.
          \<exists>conv' w2. reopen w1 = (Inr conv', w2) \<and> co_message_log_key conv' = Some t \<and>
            fst (conversation_read_header rc env conv' w2) =
              Inr (fold updated us \<lparr>cv_identity_public_key = me, cv_profile = stored_profile profile,
                cv_message_log_key = t, cv_route_blob = route_blob, cv_prekey_bundle = prekeys,
                cv_created_at = now, cv_updated_at = now\<rparr>))))"
proof -
  let ?key = "derive_conversation_key cr a (x25519_public cr b)"
  let ?h = "\<lambda>t. \<lparr>cv_identity_public_key = me, cv_profile = stored_profile profile,
    cv_message_log_key = t, cv_route_blob = route_blob, cv_prekey_bundle = prekeys,
    cv_created_at = now, cv_updated_at = now\<rparr>"
  have agreed: "derive_conversation_key cr b (x25519_public cr a) = ?key"
    using C by (intro conversation_key_agreed) (simp add: crypto_ok_def)
  obtain conv keypair w0 t k r where c:
      "conversation_create rc env ?key nonce now me profile route_blob prekeys w = (Inr (conv, keypair), w0)"
      "co_encryption_key conv = ?key" "rc_parse_key rc t = Inr k" "records net w0 k = Some r"
      "rec_owner r \<noteq> keypair" "owned_at net env conv w0 (?h t)" "rust_string t"
    using conversation_create_outcome [OF R E N P K, where key = ?key and now = now and me = me and
        route_blob = route_blob and prekeys = prekeys and w = w and Er = "\<lambda>_ _. False"]
    by (fold returns_def) (auto elim!: returnsE)
  have t: "cv_message_log_key (fold updated us (?h t)) = t" for us
  proof -
    have "cv_message_log_key (updated u h) = cv_message_log_key h" for u h
      by (induction u h rule: updated.induct) simp_all
    then have "cv_message_log_key (fold updated us h) = cv_message_log_key h" for h
      by (induction us arbitrary: h) simp_all
    then show ?thesis by simp
  qed
  have "\<exists>w1. run_updates rc env conv us w0 = (Inr (), w1) \<and>
      (\<forall>writer. \<exists>conv' w2. conversation_open rc env (conversation_record_key rc conv) writer ?key w1 = (Inr conv', w2) \<and>
        co_message_log_key conv' = Some t \<and>
        fst (conversation_read_header rc env conv' w2) = Inr (fold updated us (?h t)))"
    if us: "list_all update_ok us" for us
  proof -
    have "settled (?h t)" using P c(7) by (simp add: settled_def conversation_ok_def)
    from updates_outcome [OF R E c(6) this us, where E' = "\<lambda>_ _. False"]
    obtain w1 where w1: "run_updates rc env conv us w0 = (Inr (), w1)" "owned_at net env conv w1 (fold updated us (?h t))"
      by (fold returns_def) (auto elim!: returnsE)
    then obtain r1 where r1: "records net w1 (co_record_key conv) = Some r1"
        "conversation_rec env (co_encryption_key conv) (fold updated us (?h t)) r1"
      by (auto simp: owned_at_def conversation_at_def)
    have "\<exists>conv' w2. conversation_open rc env (conversation_record_key rc conv) writer ?key w1 = (Inr conv', w2) \<and>
        co_message_log_key conv' = Some t \<and>
        fst (conversation_read_header rc env conv' w2) = Inr (fold updated us (?h t))" for writer
    proof -
      obtain conv' w2 r2 where o: "conversation_open rc env (conversation_record_key rc conv) writer ?key w1 = (Inr conv', w2)"
          "co_message_log_key conv' = Some t" "conversation_at net env conv' w2 r2 (fold updated us (?h t))"
        using conversation_open_outcome [OF R r1, where writer = writer and Er = "\<lambda>_ _. False"]
        unfolding c(2) t by (fold returns_def) (auto elim!: returnsE)
      have "returns (conversation_read_header rc env conv') (\<lambda>h _. h = fold updated us (?h t)) w2"
        unfolding returns_def by (rule read_header_outcome [OF R o(3)]) simp
      with o show ?thesis by (auto elim!: returnsE)
    qed
    with w1 show ?thesis by blast
  qed
  note updates = this
  show ?thesis
    unfolding conversation_open_read_def conversation_open_write_def agreed
  proof (rule exI [of _ conv], rule exI [of _ keypair], rule exI [of _ w0], rule exI [of _ t],
      rule exI [of _ k], rule exI [of _ r], intro conjI allI impI)
    fix us assume "list_all update_ok us"
    from updates [OF this] obtain w1 where w1: "run_updates rc env conv us w0 = (Inr (), w1)"
        "\<And>writer. \<exists>conv' w2. conversation_open rc env (conversation_record_key rc conv) writer ?key w1 = (Inr conv', w2) \<and>
          co_message_log_key conv' = Some t \<and>
          fst (conversation_read_header rc env conv' w2) = Inr (fold updated us (?h t))" by blast
    show "\<exists>w1. run_updates rc env conv us w0 = (Inr (), w1) \<and>
        (\<forall>reopen \<in> {conversation_open rc env (conversation_record_key rc conv) None ?key,
                     conversation_open rc env (conversation_record_key rc conv) (Some keypair) ?key}.
          \<exists>conv' w2. reopen w1 = (Inr conv', w2) \<and> co_message_log_key conv' = Some t \<and>
            fst (conversation_read_header rc env conv' w2) = Inr (fold updated us (?h t)))"
      (is "\<exists>w1. _ \<and> (\<forall>reopen \<in> ?openings. _ reopen w1)")
    proof (intro exI [of _ w1] conjI ballI)
      fix reopen assume "reopen \<in> ?openings"
      then obtain writer where "reopen = conversation_open rc env (conversation_record_key rc conv) writer ?key"
        by auto
      with w1(2) show "\<exists>conv' w2. reopen w1 = (Inr conv', w2) \<and> co_message_log_key conv' = Some t \<and>
          fst (conversation_read_header rc env conv' w2) = Inr (fold updated us (?h t))"
        by simp
    qed (fact w1(1))
  qed (fact c)+
qed

section \<open>A concrete conversation\<close>

definition game_field :: "game_struct field" where
  "game_field = iso_field
     (\<lambda>(a, b, c, d). \<lparr>gs_game_id = a, gs_game_name = b, gs_server_info = c, gs_elapsed_seconds = d\<rparr>)
     (\<lambda>s. (gs_game_id s, gs_game_name s, gs_server_info s, gs_elapsed_seconds s))
     (pair_field word_field (pair_field data_field (pair_field data_field word_field)))"

definition profile_field :: "profile_struct field" where
  "profile_field = iso_field
     (\<lambda>(a, b, c, d, e). \<lparr>us_display_name = a, us_status_message = b, us_status = c, us_avatar_hash = d,
        us_game_status = e\<rparr>)
     (\<lambda>s. (us_display_name s, us_status_message s, us_status s, us_avatar_hash s, us_game_status s))
     (pair_field data_field (pair_field data_field (pair_field word_field (pair_field data_field
       (ptr_field game_field)))))"

definition prekey_field :: "prekey_struct field" where
  "prekey_field = iso_field
     (\<lambda>(a, b, c, d, e). \<lparr>ks_identity_key = a, ks_signed_pre_key = b, ks_signed_pre_key_sig = c,
        ks_one_time_pre_key = d, ks_registration_id = e\<rparr>)
     (\<lambda>s. (ks_identity_key s, ks_signed_pre_key s, ks_signed_pre_key_sig s, ks_one_time_pre_key s,
        ks_registration_id s))
     (pair_field data_field (pair_field data_field (pair_field data_field (pair_field data_field word_field))))"

definition conversation_field :: "conversation_struct field" where
  "conversation_field = iso_field
     (\<lambda>(a, b, c, d, e, f, g). \<lparr>ns_identity_public_key = a, ns_profile = b, ns_message_log_key = c,
        ns_route_blob = d, ns_pre_key_bundle = e, ns_created_at = f, ns_updated_at = g\<rparr>)
     (\<lambda>s. (ns_identity_public_key s, ns_profile s, ns_message_log_key s, ns_route_blob s,
        ns_pre_key_bundle s, ns_created_at s, ns_updated_at s))
     (pair_field data_field (pair_field (ptr_field profile_field) (pair_field data_field (pair_field data_field
       (pair_field (ptr_field prekey_field) (pair_field word_field word_field))))))"

lemma conversation_field_ok: "field_ok conversation_field"
proof -
  have "field_ok game_field" unfolding game_field_def by (intro fields) simp
  then have "field_ok profile_field" unfolding profile_field_def by (intro fields) simp_all
  moreover have "field_ok prekey_field" unfolding prekey_field_def by (intro fields) simp
  ultimately show ?thesis unfolding conversation_field_def by (intro fields) simp_all
qed

definition sample_conversation_env :: conversation_env where
  "sample_conversation_env = \<lparr>cw_spine = spine_codec, cw_aead = sample_aead,
     cw_header = sample_capnp conversation_field\<rparr>"

lemma sample_conversation_env_ok: "conversation_env_ok sample_conversation_env"
  by (simp add: conversation_env_ok_def sample_conversation_env_def spine_codec_roundtrip sample_aead_ok
      sample_capnp_lawful conversation_field_ok)

definition online :: user_profile where
  "online = \<lparr>up_display_name = ''Alice'', up_status_message = [], up_status = 0, up_avatar_hash = [],
     up_game_status = None\<rparr>"

definition sample_prekeys :: wire_prekey_bundle where
  "sample_prekeys = \<lparr>wb_identity_key = [1], wb_signed_pre_key = [2], wb_signed_pre_key_sig = [3],
     wb_one_time_pre_key = [], wb_registration_id = 4\<rparr>"

theorem conversation_is_shared_witness:
  "\<exists>conv keypair w0 w1 conv' w2 t.
    conversation_create mem_rc sample_conversation_env
      (derive_conversation_key toy_crypto [1] (x25519_public toy_crypto [2])) (replicate 24 0) 5 [1] online [7]
      sample_prekeys [] = (Inr (conv, keypair), w0) \<and>
    run_updates mem_rc sample_conversation_env conv
      [(replicate 24 1, Route 6 [8]), (replicate 24 2, Profile 7 (online\<lparr>up_status := 9\<rparr>))] w0 = (Inr (), w1) \<and>
    conversation_open_read mem_rc sample_conversation_env (conversation_record_key mem_rc conv)
      (derive_conversation_key toy_crypto [2] (x25519_public toy_crypto [1])) w1 = (Inr conv', w2) \<and>
    fst (conversation_read_header mem_rc sample_conversation_env conv' w2) =
      Inr \<lparr>cv_identity_public_key = [1], cv_profile = online\<lparr>up_status := 3\<rparr>, cv_message_log_key = t,
        cv_route_blob = [8], cv_prekey_bundle = sample_prekeys, cv_created_at = 5, cv_updated_at = 7\<rparr>"
proof -
  let ?us = "[(replicate 24 1, Route 6 [8]), (replicate 24 2, Profile 7 (online\<lparr>up_status := 9\<rparr>))]"
  have us: "list_all update_ok ?us"
    by (simp add: profile_ok_def online_def ascii_rust_string nonce_len_def)
  have "rust_string (rc_show_key mem_rc (key_of mem_net p n))" for p n
    by (auto intro!: ascii_rust_string simp: mem_key_def list_all_iff)
  moreover have "length (replicate 24 (0 :: u8)) = nonce_len" "profile_ok online"
    by (simp_all add: nonce_len_def profile_ok_def online_def ascii_rust_string)
  ultimately obtain conv keypair w0 t k r where
    c: "conversation_create mem_rc sample_conversation_env
        (derive_conversation_key toy_crypto [1] (x25519_public toy_crypto [2])) (replicate 24 0) 5 [1] online [7]
        sample_prekeys [] = (Inr (conv, keypair), w0)"
    and u: "\<exists>w1. run_updates mem_rc sample_conversation_env conv ?us w0 = (Inr (), w1) \<and>
      (\<exists>conv' w2. conversation_open_read mem_rc sample_conversation_env (conversation_record_key mem_rc conv)
          (derive_conversation_key toy_crypto [2] (x25519_public toy_crypto [1])) w1 = (Inr conv', w2) \<and>
        fst (conversation_read_header mem_rc sample_conversation_env conv' w2) =
          Inr (fold updated ?us \<lparr>cv_identity_public_key = [1], cv_profile = stored_profile online,
            cv_message_log_key = t, cv_route_blob = [7], cv_prekey_bundle = sample_prekeys,
            cv_created_at = 5, cv_updated_at = 5\<rparr>))"
    using conversation_is_shared [OF mem_reliable sample_conversation_env_ok toy_crypto_ok, of "replicate 24 0" online
        "[1]" "[2]" 5 "[1]" "[7]" sample_prekeys "[]"] us by blast
  have "stored_profile (online\<lparr>up_status := 9\<rparr>) = online\<lparr>up_status := 3\<rparr>"
    by (simp add: stored_profile_def stored_status_def online_def)
  with c u show ?thesis by (simp, blast)
qed

end
