(* ===== verification/ClientDb.thy ===== *)
theory ClientDb
  imports SqlTables "HOL-Library.Char_ord" "HOL-Library.List_Lexorder" "HOL-Library.Option_ord"
begin

text \<open>
  The client's SQLite database (\<open>src-tauri/migrations/001_init.sql\<close>): the tables that keep the
  identities of this installation, friends, friend requests, blocked users, messages, the queue
  of messages to be sent again and the communities joined, with the columns the services and
  commands modelled here use, and one definition per statement of the client's services
  and commands on them. As for the server a statement is a partial function, \<^const>\<open>None\<close> when it
  violates a constraint. Foreign keys are enforced, so a row needs the identity that owns it:
  while nobody is logged in the owner key is empty and inserts fail.
\<close>

section \<open>The schema\<close>

record identity_row =
  ir_public_key :: string
  ir_display_name :: "string option"
  ir_created_at :: int
  ir_dht_record_key :: "string option"
  ir_dht_owner_keypair :: "string option"
  ir_friend_list_dht_key :: "string option"
  ir_friend_list_owner_keypair :: "string option"
  ir_avatar :: "bytes option"
  ir_account_dht_key :: "string option"
  ir_account_owner_keypair :: "string option"
  ir_mailbox_dht_key :: "string option"

record friend_group_row =
  gr_id :: int
  gr_owner :: string
  gr_name :: string

record friend_row =
  fw_owner :: string
  fw_public_key :: string
  fw_display_name :: "string option"
  fw_nickname :: "string option"
  fw_group_id :: "int option"
  fw_added_at :: int
  fw_dht_record_key :: "string option"
  fw_last_seen_at :: "int option"
  fw_avatar :: "bytes option"
  fw_local_conversation_key :: "string option"
  fw_remote_conversation_key :: "string option"
  fw_mailbox_dht_key :: "string option"
  fw_friendship_state :: string

record dm_row =
  xm_id :: int
  xm_owner :: string
  xm_conversation_id :: string
  xm_conversation_type :: string
  xm_sender_key :: string
  xm_body :: string
  xm_timestamp :: int
  xm_is_read :: bool
  xm_mek_generation :: "int option"

record queued_row =
  qr_id :: int
  qr_owner :: string
  qr_recipient :: string
  qr_body :: string
  qr_created_at :: int
  qr_retry_count :: int

record request_row =
  pr_owner :: string
  pr_public_key :: string
  pr_display_name :: string
  pr_message :: string
  pr_received_at :: int
  pr_profile_dht_key :: "string option"
  pr_route_blob :: "bytes option"
  pr_mailbox_dht_key :: "string option"
  pr_prekey_bundle :: "bytes option"

record blocked_row =
  xb_owner :: string
  xb_public_key :: string
  xb_display_name :: string
  xb_blocked_at :: int

record community_row =
  kc_owner :: string
  kc_id :: string
  kc_name :: string
  kc_description :: "string option"
  kc_my_role :: string
  kc_my_role_ids :: string
  kc_joined_at :: int
  kc_dht_record_key :: "string option"
  kc_dht_owner_keypair :: "string option"
  kc_my_pseudonym_key :: "string option"
  kc_mek_generation :: int
  kc_server_route_blob :: "bytes option"
  kc_is_hosted :: bool

record community_channel_row =
  kh_owner :: string
  kh_id :: string
  kh_community_id :: string
  kh_name :: string
  kh_channel_type :: string

record community_member_row =
  km_owner :: string
  km_community_id :: string
  km_pseudonym_key :: string
  km_display_name :: "string option"
  km_role_ids :: string
  km_timeout_until :: "int option"
  km_joined_at :: int

record community_role_row =
  ko_owner :: string
  ko_community_id :: string
  ko_role_id :: int
  ko_name :: string
  ko_color :: int
  ko_permissions :: int
  ko_position :: int
  ko_hoist :: bool
  ko_mentionable :: bool

record client_overwrite_row =
  kv_owner :: string
  kv_community_id :: string
  kv_channel_id :: string
  kv_target_type :: string
  kv_target_id :: string
  kv_allow :: int
  kv_deny :: int

record client_db =
  ct_identity :: "identity_row list"
  ct_groups :: "friend_group_row list"
  ct_friends :: "friend_row list"
  ct_messages :: "dm_row list"
  ct_queue :: "queued_row list"
  ct_requests :: "request_row list"
  ct_blocked :: "blocked_row list"
  ct_communities :: "community_row list"
  ct_channels :: "community_channel_row list"
  ct_members :: "community_member_row list"
  ct_roles :: "community_role_row list"
  ct_overwrites :: "client_overwrite_row list"
  ct_last_group :: int
  ct_last_message :: int
  ct_last_queued :: int

definition friend_pk :: "friend_row \<Rightarrow> string \<times> string" where
  "friend_pk r = (fw_owner r, fw_public_key r)"

definition request_pk :: "request_row \<Rightarrow> string \<times> string" where
  "request_pk r = (pr_owner r, pr_public_key r)"

definition blocked_pk :: "blocked_row \<Rightarrow> string \<times> string" where
  "blocked_pk r = (xb_owner r, xb_public_key r)"

definition community_pk :: "community_row \<Rightarrow> string \<times> string" where
  "community_pk r = (kc_owner r, kc_id r)"

definition community_channel_pk :: "community_channel_row \<Rightarrow> string \<times> string" where
  "community_channel_pk r = (kh_owner r, kh_id r)"

definition community_member_pk :: "community_member_row \<Rightarrow> string \<times> string \<times> string" where
  "community_member_pk r = (km_owner r, km_community_id r, km_pseudonym_key r)"

definition community_role_pk :: "community_role_row \<Rightarrow> string \<times> string \<times> int" where
  "community_role_pk r = (ko_owner r, ko_community_id r, ko_role_id r)"

definition client_overwrite_pk :: "client_overwrite_row \<Rightarrow> string \<times> string \<times> string \<times> string \<times> string" where
  "client_overwrite_pk r =
     (kv_owner r, kv_community_id r, kv_channel_id r, kv_target_type r, kv_target_id r)"

text \<open>The unique index \<open>idx_messages_dedup\<close> and the one on the names of groups.\<close>

definition dm_key :: "dm_row \<Rightarrow> string \<times> string \<times> string \<times> string \<times> int" where
  "dm_key r = (xm_owner r, xm_conversation_id r, xm_conversation_type r, xm_sender_key r, xm_timestamp r)"

definition group_key :: "friend_group_row \<Rightarrow> string \<times> string" where
  "group_key r = (gr_owner r, gr_name r)"

definition identity_exists :: "string \<Rightarrow> client_db \<Rightarrow> bool" where
  "identity_exists owner d = row_exists ir_public_key owner (ct_identity d)"

section \<open>Statements\<close>

subsection \<open>The identity\<close>

definition update_identity ::
  "string \<Rightarrow> (identity_row \<Rightarrow> identity_row) \<Rightarrow> client_db \<Rightarrow> client_db option" where
  "update_identity key f d =
     Some (d\<lparr>ct_identity := row_update (\<lambda>r. ir_public_key r = key) f (ct_identity d)\<rparr>)"

definition insert_identity :: "string \<Rightarrow> string \<Rightarrow> int \<Rightarrow> client_db \<Rightarrow> client_db option" where
  "insert_identity key name created_at d =
     map_option (\<lambda>t. d\<lparr>ct_identity := t\<rparr>) (row_insert ir_public_key
       \<lparr>ir_public_key = key, ir_display_name = Some name, ir_created_at = created_at, ir_dht_record_key = None,
        ir_dht_owner_keypair = None, ir_friend_list_dht_key = None, ir_friend_list_owner_keypair = None,
        ir_avatar = None, ir_account_dht_key = None, ir_account_owner_keypair = None, ir_mailbox_dht_key = None\<rparr>
       (ct_identity d))"

text \<open>
  The rows of an identity go with it (\<open>ON DELETE CASCADE\<close>), but the tables of roles and of channel
  overwrites have no foreign key to it.
\<close>

definition delete_identity_row :: "string \<Rightarrow> client_db \<Rightarrow> client_db option" where
  "delete_identity_row key d =
     Some (if identity_exists key d
       then d\<lparr>ct_identity := row_delete (\<lambda>r. ir_public_key r = key) (ct_identity d),
         ct_groups := row_delete (\<lambda>r. gr_owner r = key) (ct_groups d),
         ct_friends := row_delete (\<lambda>r. fw_owner r = key) (ct_friends d),
         ct_messages := row_delete (\<lambda>r. xm_owner r = key) (ct_messages d),
         ct_queue := row_delete (\<lambda>r. qr_owner r = key) (ct_queue d),
         ct_requests := row_delete (\<lambda>r. pr_owner r = key) (ct_requests d),
         ct_blocked := row_delete (\<lambda>r. xb_owner r = key) (ct_blocked d),
         ct_communities := row_delete (\<lambda>r. kc_owner r = key) (ct_communities d),
         ct_channels := row_delete (\<lambda>r. kh_owner r = key) (ct_channels d),
         ct_members := row_delete (\<lambda>r. km_owner r = key) (ct_members d)\<rparr>
       else d)"

definition select_identity :: "string \<Rightarrow> client_db \<Rightarrow> identity_row option" where
  "select_identity key d = row_lookup ir_public_key (ct_identity d) key"

definition select_identities :: "client_db \<Rightarrow> identity_row list" where
  "select_identities d = sort_key ir_created_at (ct_identity d)"

subsection \<open>Friends and their groups\<close>

text \<open>
  \<open>INSERT OR IGNORE INTO friends\<close> and \<open>INSERT INTO friends\<close>: a missing identity is an error in
  both, an existing row in the second only. \<open>UPDATE\<close> and \<open>DELETE\<close> concern the row of one friend.
\<close>

definition insert_ignore_friend :: "friend_row \<Rightarrow> client_db \<Rightarrow> client_db option" where
  "insert_ignore_friend r d =
     (if row_exists friend_pk (friend_pk r) (ct_friends d) then Some d
      else if identity_exists (fw_owner r) d then Some (d\<lparr>ct_friends := ct_friends d @ [r]\<rparr>)
      else None)"

definition insert_friend :: "friend_row \<Rightarrow> client_db \<Rightarrow> client_db option" where
  "insert_friend r d =
     (if identity_exists (fw_owner r) d
      then map_option (\<lambda>t. d\<lparr>ct_friends := t\<rparr>) (row_insert friend_pk r (ct_friends d))
      else None)"

definition update_friend ::
  "string \<Rightarrow> string \<Rightarrow> (friend_row \<Rightarrow> friend_row) \<Rightarrow> client_db \<Rightarrow> client_db option" where
  "update_friend owner key f d =
     Some (d\<lparr>ct_friends := row_update (\<lambda>r. friend_pk r = (owner, key)) f (ct_friends d)\<rparr>)"

definition delete_friend :: "string \<Rightarrow> string \<Rightarrow> client_db \<Rightarrow> client_db option" where
  "delete_friend owner key d =
     Some (d\<lparr>ct_friends := row_delete (\<lambda>r. friend_pk r = (owner, key)) (ct_friends d)\<rparr>)"

definition select_expired_friends :: "string \<Rightarrow> int \<Rightarrow> client_db \<Rightarrow> string list" where
  "select_expired_friends owner cutoff d =
     map fw_public_key (filter (\<lambda>r. fw_owner r = owner \<and> fw_friendship_state r = ''pending_out'' \<and>
       fw_added_at r < cutoff) (ct_friends d))"

definition insert_group :: "string \<Rightarrow> string \<Rightarrow> client_db \<Rightarrow> client_db option" where
  "insert_group owner name d =
     (let r = \<lparr>gr_id = ct_last_group d + 1, gr_owner = owner, gr_name = name\<rparr>
      in if identity_exists owner d
         then map_option (\<lambda>t. d\<lparr>ct_groups := t, ct_last_group := ct_last_group d + 1\<rparr>)
                (row_insert group_key r (ct_groups d))
         else None)"

definition rename_group :: "int \<Rightarrow> string \<Rightarrow> client_db \<Rightarrow> client_db option" where
  "rename_group i name d =
     (if \<exists>r\<in>set (ct_groups d). gr_id r = i \<and>
           (\<exists>r'\<in>set (ct_groups d). gr_id r' \<noteq> i \<and> group_key r' = (gr_owner r, name))
      then None
      else Some (d\<lparr>ct_groups := row_update (\<lambda>r. gr_id r = i) (\<lambda>r. r\<lparr>gr_name := name\<rparr>) (ct_groups d)\<rparr>))"

text \<open>\<open>UPDATE friends SET group_id\<close>: the group must exist when a row is updated.\<close>

definition update_friend_group :: "string \<Rightarrow> string \<Rightarrow> int option \<Rightarrow> client_db \<Rightarrow> client_db option" where
  "update_friend_group owner key g d =
     (if row_exists friend_pk (owner, key) (ct_friends d) \<and>
         (case g of None \<Rightarrow> False | Some i \<Rightarrow> \<not> row_exists gr_id i (ct_groups d))
      then None else update_friend owner key (\<lambda>r. r\<lparr>fw_group_id := g\<rparr>) d)"

definition select_group_name :: "int \<Rightarrow> client_db \<Rightarrow> string option" where
  "select_group_name i d = map_option gr_name (row_lookup gr_id (ct_groups d) i)"

subsection \<open>Requests and blocked users\<close>

definition replace_request :: "request_row \<Rightarrow> client_db \<Rightarrow> client_db option" where
  "replace_request r d =
     (if identity_exists (pr_owner r) d
      then Some (d\<lparr>ct_requests := row_replace request_pk r (ct_requests d)\<rparr>) else None)"

definition delete_request :: "string \<Rightarrow> string \<Rightarrow> client_db \<Rightarrow> client_db option" where
  "delete_request owner key d =
     Some (d\<lparr>ct_requests := row_delete (\<lambda>r. request_pk r = (owner, key)) (ct_requests d)\<rparr>)"

definition delete_expired_requests :: "string \<Rightarrow> int \<Rightarrow> client_db \<Rightarrow> client_db option" where
  "delete_expired_requests owner cutoff d =
     Some (d\<lparr>ct_requests :=
       row_delete (\<lambda>r. pr_owner r = owner \<and> pr_received_at r < cutoff) (ct_requests d)\<rparr>)"

definition select_requests :: "string \<Rightarrow> client_db \<Rightarrow> request_row list" where
  "select_requests owner d =
     sort_key pr_received_at (filter (\<lambda>r. pr_owner r = owner) (ct_requests d))"

definition select_request :: "string \<Rightarrow> string \<Rightarrow> client_db \<Rightarrow> request_row option" where
  "select_request owner key d = row_lookup request_pk (ct_requests d) (owner, key)"

definition replace_blocked :: "blocked_row \<Rightarrow> client_db \<Rightarrow> client_db option" where
  "replace_blocked r d =
     (if identity_exists (xb_owner r) d
      then Some (d\<lparr>ct_blocked := row_replace blocked_pk r (ct_blocked d)\<rparr>) else None)"

definition delete_blocked :: "string \<Rightarrow> string \<Rightarrow> client_db \<Rightarrow> client_db option" where
  "delete_blocked owner key d =
     Some (d\<lparr>ct_blocked := row_delete (\<lambda>r. blocked_pk r = (owner, key)) (ct_blocked d)\<rparr>)"

definition select_blocked :: "string \<Rightarrow> client_db \<Rightarrow> blocked_row list" where
  "select_blocked owner d =
     sort_key (\<lambda>r. - xb_blocked_at r) (filter (\<lambda>r. xb_owner r = owner) (ct_blocked d))"

definition count_blocked :: "string \<Rightarrow> string \<Rightarrow> client_db \<Rightarrow> nat" where
  "count_blocked owner key d = length (filter (\<lambda>r. blocked_pk r = (owner, key)) (ct_blocked d))"

subsection \<open>Messages and the queue\<close>

text \<open>Ids are \<open>AUTOINCREMENT\<close>: one more than the largest ever used.\<close>

definition insert_message_row ::
  "string \<Rightarrow> string \<Rightarrow> string \<Rightarrow> string \<Rightarrow> string \<Rightarrow> int \<Rightarrow> bool \<Rightarrow> int option \<Rightarrow> client_db \<Rightarrow> client_db option"
  where
  "insert_message_row owner conversation kind sender body timestamp is_read generation d =
     (let r = \<lparr>xm_id = ct_last_message d + 1, xm_owner = owner, xm_conversation_id = conversation,
          xm_conversation_type = kind, xm_sender_key = sender, xm_body = body,
          xm_timestamp = timestamp, xm_is_read = is_read, xm_mek_generation = generation\<rparr>
      in if identity_exists owner d \<and> kind \<in> {''dm'', ''channel''}
         then map_option (\<lambda>t. d\<lparr>ct_messages := t, ct_last_message := ct_last_message d + 1\<rparr>)
                (row_insert dm_key r (ct_messages d))
         else None)"

abbreviation insert_dm ::
  "string \<Rightarrow> string \<Rightarrow> string \<Rightarrow> string \<Rightarrow> string \<Rightarrow> int \<Rightarrow> bool \<Rightarrow> client_db \<Rightarrow> client_db option" where
  "insert_dm owner conversation kind sender body timestamp is_read \<equiv>
     insert_message_row owner conversation kind sender body timestamp is_read None"

text \<open>\<open>INSERT OR IGNORE\<close> of a channel message that was fetched from the server.\<close>

definition insert_ignore_message_row ::
  "string \<Rightarrow> string \<Rightarrow> string \<Rightarrow> string \<Rightarrow> string \<Rightarrow> int \<Rightarrow> bool \<Rightarrow> int option \<Rightarrow> client_db \<Rightarrow> client_db option"
  where
  "insert_ignore_message_row owner conversation kind sender body timestamp is_read generation d =
     (if row_exists dm_key (owner, conversation, kind, sender, timestamp) (ct_messages d) then Some d
      else insert_message_row owner conversation kind sender body timestamp is_read generation d)"

definition mark_dms_read :: "string \<Rightarrow> string \<Rightarrow> client_db \<Rightarrow> client_db option" where
  "mark_dms_read owner conversation d =
     Some (d\<lparr>ct_messages := row_update
       (\<lambda>r. xm_owner r = owner \<and> xm_conversation_id r = conversation \<and> \<not> xm_is_read r)
       (\<lambda>r. r\<lparr>xm_is_read := True\<rparr>) (ct_messages d)\<rparr>)"

text \<open>\<open>ORDER BY timestamp ASC LIMIT n\<close>; equal timestamps in the order of insertion.\<close>

definition select_dms :: "string \<Rightarrow> string \<Rightarrow> nat \<Rightarrow> client_db \<Rightarrow> dm_row list" where
  "select_dms owner conversation n d =
     take n (sort_key xm_timestamp (filter (\<lambda>r. xm_owner r = owner \<and>
       xm_conversation_id r = conversation \<and> xm_conversation_type r = ''dm'') (ct_messages d)))"

text \<open>\<open>ORDER BY timestamp DESC LIMIT n\<close>; equal timestamps in the order of insertion.\<close>

definition select_channel_messages :: "string \<Rightarrow> string \<Rightarrow> nat \<Rightarrow> client_db \<Rightarrow> dm_row list" where
  "select_channel_messages owner channel n d =
     take n (sort_key (\<lambda>r. - xm_timestamp r) (filter (\<lambda>r. xm_owner r = owner \<and>
       xm_conversation_id r = channel \<and> xm_conversation_type r = ''channel'') (ct_messages d)))"

definition insert_queued :: "string \<Rightarrow> string \<Rightarrow> string \<Rightarrow> int \<Rightarrow> client_db \<Rightarrow> client_db option" where
  "insert_queued owner recipient body created_at d =
     (if identity_exists owner d
      then Some (d\<lparr>ct_queue := ct_queue d @
             [\<lparr>qr_id = ct_last_queued d + 1, qr_owner = owner, qr_recipient = recipient, qr_body = body,
               qr_created_at = created_at, qr_retry_count = 0\<rparr>],
             ct_last_queued := ct_last_queued d + 1\<rparr>)
      else None)"

definition delete_queued_to :: "string \<Rightarrow> string \<Rightarrow> client_db \<Rightarrow> client_db option" where
  "delete_queued_to owner recipient d =
     Some (d\<lparr>ct_queue := row_delete (\<lambda>r. qr_owner r = owner \<and> qr_recipient r = recipient) (ct_queue d)\<rparr>)"

definition delete_queued :: "int \<Rightarrow> client_db \<Rightarrow> client_db option" where
  "delete_queued i d = Some (d\<lparr>ct_queue := row_delete (\<lambda>r. qr_id r = i) (ct_queue d)\<rparr>)"

definition increment_queued :: "int \<Rightarrow> client_db \<Rightarrow> client_db option" where
  "increment_queued i d = Some (d\<lparr>ct_queue :=
     row_update (\<lambda>r. qr_id r = i) (\<lambda>r. r\<lparr>qr_retry_count := qr_retry_count r + 1\<rparr>) (ct_queue d)\<rparr>)"

definition select_queued :: "string \<Rightarrow> client_db \<Rightarrow> queued_row list" where
  "select_queued owner d = sort_key qr_id (filter (\<lambda>r. qr_owner r = owner) (ct_queue d))"

subsection \<open>Communities joined\<close>

definition update_community_row ::
  "string \<Rightarrow> string \<Rightarrow> (community_row \<Rightarrow> community_row) \<Rightarrow> client_db \<Rightarrow> client_db option" where
  "update_community_row owner cid f d =
     Some (d\<lparr>ct_communities := row_update (\<lambda>r. community_pk r = (owner, cid)) f (ct_communities d)\<rparr>)"

definition delete_community_channels :: "string \<Rightarrow> string \<Rightarrow> client_db \<Rightarrow> client_db option" where
  "delete_community_channels owner cid d =
     Some (d\<lparr>ct_channels := row_delete (\<lambda>r. kh_owner r = owner \<and> kh_community_id r = cid) (ct_channels d)\<rparr>)"

definition insert_ignore_community_channel :: "community_channel_row \<Rightarrow> client_db \<Rightarrow> client_db option" where
  "insert_ignore_community_channel r d =
     (if kh_channel_type r \<notin> {''text'', ''voice''} \<or>
         row_exists community_channel_pk (community_channel_pk r) (ct_channels d) then Some d
      else if identity_exists (kh_owner r) d \<and>
              row_exists community_pk (kh_owner r, kh_community_id r) (ct_communities d)
      then Some (d\<lparr>ct_channels := ct_channels d @ [r]\<rparr>)
      else None)"

definition replace_community_member :: "community_member_row \<Rightarrow> client_db \<Rightarrow> client_db option" where
  "replace_community_member r d =
     (if identity_exists (km_owner r) d
      then Some (d\<lparr>ct_members := row_replace community_member_pk r (ct_members d)\<rparr>) else None)"

definition delete_community_roles :: "string \<Rightarrow> string \<Rightarrow> client_db \<Rightarrow> client_db option" where
  "delete_community_roles owner cid d =
     Some (d\<lparr>ct_roles := row_delete (\<lambda>r. ko_owner r = owner \<and> ko_community_id r = cid) (ct_roles d)\<rparr>)"

definition insert_community_role :: "community_role_row \<Rightarrow> client_db \<Rightarrow> client_db option" where
  "insert_community_role r d =
     map_option (\<lambda>t. d\<lparr>ct_roles := t\<rparr>) (row_insert community_role_pk r (ct_roles d))"

text \<open>
  The row of a community goes with its channels (\<open>ON DELETE CASCADE\<close>); members, roles and
  overwrites have no foreign key to it and stay.
\<close>

definition insert_community_row :: "community_row \<Rightarrow> client_db \<Rightarrow> client_db option" where
  "insert_community_row r d =
     (if identity_exists (kc_owner r) d
      then map_option (\<lambda>t. d\<lparr>ct_communities := t\<rparr>) (row_insert community_pk r (ct_communities d))
      else None)"

definition insert_ignore_community_row :: "community_row \<Rightarrow> client_db \<Rightarrow> client_db option" where
  "insert_ignore_community_row r d =
     (if row_exists community_pk (community_pk r) (ct_communities d) then Some d
      else insert_community_row r d)"

definition delete_community_row :: "string \<Rightarrow> string \<Rightarrow> client_db \<Rightarrow> client_db option" where
  "delete_community_row owner cid d =
     Some (d\<lparr>ct_communities := row_delete (\<lambda>r. community_pk r = (owner, cid)) (ct_communities d),
       ct_channels := row_delete (\<lambda>r. kh_owner r = owner \<and> kh_community_id r = cid) (ct_channels d)\<rparr>)"

definition insert_community_channel :: "community_channel_row \<Rightarrow> client_db \<Rightarrow> client_db option" where
  "insert_community_channel r d =
     (if kh_channel_type r \<in> {''text'', ''voice''} \<and> identity_exists (kh_owner r) d \<and>
         row_exists community_pk (kh_owner r, kh_community_id r) (ct_communities d)
      then map_option (\<lambda>t. d\<lparr>ct_channels := t\<rparr>) (row_insert community_channel_pk r (ct_channels d))
      else None)"

definition update_community_channel ::
  "string \<Rightarrow> string \<Rightarrow> string \<Rightarrow> (community_channel_row \<Rightarrow> community_channel_row) \<Rightarrow> client_db \<Rightarrow> client_db option"
  where
  "update_community_channel owner cid channel f d =
     Some (d\<lparr>ct_channels := row_update
       (\<lambda>r. community_channel_pk r = (owner, channel) \<and> kh_community_id r = cid) f (ct_channels d)\<rparr>)"

definition delete_community_channel :: "string \<Rightarrow> string \<Rightarrow> string \<Rightarrow> client_db \<Rightarrow> client_db option" where
  "delete_community_channel owner cid channel d =
     Some (d\<lparr>ct_channels := row_delete
       (\<lambda>r. community_channel_pk r = (owner, channel) \<and> kh_community_id r = cid) (ct_channels d)\<rparr>)"

definition insert_community_member :: "community_member_row \<Rightarrow> client_db \<Rightarrow> client_db option" where
  "insert_community_member r d =
     (if identity_exists (km_owner r) d
      then map_option (\<lambda>t. d\<lparr>ct_members := t\<rparr>) (row_insert community_member_pk r (ct_members d))
      else None)"

definition insert_ignore_community_member :: "community_member_row \<Rightarrow> client_db \<Rightarrow> client_db option" where
  "insert_ignore_community_member r d =
     (if row_exists community_member_pk (community_member_pk r) (ct_members d) then Some d
      else insert_community_member r d)"

definition update_community_member ::
  "string \<Rightarrow> string \<Rightarrow> string \<Rightarrow> (community_member_row \<Rightarrow> community_member_row) \<Rightarrow> client_db \<Rightarrow> client_db option"
  where
  "update_community_member owner cid pseudonym f d =
     Some (d\<lparr>ct_members := row_update (\<lambda>r. community_member_pk r = (owner, cid, pseudonym)) f (ct_members d)\<rparr>)"

definition delete_community_member :: "string \<Rightarrow> string \<Rightarrow> string \<Rightarrow> client_db \<Rightarrow> client_db option" where
  "delete_community_member owner cid pseudonym d =
     Some (d\<lparr>ct_members := row_delete (\<lambda>r. community_member_pk r = (owner, cid, pseudonym)) (ct_members d)\<rparr>)"

definition select_member_role_ids :: "string \<Rightarrow> string \<Rightarrow> string \<Rightarrow> client_db \<Rightarrow> string option" where
  "select_member_role_ids owner cid pseudonym d =
     map_option km_role_ids (row_lookup community_member_pk (ct_members d) (owner, cid, pseudonym))"

definition select_member_roles :: "string \<Rightarrow> string \<Rightarrow> client_db \<Rightarrow> (string \<times> string) list" where
  "select_member_roles owner cid d = map (\<lambda>r. (km_pseudonym_key r, km_role_ids r))
     (filter (\<lambda>r. km_owner r = owner \<and> km_community_id r = cid) (ct_members d))"

text \<open>\<open>ORDER BY display_name\<close>, NULL first.\<close>

definition select_community_members :: "string \<Rightarrow> string \<Rightarrow> client_db \<Rightarrow> community_member_row list" where
  "select_community_members owner cid d = sort_key km_display_name
     (filter (\<lambda>r. km_owner r = owner \<and> km_community_id r = cid) (ct_members d))"

definition select_my_role_ids :: "string \<Rightarrow> string \<Rightarrow> client_db \<Rightarrow> string option" where
  "select_my_role_ids owner cid d =
     map_option kc_my_role_ids (row_lookup community_pk (ct_communities d) (owner, cid))"

definition insert_ignore_community_role :: "community_role_row \<Rightarrow> client_db \<Rightarrow> client_db option" where
  "insert_ignore_community_role r d =
     (if row_exists community_role_pk (community_role_pk r) (ct_roles d) then Some d else insert_community_role r d)"

definition replace_community_role :: "community_role_row \<Rightarrow> client_db \<Rightarrow> client_db option" where
  "replace_community_role r d = Some (d\<lparr>ct_roles := row_replace community_role_pk r (ct_roles d)\<rparr>)"

definition update_community_role ::
  "string \<Rightarrow> string \<Rightarrow> int \<Rightarrow> (community_role_row \<Rightarrow> community_role_row) \<Rightarrow> client_db \<Rightarrow> client_db option" where
  "update_community_role owner cid role_id f d =
     Some (d\<lparr>ct_roles := row_update (\<lambda>r. community_role_pk r = (owner, cid, role_id)) f (ct_roles d)\<rparr>)"

definition delete_community_role :: "string \<Rightarrow> string \<Rightarrow> int \<Rightarrow> client_db \<Rightarrow> client_db option" where
  "delete_community_role owner cid role_id d =
     Some (d\<lparr>ct_roles := row_delete (\<lambda>r. community_role_pk r = (owner, cid, role_id)) (ct_roles d)\<rparr>)"

definition replace_overwrite_row :: "client_overwrite_row \<Rightarrow> client_db \<Rightarrow> client_db option" where
  "replace_overwrite_row r d =
     (if kv_target_type r \<in> {''role'', ''member''}
      then Some (d\<lparr>ct_overwrites := row_replace client_overwrite_pk r (ct_overwrites d)\<rparr>) else None)"

definition delete_overwrite_row ::
  "string \<times> string \<times> string \<times> string \<times> string \<Rightarrow> client_db \<Rightarrow> client_db option" where
  "delete_overwrite_row k d =
     Some (d\<lparr>ct_overwrites := row_delete (\<lambda>r. client_overwrite_pk r = k) (ct_overwrites d)\<rparr>)"

lemmas client_statement_defs =
  insert_community_row_def insert_ignore_community_row_def delete_community_row_def insert_community_channel_def
  update_community_channel_def delete_community_channel_def insert_community_member_def
  insert_ignore_community_member_def update_community_member_def delete_community_member_def
  insert_ignore_community_role_def replace_community_role_def update_community_role_def delete_community_role_def
  replace_overwrite_row_def delete_overwrite_row_def
  update_community_row_def delete_community_channels_def insert_ignore_community_channel_def
  replace_community_member_def delete_community_roles_def insert_community_role_def
  update_identity_def insert_ignore_friend_def insert_friend_def update_friend_def
  delete_friend_def insert_group_def rename_group_def update_friend_group_def replace_request_def
  delete_request_def delete_expired_requests_def replace_blocked_def delete_blocked_def
  insert_message_row_def insert_ignore_message_row_def mark_dms_read_def insert_queued_def delete_queued_to_def delete_queued_def
  increment_queued_def

end
