(* ===== verification/Invites.thy ===== *)
theory Invites
  imports Dht
begin

text \<open>
  Invite links (\<open>crates/rekindle-protocol/src/messaging/envelope.rs\<close>): what a peer needs to add a
  contact, signed by the inviter, as JSON in a \<open>rekindle://\<close> URL. The printer and the parser of
  JSON, base64 and Ed25519 are parameters.
\<close>

text \<open>\<open>serde_json::Value\<close>; a number that is no integer is kept as its text.\<close>

datatype json_value =
    JNull
  | JBool bool
  | JInteger int
  | JDecimal string
  | JString string
  | JArray "json_value list"
  | JObject "(string \<times> json_value) list"

record invite_blob =
  ib_public_key :: string
  ib_display_name :: string
  ib_mailbox_dht_key :: string
  ib_profile_dht_key :: string
  ib_route_blob :: bytes
  ib_prekey_bundle :: bytes
  ib_signature :: bytes

record invite_env =
  iv_show_json :: "json_value \<Rightarrow> bytes"
  iv_invite_json :: "invite_blob json"
  iv_base64_encode :: "bytes \<Rightarrow> string"
  iv_base64_decode :: "string \<Rightarrow> string + bytes"
  iv_hex_error :: "string \<Rightarrow> string"
  iv_key_error :: "bytes \<Rightarrow> string option"
  iv_verify_error :: "bytes \<Rightarrow> bytes \<Rightarrow> bytes \<Rightarrow> string option"
  iv_sign :: "bytes \<Rightarrow> bytes \<Rightarrow> bytes"

definition json_bytes :: "bytes \<Rightarrow> json_value" where
  "json_bytes b = JArray (map (\<lambda>x. JInteger (uint x)) b)"

text \<open>The JSON under the signature: all fields but the signature.\<close>

definition invite_signable ::
  "invite_env \<Rightarrow> string \<Rightarrow> string \<Rightarrow> string \<Rightarrow> string \<Rightarrow> bytes \<Rightarrow> bytes \<Rightarrow> bytes" where
  "invite_signable env public_key display_name mailbox_dht_key profile_dht_key route_blob prekey_bundle =
     iv_show_json env (JObject [(''public_key'', JString public_key), (''display_name'', JString display_name),
       (''mailbox_dht_key'', JString mailbox_dht_key), (''profile_dht_key'', JString profile_dht_key),
       (''route_blob'', json_bytes route_blob), (''prekey_bundle'', json_bytes prekey_bundle)])"

definition create_invite_blob ::
  "invite_env \<Rightarrow> bytes \<Rightarrow> string \<Rightarrow> string \<Rightarrow> string \<Rightarrow> string \<Rightarrow> bytes \<Rightarrow> bytes \<Rightarrow> invite_blob" where
  "create_invite_blob env secret_key public_key display_name mailbox_dht_key profile_dht_key route_blob
     prekey_bundle =
     \<lparr>ib_public_key = public_key, ib_display_name = display_name, ib_mailbox_dht_key = mailbox_dht_key,
      ib_profile_dht_key = profile_dht_key, ib_route_blob = route_blob, ib_prekey_bundle = prekey_bundle,
      ib_signature = iv_sign env secret_key (invite_signable env public_key display_name mailbox_dht_key
        profile_dht_key route_blob prekey_bundle)\<rparr>"

definition verify_invite_blob :: "invite_env \<Rightarrow> invite_blob \<Rightarrow> string + unit" where
  "verify_invite_blob env blob =
     (case hex_decode (ib_public_key blob) of
        None \<Rightarrow> Inl (''invalid public key hex: '' @ iv_hex_error env (ib_public_key blob))
      | Some pub \<Rightarrow>
          if length pub \<noteq> 32 then Inl ''public key must be 32 bytes''
          else case iv_key_error env pub of
            Some e \<Rightarrow> Inl (''invalid public key: '' @ e)
          | None \<Rightarrow>
              if length (ib_signature blob) \<noteq> 64 then Inl ''signature must be 64 bytes''
              else case iv_verify_error env pub
                  (invite_signable env (ib_public_key blob) (ib_display_name blob) (ib_mailbox_dht_key blob)
                     (ib_profile_dht_key blob) (ib_route_blob blob) (ib_prekey_bundle blob))
                  (ib_signature blob) of
                Some e \<Rightarrow> Inl (''invalid invite signature: '' @ e)
              | None \<Rightarrow> Inr ())"

definition encode_invite_url :: "invite_env \<Rightarrow> invite_blob \<Rightarrow> string" where
  "encode_invite_url env blob =
     ''rekindle://'' @ iv_base64_encode env (case to_json (iv_invite_json env) blob of Inr b \<Rightarrow> b | Inl e \<Rightarrow> [])"

definition strip_prefix :: "string \<Rightarrow> string \<Rightarrow> string" where
  "strip_prefix p s = (if take (length p) s = p then drop (length p) s else s)"

definition decode_invite_url :: "invite_env \<Rightarrow> string \<Rightarrow> string + invite_blob" where
  "decode_invite_url env url =
     (case iv_base64_decode env (strip_prefix ''rekindle://'' url) of
        Inl e \<Rightarrow> Inl (''invalid base64: '' @ e)
      | Inr data \<Rightarrow>
          (case from_json (iv_invite_json env) data of
             Inl e \<Rightarrow> Inl (''invalid invite JSON: '' @ e)
           | Inr blob \<Rightarrow> Inr blob))"

text \<open>
  A link read back is the invite it was made from, and it verifies, when the parameters invert
  each other and the inviter signs with the key it names.
\<close>

definition invite_env_ok :: "invite_env \<Rightarrow> (bytes \<Rightarrow> bytes) \<Rightarrow> bool" where
  "invite_env_ok env public_of \<longleftrightarrow>
     json_roundtrip (iv_invite_json env) \<and>
     (\<forall>b. iv_base64_decode env (iv_base64_encode env b) = Inr b) \<and>
     (\<forall>sk m. length (iv_sign env sk m) = 64 \<and> length (public_of sk) = 32 \<and>
       iv_key_error env (public_of sk) = None \<and>
       (iv_verify_error env (public_of sk) m (iv_sign env sk m) = None))"

lemma decode_encode_invite:
  assumes "invite_env_ok env public_of"
  shows "decode_invite_url env (encode_invite_url env blob) = Inr blob"
proof -
  obtain b where "to_json (iv_invite_json env) blob = Inr b" and "from_json (iv_invite_json env) b = Inr blob"
    using assms json_roundtripE unfolding invite_env_ok_def by metis
  with assms show ?thesis
    by (simp add: decode_invite_url_def encode_invite_url_def strip_prefix_def invite_env_ok_def)
qed

lemma verify_create_invite:
  assumes "invite_env_ok env public_of"
  shows "verify_invite_blob env (create_invite_blob env sk (hex_encode (public_of sk)) n m p r k) = Inr ()"
  using assms
  by (simp add: verify_invite_blob_def create_invite_blob_def hex_decode_encode invite_env_ok_def)

end
