(* ===== verification/ClientState.thy ===== *)
theory ClientState
  imports ClientDb DhtRecords Session Account Conversation Wire Invites
begin

text \<open>
  The state of the client (\<open>src-tauri/src/state.rs\<close>), what its services use of Veilid, the
  cryptography, \<open>serde_json\<close> and SQLite, and the steps they are written in. A service is a
  function on the whole client in the error and state monad of \<open>Dht\<close>: it reads and changes the
  shared state, executes statements, calls Veilid and emits events to the web view. An error is the
  text the code returns, or a panic, which no handler of errors catches.
\<close>

section \<open>The state\<close>

datatype user_status = Online | Away | Busy | Offline

datatype friendship_state = PendingOut | Accepted | Removing

record game_info_state =
  gi_game_id :: u32
  gi_game_name :: string
  gi_server_info :: "string option"
  gi_elapsed_seconds :: u32

record friend_state =
  fs_public_key :: string
  fs_display_name :: string
  fs_nickname :: "string option"
  fs_status :: user_status
  fs_status_message :: "string option"
  fs_game_info :: "game_info_state option"
  fs_group :: "string option"
  fs_unread_count :: u32
  fs_dht_record_key :: "string option"
  fs_last_seen_at :: "int option"
  fs_local_conversation_key :: "string option"
  fs_remote_conversation_key :: "string option"
  fs_mailbox_dht_key :: "string option"
  fs_last_heartbeat_at :: "int option"
  fs_friendship_state :: friendship_state

record identity_state =
  is_public_key :: string
  is_display_name :: string
  is_status :: user_status
  is_status_message :: string

datatype client_channel_type = TextChannel | VoiceChannel

record client_channel =
  cx_id :: string
  cx_name :: string
  cx_channel_type :: client_channel_type
  cx_unread_count :: u32

record client_community =
  cc_id :: string
  cc_name :: string
  cc_description :: "string option"
  cc_channels :: "client_channel list"
  cc_my_role_ids :: "u32 list"
  cc_roles :: "role_dto list"
  cc_my_role :: "string option"
  cc_dht_record_key :: "string option"
  cc_dht_owner_keypair :: "string option"
  cc_my_pseudonym_key :: "string option"
  cc_mek_generation :: u64
  cc_server_route_blob :: "bytes option"
  cc_is_hosted :: bool

record 'p node_handle =
  nh_attachment_state :: string
  nh_is_attached :: bool
  nh_public_internet_ready :: bool
  nh_route_blob :: "bytes option"
  nh_profile_dht_key :: "string option"
  nh_profile_owner_keypair :: "'p option"
  nh_friend_list_dht_key :: "string option"
  nh_friend_list_owner_keypair :: "'p option"
  nh_account_dht_key :: "string option"
  nh_mailbox_dht_key :: "string option"

record 'r dht_handle =
  dh_manager :: "'r dht_manager"
  dh_key_to_friend :: "(string \<times> string) list"
  dh_conversation_key_to_friend :: "(string \<times> string) list"
  dh_open_records :: "string set"

text \<open>The private route others send to (\<open>crates/rekindle-protocol/src/routing.rs\<close>).\<close>

record 'r routing_manager =
  rm_route_id :: "'r option"
  rm_route_blob :: "bytes option"

text \<open>
  The key store (\<open>keystore.rs\<close>) while it is unlocked: the identity whose snapshot file it is, the key
  derived from the passphrase, and the entries. Stronghold encrypts entries into the bytes of a
  snapshot and reads them back, and Argon2id derives the key.
\<close>

record vault =
  vt_public_key :: string
  vt_key :: bytes
  vt_store :: "(string \<times> bytes) list"

record stronghold =
  sh_derive :: "string \<Rightarrow> bytes"
  sh_commit :: "bytes \<Rightarrow> (string \<times> bytes) list \<Rightarrow> bytes"
  sh_load :: "bytes \<Rightarrow> bytes \<Rightarrow> string + (string \<times> bytes) list"

text \<open>What the web view is told (\<open>channels/\<close>), and the messages a chat window shows.\<close>

record chat_message =
  hm_id :: int
  hm_sender_id :: string
  hm_body :: string
  hm_timestamp :: int
  hm_is_own :: bool

datatype chat_event =
    EvMessageReceived string string u64 string
  | EvTypingIndicator string bool
  | EvMessageAck u64
  | EvFriendRequest string string string
  | EvFriendRequestAccepted string string
  | EvFriendRequestRejected string
  | EvFriendAdded string string string
  | EvFriendRemoved string
  | EvFriendRequestDelivered string
  | EvChannelHistoryLoaded string "chat_message list"

datatype presence_event =
    FriendOnline string
  | FriendOffline string
  | StatusChanged string string "string option"
  | GameChanged string "string option" "u32 option" "u32 option"

datatype community_event =
    EvMemberJoined string string string "u32 list"
  | EvMemberRemoved string string
  | EvMekRotated string u64
  | EvKicked string
  | EvRolesChanged string "role_dto list"
  | EvMemberRolesChanged string string "u32 list"
  | EvMemberTimedOut string string "u64 option"
  | EvChannelOverwriteChanged string string

datatype ui_event =
    ChatEvent chat_event
  | PresenceEvent presence_event
  | SystemAlert string string
  | ProfileUpdated
  | CommunityEvent community_event
  | NetworkStatus string bool bool bool

text \<open>
  The client: the fields of \<open>AppState\<close> the services use, the database with the faults the next
  accesses meet (the text of an I/O error, an empty list for none), a stream of random bytes and
  how many are used up, the wall clock and the monotonic clock in milliseconds, the events emitted
  so far, and the network. The snapshot files of the key stores belong to it too.
\<close>

record ('w, 'p, 'r) client =
  c_identity :: "identity_state option"
  c_identity_secret :: "bytes option"
  c_friends :: "(string \<times> friend_state) list"
  c_communities :: "(string \<times> client_community) list"
  c_node :: "'p node_handle option"
  c_dht :: "'r dht_handle option"
  c_signal :: "signal_manager option"
  c_routing :: "'r routing_manager option"
  c_mek_cache :: "(string \<times> media_encryption_key) list"
  c_vault :: "vault option"
  c_snapshots :: "(string \<times> bytes) list"
  c_unwatched :: "string set"
  c_pre_away :: "user_status option"
  c_db :: client_db
  c_faults :: "string option list"
  c_random :: "nat \<Rightarrow> u8"
  c_drawn :: nat
  c_clock :: nat
  c_instant :: nat
  c_events :: "ui_event list"
  c_net :: 'w

subsection \<open>The handle of the DHT manager\<close>

definition track_open_record :: "string \<Rightarrow> 'r dht_handle \<Rightarrow> 'r dht_handle" where
  "track_open_record key h = h\<lparr>dh_open_records := insert key (dh_open_records h)\<rparr>"

definition untrack_record :: "string \<Rightarrow> 'r dht_handle \<Rightarrow> 'r dht_handle" where
  "untrack_record key h = h\<lparr>dh_open_records := dh_open_records h - {key}\<rparr>"

definition register_friend_dht_key :: "string \<Rightarrow> string \<Rightarrow> 'r dht_handle \<Rightarrow> 'r dht_handle" where
  "register_friend_dht_key key friend h = h\<lparr>dh_key_to_friend := AList.update key friend (dh_key_to_friend h)\<rparr>"

definition friend_for_dht_key :: "'r dht_handle \<Rightarrow> string \<Rightarrow> string option" where
  "friend_for_dht_key h key = map_of (dh_key_to_friend h) key"

definition unregister_friend_dht_key :: "string \<Rightarrow> 'r dht_handle \<Rightarrow> 'r dht_handle" where
  "unregister_friend_dht_key key h = h\<lparr>dh_key_to_friend := AList.delete key (dh_key_to_friend h)\<rparr>"

definition register_conversation_key :: "string \<Rightarrow> string \<Rightarrow> 'r dht_handle \<Rightarrow> 'r dht_handle" where
  "register_conversation_key key friend h =
     h\<lparr>dh_conversation_key_to_friend := AList.update key friend (dh_conversation_key_to_friend h)\<rparr>"

definition friend_for_conversation_key :: "'r dht_handle \<Rightarrow> string \<Rightarrow> string option" where
  "friend_for_conversation_key h key = map_of (dh_conversation_key_to_friend h) key"

definition unregister_conversation_key :: "string \<Rightarrow> 'r dht_handle \<Rightarrow> 'r dht_handle" where
  "unregister_conversation_key key h =
     h\<lparr>dh_conversation_key_to_friend := AList.delete key (dh_conversation_key_to_friend h)\<rparr>"

section \<open>Payloads\<close>

text \<open>\<open>MessagePayload\<close> (\<open>messaging/envelope.rs\<close>), fields in the order of the enum.\<close>

record presence_game =
  pg_game_id :: u32
  pg_game_name :: string
  pg_server_info :: "string option"
  pg_elapsed_seconds :: u32

datatype message_payload =
    DirectMessage string "bytes option"
  | ChannelMessage string string "bytes option"
  | TypingIndicator bool
  | FriendRequest string string bytes string bytes string
  | FriendAccept bytes string bytes string bytes u32 "u32 option"
  | FriendReject
  | ProfileKeyRotated string
  | FriendRequestReceived
  | PresenceUpdate u8 "presence_game option"
  | Unfriended
  | UnfriendedAck

text \<open>A channel message in the queue (\<open>commands/community.rs\<close>).\<close>

record pending_channel_message =
  pcm_community_id :: string
  pcm_channel_id :: string
  pcm_ciphertext :: bytes
  pcm_mek_generation :: u64
  pcm_timestamp :: int

section \<open>The server process\<close>

text \<open>Requests to the local server process and its answers (\<open>ipc_client.rs\<close>).\<close>

datatype client_ipc_request =
    AskHostCommunity string string string string string string
  | AskUnhostCommunity string
  | AskListHosted
  | AskGetStatus
  | AskShutdown
  | AskCommunityRpc string string string

datatype client_ipc_response =
    AnsweredOk
  | AnsweredHosted "(string \<times> string \<times> nat \<times> bool) list"
  | AnsweredStatus u64 nat bool
  | AnsweredError string
  | AnsweredRpcResult string

section \<open>What the client runs on\<close>

text \<open>
  \<open>app_message\<close> and \<open>app_call\<close> of Veilid's routing context, the import of routes, Ed25519 on the
  32 bytes of a secret, the JSON codecs of the types that cross the wire or lie in the queue,
  \<open>serde_json::from_slice::<Value>\<close>, the secret of a pseudonym (HKDF), the
  X25519 secret of an identity (\<open>to_scalar_bytes\<close> of its Ed25519 key), the environment of invites, and the text SQLite gives for a violated
  constraint. For communities: the JSON codecs of broadcasts and of lists of role ids, one exchange
  over the socket of the server process, and the texts Rust's debug format gives for responses.
  For the own route: Veilid's allocation and release of private routes. For the login: Stronghold, the
  codec of friend lists, the environment of account records, reading a key pair back from its text, the key pair of an
  identity for Veilid, the map from Ed25519 to X25519 keys, and base64.
\<close>

record ('w, 'k, 'p, 'r) platform =
  pf_rc :: "('w, 'k, 'p) routing_context"
  pf_import :: "('w, 'r) import_route"
  pf_app_message :: "'r \<Rightarrow> bytes \<Rightarrow> ('w, string, unit) io"
  pf_app_call :: "'r \<Rightarrow> bytes \<Rightarrow> ('w, string, bytes) io"
  pf_crypto :: crypto
  pf_public_of :: "bytes \<Rightarrow> bytes"
  pf_sign :: "bytes \<Rightarrow> bytes \<Rightarrow> bytes"
  pf_key_error :: "bytes \<Rightarrow> string option"
  pf_verify :: "bytes \<Rightarrow> bytes \<Rightarrow> bytes \<Rightarrow> bool"
  pf_envelope :: "envelope_struct capnp"
  pf_envelope_json :: "message_envelope json"
  pf_payload_json :: "message_payload json"
  pf_bundle_json :: "prekey_bundle json"
  pf_keys_json :: "string list json"
  pf_game_json :: "game_info_state json"
  pf_channel_json :: "pending_channel_message json"
  pf_request_json :: "community_request json"
  pf_response_json :: "community_response json"
  pf_parse_json :: "bytes \<Rightarrow> json_value option"
  pf_pseudonym_secret :: "bytes \<Rightarrow> string \<Rightarrow> bytes"
  pf_x25519_secret :: "bytes \<Rightarrow> bytes"
  pf_conversation :: conversation_env
  pf_invite :: invite_env
  pf_show_keypair :: "'p \<Rightarrow> string"
  pf_violation :: string
  pf_broadcast_json :: "community_broadcast json"
  pf_ids_json :: "u32 list json"
  pf_community :: "community_struct capnp"
  pf_ipc :: "client_ipc_request \<Rightarrow> ('w, string, client_ipc_response) io"
  pf_debug_ipc :: "client_ipc_response \<Rightarrow> string"
  pf_debug_response :: "community_response \<Rightarrow> string"
  pf_new_route :: "('w, string, 'r \<times> bytes) io"
  pf_release_route :: "'r \<Rightarrow> ('w, string, unit) io"
  pf_stronghold :: stronghold
  pf_account :: "'p account_env"
  pf_parse_keypair :: "string \<Rightarrow> 'p option"
  pf_identity_keypair :: "bytes \<Rightarrow> bytes \<Rightarrow> 'p"
  pf_peer_x25519 :: "bytes \<Rightarrow> string + bytes"
  pf_base64 :: "bytes \<Rightarrow> string"
  pf_friend_list :: "friend_list_struct capnp"

section \<open>Steps\<close>

datatype client_error = ClientError string | ClientPanic string

type_synonym ('w, 'p, 'r, 'a) act = "(('w, 'p, 'r) client, client_error, 'a) io"

fun show_protocol_error :: "protocol_error \<Rightarrow> string" where
  "show_protocol_error (NodeStartup e) = ''failed to start veilid node: '' @ e"
| "show_protocol_error (AttachFailed e) = ''failed to attach to network: '' @ e"
| "show_protocol_error NodeNotInitialized = ''node not initialized''"
| "show_protocol_error (DhtError e) = ''DHT operation failed: '' @ e"
| "show_protocol_error (RoutingError e) = ''routing error: '' @ e"
| "show_protocol_error (SendFailed e) = ''message send failed: '' @ e"
| "show_protocol_error (ReceiveFailed e) = ''message receive failed: '' @ e"
| "show_protocol_error (Serialization e) = ''serialization error: '' @ e"
| "show_protocol_error (Deserialization e) = ''deserialization error: '' @ e"
| "show_protocol_error (Network e) = ''network error: '' @ e"
| "show_protocol_error (Verification e) = ''verification failed: '' @ e"
| "show_protocol_error (PeerNotFound e) = ''peer not found: '' @ e"
| "show_protocol_error (CryptoError e) = ''crypto error: '' @ e"
| "show_protocol_error (Internal e) = ''internal error: '' @ e"

definition gets :: "(('w, 'p, 'r) client \<Rightarrow> 'a) \<Rightarrow> ('w, 'p, 'r, 'a) act" where
  "gets f = (\<lambda>c. (Inr (f c), c))"

definition modify :: "(('w, 'p, 'r) client \<Rightarrow> ('w, 'p, 'r) client) \<Rightarrow> ('w, 'p, 'r, unit) act" where
  "modify f = (\<lambda>c. (Inr (), f c))"

definition fail :: "string \<Rightarrow> ('w, 'p, 'r, 'a) act" where
  "fail e = throw (ClientError e)"

text \<open>\<open>ok_or(e)?\<close>.\<close>

definition ok_or :: "string \<Rightarrow> 'a option \<Rightarrow> ('w, 'p, 'r, 'a) act" where
  "ok_or e x = (case x of None \<Rightarrow> fail e | Some y \<Rightarrow> ok y)"

text \<open>The value of a call that returned, error or not, and \<open>let _ = m\<close>.\<close>

definition result :: "('w, 'p, 'r, 'a) act \<Rightarrow> ('w, 'p, 'r, string + 'a) act" where
  "result m = (\<lambda>c. case m c of
     (Inl (ClientError e), c') \<Rightarrow> (Inr (Inl e), c')
   | (Inl (ClientPanic p), c') \<Rightarrow> (Inl (ClientPanic p), c')
   | (Inr x, c') \<Rightarrow> (Inr (Inr x), c'))"

definition ignore :: "('w, 'p, 'r, 'a) act \<Rightarrow> ('w, 'p, 'r, unit) act" where
  "ignore m = io_bind (result m) (\<lambda>_. ok ())"

definition emit_event :: "ui_event \<Rightarrow> ('w, 'p, 'r, unit) act" where
  "emit_event e = modify (\<lambda>c. c\<lparr>c_events := c_events c @ [e]\<rparr>)"

text \<open>\<open>fill_bytes\<close> on a buffer of \<open>n\<close> bytes.\<close>

definition draw :: "nat \<Rightarrow> ('w, 'p, 'r, bytes) act" where
  "draw n = (\<lambda>c. (Inr (map (\<lambda>i. c_random c (c_drawn c + i)) [0..<n]), c\<lparr>c_drawn := c_drawn c + n\<rparr>))"

text \<open>
  Milliseconds since the epoch, as \<open>i64\<close> (\<open>db::timestamp_now\<close>) and as \<open>u64\<close> (the timestamp of an
  envelope); subtraction of \<open>i64\<close> values wraps.
\<close>

definition millis_i64 :: "('w, 'p, 'r) client \<Rightarrow> int" where
  "millis_i64 c = (if int (c_clock c) \<le> i64_max then int (c_clock c) else i64_max)"

definition millis_u64 :: "('w, 'p, 'r) client \<Rightarrow> u64" where
  "millis_u64 c = (if c_clock c < 2 ^ 64 then of_nat (c_clock c) else -1)"

definition i64_sub :: "int \<Rightarrow> int \<Rightarrow> int" where
  "i64_sub a b = sint (word_of_int (a - b) :: u64)"

subsection \<open>The database\<close>

definition pop_client_fault :: "('w, 'p, 'r) client \<Rightarrow> string option \<times> ('w, 'p, 'r) client" where
  "pop_client_fault c =
     (case c_faults c of [] \<Rightarrow> (None, c) | f # fs \<Rightarrow> (f, c\<lparr>c_faults := fs\<rparr>))"

text \<open>\<open>conn.execute(..).map_err(|e| format!("what{e}"))\<close>.\<close>

definition execute ::
  "('w, 'k, 'p, 'r) platform \<Rightarrow> string \<Rightarrow> (client_db \<Rightarrow> client_db option) \<Rightarrow> ('w, 'p, 'r, unit) act" where
  "execute pf what stmt = (\<lambda>c. case pop_client_fault c of
     (Some e, c1) \<Rightarrow> (Inl (ClientError (what @ e)), c1)
   | (None, c1) \<Rightarrow>
       (case stmt (c_db c1) of
          None \<Rightarrow> (Inl (ClientError (what @ pf_violation pf)), c1)
        | Some d \<Rightarrow> (Inr (), c1\<lparr>c_db := d\<rparr>)))"

definition query :: "string \<Rightarrow> (client_db \<Rightarrow> 'a) \<Rightarrow> ('w, 'p, 'r, 'a) act" where
  "query what q = (\<lambda>c. case pop_client_fault c of
     (Some e, c1) \<Rightarrow> (Inl (ClientError (what @ e)), c1)
   | (None, c1) \<Rightarrow> (Inr (q (c_db c1)), c1))"

text \<open>
  The owner key of the current identity: empty when nobody is logged in, or an error
  (\<open>commands/auth.rs\<close>).
\<close>

definition owner_of :: "('w, 'p, 'r) client \<Rightarrow> string" where
  "owner_of c = (case c_identity c of None \<Rightarrow> [] | Some i \<Rightarrow> is_public_key i)"

definition current_owner_key :: "('w, 'p, 'r, string) act" where
  "current_owner_key = io_bind (gets c_identity) (\<lambda>i.
     case i of None \<Rightarrow> fail ''not logged in'' | Some i \<Rightarrow> ok (is_public_key i))"

subsection \<open>Friends\<close>

definition friend_of :: "('w, 'p, 'r) client \<Rightarrow> string \<Rightarrow> friend_state option" where
  "friend_of c key = map_of (c_friends c) key"

definition set_friend :: "string \<Rightarrow> friend_state \<Rightarrow> ('w, 'p, 'r, unit) act" where
  "set_friend key f = modify (\<lambda>c. c\<lparr>c_friends := AList.update key f (c_friends c)\<rparr>)"

definition edit_friend_state :: "string \<Rightarrow> (friend_state \<Rightarrow> friend_state) \<Rightarrow> ('w, 'p, 'r, unit) act" where
  "edit_friend_state key f = modify (\<lambda>c. c\<lparr>c_friends := AList.map_entry key f (c_friends c)\<rparr>)"

definition drop_friend :: "string \<Rightarrow> ('w, 'p, 'r, unit) act" where
  "drop_friend key = modify (\<lambda>c. c\<lparr>c_friends := AList.delete key (c_friends c)\<rparr>)"

definition has_state :: "friendship_state \<Rightarrow> string \<Rightarrow> ('w, 'p, 'r) client \<Rightarrow> bool" where
  "has_state s key c \<longleftrightarrow> (case friend_of c key of None \<Rightarrow> False | Some f \<Rightarrow> fs_friendship_state f = s)"

definition friend_dht_key :: "('w, 'p, 'r) client \<Rightarrow> string \<Rightarrow> string option" where
  "friend_dht_key c key = (case friend_of c key of None \<Rightarrow> None | Some f \<Rightarrow> fs_dht_record_key f)"

subsection \<open>Veilid and sessions\<close>

definition veilid :: "('w, string, 'a) io \<Rightarrow> ('w, 'p, 'r, 'a) act" where
  "veilid m = (\<lambda>c. case m (c_net c) of
     (Inl e, w) \<Rightarrow> (Inl (ClientError e), c\<lparr>c_net := w\<rparr>)
   | (Inr x, w) \<Rightarrow> (Inr x, c\<lparr>c_net := w\<rparr>))"

definition protocol :: "('w, protocol_error, 'a) io \<Rightarrow> ('w, 'p, 'r, 'a) act" where
  "protocol m = veilid (map_error show_protocol_error m)"

text \<open>\<open>format!("what{e}")\<close> on the error of a call.\<close>

definition describe :: "string \<Rightarrow> ('w, 'p, 'r, 'a) act \<Rightarrow> ('w, 'p, 'r, 'a) act" where
  "describe what m = map_error (\<lambda>e. case e of ClientError t \<Rightarrow> ClientError (what @ t) | ClientPanic p \<Rightarrow> ClientPanic p) m"

definition parse_key :: "('w, 'k, 'p, 'r) platform \<Rightarrow> string \<Rightarrow> ('w, 'p, 'r, 'k) act" where
  "parse_key pf key = map_error ClientError (from_result (rc_parse_key (pf_rc pf) key))"

definition edit_dht :: "('r dht_handle \<Rightarrow> 'r dht_handle) \<Rightarrow> ('w, 'p, 'r, unit) act" where
  "edit_dht f = modify (\<lambda>c. c\<lparr>c_dht := map_option f (c_dht c)\<rparr>)"

definition edit_manager :: "('r dht_manager \<Rightarrow> 'r dht_manager) \<Rightarrow> ('w, 'p, 'r, unit) act" where
  "edit_manager f = edit_dht (\<lambda>h. h\<lparr>dh_manager := f (dh_manager h)\<rparr>)"

text \<open>
  \<open>cache_route\<close> where the handlers call it: with the handle of the API, that is once there is a
  node, and with a manager.
\<close>

definition cache_peer_route ::
  "('w, 'k, 'p, 'r) platform \<Rightarrow> string \<Rightarrow> bytes \<Rightarrow> ('w, 'p, 'r, unit) act" where
  "cache_peer_route pf peer blob = (\<lambda>c.
     case (c_node c, c_dht c) of
       (Some nh, Some h) \<Rightarrow>
         (case cache_route (pf_import pf) (c_instant c) peer blob (dh_manager h) (c_net c) of
            (dm, w) \<Rightarrow> (Inr (), c\<lparr>c_dht := Some (h\<lparr>dh_manager := dm\<rparr>), c_net := w\<rparr>))
     | _ \<Rightarrow> (Inr (), c))"

text \<open>\<open>get_or_import_route\<close> of a manager that is there.\<close>

definition import_peer_route ::
  "('w, 'k, 'p, 'r) platform \<Rightarrow> 'r dht_handle \<Rightarrow> bytes \<Rightarrow> ('w, 'p, 'r, string + 'r) act" where
  "import_peer_route pf h blob = (\<lambda>c.
     case get_or_import_route (pf_import pf) (c_instant c) blob (dh_manager h) (c_net c) of
       (r, dm, w) \<Rightarrow>
         (Inr (case r of Inl e \<Rightarrow> Inl (show_protocol_error e) | Inr route_id \<Rightarrow> Inr route_id),
          c\<lparr>c_dht := Some (h\<lparr>dh_manager := dm\<rparr>), c_net := w\<rparr>))"

text \<open>
  A call of the session manager: \<^const>\<open>None\<close> when there is none. A slice out of range panics.
\<close>

definition signal_call :: "'a signal \<Rightarrow> ('w, 'p, 'r, (string + 'a) option) act" where
  "signal_call m = (\<lambda>c.
     case c_signal c of
       None \<Rightarrow> (Inr None, c)
     | Some sm \<Rightarrow>
         (case m sm of
            (Inl (CryptoPanicked p), sm') \<Rightarrow> (Inl (ClientPanic p), c\<lparr>c_signal := Some sm'\<rparr>)
          | (Inl (CryptoFailed e), sm') \<Rightarrow> (Inr (Some (Inl (show_crypto_error e))), c\<lparr>c_signal := Some sm'\<rparr>)
          | (Inr x, sm') \<Rightarrow> (Inr (Some (Inr x)), c\<lparr>c_signal := Some sm'\<rparr>)))"

end
