(* ===== verification/Outgoing.thy ===== *)
theory Outgoing
  imports ClientState
begin

text \<open>
  Sending (\<open>src-tauri/src/services/message_service.rs\<close>): a payload is serialised, encrypted when a
  session exists and the caller asks for it, signed, and sent over the cached route of the peer.
  Without a route, or when the send fails, the route is fetched from the profile of the peer once;
  after that the envelope goes to the queue, unless it is ephemeral.
\<close>

section \<open>The queue\<close>

definition queue_pending_message ::
  "('w, 'k, 'p, 'r) platform \<Rightarrow> string \<Rightarrow> string \<Rightarrow> ('w, 'p, 'r, unit) act" where
  "queue_pending_message pf recipient body =
     io_bind (gets (\<lambda>c. (owner_of c, millis_i64 c))) (\<lambda>(owner, now).
     execute pf ''queue pending message: '' (insert_queued owner recipient body now))"

definition delete_pending_messages_to_recipient ::
  "('w, 'k, 'p, 'r) platform \<Rightarrow> string \<Rightarrow> ('w, 'p, 'r, unit) act" where
  "delete_pending_messages_to_recipient pf recipient =
     io_bind (gets owner_of) (\<lambda>owner.
     ignore (execute pf ''delete pending messages to recipient: '' (delete_queued_to owner recipient)))"

section \<open>Envelopes\<close>

definition serialize_payload ::
  "('w, 'k, 'p, 'r) platform \<Rightarrow> message_payload \<Rightarrow> ('w, 'p, 'r, bytes) act" where
  "serialize_payload pf payload =
     describe ''serialize payload: '' (map_error ClientError (from_result (to_json (pf_payload_json pf) payload)))"

definition serialize_envelope ::
  "('w, 'k, 'p, 'r) platform \<Rightarrow> message_envelope \<Rightarrow> ('w, 'p, 'r, string) act" where
  "serialize_envelope pf envelope =
     io_bind (describe ''serialize envelope: ''
                (map_error ClientError (from_result (to_json (pf_envelope_json pf) envelope)))) (\<lambda>b.
     ok (bytes_as_string b))"

text \<open>Signed with the key of the identity, at the current time, with 16 random bytes.\<close>

definition sign_envelope ::
  "('w, 'k, 'p, 'r) platform \<Rightarrow> bytes \<Rightarrow> ('w, 'p, 'r, message_envelope) act" where
  "sign_envelope pf payload =
     io_bind (gets c_identity_secret) (\<lambda>sk.
     io_bind (ok_or ''signing key not initialized'' sk) (\<lambda>secret_key.
     io_bind (gets millis_u64) (\<lambda>timestamp.
     io_bind (draw 16) (\<lambda>nonce.
     ok (build_envelope (pf_public_of pf) (pf_sign pf) secret_key timestamp nonce payload)))))"

definition encrypt_for_peer ::
  "('w, 'k, 'p, 'r) platform \<Rightarrow> string \<Rightarrow> bytes \<Rightarrow> ('w, 'p, 'r, bytes) act" where
  "encrypt_for_peer pf peer payload =
     io_bind (signal_call (has_session peer)) (\<lambda>s.
     case s of
       Some (Inr True) \<Rightarrow>
         io_bind (signal_call (signal_encrypt (pf_crypto pf) peer payload)) (\<lambda>r.
         case r of
           Some (Inr ciphertext) \<Rightarrow> ok ciphertext
         | Some (Inl e) \<Rightarrow> fail (''Signal encrypt: '' @ e)
         | None \<Rightarrow> ok payload)
     | _ \<Rightarrow> ok payload)"

definition send_envelope ::
  "('w, 'k, 'p, 'r) platform \<Rightarrow> 'r \<Rightarrow> message_envelope \<Rightarrow> ('w, protocol_error, unit) io" where
  "send_envelope pf route_id envelope =
     map_error (\<lambda>e. SendFailed (''app_message: '' @ e))
       (pf_app_message pf route_id (encode_envelope (pf_envelope pf) envelope))"

section \<open>Routes\<close>

text \<open>Subkey 6 of the peer's profile, fetched from the network and cached.\<close>

definition try_fetch_route_from_dht ::
  "('w, 'k, 'p, 'r) platform \<Rightarrow> string \<Rightarrow> ('w, 'p, 'r, bytes option) act" where
  "try_fetch_route_from_dht pf peer =
     io_bind (gets (\<lambda>c. (friend_dht_key c peer, c_node c))) (\<lambda>(dht_key, node).
     case dht_key of
       None \<Rightarrow> ok None
     | Some key \<Rightarrow>
         (case rc_parse_key (pf_rc pf) key of
            Inl e \<Rightarrow> ok None
          | Inr record_key \<Rightarrow>
              (case node of
                 None \<Rightarrow> ok None
               | Some nh \<Rightarrow>
                   if \<not> nh_is_attached nh then ok None
                   else
                     io_bind (ignore (veilid (rc_open (pf_rc pf) record_key None))) (\<lambda>_.
                     io_bind (result (veilid (rc_get (pf_rc pf) record_key 6 True))) (\<lambda>v.
                     case v of
                       Inr (Some (b # bs)) \<Rightarrow>
                         io_bind (cache_peer_route pf peer (b # bs)) (\<lambda>_. ok (Some (b # bs)))
                     | _ \<Rightarrow> ok None)))))"

definition try_inline_route_refresh_and_send ::
  "('w, 'k, 'p, 'r) platform \<Rightarrow> string \<Rightarrow> message_envelope \<Rightarrow> ('w, 'p, 'r, bool) act" where
  "try_inline_route_refresh_and_send pf peer envelope =
     io_bind (try_fetch_route_from_dht pf peer) (\<lambda>fresh.
     case fresh of
       None \<Rightarrow> ok False
     | Some blob \<Rightarrow>
         io_bind (gets (\<lambda>c. (c_node c, c_dht c))) (\<lambda>handles.
         case handles of
           (Some nh, Some h) \<Rightarrow>
             io_bind (import_peer_route pf h blob) (\<lambda>r.
             case r of
               Inl e \<Rightarrow> ok False
             | Inr route_id \<Rightarrow>
                 io_bind (result (protocol (send_envelope pf route_id envelope))) (\<lambda>sent.
                 ok (case sent of Inl e \<Rightarrow> False | Inr _ \<Rightarrow> True)))
         | _ \<Rightarrow> ok False))"

text \<open>The cached route of a peer as a route id; a blob that cannot be imported is forgotten.\<close>

definition cached_route_id ::
  "('w, 'k, 'p, 'r) platform \<Rightarrow> string \<Rightarrow> ('w, 'p, 'r, 'r option) act" where
  "cached_route_id pf peer =
     io_bind (gets c_dht) (\<lambda>dht.
     case dht of
       None \<Rightarrow> ok None
     | Some h \<Rightarrow>
         (case get_cached_route (dh_manager h) peer of
            None \<Rightarrow> ok None
          | Some blob \<Rightarrow>
              io_bind (import_peer_route pf h blob) (\<lambda>r.
              case r of
                Inr route_id \<Rightarrow> ok (Some route_id)
              | Inl e \<Rightarrow> io_bind (edit_manager (invalidate_route_for_peer peer)) (\<lambda>_. ok None))))"

section \<open>Sending\<close>

definition refresh_or_queue ::
  "('w, 'k, 'p, 'r) platform \<Rightarrow> string \<Rightarrow> bool \<Rightarrow> message_envelope \<Rightarrow> ('w, 'p, 'r, unit) act" where
  "refresh_or_queue pf peer ephemeral envelope =
     (if ephemeral then ok ()
      else
        io_bind (try_inline_route_refresh_and_send pf peer envelope) (\<lambda>sent.
        if sent then ok ()
        else io_bind (serialize_envelope pf envelope) (\<lambda>body. queue_pending_message pf peer body)))"

fun is_ephemeral :: "message_payload \<Rightarrow> bool" where
  "is_ephemeral (TypingIndicator typing) = True"
| "is_ephemeral _ = False"

definition send_envelope_to_peer ::
  "('w, 'k, 'p, 'r) platform \<Rightarrow> string \<Rightarrow> message_payload \<Rightarrow> bool \<Rightarrow> ('w, 'p, 'r, unit) act" where
  "send_envelope_to_peer pf peer payload encrypt =
     io_bind (serialize_payload pf payload) (\<lambda>payload_bytes.
     io_bind (if encrypt then encrypt_for_peer pf peer payload_bytes else ok payload_bytes) (\<lambda>final_payload.
     io_bind (sign_envelope pf final_payload) (\<lambda>envelope.
     io_bind (gets (\<lambda>c. (c_node c, c_dht c))) (\<lambda>(node, dht).
     io_bind (ok_or ''node not initialized'' node) (\<lambda>nh.
     io_bind (ok_or ''DHT manager not initialized'' dht) (\<lambda>h.
     io_bind (cached_route_id pf peer) (\<lambda>route.
     case route of
       None \<Rightarrow> refresh_or_queue pf peer (is_ephemeral payload) envelope
     | Some route_id \<Rightarrow>
         io_bind (result (protocol (send_envelope pf route_id envelope))) (\<lambda>sent.
         case sent of
           Inr _ \<Rightarrow> ok ()
         | Inl e \<Rightarrow>
             io_bind (edit_manager (invalidate_route_for_peer peer)) (\<lambda>_.
             refresh_or_queue pf peer (is_ephemeral payload) envelope)))))))))"

definition send_to_peer_raw ::
  "('w, 'k, 'p, 'r) platform \<Rightarrow> string \<Rightarrow> message_payload \<Rightarrow> ('w, 'p, 'r, unit) act" where
  "send_to_peer_raw pf peer payload = send_envelope_to_peer pf peer payload False"

definition send_dm :: "('w, 'k, 'p, 'r) platform \<Rightarrow> string \<Rightarrow> string \<Rightarrow> ('w, 'p, 'r, unit) act" where
  "send_dm pf peer body = send_envelope_to_peer pf peer (DirectMessage body None) True"

definition send_typing_indicator ::
  "('w, 'k, 'p, 'r) platform \<Rightarrow> string \<Rightarrow> bool \<Rightarrow> ('w, 'p, 'r, unit) act" where
  "send_typing_indicator pf peer typing = send_envelope_to_peer pf peer (TypingIndicator typing) True"

text \<open>
  A fresh prekey bundle as JSON, empty without sessions: always signed prekey 1 and one-time
  prekey 1.
\<close>

definition fresh_bundle :: "('w, 'k, 'p, 'r) platform \<Rightarrow> ('w, 'p, 'r, bytes) act" where
  "fresh_bundle pf =
     io_bind (gets c_signal) (\<lambda>s.
     case s of
       None \<Rightarrow> ok []
     | Some sm \<Rightarrow>
         io_bind (draw 32) (\<lambda>signed_prekey_secret.
         io_bind (draw 32) (\<lambda>one_time_secret.
         io_bind (signal_call (generate_prekey_bundle (pf_crypto pf) signed_prekey_secret one_time_secret
                    1 (Some 1))) (\<lambda>r.
         ok (case r of
               Some (Inr bundle) \<Rightarrow> (case to_json (pf_bundle_json pf) bundle of Inr b \<Rightarrow> b | Inl e \<Rightarrow> [])
             | _ \<Rightarrow> [])))))"

definition or_empty :: "'a list option \<Rightarrow> 'a list" where
  "or_empty x = (case x of None \<Rightarrow> [] | Some l \<Rightarrow> l)"

definition send_friend_request ::
  "('w, 'k, 'p, 'r) platform \<Rightarrow> string \<Rightarrow> string \<Rightarrow> ('w, 'p, 'r, unit) act" where
  "send_friend_request pf peer message =
     io_bind (gets c_identity) (\<lambda>identity.
     io_bind (ok_or ''identity not set'' identity) (\<lambda>i.
     io_bind (fresh_bundle pf) (\<lambda>prekey_bundle.
     io_bind (gets c_node) (\<lambda>node.
     io_bind (ok_or ''node not initialized'' node) (\<lambda>nh.
     send_envelope_to_peer pf peer
       (FriendRequest (is_display_name i) message prekey_bundle (or_empty (nh_profile_dht_key nh))
          (or_empty (nh_route_blob nh)) (or_empty (nh_mailbox_dht_key nh))) False)))))"

definition send_friend_accept ::
  "('w, 'k, 'p, 'r) platform \<Rightarrow> string \<Rightarrow> session_init_info option \<Rightarrow> ('w, 'p, 'r, unit) act" where
  "send_friend_accept pf peer session_init =
     io_bind (fresh_bundle pf) (\<lambda>prekey_bundle.
     io_bind (gets c_node) (\<lambda>node.
     io_bind (ok_or ''node not initialized'' node) (\<lambda>nh.
     send_envelope_to_peer pf peer
       (FriendAccept prekey_bundle (or_empty (nh_profile_dht_key nh)) (or_empty (nh_route_blob nh))
          (or_empty (nh_mailbox_dht_key nh))
          (case session_init of None \<Rightarrow> [] | Some s \<Rightarrow> si_ephemeral_public_key s)
          (case session_init of None \<Rightarrow> 1 | Some s \<Rightarrow> si_signed_prekey_id s)
          (case session_init of None \<Rightarrow> None | Some s \<Rightarrow> si_one_time_prekey_id s)) False)))"

definition send_friend_reject ::
  "('w, 'k, 'p, 'r) platform \<Rightarrow> string \<Rightarrow> ('w, 'p, 'r, unit) act" where
  "send_friend_reject pf peer = send_envelope_to_peer pf peer FriendReject False"

definition build_and_queue_envelope ::
  "('w, 'k, 'p, 'r) platform \<Rightarrow> string \<Rightarrow> message_payload \<Rightarrow> ('w, 'p, 'r, unit) act" where
  "build_and_queue_envelope pf peer payload =
     io_bind (serialize_payload pf payload) (\<lambda>payload_bytes.
     io_bind (sign_envelope pf payload_bytes) (\<lambda>envelope.
     io_bind (serialize_envelope pf envelope) (\<lambda>body.
     queue_pending_message pf peer body)))"

section \<open>Writing the own records\<close>

definition push_profile_update ::
  "('w, 'k, 'p, 'r) platform \<Rightarrow> u32 \<Rightarrow> bytes \<Rightarrow> ('w, 'p, 'r, unit) act" where
  "push_profile_update pf subkey v =
     io_bind (gets c_node) (\<lambda>node.
     io_bind (ok_or ''node not initialized'' node) (\<lambda>nh.
     io_bind (ok_or ''no profile DHT key'' (nh_profile_dht_key nh)) (\<lambda>profile_key.
     io_bind (describe ''invalid profile key: '' (parse_key pf profile_key)) (\<lambda>record_key.
     io_bind (describe ''failed to open profile record for push: ''
       (veilid (rc_open (pf_rc pf) record_key (nh_profile_owner_keypair nh)))) (\<lambda>_.
     describe ''failed to push profile update: '' (veilid (rc_set (pf_rc pf) record_key subkey v)))))))"

definition listed_friends :: "('w, 'p, 'r) client \<Rightarrow> string list" where
  "listed_friends c = map fst (filter (\<lambda>(k, f). fs_friendship_state f \<noteq> Removing) (c_friends c))"

definition push_friend_list_update :: "('w, 'k, 'p, 'r) platform \<Rightarrow> ('w, 'p, 'r, unit) act" where
  "push_friend_list_update pf =
     io_bind (gets (\<lambda>c. (c_node c, listed_friends c))) (\<lambda>(node, friend_keys).
     io_bind (ok_or ''node not initialized'' node) (\<lambda>nh.
     io_bind (ok_or ''no friend list DHT key'' (nh_friend_list_dht_key nh)) (\<lambda>friend_list_key.
     io_bind (describe ''invalid friend list key: '' (parse_key pf friend_list_key)) (\<lambda>record_key.
     io_bind (describe ''failed to open friend list record for push: ''
       (veilid (rc_open (pf_rc pf) record_key (nh_friend_list_owner_keypair nh)))) (\<lambda>_.
     io_bind (describe ''serialize friend list: ''
       (map_error ClientError (from_result (to_json (pf_keys_json pf) friend_keys)))) (\<lambda>v.
     describe ''failed to push friend list update: '' (veilid (rc_set (pf_rc pf) record_key 0 v))))))))"

end
