(* ===== verification/PresenceService.thy ===== *)
theory PresenceService
  imports ClientState
begin

text \<open>
  Presence of friends (\<open>src-tauri/src/services/presence_service.rs\<close>): watching the profile of a
  friend, publishing the own status, and what a changed status, game or route of a friend does to
  the state and tells the web view. A status is a byte, followed by the instant of the heartbeat
  in eight bytes, big-endian; a status older than 150 seconds counts as offline.
\<close>

section \<open>Statuses\<close>

definition stale_presence_threshold_ms :: int where "stale_presence_threshold_ms = 150 * 1000"

fun status_byte :: "user_status \<Rightarrow> u8" where
  "status_byte Online = 0"
| "status_byte Away = 1"
| "status_byte Busy = 2"
| "status_byte Offline = 3"

fun status_name :: "user_status \<Rightarrow> string" where
  "status_name Online = ''online''"
| "status_name Away = ''away''"
| "status_name Busy = ''busy''"
| "status_name Offline = ''offline''"

definition parse_status :: "bytes \<Rightarrow> user_status option" where
  "parse_status data =
     (case data of
        [] \<Rightarrow> None
      | b # _ \<Rightarrow> Some (if b = 0 then Online else if b = 1 then Away else if b = 2 then Busy else Offline))"

definition i64_of_be_bytes :: "bytes \<Rightarrow> int" where
  "i64_of_be_bytes b = sint (of_nat (le_nat (rev b)) :: u64)"

definition parse_status_timestamp :: "bytes \<Rightarrow> int option" where
  "parse_status_timestamp data =
     (if length data < 9 then None else Some (i64_of_be_bytes (take 8 (drop 1 data))))"

definition is_stale :: "('w, 'p, 'r) client \<Rightarrow> int \<Rightarrow> bool" where
  "is_stale c ts \<longleftrightarrow> stale_presence_threshold_ms < i64_sub (millis_i64 c) ts"

definition parse_game_info :: "('w, 'k, 'p, 'r) platform \<Rightarrow> bytes \<Rightarrow> game_info_state option" where
  "parse_game_info pf data =
     (if data = [] then None
      else case from_json (pf_game_json pf) data of Inl e \<Rightarrow> None | Inr g \<Rightarrow> Some g)"

section \<open>Watching and publishing\<close>

definition watch_friend ::
  "('w, 'k, 'p, 'r) platform \<Rightarrow> string \<Rightarrow> string \<Rightarrow> ('w, 'p, 'r, unit) act" where
  "watch_friend pf friend_key dht_record_key =
     io_bind (edit_dht (register_friend_dht_key dht_record_key friend_key)) (\<lambda>_.
     io_bind (edit_friend_state friend_key (\<lambda>f. f\<lparr>fs_dht_record_key := Some dht_record_key\<rparr>)) (\<lambda>_.
     io_bind (gets c_node) (\<lambda>node.
     case node of
       None \<Rightarrow> ok ()
     | Some nh \<Rightarrow>
         io_bind (describe ''invalid DHT key: '' (parse_key pf dht_record_key)) (\<lambda>record_key.
         io_bind (result (veilid (rc_open (pf_rc pf) record_key None))) (\<lambda>opened.
         case opened of
           Inl e \<Rightarrow> ok ()
         | Inr _ \<Rightarrow>
             io_bind (edit_dht (track_open_record dht_record_key)) (\<lambda>_.
             io_bind (result (veilid (rc_watch (pf_rc pf) record_key [2, 4, 6]))) (\<lambda>active.
             modify (\<lambda>c. c\<lparr>c_unwatched :=
               (case active of Inr True \<Rightarrow> c_unwatched c - {friend_key}
                | _ \<Rightarrow> insert friend_key (c_unwatched c))\<rparr>))))))))"

definition publish_own_status ::
  "('w, 'k, 'p, 'r) platform \<Rightarrow> user_status \<Rightarrow> ('w, 'p, 'r, unit) act" where
  "publish_own_status pf status =
     io_bind (gets c_node) (\<lambda>node.
     io_bind (ok_or ''no profile DHT key'' (case node of None \<Rightarrow> None | Some nh \<Rightarrow> nh_profile_dht_key nh))
       (\<lambda>profile_key.
     io_bind (ok_or ''no routing context'' node) (\<lambda>nh.
     io_bind (describe ''invalid profile key: '' (parse_key pf profile_key)) (\<lambda>record_key.
     io_bind (describe ''failed to open profile record: ''
       (veilid (rc_open (pf_rc pf) record_key (nh_profile_owner_keypair nh)))) (\<lambda>_.
     io_bind (gets millis_i64) (\<lambda>timestamp.
     describe ''failed to publish status to DHT: ''
       (veilid (rc_set (pf_rc pf) record_key 2 (status_payload (status_byte status) timestamp)))))))))"

text \<open>One tick of the heartbeat: every 60 seconds, unless logged out or offline.\<close>

definition heartbeat_tick :: "('w, 'k, 'p, 'r) platform \<Rightarrow> ('w, 'p, 'r, unit) act" where
  "heartbeat_tick pf =
     io_bind (gets c_identity) (\<lambda>identity.
     case identity of
       None \<Rightarrow> ok ()
     | Some i \<Rightarrow> if is_status i = Offline then ok () else ignore (publish_own_status pf (is_status i)))"

section \<open>Changes of a friend's record\<close>

definition emit_presence :: "presence_event \<Rightarrow> ('w, 'p, 'r, unit) act" where
  "emit_presence e = emit_event (PresenceEvent e)"

definition when_act :: "bool \<Rightarrow> ('w, 'p, 'r, unit) act \<Rightarrow> ('w, 'p, 'r, unit) act" where
  "when_act b m = (if b then m else ok ())"

definition store_heartbeat :: "string \<Rightarrow> bytes \<Rightarrow> ('w, 'p, 'r, unit) act" where
  "store_heartbeat friend_key v =
     (case parse_status_timestamp v of
        None \<Rightarrow> ok ()
      | Some ts \<Rightarrow> edit_friend_state friend_key (\<lambda>f. f\<lparr>fs_last_heartbeat_at := Some ts\<rparr>))"

definition effective_status :: "('w, 'p, 'r) client \<Rightarrow> user_status \<Rightarrow> bytes \<Rightarrow> user_status" where
  "effective_status c status v =
     (if status \<noteq> Offline
      then case parse_status_timestamp v of
             Some ts \<Rightarrow> if is_stale c ts then Offline else status
           | None \<Rightarrow> status
      else status)"

definition handle_status_change ::
  "('w, 'k, 'p, 'r) platform \<Rightarrow> string \<Rightarrow> bytes \<Rightarrow> ('w, 'p, 'r, unit) act" where
  "handle_status_change pf friend_key v =
     (case parse_status v of
        None \<Rightarrow> ok ()
      | Some parsed \<Rightarrow>
          io_bind (gets (\<lambda>c. effective_status c parsed v)) (\<lambda>status.
          io_bind (store_heartbeat friend_key v) (\<lambda>_.
          io_bind (gets (has_state Accepted friend_key)) (\<lambda>is_accepted.
          if status = Offline then
            io_bind (gets (\<lambda>c. (millis_i64 c, owner_of c))) (\<lambda>(now, owner).
            io_bind (edit_friend_state friend_key
                       (\<lambda>f. f\<lparr>fs_status := Offline, fs_last_seen_at := Some now\<rparr>)) (\<lambda>_.
            io_bind (ignore (execute pf [] (update_friend owner friend_key
                       (\<lambda>r. r\<lparr>fw_last_seen_at := Some now\<rparr>)))) (\<lambda>_.
            when_act is_accepted (emit_presence (FriendOffline friend_key)))))
          else
            io_bind (gets (\<lambda>c. map_option fs_status (friend_of c friend_key) = Some Offline)) (\<lambda>was_offline.
            io_bind (edit_friend_state friend_key (\<lambda>f. f\<lparr>fs_status := status\<rparr>)) (\<lambda>_.
            io_bind (when_act (was_offline \<and> is_accepted) (emit_presence (FriendOnline friend_key))) (\<lambda>_.
            when_act is_accepted
              (emit_presence (StatusChanged friend_key (status_name status) None)))))))))"

definition handle_game_change ::
  "('w, 'k, 'p, 'r) platform \<Rightarrow> string \<Rightarrow> bytes \<Rightarrow> ('w, 'p, 'r, unit) act" where
  "handle_game_change pf friend_key v =
     (let game_info = parse_game_info pf v
      in io_bind (edit_friend_state friend_key (\<lambda>f. f\<lparr>fs_game_info := game_info\<rparr>)) (\<lambda>_.
         io_bind (gets (has_state Accepted friend_key)) (\<lambda>is_accepted.
         when_act is_accepted (emit_presence (GameChanged friend_key (map_option gi_game_name game_info)
           (map_option gi_game_id game_info) (map_option gi_elapsed_seconds game_info))))))"

definition handle_route_change ::
  "('w, 'k, 'p, 'r) platform \<Rightarrow> string \<Rightarrow> bytes \<Rightarrow> ('w, 'p, 'r, unit) act" where
  "handle_route_change pf friend_key v = when_act (v \<noteq> []) (cache_peer_route pf friend_key v)"

definition handle_friend_subkey ::
  "('w, 'k, 'p, 'r) platform \<Rightarrow> string \<Rightarrow> bytes \<Rightarrow> u32 \<Rightarrow> ('w, 'p, 'r, unit) act" where
  "handle_friend_subkey pf friend_key v subkey =
     (if subkey = 2 then handle_status_change pf friend_key v
      else if subkey = 4 then handle_game_change pf friend_key v
      else if subkey = 6 then handle_route_change pf friend_key v
      else ok ())"

end
