(* ===== verification/Incoming.thy ===== *)
theory Incoming
  imports Outgoing PresenceService
begin

text \<open>
  Incoming messages (\<open>src-tauri/src/services/message_service.rs\<close>): the envelope is verified,
  blocked senders are dropped, a payload that is no JSON is decrypted with the session of the
  sender, and all but the messages that make and end friendships are dropped unless the sender is
  a friend. Then one handler runs.
\<close>

section \<open>Rows of a friend\<close>

definition persist_friend_request ::
  "('w, 'k, 'p, 'r) platform \<Rightarrow> string \<Rightarrow> string \<Rightarrow> string \<Rightarrow> string \<Rightarrow> bytes \<Rightarrow> string \<Rightarrow> bytes
   \<Rightarrow> ('w, 'p, 'r, unit) act" where
  "persist_friend_request pf sender display_name message profile_dht_key route_blob mailbox_dht_key prekey_bundle =
     io_bind (gets (\<lambda>c. (owner_of c, millis_i64 c))) (\<lambda>(owner, now).
     ignore (execute pf [] (replace_request
       \<lparr>pr_owner = owner, pr_public_key = sender, pr_display_name = display_name, pr_message = message,
        pr_received_at = now, pr_profile_dht_key = Some profile_dht_key, pr_route_blob = Some route_blob,
        pr_mailbox_dht_key = Some mailbox_dht_key, pr_prekey_bundle = Some prekey_bundle\<rparr>)))"

definition delete_pending_request_row ::
  "('w, 'k, 'p, 'r) platform \<Rightarrow> string \<Rightarrow> ('w, 'p, 'r, unit) act" where
  "delete_pending_request_row pf peer =
     io_bind (gets owner_of) (\<lambda>owner.
     ignore (execute pf ''delete pending request: '' (delete_request owner peer)))"

definition persist_friend_dht_key ::
  "('w, 'k, 'p, 'r) platform \<Rightarrow> string \<Rightarrow> string \<Rightarrow> ('w, 'p, 'r, unit) act" where
  "persist_friend_dht_key pf friend_key profile_dht_key =
     io_bind (gets owner_of) (\<lambda>owner.
     ignore (execute pf []
       (update_friend owner friend_key (\<lambda>r. r\<lparr>fw_dht_record_key := Some profile_dht_key\<rparr>))))"

definition update_friend_display_name ::
  "('w, 'k, 'p, 'r) platform \<Rightarrow> string \<Rightarrow> string \<Rightarrow> ('w, 'p, 'r, unit) act" where
  "update_friend_display_name pf friend_key display_name =
     io_bind (gets owner_of) (\<lambda>owner.
     ignore (execute pf ''update friend display name: ''
       (update_friend owner friend_key (\<lambda>r. r\<lparr>fw_display_name := Some display_name\<rparr>))))"

definition persist_friendship_state ::
  "('w, 'k, 'p, 'r) platform \<Rightarrow> string \<Rightarrow> string \<Rightarrow> ('w, 'p, 'r, unit) act" where
  "persist_friendship_state pf friend_key state =
     io_bind (gets owner_of) (\<lambda>owner.
     ignore (execute pf ''update friendship_state: ''
       (update_friend owner friend_key (\<lambda>r. r\<lparr>fw_friendship_state := state\<rparr>))))"

definition persist_friend_mailbox_key ::
  "('w, 'k, 'p, 'r) platform \<Rightarrow> string \<Rightarrow> string \<Rightarrow> ('w, 'p, 'r, unit) act" where
  "persist_friend_mailbox_key pf friend_key mailbox_dht_key =
     io_bind (gets owner_of) (\<lambda>owner.
     ignore (execute pf ''update friend mailbox key: ''
       (update_friend owner friend_key (\<lambda>r. r\<lparr>fw_mailbox_dht_key := Some mailbox_dht_key\<rparr>))))"

definition delete_friend_row ::
  "('w, 'k, 'p, 'r) platform \<Rightarrow> string \<Rightarrow> string \<Rightarrow> ('w, 'p, 'r, unit) act" where
  "delete_friend_row pf what friend_key =
     io_bind (gets owner_of) (\<lambda>owner. execute pf what (delete_friend owner friend_key))"

definition is_blocked :: "string \<Rightarrow> ('w, 'p, 'r, bool) act" where
  "is_blocked sender =
     io_bind (gets owner_of) (\<lambda>owner.
     io_bind (result (query [] (count_blocked owner sender))) (\<lambda>n.
     ok (case n of Inr k \<Rightarrow> 0 < k | Inl e \<Rightarrow> False)))"

definition emit_chat :: "chat_event \<Rightarrow> ('w, 'p, 'r, unit) act" where
  "emit_chat e = emit_event (ChatEvent e)"

section \<open>Messages\<close>

definition handle_direct_message ::
  "('w, 'k, 'p, 'r) platform \<Rightarrow> string \<Rightarrow> string \<Rightarrow> int \<Rightarrow> ('w, 'p, 'r, unit) act" where
  "handle_direct_message pf sender body timestamp =
     io_bind (gets owner_of) (\<lambda>owner.
     io_bind (ignore (execute pf [] (insert_dm owner sender ''dm'' sender body timestamp False))) (\<lambda>_.
     io_bind (edit_friend_state sender (\<lambda>f. f\<lparr>fs_unread_count := fs_unread_count f + 1\<rparr>)) (\<lambda>_.
     emit_chat (EvMessageReceived sender body (word_of_int timestamp) sender))))"

definition handle_channel_message ::
  "('w, 'k, 'p, 'r) platform \<Rightarrow> string \<Rightarrow> string \<Rightarrow> string \<Rightarrow> int \<Rightarrow> ('w, 'p, 'r, unit) act" where
  "handle_channel_message pf sender channel_id body timestamp =
     io_bind (gets owner_of) (\<lambda>owner.
     io_bind (ignore (execute pf [] (insert_dm owner channel_id ''channel'' sender body timestamp False))) (\<lambda>_.
     emit_chat (EvMessageReceived sender body (word_of_int timestamp) channel_id)))"

section \<open>Friendships\<close>

text \<open>The session on the side of the requester; it never fails the handler.\<close>

definition handle_friend_accept ::
  "('w, 'k, 'p, 'r) platform \<Rightarrow> string \<Rightarrow> bytes \<Rightarrow> bytes \<Rightarrow> u32 \<Rightarrow> u32 option \<Rightarrow> ('w, 'p, 'r, unit) act" where
  "handle_friend_accept pf sender prekey_bundle ephemeral_key signed_prekey_id one_time_prekey_id =
     (if ephemeral_key = [] then ok ()
      else case from_json (pf_bundle_json pf) prekey_bundle of
        Inl e \<Rightarrow> ok ()
      | Inr bundle \<Rightarrow>
          io_bind (signal_call (delete_session sender)) (\<lambda>_.
          io_bind (signal_call (respond_to_session (pf_crypto pf) sender (pb_identity_key bundle) ephemeral_key
                     signed_prekey_id one_time_prekey_id)) (\<lambda>_.
          ok ())))"

text \<open>
  The session on the side of the acceptor, from the bundle of the requester: what the other side
  needs to know of it, unless there is no session manager, no bundle or no session.
\<close>

definition establish_from_bundle ::
  "('w, 'k, 'p, 'r) platform \<Rightarrow> string \<Rightarrow> bytes \<Rightarrow> ('w, 'p, 'r, session_init_info option) act" where
  "establish_from_bundle pf peer prekey_bundle =
     io_bind (gets c_signal) (\<lambda>s.
     case s of
       None \<Rightarrow> ok None
     | Some sm \<Rightarrow>
         io_bind (signal_call (delete_session peer)) (\<lambda>_.
         case from_json (pf_bundle_json pf) prekey_bundle of
           Inl e \<Rightarrow> ok None
         | Inr bundle \<Rightarrow>
             io_bind (draw 32) (\<lambda>ephemeral_secret.
             io_bind (signal_call (establish_session (pf_crypto pf) ephemeral_secret peer bundle)) (\<lambda>r.
             ok (case r of Some (Inr info) \<Rightarrow> Some info | _ \<Rightarrow> None)))))"

definition auto_accept_cross_request ::
  "('w, 'k, 'p, 'r) platform \<Rightarrow> string \<Rightarrow> string \<Rightarrow> bytes \<Rightarrow> string \<Rightarrow> string \<Rightarrow> ('w, 'p, 'r, unit) act" where
  "auto_accept_cross_request pf sender display_name prekey_bundle profile_dht_key mailbox_dht_key =
     io_bind (delete_pending_request_row pf sender) (\<lambda>_.
     io_bind (edit_friend_state sender (\<lambda>f. f\<lparr>fs_friendship_state := Accepted, fs_display_name := display_name,
       fs_dht_record_key := (if profile_dht_key \<noteq> [] then Some profile_dht_key else fs_dht_record_key f),
       fs_mailbox_dht_key := (if mailbox_dht_key \<noteq> [] then Some mailbox_dht_key else fs_mailbox_dht_key f)\<rparr>)) (\<lambda>_.
     io_bind (persist_friendship_state pf sender ''accepted'') (\<lambda>_.
     io_bind (update_friend_display_name pf sender display_name) (\<lambda>_.
     io_bind (when_act (profile_dht_key \<noteq> []) (persist_friend_dht_key pf sender profile_dht_key)) (\<lambda>_.
     io_bind (when_act (mailbox_dht_key \<noteq> []) (persist_friend_mailbox_key pf sender mailbox_dht_key)) (\<lambda>_.
     io_bind (if prekey_bundle = [] then ok None else establish_from_bundle pf sender prekey_bundle)
       (\<lambda>session_init.
     io_bind (ignore (send_friend_accept pf sender session_init)) (\<lambda>_.
     io_bind (when_act (profile_dht_key \<noteq> []) (ignore (watch_friend pf sender profile_dht_key))) (\<lambda>_.
     emit_chat (EvFriendRequestAccepted sender display_name))))))))))"

definition receive_fresh_request ::
  "('w, 'k, 'p, 'r) platform \<Rightarrow> string \<Rightarrow> string \<Rightarrow> string \<Rightarrow> bytes \<Rightarrow> string \<Rightarrow> bytes \<Rightarrow> string
   \<Rightarrow> ('w, 'p, 'r, unit) act" where
  "receive_fresh_request pf sender display_name message prekey_bundle profile_dht_key route_blob mailbox_dht_key =
     io_bind (persist_friend_request pf sender display_name message profile_dht_key route_blob
       mailbox_dht_key prekey_bundle) (\<lambda>_.
     io_bind (emit_chat (EvFriendRequest sender display_name message)) (\<lambda>_.
     ignore (send_to_peer_raw pf sender FriendRequestReceived)))"

definition handle_friend_request_full ::
  "('w, 'k, 'p, 'r) platform \<Rightarrow> string \<Rightarrow> string \<Rightarrow> string \<Rightarrow> bytes \<Rightarrow> string \<Rightarrow> bytes \<Rightarrow> string
   \<Rightarrow> ('w, 'p, 'r, unit) act" where
  "handle_friend_request_full pf sender display_name message prekey_bundle profile_dht_key route_blob mailbox_dht_key =
     io_bind (when_act (route_blob \<noteq> []) (cache_peer_route pf sender route_blob)) (\<lambda>_.
     io_bind (gets (\<lambda>c. map_option fs_friendship_state (friend_of c sender))) (\<lambda>existing.
     case existing of
       Some PendingOut \<Rightarrow>
         auto_accept_cross_request pf sender display_name prekey_bundle profile_dht_key mailbox_dht_key
     | Some _ \<Rightarrow>
         io_bind (drop_friend sender) (\<lambda>_.
         io_bind (ignore (delete_friend_row pf ''delete stale friend for re-add: '' sender)) (\<lambda>_.
         io_bind (delete_pending_request_row pf sender) (\<lambda>_.
         receive_fresh_request pf sender display_name message prekey_bundle profile_dht_key route_blob
           mailbox_dht_key)))
     | None \<Rightarrow>
         receive_fresh_request pf sender display_name message prekey_bundle profile_dht_key route_blob
           mailbox_dht_key))"

definition handle_friend_accept_full ::
  "('w, 'k, 'p, 'r) platform \<Rightarrow> string \<Rightarrow> bytes \<Rightarrow> string \<Rightarrow> bytes \<Rightarrow> string \<Rightarrow> bytes \<Rightarrow> u32 \<Rightarrow> u32 option
   \<Rightarrow> ('w, 'p, 'r, unit) act" where
  "handle_friend_accept_full pf sender prekey_bundle profile_dht_key route_blob mailbox_dht_key ephemeral_key
     signed_prekey_id one_time_prekey_id =
     io_bind (gets (has_state Removing sender)) (\<lambda>is_removing.
     if is_removing then ok ()
     else
       io_bind (handle_friend_accept pf sender prekey_bundle ephemeral_key signed_prekey_id one_time_prekey_id) (\<lambda>_.
       io_bind (when_act (route_blob \<noteq> []) (cache_peer_route pf sender route_blob)) (\<lambda>_.
       io_bind (edit_friend_state sender (\<lambda>f. f\<lparr>
         fs_dht_record_key := (if profile_dht_key \<noteq> [] then Some profile_dht_key else fs_dht_record_key f),
         fs_mailbox_dht_key := (if mailbox_dht_key \<noteq> [] then Some mailbox_dht_key else fs_mailbox_dht_key f),
         fs_friendship_state := Accepted\<rparr>)) (\<lambda>_.
       io_bind (persist_friendship_state pf sender ''accepted'') (\<lambda>_.
       io_bind (when_act (profile_dht_key \<noteq> [])
         (io_bind (persist_friend_dht_key pf sender profile_dht_key) (\<lambda>_.
          ignore (watch_friend pf sender profile_dht_key)))) (\<lambda>_.
       io_bind (gets (\<lambda>c. case friend_of c sender of None \<Rightarrow> sender | Some f \<Rightarrow> fs_display_name f)) (\<lambda>display_name.
       emit_chat (EvFriendRequestAccepted sender display_name))))))))"

definition handle_profile_key_rotated ::
  "('w, 'k, 'p, 'r) platform \<Rightarrow> string \<Rightarrow> string \<Rightarrow> ('w, 'p, 'r, unit) act" where
  "handle_profile_key_rotated pf sender new_profile_dht_key =
     io_bind (gets (\<lambda>c. (friend_of c sender, friend_dht_key c sender))) (\<lambda>(friend, old_key).
     if friend = None then ok ()
     else
       io_bind (case old_key of None \<Rightarrow> ok () | Some k \<Rightarrow> edit_dht (unregister_friend_dht_key k)) (\<lambda>_.
       io_bind (edit_friend_state sender (\<lambda>f. f\<lparr>fs_dht_record_key := Some new_profile_dht_key\<rparr>)) (\<lambda>_.
       io_bind (persist_friend_dht_key pf sender new_profile_dht_key) (\<lambda>_.
       ignore (watch_friend pf sender new_profile_dht_key)))))"

definition handle_friend_reject ::
  "('w, 'k, 'p, 'r) platform \<Rightarrow> string \<Rightarrow> ('w, 'p, 'r, unit) act" where
  "handle_friend_reject pf sender =
     io_bind (gets (has_state PendingOut sender)) (\<lambda>is_pending_out.
     io_bind (when_act is_pending_out
       (io_bind (ignore (delete_friend_row pf ''delete rejected friend: '' sender)) (\<lambda>_.
        io_bind (drop_friend sender) (\<lambda>_.
        emit_chat (EvFriendRemoved sender))))) (\<lambda>_.
     emit_chat (EvFriendRequestRejected sender)))"

definition handle_unfriended ::
  "('w, 'k, 'p, 'r) platform \<Rightarrow> string \<Rightarrow> ('w, 'p, 'r, unit) act" where
  "handle_unfriended pf sender =
     io_bind (gets (\<lambda>c. friend_of c sender \<noteq> None \<and> \<not> has_state Removing sender c)) (\<lambda>has_friend.
     if \<not> has_friend then ok ()
     else
       io_bind (ignore (delete_friend_row pf ''delete unfriended peer: '' sender)) (\<lambda>_.
       io_bind (delete_pending_request_row pf sender) (\<lambda>_.
       io_bind (delete_pending_messages_to_recipient pf sender) (\<lambda>_.
       io_bind (ignore (send_to_peer_raw pf sender UnfriendedAck)) (\<lambda>_.
       io_bind (gets (\<lambda>c. friend_dht_key c sender)) (\<lambda>dht_key.
       io_bind (drop_friend sender) (\<lambda>_.
       io_bind (case dht_key of None \<Rightarrow> ok () | Some k \<Rightarrow> edit_dht (unregister_friend_dht_key k)) (\<lambda>_.
       io_bind (ignore (push_friend_list_update pf)) (\<lambda>_.
       emit_chat (EvFriendRemoved sender))))))))))"

definition handle_unfriended_ack ::
  "('w, 'k, 'p, 'r) platform \<Rightarrow> string \<Rightarrow> ('w, 'p, 'r, unit) act" where
  "handle_unfriended_ack pf sender = delete_pending_messages_to_recipient pf sender"

section \<open>Dispatch\<close>

fun allowed_from_strangers :: "message_payload \<Rightarrow> bool" where
  "allowed_from_strangers (FriendRequest n m p k r b) = True"
| "allowed_from_strangers FriendRequestReceived = True"
| "allowed_from_strangers Unfriended = True"
| "allowed_from_strangers UnfriendedAck = True"
| "allowed_from_strangers FriendReject = True"
| "allowed_from_strangers _ = False"

definition dispatch_payload ::
  "('w, 'k, 'p, 'r) platform \<Rightarrow> string \<Rightarrow> int \<Rightarrow> message_payload \<Rightarrow> ('w, 'p, 'r, unit) act" where
  "dispatch_payload pf sender ts payload =
     (case payload of
        DirectMessage body _ \<Rightarrow> handle_direct_message pf sender body ts
      | ChannelMessage channel_id body _ \<Rightarrow> handle_channel_message pf sender channel_id body ts
      | TypingIndicator typing \<Rightarrow> emit_chat (EvTypingIndicator sender typing)
      | FriendRequest display_name message prekey_bundle profile_dht_key route_blob mailbox_dht_key \<Rightarrow>
          handle_friend_request_full pf sender display_name message prekey_bundle profile_dht_key route_blob
            mailbox_dht_key
      | FriendAccept prekey_bundle profile_dht_key route_blob mailbox_dht_key ephemeral_key signed_prekey_id
          one_time_prekey_id \<Rightarrow>
          handle_friend_accept_full pf sender prekey_bundle profile_dht_key route_blob mailbox_dht_key
            ephemeral_key signed_prekey_id one_time_prekey_id
      | FriendReject \<Rightarrow> handle_friend_reject pf sender
      | FriendRequestReceived \<Rightarrow> emit_chat (EvFriendRequestDelivered sender)
      | ProfileKeyRotated new_profile_dht_key \<Rightarrow> handle_profile_key_rotated pf sender new_profile_dht_key
      | PresenceUpdate status game \<Rightarrow> ok ()
      | Unfriended \<Rightarrow> handle_unfriended pf sender
      | UnfriendedAck \<Rightarrow> handle_unfriended_ack pf sender)"

text \<open>
  The plaintext of a payload: JSON is taken as it is, anything else is decrypted. A failed
  decryption is told to the user under the name of the friend or the first digits of the key.
\<close>

definition sender_label :: "('w, 'p, 'r) client \<Rightarrow> string \<Rightarrow> string" where
  "sender_label c sender =
     (case friend_of c sender of
        Some f \<Rightarrow> fs_display_name f
      | None \<Rightarrow> take 8 sender @ ''...'')"

definition decrypt_alert :: "string \<Rightarrow> ui_event" where
  "decrypt_alert label = SystemAlert ''Message Decrypt Failed''
     (''A message from '' @ label @ '' could not be decrypted. They may need to re-establish their session.'')"

definition plaintext_of ::
  "('w, 'k, 'p, 'r) platform \<Rightarrow> string \<Rightarrow> bytes \<Rightarrow> ('w, 'p, 'r, bytes option) act" where
  "plaintext_of pf sender payload =
     (if pf_parse_json pf payload \<noteq> None then ok (Some payload)
      else
        io_bind (signal_call (signal_decrypt (pf_crypto pf) sender payload)) (\<lambda>r.
        case r of
          None \<Rightarrow> ok None
        | Some (Inr plaintext) \<Rightarrow> ok (Some plaintext)
        | Some (Inl e) \<Rightarrow>
            io_bind (gets (\<lambda>c. sender_label c sender)) (\<lambda>label.
            io_bind (emit_event (decrypt_alert label)) (\<lambda>_. ok None))))"

definition handle_incoming_message ::
  "('w, 'k, 'p, 'r) platform \<Rightarrow> bytes \<Rightarrow> ('w, 'p, 'r, unit) act" where
  "handle_incoming_message pf raw =
     (case process_incoming (pf_envelope pf) (pf_key_error pf) (pf_verify pf) raw of
        Inl e \<Rightarrow> ok ()
      | Inr envelope \<Rightarrow>
          let sender = hex_encode (e_sender_key envelope)
          in io_bind (is_blocked sender) (\<lambda>blocked.
             if blocked then ok ()
             else
               io_bind (plaintext_of pf sender (e_payload envelope)) (\<lambda>plaintext.
               case plaintext of
                 None \<Rightarrow> ok ()
               | Some payload_bytes \<Rightarrow>
                   (case from_json (pf_payload_json pf) payload_bytes of
                      Inl e \<Rightarrow> ok ()
                    | Inr payload \<Rightarrow>
                        io_bind (gets (\<lambda>c. friend_of c sender)) (\<lambda>friend.
                        if \<not> allowed_from_strangers payload \<and> friend = None then ok ()
                        else dispatch_payload pf sender (i64_or_max (e_timestamp envelope)) payload)))))"

end
