(* ===== verification/FriendCommands.thy ===== *)
theory FriendCommands
  imports Incoming
begin

text \<open>
  The commands of the friend list (\<open>src-tauri/src/commands/friends.rs\<close>): adding by key or by
  invite, accepting, rejecting, cancelling, removing, blocking, groups, and the lists shown to the
  user. The statements of one command are separate transactions, whatever its comments say.
\<close>

section \<open>Queries\<close>

definition get_pending_requests :: "('w, 'p, 'r, request_row list) act" where
  "get_pending_requests =
     io_bind current_owner_key (\<lambda>owner. query [] (select_requests owner))"

definition get_blocked_users :: "('w, 'p, 'r, blocked_row list) act" where
  "get_blocked_users = io_bind current_owner_key (\<lambda>owner. query [] (select_blocked owner))"

definition is_user_blocked :: "string \<Rightarrow> string \<Rightarrow> ('w, 'p, 'r, bool) act" where
  "is_user_blocked owner key =
     io_bind (result (query [] (count_blocked owner key))) (\<lambda>n.
     ok (case n of Inr k \<Rightarrow> 0 < k | Inl e \<Rightarrow> False))"

record friend_response =
  rp_public_key :: string
  rp_display_name :: string
  rp_nickname :: "string option"
  rp_status :: user_status
  rp_status_message :: "string option"
  rp_game_info :: "game_info_state option"
  rp_group :: "string option"
  rp_unread_count :: u32
  rp_last_seen_at :: "int option"
  rp_friendship_state :: friendship_state

definition friend_response_of :: "friend_state \<Rightarrow> friend_response" where
  "friend_response_of f =
     (let is_accepted = (fs_friendship_state f = Accepted)
      in \<lparr>rp_public_key = fs_public_key f, rp_display_name = fs_display_name f, rp_nickname = fs_nickname f,
          rp_status = (if is_accepted then fs_status f else Offline),
          rp_status_message = (if is_accepted then fs_status_message f else None),
          rp_game_info = (if is_accepted then fs_game_info f else None),
          rp_group = fs_group f, rp_unread_count = fs_unread_count f, rp_last_seen_at = fs_last_seen_at f,
          rp_friendship_state = fs_friendship_state f\<rparr>)"

definition get_friends :: "('w, 'p, 'r, friend_response list) act" where
  "get_friends = gets (\<lambda>c. map friend_response_of
     (filter (\<lambda>f. fs_friendship_state f \<noteq> Removing) (map snd (c_friends c))))"

section \<open>Adding\<close>

text \<open>A friend as the commands create it, in memory and as a row.\<close>

definition new_friend_state ::
  "string \<Rightarrow> string \<Rightarrow> string option \<Rightarrow> string option \<Rightarrow> friendship_state \<Rightarrow> friend_state" where
  "new_friend_state key display_name dht_record_key mailbox_dht_key state =
     \<lparr>fs_public_key = key, fs_display_name = display_name, fs_nickname = None, fs_status = Offline,
      fs_status_message = None, fs_game_info = None, fs_group = None, fs_unread_count = 0,
      fs_dht_record_key = dht_record_key, fs_last_seen_at = None, fs_local_conversation_key = None,
      fs_remote_conversation_key = None, fs_mailbox_dht_key = mailbox_dht_key,
      fs_last_heartbeat_at = None, fs_friendship_state = state\<rparr>"

definition new_friend_row ::
  "string \<Rightarrow> string \<Rightarrow> string \<Rightarrow> int \<Rightarrow> string option \<Rightarrow> string option \<Rightarrow> string \<Rightarrow> friend_row" where
  "new_friend_row owner key display_name added_at dht_record_key mailbox_dht_key state =
     \<lparr>fw_owner = owner, fw_public_key = key, fw_display_name = Some display_name, fw_nickname = None, fw_group_id = None,
      fw_added_at = added_at, fw_dht_record_key = dht_record_key, fw_last_seen_at = None,
      fw_avatar = None, fw_local_conversation_key = None, fw_remote_conversation_key = None,
      fw_mailbox_dht_key = mailbox_dht_key, fw_friendship_state = state\<rparr>"

definition em_dash :: string where
  "em_dash = [CHR 0xE2, CHR 0x80, CHR 0x94]"

definition add_friend ::
  "('w, 'k, 'p, 'r) platform \<Rightarrow> string \<Rightarrow> string \<Rightarrow> string \<Rightarrow> ('w, 'p, 'r, unit) act" where
  "add_friend pf public_key display_name message =
     (if length public_key \<noteq> 64 \<or> hex_decode public_key = None
      then fail (''Invalid public key '' @ em_dash @ '' must be a 64-character hex string'')
      else
        io_bind current_owner_key (\<lambda>owner.
        if public_key = owner then fail ''You cannot add yourself as a friend''
        else
          io_bind (is_user_blocked owner public_key) (\<lambda>blocked.
          if blocked then fail ''Cannot add a blocked user. Unblock them first.''
          else
            io_bind (gets millis_i64) (\<lambda>timestamp.
            io_bind (execute pf ''insert friend: '' (insert_ignore_friend
              (new_friend_row owner public_key display_name timestamp None None ''pending_out''))) (\<lambda>_.
            io_bind (set_friend public_key (new_friend_state public_key display_name None None PendingOut)) (\<lambda>_.
            io_bind (ignore (send_friend_request pf public_key message)) (\<lambda>_.
            emit_chat (EvFriendAdded public_key display_name ''pendingOut''))))))))"

text \<open>The route, the session and the mailbox of an invite.\<close>

definition setup_invite_contact ::
  "('w, 'k, 'p, 'r) platform \<Rightarrow> invite_blob \<Rightarrow> ('w, 'p, 'r, unit) act" where
  "setup_invite_contact pf blob =
     io_bind (cache_peer_route pf (ib_public_key blob) (ib_route_blob blob)) (\<lambda>_.
     io_bind (case from_json (pf_bundle_json pf) (ib_prekey_bundle blob) of
         Inl e \<Rightarrow> ok ()
       | Inr bundle \<Rightarrow> ignore (establish_from_bundle pf (ib_public_key blob) (ib_prekey_bundle blob))) (\<lambda>_.
     io_bind (gets c_node) (\<lambda>node.
     if node = None then ok ()
     else
       io_bind (result (protocol (read_peer_mailbox_route (pf_rc pf) (ib_mailbox_dht_key blob)))) (\<lambda>r.
       case r of
         Inr (Some (b # bs)) \<Rightarrow> cache_peer_route pf (ib_public_key blob) (b # bs)
       | _ \<Rightarrow> ok ()))))"

definition add_friend_from_invite ::
  "('w, 'k, 'p, 'r) platform \<Rightarrow> string \<Rightarrow> ('w, 'p, 'r, unit) act" where
  "add_friend_from_invite pf invite_string =
     io_bind (map_error ClientError (from_result (decode_invite_url (pf_invite pf) invite_string))) (\<lambda>blob.
     io_bind (map_error ClientError (from_result (verify_invite_blob (pf_invite pf) blob))) (\<lambda>_.
     io_bind current_owner_key (\<lambda>owner.
     let peer = ib_public_key blob
     in if peer = owner then fail ''You cannot add yourself as a friend''
     else
       io_bind (is_user_blocked owner peer) (\<lambda>blocked.
       if blocked then fail ''Cannot add a blocked user. Unblock them first.''
       else
         io_bind (gets (\<lambda>c. (millis_i64 c, friend_of c peer \<noteq> None))) (\<lambda>(timestamp, is_stale).
         io_bind (when_act is_stale
           (io_bind (edit_manager (invalidate_route_for_peer peer)) (\<lambda>_. drop_friend peer))) (\<lambda>_.
         io_bind (execute pf ''cleanup stale friend row: '' (delete_friend owner peer)) (\<lambda>_.
         io_bind (execute pf ''insert friend: '' (insert_friend
           (new_friend_row owner peer (ib_display_name blob) timestamp (Some (ib_profile_dht_key blob))
              (Some (ib_mailbox_dht_key blob)) ''pending_out''))) (\<lambda>_.
         io_bind (set_friend peer (new_friend_state peer (ib_display_name blob)
           (Some (ib_profile_dht_key blob)) (Some (ib_mailbox_dht_key blob)) PendingOut)) (\<lambda>_.
         io_bind (setup_invite_contact pf blob) (\<lambda>_.
         io_bind (ignore (send_friend_request pf peer ''Added via invite link'')) (\<lambda>_.
         io_bind (ignore (watch_friend pf peer (ib_profile_dht_key blob))) (\<lambda>_.
         emit_chat (EvFriendAdded peer (ib_display_name blob) ''pendingOut'')))))))))))))"

definition generate_invite :: "('w, 'k, 'p, 'r) platform \<Rightarrow> ('w, 'p, 'r, string) act" where
  "generate_invite pf =
     io_bind (gets c_identity) (\<lambda>identity.
     io_bind (ok_or ''identity not set'' identity) (\<lambda>i.
     io_bind (gets c_identity_secret) (\<lambda>sk.
     io_bind (ok_or ''signing key not initialized'' sk) (\<lambda>secret_key.
     io_bind (gets c_node) (\<lambda>node.
     io_bind (ok_or ''node not initialized'' node) (\<lambda>nh.
     io_bind (ok_or ''mailbox DHT key not set'' (nh_mailbox_dht_key nh)) (\<lambda>mailbox_dht_key.
     io_bind (ok_or ''profile DHT key not set'' (nh_profile_dht_key nh)) (\<lambda>profile_dht_key.
     io_bind (ok_or (''route not allocated yet '' @ em_dash @ '' try again in a moment'') (nh_route_blob nh)) (\<lambda>route_blob.
     io_bind (gets c_signal) (\<lambda>s.
     io_bind (ok_or ''signal manager not initialized'' s) (\<lambda>_.
     io_bind (draw 32) (\<lambda>signed_prekey_secret.
     io_bind (draw 32) (\<lambda>one_time_secret.
     io_bind (signal_call (generate_prekey_bundle (pf_crypto pf) signed_prekey_secret one_time_secret 1 (Some 1)))
       (\<lambda>r.
     io_bind (case r of
         Some (Inr bundle) \<Rightarrow> describe ''serialize prekey bundle: ''
           (map_error ClientError (from_result (to_json (pf_bundle_json pf) bundle)))
       | Some (Inl e) \<Rightarrow> fail (''generate prekey bundle: '' @ e)
       | None \<Rightarrow> fail ''signal manager not initialized'') (\<lambda>prekey_bundle.
     ok (encode_invite_url (pf_invite pf) (create_invite_blob (pf_invite pf) secret_key (is_public_key i)
       (is_display_name i) mailbox_dht_key profile_dht_key route_blob prekey_bundle)))))))))))))))))"

section \<open>Answering\<close>

definition accept_request ::
  "('w, 'k, 'p, 'r) platform \<Rightarrow> string \<Rightarrow> string \<Rightarrow> ('w, 'p, 'r, unit) act" where
  "accept_request pf public_key display_name =
     io_bind current_owner_key (\<lambda>owner.
     io_bind (gets millis_i64) (\<lambda>timestamp.
     io_bind (query [] (select_request owner public_key)) (\<lambda>pending.
     let profile_key = Option.bind pending pr_profile_dht_key;
         mailbox_key = Option.bind pending pr_mailbox_dht_key;
         route_blob = Option.bind pending pr_route_blob;
         prekey_bundle = Option.bind pending pr_prekey_bundle
     in
     io_bind (execute pf ''insert friend: '' (insert_ignore_friend
       (new_friend_row owner public_key display_name timestamp None None ''accepted''))) (\<lambda>_.
     io_bind (execute pf ''delete pending request: '' (delete_request owner public_key)) (\<lambda>_.
     io_bind (case route_blob of
         Some (b # bs) \<Rightarrow> cache_peer_route pf public_key (b # bs)
       | _ \<Rightarrow> ok ()) (\<lambda>_.
     io_bind (set_friend public_key (new_friend_state public_key display_name profile_key mailbox_key Accepted)) (\<lambda>_.
     io_bind (when_act (profile_key \<noteq> None \<or> mailbox_key \<noteq> None)
       (execute pf ''update friend keys: '' (update_friend owner public_key (\<lambda>r. r\<lparr>
          fw_dht_record_key := (if profile_key \<noteq> None then profile_key else fw_dht_record_key r),
          fw_mailbox_dht_key := (if mailbox_key \<noteq> None then mailbox_key else fw_mailbox_dht_key r)\<rparr>)))) (\<lambda>_.
     io_bind (case prekey_bundle of
         None \<Rightarrow> ok None
       | Some b \<Rightarrow> establish_from_bundle pf public_key b) (\<lambda>session_init.
     io_bind (ignore (send_friend_accept pf public_key session_init)) (\<lambda>_.
     io_bind (case profile_key of
         None \<Rightarrow> ok ()
       | Some k \<Rightarrow> ignore (watch_friend pf public_key k)) (\<lambda>_.
     emit_chat (EvFriendRequestAccepted public_key display_name))))))))))))"

definition reject_request ::
  "('w, 'k, 'p, 'r) platform \<Rightarrow> string \<Rightarrow> ('w, 'p, 'r, unit) act" where
  "reject_request pf public_key =
     io_bind current_owner_key (\<lambda>owner.
     io_bind (execute pf ''delete pending request: '' (delete_request owner public_key)) (\<lambda>_.
     ignore (send_friend_reject pf public_key)))"

definition cancel_request ::
  "('w, 'k, 'p, 'r) platform \<Rightarrow> string \<Rightarrow> ('w, 'p, 'r, unit) act" where
  "cancel_request pf public_key =
     io_bind current_owner_key (\<lambda>owner.
     io_bind (gets (has_state PendingOut public_key)) (\<lambda>is_pending.
     if \<not> is_pending then fail ''Not a pending outbound request''
     else
       io_bind (execute pf ''delete pending friend: '' (delete_friend owner public_key)) (\<lambda>_.
       io_bind (drop_friend public_key) (\<lambda>_.
       emit_chat (EvFriendRemoved public_key)))))"

section \<open>Removing\<close>

definition forget_peer_presence ::
  "string option \<Rightarrow> string \<Rightarrow> ('w, 'p, 'r, unit) act" where
  "forget_peer_presence dht_key peer =
     io_bind (case dht_key of None \<Rightarrow> ok () | Some k \<Rightarrow> edit_dht (unregister_friend_dht_key k)) (\<lambda>_.
     edit_manager (invalidate_route_for_peer peer))"

definition remove_friend ::
  "('w, 'k, 'p, 'r) platform \<Rightarrow> string \<Rightarrow> ('w, 'p, 'r, unit) act" where
  "remove_friend pf public_key =
     io_bind current_owner_key (\<lambda>owner.
     io_bind (ignore (send_to_peer_raw pf public_key Unfriended)) (\<lambda>_.
     io_bind (ignore (build_and_queue_envelope pf public_key Unfriended)) (\<lambda>_.
     io_bind (execute pf ''delete friend: '' (delete_friend owner public_key)) (\<lambda>_.
     io_bind (execute pf ''delete pending request on removal: '' (delete_request owner public_key)) (\<lambda>_.
     io_bind (edit_friend_state public_key (\<lambda>f. f\<lparr>fs_friendship_state := Removing\<rparr>)) (\<lambda>_.
     io_bind (gets (\<lambda>c. friend_dht_key c public_key)) (\<lambda>dht_key.
     io_bind (forget_peer_presence dht_key public_key) (\<lambda>_.
     io_bind (ignore (push_friend_list_update pf)) (\<lambda>_.
     emit_chat (EvFriendRemoved public_key))))))))))"

text \<open>The task \<open>remove_friend\<close> leaves behind, 600 seconds later.\<close>

definition removal_grace_over :: "string \<Rightarrow> ('w, 'p, 'r, unit) act" where
  "removal_grace_over public_key =
     io_bind (gets (has_state Removing public_key)) (\<lambda>still_removing.
     when_act still_removing
       (io_bind (drop_friend public_key) (\<lambda>_.
        io_bind (signal_call (delete_session public_key)) (\<lambda>_. ok ()))))"

section \<open>Blocking\<close>

text \<open>
  A new profile record with the current name, status, prekeys and route; the key replaces the old
  one in memory and in the database and is sent to all friends. Subkey 1, which takes the status
  here, is the status message elsewhere.
\<close>

definition rotate_profile_key :: "('w, 'k, 'p, 'r) platform \<Rightarrow> ('w, 'p, 'r, unit) act" where
  "rotate_profile_key pf =
     io_bind (gets c_node) (\<lambda>node.
     io_bind (ok_or ''node not initialized'' node) (\<lambda>_.
     io_bind (describe ''create new profile record: '' (protocol (create_record (pf_rc pf) 8)))
       (\<lambda>(new_key, new_keypair).
     io_bind (gets (\<lambda>c. (c_node c, c_identity c))) (\<lambda>(node, identity).
     io_bind (ok_or ''node not initialized'' node) (\<lambda>nh.
     io_bind (ok_or ''identity not set'' identity) (\<lambda>i.
     io_bind (fresh_bundle pf) (\<lambda>prekey_bytes.
     io_bind (describe ''invalid new profile key: '' (parse_key pf new_key)) (\<lambda>record_key.
     io_bind (ignore (veilid (rc_set (pf_rc pf) record_key 0 (as_bytes (is_display_name i))))) (\<lambda>_.
     io_bind (ignore (veilid (rc_set (pf_rc pf) record_key 1 [status_byte (is_status i)]))) (\<lambda>_.
     io_bind (ignore (veilid (rc_set (pf_rc pf) record_key 5 prekey_bytes))) (\<lambda>_.
     io_bind (ignore (veilid (rc_set (pf_rc pf) record_key 6 (or_empty (nh_route_blob nh))))) (\<lambda>_.
     io_bind (modify (\<lambda>c. c\<lparr>c_node := map_option (\<lambda>n. n\<lparr>nh_profile_dht_key := Some new_key,
       nh_profile_owner_keypair := new_keypair\<rparr>) (c_node c)\<rparr>)) (\<lambda>_.
     io_bind (gets owner_of) (\<lambda>owner.
     io_bind (execute pf ''update identity dht key: '' (update_identity owner (\<lambda>r. r\<lparr>
       ir_dht_record_key := Some new_key,
       ir_dht_owner_keypair := (case new_keypair of Some p \<Rightarrow> Some (pf_show_keypair pf p)
         | None \<Rightarrow> ir_dht_owner_keypair r)\<rparr>))) (\<lambda>_.
     io_bind (gets (\<lambda>c. map fst (c_friends c))) (\<lambda>friend_keys.
     for_each (\<lambda>k. ignore (send_to_peer_raw pf k (ProfileKeyRotated new_key))) friend_keys))))))))))))))))"

text \<open>\<open>&s[..12]\<close> panics inside a character of several bytes.\<close>

definition truncated_key :: "string \<Rightarrow> ('w, 'p, 'r, string) act" where
  "truncated_key key =
     (if length key \<le> 12 then ok key
      else if 128 \<le> (of_char (key ! 12) :: nat) \<and> (of_char (key ! 12) :: nat) < 192
      then throw (ClientPanic ''byte index 12 is not a char boundary'')
      else ok (take 12 key @ ''...''))"

definition block_user ::
  "('w, 'k, 'p, 'r) platform \<Rightarrow> string \<Rightarrow> string option \<Rightarrow> ('w, 'p, 'r, unit) act" where
  "block_user pf public_key display_name =
     io_bind current_owner_key (\<lambda>owner.
     io_bind (gets (\<lambda>c. (millis_i64 c, friend_of c public_key))) (\<lambda>(timestamp, friend).
     io_bind (case friend of
         Some f \<Rightarrow> ok (fs_display_name f)
       | None \<Rightarrow> (case display_name of Some n \<Rightarrow> ok n | None \<Rightarrow> truncated_key public_key)) (\<lambda>resolved_name.
     io_bind (execute pf ''delete friend on block: '' (delete_friend owner public_key)) (\<lambda>_.
     io_bind (execute pf ''delete pending request on block: '' (delete_request owner public_key)) (\<lambda>_.
     io_bind (execute pf ''insert blocked user: '' (replace_blocked
       \<lparr>xb_owner = owner, xb_public_key = public_key, xb_display_name = resolved_name,
        xb_blocked_at = timestamp\<rparr>)) (\<lambda>_.
     io_bind (delete_pending_messages_to_recipient pf public_key) (\<lambda>_.
     io_bind (gets (\<lambda>c. friend_dht_key c public_key)) (\<lambda>dht_key.
     io_bind (drop_friend public_key) (\<lambda>_.
     io_bind (forget_peer_presence dht_key public_key) (\<lambda>_.
     io_bind (signal_call (delete_session public_key)) (\<lambda>_.
     io_bind (rotate_profile_key pf) (\<lambda>_.
     emit_chat (EvFriendRemoved public_key)))))))))))))"

definition unblock_user :: "('w, 'k, 'p, 'r) platform \<Rightarrow> string \<Rightarrow> ('w, 'p, 'r, unit) act" where
  "unblock_user pf public_key =
     io_bind current_owner_key (\<lambda>owner.
     execute pf ''unblock user: '' (delete_blocked owner public_key))"

section \<open>Groups\<close>

definition create_friend_group ::
  "('w, 'k, 'p, 'r) platform \<Rightarrow> string \<Rightarrow> ('w, 'p, 'r, int) act" where
  "create_friend_group pf name =
     io_bind current_owner_key (\<lambda>owner.
     io_bind (execute pf ''create friend group: '' (insert_group owner name)) (\<lambda>_.
     gets (\<lambda>c. ct_last_group (c_db c))))"

definition rename_friend_group ::
  "('w, 'k, 'p, 'r) platform \<Rightarrow> int \<Rightarrow> string \<Rightarrow> ('w, 'p, 'r, unit) act" where
  "rename_friend_group pf group_id name = execute pf ''rename friend group: '' (rename_group group_id name)"

definition move_friend_to_group ::
  "('w, 'k, 'p, 'r) platform \<Rightarrow> string \<Rightarrow> int option \<Rightarrow> ('w, 'p, 'r, unit) act" where
  "move_friend_to_group pf public_key group_id =
     io_bind current_owner_key (\<lambda>owner.
     io_bind (execute pf ''move friend to group: '' (update_friend_group owner public_key group_id)) (\<lambda>_.
     io_bind (case group_id of
         None \<Rightarrow> ok None
       | Some i \<Rightarrow> query ''query group name: '' (select_group_name i)) (\<lambda>group_name.
     edit_friend_state public_key (\<lambda>f. f\<lparr>fs_group := group_name\<rparr>))))"

end
