(* ===== verification/SyncService.thy ===== *)
theory SyncService
  imports Incoming
begin

text \<open>
  The periodic service (\<open>src-tauri/src/services/sync_service.rs\<close>): it polls the records of
  friends, conversations and communities, marks friends with an old heartbeat offline, sends the
  queue again and expires old requests. A queued message is dropped after 20 failed attempts.
\<close>

section \<open>Friends\<close>

definition sync_friend_status ::
  "('w, 'k, 'p, 'r) platform \<Rightarrow> string \<Rightarrow> 'k \<Rightarrow> bool \<Rightarrow> ('w, 'p, 'r, unit) act" where
  "sync_friend_status pf friend_key record_key force_refresh =
     io_bind (result (veilid (rc_get (pf_rc pf) record_key 2 force_refresh))) (\<lambda>v.
     case v of
       Inr (Some data) \<Rightarrow>
         (case parse_status data of
            None \<Rightarrow> ok ()
          | Some parsed \<Rightarrow>
              io_bind (store_heartbeat friend_key data) (\<lambda>_.
              io_bind (gets (\<lambda>c. effective_status c parsed data)) (\<lambda>status.
              io_bind (gets (\<lambda>c. map_option fs_status (friend_of c friend_key))) (\<lambda>old_status.
              io_bind (edit_friend_state friend_key (\<lambda>f. f\<lparr>fs_status := status\<rparr>)) (\<lambda>_.
              io_bind (gets (has_state Accepted friend_key)) (\<lambda>is_accepted.
              when_act (old_status \<noteq> Some status \<and> is_accepted)
                (if status = Offline then emit_presence (FriendOffline friend_key)
                 else
                   io_bind (when_act (old_status = Some Offline) (emit_presence (FriendOnline friend_key))) (\<lambda>_.
                   emit_presence (StatusChanged friend_key (status_name status) None)))))))))
     | _ \<Rightarrow> ok ())"

definition sync_friend_game_info ::
  "('w, 'k, 'p, 'r) platform \<Rightarrow> string \<Rightarrow> 'k \<Rightarrow> bool \<Rightarrow> ('w, 'p, 'r, unit) act" where
  "sync_friend_game_info pf friend_key record_key force_refresh =
     io_bind (result (veilid (rc_get (pf_rc pf) record_key 4 force_refresh))) (\<lambda>v.
     case v of
       Inr (Some (b # bs)) \<Rightarrow>
         (let game_info = (case from_json (pf_game_json pf) (b # bs) of Inl e \<Rightarrow> None | Inr g \<Rightarrow> Some g)
          in io_bind (gets (\<lambda>c. Option.bind (friend_of c friend_key)
               (\<lambda>f. map_option gi_game_name (fs_game_info f)))) (\<lambda>old_game_name.
             io_bind (edit_friend_state friend_key (\<lambda>f. f\<lparr>fs_game_info := game_info\<rparr>)) (\<lambda>_.
             io_bind (gets (has_state Accepted friend_key)) (\<lambda>is_accepted.
             when_act (old_game_name \<noteq> map_option gi_game_name game_info \<and> is_accepted)
               (emit_presence (GameChanged friend_key (map_option gi_game_name game_info)
                 (map_option gi_game_id game_info) None))))))
     | _ \<Rightarrow> ok ())"

definition sync_friend_prekey ::
  "('w, 'k, 'p, 'r) platform \<Rightarrow> 'k \<Rightarrow> bool \<Rightarrow> ('w, 'p, 'r, unit) act" where
  "sync_friend_prekey pf record_key force_refresh =
     ignore (veilid (rc_get (pf_rc pf) record_key 5 force_refresh))"

definition sync_friend_route_blob ::
  "('w, 'k, 'p, 'r) platform \<Rightarrow> string \<Rightarrow> 'k \<Rightarrow> bool \<Rightarrow> ('w, 'p, 'r, unit) act" where
  "sync_friend_route_blob pf friend_key record_key force_refresh =
     io_bind (result (veilid (rc_get (pf_rc pf) record_key 6 force_refresh))) (\<lambda>v.
     case v of
       Inr (Some (b # bs)) \<Rightarrow> cache_peer_route pf friend_key (b # bs)
     | _ \<Rightarrow> ok ())"

definition sync_friend_dht_subkeys ::
  "('w, 'k, 'p, 'r) platform \<Rightarrow> string \<Rightarrow> 'k \<Rightarrow> bool \<Rightarrow> ('w, 'p, 'r, unit) act" where
  "sync_friend_dht_subkeys pf friend_key record_key force_refresh =
     io_bind (result (veilid (rc_open (pf_rc pf) record_key None))) (\<lambda>opened.
     case opened of
       Inl e \<Rightarrow> ok ()
     | Inr _ \<Rightarrow>
         io_bind (sync_friend_status pf friend_key record_key force_refresh) (\<lambda>_.
         io_bind (sync_friend_game_info pf friend_key record_key force_refresh) (\<lambda>_.
         io_bind (sync_friend_prekey pf record_key force_refresh) (\<lambda>_.
         sync_friend_route_blob pf friend_key record_key force_refresh))))"

definition mark_if_stale :: "string \<Rightarrow> ('w, 'p, 'r, unit) act" where
  "mark_if_stale key =
     io_bind (gets millis_i64) (\<lambda>now.
     io_bind (edit_friend_state key (\<lambda>f. f\<lparr>fs_status := Offline, fs_last_seen_at := Some now\<rparr>)) (\<lambda>_.
     io_bind (gets (has_state Accepted key)) (\<lambda>is_accepted.
     when_act is_accepted (emit_presence (FriendOffline key)))))"

definition stale_friends :: "('w, 'p, 'r) client \<Rightarrow> string list" where
  "stale_friends c = map fs_public_key (filter (\<lambda>f. fs_status f \<noteq> Offline \<and>
     (case fs_last_heartbeat_at f of None \<Rightarrow> False | Some ts \<Rightarrow> is_stale c ts)) (map snd (c_friends c)))"

definition check_stale_presences :: "('w, 'p, 'r, unit) act" where
  "check_stale_presences = io_bind (gets stale_friends) (\<lambda>keys. for_each mark_if_stale keys)"

text \<open>One pass over the friends with a record; the keys watched so far are carried along.\<close>

fun sync_each_friend ::
  "('w, 'k, 'p, 'r) platform \<Rightarrow> bool \<Rightarrow> string set \<Rightarrow> (string \<times> string) list \<Rightarrow> string set
   \<Rightarrow> ('w, 'p, 'r, string set) act" where
  "sync_each_friend pf force unwatched [] watched = ok watched"
| "sync_each_friend pf force unwatched ((friend_key, dht_key) # rest) watched =
     (case rc_parse_key (pf_rc pf) dht_key of
        Inl e \<Rightarrow> sync_each_friend pf force unwatched rest watched
      | Inr record_key \<Rightarrow>
          io_bind (edit_dht (register_friend_dht_key dht_key friend_key)) (\<lambda>_.
          io_bind (if dht_key \<in> watched then ok watched
                   else io_bind (result (watch_friend pf friend_key dht_key)) (\<lambda>r.
                        ok (case r of Inr _ \<Rightarrow> insert dht_key watched | Inl e \<Rightarrow> watched))) (\<lambda>watched.
          io_bind (sync_friend_dht_subkeys pf friend_key record_key (force \<or> friend_key \<in> unwatched)) (\<lambda>_.
          sync_each_friend pf force unwatched rest watched))))"

definition friends_with_dht :: "('w, 'p, 'r) client \<Rightarrow> (string \<times> string) list" where
  "friends_with_dht c = List.map_filter
     (\<lambda>f. map_option (\<lambda>k. (fs_public_key f, k)) (fs_dht_record_key f)) (map snd (c_friends c))"

definition is_online_node :: "'p node_handle option \<Rightarrow> bool" where
  "is_online_node node = (case node of None \<Rightarrow> False | Some nh \<Rightarrow> nh_is_attached nh)"

definition sync_friends ::
  "('w, 'k, 'p, 'r) platform \<Rightarrow> string set \<Rightarrow> bool \<Rightarrow> bool \<Rightarrow> ('w, 'p, 'r, string set) act" where
  "sync_friends pf watched_keys first_tick force_all =
     io_bind (gets id) (\<lambda>c.
     if \<not> is_online_node (c_node c) then ok watched_keys
     else
       let died = (\<Union>fk\<in>c_unwatched c. set_option (friend_dht_key c fk))
       in io_bind (sync_each_friend pf (first_tick \<or> force_all) (c_unwatched c) (friends_with_dht c)
                     (watched_keys - died)) (\<lambda>watched.
          io_bind check_stale_presences (\<lambda>_. ok watched)))"

section \<open>Expiry\<close>

definition thirty_days_ms :: int where "thirty_days_ms = 30 * 24 * 60 * 60 * 1000"

definition forget_expired :: "string \<Rightarrow> ('w, 'p, 'r, unit) act" where
  "forget_expired key = io_bind (drop_friend key) (\<lambda>_. emit_chat (EvFriendRemoved key))"

definition expire_stale_requests :: "('w, 'k, 'p, 'r) platform \<Rightarrow> ('w, 'p, 'r, unit) act" where
  "expire_stale_requests pf =
     io_bind (gets (\<lambda>c. (owner_of c, i64_sub (millis_i64 c) thirty_days_ms))) (\<lambda>(owner, cutoff).
     if owner = [] then ok ()
     else
       io_bind (ignore (execute pf [] (delete_expired_requests owner cutoff))) (\<lambda>_.
       io_bind (result (query [] (select_expired_friends owner cutoff))) (\<lambda>r.
       let expired = (case r of Inr keys \<Rightarrow> keys | Inl e \<Rightarrow> [])
       in io_bind (for_each (\<lambda>key. ignore (execute pf [] (delete_friend owner key))) expired) (\<lambda>_.
          for_each forget_expired expired))))"

section \<open>The queue\<close>

definition delete_pending_message :: "('w, 'k, 'p, 'r) platform \<Rightarrow> int \<Rightarrow> ('w, 'p, 'r, unit) act" where
  "delete_pending_message pf i = execute pf ''delete pending message: '' (delete_queued i)"

definition increment_retry_count :: "('w, 'k, 'p, 'r) platform \<Rightarrow> int \<Rightarrow> ('w, 'p, 'r, unit) act" where
  "increment_retry_count pf i = execute pf ''increment retry count: '' (increment_queued i)"

definition try_mailbox_route_fallback ::
  "('w, 'k, 'p, 'r) platform \<Rightarrow> string \<Rightarrow> ('w, 'p, 'r, 'r option) act" where
  "try_mailbox_route_fallback pf recipient =
     io_bind (gets (\<lambda>c. (Option.bind (friend_of c recipient) fs_mailbox_dht_key, c_node c))) (\<lambda>(key, node).
     case (key, node) of
       (Some mailbox_key, Some nh) \<Rightarrow>
         io_bind (result (protocol (read_peer_mailbox_route (pf_rc pf) mailbox_key))) (\<lambda>r.
         case r of
           Inr (Some (b # bs)) \<Rightarrow>
             io_bind (cache_peer_route pf recipient (b # bs)) (\<lambda>_.
             io_bind (gets c_dht) (\<lambda>dht.
             case dht of
               None \<Rightarrow> ok None
             | Some h \<Rightarrow>
                 io_bind (import_peer_route pf h (b # bs)) (\<lambda>imported.
                 ok (case imported of Inl e \<Rightarrow> None | Inr route_id \<Rightarrow> Some route_id))))
         | _ \<Rightarrow> ok None)
     | _ \<Rightarrow> ok None)"

definition retry_pending_dm ::
  "('w, 'k, 'p, 'r) platform \<Rightarrow> int \<Rightarrow> string \<Rightarrow> message_envelope \<Rightarrow> ('w, 'p, 'r, unit) act" where
  "retry_pending_dm pf i recipient envelope =
     io_bind (gets c_node) (\<lambda>node.
     if node = None then increment_retry_count pf i
     else
       io_bind (cached_route_id pf recipient) (\<lambda>cached.
       io_bind (if cached \<noteq> None then ok cached else try_mailbox_route_fallback pf recipient) (\<lambda>route.
       case route of
         None \<Rightarrow> increment_retry_count pf i
       | Some route_id \<Rightarrow>
           io_bind (result (protocol (send_envelope pf route_id envelope))) (\<lambda>sent.
           case sent of
             Inr _ \<Rightarrow> delete_pending_message pf i
           | Inl e \<Rightarrow> increment_retry_count pf i))))"

text \<open>
  Sending a channel message to the server of its community (\<open>commands/community.rs\<close>). Without a
  node that is attached, and without a key, it does nothing and reports success.
\<close>

definition send_call ::
  "('w, 'k, 'p, 'r) platform \<Rightarrow> 'r \<Rightarrow> message_envelope \<Rightarrow> ('w, protocol_error, bytes) io" where
  "send_call pf route_id envelope =
     map_error (\<lambda>e. SendFailed (''app_call: '' @ e))
       (pf_app_call pf route_id (encode_envelope (pf_envelope pf) envelope))"

definition check_server_response ::
  "('w, 'k, 'p, 'r) platform \<Rightarrow> bytes \<Rightarrow> ('w, 'p, 'r, unit) act" where
  "check_server_response pf response_bytes =
     (case from_json (pf_response_json pf) response_bytes of
        Inr (ResError code message) \<Rightarrow> fail (''server rejected channel message: '' @ message)
      | _ \<Rightarrow> ok ())"

definition send_encrypted_to_server ::
  "('w, 'k, 'p, 'r) platform \<Rightarrow> string \<Rightarrow> string \<Rightarrow> bytes \<Rightarrow> u64 \<Rightarrow> int \<Rightarrow> bytes \<Rightarrow> ('w, 'p, 'r, unit) act" where
  "send_encrypted_to_server pf channel_id community_id ciphertext gen timestamp route_blob =
     io_bind (gets (\<lambda>c. (c_node c, c_identity_secret c))) (\<lambda>(node, secret).
     if \<not> is_online_node node then ok ()
     else
       io_bind (describe ''failed to serialize request: '' (map_error ClientError (from_result
         (to_json (pf_request_json pf) (SendMessage channel_id ciphertext gen))))) (\<lambda>request_bytes.
       case secret of
         None \<Rightarrow> ok ()
       | Some sk \<Rightarrow>
           io_bind (draw 24) (\<lambda>nonce.
           let envelope = build_envelope (pf_public_of pf) (pf_sign pf) (pf_pseudonym_secret pf sk community_id)
                 (word_of_int timestamp) nonce request_bytes
           in
           io_bind (gets c_dht) (\<lambda>dht.
           io_bind (case dht of
               Some h \<Rightarrow> import_peer_route pf h route_blob
             | None \<Rightarrow> result (veilid (pf_import pf route_blob))) (\<lambda>imported.
           case imported of
             Inl e \<Rightarrow> fail (''failed to import server route: '' @ e)
           | Inr route_id \<Rightarrow>
               io_bind (result (protocol (send_call pf route_id envelope))) (\<lambda>r.
               case r of
                 Inr response_bytes \<Rightarrow> check_server_response pf response_bytes
               | Inl e \<Rightarrow>
                   io_bind (edit_manager (invalidate_route_blob route_blob)) (\<lambda>_.
                   io_bind (modify (\<lambda>c. c\<lparr>c_communities := AList.map_entry community_id
                     (\<lambda>cc. cc\<lparr>cc_server_route_blob := None\<rparr>) (c_communities c)\<rparr>)) (\<lambda>_.
                   fail (''failed to send channel message to server: '' @ e)))))))))"

definition max_retries :: int where "max_retries = 20"

definition retry_single_pending ::
  "('w, 'k, 'p, 'r) platform \<Rightarrow> queued_row \<Rightarrow> ('w, 'p, 'r, unit) act" where
  "retry_single_pending pf q =
     (let i = qr_id q; body = as_bytes (qr_body q)
      in if max_retries \<le> qr_retry_count q then delete_pending_message pf i
      else case from_json (pf_envelope_json pf) body of
        Inr envelope \<Rightarrow> retry_pending_dm pf i (qr_recipient q) envelope
      | Inl e \<Rightarrow>
          (case from_json (pf_channel_json pf) body of
             Inl e \<Rightarrow> delete_pending_message pf i
           | Inr m \<Rightarrow>
               io_bind (gets (\<lambda>c. Option.bind (map_of (c_communities c) (pcm_community_id m))
                 cc_server_route_blob)) (\<lambda>route.
               case route of
                 None \<Rightarrow> increment_retry_count pf i
               | Some route_blob \<Rightarrow>
                   io_bind (result (send_encrypted_to_server pf (pcm_channel_id m) (pcm_community_id m)
                     (pcm_ciphertext m) (pcm_mek_generation m) (pcm_timestamp m) route_blob)) (\<lambda>sent.
                   case sent of
                     Inr _ \<Rightarrow> delete_pending_message pf i
                   | Inl e \<Rightarrow> increment_retry_count pf i))))"

definition retry_pending_messages :: "('w, 'k, 'p, 'r) platform \<Rightarrow> ('w, 'p, 'r, unit) act" where
  "retry_pending_messages pf =
     io_bind (gets owner_of) (\<lambda>owner.
     io_bind (query [] (select_queued owner)) (\<lambda>pending.
     for_each (retry_single_pending pf) pending))"

section \<open>Conversations\<close>

text \<open>
  The key of a conversation as this service derives it: the bytes of the friend's public key are
  taken for the secret of an identity.
\<close>

definition sync_conversation_key :: "('w, 'k, 'p, 'r) platform \<Rightarrow> bytes \<Rightarrow> bytes \<Rightarrow> bytes" where
  "sync_conversation_key pf my_secret friend_key =
     derive_conversation_key (pf_crypto pf) (pf_x25519_secret pf my_secret)
       (x25519_public (pf_crypto pf) (pf_x25519_secret pf friend_key))"

definition apply_conversation_header ::
  "('w, 'k, 'p, 'r) platform \<Rightarrow> string \<Rightarrow> conversation_header \<Rightarrow> ('w, 'p, 'r, unit) act" where
  "apply_conversation_header pf friend_key header =
     io_bind (when_act (cv_route_blob header \<noteq> []) (cache_peer_route pf friend_key (cv_route_blob header))) (\<lambda>_.
     edit_friend_state friend_key (\<lambda>f. f\<lparr>
       fs_display_name := (if up_display_name (cv_profile header) \<noteq> []
         then up_display_name (cv_profile header) else fs_display_name f),
       fs_status_message := (if up_status_message (cv_profile header) \<noteq> []
         then Some (up_status_message (cv_profile header)) else fs_status_message f)\<rparr>))"

definition sync_single_conversation ::
  "('w, 'k, 'p, 'r) platform \<Rightarrow> bytes \<Rightarrow> string \<Rightarrow> string \<Rightarrow> ('w, 'p, 'r, unit) act" where
  "sync_single_conversation pf my_secret friend_key remote_conv_key =
     (case hex_decode friend_key of
        None \<Rightarrow> ok ()
      | Some friend_bytes \<Rightarrow>
          if length friend_bytes \<noteq> 32 then ok ()
          else
            io_bind (result (protocol (conversation_open_read (pf_rc pf) (pf_conversation pf) remote_conv_key
              (sync_conversation_key pf my_secret friend_bytes)))) (\<lambda>opened.
            case opened of
              Inl e \<Rightarrow> ok ()
            | Inr conv \<Rightarrow>
                io_bind (edit_dht (track_open_record remote_conv_key)) (\<lambda>_.
                io_bind (result (protocol (conversation_read_header (pf_rc pf) (pf_conversation pf) conv))) (\<lambda>r.
                io_bind (case r of
                    Inl e \<Rightarrow> ok ()
                  | Inr header \<Rightarrow> apply_conversation_header pf friend_key header) (\<lambda>_.
                ignore (protocol (conversation_close (pf_rc pf) conv)))))))"

definition friends_with_conversations :: "('w, 'p, 'r) client \<Rightarrow> (string \<times> string) list" where
  "friends_with_conversations c = List.map_filter
     (\<lambda>f. map_option (\<lambda>k. (fs_public_key f, k)) (fs_remote_conversation_key f)) (map snd (c_friends c))"

definition sync_conversations :: "('w, 'k, 'p, 'r) platform \<Rightarrow> ('w, 'p, 'r, unit) act" where
  "sync_conversations pf =
     io_bind (gets id) (\<lambda>c.
     if \<not> is_online_node (c_node c) then ok ()
     else case c_identity_secret c of
       None \<Rightarrow> ok ()
     | Some secret \<Rightarrow>
         for_each (\<lambda>(friend_key, conv_key). sync_single_conversation pf secret friend_key conv_key)
           (friends_with_conversations c))"

end
