(* ===== verification/ChatCommands.thy ===== *)
theory ChatCommands
  imports Outgoing PresenceService
begin

text \<open>
  The commands of a chat window (\<open>src-tauri/src/commands/chat.rs\<close>), of the own status and profile
  (\<open>commands/status.rs\<close>), and the service that sets the status to away while the user is idle
  (\<open>services/idle_service.rs\<close>); how the operating system measures idleness is an argument.
\<close>

section \<open>Chat\<close>

definition send_chat_message ::
  "('w, 'k, 'p, 'r) platform \<Rightarrow> string \<Rightarrow> string \<Rightarrow> ('w, 'p, 'r, unit) act" where
  "send_chat_message pf peer body =
     io_bind current_owner_key (\<lambda>owner.
     io_bind (gets millis_i64) (\<lambda>timestamp.
     io_bind (execute pf [] (insert_dm owner peer ''dm'' owner body timestamp True)) (\<lambda>_.
     io_bind (ignore (send_dm pf peer body)) (\<lambda>_.
     emit_event (ChatEvent (EvMessageAck (word_of_int timestamp)))))))"

definition send_typing :: "('w, 'k, 'p, 'r) platform \<Rightarrow> string \<Rightarrow> bool \<Rightarrow> ('w, 'p, 'r, unit) act" where
  "send_typing pf peer typing =
     io_bind (gets c_identity) (\<lambda>identity.
     io_bind (ok_or ''not logged in'' identity) (\<lambda>_.
     send_typing_indicator pf peer typing))"

definition chat_message_of :: "string \<Rightarrow> dm_row \<Rightarrow> chat_message" where
  "chat_message_of our_key r =
     \<lparr>hm_id = xm_id r, hm_sender_id = xm_sender_key r, hm_body = xm_body r, hm_timestamp = xm_timestamp r,
      hm_is_own = (xm_sender_key r = our_key)\<rparr>"

definition get_message_history :: "string \<Rightarrow> u32 \<Rightarrow> ('w, 'p, 'r, chat_message list) act" where
  "get_message_history peer limit =
     io_bind (gets owner_of) (\<lambda>our_key.
     io_bind (query [] (select_dms our_key peer (unat limit))) (\<lambda>rows.
     ok (map (chat_message_of our_key) rows)))"

definition prepare_chat_session ::
  "('w, 'k, 'p, 'r) platform \<Rightarrow> string \<Rightarrow> ('w, 'p, 'r, unit) act" where
  "prepare_chat_session pf peer =
     io_bind (gets (\<lambda>c. (friend_dht_key c peer, c_node c))) (\<lambda>(dht_key, node).
     case dht_key of
       None \<Rightarrow> ok ()
     | Some key \<Rightarrow>
         io_bind (describe ''invalid DHT key: '' (parse_key pf key)) (\<lambda>record_key.
         io_bind (ok_or ''node not initialized'' node) (\<lambda>nh.
         if \<not> nh_is_attached nh then ok ()
         else
           io_bind (ignore (veilid (rc_open (pf_rc pf) record_key None))) (\<lambda>_.
           io_bind (result (veilid (rc_get (pf_rc pf) record_key 6 True))) (\<lambda>v.
           case v of
             Inr (Some (b # bs)) \<Rightarrow> cache_peer_route pf peer (b # bs)
           | _ \<Rightarrow> ok ())))))"

definition mark_read :: "('w, 'k, 'p, 'r) platform \<Rightarrow> string \<Rightarrow> ('w, 'p, 'r, unit) act" where
  "mark_read pf peer =
     io_bind current_owner_key (\<lambda>owner.
     io_bind (modify (\<lambda>c. c\<lparr>c_friends := AList.map_entry peer (\<lambda>f. f\<lparr>fs_unread_count := 0\<rparr>) (c_friends c)\<rparr>)) (\<lambda>_.
     execute pf [] (mark_dms_read owner peer)))"

section \<open>Status and profile\<close>

definition status_of_name :: "string \<Rightarrow> user_status option" where
  "status_of_name s =
     (if s = ''online'' then Some Online else if s = ''away'' then Some Away
      else if s = ''busy'' then Some Busy else if s = ''offline'' then Some Offline else None)"

definition set_own_status :: "user_status \<Rightarrow> ('w, 'p, 'r, unit) act" where
  "set_own_status status = modify (\<lambda>c. c\<lparr>c_identity := map_option (\<lambda>i. i\<lparr>is_status := status\<rparr>) (c_identity c)\<rparr>)"

definition set_status :: "('w, 'k, 'p, 'r) platform \<Rightarrow> string \<Rightarrow> ('w, 'p, 'r, unit) act" where
  "set_status pf name =
     (case status_of_name name of
        None \<Rightarrow> fail (''invalid status: '' @ name)
      | Some status \<Rightarrow>
          io_bind (set_own_status status) (\<lambda>_.
          io_bind (modify (\<lambda>c. c\<lparr>c_pre_away := None\<rparr>)) (\<lambda>_.
          publish_own_status pf status)))"

definition set_nickname :: "('w, 'k, 'p, 'r) platform \<Rightarrow> string \<Rightarrow> ('w, 'p, 'r, unit) act" where
  "set_nickname pf nickname =
     io_bind (gets c_identity) (\<lambda>identity.
     io_bind (ok_or ''not logged in'' identity) (\<lambda>i.
     io_bind (modify (\<lambda>c. c\<lparr>c_identity := Some (i\<lparr>is_display_name := nickname\<rparr>)\<rparr>)) (\<lambda>_.
     io_bind (execute pf [] (update_identity (is_public_key i)
       (\<lambda>r. r\<lparr>ir_display_name := Some nickname\<rparr>))) (\<lambda>_.
     io_bind (emit_event ProfileUpdated) (\<lambda>_.
     push_profile_update pf 0 (as_bytes nickname))))))"

text \<open>Compression of the image is done by a library, its result or error is an argument.\<close>

definition set_avatar ::
  "('w, 'k, 'p, 'r) platform \<Rightarrow> string + bytes \<Rightarrow> ('w, 'p, 'r, unit) act" where
  "set_avatar pf compressed =
     io_bind (map_error ClientError (from_result compressed)) (\<lambda>webp_bytes.
     io_bind (gets c_identity) (\<lambda>identity.
     io_bind (ok_or ''not logged in'' identity) (\<lambda>i.
     io_bind (execute pf [] (update_identity (is_public_key i) (\<lambda>r. r\<lparr>ir_avatar := Some webp_bytes\<rparr>))) (\<lambda>_.
     io_bind (emit_event ProfileUpdated) (\<lambda>_.
     push_profile_update pf 3 webp_bytes)))))"

definition get_avatar :: "string \<Rightarrow> ('w, 'p, 'r, bytes option) act" where
  "get_avatar public_key =
     io_bind (gets owner_of) (\<lambda>owner.
     io_bind (result (query [] (\<lambda>d. Option.bind (row_lookup ir_public_key (ct_identity d) public_key) ir_avatar)))
       (\<lambda>own.
     case own of
       Inr (Some a) \<Rightarrow> ok (Some a)
     | _ \<Rightarrow>
         io_bind (result (query [] (\<lambda>d. Option.bind (row_lookup friend_pk (ct_friends d) (owner, public_key))
           fw_avatar))) (\<lambda>friend.
         ok (case friend of Inr a \<Rightarrow> a | Inl e \<Rightarrow> None))))"

definition set_status_message :: "('w, 'k, 'p, 'r) platform \<Rightarrow> string \<Rightarrow> ('w, 'p, 'r, unit) act" where
  "set_status_message pf message =
     io_bind (modify (\<lambda>c. c\<lparr>c_identity := map_option (\<lambda>i. i\<lparr>is_status_message := message\<rparr>) (c_identity c)\<rparr>)) (\<lambda>_.
     push_profile_update pf 1 (as_bytes message))"

section \<open>Away when idle\<close>

definition emit_status_change :: "user_status \<Rightarrow> ('w, 'p, 'r, unit) act" where
  "emit_status_change status =
     io_bind (gets owner_of) (\<lambda>key. emit_presence (StatusChanged key (status_name status) None))"

text \<open>
  One tick, every 30 seconds: \<open>minutes\<close> is the preference \<open>autoAwayMinutes\<close>, 0 turns the service
  off; \<open>idle\<close> is the idle time in seconds when it can be measured.
\<close>

definition idle_tick ::
  "('w, 'k, 'p, 'r) platform \<Rightarrow> u32 \<Rightarrow> u64 option \<Rightarrow> ('w, 'p, 'r, unit) act" where
  "idle_tick pf minutes idle =
     (if minutes = 0 then ok ()
      else case idle of
        None \<Rightarrow> ok ()
      | Some idle_secs \<Rightarrow>
          io_bind (gets (\<lambda>c. (map_option is_status (c_identity c), c_pre_away c))) (\<lambda>(current, pre_away).
          let threshold = ucast minutes * (60 :: u64)
          in if threshold \<le> idle_secs \<and> current = Some Online \<and> pre_away = None then
               io_bind (modify (\<lambda>c. c\<lparr>c_pre_away := Some Online\<rparr>)) (\<lambda>_.
               io_bind (set_own_status Away) (\<lambda>_.
               io_bind (ignore (publish_own_status pf Away)) (\<lambda>_.
               emit_status_change Away)))
             else if idle_secs < threshold \<and> pre_away \<noteq> None then
               let restore = (case pre_away of Some s \<Rightarrow> s | None \<Rightarrow> Online)
               in io_bind (modify (\<lambda>c. c\<lparr>c_pre_away := None\<rparr>)) (\<lambda>_.
                  io_bind (set_own_status restore) (\<lambda>_.
                  io_bind (ignore (publish_own_status pf restore)) (\<lambda>_.
                  emit_status_change restore)))
             else ok ()))"

end
