(* ===== verification/ClientRules.thy ===== *)
theory ClientRules
  imports FriendCommands SyncService ChatCommands
begin

text \<open>
  How the steps of the client are reasoned about: weakest preconditions of the primitives, and the
  parts of the state a step leaves alone. \<open>evolves E R m\<close> says that \<open>m\<close> relates every state to its
  successor by \<open>R\<close> and that its errors satisfy \<open>E\<close>; for a preorder this goes through all
  combinators. The relation that matters most is \<open>background\<close>: sending, watching and importing
  routes change the network, the cache, the queue and the sessions, but nothing else.
\<close>

section \<open>Weakest preconditions\<close>

lemma outcome_gets [wp]: "outcome (gets f) Q E = (\<lambda>c. Q (f c) c)"
  by (simp add: fun_eq_iff outcome_def gets_def)

lemma outcome_modify [wp]: "outcome (modify f) Q E = (\<lambda>c. Q () (f c))"
  by (simp add: fun_eq_iff outcome_def modify_def)

lemma outcome_fail [wp]: "outcome (fail e) Q E = E (ClientError e)"
  by (simp add: fail_def wp)

lemma outcome_ok_or [wp]:
  "outcome (ok_or e x) Q E = (case x of None \<Rightarrow> E (ClientError e) | Some y \<Rightarrow> Q y)"
  by (simp add: ok_or_def wp split: option.split)

lemma outcome_result [wp]:
  "outcome (result m) Q E =
     outcome m (\<lambda>x. Q (Inr x)) (\<lambda>e. case e of ClientError t \<Rightarrow> Q (Inl t) | ClientPanic p \<Rightarrow> E e)"
  by (simp add: fun_eq_iff outcome_def result_def split: prod.split sum.split client_error.split)

lemma outcome_ignore [wp]:
  "outcome (ignore m) Q E =
     outcome m (\<lambda>_. Q ()) (\<lambda>e. case e of ClientError t \<Rightarrow> Q () | ClientPanic p \<Rightarrow> E e)"
  by (simp add: ignore_def wp)

lemma outcome_when_act [wp]: "outcome (when_act b m) Q E = (if b then outcome m Q E else Q ())"
  by (simp add: when_act_def wp)

lemma outcome_describe [wp]:
  "outcome (describe w m) Q E =
     outcome m Q (\<lambda>e. E (case e of ClientError t \<Rightarrow> ClientError (w @ t) | ClientPanic p \<Rightarrow> ClientPanic p))"
  by (simp add: describe_def wp)

lemmas client_steps = emit_event_def emit_chat_def emit_presence_def set_friend_def edit_friend_state_def
  drop_friend_def edit_dht_def edit_manager_def current_owner_key_def

lemma outcome_draw [wp]:
  "outcome (draw n) Q E = (\<lambda>c. Q (map (\<lambda>i. c_random c (c_drawn c + i)) [0..<n]) (c\<lparr>c_drawn := c_drawn c + n\<rparr>))"
  by (simp add: fun_eq_iff outcome_def draw_def)

lemma outcome_execute_clean:
  "c_faults c = [] \<Longrightarrow> outcome (execute pf w stmt) Q E c =
     (case stmt (c_db c) of None \<Rightarrow> E (ClientError (w @ pf_violation pf)) c | Some d \<Rightarrow> Q () (c\<lparr>c_db := d\<rparr>))"
  by (simp add: outcome_def execute_def pop_client_fault_def split: option.split)

lemma outcome_query_clean:
  "c_faults c = [] \<Longrightarrow> outcome (query w q) Q E c = Q (q (c_db c)) c"
  by (simp add: outcome_def query_def pop_client_fault_def)

lemma outcome_veilid [wp]:
  "outcome (veilid m) Q E = (\<lambda>c. outcome m (\<lambda>x w. Q x (c\<lparr>c_net := w\<rparr>))
     (\<lambda>e w. E (ClientError e) (c\<lparr>c_net := w\<rparr>)) (c_net c))"
  by (simp add: fun_eq_iff outcome_def veilid_def split: prod.split sum.split)

lemma outcome_for_each_inv:
  assumes "\<And>x s. x \<in> set xs \<Longrightarrow> I s \<Longrightarrow> outcome (f x) (\<lambda>_. I) E s" and "I s"
  shows "outcome (for_each f xs) (\<lambda>_. I) E s"
  using assms
proof (induction xs arbitrary: s)
  case Nil
  then show ?case by (simp add: wp)
next
  case (Cons x xs)
  have "outcome (f x) (\<lambda>_. I) E s" using Cons.prems by simp
  then show ?case unfolding for_each.simps wp
  proof (rule outcome_mono)
    show "outcome (for_each f xs) (\<lambda>_. I) E s'" if "I s'" for s'
      by (rule Cons.IH) (use Cons.prems that in auto)
  qed
qed

section \<open>What a step leaves alone\<close>

definition evolves :: "('e \<Rightarrow> bool) \<Rightarrow> ('s \<Rightarrow> 's \<Rightarrow> bool) \<Rightarrow> ('s, 'e, 'a) io \<Rightarrow> bool" where
  "evolves E R m \<longleftrightarrow> (\<forall>s. outcome m (\<lambda>_. R s) (\<lambda>e s'. E e \<and> R s s') s)"

named_theorems evolve \<open>steps that stay within a relation\<close>

lemma evolvesI: "(\<And>s. outcome m (\<lambda>_. R s) (\<lambda>e s'. E e \<and> R s s') s) \<Longrightarrow> evolves E R m"
  by (simp add: evolves_def)

lemma evolvesD: "evolves E R m \<Longrightarrow> outcome m (\<lambda>_. R s) (\<lambda>e s'. E e \<and> R s s') s"
  by (simp add: evolves_def)

lemma evolves_outcome:
  assumes "evolves E R m" and "\<And>x s'. R s s' \<Longrightarrow> Q x s'" and "\<And>e s'. E e \<Longrightarrow> R s s' \<Longrightarrow> F e s'"
  shows "outcome m Q F s"
  by (rule outcome_mono [OF evolvesD [OF assms(1)]]) (auto intro: assms(2,3))

lemma evolves_snd: "evolves E R m \<Longrightarrow> R s (snd (m s))"
  by (drule evolvesD [of _ _ _ s]) (auto simp: outcome_def split: prod.splits sum.splits)

locale state_preorder =
  fixes R :: "'s \<Rightarrow> 's \<Rightarrow> bool"
    and E :: "'e \<Rightarrow> bool"
  assumes state_refl: "R s s"
    and state_trans: "R s t \<Longrightarrow> R t u \<Longrightarrow> R s u"
begin

lemma ev_ok [evolve]: "evolves E R (ok x)"
  by (simp add: evolves_def wp state_refl)

lemma ev_throw [evolve]: "E e \<Longrightarrow> evolves E R (throw e)"
  by (simp add: evolves_def wp state_refl)

lemma ev_bind [evolve]:
  assumes "evolves E R m" and "\<And>x. evolves E R (f x)"
  shows "evolves E R (io_bind m f)"
proof (rule evolvesI)
  fix s
  show "outcome (io_bind m f) (\<lambda>_. R s) (\<lambda>e s'. E e \<and> R s s') s"
    unfolding wp
  proof (rule outcome_mono [OF evolvesD [OF assms(1)]])
    fix x s'
    assume "R s s'"
    then show "outcome (f x) (\<lambda>_. R s) (\<lambda>e s'. E e \<and> R s s') s'"
      by (rule_tac outcome_mono [OF evolvesD [OF assms(2)]]) (auto intro: state_trans)
  qed auto
qed

lemma ev_from_result: "(\<And>e. r = Inl e \<Longrightarrow> E e) \<Longrightarrow> evolves E R (from_result r)"
  by (cases r) (simp_all add: evolves_def wp state_refl)

lemma ev_for_each [evolve]:
  assumes "\<And>x. evolves E R (f x)"
  shows "evolves E R (for_each f xs)"
  by (induction xs) (auto intro!: evolve assms)

lemma ev_if [evolve]: "(b \<Longrightarrow> evolves E R m) \<Longrightarrow> (\<not> b \<Longrightarrow> evolves E R n) \<Longrightarrow> evolves E R (if b then m else n)"
  by simp

lemma ev_option [evolve]:
  "(x = None \<Longrightarrow> evolves E R m) \<Longrightarrow> (\<And>y. x = Some y \<Longrightarrow> evolves E R (f y)) \<Longrightarrow>
   evolves E R (case x of None \<Rightarrow> m | Some y \<Rightarrow> f y)"
  by (cases x) auto

lemma ev_sum [evolve]:
  "(\<And>y. x = Inl y \<Longrightarrow> evolves E R (f y)) \<Longrightarrow> (\<And>y. x = Inr y \<Longrightarrow> evolves E R (g y)) \<Longrightarrow>
   evolves E R (case x of Inl y \<Rightarrow> f y | Inr y \<Rightarrow> g y)"
  by (cases x) auto

lemma ev_prod [evolve]:
  "(\<And>a b. x = (a, b) \<Longrightarrow> evolves E R (f a b)) \<Longrightarrow> evolves E R (case x of (a, b) \<Rightarrow> f a b)"
  by (cases x) auto

lemma ev_list [evolve]:
  "(x = [] \<Longrightarrow> evolves E R m) \<Longrightarrow> (\<And>y ys. x = y # ys \<Longrightarrow> evolves E R (f y ys)) \<Longrightarrow>
   evolves E R (case x of [] \<Rightarrow> m | y # ys \<Rightarrow> f y ys)"
  by (cases x) auto

lemma ev_bool [evolve]:
  "(x \<Longrightarrow> evolves E R m) \<Longrightarrow> (\<not> x \<Longrightarrow> evolves E R n) \<Longrightarrow>
   evolves E R (case x of True \<Rightarrow> m | False \<Rightarrow> n)"
  by (cases x) auto

end

text \<open>The combinators of the client add nothing to the errors but texts.\<close>

definition plain_error :: "client_error \<Rightarrow> bool" where
  "plain_error e \<longleftrightarrow> (case e of ClientError t \<Rightarrow> True | ClientPanic p \<Rightarrow> False)"

lemma plain_error_simps [simp]: "plain_error (ClientError t)" "\<not> plain_error (ClientPanic p)"
  by (simp_all add: plain_error_def)

locale client_preorder = state_preorder R E
  for R :: "('w, 'p, 'r) client \<Rightarrow> ('w, 'p, 'r) client \<Rightarrow> bool" and E :: "client_error \<Rightarrow> bool" +
  assumes texts: "E (ClientError t)"
begin

lemma ev_gets [evolve]: "evolves E R (gets f)"
  by (simp add: evolves_def wp state_refl)

lemma ev_fail [evolve]: "evolves E R (fail e)"
  by (simp add: evolves_def wp state_refl texts)

lemma ev_ok_or [evolve]: "evolves E R (ok_or e x)"
  by (simp add: evolves_def wp state_refl texts split: option.split)

lemma ev_modify: "(\<And>c. R c (f c)) \<Longrightarrow> evolves E R (modify f)"
  by (simp add: evolves_def wp)

lemma ev_result [evolve]: "evolves E R m \<Longrightarrow> evolves E R (result m)"
  by (rule evolvesI, unfold wp, erule evolves_outcome) (auto split: client_error.split)

lemma ev_ignore [evolve]: "evolves E R m \<Longrightarrow> evolves E R (ignore m)"
  by (rule evolvesI, unfold wp, erule evolves_outcome) (auto split: client_error.split)

lemma ev_when_act [evolve]: "(b \<Longrightarrow> evolves E R m) \<Longrightarrow> evolves E R (when_act b m)"
  by (simp add: when_act_def ev_ok)

lemma ev_describe [evolve]:
  "evolves E R m \<Longrightarrow> evolves E R (describe w m)"
  by (rule evolvesI, unfold wp, erule evolves_outcome) (auto simp: texts split: client_error.split)

lemma ev_text_result [evolve]: "evolves E R (map_error ClientError (from_result r))"
  by (cases r) (simp_all add: evolves_def wp texts state_refl)

end

lemma evolves_mono:
  assumes "evolves E R m" and "\<And>s s'. R s s' \<Longrightarrow> R' s s'" and "\<And>e. E e \<Longrightarrow> E' e"
  shows "evolves E' R' m"
  by (rule evolvesI, rule evolves_outcome [OF assms(1)]) (auto intro: assms(2,3))

text \<open>A caught text is no error any more.\<close>

lemma evolves_result_sure: "evolves plain_error R m \<Longrightarrow> evolves (\<lambda>_. False) R (result m)"
  by (rule evolvesI, unfold wp, erule evolves_outcome) (auto simp: plain_error_def split: client_error.splits)

section \<open>Work in the background\<close>

text \<open>Everything but the network, the route cache, the queue, the sessions and the random bytes used.\<close>

definition foreground :: "('w, 'p, 'r) client \<Rightarrow> _" where
  "foreground c = (c_identity c, c_identity_secret c, c_friends c, c_communities c, c_node c, c_unwatched c,
     c_routing c, c_mek_cache c, c_vault c, c_snapshots c, c_pre_away c, c_events c, c_random c, c_clock c, c_instant c,
     (c_db c)\<lparr>ct_queue := [], ct_last_queued := 0\<rparr>)"

definition background :: "('w, 'p, 'r) client \<Rightarrow> ('w, 'p, 'r) client \<Rightarrow> bool" where
  "background c c' \<longleftrightarrow> foreground c' = foreground c \<and> (c_faults c = [] \<longrightarrow> c_faults c' = []) \<and>
     c_dht c' = None = (c_dht c = None) \<and> c_signal c' = None = (c_signal c = None)"

text \<open>Work that does not touch the database either.\<close>

definition offstage :: "('w, 'p, 'r) client \<Rightarrow> ('w, 'p, 'r) client \<Rightarrow> bool" where
  "offstage c c' \<longleftrightarrow> background c c' \<and> c_db c' = c_db c \<and> c_faults c' = c_faults c"

lemma background_parts:
  assumes "background c c'"
  shows "c_identity c' = c_identity c" "c_identity_secret c' = c_identity_secret c"
    "c_friends c' = c_friends c" "c_communities c' = c_communities c" "c_node c' = c_node c"
    "c_unwatched c' = c_unwatched c" "c_routing c' = c_routing c" "c_mek_cache c' = c_mek_cache c"
    "c_vault c' = c_vault c" "c_snapshots c' = c_snapshots c" "c_pre_away c' = c_pre_away c" "c_events c' = c_events c"
    "c_random c' = c_random c" "c_clock c' = c_clock c" "c_instant c' = c_instant c"
    "c_faults c = [] \<Longrightarrow> c_faults c' = []"
    "c_dht c' = None \<longleftrightarrow> c_dht c = None" "c_signal c' = None \<longleftrightarrow> c_signal c = None"
  using assms by (simp_all add: background_def foreground_def)

lemma background_tables:
  assumes "background c c'"
  shows "ct_identity (c_db c') = ct_identity (c_db c)" "ct_groups (c_db c') = ct_groups (c_db c)"
    "ct_friends (c_db c') = ct_friends (c_db c)" "ct_messages (c_db c') = ct_messages (c_db c)"
    "ct_requests (c_db c') = ct_requests (c_db c)" "ct_blocked (c_db c') = ct_blocked (c_db c)"
    "ct_communities (c_db c') = ct_communities (c_db c)" "ct_channels (c_db c') = ct_channels (c_db c)"
    "ct_members (c_db c') = ct_members (c_db c)" "ct_roles (c_db c') = ct_roles (c_db c)"
    "ct_overwrites (c_db c') = ct_overwrites (c_db c)" "ct_last_message (c_db c') = ct_last_message (c_db c)" "ct_last_group (c_db c') = ct_last_group (c_db c)"
  using assms
  by (cases "c_db c"; cases "c_db c'"; simp add: background_def foreground_def)+

lemma background_derived:
  assumes "background c c'"
  shows "owner_of c' = owner_of c" "friend_of c' k = friend_of c k" "friend_dht_key c' k = friend_dht_key c k"
    "has_state st k c' = has_state st k c" "millis_i64 c' = millis_i64 c" "millis_u64 c' = millis_u64 c"
    "listed_friends c' = listed_friends c"
  using background_parts [OF assms]
  by (simp_all add: owner_of_def friend_of_def friend_dht_key_def has_state_def millis_i64_def millis_u64_def
      listed_friends_def)

interpretation calm: client_preorder background plain_error
  by unfold_locales (auto simp: background_def)

interpretation quiet: client_preorder offstage plain_error
  by unfold_locales (auto simp: offstage_def background_def)

interpretation working: client_preorder background "\<lambda>_. True"
  by unfold_locales (auto simp: background_def)

lemma quiet_calm: "evolves plain_error offstage m \<Longrightarrow> evolves plain_error background m"
  by (erule evolves_mono) (simp_all add: offstage_def)

lemma calm_working: "evolves plain_error background m \<Longrightarrow> evolves (\<lambda>_. True) background m"
  by (erule evolves_mono) auto

lemma quiet_draw [evolve]: "evolves plain_error offstage (draw n)"
  by (simp add: evolves_def wp offstage_def background_def foreground_def)

lemma quiet_veilid [evolve]: "evolves plain_error offstage (veilid m)"
proof (rule evolvesI)
  fix c :: "('a, 'b, 'c) client"
  show "outcome (veilid m) (\<lambda>_. offstage c) (\<lambda>e s'. plain_error e \<and> offstage c s') c"
    by (auto simp: outcome_def veilid_def offstage_def background_def foreground_def split: prod.split sum.split)
qed

lemma quiet_protocol [evolve]: "evolves plain_error offstage (protocol m)"
  by (simp add: protocol_def quiet_veilid)

lemma quiet_edit_dht [evolve]: "evolves plain_error offstage (edit_dht f)"
  by (simp add: edit_dht_def evolves_def wp offstage_def background_def foreground_def)

lemma quiet_edit_manager [evolve]: "evolves plain_error offstage (edit_manager f)"
  by (simp add: edit_manager_def quiet_edit_dht)

lemma quiet_cache_peer_route [evolve]: "evolves plain_error offstage (cache_peer_route pf peer blob)"
  by (auto simp: evolves_def outcome_def cache_peer_route_def offstage_def background_def foreground_def
      split: option.split prod.split)

text \<open>The manager is there where a route is imported.\<close>

lemma outcome_import_peer_route:
  assumes "c_dht c = Some h"
    and "\<And>r dm w. get_or_import_route (pf_import pf) (c_instant c) blob (dh_manager h) (c_net c) = (r, dm, w) \<Longrightarrow>
      Q (case r of Inl e \<Rightarrow> Inl (show_protocol_error e) | Inr i \<Rightarrow> Inr i) (c\<lparr>c_dht := Some (h\<lparr>dh_manager := dm\<rparr>), c_net := w\<rparr>)"
  shows "outcome (import_peer_route pf h blob) Q E c"
  using assms by (auto simp: outcome_def import_peer_route_def split: prod.split)

lemma import_offstage:
  assumes "c_dht c = Some h" and "\<And>x c'. offstage c c' \<Longrightarrow> c_dht c' \<noteq> None \<Longrightarrow> Q x c'"
  shows "outcome (import_peer_route pf h blob) Q E c"
  by (rule outcome_import_peer_route [OF assms(1)], rule assms(2))
    (simp_all add: offstage_def background_def foreground_def assms(1))

lemma pop_client_fault_background: "pop_client_fault c = (f, c') \<Longrightarrow> background c c' \<and> c_db c' = c_db c"
  by (auto simp: pop_client_fault_def background_def foreground_def split: list.splits)

lemma calm_execute:
  assumes "\<And>d d'. stmt d = Some d' \<Longrightarrow> d'\<lparr>ct_queue := [], ct_last_queued := 0\<rparr> = d\<lparr>ct_queue := [], ct_last_queued := 0\<rparr>"
  shows "evolves plain_error background (execute pf w stmt)"
proof (rule evolvesI)
  fix c :: "('a, 'b, 'c) client"
  obtain f c1 where p: "pop_client_fault c = (f, c1)" by fastforce
  note b = pop_client_fault_background [OF p]
  have "background c (c1\<lparr>c_db := d\<rparr>)" if "stmt (c_db c1) = Some d" for d
    using b assms [OF that] by (simp add: background_def foreground_def)
  then show "outcome (execute pf w stmt) (\<lambda>_. background c) (\<lambda>e s'. plain_error e \<and> background c s') c"
    using b by (auto simp: outcome_def execute_def p split: option.splits)
qed

lemma calm_query [evolve]: "evolves plain_error background (query w q)"
  by (auto simp: evolves_def outcome_def query_def split: prod.split option.split
      dest: pop_client_fault_background)

lemma calm_queue_pending_message [evolve]: "evolves plain_error background (queue_pending_message pf k b)"
  unfolding queue_pending_message_def
  by (intro evolve calm_execute) (auto simp: insert_queued_def split: if_splits)

lemma calm_delete_pending_messages [evolve]:
  "evolves plain_error background (delete_pending_messages_to_recipient pf k)"
  unfolding delete_pending_messages_to_recipient_def
  by (intro evolve calm_execute) (auto simp: delete_queued_to_def)

lemma working_signal_call [evolve]: "evolves (\<lambda>_. True) background (signal_call m)"
  by (auto simp: evolves_def outcome_def signal_call_def background_def foreground_def
      split: option.split prod.split sum.split crypto_failure.split)

section \<open>Sending\<close>

lemmas background_trans = calm.state_trans
lemmas background_refl = calm.state_refl

lemma sure_cached_route_id:
  fixes pf :: "('w, 'k, 'p, 'r) platform"
  shows "evolves (\<lambda>_. False) offstage (cached_route_id pf peer)"
proof (rule evolvesI)
  fix c :: "('w, 'p, 'r) client"
  show "outcome (cached_route_id pf peer) (\<lambda>_. offstage c) (\<lambda>e s'. False \<and> offstage c s') c"
  proof (cases "c_dht c")
    case None
    then show ?thesis by (simp add: cached_route_id_def wp quiet.state_refl)
  next
    case (Some h)
    show ?thesis
    proof (cases "get_cached_route (dh_manager h) peer")
      case None
      with Some show ?thesis by (simp add: cached_route_id_def wp quiet.state_refl)
    next
      case (Some blob)
      show ?thesis
        unfolding cached_route_id_def wp \<open>c_dht c = Some h\<close> option.case Some
      proof (rule import_offstage [OF \<open>c_dht c = Some h\<close>])
        fix x :: "string + 'r" and c1
        assume "offstage c c1"
        then show "outcome (case x of Inl e \<Rightarrow> io_bind (edit_manager (invalidate_route_for_peer peer)) (\<lambda>_. ok None)
            | Inr route_id \<Rightarrow> ok (Some route_id)) (\<lambda>_. offstage c) (\<lambda>e s'. False \<and> offstage c s') c1"
          by (cases x) (auto simp: wp edit_manager_def edit_dht_def offstage_def background_def
              foreground_def)
      qed
    qed
  qed
qed

lemma quiet_cached_route_id [evolve]: "evolves plain_error offstage (cached_route_id pf peer)"
  using sure_cached_route_id by (rule evolves_mono) auto

lemma quiet_try_fetch_route [evolve]: "evolves plain_error offstage (try_fetch_route_from_dht pf peer)"
  unfolding try_fetch_route_from_dht_def by (intro evolve)

lemma quiet_inline_refresh [evolve]:
  fixes pf :: "('w, 'k, 'p, 'r) platform"
  shows "evolves plain_error offstage (try_inline_route_refresh_and_send pf peer envelope)"
proof (rule evolvesI)
  fix c :: "('w, 'p, 'r) client"
  let ?E = "\<lambda>e s'. plain_error e \<and> offstage c s'"
  show "outcome (try_inline_route_refresh_and_send pf peer envelope) (\<lambda>_. offstage c) ?E c"
    unfolding try_inline_route_refresh_and_send_def wp
  proof (rule evolves_outcome [OF quiet_try_fetch_route])
    fix fresh c1
    assume b1: "offstage c c1"
    show "outcome (case fresh of None \<Rightarrow> ok False
       | Some blob \<Rightarrow> io_bind (gets (\<lambda>c. (c_node c, c_dht c))) (\<lambda>handles. case handles of
           (Some nh, Some h) \<Rightarrow> io_bind (import_peer_route pf h blob) (\<lambda>r. case r of
               Inl e \<Rightarrow> ok False
             | Inr route_id \<Rightarrow> io_bind (result (protocol (send_envelope pf route_id envelope))) (\<lambda>sent.
                 ok (case sent of Inl e \<Rightarrow> False | Inr _ \<Rightarrow> True)))
         | _ \<Rightarrow> ok False)) (\<lambda>_. offstage c) ?E c1"
    proof (cases "fresh = None \<or> c_node c1 = None \<or> c_dht c1 = None")
      case True
      with b1 show ?thesis by (auto simp: wp split: option.splits)
    next
      case False
      then obtain blob nh h where parts: "fresh = Some blob" "c_node c1 = Some nh" "c_dht c1 = Some h" by auto
      show ?thesis
        unfolding parts option.case wp prod.case
      proof (rule import_offstage [OF parts(3)])
        fix r :: "string + 'r" and c2
        assume "offstage c1 c2"
        with b1 have b2: "offstage c c2" by (rule quiet.state_trans)
        then show "outcome (case r of Inl e \<Rightarrow> ok False
            | Inr route_id \<Rightarrow> io_bind (result (protocol (send_envelope pf route_id envelope))) (\<lambda>sent.
                ok (case sent of Inl e \<Rightarrow> False | Inr _ \<Rightarrow> True))) (\<lambda>_. offstage c) ?E c2"
          by (cases r) (auto simp: wp intro: quiet.state_trans intro!: evolves_outcome [OF quiet_protocol]
              split: client_error.split)
      qed
    qed
  qed auto
qed

lemma quiet_serialize [evolve]:
  "evolves plain_error offstage (serialize_payload pf payload)"
  "evolves plain_error offstage (serialize_envelope pf envelope)"
  unfolding serialize_payload_def serialize_envelope_def by (intro evolve)+

lemma quiet_sign_envelope [evolve]: "evolves plain_error offstage (sign_envelope pf payload)"
  unfolding sign_envelope_def by (intro evolve)

lemmas calm_rules [evolve] =
  quiet_draw [THEN quiet_calm] quiet_veilid [THEN quiet_calm] quiet_protocol [THEN quiet_calm]
  quiet_edit_dht [THEN quiet_calm] quiet_edit_manager [THEN quiet_calm]
  quiet_cache_peer_route [THEN quiet_calm] quiet_cached_route_id [THEN quiet_calm]
  quiet_try_fetch_route [THEN quiet_calm] quiet_inline_refresh [THEN quiet_calm]
  quiet_serialize [THEN quiet_calm] quiet_sign_envelope [THEN quiet_calm]

lemma calm_refresh_or_queue [evolve]: "evolves plain_error background (refresh_or_queue pf peer eph envelope)"
  unfolding refresh_or_queue_def by (intro evolve)

lemmas working_rules [evolve] =
  calm_rules [THEN calm_working] calm_refresh_or_queue [THEN calm_working] calm_query [THEN calm_working]

lemma working_encrypt [evolve]: "evolves (\<lambda>_. True) background (encrypt_for_peer pf peer payload)"
  unfolding encrypt_for_peer_def by (intro evolve)

lemma calm_send_to_peer_raw [evolve]: "evolves plain_error background (send_to_peer_raw pf peer payload)"
  unfolding send_to_peer_raw_def send_envelope_to_peer_def by simp (intro evolve)

lemma working_send_envelope_to_peer [evolve]:
  "evolves (\<lambda>_. True) background (send_envelope_to_peer pf peer payload encrypt)"
  unfolding send_envelope_to_peer_def by (intro evolve)

lemma working_fresh_bundle [evolve]: "evolves (\<lambda>_. True) background (fresh_bundle pf)"
  unfolding fresh_bundle_def by (intro evolve)

lemma calm_build_and_queue [evolve]: "evolves plain_error background (build_and_queue_envelope pf peer payload)"
  unfolding build_and_queue_envelope_def by (intro evolve)

lemma working_send_friend_request [evolve]:
  "evolves (\<lambda>_. True) background (send_friend_request pf peer message)"
  unfolding send_friend_request_def by (intro evolve)

lemma working_send_friend_accept [evolve]:
  "evolves (\<lambda>_. True) background (send_friend_accept pf peer session_init)"
  unfolding send_friend_accept_def by (intro evolve)

lemma calm_send_friend_reject [evolve]: "evolves plain_error background (send_friend_reject pf peer)"
  using calm_send_to_peer_raw [of pf peer FriendReject] by (simp add: send_friend_reject_def send_to_peer_raw_def)

lemma calm_push_friend_list [evolve]: "evolves plain_error background (push_friend_list_update pf)"
  unfolding push_friend_list_update_def parse_key_def by (intro evolve)

lemma working_establish [evolve]: "evolves (\<lambda>_. True) background (establish_from_bundle pf peer b)"
  unfolding establish_from_bundle_def by (intro evolve)

lemma calm_is_blocked [evolve]: "evolves plain_error background (is_blocked k)"
  unfolding is_blocked_def by (intro evolve)

lemma calm_is_user_blocked [evolve]: "evolves plain_error background (is_user_blocked owner k)"
  unfolding is_user_blocked_def by (intro evolve)

section \<open>Relations that allow the background\<close>

locale service_preorder = client_preorder R E
  for R :: "('w, 'p, 'r) client \<Rightarrow> ('w, 'p, 'r) client \<Rightarrow> bool" and E :: "client_error \<Rightarrow> bool" +
  assumes background_within: "background c c' \<Longrightarrow> R c c'"
begin

lemma ev_calm: "evolves plain_error background m \<Longrightarrow> evolves E R m"
  by (erule evolves_mono) (auto intro: background_within texts simp: plain_error_def split: client_error.splits)

lemma ev_execute:
  assumes "\<And>c d. stmt (c_db c) = Some d \<Longrightarrow> R c (c\<lparr>c_db := d\<rparr>)"
  shows "evolves E R (execute pf w stmt)"
proof (rule evolvesI)
  fix c :: "('w, 'p, 'r) client"
  obtain f c1 where p: "pop_client_fault c = (f, c1)" by fastforce
  have b: "R c c1" using pop_client_fault_background [OF p] by (simp add: background_within)
  have "R c (c1\<lparr>c_db := d\<rparr>)" if "stmt (c_db c1) = Some d" for d
    using b assms [OF that] by (rule state_trans)
  then show "outcome (execute pf w stmt) (\<lambda>_. R c) (\<lambda>e s'. E e \<and> R c s') c"
    using b by (auto simp: outcome_def execute_def p texts split: option.splits)
qed

end

end
