(* ===== verification/SampleClient.thy ===== *)
theory SampleClient
  imports ClientRules Codecs Sessions Accounts Conversations Friends MemDht
begin

text \<open>
  Two clients on a network in memory, for the concrete instances of the theorems about the client:
  the records of \<open>MemDht\<close> and the list of the messages sent, where a route is the blob it was
  imported from; JSON is hexadecimal text, keys are numbers in 32 bytes and a signature repeats
  the key and the text.
\<close>

section \<open>Delivery\<close>

text \<open>
  What the client needs of its platform for messages to arrive: laws of the serialisers, of Ed25519
  and of the routes, and the two ways a message of another client is taken, as JSON and through a
  session.
\<close>

section \<open>Laws\<close>

text \<open>
  A signature verifies under the public key of its secret, values read back from the text they
  were written to, and a JSON text has no zero byte (RFC 8259 allows no control character but white
  space).
\<close>

definition letters_ok :: "('w, 'k, 'p, 'r) platform \<Rightarrow> bool" where
  "letters_ok pf \<longleftrightarrow>
     capnp_lawful (\<lambda>s. s \<in> range envelope_struct_of) (pf_envelope pf) \<and>
     (\<forall>sk m. length (pf_public_of pf sk) = 32 \<and> pf_key_error pf (pf_public_of pf sk) = None \<and>
        length (pf_sign pf sk m) = 64 \<and> pf_verify pf (pf_public_of pf sk) m (pf_sign pf sk m)) \<and>
     json_roundtrip (pf_payload_json pf) \<and> json_roundtrip (pf_bundle_json pf) \<and>
     (\<forall>p b. to_json (pf_payload_json pf) p = Inr b \<longrightarrow> pf_parse_json pf b \<noteq> None) \<and>
     (\<forall>b. 0 \<in> set b \<longrightarrow> pf_parse_json pf b = None)"

text \<open>Routes can be imported, and what is sent over one is appended to a log of the network.\<close>

definition routes_ok :: "('w, 'k, 'p, 'r) platform \<Rightarrow> ('w \<Rightarrow> ('r \<times> bytes) list) \<Rightarrow> bool" where
  "routes_ok pf sent \<longleftrightarrow>
     (\<forall>blob w. \<exists>r w'. pf_import pf blob w = (Inr r, w') \<and> sent w' = sent w) \<and>
     (\<forall>r b w. \<exists>w'. pf_app_message pf r b w = (Inr (), w') \<and> sent w' = sent w @ [(r, b)])"

section \<open>A letter\<close>

definition letter :: "('w, 'k, 'p, 'r) platform \<Rightarrow> bytes \<Rightarrow> u64 \<Rightarrow> bytes \<Rightarrow> bytes \<Rightarrow> bytes" where
  "letter pf sk t nonce payload =
     encode_envelope (pf_envelope pf) (build_envelope (pf_public_of pf) (pf_sign pf) sk t nonce payload)"

lemma letter_received:
  assumes "letters_ok pf"
  shows "process_incoming (pf_envelope pf) (pf_key_error pf) (pf_verify pf) (letter pf sk t nonce payload) =
    Inr (build_envelope (pf_public_of pf) (pf_sign pf) sk t nonce payload)"
proof -
  have "decode_envelope (pf_envelope pf) (letter pf sk t nonce payload) =
      Inr (build_envelope (pf_public_of pf) (pf_sign pf) sk t nonce payload)"
    using assms envelopes.decode_encode [of "pf_envelope pf"] by (simp add: letters_ok_def letter_def)
  then show ?thesis
    using assms by (simp add: process_incoming_Inr_iff letters_ok_def build_envelope_def)
qed

lemma letters_payload:
  assumes "letters_ok pf"
  obtains b where "to_json (pf_payload_json pf) p = Inr b" "from_json (pf_payload_json pf) b = Inr p"
    "pf_parse_json pf b \<noteq> None"
  using assms json_roundtripE [of "pf_payload_json pf" p] unfolding letters_ok_def by metis

definition accepts_from :: "string \<Rightarrow> message_payload \<Rightarrow> ('w, 'p, 'r) client \<Rightarrow> bool" where
  "accepts_from sender payload c \<longleftrightarrow> c_faults c = [] \<and> count_blocked (owner_of c) sender (c_db c) = 0 \<and>
     (allowed_from_strangers payload \<or> friend_of c sender \<noteq> None)"

lemma is_blocked_clean:
  "c_faults c = [] \<Longrightarrow> is_blocked sender c = (Inr (0 < count_blocked (owner_of c) sender (c_db c)), c)"
  by (simp add: is_blocked_def io_bind_def gets_def result_def query_def pop_client_fault_def ok_def)

text \<open>A letter with a payload as JSON is dispatched.\<close>

lemma letter_handled:
  assumes "letters_ok pf" and "accepts_from sender payload c" and "sender = hex_encode (pf_public_of pf sk)"
    and "to_json (pf_payload_json pf) payload = Inr b"
  shows "handle_incoming_message pf (letter pf sk t nonce b) c = dispatch_payload pf sender (i64_or_max t) payload c"
proof -
  have "from_json (pf_payload_json pf) b = Inr payload" "pf_parse_json pf b \<noteq> None"
    using letters_payload [OF assms(1), of payload] assms(4) by auto
  then show ?thesis
    using assms(2,3)
    by (auto simp: handle_incoming_message_def letter_received [OF assms(1)] build_envelope_def io_bind_def Let_def
        is_blocked_clean accepts_from_def plaintext_of_def ok_def gets_def)
qed

text \<open>So is one whose payload was encrypted in the session with its sender.\<close>

lemma cipher_letter_handled:
  assumes "letters_ok pf" and "accepts_from sender payload c" and "sender = hex_encode (pf_public_of pf sk)"
    and "to_json (pf_payload_json pf) payload = Inr b"
    and "c_signal c = Some sm" and "signal_decrypt (pf_crypto pf) sender ct sm = (Inr b, sm')" and "0 \<in> set ct"
  shows "handle_incoming_message pf (letter pf sk t nonce ct) c =
    dispatch_payload pf sender (i64_or_max t) payload (c\<lparr>c_signal := Some sm'\<rparr>)"
proof -
  have "from_json (pf_payload_json pf) b = Inr payload" "pf_parse_json pf ct = None"
    using letters_payload [OF assms(1), of payload] assms(1,4,7) by (auto simp: letters_ok_def)
  then show ?thesis
    using assms(2,3,5,6)
    by (auto simp: handle_incoming_message_def letter_received [OF assms(1)] build_envelope_def io_bind_def Let_def
        is_blocked_clean accepts_from_def plaintext_of_def ok_def gets_def signal_call_def friend_of_def)
qed

section \<open>The network\<close>

type_synonym mail = "(bytes \<times> bytes) list"

definition on_records :: "(mem, 'e, 'a) io \<Rightarrow> (mem \<times> mail, 'e, 'a) io" where
  "on_records m = (\<lambda>(w, sent). case m w of (r, w') \<Rightarrow> (r, (w', sent)))"

definition postal_rc :: "(mem \<times> mail, string, nat) routing_context" where
  "postal_rc =
     \<lparr>rc_schema_error = rc_schema_error mem_rc, rc_parse_key = Inr, rc_show_key = (\<lambda>k. k),
      rc_create = (\<lambda>n owner. on_records (mem_create n owner)), rc_open = (\<lambda>k p. on_records (mem_open k p)),
      rc_close = (\<lambda>k. on_records (mem_close k)), rc_get = (\<lambda>k i force. on_records (mem_get k i force)),
      rc_set = (\<lambda>k i b. on_records (mem_set k i b)), rc_watch = (\<lambda>k subkeys. ok True)\<rparr>"

definition postal_net :: "(mem \<times> mail, string, nat) network" where
  "postal_net = \<lparr>records = (\<lambda>(w, sent). map_of w), key_of = mem_key\<rparr>"

lemma outcome_on_records:
  "outcome (on_records m) Q E w =
     outcome m (\<lambda>x v. Q x (v, snd w)) (\<lambda>e v. E e (v, snd w)) (fst w)"
  by (cases w) (simp add: outcome_def on_records_def split: prod.split sum.split)

lemma postal_reliable: "dht_reliable postal_rc postal_net"
proof -
  have l: "dht_reliable mem_rc mem_net" by (rule mem_reliable)
  note laws = get_law_def set_law_def open_law_def create_law_def
  have "get_law postal_rc postal_net" "set_law postal_rc postal_net" "open_law postal_rc postal_net"
      "create_law postal_rc postal_net"
    using l by (simp_all add: dht_reliable_def dht_lawful_def laws postal_rc_def postal_net_def outcome_on_records
        case_prod_unfold)
  with l show ?thesis
    by (simp add: dht_reliable_def dht_lawful_def postal_rc_def postal_net_def outcome_on_records returns_def case_prod_unfold)
qed

definition post :: "bytes \<Rightarrow> bytes \<Rightarrow> (mem \<times> mail, string, unit) io" where
  "post route b = (\<lambda>(w, sent). (Inr (), (w, sent @ [(route, b)])))"

section \<open>Serialisers\<close>

text \<open>Bytes without a zero: the digits of the bytes of the fields.\<close>

definition sample_json :: "'a field \<Rightarrow> 'a json" where
  "sample_json f =
     \<lparr>to_json = (\<lambda>x. Inr (as_bytes (hex_encode (concat (map text_bytes (put f x)))))),
      from_json = (\<lambda>b. case hex_decode (bytes_as_string b) of
         None \<Rightarrow> Inl ''expected value'' | Some d \<Rightarrow> Inr (fst (get f (texts_of_bytes [] d))))\<rparr>"

lemma sample_json_roundtrip: "field_ok f \<Longrightarrow> json_roundtrip (sample_json f)"
  using field_okD [of f _ "[]"]
  by (simp add: json_roundtrip_def sample_json_def hex_decode_encode texts_of_bytes_texts)

definition sample_parse_json :: "bytes \<Rightarrow> json_value option" where
  "sample_parse_json b = map_option (\<lambda>d. JString (bytes_as_string b)) (hex_decode (bytes_as_string b))"

lemma sample_parse_json: "to_json (sample_json f) x = Inr b \<Longrightarrow> sample_parse_json b \<noteq> None"
  by (auto simp: sample_json_def sample_parse_json_def hex_decode_encode)

lemma hex_decode_digits: "hex_decode s = Some d \<Longrightarrow> c \<in> set s \<Longrightarrow> hex_value c \<noteq> None"
  by (induction s arbitrary: d rule: hex_decode.induct) (auto split: option.splits prod.splits)

lemma sample_parse_zero: "0 \<in> set b \<Longrightarrow> sample_parse_json b = None"
proof -
  assume "0 \<in> set b"
  then have "char_of (unat (0 :: u8)) \<in> set (bytes_as_string b)"
    unfolding bytes_as_string_def set_map by (rule imageI)
  then have "char_of (0 :: nat) \<in> set (bytes_as_string b)" by simp
  then have "hex_decode (bytes_as_string b) = None"
    using hex_decode_digits [of "bytes_as_string b" _ "char_of (0 :: nat)"] by (cases "hex_decode (bytes_as_string b)") (auto simp: hex_value_def)
  then show ?thesis by (simp add: sample_parse_json_def)
qed

text \<open>Optional values and the records of the client.\<close>

definition option_field :: "'a field \<Rightarrow> 'a option field" where
  "option_field f = iso_field (\<lambda>p. case p of Target x \<Rightarrow> Some x | _ \<Rightarrow> None)
     (\<lambda>x. case x of None \<Rightarrow> Null | Some y \<Rightarrow> Target y) (ptr_field f)"

lemma option_field_ok [fields]: "field_ok f \<Longrightarrow> field_ok (option_field f)"
  unfolding option_field_def by (intro fields) (auto split: option.split)

definition envelope_field :: "message_envelope field" where
  "envelope_field = iso_field
     (\<lambda>(k, t, n, p, s). \<lparr>e_sender_key = k, e_timestamp = t, e_nonce = n, e_payload = p, e_signature = s\<rparr>)
     (\<lambda>e. (e_sender_key e, e_timestamp e, e_nonce e, e_payload e, e_signature e))
     (pair_field bytes_field (pair_field word_field (pair_field bytes_field (pair_field bytes_field bytes_field))))"

definition envelope_struct_field :: "envelope_struct field" where
  "envelope_struct_field = iso_field
     (\<lambda>(k, t, n, p, s). \<lparr>es_sender_key = k, es_timestamp = t, es_nonce = n, es_payload = p, es_signature = s\<rparr>)
     (\<lambda>e. (es_sender_key e, es_timestamp e, es_nonce e, es_payload e, es_signature e))
     (pair_field data_field (pair_field word_field (pair_field data_field (pair_field data_field data_field))))"

definition bundle_field :: "prekey_bundle field" where
  "bundle_field = iso_field
     (\<lambda>(i, p, s, x, r). \<lparr>pb_identity_key = i, pb_signed_prekey = p, pb_signed_prekey_signature = s,
        pb_one_time_prekey = x, pb_registration_id = r\<rparr>)
     (\<lambda>b. (pb_identity_key b, pb_signed_prekey b, pb_signed_prekey_signature b, pb_one_time_prekey b,
        pb_registration_id b))
     (pair_field bytes_field (pair_field bytes_field (pair_field bytes_field
       (pair_field (option_field bytes_field) word_field))))"

definition status_game_field :: "game_info_state field" where
  "status_game_field = iso_field
     (\<lambda>(i, n, s, e). \<lparr>gi_game_id = i, gi_game_name = n, gi_server_info = s, gi_elapsed_seconds = e\<rparr>)
     (\<lambda>g. (gi_game_id g, gi_game_name g, gi_server_info g, gi_elapsed_seconds g))
     (pair_field word_field (pair_field text_field (pair_field (option_field text_field) word_field)))"

definition presence_game_field :: "presence_game field" where
  "presence_game_field = iso_field
     (\<lambda>(i, n, s, e). \<lparr>pg_game_id = i, pg_game_name = n, pg_server_info = s, pg_elapsed_seconds = e\<rparr>)
     (\<lambda>g. (pg_game_id g, pg_game_name g, pg_server_info g, pg_elapsed_seconds g))
     (pair_field word_field (pair_field text_field (pair_field (option_field text_field) word_field)))"

definition queued_channel_field :: "pending_channel_message field" where
  "queued_channel_field = iso_field
     (\<lambda>(c, i, t, g, s). \<lparr>pcm_community_id = c, pcm_channel_id = i, pcm_ciphertext = t, pcm_mek_generation = g,
        pcm_timestamp = s\<rparr>)
     (\<lambda>m. (pcm_community_id m, pcm_channel_id m, pcm_ciphertext m, pcm_mek_generation m, pcm_timestamp m))
     (pair_field text_field (pair_field text_field (pair_field bytes_field (pair_field word_field int_field))))"

definition invite_field :: "invite_blob field" where
  "invite_field = iso_field
     (\<lambda>(k, n, m, p, r, b, s). \<lparr>ib_public_key = k, ib_display_name = n, ib_mailbox_dht_key = m,
        ib_profile_dht_key = p, ib_route_blob = r, ib_prekey_bundle = b, ib_signature = s\<rparr>)
     (\<lambda>i. (ib_public_key i, ib_display_name i, ib_mailbox_dht_key i, ib_profile_dht_key i, ib_route_blob i,
        ib_prekey_bundle i, ib_signature i))
     (pair_field text_field (pair_field text_field (pair_field text_field (pair_field text_field
       (pair_field bytes_field (pair_field bytes_field bytes_field))))))"

text \<open>A payload as the number of its constructor, its texts, bytes, numbers and game.\<close>

fun payload_parts ::
  "message_payload \<Rightarrow> u8 \<times> string list \<times> bytes option list \<times> u32 option list \<times> presence_game option" where
  "payload_parts (DirectMessage b r) = (0, [b], [r], [], None)"
| "payload_parts (ChannelMessage c b r) = (1, [c, b], [r], [], None)"
| "payload_parts (TypingIndicator t) = (2, [], [], [if t then Some 0 else None], None)"
| "payload_parts (FriendRequest n m p k r b) = (3, [n, m, k, b], [Some p, Some r], [], None)"
| "payload_parts (FriendAccept p k r b e i x) = (4, [k, b], [Some p, Some r, Some e], [Some i, x], None)"
| "payload_parts FriendReject = (5, [], [], [], None)"
| "payload_parts (ProfileKeyRotated k) = (6, [k], [], [], None)"
| "payload_parts FriendRequestReceived = (7, [], [], [], None)"
| "payload_parts (PresenceUpdate s g) = (8, [], [], [Some (ucast s)], g)"
| "payload_parts Unfriended = (9, [], [], [], None)"
| "payload_parts UnfriendedAck = (10, [], [], [], None)"

definition build_payload ::
  "u8 \<times> string list \<times> bytes option list \<times> u32 option list \<times> presence_game option \<Rightarrow> message_payload" where
  "build_payload = (\<lambda>(tag, ss, bs, ws, g).
     if tag = 0 then DirectMessage (ss ! 0) (bs ! 0)
     else if tag = 1 then ChannelMessage (ss ! 0) (ss ! 1) (bs ! 0)
     else if tag = 2 then TypingIndicator (ws ! 0 \<noteq> None)
     else if tag = 3 then FriendRequest (ss ! 0) (ss ! 1) (the (bs ! 0)) (ss ! 2) (the (bs ! 1)) (ss ! 3)
     else if tag = 4 then FriendAccept (the (bs ! 0)) (ss ! 0) (the (bs ! 1)) (ss ! 1) (the (bs ! 2))
       (the (ws ! 0)) (ws ! 1)
     else if tag = 5 then FriendReject
     else if tag = 6 then ProfileKeyRotated (ss ! 0)
     else if tag = 7 then FriendRequestReceived
     else if tag = 8 then PresenceUpdate (ucast (the (ws ! 0))) g
     else if tag = 9 then Unfriended
     else UnfriendedAck)"

lemma ucast_up_down: "ucast (ucast (x :: u8) :: u32) = x"
  by (rule bit_word_eqI) (simp add: bit_simps)

lemma build_payload_parts: "build_payload (payload_parts p) = p"
  by (cases p) (simp_all add: build_payload_def ucast_up_down)

definition payload_field :: "message_payload field" where
  "payload_field = iso_field build_payload payload_parts
     (pair_field word_field (pair_field (list_field text_field) (pair_field (list_field (option_field bytes_field))
       (pair_field (list_field (option_field word_field)) (option_field presence_game_field)))))"

lemma client_fields_ok:
  "field_ok envelope_field" "field_ok envelope_struct_field" "field_ok bundle_field"
  "field_ok status_game_field" "field_ok queued_channel_field" "field_ok invite_field" "field_ok payload_field"
proof -
  have "field_ok presence_game_field" unfolding presence_game_field_def by (intro fields) simp
  then show "field_ok payload_field"
    unfolding payload_field_def by (intro fields) (simp_all add: build_payload_parts)
qed (unfold envelope_field_def envelope_struct_field_def bundle_field_def status_game_field_def
    queued_channel_field_def invite_field_def; intro fields; simp)+

section \<open>The platform\<close>

definition unused_json :: "'a json" where
  "unused_json = \<lparr>to_json = (\<lambda>x. Inl ''not used''), from_json = (\<lambda>b. Inl ''not used'')\<rparr>"

fun show_json :: "json_value \<Rightarrow> bytes" where
  "show_json JNull = [0]"
| "show_json (JBool b) = [1, if b then 1 else 0]"
| "show_json (JInteger i) = [2, of_int i]"
| "show_json (JDecimal s) = 3 # as_bytes s"
| "show_json (JString s) = 4 # as_bytes s"
| "show_json (JArray js) = 5 # concat (map show_json js)"
| "show_json (JObject kjs) = 6 # concat (map (\<lambda>(k, j). as_bytes k @ show_json j) kjs)"

definition toy_sign :: "bytes \<Rightarrow> bytes \<Rightarrow> bytes" where
  "toy_sign k m = fit 64 (fit 32 k @ m)"

definition sample_invites :: invite_env where
  "sample_invites =
     \<lparr>iv_show_json = show_json, iv_invite_json = sample_json invite_field, iv_base64_encode = hex_encode,
      iv_base64_decode = (\<lambda>s. case hex_decode s of None \<Rightarrow> Inl ''invalid symbol'' | Some b \<Rightarrow> Inr b),
      iv_hex_error = (\<lambda>s. ''invalid digit''), iv_key_error = (\<lambda>k. None),
      iv_verify_error = (\<lambda>k m s. if s = toy_sign k m then None else Some ''signature error''),
      iv_sign = toy_sign\<rparr>"

lemma sample_invites_ok: "invite_env_ok sample_invites (fit 32)"
  by (simp add: invite_env_ok_def sample_invites_def sample_json_roundtrip client_fields_ok hex_decode_encode
      toy_sign_def)

text \<open>A snapshot is the key and the entries; another key does not open it.\<close>

definition snapshot_field :: "(bytes \<times> (string \<times> bytes) list) field" where
  "snapshot_field = pair_field bytes_field (list_field (pair_field text_field bytes_field))"

definition sample_stronghold :: stronghold where
  "sample_stronghold =
     \<lparr>sh_derive = as_bytes,
      sh_commit = (\<lambda>k es. as_bytes (hex_encode (concat (map text_bytes (put snapshot_field (k, es)))))),
      sh_load = (\<lambda>k b. case from_json (sample_json snapshot_field) b of
         Inl e \<Rightarrow> Inl e
       | Inr (k', es) \<Rightarrow> if k' = k then Inr es else Inl ''invalid key'')\<rparr>"

lemma sample_stronghold_load:
  "sh_load sample_stronghold k (sh_commit sample_stronghold k' es) = (if k' = k then Inr es else Inl ''invalid key'')"
proof -
  have f: "field_ok snapshot_field" unfolding snapshot_field_def by (intro fields)
  have "from_json (sample_json snapshot_field) (sh_commit sample_stronghold k' es) = Inr (k', es)"
    using sample_json_roundtrip [OF f] by (simp add: json_roundtrip_def sample_stronghold_def sample_json_def)
  then show ?thesis by (simp add: sample_stronghold_def)
qed

definition sample_platform :: "(mem \<times> mail, string, nat, bytes) platform" where
  "sample_platform =
     \<lparr>pf_rc = postal_rc, pf_import = (\<lambda>blob. ok blob), pf_app_message = post,
      pf_app_call = (\<lambda>route b. throw ''no answer''), pf_crypto = toy_crypto, pf_public_of = fit 32,
      pf_sign = toy_sign, pf_key_error = (\<lambda>k. None), pf_verify = (\<lambda>k m s. s = toy_sign k m),
      pf_envelope = sample_capnp envelope_struct_field, pf_envelope_json = sample_json envelope_field,
      pf_payload_json = sample_json payload_field, pf_bundle_json = sample_json bundle_field,
      pf_keys_json = sample_json (list_field text_field), pf_game_json = sample_json status_game_field,
      pf_channel_json = sample_json queued_channel_field, pf_request_json = unused_json,
      pf_response_json = unused_json, pf_parse_json = sample_parse_json,
      pf_pseudonym_secret = (\<lambda>sk cid. sk @ as_bytes cid), pf_x25519_secret = fit 32,
      pf_conversation = sample_conversation_env, pf_invite = sample_invites,
      pf_show_keypair = (\<lambda>p. replicate p CHR ''p''), pf_violation = ''constraint failed'',
      pf_broadcast_json = unused_json, pf_ids_json = unused_json, pf_community = sample_capnp community_field,
      pf_ipc = (\<lambda>q. throw ''no server''), pf_debug_ipc = (\<lambda>a. []), pf_debug_response = (\<lambda>r. []),
      pf_new_route = throw ''no route'', pf_release_route = (\<lambda>r. ok ()),
      pf_stronghold = sample_stronghold, pf_account = sample_env, pf_parse_keypair = (\<lambda>s. Some (length s)),
      pf_identity_keypair = (\<lambda>pub sec. 9), pf_peer_x25519 = (\<lambda>k. Inr (fit 32 k)), pf_base64 = hex_encode,
      pf_friend_list = sample_capnp friend_list_field\<rparr>"

lemma sample_letters_ok: "letters_ok sample_platform"
  by (auto simp: letters_ok_def sample_platform_def sample_capnp_lawful client_fields_ok sample_json_roundtrip
      sample_parse_zero toy_sign_def dest: sample_parse_json)

lemma sample_routes_ok: "routes_ok sample_platform snd"
  by (simp add: routes_ok_def sample_platform_def post_def ok_def)

section \<open>Clients\<close>

definition empty_client_db :: "identity_row list \<Rightarrow> client_db" where
  "empty_client_db rows =
     \<lparr>ct_identity = rows, ct_groups = [], ct_friends = [], ct_messages = [], ct_queue = [], ct_requests = [],
      ct_blocked = [], ct_communities = [], ct_channels = [], ct_members = [], ct_roles = [], ct_overwrites = [],
      ct_last_group = 0, ct_last_message = 0, ct_last_queued = 0\<rparr>"

definition sample_key :: "u8 \<Rightarrow> bytes" where
  "sample_key n = replicate 32 n"

definition sample_client :: "u8 \<Rightarrow> string \<Rightarrow> (mem \<times> mail, nat, bytes) client" where
  "sample_client n name =
     \<lparr>c_identity = Some \<lparr>is_public_key = hex_encode (sample_key n), is_display_name = name, is_status = Online,
        is_status_message = []\<rparr>,
      c_identity_secret = Some (sample_key n), c_friends = [], c_communities = [],
      c_node = Some \<lparr>nh_attachment_state = ''attached_good'', nh_is_attached = True,
        nh_public_internet_ready = True, nh_route_blob = Some [n], nh_profile_dht_key = Some (mem_key 1 8),
        nh_profile_owner_keypair = Some 1, nh_friend_list_dht_key = None, nh_friend_list_owner_keypair = None,
        nh_account_dht_key = None, nh_mailbox_dht_key = Some (mem_key 2 1)\<rparr>,
      c_dht = Some \<lparr>dh_manager = new_manager, dh_key_to_friend = [], dh_conversation_key_to_friend = [],
        dh_open_records = {}\<rparr>,
      c_signal = Some (new_signal_manager (sample_key n) (sample_key n) 7), c_routing = None,
      c_mek_cache = [], c_vault = None, c_snapshots = [], c_unwatched = {}, c_pre_away = None,
      c_db = empty_client_db [\<lparr>ir_public_key = hex_encode (sample_key n), ir_display_name = Some name,
        ir_created_at = 0, ir_dht_record_key = None, ir_dht_owner_keypair = None, ir_friend_list_dht_key = None,
        ir_friend_list_owner_keypair = None, ir_avatar = None, ir_account_dht_key = None,
        ir_account_owner_keypair = None, ir_mailbox_dht_key = None\<rparr>],
      c_faults = [], c_random = (\<lambda>i. of_nat i), c_drawn = 0, c_clock = 1700000000000, c_instant = 0,
      c_events = [], c_net = ([], [])\<rparr>"

lemma sample_client_simps [simp]:
  "c_faults (sample_client n name) = []" "c_friends (sample_client n name) = []"
  "c_identity_secret (sample_client n name) = Some (sample_key n)"
  "owner_of (sample_client n name) = hex_encode (sample_key n)"
  "friend_of (sample_client n name) k = None"
  "ct_queue (c_db (sample_client n name)) = []" "ct_blocked (c_db (sample_client n name)) = []"
  "c_events (sample_client n name) = []"
  by (simp_all add: sample_client_def owner_of_def friend_of_def empty_client_db_def)

end
