(* ===== verification/Strangers.thy ===== *)
theory Strangers
  imports SampleClient
begin

text \<open>
  What a message can do to the client that comes from nobody it knows: the friend list, the
  messages and the identity stay as they are, whatever the message says. A blocked peer does not
  even get that far.
\<close>

section \<open>What a stranger leaves alone\<close>

text \<open>The events a message of a stranger may cause.\<close>

fun stranger_event :: "string \<Rightarrow> ui_event \<Rightarrow> bool" where
  "stranger_event sender (ChatEvent (EvFriendRequest k n m)) \<longleftrightarrow> k = sender"
| "stranger_event sender (ChatEvent (EvFriendRequestDelivered k)) \<longleftrightarrow> k = sender"
| "stranger_event sender (ChatEvent (EvFriendRequestRejected k)) \<longleftrightarrow> k = sender"
| "stranger_event sender (SystemAlert t b) \<longleftrightarrow>
     SystemAlert t b = decrypt_alert (take 8 sender @ ''...'')"
| "stranger_event sender _ \<longleftrightarrow> False"

definition untouched_by :: "string \<Rightarrow> ('w, 'p, 'r) client \<Rightarrow> ('w, 'p, 'r) client \<Rightarrow> bool" where
  "untouched_by sender c c' \<longleftrightarrow>
     c_identity c' = c_identity c \<and> c_identity_secret c' = c_identity_secret c \<and> c_friends c' = c_friends c \<and>
     c_communities c' = c_communities c \<and> c_node c' = c_node c \<and> c_pre_away c' = c_pre_away c \<and>
     ct_identity (c_db c') = ct_identity (c_db c) \<and> ct_friends (c_db c') = ct_friends (c_db c) \<and>
     ct_messages (c_db c') = ct_messages (c_db c) \<and> ct_blocked (c_db c') = ct_blocked (c_db c) \<and>
     filter (\<lambda>r. pr_public_key r \<noteq> sender) (ct_requests (c_db c')) =
       filter (\<lambda>r. pr_public_key r \<noteq> sender) (ct_requests (c_db c)) \<and>
     (\<exists>es. c_events c' = c_events c @ es \<and> (\<forall>e\<in>set es. stranger_event sender e))"

lemma untouched_refl: "untouched_by sender c c"
  by (simp add: untouched_by_def)

lemma untouched_trans:
  assumes "untouched_by s a b" and "untouched_by s b c"
  shows "untouched_by s a c"
proof -
  obtain es fs where "c_events b = c_events a @ es" "\<forall>e\<in>set es. stranger_event s e"
      "c_events c = c_events b @ fs" "\<forall>e\<in>set fs. stranger_event s e"
    using assms unfolding untouched_by_def by blast
  then have "c_events c = c_events a @ es @ fs \<and> (\<forall>e\<in>set (es @ fs). stranger_event s e)" by auto
  then have "\<exists>es. c_events c = c_events a @ es \<and> (\<forall>e\<in>set es. stranger_event s e)" by blast
  with assms show ?thesis unfolding untouched_by_def by (simp (no_asm_simp))
qed

lemma background_untouched: "background c c' \<Longrightarrow> untouched_by sender c c'"
  by (simp add: untouched_by_def background_parts background_tables)

interpretation stranger: service_preorder "untouched_by sender" "\<lambda>_. True" for sender
  by unfold_locales (auto intro: untouched_refl untouched_trans background_untouched)

lemma stranger_emit: "stranger_event sender e \<Longrightarrow> evolves (\<lambda>_. True) (untouched_by sender) (emit_event e)"
  by (simp add: emit_event_def evolves_def wp untouched_by_def)

lemma others_row_replace:
  "pr_public_key x = sender \<Longrightarrow> filter (\<lambda>r. pr_public_key r \<noteq> sender) (row_replace request_pk x t) =
     filter (\<lambda>r. pr_public_key r \<noteq> sender) t"
  by (induction t) (auto simp: row_replace_def request_pk_def)

lemma stranger_persist_request:
  "evolves (\<lambda>_. True) (untouched_by sender) (persist_friend_request pf sender n m p r b k)"
  unfolding persist_friend_request_def
  by (intro evolve stranger.ev_execute)
    (auto simp: replace_request_def untouched_by_def others_row_replace split: if_splits)

lemma stranger_receive_request:
  "evolves (\<lambda>_. True) (untouched_by sender) (receive_fresh_request pf sender n m b p r k)"
  unfolding receive_fresh_request_def emit_chat_def
  by (intro stranger.ev_bind stranger_persist_request stranger_emit stranger.ev_ignore
      stranger.ev_calm [OF calm_send_to_peer_raw]) simp

section \<open>Handlers on messages of strangers\<close>

lemma stranger_request:
  assumes "friend_of c sender = None"
  shows "outcome (handle_friend_request_full pf sender n m b p r k)
    (\<lambda>_. untouched_by sender c) (\<lambda>_. untouched_by sender c) c"
proof -
  have route: "evolves (\<lambda>_. True) background (when_act (r \<noteq> []) (cache_peer_route pf sender r))"
    by (intro evolve)
  show ?thesis
    unfolding handle_friend_request_full_def outcome_io_bind
  proof (rule evolves_outcome [OF route])
    fix c1
    assume b: "background c c1"
    then have "map_option fs_friendship_state (friend_of c1 sender) = None"
      using assms by (simp add: background_derived)
    then show "outcome (gets (\<lambda>c. map_option fs_friendship_state (friend_of c sender))) (\<lambda>existing.
        outcome (case existing of
           None \<Rightarrow> receive_fresh_request pf sender n m b p r k
         | Some PendingOut \<Rightarrow> auto_accept_cross_request pf sender n b p k
         | Some _ \<Rightarrow>
             io_bind (drop_friend sender) (\<lambda>_.
             io_bind (ignore (delete_friend_row pf ''delete stale friend for re-add: '' sender)) (\<lambda>_.
             io_bind (delete_pending_request_row pf sender) (\<lambda>_. receive_fresh_request pf sender n m b p r k))))
         (\<lambda>_. untouched_by sender c) (\<lambda>_. untouched_by sender c)) (\<lambda>_. untouched_by sender c) c1"
      unfolding wp
      by (auto intro!: evolves_outcome [OF stranger_receive_request]
          intro: untouched_trans background_untouched [OF b])
  qed (auto intro: background_untouched)
qed

lemma stranger_dispatch:
  assumes "friend_of c sender = None" and "allowed_from_strangers payload"
  shows "outcome (dispatch_payload pf sender ts payload) (\<lambda>_. untouched_by sender c) (\<lambda>_. untouched_by sender c) c"
proof (cases payload)
  case (FriendRequest n m b p r k)
  then show ?thesis using stranger_request [OF assms(1)] by (simp add: dispatch_payload_def)
next
  case FriendRequestReceived
  then show ?thesis
    using stranger_emit [of sender "ChatEvent (EvFriendRequestDelivered sender)"]
    by (auto simp: dispatch_payload_def emit_chat_def intro!: evolves_outcome)
next
  case FriendReject
  then show ?thesis
    using assms(1) stranger_emit [of sender "ChatEvent (EvFriendRequestRejected sender)"]
    by (auto simp: dispatch_payload_def handle_friend_reject_def has_state_def wp emit_chat_def intro!: evolves_outcome)
next
  case Unfriended
  then show ?thesis using assms(1)
    by (simp add: dispatch_payload_def handle_unfriended_def wp untouched_refl)
next
  case UnfriendedAck
  then show ?thesis
    using calm_working [OF calm_delete_pending_messages]
    by (auto simp: dispatch_payload_def handle_unfriended_ack_def intro!: evolves_outcome background_untouched)
qed (use assms(2) in simp_all)

section \<open>Messages\<close>

lemma stranger_plaintext:
  assumes "friend_of c sender = None"
  shows "outcome (plaintext_of pf sender payload) (\<lambda>_. untouched_by sender c) (\<lambda>_. untouched_by sender c) c"
proof (cases "pf_parse_json pf payload")
  case (Some v)
  then show ?thesis by (simp add: plaintext_of_def wp untouched_refl)
next
  case None
  show ?thesis
    unfolding plaintext_of_def None outcome_io_bind simp_thms if_False
  proof (rule evolves_outcome [OF working_signal_call])
    fix x and c1 :: "('a, 'b, 'c) client"
    assume "background c c1"
    with assms show "outcome (case x of
          None \<Rightarrow> ok None
        | Some (Inl e) \<Rightarrow> io_bind (gets (\<lambda>c. sender_label c sender)) (\<lambda>label.
            io_bind (emit_event (decrypt_alert label)) (\<lambda>_. ok None))
        | Some (Inr plaintext) \<Rightarrow> ok (Some plaintext))
        (\<lambda>_. untouched_by sender c) (\<lambda>_. untouched_by sender c) c1"
      by (auto simp: wp background_untouched client_steps sender_label_def background_derived decrypt_alert_def
          untouched_by_def background_parts background_tables split: option.split sum.split)
  qed (auto intro: background_untouched)
qed

lemma untouched_friend: "untouched_by sender c c' \<Longrightarrow> friend_of c' k = friend_of c k"
  by (simp add: untouched_by_def friend_of_def)

lemma outcome_untouched:
  "untouched_by sender c c1 \<Longrightarrow> outcome m (\<lambda>_. untouched_by sender c1) (\<lambda>_. untouched_by sender c1) c1 \<Longrightarrow>
   outcome m (\<lambda>_. untouched_by sender c) (\<lambda>_. untouched_by sender c) c1"
  by (erule outcome_mono) (auto intro: untouched_trans)

lemma stranger_message:
  fixes pf :: "('w, 'k, 'p, 'r) platform" and c :: "('w, 'p, 'r) client"
  assumes "process_incoming (pf_envelope pf) (pf_key_error pf) (pf_verify pf) raw = Inr envelope"
    and sender: "sender = hex_encode (e_sender_key envelope)"
    and stranger: "friend_of c sender = None"
  shows "outcome (handle_incoming_message pf raw) (\<lambda>_. untouched_by sender c) (\<lambda>_. untouched_by sender c) c"
proof -
  let ?P = "\<lambda>m c1. outcome m (\<lambda>_. untouched_by sender c) (\<lambda>_. untouched_by sender c) c1"
  have dispatch: "?P (dispatch_payload pf sender ts payload) c2"
    if "untouched_by sender c c2" "allowed_from_strangers payload" for ts payload c2
    by (rule outcome_untouched [OF that(1) stranger_dispatch [OF _ that(2)]])
      (simp add: untouched_friend [OF that(1)] stranger)
  have plain: "?P (plaintext_of pf sender (e_payload envelope)) c1" if "untouched_by sender c c1" for c1
    by (rule outcome_untouched [OF that stranger_plaintext]) (simp add: untouched_friend [OF that] stranger)
  have rest: "?P (case plaintext of None \<Rightarrow> ok () | Some b \<Rightarrow> (case from_json (pf_payload_json pf) b of
        Inl e \<Rightarrow> ok ()
      | Inr payload \<Rightarrow> io_bind (gets (\<lambda>c. friend_of c sender)) (\<lambda>friend.
          if \<not> allowed_from_strangers payload \<and> friend = None then ok ()
          else dispatch_payload pf sender (i64_or_max (e_timestamp envelope)) payload))) c2"
    if "untouched_by sender c c2" for plaintext c2
    using that stranger
    by (auto simp: wp untouched_friend [OF that] dispatch split: option.split sum.split)
  show ?thesis
    unfolding handle_incoming_message_def assms(1) sum.case Let_def sender [symmetric] outcome_io_bind
  proof (rule evolves_outcome [OF stranger.ev_calm [OF calm_is_blocked]])
    fix blocked and c1 :: "('w, 'p, 'r) client"
    assume "untouched_by sender c c1"
    then have kept: "untouched_by sender c c1" .
    show "?P (if blocked then ok () else io_bind (plaintext_of pf sender (e_payload envelope)) (\<lambda>plaintext.
        case plaintext of None \<Rightarrow> ok () | Some b \<Rightarrow> (case from_json (pf_payload_json pf) b of
          Inl e \<Rightarrow> ok ()
        | Inr payload \<Rightarrow> io_bind (gets (\<lambda>c. friend_of c sender)) (\<lambda>friend.
            if \<not> allowed_from_strangers payload \<and> friend = None then ok ()
            else dispatch_payload pf sender (i64_or_max (e_timestamp envelope)) payload)))) c1"
    proof (cases blocked)
      case True
      with kept show ?thesis by (simp add: wp)
    next
      case False
      show ?thesis
        by (simp only: False if_False outcome_io_bind)
          (rule outcome_mono [OF plain [OF kept]], rule rest)
    qed
  qed auto
qed

section \<open>Properties\<close>

text \<open>
  C25. Strangers change nothing but the list of pending requests. Bytes that are no envelope
  with a valid signature are ignored. Any other message whose sender is not in the friend list,
  whatever payload it carries, encrypted or not, with any database faults and even if a handler
  panics, leaves the identity and its secret, the friend list, the communities, the node, the
  rows of identity, friends, messages and blocked users and all pending requests of others as
  they are, and the only events it causes are a request, the delivery or the rejection of one
  under its own key, and the notice that a message could not be decrypted.
\<close>

theorem strangers_only_ask:
  "case process_incoming (pf_envelope pf) (pf_key_error pf) (pf_verify pf) raw of
     Inl e \<Rightarrow> handle_incoming_message pf raw c = (Inr (), c)
   | Inr envelope \<Rightarrow>
       friend_of c (hex_encode (e_sender_key envelope)) = None \<longrightarrow>
       untouched_by (hex_encode (e_sender_key envelope)) c (snd (handle_incoming_message pf raw c))"
proof (cases "process_incoming (pf_envelope pf) (pf_key_error pf) (pf_verify pf) raw")
  case (Inl e)
  then show ?thesis by (simp add: handle_incoming_message_def ok_def)
next
  case (Inr envelope)
  then show ?thesis
    using stranger_message [OF Inr refl, of c]
    by (auto simp: outcome_def split: prod.splits sum.splits)
qed

theorem strangers_only_ask_witness:
  "untouched_by (hex_encode (sample_key 9)) (sample_client 1 ''Alice'')
     (snd (handle_incoming_message sample_platform
       (letter sample_platform (sample_key 9) 5 (replicate 16 0) [0, 1, 2]) (sample_client 1 ''Alice'')))"
proof -
  have key: "e_sender_key (build_envelope (pf_public_of sample_platform) (pf_sign sample_platform)
      (sample_key 9) 5 (replicate 16 0) [0, 1, 2]) = sample_key 9"
    by (simp add: build_envelope_def sample_platform_def sample_key_def fit_def)
  show ?thesis
    using strangers_only_ask [of sample_platform
        "letter sample_platform (sample_key 9) 5 (replicate 16 0) [0, 1, 2]" "sample_client 1 ''Alice''"]
    by (simp only: letter_received [OF sample_letters_ok] sum.case key sample_client_simps simp_thms)
qed

end
