(* ===== verification/RetryQueue.thy ===== *)
theory RetryQueue
  imports SampleClient
begin

text \<open>
  The queue of messages to be sent again. A tick of the sync service tries every queued message
  once: it is deleted when its sending reports success, counted when it fails, and dropped after 20
  attempts or when it cannot be read. So the queue is drained after 21 ticks, come what may. A channel message that is tried while the node is not
  attached is deleted as delivered without being sent.
\<close>

section \<open>Trying one message\<close>

text \<open>The database, its faults and the identity are left alone.\<close>

definition db_kept :: "('w, 'p, 'r) client \<Rightarrow> ('w, 'p, 'r) client \<Rightarrow> bool" where
  "db_kept c c' \<longleftrightarrow> c_db c' = c_db c \<and> c_faults c' = c_faults c \<and> c_identity c' = c_identity c"

interpretation kept: client_preorder db_kept plain_error
  by unfold_locales (auto simp: db_kept_def)

lemma kept_quiet [evolve]: "evolves plain_error offstage m \<Longrightarrow> evolves plain_error db_kept m"
  by (erule evolves_mono) (auto simp: offstage_def db_kept_def background_parts)

lemma kept_import: "evolves plain_error db_kept (import_peer_route pf h blob)"
  by (auto simp: evolves_def outcome_def import_peer_route_def db_kept_def split: prod.split)

text \<open>Steps that cannot fail.\<close>

interpretation sure: state_preorder db_kept "\<lambda>_. False"
  by unfold_locales (auto simp: db_kept_def)

lemma sure_gets: "evolves (\<lambda>_. False) db_kept (gets f)"
  by (simp add: evolves_def wp db_kept_def)

lemma sure_import: "evolves (\<lambda>_. False) db_kept (import_peer_route pf h blob)"
  by (auto simp: evolves_def outcome_def import_peer_route_def db_kept_def split: prod.split)

lemma sure_cache: "evolves (\<lambda>_. False) db_kept (cache_peer_route pf peer blob)"
  by (auto simp: evolves_def outcome_def cache_peer_route_def db_kept_def split: option.split prod.split)

lemma sure_cached: "evolves (\<lambda>_. False) db_kept (cached_route_id pf peer)"
  using sure_cached_route_id by (rule evolves_mono) (auto simp: offstage_def db_kept_def background_parts)

lemma sure_mailbox_fallback: "evolves (\<lambda>_. False) db_kept (try_mailbox_route_fallback pf recipient)"
  unfolding try_mailbox_route_fallback_def
  by (intro sure.ev_bind sure_gets sure.ev_prod sure.ev_option sure.ev_ok evolves_result_sure sure.ev_sum sure.ev_list
      sure_import sure_cache kept_quiet [OF quiet_protocol])

lemma kept_send_to_server:
  "evolves plain_error db_kept (send_encrypted_to_server pf ch cid ct gen ts blob)"
proof -
  have clear: "evolves plain_error db_kept (modify (\<lambda>c. c\<lparr>c_communities := f c\<rparr>))" for f
    by (simp add: evolves_def wp db_kept_def)
  have check: "evolves plain_error db_kept (check_server_response pf b)" for b
    unfolding check_server_response_def
    by (simp split: sum.split community_response.split add: kept.ev_ok kept.ev_fail)
  show ?thesis
    unfolding send_encrypted_to_server_def Let_def
    by (intro kept.ev_bind kept.ev_gets kept.ev_prod kept.ev_if kept.ev_option kept.ev_ok kept.ev_fail
        kept.ev_describe kept.ev_text_result kept.ev_result kept.ev_sum clear check kept_import
        kept_quiet [OF quiet_draw] kept_quiet [OF quiet_veilid] kept_quiet [OF quiet_protocol]
        kept_quiet [OF quiet_edit_manager])
qed

definition counted :: "queued_row \<Rightarrow> queued_row" where
  "counted r = r\<lparr>qr_retry_count := qr_retry_count r + 1\<rparr>"

text \<open>What one attempt leaves in the queue: the message is gone, or counted.\<close>

definition tried :: "queued_row \<Rightarrow> ('w, 'p, 'r) client \<Rightarrow> ('w, 'p, 'r) client \<Rightarrow> bool" where
  "tried q c c' \<longleftrightarrow> c_faults c' = [] \<and> c_identity c' = c_identity c \<and>
     (ct_queue (c_db c') = row_delete (\<lambda>r. qr_id r = qr_id q) (ct_queue (c_db c)) \<or>
      qr_retry_count q < max_retries \<and>
      ct_queue (c_db c') = row_update (\<lambda>r. qr_id r = qr_id q) counted (ct_queue (c_db c)))"

lemma delete_tried:
  "c_faults c = [] \<Longrightarrow> outcome (delete_pending_message pf (qr_id q)) (\<lambda>_. tried q c) E c"
  by (simp add: delete_pending_message_def outcome_execute_clean delete_queued_def tried_def)

lemma increment_tried:
  "c_faults c = [] \<Longrightarrow> qr_retry_count q < max_retries \<Longrightarrow>
   outcome (increment_retry_count pf (qr_id q)) (\<lambda>_. tried q c) E c"
  by (simp add: increment_retry_count_def outcome_execute_clean increment_queued_def tried_def counted_def [abs_def])

lemma tried_after_kept: "db_kept c c1 \<Longrightarrow> tried q c1 c' \<Longrightarrow> tried q c c'"
  by (auto simp: db_kept_def tried_def)

lemma outcome_after_kept:
  assumes "db_kept c c1" and "outcome m (\<lambda>_. tried q c1) E c1"
  shows "outcome m (\<lambda>_. tried q c) E c1"
  using assms by (auto intro: outcome_mono tried_after_kept)

text \<open>After steps that leave the database alone the message is deleted or counted.\<close>

lemma settled:
  assumes "c_faults c = []" and "qr_retry_count q < max_retries" and "db_kept c c1"
  shows "outcome (delete_pending_message pf (qr_id q)) (\<lambda>_. tried q c) E c1"
    and "outcome (increment_retry_count pf (qr_id q)) (\<lambda>_. tried q c) E c1"
proof -
  have "c_faults c1 = []" using assms(1,3) by (simp add: db_kept_def)
  then show "outcome (delete_pending_message pf (qr_id q)) (\<lambda>_. tried q c) E c1"
    and "outcome (increment_retry_count pf (qr_id q)) (\<lambda>_. tried q c) E c1"
    by (auto intro!: outcome_after_kept [OF assms(3)] delete_tried increment_tried assms(2))
qed

lemma sure_step:
  assumes "evolves (\<lambda>_. False) db_kept m" and "db_kept c c1"
    and "\<And>x c2. db_kept c c2 \<Longrightarrow> outcome (f x) Q E c2"
  shows "outcome (io_bind m f) Q E c1"
  unfolding wp
  by (rule evolves_outcome [OF assms(1)]) (auto intro: assms(3) kept.state_trans [OF assms(2)])

lemma retry_dm_tried:
  assumes clean: "c_faults c = []" "qr_retry_count q < max_retries"
  shows "outcome (retry_pending_dm pf (qr_id q) recipient envelope) (\<lambda>_. tried q c) (\<lambda>_ _. False) c"
proof -
  note settled = settled [OF clean]
  have send: "outcome (io_bind (result (protocol (send_envelope pf route_id envelope))) (\<lambda>sent.
      case sent of Inr _ \<Rightarrow> delete_pending_message pf (qr_id q) | Inl e \<Rightarrow> increment_retry_count pf (qr_id q)))
      (\<lambda>_. tried q c) (\<lambda>_ _. False) c2" if "db_kept c c2" for route_id c2
    by (rule sure_step [OF evolves_result_sure [OF kept_quiet [OF quiet_protocol]] that])
      (auto intro: settled split: sum.split)
  have route: "outcome (io_bind (if cached \<noteq> None then ok cached else try_mailbox_route_fallback pf recipient) (\<lambda>route.
      case route of None \<Rightarrow> increment_retry_count pf (qr_id q)
      | Some route_id \<Rightarrow> io_bind (result (protocol (send_envelope pf route_id envelope))) (\<lambda>sent.
          case sent of Inr _ \<Rightarrow> delete_pending_message pf (qr_id q) | Inl e \<Rightarrow> increment_retry_count pf (qr_id q))))
      (\<lambda>_. tried q c) (\<lambda>_ _. False) c2" if "db_kept c c2" for cached c2
    by (rule sure_step [OF sure.ev_if [OF sure.ev_ok sure_mailbox_fallback] that])
      (auto intro: settled send split: option.split)
  have located: "outcome (io_bind (cached_route_id pf recipient) (\<lambda>cached.
      io_bind (if cached \<noteq> None then ok cached else try_mailbox_route_fallback pf recipient) (\<lambda>route.
      case route of None \<Rightarrow> increment_retry_count pf (qr_id q)
      | Some route_id \<Rightarrow> io_bind (result (protocol (send_envelope pf route_id envelope))) (\<lambda>sent.
          case sent of Inr _ \<Rightarrow> delete_pending_message pf (qr_id q) | Inl e \<Rightarrow> increment_retry_count pf (qr_id q)))))
      (\<lambda>_. tried q c) (\<lambda>_ _. False) c2" if "db_kept c c2" for c2
    by (rule sure_step [OF sure_cached that route])
  show ?thesis
    unfolding retry_pending_dm_def
    by (rule sure_step [OF sure_gets kept.state_refl]) (auto simp del: not_None_eq simp: settled located)
qed

text \<open>One attempt at any queued message.\<close>

lemma retry_single_tried:
  fixes pf :: "('w, 'k, 'p, 'r) platform" and c :: "('w, 'p, 'r) client"
  assumes clean: "c_faults c = []"
  shows "outcome (retry_single_pending pf q) (\<lambda>_. tried q c) (\<lambda>_ _. False) c"
proof (cases "qr_retry_count q < max_retries")
  case False
  then show ?thesis by (simp add: retry_single_pending_def delete_tried [OF clean])
next
  case True
  note settled = settled [OF clean True]
  note here = settled [OF kept.state_refl]
  have channel: "outcome (io_bind (gets (\<lambda>c. Option.bind (map_of (c_communities c) cid) cc_server_route_blob)) (\<lambda>route.
      case route of None \<Rightarrow> increment_retry_count pf (qr_id q)
      | Some route_blob \<Rightarrow> io_bind (result (send_encrypted_to_server pf ch cid ct gen ts route_blob)) (\<lambda>sent.
          case sent of Inr _ \<Rightarrow> delete_pending_message pf (qr_id q) | Inl e \<Rightarrow> increment_retry_count pf (qr_id q))))
      (\<lambda>_. tried q c) (\<lambda>_ _. False) c" for ch cid ct gen ts
  proof (rule sure_step [OF sure_gets kept.state_refl])
    fix route and c2 :: "('w, 'p, 'r) client"
    assume "db_kept c c2"
    then show "outcome (case route of None \<Rightarrow> increment_retry_count pf (qr_id q)
      | Some route_blob \<Rightarrow> io_bind (result (send_encrypted_to_server pf ch cid ct gen ts route_blob)) (\<lambda>sent.
          case sent of Inr _ \<Rightarrow> delete_pending_message pf (qr_id q) | Inl e \<Rightarrow> increment_retry_count pf (qr_id q)))
      (\<lambda>_. tried q c) (\<lambda>_ _. False) c2"
      by (cases route)
        (auto intro!: settled sure_step [OF evolves_result_sure [OF kept_send_to_server]] split: sum.split)
  qed
  show ?thesis
    using True
    by (auto simp: retry_single_pending_def Let_def not_le intro: here retry_dm_tried [OF clean True] channel
        split: sum.split)
qed

section \<open>What an attempt is\<close>

text \<open>
  An attempt without the book-keeping: how a queued message is sent. A direct message needs a node
  and a route, cached or from the mailbox of the friend; a channel message needs the route to the
  server of its community.
\<close>

definition sending :: "('w, 'k, 'p, 'r) platform \<Rightarrow> queued_row \<Rightarrow> ('w, 'p, 'r, unit) act" where
  "sending pf q = (case from_json (pf_envelope_json pf) (as_bytes (qr_body q)) of
     Inr envelope \<Rightarrow>
       io_bind (gets c_node) (\<lambda>node.
       if node = None then fail ''no node''
       else io_bind (cached_route_id pf (qr_recipient q)) (\<lambda>cached.
         io_bind (if cached \<noteq> None then ok cached else try_mailbox_route_fallback pf (qr_recipient q)) (\<lambda>route.
         case route of None \<Rightarrow> fail ''no route'' | Some r \<Rightarrow> protocol (send_envelope pf r envelope))))
   | Inl e \<Rightarrow> (case from_json (pf_channel_json pf) (as_bytes (qr_body q)) of
       Inl e \<Rightarrow> fail ''unreadable''
     | Inr m \<Rightarrow>
         io_bind (gets (\<lambda>c. Option.bind (map_of (c_communities c) (pcm_community_id m)) cc_server_route_blob)) (\<lambda>route.
         case route of
           None \<Rightarrow> fail ''no route''
         | Some blob \<Rightarrow> send_encrypted_to_server pf (pcm_channel_id m) (pcm_community_id m) (pcm_ciphertext m)
             (pcm_mek_generation m) (pcm_timestamp m) blob)))"

definition unreadable :: "('w, 'k, 'p, 'r) platform \<Rightarrow> queued_row \<Rightarrow> bool" where
  "unreadable pf q = (case (from_json (pf_envelope_json pf) (as_bytes (qr_body q)),
      from_json (pf_channel_json pf) (as_bytes (qr_body q))) of (Inl _, Inl _) \<Rightarrow> True | _ \<Rightarrow> False)"

definition with_queue :: "(queued_row list \<Rightarrow> queued_row list) \<Rightarrow> ('w, 'p, 'r) client \<Rightarrow> ('w, 'p, 'r) client" where
  "with_queue f c = c\<lparr>c_db := (c_db c)\<lparr>ct_queue := f (ct_queue (c_db c))\<rparr>\<rparr>"

text \<open>
  The book-keeping of an attempt: a message is dropped after 20 attempts and when it cannot be read,
  leaves the queue when the sending succeeds, and is counted when it fails.
\<close>

definition attempted :: "('w, 'k, 'p, 'r) platform \<Rightarrow> queued_row \<Rightarrow> ('w, 'p, 'r) client \<Rightarrow> ('w, 'p, 'r) client" where
  "attempted pf q c =
     (if 20 \<le> qr_retry_count q \<or> unreadable pf q then with_queue (row_delete (\<lambda>r. qr_id r = qr_id q)) c
      else case sending pf q c of
        (Inr _, c1) \<Rightarrow> with_queue (row_delete (\<lambda>r. qr_id r = qr_id q)) c1
      | (Inl _, c1) \<Rightarrow> with_queue (row_update (\<lambda>r. qr_id r = qr_id q) counted) c1)"

lemma delete_clean: "c_faults c = [] \<Longrightarrow>
    delete_pending_message pf i c = (Inr (), with_queue (row_delete (\<lambda>r. qr_id r = i)) c)"
  by (simp add: delete_pending_message_def execute_def pop_client_fault_def delete_queued_def with_queue_def)

lemma increment_clean: "c_faults c = [] \<Longrightarrow>
    increment_retry_count pf i c = (Inr (), with_queue (row_update (\<lambda>r. qr_id r = i) counted) c)"
  by (simp add: increment_retry_count_def execute_def pop_client_fault_def increment_queued_def with_queue_def counted_def [abs_def])

lemma kept_sending: "evolves plain_error db_kept (sending pf q)"
proof -
  have sure: "evolves plain_error db_kept m" if "evolves (\<lambda>_. False) db_kept m" for m :: "('w, 'p, 'r, 'x) act"
    using that by (auto simp: evolves_def elim!: outcome_mono)
  show ?thesis
    unfolding sending_def
    by (intro kept.ev_bind kept.ev_gets kept.ev_if kept.ev_option kept.ev_ok kept.ev_fail kept.ev_sum
        kept_send_to_server kept_quiet [OF quiet_protocol] sure [OF sure_cached] sure [OF sure_mailbox_fallback])
qed

lemma evolves_run: "evolves E R m \<Longrightarrow> m c = (x, c1) \<Longrightarrow> R c c1 \<and> (case x of Inl e \<Rightarrow> E e | Inr y \<Rightarrow> True)"
  unfolding evolves_def outcome_def by (drule spec [of _ c]) (auto split: sum.splits)

lemma sure_run: "evolves (\<lambda>_. False) R m \<Longrightarrow> \<exists>y c1. m c = (Inr y, c1)"
  using evolves_run [of "\<lambda>_. False" R m c] by (cases "m c") (auto split: sum.splits)

lemma retry_is_sending:
  assumes "qr_retry_count q < max_retries" and "\<not> unreadable pf q"
  shows "retry_single_pending pf q c = io_bind (result (sending pf q)) (\<lambda>sent.
    case sent of Inr _ \<Rightarrow> delete_pending_message pf (qr_id q) | Inl e \<Rightarrow> increment_retry_count pf (qr_id q)) c"
proof -
  obtain cached c1 where 1: "cached_route_id pf (qr_recipient q) c = (Inr cached, c1)" using sure_run [OF sure_cached] by blast
  obtain fallback c2 where 2: "try_mailbox_route_fallback pf (qr_recipient q) c1 = (Inr fallback, c2)"
    using sure_run [OF sure_mailbox_fallback] by blast
  show ?thesis
    using assms 1 2
    by (auto simp: retry_single_pending_def sending_def unreadable_def retry_pending_dm_def Let_def not_le
        io_bind_def gets_def result_def ok_def fail_def throw_def
        split: sum.split option.split prod.split client_error.split)
qed

lemma attempt_spec:
  assumes "c_faults c = []"
  shows "retry_single_pending pf q c = (Inr (), attempted pf q c)"
proof (cases "max_retries \<le> qr_retry_count q \<or> unreadable pf q")
  case True
  then show ?thesis
    by (auto simp: retry_single_pending_def Let_def attempted_def delete_clean [OF assms] unreadable_def max_retries_def
        split: sum.splits)
next
  case False
  obtain x c1 where s: "sending pf q c = (x, c1)" by fastforce
  have e: "db_kept c c1" "x = Inl e \<Longrightarrow> plain_error e" for e using evolves_run [OF kept_sending s] by auto
  then have "c_faults c1 = []" using assms by (simp add: db_kept_def)
  with False s e(2) show ?thesis
    by (auto simp: retry_is_sending attempted_def max_retries_def io_bind_def result_def plain_error_def
        delete_clean increment_clean split: sum.splits client_error.splits)
qed

section \<open>A tick\<close>

text \<open>Ids are given once, in order, and attempts are counted from 0.\<close>

definition queue_ok :: "client_db \<Rightarrow> bool" where
  "queue_ok d \<longleftrightarrow> distinct (map qr_id (ct_queue d)) \<and>
     (\<forall>r\<in>set (ct_queue d). qr_id r \<le> ct_last_queued d \<and> 0 \<le> qr_retry_count r)"

lemma queue_ok_statements:
  assumes "queue_ok d"
  shows "insert_queued owner recipient body t d = Some d' \<Longrightarrow> queue_ok d'"
    and "delete_queued i d = Some d' \<Longrightarrow> queue_ok d'"
    and "delete_queued_to owner recipient d = Some d' \<Longrightarrow> queue_ok d'"
    and "increment_queued i d = Some d' \<Longrightarrow> queue_ok d'"
proof -
  show "queue_ok d'" if "insert_queued owner recipient body t d = Some d'"
    using assms that by (fastforce simp: insert_queued_def queue_ok_def split: if_splits)
  show "queue_ok d'" if "delete_queued i d = Some d'"
    using assms that by (auto simp: delete_queued_def queue_ok_def row_delete_def distinct_map_filter)
  show "queue_ok d'" if "delete_queued_to owner recipient d = Some d'"
    using assms that by (auto simp: delete_queued_to_def queue_ok_def row_delete_def distinct_map_filter)
  show "queue_ok d'" if "increment_queued i d = Some d'"
  proof -
    have "map qr_id (ct_queue d') = map qr_id (ct_queue d)"
      using that by (auto simp: increment_queued_def row_update_def)
    then show ?thesis
      using assms that by (auto simp: increment_queued_def queue_ok_def row_update_def split: if_splits)
  qed
qed

text \<open>What is left of a queue after attempts at the messages \<open>qs\<close>.\<close>

definition remains :: "queued_row list \<Rightarrow> queued_row list \<Rightarrow> queued_row \<Rightarrow> bool" where
  "remains qs t r \<longleftrightarrow> r \<in> set t \<and> qr_id r \<notin> qr_id ` set qs \<or>
     (\<exists>q\<in>set qs. r = counted q \<and> qr_retry_count q < max_retries)"

lemma counted_simps [simp]:
  "qr_id (counted r) = qr_id r" "qr_owner (counted r) = qr_owner r" "qr_recipient (counted r) = qr_recipient r"
  "qr_body (counted r) = qr_body r" "qr_retry_count (counted r) = qr_retry_count r + 1"
  by (simp_all add: counted_def)

lemma tried_rows:
  assumes "tried q c c'" and "q \<in> set (ct_queue (c_db c))" and "distinct (map qr_id (ct_queue (c_db c)))"
  shows "distinct (map qr_id (ct_queue (c_db c')))"
    and "r \<in> set (ct_queue (c_db c')) \<Longrightarrow> remains [q] (ct_queue (c_db c)) r"
    and "r \<in> set (ct_queue (c_db c)) \<Longrightarrow> qr_id r \<noteq> qr_id q \<Longrightarrow> r \<in> set (ct_queue (c_db c'))"
proof -
  let ?t = "ct_queue (c_db c)" and ?t' = "ct_queue (c_db c')"
  have same: "x = q" if "x \<in> set ?t" "qr_id x = qr_id q" for x
    using that assms(2,3) by (auto simp: distinct_map inj_on_def)
  have ids: "map qr_id (row_update P counted ?t) = map qr_id ?t" for P by (simp add: row_update_def)
  show "distinct (map qr_id ?t')"
    using assms(1,3) ids by (auto simp: tried_def row_delete_def distinct_map_filter)
  show "remains [q] ?t r" if "r \<in> set ?t'"
    using assms(1) that
    by (auto simp: tried_def remains_def row_delete_def row_update_def split: if_splits dest: same)
  show "r \<in> set ?t'" if "r \<in> set ?t" "qr_id r \<noteq> qr_id q"
    using assms(1) that by (force simp: tried_def row_delete_def row_update_def)
qed

lemma retry_each_remains:
  fixes pf :: "('w, 'k, 'p, 'r) platform" and c :: "('w, 'p, 'r) client"
  assumes "c_faults c = []" and "set qs \<subseteq> set (ct_queue (c_db c))"
    and "distinct (map qr_id (ct_queue (c_db c)))" and "distinct (map qr_id qs)"
  shows "outcome (for_each (retry_single_pending pf) qs)
    (\<lambda>_ c'. c_faults c' = [] \<and> c_identity c' = c_identity c \<and> distinct (map qr_id (ct_queue (c_db c'))) \<and>
       (\<forall>r\<in>set (ct_queue (c_db c')). remains qs (ct_queue (c_db c)) r))
    (\<lambda>_ _. False) c"
  using assms
proof (induction qs arbitrary: c)
  case Nil
  then show ?case by (simp add: wp remains_def)
next
  case (Cons q qs)
  let ?t = "ct_queue (c_db c)"
  show ?case
    unfolding for_each.simps wp
  proof (rule outcome_mono [OF retry_single_tried [OF Cons.prems(1)]])
    fix x and c1 :: "('w, 'p, 'r) client"
    assume t: "tried q c c1"
    note rows = tried_rows [OF t _ Cons.prems(3)]
    have q: "q \<in> set ?t" using Cons.prems(2) by simp
    have step: "outcome (for_each (retry_single_pending pf) qs)
      (\<lambda>_ c'. c_faults c' = [] \<and> c_identity c' = c_identity c1 \<and> distinct (map qr_id (ct_queue (c_db c'))) \<and>
         (\<forall>r\<in>set (ct_queue (c_db c')). remains qs (ct_queue (c_db c1)) r)) (\<lambda>_ _. False) c1"
    proof (rule Cons.IH)
      have "qr_id r \<noteq> qr_id q" if "r \<in> set qs" for r
        using imageI [OF that, of qr_id] Cons.prems(4) by auto
      then show "set qs \<subseteq> set (ct_queue (c_db c1))" using rows(3) [OF q] Cons.prems(2) by auto
    qed (use Cons.prems(4) t rows(1) [OF q] in \<open>auto simp: tried_def\<close>)
    have r: "remains (q # qs) ?t r" if "remains qs (ct_queue (c_db c1)) r" for r
      using that rows(2) [OF q, of r] Cons.prems(4) by (auto simp: remains_def)
    show "outcome (for_each (retry_single_pending pf) qs)
      (\<lambda>_ c'. c_faults c' = [] \<and> c_identity c' = c_identity c \<and> distinct (map qr_id (ct_queue (c_db c'))) \<and>
         (\<forall>r\<in>set (ct_queue (c_db c')). remains (q # qs) ?t r)) (\<lambda>_ _. False) c1"
      using t by (intro outcome_mono [OF step]) (auto simp: tried_def intro: r)
  qed
qed

text \<open>The messages of the owner that are left have been counted once more.\<close>

lemma tick_counts:
  assumes "c_faults c = []" and "distinct (map qr_id (ct_queue (c_db c)))" and "owner_of c = owner"
  shows "outcome (retry_pending_messages pf)
    (\<lambda>_ c'. c_faults c' = [] \<and> owner_of c' = owner \<and> distinct (map qr_id (ct_queue (c_db c'))) \<and>
       (\<forall>r\<in>set (ct_queue (c_db c')). qr_owner r = owner \<longrightarrow>
          (\<exists>q\<in>set (ct_queue (c_db c)). qr_owner q = owner \<and> r = counted q \<and> qr_retry_count q < max_retries)))
    (\<lambda>_ _. False) c"
proof -
  let ?qs = "select_queued owner (c_db c)"
  have qs: "set ?qs = {r \<in> set (ct_queue (c_db c)). qr_owner r = owner}" "distinct (map qr_id ?qs)"
    using assms(2) by (auto simp: select_queued_def distinct_map intro: inj_on_subset)
  show ?thesis
    unfolding retry_pending_messages_def wp outcome_query_clean [OF assms(1)] assms(3)
    by (rule outcome_mono [OF retry_each_remains [OF assms(1) _ assms(2) qs(2)]])
      (use assms(3) qs(1) in \<open>auto simp: owner_of_def remains_def\<close>)
qed

text \<open>Ticks of the service, one after the other.\<close>

fun queue_rounds :: "('w, 'k, 'p, 'r) platform \<Rightarrow> nat \<Rightarrow> ('w, 'p, 'r, unit) act" where
  "queue_rounds pf 0 = ok ()"
| "queue_rounds pf (Suc n) = io_bind (retry_pending_messages pf) (\<lambda>_. queue_rounds pf n)"

lemma rounds_count:
  fixes pf :: "('w, 'k, 'p, 'r) platform" and c :: "('w, 'p, 'r) client"
  assumes "c_faults c = []" and "distinct (map qr_id (ct_queue (c_db c)))" and "owner_of c = owner"
    and "\<forall>r\<in>set (ct_queue (c_db c)). qr_owner r = owner \<longrightarrow> k \<le> qr_retry_count r \<and> k \<le> max_retries"
  shows "outcome (queue_rounds pf n) (\<lambda>_ c'. \<forall>r\<in>set (ct_queue (c_db c')). qr_owner r = owner \<longrightarrow>
     k + int n \<le> qr_retry_count r \<and> k + int n \<le> max_retries) (\<lambda>_ _. False) c"
  using assms
proof (induction n arbitrary: c k)
  case 0
  then show ?case by (simp add: wp)
next
  case (Suc n)
  show ?case
    unfolding queue_rounds.simps wp
  proof (rule outcome_mono [OF tick_counts [OF Suc.prems(1-3)]])
    fix x and c1 :: "('w, 'p, 'r) client"
    assume t: "c_faults c1 = [] \<and> owner_of c1 = owner \<and> distinct (map qr_id (ct_queue (c_db c1))) \<and>
       (\<forall>r\<in>set (ct_queue (c_db c1)). qr_owner r = owner \<longrightarrow>
          (\<exists>q\<in>set (ct_queue (c_db c)). qr_owner q = owner \<and> r = counted q \<and> qr_retry_count q < max_retries))"
    have "outcome (queue_rounds pf n) (\<lambda>_ c'. \<forall>r\<in>set (ct_queue (c_db c')). qr_owner r = owner \<longrightarrow>
       (k + 1) + int n \<le> qr_retry_count r \<and> (k + 1) + int n \<le> max_retries) (\<lambda>_ _. False) c1"
      using t Suc.prems(4) by (intro Suc.IH) fastforce+
    then show "outcome (queue_rounds pf n) (\<lambda>_ c'. \<forall>r\<in>set (ct_queue (c_db c')). qr_owner r = owner \<longrightarrow>
       k + int (Suc n) \<le> qr_retry_count r \<and> k + int (Suc n) \<le> max_retries) (\<lambda>_ _. False) c1"
      by (simp add: algebra_simps)
  qed
qed

section \<open>Properties\<close>

text \<open>
  C26. The queue of messages to be sent again drains, and not by dropping what can still be sent.
  With a working database an attempt removes a message when the sending succeeds, after 20 attempts
  or when it cannot be read, and counts it otherwise; 21 ticks of the sync service return without
  error and leave no message that was queued for the identity.
\<close>

theorem queue_drains:
  assumes "c_faults c = []" and "queue_ok (c_db c)"
  shows "retry_single_pending pf q c = (Inr (), attempted pf q c) \<and>
    (\<exists>c'. queue_rounds pf 21 c = (Inr (), c') \<and> select_queued (owner_of c) (c_db c') = [])"
proof
  have "outcome (queue_rounds pf 21) (\<lambda>_ c'. \<forall>r\<in>set (ct_queue (c_db c')). qr_owner r = owner_of c \<longrightarrow>
      0 + int 21 \<le> qr_retry_count r \<and> 0 + int 21 \<le> max_retries) (\<lambda>_ _. False) c"
    using assms by (intro rounds_count) (auto simp: queue_ok_def max_retries_def)
  then show "\<exists>c'. queue_rounds pf 21 c = (Inr (), c') \<and> select_queued (owner_of c) (c_db c') = []"
    by (auto simp: outcome_def max_retries_def select_queued_def filter_empty_conv split: prod.splits sum.splits)
qed (rule attempt_spec [OF assms(1)])

definition queued_to_bob :: queued_row where
  "queued_to_bob = \<lparr>qr_id = 1, qr_owner = hex_encode (sample_key 1), qr_recipient = hex_encode (sample_key 2),
     qr_body = ''later'', qr_created_at = 5, qr_retry_count = 3\<rparr>"

definition waiting_client :: "(mem \<times> mail, nat, bytes) client" where
  "waiting_client = sample_client 1 ''Alice''
     \<lparr>c_db := (c_db (sample_client 1 ''Alice''))\<lparr>ct_queue := [queued_to_bob], ct_last_queued := 1\<rparr>\<rparr>"

text \<open>Bob's route is not known here, so the first attempt counts the message.\<close>

theorem queue_drains_witness:
  "select_queued (owner_of waiting_client) (c_db waiting_client) = [queued_to_bob] \<and>
   retry_single_pending sample_platform queued_to_bob waiting_client =
     (Inr (), attempted sample_platform queued_to_bob waiting_client) \<and>
   (\<exists>c'. queue_rounds sample_platform 21 waiting_client = (Inr (), c') \<and>
      select_queued (owner_of waiting_client) (c_db c') = [])"
proof -
  have "select_queued (owner_of waiting_client) (c_db waiting_client) = [queued_to_bob]"
    by (simp add: waiting_client_def select_queued_def queued_to_bob_def owner_of_def sample_client_def)
  moreover have "c_faults waiting_client = []" "queue_ok (c_db waiting_client)"
    by (simp_all add: waiting_client_def queue_ok_def queued_to_bob_def)
  ultimately show ?thesis using queue_drains [of waiting_client sample_platform queued_to_bob] by blast
qed

text \<open>
  C27. A queued channel message is lost while the client is offline. When a tick tries it and the
  node is missing or not attached, but the route to the server is known, the message is deleted
  from the queue as delivered, nothing is sent and nothing else changes; the same holds without a
  signing key when the node is attached and the request can be written.
\<close>

theorem offline_channel_message_is_lost:
  assumes "c_faults c = []" and "qr_retry_count q < max_retries"
    and "from_json (pf_envelope_json pf) (as_bytes (qr_body q)) = Inl e"
    and "from_json (pf_channel_json pf) (as_bytes (qr_body q)) = Inr m"
    and "map_of (c_communities c) (pcm_community_id m) = Some cc" and "cc_server_route_blob cc = Some blob"
    and "\<not> is_online_node (c_node c) \<or> c_identity_secret c = None \<and> (\<exists>b. to_json (pf_request_json pf)
      (SendMessage (pcm_channel_id m) (pcm_ciphertext m) (pcm_mek_generation m)) = Inr b)"
  shows "retry_single_pending pf q c = (Inr (), c\<lparr>c_db := (c_db c)\<lparr>ct_queue :=
    row_delete (\<lambda>r. qr_id r = qr_id q) (ct_queue (c_db c))\<rparr>\<rparr>)"
proof -
  have "send_encrypted_to_server pf (pcm_channel_id m) (pcm_community_id m) (pcm_ciphertext m)
      (pcm_mek_generation m) (pcm_timestamp m) blob c = (Inr (), c)"
    using assms(7)
    by (auto simp: send_encrypted_to_server_def io_bind_def gets_def ok_def describe_def map_error_def from_result_def)
  then show ?thesis
    using assms(1-6)
    by (simp add: retry_single_pending_def Let_def not_le io_bind_def gets_def result_def ok_def
        delete_pending_message_def execute_def pop_client_fault_def delete_queued_def)
qed

definition queued_channel :: pending_channel_message where
  "queued_channel = \<lparr>pcm_community_id = ''club'', pcm_channel_id = ''general'', pcm_ciphertext = [7],
     pcm_mek_generation = 1, pcm_timestamp = 5\<rparr>"

definition club :: client_community where
  "club = \<lparr>cc_id = ''club'', cc_name = ''Club'', cc_description = None, cc_channels = [], cc_my_role_ids = [],
     cc_roles = [], cc_my_role = None, cc_dht_record_key = None, cc_dht_owner_keypair = None, cc_my_pseudonym_key = None,
     cc_mek_generation = 1, cc_server_route_blob = Some [3], cc_is_hosted = False\<rparr>"

definition offline_client :: "(mem \<times> mail, nat, bytes) client" where
  "offline_client = waiting_client\<lparr>c_node := None, c_communities := [(''club'', club)]\<rparr>"

definition channel_platform :: "(mem \<times> mail, string, nat, bytes) platform" where
  "channel_platform = sample_platform\<lparr>pf_envelope_json := unused_json,
     pf_channel_json := \<lparr>to_json = (\<lambda>m. Inr (as_bytes ''later'')), from_json = (\<lambda>b. Inr queued_channel)\<rparr>\<rparr>"

theorem offline_channel_message_is_lost_witness:
  "select_queued (owner_of offline_client) (c_db (snd (retry_single_pending channel_platform queued_to_bob
     offline_client))) = []"
  by (subst offline_channel_message_is_lost [where m = queued_channel and cc = club and blob = "[3]"])
    (simp_all add: offline_client_def waiting_client_def queued_to_bob_def max_retries_def channel_platform_def
      unused_json_def queued_channel_def club_def is_online_node_def select_queued_def row_delete_def)

end
