(* ===== verification/PresenceRules.thy ===== *)
theory PresenceRules
  imports SampleClient FriendCommands
begin

text \<open>
  Presence over the network: what a heartbeat publishes is what a friend sees of it, unless it is
  more than 150 seconds old when it is read.
\<close>

section \<open>The bytes of a status\<close>

lemma parse_status_payload: "parse_status (status_payload (status_byte s) t) = Some s"
  by (cases s) (simp_all add: parse_status_def status_payload_def)

lemma length_i64_be_bytes [simp]: "length (i64_be_bytes t) = 8"
  by (simp add: i64_be_bytes_def)

lemma sint_small: "0 \<le> t \<Longrightarrow> t \<le> i64_max \<Longrightarrow> sint (word_of_int t :: u64) = t"
  by (simp add: sint_sbintrunc' signed_take_bit_int_eq_self i64_max_def)

lemma parse_status_timestamp_payload:
  "0 \<le> t \<Longrightarrow> t \<le> i64_max \<Longrightarrow> parse_status_timestamp (status_payload b t) = Some t"
  by (simp add: parse_status_timestamp_def status_payload_def i64_of_be_bytes_def i64_be_bytes_def u64_of_le_bytes
      sint_small)

lemma millis_i64_bounds: "0 \<le> millis_i64 c" "millis_i64 c \<le> i64_max"
  by (simp_all add: millis_i64_def i64_max_def)

lemma i64_sub_small: "- i64_max \<le> a - b \<Longrightarrow> a - b \<le> i64_max \<Longrightarrow> i64_sub a b = a - b"
  unfolding i64_sub_def sint_sbintrunc' by (rule signed_take_bit_int_eq_self) (simp_all add: i64_max_def)

lemma is_stale_iff:
  "0 \<le> ts \<Longrightarrow> ts \<le> i64_max \<Longrightarrow> is_stale c ts \<longleftrightarrow> ts + stale_presence_threshold_ms < millis_i64 c"
  using millis_i64_bounds [of c] by (simp add: is_stale_def i64_sub_small algebra_simps)

section \<open>A heartbeat\<close>

definition profile_record ::
  "('w, 'k, 'p, 'r) platform \<Rightarrow> ('w, 'k, 'p) network \<Rightarrow> ('w, 'p, 'r) client \<Rightarrow> 'k \<Rightarrow> bool" where
  "profile_record pf net c k \<longleftrightarrow>
     (\<exists>nh key r. c_node c = Some nh \<and> nh_profile_dht_key nh = Some key \<and> rc_parse_key (pf_rc pf) key = Inr k \<and>
        records net (c_net c) k = Some r \<and> nh_profile_owner_keypair nh = Some (rec_owner r) \<and> subkey_of r 2)"

text \<open>The value in a subkey of a record, as the node of the client knows it.\<close>

definition value_at :: "('w, 'k, 'p) network \<Rightarrow> ('w, 'p, 'r) client \<Rightarrow> 'k \<Rightarrow> u32 \<Rightarrow> bytes option" where
  "value_at net c k i = Option.bind (records net (c_net c) k) (\<lambda>r. rec_values r i)"

lemma heartbeat_published:
  fixes b :: "('w, 'p, 'r) client"
  assumes N: "dht_reliable (pf_rc pf) net" and P: "profile_record pf net b k"
    and I: "c_identity b = Some i" "is_status i \<noteq> Offline"
  shows "outcome (heartbeat_tick pf)
    (\<lambda>_ b'. value_at net b' k 2 = Some (status_payload (status_byte (is_status i)) (millis_i64 b)))
    (\<lambda>_ _. False) b"
proof -
  obtain nh key r where n: "c_node b = Some nh" "nh_profile_dht_key nh = Some key" "rc_parse_key (pf_rc pf) key = Inr k"
    and r: "records net (c_net b) k = Some r" "nh_profile_owner_keypair nh = Some (rec_owner r)" "subkey_of r 2"
    using P unfolding profile_record_def by blast
  have millis: "millis_i64 (b\<lparr>c_net := w\<rparr>) = millis_i64 b" for w by (simp add: millis_i64_def)
  show ?thesis
    unfolding heartbeat_tick_def publish_own_status_def parse_key_def
    using n I
    by (simp add: wp millis)
      (rule reliable_open [OF N r(1)], rule reliable_set [OF N, where r = "r\<lparr>rec_opened := Some (Some (rec_owner r))\<rparr>"],
        use r in \<open>auto simp: writable_def subkey_of_def value_at_def write_value_def\<close>)
qed

section \<open>Reading it\<close>

definition seen_status :: "('w, 'p, 'r) client \<Rightarrow> user_status \<Rightarrow> int \<Rightarrow> user_status" where
  "seen_status c s t = (if t + stale_presence_threshold_ms < millis_i64 c then Offline else s)"

lemma effective_status_payload:
  "0 \<le> t \<Longrightarrow> t \<le> i64_max \<Longrightarrow> effective_status c s (status_payload (status_byte s) t) = seen_status c s t"
  by (auto simp: effective_status_def parse_status_timestamp_payload is_stale_iff seen_status_def)

text \<open>What the rest of a poll leaves alone.\<close>

definition status_kept :: "string \<Rightarrow> ('w, 'p, 'r) client \<Rightarrow> ('w, 'p, 'r) client \<Rightarrow> bool" where
  "status_kept k a a' \<longleftrightarrow>
     map_option (\<lambda>f. (fs_status f, fs_last_heartbeat_at f)) (friend_of a' k) =
       map_option (\<lambda>f. (fs_status f, fs_last_heartbeat_at f)) (friend_of a k) \<and>
     (\<exists>es. c_events a' = c_events a @ es)"

interpretation polling: service_preorder "status_kept k" plain_error for k
proof
  show "status_kept k a a" for a :: "('a, 'b, 'c) client" by (simp add: status_kept_def)
  show "status_kept k a c" if "status_kept k a b" "status_kept k b c" for a b c :: "('a, 'b, 'c) client"
    using that by (auto simp: status_kept_def)
  show "status_kept k c c'" if "background c c'" for c c' :: "('a, 'b, 'c) client"
    using that by (simp add: status_kept_def background_parts background_derived)
qed simp

lemma friend_of_edit:
  "friend_of (c\<lparr>c_friends := AList.map_entry j f (c_friends c)\<rparr>) k =
     (if k = j then map_option f (friend_of c k) else friend_of c k)"
  by (simp add: friend_of_def map_of_map_entry split: option.split)

lemma friend_of_frame [simp]:
  "friend_of (c\<lparr>c_net := w\<rparr>) k = friend_of c k" "friend_of (c\<lparr>c_events := es\<rparr>) k = friend_of c k"
  by (simp_all add: friend_of_def)

lemma seen_status_frame [simp]:
  "seen_status (c\<lparr>c_net := w\<rparr>) s t = seen_status c s t" "seen_status (c\<lparr>c_friends := fs\<rparr>) s t = seen_status c s t"
  by (simp_all add: seen_status_def millis_i64_def)

text \<open>What a poll that finds the status \<open>s\<close> of the time \<open>t\<close> does to the friend \<open>f\<close>.\<close>

definition sees :: "string \<Rightarrow> friend_state \<Rightarrow> user_status \<Rightarrow> int \<Rightarrow> ('w, 'p, 'r) client \<Rightarrow> ('w, 'p, 'r) client \<Rightarrow> bool" where
  "sees k f s t a a' \<longleftrightarrow>
     map_option (\<lambda>f. (fs_status f, fs_last_heartbeat_at f)) (friend_of a' k) = Some (seen_status a s t, Some t) \<and>
     (\<exists>es. c_events a' = c_events a @ es \<and>
        (fs_friendship_state f = Accepted \<and> seen_status a s t \<noteq> fs_status f \<longrightarrow>
         (if seen_status a s t = Offline then PresenceEvent (FriendOffline k)
          else PresenceEvent (StatusChanged k (status_name (seen_status a s t)) None)) \<in> set es))"

lemma sees_kept: "sees k f s t a a1 \<Longrightarrow> status_kept k a1 a' \<Longrightarrow> sees k f s t a a'"
  by (fastforce simp: sees_def status_kept_def)

lemma polling_game: "evolves plain_error (status_kept k) (sync_friend_game_info pf j rk force)"
proof -
  have edit: "evolves plain_error (status_kept k) (edit_friend_state j (\<lambda>f. f\<lparr>fs_game_info := g\<rparr>))" for g
    by (simp add: edit_friend_state_def evolves_def wp status_kept_def friend_of_edit option.map_comp comp_def)
  have tell: "evolves plain_error (status_kept k) (emit_presence e)" for e
    by (simp add: emit_presence_def emit_event_def evolves_def wp status_kept_def friend_of_def)
  show ?thesis
    unfolding sync_friend_game_info_def Let_def
    by (intro evolve polling.ev_bind polling.ev_result polling.ev_gets polling.ev_sum polling.ev_option
        polling.ev_list polling.ev_ok polling.ev_when_act polling.ev_calm [OF calm_rules(2)] edit tell)
qed

lemma polling_rest:
  "evolves plain_error (status_kept k) (sync_friend_prekey pf rk force)"
  "evolves plain_error (status_kept k) (sync_friend_route_blob pf j rk force)"
  unfolding sync_friend_prekey_def sync_friend_route_blob_def by (intro polling.ev_calm evolve)+

text \<open>One poll of a friend's record.\<close>

lemma poll_status:
  fixes a :: "('w, 'p, 'r) client"
  assumes N: "dht_reliable (pf_rc pf) net" and f: "friend_of a fk = Some f"
    and r: "records net w rk = Some r" "readable r" "subkey_of r 2"
    and v: "rec_values r 2 = Some (status_payload (status_byte s) t)" and t: "0 \<le> t" "t \<le> i64_max"
  shows "outcome (sync_friend_status pf fk rk force) (\<lambda>_. sees fk f s t a) E (a\<lparr>c_net := w\<rparr>)"
  unfolding sync_friend_status_def outcome_io_bind outcome_result outcome_veilid
  by simp (rule reliable_get [OF N r], simp add: v parse_status_payload store_heartbeat_def
      parse_status_timestamp_payload t effective_status_payload wp edit_friend_state_def has_state_def
      emit_presence_def emit_event_def friend_of_def map_of_map_entry f [unfolded friend_of_def] sees_def)

lemma poll_sees:
  fixes a :: "('w, 'p, 'r) client"
  assumes N: "dht_reliable (pf_rc pf) net" and f: "friend_of a fk = Some f"
    and r: "records net (c_net a) rk = Some r" "subkey_of r 2"
    and v: "rec_values r 2 = Some (status_payload (status_byte s) t)" and t: "0 \<le> t" "t \<le> i64_max"
  shows "outcome (sync_friend_dht_subkeys pf fk rk force) (\<lambda>_. sees fk f s t a) (\<lambda>_. sees fk f s t a) a"
proof -
  have status: "outcome (sync_friend_status pf fk rk force) (\<lambda>_. sees fk f s t a) (\<lambda>_. sees fk f s t a) (a\<lparr>c_net := w\<rparr>)"
    if "records net w = (records net (c_net a))(rk \<mapsto> r\<lparr>rec_opened := Some None\<rparr>)" for w
    by (rule poll_status [OF N f, where r = "r\<lparr>rec_opened := Some None\<rparr>"])
      (use that r v t in \<open>simp_all add: readable_def subkey_of_def\<close>)
  have rest: "evolves plain_error (status_kept fk) (io_bind (sync_friend_game_info pf fk rk force) (\<lambda>_.
      io_bind (sync_friend_prekey pf rk force) (\<lambda>_. sync_friend_route_blob pf fk rk force)))"
    by (intro polling.ev_bind polling_game polling_rest)
  have all: "outcome (io_bind (sync_friend_status pf fk rk force) (\<lambda>_. io_bind (sync_friend_game_info pf fk rk force) (\<lambda>_.
      io_bind (sync_friend_prekey pf rk force) (\<lambda>_. sync_friend_route_blob pf fk rk force))))
      (\<lambda>_. sees fk f s t a) (\<lambda>_. sees fk f s t a) (a\<lparr>c_net := w\<rparr>)"
    if "records net w = (records net (c_net a))(rk \<mapsto> r\<lparr>rec_opened := Some None\<rparr>)" for w
    unfolding outcome_io_bind [of "sync_friend_status pf fk rk force"]
    by (rule outcome_mono [OF status [OF that]], rule evolves_outcome [OF rest]) (auto intro: sees_kept)
  show ?thesis
    unfolding sync_friend_dht_subkeys_def outcome_io_bind [of "result _"] outcome_result outcome_veilid
    by simp (rule reliable_open [OF N r(1)], rule all)
qed

section \<open>Properties\<close>

text \<open>
  C32. Over a reliable network presence reaches friends and goes stale. Bob's heartbeat, while he is logged in and not
  offline, writes his status and the time into his profile; when Alice, whose node sees the
  value he wrote, polls that record, her entry of Bob has the time as his last heartbeat and his
  status, or offline when by her clock the heartbeat is more than 150 seconds old; and when Bob
  is an accepted friend whose status has changed the web view is told so.
\<close>

theorem heartbeat_reaches_friend:
  assumes "dht_reliable (pf_rc pf) net" and "profile_record pf net b k"
    and "c_identity b = Some i" and "is_status i \<noteq> Offline"
    and "friend_of a bob = Some f" and "records net (c_net a) rk = Some r" and "subkey_of r 2"
    and "rec_values r 2 = value_at net (snd (heartbeat_tick pf b)) k 2"
  shows "fst (heartbeat_tick pf b) = Inr () \<and>
    sees bob f (is_status i) (millis_i64 b) a (snd (sync_friend_dht_subkeys pf bob rk force a))"
proof -
  have h: "fst (heartbeat_tick pf b) = Inr () \<and> value_at net (snd (heartbeat_tick pf b)) k 2 =
      Some (status_payload (status_byte (is_status i)) (millis_i64 b))"
    using heartbeat_published [OF assms(1-4)] by (auto simp: outcome_def split: prod.splits sum.splits)
  have "outcome (sync_friend_dht_subkeys pf bob rk force) (\<lambda>_. sees bob f (is_status i) (millis_i64 b) a)
      (\<lambda>_. sees bob f (is_status i) (millis_i64 b) a) a"
    by (rule poll_sees [OF assms(1,5-7)]) (use assms(8) h millis_i64_bounds in auto)
  then show ?thesis
    using h by (auto simp: outcome_def split: prod.splits sum.splits)
qed

text \<open>Bob's profile has a record; Alice's node has a copy of it and she has him as a friend.\<close>

definition bob_with_profile :: "(mem \<times> mail, nat, bytes) client" where
  "bob_with_profile = sample_client 2 ''Bob''\<lparr>c_net := ([(mem_key 1 8, new_record 1 8)], [])\<rparr>"

definition friend_bob :: friend_state where
  "friend_bob = new_friend_state (hex_encode (sample_key 2)) ''Bob'' (Some (mem_key 1 8)) None Accepted"

definition alice_after :: "nat \<Rightarrow> (mem \<times> mail, nat, bytes) client" where
  "alice_after t = sample_client 1 ''Alice''
     \<lparr>c_friends := [(hex_encode (sample_key 2), friend_bob)], c_clock := c_clock bob_with_profile + t,
      c_net := ([(mem_key 1 8, write_value 2 (status_payload 0 1700000000000) (new_record 1 8))], [])\<rparr>"

theorem heartbeat_reaches_friend_witness:
  "fst (heartbeat_tick sample_platform bob_with_profile) = Inr () \<and>
   sees (hex_encode (sample_key 2)) friend_bob Online 1700000000000 (alice_after 150000)
     (snd (sync_friend_dht_subkeys sample_platform (hex_encode (sample_key 2)) (mem_key 1 8) True (alice_after 150000))) \<and>
   seen_status (alice_after 150000) Online 1700000000000 = Online \<and>
   seen_status (alice_after 150001) Online 1700000000000 = Offline"
proof -
  let ?key = "mem_key 1 8"
  have P: "profile_record sample_platform postal_net bob_with_profile ?key"
    by (simp add: profile_record_def bob_with_profile_def sample_client_def sample_platform_def postal_rc_def
        postal_net_def new_record_def subkey_of_def)
  have I: "c_identity bob_with_profile = Some \<lparr>is_public_key = hex_encode (sample_key 2), is_display_name = ''Bob'',
      is_status = Online, is_status_message = []\<rparr>"
    by (simp add: bob_with_profile_def sample_client_def)
  have N: "dht_reliable (pf_rc sample_platform) postal_net"
    using postal_reliable by (simp add: sample_platform_def)
  have m: "millis_i64 bob_with_profile = 1700000000000"
    by (simp add: bob_with_profile_def sample_client_def millis_i64_def i64_max_def)
  have v: "value_at postal_net (snd (heartbeat_tick sample_platform bob_with_profile)) ?key 2 =
      Some (status_payload 0 1700000000000)"
    using heartbeat_published [OF N P I] m by (auto simp: outcome_def split: prod.splits sum.splits)
  have f: "friend_of (alice_after t) (hex_encode (sample_key 2)) = Some friend_bob" for t
    by (simp add: alice_after_def friend_of_def)
  have r: "records postal_net (c_net (alice_after t)) ?key =
      Some (write_value 2 (status_payload 0 1700000000000) (new_record 1 8))" for t
    by (simp add: alice_after_def postal_net_def)
  have seen: "seen_status (alice_after t) Online 1700000000000 = (if t \<le> 150000 then Online else Offline)"
    if "t < 1000000" for t
    using that by (simp add: seen_status_def alice_after_def bob_with_profile_def sample_client_def millis_i64_def i64_max_def
        stale_presence_threshold_ms_def)
  show ?thesis
    using heartbeat_reaches_friend [OF N P I _ f r, of 150000 True] m
    by (simp add: v seen subkey_of_def write_value_def new_record_def del: One_nat_def)
qed

end
