(* ===== verification/Roster.thy ===== *)
theory Roster
  imports SampleClient FriendCommands SyncService ChatCommands
begin

text \<open>
  The friend list in memory and the rows of the table of friends. Every handler, command and
  service keeps them in step while the database works: a key is in the list, not counting the
  friends being removed, exactly when it has a row of the identity.
\<close>

section \<open>Both sides\<close>

definition listed :: "string \<Rightarrow> ('w, 'p, 'r) client \<Rightarrow> bool" where
  "listed k c \<longleftrightarrow> (case friend_of c k of None \<Rightarrow> False | Some f \<Rightarrow> fs_friendship_state f \<noteq> Removing)"

definition has_row :: "string \<Rightarrow> ('w, 'p, 'r) client \<Rightarrow> bool" where
  "has_row k c \<longleftrightarrow> row_exists friend_pk (owner_of c, k) (ct_friends (c_db c))"

text \<open>A client that is logged in, with a working database, the keys listed and the keys with a row.\<close>

definition rosters :: "string \<Rightarrow> string set \<Rightarrow> string set \<Rightarrow> ('w, 'p, 'r) client \<Rightarrow> bool" where
  "rosters owner L R c \<longleftrightarrow> c_faults c = [] \<and> owner_of c = owner \<and> identity_exists owner (c_db c) \<and>
     {k. listed k c} = L \<and> {k. has_row k c} = R"

definition roster_kept :: "('w, 'p, 'r) client \<Rightarrow> ('w, 'p, 'r) client \<Rightarrow> bool" where
  "roster_kept c c' \<longleftrightarrow> (c_faults c = [] \<longrightarrow> c_faults c' = []) \<and> owner_of c' = owner_of c \<and>
     (\<forall>k. listed k c' = listed k c) \<and>
     (\<forall>i. row_exists friend_pk i (ct_friends (c_db c')) = row_exists friend_pk i (ct_friends (c_db c))) \<and>
     (\<forall>i. identity_exists i (c_db c') = identity_exists i (c_db c))"

lemma rosters_kept: "rosters owner L R c \<Longrightarrow> roster_kept c c' \<Longrightarrow> rosters owner L R c'"
  by (auto simp: rosters_def roster_kept_def has_row_def)

interpretation roster: service_preorder roster_kept "\<lambda>_. True"
  by unfold_locales (auto simp: roster_kept_def background_derived background_tables background_parts listed_def
      identity_exists_def)

interpretation plain_roster: service_preorder roster_kept plain_error
  by unfold_locales (auto simp: roster_kept_def background_derived background_tables background_parts listed_def
      identity_exists_def)

text \<open>
  A step in the middle of an operation: one that keeps the roster, whose errors end the operation
  only where both sides agree.
\<close>

lemma roster_step:
  assumes "evolves E roster_kept m" and "rosters owner L R c"
    and "\<And>x c1. rosters owner L R c1 \<Longrightarrow> outcome (f x) Q F c1"
    and "\<And>e c1. E e \<Longrightarrow> rosters owner L R c1 \<Longrightarrow> F e c1"
  shows "outcome (io_bind m f) Q F c"
  unfolding outcome_io_bind
  by (rule evolves_outcome [OF assms(1)]) (auto intro: assms(3,4) rosters_kept [OF assms(2)])

lemma roster_last:
  assumes "evolves E roster_kept m" and "rosters owner L R c"
    and "\<And>x c1. rosters owner L R c1 \<Longrightarrow> Q x c1" and "\<And>e c1. E e \<Longrightarrow> rosters owner L R c1 \<Longrightarrow> F e c1"
  shows "outcome m Q F c"
  by (rule evolves_outcome [OF assms(1)]) (auto intro: assms(3,4) rosters_kept [OF assms(2)])

lemma evolves_ignore_sure: "evolves plain_error R m \<Longrightarrow> evolves (\<lambda>_. False) R (ignore m)"
  by (rule evolvesI, unfold wp, erule evolves_outcome) (auto simp: plain_error_def split: client_error.splits)

section \<open>Steps that keep the roster\<close>

lemma friend_of_map_entry:
  "friend_of (c\<lparr>c_friends := AList.map_entry j f (c_friends c)\<rparr>) k =
     (if k = j then map_option f (friend_of c k) else friend_of c k)"
  by (simp add: friend_of_def map_of_map_entry split: option.split)

lemma owner_of_frame [simp]:
  "owner_of (c\<lparr>c_friends := fs\<rparr>) = owner_of c" "owner_of (c\<lparr>c_db := d\<rparr>) = owner_of c"
  "owner_of (c\<lparr>c_events := es\<rparr>) = owner_of c"
  by (simp_all add: owner_of_def)

lemma friend_of_db [simp]: "friend_of (c\<lparr>c_db := d\<rparr>) k = friend_of c k"
  "friend_of (c\<lparr>c_events := es\<rparr>) k = friend_of c k"
  by (simp_all add: friend_of_def)

lemma friend_row_updated:
  "(\<And>r. pk (f r) = pk r) \<Longrightarrow> row_exists pk i (row_update P f t) = row_exists pk i t"
  by (induction t) (auto simp: row_update_def row_exists_def)

lemma friend_row_deleted:
  "row_exists pk i (row_delete (\<lambda>r. pk r = j) t) \<longleftrightarrow> i \<noteq> j \<and> row_exists pk i t"
  by (auto simp: row_delete_def row_exists_def list_ex_iff)

lemma kept_edit:
  assumes "\<And>f. fs_friendship_state (g f) = fs_friendship_state f"
  shows "evolves (\<lambda>_. False) roster_kept (edit_friend_state k g)"
  by (auto simp: edit_friend_state_def evolves_def wp roster_kept_def listed_def friend_of_map_entry assms
      split: option.split)

lemma kept_emit: "evolves (\<lambda>_. False) roster_kept (emit_event e)"
  by (simp add: emit_event_def evolves_def wp roster_kept_def listed_def)

lemma kept_execute:
  assumes "\<And>d d'. stmt d = Some d' \<Longrightarrow> (\<forall>i. row_exists friend_pk i (ct_friends d') = row_exists friend_pk i (ct_friends d)) \<and>
    (\<forall>i. identity_exists i d' = identity_exists i d)"
  shows "evolves plain_error roster_kept (execute pf w stmt)"
  by (rule plain_roster.ev_execute) (use assms in \<open>auto simp: roster_kept_def listed_def\<close>)

lemma kept_statements:
  "evolves plain_error roster_kept (execute pf w (replace_request r))"
  "evolves plain_error roster_kept (execute pf w (delete_request o1 k))"
  "evolves plain_error roster_kept (execute pf w (delete_expired_requests o1 t))"
  "evolves plain_error roster_kept (execute pf w (replace_blocked b))"
  "evolves plain_error roster_kept (execute pf w (delete_blocked o1 k))"
  "evolves plain_error roster_kept (execute pf w (insert_dm o1 conv kind s body t rd))"
  "evolves plain_error roster_kept (execute pf w (mark_dms_read o1 k))"
  "evolves plain_error roster_kept (execute pf w (delete_queued i))"
  "evolves plain_error roster_kept (execute pf w (increment_queued i))"
  "evolves plain_error roster_kept (execute pf w (delete_queued_to o1 k))"
  "evolves plain_error roster_kept (execute pf w (insert_queued o1 k body t))"
  "evolves plain_error roster_kept (execute pf w (insert_group o1 n))"
  "evolves plain_error roster_kept (execute pf w (rename_group g n))"
  by (rule kept_execute, auto simp: client_statement_defs identity_exists_def split: if_splits)+

lemma kept_update_friend:
  "(\<And>r. friend_pk (g r) = friend_pk r) \<Longrightarrow> evolves plain_error roster_kept (execute pf w (update_friend o1 k g))"
  by (rule kept_execute) (auto simp: update_friend_def friend_row_updated identity_exists_def)

lemma kept_update_identity:
  "(\<And>r. ir_public_key (g r) = ir_public_key r) \<Longrightarrow>
   evolves plain_error roster_kept (execute pf w (update_identity k g))"
  by (rule kept_execute) (auto simp: update_identity_def identity_exists_def friend_row_updated)

lemma kept_friend_group: "evolves plain_error roster_kept (execute pf w (update_friend_group o1 k g))"
  by (rule kept_execute)
    (auto simp: update_friend_group_def update_friend_def friend_row_updated identity_exists_def friend_pk_def
      split: if_splits)

section \<open>Steps that change it\<close>

lemma drop_roster:
  "rosters owner L R c \<Longrightarrow> outcome (drop_friend k) (\<lambda>_. rosters owner (L - {k}) R) E c"
  by (auto simp: drop_friend_def wp rosters_def listed_def has_row_def friend_of_def delete_conv')

lemma set_roster:
  "rosters owner L R c \<Longrightarrow> fs_friendship_state f \<noteq> Removing \<Longrightarrow>
   outcome (set_friend k f) (\<lambda>_. rosters owner (insert k L) R) E c"
  by (auto simp: set_friend_def wp rosters_def listed_def has_row_def friend_of_def update_conv')

lemma delete_roster:
  "rosters owner L R c \<Longrightarrow> outcome (execute pf w (delete_friend owner k)) (\<lambda>_. rosters owner L (R - {k})) E c"
  by (auto simp: rosters_def outcome_execute_clean delete_friend_def listed_def has_row_def friend_row_deleted
      identity_exists_def)

lemma row_exists_append: "row_exists pk i (t @ [r]) \<longleftrightarrow> row_exists pk i t \<or> pk r = i"
  by (auto simp: row_exists_def)

lemma insert_ignore_roster:
  "rosters owner L R c \<Longrightarrow> friend_pk r = (owner, k) \<Longrightarrow>
   outcome (execute pf w (insert_ignore_friend r)) (\<lambda>_. rosters owner L (insert k R)) E c"
  by (auto simp: rosters_def outcome_execute_clean insert_ignore_friend_def listed_def has_row_def row_exists_append
      identity_exists_def friend_pk_def)

lemma insert_roster:
  "rosters owner L R c \<Longrightarrow> friend_pk r = (owner, k) \<Longrightarrow> k \<notin> R \<Longrightarrow>
   outcome (execute pf w (insert_friend r)) (\<lambda>_. rosters owner L (insert k R)) E c"
  by (auto simp: rosters_def outcome_execute_clean insert_friend_def listed_def has_row_def row_exists_append
      row_insert_def identity_exists_def friend_pk_def)

section \<open>Services that keep it\<close>

named_theorems rostered \<open>steps that keep the roster\<close>

lemma sure_evolves: "evolves (\<lambda>_. False) R m \<Longrightarrow> evolves E R m"
  by (erule evolves_mono) auto

lemma plain_evolves: "evolves plain_error R m \<Longrightarrow> evolves (\<lambda>_. True) R m"
  by (erule evolves_mono) auto

lemmas kept_rules [rostered] = kept_statements [THEN plain_evolves] kept_friend_group [THEN plain_evolves]
  kept_update_friend [THEN plain_evolves] kept_update_identity [THEN plain_evolves]
  kept_edit [THEN sure_evolves] kept_emit [THEN sure_evolves]

lemma kept_fields [rostered]:
  "evolves E roster_kept (modify (\<lambda>c. c\<lparr>c_unwatched := f c\<rparr>))"
  "evolves E roster_kept (modify (\<lambda>c. c\<lparr>c_pre_away := g c\<rparr>))"
  "evolves E roster_kept (modify (\<lambda>c. c\<lparr>c_communities := h c\<rparr>))"
  "evolves E roster_kept (modify (\<lambda>c. c\<lparr>c_node := n c\<rparr>))"
  by (simp_all add: evolves_def wp roster_kept_def listed_def friend_of_def owner_of_def)

lemma kept_working: "evolves (\<lambda>_. True) background m \<Longrightarrow> evolves (\<lambda>_. True) roster_kept m"
  by (erule evolves_mono) (auto intro: roster.background_within)

lemmas roster_atoms [rostered] = calm_rules [THEN roster.ev_calm] calm_query [THEN roster.ev_calm]
  calm_queue_pending_message [THEN roster.ev_calm] calm_delete_pending_messages [THEN roster.ev_calm]
  calm_send_to_peer_raw [THEN roster.ev_calm] calm_build_and_queue [THEN roster.ev_calm]
  calm_send_friend_reject [THEN roster.ev_calm] calm_push_friend_list [THEN roster.ev_calm]
  calm_is_blocked [THEN roster.ev_calm] calm_is_user_blocked [THEN roster.ev_calm]
  working_signal_call [THEN kept_working] working_encrypt [THEN kept_working]
  working_send_envelope_to_peer [THEN kept_working] working_fresh_bundle [THEN kept_working]
  working_send_friend_request [THEN kept_working] working_send_friend_accept [THEN kept_working]
  working_establish [THEN kept_working]

lemmas roster_rules = roster.ev_bind roster.ev_if roster.ev_option roster.ev_sum roster.ev_prod roster.ev_list
  roster.ev_for_each roster.ev_ok roster.ev_fail roster.ev_ok_or roster.ev_gets roster.ev_describe roster.ev_result
  roster.ev_ignore roster.ev_when_act roster.ev_text_result rostered

lemma kept_watch_friend: "evolves (\<lambda>_. True) roster_kept (watch_friend pf k key)"
  unfolding watch_friend_def parse_key_def by (intro roster_rules) simp_all

lemma kept_publish: "evolves (\<lambda>_. True) roster_kept (publish_own_status pf s)"
  unfolding publish_own_status_def parse_key_def by (intro roster_rules)

lemma kept_emit_chat: "evolves E roster_kept (emit_chat e)" "evolves E roster_kept (emit_presence p)"
  by (simp_all add: emit_chat_def emit_presence_def sure_evolves kept_emit)

lemmas service_rules = roster_rules kept_watch_friend kept_publish kept_emit_chat

lemma kept_friend_subkey: "evolves (\<lambda>_. True) roster_kept (handle_friend_subkey pf k v i)"
proof -
  have heartbeat: "evolves (\<lambda>_. True) roster_kept (store_heartbeat k v)"
    unfolding store_heartbeat_def by (intro service_rules) simp_all
  have status: "evolves (\<lambda>_. True) roster_kept (handle_status_change pf k v)"
    unfolding handle_status_change_def by (intro service_rules heartbeat) (simp_all add: friend_pk_def)
  have game: "evolves (\<lambda>_. True) roster_kept (handle_game_change pf k v)"
    unfolding handle_game_change_def Let_def by (intro service_rules) simp_all
  have route: "evolves (\<lambda>_. True) roster_kept (handle_route_change pf k v)"
    unfolding handle_route_change_def by (intro service_rules)
  show ?thesis unfolding handle_friend_subkey_def by (intro roster.ev_if roster.ev_ok status game route)
qed

lemma kept_sync_friend: "evolves (\<lambda>_. True) roster_kept (sync_friend_dht_subkeys pf k rk force)"
proof -
  have heartbeat: "evolves (\<lambda>_. True) roster_kept (store_heartbeat k v)" for v
    unfolding store_heartbeat_def by (intro service_rules) simp_all
  have status: "evolves (\<lambda>_. True) roster_kept (sync_friend_status pf k rk force)"
    unfolding sync_friend_status_def by (intro service_rules heartbeat) simp_all
  have game: "evolves (\<lambda>_. True) roster_kept (sync_friend_game_info pf k rk force)"
    unfolding sync_friend_game_info_def Let_def by (intro service_rules) simp_all
  have "evolves (\<lambda>_. True) roster_kept (sync_friend_prekey pf rk force)"
    and "evolves (\<lambda>_. True) roster_kept (sync_friend_route_blob pf k rk force)"
    unfolding sync_friend_prekey_def sync_friend_route_blob_def by (intro service_rules)+
  then show ?thesis unfolding sync_friend_dht_subkeys_def by (intro service_rules status game)
qed

lemma kept_sync_friends: "evolves (\<lambda>_. True) roster_kept (sync_friends pf watched first all)"
proof -
  have each: "evolves (\<lambda>_. True) roster_kept (sync_each_friend pf force unwatched fs w)" for force unwatched fs w
  proof (induction fs arbitrary: w)
    case Nil
    then show ?case by (simp add: roster.ev_ok)
  next
    case (Cons f fs)
    then show ?case
      by (cases f, simp only: sync_each_friend.simps) (intro service_rules kept_sync_friend; assumption)
  qed
  have stale: "evolves (\<lambda>_. True) roster_kept check_stale_presences"
    unfolding check_stale_presences_def mark_if_stale_def by (intro service_rules) simp_all
  show ?thesis unfolding sync_friends_def Let_def by (intro service_rules each stale)
qed

lemma roster_import: "evolves E roster_kept (import_peer_route pf h blob)"
  by (auto simp: evolves_def outcome_def import_peer_route_def roster_kept_def listed_def friend_of_def owner_of_def
      split: prod.split)

lemma kept_retry: "evolves (\<lambda>_. True) roster_kept (retry_pending_messages pf)"
proof -
  have rows: "evolves (\<lambda>_. True) roster_kept (delete_pending_message pf i)"
    "evolves (\<lambda>_. True) roster_kept (increment_retry_count pf i)" for i
    unfolding delete_pending_message_def increment_retry_count_def by (intro service_rules)+
  have fallback: "evolves (\<lambda>_. True) roster_kept (try_mailbox_route_fallback pf k)" for k
    unfolding try_mailbox_route_fallback_def by (intro service_rules roster_import)
  have dm: "evolves (\<lambda>_. True) roster_kept (retry_pending_dm pf i k e)" for i k e
    unfolding retry_pending_dm_def by (intro service_rules rows fallback)
  have check: "evolves (\<lambda>_. True) roster_kept (check_server_response pf b)" for b
    unfolding check_server_response_def
    by (simp split: sum.split community_response.split add: roster.ev_ok roster.ev_fail)
  have server: "evolves (\<lambda>_. True) roster_kept (send_encrypted_to_server pf ch cid ct gen ts blob)" for ch cid ct gen ts blob
    unfolding send_encrypted_to_server_def Let_def by (intro service_rules roster_import check)
  have "evolves (\<lambda>_. True) roster_kept (retry_single_pending pf q)" for q
    unfolding retry_single_pending_def Let_def by (intro service_rules rows dm server)
  then show ?thesis unfolding retry_pending_messages_def by (intro service_rules)
qed

lemma kept_conversations: "evolves (\<lambda>_. True) roster_kept (sync_conversations pf)"
proof -
  have header: "evolves (\<lambda>_. True) roster_kept (apply_conversation_header pf k h)" for k h
    unfolding apply_conversation_header_def by (intro service_rules) simp_all
  have "evolves (\<lambda>_. True) roster_kept (sync_single_conversation pf sk k ck)" for sk k ck
    unfolding sync_single_conversation_def by (intro service_rules header)
  then show ?thesis unfolding sync_conversations_def by (intro service_rules)
qed

lemma kept_current_owner: "evolves (\<lambda>_. True) roster_kept current_owner_key"
  unfolding current_owner_key_def by (intro service_rules)

lemma kept_own_status: "evolves E roster_kept (set_own_status s)"
  by (auto simp: set_own_status_def evolves_def wp roster_kept_def listed_def friend_of_def owner_of_def
      split: option.split)

lemma kept_chat:
  "evolves (\<lambda>_. True) roster_kept (send_chat_message pf k body)"
  "evolves (\<lambda>_. True) roster_kept (send_typing pf k typing)"
  "evolves (\<lambda>_. True) roster_kept (prepare_chat_session pf k)"
  "evolves (\<lambda>_. True) roster_kept (mark_read pf k)"
  unfolding send_chat_message_def send_dm_def send_typing_def send_typing_indicator_def prepare_chat_session_def
    parse_key_def mark_read_def edit_friend_state_def [symmetric]
  by (intro service_rules kept_current_owner; simp)+

lemma kept_push_profile: "evolves (\<lambda>_. True) roster_kept (push_profile_update pf i v)"
  unfolding push_profile_update_def parse_key_def by (intro service_rules)

lemma kept_profile:
  "evolves (\<lambda>_. True) roster_kept (set_status pf name)"
  "evolves (\<lambda>_. True) roster_kept (set_avatar pf picture)"
  "evolves (\<lambda>_. True) roster_kept (heartbeat_tick pf)"
  "evolves (\<lambda>_. True) roster_kept (idle_tick pf minutes idle)"
  unfolding set_status_def set_avatar_def heartbeat_tick_def idle_tick_def Let_def emit_status_change_def
  by (intro service_rules kept_own_status kept_push_profile; simp)+

lemma kept_groups:
  "evolves (\<lambda>_. True) roster_kept (create_friend_group pf name)"
  "evolves (\<lambda>_. True) roster_kept (rename_friend_group pf g name)"
  "evolves (\<lambda>_. True) roster_kept (move_friend_to_group pf k g1)"
  unfolding create_friend_group_def rename_friend_group_def move_friend_to_group_def
  by (intro service_rules kept_current_owner; simp)+

lemma kept_requests:
  "evolves (\<lambda>_. True) roster_kept (reject_request pf k)"
  "evolves (\<lambda>_. True) roster_kept (unblock_user pf k)"
  "evolves (\<lambda>_. True) roster_kept (generate_invite pf)"
  unfolding reject_request_def unblock_user_def generate_invite_def
  by (intro service_rules kept_current_owner)+

section \<open>Operations on the friend list\<close>

text \<open>Both sides agree.\<close>

definition roster_ok :: "string \<Rightarrow> ('w, 'p, 'r) client \<Rightarrow> bool" where
  "roster_ok owner c \<longleftrightarrow> (\<exists>L. rosters owner L L c)"

abbreviation agrees :: "string \<Rightarrow> ('w, 'p, 'r, 'a) act \<Rightarrow> ('w, 'p, 'r) client \<Rightarrow> bool" where
  "agrees owner m c \<equiv> outcome m (\<lambda>_. roster_ok owner) (\<lambda>_. roster_ok owner) c"

lemma roster_okI: "rosters owner L L c \<Longrightarrow> roster_ok owner c"
  by (auto simp: roster_ok_def)

lemma agrees_kept: "evolves E roster_kept m \<Longrightarrow> rosters owner L L c \<Longrightarrow> agrees owner m c"
  by (erule roster_last) (auto intro: roster_okI)

lemma agrees_step:
  "evolves E roster_kept m \<Longrightarrow> rosters owner L L c \<Longrightarrow>
   (\<And>x c1. rosters owner L L c1 \<Longrightarrow> agrees owner (f x) c1) \<Longrightarrow> agrees owner (io_bind m f) c"
  by (erule roster_step) (auto intro: roster_okI)

text \<open>Between a change of one side and that of the other nothing may fail.\<close>

lemma between_step:
  "evolves (\<lambda>_. False) roster_kept m \<Longrightarrow> rosters owner L R c \<Longrightarrow>
   (\<And>x c1. rosters owner L R c1 \<Longrightarrow> agrees owner (f x) c1) \<Longrightarrow> agrees owner (io_bind m f) c"
  by (erule roster_step) auto

lemma change_step:
  "outcome m (\<lambda>_. rosters owner L R) (\<lambda>_ _. False) c \<Longrightarrow>
   (\<And>x c1. rosters owner L R c1 \<Longrightarrow> agrees owner (f x) c1) \<Longrightarrow> agrees owner (io_bind m f) c"
  unfolding outcome_io_bind by (erule outcome_mono) auto

lemma outcome_ignore_change:
  "outcome m (\<lambda>_. Q) (\<lambda>_ _. False) c \<Longrightarrow> outcome (ignore m) (\<lambda>_. Q) E c"
  unfolding wp by (erule outcome_mono) auto

lemma accept_roster:
  assumes "rosters owner L R c" and "\<not> has_state Removing k c" and "\<And>f. fs_friendship_state (g f) = Accepted"
  shows "outcome (edit_friend_state k g) (\<lambda>_. rosters owner L R) E c"
proof -
  have "listed j (c\<lparr>c_friends := AList.map_entry k g (c_friends c)\<rparr>) = listed j c" for j
    using assms(2,3) by (auto simp: listed_def friend_of_map_entry has_state_def split: option.splits)
  with assms(1) show ?thesis by (auto simp: edit_friend_state_def wp rosters_def has_row_def)
qed

lemma removing_roster:
  assumes "rosters owner L R c"
  shows "outcome (edit_friend_state k (\<lambda>f. f\<lparr>fs_friendship_state := Removing\<rparr>)) (\<lambda>_. rosters owner (L - {k}) R) E c"
proof -
  have "listed j (c\<lparr>c_friends := AList.map_entry k (\<lambda>f. f\<lparr>fs_friendship_state := Removing\<rparr>) (c_friends c)\<rparr>) \<longleftrightarrow>
      j \<noteq> k \<and> listed j c" for j
    by (auto simp: listed_def friend_of_map_entry split: option.splits)
  with assms show ?thesis by (auto simp: edit_friend_state_def wp rosters_def has_row_def)
qed

lemma drop_removing:
  assumes "rosters owner L R c" and "has_state Removing k c"
  shows "outcome (drop_friend k) (\<lambda>_. rosters owner L R) E c"
proof -
  have "\<not> listed k c" using assms(2) by (auto simp: listed_def has_state_def split: option.splits)
  then have "L - {k} = L" using assms(1) by (auto simp: rosters_def)
  with drop_roster [OF assms(1), of k] show ?thesis by simp
qed

lemma delete_row_roster:
  "rosters owner L R c \<Longrightarrow> outcome (delete_friend_row pf w k) (\<lambda>_. rosters owner L (R - {k})) E c"
  using delete_roster [of owner L R c pf w k E] by (simp add: delete_friend_row_def wp rosters_def)

interpretation sure_roster: state_preorder roster_kept "\<lambda>_. False"
  by unfold_locales (auto simp: roster_kept_def)

lemma sure_roster_gets: "evolves (\<lambda>_. False) roster_kept (gets f)"
  by (simp add: evolves_def wp sure_roster.state_refl)

lemma sure_rosters:
  "evolves (\<lambda>_. False) roster_kept (delete_pending_request_row pf k)"
  "evolves (\<lambda>_. False) roster_kept (delete_pending_messages_to_recipient pf k)"
  "evolves (\<lambda>_. False) roster_kept (ignore (send_to_peer_raw pf k payload))"
  "evolves (\<lambda>_. False) roster_kept (ignore (build_and_queue_envelope pf k payload))"
  unfolding delete_pending_request_row_def delete_pending_messages_to_recipient_def
  by (rule evolves_ignore_sure, rule plain_roster.ev_calm, rule calm_send_to_peer_raw calm_build_and_queue
      | intro sure_roster.ev_bind sure_roster_gets evolves_ignore_sure kept_statements)+

lemma sure_edits:
  "evolves (\<lambda>_. False) roster_kept (edit_dht h)" "evolves (\<lambda>_. False) roster_kept (edit_manager m)"
  by (auto simp: evolves_def wp edit_manager_def edit_dht_def roster_kept_def listed_def friend_of_def owner_of_def)

lemma kept_emit_last: "rosters owner L L c \<Longrightarrow> agrees owner (emit_chat e) c"
  by (rule agrees_kept [OF kept_emit_chat(1)])

lemma agrees_bind:
  "agrees owner m c \<Longrightarrow> (\<And>x L c1. rosters owner L L c1 \<Longrightarrow> agrees owner (f x) c1) \<Longrightarrow> agrees owner (io_bind m f) c"
  unfolding outcome_io_bind by (erule outcome_mono) (auto simp: roster_ok_def)

lemma agrees_when: "rosters owner L L c \<Longrightarrow> (b \<Longrightarrow> agrees owner m c) \<Longrightarrow> agrees owner (when_act b m) c"
  by (auto simp: wp intro: roster_okI)

lemma agrees_if:
  "(b \<Longrightarrow> agrees owner m c) \<Longrightarrow> (\<not> b \<Longrightarrow> agrees owner n c) \<Longrightarrow> agrees owner (if b then m else n) c"
  by simp

lemma agrees_ok: "rosters owner L L c \<Longrightarrow> agrees owner (ok x) c"
  by (simp add: wp roster_okI)

lemmas agrees_rest = agrees_kept [where E = "\<lambda>_. True"]

text \<open>A friend's row is deleted and the friend dropped.\<close>

lemma forget_agrees:
  assumes "rosters owner L L c" and "\<And>M c1. rosters owner M M c1 \<Longrightarrow> agrees owner m c1"
  shows "agrees owner (io_bind (ignore (delete_friend_row pf w k)) (\<lambda>_. io_bind (drop_friend k) (\<lambda>_. m))) c"
  by (rule change_step [OF outcome_ignore_change [OF delete_row_roster [OF assms(1)]]],
      rule change_step [OF drop_roster], assumption, rule assms(2))

subsection \<open>Messages\<close>

lemma reject_agrees: "rosters owner L L c \<Longrightarrow> agrees owner (handle_friend_reject pf k) c"
  unfolding handle_friend_reject_def
  by (rule agrees_step [OF roster.ev_gets], assumption, rule agrees_bind, rule agrees_when, assumption,
      rule forget_agrees, assumption) (rule kept_emit_last, assumption)+

lemma unfriended_agrees:
  assumes "rosters owner L L c"
  shows "agrees owner (handle_unfriended pf k) c"
proof -
  note sure = sure_rosters sure_roster_gets
  have tail: "evolves (\<lambda>_. True) roster_kept (io_bind (case key of None \<Rightarrow> ok () | Some k \<Rightarrow> edit_dht (unregister_friend_dht_key k))
      (\<lambda>_. io_bind (ignore (push_friend_list_update pf)) (\<lambda>_. emit_chat (EvFriendRemoved k))))" for key
    by (intro service_rules)
  show ?thesis
    unfolding handle_unfriended_def
    by (rule agrees_step [OF roster.ev_gets assms], rule agrees_if, rule agrees_ok, assumption,
        rule change_step [OF outcome_ignore_change [OF delete_row_roster]], assumption,
        rule between_step [OF sure(1)], assumption, rule between_step [OF sure(2)], assumption,
        rule between_step [OF sure(3)], assumption, rule between_step [OF sure(5)], assumption,
        rule change_step [OF drop_roster], assumption, rule agrees_rest [OF tail])
qed

lemma auto_accept_agrees:
  assumes "rosters owner L L c" and "k \<in> L"
  shows "agrees owner (auto_accept_cross_request pf k n b p m) c"
proof -
  have rows: "evolves (\<lambda>_. True) roster_kept (persist_friendship_state pf k s)"
    "evolves (\<lambda>_. True) roster_kept (update_friend_display_name pf k s)"
    "evolves (\<lambda>_. True) roster_kept (persist_friend_dht_key pf k s)"
    "evolves (\<lambda>_. True) roster_kept (persist_friend_mailbox_key pf k s)" for s
    unfolding persist_friendship_state_def update_friend_display_name_def persist_friend_dht_key_def
      persist_friend_mailbox_key_def
    by (intro service_rules; simp add: friend_pk_def)+
  have accept: "outcome (edit_friend_state k g) (\<lambda>_. rosters owner L L) (\<lambda>_ _. False) c1"
    if "rosters owner L L c1" "\<And>f. fs_friendship_state (g f) = Accepted" for g c1
  proof (rule accept_roster [OF that(1) _ that(2)])
    show "\<not> has_state Removing k c1"
      using that(1) assms(2) by (auto simp: rosters_def listed_def has_state_def split: option.splits)
  qed
  show ?thesis
    unfolding auto_accept_cross_request_def
    by (rule between_step [OF sure_rosters(1) assms(1)], rule change_step [OF accept], assumption, simp,
        rule agrees_rest) (intro service_rules rows, assumption)
qed

lemma agrees_gets: "agrees owner (f (g c)) c \<Longrightarrow> agrees owner (io_bind (gets g) f) c"
  by (simp add: wp)

lemma kept_fresh_request: "evolves (\<lambda>_. True) roster_kept (receive_fresh_request pf k n m b p r mb)"
  unfolding receive_fresh_request_def persist_friend_request_def by (intro service_rules)

lemma request_agrees:
  assumes "rosters owner L L c"
  shows "agrees owner (handle_friend_request_full pf k n m b p r mb) c"
proof -
  note fresh = agrees_rest [OF kept_fresh_request]
  have again: "agrees owner (io_bind (drop_friend k) (\<lambda>_.
      io_bind (ignore (delete_friend_row pf ''delete stale friend for re-add: '' k)) (\<lambda>_.
      io_bind (delete_pending_request_row pf k) (\<lambda>_. receive_fresh_request pf k n m b p r mb)))) c1"
    if "rosters owner L L c1" for c1
    by (rule change_step [OF drop_roster [OF that]], rule change_step [OF outcome_ignore_change [OF delete_row_roster]],
        assumption, rule agrees_step [OF sure_rosters(1)], assumption, rule fresh)
  have route: "evolves (\<lambda>_. True) roster_kept (when_act (r \<noteq> []) (cache_peer_route pf k r))"
    by (intro service_rules)
  show ?thesis
    unfolding handle_friend_request_full_def
  proof (rule agrees_step [OF route assms], rule agrees_gets)
    fix c1 :: "('a, 'b, 'c) client"
    assume 1: "rosters owner L L c1"
    then have "friend_of c1 k = Some f \<Longrightarrow> fs_friendship_state f = PendingOut \<Longrightarrow> k \<in> L" for f
      by (auto simp: rosters_def listed_def)
    then show "agrees owner (case map_option fs_friendship_state (friend_of c1 k) of
           None \<Rightarrow> receive_fresh_request pf k n m b p r mb
         | Some PendingOut \<Rightarrow> auto_accept_cross_request pf k n b p mb
         | Some _ \<Rightarrow>
             io_bind (drop_friend k) (\<lambda>_.
             io_bind (ignore (delete_friend_row pf ''delete stale friend for re-add: '' k)) (\<lambda>_.
             io_bind (delete_pending_request_row pf k) (\<lambda>_. receive_fresh_request pf k n m b p r mb)))) c1"
      using 1 by (auto simp: fresh again intro: auto_accept_agrees split: option.split friendship_state.split)
  qed
qed

lemma accept_agrees:
  assumes "rosters owner L L c"
  shows "agrees owner (handle_friend_accept_full pf k b p r mb e i x) c"
proof -
  have session: "evolves (\<lambda>_. True) background (handle_friend_accept pf k b e i x)"
    unfolding handle_friend_accept_def by (intro evolve)
  have route: "evolves (\<lambda>_. True) background (when_act (r \<noteq> []) (cache_peer_route pf k r))"
    by (intro evolve)
  have rows: "evolves (\<lambda>_. True) roster_kept (persist_friendship_state pf k s)"
    "evolves (\<lambda>_. True) roster_kept (persist_friend_dht_key pf k s)" for s
    unfolding persist_friendship_state_def persist_friend_dht_key_def
    by (intro service_rules; simp add: friend_pk_def)+
  have behind: "agrees owner (io_bind m f) c1"
    if "evolves (\<lambda>_. True) background m" "background c c1"
      "\<And>y c2. background c c2 \<Longrightarrow> agrees owner (f y) c2" for m :: "('a, 'b, 'c, 'x) act" and f c1
    unfolding outcome_io_bind
    by (rule evolves_outcome [OF that(1)])
      (auto intro: that(3) background_trans [OF that(2)] roster_okI rosters_kept [OF assms] roster.background_within)
  show ?thesis
  proof (cases "has_state Removing k c")
    case True
    with assms show ?thesis by (simp add: handle_friend_accept_full_def wp roster_okI)
  next
    case False
    then have accept: "outcome (edit_friend_state k g) (\<lambda>_. rosters owner L L) (\<lambda>_ _. False) c2"
      if "background c c2" "\<And>f. fs_friendship_state (g f) = Accepted" for g c2
      by (intro accept_roster [OF _ _ that(2)] rosters_kept [OF assms] roster.background_within that(1))
        (simp add: background_derived [OF that(1)])
    show ?thesis
      unfolding handle_friend_accept_full_def
      by (rule agrees_gets, simp only: False if_False, rule behind [OF session background_refl], rule behind [OF route],
          assumption, rule change_step [OF accept], assumption, simp, rule agrees_rest)
        (intro service_rules rows, assumption)
  qed
qed

lemma dispatch_agrees:
  assumes "rosters owner L L c"
  shows "agrees owner (dispatch_payload pf k ts payload) c"
proof -
  have dm: "evolves (\<lambda>_. True) roster_kept (handle_direct_message pf k body t)"
    "evolves (\<lambda>_. True) roster_kept (handle_channel_message pf k ch body t)"
    "evolves (\<lambda>_. True) roster_kept (handle_unfriended_ack pf k)" for body t ch
    unfolding handle_direct_message_def handle_channel_message_def handle_unfriended_ack_def
    by (intro service_rules; simp)+
  have dht: "evolves (\<lambda>_. True) roster_kept (persist_friend_dht_key pf k s)" for s
    unfolding persist_friend_dht_key_def by (intro service_rules; simp add: friend_pk_def)+
  have rotated: "evolves (\<lambda>_. True) roster_kept (handle_profile_key_rotated pf k key)" for key
    unfolding handle_profile_key_rotated_def by (intro service_rules dht; simp)
  show ?thesis
    unfolding dispatch_payload_def
    by (cases payload)
      (simp_all add: agrees_rest [OF dm(1) assms] agrees_rest [OF dm(2) assms] agrees_rest [OF dm(3) assms]
        agrees_rest [OF rotated assms] kept_emit_last [OF assms] request_agrees [OF assms] accept_agrees [OF assms]
        reject_agrees [OF assms] unfriended_agrees [OF assms] agrees_ok [OF assms])
qed

lemma message_agrees:
  assumes "rosters owner L L c"
  shows "agrees owner (handle_incoming_message pf raw) c"
proof (cases "process_incoming (pf_envelope pf) (pf_key_error pf) (pf_verify pf) raw")
  case (Inl e)
  with assms show ?thesis by (simp add: handle_incoming_message_def agrees_ok)
next
  case (Inr envelope)
  have plain: "evolves (\<lambda>_. True) roster_kept (plaintext_of pf k b)" for k b
    unfolding plaintext_of_def by (intro service_rules)
  have kind: "agrees owner (case x of Inl e \<Rightarrow> m | Inr y \<Rightarrow> f y) c1"
    if "agrees owner m c1" "\<And>y. agrees owner (f y) c1" for x :: "string + message_payload" and m f c1
    using that by (cases x) auto
  have content: "agrees owner (case x of None \<Rightarrow> m | Some y \<Rightarrow> g y) c1"
    if "agrees owner m c1" "\<And>y. agrees owner (g y) c1" for x :: "bytes option" and m g c1
    using that by (cases x) auto
  show ?thesis
    unfolding handle_incoming_message_def Inr sum.case Let_def
    by (rule agrees_step [OF roster.ev_calm [OF calm_is_blocked] assms], rule agrees_if, rule agrees_ok, assumption,
        rule agrees_step [OF plain], assumption, rule content, rule agrees_ok, assumption, rule kind, rule agrees_ok,
        assumption, rule agrees_step [OF roster.ev_gets], assumption, rule agrees_if, rule agrees_ok, assumption,
        rule dispatch_agrees)
qed

subsection \<open>Commands\<close>

lemma owner_step:
  "rosters owner L L c \<Longrightarrow> agrees owner (f owner) c \<Longrightarrow> agrees owner (io_bind current_owner_key f) c"
  by (auto simp: current_owner_key_def wp rosters_def owner_of_def roster_ok_def split: option.splits)

lemma new_friend_simps [simp]:
  "fs_friendship_state (new_friend_state k n dk mk st) = st"
  "friend_pk (new_friend_row owner k n t dk mk st') = (owner, k)"
  by (simp_all add: new_friend_state_def new_friend_row_def friend_pk_def)

text \<open>A row is inserted and the friend entered in the list.\<close>

lemma enter_agrees:
  assumes "rosters owner L L c" and "friend_pk r = (owner, k)" and "fs_friendship_state f \<noteq> Removing"
    and "\<And>M c1. rosters owner M M c1 \<Longrightarrow> agrees owner m c1"
  shows "agrees owner (io_bind (execute pf w (insert_ignore_friend r)) (\<lambda>_. io_bind (set_friend k f) (\<lambda>_. m))) c"
  by (rule change_step [OF insert_ignore_roster [OF assms(1,2)]], rule change_step [OF set_roster], assumption,
      rule assms(3), rule assms(4))

lemma add_agrees:
  assumes "rosters owner L L c"
  shows "agrees owner (add_friend pf k n message) c"
  unfolding add_friend_def
  by (rule agrees_if, rule agrees_kept [OF roster.ev_fail assms], rule owner_step [OF assms],
      rule agrees_if, rule agrees_kept [OF roster.ev_fail assms],
      rule agrees_step [OF roster.ev_calm [OF calm_is_user_blocked] assms],
      rule agrees_if, rule agrees_kept [OF roster.ev_fail], assumption,
      rule agrees_step [OF roster.ev_gets], assumption,
      rule enter_agrees, assumption, simp, simp, rule agrees_rest) (intro service_rules, assumption)

lemma cancel_agrees: "rosters owner L L c \<Longrightarrow> agrees owner (cancel_request pf k) c"
  unfolding cancel_request_def
  by (rule owner_step, assumption, rule agrees_step [OF roster.ev_gets], assumption,
      rule agrees_if, rule agrees_kept [OF roster.ev_fail], assumption,
      rule change_step [OF delete_roster], assumption, rule change_step [OF drop_roster], assumption,
      rule kept_emit_last)

lemma grace_agrees: "rosters owner L L c \<Longrightarrow> agrees owner (removal_grace_over k) c"
  unfolding removal_grace_over_def
  by (rule agrees_gets, rule agrees_when, assumption, rule change_step [OF drop_removing], assumption, assumption,
      rule agrees_rest) (intro service_rules, assumption)

text \<open>A statement that cannot fail on a working database.\<close>

lemma sure_execute:
  assumes "rosters owner L R c" and "\<And>d. identity_exists owner d \<Longrightarrow> stmt d \<noteq> None" and "evolves plain_error roster_kept (execute pf w stmt)"
    and "\<And>x c1. rosters owner L R c1 \<Longrightarrow> agrees owner (f x) c1"
  shows "agrees owner (io_bind (execute pf w stmt) f) c"
proof -
  obtain d where d: "stmt (c_db c) = Some d" using assms(1,2) unfolding rosters_def by blast
  have clean: "c_faults c = []" using assms(1) by (simp add: rosters_def)
  have "rosters owner L R (c\<lparr>c_db := d\<rparr>)"
    using evolvesD [OF assms(3), of c] rosters_kept [OF assms(1)] by (simp add: outcome_execute_clean clean d)
  with d show ?thesis by (simp add: wp outcome_execute_clean clean assms(4))
qed

lemma remove_agrees:
  assumes "rosters owner L L c"
  shows "agrees owner (remove_friend pf k) c"
proof -
  have tail: "evolves (\<lambda>_. True) roster_kept (io_bind (forget_peer_presence key k) (\<lambda>_.
     io_bind (ignore (push_friend_list_update pf)) (\<lambda>_. emit_chat (EvFriendRemoved k))))" for key
    unfolding forget_peer_presence_def by (intro service_rules)
  show ?thesis
    unfolding remove_friend_def
    by (rule owner_step [OF assms], rule agrees_step [OF sure_rosters(3) assms], rule agrees_step [OF sure_rosters(4)],
        assumption, rule change_step [OF delete_roster], assumption,
        rule sure_execute [OF _ _ kept_statements(2)], assumption, simp add: delete_request_def,
        rule change_step [OF removing_roster], assumption, rule agrees_gets, rule agrees_rest [OF tail])
qed

lemma sure_cache_route: "evolves (\<lambda>_. False) roster_kept (cache_peer_route pf k b)"
  by (auto simp: evolves_def outcome_def cache_peer_route_def roster_kept_def listed_def friend_of_def owner_of_def
      split: option.split prod.split)

lemma accept_request_agrees:
  assumes "rosters owner L L c"
  shows "agrees owner (accept_request pf k n) c"
  unfolding accept_request_def Let_def
  by (rule owner_step [OF assms], rule agrees_step [OF roster.ev_gets assms],
      rule agrees_step [OF roster.ev_calm [OF calm_query]], assumption,
      rule change_step [OF insert_ignore_roster], assumption, simp,
      rule sure_execute [OF _ _ kept_statements(2)], assumption, simp add: delete_request_def,
      rule between_step, intro sure_roster.ev_option sure_roster.ev_list sure_roster.ev_ok sure_cache_route, assumption,
      rule change_step [OF set_roster], assumption, simp, rule agrees_rest)
    (intro service_rules; simp add: friend_pk_def)

lemma kept_invite_contact: "evolves (\<lambda>_. True) roster_kept (setup_invite_contact pf blob)"
  unfolding setup_invite_contact_def by (intro service_rules)

lemma clear_stale:
  assumes "rosters owner L L c" and "\<not> b \<Longrightarrow> friend_of c k = None"
  shows "outcome (when_act b (io_bind (edit_manager h) (\<lambda>_. drop_friend k))) (\<lambda>_. rosters owner (L - {k}) L) E c"
proof (cases b)
  case True
  then show ?thesis
    by (simp add: when_act_def) (rule roster_step [OF sure_edits(2) assms(1)], erule drop_roster, simp)
next
  case False
  with assms have "L - {k} = L" by (auto simp: rosters_def listed_def)
  with False assms(1) show ?thesis by (simp add: wp)
qed

lemma invite_agrees:
  assumes "rosters owner L L c"
  shows "agrees owner (add_friend_from_invite pf url) c"
proof -
  have enter: "agrees owner (io_bind (execute pf w (delete_friend owner k)) (\<lambda>_.
      io_bind (execute pf w' (insert_friend r)) (\<lambda>_. io_bind (set_friend k f) (\<lambda>_. m)))) c1"
    if "rosters owner (L - {k}) L c1" "friend_pk r = (owner, k)" "fs_friendship_state f \<noteq> Removing"
      "evolves (\<lambda>_. True) roster_kept m" for k w w' r f m c1
    by (rule change_step [OF delete_roster [OF that(1)]], rule change_step [OF insert_roster], assumption, rule that(2),
        simp, rule change_step [OF set_roster], assumption, rule that(3), rule agrees_rest [OF that(4)])
  show ?thesis
    unfolding add_friend_from_invite_def Let_def
    by (rule agrees_step [OF roster.ev_text_result assms], rule agrees_step [OF roster.ev_text_result], assumption,
        rule owner_step, assumption, rule agrees_if, rule agrees_kept [OF roster.ev_fail], assumption,
        rule agrees_step [OF roster.ev_calm [OF calm_is_user_blocked]], assumption,
        rule agrees_if, rule agrees_kept [OF roster.ev_fail], assumption,
        rule agrees_gets, simp only: prod.case, rule change_step [OF clear_stale], assumption, simp,
        rule enter, assumption, simp, simp) (intro service_rules kept_invite_contact)
qed

lemma kept_rotate: "evolves (\<lambda>_. True) roster_kept (rotate_profile_key pf)"
  unfolding rotate_profile_key_def parse_key_def by (intro service_rules) simp

lemma block_agrees:
  assumes "rosters owner L L c"
  shows "agrees owner (block_user pf k n) c"
proof -
  have name: "evolves (\<lambda>_. True) roster_kept (case friend of Some f \<Rightarrow> ok (fs_display_name f)
      | None \<Rightarrow> (case n of Some n \<Rightarrow> ok n | None \<Rightarrow> truncated_key k))" for friend
    unfolding truncated_key_def by (intro service_rules roster.ev_throw) simp
  have tail: "evolves (\<lambda>_. True) roster_kept (io_bind (forget_peer_presence key k) (\<lambda>_.
     io_bind (signal_call (delete_session k)) (\<lambda>_. io_bind (rotate_profile_key pf) (\<lambda>_. emit_chat (EvFriendRemoved k)))))"
    for key
    unfolding forget_peer_presence_def by (intro service_rules kept_rotate)
  show ?thesis
    unfolding block_user_def
    by (rule owner_step [OF assms], rule agrees_gets, simp only: prod.case, rule agrees_step [OF name assms],
        rule change_step [OF delete_roster], assumption,
        rule sure_execute [OF _ _ kept_statements(2)], assumption, simp add: delete_request_def,
        rule sure_execute [OF _ _ kept_statements(4)], assumption, simp add: replace_blocked_def,
        rule between_step [OF sure_rosters(2)], assumption, rule between_step [OF sure_roster_gets], assumption,
        rule change_step [OF drop_roster], assumption, rule agrees_rest [OF tail])
qed

subsection \<open>Expiry and the own profile\<close>

lemma rows_expired:
  "rosters owner L R c \<Longrightarrow>
   outcome (for_each (\<lambda>k. ignore (execute pf w (delete_friend owner k))) ks) (\<lambda>_. rosters owner L (R - set ks)) E c"
proof (induction ks arbitrary: R c)
  case Nil
  then show ?case by (simp add: wp)
next
  case (Cons k ks)
  show ?case
    unfolding for_each.simps outcome_io_bind
  proof (rule outcome_mono [OF outcome_ignore_change [OF delete_roster [OF Cons.prems]]])
    fix x and c1 :: "('a, 'b, 'c) client"
    assume "rosters owner L (R - {k}) c1"
    from Cons.IH [OF this]
    show "outcome (for_each (\<lambda>k. ignore (execute pf w (delete_friend owner k))) ks)
        (\<lambda>_. rosters owner L (R - set (k # ks))) E c1"
      by (simp add: set_diff_eq conj_ac)
  qed
qed

lemma forgotten:
  "rosters owner L R c \<Longrightarrow> outcome (forget_expired k) (\<lambda>_. rosters owner (L - {k}) R) E c"
  unfolding forget_expired_def outcome_io_bind
  by (rule outcome_mono [OF drop_roster [where E = "\<lambda>_ _. False"]], assumption,
      rule roster_last [OF kept_emit_chat(1) [where E = "\<lambda>_. False"]]) simp_all

lemma list_expired:
  "rosters owner L R c \<Longrightarrow> outcome (for_each forget_expired ks) (\<lambda>_. rosters owner (L - set ks) R) E c"
proof (induction ks arbitrary: L c)
  case Nil
  then show ?case by (simp add: wp)
next
  case (Cons k ks)
  have "L - {k} - set ks = L - set (k # ks)" by auto
  with Cons.IH [of "L - {k}"] show ?case
    by (simp add: wp outcome_mono [OF forgotten [OF Cons.prems, of k "\<lambda>_ _. False"]])
qed

lemma expire_agrees:
  assumes "rosters owner L L c"
  shows "agrees owner (expire_stale_requests pf) c"
proof -
  have same: "owner_of c = owner" using assms by (simp add: rosters_def)
  have list: "agrees owner (for_each forget_expired ks) c1" if "rosters owner L (L - set ks) c1" for ks c1
    by (rule outcome_mono [OF list_expired [OF that, of ks "\<lambda>_ _. False"]]) (auto intro: roster_okI)
  show ?thesis
    unfolding expire_stale_requests_def Let_def
    by (rule agrees_gets, simp only: prod.case same, rule agrees_if, rule agrees_ok [OF assms],
        rule agrees_step [OF roster.ev_ignore [OF plain_evolves [OF kept_statements(3)]] assms],
        rule agrees_step [OF roster.ev_result [OF roster.ev_calm [OF calm_query]]], assumption,
        rule change_step [OF rows_expired], assumption, rule list)
qed

lemma nickname_agrees:
  assumes "rosters owner L L c"
  shows "agrees owner (set_nickname pf n) c"
proof (cases "c_identity c")
  case None
  with assms show ?thesis by (simp add: set_nickname_def wp roster_okI)
next
  case (Some i)
  have named: "rosters owner L L (c\<lparr>c_identity := Some (i\<lparr>is_display_name := n\<rparr>)\<rparr>)"
    using assms Some by (auto simp: rosters_def owner_of_def listed_def has_row_def friend_of_def)
  have rest: "evolves (\<lambda>_. True) roster_kept (io_bind (execute pf [] (update_identity (is_public_key i)
      (\<lambda>r. r\<lparr>ir_display_name := Some n\<rparr>))) (\<lambda>_. io_bind (emit_event ProfileUpdated) (\<lambda>_.
      push_profile_update pf 0 (as_bytes n))))"
    by (intro service_rules kept_push_profile) simp
  show ?thesis
    using agrees_rest [OF rest named] Some by (simp add: set_nickname_def outcome_io_bind outcome_gets outcome_ok_or
        outcome_modify)
qed

lemma message_status_agrees: "rosters owner L L c \<Longrightarrow> agrees owner (set_status_message pf s) c"
proof -
  assume 1: "rosters owner L L c"
  have "evolves (\<lambda>_. True) roster_kept (modify (\<lambda>c. c\<lparr>c_identity := map_option (\<lambda>i. i\<lparr>is_status_message := s\<rparr>) (c_identity c)\<rparr>))"
    by (auto simp: evolves_def wp roster_kept_def listed_def friend_of_def owner_of_def split: option.split)
  then show ?thesis
    unfolding set_status_message_def by (intro agrees_rest [OF _ 1] roster.ev_bind kept_push_profile)
qed

section \<open>Runs\<close>

text \<open>
  Everything that happens to a client that is logged in: messages, commands and services, and
  between them time that passes and a network that others change.
\<close>

datatype 'w client_op =
    OpElsewhere 'w nat
  | OpReceive bytes
  | OpFriendChanged string bytes u32
  | OpAdd string string string
  | OpAddFromInvite string
  | OpGenerateInvite
  | OpAccept string string
  | OpReject string
  | OpCancel string
  | OpRemove string
  | OpGraceOver string
  | OpBlock string "string option"
  | OpUnblock string
  | OpCreateGroup string
  | OpRenameGroup int string
  | OpMove string "int option"
  | OpSyncFriends "string set" bool bool
  | OpExpire
  | OpRetry
  | OpSyncConversations
  | OpSendMessage string string
  | OpSendTyping string bool
  | OpOpenChat string
  | OpMarkRead string
  | OpSetStatus string
  | OpSetNickname string
  | OpSetAvatar "string + bytes"
  | OpSetStatusMessage string
  | OpHeartbeat
  | OpIdle u32 "u64 option"

abbreviation without_value :: "('w, 'p, 'r, 'a) act \<Rightarrow> ('w, 'p, 'r, unit) act" where
  "without_value m \<equiv> io_bind m (\<lambda>_. ok ())"

primrec run_op :: "('w, 'k, 'p, 'r) platform \<Rightarrow> 'w client_op \<Rightarrow> ('w, 'p, 'r, unit) act" where
  "run_op pf (OpElsewhere w t) = modify (\<lambda>c. c\<lparr>c_net := w, c_clock := t\<rparr>)"
| "run_op pf (OpReceive raw) = handle_incoming_message pf raw"
| "run_op pf (OpFriendChanged k v subkey) = handle_friend_subkey pf k v subkey"
| "run_op pf (OpAdd k name message) = add_friend pf k name message"
| "run_op pf (OpAddFromInvite url) = add_friend_from_invite pf url"
| "run_op pf OpGenerateInvite = without_value (generate_invite pf)"
| "run_op pf (OpAccept k name) = accept_request pf k name"
| "run_op pf (OpReject k) = reject_request pf k"
| "run_op pf (OpCancel k) = cancel_request pf k"
| "run_op pf (OpRemove k) = remove_friend pf k"
| "run_op pf (OpGraceOver k) = removal_grace_over k"
| "run_op pf (OpBlock k name) = block_user pf k name"
| "run_op pf (OpUnblock k) = unblock_user pf k"
| "run_op pf (OpCreateGroup name) = without_value (create_friend_group pf name)"
| "run_op pf (OpRenameGroup g name) = rename_friend_group pf g name"
| "run_op pf (OpMove k g) = move_friend_to_group pf k g"
| "run_op pf (OpSyncFriends watched first force) = without_value (sync_friends pf watched first force)"
| "run_op pf OpExpire = expire_stale_requests pf"
| "run_op pf OpRetry = retry_pending_messages pf"
| "run_op pf OpSyncConversations = sync_conversations pf"
| "run_op pf (OpSendMessage k body) = send_chat_message pf k body"
| "run_op pf (OpSendTyping k typing) = send_typing pf k typing"
| "run_op pf (OpOpenChat k) = prepare_chat_session pf k"
| "run_op pf (OpMarkRead k) = mark_read pf k"
| "run_op pf (OpSetStatus name) = set_status pf name"
| "run_op pf (OpSetNickname name) = set_nickname pf name"
| "run_op pf (OpSetAvatar picture) = set_avatar pf picture"
| "run_op pf (OpSetStatusMessage message) = set_status_message pf message"
| "run_op pf OpHeartbeat = heartbeat_tick pf"
| "run_op pf (OpIdle minutes idle) = idle_tick pf minutes idle"

definition run_ops ::
  "('w, 'k, 'p, 'r) platform \<Rightarrow> 'w client_op list \<Rightarrow> ('w, 'p, 'r) client \<Rightarrow> ('w, 'p, 'r) client" where
  "run_ops pf ops c = fold (\<lambda>op c. snd (run_op pf op c)) ops c"

lemma kept_operations:
  "evolves (\<lambda>_. True) roster_kept (modify (\<lambda>c. c\<lparr>c_net := w, c_clock := t\<rparr>))"
  "evolves (\<lambda>_. True) roster_kept (without_value (generate_invite pf))"
  "evolves (\<lambda>_. True) roster_kept (without_value (create_friend_group pf name))"
  "evolves (\<lambda>_. True) roster_kept (without_value (sync_friends pf watched first force))"
  by (simp add: evolves_def wp roster_kept_def listed_def friend_of_def owner_of_def)
    (intro roster.ev_bind roster.ev_ok kept_requests kept_groups kept_sync_friends)+

lemmas operations_agree = kept_operations [THEN agrees_rest] kept_requests [THEN agrees_rest]
  kept_groups [THEN agrees_rest] kept_sync_friends [THEN agrees_rest] kept_chat [THEN agrees_rest]
  kept_profile [THEN agrees_rest] kept_friend_subkey [THEN agrees_rest] kept_retry [THEN agrees_rest]
  kept_conversations [THEN agrees_rest] message_agrees add_agrees invite_agrees accept_request_agrees cancel_agrees
  remove_agrees grace_agrees block_agrees expire_agrees nickname_agrees message_status_agrees

lemma run_op_agrees: "rosters owner L L c \<Longrightarrow> agrees owner (run_op pf op) c"
  by (cases op) (simp_all only: run_op.simps operations_agree)

lemma run_ops_agree: "roster_ok owner c \<Longrightarrow> roster_ok owner (run_ops pf ops c)"
proof (induction ops arbitrary: c)
  case Nil
  then show ?case by (simp add: run_ops_def)
next
  case (Cons op ops)
  then obtain L where "rosters owner L L c" by (auto simp: roster_ok_def)
  from run_op_agrees [OF this, of pf op] have "roster_ok owner (snd (run_op pf op c))"
    by (auto simp: outcome_def split: prod.splits sum.splits)
  with Cons.IH show ?case by (simp add: run_ops_def)
qed

section \<open>Property\<close>

text \<open>
  C24. The friend list in memory and the table of friends stay in step. Start a client that is
  logged in, with a working database, where exactly the friends listed, those in removal apart,
  have a row of the identity. Then, through any sequence of incoming messages, value changes,
  friend and chat commands, retries, synchronisations and expiries, whatever the network and the peers
  do, exactly the friends listed have a row. An operation may fail for any reason but the database.
\<close>

theorem friend_list_matches_rows:
  assumes "c_faults c = []" and "identity_exists (owner_of c) (c_db c)" and "\<And>k. listed k c = has_row k c"
  shows "listed k (run_ops pf ops c) = has_row k (run_ops pf ops c)"
proof -
  have "{k. listed k c} = {k. has_row k c}" using assms(3) by auto
  with assms(1,2) have "roster_ok (owner_of c) c" by (auto simp: roster_ok_def rosters_def)
  from run_ops_agree [OF this] show ?thesis unfolding roster_ok_def rosters_def by blast
qed

theorem friend_list_matches_rows_witness:
  "listed (hex_encode (sample_key 2)) (run_ops sample_platform [OpAdd (hex_encode (sample_key 2)) ''Bob'' ''hi'',
       OpExpire, OpBlock (hex_encode (sample_key 2)) None] (sample_client 1 ''Alice'')) =
   has_row (hex_encode (sample_key 2)) (run_ops sample_platform [OpAdd (hex_encode (sample_key 2)) ''Bob'' ''hi'',
       OpExpire, OpBlock (hex_encode (sample_key 2)) None] (sample_client 1 ''Alice''))"
  by (rule friend_list_matches_rows)
    (simp_all add: listed_def has_row_def row_exists_def sample_client_def identity_exists_def empty_client_db_def
      owner_of_def friend_of_def)

end
