(* ===== verification/CommunityRpc.thy ===== *)
theory CommunityRpc
  imports SyncService
begin

text \<open>
  How a client calls the server of a community (\<open>commands/community.rs\<close>): over the socket when the
  server is its own process, else with a signed request to the private route of the server, which
  it looks up in the DHT when it does not know it or the call fails. Then media encryption keys:
  sealing a message, caching the key and keeping it in the key store.
\<close>

section \<open>Communities in memory\<close>

definition community_of :: "('w, 'p, 'r) client \<Rightarrow> string \<Rightarrow> client_community option" where
  "community_of c cid = map_of (c_communities c) cid"

definition edit_community :: "string \<Rightarrow> (client_community \<Rightarrow> client_community) \<Rightarrow> ('w, 'p, 'r, unit) act" where
  "edit_community cid f = modify (\<lambda>c. c\<lparr>c_communities := AList.map_entry cid f (c_communities c)\<rparr>)"

definition set_community :: "string \<Rightarrow> client_community \<Rightarrow> ('w, 'p, 'r, unit) act" where
  "set_community cid cc = modify (\<lambda>c. c\<lparr>c_communities := AList.update cid cc (c_communities c)\<rparr>)"

definition drop_community :: "string \<Rightarrow> ('w, 'p, 'r, unit) act" where
  "drop_community cid = modify (\<lambda>c. c\<lparr>c_communities := AList.delete cid (c_communities c)\<rparr>)"

definition pseudonym_in :: "('w, 'p, 'r) client \<Rightarrow> string \<Rightarrow> string option" where
  "pseudonym_in c cid = Option.bind (community_of c cid) cc_my_pseudonym_key"

text \<open>\<open>display_role_name\<close>: \<open>max_by_key\<close> takes the last of several maximal elements.\<close>

fun last_max_role :: "role_dto option \<Rightarrow> role_dto list \<Rightarrow> role_dto option" where
  "last_max_role best [] = best"
| "last_max_role best (r # rs) =
     last_max_role (case best of None \<Rightarrow> Some r
       | Some b \<Rightarrow> if rdto_position b \<le> rdto_position r then Some r else Some b) rs"

definition display_role_name :: "u32 list \<Rightarrow> role_dto list \<Rightarrow> string" where
  "display_role_name role_ids roles =
     (case last_max_role None (List.map_filter (\<lambda>i. List.find (\<lambda>r. rdto_id r = i) roles) role_ids) of
        Some r \<Rightarrow> rdto_name r
      | None \<Rightarrow> ''member'')"

section \<open>The route to a server\<close>

definition import_server_route ::
  "('w, 'k, 'p, 'r) platform \<Rightarrow> bytes \<Rightarrow> ('w, 'p, 'r, string + 'r) act" where
  "import_server_route pf blob =
     io_bind (gets c_dht) (\<lambda>dht.
     case dht of
       Some h \<Rightarrow> import_peer_route pf h blob
     | None \<Rightarrow> result (veilid (pf_import pf blob)))"

definition persist_route_blob_to_db ::
  "('w, 'k, 'p, 'r) platform \<Rightarrow> string \<Rightarrow> bytes \<Rightarrow> ('w, 'p, 'r, unit) act" where
  "persist_route_blob_to_db pf cid blob =
     io_bind (gets owner_of) (\<lambda>owner.
     ignore (execute pf ''persist server_route_blob: ''
       (update_community_row owner cid (\<lambda>r. r\<lparr>kc_server_route_blob := Some blob\<rparr>))))"

text \<open>
  One attempt after the other to read subkey 6 of the record of the community, through a manager
  of its own; the pauses in between are left out.
\<close>

fun fetch_route_attempts :: "('w, 'k, 'p, 'r) platform \<Rightarrow> string \<Rightarrow> nat \<Rightarrow> ('w, 'p, 'r, bytes option) act" where
  "fetch_route_attempts pf key 0 = ok None"
| "fetch_route_attempts pf key (Suc n) =
     io_bind (result (protocol (open_record (pf_rc pf) key))) (\<lambda>opened.
     case opened of
       Inl e \<Rightarrow> fetch_route_attempts pf key n
     | Inr _ \<Rightarrow>
         io_bind (result (protocol (get_value (pf_rc pf) key 6))) (\<lambda>blob.
         io_bind (ignore (protocol (close_record (pf_rc pf) key))) (\<lambda>_.
         case blob of
           Inr (Some b) \<Rightarrow> ok (Some b)
         | _ \<Rightarrow> fetch_route_attempts pf key n)))"

definition fetch_route_blob_in ::
  "('w, 'k, 'p, 'r) platform \<Rightarrow> nat \<Rightarrow> string \<Rightarrow> ('w, 'p, 'r, bytes option) act" where
  "fetch_route_blob_in pf attempts cid =
     io_bind (gets (\<lambda>c. (Option.bind (community_of c cid) cc_dht_record_key, c_node c))) (\<lambda>(key, node).
     case (key, node) of
       (Some k, Some nh) \<Rightarrow> fetch_route_attempts pf k attempts
     | _ \<Rightarrow> ok None)"

definition fetch_server_route_blob_quick ::
  "('w, 'k, 'p, 'r) platform \<Rightarrow> string \<Rightarrow> ('w, 'p, 'r, bytes option) act" where
  "fetch_server_route_blob_quick pf cid = fetch_route_blob_in pf 3 cid"

definition fetch_server_route_blob ::
  "('w, 'k, 'p, 'r) platform \<Rightarrow> string \<Rightarrow> ('w, 'p, 'r, bytes option) act" where
  "fetch_server_route_blob pf cid = fetch_route_blob_in pf 10 cid"

definition learn_server_route ::
  "('w, 'k, 'p, 'r) platform \<Rightarrow> string \<Rightarrow> bytes \<Rightarrow> ('w, 'p, 'r, unit) act" where
  "learn_server_route pf cid blob =
     io_bind (edit_community cid (\<lambda>cc. cc\<lparr>cc_server_route_blob := Some blob\<rparr>)) (\<lambda>_.
     persist_route_blob_to_db pf cid blob)"

definition resolve_server_route_blob ::
  "('w, 'k, 'p, 'r) platform \<Rightarrow> string \<Rightarrow> ('w, 'p, 'r, bytes) act" where
  "resolve_server_route_blob pf cid =
     io_bind (gets (\<lambda>c. Option.bind (community_of c cid) cc_server_route_blob)) (\<lambda>cached.
     case cached of
       Some blob \<Rightarrow> ok blob
     | None \<Rightarrow>
         io_bind (fetch_server_route_blob_quick pf cid) (\<lambda>fetched.
         io_bind (ok_or ''community server route not available (server may still be starting)'' fetched) (\<lambda>blob.
         io_bind (learn_server_route pf cid blob) (\<lambda>_.
         ok blob))))"

section \<open>Calls\<close>

definition parse_community_response ::
  "('w, 'k, 'p, 'r) platform \<Rightarrow> bytes \<Rightarrow> ('w, 'p, 'r, community_response) act" where
  "parse_community_response pf b =
     describe ''invalid response from server: '' (map_error ClientError (from_result (from_json (pf_response_json pf) b)))"

definition community_rpc_blocking ::
  "('w, 'k, 'p, 'r) platform \<Rightarrow> string \<Rightarrow> string \<Rightarrow> string \<Rightarrow> ('w, 'p, 'r, string) act" where
  "community_rpc_blocking pf cid sender_pseudonym_key request_json =
     io_bind (veilid (pf_ipc pf (AskCommunityRpc cid sender_pseudonym_key request_json))) (\<lambda>answer.
     case answer of
       AnsweredRpcResult response_json \<Rightarrow> ok response_json
     | AnsweredError message \<Rightarrow> fail (''server error: '' @ message)
     | other \<Rightarrow> fail (''unexpected IPC response: '' @ pf_debug_ipc pf other))"

definition serialize_request ::
  "('w, 'k, 'p, 'r) platform \<Rightarrow> community_request \<Rightarrow> ('w, 'p, 'r, bytes) act" where
  "serialize_request pf request =
     describe ''failed to serialize request: '' (map_error ClientError (from_result (to_json (pf_request_json pf) request)))"

definition send_community_rpc_ipc ::
  "('w, 'k, 'p, 'r) platform \<Rightarrow> string \<Rightarrow> community_request \<Rightarrow> ('w, 'p, 'r, community_response) act" where
  "send_community_rpc_ipc pf cid request =
     io_bind (gets (\<lambda>c. pseudonym_in c cid)) (\<lambda>key.
     io_bind (ok_or ''no pseudonym key for this community'' key) (\<lambda>pseudonym_key.
     io_bind (serialize_request pf request) (\<lambda>request_json.
     io_bind (community_rpc_blocking pf cid pseudonym_key (bytes_as_string request_json)) (\<lambda>response_json.
     describe ''invalid IPC response: ''
       (map_error ClientError (from_result (from_json (pf_response_json pf) (as_bytes response_json))))))))"

definition retry_rpc_with_fresh_route ::
  "('w, 'k, 'p, 'r) platform \<Rightarrow> string \<Rightarrow> message_envelope \<Rightarrow> string \<Rightarrow> ('w, 'p, 'r, community_response) act" where
  "retry_rpc_with_fresh_route pf cid envelope original_error =
     io_bind (gets (\<lambda>c. Option.bind (community_of c cid) cc_server_route_blob)) (\<lambda>stale_blob.
     io_bind (edit_community cid (\<lambda>cc. cc\<lparr>cc_server_route_blob := None\<rparr>)) (\<lambda>_.
     io_bind (case stale_blob of None \<Rightarrow> ok () | Some blob \<Rightarrow> edit_manager (invalidate_route_blob blob)) (\<lambda>_.
     io_bind (fetch_server_route_blob_quick pf cid) (\<lambda>fetched.
     io_bind (ok_or (''RPC failed (no fresh route on retry): '' @ original_error) fetched) (\<lambda>fresh_blob.
     io_bind (learn_server_route pf cid fresh_blob) (\<lambda>_.
     io_bind (import_server_route pf fresh_blob) (\<lambda>imported.
     case imported of
       Inl e \<Rightarrow> fail (''RPC retry failed: '' @ e)
     | Inr route_id \<Rightarrow>
         io_bind (describe ''RPC call failed after retry: '' (protocol (send_call pf route_id envelope)))
           (parse_community_response pf))))))))"

definition send_community_rpc_veilid ::
  "('w, 'k, 'p, 'r) platform \<Rightarrow> string \<Rightarrow> community_request \<Rightarrow> ('w, 'p, 'r, community_response) act" where
  "send_community_rpc_veilid pf cid request =
     io_bind (resolve_server_route_blob pf cid) (\<lambda>server_route_blob.
     io_bind (gets id) (\<lambda>c.
     if \<not> is_online_node (c_node c) then fail ''Veilid network not attached''
     else
       io_bind (ok_or ''identity not unlocked'' (c_identity_secret c)) (\<lambda>secret.
       io_bind (serialize_request pf request) (\<lambda>request_bytes.
       io_bind (draw 24) (\<lambda>nonce.
       let envelope = build_envelope (pf_public_of pf) (pf_sign pf) (pf_pseudonym_secret pf secret cid)
             (word_of_int (millis_i64 c)) nonce request_bytes
       in
       io_bind (import_server_route pf server_route_blob) (\<lambda>imported.
       case imported of
         Inl e \<Rightarrow> fail (''RPC call failed: '' @ e)
       | Inr route_id \<Rightarrow>
           io_bind (result (protocol (send_call pf route_id envelope))) (\<lambda>answer.
           case answer of
             Inr response_bytes \<Rightarrow> parse_community_response pf response_bytes
           | Inl e \<Rightarrow> retry_rpc_with_fresh_route pf cid envelope e)))))))"

definition send_community_rpc ::
  "('w, 'k, 'p, 'r) platform \<Rightarrow> string \<Rightarrow> community_request \<Rightarrow> ('w, 'p, 'r, community_response) act" where
  "send_community_rpc pf cid request =
     io_bind (gets (\<lambda>c. community_of c cid)) (\<lambda>community.
     case community of
       None \<Rightarrow> fail ''community not found''
     | Some cc \<Rightarrow>
         if cc_is_hosted cc then send_community_rpc_ipc pf cid request
         else send_community_rpc_veilid pf cid request)"

section \<open>Media encryption keys\<close>

text \<open>AES-256-GCM with the nonce in front (\<open>media_key.rs\<close>).\<close>

definition mek_encrypt ::
  "('w, 'k, 'p, 'r) platform \<Rightarrow> media_encryption_key \<Rightarrow> bytes \<Rightarrow> ('w, 'p, 'r, bytes) act" where
  "mek_encrypt pf mek plaintext =
     io_bind (draw 12) (\<lambda>nonce.
     case aes_seal (pf_crypto pf) (mek_key mek) nonce plaintext of
       Inl e \<Rightarrow> fail (show_crypto_error (EncryptionError e))
     | Inr ciphertext \<Rightarrow> ok (nonce @ ciphertext))"

definition mek_decrypt :: "crypto \<Rightarrow> media_encryption_key \<Rightarrow> bytes \<Rightarrow> crypto_error + bytes" where
  "mek_decrypt cr mek data =
     (if length data < 12 then Inl (DecryptionError ''data too short'')
      else case aes_open cr (mek_key mek) (take 12 data) (drop 12 data) of
        Inl e \<Rightarrow> Inl (DecryptionError e)
      | Inr plaintext \<Rightarrow> Inr plaintext)"

text \<open>\<open>String::from_utf8(b).unwrap_or_default()\<close>.\<close>

definition utf8_or_empty :: "bytes \<Rightarrow> string" where
  "utf8_or_empty b = (if utf8_valid b then bytes_as_string b else [])"

text \<open>The key in a response: the bytes after the generation, of which there must be 32.\<close>

definition received_mek :: "bytes \<Rightarrow> u64 \<Rightarrow> media_encryption_key option" where
  "received_mek mek_encrypted generation =
     (if 40 \<le> length mek_encrypted
      then Some \<lparr>mek_key = take 32 (drop 8 mek_encrypted), mek_generation = generation\<rparr> else None)"

definition cache_mek :: "string \<Rightarrow> media_encryption_key \<Rightarrow> ('w, 'p, 'r, unit) act" where
  "cache_mek cid mek = modify (\<lambda>c. c\<lparr>c_mek_cache := AList.update cid mek (c_mek_cache c)\<rparr>)"

definition forget_mek :: "string \<Rightarrow> ('w, 'p, 'r, unit) act" where
  "forget_mek cid = modify (\<lambda>c. c\<lparr>c_mek_cache := AList.delete cid (c_mek_cache c)\<rparr>)"

text \<open>
  The key store. An access that fails changes nothing and is only logged; whether it succeeded is
  the value. \<open>delete_key\<close> is never followed by \<open>save\<close>.
\<close>

definition mek_vault_key :: "string \<Rightarrow> string" where
  "mek_vault_key cid = ''communities/mek_'' @ cid"

definition vault_access :: "(vault \<Rightarrow> vault) \<Rightarrow> ('w, 'p, 'r, bool) act" where
  "vault_access f = (\<lambda>c. case c_vault c of
     None \<Rightarrow> (Inr False, c)
   | Some v \<Rightarrow>
       (case pop_client_fault c of
          (Some e, c1) \<Rightarrow> (Inr False, c1)
        | (None, c1) \<Rightarrow> (Inr True, c1\<lparr>c_vault := Some (f v)\<rparr>)))"

text \<open>\<open>save\<close> commits the entries to the snapshot file.\<close>

definition commit_vault :: "stronghold \<Rightarrow> ('w, 'p, 'r) client \<Rightarrow> ('w, 'p, 'r) client" where
  "commit_vault sh c = (case c_vault c of
     None \<Rightarrow> c
   | Some v \<Rightarrow> c\<lparr>c_snapshots := AList.update (vt_public_key v) (sh_commit sh (vt_key v) (vt_store v)) (c_snapshots c)\<rparr>)"

definition save_vault :: "stronghold \<Rightarrow> ('w, 'p, 'r, bool) act" where
  "save_vault sh = io_bind (vault_access (\<lambda>v. v)) (\<lambda>reached.
     io_bind (when_act reached (modify (commit_vault sh))) (\<lambda>_. ok reached))"

definition keep_mek ::
  "('w, 'k, 'p, 'r) platform \<Rightarrow> string \<Rightarrow> bytes \<Rightarrow> ('w, 'p, 'r, unit) act" where
  "keep_mek pf cid payload =
     io_bind (vault_access (\<lambda>v. v\<lparr>vt_store := AList.update (mek_vault_key cid) payload (vt_store v)\<rparr>)) (\<lambda>stored.
     when_act stored (io_bind (save_vault (pf_stronghold pf)) (\<lambda>_. ok ())))"

definition delete_kept_mek :: "string \<Rightarrow> ('w, 'p, 'r, unit) act" where
  "delete_kept_mek cid =
     io_bind (vault_access (\<lambda>v. v\<lparr>vt_store := AList.delete (mek_vault_key cid) (vt_store v)\<rparr>)) (\<lambda>_. ok ())"

text \<open>The key a member holds, kept after joining or creating a community.\<close>

definition keep_cached_mek :: "('w, 'k, 'p, 'r) platform \<Rightarrow> string \<Rightarrow> ('w, 'p, 'r, unit) act" where
  "keep_cached_mek pf cid =
     io_bind (gets (\<lambda>c. map_of (c_mek_cache c) cid)) (\<lambda>cached.
     case cached of
       None \<Rightarrow> ok ()
     | Some mek \<Rightarrow> keep_mek pf cid (mek_payload mek))"

end
