(* ===== verification/CommunityJoin.thy ===== *)
theory CommunityJoin
  imports CommunityRpc FriendCommands
begin

text \<open>
  Entering a community (\<open>services/community_service.rs\<close> and the commands of
  \<open>commands/community.rs\<close> that use it): creating one with a record in the DHT or only locally and
  handing it to the server process, joining one through its server, and creating a channel.
\<close>

section \<open>Parts of a community\<close>

definition client_default_roles :: "role_dto list" where
  "client_default_roles =
     [\<lparr>rdto_id = 0, rdto_name = ''@everyone'', rdto_color = 0, rdto_permissions = everyone_permissions,
       rdto_position = 0, rdto_hoist = False, rdto_mentionable = False\<rparr>,
      \<lparr>rdto_id = 1, rdto_name = ''Members'', rdto_color = 0, rdto_permissions = member_permissions,
       rdto_position = 1, rdto_hoist = False, rdto_mentionable = False\<rparr>,
      \<lparr>rdto_id = 2, rdto_name = ''Moderator'', rdto_color = 0x3498DB, rdto_permissions = moderator_permissions,
       rdto_position = 2, rdto_hoist = True, rdto_mentionable = True\<rparr>,
      \<lparr>rdto_id = 3, rdto_name = ''Admin'', rdto_color = 0xE74C3C, rdto_permissions = admin_permissions,
       rdto_position = 3, rdto_hoist = True, rdto_mentionable = True\<rparr>,
      \<lparr>rdto_id = 4, rdto_name = ''Owner'', rdto_color = 0xF1C40F, rdto_permissions = owner_permissions,
       rdto_position = 4, rdto_hoist = True, rdto_mentionable = False\<rparr>]"

definition own_role_ids :: "u32 list" where "own_role_ids = [0, 1, 2, 3, 4]"

definition new_client_channel :: "string \<Rightarrow> string \<Rightarrow> client_channel_type \<Rightarrow> client_channel" where
  "new_client_channel i name kind =
     \<lparr>cx_id = i, cx_name = name, cx_channel_type = kind, cx_unread_count = 0\<rparr>"

definition channel_type_of :: "string \<Rightarrow> client_channel_type" where
  "channel_type_of s = (if s = ''voice'' then VoiceChannel else TextChannel)"

fun channel_type_text :: "client_channel_type \<Rightarrow> string" where
  "channel_type_text TextChannel = ''text''"
| "channel_type_text VoiceChannel = ''voice''"

text \<open>The public key, in hexadecimal, under which the identity is known in a community.\<close>

definition derive_pseudonym_key ::
  "('w, 'k, 'p, 'r) platform \<Rightarrow> ('w, 'p, 'r) client \<Rightarrow> string \<Rightarrow> string option" where
  "derive_pseudonym_key pf c cid =
     map_option (\<lambda>s. hex_encode (pf_public_of pf (pf_pseudonym_secret pf s cid))) (c_identity_secret c)"

text \<open>A list of role ids as the text of a column, with the text used when it cannot be written.\<close>

definition ids_text :: "('w, 'k, 'p, 'r) platform \<Rightarrow> string \<Rightarrow> u32 list \<Rightarrow> string" where
  "ids_text pf fallback ids =
     (case to_json (pf_ids_json pf) ids of Inl e \<Rightarrow> fallback | Inr b \<Rightarrow> bytes_as_string b)"

definition parse_ids :: "('w, 'k, 'p, 'r) platform \<Rightarrow> u32 list \<Rightarrow> string \<Rightarrow> u32 list" where
  "parse_ids pf fallback t =
     (case from_json (pf_ids_json pf) (as_bytes t) of Inl e \<Rightarrow> fallback | Inr ids \<Rightarrow> ids)"

definition channel_row_of :: "string \<Rightarrow> string \<Rightarrow> client_channel \<Rightarrow> community_channel_row" where
  "channel_row_of owner cid ch =
     \<lparr>kh_owner = owner, kh_id = cx_id ch, kh_community_id = cid, kh_name = cx_name ch,
      kh_channel_type = channel_type_text (cx_channel_type ch)\<rparr>"

definition role_row_of :: "string \<Rightarrow> string \<Rightarrow> role_dto \<Rightarrow> community_role_row" where
  "role_row_of owner cid r =
     \<lparr>ko_owner = owner, ko_community_id = cid, ko_role_id = uint (rdto_id r), ko_name = rdto_name r,
      ko_color = uint (rdto_color r), ko_permissions = sint (rdto_permissions r),
      ko_position = rdto_position r, ko_hoist = rdto_hoist r, ko_mentionable = rdto_mentionable r\<rparr>"

section \<open>Records in the DHT\<close>

definition json_field :: "string \<Rightarrow> json_value \<Rightarrow> json_value option" where
  "json_field name v = (case v of JObject kvs \<Rightarrow> map_of kvs name | _ \<Rightarrow> None)"

definition json_string :: "json_value \<Rightarrow> string option" where
  "json_string v = (case v of JString s \<Rightarrow> Some s | _ \<Rightarrow> None)"

definition json_items :: "json_value \<Rightarrow> json_value list option" where
  "json_items v = (case v of JArray vs \<Rightarrow> Some vs | _ \<Rightarrow> None)"

text \<open>\<open>&id[..8.min(id.len())]\<close> panics inside a character of several bytes.\<close>

definition id_prefix :: "string \<Rightarrow> ('w, 'p, 'r, string) act" where
  "id_prefix cid =
     (if length cid \<le> 8 then ok cid
      else if 128 \<le> (of_char (cid ! 8) :: nat) \<and> (of_char (cid ! 8) :: nat) < 192
      then throw (ClientPanic ''byte index 8 is not a char boundary'')
      else ok (take 8 cid))"

definition default_community_name :: "string \<Rightarrow> ('w, 'p, 'r, string) act" where
  "default_community_name cid = io_bind (id_prefix cid) (\<lambda>p. ok (''Community '' @ p))"

definition parse_community_metadata ::
  "('w, 'k, 'p, 'r) platform \<Rightarrow> bytes \<Rightarrow> string \<Rightarrow> ('w, 'p, 'r, string \<times> string option) act" where
  "parse_community_metadata pf data cid =
     (case pf_parse_json pf data of
        Some v \<Rightarrow>
          io_bind (id_prefix cid) (\<lambda>p.
          ok (case Option.bind (json_field ''name'' v) json_string of Some n \<Rightarrow> n | None \<Rightarrow> p,
              Option.bind (json_field ''description'' v) json_string))
      | None \<Rightarrow> io_bind (default_community_name cid) (\<lambda>n. ok (n, None)))"

definition parse_channel :: "json_value \<Rightarrow> client_channel option" where
  "parse_channel v =
     Option.bind (Option.bind (json_field ''id'' v) json_string) (\<lambda>i.
     map_option (\<lambda>n. new_client_channel i n
         (channel_type_of (case Option.bind (json_field ''channelType'' v) json_string of
            Some t \<Rightarrow> t | None \<Rightarrow> [])))
       (Option.bind (json_field ''name'' v) json_string))"

text \<open>The wrapped format is an object with the list in \<open>channels\<close>, the old one a bare array.\<close>

definition parse_channel_list :: "('w, 'k, 'p, 'r) platform \<Rightarrow> bytes \<Rightarrow> client_channel list" where
  "parse_channel_list pf data =
     (case pf_parse_json pf data of
        None \<Rightarrow> []
      | Some v \<Rightarrow> List.map_filter parse_channel
          (case v of
             JObject kvs \<Rightarrow> (case Option.bind (map_of kvs ''channels'') json_items of None \<Rightarrow> [] | Some vs \<Rightarrow> vs)
           | JArray vs \<Rightarrow> vs
           | _ \<Rightarrow> []))"

definition channels_json :: "client_channel list \<Rightarrow> json_value" where
  "channels_json chs = JObject
     [(''channels'', JArray (map (\<lambda>ch. JObject [(''id'', JString (cx_id ch)), (''name'', JString (cx_name ch)),
         (''channelType'', JString (channel_type_text (cx_channel_type ch)))]) chs)),
      (''lastRefreshed'', JInteger 0)]"

text \<open>Name, description, channels, record key and the route to the server.\<close>

definition read_community_from_dht ::
  "('w, 'k, 'p, 'r) platform \<Rightarrow> bool \<Rightarrow> string
   \<Rightarrow> ('w, 'p, 'r, string \<times> string option \<times> client_channel list \<times> string option \<times> bytes option) act" where
  "read_community_from_dht pf online cid =
     (let offline = io_bind (default_community_name cid) (\<lambda>n. ok (n, None, [], None, None))
      in
      if \<not> online then offline
      else
        io_bind (result (protocol (open_record (pf_rc pf) cid))) (\<lambda>opened.
        case opened of
          Inl e \<Rightarrow> offline
        | Inr _ \<Rightarrow>
            io_bind (result (protocol (get_value (pf_rc pf) cid 0))) (\<lambda>metadata.
            io_bind (case metadata of
                Inr (Some data) \<Rightarrow> parse_community_metadata pf data cid
              | _ \<Rightarrow> io_bind (default_community_name cid) (\<lambda>n. ok (n, None))) (\<lambda>(name, description).
            io_bind (result (protocol (get_value (pf_rc pf) cid 1))) (\<lambda>listed.
            let channels = (case listed of Inr (Some data) \<Rightarrow> parse_channel_list pf data | _ \<Rightarrow> [])
            in
            io_bind (result (protocol (watch_record (pf_rc pf) cid [0, 1, 2, 3, 5, 6]))) (\<lambda>_.
            io_bind (result (protocol (get_value (pf_rc pf) cid 6))) (\<lambda>route.
            ok (name, description, channels, Some cid,
                case route of Inr r \<Rightarrow> r | Inl e \<Rightarrow> None))))))))"

section \<open>Creating a community\<close>

definition generate_mek :: "u64 \<Rightarrow> ('w, 'p, 'r, media_encryption_key) act" where
  "generate_mek generation = io_bind (draw 32) (\<lambda>k. ok \<lparr>mek_key = k, mek_generation = generation\<rparr>)"

text \<open>What both ways of creating a community put into the state.\<close>

definition enter_created ::
  "('w, 'k, 'p, 'r) platform \<Rightarrow> string \<Rightarrow> string \<Rightarrow> string \<Rightarrow> string option \<Rightarrow> string option
   \<Rightarrow> ('w, 'p, 'r, unit) act" where
  "enter_created pf cid name channel_id dht_key owner_keypair =
     io_bind (generate_mek 1) (\<lambda>mek.
     io_bind (gets (\<lambda>c. derive_pseudonym_key pf c cid)) (\<lambda>my_pseudonym_key.
     io_bind (cache_mek cid mek) (\<lambda>_.
     set_community cid
       \<lparr>cc_id = cid, cc_name = name, cc_description = None,
        cc_channels = [new_client_channel channel_id ''general'' TextChannel],
        cc_my_role_ids = own_role_ids, cc_roles = client_default_roles, cc_my_role = Some ''owner'',
        cc_dht_record_key = dht_key, cc_dht_owner_keypair = owner_keypair,
        cc_my_pseudonym_key = my_pseudonym_key, cc_mek_generation = mek_generation mek,
        cc_server_route_blob = None, cc_is_hosted = True\<rparr>)))"

definition create_community_with_dht ::
  "('w, 'k, 'p, 'r) platform \<Rightarrow> string \<Rightarrow> ('w, 'p, 'r, string option) act" where
  "create_community_with_dht pf name =
     io_bind (result (protocol (create_record (pf_rc pf) 7))) (\<lambda>created.
     case created of
       Inl e \<Rightarrow> ok None
     | Inr (key, owner_keypair) \<Rightarrow>
         io_bind (ignore (protocol (set_value (pf_rc pf) key 0 (iv_show_json (pf_invite pf)
           (JObject [(''name'', JString name), (''description'', JNull)]))))) (\<lambda>_.
         io_bind (draw 8) (\<lambda>bytes.
         let channel_id = ''channel_'' @ hex_encode bytes
         in
         io_bind (ignore (protocol (set_value (pf_rc pf) key 1 (iv_show_json (pf_invite pf)
           (channels_json [new_client_channel channel_id ''general'' TextChannel]))))) (\<lambda>_.
         io_bind (enter_created pf key name channel_id (Some key) (map_option (pf_show_keypair pf) owner_keypair)) (\<lambda>_.
         ok (Some key))))))"

definition create_community_local ::
  "('w, 'k, 'p, 'r) platform \<Rightarrow> string \<Rightarrow> string \<Rightarrow> ('w, 'p, 'r, unit) act" where
  "create_community_local pf cid name =
     io_bind (draw 8) (\<lambda>bytes. enter_created pf cid name (''channel_'' @ hex_encode bytes) None None)"

definition create_community_state ::
  "('w, 'k, 'p, 'r) platform \<Rightarrow> string \<Rightarrow> ('w, 'p, 'r, string) act" where
  "create_community_state pf name =
     io_bind (gets c_node) (\<lambda>node.
     io_bind (if is_online_node node then create_community_with_dht pf name else ok None) (\<lambda>created.
     case created of
       Some cid \<Rightarrow> ok cid
     | None \<Rightarrow>
         io_bind (draw 16) (\<lambda>bytes.
         let cid = ''community_'' @ hex_encode bytes
         in io_bind (create_community_local pf cid name) (\<lambda>_. ok cid))))"

subsection \<open>Hosting it\<close>

text \<open>Tries again after an exchange that failed; the pauses are left out.\<close>

fun host_community_blocking ::
  "('w, 'k, 'p, 'r) platform \<Rightarrow> client_ipc_request \<Rightarrow> nat \<Rightarrow> ('w, 'p, 'r, unit) act" where
  "host_community_blocking pf request 0 = fail ''exhausted retries''"
| "host_community_blocking pf request (Suc retries) =
     io_bind (result (veilid (pf_ipc pf request))) (\<lambda>answer.
     case answer of
       Inr (AnsweredError message) \<Rightarrow> fail (''server rejected HostCommunity: '' @ message)
     | Inr _ \<Rightarrow> ok ()
     | Inl e \<Rightarrow> host_community_blocking pf request retries)"

fun fetch_and_persist_route_blob ::
  "('w, 'k, 'p, 'r) platform \<Rightarrow> string \<Rightarrow> nat \<Rightarrow> ('w, 'p, 'r, unit) act" where
  "fetch_and_persist_route_blob pf cid 0 = ok ()"
| "fetch_and_persist_route_blob pf cid (Suc attempts) =
     io_bind (fetch_server_route_blob pf cid) (\<lambda>fetched.
     case fetched of
       Some blob \<Rightarrow> learn_server_route pf cid blob
     | None \<Rightarrow> fetch_and_persist_route_blob pf cid attempts)"

text \<open>
  Whether the server process runs already is an argument; when not, it is started, and more
  attempts are made to reach it.
\<close>

definition ensure_community_hosted ::
  "('w, 'k, 'p, 'r) platform \<Rightarrow> bool \<Rightarrow> string \<Rightarrow> ('w, 'p, 'r, unit) act" where
  "ensure_community_hosted pf server_running cid =
     io_bind (gets (\<lambda>c. (community_of c cid,
       case c_identity c of None \<Rightarrow> [] | Some i \<Rightarrow> is_display_name i))) (\<lambda>(community, creator_display_name).
     io_bind (case community of
         None \<Rightarrow> ok ()
       | Some cc \<Rightarrow>
           (case (cc_dht_record_key cc, cc_dht_owner_keypair cc) of
              (Some dht_key, Some keypair) \<Rightarrow>
                ignore (host_community_blocking pf (AskHostCommunity (cc_id cc) dht_key keypair (cc_name cc)
                  (or_empty (cc_my_pseudonym_key cc)) creator_display_name) (if server_running then 5 else 10))
            | _ \<Rightarrow> ok ())) (\<lambda>_.
     fetch_and_persist_route_blob pf cid 20))"

subsection \<open>The command\<close>

definition insert_community_member_of ::
  "string \<Rightarrow> string \<Rightarrow> string \<Rightarrow> string \<Rightarrow> string \<Rightarrow> int \<Rightarrow> community_member_row" where
  "insert_community_member_of owner cid pseudonym name role_ids joined_at =
     \<lparr>km_owner = owner, km_community_id = cid, km_pseudonym_key = pseudonym, km_display_name = Some name,
      km_role_ids = role_ids, km_timeout_until = None, km_joined_at = joined_at\<rparr>"

definition create_community ::
  "('w, 'k, 'p, 'r) platform \<Rightarrow> bool \<Rightarrow> string \<Rightarrow> ('w, 'p, 'r, string) act" where
  "create_community pf server_running name =
     io_bind current_owner_key (\<lambda>owner.
     io_bind (create_community_state pf name) (\<lambda>cid.
     io_bind (keep_cached_mek pf cid) (\<lambda>_.
     io_bind (gets id) (\<lambda>c.
     io_bind (ok_or ''community not found after creation'' (community_of c cid)) (\<lambda>community.
     let creator_name = (case c_identity c of None \<Rightarrow> [] | Some i \<Rightarrow> is_display_name i);
         pseudonym_key = (case cc_my_pseudonym_key community of None \<Rightarrow> owner | Some k \<Rightarrow> k);
         role_ids = ids_text pf [] own_role_ids
     in
     io_bind (execute pf [] (insert_community_row
       \<lparr>kc_owner = owner, kc_id = cid, kc_name = name, kc_description = None, kc_my_role = ''owner'',
        kc_my_role_ids = role_ids, kc_joined_at = millis_i64 c,
        kc_dht_record_key = cc_dht_record_key community, kc_dht_owner_keypair = cc_dht_owner_keypair community,
        kc_my_pseudonym_key = Some pseudonym_key, kc_mek_generation = sint (cc_mek_generation community),
        kc_server_route_blob = None, kc_is_hosted = True\<rparr>)) (\<lambda>_.
     io_bind (execute pf [] (insert_community_member
       (insert_community_member_of owner cid pseudonym_key creator_name role_ids (millis_i64 c)))) (\<lambda>_.
     io_bind (for_each (\<lambda>ch. execute pf [] (insert_community_channel (channel_row_of owner cid ch)))
       (cc_channels community)) (\<lambda>_.
     io_bind (for_each (\<lambda>r. execute pf [] (insert_community_role (role_row_of owner cid r))) (cc_roles community)) (\<lambda>_.
     io_bind (ensure_community_hosted pf server_running cid) (\<lambda>_.
     ok cid))))))))))"

section \<open>Joining one\<close>

record join_rpc_result =
  jr_mek_generation :: u64
  jr_role :: string
  jr_role_ids :: "u32 list"
  jr_roles :: "role_dto list"
  jr_channels :: "client_channel list"

definition channel_of_dto :: "channel_info_dto \<Rightarrow> client_channel" where
  "channel_of_dto ch = new_client_channel (cdto_id ch) (cdto_name ch) (channel_type_of (cdto_channel_type ch))"

definition send_join_rpc ::
  "('w, 'k, 'p, 'r) platform \<Rightarrow> bytes \<Rightarrow> bytes \<Rightarrow> string \<Rightarrow> string option \<Rightarrow> string \<Rightarrow> bytes option
   \<Rightarrow> ('w, 'p, 'r, join_rpc_result option) act" where
  "send_join_rpc pf server_route_blob secret cid my_pseudonym_key display_name our_route_blob =
     io_bind (describe ''failed to serialize join request: '' (map_error ClientError (from_result
       (to_json (pf_request_json pf) (Join (or_empty my_pseudonym_key) None display_name [] our_route_blob)))))
       (\<lambda>request_bytes.
     io_bind (gets millis_i64) (\<lambda>now.
     io_bind (draw 24) (\<lambda>nonce.
     let envelope = build_envelope (pf_public_of pf) (pf_sign pf) (pf_pseudonym_secret pf secret cid)
           (word_of_int now) nonce request_bytes
     in
     io_bind (import_server_route pf server_route_blob) (\<lambda>imported.
     case imported of
       Inl e \<Rightarrow> ok None
     | Inr route_id \<Rightarrow>
         io_bind (result (protocol (send_call pf route_id envelope))) (\<lambda>answer.
         case answer of
           Inl e \<Rightarrow> ok None
         | Inr response_bytes \<Rightarrow>
             (case from_json (pf_response_json pf) response_bytes of
                Inr (Joined mek_encrypted generation channels role_ids roles) \<Rightarrow>
                  io_bind (case received_mek mek_encrypted generation of
                      None \<Rightarrow> ok ()
                    | Some mek \<Rightarrow> cache_mek cid mek) (\<lambda>_.
                  ok (Some \<lparr>jr_mek_generation = generation, jr_role = display_role_name role_ids roles,
                    jr_role_ids = role_ids, jr_roles = roles, jr_channels = map channel_of_dto channels\<rparr>))
              | Inr (ResError code message) \<Rightarrow> fail (''server rejected join: '' @ message)
              | _ \<Rightarrow> ok None))))))"

definition join_community_state ::
  "('w, 'k, 'p, 'r) platform \<Rightarrow> string \<Rightarrow> ('w, 'p, 'r, unit) act" where
  "join_community_state pf cid =
     io_bind (gets id) (\<lambda>c.
     let online = is_online_node (c_node c); my_pseudonym_key = derive_pseudonym_key pf c cid;
         our_display_name = (case c_identity c of None \<Rightarrow> [] | Some i \<Rightarrow> is_display_name i);
         our_route_blob = Option.bind (c_node c) nh_route_blob
     in
     io_bind (read_community_from_dht pf online cid)
       (\<lambda>(name, description, channels, dht_record_key, server_route_blob).
     io_bind (case (server_route_blob, c_identity_secret c) of
         (Some route_blob, Some secret) \<Rightarrow>
           if online
           then send_join_rpc pf route_blob secret cid my_pseudonym_key our_display_name our_route_blob
           else ok None
       | _ \<Rightarrow> ok None) (\<lambda>joined.
     let res = (case joined of
           Some j \<Rightarrow> j
         | None \<Rightarrow> \<lparr>jr_mek_generation = 0, jr_role = ''member'', jr_role_ids = [0, 1], jr_roles = [],
             jr_channels = []\<rparr>)
     in
     set_community cid
       \<lparr>cc_id = cid, cc_name = name, cc_description = description,
        cc_channels = (if jr_channels res = [] then channels else jr_channels res),
        cc_my_role_ids = jr_role_ids res,
        cc_roles = (if jr_roles res = [] then client_default_roles else jr_roles res),
        cc_my_role = Some (jr_role res), cc_dht_record_key = dht_record_key, cc_dht_owner_keypair = None,
        cc_my_pseudonym_key = my_pseudonym_key, cc_mek_generation = jr_mek_generation res,
        cc_server_route_blob = server_route_blob, cc_is_hosted = False\<rparr>)))"

definition join_community :: "('w, 'k, 'p, 'r) platform \<Rightarrow> string \<Rightarrow> ('w, 'p, 'r, unit) act" where
  "join_community pf cid =
     io_bind current_owner_key (\<lambda>owner.
     io_bind (join_community_state pf cid) (\<lambda>_.
     io_bind (gets id) (\<lambda>c.
     io_bind (keep_cached_mek pf cid) (\<lambda>_.
     let joiner_name = (case c_identity c of None \<Rightarrow> [] | Some i \<Rightarrow> is_display_name i);
         community = community_of c cid;
         pseudonym_key = (case Option.bind community cc_my_pseudonym_key of None \<Rightarrow> owner | Some k \<Rightarrow> k);
         role_ids = ids_text pf ''[0,1]'' (case community of None \<Rightarrow> [0, 1] | Some cc \<Rightarrow> cc_my_role_ids cc)
     in
     io_bind (execute pf [] (insert_ignore_community_row
       \<lparr>kc_owner = owner, kc_id = cid, kc_name = (case community of None \<Rightarrow> [] | Some cc \<Rightarrow> cc_name cc),
        kc_description = None, kc_my_role = ''member'', kc_my_role_ids = role_ids, kc_joined_at = millis_i64 c,
        kc_dht_record_key = Option.bind community cc_dht_record_key, kc_dht_owner_keypair = None,
        kc_my_pseudonym_key = Some pseudonym_key,
        kc_mek_generation = (case community of None \<Rightarrow> 0 | Some cc \<Rightarrow> sint (cc_mek_generation cc)),
        kc_server_route_blob = Option.bind community cc_server_route_blob, kc_is_hosted = False\<rparr>)) (\<lambda>_.
     io_bind (execute pf [] (insert_ignore_community_member
       (insert_community_member_of owner cid pseudonym_key joiner_name role_ids (millis_i64 c)))) (\<lambda>_.
     io_bind (for_each (\<lambda>ch. execute pf [] (insert_ignore_community_channel (channel_row_of owner cid ch)))
       (case community of None \<Rightarrow> [] | Some cc \<Rightarrow> cc_channels cc)) (\<lambda>_.
     for_each (\<lambda>r. execute pf [] (insert_ignore_community_role (role_row_of owner cid r)))
       (case community of None \<Rightarrow> [] | Some cc \<Rightarrow> cc_roles cc))))))))"

section \<open>Creating a channel\<close>

text \<open>Locally, with the permission the roles of the identity give, and in the record of a community that no server keeps.\<close>

definition own_permissions :: "client_community \<Rightarrow> u64" where
  "own_permissions cc = fold (\<lambda>role_id acc. case List.find (\<lambda>r. rdto_id r = role_id) (cc_roles cc) of
       Some r \<Rightarrow> acc OR rdto_permissions r | None \<Rightarrow> acc) (cc_my_role_ids cc) 0"

definition create_channel_locally ::
  "('w, 'k, 'p, 'r) platform \<Rightarrow> string \<Rightarrow> string \<Rightarrow> string \<Rightarrow> ('w, 'p, 'r, string) act" where
  "create_channel_locally pf cid channel_name channel_type =
     io_bind (gets (\<lambda>c. community_of c cid)) (\<lambda>community.
     io_bind (ok_or (''community '' @ cid @ '' not found'') community) (\<lambda>cc.
     if \<not> has_permission (own_permissions cc) MANAGE_CHANNELS
     then fail ''insufficient permissions: you do not have MANAGE_CHANNELS permission''
     else
       io_bind (draw 8) (\<lambda>bytes.
       let channel_id = ''channel_'' @ hex_encode bytes;
           channel = new_client_channel channel_id channel_name (channel_type_of channel_type)
       in
       io_bind (edit_community cid (\<lambda>cc. cc\<lparr>cc_channels := cc_channels cc @ [channel]\<rparr>)) (\<lambda>_.
       io_bind (gets c_node) (\<lambda>node.
       io_bind (case cc_dht_record_key cc of
           Some dht_key \<Rightarrow>
             when_act (\<not> cc_is_hosted cc \<and> is_online_node node)
               (ignore (protocol (set_value (pf_rc pf) dht_key 1
                 (iv_show_json (pf_invite pf) (channels_json (cc_channels cc @ [channel]))))))
         | None \<Rightarrow> ok ()) (\<lambda>_.
       ok channel_id))))))"

definition create_channel ::
  "('w, 'k, 'p, 'r) platform \<Rightarrow> string \<Rightarrow> string \<Rightarrow> string \<Rightarrow> ('w, 'p, 'r, string) act" where
  "create_channel pf cid name channel_type =
     io_bind current_owner_key (\<lambda>owner.
     let store = (\<lambda>channel_id. execute pf [] (insert_community_channel
           \<lparr>kh_owner = owner, kh_id = channel_id, kh_community_id = cid, kh_name = name,
            kh_channel_type = channel_type\<rparr>));
         local = io_bind (create_channel_locally pf cid name channel_type) (\<lambda>channel_id.
           io_bind (store channel_id) (\<lambda>_. ok channel_id))
     in
     io_bind (gets (\<lambda>c. community_of c cid)) (\<lambda>community.
     if community = None then local
     else
       io_bind (result (send_community_rpc pf cid (CreateChannel name channel_type))) (\<lambda>response.
       case response of
         Inr (ChannelCreated channel_id) \<Rightarrow>
           io_bind (edit_community cid (\<lambda>cc. cc\<lparr>cc_channels := cc_channels cc @
             [new_client_channel channel_id name (channel_type_of channel_type)]\<rparr>)) (\<lambda>_.
           io_bind (store channel_id) (\<lambda>_.
           ok channel_id))
       | Inr (ResError code message) \<Rightarrow> fail (''server rejected channel creation: '' @ message)
       | Inr other \<Rightarrow> fail (''unexpected server response for CreateChannel: '' @ pf_debug_response pf other)
       | Inl e \<Rightarrow> local)))"

end
