(* ===== verification/CommunityCommands.thy ===== *)
theory CommunityCommands
  imports CommunityJoin ChatCommands
begin

text \<open>
  The commands of a community window (\<open>commands/community.rs\<close>): lists, channel messages and their
  history, leaving, members, roles, timeouts, overwrites, channels and bans. A command asks the server
  and, when it agreed, repeats the change in memory and in the database.
\<close>

section \<open>Lists\<close>

record community_info =
  ci_id :: string
  ci_name :: string
  ci_description :: "string option"
  ci_channel_count :: nat
  ci_my_role :: "string option"

definition get_communities :: "('w, 'p, 'r, community_info list) act" where
  "get_communities = gets (\<lambda>c. map (\<lambda>(_, cc).
     \<lparr>ci_id = cc_id cc, ci_name = cc_name cc, ci_description = cc_description cc,
      ci_channel_count = length (cc_channels cc), ci_my_role = cc_my_role cc\<rparr>) (c_communities c))"

record channel_info_view =
  iw_id :: string
  iw_name :: string
  iw_channel_type :: string
  iw_unread_count :: u32

record community_detail =
  cd_id :: string
  cd_name :: string
  cd_description :: "string option"
  cd_channels :: "channel_info_view list"
  cd_my_role :: "string option"
  cd_my_role_ids :: "u32 list"
  cd_roles :: "role_dto list"
  cd_my_pseudonym_key :: "string option"
  cd_mek_generation :: u64
  cd_is_hosted :: bool

definition get_community_details :: "('w, 'p, 'r, community_detail list) act" where
  "get_community_details = gets (\<lambda>c. map (\<lambda>(_, cc).
     \<lparr>cd_id = cc_id cc, cd_name = cc_name cc, cd_description = cc_description cc,
      cd_channels = map (\<lambda>ch. \<lparr>iw_id = cx_id ch, iw_name = cx_name ch,
        iw_channel_type = channel_type_text (cx_channel_type ch), iw_unread_count = cx_unread_count ch\<rparr>)
        (cc_channels cc),
      cd_my_role = cc_my_role cc, cd_my_role_ids = cc_my_role_ids cc, cd_roles = cc_roles cc,
      cd_my_pseudonym_key = cc_my_pseudonym_key cc, cd_mek_generation = cc_mek_generation cc,
      cd_is_hosted = cc_is_hosted cc\<rparr>) (c_communities c))"

record member_view =
  mv_pseudonym_key :: string
  mv_display_name :: string
  mv_role_ids :: "u32 list"
  mv_display_role :: string
  mv_status :: string
  mv_timeout_until :: "u64 option"

definition get_community_members ::
  "('w, 'k, 'p, 'r) platform \<Rightarrow> string \<Rightarrow> ('w, 'p, 'r, member_view list) act" where
  "get_community_members pf cid =
     io_bind (gets id) (\<lambda>c.
     io_bind current_owner_key (\<lambda>owner.
     io_bind (query [] (select_community_members owner cid)) (\<lambda>rows.
     let me = pseudonym_in c cid; my_status = (case c_identity c of None \<Rightarrow> Online | Some i \<Rightarrow> is_status i);
         role_defs = (case community_of c cid of None \<Rightarrow> [] | Some cc \<Rightarrow> cc_roles cc)
     in ok (map (\<lambda>r.
       let role_ids = parse_ids pf [0, 1] (km_role_ids r)
       in \<lparr>mv_pseudonym_key = km_pseudonym_key r, mv_display_name = or_empty (km_display_name r),
           mv_role_ids = role_ids, mv_display_role = display_role_name role_ids role_defs,
           mv_status = (if me = Some (km_pseudonym_key r) then status_name my_status else ''online''),
           mv_timeout_until = map_option word_of_int (km_timeout_until r)\<rparr>) rows))))"

section \<open>Channel messages\<close>

definition community_of_channel :: "('w, 'p, 'r) client \<Rightarrow> string \<Rightarrow> client_community option" where
  "community_of_channel c channel_id =
     List.find (\<lambda>cc. list_ex (\<lambda>ch. cx_id ch = channel_id) (cc_channels cc)) (map snd (c_communities c))"

definition queue_pending_channel_message ::
  "('w, 'k, 'p, 'r) platform \<Rightarrow> string \<Rightarrow> string \<Rightarrow> bytes \<Rightarrow> u64 \<Rightarrow> int \<Rightarrow> ('w, 'p, 'r, unit) act" where
  "queue_pending_channel_message pf cid channel_id ciphertext generation timestamp =
     (case to_json (pf_channel_json pf)
         \<lparr>pcm_community_id = cid, pcm_channel_id = channel_id, pcm_ciphertext = ciphertext,
          pcm_mek_generation = generation, pcm_timestamp = timestamp\<rparr> of
        Inl e \<Rightarrow> ok ()
      | Inr body \<Rightarrow>
          io_bind (gets (\<lambda>c. (owner_of c, millis_i64 c))) (\<lambda>(owner, now).
          ignore (execute pf ''queue pending channel message: ''
            (insert_queued owner cid (bytes_as_string body) now))))"

definition mek_missing :: string where
  "mek_missing = ''MEK not available '' @ em_dash @ '' rejoin the community or wait for MEK delivery''"

definition send_channel_message ::
  "('w, 'k, 'p, 'r) platform \<Rightarrow> string \<Rightarrow> string \<Rightarrow> ('w, 'p, 'r, unit) act" where
  "send_channel_message pf channel_id body =
     io_bind current_owner_key (\<lambda>owner.
     io_bind (gets id) (\<lambda>c.
     io_bind (ok_or ''channel not found in any community'' (community_of_channel c channel_id)) (\<lambda>community.
     let timestamp = millis_i64 c; cid = cc_id community; generation = cc_mek_generation community;
         sender_key = (case pseudonym_in c cid of None \<Rightarrow> owner | Some k \<Rightarrow> k)
     in
     io_bind (ok_or mek_missing (map_of (c_mek_cache c) cid)) (\<lambda>mek.
     io_bind (describe ''MEK encryption failed: '' (mek_encrypt pf mek (as_bytes body))) (\<lambda>ciphertext.
     io_bind (execute pf [] (insert_message_row owner channel_id ''channel'' sender_key body timestamp True
       (Some (sint generation)))) (\<lambda>_.
     let queue = queue_pending_channel_message pf cid channel_id ciphertext generation timestamp
     in
     io_bind (case cc_server_route_blob community of
         Some route_blob \<Rightarrow>
           io_bind (result (send_encrypted_to_server pf channel_id cid ciphertext generation timestamp route_blob)) (\<lambda>sent.
           case sent of Inl e \<Rightarrow> queue | Inr _ \<Rightarrow> ok ())
       | None \<Rightarrow> queue) (\<lambda>_.
     emit_chat (EvMessageReceived sender_key body (word_of_int timestamp) channel_id))))))))"

text \<open>
  What the server still has: the messages the key at hand decrypts, stored and shown. Those of
  another generation are skipped.
\<close>

definition decrypt_history ::
  "crypto \<Rightarrow> media_encryption_key \<Rightarrow> channel_message_dto list \<Rightarrow> (string \<times> string \<times> int \<times> int) list" where
  "decrypt_history cr mek ms = List.map_filter (\<lambda>m.
     if mdto_mek_generation m \<noteq> mek_generation mek then None
     else case mek_decrypt cr mek (mdto_ciphertext m) of
       Inl e \<Rightarrow> None
     | Inr plaintext \<Rightarrow> Some (mdto_sender_pseudonym m, utf8_or_empty plaintext, sint (mdto_timestamp m),
         sint (mdto_mek_generation m))) ms"

definition fetch_channel_history_from_server ::
  "('w, 'k, 'p, 'r) platform \<Rightarrow> string \<Rightarrow> string \<Rightarrow> string \<Rightarrow> string \<Rightarrow> u32 \<Rightarrow> ('w, 'p, 'r, chat_message list) act"
  where
  "fetch_channel_history_from_server pf cid channel_id owner my_pseudonym_key limit =
     io_bind (result (send_community_rpc pf cid (GetMessages channel_id None limit))) (\<lambda>response.
     case response of
       Inr (Messages ms) \<Rightarrow>
         io_bind (gets (\<lambda>c. map_of (c_mek_cache c) cid)) (\<lambda>mek.
         case (ms, mek) of
           (m # _, Some mek) \<Rightarrow>
             (let decrypted = decrypt_history (pf_crypto pf) mek ms
              in io_bind (for_each (\<lambda>(sender, body, ts, gen). ignore (execute pf []
                   (insert_ignore_message_row owner channel_id ''channel'' sender body ts False (Some gen)))) decrypted) (\<lambda>_.
                 ok (map (\<lambda>(sender, body, ts, gen).
                   \<lparr>hm_id = 0, hm_sender_id = sender, hm_body = body, hm_timestamp = ts,
                    hm_is_own = (sender = my_pseudonym_key)\<rparr>) decrypted)))
         | _ \<Rightarrow> ok [])
     | _ \<Rightarrow> ok [])"

text \<open>The messages at hand, newest last; then the server is asked, and what it has is announced.\<close>

definition get_channel_messages ::
  "('w, 'k, 'p, 'r) platform \<Rightarrow> string \<Rightarrow> u32 \<Rightarrow> ('w, 'p, 'r, chat_message list) act" where
  "get_channel_messages pf channel_id limit =
     io_bind (gets id) (\<lambda>c.
     let our_key = owner_of c; community = community_of_channel c channel_id;
         my_pseudonym_key = or_empty (Option.bind community cc_my_pseudonym_key)
     in
     io_bind (query [] (select_channel_messages our_key channel_id (unat limit))) (\<lambda>rows.
     io_bind (case community of
         None \<Rightarrow> ok ()
       | Some cc \<Rightarrow>
           io_bind (fetch_channel_history_from_server pf (cc_id cc) channel_id our_key my_pseudonym_key limit) (\<lambda>fetched.
           when_act (fetched \<noteq> []) (emit_chat (EvChannelHistoryLoaded channel_id fetched)))) (\<lambda>_.
     ok (rev (map (\<lambda>r. \<lparr>hm_id = xm_id r, hm_sender_id = xm_sender_key r, hm_body = xm_body r,
       hm_timestamp = xm_timestamp r,
       hm_is_own = (xm_sender_key r = our_key \<or> xm_sender_key r = my_pseudonym_key)\<rparr>) rows)))))"

section \<open>Leaving\<close>

definition leave_community :: "('w, 'k, 'p, 'r) platform \<Rightarrow> string \<Rightarrow> ('w, 'p, 'r, unit) act" where
  "leave_community pf cid =
     io_bind (ignore (send_community_rpc pf cid Leave)) (\<lambda>_.
     io_bind (forget_mek cid) (\<lambda>_.
     io_bind (delete_kept_mek cid) (\<lambda>_.
     io_bind (drop_community cid) (\<lambda>_.
     io_bind current_owner_key (\<lambda>owner.
     execute pf [] (delete_community_row owner cid))))))"

section \<open>Commands that ask the server\<close>

text \<open>An answer that is an error, or, where one answer is expected, any other.\<close>

definition accepted :: "string \<Rightarrow> community_response \<Rightarrow> ('w, 'p, 'r, unit) act" where
  "accepted what response =
     (case response of
        ResError code message \<Rightarrow> fail (''server rejected '' @ what @ '': '' @ message)
      | _ \<Rightarrow> ok ())"

definition expect :: "string \<Rightarrow> (community_response \<Rightarrow> 'a option) \<Rightarrow> community_response \<Rightarrow> ('w, 'p, 'r, 'a) act" where
  "expect what f response =
     (case response of
        ResError code message \<Rightarrow> fail (''server rejected '' @ what @ '': '' @ message)
      | r \<Rightarrow> ok_or ''unexpected response from server'' (f r))"

definition is_ok :: "community_response \<Rightarrow> unit option" where
  "is_ok r = (if r = ResOk then Some () else None)"

definition remove_community_member ::
  "('w, 'k, 'p, 'r) platform \<Rightarrow> string \<Rightarrow> string \<Rightarrow> ('w, 'p, 'r, unit) act" where
  "remove_community_member pf cid pseudonym_key =
     io_bind current_owner_key (\<lambda>owner.
     io_bind (gets (\<lambda>c. or_empty (Option.bind (community_of c cid) cc_my_role))) (\<lambda>my_role.
     if my_role \<noteq> ''owner'' \<and> my_role \<noteq> ''admin''
     then fail ''insufficient permissions: must be owner or admin to remove members''
     else
       io_bind (send_community_rpc pf cid (Kick pseudonym_key)) (\<lambda>response.
       io_bind (accepted ''kick'' response) (\<lambda>_.
       execute pf [] (delete_community_member owner cid pseudonym_key)))))"

subsection \<open>Roles\<close>

definition refresh_my_role :: "client_community \<Rightarrow> client_community" where
  "refresh_my_role cc = cc\<lparr>cc_my_role := Some (display_role_name (cc_my_role_ids cc) (cc_roles cc))\<rparr>"

text \<open>\<open>DELETE\<close> and an \<open>INSERT\<close> for every role.\<close>

definition store_roles ::
  "('w, 'k, 'p, 'r) platform \<Rightarrow> string \<Rightarrow> string \<Rightarrow> role_dto list \<Rightarrow> ('w, 'p, 'r, unit) act" where
  "store_roles pf owner cid roles =
     io_bind (execute pf [] (delete_community_roles owner cid)) (\<lambda>_.
     for_each (\<lambda>r. execute pf [] (insert_community_role (role_row_of owner cid r))) roles)"

definition get_roles ::
  "('w, 'k, 'p, 'r) platform \<Rightarrow> string \<Rightarrow> ('w, 'p, 'r, role_dto list) act" where
  "get_roles pf cid =
     io_bind current_owner_key (\<lambda>owner.
     io_bind (result (send_community_rpc pf cid GetRoles)) (\<lambda>response.
     case response of
       Inr (RolesList roles) \<Rightarrow>
         io_bind (edit_community cid (\<lambda>cc. refresh_my_role (cc\<lparr>cc_roles := roles\<rparr>))) (\<lambda>_.
         io_bind (store_roles pf owner cid roles) (\<lambda>_.
         ok roles))
     | Inr (ResError code message) \<Rightarrow> fail (''server rejected get_roles: '' @ message)
     | _ \<Rightarrow> gets (\<lambda>c. case community_of c cid of None \<Rightarrow> [] | Some cc \<Rightarrow> cc_roles cc)))"

definition create_role ::
  "('w, 'k, 'p, 'r) platform \<Rightarrow> string \<Rightarrow> string \<Rightarrow> u32 \<Rightarrow> u64 \<Rightarrow> bool \<Rightarrow> bool \<Rightarrow> ('w, 'p, 'r, u32) act" where
  "create_role pf cid name color perms hoist mentionable =
     io_bind current_owner_key (\<lambda>owner.
     io_bind (send_community_rpc pf cid (CreateRole name color perms hoist mentionable)) (\<lambda>response.
     io_bind (expect ''create_role'' (\<lambda>r. case r of RoleCreated i \<Rightarrow> Some i | _ \<Rightarrow> None) response) (\<lambda>role_id.
     let role = \<lparr>rdto_id = role_id, rdto_name = name, rdto_color = color, rdto_permissions = perms,
           rdto_position = 0, rdto_hoist = hoist, rdto_mentionable = mentionable\<rparr>
     in
     io_bind (edit_community cid (\<lambda>cc. cc\<lparr>cc_roles := cc_roles cc @ [role]\<rparr>)) (\<lambda>_.
     io_bind (execute pf [] (replace_community_role (role_row_of owner cid role))) (\<lambda>_.
     ok role_id)))))"

definition or_old :: "'a option \<Rightarrow> 'a \<Rightarrow> 'a" where
  "or_old new old = (case new of None \<Rightarrow> old | Some x \<Rightarrow> x)"

definition edit_role_dto ::
  "string option \<Rightarrow> u32 option \<Rightarrow> u64 option \<Rightarrow> int option \<Rightarrow> bool option \<Rightarrow> bool option \<Rightarrow> role_dto \<Rightarrow> role_dto"
  where
  "edit_role_dto name color perms position hoist mentionable r =
     r\<lparr>rdto_name := or_old name (rdto_name r), rdto_color := or_old color (rdto_color r),
       rdto_permissions := or_old perms (rdto_permissions r), rdto_position := or_old position (rdto_position r),
       rdto_hoist := or_old hoist (rdto_hoist r), rdto_mentionable := or_old mentionable (rdto_mentionable r)\<rparr>"

fun edit_first_role :: "u32 \<Rightarrow> (role_dto \<Rightarrow> role_dto) \<Rightarrow> role_dto list \<Rightarrow> role_dto list" where
  "edit_first_role i f [] = []"
| "edit_first_role i f (r # rs) = (if rdto_id r = i then f r # rs else r # edit_first_role i f rs)"

definition edit_role_row ::
  "string option \<Rightarrow> u32 option \<Rightarrow> u64 option \<Rightarrow> int option \<Rightarrow> bool option \<Rightarrow> bool option
   \<Rightarrow> community_role_row \<Rightarrow> community_role_row" where
  "edit_role_row name color perms position hoist mentionable r =
     r\<lparr>ko_name := or_old name (ko_name r), ko_color := or_old (map_option uint color) (ko_color r),
       ko_permissions := or_old (map_option sint perms) (ko_permissions r),
       ko_position := or_old position (ko_position r), ko_hoist := or_old hoist (ko_hoist r),
       ko_mentionable := or_old mentionable (ko_mentionable r)\<rparr>"

text \<open>The \<open>UPDATE\<close> sets the columns that were given; without any there is none.\<close>

definition edit_community_role ::
  "('w, 'k, 'p, 'r) platform \<Rightarrow> string \<Rightarrow> u32 \<Rightarrow> string option \<Rightarrow> u32 option \<Rightarrow> u64 option \<Rightarrow> int option
   \<Rightarrow> bool option \<Rightarrow> bool option \<Rightarrow> ('w, 'p, 'r, unit) act" where
  "edit_community_role pf cid role_id name color perms position hoist mentionable =
     io_bind current_owner_key (\<lambda>owner.
     io_bind (send_community_rpc pf cid (EditRole role_id name color perms position hoist mentionable)) (\<lambda>response.
     io_bind (expect ''edit_role'' is_ok response) (\<lambda>_.
     io_bind (edit_community cid (\<lambda>cc. refresh_my_role (cc\<lparr>cc_roles :=
       edit_first_role role_id (edit_role_dto name color perms position hoist mentionable) (cc_roles cc)\<rparr>))) (\<lambda>_.
     if name = None \<and> color = None \<and> perms = None \<and> position = None \<and> hoist = None \<and> mentionable = None
     then ok ()
     else execute pf [] (update_community_role owner cid (uint role_id)
       (edit_role_row name color perms position hoist mentionable))))))"

definition without_id :: "u32 \<Rightarrow> u32 list \<Rightarrow> u32 list" where
  "without_id i ids = filter (\<lambda>j. j \<noteq> i) ids"

definition with_id :: "u32 \<Rightarrow> u32 list \<Rightarrow> u32 list" where
  "with_id i ids = (if i \<in> set ids then ids else ids @ [i])"

text \<open>The role is struck from the lists in the rows of the members and in that of the community.\<close>

definition scrub_role ::
  "('w, 'k, 'p, 'r) platform \<Rightarrow> string \<Rightarrow> string \<Rightarrow> u32 \<Rightarrow> ('w, 'p, 'r, unit) act" where
  "scrub_role pf owner cid role_id =
     io_bind (query [] (select_member_roles owner cid)) (\<lambda>members.
     io_bind (for_each (\<lambda>(pk, json).
       (let ids = parse_ids pf [] json
        in when_act (role_id \<in> set ids) (execute pf [] (update_community_member owner cid pk
             (\<lambda>r. r\<lparr>km_role_ids := ids_text pf [] (without_id role_id ids)\<rparr>))))) members) (\<lambda>_.
     io_bind (result (query [] (select_my_role_ids owner cid))) (\<lambda>found.
     let my_ids = parse_ids pf [] (case found of Inr (Some t) \<Rightarrow> t | _ \<Rightarrow> ''[0,1]'')
     in when_act (role_id \<in> set my_ids) (execute pf [] (update_community_row owner cid
          (\<lambda>r. r\<lparr>kc_my_role_ids := ids_text pf [] (without_id role_id my_ids)\<rparr>))))))"

definition delete_role_command ::
  "('w, 'k, 'p, 'r) platform \<Rightarrow> string \<Rightarrow> u32 \<Rightarrow> ('w, 'p, 'r, unit) act" where
  "delete_role_command pf cid role_id =
     io_bind current_owner_key (\<lambda>owner.
     io_bind (send_community_rpc pf cid (DeleteRole role_id)) (\<lambda>response.
     io_bind (expect ''delete_role'' is_ok response) (\<lambda>_.
     io_bind (edit_community cid (\<lambda>cc. refresh_my_role (cc\<lparr>
       cc_roles := filter (\<lambda>r. rdto_id r \<noteq> role_id) (cc_roles cc),
       cc_my_role_ids := without_id role_id (cc_my_role_ids cc)\<rparr>))) (\<lambda>_.
     io_bind (execute pf [] (delete_community_role owner cid (uint role_id))) (\<lambda>_.
     scrub_role pf owner cid role_id)))))"

text \<open>Giving a role to a member and taking it away: \<open>f\<close> is what happens to the list of role ids.\<close>

definition edit_my_role_ids ::
  "string \<Rightarrow> string \<Rightarrow> (u32 list \<Rightarrow> u32 list) \<Rightarrow> ('w, 'p, 'r, unit) act" where
  "edit_my_role_ids cid pseudonym_key f =
     io_bind (gets (\<lambda>c. pseudonym_in c cid = Some pseudonym_key)) (\<lambda>is_self.
     when_act is_self
       (edit_community cid (\<lambda>cc. refresh_my_role (cc\<lparr>cc_my_role_ids := f (cc_my_role_ids cc)\<rparr>))))"

definition edit_member_role_ids ::
  "('w, 'k, 'p, 'r) platform \<Rightarrow> string \<Rightarrow> string \<Rightarrow> string \<Rightarrow> (u32 list \<Rightarrow> u32 list) \<Rightarrow> ('w, 'p, 'r, unit) act" where
  "edit_member_role_ids pf owner cid pseudonym_key f =
     io_bind (result (query [] (select_member_role_ids owner cid pseudonym_key))) (\<lambda>found.
     let ids = parse_ids pf [] (case found of Inr (Some t) \<Rightarrow> t | _ \<Rightarrow> ''[0,1]'')
     in execute pf [] (update_community_member owner cid pseudonym_key (\<lambda>r. r\<lparr>km_role_ids := ids_text pf [] (f ids)\<rparr>)))"

definition assign_role ::
  "('w, 'k, 'p, 'r) platform \<Rightarrow> string \<Rightarrow> string \<Rightarrow> u32 \<Rightarrow> ('w, 'p, 'r, unit) act" where
  "assign_role pf cid pseudonym_key role_id =
     io_bind current_owner_key (\<lambda>owner.
     io_bind (send_community_rpc pf cid (AssignRole pseudonym_key role_id)) (\<lambda>response.
     io_bind (expect ''assign_role'' is_ok response) (\<lambda>_.
     io_bind (edit_my_role_ids cid pseudonym_key (with_id role_id)) (\<lambda>_.
     edit_member_role_ids pf owner cid pseudonym_key (with_id role_id)))))"

definition unassign_role ::
  "('w, 'k, 'p, 'r) platform \<Rightarrow> string \<Rightarrow> string \<Rightarrow> u32 \<Rightarrow> ('w, 'p, 'r, unit) act" where
  "unassign_role pf cid pseudonym_key role_id =
     io_bind current_owner_key (\<lambda>owner.
     io_bind (send_community_rpc pf cid (UnassignRole pseudonym_key role_id)) (\<lambda>response.
     io_bind (expect ''unassign_role'' is_ok response) (\<lambda>_.
     io_bind (edit_my_role_ids cid pseudonym_key (without_id role_id)) (\<lambda>_.
     edit_member_role_ids pf owner cid pseudonym_key (without_id role_id)))))"

subsection \<open>Timeouts and overwrites\<close>

text \<open>\<open>db::timestamp_now() / 1000 + duration\<close> on \<open>i64\<close>; the sum wraps.\<close>

definition timeout_end :: "int \<Rightarrow> u64 \<Rightarrow> int" where
  "timeout_end now duration = sint (word_of_int (now div 1000 + sint duration) :: u64)"

definition timeout_member ::
  "('w, 'k, 'p, 'r) platform \<Rightarrow> string \<Rightarrow> string \<Rightarrow> u64 \<Rightarrow> string option \<Rightarrow> ('w, 'p, 'r, unit) act" where
  "timeout_member pf cid pseudonym_key duration_seconds reason =
     io_bind current_owner_key (\<lambda>owner.
     io_bind (send_community_rpc pf cid (TimeoutMember pseudonym_key duration_seconds reason)) (\<lambda>response.
     io_bind (expect ''timeout_member'' is_ok response) (\<lambda>_.
     io_bind (gets millis_i64) (\<lambda>now.
     execute pf [] (update_community_member owner cid pseudonym_key
       (\<lambda>r. r\<lparr>km_timeout_until := Some (timeout_end now duration_seconds)\<rparr>))))))"

definition remove_timeout ::
  "('w, 'k, 'p, 'r) platform \<Rightarrow> string \<Rightarrow> string \<Rightarrow> ('w, 'p, 'r, unit) act" where
  "remove_timeout pf cid pseudonym_key =
     io_bind current_owner_key (\<lambda>owner.
     io_bind (send_community_rpc pf cid (RemoveTimeout pseudonym_key)) (\<lambda>response.
     io_bind (expect ''remove_timeout'' is_ok response) (\<lambda>_.
     execute pf [] (update_community_member owner cid pseudonym_key (\<lambda>r. r\<lparr>km_timeout_until := None\<rparr>)))))"

definition set_channel_overwrite ::
  "('w, 'k, 'p, 'r) platform \<Rightarrow> string \<Rightarrow> string \<Rightarrow> string \<Rightarrow> string \<Rightarrow> u64 \<Rightarrow> u64 \<Rightarrow> ('w, 'p, 'r, unit) act" where
  "set_channel_overwrite pf cid channel_id target_type target_id allow deny =
     io_bind current_owner_key (\<lambda>owner.
     io_bind (send_community_rpc pf cid (SetChannelOverwrite channel_id target_type target_id allow deny)) (\<lambda>response.
     io_bind (expect ''set_channel_overwrite'' is_ok response) (\<lambda>_.
     execute pf [] (replace_overwrite_row
       \<lparr>kv_owner = owner, kv_community_id = cid, kv_channel_id = channel_id, kv_target_type = target_type,
        kv_target_id = target_id, kv_allow = sint allow, kv_deny = sint deny\<rparr>))))"

definition delete_channel_overwrite ::
  "('w, 'k, 'p, 'r) platform \<Rightarrow> string \<Rightarrow> string \<Rightarrow> string \<Rightarrow> string \<Rightarrow> ('w, 'p, 'r, unit) act" where
  "delete_channel_overwrite pf cid channel_id target_type target_id =
     io_bind current_owner_key (\<lambda>owner.
     io_bind (send_community_rpc pf cid (DeleteChannelOverwrite channel_id target_type target_id)) (\<lambda>response.
     io_bind (expect ''delete_channel_overwrite'' is_ok response) (\<lambda>_.
     execute pf [] (delete_overwrite_row (owner, cid, channel_id, target_type, target_id)))))"

subsection \<open>Channels and the community itself\<close>

definition delete_channel_command ::
  "('w, 'k, 'p, 'r) platform \<Rightarrow> string \<Rightarrow> string \<Rightarrow> ('w, 'p, 'r, unit) act" where
  "delete_channel_command pf cid channel_id =
     io_bind current_owner_key (\<lambda>owner.
     io_bind (send_community_rpc pf cid (DeleteChannel channel_id)) (\<lambda>response.
     io_bind (accepted ''channel deletion'' response) (\<lambda>_.
     io_bind (edit_community cid (\<lambda>cc. cc\<lparr>cc_channels := filter (\<lambda>ch. cx_id ch \<noteq> channel_id) (cc_channels cc)\<rparr>)) (\<lambda>_.
     execute pf [] (delete_community_channel owner cid channel_id)))))"

fun rename_first_channel :: "string \<Rightarrow> string \<Rightarrow> client_channel list \<Rightarrow> client_channel list" where
  "rename_first_channel i name [] = []"
| "rename_first_channel i name (ch # chs) =
     (if cx_id ch = i then ch\<lparr>cx_name := name\<rparr> # chs else ch # rename_first_channel i name chs)"

definition rename_channel_command ::
  "('w, 'k, 'p, 'r) platform \<Rightarrow> string \<Rightarrow> string \<Rightarrow> string \<Rightarrow> ('w, 'p, 'r, unit) act" where
  "rename_channel_command pf cid channel_id new_name =
     io_bind current_owner_key (\<lambda>owner.
     io_bind (send_community_rpc pf cid (RenameChannel channel_id new_name)) (\<lambda>response.
     io_bind (accepted ''channel rename'' response) (\<lambda>_.
     io_bind (edit_community cid (\<lambda>cc. cc\<lparr>cc_channels := rename_first_channel channel_id new_name (cc_channels cc)\<rparr>)) (\<lambda>_.
     execute pf [] (update_community_channel owner cid channel_id (\<lambda>r. r\<lparr>kh_name := new_name\<rparr>))))))"

definition update_community_info ::
  "('w, 'k, 'p, 'r) platform \<Rightarrow> string \<Rightarrow> string option \<Rightarrow> string option \<Rightarrow> ('w, 'p, 'r, unit) act" where
  "update_community_info pf cid name description =
     io_bind current_owner_key (\<lambda>owner.
     io_bind (send_community_rpc pf cid (UpdateCommunity name description)) (\<lambda>response.
     io_bind (expect ''community update'' (\<lambda>r. if r = CommunityUpdated then Some () else None) response) (\<lambda>_.
     io_bind (edit_community cid (\<lambda>cc. cc\<lparr>cc_name := or_old name (cc_name cc),
       cc_description := (case description of None \<Rightarrow> cc_description cc | Some d \<Rightarrow> Some d)\<rparr>)) (\<lambda>_.
     io_bind (case name of
         None \<Rightarrow> ok ()
       | Some n \<Rightarrow> execute pf [] (update_community_row owner cid (\<lambda>r. r\<lparr>kc_name := n\<rparr>))) (\<lambda>_.
     case description of
       None \<Rightarrow> ok ()
     | Some d \<Rightarrow> execute pf [] (update_community_row owner cid (\<lambda>r. r\<lparr>kc_description := Some d\<rparr>)))))))"

subsection \<open>Bans and keys\<close>

definition ban_member :: "('w, 'k, 'p, 'r) platform \<Rightarrow> string \<Rightarrow> string \<Rightarrow> ('w, 'p, 'r, unit) act" where
  "ban_member pf cid pseudonym_key =
     io_bind (send_community_rpc pf cid (Ban pseudonym_key)) (accepted ''ban'')"

definition unban_member :: "('w, 'k, 'p, 'r) platform \<Rightarrow> string \<Rightarrow> string \<Rightarrow> ('w, 'p, 'r, unit) act" where
  "unban_member pf cid pseudonym_key =
     io_bind (send_community_rpc pf cid (Unban pseudonym_key)) (accepted ''unban'')"

definition get_ban_list ::
  "('w, 'k, 'p, 'r) platform \<Rightarrow> string \<Rightarrow> ('w, 'p, 'r, banned_member_dto list) act" where
  "get_ban_list pf cid =
     io_bind (send_community_rpc pf cid GetBanList)
       (expect ''ban list request'' (\<lambda>r. case r of BanList banned \<Rightarrow> Some banned | _ \<Rightarrow> None))"

definition request_mek_rotation :: "('w, 'k, 'p, 'r) platform \<Rightarrow> string \<Rightarrow> ('w, 'p, 'r, unit) act" where
  "request_mek_rotation pf cid =
     io_bind (send_community_rpc pf cid RotateMEK) (accepted ''MEK rotation'')"

end
