(* ===== verification/Broadcasts.thy ===== *)
theory Broadcasts
  imports CommunityCommands
begin

text \<open>
  What a client does with an \<open>app_message\<close> of Veilid (\<open>services/veilid_service.rs\<close>): the broadcasts of
  a community server, the keys it fetches from the server for them, and the dispatch between
  voice packets, broadcasts and messages. A broadcast is plain JSON, unsigned.
\<close>

definition emit_community :: "community_event \<Rightarrow> ('w, 'p, 'r, unit) act" where
  "emit_community e = emit_event (CommunityEvent e)"

section \<open>Fetching the key\<close>

definition persist_mek ::
  "('w, 'k, 'p, 'r) platform \<Rightarrow> string \<Rightarrow> u64 \<Rightarrow> bytes \<Rightarrow> ('w, 'p, 'r, unit) act" where
  "persist_mek pf cid generation mek_encrypted =
     io_bind (edit_community cid (\<lambda>cc. cc\<lparr>cc_mek_generation := generation\<rparr>)) (\<lambda>_.
     io_bind (keep_mek pf cid mek_encrypted) (\<lambda>_.
     io_bind (gets owner_of) (\<lambda>owner.
     ignore (execute pf [] (update_community_row owner cid
       (\<lambda>r. r\<lparr>kc_mek_generation := i64_or_max generation\<rparr>))))))"

definition fetch_mek_from_server :: "('w, 'k, 'p, 'r) platform \<Rightarrow> string \<Rightarrow> ('w, 'p, 'r, unit) act" where
  "fetch_mek_from_server pf cid =
     io_bind (gets id) (\<lambda>c.
     case (Option.bind (community_of c cid) cc_server_route_blob, c_identity_secret c) of
       (Some route_blob, Some secret) \<Rightarrow>
         if \<not> is_online_node (c_node c) then ok ()
         else (case to_json (pf_request_json pf) RequestMEK of
             Inl e \<Rightarrow> ok ()
           | Inr request_bytes \<Rightarrow>
               io_bind (draw 24) (\<lambda>nonce.
               let envelope = build_envelope (pf_public_of pf) (pf_sign pf) (pf_pseudonym_secret pf secret cid)
                     (word_of_int (millis_i64 c)) nonce request_bytes
               in
               io_bind (import_server_route pf route_blob) (\<lambda>imported.
               case imported of
                 Inl e \<Rightarrow> ok ()
               | Inr route_id \<Rightarrow>
                   io_bind (result (protocol (send_call pf route_id envelope))) (\<lambda>answer.
                   case answer of
                     Inl e \<Rightarrow> ok ()
                   | Inr response_bytes \<Rightarrow>
                       (case from_json (pf_response_json pf) response_bytes of
                          Inr (MEK mek_encrypted generation) \<Rightarrow>
                            (case received_mek mek_encrypted generation of
                               None \<Rightarrow> ok ()
                             | Some mek \<Rightarrow>
                                 io_bind (cache_mek cid mek) (\<lambda>_.
                                 persist_mek pf cid generation mek_encrypted))
                        | _ \<Rightarrow> ok ())))))
     | _ \<Rightarrow> ok ())"

section \<open>Broadcasts\<close>

datatype mek_decrypt_result = MekDecrypted string | NeedRefresh | DecryptFailed

definition decrypt_with_cached_mek ::
  "crypto \<Rightarrow> (string \<times> media_encryption_key) list \<Rightarrow> string \<Rightarrow> bytes \<Rightarrow> u64 \<Rightarrow> mek_decrypt_result" where
  "decrypt_with_cached_mek cr cache cid ciphertext generation =
     (case map_of cache cid of
        None \<Rightarrow> DecryptFailed
      | Some mek \<Rightarrow>
          if mek_generation mek = generation
          then (case mek_decrypt cr mek ciphertext of
                  Inr plaintext \<Rightarrow> MekDecrypted (utf8_or_empty plaintext)
                | Inl e \<Rightarrow> DecryptFailed)
          else NeedRefresh)"

definition store_broadcast_message ::
  "('w, 'k, 'p, 'r) platform \<Rightarrow> string \<Rightarrow> string \<Rightarrow> string \<Rightarrow> u64 \<Rightarrow> u64 \<Rightarrow> ('w, 'p, 'r, unit) act" where
  "store_broadcast_message pf channel_id sender body generation timestamp =
     io_bind (gets owner_of) (\<lambda>owner.
     io_bind (ignore (execute pf [] (insert_message_row owner channel_id ''channel'' sender body (sint timestamp)
       False (Some (sint generation))))) (\<lambda>_.
     emit_chat (EvMessageReceived sender body timestamp channel_id)))"

definition handle_broadcast_new_message ::
  "('w, 'k, 'p, 'r) platform \<Rightarrow> string \<Rightarrow> string \<Rightarrow> string \<Rightarrow> bytes \<Rightarrow> u64 \<Rightarrow> u64 \<Rightarrow> ('w, 'p, 'r, unit) act" where
  "handle_broadcast_new_message pf cid channel_id sender ciphertext generation timestamp =
     (let decrypted = gets (\<lambda>c. decrypt_with_cached_mek (pf_crypto pf) (c_mek_cache c) cid ciphertext generation)
      in
      io_bind (gets (\<lambda>c. pseudonym_in c cid = Some sender)) (\<lambda>own.
      if own then ok ()
      else
        io_bind decrypted (\<lambda>first_attempt.
        case first_attempt of
          MekDecrypted body \<Rightarrow> store_broadcast_message pf channel_id sender body generation timestamp
        | DecryptFailed \<Rightarrow> ok ()
        | NeedRefresh \<Rightarrow>
            io_bind (fetch_mek_from_server pf cid) (\<lambda>_.
            io_bind decrypted (\<lambda>second_attempt.
            case second_attempt of
              MekDecrypted body \<Rightarrow> store_broadcast_message pf channel_id sender body generation timestamp
            | _ \<Rightarrow> ok ())))))"

definition handle_broadcast_mek_rotated ::
  "('w, 'k, 'p, 'r) platform \<Rightarrow> string \<Rightarrow> u64 \<Rightarrow> ('w, 'p, 'r, unit) act" where
  "handle_broadcast_mek_rotated pf cid new_generation =
     io_bind (fetch_mek_from_server pf cid) (\<lambda>_. emit_community (EvMekRotated cid new_generation))"

definition handle_broadcast_member_joined ::
  "('w, 'k, 'p, 'r) platform \<Rightarrow> string \<Rightarrow> string \<Rightarrow> string \<Rightarrow> u32 list \<Rightarrow> ('w, 'p, 'r, unit) act" where
  "handle_broadcast_member_joined pf cid pseudonym_key display_name role_ids =
     io_bind (gets (\<lambda>c. (owner_of c, millis_i64 c))) (\<lambda>(owner, now).
     io_bind (ignore (execute pf [] (insert_ignore_community_member
       (insert_community_member_of owner cid pseudonym_key display_name (ids_text pf ''[0,1]'' role_ids) now)))) (\<lambda>_.
     emit_community (EvMemberJoined cid pseudonym_key display_name role_ids)))"

text \<open>Whoever is removed itself forgets the community and its key.\<close>

definition handle_broadcast_member_removed ::
  "('w, 'k, 'p, 'r) platform \<Rightarrow> string \<Rightarrow> string \<Rightarrow> ('w, 'p, 'r, unit) act" where
  "handle_broadcast_member_removed pf cid pseudonym_key =
     io_bind (gets (\<lambda>c. (pseudonym_in c cid = Some pseudonym_key, owner_of c))) (\<lambda>(is_self, owner).
     if is_self
     then
       io_bind (forget_mek cid) (\<lambda>_.
       io_bind (delete_kept_mek cid) (\<lambda>_.
       io_bind (drop_community cid) (\<lambda>_.
       io_bind (ignore (execute pf [] (delete_community_row owner cid))) (\<lambda>_.
       emit_community (EvKicked cid)))))
     else
       io_bind (ignore (execute pf [] (delete_community_member owner cid pseudonym_key))) (\<lambda>_.
       emit_community (EvMemberRemoved cid pseudonym_key)))"

definition handle_broadcast_roles_changed ::
  "('w, 'k, 'p, 'r) platform \<Rightarrow> string \<Rightarrow> role_dto list \<Rightarrow> ('w, 'p, 'r, unit) act" where
  "handle_broadcast_roles_changed pf cid roles =
     io_bind (edit_community cid (\<lambda>cc. refresh_my_role (cc\<lparr>cc_roles := roles\<rparr>))) (\<lambda>_.
     io_bind (gets owner_of) (\<lambda>owner.
     io_bind (ignore (store_roles pf owner cid roles)) (\<lambda>_.
     emit_community (EvRolesChanged cid roles))))"

definition handle_broadcast_member_roles_changed ::
  "('w, 'k, 'p, 'r) platform \<Rightarrow> string \<Rightarrow> string \<Rightarrow> u32 list \<Rightarrow> ('w, 'p, 'r, unit) act" where
  "handle_broadcast_member_roles_changed pf cid pseudonym_key role_ids =
     io_bind (gets (\<lambda>c. (pseudonym_in c cid = Some pseudonym_key, owner_of c))) (\<lambda>(is_self, owner).
     io_bind (edit_my_role_ids cid pseudonym_key (\<lambda>_. role_ids)) (\<lambda>_.
     let text = ids_text pf ''[0,1]'' role_ids
     in
     io_bind (ignore (execute pf [] (update_community_member owner cid pseudonym_key
       (\<lambda>r. r\<lparr>km_role_ids := text\<rparr>)))) (\<lambda>_.
     io_bind (when_act is_self (ignore (execute pf [] (update_community_row owner cid
       (\<lambda>r. r\<lparr>kc_my_role_ids := text\<rparr>))))) (\<lambda>_.
     emit_community (EvMemberRolesChanged cid pseudonym_key role_ids)))))"

definition handle_broadcast_member_timed_out ::
  "('w, 'k, 'p, 'r) platform \<Rightarrow> string \<Rightarrow> string \<Rightarrow> u64 option \<Rightarrow> ('w, 'p, 'r, unit) act" where
  "handle_broadcast_member_timed_out pf cid pseudonym_key timeout_until =
     io_bind (gets owner_of) (\<lambda>owner.
     io_bind (ignore (execute pf [] (update_community_member owner cid pseudonym_key
       (\<lambda>r. r\<lparr>km_timeout_until := map_option sint timeout_until\<rparr>)))) (\<lambda>_.
     emit_community (EvMemberTimedOut cid pseudonym_key timeout_until)))"

definition handle_community_broadcast ::
  "('w, 'k, 'p, 'r) platform \<Rightarrow> community_broadcast \<Rightarrow> ('w, 'p, 'r, unit) act" where
  "handle_community_broadcast pf b =
     (case b of
        NewMessage cid channel_id sender ciphertext generation timestamp \<Rightarrow>
          handle_broadcast_new_message pf cid channel_id sender ciphertext generation timestamp
      | MEKRotated cid generation \<Rightarrow> handle_broadcast_mek_rotated pf cid generation
      | MemberJoined cid key name role_ids \<Rightarrow> handle_broadcast_member_joined pf cid key name role_ids
      | MemberRemoved cid key \<Rightarrow> handle_broadcast_member_removed pf cid key
      | RolesChanged cid roles \<Rightarrow> handle_broadcast_roles_changed pf cid roles
      | MemberRolesChanged cid key role_ids \<Rightarrow> handle_broadcast_member_roles_changed pf cid key role_ids
      | MemberTimedOut cid key until \<Rightarrow> handle_broadcast_member_timed_out pf cid key until
      | ChannelOverwriteChanged cid channel_id \<Rightarrow> emit_community (EvChannelOverwriteChanged cid channel_id))"

section \<open>The dispatch of what arrives\<close>

text \<open>
  Voice packets begin with the letter V and go to the voice engine. The answer to an \<open>app_call\<close>
  needs a node.
\<close>

definition handle_app_message :: "('w, 'k, 'p, 'r) platform \<Rightarrow> bytes \<Rightarrow> ('w, 'p, 'r, unit) act" where
  "handle_app_message pf message =
     (if message \<noteq> [] \<and> hd message = 0x56 then ok ()
      else case from_json (pf_broadcast_json pf) message of
        Inr b \<Rightarrow> handle_community_broadcast pf b
      | Inl e \<Rightarrow> handle_incoming_message pf message)"

definition handle_app_call :: "('w, 'k, 'p, 'r) platform \<Rightarrow> bytes \<Rightarrow> ('w, 'p, 'r, bytes option) act" where
  "handle_app_call pf message =
     io_bind (handle_incoming_message pf message) (\<lambda>_.
     gets (\<lambda>c. if c_node c = None then None else Some (as_bytes ''ACK'')))"

end
