(* ===== verification/NodeEvents.thy ===== *)
theory NodeEvents
  imports Broadcasts DhtManager Codec
begin

text \<open>
  The other events of Veilid (\<open>services/veilid_service.rs\<close>): changed records, which the presence
  service applies to friends and communities (\<open>services/presence_service.rs\<close>), the attachment to
  the network, and the own private route, which is published again whenever it changes. Then the
  polling of community records and one tick of the sync loop (\<open>services/sync_service.rs\<close>).
\<close>

section \<open>The record of a community\<close>

text \<open>
  The record of a community as the protocol library keeps it
  (\<open>crates/rekindle-protocol/src/dht/community.rs\<close>): metadata, channels and roles in Cap'n Proto and
  members in JSON, each in a subkey of its own. An edit reads the list, changes it and writes it back.
\<close>

record member_entry =
  me_pseudonym_key :: string
  me_role :: "string option"
  me_role_ids :: "u32 list"
  me_joined_at :: u64
  me_timeout_until :: "u64 option"

definition encode_members :: "member_entry list json \<Rightarrow> member_entry list \<Rightarrow> ('w, protocol_error, bytes) io" where
  "encode_members js members = map_error Serialization (from_result (to_json js members))"

definition decode_members :: "member_entry list json \<Rightarrow> bytes \<Rightarrow> ('w, protocol_error, member_entry list) io" where
  "decode_members js data = map_error Deserialization (from_result (from_json js data))"

definition create_community_record ::
  "('w, 'k, 'p) routing_context \<Rightarrow> community_struct capnp \<Rightarrow> member_entry list json \<Rightarrow> community_metadata
   \<Rightarrow> ('w, protocol_error, string) io" where
  "create_community_record rc cp js metadata =
     io_bind (create_record rc 7) (\<lambda>(key, _).
     io_bind (set_value rc key 0 (encode_community cp metadata [] [])) (\<lambda>_.
     io_bind (set_value rc key 1 (encode_channels cp [])) (\<lambda>_.
     io_bind (encode_members js
       [\<lparr>me_pseudonym_key = md_owner_key metadata, me_role = None, me_role_ids = [role_everyone_id, 4],
         me_joined_at = md_created_at metadata, me_timeout_until = None\<rparr>]) (\<lambda>members.
     io_bind (set_value rc key 2 members) (\<lambda>_.
     ok key)))))"

text \<open>One part of what a subkey with a community decodes to.\<close>

definition read_part ::
  "('w, 'k, 'p) routing_context \<Rightarrow> community_struct capnp \<Rightarrow> string \<Rightarrow> u32
   \<Rightarrow> (community_metadata \<times> channel_entry list \<times> role_definition list \<Rightarrow> 'a) \<Rightarrow> 'a \<Rightarrow> ('w, protocol_error, 'a) io" where
  "read_part rc cp key subkey part none =
     io_bind (get_value rc key subkey) (\<lambda>v.
     case v of
       None \<Rightarrow> ok none
     | Some data \<Rightarrow> io_bind (from_result (decode_community cp data [])) (\<lambda>x. ok (part x)))"

definition read_metadata ::
  "('w, 'k, 'p) routing_context \<Rightarrow> community_struct capnp \<Rightarrow> string
   \<Rightarrow> ('w, protocol_error, community_metadata option) io" where
  "read_metadata rc cp key = read_part rc cp key 0 (\<lambda>(meta, _, _). Some meta) None"

definition read_channels ::
  "('w, 'k, 'p) routing_context \<Rightarrow> community_struct capnp \<Rightarrow> string \<Rightarrow> ('w, protocol_error, channel_entry list) io"
  where
  "read_channels rc cp key = read_part rc cp key 1 (\<lambda>(_, channels, _). channels) []"

definition read_members ::
  "('w, 'k, 'p) routing_context \<Rightarrow> member_entry list json \<Rightarrow> string \<Rightarrow> ('w, protocol_error, member_entry list) io" where
  "read_members rc js key =
     io_bind (get_value rc key 2) (\<lambda>v.
     case v of None \<Rightarrow> ok [] | Some data \<Rightarrow> decode_members js data)"

definition read_roles ::
  "('w, 'k, 'p) routing_context \<Rightarrow> community_struct capnp \<Rightarrow> string \<Rightarrow> ('w, protocol_error, role_definition list) io"
  where
  "read_roles rc cp key = read_part rc cp key 3 (\<lambda>(_, _, roles). roles) []"

definition dht_add_channel ::
  "('w, 'k, 'p) routing_context \<Rightarrow> community_struct capnp \<Rightarrow> string \<Rightarrow> channel_entry \<Rightarrow> ('w, protocol_error, unit) io"
  where
  "dht_add_channel rc cp key channel =
     io_bind (read_channels rc cp key) (\<lambda>channels.
     set_value rc key 1 (encode_channels cp (channels @ [channel])))"

definition dht_remove_channel ::
  "('w, 'k, 'p) routing_context \<Rightarrow> community_struct capnp \<Rightarrow> string \<Rightarrow> string \<Rightarrow> ('w, protocol_error, unit) io" where
  "dht_remove_channel rc cp key channel_id =
     io_bind (read_channels rc cp key) (\<lambda>channels.
     let rest = filter (\<lambda>c. ce_id c \<noteq> channel_id) channels
     in if length rest = length channels then throw (DhtError (''channel '' @ channel_id @ '' not found''))
        else set_value rc key 1 (encode_channels cp rest))"

definition write_members ::
  "('w, 'k, 'p) routing_context \<Rightarrow> member_entry list json \<Rightarrow> string \<Rightarrow> member_entry list \<Rightarrow> ('w, protocol_error, unit) io"
  where
  "write_members rc js key members = io_bind (encode_members js members) (set_value rc key 2)"

definition dht_add_member ::
  "('w, 'k, 'p) routing_context \<Rightarrow> member_entry list json \<Rightarrow> string \<Rightarrow> member_entry \<Rightarrow> ('w, protocol_error, unit) io"
  where
  "dht_add_member rc js key member =
     io_bind (read_members rc js key) (\<lambda>members.
     if list_ex (\<lambda>m. me_pseudonym_key m = me_pseudonym_key member) members
     then throw (DhtError ''member already exists'')
     else write_members rc js key (members @ [member]))"

definition dht_remove_member ::
  "('w, 'k, 'p) routing_context \<Rightarrow> member_entry list json \<Rightarrow> string \<Rightarrow> string \<Rightarrow> ('w, protocol_error, unit) io" where
  "dht_remove_member rc js key pseudonym_key =
     io_bind (read_members rc js key) (\<lambda>members.
     let rest = filter (\<lambda>m. me_pseudonym_key m \<noteq> pseudonym_key) members
     in if length rest = length members then throw (PeerNotFound (''member '' @ pseudonym_key @ '' not found''))
        else write_members rc js key rest)"

definition set_member_roles ::
  "('w, 'k, 'p) routing_context \<Rightarrow> member_entry list json \<Rightarrow> string \<Rightarrow> string \<Rightarrow> u32 list \<Rightarrow> ('w, protocol_error, unit) io"
  where
  "set_member_roles rc js key pseudonym_key role_ids =
     io_bind (read_members rc js key) (\<lambda>members.
     if \<not> list_ex (\<lambda>m. me_pseudonym_key m = pseudonym_key) members
     then throw (PeerNotFound (''member '' @ pseudonym_key @ '' not found''))
     else write_members rc js key (update_first (\<lambda>m. me_pseudonym_key m = pseudonym_key)
       (\<lambda>m. m\<lparr>me_role_ids := role_ids, me_role := None\<rparr>) members))"

text \<open>A role id is shown in decimal.\<close>

definition dht_add_role ::
  "('w, 'k, 'p) routing_context \<Rightarrow> community_struct capnp \<Rightarrow> string \<Rightarrow> role_definition \<Rightarrow> ('w, protocol_error, unit) io"
  where
  "dht_add_role rc cp key role =
     io_bind (read_roles rc cp key) (\<lambda>roles.
     if list_ex (\<lambda>r. rd_id r = rd_id role) roles
     then throw (DhtError (''role with id '' @ show_nat (unat (rd_id role)) @ '' already exists''))
     else set_value rc key 3 (encode_roles cp (roles @ [role])))"

definition dht_remove_role ::
  "('w, 'k, 'p) routing_context \<Rightarrow> community_struct capnp \<Rightarrow> string \<Rightarrow> u32 \<Rightarrow> ('w, protocol_error, unit) io" where
  "dht_remove_role rc cp key role_id =
     io_bind (read_roles rc cp key) (\<lambda>roles.
     let rest = filter (\<lambda>r. rd_id r \<noteq> role_id) roles
     in if length rest = length roles then throw (DhtError (''role '' @ show_nat (unat role_id) @ '' not found''))
        else set_value rc key 3 (encode_roles cp rest))"

definition dht_update_role ::
  "('w, 'k, 'p) routing_context \<Rightarrow> community_struct capnp \<Rightarrow> string \<Rightarrow> role_definition \<Rightarrow> ('w, protocol_error, unit) io"
  where
  "dht_update_role rc cp key role =
     io_bind (read_roles rc cp key) (\<lambda>roles.
     if \<not> list_ex (\<lambda>r. rd_id r = rd_id role) roles
     then throw (DhtError (''role '' @ show_nat (unat (rd_id role)) @ '' not found''))
     else set_value rc key 3 (encode_roles cp (update_first (\<lambda>r. rd_id r = rd_id role) (\<lambda>_. role) roles)))"

section \<open>Changes of a community record\<close>

definition community_with_record :: "('w, 'p, 'r) client \<Rightarrow> string \<Rightarrow> client_community option" where
  "community_with_record c key =
     List.find (\<lambda>cc. cc_dht_record_key cc = Some key) (map snd (c_communities c))"

text \<open>\<open>mgr.get_value(key, i).await.ok().flatten()\<close> with a manager, that is while attached.\<close>

definition reread ::
  "('w, 'k, 'p, 'r) platform \<Rightarrow> bool \<Rightarrow> string \<Rightarrow> u32 \<Rightarrow> ('w, 'p, 'r, bytes option) act" where
  "reread pf online key subkey =
     (if online
      then io_bind (result (protocol (get_value (pf_rc pf) key subkey)))
             (\<lambda>r. ok (case r of Inr v \<Rightarrow> v | Inl e \<Rightarrow> None))
      else ok None)"

definition apply_metadata :: "json_value \<Rightarrow> client_community \<Rightarrow> client_community" where
  "apply_metadata v cc = cc\<lparr>
     cc_name := (case Option.bind (json_field ''name'' v) json_string of Some n \<Rightarrow> n | None \<Rightarrow> cc_name cc),
     cc_description := (case Option.bind (json_field ''description'' v) json_string of
       Some d \<Rightarrow> Some d | None \<Rightarrow> cc_description cc)\<rparr>"

definition handle_community_metadata_change ::
  "('w, 'k, 'p, 'r) platform \<Rightarrow> bool \<Rightarrow> string \<Rightarrow> string \<Rightarrow> bytes \<Rightarrow> ('w, 'p, 'r, unit) act" where
  "handle_community_metadata_change pf online cid key v =
     io_bind (if v \<noteq> [] then ok (Some v) else reread pf online key 0) (\<lambda>data.
     case Option.bind data (pf_parse_json pf) of
       None \<Rightarrow> ok ()
     | Some metadata \<Rightarrow>
         io_bind (edit_community cid (apply_metadata metadata)) (\<lambda>_.
         io_bind (gets (\<lambda>c. (community_of c cid, owner_of c))) (\<lambda>(community, owner).
         case community of
           None \<Rightarrow> ok ()
         | Some cc \<Rightarrow> ignore (execute pf [] (update_community_row owner cid
             (\<lambda>r. r\<lparr>kc_name := cc_name cc, kc_description := cc_description cc\<rparr>))))))"

text \<open>The list is replaced only when the value is JSON of one of the two forms.\<close>

definition channel_items :: "json_value \<Rightarrow> json_value list option" where
  "channel_items v = (case v of JObject kvs \<Rightarrow> Option.bind (map_of kvs ''channels'') json_items | _ \<Rightarrow> json_items v)"

definition handle_community_channel_list_change ::
  "('w, 'k, 'p, 'r) platform \<Rightarrow> bool \<Rightarrow> string \<Rightarrow> string \<Rightarrow> ('w, 'p, 'r, unit) act" where
  "handle_community_channel_list_change pf online cid key =
     io_bind (reread pf online key 1) (\<lambda>data.
     case Option.bind (Option.bind data (pf_parse_json pf)) channel_items of
       None \<Rightarrow> ok ()
     | Some items \<Rightarrow>
         (let channels = List.map_filter parse_channel items
          in
          io_bind (edit_community cid (\<lambda>cc. cc\<lparr>cc_channels := channels\<rparr>)) (\<lambda>_.
          io_bind (gets owner_of) (\<lambda>owner.
          ignore (io_bind (execute pf [] (delete_community_channels owner cid)) (\<lambda>_.
            for_each (\<lambda>ch. execute pf [] (insert_ignore_community_channel (channel_row_of owner cid ch))) channels))))))"

definition member_items :: "json_value \<Rightarrow> json_value list" where
  "member_items v =
     (case v of
        JObject kvs \<Rightarrow> (case Option.bind (map_of kvs ''members'') json_items of None \<Rightarrow> [] | Some ms \<Rightarrow> ms)
      | _ \<Rightarrow> (case json_items v of None \<Rightarrow> [] | Some ms \<Rightarrow> ms))"

definition json_i64 :: "json_value \<Rightarrow> int option" where
  "json_i64 v = (case v of JInteger i \<Rightarrow> if - i64_max - 1 \<le> i \<and> i \<le> i64_max then Some i else None | _ \<Rightarrow> None)"

text \<open>The row replaces an old one, and with it a timeout that was noted there.\<close>

definition member_row_of ::
  "('w, 'k, 'p, 'r) platform \<Rightarrow> string \<Rightarrow> string \<Rightarrow> int \<Rightarrow> json_value \<Rightarrow> community_member_row option" where
  "member_row_of pf owner cid now v =
     map_option (\<lambda>pk. \<lparr>km_owner = owner, km_community_id = cid, km_pseudonym_key = pk,
       km_display_name = Some (case Option.bind (json_field ''displayName'' v) json_string of
         Some n \<Rightarrow> n | None \<Rightarrow> pk),
       km_role_ids = (case json_field ''roleIds'' v of
         None \<Rightarrow> ''[0,1]'' | Some ids \<Rightarrow> bytes_as_string (iv_show_json (pf_invite pf) ids)),
       km_timeout_until = None,
       km_joined_at = (case Option.bind (json_field ''joinedAt'' v) json_i64 of Some t \<Rightarrow> t | None \<Rightarrow> now)\<rparr>)
     (Option.bind (json_field ''pseudonymKey'' v) json_string)"

definition handle_community_member_list_change ::
  "('w, 'k, 'p, 'r) platform \<Rightarrow> bool \<Rightarrow> string \<Rightarrow> string \<Rightarrow> ('w, 'p, 'r, unit) act" where
  "handle_community_member_list_change pf online cid key =
     io_bind (reread pf online key 2) (\<lambda>data.
     case Option.bind data (pf_parse_json pf) of
       None \<Rightarrow> ok ()
     | Some v \<Rightarrow>
         io_bind (gets (\<lambda>c. (owner_of c, millis_i64 c))) (\<lambda>(owner, now).
         ignore (for_each (\<lambda>m. case member_row_of pf owner cid now m of
             None \<Rightarrow> ok ()
           | Some r \<Rightarrow> execute pf [] (replace_community_member r)) (member_items v))))"

definition role_dto_of :: "role_definition \<Rightarrow> role_dto" where
  "role_dto_of r = \<lparr>rdto_id = rd_id r, rdto_name = rd_name r, rdto_color = rd_color r,
     rdto_permissions = rd_permissions r, rdto_position = rd_position r, rdto_hoist = rd_hoist r,
     rdto_mentionable = rd_mentionable r\<rparr>"

definition handle_community_roles_change ::
  "('w, 'k, 'p, 'r) platform \<Rightarrow> bool \<Rightarrow> string \<Rightarrow> string \<Rightarrow> ('w, 'p, 'r, unit) act" where
  "handle_community_roles_change pf online cid key =
     (if \<not> online then ok ()
      else
        io_bind (result (protocol (read_roles (pf_rc pf) (pf_community pf) key))) (\<lambda>r.
        case r of
          Inl e \<Rightarrow> ok ()
        | Inr roles \<Rightarrow> handle_broadcast_roles_changed pf cid (map role_dto_of roles)))"

definition handle_community_mek_change ::
  "('w, 'k, 'p, 'r) platform \<Rightarrow> string \<Rightarrow> ('w, 'p, 'r, unit) act" where
  "handle_community_mek_change pf cid = fetch_mek_from_server pf cid"

definition handle_community_route_change ::
  "('w, 'k, 'p, 'r) platform \<Rightarrow> bool \<Rightarrow> string \<Rightarrow> string \<Rightarrow> ('w, 'p, 'r, unit) act" where
  "handle_community_route_change pf online cid key =
     io_bind (reread pf online key 6) (\<lambda>blob.
     case blob of None \<Rightarrow> ok () | Some b \<Rightarrow> learn_server_route pf cid b)"

definition handle_community_subkey ::
  "('w, 'k, 'p, 'r) platform \<Rightarrow> bool \<Rightarrow> string \<Rightarrow> string \<Rightarrow> bytes \<Rightarrow> u32 \<Rightarrow> ('w, 'p, 'r, unit) act" where
  "handle_community_subkey pf online cid key v subkey =
     (if subkey = 0 then handle_community_metadata_change pf online cid key v
      else if subkey = 1 then handle_community_channel_list_change pf online cid key
      else if subkey = 2 then handle_community_member_list_change pf online cid key
      else if subkey = 3 then handle_community_roles_change pf online cid key
      else if subkey = 5 then handle_community_mek_change pf cid
      else if subkey = 6 then handle_community_route_change pf online cid key
      else ok ())"

definition handle_community_value_change ::
  "('w, 'k, 'p, 'r) platform \<Rightarrow> string \<Rightarrow> u32 list \<Rightarrow> bytes \<Rightarrow> ('w, 'p, 'r, unit) act" where
  "handle_community_value_change pf key subkeys v =
     io_bind (gets (\<lambda>c. (community_with_record c key, is_online_node (c_node c)))) (\<lambda>(community, online).
     case community of
       None \<Rightarrow> ok ()
     | Some cc \<Rightarrow>
         io_bind (for_each (handle_community_subkey pf online (cc_id cc) key v) subkeys) (\<lambda>_.
         emit_event (SystemAlert ''Community Update'' (''Community '' @ cc_id cc @ '' has been updated''))))"

text \<open>A changed record is that of a friend, else that of a community.\<close>

definition presence_value_change ::
  "('w, 'k, 'p, 'r) platform \<Rightarrow> string \<Rightarrow> u32 list \<Rightarrow> bytes \<Rightarrow> ('w, 'p, 'r, unit) act" where
  "presence_value_change pf key subkeys v =
     io_bind (gets (\<lambda>c. Option.bind (c_dht c) (\<lambda>h. friend_for_dht_key h key))) (\<lambda>friend_key.
     case friend_key of
       None \<Rightarrow> handle_community_value_change pf key subkeys v
     | Some fk \<Rightarrow> for_each (handle_friend_subkey pf fk v) subkeys)"

section \<open>Events of Veilid\<close>

definition try_rewatch_friend :: "('w, 'k, 'p, 'r) platform \<Rightarrow> string \<Rightarrow> ('w, 'p, 'r, unit) act" where
  "try_rewatch_friend pf key =
     io_bind (gets (\<lambda>c. Option.bind (c_dht c) (\<lambda>h. friend_for_dht_key h key))) (\<lambda>friend_key.
     case friend_key of
       None \<Rightarrow> ok ()
     | Some fk \<Rightarrow>
         io_bind (result (watch_friend pf fk key)) (\<lambda>watched.
         case watched of
           Inr _ \<Rightarrow> ok ()
         | Inl e \<Rightarrow> modify (\<lambda>c. c\<lparr>c_unwatched := insert fk (c_unwatched c)\<rparr>)))"

text \<open>A notice that a record changed: its key, the subkeys, the notices left, and maybe the value.\<close>

record value_change =
  vc_key :: string
  vc_subkeys :: "u32 list"
  vc_count :: u32
  vc_value :: "bytes option"

definition changed_value ::
  "('w, 'k, 'p, 'r) platform \<Rightarrow> value_change \<Rightarrow> u32 \<Rightarrow> ('w, 'p, 'r, bytes option) act" where
  "changed_value pf change subkey =
     (case vc_value change of
        Some v \<Rightarrow> ok (Some v)
      | None \<Rightarrow>
          io_bind (gets c_node) (\<lambda>node.
          if node = None then ok None
          else
            io_bind (result (io_bind (parse_key pf (vc_key change)) (\<lambda>k. veilid (rc_get (pf_rc pf) k subkey True)))) (\<lambda>r.
            ok (case r of Inr v \<Rightarrow> v | Inl e \<Rightarrow> None))))"

definition handle_value_change :: "('w, 'k, 'p, 'r) platform \<Rightarrow> value_change \<Rightarrow> ('w, 'p, 'r, unit) act" where
  "handle_value_change pf change =
     (if vc_subkeys change = [] then try_rewatch_friend pf (vc_key change)
      else
        io_bind (when_act (vc_count change = 0) (try_rewatch_friend pf (vc_key change))) (\<lambda>_.
        for_each (\<lambda>subkey.
          io_bind (changed_value pf change subkey) (\<lambda>v.
          case v of
            None \<Rightarrow> ok ()
          | Some b \<Rightarrow> presence_value_change pf (vc_key change) [subkey] b)) (vc_subkeys change)))"

definition invalidate_all_watches :: "('w, 'p, 'r, unit) act" where
  "invalidate_all_watches = modify (\<lambda>c. c\<lparr>c_unwatched := c_unwatched c \<union>
     set (map fs_public_key (filter (\<lambda>f. fs_dht_record_key f \<noteq> None) (map snd (c_friends c))))\<rparr>)"

definition emit_network_status :: "('w, 'p, 'r, unit) act" where
  "emit_network_status =
     io_bind (gets c_node) (\<lambda>node.
     emit_event (case node of
       Some nh \<Rightarrow> NetworkStatus (nh_attachment_state nh) (nh_is_attached nh) (nh_public_internet_ready nh)
         (nh_route_blob nh \<noteq> None)
     | None \<Rightarrow> NetworkStatus ''detached'' False False False))"

definition sync_friends_now :: "('w, 'k, 'p, 'r) platform \<Rightarrow> ('w, 'p, 'r, unit) act" where
  "sync_friends_now pf = io_bind (sync_friends pf {} True True) (\<lambda>_. ok ())"

definition handle_attachment ::
  "('w, 'k, 'p, 'r) platform \<Rightarrow> string \<Rightarrow> bool \<Rightarrow> bool \<Rightarrow> ('w, 'p, 'r, unit) act" where
  "handle_attachment pf state_text attached public_internet_ready =
     io_bind (gets (\<lambda>c. case c_node c of None \<Rightarrow> False | Some nh \<Rightarrow> nh_is_attached nh)) (\<lambda>was_attached.
     io_bind (modify (\<lambda>c. c\<lparr>c_node := map_option (\<lambda>nh. nh\<lparr>nh_attachment_state := state_text,
       nh_is_attached := attached, nh_public_internet_ready := public_internet_ready\<rparr>) (c_node c)\<rparr>)) (\<lambda>_.
     io_bind emit_network_status (\<lambda>_.
     io_bind (emit_event (SystemAlert ''Network''
       (''Veilid network '' @ (if attached then ''connected'' else ''disconnected'')))) (\<lambda>_.
     io_bind (gets c_identity) (\<lambda>identity.
     when_act (\<not> was_attached \<and> attached \<and> public_internet_ready \<and> identity \<noteq> None)
       (io_bind invalidate_all_watches (\<lambda>_. ignore (sync_friends_now pf))))))))"

subsection \<open>The own route\<close>

definition edit_routing :: "('r routing_manager \<Rightarrow> 'r routing_manager) \<Rightarrow> ('w, 'p, 'r, unit) act" where
  "edit_routing f = modify (\<lambda>c. c\<lparr>c_routing := map_option f (c_routing c)\<rparr>)"

definition forget_private_route :: "'r routing_manager \<Rightarrow> 'r routing_manager" where
  "forget_private_route rm = rm\<lparr>rm_route_id := None, rm_route_blob := None\<rparr>"

definition set_allocated_route :: "'r \<Rightarrow> bytes \<Rightarrow> 'r routing_manager \<Rightarrow> 'r routing_manager" where
  "set_allocated_route route_id blob rm = rm\<lparr>rm_route_id := Some route_id, rm_route_blob := Some blob\<rparr>"

text \<open>The id is taken out before Veilid is asked; the blob stays when Veilid refuses.\<close>

definition release_private_route :: "('w, 'k, 'p, 'r) platform \<Rightarrow> ('w, 'p, 'r, unit) act" where
  "release_private_route pf =
     io_bind (gets (\<lambda>c. Option.bind (c_routing c) rm_route_id)) (\<lambda>route_id.
     io_bind (edit_routing (\<lambda>rm. rm\<lparr>rm_route_id := None\<rparr>)) (\<lambda>_.
     io_bind (case route_id of
         None \<Rightarrow> ok ()
       | Some r \<Rightarrow> describe ''routing error: release_private_route: '' (veilid (pf_release_route pf r))) (\<lambda>_.
     edit_routing (\<lambda>rm. rm\<lparr>rm_route_blob := None\<rparr>))))"

text \<open>What follows an allocation: the route is noted, shown and published to profile and mailbox.\<close>

definition publish_route ::
  "('w, 'k, 'p, 'r) platform \<Rightarrow> 'r \<Rightarrow> bytes \<Rightarrow> ('w, 'p, 'r, unit) act" where
  "publish_route pf route_id blob =
     io_bind (edit_routing (set_allocated_route route_id blob)) (\<lambda>_.
     io_bind (modify (\<lambda>c. c\<lparr>c_node := map_option (\<lambda>nh. nh\<lparr>nh_route_blob := Some blob\<rparr>) (c_node c)\<rparr>)) (\<lambda>_.
     io_bind emit_network_status (\<lambda>_.
     io_bind (ignore (push_profile_update pf 6 blob)) (\<lambda>_.
     io_bind (gets (\<lambda>c. Option.bind (c_node c) nh_mailbox_dht_key)) (\<lambda>mailbox_key.
     case mailbox_key of
       None \<Rightarrow> ok ()
     | Some k \<Rightarrow> ignore (protocol (update_mailbox_route (pf_rc pf) k blob)))))))"

definition reallocate_private_route :: "('w, 'k, 'p, 'r) platform \<Rightarrow> ('w, 'p, 'r, unit) act" where
  "reallocate_private_route pf =
     io_bind (gets c_node) (\<lambda>node.
     if node = None then ok ()
     else
       io_bind (result (veilid (pf_new_route pf))) (\<lambda>allocated.
       case allocated of
         Inl e \<Rightarrow> ok ()
       | Inr (route_id, blob) \<Rightarrow>
           io_bind (gets c_routing) (\<lambda>routing.
           io_bind (when_act (routing \<noteq> None) (ignore (release_private_route pf))) (\<lambda>_.
           publish_route pf route_id blob))))"

definition allocate_fresh_private_route :: "('w, 'k, 'p, 'r) platform \<Rightarrow> ('w, 'p, 'r, unit) act" where
  "allocate_fresh_private_route pf =
     io_bind (gets c_node) (\<lambda>node.
     if node = None then ok ()
     else
       io_bind (result (veilid (pf_new_route pf))) (\<lambda>allocated.
       case allocated of
         Inl e \<Rightarrow> ok ()
       | Inr (route_id, blob) \<Rightarrow> publish_route pf route_id blob))"

definition handle_node_route_change ::
  "('w, 'k, 'p, 'r) platform \<Rightarrow> 'r list \<Rightarrow> 'r list \<Rightarrow> ('w, 'p, 'r, unit) act" where
  "handle_node_route_change pf dead_routes dead_remote_routes =
     io_bind (gets (\<lambda>c. case Option.bind (c_routing c) rm_route_id of
       None \<Rightarrow> False | Some r \<Rightarrow> r \<in> set dead_routes)) (\<lambda>our_route_died.
     io_bind (when_act our_route_died
       (io_bind (edit_routing forget_private_route) (\<lambda>_. allocate_fresh_private_route pf))) (\<lambda>_.
     when_act (dead_remote_routes \<noteq> []) (edit_manager (invalidate_dead_routes dead_remote_routes))))"

text \<open>One tick of the loop that renews the route every 120 seconds.\<close>

definition route_refresh_tick :: "('w, 'k, 'p, 'r) platform \<Rightarrow> ('w, 'p, 'r, unit) act" where
  "route_refresh_tick pf =
     io_bind (gets c_node) (\<lambda>node.
     when_act (case node of None \<Rightarrow> False | Some nh \<Rightarrow> nh_is_attached nh \<and> nh_route_blob nh \<noteq> None)
       (reallocate_private_route pf))"

subsection \<open>Dispatch\<close>

datatype 'r veilid_update =
    AppMessage bytes
  | AppCall bytes
  | ValueChange value_change
  | Attachment string bool bool
  | RouteChange "'r list" "'r list"

primrec handle_veilid_update ::
  "('w, 'k, 'p, 'r) platform \<Rightarrow> 'r veilid_update \<Rightarrow> ('w, 'p, 'r, unit) act" where
  "handle_veilid_update pf (AppMessage b) = handle_app_message pf b"
| "handle_veilid_update pf (AppCall b) = io_bind (handle_app_call pf b) (\<lambda>_. ok ())"
| "handle_veilid_update pf (ValueChange change) = handle_value_change pf change"
| "handle_veilid_update pf (Attachment state_text attached ready) = handle_attachment pf state_text attached ready"
| "handle_veilid_update pf (RouteChange dead dead_remote) = handle_node_route_change pf dead dead_remote"

section \<open>Polling\<close>

definition emit_friends_presence :: "('w, 'k, 'p, 'r) platform \<Rightarrow> ('w, 'p, 'r, unit) act" where
  "emit_friends_presence pf =
     io_bind (ignore (sync_friends_now pf)) (\<lambda>_.
     io_bind (gets (\<lambda>c. map (\<lambda>f. (fs_public_key f, fs_status f))
       (filter (\<lambda>f. fs_friendship_state f = Accepted) (map snd (c_friends c))))) (\<lambda>friends.
     for_each (\<lambda>(key, status). when_act (status \<noteq> Offline)
       (io_bind (emit_presence (FriendOnline key)) (\<lambda>_.
        emit_presence (StatusChanged key (status_name status) None)))) friends))"

definition sync_community_server_route ::
  "('w, 'k, 'p, 'r) platform \<Rightarrow> string \<Rightarrow> string \<Rightarrow> ('w, 'p, 'r, unit) act" where
  "sync_community_server_route pf cid key =
     io_bind (result (protocol (get_value (pf_rc pf) key 6))) (\<lambda>r.
     case r of
       Inr (Some blob) \<Rightarrow>
         io_bind (gets (\<lambda>c. case community_of c cid of
           None \<Rightarrow> False | Some cc \<Rightarrow> cc_server_route_blob cc \<noteq> Some blob)) (\<lambda>needs_update.
         when_act needs_update
           (io_bind (edit_community cid (\<lambda>cc. cc\<lparr>cc_server_route_blob := Some blob\<rparr>)) (\<lambda>_.
            io_bind (gets owner_of) (\<lambda>owner.
            ignore (execute pf ''sync persist server_route_blob: ''
              (update_community_row owner cid (\<lambda>r. r\<lparr>kc_server_route_blob := Some blob\<rparr>)))))))
     | _ \<Rightarrow> ok ())"

definition sync_community ::
  "('w, 'k, 'p, 'r) platform \<Rightarrow> string \<Rightarrow> string \<Rightarrow> ('w, 'p, 'r, unit) act" where
  "sync_community pf cid key =
     io_bind (result (protocol (open_record (pf_rc pf) key))) (\<lambda>opened.
     case opened of
       Inl e \<Rightarrow> ok ()
     | Inr _ \<Rightarrow>
         io_bind (result (protocol (get_value (pf_rc pf) key 0))) (\<lambda>metadata.
         io_bind (case metadata of
             Inr (Some data) \<Rightarrow>
               (case pf_parse_json pf data of
                  None \<Rightarrow> ok ()
                | Some v \<Rightarrow> edit_community cid (apply_metadata v))
           | _ \<Rightarrow> ok ()) (\<lambda>_.
         io_bind (result (protocol (get_value (pf_rc pf) key 1))) (\<lambda>listed.
         io_bind (case listed of
             Inr (Some data) \<Rightarrow>
               when_act (parse_channel_list pf data \<noteq> [])
                 (edit_community cid (\<lambda>cc. cc\<lparr>cc_channels := parse_channel_list pf data\<rparr>))
           | _ \<Rightarrow> ok ()) (\<lambda>_.
         sync_community_server_route pf cid key)))))"

definition communities_with_dht :: "('w, 'p, 'r) client \<Rightarrow> (string \<times> string) list" where
  "communities_with_dht c = List.map_filter
     (\<lambda>cc. map_option (\<lambda>k. (cc_id cc, k)) (cc_dht_record_key cc)) (map snd (c_communities c))"

definition sync_communities :: "('w, 'k, 'p, 'r) platform \<Rightarrow> ('w, 'p, 'r, unit) act" where
  "sync_communities pf =
     io_bind (gets id) (\<lambda>c.
     when_act (is_online_node (c_node c))
       (for_each (\<lambda>(cid, key). sync_community pf cid key) (communities_with_dht c)))"

text \<open>
  One tick of the sync loop with the number of ticks before it and the records watched; a part
  that fails does not keep the following ones from running.
\<close>

definition sync_tick ::
  "('w, 'k, 'p, 'r) platform \<Rightarrow> u32 \<Rightarrow> string set \<Rightarrow> ('w, 'p, 'r, string set) act" where
  "sync_tick pf ticks watched =
     (let tick_count = ticks + 1
      in
      io_bind (result (sync_friends pf watched (ticks = 0) (tick_count mod 10 = 0))) (\<lambda>synced.
      io_bind (ignore (sync_conversations pf)) (\<lambda>_.
      io_bind (ignore (sync_communities pf)) (\<lambda>_.
      io_bind (ignore (retry_pending_messages pf)) (\<lambda>_.
      io_bind (when_act (tick_count mod 6 = 0) (expire_stale_requests pf)) (\<lambda>_.
      ok (case synced of Inr w \<Rightarrow> w | Inl e \<Rightarrow> watched)))))))"

end
