(* ===== verification/ChannelDelivery.thy ===== *)
theory ChannelDelivery
  imports NodeEvents Messaging SampleClient
begin

text \<open>
  A channel message from its sender over the server to a member: the sender seals it with the key
  of the community, the server passes the sealed text on, and a member opens it with the same key.
  A member that still has an older key asks the server for the current one first.
\<close>

section \<open>Sealing\<close>

lemma mek_encrypt_opens:
  assumes "crypto_ok (pf_crypto pf)" and "fst (mek_encrypt pf mek p a) = Inr ct"
  shows "mek_decrypt (pf_crypto pf) mek ct = Inr p"
proof -
  let ?n = "map (\<lambda>i. c_random a (c_drawn a + i)) [0..<12]"
  obtain c where c: "aes_seal (pf_crypto pf) (mek_key mek) ?n p = Inr c" "aes_open (pf_crypto pf) (mek_key mek) ?n c = Inr p"
    using assms(1) unfolding crypto_ok_def by blast
  have l: "length ?n = 12" by simp
  have "ct = ?n @ c"
    using assms(2) c(1) by (simp add: mek_encrypt_def io_bind_def draw_def ok_def del: upt_rec_numeral)
  then show ?thesis using c(2) l
    by (simp add: mek_decrypt_def del: upt_rec_numeral)
qed

lemma received_mek_payload:
  "length (mek_key mek) = 32 \<Longrightarrow> received_mek (mek_payload mek) (mek_generation mek) = Some mek"
  by (simp add: received_mek_def mek_payload_def)

section \<open>A notice of a message\<close>

definition message_row_of :: "('w, 'p, 'r) client \<Rightarrow> string \<Rightarrow> string \<Rightarrow> string \<Rightarrow> u64 \<Rightarrow> u64 \<Rightarrow> dm_row" where
  "message_row_of b ch s body gen ts =
     \<lparr>xm_id = ct_last_message (c_db b) + 1, xm_owner = owner_of b, xm_conversation_id = ch,
      xm_conversation_type = ''channel'', xm_sender_key = s, xm_body = body, xm_timestamp = sint ts,
      xm_is_read = False, xm_mek_generation = Some (sint gen)\<rparr>"

text \<open>
  A client keeps one message per sender, channel and second. The message was shown, and stored
  unread unless there was one already.
\<close>

definition has_message :: "string \<Rightarrow> string \<Rightarrow> u64 \<Rightarrow> ('w, 'p, 'r) client \<Rightarrow> bool" where
  "has_message ch s ts b \<longleftrightarrow> row_exists dm_key (owner_of b, ch, ''channel'', s, sint ts) (ct_messages (c_db b))"

definition stored_and_shown ::
  "string \<Rightarrow> string \<Rightarrow> string \<Rightarrow> u64 \<Rightarrow> u64 \<Rightarrow> ('w, 'p, 'r) client \<Rightarrow> ('w, 'p, 'r) client \<Rightarrow> bool" where
  "stored_and_shown ch s body gen ts b b' \<longleftrightarrow>
     ct_messages (c_db b') = ct_messages (c_db b) @ (if has_message ch s ts b then [] else [message_row_of b ch s body gen ts]) \<and>
     c_events b' = c_events b @ [ChatEvent (EvMessageReceived s body ts ch)]"

text \<open>A client whose database works and knows the identity in use.\<close>

definition storing :: "('w, 'p, 'r) client \<Rightarrow> bool" where
  "storing b \<longleftrightarrow> c_faults b = [] \<and> identity_exists (owner_of b) (c_db b)"

lemma stored:
  assumes "storing b"
  shows "outcome (store_broadcast_message pf ch s body gen ts) (\<lambda>_. stored_and_shown ch s body gen ts b) E b"
  using assms
  by (simp add: store_broadcast_message_def wp outcome_execute_clean storing_def has_message_def insert_message_row_def Let_def
      row_insert_def dm_key_def client_steps stored_and_shown_def message_row_of_def)

definition opens :: "crypto \<Rightarrow> media_encryption_key \<Rightarrow> bytes \<Rightarrow> string \<Rightarrow> bool" where
  "opens cr mek ct body \<longleftrightarrow> mek_decrypt cr mek ct = Inr (as_bytes body) \<and> rust_string body"

lemma decrypts:
  assumes "opens cr mek ct body" and "map_of cache cid = Some mek"
  shows "decrypt_with_cached_mek cr cache cid ct (mek_generation mek) = MekDecrypted body"
  using assms by (simp add: decrypt_with_cached_mek_def opens_def utf8_or_empty_def rust_string_def)

lemma notice_received:
  assumes "storing b" and "pseudonym_in b cid \<noteq> Some s"
    and "opens (pf_crypto pf) mek ct body" and "map_of (c_mek_cache b) cid = Some mek"
  shows "outcome (handle_broadcast_new_message pf cid ch s ct (mek_generation mek) ts)
    (\<lambda>_. stored_and_shown ch s body (mek_generation mek) ts b) E b"
  using assms(2,4) decrypts [OF assms(3,4)]
  by (simp add: handle_broadcast_new_message_def Let_def wp stored [OF assms(1)])

text \<open>What arrives over Veilid is such a notice.\<close>

definition carries :: "('w, 'k, 'p, 'r) platform \<Rightarrow> bytes \<Rightarrow> community_broadcast \<Rightarrow> bool" where
  "carries pf message b \<longleftrightarrow> from_json (pf_broadcast_json pf) message = Inr b \<and> (message = [] \<or> hd message \<noteq> 0x56)"

lemma handle_carried: "carries pf message b \<Longrightarrow> handle_app_message pf message = handle_community_broadcast pf b"
  by (auto simp: handle_app_message_def carries_def)

section \<open>Fetching the key\<close>

lemma import_server_route_works:
  assumes "\<And>w. \<exists>r w'. pf_import pf blob w = (Inr r, w')" and "\<And>r c'. offstage c c' \<Longrightarrow> Q (Inr r) c'"
  shows "outcome (import_server_route pf blob) Q E c"
proof (cases "c_dht c")
  case None
  obtain r w' where "pf_import pf blob (c_net c) = (Inr r, w')" using assms(1) by blast
  with None show ?thesis
    by (simp add: import_server_route_def wp, simp add: outcome_def)
      (rule assms(2), simp add: offstage_def background_def foreground_def)
next
  case (Some h)
  have s: "\<exists>r' dm' w''. get_or_import_route (pf_import pf) n blob dm w = (Inr r', dm', w'')" for n dm w
    using assms(1) [of w] by (auto simp: get_or_import_route_def Let_def split: option.split)
  show ?thesis
    unfolding import_server_route_def wp
  proof (simp add: Some, rule outcome_import_peer_route [OF Some])
    fix r dm w
    assume "get_or_import_route (pf_import pf) (c_instant c) blob (dh_manager h) (c_net c) = (r, dm, w)"
    then obtain r' where "r = Inr r'" using s [of "c_instant c" "dh_manager h" "c_net c"] by auto
    then show "Q (case r of Inl e \<Rightarrow> Inl (show_protocol_error e) | Inr i \<Rightarrow> Inr i)
        (c\<lparr>c_dht := Some (h\<lparr>dh_manager := dm\<rparr>), c_net := w\<rparr>)"
      by (simp, intro assms(2)) (simp add: offstage_def background_def foreground_def Some)
  qed
qed

text \<open>
  Veilid delivers requests to the server behind a route blob, which answers \<open>question\<close> with \<open>response\<close>.
\<close>

definition server_answers ::
  "('w, 'k, 'p, 'r) platform \<Rightarrow> bytes \<Rightarrow> community_request \<Rightarrow> community_response \<Rightarrow> bool" where
  "server_answers pf blob question response \<longleftrightarrow>
     (\<forall>w. \<exists>r w'. pf_import pf blob w = (Inr r, w')) \<and>
     (\<exists>request answer. to_json (pf_request_json pf) question = Inr request \<and>
        from_json (pf_response_json pf) answer = Inr response \<and>
        (\<forall>r w e. e_payload e = request \<longrightarrow>
           (\<exists>w'. pf_app_call pf r (encode_envelope (pf_envelope pf) e) w = (Inr answer, w'))))"

text \<open>The key is in the unlocked key store and in its snapshot on the disk.\<close>

definition keeps_key :: "stronghold \<Rightarrow> string \<Rightarrow> media_encryption_key \<Rightarrow> (string \<times> bytes) list \<Rightarrow> vault \<Rightarrow> bool" where
  "keeps_key sh cid mek files v \<longleftrightarrow> map_of (vt_store v) (mek_vault_key cid) = Some (mek_payload mek) \<and>
     map_of files (vt_public_key v) = Some (sh_commit sh (vt_key v) (vt_store v))"

text \<open>The client has the key in its cache and, if there is a key store, kept there; its generation is noted.\<close>

definition has_key :: "stronghold \<Rightarrow> string \<Rightarrow> media_encryption_key \<Rightarrow> ('w, 'p, 'r) client \<Rightarrow> bool" where
  "has_key sh cid mek c \<longleftrightarrow> map_of (c_mek_cache c) cid = Some mek \<and>
     (\<forall>cc. community_of c cid = Some cc \<longrightarrow> cc_mek_generation cc = mek_generation mek) \<and>
     (\<forall>v. c_vault c = Some v \<longrightarrow> keeps_key sh cid mek (c_snapshots c) v) \<and>
     (\<forall>r\<in>set (ct_communities (c_db c)). community_pk r = (owner_of c, cid) \<longrightarrow>
        kc_mek_generation r = i64_or_max (mek_generation mek))"

definition chat_kept :: "('w, 'p, 'r) client \<Rightarrow> ('w, 'p, 'r) client \<Rightarrow> bool" where
  "chat_kept c c' \<longleftrightarrow> c_faults c' = c_faults c \<and> c_identity c' = c_identity c \<and> c_events c' = c_events c \<and>
     ct_messages (c_db c') = ct_messages (c_db c) \<and> ct_last_message (c_db c') = ct_last_message (c_db c) \<and>
     ct_identity (c_db c') = ct_identity (c_db c)"

lemma key_kept:
  assumes "c_faults c = []"
  shows "outcome (keep_mek pf cid payload) (\<lambda>_ c'. c' = commit_vault (pf_stronghold pf) (c\<lparr>c_vault :=
    map_option (\<lambda>v. v\<lparr>vt_store := AList.update (mek_vault_key cid) payload (vt_store v)\<rparr>) (c_vault c)\<rparr>)) E c"
  using assms
  by (cases "c_vault c")
    (simp_all add: keep_mek_def save_vault_def commit_vault_def modify_def wp outcome_def vault_access_def
      pop_client_fault_def)


text \<open>A client that knows the route to the server of a community and is attached and unlocked.\<close>

definition reaches_server :: "string \<Rightarrow> bytes \<Rightarrow> ('w, 'p, 'r) client \<Rightarrow> bool" where
  "reaches_server cid blob c \<longleftrightarrow> Option.bind (community_of c cid) cc_server_route_blob = Some blob \<and>
     c_identity_secret c \<noteq> None \<and> is_online_node (c_node c)"

lemma chat_kept_offstage: "offstage c c' \<Longrightarrow> chat_kept c c'"
  by (simp add: offstage_def chat_kept_def background_parts)

lemma update_community_clean:
  "c_faults c = [] \<Longrightarrow> outcome (ignore (execute pf w (update_community_row owner cid f))) Q E c =
     Q () (c\<lparr>c_db := (c_db c)\<lparr>ct_communities := row_update (\<lambda>r. community_pk r = (owner, cid)) f (ct_communities (c_db c))\<rparr>\<rparr>)"
  by (simp add: wp outcome_execute_clean update_community_row_def)

text \<open>The state after the key of the cache was written to the key store and its generation noted.\<close>

definition noting_key ::
  "stronghold \<Rightarrow> string \<Rightarrow> media_encryption_key \<Rightarrow> ('w, 'p, 'r) client \<Rightarrow> ('w, 'p, 'r) client" where
  "noting_key sh cid mek c = (commit_vault sh (c\<lparr>c_vault :=
       map_option (\<lambda>v. v\<lparr>vt_store := AList.update (mek_vault_key cid) (mek_payload mek) (vt_store v)\<rparr>) (c_vault c)\<rparr>))\<lparr>
     c_communities := AList.map_entry cid (\<lambda>cc. cc\<lparr>cc_mek_generation := mek_generation mek\<rparr>) (c_communities c),
     c_db := (c_db c)\<lparr>ct_communities := row_update (\<lambda>r. community_pk r = (owner_of c, cid))
       (\<lambda>r. r\<lparr>kc_mek_generation := i64_or_max (mek_generation mek)\<rparr>) (ct_communities (c_db c))\<rparr>\<rparr>"

lemma commit_vault_frame [simp]:
  "c_faults (commit_vault sh c) = c_faults c" "c_identity (commit_vault sh c) = c_identity c"
  "c_events (commit_vault sh c) = c_events c" "c_db (commit_vault sh c) = c_db c"
  "c_communities (commit_vault sh c) = c_communities c" "c_mek_cache (commit_vault sh c) = c_mek_cache c"
  "c_vault (commit_vault sh c) = c_vault c"
  "owner_of (commit_vault sh c) = owner_of c"
  by (simp_all add: owner_of_def commit_vault_def split: option.split)

lemma owner_of_updates [simp]:
  "owner_of (c\<lparr>c_communities := X\<rparr>) = owner_of c" "owner_of (c\<lparr>c_vault := V\<rparr>) = owner_of c"
  by (simp_all add: owner_of_def)

lemma commit_vault_late:
  "commit_vault sh (c\<lparr>c_communities := X, c_vault := V\<rparr>)\<lparr>c_db := D\<rparr> =
     (commit_vault sh (c\<lparr>c_vault := V\<rparr>))\<lparr>c_communities := X, c_db := D\<rparr>"
  by (cases c) (simp add: commit_vault_def split: option.split)

lemma persist_mek_clean:
  assumes "c_faults c = []" and "Q () (noting_key (pf_stronghold pf) cid mek c)"
  shows "outcome (persist_mek pf cid (mek_generation mek) (mek_payload mek)) Q E c"
  unfolding persist_mek_def outcome_io_bind edit_community_def outcome_modify
  by (rule outcome_mono [OF key_kept])
    (use assms in \<open>simp_all add: update_community_clean outcome_gets noting_key_def commit_vault_late\<close>)

lemma noting_key_kept:
  "chat_kept c (noting_key sh cid mek c)" "pseudonym_in (noting_key sh cid mek c) = pseudonym_in c"
proof -
  show "chat_kept c (noting_key sh cid mek c)" by (simp add: chat_kept_def noting_key_def)
  have "map_of (c_communities (noting_key sh cid mek c)) j = (if j = cid then map_option (\<lambda>cc.
      cc\<lparr>cc_mek_generation := mek_generation mek\<rparr>) (map_of (c_communities c) j) else map_of (c_communities c) j)" for j
    by (simp add: noting_key_def map_of_map_entry split: option.split)
  then show "pseudonym_in (noting_key sh cid mek c) = pseudonym_in c"
    by (simp add: fun_eq_iff pseudonym_in_def community_of_def Option.bind_map_option comp_def)
qed

lemma noting_key_has:
  assumes "map_of (c_mek_cache c) cid = Some mek"
  shows "has_key sh cid mek (noting_key sh cid mek c)"
  unfolding has_key_def
proof (intro conjI allI ballI impI)
  show "map_of (c_mek_cache (noting_key sh cid mek c)) cid = Some mek" using assms by (simp add: noting_key_def)
  show "cc_mek_generation cc = mek_generation mek" if "community_of (noting_key sh cid mek c) cid = Some cc" for cc
    using that by (auto simp: noting_key_def community_of_def map_of_map_entry split: option.splits)
  show "keeps_key sh cid mek (c_snapshots (noting_key sh cid mek c)) v" if "c_vault (noting_key sh cid mek c) = Some v" for v
    using that by (cases "c_vault c") (auto simp: noting_key_def keeps_key_def commit_vault_def AList.update_conv)
  have owner: "owner_of (noting_key sh cid mek c) = owner_of c" by (simp add: owner_of_def noting_key_def)
  show "kc_mek_generation r = i64_or_max (mek_generation mek)"
    if "r \<in> set (ct_communities (c_db (noting_key sh cid mek c)))"
      "community_pk r = (owner_of (noting_key sh cid mek c), cid)" for r
  proof -
    let ?f = "\<lambda>r. if community_pk r = (owner_of c, cid) then r\<lparr>kc_mek_generation := i64_or_max (mek_generation mek)\<rparr> else r"
    have "r \<in> ?f ` set (ct_communities (c_db c))"
      using that(1) by (simp add: noting_key_def row_update_def)
    then obtain r0 where "r = ?f r0" by (rule imageE)
    then show ?thesis using that(2) by (cases "community_pk r0 = (owner_of c, cid)") (simp_all add: owner)
  qed
qed

lemma chat_kept_trans: "\<lbrakk>chat_kept a b; chat_kept b c\<rbrakk> \<Longrightarrow> chat_kept a c"
  by (simp add: chat_kept_def)

lemma key_taken:
  fixes c :: "('w, 'p, 'r) client"
  assumes "c_faults c = []"
  shows "outcome (io_bind (cache_mek cid mek) (\<lambda>_. persist_mek pf cid (mek_generation mek) (mek_payload mek)))
    (\<lambda>_ c'. has_key (pf_stronghold pf) cid mek c' \<and> chat_kept c c' \<and> pseudonym_in c' = pseudonym_in c) E c"
proof -
  let ?c = "c\<lparr>c_mek_cache := AList.update cid mek (c_mek_cache c)\<rparr>"
  have "map_of (c_mek_cache ?c) cid = Some mek" by (simp add: AList.update_conv)
  moreover have "chat_kept c ?c" "pseudonym_in ?c = pseudonym_in c"
    by (simp_all add: chat_kept_def fun_eq_iff pseudonym_in_def community_of_def)
  ultimately have "has_key (pf_stronghold pf) cid mek (noting_key (pf_stronghold pf) cid mek ?c) \<and> chat_kept c (noting_key (pf_stronghold pf) cid mek ?c) \<and>
      pseudonym_in (noting_key (pf_stronghold pf) cid mek ?c) = pseudonym_in c"
    using noting_key_has [of ?c cid mek "pf_stronghold pf"] noting_key_kept [where c = ?c and cid = cid and mek = mek and sh = "pf_stronghold pf"] chat_kept_trans [of c ?c] by simp
  then show ?thesis
    unfolding cache_mek_def outcome_io_bind outcome_modify
    by (rule persist_mek_clean [rotated]) (simp add: assms)
qed

lemma key_fetched:
  fixes c :: "('w, 'p, 'r) client"
  assumes "reaches_server cid blob c" and "c_faults c = []" and "length (mek_key mek) = 32"
    and "server_answers pf blob RequestMEK (MEK (mek_payload mek) (mek_generation mek))"
  shows "outcome (fetch_mek_from_server pf cid)
    (\<lambda>_ c'. has_key (pf_stronghold pf) cid mek c' \<and> chat_kept c c' \<and> pseudonym_in c' = pseudonym_in c) (\<lambda>_ _. False) c"
proof -
  obtain secret where c: "Option.bind (community_of c cid) cc_server_route_blob = Some blob"
      "c_identity_secret c = Some secret" "is_online_node (c_node c)"
    using assms(1) by (auto simp: reaches_server_def)
  obtain request answer where imp: "\<And>w. \<exists>r w'. pf_import pf blob w = (Inr r, w')"
    and q: "to_json (pf_request_json pf) RequestMEK = Inr request"
    and a: "from_json (pf_response_json pf) answer = Inr (MEK (mek_payload mek) (mek_generation mek))"
    and call: "\<And>r w e. e_payload e = request \<Longrightarrow>
      \<exists>w'. pf_app_call pf r (encode_envelope (pf_envelope pf) e) w = (Inr answer, w')"
    using assms(4) unfolding server_answers_def by blast
  have answered: "outcome (io_bind (result (protocol (send_call pf r e))) f) Q E c'"
    if "e_payload e = request" "\<And>w. outcome (f (Inr answer)) Q E (c'\<lparr>c_net := w\<rparr>)" for r e f Q E and c' :: "('w, 'p, 'r) client"
    using call [OF that(1), of r "c_net c'"] that(2)
    by (auto simp: wp protocol_def send_call_def outcome_def [of "pf_app_call pf r _"])
  have kept: "chat_kept c c'" "pseudonym_in c' = pseudonym_in c" "c_faults c' = []"
    if "offstage (c\<lparr>c_drawn := c_drawn c + 24\<rparr>) c'" for c'
    using that assms(2) chat_kept_offstage [OF that] background_parts(4) [of "c\<lparr>c_drawn := c_drawn c + 24\<rparr>" c']
    by (simp_all add: chat_kept_def offstage_def fun_eq_iff pseudonym_in_def community_of_def)
  have through: "has_key (pf_stronghold pf) cid mek c'' \<and> chat_kept c c'' \<and> pseudonym_in c'' = pseudonym_in c"
    if "offstage (c\<lparr>c_drawn := c_drawn c + 24\<rparr>) c'" "has_key (pf_stronghold pf) cid mek c'' \<and> chat_kept (c'\<lparr>c_net := w\<rparr>) c'' \<and>
      pseudonym_in c'' = pseudonym_in (c'\<lparr>c_net := w\<rparr>)" for w c' c''
    using that(2) kept [OF that(1)] by (simp add: chat_kept_def fun_eq_iff pseudonym_in_def community_of_def)
  show ?thesis
    unfolding fetch_mek_from_server_def outcome_io_bind [of "gets _"] outcome_gets
    apply (simp add: c q outcome_io_bind [of "draw _"] outcome_draw Let_def outcome_io_bind [of "import_server_route _ _"])
    apply (rule import_server_route_works [OF imp], simp only: sum.case, rule answered)
     apply (simp add: build_envelope_def)
    apply (simp add: a received_mek_payload [OF assms(3)])
    apply (rule outcome_mono [OF key_taken])
      apply (simp add: kept)
     apply (rule through)
      apply assumption+
    done
qed

lemma has_key_chat [simp]:
  "has_key sh cid mek (c\<lparr>c_db := (c_db c)\<lparr>ct_messages := ms, ct_last_message := n\<rparr>, c_events := es\<rparr>) = has_key sh cid mek c"
  "has_key sh cid mek (c\<lparr>c_db := (c_db c)\<lparr>ct_messages := ms, ct_last_message := n\<rparr>\<rparr>) = has_key sh cid mek c"
  "has_key sh cid mek (c\<lparr>c_events := es\<rparr>) = has_key sh cid mek c"
  by (simp_all add: has_key_def community_of_def owner_of_def)

lemma behind_key_is_fetched:
  assumes "reaches_server cid blob b" and "length (mek_key mek) = 32"
    and "server_answers pf blob RequestMEK (MEK (mek_payload mek) (mek_generation mek))"
    and "storing b" and "pseudonym_in b cid \<noteq> Some s"
    and "map_of (c_mek_cache b) cid = Some old" and "mek_generation old \<noteq> mek_generation mek"
    and "opens (pf_crypto pf) mek ct body"
  shows "outcome (handle_broadcast_new_message pf cid ch s ct (mek_generation mek) ts)
    (\<lambda>_ b'. has_key (pf_stronghold pf) cid mek b' \<and> stored_and_shown ch s body (mek_generation mek) ts b b') (\<lambda>_ _. False) b"
proof -
  have refresh: "decrypt_with_cached_mek (pf_crypto pf) (c_mek_cache b) cid ct (mek_generation mek) = NeedRefresh"
    using assms(6,7) by (simp add: decrypt_with_cached_mek_def)
  have faults: "c_faults b = []" using assms(4) by (simp add: storing_def has_message_def)
  have stored': "outcome (store_broadcast_message pf ch s body (mek_generation mek) ts)
      (\<lambda>_ b'. has_key (pf_stronghold pf) cid mek b' \<and> stored_and_shown ch s body (mek_generation mek) ts b b') (\<lambda>_ _. False) b'"
    if "has_key (pf_stronghold pf) cid mek b' \<and> chat_kept b b' \<and> pseudonym_in b' = pseudonym_in b" for b'
  proof -
    have "storing b'" and o: "owner_of b' = owner_of b"
      using that assms(4) by (simp_all add: storing_def has_message_def chat_kept_def owner_of_def identity_exists_def)
    with that show ?thesis
      by (simp add: store_broadcast_message_def wp outcome_execute_clean storing_def has_message_def insert_message_row_def Let_def
        row_insert_def dm_key_def client_steps stored_and_shown_def message_row_of_def chat_kept_def)
  qed
  show ?thesis
    unfolding handle_broadcast_new_message_def Let_def
    apply (simp add: wp assms(5) refresh)
    apply (rule outcome_mono [OF key_fetched [OF assms(1) faults assms(2,3)]])
     apply (use decrypts [OF assms(8)] stored' in \<open>auto simp: has_key_def\<close>)
    done
qed

lemma notice_received_frame:
  assumes "storing b" and "pseudonym_in b cid \<noteq> Some s"
    and "opens (pf_crypto pf) mek ct body" and "map_of (c_mek_cache b) cid = Some mek"
  shows "outcome (handle_broadcast_new_message pf cid ch s ct (mek_generation mek) ts)
    (\<lambda>_ b'. stored_and_shown ch s body (mek_generation mek) ts b b' \<and> c_faults b' = [] \<and> owner_of b' = owner_of b \<and>
      pseudonym_in b' = pseudonym_in b \<and> c_mek_cache b' = c_mek_cache b) E b"
  using assms(1,2,4) decrypts [OF assms(3,4)]
  by (simp add: handle_broadcast_new_message_def Let_def store_broadcast_message_def wp outcome_execute_clean
      storing_def has_message_def insert_message_row_def row_insert_def dm_key_def client_steps stored_and_shown_def
      message_row_of_def owner_of_def fun_eq_iff pseudonym_in_def community_of_def)

section \<open>The server's part\<close>

text \<open>The server accepts a message of \<open>s\<close> that is sealed with the current generation of the key.\<close>

definition accepts where
  "accepts env st s chid ct route ipc cid c \<longleftrightarrow>
     request_target st s (SendMessage chid ct (mek_generation (c_mek c))) route ipc = Some cid \<and>
     get_community st cid = Some c \<and> may_send env c s chid (mek_generation (c_mek c)) \<and> faults st = []"

definition notice_of :: "request_env \<Rightarrow> string \<Rightarrow> hosted_community \<Rightarrow> string \<Rightarrow> string \<Rightarrow> bytes \<Rightarrow> community_broadcast" where
  "notice_of env cid c chid s ct =
     NewMessage cid chid s ct (mek_generation (c_mek c)) (u64_or_zero (timestamp_now env))"

definition routed :: "hosted_community \<Rightarrow> server_member \<Rightarrow> string \<Rightarrow> bytes \<Rightarrow> bool" where
  "routed c m s blob \<longleftrightarrow> m \<in> set (c_members c) \<and> m_route_blob m = Some blob \<and> m_pseudonym_key_hex m \<noteq> s"

lemma notice_sent:
  assumes "accepts env st s chid ct route ipc cid c" and "routed c m s blob"
  shows "AppMessage blob (notice_of env cid c chid s ct) \<in>
    set (outbox (fst (dispatch_request env st s (SendMessage chid ct (mek_generation (c_mek c))) route ipc)))"
proof -
  have a: "request_target st s (SendMessage chid ct (mek_generation (c_mek c))) route ipc = Some cid"
      "get_community st cid = Some c" "may_send env c s chid (mek_generation (c_mek c))" "faults st = []"
    using assms(1) by (simp_all add: accepts_def)
  have "get_community (st\<lparr>db := d\<rparr>) cid = Some c" for d using a(2) by (simp add: get_community_def)
  moreover have "blob \<in> set (broadcast_routes c s)"
    using assms(2) by (force simp: routed_def broadcast_routes_def map_filter_def)
  ultimately show ?thesis
    by (simp add: dispatch_send_eq [OF a(1)] send_accepted [OF a(2-4)] outbox_broadcast notice_of_def)
qed

lemma shown_again:
  assumes "stored_and_shown ch s body gen ts b b'" and "c_faults b' = []" and "owner_of b' = owner_of b"
  shows "outcome (store_broadcast_message pf ch s body2 gen2 ts) (\<lambda>_ b''.
    ct_messages (c_db b'') = ct_messages (c_db b') \<and>
    c_events b'' = c_events b' @ [ChatEvent (EvMessageReceived s body2 ts ch)]) E b'"
  using assms
  by (simp add: store_broadcast_message_def wp outcome_execute_clean insert_message_row_def Let_def
      row_insert_def row_exists_def dm_key_def client_steps stored_and_shown_def has_message_def message_row_of_def)

section \<open>A member of the sample community\<close>

lemma demo_owner_may_send: "may_send env demo_community ''owner'' ''general'' 1"
proof -
  let ?base = "base_permissions [0, 1, 2, 3] (c_roles demo_community)"
  have "is_administrator ?base"
    by (simp add: is_administrator_bit bit_base_permissions demo_community_def demo_role_def owner_permissions_def
        all_permissions_def flag_defs bit_or_iff bit_flag)
  moreover have "has_permission all_permissions SEND_MESSAGES"
    by (simp add: has_permission_iff all_permissions_def flag_defs bit_or_iff bit_flag)
  ultimately show ?thesis
    by (simp add: may_send_def send_permission_ok_def calculate_permissions_def Let_def)
qed

lemma demo_accepts: "accepts env demo_state ''owner'' ''general'' ct None (Some ''c1'') ''c1'' demo_community"
  using demo_owner_may_send by (simp add: accepts_def request_target_def)

definition fixed_json :: "'a \<Rightarrow> 'a json" where
  "fixed_json x = \<lparr>to_json = (\<lambda>y. Inr [0]), from_json = (\<lambda>b. Inr x)\<rparr>"

definition sample_ciphertext :: "media_encryption_key \<Rightarrow> string \<Rightarrow> bytes" where
  "sample_ciphertext mek body =
     (let nonce = [0, 1, 2, 3, 4, 5, 6, 7, 8, 9, 10, 11] in nonce @ mek_key mek @ nonce @ as_bytes body)"

lemma sample_sealed:
  "fst (mek_encrypt (sample_platform\<lparr>pf_broadcast_json := j\<rparr>) mek (as_bytes body) (sample_client n name)) =
     Inr (sample_ciphertext mek body)"
  by (simp add: mek_encrypt_def io_bind_def draw_def ok_def sample_platform_def toy_crypto_def sample_client_def
      sample_ciphertext_def upt_rec)

definition sample_member :: "media_encryption_key \<Rightarrow> (mem \<times> mail, nat, bytes) client" where
  "sample_member mek = (sample_client 2 ''bob'')\<lparr>
     c_communities := [(''c1'', \<lparr>cc_id = ''c1'', cc_name = ''n'', cc_description = None, cc_channels = [],
       cc_my_role_ids = [0, 1], cc_roles = [], cc_my_role = None, cc_dht_record_key = None,
       cc_dht_owner_keypair = None, cc_my_pseudonym_key = Some ''bob'', cc_mek_generation = 1,
       cc_server_route_blob = Some [1], cc_is_hosted = False\<rparr>)],
     c_mek_cache := [(''c1'', mek)], c_vault := Some \<lparr>vt_public_key = hex_encode (sample_key 2), vt_key = [], vt_store = []\<rparr>\<rparr>"

lemma sample_member_simps [simp]:
  "pseudonym_in (sample_member mek) ''c1'' = Some ''bob''" "c_mek_cache (sample_member mek) = [(''c1'', mek)]"
  "ct_messages (c_db (sample_member mek)) = []" "c_faults (sample_member mek) = []" "c_events (sample_member mek) = []"
  "reaches_server ''c1'' [1] (sample_member mek)"
  "storing (sample_member mek)" "\<not> has_message ch s ts (sample_member mek)"
  by (simp_all add: sample_member_def pseudonym_in_def community_of_def reaches_server_def sample_client_def
      storing_def has_message_def empty_client_db_def identity_exists_def row_exists_def owner_of_def is_online_node_def)

section \<open>The properties\<close>

text \<open>
  C33. A channel message reaches every other member. When the server accepts a message that its
  sender sealed with the key of the community, a notice goes to the route of every other member
  that announced one; and a member that holds the key and receives the notice, by whatever
  serialisation of it, shows exactly the text that was sent and, with a working database, stores it,
  unread and in its channel, unless it has a message of that sender, channel and second already.
\<close>

theorem channel_message_reaches_members:
  assumes "crypto_ok (pf_crypto pf)" and "rust_string body"
    and "fst (mek_encrypt pf (c_mek c) (as_bytes body) a) = Inr ct"
    and "accepts env st s chid ct route ipc cid c" and "routed c m s blob"
    and "pseudonym_in b cid = Some (m_pseudonym_key_hex m)" and "map_of (c_mek_cache b) cid = Some (c_mek c)"
    and "storing b"
  shows "AppMessage blob (notice_of env cid c chid s ct) \<in>
      set (outbox (fst (dispatch_request env st s (SendMessage chid ct (mek_generation (c_mek c))) route ipc)))
    \<and> (\<forall>message. carries pf message (notice_of env cid c chid s ct) \<longrightarrow>
        outcome (handle_app_message pf message) (\<lambda>_. stored_and_shown chid s body (mek_generation (c_mek c))
          (u64_or_zero (timestamp_now env)) b) (\<lambda>_ _. False) b)"
proof (intro conjI allI impI)
  show "AppMessage blob (notice_of env cid c chid s ct) \<in>
      set (outbox (fst (dispatch_request env st s (SendMessage chid ct (mek_generation (c_mek c))) route ipc)))"
    using assms(4,5) by (rule notice_sent)
  show "outcome (handle_app_message pf message) (\<lambda>_. stored_and_shown chid s body (mek_generation (c_mek c))
      (u64_or_zero (timestamp_now env)) b) (\<lambda>_ _. False) b"
    if "carries pf message (notice_of env cid c chid s ct)" for message
    unfolding handle_carried [OF that] handle_community_broadcast_def notice_of_def community_broadcast.case
    by (rule notice_received)
      (use assms(2,5-8) mek_encrypt_opens [OF assms(1,3)] in \<open>simp_all add: opens_def routed_def\<close>)
qed

theorem channel_message_reaches_members_witness:
  "outcome (handle_app_message (sample_platform\<lparr>pf_broadcast_json := fixed_json
       (NewMessage ''c1'' ''general'' ''owner'' (sample_ciphertext (c_mek demo_community) ''hi'') 1 100)\<rparr>) [0])
     (\<lambda>_. stored_and_shown ''general'' ''owner'' ''hi'' 1 100 (sample_member (c_mek demo_community)))
     (\<lambda>_ _. False) (sample_member (c_mek demo_community))"
proof -
  let ?ct = "sample_ciphertext (c_mek demo_community) ''hi''"
  let ?pf = "sample_platform\<lparr>pf_broadcast_json := fixed_json (NewMessage ''c1'' ''general'' ''owner'' ?ct 1 100)\<rparr>"
  have t: "u64_or_zero (timestamp_now demo_env) = 100" by (simp add: u64_or_zero_def timestamp_now_def i64_or_max_def i64_max_def demo_env_def)
  have "outcome (handle_app_message ?pf [0]) (\<lambda>_. stored_and_shown ''general'' ''owner'' ''hi''
      (mek_generation (c_mek demo_community)) (u64_or_zero (timestamp_now demo_env))
      (sample_member (c_mek demo_community))) (\<lambda>_ _. False) (sample_member (c_mek demo_community))"
  proof (rule conjunct2 [OF channel_message_reaches_members, THEN spec, THEN mp])
    show "crypto_ok (pf_crypto ?pf)" by (simp add: sample_platform_def toy_crypto_ok)
    show "rust_string ''hi''" by (rule ascii_rust_string) simp
    show "fst (mek_encrypt ?pf (c_mek demo_community) (as_bytes ''hi'') (sample_client 1 ''owner'')) = Inr ?ct"
      by (rule sample_sealed)
    show "accepts demo_env demo_state ''owner'' ''general'' ?ct None (Some ''c1'') ''c1'' demo_community"
      by (rule demo_accepts)
    show "routed demo_community (demo_member ''bob'' [0, 1]) ''owner'' [7]" by (simp add: routed_def)
    show "carries ?pf [0] (notice_of demo_env ''c1'' demo_community ''general'' ''owner'' ?ct)"
      by (simp add: carries_def fixed_json_def notice_of_def t)
  qed simp_all
  then show ?thesis by (simp add: t)
qed

text \<open>
  C34. A member whose key is out of date gets the current one: while the server answers, the notice
  of a rotation, and equally a message sealed with a newer key, leave the new key in the member's
  cache, in the key store and noted with the community; the rotation is shown, and the message is
  opened, shown and, unless one of that sender, channel and second is there already, stored. The
  member is online with a working database.
\<close>

theorem rotated_key_is_fetched:
  assumes "reaches_server cid blob b" and "length (mek_key mek) = 32" and "c_faults b = []"
    and "server_answers pf blob RequestMEK (MEK (mek_payload mek) (mek_generation mek))"
  shows "(\<forall>message. carries pf message (MEKRotated cid (mek_generation mek)) \<longrightarrow>
      outcome (handle_app_message pf message) (\<lambda>_ b'. has_key (pf_stronghold pf) cid mek b' \<and>
        c_events b' = c_events b @ [CommunityEvent (EvMekRotated cid (mek_generation mek))]) (\<lambda>_ _. False) b)
    \<and> (\<forall>message ch s ct ts body old. carries pf message (NewMessage cid ch s ct (mek_generation mek) ts) \<longrightarrow>
        storing b \<longrightarrow> pseudonym_in b cid \<noteq> Some s \<longrightarrow>
        map_of (c_mek_cache b) cid = Some old \<longrightarrow> mek_generation old \<noteq> mek_generation mek \<longrightarrow>
        opens (pf_crypto pf) mek ct body \<longrightarrow>
      outcome (handle_app_message pf message) (\<lambda>_ b'. has_key (pf_stronghold pf) cid mek b' \<and>
        stored_and_shown ch s body (mek_generation mek) ts b b') (\<lambda>_ _. False) b)"
proof (intro conjI allI impI)
  show "outcome (handle_app_message pf message) (\<lambda>_ b'. has_key (pf_stronghold pf) cid mek b' \<and>
        c_events b' = c_events b @ [CommunityEvent (EvMekRotated cid (mek_generation mek))]) (\<lambda>_ _. False) b"
    if "carries pf message (MEKRotated cid (mek_generation mek))" for message
    unfolding handle_carried [OF that] handle_community_broadcast_def community_broadcast.case
      handle_broadcast_mek_rotated_def outcome_io_bind
    by (rule outcome_mono [OF key_fetched [OF assms(1,3,2,4)]])
      (simp_all add: emit_community_def client_steps wp chat_kept_def)
  show "outcome (handle_app_message pf message) (\<lambda>_ b'. has_key (pf_stronghold pf) cid mek b' \<and>
        stored_and_shown ch s body (mek_generation mek) ts b b') (\<lambda>_ _. False) b"
    if "carries pf message (NewMessage cid ch s ct (mek_generation mek) ts)"
      "storing b" "pseudonym_in b cid \<noteq> Some s" "map_of (c_mek_cache b) cid = Some old"
      "mek_generation old \<noteq> mek_generation mek" "opens (pf_crypto pf) mek ct body"
    for message ch s ct ts body old
    unfolding handle_carried [OF that(1)] handle_community_broadcast_def community_broadcast.case
    by (rule behind_key_is_fetched [OF assms(1,2,4) that(2-6)])
qed

definition answering :: "community_broadcast \<Rightarrow> media_encryption_key \<Rightarrow> (mem \<times> mail, string, nat, bytes) platform" where
  "answering notice mek = sample_platform\<lparr>pf_broadcast_json := fixed_json notice,
     pf_request_json := fixed_json RequestMEK,
     pf_response_json := fixed_json (MEK (mek_payload mek) (mek_generation mek)),
     pf_app_call := (\<lambda>route b. ok [0])\<rparr>"

lemma answering_simps [simp]:
  "pf_stronghold (answering notice mek) = sample_stronghold" "pf_crypto (answering notice mek) = pf_crypto sample_platform"
  "mek_generation mek = g \<Longrightarrow> server_answers (answering notice mek) [1] RequestMEK (MEK (mek_payload mek) g)"
  by (simp_all add: server_answers_def answering_def fixed_json_def sample_platform_def ok_def)

lemma answering_carries: "carries (answering notice mek) [0] notice"
  by (simp add: carries_def answering_def fixed_json_def)

definition newer_mek :: media_encryption_key where
  "newer_mek = \<lparr>mek_key = sample_key 9, mek_generation = 2\<rparr>"

lemma newer_mek_simps [simp]: "mek_generation newer_mek = 2" "length (mek_key newer_mek) = 32"
  by (simp_all add: newer_mek_def sample_key_def)

theorem rotated_key_is_fetched_witness:
  "outcome (handle_app_message (answering (MEKRotated ''c1'' 2) newer_mek) [0])
     (\<lambda>_ b'. has_key sample_stronghold ''c1'' newer_mek b' \<and>
        c_events b' = [CommunityEvent (EvMekRotated ''c1'' 2)]) (\<lambda>_ _. False) (sample_member (c_mek demo_community)) \<and>
   outcome (handle_app_message (answering (NewMessage ''c1'' ''general'' ''owner'' (sample_ciphertext newer_mek ''hi'') 2 100)
       newer_mek) [0])
     (\<lambda>_ b'. has_key sample_stronghold ''c1'' newer_mek b' \<and> map xm_body (ct_messages (c_db b')) = [''hi''] \<and>
        c_events b' = [ChatEvent (EvMessageReceived ''owner'' ''hi'' 100 ''general'')]) (\<lambda>_ _. False)
     (sample_member (c_mek demo_community))"
proof -
  let ?b = "sample_member (c_mek demo_community)"
  let ?n1 = "MEKRotated ''c1'' (mek_generation newer_mek)"
  let ?n2 = "NewMessage ''c1'' ''general'' ''owner'' (sample_ciphertext newer_mek ''hi'') (mek_generation newer_mek) 100"
  note fetched = rotated_key_is_fetched [of "''c1''" "[1]" ?b newer_mek]
  have "opens (pf_crypto sample_platform) newer_mek (sample_ciphertext newer_mek ''hi'') ''hi''"
  proof -
    have "crypto_ok (pf_crypto sample_platform)" "rust_string ''hi''"
      by (simp_all add: sample_platform_def toy_crypto_ok ascii_rust_string)
    then show ?thesis using mek_encrypt_opens [OF _ sample_sealed] by (simp add: opens_def)
  qed
  then have "outcome (handle_app_message (answering ?n2 newer_mek) [0])
      (\<lambda>_ b'. has_key sample_stronghold ''c1'' newer_mek b' \<and>
        stored_and_shown ''general'' ''owner'' ''hi'' (mek_generation newer_mek) 100 ?b b') (\<lambda>_ _. False) ?b"
    using fetched [of "answering ?n2 newer_mek", THEN conjunct2, THEN spec, THEN spec, THEN spec, THEN spec, THEN spec, THEN spec,
        THEN spec, THEN mp, THEN mp, THEN mp, THEN mp, THEN mp, THEN mp, OF _ _ _ _ answering_carries]
    by simp
  moreover have "outcome (handle_app_message (answering ?n1 newer_mek) [0])
      (\<lambda>_ b'. has_key sample_stronghold ''c1'' newer_mek b' \<and>
        c_events b' = [CommunityEvent (EvMekRotated ''c1'' 2)]) (\<lambda>_ _. False) ?b"
    using fetched [of "answering ?n1 newer_mek", THEN conjunct1, THEN spec, THEN mp, OF _ _ _ _ answering_carries] by simp
  ultimately show ?thesis
    by (auto elim!: outcome_mono simp: stored_and_shown_def message_row_of_def)
qed

text \<open>
  The second message of a second is lost. The server stamps messages with its clock in seconds, and
  a client stores one message per sender, channel and time: when the same member has two messages
  accepted within the same second, both notices go out and a member that receives them shows both
  messages but keeps only the first.
\<close>

theorem second_message_of_a_second_is_lost:
  assumes "accepts env st s chid ct route ipc cid c" and "routed c m s blob"
    and "accepts env2 st2 s chid ct2 route2 ipc2 cid c2" and "routed c2 m2 s blob2"
    and "now_secs env2 = now_secs env" and "c_mek c2 = c_mek c"
    and "opens (pf_crypto pf) (c_mek c) ct body" and "opens (pf_crypto pf) (c_mek c) ct2 body2"
    and "pseudonym_in b cid \<noteq> Some s" and "map_of (c_mek_cache b) cid = Some (c_mek c)"
    and "storing b" and "\<not> has_message chid s (u64_or_zero (timestamp_now env)) b"
  shows "AppMessage blob (notice_of env cid c chid s ct) \<in>
      set (outbox (fst (dispatch_request env st s (SendMessage chid ct (mek_generation (c_mek c))) route ipc)))
    \<and> AppMessage blob2 (notice_of env2 cid c2 chid s ct2) \<in>
      set (outbox (fst (dispatch_request env2 st2 s (SendMessage chid ct2 (mek_generation (c_mek c2))) route2 ipc2)))
    \<and> (\<forall>message message2. carries pf message (notice_of env cid c chid s ct) \<longrightarrow>
        carries pf message2 (notice_of env2 cid c2 chid s ct2) \<longrightarrow>
        outcome (io_bind (handle_app_message pf message) (\<lambda>_. handle_app_message pf message2))
          (\<lambda>_ b'. c_events b' = c_events b @ [
              ChatEvent (EvMessageReceived s body (u64_or_zero (timestamp_now env)) chid),
              ChatEvent (EvMessageReceived s body2 (u64_or_zero (timestamp_now env)) chid)] \<and>
            ct_messages (c_db b') = ct_messages (c_db b) @
              [message_row_of b chid s body (mek_generation (c_mek c)) (u64_or_zero (timestamp_now env))])
          (\<lambda>_ _. False) b)"
proof (intro conjI allI impI)
  let ?ts = "u64_or_zero (timestamp_now env)" and ?gen = "mek_generation (c_mek c)"
  have ts: "u64_or_zero (timestamp_now env2) = ?ts" using assms(5) by (simp add: timestamp_now_def)
  fix message message2
  assume m: "carries pf message (notice_of env cid c chid s ct)" "carries pf message2 (notice_of env2 cid c2 chid s ct2)"
  let ?P = "\<lambda>b'. stored_and_shown chid s body ?gen ?ts b b' \<and> c_faults b' = [] \<and> owner_of b' = owner_of b \<and>
    pseudonym_in b' = pseudonym_in b \<and> c_mek_cache b' = c_mek_cache b"
  have first: "outcome (handle_app_message pf message) (\<lambda>_. ?P) (\<lambda>_ _. False) b"
    unfolding handle_carried [OF m(1)] handle_community_broadcast_def notice_of_def community_broadcast.case
    by (rule notice_received_frame [OF assms(11,9,7,10)])
  have second: "outcome (handle_app_message pf message2) (\<lambda>_ b''. ct_messages (c_db b'') = ct_messages (c_db b') \<and>
      c_events b'' = c_events b' @ [ChatEvent (EvMessageReceived s body2 ?ts chid)]) (\<lambda>_ _. False) b'" if "?P b'" for b'
  proof -
    have "decrypt_with_cached_mek (pf_crypto pf) (c_mek_cache b') cid ct2 ?gen = MekDecrypted body2"
      using that assms(8,10) by (intro decrypts) simp_all
    then show ?thesis
      unfolding handle_carried [OF m(2)] handle_community_broadcast_def notice_of_def community_broadcast.case
      using that assms(6,9) ts shown_again [of chid s body ?gen ?ts b b']
      by (simp add: handle_broadcast_new_message_def Let_def wp)
  qed
  show "outcome (io_bind (handle_app_message pf message) (\<lambda>_. handle_app_message pf message2))
      (\<lambda>_ b'. c_events b' = c_events b @ [ChatEvent (EvMessageReceived s body ?ts chid),
          ChatEvent (EvMessageReceived s body2 ?ts chid)] \<and>
        ct_messages (c_db b') = ct_messages (c_db b) @ [message_row_of b chid s body ?gen ?ts])
      (\<lambda>_ _. False) b"
    unfolding outcome_io_bind
    by (rule outcome_mono [OF first], rule outcome_mono [OF second]) (use assms(12) in \<open>auto simp: stored_and_shown_def\<close>)
qed (rule notice_sent [OF assms(1,2)], rule notice_sent [OF assms(3,4)])

theorem second_message_of_a_second_is_lost_witness:
  "\<exists>pf :: (mem \<times> mail, string, nat, bytes) platform. outcome (io_bind (handle_app_message pf [0]) (\<lambda>_. handle_app_message pf [1]))
     (\<lambda>_ b'. map xm_body (ct_messages (c_db b')) = [''hi''] \<and> c_events b' =
        [ChatEvent (EvMessageReceived ''owner'' ''hi'' 100 ''general''),
         ChatEvent (EvMessageReceived ''owner'' ''yo'' 100 ''general'')])
     (\<lambda>_ _. False) (sample_member (c_mek demo_community))"
proof -
  let ?ct = "sample_ciphertext (c_mek demo_community)"
  let ?n = "\<lambda>body. notice_of demo_env ''c1'' demo_community ''general'' ''owner'' (?ct body)"
  let ?pf = "sample_platform\<lparr>pf_broadcast_json :=
    \<lparr>to_json = (\<lambda>n. Inr []), from_json = (\<lambda>b. Inr (if b = [0] then ?n ''hi'' else ?n ''yo''))\<rparr>\<rparr>"
  have t: "u64_or_zero (timestamp_now demo_env) = 100"
    by (simp add: u64_or_zero_def timestamp_now_def i64_or_max_def i64_max_def demo_env_def)
  have opened: "opens (pf_crypto ?pf) (c_mek demo_community) (?ct body) body" if "rust_string body" for body
  proof -
    have "crypto_ok (pf_crypto ?pf)" by (simp add: sample_platform_def toy_crypto_ok)
    then show ?thesis using mek_encrypt_opens [OF _ sample_sealed] that by (simp add: opens_def)
  qed
  have main: "outcome (io_bind (handle_app_message ?pf [0]) (\<lambda>_. handle_app_message ?pf [1]))
     (\<lambda>_ b'. c_events b' = c_events (sample_member (c_mek demo_community)) @ [
         ChatEvent (EvMessageReceived ''owner'' ''hi'' (u64_or_zero (timestamp_now demo_env)) ''general''),
         ChatEvent (EvMessageReceived ''owner'' ''yo'' (u64_or_zero (timestamp_now demo_env)) ''general'')] \<and>
       ct_messages (c_db b') = ct_messages (c_db (sample_member (c_mek demo_community))) @
         [message_row_of (sample_member (c_mek demo_community)) ''general'' ''owner'' ''hi''
            (mek_generation (c_mek demo_community)) (u64_or_zero (timestamp_now demo_env))])
     (\<lambda>_ _. False) (sample_member (c_mek demo_community))"
  proof (rule second_message_of_a_second_is_lost [THEN conjunct2, THEN conjunct2, THEN spec, THEN spec, THEN mp, THEN mp])
    show "accepts demo_env demo_state ''owner'' ''general'' (?ct ''hi'') None (Some ''c1'') ''c1'' demo_community"
      "accepts demo_env demo_state ''owner'' ''general'' (?ct ''yo'') None (Some ''c1'') ''c1'' demo_community"
      by (rule demo_accepts)+
    show "routed demo_community (demo_member ''bob'' [0, 1]) ''owner'' [7]"
      "routed demo_community (demo_member ''bob'' [0, 1]) ''owner'' [7]" by (simp_all add: routed_def)
    show "opens (pf_crypto ?pf) (c_mek demo_community) (?ct ''hi'') ''hi''"
      "opens (pf_crypto ?pf) (c_mek demo_community) (?ct ''yo'') ''yo''" by (rule opened, rule ascii_rust_string, simp)+
    show "carries ?pf [0] (?n ''hi'')" "carries ?pf [1] (?n ''yo'')" by (simp_all add: carries_def)
  qed simp_all
  show ?thesis
    by (rule exI, rule outcome_mono [OF main]) (simp_all add: t message_row_of_def)
qed

end
