(* ===== verification/CommunityNotices.thy ===== *)
theory CommunityNotices
  imports ChannelDelivery Messaging
begin

text \<open>
  What the notices of a server do to a member: a change of roles is taken over as it is, and the notice
  that one was removed makes a client forget the community. Nothing in a notice says who sent it.
\<close>

section \<open>Roles\<close>

definition changes_roles :: "community_request \<Rightarrow> bool" where
  "changes_roles request \<longleftrightarrow> (case request of CreateRole _ _ _ _ _ \<Rightarrow> True | EditRole _ _ _ _ _ _ _ \<Rightarrow> True
     | DeleteRole _ \<Rightarrow> True | _ \<Rightarrow> False)"

lemma role_handlers_result:
  "\<not> is_error (snd (handle_create_role env st cid s n col p h m)) \<Longrightarrow>
     is_role_created (snd (handle_create_role env st cid s n col p h m))"
  "\<not> is_error (snd (handle_edit_role env st cid s rid n' col' p' pos h' m')) \<Longrightarrow>
     snd (handle_edit_role env st cid s rid n' col' p' pos h' m') = ResOk"
  "\<not> is_error (snd (handle_delete_role env st cid s rid)) \<Longrightarrow> snd (handle_delete_role env st cid s rid) = ResOk"
  by (auto simp: handle_create_role_def handle_edit_role_def handle_delete_role_def member_with_permission_eq
      Let_def case_prod_unfold not_found_def split: option.splits if_splits)

lemma roles_announced:
  assumes "changes_roles request" and "request_target st s request route ipc = Some cid"
    and "\<not> is_error (snd (dispatch_request env st s request route ipc))"
  shows "\<exists>st1. fst (dispatch_request env st s request route ipc) = broadcast_roles_changed cid st1"
proof -
  obtain h where h: "dispatch_request env st s request route ipc = and_then (if \<exists>n c p h m. request = CreateRole n c p h m
      then is_role_created else (\<lambda>r. r = ResOk)) (broadcast_roles_changed cid) h"
    and r: "\<not> is_error (snd h) \<Longrightarrow> (if \<exists>n c p h m. request = CreateRole n c p h m
      then is_role_created else (\<lambda>r. r = ResOk)) (snd h)"
    using assms(1,2) role_handlers_result
    by (cases request) (auto simp: changes_roles_def dispatch_request_def request_target_def)
  have "\<not> is_error (snd h)" using assms(3) unfolding h and_then_def by (simp split: if_splits)
  then show ?thesis using r unfolding h and_then_def by auto
qed

lemma announcement_sent:
  assumes "get_community (broadcast_roles_changed cid st) cid = Some c"
    and "m \<in> set (c_members c)" and "m_route_blob m = Some blob" and "m_pseudonym_key_hex m \<noteq> []"
  shows "AppMessage blob (RolesChanged cid (roles_to_dto c)) \<in> set (outbox (broadcast_roles_changed cid st))"
proof -
  have "get_community st cid = Some c" using assms(1) by (simp add: frame_simps)
  moreover have "blob \<in> set (broadcast_routes c [])"
    using assms(2-4) by (force simp: broadcast_routes_def map_filter_def)
  ultimately show ?thesis by (simp add: broadcast_roles_changed_def outbox_broadcast)
qed

definition role_rows :: "string \<Rightarrow> string \<Rightarrow> ('w, 'p, 'r) client \<Rightarrow> community_role_row list" where
  "role_rows owner cid c = filter (\<lambda>r. ko_owner r = owner \<and> ko_community_id r = cid) (ct_roles (c_db c))"

lemma pk_role_row_of: "community_role_pk (role_row_of owner cid r) = (owner, cid, uint (rdto_id r))"
  by (simp add: community_role_pk_def role_row_of_def)

lemma roles_inserted:
  assumes "c_faults c = []" and "distinct (map rdto_id rs)"
    and "\<forall>r\<in>set rs. \<not> row_exists community_role_pk (owner, cid, uint (rdto_id r)) (ct_roles (c_db c))"
  shows "outcome (for_each (\<lambda>r. execute pf [] (insert_community_role (role_row_of owner cid r))) rs)
    (\<lambda>_ c'. c' = c\<lparr>c_db := (c_db c)\<lparr>ct_roles := ct_roles (c_db c) @ map (role_row_of owner cid) rs\<rparr>\<rparr>) E c"
  using assms
proof (induction rs arbitrary: c)
  case (Cons r rs)
  let ?c = "c\<lparr>c_db := (c_db c)\<lparr>ct_roles := ct_roles (c_db c) @ [role_row_of owner cid r]\<rparr>\<rparr>"
  have i: "insert_community_role (role_row_of owner cid r) (c_db c) = Some (c_db ?c)"
    using Cons.prems(3) by (simp add: insert_community_role_def row_insert_def pk_role_row_of)
  have "outcome (for_each (\<lambda>r. execute pf [] (insert_community_role (role_row_of owner cid r))) rs)
    (\<lambda>_ c'. c' = ?c\<lparr>c_db := (c_db ?c)\<lparr>ct_roles := ct_roles (c_db ?c) @ map (role_row_of owner cid) rs\<rparr>\<rparr>) E ?c"
    using Cons.prems
    by (intro Cons.IH) (auto simp: row_exists_def pk_role_row_of word_uint_eq_iff)
  then show ?case by (simp add: wp outcome_execute_clean Cons.prems(1) i)
qed (simp add: wp)

definition follows_roles :: "string \<Rightarrow> role_dto list \<Rightarrow> ('w, 'p, 'r) client \<Rightarrow> ('w, 'p, 'r) client \<Rightarrow> bool" where
  "follows_roles cid roles b b' \<longleftrightarrow>
     community_of b' cid = map_option (\<lambda>cc. refresh_my_role (cc\<lparr>cc_roles := roles\<rparr>)) (community_of b cid) \<and>
     role_rows (owner_of b) cid b' = map (role_row_of (owner_of b) cid) roles \<and>
     (\<forall>a. a \<noteq> cid \<longrightarrow> community_of b' a = community_of b a \<and> role_rows (owner_of b) a b' = role_rows (owner_of b) a b) \<and>
     c_events b' = c_events b @ [CommunityEvent (EvRolesChanged cid roles)]"

lemma roles_taken_over:
  fixes b :: "('w, 'p, 'r) client"
  assumes "c_faults b = []" and "distinct (map rdto_id roles)"
  shows "outcome (handle_broadcast_roles_changed pf cid roles) (\<lambda>_. follows_roles cid roles b) E b"
proof -
  let ?b = "b\<lparr>c_communities := AList.map_entry cid (\<lambda>cc. refresh_my_role (cc\<lparr>cc_roles := roles\<rparr>)) (c_communities b)\<rparr>"
  let ?kept = "row_delete (\<lambda>r. ko_owner r = owner_of b \<and> ko_community_id r = cid) (ct_roles (c_db b))"
  let ?c = "?b\<lparr>c_db := (c_db b)\<lparr>ct_roles := ?kept\<rparr>\<rparr>"
  have owner: "owner_of ?b = owner_of b" by (simp add: owner_of_def)
  have gone: "\<not> row_exists community_role_pk (owner_of b, cid, i) ?kept" for i
    by (auto simp: row_exists_def row_delete_def community_role_pk_def list_ex_iff)
  have stored: "outcome (store_roles pf (owner_of b) cid roles)
      (\<lambda>_ c'. c' = ?c\<lparr>c_db := (c_db ?c)\<lparr>ct_roles := ?kept @ map (role_row_of (owner_of b) cid) roles\<rparr>\<rparr>) E' ?b" for E'
    using roles_inserted [of ?c roles "owner_of b" cid pf E'] assms gone
    by (simp add: store_roles_def outcome_io_bind outcome_execute_clean delete_community_roles_def)
  let ?rows = "?kept @ map (role_row_of (owner_of b) cid) roles"
  have rows: "role_rows (owner_of b) cid c' = map (role_row_of (owner_of b) cid) roles"
    "a \<noteq> cid \<Longrightarrow> role_rows (owner_of b) a c' = role_rows (owner_of b) a b"
    if "ct_roles (c_db c') = ?rows" for c' :: "('w, 'p, 'r) client" and a
    unfolding role_rows_def that by (auto simp: row_delete_def role_row_of_def filter_map comp_def intro: filter_cong)
  show ?thesis
    unfolding handle_broadcast_roles_changed_def outcome_io_bind edit_community_def outcome_modify outcome_gets
      outcome_ignore owner
    by (rule outcome_mono [OF stored])
      (simp_all add: emit_community_def client_steps wp follows_roles_def rows,
        simp_all add: community_of_def map_of_map_entry)
qed

section \<open>Removal\<close>

text \<open>
  The community is forgotten: in memory, its key, its row and the rows of its channels. The rows of its
  members and roles stay, and so does the key in the snapshot of the key store.
\<close>

definition evicted :: "string \<Rightarrow> ('w, 'p, 'r) client \<Rightarrow> ('w, 'p, 'r) client \<Rightarrow> bool" where
  "evicted cid b b' \<longleftrightarrow>
     community_of b' cid = None \<and> map_of (c_mek_cache b') cid = None \<and>
     (\<forall>r\<in>set (ct_communities (c_db b')). community_pk r \<noteq> (owner_of b, cid)) \<and>
     (\<forall>r\<in>set (ct_channels (c_db b')). \<not> (kh_owner r = owner_of b \<and> kh_community_id r = cid)) \<and>
     (\<forall>v. c_vault b' = Some v \<longrightarrow> map_of (vt_store v) (mek_vault_key cid) = None) \<and>
     c_snapshots b' = c_snapshots b \<and>
     ct_members (c_db b') = ct_members (c_db b) \<and> ct_roles (c_db b') = ct_roles (c_db b) \<and>
     ct_messages (c_db b') = ct_messages (c_db b) \<and>
     (\<forall>a. a \<noteq> cid \<longrightarrow> community_of b' a = community_of b a \<and>
        map_of (c_mek_cache b') a = map_of (c_mek_cache b) a) \<and>
     c_events b' = c_events b @ [CommunityEvent (EvKicked cid)]"

lemma kept_key_deleted:
  assumes "c_faults b = []"
  shows "outcome (delete_kept_mek cid) (\<lambda>_ b'. b' = b\<lparr>c_vault := map_option (\<lambda>v. v\<lparr>
    vt_store := AList.delete (mek_vault_key cid) (vt_store v)\<rparr>) (c_vault b)\<rparr>) E b"
  using assms
  by (cases "c_vault b") (simp_all add: delete_kept_mek_def wp outcome_def vault_access_def pop_client_fault_def)

lemma removal_evicts:
  assumes "c_faults b = []" and "pseudonym_in b cid = Some pk"
  shows "outcome (handle_broadcast_member_removed pf cid pk) (\<lambda>_. evicted cid b) E b"
  unfolding handle_broadcast_member_removed_def outcome_io_bind outcome_gets
  apply (simp add: assms(2) forget_mek_def wp)
  apply (rule outcome_mono [OF kept_key_deleted])
    apply (simp add: assms(1))
   apply (simp add: drop_community_def wp outcome_execute_clean assms(1) delete_community_row_def
      emit_community_def client_steps evicted_def)
   apply (auto simp: community_of_def AList.delete_conv' row_delete_def)
  done

section \<open>The properties\<close>

text \<open>
  C35. The members' view of the roles follows the server's. Whenever the server accepts that a role is
  created, edited or deleted, it sends all roles of the community, as they are afterwards, to the
  route of every member that announced one; and a client that receives them has exactly these
  roles, in memory and in its rows, keeps what it knows of other communities, and shows the
  change.
\<close>

theorem roles_follow_server:
  assumes "wf_server st" and "changes_roles request" and "request_target st s request route ipc = Some cid"
    and "\<not> is_error (snd (dispatch_request env st s request route ipc))"
    and "get_community (fst (dispatch_request env st s request route ipc)) cid = Some c"
    and "routed c m [] blob" and "c_faults b = []"
  shows "AppMessage blob (RolesChanged cid (roles_to_dto c)) \<in>
      set (outbox (fst (dispatch_request env st s request route ipc)))
    \<and> (\<forall>message. carries pf message (RolesChanged cid (roles_to_dto c)) \<longrightarrow>
        outcome (handle_app_message pf message) (\<lambda>_. follows_roles cid (roles_to_dto c) b) (\<lambda>_ _. False) b)"
proof (intro conjI allI impI)
  obtain st1 where st1: "fst (dispatch_request env st s request route ipc) = broadcast_roles_changed cid st1"
    using roles_announced [OF assms(2-4)] by blast
  then show "AppMessage blob (RolesChanged cid (roles_to_dto c)) \<in>
      set (outbox (fst (dispatch_request env st s request route ipc)))"
    using assms(5,6) by (auto simp: routed_def intro: announcement_sent)
  have "wf_community c"
    using dispatch_wf [OF assms(1)] assms(5) by (auto simp: wf_server_def)
  then have d: "distinct (map rdto_id (roles_to_dto c))"
    by (simp add: wf_community_def roles_to_dto_def role_to_dto_def comp_def)
  show "outcome (handle_app_message pf message) (\<lambda>_. follows_roles cid (roles_to_dto c) b) (\<lambda>_ _. False) b"
    if "carries pf message (RolesChanged cid (roles_to_dto c))" for message
    unfolding handle_carried [OF that] handle_community_broadcast_def community_broadcast.case
    by (rule roles_taken_over [OF assms(7) d])
qed

theorem roles_follow_server_witness:
  "outcome (handle_app_message (answering (RolesChanged ''c1'' (roles_to_dto (drop_role 2 demo_community)))
       (c_mek demo_community)) [0])
     (\<lambda>_. follows_roles ''c1'' (roles_to_dto (drop_role 2 demo_community)) (sample_member (c_mek demo_community)))
     (\<lambda>_ _. False) (sample_member (c_mek demo_community))"
proof (rule conjunct2 [OF roles_follow_server, THEN spec, THEN mp])
  let ?result = "dispatch_request demo_env demo_state ''owner'' (DeleteRole 2) None (Some ''c1'')"
  show "wf_server demo_state" by (rule demo_wf)
  show "changes_roles (DeleteRole 2)" by (simp add: changes_roles_def)
  show "request_target demo_state ''owner'' (DeleteRole 2) None (Some ''c1'') = Some ''c1''"
    by (simp add: request_target_def)
  show "\<not> is_error (snd ?result)"
    "get_community (fst ?result) ''c1'' = Some (drop_role 2 demo_community)"
    by (simp_all add: dispatch_request_def handle_delete_role_def member_with_permission_eq Let_def and_then_def
        role_everyone_id_def role_position_or_max_def demo_role_def frame_simps)
  show "routed (drop_role 2 demo_community) (demo_member ''bob'' [0, 1]) [] [7]"
    by (simp add: routed_def drop_role_def demo_member_def image_iff)
qed (simp_all add: carries_def answering_def fixed_json_def)

text \<open>
  C36. Whoever can send to a client can make it leave a community: any bytes that read as a removal of
  the client's own pseudonym, from whomever and however they arrived, make it forget the community
  with its key and its rows, although no server needs to have removed anybody. Messages already
  stored stay, as do the rows of members and roles and the key in the last snapshot of the key store.
\<close>

theorem removal_notice_evicts:
  assumes "carries pf message (MemberRemoved cid pk)" and "pseudonym_in b cid = Some pk" and "c_faults b = []"
  shows "outcome (handle_app_message pf message) (\<lambda>_. evicted cid b) (\<lambda>_ _. False) b"
  unfolding handle_carried [OF assms(1)] handle_community_broadcast_def community_broadcast.case
  by (rule removal_evicts [OF assms(3,2)])

theorem removal_notice_evicts_witness:
  "outcome (handle_app_message (answering (MemberRemoved ''c1'' ''bob'') (c_mek demo_community)) [0])
     (\<lambda>_. evicted ''c1'' (sample_member (c_mek demo_community))) (\<lambda>_ _. False)
     (sample_member (c_mek demo_community))"
  by (rule removal_notice_evicts [of _ _ _ "''bob''"]) (simp_all add: carries_def answering_def fixed_json_def)

section \<open>Timeouts\<close>

text \<open>
  How long a timeout lasts. Its end is a 64-bit number of seconds, the sum of the server's clock and of the
  duration that the moderator sent.
\<close>

section \<open>The sum\<close>

lemma unat_sum_fits:
  fixes a b :: u64
  assumes "unat a + unat b < 2 ^ 64"
  shows "unat (a + b) = unat a + unat b"
  using assms by (simp add: unat_word_ariths)

lemma unat_sum_wraps:
  fixes a b :: u64
  assumes "2 ^ 64 \<le> unat a + unat b"
  shows "unat (a + b) < unat a"
proof -
  have "unat a < 2 ^ 64" "unat b < 2 ^ 64" using unsigned_less [of a] unsigned_less [of b] by simp_all
  then show ?thesis using assms by (simp add: unat_word_ariths mod_if) arith
qed

lemma timed_out_sum:
  fixes start duration now :: u64
  assumes "start \<le> now"
  shows "timed_out now (Some (start + duration)) \<longleftrightarrow>
    unat start + unat duration < 2 ^ 64 \<and> unat now < unat start + unat duration"
proof (cases "unat start + unat duration < 2 ^ 64")
  case True
  then show ?thesis by (simp add: timed_out_def word_less_nat_alt unat_sum_fits)
next
  case False
  then have "unat (start + duration) < unat start" by (intro unat_sum_wraps) simp
  then show ?thesis using False assms by (simp add: timed_out_def word_less_nat_alt word_le_nat_alt)
qed

lemma dispatch_timeout_eq:
  assumes "request_target st s (TimeoutMember t d reason) route ipc = Some cid"
  shows "dispatch_request env st s (TimeoutMember t d reason) route ipc = handle_timeout_member env st cid s t d reason"
  using assms by (simp add: dispatch_request_def request_target_def)

lemma timeout_set:
  assumes "get_community st cid = Some c" and "snd (handle_timeout_member env st cid s t d reason) = ResOk"
  shows "get_community (fst (handle_timeout_member env st cid s t d reason)) cid =
      Some (modify_member t (set_timeout (Some (now_secs env + d))) c)
    \<and> find_member c t \<noteq> None"
  using assms
  by (auto simp: handle_timeout_member_def member_with_permission_eq check_eqs Let_def frame_simps
      split: option.splits if_splits)

section \<open>The property\<close>

text \<open>
  C37. A timeout lasts as long as it was set for, if its end is a 64-bit number. After an accepted
  request the member is muted at exactly the times before the clock plus the duration, as numbers;
  a duration for which that sum needs a 65th bit wraps around and mutes the member at no time at
  all, although the request is accepted.
\<close>

theorem timeouts_end_when_asked:
  assumes "request_target st s (TimeoutMember t d reason) route ipc = Some cid" and "get_community st cid = Some c"
    and "snd (dispatch_request env st s (TimeoutMember t d reason) route ipc) = ResOk"
  shows "\<exists>c' m'. get_community (fst (dispatch_request env st s (TimeoutMember t d reason) route ipc)) cid = Some c'
    \<and> find_member c' t = Some m'
    \<and> (\<forall>now. now_secs env \<le> now \<longrightarrow> (timed_out now (m_timeout_until m') \<longleftrightarrow>
        unat (now_secs env) + unat d < 2 ^ 64 \<and> unat now < unat (now_secs env) + unat d))"
proof -
  obtain m where "find_member c t = Some m"
    and "get_community (fst (dispatch_request env st s (TimeoutMember t d reason) route ipc)) cid =
      Some (modify_member t (set_timeout (Some (now_secs env + d))) c)"
    using timeout_set [OF assms(2), of env s t d reason] assms(3) unfolding dispatch_timeout_eq [OF assms(1)] by auto
  then show ?thesis
    by (intro exI [of _ "modify_member t (set_timeout (Some (now_secs env + d))) c"]
        exI [of _ "set_timeout (Some (now_secs env + d)) m"])
      (simp add: members.lookup_modify set_timeout_def timed_out_sum)
qed

theorem timeouts_end_when_asked_witness:
  "\<exists>c' m'. get_community (fst (dispatch_request demo_env demo_state ''owner'' (TimeoutMember ''bob'' 18446744073709551615 None)
       None (Some ''c1''))) ''c1'' = Some c' \<and> find_member c' ''bob'' = Some m' \<and>
     \<not> timed_out (now_secs demo_env) (m_timeout_until m')"
proof -
  have "snd (dispatch_request demo_env demo_state ''owner'' (TimeoutMember ''bob'' 18446744073709551615 None) None (Some ''c1'')) = ResOk"
    by (simp add: dispatch_request_def handle_timeout_member_def member_with_permission_eq check_eqs Let_def)
  from timeouts_end_when_asked [OF _ demo_get this] show ?thesis
    by (auto simp: request_target_def demo_env_def)
qed

end
