(* ===== verification/Login.thy ===== *)
theory Login
  imports NodeEvents "HOL-Library.Sublist"
begin

text \<open>
  Identities of the client (\<open>commands/auth.rs\<close>, \<open>keystore.rs\<close>): creating one, unlocking it with its
  passphrase and restoring friends, communities and keys, logging out, and deleting it. The loops and
  windows that login starts are elsewhere or not modelled; waiting for the network is an argument.
\<close>

section \<open>The key store\<close>

text \<open>An access to a file or to Stronghold that may fail.\<close>

definition access :: "string \<Rightarrow> ('w, 'p, 'r, unit) act" where
  "access what = (\<lambda>c. case pop_client_fault c of
     (Some e, c1) \<Rightarrow> (Inl (ClientError (what @ e)), c1)
   | (None, c1) \<Rightarrow> (Inr (), c1))"

definition storage_error :: "string \<Rightarrow> string" where
  "storage_error e = show_crypto_error (StorageError e)"

definition identity_vault_key :: string where
  "identity_vault_key = ''identity/ed25519_private''"

text \<open>\<open>initialize_for_identity\<close>: without a snapshot file the store is empty.\<close>

definition initialize_key_store ::
  "('w, 'k, 'p, 'r) platform \<Rightarrow> string \<Rightarrow> string \<Rightarrow> ('w, 'p, 'r, vault) act" where
  "initialize_key_store pf public_key passphrase =
     (let key = sh_derive (pf_stronghold pf) passphrase
      in
      io_bind (gets (\<lambda>c. map_of (c_snapshots c) public_key)) (\<lambda>file.
      io_bind (case file of
          None \<Rightarrow> ok []
        | Some b \<Rightarrow> (case sh_load (pf_stronghold pf) key b of
              Inl e \<Rightarrow> fail (storage_error (''load snapshot: '' @ e))
            | Inr entries \<Rightarrow> ok entries)) (\<lambda>entries.
      io_bind (access (storage_error ''client init: '')) (\<lambda>_.
      ok \<lparr>vt_public_key = public_key, vt_key = key, vt_store = entries\<rparr>))))"

definition save_key_store ::
  "('w, 'k, 'p, 'r) platform \<Rightarrow> vault \<Rightarrow> ('w, 'p, 'r, unit) act" where
  "save_key_store pf v =
     io_bind (access (storage_error ''write client: '')) (\<lambda>_.
     io_bind (access (storage_error ''commit snapshot: '')) (\<lambda>_.
     modify (\<lambda>c. c\<lparr>c_snapshots := AList.update (vt_public_key v)
       (sh_commit (pf_stronghold pf) (vt_key v) (vt_store v)) (c_snapshots c)\<rparr>)))"

definition delete_snapshot :: "string \<Rightarrow> ('w, 'p, 'r, unit) act" where
  "delete_snapshot public_key =
     io_bind (gets (\<lambda>c. map_of (c_snapshots c) public_key)) (\<lambda>file.
     when_act (file \<noteq> None)
       (io_bind (access ''failed to delete keystore: '') (\<lambda>_.
        modify (\<lambda>c. c\<lparr>c_snapshots := AList.delete public_key (c_snapshots c)\<rparr>))))"

text \<open>\<open>load_key\<close> on the key store of the session, if it is unlocked.\<close>

definition vault_lookup :: "string \<Rightarrow> ('w, 'p, 'r, (string + bytes option) option) act" where
  "vault_lookup key = (\<lambda>c. case c_vault c of
     None \<Rightarrow> (Inr None, c)
   | Some v \<Rightarrow>
       (case pop_client_fault c of
          (Some e, c1) \<Rightarrow> (Inr (Some (Inl e)), c1)
        | (None, c1) \<Rightarrow> (Inr (Some (Inr (map_of (vt_store v) key))), c1)))"

section \<open>A new identity\<close>

record login_result =
  lr_public_key :: string
  lr_display_name :: string

text \<open>\<open>trim().is_empty()\<close>: only white space of Unicode, in UTF-8.\<close>

fun is_blank :: "bytes \<Rightarrow> bool" where
  "is_blank [] = True"
| "is_blank (a # bs) =
     (if a \<in> {9, 10, 11, 12, 13, 32} then is_blank bs
      else case bs of
        [] \<Rightarrow> False
      | b # cs \<Rightarrow>
          if a = 0xC2 \<and> b \<in> {0x85, 0xA0} then is_blank cs
          else (case cs of
              [] \<Rightarrow> False
            | c # ds \<Rightarrow>
                (a = 0xE1 \<and> b = 0x9A \<and> c = 0x80 \<or> a = 0xE2 \<and> b = 0x80 \<and> (0x80 \<le> c \<and> c \<le> 0x8A \<or> c \<in> {0xA8, 0xA9, 0xAF}) \<or>
                 a = 0xE2 \<and> b = 0x81 \<and> c = 0x9F \<or> a = 0xE3 \<and> b = 0x80 \<and> c = 0x80) \<and> is_blank ds))"

definition forget_session :: "('w, 'p, 'r, unit) act" where
  "forget_session = modify (\<lambda>c. c\<lparr>c_identity := None, c_friends := [], c_communities := []\<rparr>)"

definition enter_identity :: "string \<Rightarrow> string \<Rightarrow> ('w, 'p, 'r, unit) act" where
  "enter_identity public_key display_name = modify (\<lambda>c. c\<lparr>c_identity := Some
     \<lparr>is_public_key = public_key, is_display_name = display_name, is_status = Online, is_status_message = []\<rparr>\<rparr>)"

definition create_identity_core ::
  "('w, 'k, 'p, 'r) platform \<Rightarrow> string \<Rightarrow> string option \<Rightarrow> ('w, 'p, 'r, login_result \<times> bytes) act" where
  "create_identity_core pf passphrase display_name =
     io_bind forget_session (\<lambda>_.
     io_bind (access ''failed to create config dir: '') (\<lambda>_.
     io_bind (draw 32) (\<lambda>secret.
     let public_key = hex_encode (pf_public_of pf secret);
         name = (case display_name of
             Some s \<Rightarrow> if is_blank (as_bytes s) then ''User_'' @ take 8 public_key else s
           | None \<Rightarrow> ''User_'' @ take 8 public_key)
     in
     io_bind (gets millis_i64) (\<lambda>now.
     io_bind (initialize_key_store pf public_key passphrase) (\<lambda>v.
     io_bind (access (storage_error ''store insert: '')) (\<lambda>_.
     let v = v\<lparr>vt_store := AList.update identity_vault_key secret (vt_store v)\<rparr>
     in
     io_bind (save_key_store pf v) (\<lambda>_.
     io_bind (modify (\<lambda>c. c\<lparr>c_vault := Some v\<rparr>)) (\<lambda>_.
     io_bind (execute pf [] (insert_identity public_key name now)) (\<lambda>_.
     io_bind (enter_identity public_key name) (\<lambda>_.
     ok (\<lparr>lr_public_key = public_key, lr_display_name = name\<rparr>, secret)))))))))))"

section \<open>What login restores\<close>

subsection \<open>Friends\<close>

definition friend_of_row :: "client_db \<Rightarrow> friend_row \<Rightarrow> friend_state" where
  "friend_of_row d r =
     \<lparr>fs_public_key = fw_public_key r, fs_display_name = or_empty (fw_display_name r), fs_nickname = fw_nickname r,
      fs_status = Offline, fs_status_message = None, fs_game_info = None,
      fs_group = Option.bind (fw_group_id r) (\<lambda>i. select_group_name i d), fs_unread_count = 0,
      fs_dht_record_key = fw_dht_record_key r, fs_last_seen_at = fw_last_seen_at r,
      fs_local_conversation_key = fw_local_conversation_key r,
      fs_remote_conversation_key = fw_remote_conversation_key r, fs_mailbox_dht_key = fw_mailbox_dht_key r,
      fs_last_heartbeat_at = None,
      fs_friendship_state = (if fw_friendship_state r = ''pending_out'' then PendingOut else Accepted)\<rparr>"

definition select_friends :: "string \<Rightarrow> client_db \<Rightarrow> friend_state list" where
  "select_friends owner d = map (friend_of_row d) (filter (\<lambda>r. fw_owner r = owner) (ct_friends d))"

definition load_friends_from_db :: "string \<Rightarrow> ('w, 'p, 'r, unit) act" where
  "load_friends_from_db owner =
     io_bind (query [] (select_friends owner)) (\<lambda>friends.
     modify (\<lambda>c. c\<lparr>c_friends := fold (\<lambda>f. AList.update (fs_public_key f) f) friends (c_friends c)\<rparr>))"

subsection \<open>Communities\<close>

text \<open>\<open>get::<u32>\<close> and \<open>get::<i32>\<close> on a number that does not fit, with the default.\<close>

definition u32_or_zero :: "int \<Rightarrow> u32" where
  "u32_or_zero i = (if 0 \<le> i \<and> i < 2 ^ 32 then of_int i else 0)"

definition i32_or_zero :: "int \<Rightarrow> int" where
  "i32_or_zero i = (if - (2 ^ 31) \<le> i \<and> i < 2 ^ 31 then i else 0)"

definition role_of_client_row :: "community_role_row \<Rightarrow> role_dto" where
  "role_of_client_row r =
     \<lparr>rdto_id = u32_or_zero (ko_role_id r), rdto_name = ko_name r, rdto_color = u32_or_zero (ko_color r),
      rdto_permissions = of_int (ko_permissions r), rdto_position = i32_or_zero (ko_position r),
      rdto_hoist = ko_hoist r, rdto_mentionable = ko_mentionable r\<rparr>"

text \<open>Channels come in the order of their rows: no statement sets \<open>sort_order\<close>.\<close>

definition community_of_row ::
  "('w, 'k, 'p, 'r) platform \<Rightarrow> community_channel_row list \<Rightarrow> community_role_row list \<Rightarrow> community_row
   \<Rightarrow> client_community" where
  "community_of_row pf channels roles r =
     refresh_my_role
       \<lparr>cc_id = kc_id r, cc_name = kc_name r, cc_description = kc_description r,
        cc_channels = map (\<lambda>h. new_client_channel (kh_id h) (kh_name h)
            (if kh_channel_type h = ''voice'' then VoiceChannel else TextChannel))
          (filter (\<lambda>h. kh_community_id h = kc_id r) channels),
        cc_my_role_ids = parse_ids pf [0, 1] (kc_my_role_ids r),
        cc_roles = map role_of_client_row (filter (\<lambda>o'. ko_community_id o' = kc_id r) roles),
        cc_my_role = Some (kc_my_role r), cc_dht_record_key = kc_dht_record_key r,
        cc_dht_owner_keypair = kc_dht_owner_keypair r, cc_my_pseudonym_key = kc_my_pseudonym_key r,
        cc_mek_generation = of_int (kc_mek_generation r), cc_server_route_blob = kc_server_route_blob r,
        cc_is_hosted = kc_is_hosted r\<rparr>"

definition load_client_communities_from_db ::
  "('w, 'k, 'p, 'r) platform \<Rightarrow> string \<Rightarrow> ('w, 'p, 'r, unit) act" where
  "load_client_communities_from_db pf owner =
     io_bind (query [] (\<lambda>d. filter (\<lambda>r. kc_owner r = owner) (ct_communities d))) (\<lambda>rows.
     io_bind (query [] (\<lambda>d. sort_key ko_position (filter (\<lambda>r. ko_owner r = owner) (ct_roles d)))) (\<lambda>roles.
     io_bind (query [] (\<lambda>d. filter (\<lambda>r. kh_owner r = owner) (ct_channels d))) (\<lambda>channels.
     modify (\<lambda>c. c\<lparr>c_communities := fold (\<lambda>r. AList.update (kc_id r) (community_of_row pf channels roles r))
       rows (c_communities c)\<rparr>))))"

subsection \<open>Pseudonyms and keys\<close>

text \<open>
  The key kept for a community; for a hosted one that has none a new key of generation 1 is made and
  kept. The flag says that it was made.
\<close>

definition restore_mek ::
  "('w, 'k, 'p, 'r) platform \<Rightarrow> string \<Rightarrow> bool \<Rightarrow> ('w, 'p, 'r, (media_encryption_key \<times> bool) option) act" where
  "restore_mek pf cid hosted =
     io_bind (vault_lookup (mek_vault_key cid)) (\<lambda>found.
     case found of
       None \<Rightarrow> ok None
     | Some (Inl e) \<Rightarrow> ok None
     | Some (Inr entry) \<Rightarrow>
         (case Option.bind entry (\<lambda>b. if 40 \<le> length b then Some b else None) of
            Some b \<Rightarrow> ok (Some (\<lparr>mek_key = take 32 (drop 8 b), mek_generation = of_nat (le_nat (take 8 b))\<rparr>, False))
          | None \<Rightarrow>
              if hosted
              then io_bind (generate_mek 1) (\<lambda>mek.
                   io_bind (keep_mek pf cid (mek_payload mek)) (\<lambda>_.
                   ok (Some (mek, True))))
              else ok None))"

fun restore_meks ::
  "('w, 'k, 'p, 'r) platform \<Rightarrow> (string \<times> bool) list
   \<Rightarrow> ('w, 'p, 'r, (string \<times> media_encryption_key \<times> bool) list) act" where
  "restore_meks pf [] = ok []"
| "restore_meks pf ((cid, hosted) # rest) =
     io_bind (restore_mek pf cid hosted) (\<lambda>restored.
     io_bind (restore_meks pf rest) (\<lambda>others.
     ok (case restored of None \<Rightarrow> others | Some (mek, made) \<Rightarrow> (cid, mek, made) # others)))"

definition restored_community ::
  "('w, 'k, 'p, 'r) platform \<Rightarrow> bytes \<Rightarrow> (string \<times> media_encryption_key \<times> bool) list \<Rightarrow> string \<Rightarrow> client_community
   \<Rightarrow> client_community" where
  "restored_community pf secret restored cid cc = cc\<lparr>
     cc_my_pseudonym_key := (case cc_my_pseudonym_key cc of
         None \<Rightarrow> Some (hex_encode (pf_public_of pf (pf_pseudonym_secret pf secret cid)))
       | Some p \<Rightarrow> Some p),
     cc_mek_generation := (if list_ex (\<lambda>(k, mek, made). k = cid \<and> made) restored then 1 else cc_mek_generation cc)\<rparr>"

definition restore_community_pseudonyms_and_meks ::
  "('w, 'k, 'p, 'r) platform \<Rightarrow> bytes \<Rightarrow> ('w, 'p, 'r, unit) act" where
  "restore_community_pseudonyms_and_meks pf secret =
     io_bind (gets (\<lambda>c. map (\<lambda>(k, cc). (cc_id cc, cc_is_hosted cc)) (c_communities c))) (\<lambda>infos.
     io_bind (restore_meks pf infos) (\<lambda>restored.
     io_bind (modify (\<lambda>c. c\<lparr>c_communities :=
       map (\<lambda>(k, cc). (k, if k \<in> fst ` set infos then restored_community pf secret restored k cc else cc))
         (c_communities c)\<rparr>)) (\<lambda>_.
     modify (\<lambda>c. c\<lparr>c_mek_cache := fold (\<lambda>(cid, mek, made). AList.update cid mek) restored (c_mek_cache c)\<rparr>))))"

section \<open>Login\<close>

text \<open>The record keys and key pairs of the row of the identity (\<open>IdentityDhtColumns\<close>, \<open>DhtKeysConfig\<close>).\<close>

record dht_keys_config =
  dk_existing_dht_key :: "string option"
  dk_existing_friend_list_key :: "string option"
  dk_dht_owner_keypair :: "string option"
  dk_friend_list_owner_keypair :: "string option"
  dk_account_dht_key :: "string option"
  dk_account_owner_keypair :: "string option"
  dk_mailbox_dht_key :: "string option"

definition dht_columns :: "identity_row \<Rightarrow> dht_keys_config" where
  "dht_columns r =
     \<lparr>dk_existing_dht_key = ir_dht_record_key r, dk_existing_friend_list_key = ir_friend_list_dht_key r,
      dk_dht_owner_keypair = ir_dht_owner_keypair r, dk_friend_list_owner_keypair = ir_friend_list_owner_keypair r,
      dk_account_dht_key = ir_account_dht_key r, dk_account_owner_keypair = ir_account_owner_keypair r,
      dk_mailbox_dht_key = ir_mailbox_dht_key r\<rparr>"

definition wrong_passphrase :: "string \<Rightarrow> string \<Rightarrow> string" where
  "wrong_passphrase text e = (if sublist ''snapshot'' e \<or> sublist ''decrypt'' e then text else e)"

definition unlock ::
  "('w, 'k, 'p, 'r) platform \<Rightarrow> string \<Rightarrow> string \<Rightarrow> string \<Rightarrow> ('w, 'p, 'r, vault) act" where
  "unlock pf text public_key passphrase =
     io_bind (result (initialize_key_store pf public_key passphrase)) (\<lambda>opened.
     case opened of Inl e \<Rightarrow> fail (wrong_passphrase text e) | Inr v \<Rightarrow> ok v)"

definition login_core ::
  "('w, 'k, 'p, 'r) platform \<Rightarrow> string \<Rightarrow> string
   \<Rightarrow> ('w, 'p, 'r, login_result \<times> bytes \<times> dht_keys_config) act" where
  "login_core pf public_key passphrase =
     io_bind forget_session (\<lambda>_.
     io_bind (query [] (select_identity public_key)) (\<lambda>row.
     io_bind (ok_or (''no identity found '' @ em_dash @ '' please create one first'') row) (\<lambda>r.
     io_bind (unlock pf (''Wrong passphrase '' @ em_dash @ '' unable to unlock keystore'') public_key passphrase) (\<lambda>v.
     io_bind (access (storage_error ''store get: '')) (\<lambda>_.
     io_bind (ok_or (''No private key found in keystore '' @ em_dash @
       '' identity may be corrupted. Please create a new identity.'') (map_of (vt_store v) identity_vault_key)) (\<lambda>secret.
     if length secret \<noteq> 32 then fail ''invalid secret key length in Stronghold''
     else if hex_encode (pf_public_of pf secret) \<noteq> public_key
     then fail (''Wrong passphrase '' @ em_dash @ '' decrypted key does not match stored identity'')
     else
       io_bind (modify (\<lambda>c. c\<lparr>c_vault := Some v\<rparr>)) (\<lambda>_.
       io_bind (enter_identity public_key (or_empty (ir_display_name r))) (\<lambda>_.
       io_bind (load_friends_from_db public_key) (\<lambda>_.
       io_bind (load_client_communities_from_db pf public_key) (\<lambda>_.
       io_bind (restore_community_pseudonyms_and_meks pf secret) (\<lambda>_.
       ok (\<lparr>lr_public_key = public_key, lr_display_name = or_empty (ir_display_name r)\<rparr>, secret,
           dht_columns r))))))))))))"

text \<open>
  Every login starts with empty stores for sessions and prekeys. The registration id is the first
  four bytes of the public key.
\<close>

definition initialize_signal_manager ::
  "('w, 'k, 'p, 'r) platform \<Rightarrow> bytes \<Rightarrow> ('w, 'p, 'r, bytes option) act" where
  "initialize_signal_manager pf secret =
     (let x25519_secret = pf_x25519_secret pf secret;
          registration_id = of_nat (le_nat (take 4 (pf_public_of pf secret)))
      in
      io_bind (modify (\<lambda>c. c\<lparr>c_signal := Some (new_signal_manager x25519_secret
        (x25519_public (pf_crypto pf) x25519_secret) registration_id)\<rparr>)) (\<lambda>_.
      io_bind (draw 32) (\<lambda>signed_prekey_secret.
      io_bind (draw 32) (\<lambda>one_time_secret.
      io_bind (signal_call (generate_prekey_bundle (pf_crypto pf) signed_prekey_secret one_time_secret 1 (Some 1))) (\<lambda>r.
      io_bind (modify (\<lambda>c. c\<lparr>c_identity_secret := Some secret\<rparr>)) (\<lambda>_.
      ok (case r of
          Some (Inr bundle) \<Rightarrow> (case to_json (pf_bundle_json pf) bundle of Inl e \<Rightarrow> None | Inr b \<Rightarrow> Some b)
        | _ \<Rightarrow> None)))))))"

text \<open>
  The known keys of profile and friend list are set on the node before the services start; without
  a node no service starts.
\<close>

definition preset_dht_keys :: "dht_keys_config \<Rightarrow> ('w, 'p, 'r, unit) act" where
  "preset_dht_keys keys = modify (\<lambda>c. c\<lparr>c_node := map_option (\<lambda>nh. nh\<lparr>
     nh_profile_dht_key := (case dk_existing_dht_key keys of None \<Rightarrow> nh_profile_dht_key nh | k \<Rightarrow> k),
     nh_friend_list_dht_key := (case dk_existing_friend_list_key keys of None \<Rightarrow> nh_friend_list_dht_key nh | k \<Rightarrow> k)\<rparr>)
     (c_node c)\<rparr>)"

text \<open>
  The server process for the hosted communities (\<open>maybe_spawn_server\<close>): whether it can be started is
  an argument, and a server of an earlier session is asked to end.
\<close>

definition hosted_requests :: "('w, 'p, 'r) client \<Rightarrow> client_ipc_request list" where
  "hosted_requests c =
     (let creator = (case c_identity c of None \<Rightarrow> [] | Some i \<Rightarrow> is_display_name i)
      in List.map_filter (\<lambda>(k, cc).
           if cc_is_hosted cc
           then (case (cc_dht_record_key cc, cc_dht_owner_keypair cc) of
               (Some dht_key, Some keypair) \<Rightarrow> Some (AskHostCommunity (cc_id cc) dht_key keypair (cc_name cc)
                 (or_empty (cc_my_pseudonym_key cc)) creator)
             | _ \<Rightarrow> None)
           else None) (c_communities c))"

definition send_host_community_ipc ::
  "('w, 'k, 'p, 'r) platform \<Rightarrow> client_ipc_request list \<Rightarrow> ('w, 'p, 'r, unit) act" where
  "send_host_community_ipc pf requests = for_each (\<lambda>q. ignore (host_community_blocking pf q 10)) requests"

definition ask_server_to_end :: "('w, 'k, 'p, 'r) platform \<Rightarrow> bool \<Rightarrow> ('w, 'p, 'r, unit) act" where
  "ask_server_to_end pf socket_exists = when_act socket_exists (ignore (veilid (pf_ipc pf AskShutdown)))"

definition maybe_spawn_server ::
  "('w, 'k, 'p, 'r) platform \<Rightarrow> bool \<Rightarrow> bool \<Rightarrow> bool \<Rightarrow> ('w, 'p, 'r, unit) act" where
  "maybe_spawn_server pf binary_found socket_exists spawned =
     io_bind (gets hosted_requests) (\<lambda>requests.
     when_act (requests \<noteq> [] \<and> binary_found)
       (io_bind (ask_server_to_end pf socket_exists) (\<lambda>_.
        when_act spawned (send_host_community_ipc pf requests))))"

definition start_background_services ::
  "('w, 'k, 'p, 'r) platform \<Rightarrow> bool \<Rightarrow> bool \<Rightarrow> bool \<Rightarrow> bytes \<Rightarrow> dht_keys_config \<Rightarrow> ('w, 'p, 'r, bytes option) act" where
  "start_background_services pf binary_found socket_exists spawned secret keys =
     io_bind (initialize_signal_manager pf secret) (\<lambda>bundle.
     io_bind (gets c_node) (\<lambda>node.
     io_bind (when_act (node \<noteq> None)
       (io_bind (preset_dht_keys keys) (\<lambda>_. maybe_spawn_server pf binary_found socket_exists spawned))) (\<lambda>_.
     ok bundle)))"

definition no_dht_keys :: dht_keys_config where
  "no_dht_keys = \<lparr>dk_existing_dht_key = None, dk_existing_friend_list_key = None, dk_dht_owner_keypair = None,
     dk_friend_list_owner_keypair = None, dk_account_dht_key = None, dk_account_owner_keypair = None,
     dk_mailbox_dht_key = None\<rparr>"

definition create_identity ::
  "('w, 'k, 'p, 'r) platform \<Rightarrow> bool \<Rightarrow> bool \<Rightarrow> bool \<Rightarrow> string \<Rightarrow> string option \<Rightarrow> ('w, 'p, 'r, login_result) act" where
  "create_identity pf binary_found socket_exists spawned passphrase display_name =
     io_bind (access []) (\<lambda>_.
     io_bind (create_identity_core pf passphrase display_name) (\<lambda>(logged_in, secret).
     io_bind (start_background_services pf binary_found socket_exists spawned secret no_dht_keys) (\<lambda>_.
     ok logged_in)))"

definition login ::
  "('w, 'k, 'p, 'r) platform \<Rightarrow> bool \<Rightarrow> bool \<Rightarrow> bool \<Rightarrow> bool \<Rightarrow> string \<Rightarrow> string \<Rightarrow> ('w, 'p, 'r, login_result) act" where
  "login pf binary_found socket_exists spawned ready public_key passphrase =
     io_bind (access []) (\<lambda>_.
     io_bind (login_core pf public_key passphrase) (\<lambda>(logged_in, secret, keys).
     io_bind (start_background_services pf binary_found socket_exists spawned secret keys) (\<lambda>_.
     io_bind (when_act ready (ignore (sync_friends_now pf))) (\<lambda>_.
     ok logged_in))))"

definition get_identity :: "('w, 'p, 'r, login_result option) act" where
  "get_identity = gets (\<lambda>c. map_option (\<lambda>i. \<lparr>lr_public_key = is_public_key i, lr_display_name = is_display_name i\<rparr>)
     (c_identity c))"

record identity_summary =
  iz_public_key :: string
  iz_display_name :: string
  iz_created_at :: int
  iz_has_avatar :: bool
  iz_avatar_base64 :: "string option"

definition list_identities :: "('w, 'k, 'p, 'r) platform \<Rightarrow> ('w, 'p, 'r, identity_summary list) act" where
  "list_identities pf = query [] (\<lambda>d. map (\<lambda>r.
     \<lparr>iz_public_key = ir_public_key r, iz_display_name = or_empty (ir_display_name r), iz_created_at = ir_created_at r,
      iz_has_avatar = ir_avatar r \<noteq> None, iz_avatar_base64 = map_option (pf_base64 pf) (ir_avatar r)\<rparr>)
     (select_identities d))"

section \<open>Logout\<close>

text \<open>The records opened in the session, in some order.\<close>

definition close_open_records :: "('w, 'k, 'p, 'r) platform \<Rightarrow> ('w, 'p, 'r, unit) act" where
  "close_open_records pf =
     io_bind (gets (\<lambda>c. case (c_node c, c_dht c) of
         (Some nh, Some h) \<Rightarrow> sorted_list_of_set (dh_open_records h)
       | _ \<Rightarrow> [])) (\<lambda>keys.
     for_each (\<lambda>k. ignore (io_bind (parse_key pf k) (\<lambda>record_key. veilid (rc_close (pf_rc pf) record_key)))) keys)"

definition forget_user_records :: "'r dht_handle \<Rightarrow> 'r dht_handle" where
  "forget_user_records h = h\<lparr>dh_key_to_friend := [], dh_conversation_key_to_friend := [], dh_open_records := {},
     dh_manager := (dh_manager h)\<lparr>route_cache := [], imported_routes := [], route_id_to_pubkey := [],
       dm_profile_key := None, dm_friend_list_key := None\<rparr>\<rparr>"

definition forget_user_keys :: "'p node_handle \<Rightarrow> 'p node_handle" where
  "forget_user_keys nh = nh\<lparr>nh_route_blob := None, nh_profile_dht_key := None, nh_profile_owner_keypair := None,
     nh_friend_list_dht_key := None, nh_friend_list_owner_keypair := None, nh_account_dht_key := None,
     nh_mailbox_dht_key := None\<rparr>"

definition logout_cleanup :: "('w, 'k, 'p, 'r) platform \<Rightarrow> bool \<Rightarrow> ('w, 'p, 'r, unit) act" where
  "logout_cleanup pf socket_exists =
     io_bind (modify (\<lambda>c. c\<lparr>c_pre_away := None\<rparr>)) (\<lambda>_.
     io_bind (close_open_records pf) (\<lambda>_.
     io_bind (gets c_routing) (\<lambda>routing.
     io_bind (when_act (routing \<noteq> None) (ignore (release_private_route pf))) (\<lambda>_.
     io_bind (edit_dht forget_user_records) (\<lambda>_.
     io_bind (modify (\<lambda>c. c\<lparr>c_node := map_option forget_user_keys (c_node c)\<rparr>)) (\<lambda>_.
     io_bind emit_network_status (\<lambda>_.
     io_bind (modify (\<lambda>c. c\<lparr>c_identity := None, c_friends := [], c_communities := [], c_signal := None,
       c_identity_secret := None, c_mek_cache := []\<rparr>)) (\<lambda>_.
     ask_server_to_end pf socket_exists))))))))"

text \<open>The status is published as offline while the record can still be written.\<close>

definition end_session :: "('w, 'k, 'p, 'r) platform \<Rightarrow> bool \<Rightarrow> ('w, 'p, 'r, unit) act" where
  "end_session pf socket_exists =
     io_bind (modify (\<lambda>c. c\<lparr>c_vault := None, c_pre_away := None\<rparr>)) (\<lambda>_.
     io_bind (gets (\<lambda>c. map_option is_status (c_identity c))) (\<lambda>status.
     io_bind (when_act (status \<noteq> Some Offline) (ignore (publish_own_status pf Offline))) (\<lambda>_.
     logout_cleanup pf socket_exists)))"

text \<open>The command also opens the login window, which can fail.\<close>

definition logout :: "('w, 'k, 'p, 'r) platform \<Rightarrow> bool \<Rightarrow> string option \<Rightarrow> ('w, 'p, 'r, unit) act" where
  "logout pf socket_exists window_error =
     io_bind (end_session pf socket_exists) (\<lambda>_.
     case window_error of None \<Rightarrow> ok () | Some e \<Rightarrow> fail e)"

definition delete_identity ::
  "('w, 'k, 'p, 'r) platform \<Rightarrow> bool \<Rightarrow> string \<Rightarrow> string \<Rightarrow> ('w, 'p, 'r, unit) act" where
  "delete_identity pf socket_exists public_key passphrase =
     io_bind (access []) (\<lambda>_.
     io_bind (unlock pf ''Wrong passphrase'' public_key passphrase) (\<lambda>_.
     io_bind (gets (\<lambda>c. case c_identity c of None \<Rightarrow> False | Some i \<Rightarrow> is_public_key i = public_key)) (\<lambda>is_active.
     io_bind (when_act is_active (end_session pf socket_exists)) (\<lambda>_.
     io_bind (execute pf [] (delete_identity_row public_key)) (\<lambda>_.
     delete_snapshot public_key)))))"

section \<open>The node\<close>

text \<open>At the start of the program; \<open>started\<close> is what \<open>RekindleNode::start\<close> returns.\<close>

definition initialize_node :: "protocol_error + unit \<Rightarrow> ('w, 'p, 'r, unit) act" where
  "initialize_node started =
     io_bind (access ''failed to resolve app data dir: '') (\<lambda>_.
     io_bind (access ''failed to create veilid storage dir: '') (\<lambda>_.
     case started of
       Inl e \<Rightarrow> fail (''failed to start veilid node: '' @ show_protocol_error e)
     | Inr _ \<Rightarrow> modify (\<lambda>c. c\<lparr>
         c_node := Some \<lparr>nh_attachment_state = ''detached'', nh_is_attached = False, nh_public_internet_ready = False,
           nh_route_blob = None, nh_profile_dht_key = None, nh_profile_owner_keypair = None,
           nh_friend_list_dht_key = None, nh_friend_list_owner_keypair = None, nh_account_dht_key = None,
           nh_mailbox_dht_key = None\<rparr>,
         c_dht := Some \<lparr>dh_manager = new_manager, dh_key_to_friend = [], dh_conversation_key_to_friend = [],
           dh_open_records = {}\<rparr>,
         c_routing := Some \<lparr>rm_route_id = None, rm_route_blob = None\<rparr>\<rparr>)))"

text \<open>At its end; that the API is shut down last is not seen by the client.\<close>

definition shutdown_app :: "('w, 'k, 'p, 'r) platform \<Rightarrow> ('w, 'p, 'r, unit) act" where
  "shutdown_app pf =
     io_bind (close_open_records pf) (\<lambda>_.
     io_bind (gets c_routing) (\<lambda>routing.
     io_bind (when_act (routing \<noteq> None) (ignore (release_private_route pf))) (\<lambda>_.
     modify (\<lambda>c. c\<lparr>c_routing := None, c_dht := None, c_node := None\<rparr>))))"

section \<open>Publication\<close>

text \<open>
  What a login publishes in the background (\<open>commands/auth.rs\<close>): a private route, the mailbox, the
  profile, the friend list and the account record. Each record is reused when it can be opened for
  writing, and made anew otherwise; its key and key pair are noted on the node and in the row of the
  identity. \<open>COALESCE\<close> keeps the old key pair when there is no new one.
\<close>

definition edit_node :: "('p node_handle \<Rightarrow> 'p node_handle) \<Rightarrow> ('w, 'p, 'r, unit) act" where
  "edit_node f = modify (\<lambda>c. c\<lparr>c_node := map_option f (c_node c)\<rparr>)"

definition coalesce :: "'a option \<Rightarrow> 'a option \<Rightarrow> 'a option" where
  "coalesce x y = (case x of None \<Rightarrow> y | Some z \<Rightarrow> Some z)"

definition no_keypair_error :: string where
  "no_keypair_error = ''no owner keypair '' @ em_dash @ '' cannot write to existing record''"

section \<open>The private route\<close>

fun allocate_route_with_retry ::
  "('w, 'k, 'p, 'r) platform \<Rightarrow> nat \<Rightarrow> ('w, 'p, 'r, bytes option) act" where
  "allocate_route_with_retry pf 0 = ok None"
| "allocate_route_with_retry pf (Suc attempts) =
     io_bind (gets c_node) (\<lambda>node.
     if node = None then ok None
     else
       io_bind (result (veilid (pf_new_route pf))) (\<lambda>allocated.
       case allocated of
         Inl e \<Rightarrow> allocate_route_with_retry pf attempts
       | Inr (route_id, blob) \<Rightarrow>
           io_bind (edit_routing (set_allocated_route route_id blob)) (\<lambda>_.
           io_bind (edit_node (\<lambda>nh. nh\<lparr>nh_route_blob := Some blob\<rparr>)) (\<lambda>_.
           io_bind emit_network_status (\<lambda>_.
           ok (Some blob))))))"

section \<open>The mailbox\<close>

text \<open>Its owner is the key of the identity, so its key is always the same.\<close>

definition publish_mailbox ::
  "('w, 'k, 'p, 'r) platform \<Rightarrow> string option \<Rightarrow> bytes option \<Rightarrow> ('w, 'p, 'r, unit) act" where
  "publish_mailbox pf existing_mailbox_key route_blob =
     io_bind (gets (\<lambda>c. (c_identity c, c_identity_secret c, c_node c))) (\<lambda>(identity, sk, node).
     io_bind (ok_or ''identity not set before mailbox publish'' identity) (\<lambda>i.
     io_bind (ok_or ''identity secret not available'' sk) (\<lambda>secret.
     io_bind (ok_or ''node not initialized before mailbox publish'' node) (\<lambda>_.
     let keypair = pf_identity_keypair pf (pf_public_of pf secret) secret;
         create = describe ''create mailbox: '' (protocol (create_mailbox (pf_rc pf) keypair))
     in
     io_bind (case existing_mailbox_key of
         None \<Rightarrow> create
       | Some key \<Rightarrow>
           io_bind (result (protocol (open_mailbox_writable (pf_rc pf) key keypair))) (\<lambda>opened.
           case opened of Inr _ \<Rightarrow> ok key | Inl e \<Rightarrow> create)) (\<lambda>mailbox_key.
     io_bind (case route_blob of
         None \<Rightarrow> ok ()
       | Some blob \<Rightarrow> when_act (blob \<noteq> []) (describe ''update mailbox route: ''
           (protocol (update_mailbox_route (pf_rc pf) mailbox_key blob)))) (\<lambda>_.
     io_bind (edit_node (\<lambda>nh. nh\<lparr>nh_mailbox_dht_key := Some mailbox_key\<rparr>)) (\<lambda>_.
     io_bind (edit_dht (track_open_record mailbox_key)) (\<lambda>_.
     execute pf [] (update_identity (is_public_key i) (\<lambda>r. r\<lparr>ir_mailbox_dht_key := Some mailbox_key\<rparr>))))))))))"

section \<open>The profile\<close>

definition try_update_existing_profile ::
  "('w, 'k, 'p, 'r) platform \<Rightarrow> string \<Rightarrow> string \<Rightarrow> string \<Rightarrow> bytes \<Rightarrow> bytes \<Rightarrow> 'p option \<Rightarrow> ('w, 'p, 'r, unit) act" where
  "try_update_existing_profile pf key display_name status_message bundle route_blob owner_keypair =
     io_bind (case owner_keypair of
         Some keypair \<Rightarrow> describe ''open writable: '' (protocol (dht_open_record_writable (pf_rc pf) key keypair))
       | None \<Rightarrow> fail no_keypair_error) (\<lambda>_.
     io_bind (describe ''display name: '' (protocol (set_value (pf_rc pf) key 0 (as_bytes display_name)))) (\<lambda>_.
     io_bind (describe ''status message: '' (protocol (set_value (pf_rc pf) key 1 (as_bytes status_message)))) (\<lambda>_.
     io_bind (describe ''status: '' (protocol (set_value (pf_rc pf) key 2 [0]))) (\<lambda>_.
     io_bind (describe ''prekey bundle: '' (protocol (set_value (pf_rc pf) key 5 bundle))) (\<lambda>_.
     describe ''route blob: '' (protocol (set_value (pf_rc pf) key 6 route_blob)))))))"

definition publish_profile_to_dht ::
  "('w, 'k, 'p, 'r) platform \<Rightarrow> bytes option \<Rightarrow> string option \<Rightarrow> string option \<Rightarrow> ('w, 'p, 'r, unit) act" where
  "publish_profile_to_dht pf prekey_bundle existing_dht_key keypair_text =
     io_bind (gets (\<lambda>c. (c_identity c, c_node c, millis_i64 c))) (\<lambda>(identity, node, now).
     io_bind (ok_or ''identity not set before DHT publish'' identity) (\<lambda>i.
     io_bind (ok_or ''node not initialized before DHT publish'' node) (\<lambda>nh.
     let route_blob = or_empty (nh_route_blob nh);
         bundle = or_empty prekey_bundle;
         owner_keypair = Option.bind keypair_text (pf_parse_keypair pf);
         create = describe ''failed to create DHT profile: '' (protocol
           (create_profile (pf_rc pf) now (is_display_name i) (is_status_message i) bundle route_blob))
     in
     io_bind (case existing_dht_key of
         None \<Rightarrow> create
       | Some key \<Rightarrow>
           io_bind (result (try_update_existing_profile pf key (is_display_name i) (is_status_message i) bundle
             route_blob owner_keypair)) (\<lambda>updated.
           case updated of Inr _ \<Rightarrow> ok (key, None) | Inl e \<Rightarrow> create)) (\<lambda>(profile_key, new_keypair).
     io_bind (edit_node (\<lambda>nh. nh\<lparr>nh_profile_dht_key := Some profile_key,
       nh_profile_owner_keypair := coalesce new_keypair owner_keypair\<rparr>)) (\<lambda>_.
     io_bind (edit_dht (\<lambda>h. track_open_record profile_key
       (h\<lparr>dh_manager := (dh_manager h)\<lparr>dm_profile_key := Some profile_key\<rparr>\<rparr>))) (\<lambda>_.
     execute pf [] (update_identity (is_public_key i) (\<lambda>r. r\<lparr>ir_dht_record_key := Some profile_key,
       ir_dht_owner_keypair := coalesce (map_option (pf_show_keypair pf) new_keypair) (ir_dht_owner_keypair r)\<rparr>))))))))"

section \<open>The friend list\<close>

definition publish_friend_list_to_dht ::
  "('w, 'k, 'p, 'r) platform \<Rightarrow> string option \<Rightarrow> string option \<Rightarrow> ('w, 'p, 'r, unit) act" where
  "publish_friend_list_to_dht pf existing_friend_list_key keypair_text =
     io_bind (gets (\<lambda>c. (c_identity c, c_node c))) (\<lambda>(identity, node).
     io_bind (ok_or ''identity not set before friend list publish'' identity) (\<lambda>i.
     io_bind (ok_or ''node not initialized before friend list creation'' node) (\<lambda>_.
     let owner_keypair = Option.bind keypair_text (pf_parse_keypair pf);
         create = describe ''failed to create friend list DHT record: ''
           (protocol (create_friend_list (pf_rc pf) (pf_friend_list pf)))
     in
     io_bind (case existing_friend_list_key of
         None \<Rightarrow> create
       | Some key \<Rightarrow>
           io_bind (result (case owner_keypair of
               Some keypair \<Rightarrow> protocol (dht_open_record_writable (pf_rc pf) key keypair)
             | None \<Rightarrow> fail (show_protocol_error (DhtError no_keypair_error)))) (\<lambda>opened.
           case opened of Inr _ \<Rightarrow> ok (key, None) | Inl e \<Rightarrow> create)) (\<lambda>(friend_list_key, new_keypair).
     io_bind (edit_node (\<lambda>nh. nh\<lparr>nh_friend_list_dht_key := Some friend_list_key,
       nh_friend_list_owner_keypair := coalesce new_keypair owner_keypair\<rparr>)) (\<lambda>_.
     io_bind (edit_dht (\<lambda>h. track_open_record friend_list_key
       (h\<lparr>dh_manager := (dh_manager h)\<lparr>dm_friend_list_key := Some friend_list_key\<rparr>\<rparr>))) (\<lambda>_.
     execute pf [] (update_identity (is_public_key i) (\<lambda>r. r\<lparr>ir_friend_list_dht_key := Some friend_list_key,
       ir_friend_list_owner_keypair :=
         coalesce (map_option (pf_show_keypair pf) new_keypair) (ir_friend_list_owner_keypair r)\<rparr>))))))))"

section \<open>The account\<close>

definition create_fresh_account_record ::
  "('w, 'k, 'p, 'r) platform \<Rightarrow> bytes \<Rightarrow> string \<Rightarrow> string \<Rightarrow> ('w, 'p, 'r, string \<times> 'p option) act" where
  "create_fresh_account_record pf encryption_key display_name status_message =
     io_bind (draw nonce_len) (\<lambda>nonce.
     io_bind (gets millis_u64) (\<lambda>now.
     io_bind (describe ''create account record: '' (protocol
       (account_create (pf_rc pf) (pf_account pf) encryption_key nonce now display_name status_message)))
       (\<lambda>(account, keypair).
     ok (account_record_key (pf_rc pf) account, Some keypair))))"

definition store_account_key_on_handles :: "string \<Rightarrow> string list \<Rightarrow> ('w, 'p, 'r, unit) act" where
  "store_account_key_on_handles account_key record_keys =
     io_bind (edit_node (\<lambda>nh. nh\<lparr>nh_account_dht_key := Some account_key\<rparr>)) (\<lambda>_.
     edit_dht (fold track_open_record record_keys))"

definition persist_account_key_to_db ::
  "('w, 'k, 'p, 'r) platform \<Rightarrow> string \<Rightarrow> string \<Rightarrow> 'p option \<Rightarrow> ('w, 'p, 'r, unit) act" where
  "persist_account_key_to_db pf public_key account_key new_keypair =
     execute pf [] (update_identity public_key (\<lambda>r. r\<lparr>ir_account_dht_key := Some account_key,
       ir_account_owner_keypair :=
         coalesce (map_option (pf_show_keypair pf) new_keypair) (ir_account_owner_keypair r)\<rparr>))"

definition publish_account_to_dht ::
  "('w, 'k, 'p, 'r) platform \<Rightarrow> string option \<Rightarrow> string option \<Rightarrow> ('w, 'p, 'r, unit) act" where
  "publish_account_to_dht pf existing_account_key keypair_text =
     io_bind (gets (\<lambda>c. (c_identity c, c_identity_secret c, c_node c))) (\<lambda>(identity, sk, node).
     io_bind (ok_or ''identity not set before account publish'' identity) (\<lambda>i.
     io_bind (ok_or ''identity secret not available for account key derivation'' sk) (\<lambda>secret.
     io_bind (ok_or ''node not initialized before account publish'' node) (\<lambda>_.
     let encryption_key = derive_account_key (pf_crypto pf) secret;
         fresh =
           io_bind (create_fresh_account_record pf encryption_key (is_display_name i) (is_status_message i))
             (\<lambda>(account_key, new_keypair).
           io_bind (store_account_key_on_handles account_key [account_key]) (\<lambda>_.
           persist_account_key_to_db pf (is_public_key i) account_key new_keypair))
     in
     case (existing_account_key, Option.bind keypair_text (pf_parse_keypair pf)) of
       (Some key, Some keypair) \<Rightarrow>
         io_bind (result (protocol (account_open (pf_rc pf) (pf_account pf) key keypair encryption_key))) (\<lambda>opened.
         case opened of
           Inr account \<Rightarrow> store_account_key_on_handles (account_record_key (pf_rc pf) account)
             (account_all_record_keys (pf_rc pf) account)
         | Inl e \<Rightarrow> fresh)
     | _ \<Rightarrow> fresh))))"

section \<open>All of it\<close>

text \<open>
  The task of a login, which gives up when the network is not ready within 60 seconds; an error of
  one part is only logged.
\<close>

definition spawn_dht_publish ::
  "('w, 'k, 'p, 'r) platform \<Rightarrow> bool \<Rightarrow> bytes option \<Rightarrow> dht_keys_config \<Rightarrow> ('w, 'p, 'r, unit) act" where
  "spawn_dht_publish pf ready prekey_bundle keys =
     when_act ready
       (io_bind (allocate_route_with_retry pf 15) (\<lambda>route_blob.
        io_bind (ignore (publish_mailbox pf (dk_mailbox_dht_key keys) route_blob)) (\<lambda>_.
        io_bind (ignore (publish_profile_to_dht pf prekey_bundle (dk_existing_dht_key keys)
          (dk_dht_owner_keypair keys))) (\<lambda>_.
        io_bind (ignore (publish_friend_list_to_dht pf (dk_existing_friend_list_key keys)
          (dk_friend_list_owner_keypair keys))) (\<lambda>_.
        io_bind (ignore (sync_friends_now pf)) (\<lambda>_.
        ignore (publish_account_to_dht pf (dk_account_dht_key keys) (dk_account_owner_keypair keys))))))))"

section \<open>Conversations\<close>

definition create_conversation_for_friend ::
  "('w, 'k, 'p, 'r) platform \<Rightarrow> string \<Rightarrow> ('w, 'p, 'r, string) act" where
  "create_conversation_for_friend pf friend_public_key =
     io_bind (gets (\<lambda>c. (c_identity_secret c, c_identity c, c_node c))) (\<lambda>(sk, identity, node).
     io_bind (ok_or ''identity secret not available'' sk) (\<lambda>secret.
     io_bind (case hex_decode friend_public_key of
         None \<Rightarrow> fail (''invalid friend public key hex: '' @ iv_hex_error (pf_invite pf) friend_public_key)
       | Some b \<Rightarrow> ok b) (\<lambda>friend_bytes.
     if length friend_bytes \<noteq> 32 then fail ''friend public key must be 32 bytes''
     else
     io_bind (describe ''failed to convert friend key to X25519: ''
       (map_error ClientError (from_result (pf_peer_x25519 pf friend_bytes)))) (\<lambda>friend_x25519.
     io_bind (ok_or ''not logged in'' identity) (\<lambda>i.
     io_bind (ok_or ''node not initialized'' node) (\<lambda>nh.
     io_bind (draw nonce_len) (\<lambda>nonce.
     io_bind (gets millis_u64) (\<lambda>now.
     let public = pf_public_of pf secret;
         encryption_key = derive_conversation_key (pf_crypto pf) (pf_x25519_secret pf secret) friend_x25519;
         profile = \<lparr>up_display_name = is_display_name i, up_status_message = is_status_message i, up_status = 0,
           up_avatar_hash = [], up_game_status = None\<rparr>;
         prekey = \<lparr>wb_identity_key = public, wb_signed_pre_key = [], wb_signed_pre_key_sig = [],
           wb_one_time_pre_key = [], wb_registration_id = 0\<rparr>
     in
     io_bind (describe ''create conversation: '' (protocol (conversation_create (pf_rc pf) (pf_conversation pf)
       encryption_key nonce now public profile (or_empty (nh_route_blob nh)) prekey))) (\<lambda>(conversation, _).
     let conversation_key = conversation_record_key (pf_rc pf) conversation
     in
     io_bind (edit_dht (fold track_open_record (conversation_all_record_keys (pf_rc pf) conversation))) (\<lambda>_.
     io_bind (execute pf [] (update_friend (is_public_key i) friend_public_key
       (\<lambda>r. r\<lparr>fw_local_conversation_key := Some conversation_key\<rparr>))) (\<lambda>_.
     io_bind (edit_friend_state friend_public_key
       (\<lambda>f. f\<lparr>fs_local_conversation_key := Some conversation_key\<rparr>)) (\<lambda>_.
     ok conversation_key))))))))))))"

end
