(* ===== verification/Logins.thy ===== *)
theory Logins
  imports Login Roster
begin

text \<open>
  Identities and their sessions: what a created identity needs to be unlocked, what a login restores
  from the rows and the key store, and what logout and deletion leave behind. Of Stronghold only this
  is used: a snapshot opens with the key it was made with, and with no other.
\<close>

definition stronghold_ok :: "stronghold \<Rightarrow> bool" where
  "stronghold_ok sh \<longleftrightarrow> (\<forall>k es. sh_load sh k (sh_commit sh k es) = Inr es) \<and>
     (\<forall>k k' es. k \<noteq> k' \<longrightarrow> (\<exists>e. sh_load sh k (sh_commit sh k' es) = Inl e))"

lemma sample_stronghold_ok: "stronghold_ok (pf_stronghold sample_platform)"
  by (simp add: stronghold_ok_def sample_platform_def sample_stronghold_load)

section \<open>Keys from the key store\<close>

text \<open>The key an entry holds, and the state apart from the key store, its files and the bytes drawn.\<close>

definition kept_mek :: "(string \<times> bytes) list \<Rightarrow> string \<Rightarrow> media_encryption_key option" where
  "kept_mek es cid = Option.bind (map_of es (mek_vault_key cid)) (\<lambda>b. if 40 \<le> length b
     then Some \<lparr>mek_key = take 32 (drop 8 b), mek_generation = of_nat (le_nat (take 8 b))\<rparr> else None)"

definition keyless :: "('w, 'p, 'r) client \<Rightarrow> ('w, 'p, 'r) client" where
  "keyless c = c\<lparr>c_vault := None, c_snapshots := [], c_drawn := 0\<rparr>"

definition snapshot_of :: "stronghold \<Rightarrow> vault \<Rightarrow> bytes" where
  "snapshot_of sh v = sh_commit sh (vt_key v) (vt_store v)"

text \<open>The key store is unlocked with these entries, and its file has them.\<close>

definition unlocked :: "stronghold \<Rightarrow> string \<Rightarrow> bytes \<Rightarrow> (string \<times> bytes) list \<Rightarrow> ('w, 'p, 'r) client \<Rightarrow> bool" where
  "unlocked sh pk key es c \<longleftrightarrow> c_vault c = Some \<lparr>vt_public_key = pk, vt_key = key, vt_store = es\<rparr> \<and>
     map_of (c_snapshots c) pk = Some (sh_commit sh key es)"

definition restored_right ::
  "(string \<times> bytes) list \<Rightarrow> (string \<times> bytes) list \<Rightarrow> string \<Rightarrow> bool \<Rightarrow> (media_encryption_key \<times> bool) option \<Rightarrow> bool" where
  "restored_right es es' cid hosted x \<longleftrightarrow> (case kept_mek es cid of
     Some mek \<Rightarrow> x = Some (mek, False) \<and> kept_mek es' cid = Some mek
   | None \<Rightarrow> if hosted then \<exists>mek. x = Some (mek, True) \<and> mek_generation mek = 1 \<and> kept_mek es' cid = Some mek
       else x = None \<and> kept_mek es' cid = None)"

lemma keyless_parts:
  assumes "keyless c' = keyless c"
  shows "c_faults c' = c_faults c" "c_communities c' = c_communities c" "c_mek_cache c' = c_mek_cache c"
    "c_friends c' = c_friends c" "c_db c' = c_db c" "c_identity c' = c_identity c"
  using arg_cong [OF assms, of c_faults] arg_cong [OF assms, of c_communities] arg_cong [OF assms, of c_mek_cache]
    arg_cong [OF assms, of c_friends] arg_cong [OF assms, of c_db] arg_cong [OF assms, of c_identity]
  by (simp_all add: keyless_def)

lemma mek_vault_key_eq [simp]: "mek_vault_key a = mek_vault_key b \<longleftrightarrow> a = b"
  by (simp add: mek_vault_key_def)

lemma kept_mek_payload:
  "length (mek_key mek) = 32 \<Longrightarrow> kept_mek (AList.update (mek_vault_key cid) (mek_payload mek) es) cid = Some mek"
  by (simp add: kept_mek_def mek_payload_def AList.update_conv u64_of_le_bytes)

lemma kept_mek_other:
  "j \<noteq> cid \<Longrightarrow> kept_mek (AList.update (mek_vault_key cid) b es) j = kept_mek es j"
  by (simp add: kept_mek_def AList.update_conv)

lemma vault_access_clean:
  "c_vault c = Some v \<Longrightarrow> c_faults c = [] \<Longrightarrow>
   outcome (vault_access f) Q E c = Q True (c\<lparr>c_vault := Some (f v)\<rparr>)"
  by (simp add: outcome_def vault_access_def pop_client_fault_def)

lemma keep_mek_clean:
  assumes "c_vault c = Some v" and "c_faults c = []"
  shows "outcome (keep_mek pf cid b) Q E c = (let v' = v\<lparr>vt_store := AList.update (mek_vault_key cid) b (vt_store v)\<rparr>
    in Q () (c\<lparr>c_vault := Some v', c_snapshots := AList.update (vt_public_key v)
      (sh_commit (pf_stronghold pf) (vt_key v) (vt_store v')) (c_snapshots c)\<rparr>))"
  using assms by (simp add: keep_mek_def save_vault_def wp vault_access_clean commit_vault_def Let_def)

lemma restore_mek_clean:
  assumes "c_faults c = []" and "unlocked (pf_stronghold pf) pk key es c"
  shows "outcome (restore_mek pf cid hosted) (\<lambda>x c'. keyless c' = keyless c \<and>
    (\<exists>es'. unlocked (pf_stronghold pf) pk key es' c' \<and> restored_right es es' cid hosted x \<and>
      (\<forall>j. j \<noteq> cid \<longrightarrow> kept_mek es' j = kept_mek es j))) (\<lambda>_ _. False) c"
proof -
  have v: "c_vault c = Some \<lparr>vt_public_key = pk, vt_key = key, vt_store = es\<rparr>"
    using assms(2) by (simp add: unlocked_def)
  have found: "outcome (vault_lookup k) Q E c = Q (Some (Inr (map_of es k))) c" for k Q E
    by (simp add: outcome_def vault_lookup_def v pop_client_fault_def assms(1))
  show ?thesis
  proof (cases "kept_mek es cid")
    case (Some mek)
    then show ?thesis
      using assms(2) by (auto simp: restore_mek_def wp found kept_mek_def restored_right_def split: bind_split if_splits)
  next
    case None
    then have none: "Option.bind (map_of es (mek_vault_key cid)) (\<lambda>b. if 40 \<le> length b then Some b else None) = None"
      by (auto simp: kept_mek_def split: bind_split if_splits)
    show ?thesis
    proof (cases hosted)
      case False
      then show ?thesis using assms(2) by (auto simp: restore_mek_def wp found none restored_right_def None)
    next
      case True
      then show ?thesis
        by (auto simp: restore_mek_def wp found none restored_right_def None generate_mek_def keep_mek_clean v assms(1)
            Let_def keyless_def unlocked_def AList.update_conv kept_mek_payload kept_mek_other)
    qed
  qed
qed

text \<open>All of them: the list holds for each community what belongs to it.\<close>

lemma restore_meks_clean:
  assumes "c_faults c = []" and "unlocked (pf_stronghold pf) pk key es c" and "distinct (map fst infos)"
  shows "outcome (restore_meks pf infos) (\<lambda>rs c'. keyless c' = keyless c \<and> distinct (map fst rs) \<and>
    (\<exists>es'. unlocked (pf_stronghold pf) pk key es' c' \<and>
      (\<forall>(cid, hosted)\<in>set infos. restored_right es es' cid hosted (map_of rs cid)) \<and>
      (\<forall>j. j \<notin> fst ` set infos \<longrightarrow> map_of rs j = None \<and> kept_mek es' j = kept_mek es j))) (\<lambda>_ _. False) c"
  using assms
proof (induction infos arbitrary: c es)
  case Nil
  then show ?case by (auto simp: wp)
next
  case (Cons info infos)
  obtain cid hosted where info: "info = (cid, hosted)" by fastforce
  have new: "cid \<notin> fst ` set infos" "distinct (map fst infos)" using Cons.prems(3) info by auto
  show ?case
    unfolding info restore_meks.simps wp
  proof (rule outcome_mono [OF restore_mek_clean [OF Cons.prems(1,2)]])
    fix x c1
    assume "keyless c1 = keyless c \<and> (\<exists>es1. unlocked (pf_stronghold pf) pk key es1 c1 \<and>
      restored_right es es1 cid hosted x \<and> (\<forall>j. j \<noteq> cid \<longrightarrow> kept_mek es1 j = kept_mek es j))"
    then obtain es1 where one: "keyless c1 = keyless c" "unlocked (pf_stronghold pf) pk key es1 c1"
        "restored_right es es1 cid hosted x" "\<And>j. j \<noteq> cid \<Longrightarrow> kept_mek es1 j = kept_mek es j" by blast
    have "c_faults c1 = []" using keyless_parts(1) [OF one(1)] Cons.prems(1) by simp
    show "outcome (restore_meks pf infos) (\<lambda>rs c'. keyless c' = keyless c \<and>
        distinct (map fst (case x of None \<Rightarrow> rs | Some (mek, made) \<Rightarrow> (cid, mek, made) # rs)) \<and>
        (\<exists>es'. unlocked (pf_stronghold pf) pk key es' c' \<and>
          (\<forall>(cida, hosted)\<in>set ((cid, hosted) # infos). restored_right es es' cida hosted
             (map_of (case x of None \<Rightarrow> rs | Some (mek, made) \<Rightarrow> (cid, mek, made) # rs) cida)) \<and>
          (\<forall>j. j \<notin> fst ` set ((cid, hosted) # infos) \<longrightarrow>
             map_of (case x of None \<Rightarrow> rs | Some (mek, made) \<Rightarrow> (cid, mek, made) # rs) j = None \<and>
             kept_mek es' j = kept_mek es j))) (\<lambda>_ _. False) c1"
    proof (rule outcome_mono [OF Cons.IH [OF \<open>c_faults c1 = []\<close> one(2) new(2)]])
      fix rs c2
      assume "keyless c2 = keyless c1 \<and> distinct (map fst rs) \<and> (\<exists>es'. unlocked (pf_stronghold pf) pk key es' c2 \<and>
        (\<forall>(cid, hosted)\<in>set infos. restored_right es1 es' cid hosted (map_of rs cid)) \<and>
        (\<forall>j. j \<notin> fst ` set infos \<longrightarrow> map_of rs j = None \<and> kept_mek es' j = kept_mek es1 j))"
      then obtain es' where two: "keyless c2 = keyless c1" "distinct (map fst rs)" "unlocked (pf_stronghold pf) pk key es' c2"
          "\<forall>(cid, hosted)\<in>set infos. restored_right es1 es' cid hosted (map_of rs cid)"
          "\<And>j. j \<notin> fst ` set infos \<Longrightarrow> map_of rs j = None \<and> kept_mek es' j = kept_mek es1 j" by blast
      let ?rs = "case x of None \<Rightarrow> rs | Some (mek, made) \<Rightarrow> (cid, mek, made) # rs"
      have at: "map_of ?rs j = (if j = cid then x else map_of rs j)" for j
        using two(5) [of cid] new(1) by (cases x) auto
      have fresh: "cid \<notin> fst ` set rs"
        using two(5) [of cid] new(1) by (simp add: map_of_eq_None_iff)
      have "distinct (map fst ?rs)" using two(2) fresh by (cases x) auto
      moreover have "restored_right es es' cid hosted x"
        using one(3) two(5) [of cid] new(1) by (simp add: restored_right_def split: option.splits if_splits)
      moreover have "restored_right es es' j h (map_of rs j)" if "(j, h) \<in> set infos" for j h
      proof -
        have "j \<noteq> cid" using that new(1) by force
        moreover have "restored_right es1 es' j h (map_of rs j)" using two(4) that by blast
        ultimately show ?thesis using one(4) [of j] by (simp add: restored_right_def)
      qed
      moreover have "j \<noteq> cid" if "(j, h) \<in> set infos" for j h using that new(1) by force
      ultimately show "keyless c2 = keyless c \<and> distinct (map fst ?rs) \<and> (\<exists>es'. unlocked (pf_stronghold pf) pk key es' c2 \<and>
          (\<forall>(cida, hosted)\<in>set ((cid, hosted) # infos). restored_right es es' cida hosted (map_of ?rs cida)) \<and>
          (\<forall>j. j \<notin> fst ` set ((cid, hosted) # infos) \<longrightarrow> map_of ?rs j = None \<and> kept_mek es' j = kept_mek es j))"
        using two(1,3,5) one(1,4) by (auto simp: at intro!: exI [of _ es'])
    qed simp
  qed simp
qed

section \<open>Unlocking\<close>

lemma access_clean: "c_faults c = [] \<Longrightarrow> outcome (access w) Q E c = Q () c"
  by (simp add: outcome_def access_def pop_client_fault_def)

lemma initialize_key_store_clean:
  "c_faults c = [] \<Longrightarrow> outcome (initialize_key_store pf pk p) Q E c =
    (case map_of (c_snapshots c) pk of
       None \<Rightarrow> Q \<lparr>vt_public_key = pk, vt_key = sh_derive (pf_stronghold pf) p, vt_store = []\<rparr> c
     | Some b \<Rightarrow> (case sh_load (pf_stronghold pf) (sh_derive (pf_stronghold pf) p) b of
         Inl e \<Rightarrow> E (ClientError (storage_error (''load snapshot: '' @ e))) c
       | Inr es \<Rightarrow> Q \<lparr>vt_public_key = pk, vt_key = sh_derive (pf_stronghold pf) p, vt_store = es\<rparr> c))"
  by (simp add: initialize_key_store_def Let_def wp access_clean split: option.split sum.split)

lemma wrong_passphrase_snapshot: "wrong_passphrase t (storage_error (''load snapshot: '' @ e)) = t"
proof -
  have "storage_error (''load snapshot: '' @ e) = ''key storage error: load '' @ ''snapshot'' @ '': '' @ e"
    by (simp add: storage_error_def)
  then have "sublist ''snapshot'' (storage_error (''load snapshot: '' @ e))" unfolding sublist_def by blast
  then show ?thesis by (simp add: wrong_passphrase_def)
qed

lemma unlock_clean:
  "c_faults c = [] \<Longrightarrow> outcome (unlock pf t pk p) Q E c =
    (case map_of (c_snapshots c) pk of
       None \<Rightarrow> Q \<lparr>vt_public_key = pk, vt_key = sh_derive (pf_stronghold pf) p, vt_store = []\<rparr> c
     | Some b \<Rightarrow> (case sh_load (pf_stronghold pf) (sh_derive (pf_stronghold pf) p) b of
         Inl e \<Rightarrow> E (ClientError t) c
       | Inr es \<Rightarrow> Q \<lparr>vt_public_key = pk, vt_key = sh_derive (pf_stronghold pf) p, vt_store = es\<rparr> c))"
  using wrong_passphrase_snapshot [of t] by (simp add: unlock_def wp initialize_key_store_clean split: option.split sum.split)

section \<open>What a login restores\<close>

text \<open>The keys of the tables are primary keys.\<close>

definition unique_rows :: "client_db \<Rightarrow> bool" where
  "unique_rows d \<longleftrightarrow> distinct (map friend_pk (ct_friends d)) \<and> distinct (map community_pk (ct_communities d))"

definition own_friends :: "string \<Rightarrow> client_db \<Rightarrow> friend_row list" where
  "own_friends pk d = filter (\<lambda>r. fw_owner r = pk) (ct_friends d)"

definition own_communities :: "string \<Rightarrow> client_db \<Rightarrow> community_row list" where
  "own_communities pk d = filter (\<lambda>r. kc_owner r = pk) (ct_communities d)"

definition community_in :: "('w, 'k, 'p, 'r) platform \<Rightarrow> string \<Rightarrow> client_db \<Rightarrow> community_row \<Rightarrow> client_community" where
  "community_in pf pk d r = community_of_row pf (filter (\<lambda>h. kh_owner h = pk) (ct_channels d))
     (sort_key ko_position (filter (\<lambda>o'. ko_owner o' = pk) (ct_roles d))) r"

lemma update_new: "k \<notin> fst ` set al \<Longrightarrow> AList.update k v al = al @ [(k, v)]"
  by (induction al) auto

lemma fold_update_new:
  "distinct (map g xs) \<Longrightarrow> g ` set xs \<inter> fst ` set al = {} \<Longrightarrow>
   fold (\<lambda>x. AList.update (g x) (f x)) xs al = al @ map (\<lambda>x. (g x, f x)) xs"
  by (induction xs arbitrary: al) (auto simp: update_new)

lemma distinct_own:
  "unique_rows d \<Longrightarrow> distinct (map fw_public_key (own_friends pk d))"
  "unique_rows d \<Longrightarrow> distinct (map kc_id (own_communities pk d))"
  by (auto simp: unique_rows_def own_friends_def own_communities_def distinct_map inj_on_def friend_pk_def
      community_pk_def)

text \<open>The state when the rows have been read.\<close>

definition with_rows ::
  "('w, 'k, 'p, 'r) platform \<Rightarrow> string \<Rightarrow> string \<Rightarrow> (string \<times> bytes) list \<Rightarrow> string \<Rightarrow> ('w, 'p, 'r) client
   \<Rightarrow> ('w, 'p, 'r) client" where
  "with_rows pf pk p es name c = c\<lparr>
     c_vault := Some \<lparr>vt_public_key = pk, vt_key = sh_derive (pf_stronghold pf) p, vt_store = es\<rparr>,
     c_identity := Some \<lparr>is_public_key = pk, is_display_name = name, is_status = Online, is_status_message = []\<rparr>,
     c_friends := map (\<lambda>r. (fw_public_key r, friend_of_row (c_db c) r)) (own_friends pk (c_db c)),
     c_communities := map (\<lambda>r. (kc_id r, community_in pf pk (c_db c) r)) (own_communities pk (c_db c))\<rparr>"

lemma with_rows_cache [simp]: "c_mek_cache (with_rows pf pk p es name c) = c_mek_cache c"
  by (simp add: with_rows_def)

lemma login_core_opens:
  assumes "c_faults c = []" and "select_identity pk (c_db c) = Some r" and "unique_rows (c_db c)"
    and "map_of (c_snapshots c) pk = Some b"
    and "sh_load (pf_stronghold pf) (sh_derive (pf_stronghold pf) p) b = Inr es"
    and "map_of es identity_vault_key = Some secret" and "length secret = 32"
    and "hex_encode (pf_public_of pf secret) = pk"
  shows "outcome (login_core pf pk p) Q E c = outcome (restore_community_pseudonyms_and_meks pf secret)
    (\<lambda>_. Q (\<lparr>lr_public_key = pk, lr_display_name = or_empty (ir_display_name r)\<rparr>, secret, dht_columns r)) E
    (with_rows pf pk p es (or_empty (ir_display_name r)) c)"
proof -
  have fr: "fold (\<lambda>f. AList.update (fs_public_key f) f) (select_friends pk (c_db c)) [] =
      map (\<lambda>r. (fw_public_key r, friend_of_row (c_db c) r)) (own_friends pk (c_db c))"
    using distinct_own(1) [OF assms(3)]
    by (subst fold_update_new)
      (simp_all add: select_friends_def own_friends_def friend_of_row_def comp_def)
  have co: "fold (\<lambda>r. AList.update (kc_id r) (community_of_row pf (filter (\<lambda>h. kh_owner h = pk) (ct_channels (c_db c)))
      (sort_key ko_position (filter (\<lambda>o'. ko_owner o' = pk) (ct_roles (c_db c)))) r))
      (filter (\<lambda>r. kc_owner r = pk) (ct_communities (c_db c))) [] =
      map (\<lambda>r. (kc_id r, community_in pf pk (c_db c) r)) (own_communities pk (c_db c))"
    using distinct_own(2) [OF assms(3)]
    by (subst fold_update_new) (simp_all add: own_communities_def community_in_def)
  show ?thesis
    unfolding login_core_def wp forget_session_def enter_identity_def load_friends_from_db_def
      load_client_communities_from_db_def
    by (simp add: outcome_query_clean unlock_clean access_clean assms wp fr co with_rows_def)
qed

lemma community_of_map:
  "map_of (map (\<lambda>(k, cc). (k, if k \<in> fst ` set xs then f k cc else cc)) xs) j = map_option (f j) (map_of xs j)"
proof -
  have "map (\<lambda>(k, cc). (k, if k \<in> fst ` set xs then f k cc else cc)) xs = map (\<lambda>(k, cc). (k, f k cc)) xs"
    by (rule map_cong [OF refl]) force
  moreover have "map_of (map (\<lambda>(k, cc). (k, f k cc)) ys) j = map_option (f j) (map_of ys j)" for ys
    by (induction ys) auto
  ultimately show ?thesis by (simp only:)
qed

lemma cache_filled:
  "distinct (map fst rs) \<Longrightarrow> map_of (fold (\<lambda>(cid, mek, made). AList.update cid mek) rs al) j =
     (case map_of rs j of None \<Rightarrow> map_of al j | Some (mek, made) \<Rightarrow> Some mek)"
proof (induction rs arbitrary: al)
  case (Cons x rs)
  obtain cid mek made where x: "x = (cid, mek, made)" by (metis prod_cases3)
  have "map_of rs cid = None" using Cons.prems x by (simp add: map_of_eq_None_iff)
  then show ?case using Cons x by (auto simp: AList.update_conv split: option.split)
qed simp

lemma restore_clean:
  assumes "c_faults c = []" and "unlocked (pf_stronghold pf) pk key es c"
    and ids: "\<forall>(k, cc)\<in>set (c_communities c). cc_id cc = k" and d: "distinct (map fst (c_communities c))"
  shows "outcome (restore_community_pseudonyms_and_meks pf secret) (\<lambda>_ c'. \<exists>rs es'.
      unlocked (pf_stronghold pf) pk key es' c' \<and> distinct (map fst rs) \<and>
      (c_faults c', c_friends c', c_identity c', c_db c') = (c_faults c, c_friends c, c_identity c, c_db c) \<and>
      (\<forall>(k, cc)\<in>set (c_communities c). restored_right es es' k (cc_is_hosted cc) (map_of rs k)) \<and>
      (\<forall>k. community_of c' k = map_option (restored_community pf secret rs k) (community_of c k)) \<and>
      (\<forall>k. map_of (c_mek_cache c') k =
        (case map_of rs k of None \<Rightarrow> map_of (c_mek_cache c) k | Some (mek, made) \<Rightarrow> Some mek))) (\<lambda>_ _. False) c"
proof -
  let ?infos = "map (\<lambda>(k, cc). (cc_id cc, cc_is_hosted cc)) (c_communities c)"
  have infos: "?infos = map (\<lambda>(k, cc). (k, cc_is_hosted cc)) (c_communities c)" using ids by force
  have keys: "map fst ?infos = map fst (c_communities c)" unfolding infos by (simp add: comp_def case_prod_unfold)
  have keyset: "fst ` set ?infos = fst ` set (c_communities c)" using arg_cong [OF keys, of set] by (simp only: set_map)
  have "distinct (map fst ?infos)" unfolding keys by (rule d)
  note meks = restore_meks_clean [OF assms(1,2) this]
  show ?thesis
    unfolding restore_community_pseudonyms_and_meks_def outcome_io_bind outcome_gets outcome_modify
  proof (rule outcome_mono [OF meks], goal_cases)
    case (1 rs c1)
    then obtain es' where one: "keyless c1 = keyless c" "distinct (map fst rs)" "unlocked (pf_stronghold pf) pk key es' c1"
        "\<forall>(cid, hosted)\<in>set ?infos. restored_right es es' cid hosted (map_of rs cid)" by blast
    have "\<forall>(k, cc)\<in>set (c_communities c). restored_right es es' k (cc_is_hosted cc) (map_of rs k)"
      using one(4) unfolding infos by auto
    with one(2,3) show ?case
      by (intro exI [of _ rs] exI [of _ es'])
        (simp add: keyset [unfolded set_map] keyless_parts [OF one(1)] unlocked_def community_of_def community_of_map cache_filled)
  qed simp
qed

text \<open>The friends in memory are those with a row, as the row says.\<close>

definition friends_are_back :: "string \<Rightarrow> ('w, 'p, 'r) client \<Rightarrow> bool" where
  "friends_are_back pk c \<longleftrightarrow> (\<forall>k. listed k c = has_row k c) \<and>
     (\<forall>r\<in>set (own_friends pk (c_db c)). friend_of c (fw_public_key r) = Some (friend_of_row (c_db c) r))"

text \<open>
  A community is in memory as its row says, with a pseudonym, and with the key that was kept for it;
  a hosted one without a kept key has a new one, which is kept now.
\<close>

definition community_is_back ::
  "('w, 'k, 'p, 'r) platform \<Rightarrow> bytes \<Rightarrow> (string \<times> bytes) list \<Rightarrow> (string \<times> bytes) list \<Rightarrow> client_community
   \<Rightarrow> media_encryption_key option \<Rightarrow> ('w, 'p, 'r) client \<Rightarrow> bool" where
  "community_is_back pf secret es es' cc cached c \<longleftrightarrow>
     (let cid = cc_id cc;
          back = cc\<lparr>cc_my_pseudonym_key := Some (case cc_my_pseudonym_key cc of
            None \<Rightarrow> hex_encode (pf_public_of pf (pf_pseudonym_secret pf secret cid)) | Some p \<Rightarrow> p)\<rparr>
      in case kept_mek es cid of
        Some mek \<Rightarrow> community_of c cid = Some back \<and> map_of (c_mek_cache c) cid = Some mek \<and> kept_mek es' cid = Some mek
      | None \<Rightarrow>
          if cc_is_hosted cc
          then community_of c cid = Some (back\<lparr>cc_mek_generation := 1\<rparr>) \<and>
            (\<exists>mek. mek_generation mek = 1 \<and> map_of (c_mek_cache c) cid = Some mek \<and> kept_mek es' cid = Some mek)
          else community_of c cid = Some back \<and> map_of (c_mek_cache c) cid = cached)"

lemma made_in_list:
  "distinct (map fst rs) \<Longrightarrow> list_ex (\<lambda>(k, mek, made). k = cid \<and> made) rs \<longleftrightarrow> (\<exists>mek. map_of rs cid = Some (mek, True))"
  by (auto simp: list_ex_iff map_of_eq_Some_iff)

lemma community_in_id [simp]: "cc_id (community_in pf pk d r) = kc_id r"
  by (simp add: community_in_def community_of_row_def refresh_my_role_def)

lemma has_own_row:
  "row_exists friend_pk (pk, k) (ct_friends d) \<longleftrightarrow> k \<in> fw_public_key ` set (own_friends pk d)"
  by (auto simp: row_exists_def list_ex_iff own_friends_def friend_pk_def)

lemma friends_with_rows:
  assumes "unique_rows (c_db c)" and "c_friends c = map (\<lambda>r. (fw_public_key r, friend_of_row (c_db c) r)) (own_friends pk (c_db c))"
    and "owner_of c = pk"
  shows "friends_are_back pk c"
proof -
  have find: "friend_of c (fw_public_key r) = Some (friend_of_row (c_db c) r)" if "r \<in> set (own_friends pk (c_db c))" for r
    using that distinct_own(1) [OF assms(1), of pk]
    by (auto simp: friend_of_def assms(2) comp_def intro!: map_of_is_SomeI)
  moreover have "friend_of c k = None" if "k \<notin> fw_public_key ` set (own_friends pk (c_db c))" for k
    using that by (auto simp: friend_of_def assms(2) map_of_eq_None_iff)
  ultimately have "listed k c \<longleftrightarrow> k \<in> fw_public_key ` set (own_friends pk (c_db c))" for k
    by (cases "k \<in> fw_public_key ` set (own_friends pk (c_db c))") (auto simp: listed_def friend_of_row_def)
  then show ?thesis using find by (simp add: friends_are_back_def has_row_def assms(3) has_own_row)
qed

lemma restored_community_back:
  assumes "distinct (map fst rs)"
  shows "restored_community pf secret rs cid cc =
     (let back = cc\<lparr>cc_my_pseudonym_key := Some (case cc_my_pseudonym_key cc of
        None \<Rightarrow> hex_encode (pf_public_of pf (pf_pseudonym_secret pf secret cid)) | Some p \<Rightarrow> p)\<rparr>
      in if \<exists>mek. map_of rs cid = Some (mek, True) then back\<lparr>cc_mek_generation := 1\<rparr> else back)"
  unfolding restored_community_def made_in_list [OF assms]
  by (cases cc) (simp add: Let_def split: option.split)

lemma community_back:
  assumes "community_of c' (cc_id cc) = Some (restored_community pf secret rs (cc_id cc) cc)"
    and "map_of (c_mek_cache c') (cc_id cc) = (case map_of rs (cc_id cc) of None \<Rightarrow> cached | Some (mek, made) \<Rightarrow> Some mek)"
    and "distinct (map fst rs)" and "restored_right es es' (cc_id cc) (cc_is_hosted cc) (map_of rs (cc_id cc))"
  shows "community_is_back pf secret es es' cc cached c'"
proof (cases "kept_mek es (cc_id cc)")
  case None
  then show ?thesis
    using assms(1,2,4) unfolding restored_community_back [OF assms(3)]
    by (cases "cc_is_hosted cc") (auto simp: community_is_back_def Let_def restored_right_def)
next
  case (Some mek)
  then show ?thesis
    using assms(1,2,4) unfolding restored_community_back [OF assms(3)]
    by (simp add: community_is_back_def Let_def restored_right_def)
qed

lemma login_core_restores:
  assumes "c_faults c = []" and "select_identity pk (c_db c) = Some r" and "unique_rows (c_db c)"
    and "map_of (c_snapshots c) pk = Some (sh_commit (pf_stronghold pf) (sh_derive (pf_stronghold pf) p) es)"
    and "stronghold_ok (pf_stronghold pf)" and "map_of es identity_vault_key = Some secret"
    and "length secret = 32" and "hex_encode (pf_public_of pf secret) = pk"
  shows "outcome (login_core pf pk p) (\<lambda>(logged_in, sk, keys) c'.
      logged_in = \<lparr>lr_public_key = pk, lr_display_name = or_empty (ir_display_name r)\<rparr> \<and> sk = secret \<and>
      keys = dht_columns r \<and> owner_of c' = pk \<and> c_db c' = c_db c \<and> friends_are_back pk c' \<and>
      (\<exists>es'. unlocked (pf_stronghold pf) pk (sh_derive (pf_stronghold pf) p) es' c' \<and>
        (\<forall>r\<in>set (own_communities pk (c_db c)). community_is_back pf secret es es' (community_in pf pk (c_db c) r)
          (map_of (c_mek_cache c) (kc_id r)) c'))) (\<lambda>_ _. False) c"
proof -
  let ?c = "with_rows pf pk p es (or_empty (ir_display_name r)) c"
  have "sh_load (pf_stronghold pf) (sh_derive (pf_stronghold pf) p)
      (sh_commit (pf_stronghold pf) (sh_derive (pf_stronghold pf) p) es) = Inr es"
    using assms(5) by (simp add: stronghold_ok_def)
  note opens = login_core_opens [OF assms(1-4) this assms(6-8)]
  have "c_faults ?c = []" "unlocked (pf_stronghold pf) pk (sh_derive (pf_stronghold pf) p) es ?c"
      "\<forall>(k, cc)\<in>set (c_communities ?c). cc_id cc = k" "distinct (map fst (c_communities ?c))"
    using assms(1,4) distinct_own(2) [OF assms(3), of pk] by (auto simp: with_rows_def unlocked_def comp_def)
  note restored = restore_clean [OF this, of secret]
  show ?thesis
    unfolding opens prod.case
  proof (rule outcome_mono [OF restored], goal_cases)
    case (1 _ c')
    then obtain rs es' where one: "unlocked (pf_stronghold pf) pk (sh_derive (pf_stronghold pf) p) es' c'"
        "distinct (map fst rs)" "c_friends c' = c_friends ?c" "c_identity c' = c_identity ?c" "c_db c' = c_db ?c"
        "\<forall>(k, cc)\<in>set (c_communities ?c). restored_right es es' k (cc_is_hosted cc) (map_of rs k)"
        "\<And>k. community_of c' k = map_option (restored_community pf secret rs k) (community_of ?c k)"
        "\<And>k. map_of (c_mek_cache c') k =
          (case map_of rs k of None \<Rightarrow> map_of (c_mek_cache ?c) k | Some (mek, made) \<Rightarrow> Some mek)"
      by auto
    have db: "c_db c' = c_db c" and owner: "owner_of c' = pk"
      using one(4,5) by (simp_all add: with_rows_def owner_of_def)
    have "friends_are_back pk c'"
      by (rule friends_with_rows) (use one(3) db owner assms(3) in \<open>simp_all add: with_rows_def\<close>)
    moreover have "community_is_back pf secret es es' (community_in pf pk (c_db c) r)
        (map_of (c_mek_cache c) (kc_id r)) c'" if "r \<in> set (own_communities pk (c_db c))" for r
    proof (rule community_back [OF _ _ one(2)])
      have "community_of ?c (kc_id r) = Some (community_in pf pk (c_db c) r)"
        using that distinct_own(2) [OF assms(3), of pk]
        by (auto simp: community_of_def with_rows_def comp_def intro!: map_of_is_SomeI)
      then show "community_of c' (cc_id (community_in pf pk (c_db c) r)) = Some (restored_community pf secret rs
          (cc_id (community_in pf pk (c_db c) r)) (community_in pf pk (c_db c) r))" by (simp add: one(7))
      show "restored_right es es' (cc_id (community_in pf pk (c_db c) r)) (cc_is_hosted (community_in pf pk (c_db c) r))
          (map_of rs (cc_id (community_in pf pk (c_db c) r)))"
        using one(6) that by (auto simp: with_rows_def)
    qed (simp add: one(8) [unfolded with_rows_cache])
    ultimately show ?case using one(1) db owner by auto
  qed simp
qed

section \<open>A new identity\<close>

lemma access_any:
  assumes "\<And>fs. Q () (c\<lparr>c_faults := fs\<rparr>)"
  shows "outcome (access w) Q (\<lambda>_ _. True) c"
  using assms assms [of "c_faults c"] by (auto simp: outcome_def access_def pop_client_fault_def split: list.split option.split)

lemma execute_any:
  assumes "\<And>fs d. stmt (c_db c) = Some d \<Longrightarrow> Q () (c\<lparr>c_faults := fs, c_db := d\<rparr>)"
  shows "outcome (execute pf w stmt) Q (\<lambda>_ _. True) c"
  using assms assms [of _ "c_faults c"]
  by (auto simp: outcome_def execute_def pop_client_fault_def split: list.split option.split)

lemma initialize_key_store_any:
  assumes "\<And>fs es. Q \<lparr>vt_public_key = pk, vt_key = sh_derive (pf_stronghold pf) p, vt_store = es\<rparr> (c\<lparr>c_faults := fs\<rparr>)"
  shows "outcome (initialize_key_store pf pk p) Q (\<lambda>_ _. True) c"
  by (auto simp: initialize_key_store_def Let_def wp assms intro!: access_any split: option.split sum.split)

lemma save_key_store_any:
  assumes "\<And>fs. Q () (c\<lparr>c_faults := fs, c_snapshots := AList.update (vt_public_key v) (snapshot_of (pf_stronghold pf) v) (c_snapshots c)\<rparr>)"
  shows "outcome (save_key_store pf v) Q (\<lambda>_ _. True) c"
  using assms by (auto simp: save_key_store_def wp snapshot_of_def intro!: access_any)

lemma lookup_inserted: "row_insert pk r t = Some t' \<Longrightarrow> row_lookup pk t' (pk r) = Some r"
proof -
  assume "row_insert pk r t = Some t'"
  then have t': "\<not> row_exists pk (pk r) t" "t' = t @ [r]" by (auto simp: row_insert_def split: if_splits)
  then have "List.find (\<lambda>r'. pk r' = pk r) t = None" by (auto simp: row_exists_def find_None_iff list_ex_iff)
  then show ?thesis by (simp add: row_lookup_def t'(2) find_append)
qed

lemma inserted_identity:
  "insert_identity pk name now d = Some d' \<Longrightarrow> \<exists>r. select_identity pk d' = Some r \<and>
     ir_display_name r = Some name \<and> dht_columns r = no_dht_keys"
  by (auto simp: insert_identity_def select_identity_def dht_columns_def no_dht_keys_def
      dest!: lookup_inserted)

text \<open>A created identity has its row, and its secret lies in its snapshot.\<close>

definition created ::
  "('w, 'k, 'p, 'r) platform \<Rightarrow> string \<Rightarrow> login_result \<Rightarrow> bytes \<Rightarrow> ('w, 'p, 'r) client \<Rightarrow> bool" where
  "created pf p logged_in secret c \<longleftrightarrow> length secret = 32 \<and>
     hex_encode (pf_public_of pf secret) = lr_public_key logged_in \<and>
     (\<exists>es. map_of (c_snapshots c) (lr_public_key logged_in) =
         Some (sh_commit (pf_stronghold pf) (sh_derive (pf_stronghold pf) p) es) \<and>
       map_of es identity_vault_key = Some secret) \<and>
     (\<exists>r. select_identity (lr_public_key logged_in) (c_db c) = Some r \<and>
       ir_display_name r = Some (lr_display_name logged_in) \<and> dht_columns r = no_dht_keys)"

lemma create_identity_core_creates:
  "outcome (create_identity_core pf p name) (\<lambda>(logged_in, secret). created pf p logged_in secret) (\<lambda>_ _. True) c"
  unfolding create_identity_core_def Let_def wp forget_session_def enter_identity_def
  by (auto intro!: access_any initialize_key_store_any save_key_store_any execute_any dest!: inserted_identity
      simp: wp created_def snapshot_of_def AList.update_conv)

lemma login_core_refused:
  assumes "c_faults c = []" and "select_identity pk (c_db c) = Some r" and "map_of (c_snapshots c) pk = Some b"
    and "sh_load (pf_stronghold pf) (sh_derive (pf_stronghold pf) p) b = Inl e"
  shows "outcome (login_core pf pk p) Q E c =
    E (ClientError (''Wrong passphrase '' @ em_dash @ '' unable to unlock keystore''))
      (c\<lparr>c_identity := None, c_friends := [], c_communities := []\<rparr>)"
  unfolding login_core_def wp forget_session_def by (simp add: outcome_query_clean unlock_clean assms)

text \<open>
  C29. What a login restores. With a working database and key store, the right passphrase and rows
  that are unique, the login returns the identity, its secret and the records of its row, changes no
  row, and leaves the key store unlocked and saved. The friends in memory, as their rows say, are
  exactly the keys with a row; every community of the identity is back with a pseudonym and its kept
  key. A hosted community without a kept key gets a new one, which is saved.
\<close>

theorem login_restores:
  assumes "c_faults c = []" and "select_identity pk (c_db c) = Some r" and "unique_rows (c_db c)"
    and "map_of (c_snapshots c) pk = Some (sh_commit (pf_stronghold pf) (sh_derive (pf_stronghold pf) p) es)"
    and "stronghold_ok (pf_stronghold pf)" and "map_of es identity_vault_key = Some secret"
    and "length secret = 32" and "hex_encode (pf_public_of pf secret) = pk"
  shows "outcome (login_core pf pk p) (\<lambda>(logged_in, sk, keys) c'.
      logged_in = \<lparr>lr_public_key = pk, lr_display_name = or_empty (ir_display_name r)\<rparr> \<and> sk = secret \<and>
      keys = dht_columns r \<and> owner_of c' = pk \<and> c_db c' = c_db c \<and> friends_are_back pk c' \<and>
      (\<exists>es'. unlocked (pf_stronghold pf) pk (sh_derive (pf_stronghold pf) p) es' c' \<and>
        (\<forall>r\<in>set (own_communities pk (c_db c)). community_is_back pf secret es es' (community_in pf pk (c_db c) r)
          (map_of (c_mek_cache c) (kc_id r)) c'))) (\<lambda>_ _. False) c"
  by (rule login_core_restores [OF assms])

text \<open>
  C28. An identity survives a restart. When the creation of an identity succeeded, whatever failed
  before, then any later client with the same row and the same snapshot file, and a working database,
  unlocks it with the passphrase it was created with: the login returns the same key, name and secret,
  with no records known yet. With a passphrase from which Argon2 derives another key the login fails
  and nobody is logged in; database, files and key store are as before.
\<close>

theorem identity_survives_restart:
  fixes c c1 c2 :: "('w, 'p, 'r) client"
  assumes "create_identity_core pf p name c = (Inr (logged_in, secret), c1)" and "stronghold_ok (pf_stronghold pf)"
    and "select_identity (lr_public_key logged_in) (c_db c2) = select_identity (lr_public_key logged_in) (c_db c1)"
    and "map_of (c_snapshots c2) (lr_public_key logged_in) = map_of (c_snapshots c1) (lr_public_key logged_in)"
    and "c_faults c2 = []" and "unique_rows (c_db c2)"
  shows "outcome (login_core pf (lr_public_key logged_in) q)
    (\<lambda>(again, sk, keys) c3. sh_derive (pf_stronghold pf) q = sh_derive (pf_stronghold pf) p \<and>
      again = logged_in \<and> sk = secret \<and> keys = no_dht_keys \<and> owner_of c3 = lr_public_key logged_in)
    (\<lambda>e c3. sh_derive (pf_stronghold pf) q \<noteq> sh_derive (pf_stronghold pf) p \<and>
      e = ClientError (''Wrong passphrase '' @ em_dash @ '' unable to unlock keystore'') \<and>
      c3 = c2\<lparr>c_identity := None, c_friends := [], c_communities := []\<rparr>) c2"
proof -
  let ?sh = "pf_stronghold pf" and ?pk = "lr_public_key logged_in"
  have "created pf p logged_in secret c1"
    using create_identity_core_creates [of pf p name c] assms(1) by (simp add: outcome_def)
  then obtain es r where s: "length secret = 32" "hex_encode (pf_public_of pf secret) = ?pk"
      "map_of (c_snapshots c2) ?pk = Some (sh_commit ?sh (sh_derive ?sh p) es)" "map_of es identity_vault_key = Some secret"
      "select_identity ?pk (c_db c2) = Some r" "ir_display_name r = Some (lr_display_name logged_in)"
      "dht_columns r = no_dht_keys"
    unfolding created_def assms(3,4) [symmetric] by blast
  show ?thesis
  proof (cases "sh_derive ?sh q = sh_derive ?sh p")
    case True
    show ?thesis
      by (rule outcome_mono [OF login_core_restores [OF assms(5) s(5) assms(6) s(3) [folded True] assms(2) s(4,1,2)]])
        (use True s(6,7) in \<open>auto simp: or_empty_def\<close>)
  next
    case False
    then obtain e where "sh_load ?sh (sh_derive ?sh q) (sh_commit ?sh (sh_derive ?sh p) es) = Inl e"
      using assms(2) unfolding stronghold_ok_def by blast
    from login_core_refused [OF assms(5) s(5,3) this] show ?thesis using False by simp
  qed
qed

section \<open>Logout\<close>

text \<open>What lies on the disk, and the parts of the session that only the logout itself ends.\<close>

definition disk_kept :: "('w, 'p, 'r) client \<Rightarrow> ('w, 'p, 'r) client \<Rightarrow> bool" where
  "disk_kept c c' \<longleftrightarrow> (c_db c', c_snapshots c', c_faults c', c_vault c', c_pre_away c', c_unwatched c') =
     (c_db c, c_snapshots c, c_faults c, c_vault c, c_pre_away c, c_unwatched c)"

definition route_kept :: "('w, 'p, 'r) client \<Rightarrow> ('w, 'p, 'r) client \<Rightarrow> bool" where
  "route_kept c c' \<longleftrightarrow> disk_kept c c' \<and> c_routing c' = c_routing c"

interpretation disk: client_preorder route_kept plain_error
  by unfold_locales (auto simp: route_kept_def disk_kept_def)

lemma disk_offstage: "evolves plain_error offstage m \<Longrightarrow> evolves plain_error route_kept m"
  by (erule evolves_mono) (auto simp: route_kept_def disk_kept_def offstage_def background_parts)

lemmas disk_steps = quiet_veilid [THEN disk_offstage] quiet_edit_dht [THEN disk_offstage]

lemma disk_publish: "evolves plain_error route_kept (publish_own_status pf status)"
  unfolding publish_own_status_def parse_key_def
  by (intro disk.ev_bind disk.ev_gets disk.ev_ok_or disk.ev_describe disk.ev_text_result disk_steps)

interpretation sure_disk: state_preorder route_kept "\<lambda>_. False"
  by unfold_locales (auto simp: route_kept_def disk_kept_def)

lemma disk_close: "evolves (\<lambda>_. False) route_kept (close_open_records pf)"
  unfolding close_open_records_def parse_key_def
  by (intro sure_disk.ev_bind sure_disk.ev_for_each evolves_ignore_sure disk.ev_bind disk.ev_text_result disk_steps)
    (simp add: evolves_def wp route_kept_def disk_kept_def)

text \<open>
  The route is forgotten even when Veilid refuses to release it, but then its blob stays with the
  manager of routes.
\<close>

definition blob_released :: "('w, 'k, 'p, 'r) platform \<Rightarrow> 'r routing_manager option \<Rightarrow> 'r routing_manager option \<Rightarrow> bool" where
  "blob_released pf rm rm' \<longleftrightarrow> Option.bind rm' rm_route_blob = None \<or>
     Option.bind rm' rm_route_blob = Option.bind rm rm_route_blob \<and>
     (\<exists>r w e w'. Option.bind rm rm_route_id = Some r \<and> pf_release_route pf r w = (Inl e, w'))"

definition route_forgotten :: "('w, 'k, 'p, 'r) platform \<Rightarrow> ('w, 'p, 'r) client \<Rightarrow> ('w, 'p, 'r) client \<Rightarrow> bool" where
  "route_forgotten pf c c' \<longleftrightarrow>
     disk_kept c c' \<and> Option.bind (c_routing c') rm_route_id = None \<and> blob_released pf (c_routing c) (c_routing c')"

lemma release_forgets:
  "outcome (release_private_route pf) (\<lambda>_. route_forgotten pf c) (\<lambda>e c'. plain_error e \<and> route_forgotten pf c c') c"
  by (cases "c_routing c") (auto simp: release_private_route_def wp edit_routing_def route_forgotten_def disk_kept_def blob_released_def
      outcome_def [of "pf_release_route pf _"] split: option.split sum.split prod.split)

definition nothing_left :: "('w, 'p, 'r) client \<Rightarrow> bool" where
  "nothing_left c \<longleftrightarrow> c_identity c = None \<and> c_identity_secret c = None \<and> c_vault c = None \<and> c_signal c = None \<and>
     c_friends c = [] \<and> c_communities c = [] \<and> c_mek_cache c = [] \<and> c_pre_away c = None \<and>
     Option.bind (c_routing c) rm_route_id = None \<and>
     (case c_node c of None \<Rightarrow> True | Some nh \<Rightarrow>
        nh_route_blob nh = None \<and> nh_profile_dht_key nh = None \<and> nh_profile_owner_keypair nh = None \<and>
        nh_friend_list_dht_key nh = None \<and> nh_friend_list_owner_keypair nh = None \<and>
        nh_account_dht_key nh = None \<and> nh_mailbox_dht_key nh = None) \<and>
     (case c_dht c of None \<Rightarrow> True | Some h \<Rightarrow>
        dh_open_records h = {} \<and> dh_key_to_friend h = [] \<and> dh_conversation_key_to_friend h = [] \<and>
        dm_profile_key (dh_manager h) = None \<and> dm_friend_list_key (dh_manager h) = None \<and>
        route_cache (dh_manager h) = [] \<and> imported_routes (dh_manager h) = [] \<and>
        route_id_to_pubkey (dh_manager h) = [])"

definition session_ended :: "('w, 'k, 'p, 'r) platform \<Rightarrow> ('w, 'p, 'r) client \<Rightarrow> ('w, 'p, 'r) client \<Rightarrow> bool" where
  "session_ended pf c c' \<longleftrightarrow> nothing_left c' \<and> c_db c' = c_db c \<and> c_snapshots c' = c_snapshots c \<and> c_faults c' = c_faults c \<and>
     c_unwatched c' = c_unwatched c \<and> blob_released pf (c_routing c) (c_routing c')"

lemma end_of_session:
  assumes "route_kept c0 c" and "c_vault c0 = None" and "c_pre_away c0 = None"
  shows "outcome (logout_cleanup pf se) (\<lambda>_. session_ended pf c0) (\<lambda>_ _. False) c"
proof -
  let ?final = "\<lambda>_. session_ended pf c0"
  have rest: "outcome (io_bind (edit_dht forget_user_records) (\<lambda>_.
      io_bind (modify (\<lambda>c. c\<lparr>c_node := map_option forget_user_keys (c_node c)\<rparr>)) (\<lambda>_.
      io_bind emit_network_status (\<lambda>_.
      io_bind (modify (\<lambda>c. c\<lparr>c_identity := None, c_friends := [], c_communities := [], c_signal := None,
        c_identity_secret := None, c_mek_cache := []\<rparr>)) (\<lambda>_.
      ask_server_to_end pf se))))) ?final (\<lambda>_ _. False) c2"
    if "route_forgotten pf c0 c2" for c2
    using that assms(2,3)
    by (auto simp: wp edit_dht_def emit_network_status_def emit_event_def ask_server_to_end_def outcome_def [of "pf_ipc pf AskShutdown"]
        session_ended_def nothing_left_def route_forgotten_def disk_kept_def forget_user_records_def forget_user_keys_def
        split: option.split sum.split prod.split)
  show ?thesis
    unfolding logout_cleanup_def outcome_io_bind outcome_modify outcome_gets
  proof (rule evolves_outcome [OF disk_close])
    fix x c1
    assume "route_kept (c\<lparr>c_pre_away := None\<rparr>) c1"
    then have k1: "route_kept c0 c1" using assms(1,3) by (simp add: route_kept_def disk_kept_def)
    show "outcome (when_act (c_routing c1 \<noteq> None) (ignore (release_private_route pf))) (\<lambda>x. outcome (edit_dht forget_user_records)
        (\<lambda>x c. outcome emit_network_status (\<lambda>x c. outcome (ask_server_to_end pf se) ?final (\<lambda>_ _. False)
          (c\<lparr>c_identity := None, c_friends := [], c_communities := [], c_signal := None, c_identity_secret := None,
            c_mek_cache := []\<rparr>)) (\<lambda>_ _. False) (c\<lparr>c_node := map_option forget_user_keys (c_node c)\<rparr>))
        (\<lambda>_ _. False)) (\<lambda>_ _. False) c1"
    proof (cases "c_routing c1 = None")
      case True
      then have "route_forgotten pf c0 c1" using k1 by (simp add: route_forgotten_def route_kept_def blob_released_def)
      from rest [OF this] True show ?thesis by (simp add: wp)
    next
      case False
      have forgets: "route_forgotten pf c0 c2" if "route_forgotten pf c1 c2" for c2
        using that k1 by (simp add: route_forgotten_def route_kept_def disk_kept_def)
      have "outcome (ignore (release_private_route pf)) (\<lambda>_. route_forgotten pf c0) (\<lambda>_ _. False) c1"
        unfolding outcome_ignore
        by (rule outcome_mono [OF release_forgets])
          (auto simp: plain_error_def intro: forgets split: client_error.splits)
      then show ?thesis
        using False by (simp add: when_act_def) (erule outcome_mono, auto intro: rest [unfolded outcome_io_bind outcome_modify])
    qed
  qed simp
qed

lemma end_session_outcome: "outcome (end_session pf se) (\<lambda>_. session_ended pf c) (\<lambda>_ _. False) c"
proof -
  let ?c = "c\<lparr>c_vault := None, c_pre_away := None\<rparr>"
  have last: "outcome (logout_cleanup pf se) (\<lambda>_. session_ended pf c) (\<lambda>_ _. False) c1" if "route_kept ?c c1" for c1
    by (rule outcome_mono [OF end_of_session [OF that]]) (simp_all add: session_ended_def)
  have "outcome (ignore (publish_own_status pf Offline)) (\<lambda>_ c1. route_kept ?c c1) (\<lambda>_ _. False) ?c"
    unfolding outcome_ignore
    by (rule evolves_outcome [OF disk_publish]) (auto simp: plain_error_def split: client_error.splits)
  then have "outcome (when_act b (ignore (publish_own_status pf Offline))) (\<lambda>_ c1. route_kept ?c c1) (\<lambda>_ _. False) ?c" for b
    by (simp add: when_act_def outcome_ok disk.state_refl)
  then show ?thesis
    unfolding end_session_def outcome_io_bind outcome_modify outcome_gets
    by (rule outcome_mono) (auto intro: last)
qed

lemma outcome_returns:
  "outcome m Q (\<lambda>_ _. False) c \<Longrightarrow> \<exists>x c'. m c = (Inr x, c') \<and> Q x c'"
  by (auto simp: outcome_def split: prod.splits sum.splits)


section \<open>Deleting an identity\<close>

definition passphrase_fits :: "('w, 'k, 'p, 'r) platform \<Rightarrow> string \<Rightarrow> string \<Rightarrow> ('w, 'p, 'r) client \<Rightarrow> bool" where
  "passphrase_fits pf pk p c \<longleftrightarrow> (case map_of (c_snapshots c) pk of
     None \<Rightarrow> True
   | Some b \<Rightarrow> (case sh_load (pf_stronghold pf) (sh_derive (pf_stronghold pf) p) b of Inl e \<Rightarrow> False | Inr es \<Rightarrow> True))"

definition no_rows_of :: "string \<Rightarrow> client_db \<Rightarrow> bool" where
  "no_rows_of pk d \<longleftrightarrow> \<not> identity_exists pk d \<and> (\<forall>r\<in>set (ct_groups d). gr_owner r \<noteq> pk) \<and>
     (\<forall>r\<in>set (ct_friends d). fw_owner r \<noteq> pk) \<and> (\<forall>r\<in>set (ct_messages d). xm_owner r \<noteq> pk) \<and>
     (\<forall>r\<in>set (ct_queue d). qr_owner r \<noteq> pk) \<and> (\<forall>r\<in>set (ct_requests d). pr_owner r \<noteq> pk) \<and>
     (\<forall>r\<in>set (ct_blocked d). xb_owner r \<noteq> pk) \<and> (\<forall>r\<in>set (ct_communities d). kc_owner r \<noteq> pk) \<and>
     (\<forall>r\<in>set (ct_channels d). kh_owner r \<noteq> pk) \<and> (\<forall>r\<in>set (ct_members d). km_owner r \<noteq> pk)"

lemma deleted_identity:
  assumes "identity_exists pk d"
  shows "\<exists>d'. delete_identity_row pk d = Some d' \<and> no_rows_of pk d' \<and> ct_roles d' = ct_roles d \<and>
    ct_overwrites d' = ct_overwrites d"
  using assms by (auto simp: delete_identity_row_def no_rows_of_def row_delete_def identity_exists_def row_exists_def list_ex_iff)

lemma rows_deleted:
  assumes "c_faults c = []" and "identity_exists pk (c_db c)"
    and "\<And>d. no_rows_of pk d \<Longrightarrow> ct_roles d = ct_roles (c_db c) \<Longrightarrow> ct_overwrites d = ct_overwrites (c_db c) \<Longrightarrow>
      Q () (c\<lparr>c_db := d, c_snapshots := AList.delete pk (c_snapshots c)\<rparr>)"
  shows "outcome (io_bind (execute pf [] (delete_identity_row pk)) (\<lambda>_. delete_snapshot pk)) Q E c"
proof -
  obtain d where d: "delete_identity_row pk (c_db c) = Some d" "no_rows_of pk d" "ct_roles d = ct_roles (c_db c)"
      "ct_overwrites d = ct_overwrites (c_db c)"
    using deleted_identity [OF assms(2)] by blast
  have "AList.delete pk (c_snapshots c) = c_snapshots c" if "map_of (c_snapshots c) pk = None"
    using that by (simp add: map_of_eq_None_iff delete_id)
  then show ?thesis
    using assms(3) [OF d(2-4)] by (auto simp: wp outcome_execute_clean assms(1) d(1) delete_snapshot_def access_clean)
qed

text \<open>
  C31. Only who has the passphrase deletes an identity. With a working database, a passphrase that
  does not open its snapshot changes nothing at all. One that does removes the snapshot file and every
  row of the identity in the tables that refer to it, after a logout when it is the one in use; other
  sessions keep their memory. The rows of roles and channel overwrites stay, and without a snapshot file any
  passphrase will do.
\<close>

theorem identity_deletion:
  assumes "c_faults c = []" and "identity_exists pk (c_db c)"
  shows "outcome (delete_identity pf socket_exists pk p)
    (\<lambda>_ c'. passphrase_fits pf pk p c \<and> no_rows_of pk (c_db c') \<and> map_of (c_snapshots c') pk = None \<and>
      ct_roles (c_db c') = ct_roles (c_db c) \<and> ct_overwrites (c_db c') = ct_overwrites (c_db c) \<and>
      (if map_option is_public_key (c_identity c) = Some pk then nothing_left c'
       else c' = c\<lparr>c_db := c_db c', c_snapshots := c_snapshots c'\<rparr>))
    (\<lambda>e c'. \<not> passphrase_fits pf pk p c \<and> e = ClientError ''Wrong passphrase'' \<and> c' = c) c"
proof -
  let ?Q = "\<lambda>_ c'. no_rows_of pk (c_db c') \<and> map_of (c_snapshots c') pk = None \<and>
      ct_roles (c_db c') = ct_roles (c_db c) \<and> ct_overwrites (c_db c') = ct_overwrites (c_db c) \<and>
      (if map_option is_public_key (c_identity c) = Some pk then nothing_left c'
       else c' = c\<lparr>c_db := c_db c', c_snapshots := c_snapshots c'\<rparr>)"
  have gone: "outcome (io_bind (gets (\<lambda>c. case c_identity c of None \<Rightarrow> False | Some i \<Rightarrow> is_public_key i = pk)) (\<lambda>is_active.
     io_bind (when_act is_active (end_session pf socket_exists)) (\<lambda>_.
     io_bind (execute pf [] (delete_identity_row pk)) (\<lambda>_. delete_snapshot pk)))) ?Q (\<lambda>_ _. False) c"
  proof (cases "map_option is_public_key (c_identity c) = Some pk")
    case True
    then have active: "(case c_identity c of None \<Rightarrow> False | Some i \<Rightarrow> is_public_key i = pk) = True"
      by (auto split: option.split)
    show ?thesis
      unfolding outcome_io_bind [of "gets _"] outcome_gets active when_act_def if_True
        outcome_io_bind [of "end_session pf socket_exists"]
      by (rule outcome_mono [OF end_session_outcome [where c = c]])
        (use assms True in \<open>auto intro!: rows_deleted simp: session_ended_def nothing_left_def AList.delete_conv'\<close>)
  next
    case False
    then have active: "(case c_identity c of None \<Rightarrow> False | Some i \<Rightarrow> is_public_key i = pk) = False"
      by (auto split: option.split)
    show ?thesis
      unfolding outcome_io_bind [of "gets _"] outcome_gets active when_act_def if_False
        outcome_io_bind [of "ok ()"] outcome_ok
      by (rule rows_deleted [OF assms]) (use False in \<open>auto simp: AList.delete_conv'\<close>)
  qed
  note unlocking = delete_identity_def outcome_io_bind [of "access _"] outcome_io_bind [of "unlock _ _ _ _"]
    access_clean [OF assms(1)] unlock_clean [OF assms(1)]
  show ?thesis
  proof (cases "passphrase_fits pf pk p c")
    case True
    have "outcome (delete_identity pf socket_exists pk p) ?Q (\<lambda>_ _. False) c"
    proof (cases "map_of (c_snapshots c) pk")
      case None
      show ?thesis unfolding unlocking None option.case by (rule gone)
    next
      case (Some b)
      with True obtain es where es: "sh_load (pf_stronghold pf) (sh_derive (pf_stronghold pf) p) b = Inr es"
        by (auto simp: passphrase_fits_def split: sum.splits)
      show ?thesis unfolding unlocking Some es option.case sum.case by (rule gone)
    qed
    then show ?thesis by (rule outcome_mono) (use True in auto)
  next
    case False
    then show ?thesis unfolding unlocking by (auto simp: passphrase_fits_def split: option.splits sum.splits)
  qed
qed

section \<open>Examples\<close>

definition sample_identity :: identity_row where
  "sample_identity = \<lparr>ir_public_key = hex_encode (sample_key 1), ir_display_name = Some ''Alice'', ir_created_at = 0,
     ir_dht_record_key = None, ir_dht_owner_keypair = None, ir_friend_list_dht_key = None,
     ir_friend_list_owner_keypair = None, ir_avatar = None, ir_account_dht_key = None, ir_account_owner_keypair = None,
     ir_mailbox_dht_key = None\<rparr>"

definition sample_entries :: "(string \<times> bytes) list" where
  "sample_entries = [(identity_vault_key, sample_key 1), (mek_vault_key ''c1'', [1, 0, 0, 0, 0, 0, 0, 0] @ replicate 32 7)]"

text \<open>After the start of the program: a friend and a community in the database, and the snapshot.\<close>

definition stored_client :: "(mem \<times> mail, nat, bytes) client" where
  "stored_client = (sample_client 1 ''Alice'')\<lparr>c_identity := None, c_identity_secret := None,
     c_db := (empty_client_db [sample_identity])\<lparr>
       ct_friends := [\<lparr>fw_owner = hex_encode (sample_key 1), fw_public_key = ''bob'', fw_display_name = Some ''Bob'',
         fw_nickname = None, fw_group_id = None, fw_added_at = 0, fw_dht_record_key = None, fw_last_seen_at = None,
         fw_avatar = None, fw_local_conversation_key = None, fw_remote_conversation_key = None,
         fw_mailbox_dht_key = None, fw_friendship_state = ''accepted''\<rparr>],
       ct_communities := [\<lparr>kc_owner = hex_encode (sample_key 1), kc_id = ''c1'', kc_name = ''Club'', kc_description = None,
         kc_my_role = ''Member'', kc_my_role_ids = ''[0,1]'', kc_joined_at = 0, kc_dht_record_key = None,
         kc_dht_owner_keypair = None, kc_my_pseudonym_key = None, kc_mek_generation = 1,
         kc_server_route_blob = None, kc_is_hosted = False\<rparr>]\<rparr>,
     c_snapshots := [(hex_encode (sample_key 1), sh_commit sample_stronghold (as_bytes ''pw'') sample_entries)]\<rparr>"

lemma stored_client_ready:
  "c_faults stored_client = []" "select_identity (hex_encode (sample_key 1)) (c_db stored_client) = Some sample_identity"
  "unique_rows (c_db stored_client)"
  "map_of (c_snapshots stored_client) (hex_encode (sample_key 1)) =
     Some (sh_commit (pf_stronghold sample_platform) (sh_derive (pf_stronghold sample_platform) ''pw'') sample_entries)"
  "map_of sample_entries identity_vault_key = Some (sample_key 1)" "length (sample_key 1) = 32"
  "hex_encode (pf_public_of sample_platform (sample_key 1)) = hex_encode (sample_key 1)"
  by (simp_all add: stored_client_def sample_client_def select_identity_def row_lookup_def empty_client_db_def unique_rows_def
      sample_identity_def sample_entries_def sample_platform_def sample_key_def fit_def sample_stronghold_def)

theorem login_restores_witness:
  "outcome (login_core sample_platform (hex_encode (sample_key 1)) ''pw'') (\<lambda>(logged_in, sk, keys) c'.
     lr_display_name logged_in = ''Alice'' \<and> sk = sample_key 1 \<and> friend_of c' ''bob'' \<noteq> None \<and>
     map_of (c_mek_cache c') ''c1'' = Some \<lparr>mek_key = replicate 32 7, mek_generation = 1\<rparr>)
     (\<lambda>_ _. False) stored_client"
proof -
  have kept: "kept_mek sample_entries ''c1'' = Some \<lparr>mek_key = replicate 32 7, mek_generation = 1\<rparr>"
    by (simp add: kept_mek_def sample_entries_def identity_vault_key_def mek_vault_key_def)
  have name: "or_empty (ir_display_name sample_identity) = ''Alice''"
    by (simp add: sample_identity_def or_empty_def)
  show ?thesis
    by (rule outcome_mono [OF login_restores [OF stored_client_ready(1-4) sample_stronghold_ok stored_client_ready(5-7)]])
      (auto simp: stored_client_def own_friends_def own_communities_def friends_are_back_def community_is_back_def
        Let_def kept name)
qed

text \<open>A program started for the first time.\<close>

definition new_client :: "(mem \<times> mail, nat, bytes) client" where
  "new_client = (sample_client 1 ''Alice'')\<lparr>c_identity := None, c_identity_secret := None, c_db := empty_client_db []\<rparr>"

lemma new_client_creates:
  "\<exists>logged_in secret c1. create_identity_core sample_platform ''pw'' None new_client = (Inr (logged_in, secret), c1) \<and>
     c_faults c1 = [] \<and> unique_rows (c_db c1)"
proof -
  have n: "c_faults new_client = []" "c_snapshots new_client = []" "c_db new_client = empty_client_db []"
    by (simp_all add: new_client_def sample_client_def)
  have "outcome (create_identity_core sample_platform ''pw'' None) (\<lambda>_ c1. c_faults c1 = [] \<and> unique_rows (c_db c1))
      (\<lambda>_ _. False) new_client"
    by (simp add: create_identity_core_def Let_def wp forget_session_def enter_identity_def access_clean n
        initialize_key_store_clean save_key_store_def outcome_execute_clean insert_identity_def row_insert_def
        row_exists_def empty_client_db_def unique_rows_def)
  then show ?thesis by (auto dest: outcome_returns)
qed

theorem identity_survives_restart_witness:
  "\<exists>logged_in secret c1. create_identity_core sample_platform ''pw'' None new_client = (Inr (logged_in, secret), c1) \<and>
     outcome (login_core sample_platform (lr_public_key logged_in) ''pw'')
       (\<lambda>(again, sk, keys) c3. again = logged_in \<and> sk = secret) (\<lambda>_ _. False) c1 \<and>
     outcome (login_core sample_platform (lr_public_key logged_in) ''pass'')
       (\<lambda>_ _. False) (\<lambda>e c3. c_identity c3 = None \<and> c_snapshots c3 = c_snapshots c1) c1"
proof -
  obtain logged_in secret c1 where c1: "create_identity_core sample_platform ''pw'' None new_client = (Inr (logged_in, secret), c1)"
      "c_faults c1 = []" "unique_rows (c_db c1)" using new_client_creates by blast
  have "sh_derive (pf_stronghold sample_platform) ''pass'' \<noteq> sh_derive (pf_stronghold sample_platform) ''pw''"
    by (simp add: sample_platform_def sample_stronghold_def as_bytes_def)
  note survives = identity_survives_restart [OF c1(1) sample_stronghold_ok refl refl c1(2,3)]
  have "outcome (login_core sample_platform (lr_public_key logged_in) ''pw'')
       (\<lambda>(again, sk, keys) c3. again = logged_in \<and> sk = secret) (\<lambda>_ _. False) c1"
    by (rule outcome_mono [OF survives]) auto
  moreover have "outcome (login_core sample_platform (lr_public_key logged_in) ''pass'')
       (\<lambda>_ _. False) (\<lambda>e c3. c_identity c3 = None \<and> c_snapshots c3 = c_snapshots c1) c1"
    by (rule outcome_mono [OF survives]) (use \<open>_ \<noteq> _\<close> in auto)
  ultimately show ?thesis using c1(1) by blast
qed

text \<open>Of the same client: another passphrase deletes nothing, the right one the identity.\<close>

theorem identity_deletion_witness:
  "outcome (delete_identity sample_platform False (hex_encode (sample_key 1)) ''pass'')
     (\<lambda>_ _. False) (\<lambda>e c'. e = ClientError ''Wrong passphrase'' \<and> c' = stored_client) stored_client \<and>
   outcome (delete_identity sample_platform False (hex_encode (sample_key 1)) ''pw'')
     (\<lambda>_ c'. no_rows_of (hex_encode (sample_key 1)) (c_db c') \<and> map_of (c_snapshots c') (hex_encode (sample_key 1)) = None)
     (\<lambda>_ _. False) stored_client"
proof -
  let ?pk = "hex_encode (sample_key 1)"
  have e: "identity_exists ?pk (c_db stored_client)"
    by (simp add: stored_client_def sample_identity_def identity_exists_def empty_client_db_def row_exists_def)
  note deletion = identity_deletion [OF stored_client_ready(1) e]
  have "sh_derive (pf_stronghold sample_platform) ''pass'' \<noteq> sh_derive (pf_stronghold sample_platform) ''pw''"
    by (simp add: sample_platform_def sample_stronghold_def as_bytes_def)
  then have "\<not> passphrase_fits sample_platform ?pk ''pass'' stored_client" "passphrase_fits sample_platform ?pk ''pw'' stored_client"
    unfolding passphrase_fits_def stored_client_ready(4)
    by (simp_all add: sample_platform_def sample_stronghold_load)
  then show ?thesis by (auto intro!: outcome_mono [OF deletion])
qed

end
