(* ===== verification/Voice.thy ===== *)
theory Voice
  imports Jitter Dht
begin

text \<open>
  The voice library (\<open>crates/rekindle-voice\<close>) around the jitter buffer: mixing, the Opus codec, echo
  cancellation, noise suppression and voice activity, the transport and the engine that holds the
  devices. Arithmetic on \<open>f32\<close> and \<open>f64\<close> is a record of operations, Opus, RNNoise and AEC3 are records of
  their calls, whose objects have the type \<open>'x\<close>, and \<open>'w\<close> is the state of devices and network.
\<close>

section \<open>Floating point\<close>

text \<open>\<open>fl_lit a b\<close> is the literal \<open>a / b\<close>; \<open>fl_of_nat\<close> and \<open>fl_to_i32\<close> are casts.\<close>

record 'f floats =
  fl_lit :: "int \<Rightarrow> nat \<Rightarrow> 'f"
  fl_of_nat :: "nat \<Rightarrow> 'f"
  fl_add :: "'f \<Rightarrow> 'f \<Rightarrow> 'f"
  fl_mul :: "'f \<Rightarrow> 'f \<Rightarrow> 'f"
  fl_div :: "'f \<Rightarrow> 'f \<Rightarrow> 'f"
  fl_less :: "'f \<Rightarrow> 'f \<Rightarrow> bool"
  fl_le :: "'f \<Rightarrow> 'f \<Rightarrow> bool"
  fl_to_i32 :: "'f \<Rightarrow> int"

definition fl_zero :: "'f floats \<Rightarrow> 'f" where
  "fl_zero F = fl_lit F 0 1"

text \<open>\<open>x.clamp(lo, hi)\<close>, which keeps a NaN.\<close>

definition fl_clamp :: "'f floats \<Rightarrow> 'f \<Rightarrow> 'f \<Rightarrow> 'f \<Rightarrow> 'f" where
  "fl_clamp F lo hi x = (if fl_less F x lo then lo else if fl_less F hi x then hi else x)"

section \<open>Errors\<close>

datatype voice_error = AudioDevice string | VoiceCodec string | VoiceTransport string | VoiceNotConnected

fun show_voice_error :: "voice_error \<Rightarrow> string" where
  "show_voice_error (AudioDevice e) = ''audio device error: '' @ e"
| "show_voice_error (VoiceCodec e) = ''codec error: '' @ e"
| "show_voice_error (VoiceTransport e) = ''transport error: '' @ e"
| "show_voice_error VoiceNotConnected = ''not connected to voice channel''"

text \<open>\<open>?\<close> on results, with the error mapped first.\<close>

definition try_then :: "('e \<Rightarrow> 'g) \<Rightarrow> 'e + 'a \<Rightarrow> ('a \<Rightarrow> 'g + 'b) \<Rightarrow> 'g + 'b" where
  "try_then g r f = (case r of Inl e \<Rightarrow> Inl (g e) | Inr x \<Rightarrow> f x)"

section \<open>The mixer\<close>

record 'f audio_mixer =
  am_output_channels :: u16
  am_volumes :: "(string \<times> 'f) list"

definition new_mixer :: "u16 \<Rightarrow> 'f audio_mixer" where
  "new_mixer output_channels = \<lparr>am_output_channels = output_channels, am_volumes = []\<rparr>"

fun add_samples :: "'f floats \<Rightarrow> 'f \<Rightarrow> 'f list \<Rightarrow> 'f list \<Rightarrow> 'f list" where
  "add_samples F volume (x # xs) (s # ss) = fl_add F x (fl_mul F s volume) # add_samples F volume xs ss"
| "add_samples F volume xs [] = xs"
| "add_samples F volume [] ss = []"

definition participant_volume :: "'f floats \<Rightarrow> 'f audio_mixer \<Rightarrow> string \<Rightarrow> 'f" where
  "participant_volume F m participant = (case map_of (am_volumes m) participant of None \<Rightarrow> fl_lit F 1 1 | Some v \<Rightarrow> v)"

definition mix_streams :: "'f floats \<Rightarrow> 'f audio_mixer \<Rightarrow> (string \<times> 'f list) list \<Rightarrow> 'f list" where
  "mix_streams F m streams =
     (if streams = [] then []
      else let max_len = Max (set (map (\<lambda>(participant, samples). length samples) streams))
           in map (fl_clamp F (fl_lit F (- 1) 1) (fl_lit F 1 1))
                (foldl (\<lambda>out (participant, samples). add_samples F (participant_volume F m participant) out samples)
                  (replicate max_len (fl_zero F)) streams))"

definition set_volume :: "'f floats \<Rightarrow> string \<Rightarrow> 'f \<Rightarrow> 'f audio_mixer \<Rightarrow> 'f audio_mixer" where
  "set_volume F participant volume m =
     m\<lparr>am_volumes := AList.update participant (fl_clamp F (fl_zero F) (fl_lit F 2 1) volume) (am_volumes m)\<rparr>"

definition remove_participant :: "string \<Rightarrow> 'f audio_mixer \<Rightarrow> 'f audio_mixer" where
  "remove_participant participant m = m\<lparr>am_volumes := AList.delete participant (am_volumes m)\<rparr>"

section \<open>The codec\<close>

text \<open>
  The \<open>opus\<close> crate: a call that changes an encoder or decoder returns the new one.
  \<open>decode_float\<close> gives the samples it wrote, of at most as many as the buffer has.
\<close>

record ('f, 'x) opus =
  op_encoder :: "u32 \<Rightarrow> u16 \<Rightarrow> string + 'x"
  op_decoder :: "u32 \<Rightarrow> u16 \<Rightarrow> string + 'x"
  op_set_bitrate :: "int \<Rightarrow> 'x \<Rightarrow> string + 'x"
  op_set_inband_fec :: "bool \<Rightarrow> 'x \<Rightarrow> string + 'x"
  op_set_packet_loss_perc :: "int \<Rightarrow> 'x \<Rightarrow> string + 'x"
  op_encode_float :: "'x \<Rightarrow> 'f list \<Rightarrow> nat \<Rightarrow> (string + bytes) \<times> 'x"
  op_decode_float :: "'x \<Rightarrow> bytes \<Rightarrow> nat \<Rightarrow> bool \<Rightarrow> (string + 'f list) \<times> 'x"

record 'x opus_codec =
  oc_encoder :: 'x
  oc_decoder :: 'x
  oc_sample_rate :: u32
  oc_channels :: u16
  oc_frame_size :: nat

record encoded_frame =
  ef_data :: bytes
  ef_timestamp :: u64
  ef_sequence :: u32

record 'f decoded_frame =
  df_samples :: "'f list"
  df_timestamp :: u64

definition to_opus_channels :: "u16 \<Rightarrow> voice_error + u16" where
  "to_opus_channels channels =
     (if channels = 1 \<or> channels = 2 then Inr channels
      else Inl (VoiceCodec (''unsupported channel count: '' @ show_nat (unat channels) @ '' (only mono/stereo)'')))"

definition opus_codec_new ::
  "('f, 'x) opus \<Rightarrow> u32 \<Rightarrow> u16 \<Rightarrow> nat \<Rightarrow> voice_error + 'x opus_codec" where
  "opus_codec_new op sample_rate channels frame_size =
     try_then id (to_opus_channels channels) (\<lambda>opus_channels.
     try_then (\<lambda>e. VoiceCodec (''encoder init failed: '' @ e)) (op_encoder op sample_rate opus_channels) (\<lambda>encoder.
     try_then (\<lambda>e. VoiceCodec (''set bitrate failed: '' @ e)) (op_set_bitrate op 32000 encoder) (\<lambda>encoder.
     try_then (\<lambda>e. VoiceCodec (''set FEC failed: '' @ e)) (op_set_inband_fec op True encoder) (\<lambda>encoder.
     try_then (\<lambda>e. VoiceCodec (''set packet loss percent failed: '' @ e)) (op_set_packet_loss_perc op 10 encoder) (\<lambda>encoder.
     try_then (\<lambda>e. VoiceCodec (''decoder init failed: '' @ e)) (op_decoder op sample_rate opus_channels) (\<lambda>decoder.
     Inr \<lparr>oc_encoder = encoder, oc_decoder = decoder, oc_sample_rate = sample_rate, oc_channels = channels,
       oc_frame_size = frame_size\<rparr>))))))"

definition opus_encode ::
  "('f, 'x) opus \<Rightarrow> 'f list \<Rightarrow> 'x opus_codec \<Rightarrow> (voice_error + encoded_frame) \<times> 'x opus_codec" where
  "opus_encode op pcm codec =
     (case op_encode_float op (oc_encoder codec) pcm 4000 of (r, encoder) \<Rightarrow>
        (try_then (\<lambda>e. VoiceCodec (''encode failed: '' @ e)) r
           (\<lambda>output. Inr \<lparr>ef_data = output, ef_timestamp = 0, ef_sequence = 0\<rparr>), codec\<lparr>oc_encoder := encoder\<rparr>))"

text \<open>The three ways to decode: a frame, the redundancy in the next packet, and nothing at all.\<close>

definition opus_decode_with ::
  "('f, 'x) opus \<Rightarrow> string \<Rightarrow> bool \<Rightarrow> u64 \<Rightarrow> bytes \<Rightarrow> 'x opus_codec
   \<Rightarrow> (voice_error + 'f decoded_frame) \<times> 'x opus_codec" where
  "opus_decode_with op what fec timestamp data codec =
     (case op_decode_float op (oc_decoder codec) data (oc_frame_size codec * unat (oc_channels codec)) fec of
        (r, decoder) \<Rightarrow>
          (try_then (\<lambda>e. VoiceCodec (what @ e)) r
             (\<lambda>samples. Inr \<lparr>df_samples = samples, df_timestamp = timestamp\<rparr>), codec\<lparr>oc_decoder := decoder\<rparr>))"

definition opus_decode ::
  "('f, 'x) opus \<Rightarrow> encoded_frame \<Rightarrow> 'x opus_codec \<Rightarrow> (voice_error + 'f decoded_frame) \<times> 'x opus_codec" where
  "opus_decode op frame = opus_decode_with op ''decode failed: '' False (ef_timestamp frame) (ef_data frame)"

definition opus_decode_fec ::
  "('f, 'x) opus \<Rightarrow> bytes \<Rightarrow> 'x opus_codec \<Rightarrow> (voice_error + 'f decoded_frame) \<times> 'x opus_codec" where
  "opus_decode_fec op data = opus_decode_with op ''FEC decode failed: '' True 0 data"

definition opus_decode_plc ::
  "('f, 'x) opus \<Rightarrow> 'x opus_codec \<Rightarrow> (voice_error + 'f decoded_frame) \<times> 'x opus_codec" where
  "opus_decode_plc op = opus_decode_with op ''PLC decode failed: '' False 0 []"

definition set_packet_loss_perc ::
  "('f, 'x) opus \<Rightarrow> int \<Rightarrow> 'x opus_codec \<Rightarrow> voice_error + 'x opus_codec" where
  "set_packet_loss_perc op percent codec =
     try_then (\<lambda>e. VoiceCodec (''set packet loss percent failed: '' @ e))
       (op_set_packet_loss_perc op percent (oc_encoder codec)) (\<lambda>encoder. Inr (codec\<lparr>oc_encoder := encoder\<rparr>))"

section \<open>Audio processing\<close>

text \<open>
  \<open>DenoiseState\<close> of \<open>nnnoiseless\<close>, whose frames have 480 samples and which also returns the
  probability of speech, and \<open>VoipAec3\<close>.
\<close>

record ('f, 'x) dsp =
  ds_denoiser :: 'x
  ds_process_frame :: "'x \<Rightarrow> 'f list \<Rightarrow> ('f \<times> 'f list) \<times> 'x"
  ds_aec :: "string + 'x"
  ds_aec_process :: "'x \<Rightarrow> 'f list \<Rightarrow> 'f list option \<Rightarrow> (string + 'f list) \<times> 'x"
  ds_aec_render :: "'x \<Rightarrow> 'f list \<Rightarrow> 'x"

record ('f, 'x) audio_processor =
  ap_denoiser :: 'x
  ap_echo_canceller :: "'x option"
  ap_noise_suppression_enabled :: bool
  ap_echo_cancellation_enabled :: bool
  ap_vad_threshold :: 'f
  ap_vad_hold_frames :: u32
  ap_vad_hold_counter :: u32
  ap_is_speaking :: bool

definition sub_frame_size :: nat where
  "sub_frame_size = 480"

definition new_echo_canceller :: "('f, 'x) dsp \<Rightarrow> 'x option" where
  "new_echo_canceller ds = (case ds_aec ds of Inl e \<Rightarrow> None | Inr aec \<Rightarrow> Some aec)"

definition new_audio_processor ::
  "('f, 'x) dsp \<Rightarrow> bool \<Rightarrow> bool \<Rightarrow> 'f \<Rightarrow> u32 \<Rightarrow> u32 \<Rightarrow> ('f, 'x) audio_processor" where
  "new_audio_processor ds noise_suppression echo_cancellation vad_threshold vad_hold_ms frame_duration_ms =
     \<lparr>ap_denoiser = ds_denoiser ds,
      ap_echo_canceller = (if echo_cancellation then new_echo_canceller ds else None),
      ap_noise_suppression_enabled = noise_suppression, ap_echo_cancellation_enabled = echo_cancellation,
      ap_vad_threshold = vad_threshold,
      ap_vad_hold_frames = (if 0 < frame_duration_ms then vad_hold_ms div frame_duration_ms else 0),
      ap_vad_hold_counter = 0, ap_is_speaking = False\<rparr>"

text \<open>Echo cancellation, scaling to 16 bits, noise suppression and scaling back.\<close>

definition cancel_echo ::
  "('f, 'x) dsp \<Rightarrow> 'f list \<Rightarrow> 'f list option \<Rightarrow> ('f, 'x) audio_processor \<Rightarrow> 'f list \<times> ('f, 'x) audio_processor" where
  "cancel_echo ds input speaker_ref ap =
     (case (ap_echo_cancellation_enabled ap, ap_echo_canceller ap) of
        (True, Some aec) \<Rightarrow>
          (case ds_aec_process ds aec input speaker_ref of
             (Inl e, aec) \<Rightarrow> (input, ap\<lparr>ap_echo_canceller := Some aec\<rparr>)
           | (Inr output, aec) \<Rightarrow> (output, ap\<lparr>ap_echo_canceller := Some aec\<rparr>))
      | _ \<Rightarrow> (input, ap))"

definition process_sub_frame ::
  "'f floats \<Rightarrow> ('f, 'x) dsp \<Rightarrow> 'f list \<Rightarrow> 'f list option \<Rightarrow> ('f, 'x) audio_processor
   \<Rightarrow> ('f list \<times> 'f) \<times> ('f, 'x) audio_processor" where
  "process_sub_frame F ds input speaker_ref ap =
     (case cancel_echo ds input speaker_ref ap of (echo_cancelled, ap) \<Rightarrow>
        let scaled_input = map (\<lambda>s. fl_mul F s (fl_lit F 32767 1)) (take sub_frame_size echo_cancelled)
        in case ds_process_frame ds (ap_denoiser ap) scaled_input of ((vad_prob, denoised), denoiser) \<Rightarrow>
          let denoised = (if ap_noise_suppression_enabled ap then denoised else scaled_input)
          in ((map (\<lambda>s. fl_clamp F (fl_lit F (- 1) 1) (fl_lit F 1 1) (fl_div F s (fl_lit F 32767 1))) denoised, vad_prob),
              ap\<lparr>ap_denoiser := denoiser\<rparr>))"

definition update_vad_state :: "'f floats \<Rightarrow> 'f \<Rightarrow> ('f, 'x) audio_processor \<Rightarrow> bool \<times> ('f, 'x) audio_processor" where
  "update_vad_state F vad_probability ap =
     (let ap' = (if fl_le F (ap_vad_threshold ap) vad_probability
          then ap\<lparr>ap_is_speaking := True, ap_vad_hold_counter := ap_vad_hold_frames ap\<rparr>
          else if 0 < ap_vad_hold_counter ap then ap\<lparr>ap_vad_hold_counter := ap_vad_hold_counter ap - 1\<rparr>
          else ap\<lparr>ap_is_speaking := False\<rparr>)
      in (ap_is_speaking ap', ap'))"

text \<open>The sub-frames from the \<open>i\<close>-th on; a reference that is too short is cut.\<close>

definition sub_reference :: "'f list option \<Rightarrow> nat \<Rightarrow> 'f list option" where
  "sub_reference speaker_ref start = Option.bind speaker_ref (\<lambda>sr.
     let sr_end = min (start + sub_frame_size) (length sr)
     in if start < sr_end then Some (take (sr_end - start) (drop start sr)) else None)"

fun process_sub_frames ::
  "'f floats \<Rightarrow> ('f, 'x) dsp \<Rightarrow> 'f list \<Rightarrow> 'f list option \<Rightarrow> nat list \<Rightarrow> ('f list \<times> 'f) \<times> ('f, 'x) audio_processor
   \<Rightarrow> ('f list \<times> 'f) \<times> ('f, 'x) audio_processor" where
  "process_sub_frames F ds input speaker_ref [] r = r"
| "process_sub_frames F ds input speaker_ref (i # is) ((output, vad_prob_sum), ap) =
     (let start = i * sub_frame_size
      in case process_sub_frame F ds (take sub_frame_size (drop start input)) (sub_reference speaker_ref start) ap of
        ((processed, vad_prob), ap) \<Rightarrow>
          process_sub_frames F ds input speaker_ref is ((output @ processed, fl_add F vad_prob_sum vad_prob), ap))"

record 'f processed_frame =
  pd_samples :: "'f list"
  pd_is_speech :: bool

definition process_capture ::
  "'f floats \<Rightarrow> ('f, 'x) dsp \<Rightarrow> 'f list \<Rightarrow> 'f list option \<Rightarrow> ('f, 'x) audio_processor
   \<Rightarrow> 'f processed_frame \<times> ('f, 'x) audio_processor" where
  "process_capture F ds input speaker_ref ap =
     (let num_sub_frames = length input div sub_frame_size
      in case process_sub_frames F ds input speaker_ref [0..<num_sub_frames] (([], fl_zero F), ap) of
        ((output, vad_prob_sum), ap) \<Rightarrow>
          let avg_vad_prob = (if 0 < num_sub_frames then fl_div F vad_prob_sum (fl_of_nat F num_sub_frames) else fl_zero F)
          in case update_vad_state F avg_vad_prob ap of (is_speech, ap) \<Rightarrow>
            (\<lparr>pd_samples = output @ drop (num_sub_frames * sub_frame_size) input, pd_is_speech = is_speech\<rparr>, ap))"

definition feed_speaker_reference ::
  "('f, 'x) dsp \<Rightarrow> 'f list \<Rightarrow> ('f, 'x) audio_processor \<Rightarrow> ('f, 'x) audio_processor" where
  "feed_speaker_reference ds speaker_audio ap =
     (case (ap_echo_cancellation_enabled ap, ap_echo_canceller ap) of
        (True, Some aec) \<Rightarrow> ap\<lparr>ap_echo_canceller := Some (foldl
          (\<lambda>aec i. ds_aec_render ds aec (take sub_frame_size (drop (i * sub_frame_size) speaker_audio))) aec
          [0..<length speaker_audio div sub_frame_size])\<rparr>
      | _ \<Rightarrow> ap)"

definition reset_audio_processor :: "('f, 'x) dsp \<Rightarrow> ('f, 'x) audio_processor \<Rightarrow> ('f, 'x) audio_processor" where
  "reset_audio_processor ds ap = ap\<lparr>ap_denoiser := ds_denoiser ds, ap_vad_hold_counter := 0, ap_is_speaking := False,
     ap_echo_canceller := (if ap_echo_cancellation_enabled ap then new_echo_canceller ds else ap_echo_canceller ap)\<rparr>"

definition set_noise_suppression :: "bool \<Rightarrow> ('f, 'x) audio_processor \<Rightarrow> ('f, 'x) audio_processor" where
  "set_noise_suppression enabled ap = ap\<lparr>ap_noise_suppression_enabled := enabled\<rparr>"

definition set_vad_threshold :: "'f floats \<Rightarrow> 'f \<Rightarrow> ('f, 'x) audio_processor \<Rightarrow> ('f, 'x) audio_processor" where
  "set_vad_threshold F threshold ap = ap\<lparr>ap_vad_threshold := fl_clamp F (fl_zero F) (fl_lit F 1 1) threshold\<rparr>"

section \<open>Transport\<close>

text \<open>
  What a transport does on the network: a routing context without safety, the import of a route,
  \<open>app_message\<close>, and \<open>bincode\<close> on packets.
\<close>

record ('w, 'r) voice_net =
  vn_context :: "('w, string, unit) io"
  vn_import :: "bytes \<Rightarrow> ('w, string, 'r) io"
  vn_app_message :: "'r \<Rightarrow> bytes \<Rightarrow> ('w, string, unit) io"
  vn_serialize :: "voice_packet \<Rightarrow> string + bytes"
  vn_deserialize :: "bytes \<Rightarrow> string + voice_packet"

record 'r voice_transport =
  tr_channel_id :: string
  tr_is_connected :: bool
  tr_route_id :: "'r option"
  tr_sender_key :: bytes

definition new_transport :: "string \<Rightarrow> 'r voice_transport" where
  "new_transport channel_id =
     \<lparr>tr_channel_id = channel_id, tr_is_connected = False, tr_route_id = None, tr_sender_key = []\<rparr>"

text \<open>The error texts name the call: \<open>with_safety\<close> and the context are one here.\<close>

definition transport_connect ::
  "('w, 'r) voice_net \<Rightarrow> bytes \<Rightarrow> bytes \<Rightarrow> 'r voice_transport \<Rightarrow> ('w, voice_error, 'r voice_transport) io" where
  "transport_connect vn route_blob sender_key t =
     io_bind (map_error (\<lambda>e. VoiceTransport (''routing context: '' @ e)) (vn_context vn)) (\<lambda>_.
     io_bind (map_error (\<lambda>e. VoiceTransport (''import route: '' @ e)) (vn_import vn route_blob)) (\<lambda>route_id.
     ok (t\<lparr>tr_route_id := Some route_id, tr_sender_key := sender_key, tr_is_connected := True\<rparr>)))"

definition transport_disconnect :: "'r voice_transport \<Rightarrow> 'r voice_transport" where
  "transport_disconnect t = t\<lparr>tr_route_id := None, tr_is_connected := False\<rparr>"

definition transport_send ::
  "('w, 'r) voice_net \<Rightarrow> encoded_frame \<Rightarrow> 'r voice_transport \<Rightarrow> ('w, voice_error, unit) io" where
  "transport_send vn frame t =
     (if \<not> tr_is_connected t then throw VoiceNotConnected
      else case tr_route_id t of
        None \<Rightarrow> throw VoiceNotConnected
      | Some route_id \<Rightarrow>
          io_bind (from_result (try_then VoiceTransport (vn_serialize vn
            \<lparr>vp_sender_key = tr_sender_key t, vp_sequence = ef_sequence frame, vp_timestamp = ef_timestamp frame,
             vp_audio_data = ef_data frame\<rparr>) Inr)) (\<lambda>payload.
          map_error (\<lambda>e. VoiceTransport (''app_message: '' @ e)) (vn_app_message vn route_id (0x56 # payload))))"

definition transport_receive :: "('w, 'r) voice_net \<Rightarrow> bytes \<Rightarrow> voice_error + voice_packet" where
  "transport_receive vn data = try_then VoiceTransport (vn_deserialize vn data) Inr"

section \<open>The engine\<close>

record 'f voice_config =
  vc_sample_rate :: u32
  vc_channels :: u16
  vc_frame_size :: nat
  vc_jitter_buffer_ms :: u32
  vc_vad_threshold :: 'f
  vc_vad_hold_ms :: u32
  vc_noise_suppression :: bool
  vc_echo_cancellation :: bool
  vc_input_device :: "string option"
  vc_output_device :: "string option"
  vc_input_volume :: 'f
  vc_output_volume :: 'f

definition default_voice_config :: "'f floats \<Rightarrow> 'f voice_config" where
  "default_voice_config F =
     \<lparr>vc_sample_rate = 48000, vc_channels = 1, vc_frame_size = 960, vc_jitter_buffer_ms = 200,
      vc_vad_threshold = fl_lit F 2 100, vc_vad_hold_ms = 300, vc_noise_suppression = True,
      vc_echo_cancellation = True, vc_input_device = None, vc_output_device = None,
      vc_input_volume = fl_lit F 1 1, vc_output_volume = fl_lit F 1 1\<rparr>"

text \<open>
  An open device is the name it was opened with and the channel it reports errors to. Channels for
  device errors are numbered; the engine has the sender of the latest, and the receiver of the
  first until it is taken. Of the channels of samples it matters whether the end is still there.
\<close>

record ('f, 'x) voice_engine =
  en_codec :: "'x opus_codec"
  en_capture :: "(string option \<times> nat) option"
  en_playback :: "(string option \<times> nat) option"
  en_jitter_buffer :: jitter_buffer
  en_mixer :: "'f audio_mixer"
  en_is_muted :: bool
  en_is_deafened :: bool
  en_capture_rx :: bool
  en_playback_tx :: bool
  en_device_error_rx :: "nat option"
  en_device_error_tx :: nat
  en_config :: "'f voice_config"

text \<open>Opening the devices (\<open>cpal\<close>), by rate, channels and name, and listing them with the default marked.\<close>

record 'w devices =
  dv_open_input :: "u32 \<Rightarrow> u16 \<Rightarrow> string option \<Rightarrow> ('w, string, unit) io"
  dv_open_output :: "u32 \<Rightarrow> u16 \<Rightarrow> string option \<Rightarrow> ('w, string, unit) io"
  dv_list :: "('w, string, (string \<times> bool) list \<times> (string \<times> bool) list) io"

definition new_engine :: "('f, 'x) opus \<Rightarrow> 'f voice_config \<Rightarrow> voice_error + ('f, 'x) voice_engine" where
  "new_engine op config =
     try_then id (opus_codec_new op (vc_sample_rate config) (vc_channels config) (vc_frame_size config)) (\<lambda>codec.
     Inr \<lparr>en_codec = codec, en_capture = None, en_playback = None,
       en_jitter_buffer = new_jitter_buffer (vc_jitter_buffer_ms config), en_mixer = new_mixer (vc_channels config),
       en_is_muted = False, en_is_deafened = False, en_capture_rx = False, en_playback_tx = False,
       en_device_error_rx = Some 0, en_device_error_tx = 0, en_config = config\<rparr>)"

definition engine_start_capture ::
  "'w devices \<Rightarrow> ('f, 'x) voice_engine \<Rightarrow> ('w, voice_error, ('f, 'x) voice_engine) io" where
  "engine_start_capture dv en =
     io_bind (map_error AudioDevice (dv_open_input dv (vc_sample_rate (en_config en)) (vc_channels (en_config en))
       (vc_input_device (en_config en)))) (\<lambda>_.
     ok (en\<lparr>en_capture := Some (vc_input_device (en_config en), en_device_error_tx en), en_capture_rx := True\<rparr>))"

definition engine_stop_capture :: "('f, 'x) voice_engine \<Rightarrow> ('f, 'x) voice_engine" where
  "engine_stop_capture en = en\<lparr>en_capture := None, en_capture_rx := False\<rparr>"

definition engine_start_playback ::
  "'w devices \<Rightarrow> ('f, 'x) voice_engine \<Rightarrow> ('w, voice_error, ('f, 'x) voice_engine) io" where
  "engine_start_playback dv en =
     io_bind (map_error AudioDevice (dv_open_output dv (vc_sample_rate (en_config en)) (vc_channels (en_config en))
       (vc_output_device (en_config en)))) (\<lambda>_.
     ok (en\<lparr>en_playback := Some (vc_output_device (en_config en), en_device_error_tx en), en_playback_tx := True\<rparr>))"

definition engine_stop_playback :: "('f, 'x) voice_engine \<Rightarrow> ('f, 'x) voice_engine" where
  "engine_stop_playback en = en\<lparr>en_playback := None, en_playback_tx := False\<rparr>"

definition take_capture_rx :: "('f, 'x) voice_engine \<Rightarrow> bool \<times> ('f, 'x) voice_engine" where
  "take_capture_rx en = (en_capture_rx en, en\<lparr>en_capture_rx := False\<rparr>)"

definition take_playback_tx :: "('f, 'x) voice_engine \<Rightarrow> bool \<times> ('f, 'x) voice_engine" where
  "take_playback_tx en = (en_playback_tx en, en\<lparr>en_playback_tx := False\<rparr>)"

definition process_incoming_packet :: "nat \<Rightarrow> voice_packet \<Rightarrow> ('f, 'x) voice_engine \<Rightarrow> ('f, 'x) voice_engine" where
  "process_incoming_packet now packet en = en\<lparr>en_jitter_buffer := jitter_push now packet (en_jitter_buffer en)\<rparr>"

definition set_muted :: "bool \<Rightarrow> ('f, 'x) voice_engine \<Rightarrow> ('f, 'x) voice_engine" where
  "set_muted muted en = en\<lparr>en_is_muted := muted\<rparr>"

definition set_deafened :: "bool \<Rightarrow> ('f, 'x) voice_engine \<Rightarrow> ('f, 'x) voice_engine" where
  "set_deafened deafened en = en\<lparr>en_is_deafened := deafened\<rparr>"

definition set_devices :: "string option \<Rightarrow> string option \<Rightarrow> ('f, 'x) voice_engine \<Rightarrow> ('f, 'x) voice_engine" where
  "set_devices input_device output_device en = en\<lparr>en_config := (en_config en)\<lparr>vc_input_device := input_device,
     vc_output_device := output_device\<rparr>\<rparr>"

definition take_device_error_rx :: "('f, 'x) voice_engine \<Rightarrow> nat option \<times> ('f, 'x) voice_engine" where
  "take_device_error_rx en = (en_device_error_rx en, en\<lparr>en_device_error_rx := None\<rparr>)"

text \<open>The new channel has the next number.\<close>

definition refresh_device_error_channels :: "('f, 'x) voice_engine \<Rightarrow> nat \<times> ('f, 'x) voice_engine" where
  "refresh_device_error_channels en =
     (let channel = en_device_error_tx en + 1 in (channel, en\<lparr>en_device_error_tx := channel\<rparr>))"

end
