(* ===== verification/VoiceCalls.thy ===== *)
theory VoiceCalls
  imports Voice ClientState
begin

text \<open>
  Calls in voice channels (\<open>commands/voice.rs\<close>): joining and leaving, mute and deafen, changing
  devices during a call, and one turn of each loop of a call, for a chunk of the microphone, a packet,
  a tick of 20 milliseconds, and the device monitor. Also the preferences the commands read
  (\<open>commands/settings.rs\<close>). A call is apart from the rest of the client: what it reads of it, the
  identity and a route, is an argument.
\<close>

section \<open>State\<close>

datatype voice_event =
    UserJoined string string
  | UserLeft string
  | UserSpeaking string bool
  | UserMuted string bool
  | ConnectionQuality string
  | DeviceChanged string string string
  | VoiceAlert string string

record 'f preferences =
  pre_notifications_enabled :: bool
  pre_notification_sound :: bool
  pre_start_minimized :: bool
  pre_auto_start :: bool
  pre_game_detection_enabled :: bool
  pre_game_scan_interval_secs :: u32
  pre_input_device :: "string option"
  pre_output_device :: "string option"
  pre_input_volume :: 'f
  pre_output_volume :: 'f
  pre_noise_suppression :: bool
  pre_echo_cancellation :: bool
  pre_auto_away_minutes :: u32

definition default_preferences :: "'f floats \<Rightarrow> 'f preferences" where
  "default_preferences F =
     \<lparr>pre_notifications_enabled = True, pre_notification_sound = True, pre_start_minimized = False,
      pre_auto_start = False, pre_game_detection_enabled = True, pre_game_scan_interval_secs = 15,
      pre_input_device = None, pre_output_device = None, pre_input_volume = fl_lit F 1 1,
      pre_output_volume = fl_lit F 1 1, pre_noise_suppression = True, pre_echo_cancellation = True,
      pre_auto_away_minutes = 10\<rparr>"

text \<open>The local variables of the send loop and of the receive loop, while they run.\<close>

record ('f, 'x, 'r) send_loop =
  sl_codec :: "'x opus_codec"
  sl_processor :: "('f, 'x) audio_processor"
  sl_transport :: "'r voice_transport"
  sl_public_key :: string
  sl_sequence :: u32
  sl_was_speaking :: bool
  sl_pcm_buffer :: "'f list"
  sl_packets_sent :: u64
  sl_send_failures :: u64
  sl_last_quality_report :: nat

record 'x participant_decoder =
  pd_codec :: "'x opus_codec"
  pd_jitter_buffer :: jitter_buffer
  pd_is_speaking :: bool
  pd_last_packet_time :: nat

record 'x receive_loop =
  rl_our_key :: bytes
  rl_participants :: "(bytes \<times> 'x participant_decoder) list"

text \<open>
  The handle of the engine, with the flags that the loops share with it. Its channels and join
  handles for the loops are set exactly while the loops of the state run.
\<close>

record ('f, 'x) voice_handle =
  vh_engine :: "('f, 'x) voice_engine"
  vh_channel_id :: string
  vh_muted_flag :: bool
  vh_deafened_flag :: bool

text \<open>
  The loops that run, the device monitor with the channel it listens to; the queue of packets from
  the network, if there is one, the mixed frames on the way to the speaker, the reference frames for
  the echo canceller and whether some were overwritten before they were read; the events so far;
  devices and network; the clocks in milliseconds.
\<close>

record ('w, 'f, 'x, 'r) voice =
  v_handle :: "('f, 'x) voice_handle option"
  v_send :: "('f, 'x, 'r) send_loop option"
  v_receive :: "'x receive_loop option"
  v_monitor :: "nat option"
  v_packets :: "voice_packet list option"
  v_playback :: "'f list list"
  v_references :: "'f list list"
  v_lagged :: bool
  v_preferences :: "'f preferences option"
  v_events :: "voice_event list"
  v_world :: 'w
  v_instant :: nat
  v_clock :: nat

record ('w, 'f, 'x, 'r) audio =
  au_floats :: "'f floats"
  au_opus :: "('f, 'x) opus"
  au_dsp :: "('f, 'x) dsp"
  au_net :: "('w, 'r) voice_net"
  au_devices :: "'w devices"
  au_open_store :: "('w, string, unit) io"
  au_save_store :: "('w, string, unit) io"

type_synonym ('w, 'f, 'x, 'r, 'a) call = "(('w, 'f, 'x, 'r) voice, string, 'a) io"

definition see :: "(('w, 'f, 'x, 'r) voice \<Rightarrow> 'a) \<Rightarrow> ('w, 'f, 'x, 'r, 'a) call" where
  "see f = (\<lambda>v. (Inr (f v), v))"

definition change :: "(('w, 'f, 'x, 'r) voice \<Rightarrow> ('w, 'f, 'x, 'r) voice) \<Rightarrow> ('w, 'f, 'x, 'r, unit) call" where
  "change f = (\<lambda>v. (Inr (), f v))"

definition announce :: "voice_event \<Rightarrow> ('w, 'f, 'x, 'r, unit) call" where
  "announce e = change (\<lambda>v. v\<lparr>v_events := v_events v @ [e]\<rparr>)"

text \<open>A call of the library on devices and network.\<close>

definition outside :: "('w, 'e, 'a) io \<Rightarrow> (('w, 'f, 'x, 'r) voice, 'e, 'a) io" where
  "outside m = (\<lambda>v. case m (v_world v) of (r, w) \<Rightarrow> (r, v\<lparr>v_world := w\<rparr>))"

definition edit_engine ::
  "(('f, 'x) voice_engine \<Rightarrow> ('f, 'x) voice_engine) \<Rightarrow> ('w, 'f, 'x, 'r, unit) call" where
  "edit_engine f = change (\<lambda>v. v\<lparr>v_handle := map_option (\<lambda>h. h\<lparr>vh_engine := f (vh_engine h)\<rparr>) (v_handle v)\<rparr>)"

text \<open>An operation of the engine that can fail; without an engine nothing happens.\<close>

definition on_engine ::
  "string \<Rightarrow> (('f, 'x) voice_engine \<Rightarrow> ('w, voice_error, ('f, 'x) voice_engine) io) \<Rightarrow> ('w, 'f, 'x, 'r, unit) call" where
  "on_engine what f =
     io_bind (see v_handle) (\<lambda>handle.
     case handle of
       None \<Rightarrow> ok ()
     | Some h \<Rightarrow>
         io_bind (map_error (\<lambda>e. what @ show_voice_error e) (outside (f (vh_engine h)))) (\<lambda>en.
         edit_engine (\<lambda>_. en)))"

section \<open>Preferences\<close>

definition get_preferences :: "('w, 'f, 'x, 'r) audio \<Rightarrow> ('w, 'f, 'x, 'r, 'f preferences) call" where
  "get_preferences au =
     io_bind (outside (au_open_store au)) (\<lambda>_.
     see (\<lambda>v. case v_preferences v of None \<Rightarrow> default_preferences (au_floats au) | Some p \<Rightarrow> p))"

definition set_preferences :: "('w, 'f, 'x, 'r) audio \<Rightarrow> 'f preferences \<Rightarrow> ('w, 'f, 'x, 'r, unit) call" where
  "set_preferences au prefs =
     io_bind (outside (au_open_store au)) (\<lambda>_.
     io_bind (change (\<lambda>v. v\<lparr>v_preferences := Some prefs\<rparr>)) (\<lambda>_.
     outside (au_save_store au)))"

section \<open>Starting the loops\<close>

text \<open>The route of the channel in the cache and the handle of the API; a failure is only logged.\<close>

definition connect_transport ::
  "('w, 'f, 'x, 'r) audio \<Rightarrow> bytes option \<Rightarrow> bool \<Rightarrow> string \<Rightarrow> string \<Rightarrow> ('w, 'f, 'x, 'r, 'r voice_transport) call" where
  "connect_transport au route_blob node_there public_key channel_id =
     (let transport = new_transport channel_id
      in case (route_blob, node_there) of
        (Some blob, True) \<Rightarrow>
          io_bind (attempt (outside (transport_connect (au_net au) blob
            (case hex_decode public_key of None \<Rightarrow> [] | Some key \<Rightarrow> key) transport))) (\<lambda>connected.
          ok (case connected of None \<Rightarrow> transport | Some t \<Rightarrow> t))
      | _ \<Rightarrow> ok transport)"

text \<open>\<open>voice_send_loop\<close> up to its loop: without a source of samples or a codec it returns at once.\<close>

definition begin_send_loop ::
  "('w, 'f, 'x, 'r) audio \<Rightarrow> bool \<Rightarrow> 'r voice_transport \<Rightarrow> string \<Rightarrow> bool \<Rightarrow> bool \<Rightarrow> nat \<Rightarrow> ('f, 'x, 'r) send_loop option" where
  "begin_send_loop au capture_rx transport public_key noise_suppression echo_cancellation now =
     (if \<not> capture_rx then None
      else case opus_codec_new (au_opus au) 48000 1 960 of
        Inl e \<Rightarrow> None
      | Inr codec \<Rightarrow> Some \<lparr>sl_codec = codec,
          sl_processor = new_audio_processor (au_dsp au) noise_suppression echo_cancellation
            (fl_lit (au_floats au) 2 100) 300 (960 * 1000 div 48000),
          sl_transport = transport, sl_public_key = public_key, sl_sequence = 0, sl_was_speaking = False,
          sl_pcm_buffer = [], sl_packets_sent = 0, sl_send_failures = 0, sl_last_quality_report = now\<rparr>)"

definition begin_receive_loop :: "bool \<Rightarrow> string \<Rightarrow> 'x receive_loop option" where
  "begin_receive_loop playback_tx public_key =
     (if playback_tx
      then Some \<lparr>rl_our_key = (case hex_decode public_key of None \<Rightarrow> [] | Some key \<Rightarrow> key), rl_participants = []\<rparr>
      else None)"

definition spawn_loops ::
  "('w, 'f, 'x, 'r) audio \<Rightarrow> 'r voice_transport \<Rightarrow> string \<Rightarrow> ('w, 'f, 'x, 'r, unit) call" where
  "spawn_loops au transport public_key =
     io_bind (see (\<lambda>v. (v_handle v, v_instant v))) (\<lambda>(handle, now).
     case handle of
       None \<Rightarrow> ok ()
     | Some h \<Rightarrow>
         (let (capture_rx, en) = take_capture_rx (vh_engine h);
              (playback_tx, en) = take_playback_tx en
          in io_bind (edit_engine (\<lambda>_. en)) (\<lambda>_.
          change (\<lambda>v. v\<lparr>v_packets := Some [], v_references := [], v_lagged := False, v_playback := [],
            v_send := begin_send_loop au capture_rx transport public_key (vc_noise_suppression (en_config en))
              (vc_echo_cancellation (en_config en)) now,
            v_receive := begin_receive_loop playback_tx public_key\<rparr>))))"

section \<open>Ending the loops\<close>

text \<open>What \<open>voice_send_loop\<close> and \<open>voice_receive_loop\<close> do after their loop.\<close>

definition end_send_loop :: "('w, 'f, 'x, 'r, unit) call" where
  "end_send_loop =
     io_bind (see v_send) (\<lambda>running.
     case running of
       None \<Rightarrow> ok ()
     | Some sl \<Rightarrow>
         io_bind (change (\<lambda>v. v\<lparr>v_send := None\<rparr>)) (\<lambda>_.
         if sl_was_speaking sl then announce (UserSpeaking (sl_public_key sl) False) else ok ()))"

text \<open>A participant is gone.\<close>

definition announce_left :: "bytes \<times> 'x participant_decoder \<Rightarrow> ('w, 'f, 'x, 'r, unit) call" where
  "announce_left = (\<lambda>(key, p).
     io_bind (if pd_is_speaking p then announce (UserSpeaking (hex_encode key) False) else ok ()) (\<lambda>_.
     announce (UserLeft (hex_encode key))))"

definition end_receive_loop :: "('w, 'f, 'x, 'r, unit) call" where
  "end_receive_loop =
     io_bind (see v_receive) (\<lambda>running.
     case running of
       None \<Rightarrow> ok ()
     | Some rl \<Rightarrow>
         io_bind (change (\<lambda>v. v\<lparr>v_receive := None\<rparr>)) (\<lambda>_.
         for_each announce_left (rl_participants rl)))"

definition shutdown_send_recv_only :: "('w, 'f, 'x, 'r, unit) call" where
  "shutdown_send_recv_only =
     io_bind end_send_loop (\<lambda>_.
     io_bind end_receive_loop (\<lambda>_.
     change (\<lambda>v. v\<lparr>v_packets := None\<rparr>)))"

definition shutdown_voice_loops_keep_engine :: "('w, 'f, 'x, 'r, unit) call" where
  "shutdown_voice_loops_keep_engine =
     io_bind end_send_loop (\<lambda>_.
     io_bind end_receive_loop (\<lambda>_.
     change (\<lambda>v. v\<lparr>v_monitor := None, v_packets := None\<rparr>)))"

definition shutdown_voice_loops :: "('w, 'f, 'x, 'r, unit) call" where
  "shutdown_voice_loops =
     io_bind end_send_loop (\<lambda>_.
     io_bind end_receive_loop (\<lambda>_.
     change (\<lambda>v. v\<lparr>v_monitor := None, v_handle := None, v_packets := None\<rparr>)))"

text \<open>A logout ends a running call with the same steps (\<open>commands/auth.rs\<close>), and without an event.\<close>

definition end_call_at_logout :: "('w, 'f, 'x, 'r, unit) call" where
  "end_call_at_logout = shutdown_voice_loops"

section \<open>Commands\<close>

definition voice_config_of :: "'f floats \<Rightarrow> 'f preferences \<Rightarrow> 'f voice_config" where
  "voice_config_of F prefs = (default_voice_config F)\<lparr>
     vc_input_device := pre_input_device prefs, vc_output_device := pre_output_device prefs,
     vc_input_volume := pre_input_volume prefs, vc_output_volume := pre_output_volume prefs,
     vc_noise_suppression := pre_noise_suppression prefs, vc_echo_cancellation := pre_echo_cancellation prefs\<rparr>"

text \<open>The monitor listens to the channel whose receiver the engine still has, if it has one.\<close>

definition spawn_first_monitor :: "('w, 'f, 'x, 'r, unit) call" where
  "spawn_first_monitor =
     io_bind (see v_handle) (\<lambda>handle.
     case handle of
       None \<Rightarrow> ok ()
     | Some h \<Rightarrow> (case take_device_error_rx (vh_engine h) of (error_rx, en) \<Rightarrow>
         io_bind (edit_engine (\<lambda>_. en)) (\<lambda>_. change (\<lambda>v. v\<lparr>v_monitor := error_rx\<rparr>))))"

definition join_voice_channel ::
  "('w, 'f, 'x, 'r) audio \<Rightarrow> identity_state option \<Rightarrow> bytes option \<Rightarrow> bool \<Rightarrow> string \<Rightarrow> ('w, 'f, 'x, 'r, unit) call" where
  "join_voice_channel au identity route_blob node_there channel_id =
     io_bind (see v_handle) (\<lambda>handle.
     case handle of
       Some h \<Rightarrow>
         throw (if vh_channel_id h = channel_id then ''already in this voice channel''
                else ''already in voice channel '' @ vh_channel_id h)
     | None \<Rightarrow>
         (case identity of
            None \<Rightarrow> throw ''not logged in''
          | Some i \<Rightarrow>
              io_bind (attempt (get_preferences au)) (\<lambda>stored.
              let prefs = (case stored of None \<Rightarrow> default_preferences (au_floats au) | Some p \<Rightarrow> p)
              in
              io_bind (map_error (\<lambda>e. ''failed to create voice engine: '' @ show_voice_error e)
                (from_result (new_engine (au_opus au) (voice_config_of (au_floats au) prefs)))) (\<lambda>engine.
              io_bind (change (\<lambda>v. v\<lparr>v_handle := Some \<lparr>vh_engine = engine, vh_channel_id = channel_id,
                vh_muted_flag = False, vh_deafened_flag = False\<rparr>\<rparr>)) (\<lambda>_.
              io_bind (on_engine ''failed to start capture: '' (engine_start_capture (au_devices au))) (\<lambda>_.
              io_bind (on_engine ''failed to start playback: '' (engine_start_playback (au_devices au))) (\<lambda>_.
              io_bind (connect_transport au route_blob node_there (is_public_key i) channel_id) (\<lambda>transport.
              io_bind (spawn_loops au transport (is_public_key i)) (\<lambda>_.
              io_bind spawn_first_monitor (\<lambda>_.
              io_bind (announce (UserJoined (is_public_key i) (is_display_name i))) (\<lambda>_.
              io_bind (announce (ConnectionQuality ''good'')) (\<lambda>_.
              announce (UserSpeaking (is_public_key i) False)))))))))))))"

definition leave_voice :: "identity_state option \<Rightarrow> ('w, 'f, 'x, 'r, unit) call" where
  "leave_voice identity =
     io_bind shutdown_voice_loops (\<lambda>_.
     announce (UserLeft (case identity of None \<Rightarrow> [] | Some i \<Rightarrow> is_public_key i)))"

definition set_mute :: "identity_state option \<Rightarrow> bool \<Rightarrow> ('w, 'f, 'x, 'r, unit) call" where
  "set_mute identity muted =
     io_bind (change (\<lambda>v. v\<lparr>v_handle := map_option
       (\<lambda>h. h\<lparr>vh_engine := set_muted muted (vh_engine h), vh_muted_flag := muted\<rparr>) (v_handle v)\<rparr>)) (\<lambda>_.
     announce (UserMuted (case identity of None \<Rightarrow> [] | Some i \<Rightarrow> is_public_key i) muted))"

definition set_deafen :: "bool \<Rightarrow> ('w, 'f, 'x, 'r, unit) call" where
  "set_deafen deafened = change (\<lambda>v. v\<lparr>v_handle := map_option
     (\<lambda>h. h\<lparr>vh_engine := set_deafened deafened (vh_engine h), vh_deafened_flag := deafened\<rparr>) (v_handle v)\<rparr>)"

record audio_device_info =
  ai_id :: string
  ai_name :: string
  ai_is_default :: bool

definition device_info :: "string \<times> bool \<Rightarrow> audio_device_info" where
  "device_info = (\<lambda>(name, is_default). \<lparr>ai_id = name, ai_name = name, ai_is_default = is_default\<rparr>)"

definition list_audio_devices ::
  "('w, 'f, 'x, 'r) audio \<Rightarrow> ('w, 'f, 'x, 'r, audio_device_info list \<times> audio_device_info list) call" where
  "list_audio_devices au =
     io_bind (map_error (\<lambda>e. ''failed to enumerate devices: '' @ show_voice_error (AudioDevice e))
       (outside (dv_list (au_devices au)))) (\<lambda>(inputs, outputs).
     ok (map device_info inputs, map device_info outputs))"

section \<open>Changing devices\<close>

text \<open>The channel of device errors is renewed after the devices were opened.\<close>

definition spawn_fresh_monitor :: "('w, 'f, 'x, 'r, unit) call" where
  "spawn_fresh_monitor =
     io_bind (see v_handle) (\<lambda>handle.
     case handle of
       None \<Rightarrow> ok ()
     | Some h \<Rightarrow> (case refresh_device_error_channels (vh_engine h) of (error_rx, en) \<Rightarrow>
         io_bind (edit_engine (\<lambda>_. en)) (\<lambda>_. change (\<lambda>v. v\<lparr>v_monitor := Some error_rx\<rparr>))))"

definition restart_voice_loops ::
  "('w, 'f, 'x, 'r) audio \<Rightarrow> identity_state option \<Rightarrow> (string \<Rightarrow> bytes option) \<Rightarrow> bool \<Rightarrow> ('w, 'f, 'x, 'r, unit) call" where
  "restart_voice_loops au identity cached_route node_there =
     (case identity of
        None \<Rightarrow> throw ''not logged in''
      | Some i \<Rightarrow>
          io_bind (see v_handle) (\<lambda>handle.
          case handle of
            None \<Rightarrow> throw ''no active voice engine''
          | Some h \<Rightarrow>
              io_bind (on_engine ''failed to restart capture: '' (engine_start_capture (au_devices au))) (\<lambda>_.
              io_bind (on_engine ''failed to restart playback: '' (engine_start_playback (au_devices au))) (\<lambda>_.
              io_bind (connect_transport au (cached_route (vh_channel_id h)) node_there (is_public_key i)
                (vh_channel_id h)) (\<lambda>transport.
              io_bind (spawn_loops au transport (is_public_key i)) (\<lambda>_.
              spawn_fresh_monitor))))))"

text \<open>Both ways to change devices stop the old ones and set the names first.\<close>

definition set_audio_devices ::
  "('w, 'f, 'x, 'r) audio \<Rightarrow> identity_state option \<Rightarrow> (string \<Rightarrow> bytes option) \<Rightarrow> bool
   \<Rightarrow> string option \<Rightarrow> string option \<Rightarrow> ('w, 'f, 'x, 'r, unit) call" where
  "set_audio_devices au identity cached_route node_there input_device output_device =
     io_bind (get_preferences au) (\<lambda>prefs.
     io_bind (change (\<lambda>v. v\<lparr>v_preferences := Some (prefs\<lparr>pre_input_device := input_device,
       pre_output_device := output_device\<rparr>)\<rparr>)) (\<lambda>_.
     io_bind (outside (au_save_store au)) (\<lambda>_.
     io_bind (see v_handle) (\<lambda>handle.
     if handle = None then ok ()
     else
       io_bind shutdown_voice_loops_keep_engine (\<lambda>_.
       io_bind (edit_engine (\<lambda>en. set_devices input_device output_device (engine_stop_playback (engine_stop_capture en)))) (\<lambda>_.
       restart_voice_loops au identity cached_route node_there))))))"

definition handle_device_swap ::
  "('w, 'f, 'x, 'r) audio \<Rightarrow> identity_state option \<Rightarrow> (string \<Rightarrow> bytes option) \<Rightarrow> bool \<Rightarrow> string \<Rightarrow> string
   \<Rightarrow> ('w, 'f, 'x, 'r, unit) call" where
  "handle_device_swap au identity cached_route node_there device_type reason =
     io_bind (see v_handle) (\<lambda>handle.
     if handle = None then ok ()
     else
       io_bind shutdown_send_recv_only (\<lambda>_.
       io_bind (edit_engine (\<lambda>en. set_devices None None (engine_stop_playback (engine_stop_capture en)))) (\<lambda>_.
       io_bind (restart_voice_loops au identity cached_route node_there) (\<lambda>_.
       io_bind (announce (DeviceChanged device_type ''default'' reason)) (\<lambda>_.
       announce (VoiceAlert ''Audio Device Disconnected''
         (''Your '' @ device_type @ '' device was disconnected. Switched to default device.'')))))))"

text \<open>
  The monitor ends when it swaps the devices, whether the swap succeeds or not. An error of a device
  reaches it when it came through the channel it listens to.
\<close>

definition swap_and_end ::
  "('w, 'f, 'x, 'r) audio \<Rightarrow> identity_state option \<Rightarrow> (string \<Rightarrow> bytes option) \<Rightarrow> bool \<Rightarrow> string
   \<Rightarrow> ('w, 'f, 'x, 'r, unit) call" where
  "swap_and_end au identity cached_route node_there device_type =
     io_bind (change (\<lambda>v. v\<lparr>v_monitor := None\<rparr>)) (\<lambda>_.
     io_bind (attempt (handle_device_swap au identity cached_route node_there device_type ''disconnected'')) (\<lambda>_.
     ok ()))"

definition device_error ::
  "('w, 'f, 'x, 'r) audio \<Rightarrow> identity_state option \<Rightarrow> (string \<Rightarrow> bytes option) \<Rightarrow> bool \<Rightarrow> nat \<Rightarrow> string
   \<Rightarrow> ('w, 'f, 'x, 'r, unit) call" where
  "device_error au identity cached_route node_there channel error_msg =
     io_bind (see v_monitor) (\<lambda>monitor.
     if monitor \<noteq> Some channel then ok ()
     else swap_and_end au identity cached_route node_there
       (if take 6 error_msg = ''input:'' then ''input'' else ''output''))"

text \<open>One turn of the monitor, every five seconds.\<close>

definition disappeared :: "string option \<Rightarrow> (string \<times> bool) list \<Rightarrow> bool" where
  "disappeared device devices = (case device of None \<Rightarrow> False | Some name \<Rightarrow> name \<notin> fst ` set devices)"

definition monitor_tick ::
  "('w, 'f, 'x, 'r) audio \<Rightarrow> identity_state option \<Rightarrow> (string \<Rightarrow> bytes option) \<Rightarrow> bool \<Rightarrow> ('w, 'f, 'x, 'r, unit) call" where
  "monitor_tick au identity cached_route node_there =
     io_bind (see (\<lambda>v. (v_monitor v, v_handle v))) (\<lambda>(monitor, handle).
     case (monitor, handle) of
       (None, _) \<Rightarrow> ok ()
     | (Some _, None) \<Rightarrow> change (\<lambda>v. v\<lparr>v_monitor := None\<rparr>)
     | (Some _, Some h) \<Rightarrow>
         (let input_device = vc_input_device (en_config (vh_engine h));
              output_device = vc_output_device (en_config (vh_engine h))
          in
          if input_device = None \<and> output_device = None then ok ()
          else
            io_bind (attempt (outside (dv_list (au_devices au)))) (\<lambda>found.
            case found of
              None \<Rightarrow> ok ()
            | Some (inputs, outputs) \<Rightarrow>
                if disappeared input_device inputs
                then swap_and_end au identity cached_route node_there ''input''
                else if disappeared output_device outputs
                then swap_and_end au identity cached_route node_there ''output''
                else ok ())))"

section \<open>Sending\<close>

text \<open>
  The reference frames read so far (\<open>try_recv\<close> until it fails): after an overflow the first read fails.
\<close>

definition drain_references :: "('w, 'f, 'x, 'r, 'f list list) call" where
  "drain_references =
     io_bind (see (\<lambda>v. (v_lagged v, v_references v))) (\<lambda>(lagged, frames).
     if lagged then io_bind (change (\<lambda>v. v\<lparr>v_lagged := False\<rparr>)) (\<lambda>_. ok [])
     else io_bind (change (\<lambda>v. v\<lparr>v_references := []\<rparr>)) (\<lambda>_. ok frames))"

definition quality_name :: "'f floats \<Rightarrow> 'f \<Rightarrow> string" where
  "quality_name F loss_pct = (if fl_less F loss_pct (fl_lit F 5 1) then ''good''
     else if fl_less F loss_pct (fl_lit F 15 1) then ''fair'' else ''poor'')"

definition loss_percent :: "'f floats \<Rightarrow> u64 \<Rightarrow> u64 \<Rightarrow> 'f" where
  "loss_percent F send_failures packets_sent =
     (if 0 < packets_sent
      then fl_mul F (fl_div F (fl_of_nat F (unat send_failures)) (fl_of_nat F (unat packets_sent))) (fl_lit F 100 1)
      else fl_zero F)"

text \<open>The report of the quality, every five seconds.\<close>

definition report_quality ::
  "('w, 'f, 'x, 'r) audio \<Rightarrow> ('f, 'x, 'r) send_loop \<Rightarrow> ('w, 'f, 'x, 'r, ('f, 'x, 'r) send_loop) call" where
  "report_quality au sl =
     io_bind (see v_instant) (\<lambda>now.
     if now - sl_last_quality_report sl < 5000 then ok sl
     else
       let F = au_floats au;
           loss_pct = loss_percent F (sl_send_failures sl) (sl_packets_sent sl);
           percent = max 0 (min 100 (fl_to_i32 F loss_pct))
       in
       io_bind (announce (ConnectionQuality (quality_name F loss_pct))) (\<lambda>_.
       ok (sl\<lparr>sl_codec := (case set_packet_loss_perc (au_opus au) percent (sl_codec sl) of
             Inl e \<Rightarrow> sl_codec sl | Inr codec \<Rightarrow> codec),
         sl_packets_sent := 0, sl_send_failures := 0, sl_last_quality_report := now\<rparr>)))"

definition millis_of_clock :: "nat \<Rightarrow> u64" where
  "millis_of_clock clock = (if clock < 2 ^ 64 then of_nat clock else -1)"

text \<open>A frame with speech: encoded, numbered and sent.\<close>

definition send_speech ::
  "('w, 'f, 'x, 'r) audio \<Rightarrow> 'f list \<Rightarrow> ('f, 'x, 'r) send_loop \<Rightarrow> ('w, 'f, 'x, 'r, ('f, 'x, 'r) send_loop) call" where
  "send_speech au samples sl =
     (case opus_encode (au_opus au) samples (sl_codec sl) of
        (Inl e, codec) \<Rightarrow> ok (sl\<lparr>sl_codec := codec\<rparr>)
      | (Inr encoded, codec) \<Rightarrow>
          io_bind (see v_clock) (\<lambda>clock.
          let frame = encoded\<lparr>ef_sequence := sl_sequence sl, ef_timestamp := millis_of_clock clock\<rparr>;
              sl = sl\<lparr>sl_codec := codec, sl_sequence := sl_sequence sl + 1\<rparr>
          in
          io_bind (if tr_is_connected (sl_transport sl)
            then io_bind (attempt (outside (transport_send (au_net au) frame (sl_transport sl)))) (\<lambda>sent.
              ok (sl\<lparr>sl_send_failures := (if sent = None then sl_send_failures sl + 1 else sl_send_failures sl),
                sl_packets_sent := sl_packets_sent sl + 1\<rparr>))
            else ok sl) (\<lambda>sl.
          report_quality au sl)))"

text \<open>One frame of 960 samples.\<close>

definition send_frame ::
  "('w, 'f, 'x, 'r) audio \<Rightarrow> 'f list \<Rightarrow> ('f, 'x, 'r) send_loop \<Rightarrow> ('w, 'f, 'x, 'r, ('f, 'x, 'r) send_loop) call" where
  "send_frame au frame_samples sl =
     io_bind (see (\<lambda>v. case v_handle v of None \<Rightarrow> False | Some h \<Rightarrow> vh_muted_flag h)) (\<lambda>muted.
     if muted
     then if sl_was_speaking sl
       then io_bind (announce (UserSpeaking (sl_public_key sl) False)) (\<lambda>_. ok (sl\<lparr>sl_was_speaking := False\<rparr>))
       else ok sl
     else
       io_bind drain_references (\<lambda>frames.
       let processor = foldl (\<lambda>ap frame. feed_speaker_reference (au_dsp au) frame ap) (sl_processor sl) frames;
           latest = (if frames = [] then None else Some (last frames))
       in case process_capture (au_floats au) (au_dsp au) frame_samples latest processor of (processed, processor) \<Rightarrow>
       io_bind (if pd_is_speech processed \<noteq> sl_was_speaking sl
         then announce (UserSpeaking (sl_public_key sl) (pd_is_speech processed)) else ok ()) (\<lambda>_.
       let sl = sl\<lparr>sl_processor := processor, sl_was_speaking := pd_is_speech processed\<rparr>
       in if \<not> pd_is_speech processed then ok sl
          else send_speech au (pd_samples processed) sl)))"

fun send_frames ::
  "('w, 'f, 'x, 'r) audio \<Rightarrow> 'f list list \<Rightarrow> ('f, 'x, 'r) send_loop \<Rightarrow> ('w, 'f, 'x, 'r, ('f, 'x, 'r) send_loop) call" where
  "send_frames au [] sl = ok sl"
| "send_frames au (frame # rest) sl = io_bind (send_frame au frame sl) (send_frames au rest)"

text \<open>The full frames at the front of a buffer, and what is left.\<close>

function frames_of :: "'f list \<Rightarrow> 'f list list" where
  "frames_of buffer = (if 960 \<le> length buffer then take 960 buffer # frames_of (drop 960 buffer) else [])"
  by pat_completeness auto
termination by (relation "measure length") auto

declare frames_of.simps [simp del]

definition rest_of :: "'f list \<Rightarrow> 'f list" where
  "rest_of buffer = drop (length buffer - length buffer mod 960) buffer"

text \<open>A chunk from the microphone, which need not be a frame.\<close>

definition capture_chunk :: "('w, 'f, 'x, 'r) audio \<Rightarrow> 'f list \<Rightarrow> ('w, 'f, 'x, 'r, unit) call" where
  "capture_chunk au samples =
     io_bind (see v_send) (\<lambda>running.
     case running of
       None \<Rightarrow> ok ()
     | Some sl \<Rightarrow>
         let buffer = sl_pcm_buffer sl @ samples
         in io_bind (send_frames au (frames_of buffer) (sl\<lparr>sl_pcm_buffer := rest_of buffer\<rparr>)) (\<lambda>sl.
         change (\<lambda>v. v\<lparr>v_send := Some sl\<rparr>)))"

section \<open>Receiving\<close>

text \<open>A packet from the network, without its tag: it is dropped when the queue of 200 is full.\<close>

definition deliver_voice :: "('w, 'f, 'x, 'r) audio \<Rightarrow> bytes \<Rightarrow> ('w, 'f, 'x, 'r, unit) call" where
  "deliver_voice au voice_data =
     (case transport_receive (au_net au) voice_data of
        Inl e \<Rightarrow> ok ()
      | Inr packet \<Rightarrow> change (\<lambda>v. v\<lparr>v_packets :=
          map_option (\<lambda>q. if length q < 200 then q @ [packet] else q) (v_packets v)\<rparr>))"

definition take_packet :: "'x participant_decoder \<Rightarrow> nat \<Rightarrow> voice_packet \<Rightarrow> 'x participant_decoder" where
  "take_packet p now packet = p\<lparr>pd_jitter_buffer := jitter_push now packet (pd_jitter_buffer p),
     pd_last_packet_time := now, pd_is_speaking := True\<rparr>"

text \<open>The receive loop takes the next packet of the queue.\<close>

definition receive_packet :: "('w, 'f, 'x, 'r) audio \<Rightarrow> ('w, 'f, 'x, 'r, unit) call" where
  "receive_packet au =
     io_bind (see (\<lambda>v. (v_receive v, v_packets v, v_instant v))) (\<lambda>(running, queue, now).
     case (running, queue) of
       (Some rl, Some (packet # packets)) \<Rightarrow>
         io_bind (change (\<lambda>v. v\<lparr>v_packets := Some packets\<rparr>)) (\<lambda>_.
         let sender = vp_sender_key packet
         in
         if sender = rl_our_key rl then ok ()
         else
           io_bind (case map_of (rl_participants rl) sender of
               Some p \<Rightarrow> ok (Some p)
             | None \<Rightarrow>
                 (case opus_codec_new (au_opus au) 48000 1 960 of
                    Inl e \<Rightarrow> ok None
                  | Inr codec \<Rightarrow>
                      io_bind (announce (UserJoined (hex_encode sender) (hex_encode sender))) (\<lambda>_.
                      ok (Some \<lparr>pd_codec = codec, pd_jitter_buffer = new_jitter_buffer 200, pd_is_speaking = False,
                        pd_last_packet_time = now\<rparr>)))) (\<lambda>participant.
           case participant of
             None \<Rightarrow> ok ()
           | Some p \<Rightarrow>
               io_bind (change (\<lambda>v. v\<lparr>v_receive := Some (rl\<lparr>rl_participants :=
                 AList.update sender (take_packet p now packet) (rl_participants rl)\<rparr>)\<rparr>)) (\<lambda>_.
               if pd_is_speaking p then ok () else announce (UserSpeaking (hex_encode sender) True))))
     | _ \<Rightarrow> ok ())"

text \<open>
  The samples of a participant for one tick: of the next packet, recovered from the one after it, or
  concealed; silence when the decoder fails, nothing after two seconds without a packet.
\<close>

definition silence :: "'f floats \<Rightarrow> nat \<Rightarrow> 'f list" where
  "silence F n = replicate n (fl_zero F)"

definition or_silence :: "'f floats \<Rightarrow> (voice_error + 'f decoded_frame) \<times> 'x opus_codec \<Rightarrow> 'f list \<times> 'x opus_codec" where
  "or_silence F = (\<lambda>(r, codec). (case r of Inl e \<Rightarrow> silence F 960 | Inr d \<Rightarrow> df_samples d, codec))"

definition decode_participant ::
  "('w, 'f, 'x, 'r) audio \<Rightarrow> nat \<Rightarrow> 'x participant_decoder \<Rightarrow> 'f list option \<times> 'x participant_decoder" where
  "decode_participant au now p =
     (let F = au_floats au; op = au_opus au
      in case jitter_pop now (pd_jitter_buffer p) of
        (Some packet, jb) \<Rightarrow>
          (case opus_decode op \<lparr>ef_data = vp_audio_data packet, ef_timestamp = vp_timestamp packet,
               ef_sequence = vp_sequence packet\<rparr> (pd_codec p) of
             (Inr d, codec) \<Rightarrow> (Some (df_samples d), p\<lparr>pd_jitter_buffer := jb, pd_codec := codec\<rparr>)
           | (Inl e, codec) \<Rightarrow> (case or_silence F (opus_decode_plc op codec) of
               (samples, codec) \<Rightarrow> (Some samples, p\<lparr>pd_jitter_buffer := jb, pd_codec := codec\<rparr>)))
      | (None, jb) \<Rightarrow>
          if now - pd_last_packet_time p < 2000
          then (case or_silence F (case peek_next_audio_data jb of
                 Some next_data \<Rightarrow> opus_decode_fec op next_data (pd_codec p)
               | None \<Rightarrow> opus_decode_plc op (pd_codec p)) of
             (samples, codec) \<Rightarrow> (Some samples, p\<lparr>pd_jitter_buffer := jb, pd_codec := codec\<rparr>))
          else (None, p\<lparr>pd_jitter_buffer := jb\<rparr>))"

definition decoded_streams ::
  "('w, 'f, 'x, 'r) audio \<Rightarrow> nat \<Rightarrow> (bytes \<times> 'x participant_decoder) list \<Rightarrow> (string \<times> 'f list) list" where
  "decoded_streams au now participants = List.map_filter (\<lambda>(key, p).
     map_option (Pair (hex_encode key)) (fst (decode_participant au now p))) participants"

definition after_decoding ::
  "('w, 'f, 'x, 'r) audio \<Rightarrow> nat \<Rightarrow> (bytes \<times> 'x participant_decoder) list \<Rightarrow> (bytes \<times> 'x participant_decoder) list" where
  "after_decoding au now participants = map (\<lambda>(key, p). (key, snd (decode_participant au now p))) participants"

text \<open>
  A mixed frame goes to the echo canceller and to the speaker. The broadcast channel keeps 64 frames,
  the capacity of 50 rounded up; the channel to the speaker takes 100.
\<close>

definition broadcast_reference :: "'f list \<Rightarrow> ('w, 'f, 'x, 'r, unit) call" where
  "broadcast_reference mixed = change (\<lambda>v.
     if length (v_references v) < 64 then v\<lparr>v_references := v_references v @ [mixed]\<rparr>
     else v\<lparr>v_references := tl (v_references v) @ [mixed], v_lagged := True\<rparr>)"

definition play_mixed :: "('w, 'f, 'x, 'r) audio \<Rightarrow> 'f list \<Rightarrow> ('w, 'f, 'x, 'r, unit) call" where
  "play_mixed au mixed =
     io_bind (broadcast_reference mixed) (\<lambda>_.
     io_bind (see (\<lambda>v. case v_handle v of None \<Rightarrow> False | Some h \<Rightarrow> vh_deafened_flag h)) (\<lambda>deafened.
     let output = (if deafened then silence (au_floats au) (length mixed) else mixed)
     in change (\<lambda>v. if length (v_playback v) < 100 then v\<lparr>v_playback := v_playback v @ [output]\<rparr> else v)))"

definition participant_timed_out :: "nat \<Rightarrow> 'x participant_decoder \<Rightarrow> bool" where
  "participant_timed_out now p \<longleftrightarrow> 5000 < now - pd_last_packet_time p"

definition quiet_now :: "nat \<Rightarrow> 'x participant_decoder \<Rightarrow> bool" where
  "quiet_now now p \<longleftrightarrow> pd_is_speaking p \<and> 500 < now - pd_last_packet_time p"

definition receive_tick :: "('w, 'f, 'x, 'r) audio \<Rightarrow> ('w, 'f, 'x, 'r, unit) call" where
  "receive_tick au =
     io_bind (see (\<lambda>v. (v_receive v, v_instant v))) (\<lambda>(running, now).
     case running of
       None \<Rightarrow> ok ()
     | Some rl \<Rightarrow>
         let streams = decoded_streams au now (rl_participants rl);
             participants = after_decoding au now (rl_participants rl);
             gone = filter (\<lambda>(key, p). participant_timed_out now p) participants;
             staying = filter (\<lambda>(key, p). \<not> participant_timed_out now p) participants;
             mixed = mix_streams (au_floats au) (new_mixer 1) streams
         in
         io_bind (if mixed = [] then ok () else play_mixed au mixed) (\<lambda>_.
         io_bind (for_each announce_left gone) (\<lambda>_.
         io_bind (for_each (\<lambda>(key, p). if quiet_now now p then announce (UserSpeaking (hex_encode key) False) else ok ())
           staying) (\<lambda>_.
         change (\<lambda>v. v\<lparr>v_receive := Some (rl\<lparr>rl_participants :=
           map (\<lambda>(key, p). (key, if quiet_now now p then p\<lparr>pd_is_speaking := False\<rparr> else p)) staying\<rparr>)\<rparr>)))))"

end
