(* ===== verification/Calls.thy ===== *)
theory Calls
  imports VoiceCalls ClientRules
begin

text \<open>
  Properties of voice calls: what the web view was told is what the loops hold, a muted microphone
  sends nothing and a deafened client plays silence, how samples are cut into frames, and who
  hears of a device that fails.
\<close>

section \<open>Weakest preconditions\<close>

lemma outcome_see [wp]: "outcome (see f) Q E = (\<lambda>v. Q (f v) v)"
  by (simp add: fun_eq_iff outcome_def see_def)

lemma outcome_change [wp]: "outcome (change f) Q E = (\<lambda>v. Q () (f v))"
  by (simp add: fun_eq_iff outcome_def change_def)

lemma outcome_announce [wp]: "outcome (announce e) Q E = (\<lambda>v. Q () (v\<lparr>v_events := v_events v @ [e]\<rparr>))"
  by (simp add: announce_def wp)

lemma outcome_outside [wp]:
  "outcome (outside m) Q E = (\<lambda>v. outcome m (\<lambda>x w. Q x (v\<lparr>v_world := w\<rparr>)) (\<lambda>e w. E e (v\<lparr>v_world := w\<rparr>)) (v_world v))"
  by (simp add: fun_eq_iff outcome_def outside_def split: prod.split sum.split)

lemma io_bind_assoc: "io_bind (io_bind m f) g = io_bind m (\<lambda>x. io_bind (f x) g)"
  by (auto simp: io_bind_def split: prod.split sum.split)

section \<open>What the web view was told\<close>

fun step_present :: "voice_event \<Rightarrow> string set \<Rightarrow> string set" where
  "step_present (UserJoined k n) S = insert k S"
| "step_present (UserLeft k) S = S - {k}"
| "step_present e S = S"

fun step_speaking :: "voice_event \<Rightarrow> string set \<Rightarrow> string set" where
  "step_speaking (UserSpeaking k True) S = insert k S"
| "step_speaking (UserSpeaking k False) S = S - {k}"
| "step_speaking e S = S"

definition shown_present :: "voice_event list \<Rightarrow> string set" where
  "shown_present es = fold step_present es {}"

definition shown_speaking :: "voice_event list \<Rightarrow> string set" where
  "shown_speaking es = fold step_speaking es {}"

lemma shown_snoc [simp]:
  "shown_present (es @ [e]) = step_present e (shown_present es)"
  "shown_speaking (es @ [e]) = step_speaking e (shown_speaking es)"
  by (simp_all add: shown_present_def shown_speaking_def)

definition talkers :: "('w, 'f, 'x, 'r) voice \<Rightarrow> (bytes \<times> 'x participant_decoder) list" where
  "talkers v = (case v_receive v of None \<Rightarrow> [] | Some rl \<Rightarrow> rl_participants rl)"

definition keys_with :: "('x participant_decoder \<Rightarrow> bool) \<Rightarrow> (bytes \<times> 'x participant_decoder) list \<Rightarrow> string set" where
  "keys_with P ps = {hex_encode k |k p. (k, p) \<in> set ps \<and> P p}"

definition sending :: "('w, 'f, 'x, 'r) voice \<Rightarrow> bool" where
  "sending v = (case v_send v of None \<Rightarrow> False | Some sl \<Rightarrow> sl_was_speaking sl)"

definition call_ok :: "bytes \<Rightarrow> bool \<Rightarrow> ('w, 'f, 'x, 'r) voice \<Rightarrow> bool" where
  "call_ok own here v \<longleftrightarrow>
     (v_handle v = None \<longrightarrow> v_send v = None \<and> v_receive v = None \<and> v_monitor v = None \<and> v_packets v = None) \<and>
     (\<forall>rl. v_receive v = Some rl \<longrightarrow> rl_our_key rl = own) \<and>
     (\<forall>sl. v_send v = Some sl \<longrightarrow> sl_public_key sl = hex_encode own) \<and>
     distinct (map fst (talkers v)) \<and> own \<notin> fst ` set (talkers v) \<and>
     shown_present (v_events v) = keys_with (\<lambda>_. True) (talkers v) \<union> (if here then {hex_encode own} else {}) \<and>
     shown_speaking (v_events v) = keys_with pd_is_speaking (talkers v) \<union> (if sending v then {hex_encode own} else {})"

declare hex_encode_inject [simp]

text \<open>The keys are distinct, so a key stands for one participant.\<close>

lemma keys_with_diff:
  assumes "distinct (map fst ps)"
  shows "keys_with P ps - keys_with Q ps = keys_with (\<lambda>p. P p \<and> \<not> Q p) ps"
proof
  show "keys_with P ps - keys_with Q ps \<subseteq> keys_with (\<lambda>p. P p \<and> \<not> Q p) ps"
    unfolding keys_with_def by blast
  have "q = p" if "(k, p) \<in> set ps" "(k, q) \<in> set ps" for k p q
    using eq_key_imp_eq_value [OF assms that] by simp
  then show "keys_with (\<lambda>p. P p \<and> \<not> Q p) ps \<subseteq> keys_with P ps - keys_with Q ps"
    unfolding keys_with_def by (auto, metis)
qed

lemma keys_with_simps [simp]:
  "keys_with P [] = {}"
  "keys_with P (x # ps) = (if P (snd x) then {hex_encode (fst x)} else {}) \<union> keys_with P ps"
  by (cases x; auto simp: keys_with_def)+

lemma keys_with_filter: "keys_with P (filter (\<lambda>(k, p). Q p) ps) = keys_with (\<lambda>p. P p \<and> Q p) ps"
  by (auto simp: keys_with_def)

lemma keys_with_map:
  "keys_with P (map (\<lambda>(k, p). (k, f p)) ps) = keys_with (\<lambda>p. P (f p)) ps"
  by (force simp: keys_with_def)

lemma own_not_shown:
  assumes "own \<notin> fst ` set ps"
  shows "hex_encode own \<notin> keys_with P ps"
  using assms by (force simp: keys_with_def)

section \<open>Ending loops\<close>

definition left_events :: "bytes \<times> 'x participant_decoder \<Rightarrow> voice_event list" where
  "left_events = (\<lambda>(key, p). (if pd_is_speaking p then [UserSpeaking (hex_encode key) False] else []) @
     [UserLeft (hex_encode key)])"

lemma all_left:
  "for_each announce_left ps v = (Inr (), v\<lparr>v_events := v_events v @ concat (map left_events ps)\<rparr>)"
proof (induction ps arbitrary: v)
  case (Cons x ps)
  have "announce_left x v = (Inr (), v\<lparr>v_events := v_events v @ left_events x\<rparr>)"
    by (cases x) (simp add: announce_left_def left_events_def announce_def change_def io_bind_def ok_def)
  with Cons show ?case by (simp add: io_bind_def)
qed (simp add: ok_def)

lemma shown_left:
  "shown_present (es @ concat (map left_events ps)) = shown_present es - keys_with (\<lambda>_. True) ps"
  "shown_speaking (es @ concat (map left_events ps)) = shown_speaking es - keys_with pd_is_speaking ps"
proof (induction ps arbitrary: es)
  case (Cons x ps)
  obtain k p where x: "x = (k, p)" by fastforce
  {
    case 1
    have "shown_present (es @ left_events x) = shown_present es - {hex_encode k}"
      by (simp add: x left_events_def shown_present_def)
    with Cons(1) [of "es @ left_events x"] show ?case by (auto simp: x keys_with_def)
  next
    case 2
    have "shown_speaking (es @ left_events x) = shown_speaking es - (if pd_is_speaking p then {hex_encode k} else {})"
      by (simp add: x left_events_def shown_speaking_def)
    with Cons(2) [of "es @ left_events x"] show ?case by (auto simp: x keys_with_def)
  }
qed (simp_all add: keys_with_def)

lemma end_receive_loop_ok:
  assumes "call_ok own here v"
  shows "outcome end_receive_loop (\<lambda>_ v'. call_ok own here v' \<and> v_receive v' = None \<and> v_send v' = v_send v \<and> v_handle v' = v_handle v)
    (\<lambda>_ _. False) v"
proof (cases "v_receive v")
  case None
  with assms show ?thesis by (simp add: end_receive_loop_def wp)
next
  case (Some rl)
  have "shown_present (v_events v) = keys_with (\<lambda>_. True) (rl_participants rl) \<union> (if here then {hex_encode own} else {})"
    using assms Some by (simp add: call_ok_def talkers_def)
  moreover have "shown_speaking (v_events v) = keys_with pd_is_speaking (rl_participants rl) \<union> (if sending v then {hex_encode own} else {})"
    using assms Some by (simp add: call_ok_def talkers_def)
  moreover have "hex_encode own \<notin> keys_with P (rl_participants rl)" for P
    using assms Some by (simp add: call_ok_def talkers_def own_not_shown)
  ultimately show ?thesis
    using assms Some
    by (auto simp: end_receive_loop_def wp outcome_def [of "for_each _ _"] all_left call_ok_def talkers_def sending_def shown_left keys_with_def [of _ "[]"]
        split: if_splits)
qed

lemma end_send_loop_ok:
  assumes "call_ok own here v"
  shows "outcome end_send_loop (\<lambda>_ v'. call_ok own here v' \<and> v_send v' = None \<and> v_receive v' = v_receive v \<and> v_handle v' = v_handle v)
    (\<lambda>_ _. False) v"
proof (cases "v_send v")
  case None
  with assms show ?thesis by (simp add: end_send_loop_def wp)
next
  case (Some sl)
  have own: "hex_encode own \<notin> keys_with P (talkers v)" for P
    using assms by (simp add: call_ok_def own_not_shown)
  show ?thesis
    using assms Some own [of pd_is_speaking]
    by (auto simp: end_send_loop_def wp call_ok_def talkers_def sending_def)
qed

lemma both_loops_end:
  assumes "call_ok own here v"
  shows "outcome (io_bind end_send_loop (\<lambda>_. end_receive_loop))
    (\<lambda>_ v'. call_ok own here v' \<and> v_send v' = None \<and> v_receive v' = None \<and> v_handle v' = v_handle v) (\<lambda>_ _. False) v"
  unfolding wp
  by (rule outcome_mono [OF end_send_loop_ok [OF assms]], rule outcome_mono [OF end_receive_loop_ok]) auto

section \<open>Steps beside the loops\<close>

definition loops_kept :: "('w, 'f, 'x, 'r) voice \<Rightarrow> ('w, 'f, 'x, 'r) voice \<Rightarrow> bool" where
  "loops_kept v v' \<longleftrightarrow> (v_send v', v_receive v', v_monitor v', v_packets v', v_events v') =
     (v_send v, v_receive v, v_monitor v, v_packets v, v_events v) \<and> v_handle v' = None = (v_handle v = None)"

interpretation beside: state_preorder loops_kept "\<lambda>_. True"
  by unfold_locales (auto simp: loops_kept_def)

lemma loops_kept_ok: "loops_kept v v' \<Longrightarrow> call_ok own here v \<Longrightarrow> call_ok own here v'"
  by (auto simp: loops_kept_def call_ok_def talkers_def sending_def)

lemma beside_outside: "evolves (\<lambda>_. True) loops_kept (outside m)"
  by (auto simp: evolves_def outcome_def outside_def loops_kept_def split: prod.split sum.split)

lemma beside_change:
  "(\<And>v. loops_kept v (f v)) \<Longrightarrow> evolves (\<lambda>_. True) loops_kept (change f)"
  by (simp add: evolves_def wp)

lemma beside_see: "evolves (\<lambda>_. True) loops_kept (see f)"
  by (simp add: evolves_def wp beside.state_refl)

lemma beside_throw: "evolves (\<lambda>_. True) loops_kept (throw e)"
  by (simp add: evolves_def wp beside.state_refl)

lemma beside_attempt: "evolves (\<lambda>_. True) loops_kept m \<Longrightarrow> evolves (\<lambda>_. True) loops_kept (attempt m)"
  by (rule evolvesI, unfold wp, erule evolves_outcome) auto

lemma beside_map_error: "evolves (\<lambda>_. True) loops_kept m \<Longrightarrow> evolves (\<lambda>_. True) loops_kept (map_error g m)"
  by (rule evolvesI, unfold wp, erule evolves_outcome) auto

lemma beside_from_result: "evolves (\<lambda>_. True) loops_kept (from_result r)"
  by (auto simp: evolves_def wp beside.state_refl split: sum.split)

lemma beside_edit_engine: "evolves (\<lambda>_. True) loops_kept (edit_engine f)"
  unfolding edit_engine_def by (rule beside_change) (auto simp: loops_kept_def)

lemmas beside_rules = beside.ev_bind beside.ev_option beside.ev_if beside.ev_prod beside.ev_ok beside_outside beside_see
  beside_throw beside_attempt beside_map_error beside_from_result beside_edit_engine

lemma beside_on_engine: "evolves (\<lambda>_. True) loops_kept (on_engine what f)"
  unfolding on_engine_def by (intro beside_rules)

lemma beside_get_preferences: "evolves (\<lambda>_. True) loops_kept (get_preferences au)"
  unfolding get_preferences_def by (intro beside_rules)

lemma beside_connect: "evolves (\<lambda>_. True) loops_kept (connect_transport au blob there pk ch)"
  unfolding connect_transport_def Let_def by (auto intro!: beside_rules split: option.split bool.split)

text \<open>Loops start only where none run.\<close>

definition idle :: "bytes \<Rightarrow> bool \<Rightarrow> ('w, 'f, 'x, 'r) voice \<Rightarrow> bool" where
  "idle own here v \<longleftrightarrow> call_ok own here v \<and> v_send v = None \<and> v_receive v = None"

lemma idle_kept: "loops_kept v v' \<Longrightarrow> idle own here v \<Longrightarrow> idle own here v'"
  by (auto simp: idle_def loops_kept_ok) (simp_all add: loops_kept_def)

lemma idle_step:
  assumes "evolves (\<lambda>_. True) loops_kept m" and "idle own here v" and "\<And>x v'. idle own here v' \<Longrightarrow> v_handle v' = None = (v_handle v = None) \<Longrightarrow>
    outcome (f x) Q (\<lambda>_. call_ok own here) v'"
  shows "outcome (io_bind m f) Q (\<lambda>_. call_ok own here) v"
  unfolding outcome_io_bind
proof (rule evolves_outcome [OF assms(1)])
  fix x v'
  assume "loops_kept v v'"
  then have "idle own here v'" "(v_handle v' = None) = (v_handle v = None)"
    using idle_kept [of v v' own] assms(2) by (simp_all add: loops_kept_def)
  then show "outcome (f x) Q (\<lambda>_. call_ok own here) v'" by (rule assms(3))
next
  fix e v'
  assume "loops_kept v v'"
  then have "idle own here v'" using idle_kept [of v v' own] assms(2) by simp
  then show "call_ok own here v'" by (simp add: idle_def)
qed

lemma spawned_ok:
  assumes "idle own here v"
  shows "outcome (spawn_loops au transport (hex_encode own)) (\<lambda>_ v'. call_ok own here v' \<and> \<not> sending v') (\<lambda>_ _. False) v"
  using assms
  by (auto simp: spawn_loops_def wp edit_engine_def idle_def call_ok_def talkers_def sending_def begin_send_loop_def
      begin_receive_loop_def hex_decode_encode keys_with_def split: option.split prod.split sum.split)

lemma monitors_ok:
  assumes "call_ok own here v"
  shows "outcome spawn_first_monitor (\<lambda>_ v'. call_ok own here v' \<and> sending v' = sending v) (\<lambda>_ _. False) v"
    and "outcome spawn_fresh_monitor (\<lambda>_ v'. call_ok own here v' \<and> sending v' = sending v) (\<lambda>_ _. False) v"
  using assms
  by (auto simp: spawn_first_monitor_def spawn_fresh_monitor_def wp edit_engine_def call_ok_def talkers_def sending_def
      split: option.split prod.split)

lemma restart_ok:
  assumes "idle own here v" and "\<And>i. identity = Some i \<Longrightarrow> is_public_key i = hex_encode own"
  shows "outcome (restart_voice_loops au identity cached there) (\<lambda>_. call_ok own here) (\<lambda>_. call_ok own here) v"
proof (cases identity)
  case None
  with assms(1) show ?thesis by (simp add: restart_voice_loops_def wp idle_def)
next
  case (Some i)
  have pk: "is_public_key i = hex_encode own" by (rule assms(2) [OF Some])
  have spawn: "outcome (io_bind (spawn_loops au transport (hex_encode own)) (\<lambda>_. spawn_fresh_monitor)) (\<lambda>_. call_ok own here)
      (\<lambda>_. call_ok own here) v'" if "idle own here v'" for transport v'
    unfolding outcome_io_bind
    by (rule outcome_mono [OF spawned_ok [OF that]], rule outcome_mono [OF monitors_ok(2)]) auto
  show ?thesis
  proof (cases "v_handle v")
    case None
    then show ?thesis using assms(1) Some by (simp add: restart_voice_loops_def wp idle_def)
  next
    case (Some h)
    then show ?thesis
      unfolding restart_voice_loops_def \<open>identity = Some i\<close> option.case pk outcome_io_bind [of "see _"] outcome_see
      by (auto intro!: idle_step [OF beside_on_engine] idle_step [OF beside_connect] spawn assms(1))
  qed
qed

interpretation call: state_preorder "\<lambda>v v'. call_ok own here v \<longrightarrow> call_ok own here v'" "\<lambda>_. True" for own
  by unfold_locales auto

lemma call_evolvesI:
  "(\<And>v. call_ok own here v \<Longrightarrow> outcome m (\<lambda>_. call_ok own here) (\<lambda>_. call_ok own here) v) \<Longrightarrow>
   evolves (\<lambda>_. True) (\<lambda>v v'. call_ok own here v \<longrightarrow> call_ok own here v') m"
  by (rule evolvesI, case_tac "call_ok own here s") (auto simp: outcome_def split: prod.split sum.split)

lemma call_beside: "evolves (\<lambda>_. True) loops_kept m \<Longrightarrow> evolves (\<lambda>_. True) (\<lambda>v v'. call_ok own here v \<longrightarrow> call_ok own here v') m"
  by (rule evolvesI, erule evolves_outcome) (auto simp: loops_kept_ok)

lemma idle_no_handle: "call_ok own here v \<Longrightarrow> v_handle v = None \<Longrightarrow> idle own here v"
  by (simp add: idle_def call_ok_def)

lemma join_ok:
  assumes "is_public_key i = hex_encode own"
    and ok: "call_ok own here v"
  shows "outcome (join_voice_channel au (Some i) blob there ch) (\<lambda>_. call_ok own True) (\<lambda>_. call_ok own here) v"
proof -
  have said: "outcome (io_bind (announce (UserJoined (hex_encode own) (is_display_name i))) (\<lambda>_.
      io_bind (announce (ConnectionQuality ''good'')) (\<lambda>_. announce (UserSpeaking (hex_encode own) False))))
      (\<lambda>_. call_ok own True) (\<lambda>_. call_ok own here) v'" if "call_ok own here v'" "\<not> sending v'" for v'
    using that own_not_shown [of own "talkers v'" pd_is_speaking]
    by (simp add: wp call_ok_def talkers_def sending_def)
  show "outcome (join_voice_channel au (Some i) blob there ch) (\<lambda>_. call_ok own True) (\<lambda>_. call_ok own here) v"
  proof (cases "v_handle v")
    case (Some h)
    with ok show ?thesis by (simp add: join_voice_channel_def wp)
  next
    case None
    have rest: "outcome (io_bind (spawn_loops au transport (hex_encode own)) (\<lambda>_. io_bind spawn_first_monitor (\<lambda>_.
      io_bind (announce (UserJoined (hex_encode own) (is_display_name i))) (\<lambda>_.
      io_bind (announce (ConnectionQuality ''good'')) (\<lambda>_. announce (UserSpeaking (hex_encode own) False))))))
      (\<lambda>_. call_ok own True) (\<lambda>_. call_ok own here) v'" if "idle own here v'" for transport v'
      unfolding outcome_io_bind [of "spawn_loops _ _ _"] outcome_io_bind [of spawn_first_monitor]
      by (rule outcome_mono [OF spawned_ok [OF that]], rule outcome_mono [OF monitors_ok(1)], auto intro!: said)
    have started: "idle own here (v'\<lparr>v_handle := Some h\<rparr>)" if "idle own here v'" for v' h
      using that by (auto simp: idle_def call_ok_def talkers_def sending_def)
    show ?thesis
      using idle_no_handle [OF ok None] None
      unfolding join_voice_channel_def outcome_io_bind [of "see _"] outcome_see None option.case assms Let_def
      by (intro idle_step [OF beside_attempt [OF beside_get_preferences]] idle_step [OF beside_map_error [OF beside_from_result]]
          idle_step [OF beside_on_engine] idle_step [OF beside_connect])
        (auto simp: outcome_io_bind [of "change _"] outcome_change
          intro!: rest started idle_step [OF beside_on_engine] idle_step [OF beside_connect])
  qed
qed

lemma leave_ok:
  assumes "is_public_key i = hex_encode own" and "call_ok own here v"
  shows "outcome (leave_voice (Some i)) (\<lambda>_. call_ok own False) (\<lambda>_ _. False) v"
proof -
  have "outcome (io_bind (io_bind end_send_loop (\<lambda>_. end_receive_loop)) (\<lambda>_.
      io_bind (change (\<lambda>v. v\<lparr>v_monitor := None, v_handle := None, v_packets := None\<rparr>)) (\<lambda>_.
      announce (UserLeft (hex_encode own))))) (\<lambda>_. call_ok own False) (\<lambda>_ _. False) v"
    unfolding outcome_io_bind [of "io_bind _ _"]
    by (rule outcome_mono [OF both_loops_end [OF assms(2)]]) (auto simp: wp call_ok_def talkers_def sending_def)
  then show ?thesis
    by (simp add: leave_voice_def shutdown_voice_loops_def io_bind_assoc assms(1))
qed

lemma logout_ok: "evolves (\<lambda>_. True) (\<lambda>v v'. call_ok own here v \<longrightarrow> call_ok own here v') end_call_at_logout"
proof (rule call_evolvesI)
  fix v :: "('a, 'b, 'c, 'd) voice"
  assume "call_ok own here v"
  then have "outcome (io_bind (io_bind end_send_loop (\<lambda>_. end_receive_loop)) (\<lambda>_.
      change (\<lambda>v. v\<lparr>v_monitor := None, v_handle := None, v_packets := None\<rparr>))) (\<lambda>_. call_ok own here) (\<lambda>_. call_ok own here) v"
    unfolding outcome_io_bind [of "io_bind _ _"]
    by (rule outcome_mono [OF both_loops_end]) (auto simp: wp call_ok_def talkers_def sending_def)
  then show "outcome end_call_at_logout (\<lambda>_. call_ok own here) (\<lambda>_. call_ok own here) v"
    by (simp add: end_call_at_logout_def shutdown_voice_loops_def io_bind_assoc)
qed

lemma mute_ok: "evolves (\<lambda>_. True) (\<lambda>v v'. call_ok own here v \<longrightarrow> call_ok own here v') (set_mute identity muted)"
  by (rule call_evolvesI) (auto simp: set_mute_def wp call_ok_def talkers_def sending_def)

lemma deafen_ok: "evolves (\<lambda>_. True) (\<lambda>v v'. call_ok own here v \<longrightarrow> call_ok own here v') (set_deafen deafened)"
  by (rule call_evolvesI) (auto simp: set_deafen_def wp call_ok_def talkers_def sending_def)

lemma restarted_ok:
  assumes "\<And>i. identity = Some i \<Longrightarrow> is_public_key i = hex_encode own" and "call_ok own here v"
    and "\<And>v. call_ok own here v \<Longrightarrow> v_send v = None \<Longrightarrow> v_receive v = None \<Longrightarrow> idle own here (g v) \<and> (v_handle (g v) = None \<longleftrightarrow> v_handle v = None)"
  shows "outcome (io_bind (io_bind end_send_loop (\<lambda>_. end_receive_loop)) (\<lambda>_. io_bind (change g) (\<lambda>_.
      io_bind (edit_engine f) (\<lambda>_. restart_voice_loops au identity cached there))))
    (\<lambda>_. call_ok own here) (\<lambda>_. call_ok own here) v"
  unfolding outcome_io_bind [of "io_bind _ _"] outcome_io_bind [of "change _"] outcome_change
  by (rule outcome_mono [OF both_loops_end [OF assms(2)]], rule idle_step [OF beside_edit_engine])
    (use assms(1,3) in \<open>auto intro!: restart_ok\<close>)

lemma devices_ok:
  assumes "\<And>i. identity = Some i \<Longrightarrow> is_public_key i = hex_encode own"
  shows "evolves (\<lambda>_. True) (\<lambda>v v'. call_ok own here v \<longrightarrow> call_ok own here v') (set_audio_devices au identity cached there input output)"
proof -
  have restart: "evolves (\<lambda>_. True) (\<lambda>v v'. call_ok own here v \<longrightarrow> call_ok own here v')
      (io_bind shutdown_voice_loops_keep_engine (\<lambda>_. io_bind (edit_engine f) (\<lambda>_. restart_voice_loops au identity cached there)))" for f
    unfolding shutdown_voice_loops_keep_engine_def io_bind_assoc
    by (rule call_evolvesI, rule restarted_ok [unfolded io_bind_assoc])
      (auto simp: assms idle_def call_ok_def talkers_def sending_def)
  have stored: "evolves (\<lambda>_. True) (\<lambda>v v'. call_ok own here v \<longrightarrow> call_ok own here v') (change (\<lambda>v. v\<lparr>v_preferences := p\<rparr>))" for p
    by (rule call_beside, rule beside_change) (simp add: loops_kept_def)
  show ?thesis
    unfolding set_audio_devices_def
    by (rule restart stored call_beside [OF beside_get_preferences] call_beside [OF beside_outside]
        call_beside [OF beside_see] call.ev_if call.ev_ok call.ev_bind)+
qed

lemma swap_ok:
  assumes "\<And>i. identity = Some i \<Longrightarrow> is_public_key i = hex_encode own"
  shows "evolves (\<lambda>_. True) (\<lambda>v v'. call_ok own here v \<longrightarrow> call_ok own here v') (swap_and_end au identity cached there kind)"
proof -
  have restart: "evolves (\<lambda>_. True) (\<lambda>v v'. call_ok own here v \<longrightarrow> call_ok own here v')
      (io_bind shutdown_send_recv_only (\<lambda>_. io_bind (edit_engine f) (\<lambda>_. io_bind (restart_voice_loops au identity cached there) (\<lambda>_. m))))"
    if "evolves (\<lambda>_. True) (\<lambda>v v'. call_ok own here v \<longrightarrow> call_ok own here v') m" for f m
    using call.ev_bind [OF call_evolvesI [OF restarted_ok [of identity own here _ "\<lambda>v. v\<lparr>v_packets := None\<rparr>" f au cached there]] that]
    by (simp add: shutdown_send_recv_only_def io_bind_assoc assms idle_def call_ok_def talkers_def sending_def)
  have attempted: "evolves (\<lambda>_. True) (\<lambda>v v'. call_ok own here v \<longrightarrow> call_ok own here v') (attempt m)"
    if "evolves (\<lambda>_. True) (\<lambda>v v'. call_ok own here v \<longrightarrow> call_ok own here v') m" for m :: "('a, 'b, 'c, 'd, unit) call"
    by (rule evolvesI, unfold wp, rule evolves_outcome [OF that]) auto
  have said: "evolves (\<lambda>_. True) (\<lambda>v v'. call_ok own here v \<longrightarrow> call_ok own here v')
      (io_bind (announce (DeviceChanged a b c)) (\<lambda>_. announce (VoiceAlert d e)))" for a b c d e
    by (rule call_evolvesI) (auto simp: wp call_ok_def talkers_def sending_def)
  have quiet: "evolves (\<lambda>_. True) (\<lambda>v v'. call_ok own here v \<longrightarrow> call_ok own here v') (change (\<lambda>v. v\<lparr>v_monitor := None\<rparr>))"
    by (rule call_evolvesI) (auto simp: wp call_ok_def talkers_def sending_def)
  show ?thesis
    unfolding swap_and_end_def handle_device_swap_def
    by (rule restart [OF said] quiet attempted call_beside [OF beside_see] call.ev_if call.ev_ok call.ev_bind)+
qed

lemma device_error_ok:
  assumes "\<And>i. identity = Some i \<Longrightarrow> is_public_key i = hex_encode own"
  shows "evolves (\<lambda>_. True) (\<lambda>v v'. call_ok own here v \<longrightarrow> call_ok own here v') (device_error au identity cached there chan msg)"
  unfolding device_error_def
  by (intro call.ev_bind call.ev_if call.ev_ok swap_ok call_beside [OF beside_see]) (rule assms)

lemma monitor_tick_ok:
  assumes "\<And>i. identity = Some i \<Longrightarrow> is_public_key i = hex_encode own"
  shows "evolves (\<lambda>_. True) (\<lambda>v v'. call_ok own here v \<longrightarrow> call_ok own here v') (monitor_tick au identity cached there)"
proof -
  have quiet: "evolves (\<lambda>_. True) (\<lambda>v v'. call_ok own here v \<longrightarrow> call_ok own here v') (change (\<lambda>v. v\<lparr>v_monitor := None\<rparr>))"
    by (rule call_evolvesI) (auto simp: wp call_ok_def talkers_def sending_def)
  show ?thesis
    unfolding monitor_tick_def Let_def
    by (intro call.ev_bind call.ev_if call.ev_ok call.ev_prod call.ev_option swap_ok assms quiet call_beside [OF beside_see]
        call_beside [OF beside_attempt [OF beside_outside]])
qed

section \<open>The turns of the loops\<close>

text \<open>A frame works on a copy of the send loop's variables.\<close>

definition carries :: "bytes \<Rightarrow> bool \<Rightarrow> ('f, 'x, 'r) send_loop \<Rightarrow> ('w, 'f, 'x, 'r) voice \<Rightarrow> bool" where
  "carries own here sl v \<longleftrightarrow> call_ok own here (v\<lparr>v_send := Some sl\<rparr>)"

lemma carries_cong:
  assumes "carries own here sl v" and "sl_public_key sl' = sl_public_key sl" and "sl_was_speaking sl' = sl_was_speaking sl"
    and "loops_kept v v'"
  shows "carries own here sl' v'"
  using assms by (auto simp: carries_def call_ok_def loops_kept_def talkers_def sending_def)

lemma carries_speaking:
  assumes "carries own here sl v" and "v_events v' = v_events v @ [UserSpeaking (sl_public_key sl) b]"
    and "v_receive v' = v_receive v" and "v_handle v' = v_handle v" and "sl_public_key sl' = sl_public_key sl" and "sl_was_speaking sl' = b"
  shows "carries own here sl' v'"
  using assms own_not_shown [of own "talkers v" pd_is_speaking]
  by (cases b) (auto simp: carries_def call_ok_def talkers_def sending_def)

lemma report_quality_ok:
  assumes "carries own here sl v"
  shows "outcome (report_quality au sl) (carries own here) (\<lambda>_ _. False) v"
proof -
  have "carries own here (sl\<lparr>sl_codec := c, sl_packets_sent := 0, sl_send_failures := 0, sl_last_quality_report := t\<rparr>)
      (v\<lparr>v_events := v_events v @ [ConnectionQuality q]\<rparr>)" for c t q
    using assms by (auto simp: carries_def call_ok_def talkers_def sending_def)
  then show ?thesis
    using assms by (simp add: report_quality_def wp Let_def)
qed

lemma outcome_any: "(\<And>x s'. Q x s') \<Longrightarrow> (\<And>e s'. E e s') \<Longrightarrow> outcome m Q E s"
  by (simp add: outcome_def split: prod.split sum.split)

lemma send_speech_ok:
  assumes "carries own here sl v"
  shows "outcome (send_speech au xs sl) (carries own here) (\<lambda>_ _. False) v"
proof -
  have report: "outcome (report_quality au sl') (carries own here) (\<lambda>_ _. False) v'"
    if "sl_public_key sl' = sl_public_key sl" "sl_was_speaking sl' = sl_was_speaking sl" "loops_kept v v'" for sl' v'
    by (rule report_quality_ok, rule carries_cong [OF assms that])
  show ?thesis
    using carries_cong [OF assms _ _ beside.state_refl]
    by (auto simp: send_speech_def wp Let_def loops_kept_def split: prod.split sum.split intro!: report outcome_any [of _ _ "transport_send _ _ _"])
qed

lemma send_frame_ok:
  assumes "carries own here sl v"
  shows "outcome (send_frame au xs sl) (carries own here) (\<lambda>_ _. False) v"
proof -
  have drained: "outcome drain_references (\<lambda>_. loops_kept v) (\<lambda>_ _. False) v"
    by (auto simp: drain_references_def wp loops_kept_def)
  have speech: "outcome (if b then ok sl' else send_speech au ys sl') (carries own here) (\<lambda>_ _. False) v'"
    if "carries own here sl' v'" for b sl' ys v'
    using that by (simp add: wp send_speech_ok)
  have decided: "outcome (io_bind (if b \<noteq> sl_was_speaking sl then announce (UserSpeaking (sl_public_key sl) b) else ok ()) (\<lambda>_.
      if \<not> b then ok (sl\<lparr>sl_processor := p, sl_was_speaking := b\<rparr>)
      else send_speech au ys (sl\<lparr>sl_processor := p, sl_was_speaking := b\<rparr>))) (carries own here) (\<lambda>_ _. False) v'"
    if "loops_kept v v'" for b p ys v'
  proof -
    have "carries own here (sl\<lparr>sl_processor := p, sl_was_speaking := b\<rparr>) (if b \<noteq> sl_was_speaking sl
        then v'\<lparr>v_events := v_events v' @ [UserSpeaking (sl_public_key sl) b]\<rparr> else v')"
      using carries_speaking [OF carries_cong [OF assms _ _ that], of sl "v'\<lparr>v_events := v_events v' @ [UserSpeaking (sl_public_key sl) b]\<rparr>" b]
        carries_cong [OF assms _ _ that] by auto
    from speech [OF this, of "\<not> b" ys] show ?thesis
      by (cases "b = sl_was_speaking sl") (simp_all add: outcome_io_bind outcome_announce outcome_ok)
  qed
  show ?thesis
  proof (cases "\<exists>h. v_handle v = Some h \<and> vh_muted_flag h")
    case True
    then show ?thesis
      using assms by (auto simp: send_frame_def wp intro!: carries_speaking [OF assms])
  next
    case False
    have "outcome (io_bind drain_references (\<lambda>frames. g (process_capture (au_floats au) (au_dsp au) xs (latest frames) (ap frames))))
        (carries own here) (\<lambda>_ _. False) v" if "\<And>r v'. loops_kept v v' \<Longrightarrow> outcome (g r) (carries own here) (\<lambda>_ _. False) v'" for g ap latest
      unfolding outcome_io_bind by (rule outcome_mono [OF drained]) (use that in auto)
    from this [of "\<lambda>(processed, processor). io_bind (if pd_is_speech processed \<noteq> sl_was_speaking sl
         then announce (UserSpeaking (sl_public_key sl) (pd_is_speech processed)) else ok ()) (\<lambda>_.
       let sl = sl\<lparr>sl_processor := processor, sl_was_speaking := pd_is_speech processed\<rparr>
       in if \<not> pd_is_speech processed then ok sl else send_speech au (pd_samples processed) sl)"]
    show ?thesis
      using False decided
      by (auto simp: send_frame_def outcome_io_bind [of "see _"] outcome_see Let_def split: option.split prod.split)
  qed
qed

lemma send_frames_ok:
  assumes "carries own here sl v"
  shows "outcome (send_frames au frames sl) (carries own here) (\<lambda>_ _. False) v"
  using assms
proof (induction frames arbitrary: sl v)
  case (Cons frame rest)
  show ?case
    unfolding send_frames.simps outcome_io_bind
    by (rule outcome_mono [OF send_frame_ok [OF Cons.prems]]) (auto intro: Cons.IH)
qed (simp add: wp)

lemma capture_chunk_ok: "evolves (\<lambda>_. True) (\<lambda>v v'. call_ok own here v \<longrightarrow> call_ok own here v') (capture_chunk au xs)"
proof (rule call_evolvesI)
  fix v :: "('a, 'b, 'c, 'd) voice"
  assume ok: "call_ok own here v"
  show "outcome (capture_chunk au xs) (\<lambda>_. call_ok own here) (\<lambda>_. call_ok own here) v"
  proof (cases "v_send v")
    case None
    with ok show ?thesis by (simp add: capture_chunk_def wp)
  next
    case (Some sl)
    have start: "carries own here (sl\<lparr>sl_pcm_buffer := b\<rparr>) v" for b
      using ok Some by (auto simp: carries_def call_ok_def talkers_def sending_def)
    have "outcome (io_bind (send_frames au frames (sl\<lparr>sl_pcm_buffer := b\<rparr>)) (\<lambda>sl. change (\<lambda>v. v\<lparr>v_send := Some sl\<rparr>)))
        (\<lambda>_. call_ok own here) (\<lambda>_. call_ok own here) v" for frames b
      unfolding outcome_io_bind outcome_change
      by (rule outcome_mono [OF send_frames_ok [OF start]]) (simp_all add: carries_def)
    with Some show ?thesis by (simp add: capture_chunk_def outcome_io_bind [of "see _"] outcome_see Let_def)
  qed
qed

text \<open>A packet changes one participant, a tick all of them.\<close>

lemma keys_with_update:
  "distinct (map fst ps) \<Longrightarrow> keys_with P (AList.update k p ps) = keys_with P (filter (\<lambda>(l, _). l \<noteq> k) ps) \<union> (if P p then {hex_encode k} else {})"
proof (induction ps)
  case (Cons x ps)
  have "filter (\<lambda>(l, _). l \<noteq> k) ps = ps" if "fst x = k"
    unfolding filter_id_conv using that Cons.prems by (cases x) force
  with Cons show ?case by (cases x) auto
qed simp

lemma talkers_receive [simp]: "talkers (v\<lparr>v_receive := Some rl\<rparr>) = rl_participants rl"
  by (simp add: talkers_def)

lemma deliver_ok: "evolves (\<lambda>_. True) (\<lambda>v v'. call_ok own here v \<longrightarrow> call_ok own here v') (deliver_voice au d)"
  by (rule call_evolvesI) (auto simp: deliver_voice_def wp call_ok_def talkers_def sending_def split: sum.split)

lemma keys_with_split:
  assumes "distinct (map fst ps)"
  shows "keys_with P ps = keys_with P (filter (\<lambda>(l, _). l \<noteq> k) ps) \<union>
    (case map_of ps k of None \<Rightarrow> {} | Some p \<Rightarrow> if P p then {hex_encode k} else {})"
  using assms
proof (induction ps)
  case (Cons x ps)
  have "filter (\<lambda>(l, _). l \<noteq> k) ps = ps" if "fst x = k"
    unfolding filter_id_conv using that Cons.prems by (cases x) force
  with Cons show ?case by (cases x) auto
qed simp

lemma not_among_others: "hex_encode k \<notin> keys_with P (filter (\<lambda>(l, _). l \<noteq> k) ps)"
  by (auto simp: keys_with_def)

lemma updated_ok:
  assumes "call_ok own here v" and "v_receive v = Some rl" and "sender \<noteq> own"
    and "map_of (rl_participants rl) sender = prev"
    and "v_events v' = v_events v @ (if prev = None then [UserJoined (hex_encode sender) (hex_encode sender)] else []) @
      (if \<exists>q. prev = Some q \<and> pd_is_speaking q then [] else [UserSpeaking (hex_encode sender) True])"
    and "pd_is_speaking p" and "v_receive v' = Some (rl\<lparr>rl_participants := AList.update sender p (rl_participants rl)\<rparr>)"
    and "v_send v' = v_send v" and "v_handle v' = v_handle v" 
  shows "call_ok own here v'"
proof -
  have distinct: "distinct (map fst (rl_participants rl))" and "own \<notin> fst ` set (rl_participants rl)"
    and present: "shown_present (v_events v) = keys_with (\<lambda>_. True) (rl_participants rl) \<union> (if here then {hex_encode own} else {})"
    and speaking: "shown_speaking (v_events v) = keys_with pd_is_speaking (rl_participants rl) \<union> (if sending v then {hex_encode own} else {})"
    using assms(1,2) by (auto simp: call_ok_def talkers_def)
  let ?others = "filter (\<lambda>(l, _). l \<noteq> sender) (rl_participants rl)"
  have "shown_present (v_events v') = keys_with (\<lambda>_. True) ?others \<union> {hex_encode sender} \<union> (if here then {hex_encode own} else {})"
  proof -
    have "shown_present (v_events v') = shown_present (v_events v) \<union> {hex_encode sender}"
      using present assms(4,5) keys_with_split [OF distinct, of "\<lambda>_. True" sender]
      by (cases prev) (auto simp: shown_present_def)
    then show ?thesis unfolding present keys_with_split [OF distinct, of _ sender] by (auto split: option.split)
  qed
  moreover have "shown_speaking (v_events v') = keys_with pd_is_speaking ?others \<union> {hex_encode sender} \<union> (if sending v then {hex_encode own} else {})"
  proof -
    have "shown_speaking (v_events v') = shown_speaking (v_events v) \<union> {hex_encode sender}"
      using speaking assms(4,5) keys_with_split [OF distinct, of pd_is_speaking sender]
      by (cases prev) (auto simp: shown_speaking_def)
    then show ?thesis unfolding speaking keys_with_split [OF distinct, of _ sender] by (auto split: option.split)
  qed
  ultimately show ?thesis
    using assms distinct \<open>own \<notin> _\<close>
    by (auto simp: call_ok_def talkers_def sending_def keys_with_update distinct_update dom_update)
qed

lemma receive_packet_ok: "evolves (\<lambda>_. True) (\<lambda>v v'. call_ok own here v \<longrightarrow> call_ok own here v') (receive_packet au)"
proof (rule call_evolvesI)
  fix v :: "('a, 'b, 'c, 'd) voice"
  assume ok: "call_ok own here v"
  have own: "rl_our_key rl = own" if "v_receive v = Some rl" for rl
    using ok that by (simp add: call_ok_def)
  have queue: "call_ok own here (v\<lparr>v_packets := Some q\<rparr>)" if "v_receive v = Some rl" for q rl
    using ok that by (auto simp: call_ok_def talkers_def sending_def)
  have stored: "call_ok own here v'" if "v_receive v = Some rl" "vp_sender_key packet \<noteq> own" and "map_of (rl_participants rl) (vp_sender_key packet) = prev"
    and "v_events v' = v_events v @ (if prev = None then [UserJoined (hex_encode (vp_sender_key packet)) (hex_encode (vp_sender_key packet))] else []) @
      (if \<exists>q. prev = Some q \<and> pd_is_speaking q then [] else [UserSpeaking (hex_encode (vp_sender_key packet)) True])"
    and "v_receive v' = Some (rl\<lparr>rl_participants := AList.update (vp_sender_key packet) (take_packet q now packet) (rl_participants rl)\<rparr>)"
    and "v_send v' = v_send v" and "v_handle v' = v_handle v" for rl packet prev v' q now
    by (rule updated_ok [OF ok that(1-4) _ that(5-7)]) (simp add: take_packet_def)
  show "outcome (receive_packet au) (\<lambda>_. call_ok own here) (\<lambda>_. call_ok own here) v"
  proof (cases "v_receive v = None \<or> v_packets v = None \<or> v_packets v = Some []")
    case True
    with ok show ?thesis by (auto simp: receive_packet_def wp split: option.split)
  next
    case False
    then obtain rl packet packets where rl: "v_receive v = Some rl" and packets: "v_packets v = Some (packet # packets)"
      by (metis list.exhaust option.exhaust)
    show ?thesis
      using rl packets queue [OF rl]
      by (auto simp: receive_packet_def wp Let_def own [OF rl] split: option.split sum.split intro!: stored [OF rl])
  qed
qed

lemma all_quiet:
  "for_each (\<lambda>(key, p). if quiet_now now p then announce (UserSpeaking (hex_encode key) False) else ok ()) ps v =
     (Inr (), v\<lparr>v_events := v_events v @ map (\<lambda>(key, p). UserSpeaking (hex_encode key) False) (filter (\<lambda>(key, p). quiet_now now p) ps)\<rparr>)"
proof (induction ps arbitrary: v)
  case (Cons x ps)
  then show ?case by (cases x) (simp add: io_bind_def announce_def change_def ok_def)
qed (simp add: ok_def)

lemma shown_quiet:
  "shown_present (es @ map (\<lambda>(key, p). UserSpeaking (hex_encode key) False) ps) = shown_present es"
  "shown_speaking (es @ map (\<lambda>(key, p). UserSpeaking (hex_encode key) False) ps) = shown_speaking es - keys_with (\<lambda>_. True) ps"
proof (induction ps rule: rev_induct)
  case (snoc x ps)
  obtain k p where x: "x = (k, p)" by fastforce
  {
    case 1
    with snoc(1) show ?case by (simp add: x flip: append_assoc)
  next
    case 2
    have "keys_with (\<lambda>_. True) (ps @ [x]) = insert (hex_encode k) (keys_with (\<lambda>_. True) ps)"
      by (auto simp: x keys_with_def)
    with snoc(2) show ?case by (auto simp: x simp flip: append_assoc)
  }
qed simp_all

lemma decoded_same [simp]:
  "pd_is_speaking (snd (decode_participant au now p)) = pd_is_speaking p"
  "pd_last_packet_time (snd (decode_participant au now p)) = pd_last_packet_time p"
  by (simp_all add: decode_participant_def Let_def or_silence_def split: prod.split option.split sum.split)

lemma after_decoding_same:
  "map fst (after_decoding au now ps) = map fst ps"
  "fst ` set (after_decoding au now ps) = fst ` set ps"
  "keys_with (\<lambda>_. True) (after_decoding au now ps) = keys_with (\<lambda>_. True) ps"
  "keys_with pd_is_speaking (after_decoding au now ps) = keys_with pd_is_speaking ps"
  by (force simp: after_decoding_def keys_with_map)+

lemma play_mixed_beside: "outcome (play_mixed au mixed) (\<lambda>_. loops_kept v) (\<lambda>_ _. False) v"
  by (simp add: play_mixed_def broadcast_reference_def wp Let_def loops_kept_def)

text \<open>Those who were silent too long leave, and a pause ends speech.\<close>

definition after_pause :: "nat \<Rightarrow> (bytes \<times> 'x participant_decoder) list \<Rightarrow> (bytes \<times> 'x participant_decoder) list" where
  "after_pause now ps = map (\<lambda>(key, p). (key, if quiet_now now p then p\<lparr>pd_is_speaking := False\<rparr> else p))
     (filter (\<lambda>(key, p). \<not> participant_timed_out now p) ps)"

lemma shown_after_pause:
  assumes "distinct (map fst ps)" and "own \<notin> fst ` set ps"
    and "shown_present es = keys_with (\<lambda>_. True) ps \<union> (if here then {hex_encode own} else {})"
    and "shown_speaking es = keys_with pd_is_speaking ps \<union> (if b then {hex_encode own} else {})"
    and "es' = (es @ concat (map left_events (filter (\<lambda>(key, p). participant_timed_out now p) ps))) @
      map (\<lambda>(key, p). UserSpeaking (hex_encode key) False) (filter (\<lambda>(key, p). quiet_now now p) (filter (\<lambda>(key, p). \<not> participant_timed_out now p) ps))"
  shows "shown_present es' = keys_with (\<lambda>_. True) (after_pause now ps) \<union> (if here then {hex_encode own} else {})"
    and "shown_speaking es' = keys_with pd_is_speaking (after_pause now ps) \<union> (if b then {hex_encode own} else {})"
proof -
  have own: "hex_encode own \<notin> keys_with P ps" for P by (rule own_not_shown [OF assms(2)])
  have "shown_present es' = keys_with (\<lambda>_. True) ps - keys_with (participant_timed_out now) ps \<union> (if here then {hex_encode own} else {})"
    unfolding assms(5) shown_quiet shown_left keys_with_filter using assms(3) own by auto
  then show "shown_present es' = keys_with (\<lambda>_. True) (after_pause now ps) \<union> (if here then {hex_encode own} else {})"
    unfolding keys_with_diff [OF assms(1)] after_pause_def keys_with_map keys_with_filter by simp
  let ?gone = "keys_with (\<lambda>p. participant_timed_out now p \<and> pd_is_speaking p) ps"
  let ?quiet = "keys_with (\<lambda>p. \<not> participant_timed_out now p \<and> quiet_now now p) ps"
  have "keys_with pd_is_speaking (after_pause now ps) = keys_with (\<lambda>p. (pd_is_speaking p \<and> \<not> (participant_timed_out now p \<and> pd_is_speaking p)) \<and>
      \<not> (\<not> participant_timed_out now p \<and> quiet_now now p)) ps"
    unfolding after_pause_def keys_with_map keys_with_filter by (rule arg_cong [where f = "\<lambda>P. keys_with P ps"]) (auto simp: quiet_now_def)
  also have "\<dots> = keys_with pd_is_speaking ps - ?gone - ?quiet"
    by (simp only: keys_with_diff [OF assms(1)])
  finally have left: "keys_with pd_is_speaking (after_pause now ps) = keys_with pd_is_speaking ps - ?gone - ?quiet" .
  have "shown_speaking es' = shown_speaking es - ?gone - ?quiet"
    unfolding assms(5) shown_quiet shown_left keys_with_filter by (simp add: conj_commute)
  then show "shown_speaking es' = keys_with pd_is_speaking (after_pause now ps) \<union> (if b then {hex_encode own} else {})"
    unfolding left assms(4) using own by (cases b) (simp_all add: insert_Diff_if)
qed

lemma receive_tick_ok: "evolves (\<lambda>_. True) (\<lambda>v v'. call_ok own here v \<longrightarrow> call_ok own here v') (receive_tick au)"
proof (rule call_evolvesI)
  fix v :: "('a, 'b, 'c, 'd) voice"
  assume ok: "call_ok own here v"
  show "outcome (receive_tick au) (\<lambda>_. call_ok own here) (\<lambda>_. call_ok own here) v"
  proof (cases "v_receive v")
    case None
    with ok show ?thesis by (simp add: receive_tick_def wp)
  next
    case (Some rl)
    let ?now = "v_instant v"
    let ?ps = "after_decoding au ?now (rl_participants rl)"
    let ?events = "(v_events v @ concat (map left_events (filter (\<lambda>(key, p). participant_timed_out ?now p) ?ps))) @
      map (\<lambda>(key, p). UserSpeaking (hex_encode key) False) (filter (\<lambda>(key, p). quiet_now ?now p) (filter (\<lambda>(key, p). \<not> participant_timed_out ?now p) ?ps))"
    have final: "call_ok own here (v'\<lparr>v_events := ?events, v_receive := Some (rl\<lparr>rl_participants := after_pause ?now ?ps\<rparr>)\<rparr>)"
      if "loops_kept v v'" for v'
    proof -
      have "distinct (map fst ?ps)" "own \<notin> fst ` set ?ps" "shown_present (v_events v) = keys_with (\<lambda>_. True) ?ps \<union> (if here then {hex_encode own} else {})"
        "shown_speaking (v_events v) = keys_with pd_is_speaking ?ps \<union> (if sending v then {hex_encode own} else {})"
        using ok Some by (simp_all add: call_ok_def talkers_def after_decoding_same)
      note shown = shown_after_pause [OF this refl, of ?now]
      have "map fst (after_pause ?now ps) = map fst (filter (\<lambda>(key, p). \<not> participant_timed_out ?now p) ps)" for ps :: "(bytes \<times> 'c participant_decoder) list"
        by (induction ps) (auto simp: after_pause_def)
      then have "distinct (map fst (after_pause ?now ?ps))" "own \<notin> fst ` set (after_pause ?now ?ps)"
        using \<open>distinct (map fst ?ps)\<close> \<open>own \<notin> fst ` set ?ps\<close>
        by (simp_all add: distinct_map_filter) (force simp: after_pause_def)
      then show ?thesis
        using ok Some that shown by (auto simp: call_ok_def talkers_def sending_def loops_kept_def)
    qed
    have rest: "outcome (io_bind (for_each announce_left (filter (\<lambda>(key, p). participant_timed_out ?now p) ?ps)) (\<lambda>_.
        io_bind (for_each (\<lambda>(key, p). if quiet_now ?now p then announce (UserSpeaking (hex_encode key) False) else ok ())
          (filter (\<lambda>(key, p). \<not> participant_timed_out ?now p) ?ps)) (\<lambda>_.
        change (\<lambda>v. v\<lparr>v_receive := Some (rl\<lparr>rl_participants := after_pause ?now ?ps\<rparr>)\<rparr>))))
      (\<lambda>_. call_ok own here) (\<lambda>_. call_ok own here) v'" if "loops_kept v v'" for v'
      using final [OF that] that by (simp add: outcome_io_bind outcome_def [of "for_each _ _"] all_left all_quiet outcome_change loops_kept_def)
    have "outcome (if mixed = [] then ok () else play_mixed au mixed) (\<lambda>_. loops_kept v) (\<lambda>_ _. False) v" for mixed
      by (simp add: wp beside.state_refl play_mixed_beside)
    then have "outcome (io_bind (if mixed = [] then ok () else play_mixed au mixed) (\<lambda>_. n)) (\<lambda>_. call_ok own here) (\<lambda>_. call_ok own here) v"
      if "\<And>v'. loops_kept v v' \<Longrightarrow> outcome n (\<lambda>_. call_ok own here) (\<lambda>_. call_ok own here) v'" for mixed n
      unfolding outcome_io_bind by (rule outcome_mono) (use that in auto)
    from this [OF rest] show ?thesis
      using Some unfolding receive_tick_def outcome_io_bind [of "see _"] outcome_see by (simp add: Let_def after_pause_def)
  qed
qed

section \<open>Calls\<close>

text \<open>
  What can happen to a client: the commands and a logout, with the routes they find in the cache and whether there
  is a node; a chunk of samples from the microphone, a packet from the network, the turns of the
  receive loop and the speaker; an error of a device and a turn of the monitor; and time, on the
  monotonic clock and on the wall clock.
\<close>

datatype 'f call_op =
    JoinVoice "bytes option" bool string
  | LeaveVoice
  | Logout
  | Mute bool
  | Deafen bool
  | Devices "string \<Rightarrow> bytes option" bool "string option" "string option"
  | Microphone "'f list"
  | Network bytes
  | TakePacket
  | PlaybackTick
  | Speaker nat
  | DeviceFails "string \<Rightarrow> bytes option" bool nat string
  | MonitorTurn "string \<Rightarrow> bytes option" bool
  | Elapse nat nat

fun call_step :: "('w, 'f, 'x, 'r) audio \<Rightarrow> identity_state \<Rightarrow> 'f call_op \<Rightarrow> ('w, 'f, 'x, 'r, unit) call" where
  "call_step au i (JoinVoice blob there ch) = join_voice_channel au (Some i) blob there ch"
| "call_step au i LeaveVoice = leave_voice (Some i)"
| "call_step au i Logout = end_call_at_logout"
| "call_step au i (Mute b) = set_mute (Some i) b"
| "call_step au i (Deafen b) = set_deafen b"
| "call_step au i (Devices cached there input output) = set_audio_devices au (Some i) cached there input output"
| "call_step au i (Microphone xs) = capture_chunk au xs"
| "call_step au i (Network d) = deliver_voice au d"
| "call_step au i TakePacket = receive_packet au"
| "call_step au i PlaybackTick = receive_tick au"
| "call_step au i (Speaker n) = change (\<lambda>v. v\<lparr>v_playback := drop n (v_playback v)\<rparr>)"
| "call_step au i (DeviceFails cached there channel msg) = device_error au (Some i) cached there channel msg"
| "call_step au i (MonitorTurn cached there) = monitor_tick au (Some i) cached there"
| "call_step au i (Elapse n m) = change (\<lambda>v. v\<lparr>v_instant := v_instant v + n, v_clock := v_clock v + m\<rparr>)"

definition run_calls ::
  "('w, 'f, 'x, 'r) audio \<Rightarrow> identity_state \<Rightarrow> 'f call_op list \<Rightarrow> ('w, 'f, 'x, 'r) voice \<Rightarrow> ('w, 'f, 'x, 'r) voice" where
  "run_calls au i ops v = fold (\<lambda>op v. snd (call_step au i op v)) ops v"

lemma run_calls_induct:
  assumes "\<And>op v. op \<in> set ops \<Longrightarrow> I v \<Longrightarrow> I (snd (call_step au i op v))" and "I v"
  shows "I (run_calls au i ops v)"
  using assms unfolding run_calls_def by (induction ops arbitrary: v) auto

text \<open>Whether the client itself is listed: from a join that succeeds until it leaves.\<close>

fun listed_after :: "('w, 'f, 'x, 'r) audio \<Rightarrow> identity_state \<Rightarrow> 'f call_op \<Rightarrow> ('w, 'f, 'x, 'r) voice \<Rightarrow> bool \<Rightarrow> bool" where
  "listed_after au i (JoinVoice blob there ch) v b \<longleftrightarrow> b \<or> fst (call_step au i (JoinVoice blob there ch) v) = Inr ()"
| "listed_after au i LeaveVoice v b \<longleftrightarrow> False"
| "listed_after au i op v b \<longleftrightarrow> b"

fun listed_by :: "('w, 'f, 'x, 'r) audio \<Rightarrow> identity_state \<Rightarrow> 'f call_op list \<Rightarrow> ('w, 'f, 'x, 'r) voice \<Rightarrow> bool \<Rightarrow> bool" where
  "listed_by au i [] v b = b"
| "listed_by au i (op # ops) v b = listed_by au i ops (snd (call_step au i op v)) (listed_after au i op v b)"

lemma call_step_ok:
  assumes "is_public_key i = hex_encode own" and "call_ok own here v"
  shows "call_ok own (listed_after au i op v here) (snd (call_step au i op v))"
proof -
  consider (join) blob there ch where "op = JoinVoice blob there ch" | (leave) "op = LeaveVoice"
    | (other) "listed_after au i op v here = here" "\<And>blob there ch. op \<noteq> JoinVoice blob there ch" "op \<noteq> LeaveVoice"
    by (cases op) auto
  then show ?thesis
  proof cases
    case join
    have "outcome (call_step au i op) (\<lambda>_. call_ok own True) (\<lambda>_. call_ok own here) v"
      unfolding join call_step.simps by (rule join_ok [OF assms])
    then show ?thesis by (auto simp: join outcome_def split: prod.splits sum.splits)
  next
    case leave
    have "outcome (leave_voice (Some i)) (\<lambda>_. call_ok own False) (\<lambda>_ _. False) v" by (rule leave_ok [OF assms])
    then show ?thesis by (auto simp: leave outcome_def split: prod.splits sum.splits)
  next
    case other
    have "evolves (\<lambda>_. True) (\<lambda>v v'. call_ok own here v \<longrightarrow> call_ok own here v') (call_step au i op)"
      using assms(1) other(2,3)
      by (cases op) (auto intro!: logout_ok mute_ok deafen_ok devices_ok capture_chunk_ok deliver_ok receive_packet_ok
          receive_tick_ok device_error_ok monitor_tick_ok call_beside [OF beside_change] simp: loops_kept_def)
    from evolves_snd [OF this, of v] assms(2) other(1) show ?thesis by simp
  qed
qed

definition no_call :: "('w, 'f, 'x, 'r) voice \<Rightarrow> bool" where
  "no_call v \<longleftrightarrow> v_handle v = None \<and> v_send v = None \<and> v_receive v = None \<and> v_monitor v = None \<and> v_packets v = None"

lemma new_call_ok: "no_call v \<Longrightarrow> v_events v = [] \<Longrightarrow> call_ok own False v"
  by (simp add: no_call_def call_ok_def talkers_def sending_def shown_present_def shown_speaking_def)

lemma run_calls_simps:
  "run_calls au i [] v = v"
  "run_calls au i (op # ops) v = run_calls au i ops (snd (call_step au i op v))"
  by (simp_all add: run_calls_def)

lemma calls_ok:
  assumes "is_public_key i = hex_encode own" and "call_ok own here v"
  shows "call_ok own (listed_by au i ops v here) (run_calls au i ops v)"
  using assms(2) by (induction ops arbitrary: v here) (simp_all add: run_calls_simps call_step_ok [OF assms(1)])

text \<open>A concrete system: integers for floats, a codec and a network that do nothing much.\<close>

definition sample_audio :: "(nat, int, nat, nat) audio" where
  "sample_audio =
     \<lparr>au_floats = \<lparr>fl_lit = \<lambda>a b. a div int b, fl_of_nat = int, fl_add = (+), fl_mul = (*), fl_div = (div), fl_less = (<),
        fl_le = (\<le>), fl_to_i32 = id\<rparr>,
      au_opus = \<lparr>op_encoder = \<lambda>_ _. Inr 0, op_decoder = \<lambda>_ _. Inr 0, op_set_bitrate = \<lambda>_. Inr, op_set_inband_fec = \<lambda>_. Inr,
        op_set_packet_loss_perc = \<lambda>_. Inr, op_encode_float = \<lambda>x pcm n. (Inr [of_int (hd pcm)], x + 1),
        op_decode_float = \<lambda>x data n fec. (Inr (map uint data), x + 1)\<rparr>,
      au_dsp = \<lparr>ds_denoiser = 0, ds_process_frame = \<lambda>x xs. ((if xs = [] then 0 else 1, xs), x), ds_aec = Inr 0,
        ds_aec_process = \<lambda>x xs _. (Inr xs, x), ds_aec_render = \<lambda>x _. x\<rparr>,
      au_net = \<lparr>vn_context = ok (), vn_import = \<lambda>b. ok (length b), vn_app_message = \<lambda>r d w. (Inr (), w + 1),
        vn_serialize = \<lambda>p. Inr (vp_sender_key p @ vp_audio_data p),
        vn_deserialize = \<lambda>d. Inr \<lparr>vp_sender_key = take 1 d, vp_sequence = 0, vp_timestamp = 0, vp_audio_data = drop 1 d\<rparr>\<rparr>,
      au_devices = \<lparr>dv_open_input = \<lambda>_ _ _. ok (), dv_open_output = \<lambda>_ _ _. ok (), dv_list = ok ([], [])\<rparr>,
      au_open_store = ok (), au_save_store = ok ()\<rparr>"

definition sample_user :: identity_state where
  "sample_user = \<lparr>is_public_key = ''aa'', is_display_name = ''Ada'', is_status = Online, is_status_message = []\<rparr>"

definition before_calls :: "(nat, int, nat, nat) voice" where
  "before_calls = \<lparr>v_handle = None, v_send = None, v_receive = None, v_monitor = None, v_packets = None, v_playback = [],
     v_references = [], v_lagged = False, v_preferences = None, v_events = [], v_world = 0, v_instant = 0, v_clock = 0\<rparr>"

definition sample_talk :: "int call_op list" where
  "sample_talk = [JoinVoice (Some [1]) True ''lobby'', Network [7, 42], TakePacket, PlaybackTick]"

lemma sample_start:
  "is_public_key sample_user = ''aa''" "hex_encode [0xAA] = ''aa''" "no_call before_calls" "v_events before_calls = []"
  by (simp_all add: sample_user_def no_call_def before_calls_def char_of_def bit_simps)

lemma sample_talkers:
  "keys_with (\<lambda>_. True) (talkers (run_calls sample_audio sample_user sample_talk before_calls)) = {''07''}"
  "keys_with pd_is_speaking (talkers (run_calls sample_audio sample_user sample_talk before_calls)) = {''07''}"
  "v_handle (run_calls sample_audio sample_user sample_talk before_calls) \<noteq> None"
  "sending (run_calls sample_audio sample_user sample_talk before_calls) = False"
  "listed_by sample_audio sample_user sample_talk before_calls False"
proof -
  have "(\<lambda>v. (map (map_prod hex_encode pd_is_speaking) (talkers v), v_handle v = None, sending v))
      (run_calls sample_audio sample_user sample_talk before_calls) = ([(''07'', True)], False, False)"
    "listed_by sample_audio sample_user sample_talk before_calls False"
    by code_simp+
  then show "keys_with (\<lambda>_. True) (talkers (run_calls sample_audio sample_user sample_talk before_calls)) = {''07''}"
  "keys_with pd_is_speaking (talkers (run_calls sample_audio sample_user sample_talk before_calls)) = {''07''}"
  "v_handle (run_calls sample_audio sample_user sample_talk before_calls) \<noteq> None"
  "sending (run_calls sample_audio sample_user sample_talk before_calls) = False"
  "listed_by sample_audio sample_user sample_talk before_calls False"
    by (auto simp: map_eq_Cons_conv keys_with_def)
qed

section \<open>Silence\<close>

text \<open>Everything but commands and devices.\<close>

fun is_media :: "'f call_op \<Rightarrow> bool" where
  "is_media (Microphone xs) = True"
| "is_media (Network d) = True"
| "is_media TakePacket = True"
| "is_media PlaybackTick = True"
| "is_media (Speaker n) = True"
| "is_media (Elapse n m) = True"
| "is_media op = False"

definition silenced :: "'f floats \<Rightarrow> ('w, 'f, 'x, 'r) voice \<Rightarrow> ('w, 'f, 'x, 'r) voice \<Rightarrow> bool" where
  "silenced F v v' \<longleftrightarrow> v_handle v' = v_handle v \<and>
     (\<forall>h. v_handle v = Some h \<longrightarrow>
       (vh_muted_flag h \<longrightarrow> v_world v' = v_world v) \<and>
       (vh_deafened_flag h \<longrightarrow> (\<forall>f \<in> set (v_playback v'). f \<in> set (v_playback v) \<or> f = silence F (length f))))"

interpretation hush: state_preorder "silenced F" "\<lambda>_. True" for F
  by unfold_locales (auto simp: silenced_def)

lemma hush_see: "evolves (\<lambda>_. True) (silenced F) (see f)"
  by (simp add: evolves_def wp hush.state_refl)

lemma hush_change: "(\<And>v. silenced F v (f v)) \<Longrightarrow> evolves (\<lambda>_. True) (silenced F) (change f)"
  by (simp add: evolves_def wp)

lemma hush_announce: "evolves (\<lambda>_. True) (silenced F) (announce e)"
  by (simp add: evolves_def wp silenced_def)

lemmas hush_rules = hush.ev_bind hush.ev_option hush.ev_if hush.ev_prod hush.ev_ok hush.ev_for_each hush.ev_list hush.ev_sum hush_see hush_announce

lemma silence_same: "silence F n = silence F (length (silence F n))"
  by (simp add: silence_def)

lemma hush_play_mixed: "evolves (\<lambda>_. True) (silenced (au_floats au)) (play_mixed au mixed)"
  using silence_same [of "au_floats au" "length mixed"]
  by (auto simp: evolves_def wp play_mixed_def broadcast_reference_def Let_def silenced_def)

lemma hush_receive:
  "evolves (\<lambda>_. True) (silenced (au_floats au)) (receive_tick au)"
  "evolves (\<lambda>_. True) (silenced (au_floats au)) (receive_packet au)"
  "evolves (\<lambda>_. True) (silenced (au_floats au)) (deliver_voice au d)"
  unfolding receive_tick_def receive_packet_def deliver_voice_def Let_def announce_left_def
  by (rule hush_rules hush_play_mixed hush_change | simp add: silenced_def)+

text \<open>A frame of a muted client stops at the flag.\<close>

lemma muted_frames:
  assumes "v_handle v = Some h" and "vh_muted_flag h"
  shows "outcome (send_frames au frames sl) (\<lambda>_. silenced F v) (\<lambda>_ _. False) v"
  using assms
proof (induction frames arbitrary: sl v)
  case (Cons frame rest)
  have "outcome (send_frame au frame sl) (\<lambda>_ v'. silenced F v v' \<and> v_handle v' = Some h) (\<lambda>_ _. False) v"
    using Cons.prems by (auto simp: send_frame_def wp silenced_def)
  then show ?case
    unfolding send_frames.simps outcome_io_bind
  proof (rule outcome_mono)
    fix sl' v'
    assume v': "silenced F v v' \<and> v_handle v' = Some h"
    have "outcome (send_frames au rest sl') (\<lambda>_. silenced F v') (\<lambda>_ _. False) v'"
      by (rule Cons.IH) (use v' Cons.prems in auto)
    then show "outcome (send_frames au rest sl') (\<lambda>_. silenced F v) (\<lambda>_ _. False) v'"
      by (rule outcome_mono) (use v' hush.state_trans in blast)+
  qed auto
qed (simp add: wp hush.state_refl)

text \<open>The microphone leaves the speaker and the handle alone.\<close>

definition speaker_kept :: "('w, 'f, 'x, 'r) voice \<Rightarrow> ('w, 'f, 'x, 'r) voice \<Rightarrow> bool" where
  "speaker_kept v v' \<longleftrightarrow> v_handle v' = v_handle v \<and> v_playback v' = v_playback v"

interpretation aside: state_preorder speaker_kept "\<lambda>_. True"
  by unfold_locales (auto simp: speaker_kept_def)

lemma aside_see: "evolves (\<lambda>_. True) speaker_kept (see f)"
  by (simp add: evolves_def wp aside.state_refl)

lemma aside_change: "(\<And>v. speaker_kept v (f v)) \<Longrightarrow> evolves (\<lambda>_. True) speaker_kept (change f)"
  by (simp add: evolves_def wp)

lemma aside_announce: "evolves (\<lambda>_. True) speaker_kept (announce e)"
  by (simp add: evolves_def wp speaker_kept_def)

lemma aside_send: "evolves (\<lambda>_. True) speaker_kept (attempt (outside m))"
  by (auto simp: evolves_def outcome_def attempt_def outside_def speaker_kept_def split: prod.split sum.split)

lemmas aside_rules = aside.ev_bind aside.ev_option aside.ev_if aside.ev_prod aside.ev_ok aside.ev_sum aside_see aside_announce aside_send

lemma aside_send_frame: "evolves (\<lambda>_. True) speaker_kept (send_frame au xs sl)"
  unfolding send_frame_def send_speech_def report_quality_def drain_references_def Let_def
  by (rule aside_rules aside_change | simp add: speaker_kept_def)+

lemma aside_send_frames: "evolves (\<lambda>_. True) speaker_kept (send_frames au frames sl)"
  by (induction frames arbitrary: sl) (auto intro!: aside_rules aside_send_frame)

lemma hush_capture: "evolves (\<lambda>_. True) (silenced F) (capture_chunk au xs)"
proof (rule evolvesI)
  fix v :: "('a, 'b, 'c, 'd) voice"
  have "evolves (\<lambda>_. True) speaker_kept (capture_chunk au xs)"
    unfolding capture_chunk_def Let_def
    by (rule aside_rules aside_send_frames aside_change | simp add: speaker_kept_def)+
  from evolves_snd [OF this, of v] have kept: "v_handle (snd (capture_chunk au xs v)) = v_handle v \<and>
      v_playback (snd (capture_chunk au xs v)) = v_playback v" by (simp add: speaker_kept_def)
  have "v_world (snd (capture_chunk au xs v)) = v_world v" if "v_handle v = Some h" "vh_muted_flag h" for h
  proof -
    have "outcome (capture_chunk au xs) (\<lambda>_. silenced F v) (\<lambda>_ _. False) v"
      unfolding capture_chunk_def outcome_io_bind [of "see _"] outcome_see
      by (auto simp: Let_def hush.state_refl outcome_ok outcome_io_bind [of "send_frames _ _ _"] outcome_change
          split: option.split intro!: outcome_mono [OF muted_frames [OF that, where F = F]]) (simp add: silenced_def)
    then show ?thesis using that by (auto simp: outcome_def silenced_def split: prod.splits sum.splits)
  qed
  with kept have "silenced F v (snd (capture_chunk au xs v))" by (simp add: silenced_def)
  then show "outcome (capture_chunk au xs) (\<lambda>_. silenced F v) (\<lambda>e s'. True \<and> silenced F v s') v"
    by (auto simp: outcome_def split: prod.splits sum.splits)
qed

lemma media_hushed:
  assumes "is_media op"
  shows "evolves (\<lambda>_. True) (silenced (au_floats au)) (call_step au i op)"
  using assms
  by (cases op) (auto intro!: hush_capture hush_receive hush_change simp: silenced_def dest: in_set_dropD)

lemma media_run_hushed:
  assumes "\<forall>op \<in> set ops. is_media op"
  shows "silenced (au_floats au) v (run_calls au i ops v)"
  by (rule run_calls_induct) (use assms in \<open>auto intro: hush.state_trans evolves_snd [OF media_hushed] hush.state_refl\<close>)

text \<open>
  C39. While a client in a call is muted nothing it captures reaches the network, and while it is
  deafened every new frame for the speaker is silence, whatever chunks, packets and ticks come.
\<close>

theorem muted_and_deafened:
  assumes "v_handle v \<noteq> None" and "\<forall>op \<in> set ops. is_media op"
  shows "(muted \<longrightarrow> v_world (run_calls au i (Mute muted # Deafen deafened # ops) v) = v_world v) \<and>
    (deafened \<longrightarrow> (\<forall>f \<in> set (v_playback (run_calls au i (Mute muted # Deafen deafened # ops) v)).
       f \<in> set (v_playback v) \<or> f = silence (au_floats au) (length f)))"
proof -
  obtain h where "v_handle v = Some h" using assms(1) by auto
  then show ?thesis
    using media_run_hushed [OF assms(2), of au "snd (set_deafen deafened (snd (set_mute (Some i) muted v)))" i]
    by (simp add: run_calls_def set_mute_def set_deafen_def silenced_def io_bind_def change_def announce_def)
qed

definition in_sample_call :: "(nat, int, nat, nat) voice" where
  "in_sample_call = run_calls sample_audio sample_user [JoinVoice (Some [1]) True ''lobby''] before_calls"

lemma sample_babbling:
  "v_handle in_sample_call \<noteq> None" "v_world in_sample_call = 0" "v_playback in_sample_call = []"
  "v_playback (run_calls sample_audio sample_user [Network [7, 42], TakePacket, Elapse 200 200, PlaybackTick] in_sample_call) = [[1]]"
proof -
  have "(\<lambda>v. ((v_handle v = None, v_world v, v_playback v),
      v_playback (run_calls sample_audio sample_user [Network [7, 42], TakePacket, Elapse 200 200, PlaybackTick] v))) in_sample_call = ((False, 0, []), [[1]])"
    by code_simp
  then show "v_handle in_sample_call \<noteq> None" "v_world in_sample_call = 0" "v_playback in_sample_call = []"
    "v_playback (run_calls sample_audio sample_user [Network [7, 42], TakePacket, Elapse 200 200, PlaybackTick] in_sample_call) = [[1]]"
    by simp_all
qed

theorem muted_and_deafened_witness:
  "v_playback (run_calls sample_audio sample_user [Network [7, 42], TakePacket, Elapse 200 200, PlaybackTick] in_sample_call) = [[1]] \<and>
   list_all (\<lambda>f. f = silence (au_floats sample_audio) (length f)) (v_playback (run_calls sample_audio sample_user
      [Mute True, Deafen True, Microphone (replicate 960 5), Network [7, 42], TakePacket, Elapse 200 200, PlaybackTick] in_sample_call)) \<and>
   v_world (run_calls sample_audio sample_user
      [Mute True, Deafen True, Microphone (replicate 960 5), Network [7, 42], TakePacket, Elapse 200 200, PlaybackTick] in_sample_call) = 0"
  using muted_and_deafened [of in_sample_call "[Microphone (replicate 960 5), Network [7, 42], TakePacket, Elapse 200 200, PlaybackTick]" True sample_audio sample_user True]
  by (simp add: sample_babbling list_all_iff)

section \<open>Errors of devices\<close>

text \<open>Both devices are open and report errors to a channel.\<close>

definition reports_to :: "nat \<Rightarrow> ('w, 'f, 'x, 'r) voice \<Rightarrow> bool" where
  "reports_to n v = (case v_handle v of None \<Rightarrow> False
     | Some h \<Rightarrow> map_option snd (en_capture (vh_engine h)) = Some n \<and> map_option snd (en_playback (vh_engine h)) = Some n)"

text \<open>The monitor listens to the channel after the one the devices report to.\<close>

definition unheard :: "('w, 'f, 'x, 'r) voice \<Rightarrow> bool" where
  "unheard v \<longleftrightarrow> (\<exists>n. reports_to n v \<and> v_monitor v = Some (n + 1))"

lemma opened_capture:
  assumes "v_handle v = Some h" and "\<And>v' h'. v_handle v' = Some h' \<Longrightarrow>
    map_option snd (en_capture (vh_engine h')) = Some (en_device_error_tx (vh_engine h)) \<Longrightarrow>
    en_device_error_tx (vh_engine h') = en_device_error_tx (vh_engine h) \<Longrightarrow> en_device_error_rx (vh_engine h') = en_device_error_rx (vh_engine h) \<Longrightarrow>
    Q () v'"
  shows "outcome (on_engine what (engine_start_capture dv)) Q (\<lambda>_ _. True) v"
  using assms(1)
  by (auto simp: on_engine_def engine_start_capture_def edit_engine_def wp
      intro!: outcome_mono [OF outcome_any [of "\<lambda>_ _. True" "\<lambda>_ _. True"]] assms(2))

lemma opened_playback:
  assumes "v_handle v = Some h" and "\<And>v' h'. v_handle v' = Some h' \<Longrightarrow>
    en_capture (vh_engine h') = en_capture (vh_engine h) \<Longrightarrow> map_option snd (en_playback (vh_engine h')) = Some (en_device_error_tx (vh_engine h)) \<Longrightarrow>
    en_device_error_tx (vh_engine h') = en_device_error_tx (vh_engine h) \<Longrightarrow> en_device_error_rx (vh_engine h') = en_device_error_rx (vh_engine h) \<Longrightarrow>
    Q () v'"
  shows "outcome (on_engine what (engine_start_playback dv)) Q (\<lambda>_ _. True) v"
  using assms(1)
  by (auto simp: on_engine_def engine_start_playback_def edit_engine_def wp
      intro!: outcome_mono [OF outcome_any [of "\<lambda>_ _. True" "\<lambda>_ _. True"]] assms(2))

lemma connected:
  assumes "\<And>t v'. v_handle v' = v_handle v \<Longrightarrow> Q t v'"
  shows "outcome (connect_transport au blob there pk ch) Q (\<lambda>_ _. True) v"
  using assms
  by (auto simp: connect_transport_def Let_def wp split: option.split bool.split
      intro!: outcome_mono [OF outcome_any [of "\<lambda>_ _. True" "\<lambda>_ _. True"]])

lemma spawned:
  assumes "v_handle v = Some h" and "\<And>v' h'. v_handle v' = Some h' \<Longrightarrow>
    en_capture (vh_engine h') = en_capture (vh_engine h) \<Longrightarrow> en_playback (vh_engine h') = en_playback (vh_engine h) \<Longrightarrow>
    en_device_error_tx (vh_engine h') = en_device_error_tx (vh_engine h) \<Longrightarrow> en_device_error_rx (vh_engine h') = en_device_error_rx (vh_engine h) \<Longrightarrow>
    Q () v'"
  shows "outcome (spawn_loops au transport pk) Q (\<lambda>_ _. True) v"
  using assms
  by (simp add: spawn_loops_def take_capture_rx_def take_playback_tx_def edit_engine_def wp Let_def)

text \<open>The devices open with the channel the engine has, and the monitor gets the next one.\<close>

lemma restarted:
  assumes "v_handle v = Some h"
  shows "outcome (restart_voice_loops au (Some i) cached there)
    (\<lambda>_. unheard) (\<lambda>_ _. True) v"
  unfolding restart_voice_loops_def option.case outcome_io_bind outcome_see assms
  by (rule opened_capture [OF assms], erule opened_playback, rule connected, rule spawned, simp)
    (auto simp: spawn_fresh_monitor_def refresh_device_error_channels_def edit_engine_def reports_to_def unheard_def wp)

lemma ended_loops:
  "outcome end_send_loop (\<lambda>_ v'. v_handle v' = v_handle v) (\<lambda>_ _. False) v"
  "outcome end_receive_loop (\<lambda>_ v'. v_handle v' = v_handle v) (\<lambda>_ _. False) v"
  by (auto simp: end_send_loop_def end_receive_loop_def wp outcome_def [of "for_each _ _"] all_left split: option.split)

lemma restarted_after_shutdown:
  fixes v :: "('w, 'f, 'x, 'r) voice"
  assumes "v_handle v = Some h" and "\<And>v. v_handle (g v) = v_handle v"
    and "\<And>v'. unheard v' \<Longrightarrow>
      outcome rest (\<lambda>_. unheard) (\<lambda>_ _. True) v'"
  shows "outcome (io_bind end_send_loop (\<lambda>_. io_bind end_receive_loop (\<lambda>_. io_bind (change g) (\<lambda>_. io_bind (edit_engine f) (\<lambda>_.
      io_bind (restart_voice_loops au (Some i) cached there) (\<lambda>_. rest))))))
    (\<lambda>_. unheard) (\<lambda>_ _. True) v"
  unfolding outcome_io_bind
proof (rule outcome_mono [OF ended_loops(1)], rule outcome_mono [OF ended_loops(2)])
  fix v' v'' :: "('w, 'f, 'x, 'r) voice"
  assume "v_handle v' = v_handle v" "v_handle v'' = v_handle v'"
  then have "v_handle (snd (edit_engine f (g v''))) = Some (h\<lparr>vh_engine := f (vh_engine h)\<rparr>)"
    using assms(1,2) by (simp add: edit_engine_def change_def)
  then have handle: "v_handle (g v''\<lparr>v_handle := map_option (\<lambda>h. h\<lparr>vh_engine := f (vh_engine h)\<rparr>) (v_handle (g v''))\<rparr>) =
      Some (h\<lparr>vh_engine := f (vh_engine h)\<rparr>)"
    by (simp add: edit_engine_def change_def)
  show "outcome (change g) (\<lambda>_. outcome (edit_engine f) (\<lambda>_. outcome (restart_voice_loops au (Some i) cached there)
      (\<lambda>_. outcome rest (\<lambda>_. unheard) (\<lambda>_ _. True)) (\<lambda>_ _. True)) (\<lambda>_ _. True)) (\<lambda>_ _. True) v''"
    unfolding edit_engine_def outcome_change by (rule outcome_mono [OF restarted [OF handle] assms(3)]) simp_all
qed auto

lemma changed_devices:
  fixes v :: "('w, 'f, 'x, 'r) voice"
  assumes "v_handle v = Some h"
  shows "outcome (handle_device_swap au (Some i) cached there kind reason) (\<lambda>_. unheard) (\<lambda>_ _. True) v"
    and "outcome (set_audio_devices au (Some i) cached there input output) (\<lambda>_. unheard) (\<lambda>_ _. True) v"
proof -
  have said: "outcome (io_bind (announce a) (\<lambda>_. announce b)) (\<lambda>_. unheard) (\<lambda>_ _. True) v'"
    if "unheard v'" for a b and v' :: "('w, 'f, 'x, 'r) voice"
    using that by (auto simp: wp reports_to_def unheard_def)
  show "outcome (handle_device_swap au (Some i) cached there kind reason) (\<lambda>_. unheard) (\<lambda>_ _. True) v"
    using restarted_after_shutdown [OF assms _ said, where g = "\<lambda>v. v\<lparr>v_packets := None\<rparr>"] assms
    by (simp add: handle_device_swap_def shutdown_send_recv_only_def io_bind_assoc outcome_io_bind [of "see _"] outcome_see)
  have same: "outcome (set_audio_devices au (Some i) cached there input output) (\<lambda>_. unheard) (\<lambda>_ _. True) v
    \<longleftrightarrow> outcome (io_bind (get_preferences au) (\<lambda>prefs. io_bind (change (\<lambda>v. v\<lparr>v_preferences := Some (prefs\<lparr>pre_input_device := input,
        pre_output_device := output\<rparr>)\<rparr>)) (\<lambda>_. outside (au_save_store au))))
      (\<lambda>_. outcome (io_bind (see v_handle) (\<lambda>handle. if handle = None then ok () else
        io_bind shutdown_voice_loops_keep_engine (\<lambda>_. io_bind (edit_engine (\<lambda>en. set_devices input output (engine_stop_playback (engine_stop_capture en)))) (\<lambda>_.
        restart_voice_loops au (Some i) cached there)))) (\<lambda>_. unheard) (\<lambda>_ _. True)) (\<lambda>_ _. True) v"
    by (simp add: set_audio_devices_def outcome_io_bind)
  have unit: "io_bind m ok = m" for m :: "('w, 'f, 'x, 'r, unit) call"
    by (auto simp: io_bind_def ok_def fun_eq_iff split: prod.split sum.split)
  have stored: "outcome (io_bind (get_preferences au) (\<lambda>prefs. io_bind (change (\<lambda>v. v\<lparr>v_preferences := Some (prefs\<lparr>pre_input_device := input,
        pre_output_device := output\<rparr>)\<rparr>)) (\<lambda>_. outside (au_save_store au)))) (\<lambda>_ v'. v_handle v' = Some h) (\<lambda>_ _. True) v"
    using assms by (auto simp: get_preferences_def wp intro!: outcome_any outcome_mono [OF outcome_any [of "\<lambda>_ _. True" "\<lambda>_ _. True"]])
  have restart: "outcome (io_bind (see v_handle) (\<lambda>handle. if handle = None then ok () else
        io_bind shutdown_voice_loops_keep_engine (\<lambda>_. io_bind (edit_engine f) (\<lambda>_.
        restart_voice_loops au (Some i) cached there)))) (\<lambda>_. unheard) (\<lambda>_ _. True) v'"
    if "v_handle v' = Some h" for v' f
    using restarted_after_shutdown [OF that, of "\<lambda>v. v\<lparr>v_monitor := None, v_packets := None\<rparr>" "ok ()" f au i cached there] that
    by (simp add: shutdown_voice_loops_keep_engine_def io_bind_assoc outcome_io_bind [of "see _"] outcome_see outcome_ok unit del: outcome_io_bind)
  show "outcome (set_audio_devices au (Some i) cached there input output) (\<lambda>_. unheard) (\<lambda>_ _. True) v"
    unfolding same by (rule outcome_mono [OF stored restart]) simp_all
qed

lemma new_engine_errors:
  "new_engine op config = Inr en \<Longrightarrow> en_device_error_tx en = 0 \<and> en_device_error_rx en = Some 0"
  by (auto simp: new_engine_def try_then_def split: sum.splits)

lemma joined:
  "outcome (join_voice_channel au (Some i) blob there ch) (\<lambda>_ v'. reports_to 0 v' \<and> v_monitor v' = Some 0) (\<lambda>_ _. True) v"
proof (cases "v_handle v")
  case (Some h)
  then show ?thesis by (simp add: join_voice_channel_def wp)
next
  case None
  have monitored: "outcome (io_bind spawn_first_monitor (\<lambda>_. io_bind (announce a) (\<lambda>_. io_bind (announce b) (\<lambda>_. announce c))))
      (\<lambda>_ v'. reports_to 0 v' \<and> v_monitor v' = Some 0) (\<lambda>_ _. True) v'"
    if "v_handle v' = Some h" "map_option snd (en_capture (vh_engine h)) = Some 0" "map_option snd (en_playback (vh_engine h)) = Some 0"
      "en_device_error_rx (vh_engine h) = Some 0" for a b c v' h
    using that by (simp add: spawn_first_monitor_def take_device_error_rx_def edit_engine_def reports_to_def wp)
  have opened: "outcome (io_bind (on_engine what (engine_start_capture dv)) (\<lambda>_. io_bind (on_engine what' (engine_start_playback dv)) (\<lambda>_.
      io_bind (connect_transport au blob there pk ch) (\<lambda>transport. io_bind (spawn_loops au transport pk) (\<lambda>_.
      io_bind spawn_first_monitor (\<lambda>_. io_bind (announce a) (\<lambda>_. io_bind (announce b) (\<lambda>_. announce c))))))))
      (\<lambda>_ v'. reports_to 0 v' \<and> v_monitor v' = Some 0) (\<lambda>_ _. True) v'"
    if "v_handle v' = Some \<lparr>vh_engine = en, vh_channel_id = ch, vh_muted_flag = False, vh_deafened_flag = False\<rparr>"
      "new_engine op config = Inr en" for a b c what what' dv v' en op config pk
    unfolding outcome_io_bind [of "on_engine _ _"] outcome_io_bind [of "connect_transport _ _ _ _ _"] outcome_io_bind [of "spawn_loops _ _ _"]
    by (rule opened_capture [OF that(1)], erule opened_playback, rule connected, rule spawned, erule trans, assumption, rule monitored, assumption)
      (use new_engine_errors [OF that(2)] in auto)
  show ?thesis
    using None
    unfolding join_voice_channel_def outcome_io_bind [of "see _"] outcome_see
    by (auto simp: outcome_io_bind [of "attempt _"] outcome_io_bind [of "map_error _ _"] outcome_io_bind [of "change _"] outcome_change
        outcome_map_error outcome_from_result Let_def split: sum.split
        intro!: outcome_mono [OF outcome_any [of "\<lambda>_ _. True" "\<lambda>_ _. True" "attempt _"]] opened)
qed

text \<open>
  C40. After a successful join the monitor listens to the channel to which the devices report. After a
  successful change of devices, by command or because one was lost, it listens to another one,
  and an error of the devices that are open now does nothing.
\<close>

theorem device_errors_after_a_change:
  assumes "join_voice_channel au (Some i) blob there ch v = (Inr (), v1)"
    and "v_handle v2 \<noteq> None"
    and "m = set_audio_devices au (Some i) cached there input output \<or> m = handle_device_swap au (Some i) cached there kind reason"
    and "m v2 = (Inr (), v3)"
  shows "(\<exists>n. reports_to n v1 \<and> v_monitor v1 = Some n) \<and>
    (\<exists>n k. reports_to n v3 \<and> v_monitor v3 = Some k \<and> k \<noteq> n \<and>
      (\<forall>identity routes node msg. device_error au identity routes node n msg v3 = (Inr (), v3)))"
proof -
  have "reports_to 0 v1 \<and> v_monitor v1 = Some 0"
    using joined [of au i blob there ch v] assms(1) by (simp add: outcome_def)
  moreover obtain h where "v_handle v2 = Some h" using assms(2) by auto
  then have "unheard v3"
    using changed_devices(1) [of v2 h au i cached there kind reason] changed_devices(2) [of v2 h au i cached there input "output"]
      assms(3,4) by (auto simp: outcome_def)
  then obtain n where "reports_to n v3" "v_monitor v3 = Some (n + 1)" by (auto simp: unheard_def)
  moreover from this have "device_error au identity routes node n msg v3 = (Inr (), v3)" for identity routes node msg
    by (simp add: device_error_def io_bind_def see_def ok_def)
  moreover have "n + 1 \<noteq> n" by simp
  ultimately show ?thesis by blast
qed

definition with_headset :: "(nat, int, nat, nat) voice" where
  "with_headset = snd (set_audio_devices sample_audio (Some sample_user) (\<lambda>_. None) True (Some ''headset'') None in_sample_call)"

lemma sample_change:
  "join_voice_channel sample_audio (Some sample_user) (Some [1]) True ''lobby'' before_calls = (Inr (), in_sample_call)"
  "set_audio_devices sample_audio (Some sample_user) (\<lambda>_. None) True (Some ''headset'') None in_sample_call = (Inr (), with_headset)"
proof -
  have "fst (join_voice_channel sample_audio (Some sample_user) (Some [1]) True ''lobby'' before_calls) = Inr ()" by code_simp
  then show "join_voice_channel sample_audio (Some sample_user) (Some [1]) True ''lobby'' before_calls = (Inr (), in_sample_call)"
    by (simp add: in_sample_call_def run_calls_def prod_eq_iff)
  have "fst (set_audio_devices sample_audio (Some sample_user) (\<lambda>_. None) True (Some ''headset'') None in_sample_call) = Inr ()" by code_simp
  then show "set_audio_devices sample_audio (Some sample_user) (\<lambda>_. None) True (Some ''headset'') None in_sample_call = (Inr (), with_headset)"
    by (simp add: with_headset_def prod_eq_iff)
qed

theorem device_errors_after_a_change_witness:
  "(\<exists>n. reports_to n in_sample_call \<and> v_monitor in_sample_call = Some n) \<and>
   (\<exists>n k. reports_to n with_headset \<and> v_monitor with_headset = Some k \<and> k \<noteq> n \<and>
     (\<forall>identity routes node msg. device_error sample_audio identity routes node n msg with_headset = (Inr (), with_headset)))"
  by (rule device_errors_after_a_change [OF sample_change(1) sample_babbling(1) disjI1 [OF refl] sample_change(2)])

section \<open>What a user sees\<close>

text \<open>Only leaving and logout end a call.\<close>

definition held :: "('w, 'f, 'x, 'r) voice \<Rightarrow> ('w, 'f, 'x, 'r) voice \<Rightarrow> bool" where
  "held v v' \<longleftrightarrow> (v_handle v \<noteq> None \<longrightarrow> v_handle v' \<noteq> None)"

interpretation hold: state_preorder held "\<lambda>_. True"
  by unfold_locales (auto simp: held_def)

lemma held_change: "(\<And>v. held v (f v)) \<Longrightarrow> evolves (\<lambda>_. True) held (change f)"
  by (simp add: evolves_def wp)

lemma held_see: "evolves (\<lambda>_. True) held (see f)"
  by (simp add: evolves_def wp hold.state_refl)

lemma held_announce: "evolves (\<lambda>_. True) held (announce e)"
  by (simp add: evolves_def wp held_def)

lemma held_beside: "evolves (\<lambda>_. True) loops_kept m \<Longrightarrow> evolves (\<lambda>_. True) held m"
  by (rule evolvesI, erule evolves_outcome) (auto simp: loops_kept_def held_def)

lemma held_hushed: "evolves (\<lambda>_. True) (silenced F) m \<Longrightarrow> evolves (\<lambda>_. True) held m"
  by (rule evolvesI, erule evolves_outcome) (auto simp: silenced_def held_def)

lemma held_attempt: "evolves (\<lambda>_. True) held m \<Longrightarrow> evolves (\<lambda>_. True) held (attempt m)"
  by (rule evolvesI, unfold wp, erule evolves_outcome) auto

lemma held_throw: "evolves (\<lambda>_. True) held (throw e)"
  by (simp add: evolves_def wp hold.state_refl)

lemmas held_rules = held_beside [OF beside_on_engine] held_beside [OF beside_connect] held_beside [OF beside_get_preferences]
  held_beside [OF beside_edit_engine] held_beside [OF beside_outside] held_beside [OF beside_map_error [OF beside_from_result]]
  held_see held_announce held_throw held_attempt hold.ev_bind hold.ev_option hold.ev_if hold.ev_prod hold.ev_ok hold.ev_for_each

lemma held_spawn: "evolves (\<lambda>_. True) held (spawn_loops au transport pk)"
  "evolves (\<lambda>_. True) held spawn_first_monitor" "evolves (\<lambda>_. True) held spawn_fresh_monitor"
  unfolding spawn_loops_def spawn_first_monitor_def spawn_fresh_monitor_def Let_def
  by (rule held_rules held_change | simp add: held_def)+

lemma held_restart: "evolves (\<lambda>_. True) held (restart_voice_loops au identity cached there)"
  unfolding restart_voice_loops_def by (rule held_spawn held_rules)+

lemma held_shutdown:
  "evolves (\<lambda>_. True) held shutdown_send_recv_only" "evolves (\<lambda>_. True) held shutdown_voice_loops_keep_engine"
  unfolding shutdown_send_recv_only_def shutdown_voice_loops_keep_engine_def end_send_loop_def end_receive_loop_def announce_left_def
  by (rule held_rules held_change | simp add: held_def)+

lemma held_swap: "evolves (\<lambda>_. True) held (swap_and_end au identity cached there kind)"
  unfolding swap_and_end_def handle_device_swap_def
  by (rule held_shutdown held_restart held_rules held_change | simp add: held_def)+

lemma call_held:
  assumes "op \<noteq> LeaveVoice" and "op \<noteq> Logout"
  shows "evolves (\<lambda>_. True) held (call_step au i op)"
proof (cases "is_media op")
  case True
  then show ?thesis by (rule held_hushed [OF media_hushed])
next
  case False
  have join: "evolves (\<lambda>_. True) held (join_voice_channel au (Some i) blob there ch)" for blob there ch
    unfolding join_voice_channel_def Let_def by (rule held_spawn held_rules held_change | simp add: held_def)+
  have "evolves (\<lambda>_. True) held (set_audio_devices au (Some i) cached there input output)" for cached there input "output"
    unfolding set_audio_devices_def by (rule held_shutdown held_restart held_rules held_change | simp add: held_def)+
  moreover have "evolves (\<lambda>_. True) held (device_error au (Some i) cached there channel msg)" for cached there channel msg
    unfolding device_error_def by (rule held_swap held_rules)+
  moreover have "evolves (\<lambda>_. True) held (monitor_tick au (Some i) cached there)" for cached there
    unfolding monitor_tick_def Let_def by (rule held_swap held_rules held_change | simp add: held_def)+
  moreover have "evolves (\<lambda>_. True) held (set_mute (Some i) muted)" "evolves (\<lambda>_. True) held (set_deafen muted)" for muted
    unfolding set_mute_def set_deafen_def by (rule held_rules held_change | simp add: held_def)+
  ultimately show ?thesis using assms False join by (cases op) auto
qed

lemma listed_in_call:
  assumes "Logout \<notin> set ops" and "here \<longrightarrow> v_handle v \<noteq> None"
  shows "listed_by au i ops v here \<longrightarrow> v_handle (run_calls au i ops v) \<noteq> None"
  using assms
proof (induction ops arbitrary: v here)
  case (Cons op ops)
  have "listed_after au i op v here \<longrightarrow> v_handle (snd (call_step au i op v)) \<noteq> None"
  proof (cases "here \<and> op \<noteq> LeaveVoice")
    case True
    then show ?thesis
      using evolves_snd [OF call_held [of op au i], of v] Cons.prems by (auto simp: held_def)
  next
    case False
    have "v_handle v' \<noteq> None" if "join_voice_channel au (Some i) blob there ch v = (Inr (), v')" for blob there ch v'
      using joined [of au i blob there ch v] that by (auto simp: outcome_def reports_to_def split: option.splits)
    then show ?thesis using False by (cases op) (auto simp: prod_eq_iff)
  qed
  with Cons show ?case by (simp add: run_calls_simps)
qed (simp add: run_calls_simps)

text \<open>
  C38. Along any run of commands, logouts, chunks, packets, ticks and device errors of one user the events
  describe the call. The users shown are the participants of the receive loop, and the client itself
  exactly from a join that succeeds until it leaves; those shown speaking are the participants that
  speak and the client while its microphone does. Without a call no loop runs and nobody else is
  shown, and if there was no logout nobody at all: a logout during a call leaves the client listed.
\<close>

theorem web_view_matches_call:
  assumes "is_public_key i = hex_encode own" and "no_call v" and "v_events v = []" and "v' = run_calls au i ops v"
  shows "shown_present (v_events v') = keys_with (\<lambda>_. True) (talkers v') \<union> (if listed_by au i ops v False then {is_public_key i} else {}) \<and>
    is_public_key i \<notin> keys_with (\<lambda>_. True) (talkers v') \<and>
    shown_speaking (v_events v') = keys_with pd_is_speaking (talkers v') \<union> (if sending v' then {is_public_key i} else {}) \<and>
    (v_handle v' = None \<longrightarrow> no_call v' \<and> talkers v' = [] \<and> shown_speaking (v_events v') = {}) \<and>
    (v_handle v' = None \<and> Logout \<notin> set ops \<longrightarrow> shown_present (v_events v') = {})"
proof -
  have ok: "call_ok own (listed_by au i ops v False) v'"
    unfolding assms(4) by (rule calls_ok [OF assms(1) new_call_ok [OF assms(2,3)]])
  then have "hex_encode own \<notin> keys_with (\<lambda>_. True) (talkers v')" by (simp add: call_ok_def own_not_shown)
  moreover have "listed_by au i ops v False \<longrightarrow> v_handle v' \<noteq> None" if "Logout \<notin> set ops"
    unfolding assms(4) by (rule listed_in_call [OF that]) simp
  ultimately show ?thesis
    using ok by (auto simp: call_ok_def no_call_def assms(1) talkers_def sending_def)
qed

theorem web_view_matches_call_witness:
  "shown_present (v_events (run_calls sample_audio sample_user sample_talk before_calls)) = {''aa'', ''07''} \<and>
   shown_speaking (v_events (run_calls sample_audio sample_user sample_talk before_calls)) = {''07''}"
  using web_view_matches_call [OF trans [OF sample_start(1) sample_start(2) [symmetric]] sample_start(3,4) refl, of sample_audio sample_talk]
  by (simp add: sample_talkers sample_start(1) insert_commute)

end
