(* ===== verification/Spec2Isabelle.thy ===== *)
theory Spec2Isabelle
  imports Restart Logs Histories Playback Sessions Accounts Conversations Strangers RetryQueue
    PresenceRules Roster CommunityNotices Logins Calls
begin

text \<open>
  Rekindle is a peer-to-peer chat program over the Veilid network. Users talk to each other with
  Signal sessions, keep their profile, friend list, contacts and conversations in records of a
  distributed hash table, and meet in communities that one of them hosts with a server process.
  This development models, from the Rust sources:

  \<^item> the community server (\<open>src/crates/rekindle-server\<close>): its database, its state, the handler of
    every RPC request, hosting, start-up and the commands its parent process sends it;
  \<^item> the protocol library (\<open>src/crates/rekindle-protocol\<close>): permissions, signed envelopes, the
    records in the DHT, the Cap'n Proto codec;
  \<^item> of the cryptography (\<open>src/crates/rekindle-crypto\<close>) the Signal sessions and the encryption of
    records;
  \<^item> the voice library (\<open>src/crates/rekindle-voice\<close>) but the threads of its devices;
  \<^item> of the client (\<open>src/src-tauri/src\<close>) its database and shared state, the message service, the
    presence, sync and idle services, the handler of every event of Veilid, and the commands for
    friends, chats, communities, the own profile, voice calls and identities, with login and logout.

  \<^bold>\<open>How the parts interact.\<close> A member signs a request and sends it to the private route of the
  server. \<open>rpc.rs\<close> verifies the envelope, resolves the community, runs one handler, which checks
  membership, permissions and the role hierarchy, writes the database, changes the memory and
  broadcasts to the other members, and answers. \<open>community_host.rs\<close> fills the memory from the
  database at start, and publishes what members may read to the DHT record of the community. The
  records of a user (profile, friends, mailbox, channel history, account, conversations) are
  built on \<open>dht/mod.rs\<close>, \<open>dht/short_array.rs\<close> and \<open>dht/log.rs\<close>, which talk to Veilid. A client
  signs, encrypts and sends messages to the route of a friend, keeps those it could not send in
  a queue that the sync service works off, and handles those that arrive in one handler, which
  checks the envelope, the blocked users and the session and then acts on the payload; it learns
  of its friends by watching and polling their profile records. In a community it calls the
  server, repeats what the server agreed to in its own memory and database, and follows the
  others by the broadcasts of the server and the record of the community. A login opens the key
  store of an identity with its passphrase, brings friends, communities and keys back from the
  database and the store, and publishes the records of the user. In a voice call one loop cuts the
  samples of the microphone into frames, cleans, encodes and sends them while somebody speaks,
  another decodes and mixes what the others send, and a monitor reopens devices that fail.

  \<^bold>\<open>Theories and sources.\<close>

  \<^item> \<open>Prelude\<close>: integer types, byte strings, the list operations of the Rust collections, the sorts.
  \<^item> \<open>Permissions\<close> (\<open>dht/community.rs\<close>), \<open>Wire\<close> and \<open>Envelope\<close> (\<open>messaging/envelope.rs\<close>,
    \<open>sender.rs\<close>, \<open>receiver.rs\<close>), \<open>Protocol\<close>.
  \<^item> Server: \<open>ServerDb\<close> (\<open>db.rs\<close> and every statement the server executes), \<open>ServerState\<close>
    (\<open>server_state.rs\<close>, \<open>mek.rs\<close>), \<open>Guards\<close>, \<open>Membership\<close>, \<open>Channels\<close>, \<open>Roles\<close>, \<open>Dispatch\<close>
    (\<open>rpc.rs\<close>), \<open>Hosting\<close> (\<open>community_host.rs\<close>, \<open>ipc.rs\<close>, \<open>main.rs\<close>).
  \<^item> Its properties: \<open>Authority\<close> states the access-control specification \<open>community_step\<close>, which
    the dispatcher refines; \<open>Powers\<close>, \<open>Keys\<close>, \<open>Bans\<close>, \<open>Messaging\<close> read single guarantees off it;
    \<open>Wellformed\<close> has the state invariant; \<open>Tables\<close>, \<open>Rows\<close>, \<open>Mirror\<close>, \<open>Persistence\<close>, \<open>Lifecycle\<close>
    and \<open>Restart\<close> relate the memory to the rows of the database; \<open>Demo\<close> is a concrete community.
  \<^item> Records: \<open>Dht\<close> (what is used of Veilid, and its laws), \<open>MemDht\<close> (a network that satisfies
    them), \<open>ShortArray\<close>, \<open>DhtLog\<close>, \<open>DhtManager\<close>, \<open>DhtRecords\<close> (\<open>profile.rs\<close>, \<open>presence.rs\<close>,
    \<open>mailbox.rs\<close>, \<open>friends.rs\<close>, \<open>channel.rs\<close>), \<open>Account\<close>, \<open>Conversation\<close>, \<open>DhtCrypto\<close>; what
    they promise is in \<open>Arrays\<close>, \<open>Logs\<close>, \<open>Friends\<close>, \<open>Histories\<close>, \<open>Accounts\<close>, \<open>Conversations\<close>.
  \<^item> Codec: \<open>Capnp\<close>, \<open>Codec\<close>, \<open>AccountCodec\<close> (\<open>capnp_codec.rs\<close>), with \<open>Codecs\<close> and \<open>WireRecords\<close>
    for what survives; \<open>SampleCodecs\<close> has concrete serialisers for witnesses.
  \<^item> Client: \<open>ClientDb\<close> (\<open>migrations/001_init.sql\<close> and the statements of the services),
    \<open>ClientState\<close> (\<open>state.rs\<close>, the steps on the state and the events of \<open>channels/\<close>), \<open>Invites\<close>
    (\<open>envelope.rs\<close>), \<open>Outgoing\<close> and \<open>Incoming\<close> (\<open>services/message_service.rs\<close>), \<open>PresenceService\<close>
    (\<open>presence_service.rs\<close>), \<open>SyncService\<close> (\<open>sync_service.rs\<close>), \<open>FriendCommands\<close>
    (\<open>commands/friends.rs\<close>), \<open>ChatCommands\<close> (\<open>commands/chat.rs\<close>, \<open>status.rs\<close>, \<open>idle_service.rs\<close>).
    \<open>SqlTables\<close> holds the operations on tables both databases share.
  \<^item> Communities in the client: \<open>CommunityRpc\<close> (the calls of
    \<open>commands/community.rs\<close>, with \<open>ipc_client.rs\<close> and what is used of \<open>keystore.rs\<close>), \<open>CommunityJoin\<close>
    (\<open>services/community_service.rs\<close>), \<open>CommunityCommands\<close> (the commands), \<open>Broadcasts\<close> and
    \<open>NodeEvents\<close> (\<open>services/veilid_service.rs\<close>, the community part of \<open>presence_service.rs\<close> and
    \<open>sync_service.rs\<close>, \<open>routing.rs\<close>, the record of \<open>dht/community.rs\<close>).
  \<^item> Sessions of a user: \<open>Login\<close> (\<open>commands/auth.rs\<close>, \<open>keystore.rs\<close>, start, logout and end in
    \<open>veilid_service.rs\<close>, and what a login publishes).
  \<^item> Its properties: \<open>ClientRules\<close> says which parts of a client each step of an operation leaves
    alone, as locales of preorders on states; \<open>Strangers\<close>, \<open>RetryQueue\<close>, \<open>PresenceRules\<close>,
    \<open>Roster\<close> and \<open>Logins\<close> rest on their interpretations. \<open>ChannelDelivery\<close> and \<open>CommunityNotices\<close>
    follow a community from the server's handler to the client of another member. \<open>SampleClient\<close>
    follows a signed message from sender to handler and has concrete clients on a network with mail.
  \<^item> Sessions: \<open>Session\<close> (\<open>signal/\<close>), \<open>Sessions\<close>. Voice: \<open>Jitter\<close> (\<open>jitter.rs\<close>) with
    \<open>Playback\<close>, \<open>Voice\<close> (the rest of \<open>crates/rekindle-voice\<close>), \<open>VoiceCalls\<close>
    (\<open>commands/voice.rs\<close>, \<open>settings.rs\<close>, the end of a call by logout in \<open>auth.rs\<close>) with \<open>Calls\<close>:
    what the web view is told, silence, devices.

  \<^bold>\<open>State and operations.\<close> A Rust struct is a record, an enum a datatype, \<open>Result\<close> a sum with
  the error on the left. The server's operations thread one record: the database with a stream of
  faults, the hosted communities, the outbox of sent messages and the stream of random values.
  The operations on DHT records are functions on a network whose state is a type parameter, in
  the error and state monad of \<open>Dht\<close>; \<open>outcome\<close> is the weakest precondition of such a program,
  and the collection \<open>wp\<close> computes it.

  \<^bold>\<open>What is assumed.\<close> Code that is not in the repository is an argument of the definitions
  that use it, with named laws: \<open>dht_reliable\<close> (Veilid answers and keeps what was written; values stay
  within the size Veilid accepts, which it checks itself and no definition here does),
  \<open>capnp_lawful\<close> (packed Cap'n Proto reads back), \<open>crypto_ok\<close> and \<open>aead_ok\<close> (Diffie-Hellman
  agrees, decryption inverts encryption), \<open>json_roundtrip\<close> (serde reads back what it wrote),
  \<open>letters_ok\<close> (a signed envelope verifies and reads back), \<open>routes_ok\<close> (sending to a route leaves
  the records alone), \<open>stronghold_ok\<close> (a snapshot opens with its key and no other). Every
  theorem with such a hypothesis has an instance with concrete functions that satisfy it.

  \<^bold>\<open>Abstractions.\<close> A request is processed without another one in between: the awaits inside
  a handler are no points of interleaving, and a task a handler spawns runs right after it. A
  \<open>HashMap\<close> is an association list with distinct keys; where the code iterates over one, no
  theorem depends on the order. Rows of a table are kept in insertion order, and a query without an
  ORDER BY, or with ties in it, returns them so: SQLite leaves that order open. \<open>memory_is_mirrored\<close>
  speaks of the rows in this order; \<open>restart_restores\<close> holds for rows returned in any order, and the
  order of channels with the same position in a client is the model's. The faults of the database and of the key store, and the answers of Veilid to the
  server, are streams of which nothing is known, unless a theorem says so. An operation of the
  client reads the clock once; a task it spawns runs at once, but the clean-up of a removed friend
  after three seconds is an operation of its own. Pauses between attempts are left out, and
  whether the process of the server runs is an argument of the commands that start it. Error texts are kept where the code shows or
  compares them. Integers have the width
  of the source and wrap as release builds do. Lists sent over Cap'n Proto are shorter than 2 to
  the 29, the bound of a list pointer. Floating-point arithmetic, Opus, noise suppression and echo
  cancellation are parameters of the voice theories, of which no law is assumed.

  \<^bold>\<open>Bounds and fuel.\<close> \<open>read_history\<close> follows links that come from the network, so it is bounded
  by fuel; \<open>read_history_termination\<close> shows that one more than the length of the chain is enough,
  and that a looping chain of empty batches ends under no bound. Every other loop is structural.

  \<^bold>\<open>Not modelled.\<close> The threads and callbacks of the audio devices, identities and the keychain
  (thin wrappers of libraries), the start-up of Veilid, windows, the web view and process scanning
  have no logic of their own or none that can be stated without the library behind them. The loops
  of the services with their timers and shutdown channels are outside; one turn of each is a
  definition.
\<close>

end
